(* ===== verification/Prelude.thy ===== *)
theory Prelude
  imports Main "HOL-Library.AList" "HOL-Library.Char_ord"
begin

text \<open>
  Shared vocabulary of the development: the error values of the Go code, results of
  functions that may fail or panic, the fragments of the standard packages
  \<^verbatim>\<open>strings\<close>, \<^verbatim>\<open>slices\<close> and \<^verbatim>\<open>errors\<close> that the
  code calls, 64-bit signed arithmetic, and association lists as Go maps.
  A Go \<^verbatim>\<open>string\<close> is a sequence of bytes, as is HOL's \<^typ>\<open>string\<close>.
\<close>

named_theorems go_simps \<open>evaluation of results of fallible Go functions\<close>
named_theorems store_simps \<open>laws of the association lists that stand for Go maps\<close>

section \<open>Base types\<close>

text \<open>
  A \<^verbatim>\<open>uuid.UUID\<close> is an opaque identifier with a distinguished nil value. A
  \<^verbatim>\<open>time.Time\<close> is a number of nanoseconds since the Unix epoch; the zero time
  of Go is 1 January of year 1. A \<^verbatim>\<open>time.Duration\<close> is a number of nanoseconds.
\<close>

type_synonym uuid = nat
type_synonym time = int
type_synonym duration = int

definition uuid_Nil :: uuid where
  "uuid_Nil = 0"

definition time_zero :: time where
  "time_zero = - 62135596800000000000"

definition time_IsZero :: "time \<Rightarrow> bool" where
  "time_IsZero t = (t = time_zero)"

definition time_Unix :: "time \<Rightarrow> int" where
  "time_Unix t = t div 1000000000"

definition Second :: duration where "Second = 1000000000"
definition Minute :: duration where "Minute = 60 * Second"
definition Hour :: duration where "Hour = 60 * Minute"

lemmas duration_defs = Second_def Minute_def Hour_def

section \<open>Errors and results\<close>

text \<open>
  The named errors of \<^verbatim>\<open>utils/errors.go\<close> and of the packages that declare their
  own. An error made by \<^verbatim>\<open>fmt.Errorf\<close> with a \<open>%w\<close> verb wraps its cause.
\<close>

datatype sentinel =
    ErrHttpUnauthorized | ErrHttpNotFound | ErrHttpBadRequest | ErrHttpConflict
  | ErrHttpServiceUnavailable
  | ErrVirtualServerNotFound | ErrUserNotFound | ErrApplicationNotFound | ErrRoleNotFound
  | ErrGroupNotFound | ErrProjectNotFound | ErrSessionNotFound | ErrFileNotFoud
  | ErrTemplateNotFound | ErrCredentialNotFound | ErrUserApplicationMetadataNotFound
  | ErrPasswordRuleNotFound | ErrResourceServerNotFound | ErrResourceServerScopeNotFound
  | ErrRegistrationNotEnabled | ErrInvalidUuid
  | ErrVersionMismatch | ErrTokenNotFound | ErrKvNotFound | ErrDecodingToken
  | ErrWrongCredentialCast | ErrMissingVirtualServerNameInContext
  | ErrSignatureInvalid | ErrSignatureInvalidAlgorithm

datatype goerr =
    ErrorsNew string
  | Named sentinel
  | Wrap string goerr
  | Joined "goerr list"

text \<open>A call stops with an error value or with a panic.\<close>

datatype stop = Err goerr | Panic string

type_synonym 'a go = "stop + 'a"

definition go_bind :: "'a go \<Rightarrow> ('a \<Rightarrow> 'b go) \<Rightarrow> 'b go" where
  "go_bind m f = (case m of Inl e \<Rightarrow> Inl e | Inr x \<Rightarrow> f x)"

text \<open>The pattern \<^verbatim>\<open>if err != nil { return fmt.Errorf("msg: %w", err) }\<close>.\<close>

definition wrap :: "string \<Rightarrow> 'a go \<Rightarrow> 'a go" where
  "wrap msg m = (case m of Inl (Err e) \<Rightarrow> Inl (Err (Wrap msg e)) | _ \<Rightarrow> m)"

lemma go_bind_simps [simp, go_simps]:
  "go_bind (Inl e) f = Inl e"
  "go_bind (Inr x) f = f x"
  by (simp_all add: go_bind_def)

lemma go_bind_Inr_iff: "go_bind m f = Inr y \<longleftrightarrow> (\<exists>x. m = Inr x \<and> f x = Inr y)"
  by (cases m) auto

lemma go_bind_Inl_iff:
  "go_bind m f = Inl e \<longleftrightarrow> m = Inl e \<or> (\<exists>x. m = Inr x \<and> f x = Inl e)"
  by (cases m) auto

lemma go_bind_split:
  "P (go_bind m f) = ((\<forall>e. m = Inl e \<longrightarrow> P (Inl e)) \<and> (\<forall>x. m = Inr x \<longrightarrow> P (f x)))"
  by (cases m) auto

lemma go_bind_cong [fundef_cong]:
  "m = m' \<Longrightarrow> (\<And>x. m' = Inr x \<Longrightarrow> f x = g x) \<Longrightarrow> go_bind m f = go_bind m' g"
  by (cases m') auto

lemma wrap_simps [simp, go_simps]:
  "wrap msg (Inr x) = Inr x"
  "wrap msg (Inl (Err e)) = Inl (Err (Wrap msg e))"
  "wrap msg (Inl (Panic p)) = Inl (Panic p)"
  by (simp_all add: wrap_def)

lemma wrap_Inr_iff [simp, go_simps]: "wrap msg m = Inr x \<longleftrightarrow> m = Inr x"
  by (auto simp: wrap_def split: sum.splits stop.splits)

lemma wrap_Panic_iff [simp]: "wrap msg m = Inl (Panic p) \<longleftrightarrow> m = Inl (Panic p)"
  by (auto simp: wrap_def split: sum.splits stop.splits)

text \<open>A loop that appends the elements that pass a test, where the test may panic.\<close>

fun filter_go :: "('a \<Rightarrow> bool go) \<Rightarrow> 'a list \<Rightarrow> 'a list go" where
  "filter_go p [] = Inr []"
| "filter_go p (x # xs) =
     go_bind (p x) (\<lambda>b. go_bind (filter_go p xs) (\<lambda>ys. Inr (if b then x # ys else ys)))"

lemma filter_go_pure: "(\<And>x. x \<in> set xs \<Longrightarrow> p x = Inr (q x)) \<Longrightarrow> filter_go p xs = Inr (filter q xs)"
  by (induction xs) auto

lemma filter_go_sound:
  "filter_go p xs = Inr ys \<Longrightarrow> x \<in> set ys \<longleftrightarrow> x \<in> set xs \<and> p x = Inr True"
  by (induction xs arbitrary: ys) (auto simp: go_bind_Inr_iff split: if_splits)

text \<open>A loop that maps each element and returns at the first failure.\<close>

fun map_go :: "('a \<Rightarrow> 'b go) \<Rightarrow> 'a list \<Rightarrow> 'b list go" where
  "map_go f [] = Inr []"
| "map_go f (x # xs) = go_bind (f x) (\<lambda>y. go_bind (map_go f xs) (\<lambda>ys. Inr (y # ys)))"

lemma map_go_pure: "(\<And>x. x \<in> set xs \<Longrightarrow> f x = Inr (g x)) \<Longrightarrow> map_go f xs = Inr (map g xs)"
  by (induction xs) auto

lemma map_go_length: "map_go f xs = Inr ys \<Longrightarrow> length ys = length xs"
  by (induction xs arbitrary: ys) (auto simp: go_bind_Inr_iff)

end
