(* ===== verification/Go_Encoding.thy ===== *)
theory Go_Encoding
  imports Go_Strings
begin

text \<open>
  \<^verbatim>\<open>encoding/base64\<close> (the raw and padded URL and standard encodings) and the lower
  case hexadecimal printing of bytes (\<^verbatim>\<open>%x\<close>), with their round trips. Bytes are the
  characters of a string. The decoders skip carriage returns and line feeds and do not
  look at the trailing bits of the last character, as the decoders of Go do.
\<close>

section \<open>Groups of three bytes and four sextets\<close>

fun sextets :: "nat list \<Rightarrow> nat list" where
  "sextets [] = []"
| "sextets [a] = [a div 4, (a mod 4) * 16]"
| "sextets [a, b] = [a div 4, (a mod 4) * 16 + b div 16, (b mod 16) * 4]"
| "sextets (a # b # c # r) =
     a div 4 # ((a mod 4) * 16 + b div 16) # ((b mod 16) * 4 + c div 64) # c mod 64 # sextets r"

fun unsextets :: "nat list \<Rightarrow> nat list option" where
  "unsextets [] = Some []"
| "unsextets [w] = None"
| "unsextets [w, x] = Some [(w * 4 + x div 16) mod 256]"
| "unsextets [w, x, y] = Some [(w * 4 + x div 16) mod 256, ((x mod 16) * 16 + y div 4) mod 256]"
| "unsextets (w # x # y # z # r) =
     (case unsextets r of None \<Rightarrow> None
      | Some bs \<Rightarrow> Some ((w * 4 + x div 16) mod 256 # ((x mod 16) * 16 + y div 4) mod 256
                         # ((y mod 4) * 64 + z) mod 256 # bs))"

lemma pack_div: "y < k \<Longrightarrow> (x * k + y) div k = x" for x y k :: nat
  by simp

lemma pack_mod: "y < k \<Longrightarrow> (x * k + y) mod k = y" for x y k :: nat
  by simp

text \<open>The three bytes of a group come back from its sextets.\<close>

lemma first_byte: "b < 256 \<Longrightarrow> a div 4 * 4 + (a mod 4 * 16 + b div 16) div 16 = a" for a b :: nat
  by (subst pack_div) auto

lemma second_byte:
  "b < 256 \<Longrightarrow> c < 256 \<Longrightarrow>
     (a mod 4 * 16 + b div 16) mod 16 * 16 + (b mod 16 * 4 + c div 64) div 4 = b" for a b c :: nat
  by (subst pack_div, simp, subst pack_mod) auto

lemma third_byte: "c < 256 \<Longrightarrow> (b mod 16 * 4 + c div 64) mod 4 * 64 + c mod 64 = c" for b c :: nat
  by (subst pack_mod) auto

lemma sextet_bounds:
  fixes a b c :: nat
  assumes "a < 256" "b < 256" "c < 256"
  shows "a div 4 < 64" "a mod 4 * 16 + b div 16 < 64" "b mod 16 * 4 + c div 64 < 64" "c mod 64 < 64"
proof -
  have "a mod 4 \<le> 3" "b div 16 \<le> 15" "b mod 16 \<le> 15" "c div 64 \<le> 3" using assms by auto
  then show "a mod 4 * 16 + b div 16 < 64" "b mod 16 * 4 + c div 64 < 64" by linarith+
qed (use assms in auto)

lemma unsextets_sextets: "(\<And>x. x \<in> set bs \<Longrightarrow> x < 256) \<Longrightarrow> unsextets (sextets bs) = Some bs"
proof (induction bs rule: sextets.induct)
  case (2 a)
  then show ?case by simp
next
  case (3 a b)
  then have "a < 256" "b < 256" by simp_all
  then show ?case using first_byte [of b a] second_byte [of b 0 a] by simp
next
  case (4 a b c r)
  then have "a < 256" "b < 256" "c < 256" by simp_all
  moreover have "unsextets (sextets r) = Some r" using 4 by simp
  ultimately show ?case
    using first_byte [of b a] second_byte [of b c a] third_byte [of c b] by simp
qed simp

lemma sextets_range: "(\<And>x. x \<in> set bs \<Longrightarrow> x < 256) \<Longrightarrow> s \<in> set (sextets bs) \<Longrightarrow> s < 64"
proof (induction bs rule: sextets.induct)
  case (2 a)
  then have "a < 256" by simp
  from sextet_bounds [OF this, of 0 0] 2(2) show ?case by auto
next
  case (3 a b)
  then have "a < 256" "b < 256" by simp_all
  from sextet_bounds [OF this, of 0] 3(2) show ?case by auto
next
  case (4 a b c r)
  then have "a < 256" "b < 256" "c < 256" by simp_all
  from sextet_bounds [OF this]
  have "a div 4 < 64" "a mod 4 * 16 + b div 16 < 64" "b mod 16 * 4 + c div 64 < 64" "c mod 64 < 64" .
  moreover have "s \<in> set (sextets r) \<Longrightarrow> s < 64" using 4(1,2) by simp
  ultimately show ?case using 4(3) by (simp only: sextets.simps list.set insert_iff) blast
qed simp

lemma length_sextets: "length (sextets bs) = (length bs * 4 + 2) div 3"
proof (induction bs rule: sextets.induct)
  case (4 a b c r)
  have "(length r * 4 + 2 + 4 * 3) div 3 = 4 + (length r * 4 + 2) div 3"
    by (rule div_mult_self1) simp
  with 4 show ?case by (simp add: algebra_simps)
qed simp_all

section \<open>The alphabets\<close>

text \<open>The flag selects the URL alphabet, which ends in a minus sign and an underscore.\<close>

definition b64_char :: "bool \<Rightarrow> nat \<Rightarrow> char" where
  "b64_char url v =
     (if v < 26 then char_of (v + 65) else if v < 52 then char_of (v + 71)
      else if v < 62 then char_of (v - 4)
      else if v = 62 then (if url then CHR ''-'' else CHR ''+'')
      else (if url then CHR ''_'' else CHR ''/''))"

definition b64_val :: "bool \<Rightarrow> char \<Rightarrow> nat option" where
  "b64_val url c = (let n = (of_char c :: nat) in
     if 65 \<le> n \<and> n \<le> 90 then Some (n - 65)
     else if 97 \<le> n \<and> n \<le> 122 then Some (n - 71)
     else if 48 \<le> n \<and> n \<le> 57 then Some (n + 4)
     else if c = (if url then CHR ''-'' else CHR ''+'') then Some 62
     else if c = (if url then CHR ''_'' else CHR ''/'') then Some 63
     else None)"

lemma b64_val_char:
  assumes "v < 64"
  shows "b64_val url (b64_char url v) = Some v"
proof -
  consider "v < 26" | "26 \<le> v" "v < 52" | "52 \<le> v" "v < 62" | "v = 62" | "v = 63"
    using assms by linarith
  then show ?thesis
  proof cases
    case 1
    then show ?thesis by (simp add: b64_val_def b64_char_def Let_def)
  next
    case 2
    then show ?thesis by (simp add: b64_val_def b64_char_def Let_def)
  next
    case 3
    then have "48 \<le> v - 4" "v - 4 \<le> 57" by linarith+
    with 3 show ?thesis by (simp add: b64_val_def b64_char_def Let_def)
  next
    case 4
    then show ?thesis by (simp add: b64_val_def b64_char_def Let_def)
  next
    case 5
    then show ?thesis by (simp add: b64_val_def b64_char_def Let_def)
  qed
qed

definition b64_skip :: "char \<Rightarrow> bool" where
  "b64_skip c = (c = CHR 0x0D \<or> c = CHR 0x0A)"

lemma b64_val_skip: "b64_skip c \<Longrightarrow> b64_val url c = None"
  unfolding b64_skip_def b64_val_def Let_def by (elim disjE) simp_all

lemma b64_char_safe:
  assumes "v < 64"
  shows "\<not> b64_skip (b64_char url v)" and "b64_char url v \<noteq> CHR ''=''"
    and "b64_char url v \<noteq> CHR '':''"
proof -
  have "b64_val url (b64_char url v) \<noteq> None" using b64_val_char [OF assms] by simp
  then show "\<not> b64_skip (b64_char url v)" by (metis b64_val_skip)
  have "b64_val url (CHR ''='') = None" "b64_val url (CHR '':'') = None"
    by (simp_all add: b64_val_def)
  then show "b64_char url v \<noteq> CHR ''=''" "b64_char url v \<noteq> CHR '':''"
    by (metis \<open>b64_val url (b64_char url v) \<noteq> None\<close>)+
qed

section \<open>Encoding and decoding\<close>

definition b64_body :: "bool \<Rightarrow> string \<Rightarrow> string" where
  "b64_body url s = map (b64_char url) (sextets (map of_char s))"

definition RawURLEncoding_EncodeToString :: "string \<Rightarrow> string" where
  "RawURLEncoding_EncodeToString s = b64_body True s"

text \<open>The padded encodings fill the last group of four with equal signs.\<close>

definition b64_pad :: "string \<Rightarrow> string" where
  "b64_pad s = replicate ((3 - length s mod 3) mod 3) CHR ''=''"

definition URLEncoding_EncodeToString :: "string \<Rightarrow> string" where
  "URLEncoding_EncodeToString s = b64_body True s @ b64_pad s"

definition StdEncoding_EncodeToString :: "string \<Rightarrow> string" where
  "StdEncoding_EncodeToString s = b64_body False s @ b64_pad s"

definition b64_values :: "bool \<Rightarrow> string \<Rightarrow> nat list option" where
  "b64_values url s =
     (if list_all (\<lambda>c. b64_val url c \<noteq> None) s then Some (map (the \<circ> b64_val url) s) else None)"

definition b64_decode_body :: "bool \<Rightarrow> string \<Rightarrow> string go" where
  "b64_decode_body url s =
     (case b64_values url s of None \<Rightarrow> Inl (Err (ErrorsNew ''illegal base64 data''))
      | Some vs \<Rightarrow> (case unsextets vs of None \<Rightarrow> Inl (Err (ErrorsNew ''illegal base64 data''))
                    | Some bs \<Rightarrow> Inr (map char_of bs)))"

definition RawURLEncoding_DecodeString :: "string \<Rightarrow> string go" where
  "RawURLEncoding_DecodeString s = b64_decode_body True (filter (\<lambda>c. \<not> b64_skip c) s)"

definition StdEncoding_DecodeString :: "string \<Rightarrow> string go" where
  "StdEncoding_DecodeString s =
     (let t = filter (\<lambda>c. \<not> b64_skip c) s in
      if length t mod 4 \<noteq> 0 then Inl (Err (ErrorsNew ''illegal base64 data''))
      else b64_decode_body False
             (if HasSuffix t ''=='' then take (length t - 2) t
              else if HasSuffix t ''='' then take (length t - 1) t else t))"

lemma b64_values_body: "(\<And>v. v \<in> set vs \<Longrightarrow> v < 64) \<Longrightarrow> b64_values url (map (b64_char url) vs) = Some vs"
  by (auto simp: b64_values_def list_all_iff b64_val_char intro: map_idI)

lemma char_code_bound: "x \<in> set (map of_char s) \<Longrightarrow> x < (256 :: nat)"
  by auto

lemma b64_decode_body: "b64_decode_body url (b64_body url s) = Inr s"
proof -
  have "b64_values url (b64_body url s) = Some (sextets (map of_char s))"
    unfolding b64_body_def by (rule b64_values_body) (blast intro: sextets_range char_code_bound)
  moreover have "unsextets (sextets (map of_char s)) = Some (map of_char s)"
    by (rule unsextets_sextets) (rule char_code_bound)
  ultimately show ?thesis by (simp add: b64_decode_body_def comp_def)
qed

lemma b64_body_safe:
  assumes "c \<in> set (b64_body url s)"
  shows "\<not> b64_skip c" "c \<noteq> CHR ''=''" "c \<noteq> CHR '':''"
proof -
  from assms obtain v where "v \<in> set (sextets (map of_char s))" "c = b64_char url v"
    by (auto simp: b64_body_def)
  moreover then have "v < 64" by (blast intro: sextets_range char_code_bound)
  ultimately show "\<not> b64_skip c" "c \<noteq> CHR ''=''" "c \<noteq> CHR '':''"
    by (simp_all add: b64_char_safe)
qed

lemma b64_body_no_skip: "filter (\<lambda>c. \<not> b64_skip c) (b64_body url s) = b64_body url s"
  by (simp add: b64_body_safe)

lemma RawURLEncoding_roundtrip [simp, go_simps]:
  "RawURLEncoding_DecodeString (RawURLEncoding_EncodeToString s) = Inr s"
  by (simp add: RawURLEncoding_DecodeString_def RawURLEncoding_EncodeToString_def
      b64_body_no_skip b64_decode_body)

lemma RawURLEncoding_no_colon [simp]: "CHR '':'' \<notin> set (RawURLEncoding_EncodeToString s)"
  using b64_body_safe(3) by (auto simp: RawURLEncoding_EncodeToString_def)

lemma length_RawURLEncoding [simp]:
  "length (RawURLEncoding_EncodeToString s) = (length s * 4 + 2) div 3"
  by (simp add: RawURLEncoding_EncodeToString_def b64_body_def length_sextets)

section \<open>Hexadecimal\<close>

definition hex_digit :: "nat \<Rightarrow> char" where
  "hex_digit n = (if n < 10 then char_of (n + 48) else char_of (n + 87))"

definition hex_encode :: "string \<Rightarrow> string" where
  "hex_encode s = concat (map (\<lambda>c. [hex_digit (of_char c div 16), hex_digit (of_char c mod 16)]) s)"

lemma length_hex_encode [simp]: "length (hex_encode s) = 2 * length s"
  by (induction s) (simp_all add: hex_encode_def)

lemma hex_digit_not_eq:
  assumes "n < 16"
  shows "hex_digit n \<noteq> CHR ''=''"
proof
  assume "hex_digit n = CHR ''=''"
  then have "of_char (hex_digit n) = (61 :: nat)" by simp
  with assms show False by (auto simp: hex_digit_def split: if_splits)
qed

lemma char_code_less [simp]: "of_char c < (256 :: nat)"
  by (metis of_char_mod_256 mod_less_divisor zero_less_numeral)

lemma hex_encode_no_eq [simp]: "CHR ''='' \<notin> set (hex_encode s)"
proof -
  have "of_char c div 16 < (16::nat)" "of_char c mod 16 < (16::nat)" for c :: char
    using char_code_less [of c] by linarith+
  then have "CHR ''='' \<noteq> hex_digit (of_char c div 16)" "CHR ''='' \<noteq> hex_digit (of_char c mod 16)" for c
    by (metis hex_digit_not_eq)+
  then show ?thesis by (simp add: hex_encode_def)
qed

end
