(* ===== verification/Utils.thy ===== *)
theory Utils
  imports Sha256
begin

text \<open>
  The package \<^verbatim>\<open>utils\<close>: error classes and their HTTP status
  (\<^verbatim>\<open>errors.go\<close>), hashes of secrets (\<^verbatim>\<open>hashing.go\<close>), split tokens
  (\<^verbatim>\<open>splittoken.go\<close>), JSON merge patches (\<^verbatim>\<open>json.go\<close>), pointers and
  slices (\<^verbatim>\<open>pointer.go\<close>, \<^verbatim>\<open>slices.go\<close>, \<^verbatim>\<open>strings.go\<close>).
\<close>

section \<open>errors.go\<close>

text \<open>What a named error wraps, and its own text.\<close>

fun sentinel_unwrap :: "sentinel \<Rightarrow> sentinel option" where
  "sentinel_unwrap ErrVirtualServerNotFound = Some ErrHttpNotFound"
| "sentinel_unwrap ErrUserNotFound = Some ErrHttpNotFound"
| "sentinel_unwrap ErrApplicationNotFound = Some ErrHttpNotFound"
| "sentinel_unwrap ErrRoleNotFound = Some ErrHttpNotFound"
| "sentinel_unwrap ErrGroupNotFound = Some ErrHttpNotFound"
| "sentinel_unwrap ErrProjectNotFound = Some ErrHttpNotFound"
| "sentinel_unwrap ErrSessionNotFound = Some ErrHttpNotFound"
| "sentinel_unwrap ErrFileNotFoud = Some ErrHttpNotFound"
| "sentinel_unwrap ErrTemplateNotFound = Some ErrHttpNotFound"
| "sentinel_unwrap ErrCredentialNotFound = Some ErrHttpNotFound"
| "sentinel_unwrap ErrUserApplicationMetadataNotFound = Some ErrHttpNotFound"
| "sentinel_unwrap ErrPasswordRuleNotFound = Some ErrHttpNotFound"
| "sentinel_unwrap ErrResourceServerNotFound = Some ErrHttpNotFound"
| "sentinel_unwrap ErrResourceServerScopeNotFound = Some ErrHttpNotFound"
| "sentinel_unwrap ErrRegistrationNotEnabled = Some ErrHttpBadRequest"
| "sentinel_unwrap ErrInvalidUuid = Some ErrHttpBadRequest"
| "sentinel_unwrap ErrVersionMismatch = Some ErrHttpConflict"
| "sentinel_unwrap ErrTokenNotFound = Some ErrHttpNotFound"
| "sentinel_unwrap ErrSignatureInvalid = Some ErrHttpUnauthorized"
| "sentinel_unwrap _ = None"

text \<open>\<^verbatim>\<open>errors.Is\<close>: the error or one it wraps is the target.\<close>

definition sentinel_is :: "sentinel \<Rightarrow> sentinel \<Rightarrow> bool" where
  "sentinel_is s t = (s = t \<or> sentinel_unwrap s = Some t)"

fun errors_Is :: "goerr \<Rightarrow> sentinel \<Rightarrow> bool" where
  "errors_Is (ErrorsNew _) t = False"
| "errors_Is (Named s) t = sentinel_is s t"
| "errors_Is (Wrap _ e) t = errors_Is e t"
| "errors_Is (Joined es) t = list_ex (\<lambda>e. errors_Is e t) es"

text \<open>The status that \<^verbatim>\<open>HandleHttpError\<close> writes.\<close>

definition http_status_of :: "goerr \<Rightarrow> int" where
  "http_status_of e =
     (if errors_Is e ErrHttpBadRequest then 400
      else if errors_Is e ErrHttpUnauthorized then 401
      else if errors_Is e ErrHttpNotFound then 404
      else if errors_Is e ErrHttpConflict then 409
      else if errors_Is e ErrHttpServiceUnavailable then 503
      else 500)"

lemma http_status_Wrap [simp]: "http_status_of (Wrap msg e) = http_status_of e"
  by (simp add: http_status_of_def)

section \<open>pointer.go, slices.go, strings.go\<close>

definition MapPtr :: "'a option \<Rightarrow> ('a \<Rightarrow> 'b) \<Rightarrow> 'b option" where
  "MapPtr v f = (case v of None \<Rightarrow> None | Some x \<Rightarrow> Some (f x))"

definition NilIfZero :: "'a \<Rightarrow> 'a \<Rightarrow> 'a option" where
  "NilIfZero zero v = (if v = zero then None else Some v)"

definition ZeroIfNil :: "'a \<Rightarrow> 'a option \<Rightarrow> 'a" where
  "ZeroIfNil zero v = (case v of None \<Rightarrow> zero | Some x \<Rightarrow> x)"

definition MapSlice :: "'a list option \<Rightarrow> ('a \<Rightarrow> 'b) \<Rightarrow> 'b list option" where
  "MapSlice input f = (case input of None \<Rightarrow> None | Some xs \<Rightarrow> Some (map f xs))"

definition EmptyIfNil :: "'a list option \<Rightarrow> 'a list" where
  "EmptyIfNil input = (case input of None \<Rightarrow> [] | Some xs \<Rightarrow> xs)"

lemma ZeroIfNil_simps [simp, go_simps]: "ZeroIfNil z (Some x) = x" "ZeroIfNil z None = z"
  by (simp_all add: ZeroIfNil_def)

lemma ZeroIfNil_NilIfZero: "ZeroIfNil z (NilIfZero z v) = v"
  by (simp add: NilIfZero_def)

section \<open>hashing.go\<close>

definition CheapHash :: "string \<Rightarrow> string" where
  "CheapHash input = hex_encode (sha256_Sum256 input)"

text \<open>\<^verbatim>\<open>subtle.ConstantTimeCompare\<close> is 1 exactly on equal byte strings.\<close>

definition CheapCompareHash :: "string \<Rightarrow> string \<Rightarrow> bool" where
  "CheapCompareHash input hash =
     (TrimRight (CheapHash input) CHR ''='' = TrimRight hash CHR ''='')"

lemma length_CheapHash [simp]: "length (CheapHash s) = 64"
  by (simp add: CheapHash_def)

lemma CheapHash_no_eq [simp]: "CHR ''='' \<notin> set (CheapHash s)"
  by (simp add: CheapHash_def)

lemma CheapHash_not_Nil [simp]: "CheapHash s \<noteq> []" "[] \<noteq> CheapHash s"
  using length_CheapHash [of s] by (metis list.size(3) zero_neq_numeral)+

lemma CheapCompareHash_iff:
  "CheapCompareHash input hash \<longleftrightarrow> CheapHash input = TrimRight hash CHR ''=''"
  by (simp add: CheapCompareHash_def TrimRight_id)

lemma CheapCompareHash_hash [simp]:
  "CheapCompareHash input (CheapHash other) \<longleftrightarrow> CheapHash input = CheapHash other"
  by (simp add: CheapCompareHash_iff TrimRight_id)

section \<open>splittoken.go\<close>

record split_token =
  st_id :: string
  st_secret :: string

definition NewSplitToken :: "string \<Rightarrow> string \<Rightarrow> split_token" where
  "NewSplitToken i s = \<lparr>st_id = i, st_secret = s\<rparr>"

definition SplitToken_Encode :: "split_token \<Rightarrow> string" where
  "SplitToken_Encode t = RawURLEncoding_EncodeToString (st_id t @ '':'' @ st_secret t)"

definition DecodeSplitToken :: "string \<Rightarrow> split_token go" where
  "DecodeSplitToken base64Token =
     go_bind (wrap ''base64 decoding token'' (RawURLEncoding_DecodeString base64Token))
       (\<lambda>decodedString.
          let tokenParts = Split decodedString CHR '':'' in
          if length tokenParts \<noteq> 2
          then Inl (Err (Wrap ''token has not exactly two parts'' (Named ErrDecodingToken)))
          else
            let token = NewSplitToken (tokenParts ! 0) (tokenParts ! 1) in
            if st_id token = [] then Inl (Err (Wrap ''missing id'' (Named ErrDecodingToken)))
            else if st_secret token = [] then Inl (Err (Wrap ''missing secret'' (Named ErrDecodingToken)))
            else Inr token)"

lemma DecodeSplitToken_Encode:
  assumes "CHR '':'' \<notin> set (st_id t)" "CHR '':'' \<notin> set (st_secret t)" "st_id t \<noteq> []" "st_secret t \<noteq> []"
  shows "DecodeSplitToken (SplitToken_Encode t) = Inr t"
  using assms
  by (simp add: DecodeSplitToken_def SplitToken_Encode_def Split_append_sep Split_no_sep
      NewSplitToken_def)

text \<open>Whatever decodes has two nonempty parts without a colon.\<close>

lemma DecodeSplitToken_parts:
  assumes "DecodeSplitToken s = Inr t"
  shows "st_id t \<noteq> [] \<and> st_secret t \<noteq> [] \<and> CHR '':'' \<notin> set (st_id t) \<and> CHR '':'' \<notin> set (st_secret t)"
proof -
  from assms obtain d where l: "length (Split d CHR '':'') = 2"
    and t: "t = NewSplitToken (Split d CHR '':'' ! 0) (Split d CHR '':'' ! 1)"
    and n: "st_id t \<noteq> []" "st_secret t \<noteq> []"
    by (auto simp: DecodeSplitToken_def go_bind_Inr_iff Let_def split: if_splits)
  have "CHR '':'' \<notin> set (Split d CHR '':'' ! i)" if "i < 2" for i
    by (rule Split_pieces [OF nth_mem]) (use l that in simp)
  from this [of 0] this [of 1] t n show ?thesis by (simp add: NewSplitToken_def)
qed

section \<open>json.go\<close>

text \<open>
  A decoded JSON document (\<^verbatim>\<open>any\<close> after \<^verbatim>\<open>json.Unmarshal\<close>); an object is
  its list of members. \<open>JTime\<close> is the text of a time in the format of RFC 3339.
\<close>

datatype json =
    JNull | JBool bool | JNum int | JStr string | JTime time
  | JArr "json list" | JObj "(string \<times> json) list"

type_synonym json_obj = "(string \<times> json) list"

text \<open>
  A string or byte slice that may hold the text of a JSON document: either the text that
  \<^verbatim>\<open>json.Marshal\<close> makes of a document, kept as the document, or plain characters
  that are no JSON document (an identifier, a token).
\<close>

datatype jtext = Plain string | Doc json

definition json_Marshal :: "json \<Rightarrow> jtext go" where
  "json_Marshal j = Inr (Doc j)"

definition json_Unmarshal :: "jtext \<Rightarrow> json go" where
  "json_Unmarshal t = (case t of Doc j \<Rightarrow> Inr j | Plain _ \<Rightarrow> Inl (Err (ErrorsNew ''invalid character'')))"

lemma json_text_simps [simp, go_simps]:
  "json_Marshal j = Inr (Doc j)" "json_Unmarshal (Doc j) = Inr j"
  by (simp_all add: json_Marshal_def json_Unmarshal_def)

text \<open>The loop of \<^verbatim>\<open>JsonMergePatch\<close> over the members of the patch.\<close>

function JsonMergePatch :: "json_obj \<Rightarrow> json_obj \<Rightarrow> json_obj" where
  "JsonMergePatch base [] = base"
| "JsonMergePatch base ((k, v) # patch) =
     JsonMergePatch
       (case v of
          JNull \<Rightarrow> AList.delete k base
        | JObj pv \<Rightarrow>
            (case map_of base k of
               Some (JObj bv) \<Rightarrow> AList.update k (JObj (JsonMergePatch bv pv)) base
             | _ \<Rightarrow> AList.update k v base)
        | _ \<Rightarrow> AList.update k v base)
       patch"
  by pat_completeness auto
termination
  by (relation "measure (\<lambda>(base, patch). size_list (size_prod (\<lambda>_. 0) size) patch)") auto

text \<open>What one member of the patch does to the value under its key.\<close>

definition patch_value :: "json option \<Rightarrow> json \<Rightarrow> json option" where
  "patch_value old v =
     (case v of
        JNull \<Rightarrow> None
      | JObj pv \<Rightarrow> (case old of Some (JObj bv) \<Rightarrow> Some (JObj (JsonMergePatch bv pv)) | _ \<Rightarrow> Some v)
      | _ \<Rightarrow> Some v)"

lemma JsonMergePatch_Cons:
  "map_of (JsonMergePatch base ((k, v) # patch)) =
   map_of (JsonMergePatch
     (case patch_value (map_of base k) v of None \<Rightarrow> AList.delete k base | Some w \<Rightarrow> AList.update k w base)
     patch)"
  by (cases v; cases "map_of base k")
    (auto simp: patch_value_def split: json.splits)

lemma map_of_JsonMergePatch:
  "distinct (map fst patch) \<Longrightarrow>
     map_of (JsonMergePatch base patch) k =
       (case map_of patch k of None \<Rightarrow> map_of base k | Some v \<Rightarrow> patch_value (map_of base k) v)"
proof (induction patch arbitrary: base)
  case (Cons m patch)
  obtain k' v where m: "m = (k', v)" by (cases m)
  have "k' \<notin> fst ` set patch" using Cons.prems m by auto
  then have "map_of patch k' = None" by (simp add: map_of_eq_None_iff)
  then show ?case
    using Cons m unfolding m JsonMergePatch_Cons
    by (auto simp: delete_conv' update_conv' split: option.splits)
qed simp

end
