(* ===== verification/Entities.thy ===== *)
theory Entities
  imports Utils
begin

text \<open>
  The entities of \<^verbatim>\<open>internal/repositories\<close>: their base model, the set of tracked
  changes (\<^verbatim>\<open>internal/change/list.go\<close>), constructors and setters. A field of pointer
  type is an option. The constructors take the identifier that \<^verbatim>\<open>uuid.New\<close> returns
  and the current time.
\<close>

section \<open>Tracked changes (change/list.go)\<close>

text \<open>The keys of the map, without duplicates.\<close>

definition NewChanges :: "'c list" where
  "NewChanges = []"

definition TrackChange :: "'c \<Rightarrow> 'c list \<Rightarrow> 'c list" where
  "TrackChange key b = (if key \<in> set b then b else b @ [key])"

definition GetChanges :: "'c list \<Rightarrow> 'c list" where
  "GetChanges b = b"

definition ClearChanges :: "'c list \<Rightarrow> 'c list" where
  "ClearChanges b = NewChanges"

definition HasChanges :: "'c list \<Rightarrow> bool" where
  "HasChanges b = (length b > 0)"

lemma set_TrackChange [simp]: "set (TrackChange k b) = insert k (set b)"
  by (auto simp: TrackChange_def)

lemma distinct_TrackChange: "distinct b \<Longrightarrow> distinct (TrackChange k b)"
  by (auto simp: TrackChange_def)

lemma TrackChange_idem [simp]: "TrackChange k (TrackChange k b) = TrackChange k b"
  by (simp add: TrackChange_def)

lemma HasChanges_TrackChange [simp]: "HasChanges (TrackChange k b)"
  by (auto simp: HasChanges_def TrackChange_def)

section \<open>The base model (base.go)\<close>

text \<open>
  The version is nil, an \<^verbatim>\<open>int\<close> (the memory database), a \<^verbatim>\<open>uint\<close> (what a query to PostgreSQL
  reads), or a \<^verbatim>\<open>uint32\<close> (what a write to PostgreSQL sets).
\<close>

datatype version = VersionNil | VersionInt int | VersionUint nat | VersionUint32 nat

record base_model =
  bm_id :: uuid
  bm_auditCreatedAt :: time
  bm_auditUpdatedAt :: time
  bm_version :: version

definition NewBaseModel :: "uuid \<Rightarrow> time \<Rightarrow> base_model" where
  "NewBaseModel i now =
     \<lparr>bm_id = i, bm_auditCreatedAt = now, bm_auditUpdatedAt = now, bm_version = VersionNil\<rparr>"

definition NewBaseModelFromDB :: "uuid \<Rightarrow> time \<Rightarrow> time \<Rightarrow> version \<Rightarrow> base_model" where
  "NewBaseModelFromDB i created updated v =
     \<lparr>bm_id = i, bm_auditCreatedAt = created, bm_auditUpdatedAt = updated, bm_version = v\<rparr>"

definition SetVersion :: "version \<Rightarrow> base_model \<Rightarrow> base_model" where
  "SetVersion v b = b\<lparr>bm_version := v\<rparr>"

lemma bm_id_simps [simp]:
  "bm_id (NewBaseModel i now) = i" "bm_id (NewBaseModelFromDB i c u v) = i" "bm_id (SetVersion v b) = bm_id b"
  by (simp_all add: NewBaseModel_def NewBaseModelFromDB_def SetVersion_def)

section \<open>Enumerations\<close>

text \<open>String constants of the code; any other string is the last constructor.\<close>

type_synonym signing_algorithm = string

definition SigningAlgorithmRS256 :: signing_algorithm where
  "SigningAlgorithmRS256 = ''RS256''"

definition SigningAlgorithmEdDSA :: signing_algorithm where
  "SigningAlgorithmEdDSA = ''EdDSA''"

definition SupportedSigningAlgorithms :: "signing_algorithm list" where
  "SupportedSigningAlgorithms = [SigningAlgorithmEdDSA, SigningAlgorithmRS256]"

datatype application_type = ApplicationTypePublic | ApplicationTypeConfidential | OtherApplicationType string

datatype credential_type =
    CredentialTypePassword | CredentialTypeTotp | CredentialTypeServiceUserKey | CredentialTypeWebauthn
  | OtherCredentialType string

datatype password_rule_type =
    PasswordRuleTypeMinLength | PasswordRuleTypeMaxLength | PasswordRuleTypeLowerCase
  | PasswordRuleTypeUpperCase | PasswordRuleTypeDigits | PasswordRuleTypeSpecial
  | OtherPasswordRuleType string

text \<open>The details of a credential, one constructor per struct of \<^verbatim>\<open>credentials.go\<close>.\<close>

datatype credential_details =
    CredentialPasswordDetails string bool \<comment> \<open>hashed password, temporary\<close>
  | CredentialTotpDetails string int int \<comment> \<open>secret, digits, algorithm\<close>
  | CredentialServiceUserKey string string \<comment> \<open>key id, public key\<close>
  | CredentialWebauthnDetails string int string \<comment> \<open>credential id, algorithm, public key\<close>
  | NoDetails

record ura_user_info =
  uui_Username :: string
  uui_DisplayName :: string

record ura_role_info =
  uri_ProjectSlug :: string
  uri_Name :: string

section \<open>Entities\<close>

subsection \<open>VirtualServer (\<^verbatim>\<open>virtualservers.go\<close>)\<close>

datatype virtual_server_change =
    VirtualServerChangeDisplayName
  | VirtualServerChangeEnableRegistration
  | VirtualServerChangeRequire2fa
  | VirtualServerChangeRequireEmailVerification
  | VirtualServerChangePrimarySigningAlgorithm
  | VirtualServerChangeAdditionalSigningAlgorithms

record virtual_server =
  vs_base :: base_model
  vs_changes :: "virtual_server_change list"
  vs_name :: string
  vs_displayName :: string
  vs_enableRegistration :: bool
  vs_require2fa :: bool
  vs_requireEmailVerification :: bool
  vs_primarySigningAlgorithm :: signing_algorithm
  vs_additionalSigningAlgorithms :: "signing_algorithm list"

definition NewVirtualServer :: "uuid \<Rightarrow> time \<Rightarrow> string \<Rightarrow> string \<Rightarrow> virtual_server" where
  "NewVirtualServer i now v_name v_displayName =
     \<lparr>vs_base = NewBaseModel i now,
      vs_changes = NewChanges,
      vs_name = v_name,
      vs_displayName = v_displayName,
      vs_enableRegistration = False,
      vs_require2fa = False,
      vs_requireEmailVerification = False,
      vs_primarySigningAlgorithm = '''',
      vs_additionalSigningAlgorithms = []\<rparr>"

definition NewVirtualServerFromDB :: "base_model \<Rightarrow> string \<Rightarrow> string \<Rightarrow> bool \<Rightarrow> bool \<Rightarrow> bool \<Rightarrow> signing_algorithm \<Rightarrow> (signing_algorithm list) \<Rightarrow> virtual_server" where
  "NewVirtualServerFromDB base v_name v_displayName v_enableRegistration v_require2fa v_requireEmailVerification v_primarySigningAlgorithm v_additionalSigningAlgorithms =
     \<lparr>vs_base = base,
      vs_changes = NewChanges,
      vs_name = v_name,
      vs_displayName = v_displayName,
      vs_enableRegistration = v_enableRegistration,
      vs_require2fa = v_require2fa,
      vs_requireEmailVerification = v_requireEmailVerification,
      vs_primarySigningAlgorithm = v_primarySigningAlgorithm,
      vs_additionalSigningAlgorithms = v_additionalSigningAlgorithms\<rparr>"

definition VirtualServer_SetDisplayName :: "string \<Rightarrow> virtual_server \<Rightarrow> virtual_server" where
  "VirtualServer_SetDisplayName v m =
     (if vs_displayName m = v then m
      else m\<lparr>vs_displayName := v, vs_changes := TrackChange VirtualServerChangeDisplayName (vs_changes m)\<rparr>)"

definition VirtualServer_SetEnableRegistration :: "bool \<Rightarrow> virtual_server \<Rightarrow> virtual_server" where
  "VirtualServer_SetEnableRegistration v m =
     (if vs_enableRegistration m = v then m
      else m\<lparr>vs_enableRegistration := v, vs_changes := TrackChange VirtualServerChangeEnableRegistration (vs_changes m)\<rparr>)"

definition VirtualServer_SetRequire2fa :: "bool \<Rightarrow> virtual_server \<Rightarrow> virtual_server" where
  "VirtualServer_SetRequire2fa v m =
     (if vs_require2fa m = v then m
      else m\<lparr>vs_require2fa := v, vs_changes := TrackChange VirtualServerChangeRequire2fa (vs_changes m)\<rparr>)"

definition VirtualServer_SetRequireEmailVerification :: "bool \<Rightarrow> virtual_server \<Rightarrow> virtual_server" where
  "VirtualServer_SetRequireEmailVerification v m =
     (if vs_requireEmailVerification m = v then m
      else m\<lparr>vs_requireEmailVerification := v, vs_changes := TrackChange VirtualServerChangeRequireEmailVerification (vs_changes m)\<rparr>)"

definition VirtualServer_SetPrimarySigningAlgorithm :: "signing_algorithm \<Rightarrow> virtual_server \<Rightarrow> virtual_server" where
  "VirtualServer_SetPrimarySigningAlgorithm v m =
     (if vs_primarySigningAlgorithm m = v then m
      else m\<lparr>vs_primarySigningAlgorithm := v, vs_changes := TrackChange VirtualServerChangePrimarySigningAlgorithm (vs_changes m)\<rparr>)"

definition VirtualServer_SetAdditionalSigningAlgorithms :: "(signing_algorithm list) \<Rightarrow> virtual_server \<Rightarrow> virtual_server" where
  "VirtualServer_SetAdditionalSigningAlgorithms v m =
     m\<lparr>vs_additionalSigningAlgorithms := v, vs_changes := TrackChange VirtualServerChangeAdditionalSigningAlgorithms (vs_changes m)\<rparr>"

subsection \<open>Application (\<^verbatim>\<open>applications.go\<close>)\<close>

datatype application_change =
    ApplicationChangeHashedSecret
  | ApplicationChangeClaimsMappingScript
  | ApplicationChangeAccessTokenHeaderType
  | ApplicationChangeDisplayName
  | ApplicationChangeRedirectUris
  | ApplicationChangePostLogoutRedirectUris
  | ApplicationChangeSystemApplication
  | ApplicationChangeDeviceFlowEnabled
  | ApplicationChangeSigningAlgorithm

record application =
  app_base :: base_model
  app_changes :: "application_change list"
  app_virtualServerId :: uuid
  app_projectId :: uuid
  app_name :: string
  app_displayName :: string
  app_type :: application_type
  app_hashedSecret :: string
  app_redirectUris :: "string list"
  app_postLogoutRedirectUris :: "string list"
  app_systemApplication :: bool
  app_claimsMappingScript :: "string option"
  app_accessTokenHeaderType :: string
  app_deviceFlowEnabled :: bool
  app_signingAlgorithm :: "signing_algorithm option"

definition NewApplication :: "uuid \<Rightarrow> time \<Rightarrow> uuid \<Rightarrow> uuid \<Rightarrow> string \<Rightarrow> string \<Rightarrow> application_type \<Rightarrow> (string list) \<Rightarrow> application" where
  "NewApplication i now v_virtualServerId v_projectId v_name v_displayName v_type v_redirectUris =
     \<lparr>app_base = NewBaseModel i now,
      app_changes = NewChanges,
      app_virtualServerId = v_virtualServerId,
      app_projectId = v_projectId,
      app_name = v_name,
      app_displayName = v_displayName,
      app_type = v_type,
      app_hashedSecret = '''',
      app_redirectUris = v_redirectUris,
      app_postLogoutRedirectUris = [],
      app_systemApplication = False,
      app_claimsMappingScript = None,
      app_accessTokenHeaderType = ''at+jwt'',
      app_deviceFlowEnabled = False,
      app_signingAlgorithm = None\<rparr>"

definition NewApplicationFromDB :: "base_model \<Rightarrow> uuid \<Rightarrow> uuid \<Rightarrow> string \<Rightarrow> string \<Rightarrow> application_type \<Rightarrow> string \<Rightarrow> (string list) \<Rightarrow> (string list) \<Rightarrow> bool \<Rightarrow> (string option) \<Rightarrow> string \<Rightarrow> bool \<Rightarrow> (signing_algorithm option) \<Rightarrow> application" where
  "NewApplicationFromDB base v_virtualServerId v_projectId v_name v_displayName v_type v_hashedSecret v_redirectUris v_postLogoutRedirectUris v_systemApplication v_claimsMappingScript v_accessTokenHeaderType v_deviceFlowEnabled v_signingAlgorithm =
     \<lparr>app_base = base,
      app_changes = NewChanges,
      app_virtualServerId = v_virtualServerId,
      app_projectId = v_projectId,
      app_name = v_name,
      app_displayName = v_displayName,
      app_type = v_type,
      app_hashedSecret = v_hashedSecret,
      app_redirectUris = v_redirectUris,
      app_postLogoutRedirectUris = v_postLogoutRedirectUris,
      app_systemApplication = v_systemApplication,
      app_claimsMappingScript = v_claimsMappingScript,
      app_accessTokenHeaderType = v_accessTokenHeaderType,
      app_deviceFlowEnabled = v_deviceFlowEnabled,
      app_signingAlgorithm = v_signingAlgorithm\<rparr>"

definition Application_SetAccessTokenHeaderType :: "string \<Rightarrow> application \<Rightarrow> application" where
  "Application_SetAccessTokenHeaderType v m =
     (if app_accessTokenHeaderType m = v then m
      else m\<lparr>app_accessTokenHeaderType := v, app_changes := TrackChange ApplicationChangeAccessTokenHeaderType (app_changes m)\<rparr>)"

definition Application_SetDisplayName :: "string \<Rightarrow> application \<Rightarrow> application" where
  "Application_SetDisplayName v m =
     (if app_displayName m = v then m
      else m\<lparr>app_displayName := v, app_changes := TrackChange ApplicationChangeDisplayName (app_changes m)\<rparr>)"

definition Application_SetHashedSecret :: "string \<Rightarrow> application \<Rightarrow> application" where
  "Application_SetHashedSecret v m =
     (if app_hashedSecret m = v then m
      else m\<lparr>app_hashedSecret := v, app_changes := TrackChange ApplicationChangeHashedSecret (app_changes m)\<rparr>)"

definition Application_SetRedirectUris :: "(string list) \<Rightarrow> application \<Rightarrow> application" where
  "Application_SetRedirectUris v m =
     (if app_redirectUris m = v then m
      else m\<lparr>app_redirectUris := v, app_changes := TrackChange ApplicationChangeRedirectUris (app_changes m)\<rparr>)"

definition Application_SetPostLogoutRedirectUris :: "(string list) \<Rightarrow> application \<Rightarrow> application" where
  "Application_SetPostLogoutRedirectUris v m =
     (if app_postLogoutRedirectUris m = v then m
      else m\<lparr>app_postLogoutRedirectUris := v, app_changes := TrackChange ApplicationChangePostLogoutRedirectUris (app_changes m)\<rparr>)"

definition Application_SetSystemApplication :: "bool \<Rightarrow> application \<Rightarrow> application" where
  "Application_SetSystemApplication v m =
     (if app_systemApplication m = v then m
      else m\<lparr>app_systemApplication := v, app_changes := TrackChange ApplicationChangeSystemApplication (app_changes m)\<rparr>)"

definition Application_SetDeviceFlowEnabled :: "bool \<Rightarrow> application \<Rightarrow> application" where
  "Application_SetDeviceFlowEnabled v m =
     (if app_deviceFlowEnabled m = v then m
      else m\<lparr>app_deviceFlowEnabled := v, app_changes := TrackChange ApplicationChangeDeviceFlowEnabled (app_changes m)\<rparr>)"

definition Application_SetSigningAlgorithm :: "(signing_algorithm option) \<Rightarrow> application \<Rightarrow> application" where
  "Application_SetSigningAlgorithm v m =
     m\<lparr>app_signingAlgorithm := v, app_changes := TrackChange ApplicationChangeSigningAlgorithm (app_changes m)\<rparr>"

subsection \<open>User (\<^verbatim>\<open>users.go\<close>)\<close>

datatype user_change =
    UserChangeDisplayName
  | UserChangeEmailVerified
  | UserChangeMetadata

record user =
  u_base :: base_model
  u_changes :: "user_change list"
  u_virtualServerId :: uuid
  u_username :: string
  u_displayName :: string
  u_primaryEmail :: string
  u_emailVerified :: bool
  u_serviceUser :: bool
  u_metadata :: jtext

definition NewUser :: "uuid \<Rightarrow> time \<Rightarrow> string \<Rightarrow> string \<Rightarrow> string \<Rightarrow> uuid \<Rightarrow> user" where
  "NewUser i now v_username v_displayName v_primaryEmail v_virtualServerId =
     \<lparr>u_base = NewBaseModel i now,
      u_changes = NewChanges,
      u_virtualServerId = v_virtualServerId,
      u_username = v_username,
      u_displayName = v_displayName,
      u_primaryEmail = v_primaryEmail,
      u_emailVerified = False,
      u_serviceUser = False,
      u_metadata = Doc (JObj [])\<rparr>"

definition NewSystemUser :: "uuid \<Rightarrow> time \<Rightarrow> string \<Rightarrow> user" where
  "NewSystemUser i now v_username =
     \<lparr>u_base = NewBaseModel i now,
      u_changes = NewChanges,
      u_virtualServerId = uuid_Nil,
      u_username = v_username,
      u_displayName = v_username,
      u_primaryEmail = '''',
      u_emailVerified = False,
      u_serviceUser = True,
      u_metadata = Doc (JObj [])\<rparr>"

definition NewServiceUser :: "uuid \<Rightarrow> time \<Rightarrow> string \<Rightarrow> uuid \<Rightarrow> user" where
  "NewServiceUser i now v_username v_virtualServerId =
     \<lparr>u_base = NewBaseModel i now,
      u_changes = NewChanges,
      u_virtualServerId = v_virtualServerId,
      u_username = v_username,
      u_displayName = v_username,
      u_primaryEmail = '''',
      u_emailVerified = False,
      u_serviceUser = True,
      u_metadata = Doc (JObj [])\<rparr>"

definition NewUserFromDB :: "base_model \<Rightarrow> uuid \<Rightarrow> string \<Rightarrow> string \<Rightarrow> string \<Rightarrow> bool \<Rightarrow> bool \<Rightarrow> jtext \<Rightarrow> user" where
  "NewUserFromDB base v_virtualServerId v_username v_displayName v_primaryEmail v_emailVerified v_serviceUser v_metadata =
     \<lparr>u_base = base,
      u_changes = NewChanges,
      u_virtualServerId = v_virtualServerId,
      u_username = v_username,
      u_displayName = v_displayName,
      u_primaryEmail = v_primaryEmail,
      u_emailVerified = v_emailVerified,
      u_serviceUser = v_serviceUser,
      u_metadata = v_metadata\<rparr>"

definition User_SetDisplayName :: "string \<Rightarrow> user \<Rightarrow> user" where
  "User_SetDisplayName v m =
     (if u_displayName m = v then m
      else m\<lparr>u_displayName := v, u_changes := TrackChange UserChangeDisplayName (u_changes m)\<rparr>)"

definition User_SetEmailVerified :: "bool \<Rightarrow> user \<Rightarrow> user" where
  "User_SetEmailVerified v m =
     (if u_emailVerified m = v then m
      else m\<lparr>u_emailVerified := v, u_changes := TrackChange UserChangeEmailVerified (u_changes m)\<rparr>)"

definition User_SetMetadata :: "jtext \<Rightarrow> user \<Rightarrow> user" where
  "User_SetMetadata v m =
     (if u_metadata m = v then m
      else m\<lparr>u_metadata := v, u_changes := TrackChange UserChangeMetadata (u_changes m)\<rparr>)"

subsection \<open>Credential (\<^verbatim>\<open>credentials.go\<close>)\<close>

datatype credential_change =
    CredentialChangeDetails
  | CredentialChangeType

record credential =
  cr_base :: base_model
  cr_changes :: "credential_change list"
  cr_userId :: uuid
  cr_type :: credential_type
  cr_details :: credential_details

subsection \<open>Session (\<^verbatim>\<open>sessions.go\<close>)\<close>

datatype session_change =
    SessionChangeLastUsedAt

record session =
  se_base :: base_model
  se_changes :: "session_change list"
  se_virtualServerId :: uuid
  se_userId :: uuid
  se_hashedToken :: string
  se_expiresAt :: time
  se_lastUsedAt :: "time option"

definition NewSession :: "uuid \<Rightarrow> time \<Rightarrow> uuid \<Rightarrow> uuid \<Rightarrow> time \<Rightarrow> session" where
  "NewSession i now v_virtualServerId v_userId v_expiresAt =
     \<lparr>se_base = NewBaseModel i now,
      se_changes = NewChanges,
      se_virtualServerId = v_virtualServerId,
      se_userId = v_userId,
      se_hashedToken = '''',
      se_expiresAt = v_expiresAt,
      se_lastUsedAt = None\<rparr>"

definition NewSessionFromDB :: "base_model \<Rightarrow> uuid \<Rightarrow> uuid \<Rightarrow> string \<Rightarrow> time \<Rightarrow> (time option) \<Rightarrow> session" where
  "NewSessionFromDB base v_virtualServerId v_userId v_hashedToken v_expiresAt v_lastUsedAt =
     \<lparr>se_base = base,
      se_changes = NewChanges,
      se_virtualServerId = v_virtualServerId,
      se_userId = v_userId,
      se_hashedToken = v_hashedToken,
      se_expiresAt = v_expiresAt,
      se_lastUsedAt = v_lastUsedAt\<rparr>"

definition Session_SetLastUsedAt :: "time \<Rightarrow> session \<Rightarrow> session" where
  "Session_SetLastUsedAt v m =
     (if se_lastUsedAt m = Some v then m
      else m\<lparr>se_lastUsedAt := Some v, se_changes := TrackChange SessionChangeLastUsedAt (se_changes m)\<rparr>)"

subsection \<open>Project (\<^verbatim>\<open>projects.go\<close>)\<close>

datatype project_change =
    ProjectChangeName
  | ProjectChangeDescription

record project =
  p_base :: base_model
  p_changes :: "project_change list"
  p_virtualServerId :: uuid
  p_slug :: string
  p_name :: string
  p_description :: string
  p_systemProject :: bool

definition NewProject :: "uuid \<Rightarrow> time \<Rightarrow> uuid \<Rightarrow> string \<Rightarrow> string \<Rightarrow> string \<Rightarrow> project" where
  "NewProject i now v_virtualServerId v_slug v_name v_description =
     \<lparr>p_base = NewBaseModel i now,
      p_changes = NewChanges,
      p_virtualServerId = v_virtualServerId,
      p_slug = v_slug,
      p_name = v_name,
      p_description = v_description,
      p_systemProject = False\<rparr>"

definition NewProjectFromDB :: "base_model \<Rightarrow> uuid \<Rightarrow> string \<Rightarrow> string \<Rightarrow> string \<Rightarrow> bool \<Rightarrow> project" where
  "NewProjectFromDB base v_virtualServerId v_slug v_name v_description v_systemProject =
     \<lparr>p_base = base,
      p_changes = NewChanges,
      p_virtualServerId = v_virtualServerId,
      p_slug = v_slug,
      p_name = v_name,
      p_description = v_description,
      p_systemProject = v_systemProject\<rparr>"

definition Project_SetDescription :: "string \<Rightarrow> project \<Rightarrow> project" where
  "Project_SetDescription v m =
     (if p_description m = v then m
      else m\<lparr>p_description := v, p_changes := TrackChange ProjectChangeDescription (p_changes m)\<rparr>)"

definition Project_SetName :: "string \<Rightarrow> project \<Rightarrow> project" where
  "Project_SetName v m =
     (if p_name m = v then m
      else m\<lparr>p_name := v, p_changes := TrackChange ProjectChangeName (p_changes m)\<rparr>)"

subsection \<open>Role (\<^verbatim>\<open>roles.go\<close>)\<close>

datatype role_change =
    RoleChangeName
  | RoleChangeDescription

record role =
  ro_base :: base_model
  ro_changes :: "role_change list"
  ro_virtualServerId :: uuid
  ro_projectId :: uuid
  ro_name :: string
  ro_description :: string

definition NewRole :: "uuid \<Rightarrow> time \<Rightarrow> uuid \<Rightarrow> uuid \<Rightarrow> string \<Rightarrow> string \<Rightarrow> role" where
  "NewRole i now v_virtualServerId v_projectId v_name v_description =
     \<lparr>ro_base = NewBaseModel i now,
      ro_changes = NewChanges,
      ro_virtualServerId = v_virtualServerId,
      ro_projectId = v_projectId,
      ro_name = v_name,
      ro_description = v_description\<rparr>"

definition NewRoleFromDB :: "base_model \<Rightarrow> uuid \<Rightarrow> uuid \<Rightarrow> string \<Rightarrow> string \<Rightarrow> role" where
  "NewRoleFromDB base v_virtualServerId v_projectId v_name v_description =
     \<lparr>ro_base = base,
      ro_changes = NewChanges,
      ro_virtualServerId = v_virtualServerId,
      ro_projectId = v_projectId,
      ro_name = v_name,
      ro_description = v_description\<rparr>"

definition Role_SetName :: "string \<Rightarrow> role \<Rightarrow> role" where
  "Role_SetName v m =
     (if ro_name m = v then m
      else m\<lparr>ro_name := v, ro_changes := TrackChange RoleChangeName (ro_changes m)\<rparr>)"

definition Role_SetDescription :: "string \<Rightarrow> role \<Rightarrow> role" where
  "Role_SetDescription v m =
     (if ro_description m = v then m
      else m\<lparr>ro_description := v, ro_changes := TrackChange RoleChangeDescription (ro_changes m)\<rparr>)"

subsection \<open>Group (\<^verbatim>\<open>groups.go\<close>)\<close>

datatype group_change =
    GroupChangeName
  | GroupChangeDescription

record group =
  gr_base :: base_model
  gr_changes :: "group_change list"
  gr_virtualServerId :: uuid
  gr_name :: string
  gr_description :: string

definition NewGroup :: "uuid \<Rightarrow> time \<Rightarrow> uuid \<Rightarrow> string \<Rightarrow> string \<Rightarrow> group" where
  "NewGroup i now v_virtualServerId v_name v_description =
     \<lparr>gr_base = NewBaseModel i now,
      gr_changes = NewChanges,
      gr_virtualServerId = v_virtualServerId,
      gr_name = v_name,
      gr_description = v_description\<rparr>"

definition NewGroupFromDB :: "base_model \<Rightarrow> uuid \<Rightarrow> string \<Rightarrow> string \<Rightarrow> group" where
  "NewGroupFromDB base v_virtualServerId v_name v_description =
     \<lparr>gr_base = base,
      gr_changes = NewChanges,
      gr_virtualServerId = v_virtualServerId,
      gr_name = v_name,
      gr_description = v_description\<rparr>"

definition Group_SetName :: "string \<Rightarrow> group \<Rightarrow> group" where
  "Group_SetName v m =
     (if gr_name m = v then m
      else m\<lparr>gr_name := v, gr_changes := TrackChange GroupChangeName (gr_changes m)\<rparr>)"

definition Group_SetDescription :: "string \<Rightarrow> group \<Rightarrow> group" where
  "Group_SetDescription v m =
     (if gr_description m = v then m
      else m\<lparr>gr_description := v, gr_changes := TrackChange GroupChangeDescription (gr_changes m)\<rparr>)"

subsection \<open>ResourceServer (\<^verbatim>\<open>resourceservers.go\<close>)\<close>

datatype resource_server_change =
    ResourceServerChangeName
  | ResourceServerChangeDescription

record resource_server =
  rs_base :: base_model
  rs_changes :: "resource_server_change list"
  rs_virtualServerId :: uuid
  rs_projectId :: uuid
  rs_slug :: string
  rs_name :: string
  rs_description :: string

definition NewResourceServer :: "uuid \<Rightarrow> time \<Rightarrow> uuid \<Rightarrow> uuid \<Rightarrow> string \<Rightarrow> string \<Rightarrow> string \<Rightarrow> resource_server" where
  "NewResourceServer i now v_virtualServerId v_projectId v_slug v_name v_description =
     \<lparr>rs_base = NewBaseModel i now,
      rs_changes = NewChanges,
      rs_virtualServerId = v_virtualServerId,
      rs_projectId = v_projectId,
      rs_slug = v_slug,
      rs_name = v_name,
      rs_description = v_description\<rparr>"

definition NewResourceServerFromDB :: "base_model \<Rightarrow> uuid \<Rightarrow> uuid \<Rightarrow> string \<Rightarrow> string \<Rightarrow> string \<Rightarrow> resource_server" where
  "NewResourceServerFromDB base v_virtualServerId v_projectId v_slug v_name v_description =
     \<lparr>rs_base = base,
      rs_changes = NewChanges,
      rs_virtualServerId = v_virtualServerId,
      rs_projectId = v_projectId,
      rs_slug = v_slug,
      rs_name = v_name,
      rs_description = v_description\<rparr>"

definition ResourceServer_SetName :: "string \<Rightarrow> resource_server \<Rightarrow> resource_server" where
  "ResourceServer_SetName v m =
     (if rs_name m = v then m
      else m\<lparr>rs_name := v, rs_changes := TrackChange ResourceServerChangeName (rs_changes m)\<rparr>)"

definition ResourceServer_SetDescription :: "string \<Rightarrow> resource_server \<Rightarrow> resource_server" where
  "ResourceServer_SetDescription v m =
     (if rs_description m = v then m
      else m\<lparr>rs_description := v, rs_changes := TrackChange ResourceServerChangeDescription (rs_changes m)\<rparr>)"

subsection \<open>ResourceServerScope (\<^verbatim>\<open>resourceserverscopes.go\<close>)\<close>

datatype resource_server_scope_change =
    ResourceServerScopeChangeName
  | ResourceServerScopeChangeDescription

record resource_server_scope =
  rss_base :: base_model
  rss_changes :: "resource_server_scope_change list"
  rss_virtualServerId :: uuid
  rss_projectId :: uuid
  rss_resourceServerId :: uuid
  rss_scope :: string
  rss_name :: string
  rss_description :: string

definition NewResourceServerScope :: "uuid \<Rightarrow> time \<Rightarrow> uuid \<Rightarrow> uuid \<Rightarrow> uuid \<Rightarrow> string \<Rightarrow> string \<Rightarrow> resource_server_scope" where
  "NewResourceServerScope i now v_virtualServerId v_projectId v_resourceServerId v_scope v_name =
     \<lparr>rss_base = NewBaseModel i now,
      rss_changes = NewChanges,
      rss_virtualServerId = v_virtualServerId,
      rss_projectId = v_projectId,
      rss_resourceServerId = v_resourceServerId,
      rss_scope = v_scope,
      rss_name = v_name,
      rss_description = ''''\<rparr>"

definition NewResourceServerScopeFromDB :: "base_model \<Rightarrow> uuid \<Rightarrow> uuid \<Rightarrow> uuid \<Rightarrow> string \<Rightarrow> string \<Rightarrow> string \<Rightarrow> resource_server_scope" where
  "NewResourceServerScopeFromDB base v_virtualServerId v_projectId v_resourceServerId v_scope v_name v_description =
     \<lparr>rss_base = base,
      rss_changes = NewChanges,
      rss_virtualServerId = v_virtualServerId,
      rss_projectId = v_projectId,
      rss_resourceServerId = v_resourceServerId,
      rss_scope = v_scope,
      rss_name = v_name,
      rss_description = v_description\<rparr>"

definition ResourceServerScope_SetName :: "string \<Rightarrow> resource_server_scope \<Rightarrow> resource_server_scope" where
  "ResourceServerScope_SetName v m =
     (if rss_name m = v then m
      else m\<lparr>rss_name := v, rss_changes := TrackChange ResourceServerScopeChangeName (rss_changes m)\<rparr>)"

definition ResourceServerScope_SetDescription :: "string \<Rightarrow> resource_server_scope \<Rightarrow> resource_server_scope" where
  "ResourceServerScope_SetDescription v m =
     (if rss_description m = v then m
      else m\<lparr>rss_description := v, rss_changes := TrackChange ResourceServerScopeChangeDescription (rss_changes m)\<rparr>)"

subsection \<open>PasswordRule (\<^verbatim>\<open>passwordrules.go\<close>)\<close>

datatype password_rule_change =
    PasswordRuleChangeDetails

record password_rule =
  pr_base :: base_model
  pr_changes :: "password_rule_change list"
  pr_virtualServerId :: uuid
  pr_type :: password_rule_type
  pr_details :: jtext

definition NewPasswordRuleFromDB :: "base_model \<Rightarrow> uuid \<Rightarrow> password_rule_type \<Rightarrow> jtext \<Rightarrow> password_rule" where
  "NewPasswordRuleFromDB base v_virtualServerId v_type v_details =
     \<lparr>pr_base = base,
      pr_changes = NewChanges,
      pr_virtualServerId = v_virtualServerId,
      pr_type = v_type,
      pr_details = v_details\<rparr>"

subsection \<open>Template (\<^verbatim>\<open>templates.go\<close>)\<close>

record template =
  te_base :: base_model
  te_virtualServerId :: uuid
  te_fileId :: uuid
  te_templateType :: string

definition NewTemplate :: "uuid \<Rightarrow> time \<Rightarrow> uuid \<Rightarrow> uuid \<Rightarrow> string \<Rightarrow> template" where
  "NewTemplate i now v_virtualServerId v_fileId v_templateType =
     \<lparr>te_base = NewBaseModel i now,
      te_virtualServerId = v_virtualServerId,
      te_fileId = v_fileId,
      te_templateType = v_templateType\<rparr>"

definition NewTemplateFromDB :: "base_model \<Rightarrow> uuid \<Rightarrow> uuid \<Rightarrow> string \<Rightarrow> template" where
  "NewTemplateFromDB base v_virtualServerId v_fileId v_templateType =
     \<lparr>te_base = base,
      te_virtualServerId = v_virtualServerId,
      te_fileId = v_fileId,
      te_templateType = v_templateType\<rparr>"

subsection \<open>File (\<^verbatim>\<open>files.go\<close>)\<close>

record file_entity =
  fi_base :: base_model
  fi_name :: string
  fi_mimeType :: string
  fi_content :: string

definition NewFile :: "uuid \<Rightarrow> time \<Rightarrow> string \<Rightarrow> string \<Rightarrow> string \<Rightarrow> file_entity" where
  "NewFile i now v_name v_mimeType v_content =
     \<lparr>fi_base = NewBaseModel i now,
      fi_name = v_name,
      fi_mimeType = v_mimeType,
      fi_content = v_content\<rparr>"

definition NewFileFromDB :: "base_model \<Rightarrow> string \<Rightarrow> string \<Rightarrow> string \<Rightarrow> file_entity" where
  "NewFileFromDB base v_name v_mimeType v_content =
     \<lparr>fi_base = base,
      fi_name = v_name,
      fi_mimeType = v_mimeType,
      fi_content = v_content\<rparr>"

subsection \<open>ApplicationUserMetadata (\<^verbatim>\<open>applicationusermetadata.go\<close>)\<close>

datatype application_user_metadata_change =
    ApplicationUserMetadataChangeMetadata

record application_user_metadata =
  aum_base :: base_model
  aum_changes :: "application_user_metadata_change list"
  aum_applicationId :: uuid
  aum_userId :: uuid
  aum_metadata :: jtext

definition NewApplicationUserMetadata :: "uuid \<Rightarrow> time \<Rightarrow> uuid \<Rightarrow> uuid \<Rightarrow> jtext \<Rightarrow> application_user_metadata" where
  "NewApplicationUserMetadata i now v_applicationId v_userId v_metadata =
     \<lparr>aum_base = NewBaseModel i now,
      aum_changes = NewChanges,
      aum_applicationId = v_applicationId,
      aum_userId = v_userId,
      aum_metadata = v_metadata\<rparr>"

definition NewApplicationUserMetadataFromDB :: "base_model \<Rightarrow> uuid \<Rightarrow> uuid \<Rightarrow> jtext \<Rightarrow> application_user_metadata" where
  "NewApplicationUserMetadataFromDB base v_applicationId v_userId v_metadata =
     \<lparr>aum_base = base,
      aum_changes = NewChanges,
      aum_applicationId = v_applicationId,
      aum_userId = v_userId,
      aum_metadata = v_metadata\<rparr>"

definition ApplicationUserMetadata_SetMetadata :: "jtext \<Rightarrow> application_user_metadata \<Rightarrow> application_user_metadata" where
  "ApplicationUserMetadata_SetMetadata v m =
     (if aum_metadata m = v then m
      else m\<lparr>aum_metadata := v, aum_changes := TrackChange ApplicationUserMetadataChangeMetadata (aum_changes m)\<rparr>)"

subsection \<open>OutboxMessage (\<^verbatim>\<open>outboxmessages.go\<close>)\<close>

record outbox_message =
  ob_base :: base_model
  ob_type :: string
  ob_details :: jtext

definition NewOutboxMessageFromDB :: "base_model \<Rightarrow> string \<Rightarrow> jtext \<Rightarrow> outbox_message" where
  "NewOutboxMessageFromDB base v_type v_details =
     \<lparr>ob_base = base,
      ob_type = v_type,
      ob_details = v_details\<rparr>"

subsection \<open>AuditLog (\<^verbatim>\<open>auditlogs.go\<close>)\<close>

record audit_log =
  al_base :: base_model
  al_virtualServerId :: uuid
  al_userId :: "uuid option"
  al_requestType :: string
  al_request :: jtext
  al_response :: "jtext option"
  al_allowed :: bool
  al_allowReasonType :: "string option"
  al_allowReason :: "jtext option"

definition NewAuditLogFromDB :: "base_model \<Rightarrow> uuid \<Rightarrow> (uuid option) \<Rightarrow> string \<Rightarrow> jtext \<Rightarrow> (jtext option) \<Rightarrow> bool \<Rightarrow> (string option) \<Rightarrow> (jtext option) \<Rightarrow> audit_log" where
  "NewAuditLogFromDB base v_virtualServerId v_userId v_requestType v_request v_response v_allowed v_allowReasonType v_allowReason =
     \<lparr>al_base = base,
      al_virtualServerId = v_virtualServerId,
      al_userId = v_userId,
      al_requestType = v_requestType,
      al_request = v_request,
      al_response = v_response,
      al_allowed = v_allowed,
      al_allowReasonType = v_allowReasonType,
      al_allowReason = v_allowReason\<rparr>"

subsection \<open>GroupRole (\<^verbatim>\<open>grouproles.go\<close>)\<close>

record group_role =
  gro_base :: base_model
  gro_groupId :: uuid
  gro_roleId :: uuid

definition NewGroupRole :: "uuid \<Rightarrow> time \<Rightarrow> uuid \<Rightarrow> uuid \<Rightarrow> group_role" where
  "NewGroupRole i now v_groupId v_roleId =
     \<lparr>gro_base = NewBaseModel i now,
      gro_groupId = v_groupId,
      gro_roleId = v_roleId\<rparr>"

subsection \<open>UserRoleAssignment (\<^verbatim>\<open>userroleassignments.go\<close>)\<close>

record user_role_assignment =
  ura_base :: base_model
  ura_userId :: uuid
  ura_roleId :: uuid
  ura_groupId :: "uuid option"
  ura_userInfo :: "ura_user_info option"
  ura_roleInfo :: "ura_role_info option"

definition NewUserRoleAssignment :: "uuid \<Rightarrow> time \<Rightarrow> uuid \<Rightarrow> uuid \<Rightarrow> (uuid option) \<Rightarrow> user_role_assignment" where
  "NewUserRoleAssignment i now v_userId v_roleId v_groupId =
     \<lparr>ura_base = NewBaseModel i now,
      ura_userId = v_userId,
      ura_roleId = v_roleId,
      ura_groupId = v_groupId,
      ura_userInfo = None,
      ura_roleInfo = None\<rparr>"

definition NewUserRoleAssignmentFromDB :: "base_model \<Rightarrow> uuid \<Rightarrow> uuid \<Rightarrow> (uuid option) \<Rightarrow> (ura_user_info option) \<Rightarrow> (ura_role_info option) \<Rightarrow> user_role_assignment" where
  "NewUserRoleAssignmentFromDB base v_userId v_roleId v_groupId v_userInfo v_roleInfo =
     \<lparr>ura_base = base,
      ura_userId = v_userId,
      ura_roleId = v_roleId,
      ura_groupId = v_groupId,
      ura_userInfo = v_userInfo,
      ura_roleInfo = v_roleInfo\<rparr>"

section \<open>Operations that are not plain setters\<close>

definition NewSystemProject :: "uuid \<Rightarrow> time \<Rightarrow> uuid \<Rightarrow> project" where
  "NewSystemProject i now vsId =
     (NewProject i now vsId ''system'' ''System Project''
        ''Keyline internal project for system internal resources.'')\<lparr>p_systemProject := True\<rparr>"

text \<open>
  Pointers are compared here: the early return needs both to be nil, as the command never
  passes the pointer the application already holds.
\<close>

definition Application_SetClaimsMappingScript :: "string option \<Rightarrow> application \<Rightarrow> application" where
  "Application_SetClaimsMappingScript v m =
     (if app_claimsMappingScript m = None \<and> v = None then m
      else m\<lparr>app_claimsMappingScript := v,
             app_changes := TrackChange ApplicationChangeClaimsMappingScript (app_changes m)\<rparr>)"

text \<open>The random bytes are an argument; the result is the secret shown to the caller.\<close>

definition Application_GenerateSecret :: "string \<Rightarrow> application \<Rightarrow> string \<times> application" where
  "Application_GenerateSecret secretBytes a =
     (let secretBase64 = RawURLEncoding_EncodeToString secretBytes
      in (secretBase64, Application_SetHashedSecret (CheapHash secretBase64) a))"

definition Session_GenerateToken :: "string \<Rightarrow> session \<Rightarrow> string \<times> session" where
  "Session_GenerateToken secretBytes s =
     (let secretBase64 = RawURLEncoding_EncodeToString secretBytes
      in (secretBase64, s\<lparr>se_hashedToken := CheapHash secretBase64\<rparr>))"

fun all_algorithms :: "signing_algorithm list \<Rightarrow> signing_algorithm list \<Rightarrow> signing_algorithm list" where
  "all_algorithms all [] = all"
| "all_algorithms all (a # rest) = all_algorithms (if a \<in> set all then all else all @ [a]) rest"

definition VirtualServer_AllSigningAlgorithms :: "virtual_server \<Rightarrow> signing_algorithm list" where
  "VirtualServer_AllSigningAlgorithms m =
     all_algorithms [vs_primarySigningAlgorithm m] (vs_additionalSigningAlgorithms m)"

definition VirtualServer_HasSigningAlgorithm :: "signing_algorithm \<Rightarrow> virtual_server \<Rightarrow> bool" where
  "VirtualServer_HasSigningAlgorithm alg m = list_ex (\<lambda>a. a = alg) (VirtualServer_AllSigningAlgorithms m)"

lemma set_all_algorithms [simp]: "set (all_algorithms all rest) = set all \<union> set rest"
  by (induction all rest rule: all_algorithms.induct) auto

lemma distinct_all_algorithms: "distinct all \<Longrightarrow> distinct (all_algorithms all rest)"
  by (induction all rest rule: all_algorithms.induct) auto

lemma set_AllSigningAlgorithms [simp]:
  "set (VirtualServer_AllSigningAlgorithms m) =
     insert (vs_primarySigningAlgorithm m) (set (vs_additionalSigningAlgorithms m))"
  by (simp add: VirtualServer_AllSigningAlgorithms_def)

lemma distinct_AllSigningAlgorithms: "distinct (VirtualServer_AllSigningAlgorithms m)"
  by (simp add: VirtualServer_AllSigningAlgorithms_def distinct_all_algorithms)

fun CredentialDetailType :: "credential_details \<Rightarrow> credential_type" where
  "CredentialDetailType (CredentialPasswordDetails _ _) = CredentialTypePassword"
| "CredentialDetailType (CredentialTotpDetails _ _ _) = CredentialTypeTotp"
| "CredentialDetailType (CredentialServiceUserKey _ _) = CredentialTypeServiceUserKey"
| "CredentialDetailType (CredentialWebauthnDetails _ _ _) = CredentialTypeWebauthn"
| "CredentialDetailType NoDetails = OtherCredentialType []"

definition NewCredential :: "uuid \<Rightarrow> time \<Rightarrow> uuid \<Rightarrow> credential_details \<Rightarrow> credential" where
  "NewCredential i now userId details =
     \<lparr>cr_base = NewBaseModel i now, cr_changes = NewChanges, cr_userId = userId,
      cr_type = CredentialDetailType details, cr_details = details\<rparr>"

definition NewCredentialFromDB :: "base_model \<Rightarrow> uuid \<Rightarrow> credential_type \<Rightarrow> credential_details \<Rightarrow> credential" where
  "NewCredentialFromDB base userId ty details =
     \<lparr>cr_base = base, cr_changes = NewChanges, cr_userId = userId, cr_type = ty, cr_details = details\<rparr>"

definition Credential_SetDetails :: "credential_details \<Rightarrow> credential \<Rightarrow> credential" where
  "Credential_SetDetails details c =
     c\<lparr>cr_type := CredentialDetailType details, cr_details := details,
       cr_changes := TrackChange CredentialChangeType (TrackChange CredentialChangeDetails (cr_changes c))\<rparr>"

text \<open>
  The accessors dereference the credential, so a nil credential panics, and check the
  dynamic type of the details.
\<close>

definition wrong_cast :: "string \<Rightarrow> 'a go" where
  "wrong_cast expected = Inl (Err (Wrap expected (Named ErrWrongCredentialCast)))"

definition nil_dereference :: "'a go" where
  "nil_dereference = Inl (Panic ''nil pointer dereference'')"

definition Credential_PasswordDetails :: "credential option \<Rightarrow> (string \<times> bool) go" where
  "Credential_PasswordDetails co =
     (case co of None \<Rightarrow> nil_dereference
      | Some c \<Rightarrow> (case cr_details c of CredentialPasswordDetails h t \<Rightarrow> Inr (h, t)
                  | _ \<Rightarrow> wrong_cast ''expected password credential''))"

definition Credential_WebauthnDetails :: "credential option \<Rightarrow> (string \<times> int \<times> string) go" where
  "Credential_WebauthnDetails co =
     (case co of None \<Rightarrow> nil_dereference
      | Some c \<Rightarrow> (case cr_details c of CredentialWebauthnDetails i a k \<Rightarrow> Inr (i, a, k)
                  | _ \<Rightarrow> wrong_cast ''expected webauthn credential''))"

definition Credential_TotpDetails :: "credential option \<Rightarrow> (string \<times> int \<times> int) go" where
  "Credential_TotpDetails co =
     (case co of None \<Rightarrow> nil_dereference
      | Some c \<Rightarrow> (case cr_details c of CredentialTotpDetails s d a \<Rightarrow> Inr (s, d, a)
                  | _ \<Rightarrow> wrong_cast ''expected totp credential''))"

definition Credential_ServiceUserKeyDetails :: "credential option \<Rightarrow> (string \<times> string) go" where
  "Credential_ServiceUserKeyDetails co =
     (case co of None \<Rightarrow> nil_dereference
      | Some c \<Rightarrow> (case cr_details c of CredentialServiceUserKey k pk \<Rightarrow> Inr (k, pk)
                  | _ \<Rightarrow> wrong_cast ''expected service user key credential''))"

text \<open>The details of a rule or a message come already serialized, or their serialization fails.\<close>

definition NewPasswordRule :: "uuid \<Rightarrow> time \<Rightarrow> uuid \<Rightarrow> password_rule_type \<Rightarrow> jtext go \<Rightarrow> password_rule go" where
  "NewPasswordRule i now vsId ty serialized =
     go_bind (wrap ''failed to serialize details'' serialized)
       (\<lambda>d. Inr \<lparr>pr_base = NewBaseModel i now, pr_changes = NewChanges, pr_virtualServerId = vsId,
                 pr_type = ty, pr_details = d\<rparr>)"

definition PasswordRule_SetDetails :: "jtext go \<Rightarrow> password_rule \<Rightarrow> password_rule go" where
  "PasswordRule_SetDetails serialized p =
     go_bind (wrap ''failed to serialize details'' serialized)
       (\<lambda>d. Inr (p\<lparr>pr_details := d, pr_changes := TrackChange PasswordRuleChangeDetails (pr_changes p)\<rparr>))"

definition NewOutboxMessage :: "uuid \<Rightarrow> time \<Rightarrow> string \<Rightarrow> jtext go \<Rightarrow> outbox_message go" where
  "NewOutboxMessage i now ty serialized =
     go_bind (wrap ''failed to serialize details'' serialized)
       (\<lambda>d. Inr \<lparr>ob_base = NewBaseModel i now, ob_type = ty, ob_details = d\<rparr>)"

end
