(* ===== verification/Repositories.thy ===== *)
theory Repositories
  imports Entities
begin

text \<open>
  The filters of \<^verbatim>\<open>internal/repositories\<close> and the reads of the in-memory
  repositories (\<^verbatim>\<open>internal/repositories/memory\<close>). A store is a Go map from
  identifiers to entities, an association list here; its order stands for the order in
  which one \<^verbatim>\<open>range\<close> loop visits the map, which Go leaves open, and every
  theorem holds for each order.
\<close>

named_theorems filter_defs \<open>definitions of filter constructors\<close>
named_theorems repo_defs \<open>definitions of repository reads\<close>

section \<open>Search filters (search.go)\<close>

datatype search_type =
    SearchTypeContains | SearchTypeExact | SearchTypeStart | SearchTypeEnd | OtherSearchType string

record search_filter =
  sf_q :: string
  sf_searchType :: search_type

definition NewSearchFilter :: "string \<Rightarrow> search_type \<Rightarrow> search_filter" where
  "NewSearchFilter q ty = \<lparr>sf_q = q, sf_searchType = ty\<rparr>"

definition NewExactSearchFilter :: "string \<Rightarrow> search_filter" where
  "NewExactSearchFilter q = NewSearchFilter q SearchTypeExact"

definition NewContainsSearchFilter :: "string \<Rightarrow> search_filter" where
  "NewContainsSearchFilter q = NewSearchFilter q SearchTypeContains"

definition NewStartSearchFilter :: "string \<Rightarrow> search_filter" where
  "NewStartSearchFilter q = NewSearchFilter q SearchTypeStart"

definition NewEndSearchFilter :: "string \<Rightarrow> search_filter" where
  "NewEndSearchFilter q = NewSearchFilter q SearchTypeEnd"

definition SearchFilter_Term :: "search_filter \<Rightarrow> string go" where
  "SearchFilter_Term f =
     (case sf_searchType f of
        SearchTypeExact \<Rightarrow> Inr (sf_q f)
      | SearchTypeContains \<Rightarrow> Inr (''%'' @ sf_q f @ ''%'')
      | SearchTypeStart \<Rightarrow> Inr (sf_q f @ ''%'')
      | SearchTypeEnd \<Rightarrow> Inr (''%'' @ sf_q f)
      | OtherSearchType s \<Rightarrow> Inl (Panic (''unknown search type: '' @ s)))"

definition matchesSearch :: "string \<Rightarrow> search_filter \<Rightarrow> bool go" where
  "matchesSearch value sf =
     go_bind (SearchFilter_Term sf)
       (\<lambda>t. if HasPrefix t ''%'' \<and> HasSuffix t ''%'' then
               go_bind (slice t 1 (int (length t) - 1))
                 (\<lambda>inner. Inr (Contains (ToLower value) (ToLower inner)))
             else if HasSuffix t ''%'' then
               go_bind (slice t 0 (int (length t) - 1))
                 (\<lambda>prefix. Inr (HasPrefix (ToLower value) (ToLower prefix)))
             else if HasPrefix t ''%'' then
               go_bind (slice t 1 (int (length t)))
                 (\<lambda>suffix. Inr (HasSuffix (ToLower value) (ToLower suffix)))
             else Inr (EqualFold value t))"

text \<open>The alternatives of a search, tried in order until one matches.\<close>

fun any_matches :: "string list \<Rightarrow> search_filter \<Rightarrow> bool go" where
  "any_matches [] sf = Inr False"
| "any_matches (v # vs) sf = go_bind (matchesSearch v sf) (\<lambda>b. if b then Inr True else any_matches vs sf)"

lemma matchesSearch_contains:
  "matchesSearch value (NewContainsSearchFilter q) = Inr (Contains (ToLower value) (ToLower q))"
  by (simp add: matchesSearch_def NewContainsSearchFilter_def NewSearchFilter_def SearchFilter_Term_def
      HasPrefix_def HasSuffix_def slice_def)

section \<open>Paging (paginginfo.go, memory/search.go)\<close>

datatype paging_info = PagingInfo (pi_page: int) (pi_size: int)

definition PagingInfo_IsZero :: "paging_info \<Rightarrow> bool" where
  "PagingInfo_IsZero pg = (pi_page pg = 0 \<and> pi_size pg = 0)"

text \<open>The order of a listing (orderInfo.go); the memory database ignores it.\<close>

datatype order_info = OrderInfo (oi_orderBy: string) (oi_orderDir: string)

definition OrderInfo_IsZero :: "order_info \<Rightarrow> bool" where
  "OrderInfo_IsZero oi = (oi_orderBy oi = [])"

definition paginateSlice :: "'a list \<Rightarrow> paging_info \<Rightarrow> 'a list go" where
  "paginateSlice items pg =
     (if PagingInfo_IsZero pg then Inr items
      else
        let page = (if pi_page pg < 1 then 1 else pi_page pg);
            offset = wrap64 ((page - 1) * pi_size pg)
        in if offset \<ge> int (length items) then Inr []
           else
             let e = wrap64 (offset + pi_size pg);
                 end' = (if e > int (length items) then int (length items) else e)
             in slice items offset end')"

section \<open>Generic reads\<close>

definition filter_eq :: "'a option \<Rightarrow> 'a \<Rightarrow> bool" where
  "filter_eq f v = (case f of None \<Rightarrow> True | Some x \<Rightarrow> v = x)"

definition filter_in :: "'a list option \<Rightarrow> 'a \<Rightarrow> bool" where
  "filter_in f v = (case f of None \<Rightarrow> True | Some xs \<Rightarrow> v \<in> set xs)"

definition filter_opt :: "'a option \<Rightarrow> 'a option \<Rightarrow> bool" where
  "filter_opt f v = (case f of None \<Rightarrow> True | Some x \<Rightarrow> v = Some x)"

lemma filter_eq_simps [simp]: "filter_eq None v" "filter_eq (Some x) v = (v = x)"
  by (simp_all add: filter_eq_def)

lemma filter_in_simps [simp]: "filter_in None v" "filter_in (Some xs) v = (v \<in> set xs)"
  by (simp_all add: filter_in_def)

lemma filter_opt_simps [simp]: "filter_opt None v" "filter_opt (Some x) v = (v = Some x)"
  by (simp_all add: filter_opt_def)

definition repo_filtered :: "('e \<Rightarrow> bool go) \<Rightarrow> (uuid \<times> 'e) list \<Rightarrow> 'e list go" where
  "repo_filtered p store = filter_go p (map snd store)"

definition first_of :: "'a list \<Rightarrow> 'a option" where
  "first_of items = (case items of [] \<Rightarrow> None | x # _ \<Rightarrow> Some x)"

text \<open>The loop that returns at the first match.\<close>

fun find_go :: "('e \<Rightarrow> bool go) \<Rightarrow> 'e list \<Rightarrow> 'e option go" where
  "find_go p [] = Inr None"
| "find_go p (x # xs) = go_bind (p x) (\<lambda>b. if b then Inr (Some x) else find_go p xs)"

definition repo_find :: "('e \<Rightarrow> bool go) \<Rightarrow> (uuid \<times> 'e) list \<Rightarrow> 'e option go" where
  "repo_find p store = find_go p (map snd store)"

definition or_err :: "sentinel \<Rightarrow> 'e option go \<Rightarrow> 'e go" where
  "or_err s r = go_bind r (\<lambda>x. case x of None \<Rightarrow> Inl (Err (Named s)) | Some e \<Rightarrow> Inr e)"

definition repo_page :: "paging_info \<Rightarrow> 'e list go \<Rightarrow> ('e list \<times> int) go" where
  "repo_page pg r =
     go_bind r (\<lambda>items.
       if PagingInfo_IsZero pg then Inr (items, int (length items))
       else go_bind (paginateSlice items pg) (\<lambda>page. Inr (page, int (length items))))"

lemma first_of_Some: "first_of xs = Some x \<Longrightarrow> x \<in> set xs"
  by (auto simp: first_of_def split: list.splits)

lemma first_of_None [simp]: "first_of xs = None \<longleftrightarrow> xs = []"
  by (auto simp: first_of_def split: list.splits)

lemma find_go_Some: "find_go p xs = Inr (Some x) \<Longrightarrow> x \<in> set xs \<and> p x = Inr True"
  by (induction xs) (auto simp: go_bind_Inr_iff split: if_splits)

lemma find_go_None: "find_go p xs = Inr None \<Longrightarrow> x \<in> set xs \<Longrightarrow> p x = Inr False"
  by (induction xs) (auto simp: go_bind_Inr_iff split: if_splits)

section \<open>Filters and repositories\<close>

subsection \<open>VirtualServer\<close>

record virtual_server_filter =
  vsf_name :: "string option"
  vsf_id :: "uuid option"

definition NewVirtualServerFilter :: virtual_server_filter where
  "NewVirtualServerFilter = \<lparr>vsf_name = None, vsf_id = None\<rparr>"

definition VirtualServerFilter_Name :: "string \<Rightarrow> virtual_server_filter \<Rightarrow> virtual_server_filter" where
  "VirtualServerFilter_Name v f = f\<lparr>vsf_name := Some v\<rparr>"

definition VirtualServerFilter_Id :: "uuid \<Rightarrow> virtual_server_filter \<Rightarrow> virtual_server_filter" where
  "VirtualServerFilter_Id v f = f\<lparr>vsf_id := Some v\<rparr>"

lemmas virtual_server_filter_defs [filter_defs] =
  NewVirtualServerFilter_def VirtualServerFilter_Name_def VirtualServerFilter_Id_def

definition VirtualServer_matches :: "virtual_server_filter \<Rightarrow> virtual_server \<Rightarrow> bool go" where
  "VirtualServer_matches f m =
    (if \<not> (filter_eq (vsf_name f) (vs_name m)
         \<and> filter_eq (vsf_id f) (bm_id (vs_base m))) then Inr False
     else Inr True)"

definition VirtualServerRepository_filtered :: "(uuid \<times> virtual_server) list \<Rightarrow> virtual_server_filter \<Rightarrow> virtual_server list go" where
  "VirtualServerRepository_filtered store f = repo_filtered (VirtualServer_matches f) store"

definition VirtualServerRepository_FirstOrNil :: "(uuid \<times> virtual_server) list \<Rightarrow> virtual_server_filter \<Rightarrow> virtual_server option go" where
  "VirtualServerRepository_FirstOrNil store f = go_bind (VirtualServerRepository_filtered store f) (\<lambda>items. Inr (first_of items))"

definition VirtualServerRepository_FirstOrErr :: "(uuid \<times> virtual_server) list \<Rightarrow> virtual_server_filter \<Rightarrow> virtual_server go" where
  "VirtualServerRepository_FirstOrErr store f = or_err ErrVirtualServerNotFound (VirtualServerRepository_FirstOrNil store f)"

definition VirtualServerRepository_List :: "(uuid \<times> virtual_server) list \<Rightarrow> virtual_server_filter \<Rightarrow> virtual_server list go" where
  "VirtualServerRepository_List store f = (VirtualServerRepository_filtered store f)"

lemmas virtual_server_repo_defs [repo_defs] =
  VirtualServerRepository_filtered_def VirtualServerRepository_FirstOrNil_def VirtualServerRepository_FirstOrErr_def VirtualServerRepository_List_def VirtualServer_matches_def

subsection \<open>Application\<close>

record application_filter =
  appf_name :: "string option"
  appf_id :: "uuid option"
  appf_ids :: "(uuid list) option"
  appf_virtualServerId :: "uuid option"
  appf_projectId :: "uuid option"
  appf_paging :: paging_info
  appf_order :: order_info
  appf_searchFilter :: "search_filter option"

definition NewApplicationFilter :: application_filter where
  "NewApplicationFilter = \<lparr>appf_name = None, appf_id = None, appf_ids = None, appf_virtualServerId = None, appf_projectId = None, appf_paging = PagingInfo 0 0, appf_order = OrderInfo [] [], appf_searchFilter = None\<rparr>"

definition ApplicationFilter_Name :: "string \<Rightarrow> application_filter \<Rightarrow> application_filter" where
  "ApplicationFilter_Name v f = f\<lparr>appf_name := Some v\<rparr>"

definition ApplicationFilter_Id :: "uuid \<Rightarrow> application_filter \<Rightarrow> application_filter" where
  "ApplicationFilter_Id v f = f\<lparr>appf_id := Some v\<rparr>"

definition ApplicationFilter_Ids :: "(uuid list) \<Rightarrow> application_filter \<Rightarrow> application_filter" where
  "ApplicationFilter_Ids v f = f\<lparr>appf_ids := Some v\<rparr>"

definition ApplicationFilter_VirtualServerId :: "uuid \<Rightarrow> application_filter \<Rightarrow> application_filter" where
  "ApplicationFilter_VirtualServerId v f = f\<lparr>appf_virtualServerId := Some v\<rparr>"

definition ApplicationFilter_ProjectId :: "uuid \<Rightarrow> application_filter \<Rightarrow> application_filter" where
  "ApplicationFilter_ProjectId v f = f\<lparr>appf_projectId := Some v\<rparr>"

definition ApplicationFilter_Search :: "search_filter \<Rightarrow> application_filter \<Rightarrow> application_filter" where
  "ApplicationFilter_Search v f = f\<lparr>appf_searchFilter := Some v\<rparr>"

definition ApplicationFilter_Pagination :: "int \<Rightarrow> int \<Rightarrow> application_filter \<Rightarrow> application_filter" where
  "ApplicationFilter_Pagination page sz f = f\<lparr>appf_paging := PagingInfo page sz\<rparr>"

definition ApplicationFilter_Order :: "string \<Rightarrow> string \<Rightarrow> application_filter \<Rightarrow> application_filter" where
  "ApplicationFilter_Order orderBy orderDir f = f\<lparr>appf_order := OrderInfo orderBy orderDir\<rparr>"

lemmas application_filter_defs [filter_defs] =
  NewApplicationFilter_def ApplicationFilter_Name_def ApplicationFilter_Id_def ApplicationFilter_Ids_def ApplicationFilter_VirtualServerId_def ApplicationFilter_ProjectId_def ApplicationFilter_Search_def ApplicationFilter_Pagination_def ApplicationFilter_Order_def

definition Application_matches :: "application_filter \<Rightarrow> application \<Rightarrow> bool go" where
  "Application_matches f m =
    (if \<not> (filter_eq (appf_id f) (bm_id (app_base m))
         \<and> filter_in (appf_ids f) (bm_id (app_base m))
         \<and> filter_eq (appf_name f) (app_name m)
         \<and> filter_eq (appf_virtualServerId f) (app_virtualServerId m)
         \<and> filter_eq (appf_projectId f) (app_projectId m)) then Inr False
     else case appf_searchFilter f of None \<Rightarrow> Inr True
       | Some sf \<Rightarrow> any_matches [app_name m, app_displayName m] sf)"

definition ApplicationRepository_filtered :: "(uuid \<times> application) list \<Rightarrow> application_filter \<Rightarrow> application list go" where
  "ApplicationRepository_filtered store f = repo_filtered (Application_matches f) store"

definition ApplicationRepository_FirstOrNil :: "(uuid \<times> application) list \<Rightarrow> application_filter \<Rightarrow> application option go" where
  "ApplicationRepository_FirstOrNil store f = go_bind (ApplicationRepository_filtered store f) (\<lambda>items. Inr (first_of items))"

definition ApplicationRepository_FirstOrErr :: "(uuid \<times> application) list \<Rightarrow> application_filter \<Rightarrow> application go" where
  "ApplicationRepository_FirstOrErr store f = or_err ErrApplicationNotFound (ApplicationRepository_FirstOrNil store f)"

definition ApplicationRepository_List :: "(uuid \<times> application) list \<Rightarrow> application_filter \<Rightarrow> (application list \<times> int) go" where
  "ApplicationRepository_List store f = repo_page (appf_paging f) (ApplicationRepository_filtered store f)"

lemmas application_repo_defs [repo_defs] =
  ApplicationRepository_filtered_def ApplicationRepository_FirstOrNil_def ApplicationRepository_FirstOrErr_def ApplicationRepository_List_def Application_matches_def

subsection \<open>User\<close>

record user_filter =
  uf_virtualServerId :: "uuid option"
  uf_id :: "uuid option"
  uf_username :: "string option"
  uf_serviceUser :: "bool option"
  uf_includeMetadata :: bool
  uf_paging :: paging_info
  uf_order :: order_info
  uf_searchFilter :: "search_filter option"

definition NewUserFilter :: user_filter where
  "NewUserFilter = \<lparr>uf_virtualServerId = None, uf_id = None, uf_username = None, uf_serviceUser = None, uf_includeMetadata = False, uf_paging = PagingInfo 0 0, uf_order = OrderInfo [] [], uf_searchFilter = None\<rparr>"

definition UserFilter_VirtualServerId :: "uuid \<Rightarrow> user_filter \<Rightarrow> user_filter" where
  "UserFilter_VirtualServerId v f = f\<lparr>uf_virtualServerId := Some v\<rparr>"

definition UserFilter_Id :: "uuid \<Rightarrow> user_filter \<Rightarrow> user_filter" where
  "UserFilter_Id v f = f\<lparr>uf_id := Some v\<rparr>"

definition UserFilter_Username :: "string \<Rightarrow> user_filter \<Rightarrow> user_filter" where
  "UserFilter_Username v f = f\<lparr>uf_username := Some v\<rparr>"

definition UserFilter_ServiceUser :: "bool \<Rightarrow> user_filter \<Rightarrow> user_filter" where
  "UserFilter_ServiceUser v f = f\<lparr>uf_serviceUser := Some v\<rparr>"

definition UserFilter_Search :: "search_filter \<Rightarrow> user_filter \<Rightarrow> user_filter" where
  "UserFilter_Search v f = f\<lparr>uf_searchFilter := Some v\<rparr>"

definition UserFilter_Pagination :: "int \<Rightarrow> int \<Rightarrow> user_filter \<Rightarrow> user_filter" where
  "UserFilter_Pagination page sz f = f\<lparr>uf_paging := PagingInfo page sz\<rparr>"

definition UserFilter_IncludeMetadata :: "user_filter \<Rightarrow> user_filter" where
  "UserFilter_IncludeMetadata f = f\<lparr>uf_includeMetadata := True\<rparr>"

definition UserFilter_Order :: "string \<Rightarrow> string \<Rightarrow> user_filter \<Rightarrow> user_filter" where
  "UserFilter_Order orderBy orderDir f = f\<lparr>uf_order := OrderInfo orderBy orderDir\<rparr>"

lemmas user_filter_defs [filter_defs] =
  NewUserFilter_def UserFilter_VirtualServerId_def UserFilter_Id_def UserFilter_Username_def UserFilter_ServiceUser_def UserFilter_Search_def UserFilter_Pagination_def UserFilter_Order_def UserFilter_IncludeMetadata_def

definition User_matches :: "user_filter \<Rightarrow> user \<Rightarrow> bool go" where
  "User_matches f m =
    (if \<not> (filter_eq (uf_id f) (bm_id (u_base m))
         \<and> filter_eq (uf_virtualServerId f) (u_virtualServerId m)
         \<and> filter_eq (uf_username f) (u_username m)
         \<and> filter_eq (uf_serviceUser f) (u_serviceUser m)) then Inr False
     else case uf_searchFilter f of None \<Rightarrow> Inr True
       | Some sf \<Rightarrow> any_matches [u_username m, u_displayName m] sf)"

definition UserRepository_filtered :: "(uuid \<times> user) list \<Rightarrow> user_filter \<Rightarrow> user list go" where
  "UserRepository_filtered store f = repo_filtered (User_matches f) store"

definition UserRepository_FirstOrNil :: "(uuid \<times> user) list \<Rightarrow> user_filter \<Rightarrow> user option go" where
  "UserRepository_FirstOrNil store f = go_bind (UserRepository_filtered store f) (\<lambda>items. Inr (first_of items))"

definition UserRepository_FirstOrErr :: "(uuid \<times> user) list \<Rightarrow> user_filter \<Rightarrow> user go" where
  "UserRepository_FirstOrErr store f = or_err ErrUserNotFound (UserRepository_FirstOrNil store f)"

definition UserRepository_List :: "(uuid \<times> user) list \<Rightarrow> user_filter \<Rightarrow> (user list \<times> int) go" where
  "UserRepository_List store f = repo_page (uf_paging f) (UserRepository_filtered store f)"

lemmas user_repo_defs [repo_defs] =
  UserRepository_filtered_def UserRepository_FirstOrNil_def UserRepository_FirstOrErr_def UserRepository_List_def User_matches_def

subsection \<open>Credential\<close>

record credential_filter =
  crf_id :: "uuid option"
  crf_userId :: "uuid option"
  crf_type :: "credential_type option"
  crf_detailId :: "string option"
  crf_detailKid :: "string option"
  crf_detailPublicKey :: "string option"

definition NewCredentialFilter :: credential_filter where
  "NewCredentialFilter = \<lparr>crf_id = None, crf_userId = None, crf_type = None, crf_detailId = None, crf_detailKid = None, crf_detailPublicKey = None\<rparr>"

definition CredentialFilter_Id :: "uuid \<Rightarrow> credential_filter \<Rightarrow> credential_filter" where
  "CredentialFilter_Id v f = f\<lparr>crf_id := Some v\<rparr>"

definition CredentialFilter_UserId :: "uuid \<Rightarrow> credential_filter \<Rightarrow> credential_filter" where
  "CredentialFilter_UserId v f = f\<lparr>crf_userId := Some v\<rparr>"

definition CredentialFilter_Type :: "credential_type \<Rightarrow> credential_filter \<Rightarrow> credential_filter" where
  "CredentialFilter_Type v f = f\<lparr>crf_type := Some v\<rparr>"

definition CredentialFilter_DetailsId :: "string \<Rightarrow> credential_filter \<Rightarrow> credential_filter" where
  "CredentialFilter_DetailsId v f = f\<lparr>crf_detailId := Some v\<rparr>"

definition CredentialFilter_DetailKid :: "string \<Rightarrow> credential_filter \<Rightarrow> credential_filter" where
  "CredentialFilter_DetailKid v f = f\<lparr>crf_detailKid := Some v\<rparr>"

definition CredentialFilter_DetailPublicKey :: "string \<Rightarrow> credential_filter \<Rightarrow> credential_filter" where
  "CredentialFilter_DetailPublicKey v f = f\<lparr>crf_detailPublicKey := Some v\<rparr>"

lemmas credential_filter_defs [filter_defs] =
  NewCredentialFilter_def CredentialFilter_Id_def CredentialFilter_UserId_def CredentialFilter_Type_def CredentialFilter_DetailsId_def CredentialFilter_DetailKid_def CredentialFilter_DetailPublicKey_def

text \<open>The string member of the JSON document of the details, empty when there is none.\<close>

definition detail_kid :: "credential_details \<Rightarrow> string" where
  "detail_kid d = (case d of CredentialServiceUserKey kid _ \<Rightarrow> kid | _ \<Rightarrow> [])"

definition detail_publicKey :: "credential_details \<Rightarrow> string" where
  "detail_publicKey d =
     (case d of CredentialServiceUserKey _ pk \<Rightarrow> pk
      | CredentialWebauthnDetails _ _ pk \<Rightarrow> StdEncoding_EncodeToString pk
      | _ \<Rightarrow> [])"

definition detail_credentialId :: "credential_details \<Rightarrow> string" where
  "detail_credentialId d = (case d of CredentialWebauthnDetails i _ _ \<Rightarrow> i | _ \<Rightarrow> [])"

definition Credential_matches :: "credential_filter \<Rightarrow> credential \<Rightarrow> bool go" where
  "Credential_matches f m =
    (if \<not> (filter_eq (crf_id f) (bm_id (cr_base m))
         \<and> filter_eq (crf_userId f) (cr_userId m)
         \<and> filter_eq (crf_type f) (cr_type m)
         \<and> filter_eq (crf_detailKid f) (detail_kid (cr_details m))
         \<and> filter_eq (crf_detailPublicKey f) (detail_publicKey (cr_details m))
         \<and> filter_eq (crf_detailId f) (detail_credentialId (cr_details m))) then Inr False
     else Inr True)"


definition CredentialRepository_filtered :: "(uuid \<times> credential) list \<Rightarrow> credential_filter \<Rightarrow> credential list go" where
  "CredentialRepository_filtered store f = repo_filtered (Credential_matches f) store"

definition CredentialRepository_FirstOrNil :: "(uuid \<times> credential) list \<Rightarrow> credential_filter \<Rightarrow> credential option go" where
  "CredentialRepository_FirstOrNil store f = go_bind (CredentialRepository_filtered store f) (\<lambda>items. Inr (first_of items))"

definition CredentialRepository_FirstOrErr :: "(uuid \<times> credential) list \<Rightarrow> credential_filter \<Rightarrow> credential go" where
  "CredentialRepository_FirstOrErr store f = or_err ErrCredentialNotFound (CredentialRepository_FirstOrNil store f)"

definition CredentialRepository_List :: "(uuid \<times> credential) list \<Rightarrow> credential_filter \<Rightarrow> credential list go" where
  "CredentialRepository_List store f = (CredentialRepository_filtered store f)"

lemmas credential_repo_defs [repo_defs] =
  CredentialRepository_filtered_def CredentialRepository_FirstOrNil_def CredentialRepository_FirstOrErr_def CredentialRepository_List_def Credential_matches_def

subsection \<open>Session\<close>

record session_filter =
  sef_id :: "uuid option"
  sef_virtualServerId :: "uuid option"
  sef_userId :: "uuid option"

definition NewSessionFilter :: session_filter where
  "NewSessionFilter = \<lparr>sef_id = None, sef_virtualServerId = None, sef_userId = None\<rparr>"

definition SessionFilter_Id :: "uuid \<Rightarrow> session_filter \<Rightarrow> session_filter" where
  "SessionFilter_Id v f = f\<lparr>sef_id := Some v\<rparr>"

definition SessionFilter_VirtualServerId :: "uuid \<Rightarrow> session_filter \<Rightarrow> session_filter" where
  "SessionFilter_VirtualServerId v f = f\<lparr>sef_virtualServerId := Some v\<rparr>"

definition SessionFilter_UserId :: "uuid \<Rightarrow> session_filter \<Rightarrow> session_filter" where
  "SessionFilter_UserId v f = f\<lparr>sef_userId := Some v\<rparr>"

lemmas session_filter_defs [filter_defs] =
  NewSessionFilter_def SessionFilter_Id_def SessionFilter_VirtualServerId_def SessionFilter_UserId_def

definition Session_matches :: "session_filter \<Rightarrow> session \<Rightarrow> bool go" where
  "Session_matches f m =
    (if \<not> (filter_eq (sef_id f) (bm_id (se_base m))
         \<and> filter_eq (sef_virtualServerId f) (se_virtualServerId m)
         \<and> filter_eq (sef_userId f) (se_userId m)) then Inr False
     else Inr True)"

definition SessionRepository_FirstOrNil :: "(uuid \<times> session) list \<Rightarrow> session_filter \<Rightarrow> session option go" where
  "SessionRepository_FirstOrNil store f = repo_find (Session_matches f) store"

definition SessionRepository_FirstOrErr :: "(uuid \<times> session) list \<Rightarrow> session_filter \<Rightarrow> session go" where
  "SessionRepository_FirstOrErr store f = or_err ErrSessionNotFound (SessionRepository_FirstOrNil store f)"

lemmas session_repo_defs [repo_defs] =
  SessionRepository_FirstOrNil_def SessionRepository_FirstOrErr_def Session_matches_def

subsection \<open>Project\<close>

record project_filter =
  pf_virtualServerId :: "uuid option"
  pf_slug :: "string option"
  pf_id :: "uuid option"
  pf_paging :: paging_info
  pf_order :: order_info
  pf_searchFilter :: "search_filter option"

definition NewProjectFilter :: project_filter where
  "NewProjectFilter = \<lparr>pf_virtualServerId = None, pf_slug = None, pf_id = None, pf_paging = PagingInfo 0 0, pf_order = OrderInfo [] [], pf_searchFilter = None\<rparr>"

definition ProjectFilter_VirtualServerId :: "uuid \<Rightarrow> project_filter \<Rightarrow> project_filter" where
  "ProjectFilter_VirtualServerId v f = f\<lparr>pf_virtualServerId := Some v\<rparr>"

definition ProjectFilter_Slug :: "string \<Rightarrow> project_filter \<Rightarrow> project_filter" where
  "ProjectFilter_Slug v f = f\<lparr>pf_slug := Some v\<rparr>"

definition ProjectFilter_Id :: "uuid \<Rightarrow> project_filter \<Rightarrow> project_filter" where
  "ProjectFilter_Id v f = f\<lparr>pf_id := Some v\<rparr>"

definition ProjectFilter_Search :: "search_filter \<Rightarrow> project_filter \<Rightarrow> project_filter" where
  "ProjectFilter_Search v f = f\<lparr>pf_searchFilter := Some v\<rparr>"

definition ProjectFilter_Pagination :: "int \<Rightarrow> int \<Rightarrow> project_filter \<Rightarrow> project_filter" where
  "ProjectFilter_Pagination page sz f = f\<lparr>pf_paging := PagingInfo page sz\<rparr>"

definition ProjectFilter_Order :: "string \<Rightarrow> string \<Rightarrow> project_filter \<Rightarrow> project_filter" where
  "ProjectFilter_Order orderBy orderDir f = f\<lparr>pf_order := OrderInfo orderBy orderDir\<rparr>"

lemmas project_filter_defs [filter_defs] =
  NewProjectFilter_def ProjectFilter_VirtualServerId_def ProjectFilter_Slug_def ProjectFilter_Id_def ProjectFilter_Search_def ProjectFilter_Pagination_def ProjectFilter_Order_def

definition Project_matches :: "project_filter \<Rightarrow> project \<Rightarrow> bool go" where
  "Project_matches f m =
    (if \<not> (filter_eq (pf_id f) (bm_id (p_base m))
         \<and> filter_eq (pf_virtualServerId f) (p_virtualServerId m)
         \<and> filter_eq (pf_slug f) (p_slug m)) then Inr False
     else case pf_searchFilter f of None \<Rightarrow> Inr True
       | Some sf \<Rightarrow> any_matches [p_name m, p_slug m, p_description m] sf)"

definition ProjectRepository_filtered :: "(uuid \<times> project) list \<Rightarrow> project_filter \<Rightarrow> project list go" where
  "ProjectRepository_filtered store f = repo_filtered (Project_matches f) store"

definition ProjectRepository_FirstOrNil :: "(uuid \<times> project) list \<Rightarrow> project_filter \<Rightarrow> project option go" where
  "ProjectRepository_FirstOrNil store f = go_bind (ProjectRepository_filtered store f) (\<lambda>items. Inr (first_of items))"

definition ProjectRepository_FirstOrErr :: "(uuid \<times> project) list \<Rightarrow> project_filter \<Rightarrow> project go" where
  "ProjectRepository_FirstOrErr store f = or_err ErrProjectNotFound (ProjectRepository_FirstOrNil store f)"

definition ProjectRepository_List :: "(uuid \<times> project) list \<Rightarrow> project_filter \<Rightarrow> (project list \<times> int) go" where
  "ProjectRepository_List store f = repo_page (pf_paging f) (ProjectRepository_filtered store f)"

lemmas project_repo_defs [repo_defs] =
  ProjectRepository_filtered_def ProjectRepository_FirstOrNil_def ProjectRepository_FirstOrErr_def ProjectRepository_List_def Project_matches_def

subsection \<open>Role\<close>

record role_filter =
  rof_name :: "string option"
  rof_id :: "uuid option"
  rof_virtualServerId :: "uuid option"
  rof_projectId :: "uuid option"
  rof_paging :: paging_info
  rof_order :: order_info
  rof_searchFilter :: "search_filter option"

definition NewRoleFilter :: role_filter where
  "NewRoleFilter = \<lparr>rof_name = None, rof_id = None, rof_virtualServerId = None, rof_projectId = None, rof_paging = PagingInfo 0 0, rof_order = OrderInfo [] [], rof_searchFilter = None\<rparr>"

definition RoleFilter_Name :: "string \<Rightarrow> role_filter \<Rightarrow> role_filter" where
  "RoleFilter_Name v f = f\<lparr>rof_name := Some v\<rparr>"

definition RoleFilter_Id :: "uuid \<Rightarrow> role_filter \<Rightarrow> role_filter" where
  "RoleFilter_Id v f = f\<lparr>rof_id := Some v\<rparr>"

definition RoleFilter_VirtualServerId :: "uuid \<Rightarrow> role_filter \<Rightarrow> role_filter" where
  "RoleFilter_VirtualServerId v f = f\<lparr>rof_virtualServerId := Some v\<rparr>"

definition RoleFilter_ProjectId :: "uuid \<Rightarrow> role_filter \<Rightarrow> role_filter" where
  "RoleFilter_ProjectId v f = f\<lparr>rof_projectId := Some v\<rparr>"

definition RoleFilter_Search :: "search_filter \<Rightarrow> role_filter \<Rightarrow> role_filter" where
  "RoleFilter_Search v f = f\<lparr>rof_searchFilter := Some v\<rparr>"

definition RoleFilter_Pagination :: "int \<Rightarrow> int \<Rightarrow> role_filter \<Rightarrow> role_filter" where
  "RoleFilter_Pagination page sz f = f\<lparr>rof_paging := PagingInfo page sz\<rparr>"

definition RoleFilter_Order :: "string \<Rightarrow> string \<Rightarrow> role_filter \<Rightarrow> role_filter" where
  "RoleFilter_Order orderBy orderDir f = f\<lparr>rof_order := OrderInfo orderBy orderDir\<rparr>"

lemmas role_filter_defs [filter_defs] =
  NewRoleFilter_def RoleFilter_Name_def RoleFilter_Id_def RoleFilter_VirtualServerId_def RoleFilter_ProjectId_def RoleFilter_Search_def RoleFilter_Pagination_def RoleFilter_Order_def

definition Role_matches :: "role_filter \<Rightarrow> role \<Rightarrow> bool go" where
  "Role_matches f m =
    (if \<not> (filter_eq (rof_id f) (bm_id (ro_base m))
         \<and> filter_eq (rof_name f) (ro_name m)
         \<and> filter_eq (rof_virtualServerId f) (ro_virtualServerId m)
         \<and> filter_eq (rof_projectId f) (ro_projectId m)) then Inr False
     else case rof_searchFilter f of None \<Rightarrow> Inr True
       | Some sf \<Rightarrow> any_matches [ro_name m, ro_description m] sf)"

definition RoleRepository_filtered :: "(uuid \<times> role) list \<Rightarrow> role_filter \<Rightarrow> role list go" where
  "RoleRepository_filtered store f = repo_filtered (Role_matches f) store"

definition RoleRepository_FirstOrNil :: "(uuid \<times> role) list \<Rightarrow> role_filter \<Rightarrow> role option go" where
  "RoleRepository_FirstOrNil store f = go_bind (RoleRepository_filtered store f) (\<lambda>items. Inr (first_of items))"

definition RoleRepository_FirstOrErr :: "(uuid \<times> role) list \<Rightarrow> role_filter \<Rightarrow> role go" where
  "RoleRepository_FirstOrErr store f = or_err ErrRoleNotFound (RoleRepository_FirstOrNil store f)"

definition RoleRepository_List :: "(uuid \<times> role) list \<Rightarrow> role_filter \<Rightarrow> (role list \<times> int) go" where
  "RoleRepository_List store f = repo_page (rof_paging f) (RoleRepository_filtered store f)"

lemmas role_repo_defs [repo_defs] =
  RoleRepository_filtered_def RoleRepository_FirstOrNil_def RoleRepository_FirstOrErr_def RoleRepository_List_def Role_matches_def

subsection \<open>Group\<close>

record group_filter =
  grf_name :: "string option"
  grf_virtualServerId :: "uuid option"
  grf_id :: "uuid option"
  grf_paging :: paging_info
  grf_order :: order_info
  grf_searchFilter :: "search_filter option"

definition NewGroupFilter :: group_filter where
  "NewGroupFilter = \<lparr>grf_name = None, grf_virtualServerId = None, grf_id = None, grf_paging = PagingInfo 0 0, grf_order = OrderInfo [] [], grf_searchFilter = None\<rparr>"

definition GroupFilter_Name :: "string \<Rightarrow> group_filter \<Rightarrow> group_filter" where
  "GroupFilter_Name v f = f\<lparr>grf_name := Some v\<rparr>"

definition GroupFilter_VirtualServerId :: "uuid \<Rightarrow> group_filter \<Rightarrow> group_filter" where
  "GroupFilter_VirtualServerId v f = f\<lparr>grf_virtualServerId := Some v\<rparr>"

definition GroupFilter_Id :: "uuid \<Rightarrow> group_filter \<Rightarrow> group_filter" where
  "GroupFilter_Id v f = f\<lparr>grf_id := Some v\<rparr>"

definition GroupFilter_Search :: "search_filter \<Rightarrow> group_filter \<Rightarrow> group_filter" where
  "GroupFilter_Search v f = f\<lparr>grf_searchFilter := Some v\<rparr>"

definition GroupFilter_Pagination :: "int \<Rightarrow> int \<Rightarrow> group_filter \<Rightarrow> group_filter" where
  "GroupFilter_Pagination page sz f = f\<lparr>grf_paging := PagingInfo page sz\<rparr>"

definition GroupFilter_Order :: "string \<Rightarrow> string \<Rightarrow> group_filter \<Rightarrow> group_filter" where
  "GroupFilter_Order orderBy orderDir f = f\<lparr>grf_order := OrderInfo orderBy orderDir\<rparr>"

lemmas group_filter_defs [filter_defs] =
  NewGroupFilter_def GroupFilter_Name_def GroupFilter_VirtualServerId_def GroupFilter_Id_def GroupFilter_Search_def GroupFilter_Pagination_def GroupFilter_Order_def

definition Group_matches :: "group_filter \<Rightarrow> group \<Rightarrow> bool go" where
  "Group_matches f m =
    (if \<not> (filter_eq (grf_id f) (bm_id (gr_base m))
         \<and> filter_eq (grf_name f) (gr_name m)
         \<and> filter_eq (grf_virtualServerId f) (gr_virtualServerId m)) then Inr False
     else case grf_searchFilter f of None \<Rightarrow> Inr True
       | Some sf \<Rightarrow> any_matches [gr_name m, gr_description m] sf)"

definition GroupRepository_filtered :: "(uuid \<times> group) list \<Rightarrow> group_filter \<Rightarrow> group list go" where
  "GroupRepository_filtered store f = repo_filtered (Group_matches f) store"

definition GroupRepository_FirstOrNil :: "(uuid \<times> group) list \<Rightarrow> group_filter \<Rightarrow> group option go" where
  "GroupRepository_FirstOrNil store f = go_bind (GroupRepository_filtered store f) (\<lambda>items. Inr (first_of items))"

definition GroupRepository_FirstOrErr :: "(uuid \<times> group) list \<Rightarrow> group_filter \<Rightarrow> group go" where
  "GroupRepository_FirstOrErr store f = or_err ErrGroupNotFound (GroupRepository_FirstOrNil store f)"

definition GroupRepository_List :: "(uuid \<times> group) list \<Rightarrow> group_filter \<Rightarrow> (group list \<times> int) go" where
  "GroupRepository_List store f = repo_page (grf_paging f) (GroupRepository_filtered store f)"

lemmas group_repo_defs [repo_defs] =
  GroupRepository_filtered_def GroupRepository_FirstOrNil_def GroupRepository_FirstOrErr_def GroupRepository_List_def Group_matches_def

subsection \<open>ResourceServer\<close>

record resource_server_filter =
  rsf_virtualServerId :: "uuid option"
  rsf_projectId :: "uuid option"
  rsf_id :: "uuid option"
  rsf_slug :: "string option"
  rsf_paging :: paging_info
  rsf_order :: order_info
  rsf_searchFilter :: "search_filter option"

definition NewResourceServerFilter :: resource_server_filter where
  "NewResourceServerFilter = \<lparr>rsf_virtualServerId = None, rsf_projectId = None, rsf_id = None, rsf_slug = None, rsf_paging = PagingInfo 0 0, rsf_order = OrderInfo [] [], rsf_searchFilter = None\<rparr>"

definition ResourceServerFilter_VirtualServerId :: "uuid \<Rightarrow> resource_server_filter \<Rightarrow> resource_server_filter" where
  "ResourceServerFilter_VirtualServerId v f = f\<lparr>rsf_virtualServerId := Some v\<rparr>"

definition ResourceServerFilter_ProjectId :: "uuid \<Rightarrow> resource_server_filter \<Rightarrow> resource_server_filter" where
  "ResourceServerFilter_ProjectId v f = f\<lparr>rsf_projectId := Some v\<rparr>"

definition ResourceServerFilter_Id :: "uuid \<Rightarrow> resource_server_filter \<Rightarrow> resource_server_filter" where
  "ResourceServerFilter_Id v f = f\<lparr>rsf_id := Some v\<rparr>"

definition ResourceServerFilter_Slug :: "string \<Rightarrow> resource_server_filter \<Rightarrow> resource_server_filter" where
  "ResourceServerFilter_Slug v f = f\<lparr>rsf_slug := Some v\<rparr>"

definition ResourceServerFilter_Search :: "search_filter \<Rightarrow> resource_server_filter \<Rightarrow> resource_server_filter" where
  "ResourceServerFilter_Search v f = f\<lparr>rsf_searchFilter := Some v\<rparr>"

definition ResourceServerFilter_Pagination :: "int \<Rightarrow> int \<Rightarrow> resource_server_filter \<Rightarrow> resource_server_filter" where
  "ResourceServerFilter_Pagination page sz f = f\<lparr>rsf_paging := PagingInfo page sz\<rparr>"

definition ResourceServerFilter_Order :: "string \<Rightarrow> string \<Rightarrow> resource_server_filter \<Rightarrow> resource_server_filter" where
  "ResourceServerFilter_Order orderBy orderDir f = f\<lparr>rsf_order := OrderInfo orderBy orderDir\<rparr>"

lemmas resource_server_filter_defs [filter_defs] =
  NewResourceServerFilter_def ResourceServerFilter_VirtualServerId_def ResourceServerFilter_ProjectId_def ResourceServerFilter_Id_def ResourceServerFilter_Slug_def ResourceServerFilter_Search_def ResourceServerFilter_Pagination_def ResourceServerFilter_Order_def

definition ResourceServer_matches :: "resource_server_filter \<Rightarrow> resource_server \<Rightarrow> bool go" where
  "ResourceServer_matches f m =
    (if \<not> (filter_eq (rsf_id f) (bm_id (rs_base m))
         \<and> filter_eq (rsf_slug f) (rs_slug m)
         \<and> filter_eq (rsf_virtualServerId f) (rs_virtualServerId m)
         \<and> filter_eq (rsf_projectId f) (rs_projectId m)) then Inr False
     else case rsf_searchFilter f of None \<Rightarrow> Inr True
       | Some sf \<Rightarrow> any_matches [rs_name m, rs_slug m] sf)"

definition ResourceServerRepository_filtered :: "(uuid \<times> resource_server) list \<Rightarrow> resource_server_filter \<Rightarrow> resource_server list go" where
  "ResourceServerRepository_filtered store f = repo_filtered (ResourceServer_matches f) store"

definition ResourceServerRepository_FirstOrNil :: "(uuid \<times> resource_server) list \<Rightarrow> resource_server_filter \<Rightarrow> resource_server option go" where
  "ResourceServerRepository_FirstOrNil store f = go_bind (ResourceServerRepository_filtered store f) (\<lambda>items. Inr (first_of items))"

definition ResourceServerRepository_FirstOrErr :: "(uuid \<times> resource_server) list \<Rightarrow> resource_server_filter \<Rightarrow> resource_server go" where
  "ResourceServerRepository_FirstOrErr store f = or_err ErrResourceServerNotFound (ResourceServerRepository_FirstOrNil store f)"

definition ResourceServerRepository_List :: "(uuid \<times> resource_server) list \<Rightarrow> resource_server_filter \<Rightarrow> (resource_server list \<times> int) go" where
  "ResourceServerRepository_List store f = repo_page (rsf_paging f) (ResourceServerRepository_filtered store f)"

lemmas resource_server_repo_defs [repo_defs] =
  ResourceServerRepository_filtered_def ResourceServerRepository_FirstOrNil_def ResourceServerRepository_FirstOrErr_def ResourceServerRepository_List_def ResourceServer_matches_def

subsection \<open>ResourceServerScope\<close>

record resource_server_scope_filter =
  rssf_virtualServerId :: "uuid option"
  rssf_projectId :: "uuid option"
  rssf_resourceServerId :: "uuid option"
  rssf_id :: "uuid option"
  rssf_paging :: paging_info
  rssf_order :: order_info
  rssf_searchFilter :: "search_filter option"

definition NewResourceServerScopeFilter :: resource_server_scope_filter where
  "NewResourceServerScopeFilter = \<lparr>rssf_virtualServerId = None, rssf_projectId = None, rssf_resourceServerId = None, rssf_id = None, rssf_paging = PagingInfo 0 0, rssf_order = OrderInfo [] [], rssf_searchFilter = None\<rparr>"

definition ResourceServerScopeFilter_VirtualServerId :: "uuid \<Rightarrow> resource_server_scope_filter \<Rightarrow> resource_server_scope_filter" where
  "ResourceServerScopeFilter_VirtualServerId v f = f\<lparr>rssf_virtualServerId := Some v\<rparr>"

definition ResourceServerScopeFilter_ProjectId :: "uuid \<Rightarrow> resource_server_scope_filter \<Rightarrow> resource_server_scope_filter" where
  "ResourceServerScopeFilter_ProjectId v f = f\<lparr>rssf_projectId := Some v\<rparr>"

definition ResourceServerScopeFilter_ResourceServerId :: "uuid \<Rightarrow> resource_server_scope_filter \<Rightarrow> resource_server_scope_filter" where
  "ResourceServerScopeFilter_ResourceServerId v f = f\<lparr>rssf_resourceServerId := Some v\<rparr>"

definition ResourceServerScopeFilter_Id :: "uuid \<Rightarrow> resource_server_scope_filter \<Rightarrow> resource_server_scope_filter" where
  "ResourceServerScopeFilter_Id v f = f\<lparr>rssf_id := Some v\<rparr>"

definition ResourceServerScopeFilter_Search :: "search_filter \<Rightarrow> resource_server_scope_filter \<Rightarrow> resource_server_scope_filter" where
  "ResourceServerScopeFilter_Search v f = f\<lparr>rssf_searchFilter := Some v\<rparr>"

definition ResourceServerScopeFilter_Pagination :: "int \<Rightarrow> int \<Rightarrow> resource_server_scope_filter \<Rightarrow> resource_server_scope_filter" where
  "ResourceServerScopeFilter_Pagination page sz f = f\<lparr>rssf_paging := PagingInfo page sz\<rparr>"

definition ResourceServerScopeFilter_Order :: "string \<Rightarrow> string \<Rightarrow> resource_server_scope_filter \<Rightarrow> resource_server_scope_filter" where
  "ResourceServerScopeFilter_Order orderBy orderDir f = f\<lparr>rssf_order := OrderInfo orderBy orderDir\<rparr>"

lemmas resource_server_scope_filter_defs [filter_defs] =
  NewResourceServerScopeFilter_def ResourceServerScopeFilter_VirtualServerId_def ResourceServerScopeFilter_ProjectId_def ResourceServerScopeFilter_ResourceServerId_def ResourceServerScopeFilter_Id_def ResourceServerScopeFilter_Search_def ResourceServerScopeFilter_Pagination_def ResourceServerScopeFilter_Order_def

definition ResourceServerScope_matches :: "resource_server_scope_filter \<Rightarrow> resource_server_scope \<Rightarrow> bool go" where
  "ResourceServerScope_matches f m =
    (if \<not> (filter_eq (rssf_id f) (bm_id (rss_base m))
         \<and> filter_eq (rssf_virtualServerId f) (rss_virtualServerId m)
         \<and> filter_eq (rssf_projectId f) (rss_projectId m)
         \<and> filter_eq (rssf_resourceServerId f) (rss_resourceServerId m)) then Inr False
     else case rssf_searchFilter f of None \<Rightarrow> Inr True
       | Some sf \<Rightarrow> any_matches [rss_name m, rss_scope m] sf)"

definition ResourceServerScopeRepository_filtered :: "(uuid \<times> resource_server_scope) list \<Rightarrow> resource_server_scope_filter \<Rightarrow> resource_server_scope list go" where
  "ResourceServerScopeRepository_filtered store f = repo_filtered (ResourceServerScope_matches f) store"

definition ResourceServerScopeRepository_FirstOrNil :: "(uuid \<times> resource_server_scope) list \<Rightarrow> resource_server_scope_filter \<Rightarrow> resource_server_scope option go" where
  "ResourceServerScopeRepository_FirstOrNil store f = go_bind (ResourceServerScopeRepository_filtered store f) (\<lambda>items. Inr (first_of items))"

definition ResourceServerScopeRepository_FirstOrErr :: "(uuid \<times> resource_server_scope) list \<Rightarrow> resource_server_scope_filter \<Rightarrow> resource_server_scope go" where
  "ResourceServerScopeRepository_FirstOrErr store f = or_err ErrResourceServerScopeNotFound (ResourceServerScopeRepository_FirstOrNil store f)"

definition ResourceServerScopeRepository_List :: "(uuid \<times> resource_server_scope) list \<Rightarrow> resource_server_scope_filter \<Rightarrow> (resource_server_scope list \<times> int) go" where
  "ResourceServerScopeRepository_List store f = repo_page (rssf_paging f) (ResourceServerScopeRepository_filtered store f)"

lemmas resource_server_scope_repo_defs [repo_defs] =
  ResourceServerScopeRepository_filtered_def ResourceServerScopeRepository_FirstOrNil_def ResourceServerScopeRepository_FirstOrErr_def ResourceServerScopeRepository_List_def ResourceServerScope_matches_def

subsection \<open>PasswordRule\<close>

record password_rule_filter =
  prf_virtualServerId :: "uuid option"
  prf_type :: "password_rule_type option"

definition NewPasswordRuleFilter :: password_rule_filter where
  "NewPasswordRuleFilter = \<lparr>prf_virtualServerId = None, prf_type = None\<rparr>"

definition PasswordRuleFilter_VirtualServerId :: "uuid \<Rightarrow> password_rule_filter \<Rightarrow> password_rule_filter" where
  "PasswordRuleFilter_VirtualServerId v f = f\<lparr>prf_virtualServerId := Some v\<rparr>"

definition PasswordRuleFilter_Type :: "password_rule_type \<Rightarrow> password_rule_filter \<Rightarrow> password_rule_filter" where
  "PasswordRuleFilter_Type v f = f\<lparr>prf_type := Some v\<rparr>"

lemmas password_rule_filter_defs [filter_defs] =
  NewPasswordRuleFilter_def PasswordRuleFilter_VirtualServerId_def PasswordRuleFilter_Type_def

definition PasswordRule_matches :: "password_rule_filter \<Rightarrow> password_rule \<Rightarrow> bool go" where
  "PasswordRule_matches f m =
    (if \<not> (filter_eq (prf_virtualServerId f) (pr_virtualServerId m)
         \<and> filter_eq (prf_type f) (pr_type m)) then Inr False
     else Inr True)"

definition PasswordRuleRepository_filtered :: "(uuid \<times> password_rule) list \<Rightarrow> password_rule_filter \<Rightarrow> password_rule list go" where
  "PasswordRuleRepository_filtered store f = repo_filtered (PasswordRule_matches f) store"

definition PasswordRuleRepository_FirstOrNil :: "(uuid \<times> password_rule) list \<Rightarrow> password_rule_filter \<Rightarrow> password_rule option go" where
  "PasswordRuleRepository_FirstOrNil store f = go_bind (PasswordRuleRepository_filtered store f) (\<lambda>items. Inr (first_of items))"

definition PasswordRuleRepository_FirstOrErr :: "(uuid \<times> password_rule) list \<Rightarrow> password_rule_filter \<Rightarrow> password_rule go" where
  "PasswordRuleRepository_FirstOrErr store f = or_err ErrPasswordRuleNotFound (PasswordRuleRepository_FirstOrNil store f)"

definition PasswordRuleRepository_List :: "(uuid \<times> password_rule) list \<Rightarrow> password_rule_filter \<Rightarrow> password_rule list go" where
  "PasswordRuleRepository_List store f = (PasswordRuleRepository_filtered store f)"

lemmas password_rule_repo_defs [repo_defs] =
  PasswordRuleRepository_filtered_def PasswordRuleRepository_FirstOrNil_def PasswordRuleRepository_FirstOrErr_def PasswordRuleRepository_List_def PasswordRule_matches_def

subsection \<open>Template\<close>

record template_filter =
  tef_virtualServerId :: "uuid option"
  tef_templateType :: "string option"
  tef_paging :: paging_info
  tef_order :: order_info
  tef_searchFilter :: "search_filter option"

definition NewTemplateFilter :: template_filter where
  "NewTemplateFilter = \<lparr>tef_virtualServerId = None, tef_templateType = None, tef_paging = PagingInfo 0 0, tef_order = OrderInfo [] [], tef_searchFilter = None\<rparr>"

definition TemplateFilter_VirtualServerId :: "uuid \<Rightarrow> template_filter \<Rightarrow> template_filter" where
  "TemplateFilter_VirtualServerId v f = f\<lparr>tef_virtualServerId := Some v\<rparr>"

definition TemplateFilter_TemplateType :: "string \<Rightarrow> template_filter \<Rightarrow> template_filter" where
  "TemplateFilter_TemplateType v f = f\<lparr>tef_templateType := Some v\<rparr>"

definition TemplateFilter_Pagination :: "int \<Rightarrow> int \<Rightarrow> template_filter \<Rightarrow> template_filter" where
  "TemplateFilter_Pagination page sz f = f\<lparr>tef_paging := PagingInfo page sz\<rparr>"

definition TemplateFilter_Order :: "string \<Rightarrow> string \<Rightarrow> template_filter \<Rightarrow> template_filter" where
  "TemplateFilter_Order orderBy orderDir f = f\<lparr>tef_order := OrderInfo orderBy orderDir\<rparr>"

definition TemplateFilter_Search :: "search_filter \<Rightarrow> template_filter \<Rightarrow> template_filter" where
  "TemplateFilter_Search v f = f\<lparr>tef_searchFilter := Some v\<rparr>"

lemmas template_filter_defs [filter_defs] =
  NewTemplateFilter_def TemplateFilter_VirtualServerId_def TemplateFilter_TemplateType_def TemplateFilter_Pagination_def TemplateFilter_Order_def TemplateFilter_Search_def

definition Template_matches :: "template_filter \<Rightarrow> template \<Rightarrow> bool go" where
  "Template_matches f m =
    (if \<not> (filter_eq (tef_virtualServerId f) (te_virtualServerId m)
         \<and> filter_eq (tef_templateType f) (te_templateType m)) then Inr False
     else Inr True)"

definition TemplateRepository_filtered :: "(uuid \<times> template) list \<Rightarrow> template_filter \<Rightarrow> template list go" where
  "TemplateRepository_filtered store f = repo_filtered (Template_matches f) store"

definition TemplateRepository_FirstOrNil :: "(uuid \<times> template) list \<Rightarrow> template_filter \<Rightarrow> template option go" where
  "TemplateRepository_FirstOrNil store f = go_bind (TemplateRepository_filtered store f) (\<lambda>items. Inr (first_of items))"

definition TemplateRepository_FirstOrErr :: "(uuid \<times> template) list \<Rightarrow> template_filter \<Rightarrow> template go" where
  "TemplateRepository_FirstOrErr store f = or_err ErrTemplateNotFound (TemplateRepository_FirstOrNil store f)"

definition TemplateRepository_List :: "(uuid \<times> template) list \<Rightarrow> template_filter \<Rightarrow> (template list \<times> int) go" where
  "TemplateRepository_List store f = repo_page (tef_paging f) (TemplateRepository_filtered store f)"

lemmas template_repo_defs [repo_defs] =
  TemplateRepository_filtered_def TemplateRepository_FirstOrNil_def TemplateRepository_FirstOrErr_def TemplateRepository_List_def Template_matches_def

subsection \<open>File\<close>

record file_entity_filter =
  fif_id :: "uuid option"

definition NewFileFilter :: file_entity_filter where
  "NewFileFilter = \<lparr>fif_id = None\<rparr>"

definition FileFilter_Id :: "uuid \<Rightarrow> file_entity_filter \<Rightarrow> file_entity_filter" where
  "FileFilter_Id v f = f\<lparr>fif_id := Some v\<rparr>"

lemmas file_entity_filter_defs [filter_defs] =
  NewFileFilter_def FileFilter_Id_def

definition File_matches :: "file_entity_filter \<Rightarrow> file_entity \<Rightarrow> bool go" where
  "File_matches f m =
    (if \<not> (filter_eq (fif_id f) (bm_id (fi_base m))) then Inr False
     else Inr True)"

definition FileRepository_FirstOrNil :: "(uuid \<times> file_entity) list \<Rightarrow> file_entity_filter \<Rightarrow> file_entity option go" where
  "FileRepository_FirstOrNil store f = repo_find (File_matches f) store"

definition FileRepository_FirstOrErr :: "(uuid \<times> file_entity) list \<Rightarrow> file_entity_filter \<Rightarrow> file_entity go" where
  "FileRepository_FirstOrErr store f = or_err ErrFileNotFoud (FileRepository_FirstOrNil store f)"

lemmas file_entity_repo_defs [repo_defs] =
  FileRepository_FirstOrNil_def FileRepository_FirstOrErr_def File_matches_def

subsection \<open>ApplicationUserMetadata\<close>

record application_user_metadata_filter =
  aumf_applicationId :: "uuid option"
  aumf_applicationIds :: "(uuid list) option"
  aumf_userId :: "uuid option"

definition NewApplicationUserMetadataFilter :: application_user_metadata_filter where
  "NewApplicationUserMetadataFilter = \<lparr>aumf_applicationId = None, aumf_applicationIds = None, aumf_userId = None\<rparr>"

definition ApplicationUserMetadataFilter_ApplicationId :: "uuid \<Rightarrow> application_user_metadata_filter \<Rightarrow> application_user_metadata_filter" where
  "ApplicationUserMetadataFilter_ApplicationId v f = f\<lparr>aumf_applicationId := Some v\<rparr>"

definition ApplicationUserMetadataFilter_ApplicationIds :: "(uuid list) \<Rightarrow> application_user_metadata_filter \<Rightarrow> application_user_metadata_filter" where
  "ApplicationUserMetadataFilter_ApplicationIds v f = f\<lparr>aumf_applicationIds := Some v\<rparr>"

definition ApplicationUserMetadataFilter_UserId :: "uuid \<Rightarrow> application_user_metadata_filter \<Rightarrow> application_user_metadata_filter" where
  "ApplicationUserMetadataFilter_UserId v f = f\<lparr>aumf_userId := Some v\<rparr>"

lemmas application_user_metadata_filter_defs [filter_defs] =
  NewApplicationUserMetadataFilter_def ApplicationUserMetadataFilter_ApplicationId_def ApplicationUserMetadataFilter_ApplicationIds_def ApplicationUserMetadataFilter_UserId_def

definition ApplicationUserMetadata_matches :: "application_user_metadata_filter \<Rightarrow> application_user_metadata \<Rightarrow> bool go" where
  "ApplicationUserMetadata_matches f m =
    (if \<not> (filter_eq (aumf_applicationId f) (aum_applicationId m)
         \<and> filter_in (aumf_applicationIds f) (aum_applicationId m)
         \<and> filter_eq (aumf_userId f) (aum_userId m)) then Inr False
     else Inr True)"

definition ApplicationUserMetadataRepository_filtered :: "(uuid \<times> application_user_metadata) list \<Rightarrow> application_user_metadata_filter \<Rightarrow> application_user_metadata list go" where
  "ApplicationUserMetadataRepository_filtered store f = repo_filtered (ApplicationUserMetadata_matches f) store"

definition ApplicationUserMetadataRepository_FirstOrNil :: "(uuid \<times> application_user_metadata) list \<Rightarrow> application_user_metadata_filter \<Rightarrow> application_user_metadata option go" where
  "ApplicationUserMetadataRepository_FirstOrNil store f = go_bind (ApplicationUserMetadataRepository_filtered store f) (\<lambda>items. Inr (first_of items))"

definition ApplicationUserMetadataRepository_FirstOrErr :: "(uuid \<times> application_user_metadata) list \<Rightarrow> application_user_metadata_filter \<Rightarrow> application_user_metadata go" where
  "ApplicationUserMetadataRepository_FirstOrErr store f = or_err ErrUserApplicationMetadataNotFound (ApplicationUserMetadataRepository_FirstOrNil store f)"

definition ApplicationUserMetadataRepository_List :: "(uuid \<times> application_user_metadata) list \<Rightarrow> application_user_metadata_filter \<Rightarrow> application_user_metadata list go" where
  "ApplicationUserMetadataRepository_List store f = (ApplicationUserMetadataRepository_filtered store f)"

lemmas application_user_metadata_repo_defs [repo_defs] =
  ApplicationUserMetadataRepository_filtered_def ApplicationUserMetadataRepository_FirstOrNil_def ApplicationUserMetadataRepository_FirstOrErr_def ApplicationUserMetadataRepository_List_def ApplicationUserMetadata_matches_def

subsection \<open>OutboxMessage\<close>

record outbox_message_filter =
  obf_id :: "uuid option"

definition NewOutboxMessageFilter :: outbox_message_filter where
  "NewOutboxMessageFilter = \<lparr>obf_id = None\<rparr>"

definition OutboxMessageFilter_Id :: "uuid \<Rightarrow> outbox_message_filter \<Rightarrow> outbox_message_filter" where
  "OutboxMessageFilter_Id v f = f\<lparr>obf_id := Some v\<rparr>"

lemmas outbox_message_filter_defs [filter_defs] =
  NewOutboxMessageFilter_def OutboxMessageFilter_Id_def

definition OutboxMessage_matches :: "outbox_message_filter \<Rightarrow> outbox_message \<Rightarrow> bool go" where
  "OutboxMessage_matches f m =
    (if \<not> (filter_eq (obf_id f) (bm_id (ob_base m))) then Inr False
     else Inr True)"

definition OutboxMessageRepository_List :: "(uuid \<times> outbox_message) list \<Rightarrow> outbox_message_filter \<Rightarrow> outbox_message list go" where
  "OutboxMessageRepository_List store f = (repo_filtered (OutboxMessage_matches f) store)"

lemmas outbox_message_repo_defs [repo_defs] =
  OutboxMessageRepository_List_def OutboxMessage_matches_def

subsection \<open>AuditLog\<close>

record audit_log_filter =
  alf_virtualServerId :: "uuid option"
  alf_userId :: "uuid option"
  alf_paging :: paging_info
  alf_order :: order_info

definition NewAuditLogFilter :: audit_log_filter where
  "NewAuditLogFilter = \<lparr>alf_virtualServerId = None, alf_userId = None, alf_paging = PagingInfo 0 0, alf_order = OrderInfo [] []\<rparr>"

definition AuditLogFilter_VirtualServerId :: "uuid \<Rightarrow> audit_log_filter \<Rightarrow> audit_log_filter" where
  "AuditLogFilter_VirtualServerId v f = f\<lparr>alf_virtualServerId := Some v\<rparr>"

definition AuditLogFilter_UserId :: "uuid \<Rightarrow> audit_log_filter \<Rightarrow> audit_log_filter" where
  "AuditLogFilter_UserId v f = f\<lparr>alf_userId := Some v\<rparr>"

definition AuditLogFilter_Pagination :: "int \<Rightarrow> int \<Rightarrow> audit_log_filter \<Rightarrow> audit_log_filter" where
  "AuditLogFilter_Pagination page sz f = f\<lparr>alf_paging := PagingInfo page sz\<rparr>"

definition AuditLogFilter_Order :: "string \<Rightarrow> string \<Rightarrow> audit_log_filter \<Rightarrow> audit_log_filter" where
  "AuditLogFilter_Order orderBy orderDir f = f\<lparr>alf_order := OrderInfo orderBy orderDir\<rparr>"

lemmas audit_log_filter_defs [filter_defs] =
  NewAuditLogFilter_def AuditLogFilter_VirtualServerId_def AuditLogFilter_UserId_def AuditLogFilter_Pagination_def AuditLogFilter_Order_def

definition AuditLog_matches :: "audit_log_filter \<Rightarrow> audit_log \<Rightarrow> bool go" where
  "AuditLog_matches f m =
    (if \<not> (filter_eq (alf_virtualServerId f) (al_virtualServerId m)
         \<and> filter_opt (alf_userId f) (al_userId m)) then Inr False
     else Inr True)"

definition AuditLogRepository_List :: "(uuid \<times> audit_log) list \<Rightarrow> audit_log_filter \<Rightarrow> (audit_log list \<times> int) go" where
  "AuditLogRepository_List store f = repo_page (alf_paging f) (repo_filtered (AuditLog_matches f) store)"

lemmas audit_log_repo_defs [repo_defs] =
  AuditLogRepository_List_def AuditLog_matches_def


subsection \<open>UserRoleAssignment\<close>

record user_role_assignment_filter =
  uraf_userId :: "uuid option"
  uraf_roleId :: "uuid option"
  uraf_groupId :: "uuid option"
  uraf_includeUser :: bool
  uraf_includeRole :: bool

definition NewUserRoleAssignmentFilter :: user_role_assignment_filter where
  "NewUserRoleAssignmentFilter = \<lparr>uraf_userId = None, uraf_roleId = None, uraf_groupId = None, uraf_includeUser = False, uraf_includeRole = False\<rparr>"

definition UserRoleAssignmentFilter_UserId :: "uuid \<Rightarrow> user_role_assignment_filter \<Rightarrow> user_role_assignment_filter" where
  "UserRoleAssignmentFilter_UserId v f = f\<lparr>uraf_userId := Some v\<rparr>"

definition UserRoleAssignmentFilter_RoleId :: "uuid \<Rightarrow> user_role_assignment_filter \<Rightarrow> user_role_assignment_filter" where
  "UserRoleAssignmentFilter_RoleId v f = f\<lparr>uraf_roleId := Some v\<rparr>"

definition UserRoleAssignmentFilter_GroupId :: "uuid \<Rightarrow> user_role_assignment_filter \<Rightarrow> user_role_assignment_filter" where
  "UserRoleAssignmentFilter_GroupId v f = f\<lparr>uraf_groupId := Some v\<rparr>"

definition UserRoleAssignmentFilter_IncludeUser :: "user_role_assignment_filter \<Rightarrow> user_role_assignment_filter" where
  "UserRoleAssignmentFilter_IncludeUser f = f\<lparr>uraf_includeUser := True\<rparr>"

definition UserRoleAssignmentFilter_IncludeRole :: "user_role_assignment_filter \<Rightarrow> user_role_assignment_filter" where
  "UserRoleAssignmentFilter_IncludeRole f = f\<lparr>uraf_includeRole := True\<rparr>"

lemmas user_role_assignment_filter_defs [filter_defs] =
  NewUserRoleAssignmentFilter_def UserRoleAssignmentFilter_UserId_def UserRoleAssignmentFilter_RoleId_def UserRoleAssignmentFilter_GroupId_def UserRoleAssignmentFilter_IncludeUser_def UserRoleAssignmentFilter_IncludeRole_def

definition UserRoleAssignment_matches :: "user_role_assignment_filter \<Rightarrow> user_role_assignment \<Rightarrow> bool go" where
  "UserRoleAssignment_matches f m =
    (if \<not> (filter_eq (uraf_userId f) (ura_userId m)
         \<and> filter_eq (uraf_roleId f) (ura_roleId m)
         \<and> filter_opt (uraf_groupId f) (ura_groupId m)) then Inr False
     else Inr True)"

end
