(* ===== verification/MemoryDb.thy ===== *)
theory MemoryDb
  imports Repositories
begin

text \<open>
  The in-memory database (\<^verbatim>\<open>internal/database/memory\<close>) and the change tracker
  (\<^verbatim>\<open>internal/change/tracker.go\<close>): a context collects entries and
  \<^verbatim>\<open>SaveChanges\<close> writes them to the shared stores, in order, under the lock of
  the stores. An entry holds the entity as it is when it is handed to
  \<^verbatim>\<open>Insert\<close> or \<^verbatim>\<open>Update\<close>. The section on the abstract database
  relates the eighteen stores to one map from entity types and identifiers to entities.
\<close>

section \<open>Entity types and items (database/context.go)\<close>

datatype entity_type =
    ApplicationEntityType
  | ApplicationUserMetadataEntityType
  | AuditLogEntityType
  | CredentialEntityType
  | FileEntityType
  | GroupRoleEntityType
  | GroupEntityType
  | OutboxMessageEntityType
  | PasswordRuleEntityType
  | ProjectEntityType
  | ResourceServerEntityType
  | ResourceServerScopeEntityType
  | RoleEntityType
  | SessionEntityType
  | TemplateEntityType
  | UserRoleAssignmentEntityType
  | UserEntityType
  | VirtualServerEntityType
  | OtherEntityType int

datatype item =
    ItemApplication application
  | ItemApplicationUserMetadata application_user_metadata
  | ItemAuditLog audit_log
  | ItemCredential credential
  | ItemFile file_entity
  | ItemGroupRole group_role
  | ItemGroup group
  | ItemOutboxMessage outbox_message
  | ItemPasswordRule password_rule
  | ItemProject project
  | ItemResourceServer resource_server
  | ItemResourceServerScope resource_server_scope
  | ItemRole role
  | ItemSession session
  | ItemTemplate template
  | ItemUserRoleAssignment user_role_assignment
  | ItemUser user
  | ItemVirtualServer virtual_server
  | ItemId uuid

definition as_Application :: "item \<Rightarrow> application option" where
  "as_Application it = (case it of ItemApplication e \<Rightarrow> Some e | _ \<Rightarrow> None)"

definition as_ApplicationUserMetadata :: "item \<Rightarrow> application_user_metadata option" where
  "as_ApplicationUserMetadata it = (case it of ItemApplicationUserMetadata e \<Rightarrow> Some e | _ \<Rightarrow> None)"

definition as_AuditLog :: "item \<Rightarrow> audit_log option" where
  "as_AuditLog it = (case it of ItemAuditLog e \<Rightarrow> Some e | _ \<Rightarrow> None)"

definition as_Credential :: "item \<Rightarrow> credential option" where
  "as_Credential it = (case it of ItemCredential e \<Rightarrow> Some e | _ \<Rightarrow> None)"

definition as_File :: "item \<Rightarrow> file_entity option" where
  "as_File it = (case it of ItemFile e \<Rightarrow> Some e | _ \<Rightarrow> None)"

definition as_GroupRole :: "item \<Rightarrow> group_role option" where
  "as_GroupRole it = (case it of ItemGroupRole e \<Rightarrow> Some e | _ \<Rightarrow> None)"

definition as_Group :: "item \<Rightarrow> group option" where
  "as_Group it = (case it of ItemGroup e \<Rightarrow> Some e | _ \<Rightarrow> None)"

definition as_OutboxMessage :: "item \<Rightarrow> outbox_message option" where
  "as_OutboxMessage it = (case it of ItemOutboxMessage e \<Rightarrow> Some e | _ \<Rightarrow> None)"

definition as_PasswordRule :: "item \<Rightarrow> password_rule option" where
  "as_PasswordRule it = (case it of ItemPasswordRule e \<Rightarrow> Some e | _ \<Rightarrow> None)"

definition as_Project :: "item \<Rightarrow> project option" where
  "as_Project it = (case it of ItemProject e \<Rightarrow> Some e | _ \<Rightarrow> None)"

definition as_ResourceServer :: "item \<Rightarrow> resource_server option" where
  "as_ResourceServer it = (case it of ItemResourceServer e \<Rightarrow> Some e | _ \<Rightarrow> None)"

definition as_ResourceServerScope :: "item \<Rightarrow> resource_server_scope option" where
  "as_ResourceServerScope it = (case it of ItemResourceServerScope e \<Rightarrow> Some e | _ \<Rightarrow> None)"

definition as_Role :: "item \<Rightarrow> role option" where
  "as_Role it = (case it of ItemRole e \<Rightarrow> Some e | _ \<Rightarrow> None)"

definition as_Session :: "item \<Rightarrow> session option" where
  "as_Session it = (case it of ItemSession e \<Rightarrow> Some e | _ \<Rightarrow> None)"

definition as_Template :: "item \<Rightarrow> template option" where
  "as_Template it = (case it of ItemTemplate e \<Rightarrow> Some e | _ \<Rightarrow> None)"

definition as_UserRoleAssignment :: "item \<Rightarrow> user_role_assignment option" where
  "as_UserRoleAssignment it = (case it of ItemUserRoleAssignment e \<Rightarrow> Some e | _ \<Rightarrow> None)"

definition as_User :: "item \<Rightarrow> user option" where
  "as_User it = (case it of ItemUser e \<Rightarrow> Some e | _ \<Rightarrow> None)"

definition as_VirtualServer :: "item \<Rightarrow> virtual_server option" where
  "as_VirtualServer it = (case it of ItemVirtualServer e \<Rightarrow> Some e | _ \<Rightarrow> None)"

text \<open>The type assertion \<^verbatim>\<open>ch.GetItem().(uuid.UUID)\<close>.\<close>

definition as_Id :: "item \<Rightarrow> uuid option" where
  "as_Id it = (case it of ItemId i \<Rightarrow> Some i | _ \<Rightarrow> None)"

lemmas as_item_defs = as_Id_def as_Application_def as_ApplicationUserMetadata_def as_AuditLog_def as_Credential_def as_File_def as_GroupRole_def as_Group_def as_OutboxMessage_def as_PasswordRule_def as_Project_def as_ResourceServer_def as_ResourceServerScope_def as_Role_def as_Session_def as_Template_def as_UserRoleAssignment_def as_User_def as_VirtualServer_def

section \<open>The change tracker (change/tracker.go)\<close>

datatype change_type = Added | Updated | Deleted | OtherChangeType int

datatype entry = NewEntry (ch_changeType: change_type) (ch_itemType: entity_type) (ch_item: item)

type_synonym tracker = "entry list"

definition NewTracker :: tracker where
  "NewTracker = []"

definition Tracker_Add :: "entry \<Rightarrow> tracker \<Rightarrow> tracker" where
  "Tracker_Add e t = t @ [e]"

definition Tracker_GetChanges :: "tracker \<Rightarrow> entry list" where
  "Tracker_GetChanges t = t"

definition Tracker_Clear :: "tracker \<Rightarrow> tracker" where
  "Tracker_Clear t = []"

section \<open>Stores (memory/database.go)\<close>

record stores =
  st_Applications :: "(uuid \<times> application) list"
  st_ApplicationUserMetadata :: "(uuid \<times> application_user_metadata) list"
  st_AuditLogs :: "(uuid \<times> audit_log) list"
  st_Credentials :: "(uuid \<times> credential) list"
  st_Files :: "(uuid \<times> file_entity) list"
  st_GroupRoles :: "(uuid \<times> group_role) list"
  st_Groups :: "(uuid \<times> group) list"
  st_OutboxMessages :: "(uuid \<times> outbox_message) list"
  st_PasswordRules :: "(uuid \<times> password_rule) list"
  st_Projects :: "(uuid \<times> project) list"
  st_ResourceServers :: "(uuid \<times> resource_server) list"
  st_ResourceServerScopes :: "(uuid \<times> resource_server_scope) list"
  st_Roles :: "(uuid \<times> role) list"
  st_Sessions :: "(uuid \<times> session) list"
  st_Templates :: "(uuid \<times> template) list"
  st_UserRoleAssignments :: "(uuid \<times> user_role_assignment) list"
  st_Users :: "(uuid \<times> user) list"
  st_VirtualServers :: "(uuid \<times> virtual_server) list"

definition newStores :: stores where
  "newStores = \<lparr>st_Applications = [], st_ApplicationUserMetadata = [], st_AuditLogs = [], st_Credentials = [], st_Files = [], st_GroupRoles = [], st_Groups = [], st_OutboxMessages = [], st_PasswordRules = [], st_Projects = [], st_ResourceServers = [], st_ResourceServerScopes = [], st_Roles = [], st_Sessions = [], st_Templates = [], st_UserRoleAssignments = [], st_Users = [], st_VirtualServers = []\<rparr>"

section \<open>Writing an entry (memory/context.go)\<close>

text \<open>The version is a Go \<^verbatim>\<open>int\<close>, so the increment wraps.\<close>

definition incrementVersion :: "version \<Rightarrow> int" where
  "incrementVersion v = (case v of VersionInt i \<Rightarrow> wrap64 (i + 1) | _ \<Rightarrow> 1)"

text \<open>What the callbacks \<^verbatim>\<open>onWrite\<close> and \<^verbatim>\<open>onInsert\<close> make of an entity.\<close>

definition written_Application :: "application \<Rightarrow> application" where
  "written_Application e =
     e\<lparr>app_base := SetVersion (VersionInt (incrementVersion (bm_version (app_base e)))) (app_base e),
       app_changes := ClearChanges (app_changes e)\<rparr>"

definition written_ApplicationUserMetadata :: "application_user_metadata \<Rightarrow> application_user_metadata" where
  "written_ApplicationUserMetadata e =
     e\<lparr>aum_base := SetVersion (VersionInt (incrementVersion (bm_version (aum_base e)))) (aum_base e),
       aum_changes := ClearChanges (aum_changes e)\<rparr>"

definition written_AuditLog :: "audit_log \<Rightarrow> audit_log" where
  "written_AuditLog e =
     e\<lparr>al_base := SetVersion (VersionInt 1) (al_base e)\<rparr>"

definition written_Credential :: "credential \<Rightarrow> credential" where
  "written_Credential e =
     e\<lparr>cr_base := SetVersion (VersionInt (incrementVersion (bm_version (cr_base e)))) (cr_base e),
       cr_changes := ClearChanges (cr_changes e)\<rparr>"

definition written_File :: "file_entity \<Rightarrow> file_entity" where
  "written_File e =
     e\<lparr>fi_base := SetVersion (VersionInt 1) (fi_base e)\<rparr>"

definition written_Group :: "group \<Rightarrow> group" where
  "written_Group e =
     e\<lparr>gr_base := SetVersion (VersionInt (incrementVersion (bm_version (gr_base e)))) (gr_base e),
       gr_changes := ClearChanges (gr_changes e)\<rparr>"

definition written_OutboxMessage :: "outbox_message \<Rightarrow> outbox_message" where
  "written_OutboxMessage e =
     e\<lparr>ob_base := SetVersion (VersionInt 1) (ob_base e)\<rparr>"

definition written_PasswordRule :: "password_rule \<Rightarrow> password_rule" where
  "written_PasswordRule e =
     e\<lparr>pr_base := SetVersion (VersionInt (incrementVersion (bm_version (pr_base e)))) (pr_base e),
       pr_changes := ClearChanges (pr_changes e)\<rparr>"

definition written_Project :: "project \<Rightarrow> project" where
  "written_Project e =
     e\<lparr>p_base := SetVersion (VersionInt (incrementVersion (bm_version (p_base e)))) (p_base e),
       p_changes := ClearChanges (p_changes e)\<rparr>"

definition written_ResourceServer :: "resource_server \<Rightarrow> resource_server" where
  "written_ResourceServer e =
     e\<lparr>rs_base := SetVersion (VersionInt (incrementVersion (bm_version (rs_base e)))) (rs_base e),
       rs_changes := ClearChanges (rs_changes e)\<rparr>"

definition written_ResourceServerScope :: "resource_server_scope \<Rightarrow> resource_server_scope" where
  "written_ResourceServerScope e =
     e\<lparr>rss_base := SetVersion (VersionInt (incrementVersion (bm_version (rss_base e)))) (rss_base e),
       rss_changes := ClearChanges (rss_changes e)\<rparr>"

definition written_Role :: "role \<Rightarrow> role" where
  "written_Role e =
     e\<lparr>ro_base := SetVersion (VersionInt (incrementVersion (bm_version (ro_base e)))) (ro_base e),
       ro_changes := ClearChanges (ro_changes e)\<rparr>"

definition written_Session :: "session \<Rightarrow> session" where
  "written_Session e =
     e\<lparr>se_base := SetVersion (VersionInt 1) (se_base e)\<rparr>"

definition written_Template :: "template \<Rightarrow> template" where
  "written_Template e =
     e\<lparr>te_base := SetVersion (VersionInt 1) (te_base e)\<rparr>"

definition written_UserRoleAssignment :: "user_role_assignment \<Rightarrow> user_role_assignment" where
  "written_UserRoleAssignment e =
     e\<lparr>ura_base := SetVersion (VersionInt 1) (ura_base e)\<rparr>"

definition written_User :: "user \<Rightarrow> user" where
  "written_User e =
     e\<lparr>u_base := SetVersion (VersionInt (incrementVersion (bm_version (u_base e)))) (u_base e),
       u_changes := ClearChanges (u_changes e)\<rparr>"

definition written_VirtualServer :: "virtual_server \<Rightarrow> virtual_server" where
  "written_VirtualServer e =
     e\<lparr>vs_base := SetVersion (VersionInt (incrementVersion (bm_version (vs_base e)))) (vs_base e),
       vs_changes := ClearChanges (vs_changes e)\<rparr>"

lemmas written_defs = written_Application_def written_ApplicationUserMetadata_def written_AuditLog_def written_Credential_def written_File_def written_Group_def written_OutboxMessage_def written_PasswordRule_def written_Project_def written_ResourceServer_def written_ResourceServerScope_def written_Role_def written_Session_def written_Template_def written_UserRoleAssignment_def written_User_def written_VirtualServer_def

text \<open>A type assertion without the second result panics when it fails.\<close>

definition type_assert :: "'e option \<Rightarrow> 'e go" where
  "type_assert x = (case x of Some e \<Rightarrow> Inr e | None \<Rightarrow> Inl (Panic ''interface conversion''))"

lemma type_assert_simps [simp, go_simps]:
  "type_assert (Some e) = Inr e" "type_assert None = Inl (Panic ''interface conversion'')"
  by (simp_all add: type_assert_def)

lemma type_assert_Inr_iff [simp]: "type_assert x = Inr e \<longleftrightarrow> x = Some e"
  by (cases x) auto

definition unsupported :: "'a go" where
  "unsupported = Inl (Err (ErrorsNew ''unsupported change type''))"

lemma unsupported_neq [simp]: "unsupported \<noteq> Inr x"
  by (simp add: unsupported_def)

definition applyChange ::
  "(item \<Rightarrow> 'e option) \<Rightarrow> ('e \<Rightarrow> uuid) \<Rightarrow> ('e \<Rightarrow> 'e) \<Rightarrow> (uuid \<times> 'e) list \<Rightarrow> entry \<Rightarrow> (uuid \<times> 'e) list go" where
  "applyChange asT idOf onWrite store ch =
     (case ch_changeType ch of
        Added \<Rightarrow>
          go_bind (type_assert (asT (ch_item ch)))
            (\<lambda>entity. let entity = onWrite entity in Inr (AList.update (idOf entity) entity store))
      | Updated \<Rightarrow>
          go_bind (type_assert (asT (ch_item ch)))
            (\<lambda>entity. let entity = onWrite entity in Inr (AList.update (idOf entity) entity store))
      | Deleted \<Rightarrow>
          go_bind (type_assert (as_Id (ch_item ch))) (\<lambda>i. Inr (AList.delete i store))
      | OtherChangeType _ \<Rightarrow> unsupported)"

definition applyInsertOnly ::
  "(item \<Rightarrow> 'e option) \<Rightarrow> ('e \<Rightarrow> uuid) \<Rightarrow> ('e \<Rightarrow> 'e) \<Rightarrow> (uuid \<times> 'e) list \<Rightarrow> entry \<Rightarrow> (uuid \<times> 'e) list go" where
  "applyInsertOnly asT idOf onInsert store ch =
     (case ch_changeType ch of
        Added \<Rightarrow>
          go_bind (type_assert (asT (ch_item ch)))
            (\<lambda>entity. let entity = onInsert entity in Inr (AList.update (idOf entity) entity store))
      | _ \<Rightarrow> unsupported)"

definition applyOutboxMessageChange ::
  "(uuid \<times> outbox_message) list \<Rightarrow> entry \<Rightarrow> (uuid \<times> outbox_message) list go" where
  "applyOutboxMessageChange store ch =
     (case ch_changeType ch of
        Added \<Rightarrow>
          go_bind (type_assert (as_OutboxMessage (ch_item ch)))
            (\<lambda>entity. let entity = written_OutboxMessage entity
                      in Inr (AList.update (bm_id (ob_base entity)) entity store))
      | Deleted \<Rightarrow>
          go_bind (type_assert (as_Id (ch_item ch))) (\<lambda>i. Inr (AList.delete i store))
      | _ \<Rightarrow> unsupported)"

definition applySessionChange ::
  "(uuid \<times> session) list \<Rightarrow> entry \<Rightarrow> (uuid \<times> session) list go" where
  "applySessionChange store ch =
     (case ch_changeType ch of
        Added \<Rightarrow>
          go_bind (type_assert (as_Session (ch_item ch)))
            (\<lambda>entity. let entity = written_Session entity
                      in Inr (AList.update (bm_id (se_base entity)) entity store))
      | Deleted \<Rightarrow>
          go_bind (type_assert (as_Id (ch_item ch))) (\<lambda>i. Inr (AList.delete i store))
      | _ \<Rightarrow> unsupported)"

definition Context_applyChange :: "stores \<Rightarrow> entry \<Rightarrow> stores go" where
  "Context_applyChange st ch =
     (case ch_itemType ch of
        ApplicationEntityType \<Rightarrow>
          go_bind (applyChange as_Application (\<lambda>e. bm_id (app_base e)) written_Application (st_Applications st) ch) (\<lambda>m. Inr (st\<lparr>st_Applications := m\<rparr>))
      | ApplicationUserMetadataEntityType \<Rightarrow>
          go_bind (applyChange as_ApplicationUserMetadata (\<lambda>e. bm_id (aum_base e)) written_ApplicationUserMetadata (st_ApplicationUserMetadata st) ch) (\<lambda>m. Inr (st\<lparr>st_ApplicationUserMetadata := m\<rparr>))
      | AuditLogEntityType \<Rightarrow>
          go_bind (applyInsertOnly as_AuditLog (\<lambda>e. bm_id (al_base e)) written_AuditLog (st_AuditLogs st) ch) (\<lambda>m. Inr (st\<lparr>st_AuditLogs := m\<rparr>))
      | CredentialEntityType \<Rightarrow>
          go_bind (applyChange as_Credential (\<lambda>e. bm_id (cr_base e)) written_Credential (st_Credentials st) ch) (\<lambda>m. Inr (st\<lparr>st_Credentials := m\<rparr>))
      | FileEntityType \<Rightarrow>
          go_bind (applyInsertOnly as_File (\<lambda>e. bm_id (fi_base e)) written_File (st_Files st) ch) (\<lambda>m. Inr (st\<lparr>st_Files := m\<rparr>))
      | GroupRoleEntityType \<Rightarrow> Inl (Err (ErrorsNew ''unsupported change type for group role''))
      | GroupEntityType \<Rightarrow>
          go_bind (applyChange as_Group (\<lambda>e. bm_id (gr_base e)) written_Group (st_Groups st) ch) (\<lambda>m. Inr (st\<lparr>st_Groups := m\<rparr>))
      | OutboxMessageEntityType \<Rightarrow>
          go_bind (applyOutboxMessageChange (st_OutboxMessages st) ch) (\<lambda>m. Inr (st\<lparr>st_OutboxMessages := m\<rparr>))
      | PasswordRuleEntityType \<Rightarrow>
          go_bind (applyChange as_PasswordRule (\<lambda>e. bm_id (pr_base e)) written_PasswordRule (st_PasswordRules st) ch) (\<lambda>m. Inr (st\<lparr>st_PasswordRules := m\<rparr>))
      | ProjectEntityType \<Rightarrow>
          go_bind (applyChange as_Project (\<lambda>e. bm_id (p_base e)) written_Project (st_Projects st) ch) (\<lambda>m. Inr (st\<lparr>st_Projects := m\<rparr>))
      | ResourceServerEntityType \<Rightarrow>
          go_bind (applyChange as_ResourceServer (\<lambda>e. bm_id (rs_base e)) written_ResourceServer (st_ResourceServers st) ch) (\<lambda>m. Inr (st\<lparr>st_ResourceServers := m\<rparr>))
      | ResourceServerScopeEntityType \<Rightarrow>
          go_bind (applyChange as_ResourceServerScope (\<lambda>e. bm_id (rss_base e)) written_ResourceServerScope (st_ResourceServerScopes st) ch) (\<lambda>m. Inr (st\<lparr>st_ResourceServerScopes := m\<rparr>))
      | RoleEntityType \<Rightarrow>
          go_bind (applyChange as_Role (\<lambda>e. bm_id (ro_base e)) written_Role (st_Roles st) ch) (\<lambda>m. Inr (st\<lparr>st_Roles := m\<rparr>))
      | SessionEntityType \<Rightarrow>
          go_bind (applySessionChange (st_Sessions st) ch) (\<lambda>m. Inr (st\<lparr>st_Sessions := m\<rparr>))
      | TemplateEntityType \<Rightarrow>
          go_bind (applyInsertOnly as_Template (\<lambda>e. bm_id (te_base e)) written_Template (st_Templates st) ch) (\<lambda>m. Inr (st\<lparr>st_Templates := m\<rparr>))
      | UserRoleAssignmentEntityType \<Rightarrow>
          go_bind (applyInsertOnly as_UserRoleAssignment (\<lambda>e. bm_id (ura_base e)) written_UserRoleAssignment (st_UserRoleAssignments st) ch) (\<lambda>m. Inr (st\<lparr>st_UserRoleAssignments := m\<rparr>))
      | UserEntityType \<Rightarrow>
          go_bind (applyChange as_User (\<lambda>e. bm_id (u_base e)) written_User (st_Users st) ch) (\<lambda>m. Inr (st\<lparr>st_Users := m\<rparr>))
      | VirtualServerEntityType \<Rightarrow>
          go_bind (applyChange as_VirtualServer (\<lambda>e. bm_id (vs_base e)) written_VirtualServer (st_VirtualServers st) ch) (\<lambda>m. Inr (st\<lparr>st_VirtualServers := m\<rparr>))
      | OtherEntityType _ \<Rightarrow> Inl (Err (ErrorsNew ''unsupported item type'')))"

text \<open>
  The loop of \<^verbatim>\<open>SaveChanges\<close>: it returns at the first entry that fails, and what
  the earlier entries wrote stays in the stores.
\<close>

fun apply_entries :: "stores \<Rightarrow> entry list \<Rightarrow> stores \<times> stop option" where
  "apply_entries st [] = (st, None)"
| "apply_entries st (ch # chs) =
     (case Context_applyChange st ch of
        Inl e \<Rightarrow> (st, Some e)
      | Inr st' \<Rightarrow> apply_entries st' chs)"

text \<open>A database context: the shared stores and the tracker of this context.\<close>

record db_context =
  db_stores :: stores
  db_tracker :: tracker

definition newContext :: "stores \<Rightarrow> db_context" where
  "newContext st = \<lparr>db_stores = st, db_tracker = NewTracker\<rparr>"

definition SaveChanges :: "db_context \<Rightarrow> db_context \<times> unit go" where
  "SaveChanges c =
     (case apply_entries (db_stores c) (Tracker_GetChanges (db_tracker c)) of
        (st, None) \<Rightarrow> (c\<lparr>db_stores := st, db_tracker := Tracker_Clear (db_tracker c)\<rparr>, Inr ())
      | (st, Some e) \<Rightarrow> (c\<lparr>db_stores := st\<rparr>, wrap ''applying change'' (Inl e)))"

section \<open>Insert, update and delete (repositories/memory)\<close>

definition VirtualServerRepository_Insert :: "virtual_server \<Rightarrow> tracker \<Rightarrow> tracker" where
  "VirtualServerRepository_Insert m = Tracker_Add (NewEntry Added VirtualServerEntityType (ItemVirtualServer m))"

definition VirtualServerRepository_Update :: "virtual_server \<Rightarrow> tracker \<Rightarrow> tracker" where
  "VirtualServerRepository_Update m = Tracker_Add (NewEntry Updated VirtualServerEntityType (ItemVirtualServer m))"

definition ApplicationRepository_Insert :: "application \<Rightarrow> tracker \<Rightarrow> tracker" where
  "ApplicationRepository_Insert m = Tracker_Add (NewEntry Added ApplicationEntityType (ItemApplication m))"

definition ApplicationRepository_Update :: "application \<Rightarrow> tracker \<Rightarrow> tracker" where
  "ApplicationRepository_Update m = Tracker_Add (NewEntry Updated ApplicationEntityType (ItemApplication m))"

definition ApplicationRepository_Delete :: "uuid \<Rightarrow> tracker \<Rightarrow> tracker" where
  "ApplicationRepository_Delete i = Tracker_Add (NewEntry Deleted ApplicationEntityType (ItemId i))"

definition UserRepository_Insert :: "user \<Rightarrow> tracker \<Rightarrow> tracker" where
  "UserRepository_Insert m = Tracker_Add (NewEntry Added UserEntityType (ItemUser m))"

definition UserRepository_Update :: "user \<Rightarrow> tracker \<Rightarrow> tracker" where
  "UserRepository_Update m = Tracker_Add (NewEntry Updated UserEntityType (ItemUser m))"

definition CredentialRepository_Insert :: "credential \<Rightarrow> tracker \<Rightarrow> tracker" where
  "CredentialRepository_Insert m = Tracker_Add (NewEntry Added CredentialEntityType (ItemCredential m))"

definition CredentialRepository_Update :: "credential \<Rightarrow> tracker \<Rightarrow> tracker" where
  "CredentialRepository_Update m = Tracker_Add (NewEntry Updated CredentialEntityType (ItemCredential m))"

definition CredentialRepository_Delete :: "uuid \<Rightarrow> tracker \<Rightarrow> tracker" where
  "CredentialRepository_Delete i = Tracker_Add (NewEntry Deleted CredentialEntityType (ItemId i))"

definition SessionRepository_Insert :: "session \<Rightarrow> tracker \<Rightarrow> tracker" where
  "SessionRepository_Insert m = Tracker_Add (NewEntry Added SessionEntityType (ItemSession m))"

definition SessionRepository_Delete :: "uuid \<Rightarrow> tracker \<Rightarrow> tracker" where
  "SessionRepository_Delete i = Tracker_Add (NewEntry Deleted SessionEntityType (ItemId i))"

definition ProjectRepository_Insert :: "project \<Rightarrow> tracker \<Rightarrow> tracker" where
  "ProjectRepository_Insert m = Tracker_Add (NewEntry Added ProjectEntityType (ItemProject m))"

definition ProjectRepository_Update :: "project \<Rightarrow> tracker \<Rightarrow> tracker" where
  "ProjectRepository_Update m = Tracker_Add (NewEntry Updated ProjectEntityType (ItemProject m))"

definition ProjectRepository_Delete :: "uuid \<Rightarrow> tracker \<Rightarrow> tracker" where
  "ProjectRepository_Delete i = Tracker_Add (NewEntry Deleted ProjectEntityType (ItemId i))"

definition RoleRepository_Insert :: "role \<Rightarrow> tracker \<Rightarrow> tracker" where
  "RoleRepository_Insert m = Tracker_Add (NewEntry Added RoleEntityType (ItemRole m))"

definition RoleRepository_Update :: "role \<Rightarrow> tracker \<Rightarrow> tracker" where
  "RoleRepository_Update m = Tracker_Add (NewEntry Updated RoleEntityType (ItemRole m))"

definition RoleRepository_Delete :: "uuid \<Rightarrow> tracker \<Rightarrow> tracker" where
  "RoleRepository_Delete i = Tracker_Add (NewEntry Deleted RoleEntityType (ItemId i))"

definition GroupRepository_Insert :: "group \<Rightarrow> tracker \<Rightarrow> tracker" where
  "GroupRepository_Insert m = Tracker_Add (NewEntry Added GroupEntityType (ItemGroup m))"

definition GroupRepository_Update :: "group \<Rightarrow> tracker \<Rightarrow> tracker" where
  "GroupRepository_Update m = Tracker_Add (NewEntry Updated GroupEntityType (ItemGroup m))"

definition GroupRepository_Delete :: "uuid \<Rightarrow> tracker \<Rightarrow> tracker" where
  "GroupRepository_Delete i = Tracker_Add (NewEntry Deleted GroupEntityType (ItemId i))"

definition ResourceServerRepository_Insert :: "resource_server \<Rightarrow> tracker \<Rightarrow> tracker" where
  "ResourceServerRepository_Insert m = Tracker_Add (NewEntry Added ResourceServerEntityType (ItemResourceServer m))"

definition ResourceServerRepository_Update :: "resource_server \<Rightarrow> tracker \<Rightarrow> tracker" where
  "ResourceServerRepository_Update m = Tracker_Add (NewEntry Updated ResourceServerEntityType (ItemResourceServer m))"

definition ResourceServerRepository_Delete :: "uuid \<Rightarrow> tracker \<Rightarrow> tracker" where
  "ResourceServerRepository_Delete i = Tracker_Add (NewEntry Deleted ResourceServerEntityType (ItemId i))"

definition ResourceServerScopeRepository_Insert :: "resource_server_scope \<Rightarrow> tracker \<Rightarrow> tracker" where
  "ResourceServerScopeRepository_Insert m = Tracker_Add (NewEntry Added ResourceServerScopeEntityType (ItemResourceServerScope m))"

definition ResourceServerScopeRepository_Update :: "resource_server_scope \<Rightarrow> tracker \<Rightarrow> tracker" where
  "ResourceServerScopeRepository_Update m = Tracker_Add (NewEntry Updated ResourceServerScopeEntityType (ItemResourceServerScope m))"

definition ResourceServerScopeRepository_Delete :: "uuid \<Rightarrow> tracker \<Rightarrow> tracker" where
  "ResourceServerScopeRepository_Delete i = Tracker_Add (NewEntry Deleted ResourceServerScopeEntityType (ItemId i))"

definition PasswordRuleRepository_Insert :: "password_rule \<Rightarrow> tracker \<Rightarrow> tracker" where
  "PasswordRuleRepository_Insert m = Tracker_Add (NewEntry Added PasswordRuleEntityType (ItemPasswordRule m))"

definition PasswordRuleRepository_Update :: "password_rule \<Rightarrow> tracker \<Rightarrow> tracker" where
  "PasswordRuleRepository_Update m = Tracker_Add (NewEntry Updated PasswordRuleEntityType (ItemPasswordRule m))"

definition PasswordRuleRepository_Delete :: "uuid \<Rightarrow> tracker \<Rightarrow> tracker" where
  "PasswordRuleRepository_Delete i = Tracker_Add (NewEntry Deleted PasswordRuleEntityType (ItemId i))"

definition TemplateRepository_Insert :: "template \<Rightarrow> tracker \<Rightarrow> tracker" where
  "TemplateRepository_Insert m = Tracker_Add (NewEntry Added TemplateEntityType (ItemTemplate m))"

definition FileRepository_Insert :: "file_entity \<Rightarrow> tracker \<Rightarrow> tracker" where
  "FileRepository_Insert m = Tracker_Add (NewEntry Added FileEntityType (ItemFile m))"

definition ApplicationUserMetadataRepository_Insert :: "application_user_metadata \<Rightarrow> tracker \<Rightarrow> tracker" where
  "ApplicationUserMetadataRepository_Insert m = Tracker_Add (NewEntry Added ApplicationUserMetadataEntityType (ItemApplicationUserMetadata m))"

definition ApplicationUserMetadataRepository_Update :: "application_user_metadata \<Rightarrow> tracker \<Rightarrow> tracker" where
  "ApplicationUserMetadataRepository_Update m = Tracker_Add (NewEntry Updated ApplicationUserMetadataEntityType (ItemApplicationUserMetadata m))"

definition OutboxMessageRepository_Insert :: "outbox_message \<Rightarrow> tracker \<Rightarrow> tracker" where
  "OutboxMessageRepository_Insert m = Tracker_Add (NewEntry Added OutboxMessageEntityType (ItemOutboxMessage m))"

definition OutboxMessageRepository_Delete :: "uuid \<Rightarrow> tracker \<Rightarrow> tracker" where
  "OutboxMessageRepository_Delete i = Tracker_Add (NewEntry Deleted OutboxMessageEntityType (ItemId i))"

definition AuditLogRepository_Insert :: "audit_log \<Rightarrow> tracker \<Rightarrow> tracker" where
  "AuditLogRepository_Insert m = Tracker_Add (NewEntry Added AuditLogEntityType (ItemAuditLog m))"


definition UserRoleAssignmentRepository_Insert :: "user_role_assignment \<Rightarrow> tracker \<Rightarrow> tracker" where
  "UserRoleAssignmentRepository_Insert m = Tracker_Add (NewEntry Added UserRoleAssignmentEntityType (ItemUserRoleAssignment m))"

section \<open>User role assignments (repositories/memory/userroleassignments.go)\<close>

definition UserRoleAssignment_enrich ::
  "stores \<Rightarrow> user_role_assignment_filter \<Rightarrow> user_role_assignment \<Rightarrow> user_role_assignment" where
  "UserRoleAssignment_enrich st f ura =
     (let userInfo =
            (if uraf_includeUser f then
               (case map_of (st_Users st) (ura_userId ura) of
                  Some u \<Rightarrow> Some \<lparr>uui_Username = u_username u, uui_DisplayName = u_displayName u\<rparr>
                | None \<Rightarrow> None)
             else None);
          roleInfo =
            (if uraf_includeRole f then
               (case map_of (st_Roles st) (ura_roleId ura) of
                  Some role \<Rightarrow>
                    let projectSlug = (case map_of (st_Projects st) (ro_projectId role) of
                                         Some p \<Rightarrow> p_slug p | None \<Rightarrow> [])
                    in Some \<lparr>uri_ProjectSlug = projectSlug, uri_Name = ro_name role\<rparr>
                | None \<Rightarrow> None)
             else None)
      in if userInfo = None \<and> roleInfo = None then ura
         else NewUserRoleAssignmentFromDB (ura_base ura) (ura_userId ura) (ura_roleId ura) (ura_groupId ura)
                userInfo roleInfo)"

definition UserRoleAssignmentRepository_List ::
  "stores \<Rightarrow> user_role_assignment_filter \<Rightarrow> (user_role_assignment list \<times> int) go" where
  "UserRoleAssignmentRepository_List st f =
     go_bind (repo_filtered (UserRoleAssignment_matches f) (st_UserRoleAssignments st))
       (\<lambda>items. Inr (map (UserRoleAssignment_enrich st f) items, int (length items)))"

section \<open>The interface of an entity kind\<close>

text \<open>
  What the generic writers rely on for each kind of entity: the type assertion recognizes
  exactly the items of the kind, and writing keeps the identifier.
\<close>

fun item_id :: "item \<Rightarrow> uuid" where
  "item_id (ItemApplication e) = bm_id (app_base e)"
| "item_id (ItemApplicationUserMetadata e) = bm_id (aum_base e)"
| "item_id (ItemAuditLog e) = bm_id (al_base e)"
| "item_id (ItemCredential e) = bm_id (cr_base e)"
| "item_id (ItemFile e) = bm_id (fi_base e)"
| "item_id (ItemGroupRole e) = bm_id (gro_base e)"
| "item_id (ItemGroup e) = bm_id (gr_base e)"
| "item_id (ItemOutboxMessage e) = bm_id (ob_base e)"
| "item_id (ItemPasswordRule e) = bm_id (pr_base e)"
| "item_id (ItemProject e) = bm_id (p_base e)"
| "item_id (ItemResourceServer e) = bm_id (rs_base e)"
| "item_id (ItemResourceServerScope e) = bm_id (rss_base e)"
| "item_id (ItemRole e) = bm_id (ro_base e)"
| "item_id (ItemSession e) = bm_id (se_base e)"
| "item_id (ItemTemplate e) = bm_id (te_base e)"
| "item_id (ItemUserRoleAssignment e) = bm_id (ura_base e)"
| "item_id (ItemUser e) = bm_id (u_base e)"
| "item_id (ItemVirtualServer e) = bm_id (vs_base e)"
| "item_id (ItemId i) = i"

fun item_written :: "item \<Rightarrow> item" where
  "item_written (ItemApplication e) = ItemApplication (written_Application e)"
| "item_written (ItemApplicationUserMetadata e) = ItemApplicationUserMetadata (written_ApplicationUserMetadata e)"
| "item_written (ItemAuditLog e) = ItemAuditLog (written_AuditLog e)"
| "item_written (ItemCredential e) = ItemCredential (written_Credential e)"
| "item_written (ItemFile e) = ItemFile (written_File e)"
| "item_written (ItemGroupRole e) = ItemGroupRole (e)"
| "item_written (ItemGroup e) = ItemGroup (written_Group e)"
| "item_written (ItemOutboxMessage e) = ItemOutboxMessage (written_OutboxMessage e)"
| "item_written (ItemPasswordRule e) = ItemPasswordRule (written_PasswordRule e)"
| "item_written (ItemProject e) = ItemProject (written_Project e)"
| "item_written (ItemResourceServer e) = ItemResourceServer (written_ResourceServer e)"
| "item_written (ItemResourceServerScope e) = ItemResourceServerScope (written_ResourceServerScope e)"
| "item_written (ItemRole e) = ItemRole (written_Role e)"
| "item_written (ItemSession e) = ItemSession (written_Session e)"
| "item_written (ItemTemplate e) = ItemTemplate (written_Template e)"
| "item_written (ItemUserRoleAssignment e) = ItemUserRoleAssignment (written_UserRoleAssignment e)"
| "item_written (ItemUser e) = ItemUser (written_User e)"
| "item_written (ItemVirtualServer e) = ItemVirtualServer (written_VirtualServer e)"
| "item_written (ItemId i) = ItemId i"

fun item_type :: "item \<Rightarrow> entity_type option" where
  "item_type (ItemApplication e) = Some ApplicationEntityType"
| "item_type (ItemApplicationUserMetadata e) = Some ApplicationUserMetadataEntityType"
| "item_type (ItemAuditLog e) = Some AuditLogEntityType"
| "item_type (ItemCredential e) = Some CredentialEntityType"
| "item_type (ItemFile e) = Some FileEntityType"
| "item_type (ItemGroupRole e) = Some GroupRoleEntityType"
| "item_type (ItemGroup e) = Some GroupEntityType"
| "item_type (ItemOutboxMessage e) = Some OutboxMessageEntityType"
| "item_type (ItemPasswordRule e) = Some PasswordRuleEntityType"
| "item_type (ItemProject e) = Some ProjectEntityType"
| "item_type (ItemResourceServer e) = Some ResourceServerEntityType"
| "item_type (ItemResourceServerScope e) = Some ResourceServerScopeEntityType"
| "item_type (ItemRole e) = Some RoleEntityType"
| "item_type (ItemSession e) = Some SessionEntityType"
| "item_type (ItemTemplate e) = Some TemplateEntityType"
| "item_type (ItemUserRoleAssignment e) = Some UserRoleAssignmentEntityType"
| "item_type (ItemUser e) = Some UserEntityType"
| "item_type (ItemVirtualServer e) = Some VirtualServerEntityType"
| "item_type (ItemId i) = None"

fun item_version :: "item \<Rightarrow> version" where
  "item_version (ItemApplication e) = bm_version (app_base e)"
| "item_version (ItemApplicationUserMetadata e) = bm_version (aum_base e)"
| "item_version (ItemAuditLog e) = bm_version (al_base e)"
| "item_version (ItemCredential e) = bm_version (cr_base e)"
| "item_version (ItemFile e) = bm_version (fi_base e)"
| "item_version (ItemGroupRole e) = bm_version (gro_base e)"
| "item_version (ItemGroup e) = bm_version (gr_base e)"
| "item_version (ItemOutboxMessage e) = bm_version (ob_base e)"
| "item_version (ItemPasswordRule e) = bm_version (pr_base e)"
| "item_version (ItemProject e) = bm_version (p_base e)"
| "item_version (ItemResourceServer e) = bm_version (rs_base e)"
| "item_version (ItemResourceServerScope e) = bm_version (rss_base e)"
| "item_version (ItemRole e) = bm_version (ro_base e)"
| "item_version (ItemSession e) = bm_version (se_base e)"
| "item_version (ItemTemplate e) = bm_version (te_base e)"
| "item_version (ItemUserRoleAssignment e) = bm_version (ura_base e)"
| "item_version (ItemUser e) = bm_version (u_base e)"
| "item_version (ItemVirtualServer e) = bm_version (vs_base e)"
| "item_version (ItemId i) = VersionNil"

fun stored :: "stores \<Rightarrow> entity_type \<Rightarrow> uuid \<Rightarrow> item option" where
  "stored st ApplicationEntityType i = map_option ItemApplication (map_of (st_Applications st) i)"
| "stored st ApplicationUserMetadataEntityType i = map_option ItemApplicationUserMetadata (map_of (st_ApplicationUserMetadata st) i)"
| "stored st AuditLogEntityType i = map_option ItemAuditLog (map_of (st_AuditLogs st) i)"
| "stored st CredentialEntityType i = map_option ItemCredential (map_of (st_Credentials st) i)"
| "stored st FileEntityType i = map_option ItemFile (map_of (st_Files st) i)"
| "stored st GroupRoleEntityType i = map_option ItemGroupRole (map_of (st_GroupRoles st) i)"
| "stored st GroupEntityType i = map_option ItemGroup (map_of (st_Groups st) i)"
| "stored st OutboxMessageEntityType i = map_option ItemOutboxMessage (map_of (st_OutboxMessages st) i)"
| "stored st PasswordRuleEntityType i = map_option ItemPasswordRule (map_of (st_PasswordRules st) i)"
| "stored st ProjectEntityType i = map_option ItemProject (map_of (st_Projects st) i)"
| "stored st ResourceServerEntityType i = map_option ItemResourceServer (map_of (st_ResourceServers st) i)"
| "stored st ResourceServerScopeEntityType i = map_option ItemResourceServerScope (map_of (st_ResourceServerScopes st) i)"
| "stored st RoleEntityType i = map_option ItemRole (map_of (st_Roles st) i)"
| "stored st SessionEntityType i = map_option ItemSession (map_of (st_Sessions st) i)"
| "stored st TemplateEntityType i = map_option ItemTemplate (map_of (st_Templates st) i)"
| "stored st UserRoleAssignmentEntityType i = map_option ItemUserRoleAssignment (map_of (st_UserRoleAssignments st) i)"
| "stored st UserEntityType i = map_option ItemUser (map_of (st_Users st) i)"
| "stored st VirtualServerEntityType i = map_option ItemVirtualServer (map_of (st_VirtualServers st) i)"
| "stored st (OtherEntityType n) i = None"

declare stored.simps [simp del]

text \<open>The effect of an entry on the entities of its type.\<close>

definition entry_effect :: "entry \<Rightarrow> (uuid \<Rightarrow> item option) \<Rightarrow> uuid \<Rightarrow> item option" where
  "entry_effect ch m =
     m (item_id (ch_item ch) :=
          (if ch_changeType ch = Deleted then None else Some (item_written (ch_item ch))))"

definition wf_store :: "('e \<Rightarrow> uuid) \<Rightarrow> (uuid \<times> 'e) list \<Rightarrow> bool" where
  "wf_store idOf store \<longleftrightarrow> distinct (map fst store) \<and> (\<forall>k e. map_of store k = Some e \<longrightarrow> idOf e = k)"

lemma wf_store_Nil [simp, store_simps]: "wf_store idOf []"
  by (simp add: wf_store_def)

lemma wf_store_update [store_simps]: "wf_store idOf s \<Longrightarrow> wf_store idOf (AList.update (idOf e) e s)"
  by (auto simp: wf_store_def distinct_update update_conv')

lemma wf_store_delete [store_simps]: "wf_store idOf s \<Longrightarrow> wf_store idOf (AList.delete k s)"
  by (auto simp: wf_store_def distinct_delete delete_conv')

lemma wf_store_in: "wf_store idOf s \<Longrightarrow> e \<in> snd ` set s \<longleftrightarrow> map_of s (idOf e) = Some e"
  by (force simp: wf_store_def dest: map_of_SomeD)

lemma wf_store_in_list: "wf_store idOf s \<Longrightarrow> e \<in> set (map snd s) \<longleftrightarrow> map_of s (idOf e) = Some e"
  using wf_store_in by fastforce

locale entity_kind =
  fixes asT :: "item \<Rightarrow> 'e option" and mk :: "'e \<Rightarrow> item" and idOf :: "'e \<Rightarrow> uuid" and onWrite :: "'e \<Rightarrow> 'e"
  assumes as_mk: "asT (mk e) = Some e"
    and mk_as: "asT it = Some e \<Longrightarrow> it = mk e"
    and as_ItemId: "asT (ItemId i) = None"
    and Id_write: "idOf (onWrite e) = idOf e"
    and item_id_mk: "item_id (mk e) = idOf e"
    and written_mk: "item_written (mk e) = mk (onWrite e)"
begin

definition view :: "(uuid \<times> 'e) list \<Rightarrow> uuid \<Rightarrow> item option" where
  "view s i = map_option mk (map_of s i)"

lemma view_update: "view (AList.update k e s) = (view s)(k := Some (mk e))"
  by (auto simp: view_def update_conv')

lemma view_delete: "view (AList.delete k s) = (view s)(k := None)"
  by (auto simp: view_def delete_conv')

lemma apply_effect:
  assumes "applyChange asT idOf onWrite s ch = Inr s'"
  shows "view s' = entry_effect ch (view s)"
  using assms
  by (cases ch; cases "ch_changeType ch")
    (auto simp: applyChange_def entry_effect_def go_bind_Inr_iff as_Id_def Id_write item_id_mk written_mk
      view_update view_delete dest!: mk_as split: item.splits)

lemma insert_effect:
  assumes "applyInsertOnly asT idOf onWrite s ch = Inr s'"
  shows "view s' = entry_effect ch (view s)"
  using assms
  by (cases ch; cases "ch_changeType ch")
    (auto simp: applyInsertOnly_def entry_effect_def go_bind_Inr_iff Id_write item_id_mk written_mk
      view_update view_delete dest!: mk_as split: item.splits)

lemma apply_wf:
  assumes "applyChange asT idOf onWrite s ch = Inr s'" "wf_store idOf s"
  shows "wf_store idOf s'"
  using assms
  by (cases ch; cases "ch_changeType ch")
    (auto simp: Let_def applyChange_def go_bind_Inr_iff store_simps)

lemma insert_wf:
  assumes "applyInsertOnly asT idOf onWrite s ch = Inr s'" "wf_store idOf s"
  shows "wf_store idOf s'"
  using assms
  by (cases ch; cases "ch_changeType ch")
    (auto simp: Let_def applyInsertOnly_def go_bind_Inr_iff store_simps)

lemma apply_returns:
  "(\<exists>s'. applyChange asT idOf onWrite s ch = Inr s') \<longleftrightarrow>
   (case ch_changeType ch of
      Added \<Rightarrow> asT (ch_item ch) \<noteq> None
    | Updated \<Rightarrow> asT (ch_item ch) \<noteq> None
    | Deleted \<Rightarrow> as_Id (ch_item ch) \<noteq> None
    | OtherChangeType _ \<Rightarrow> False)"
  by (cases "ch_changeType ch") (auto simp: Let_def applyChange_def go_bind_Inr_iff)

lemma insert_returns:
  "(\<exists>s'. applyInsertOnly asT idOf onWrite s ch = Inr s') \<longleftrightarrow>
   ch_changeType ch = Added \<and> asT (ch_item ch) \<noteq> None"
  by (cases "ch_changeType ch") (auto simp: Let_def applyInsertOnly_def go_bind_Inr_iff)

end

interpretation app: entity_kind as_Application ItemApplication "\<lambda>e. bm_id (app_base e)" written_Application
  by unfold_locales (auto simp: as_Application_def written_Application_def split: item.splits)

interpretation aum: entity_kind as_ApplicationUserMetadata ItemApplicationUserMetadata "\<lambda>e. bm_id (aum_base e)" written_ApplicationUserMetadata
  by unfold_locales (auto simp: as_ApplicationUserMetadata_def written_ApplicationUserMetadata_def split: item.splits)

interpretation al: entity_kind as_AuditLog ItemAuditLog "\<lambda>e. bm_id (al_base e)" written_AuditLog
  by unfold_locales (auto simp: as_AuditLog_def written_AuditLog_def split: item.splits)

interpretation cr: entity_kind as_Credential ItemCredential "\<lambda>e. bm_id (cr_base e)" written_Credential
  by unfold_locales (auto simp: as_Credential_def written_Credential_def split: item.splits)

interpretation fi: entity_kind as_File ItemFile "\<lambda>e. bm_id (fi_base e)" written_File
  by unfold_locales (auto simp: as_File_def written_File_def split: item.splits)

interpretation gr: entity_kind as_Group ItemGroup "\<lambda>e. bm_id (gr_base e)" written_Group
  by unfold_locales (auto simp: as_Group_def written_Group_def split: item.splits)

interpretation ob: entity_kind as_OutboxMessage ItemOutboxMessage "\<lambda>e. bm_id (ob_base e)" written_OutboxMessage
  by unfold_locales (auto simp: as_OutboxMessage_def written_OutboxMessage_def split: item.splits)

interpretation pr: entity_kind as_PasswordRule ItemPasswordRule "\<lambda>e. bm_id (pr_base e)" written_PasswordRule
  by unfold_locales (auto simp: as_PasswordRule_def written_PasswordRule_def split: item.splits)

interpretation p: entity_kind as_Project ItemProject "\<lambda>e. bm_id (p_base e)" written_Project
  by unfold_locales (auto simp: as_Project_def written_Project_def split: item.splits)

interpretation rs: entity_kind as_ResourceServer ItemResourceServer "\<lambda>e. bm_id (rs_base e)" written_ResourceServer
  by unfold_locales (auto simp: as_ResourceServer_def written_ResourceServer_def split: item.splits)

interpretation rss: entity_kind as_ResourceServerScope ItemResourceServerScope "\<lambda>e. bm_id (rss_base e)" written_ResourceServerScope
  by unfold_locales (auto simp: as_ResourceServerScope_def written_ResourceServerScope_def split: item.splits)

interpretation ro: entity_kind as_Role ItemRole "\<lambda>e. bm_id (ro_base e)" written_Role
  by unfold_locales (auto simp: as_Role_def written_Role_def split: item.splits)

interpretation se: entity_kind as_Session ItemSession "\<lambda>e. bm_id (se_base e)" written_Session
  by unfold_locales (auto simp: as_Session_def written_Session_def split: item.splits)

interpretation te: entity_kind as_Template ItemTemplate "\<lambda>e. bm_id (te_base e)" written_Template
  by unfold_locales (auto simp: as_Template_def written_Template_def split: item.splits)

interpretation ura: entity_kind as_UserRoleAssignment ItemUserRoleAssignment "\<lambda>e. bm_id (ura_base e)" written_UserRoleAssignment
  by unfold_locales (auto simp: as_UserRoleAssignment_def written_UserRoleAssignment_def split: item.splits)

interpretation u: entity_kind as_User ItemUser "\<lambda>e. bm_id (u_base e)" written_User
  by unfold_locales (auto simp: as_User_def written_User_def split: item.splits)

interpretation vs: entity_kind as_VirtualServer ItemVirtualServer "\<lambda>e. bm_id (vs_base e)" written_VirtualServer
  by unfold_locales (auto simp: as_VirtualServer_def written_VirtualServer_def split: item.splits)

lemma applySessionChange_eq:
  "applySessionChange s ch =
     (if ch_changeType ch = Updated then unsupported
      else applyChange as_Session (\<lambda>e. bm_id (se_base e)) written_Session s ch)"
  by (cases "ch_changeType ch") (simp_all add: applySessionChange_def applyChange_def)

lemma applyOutboxMessageChange_eq:
  "applyOutboxMessageChange s ch =
     (if ch_changeType ch = Updated then unsupported
      else applyChange as_OutboxMessage (\<lambda>e. bm_id (ob_base e)) written_OutboxMessage s ch)"
  by (cases "ch_changeType ch") (simp_all add: applyOutboxMessageChange_def applyChange_def)

definition wf_stores :: "stores \<Rightarrow> bool" where
  "wf_stores st \<longleftrightarrow>
     wf_store (\<lambda>e. bm_id (app_base e)) (st_Applications st) \<and>
     wf_store (\<lambda>e. bm_id (aum_base e)) (st_ApplicationUserMetadata st) \<and>
     wf_store (\<lambda>e. bm_id (al_base e)) (st_AuditLogs st) \<and>
     wf_store (\<lambda>e. bm_id (cr_base e)) (st_Credentials st) \<and>
     wf_store (\<lambda>e. bm_id (fi_base e)) (st_Files st) \<and>
     wf_store (\<lambda>e. bm_id (gro_base e)) (st_GroupRoles st) \<and>
     wf_store (\<lambda>e. bm_id (gr_base e)) (st_Groups st) \<and>
     wf_store (\<lambda>e. bm_id (ob_base e)) (st_OutboxMessages st) \<and>
     wf_store (\<lambda>e. bm_id (pr_base e)) (st_PasswordRules st) \<and>
     wf_store (\<lambda>e. bm_id (p_base e)) (st_Projects st) \<and>
     wf_store (\<lambda>e. bm_id (rs_base e)) (st_ResourceServers st) \<and>
     wf_store (\<lambda>e. bm_id (rss_base e)) (st_ResourceServerScopes st) \<and>
     wf_store (\<lambda>e. bm_id (ro_base e)) (st_Roles st) \<and>
     wf_store (\<lambda>e. bm_id (se_base e)) (st_Sessions st) \<and>
     wf_store (\<lambda>e. bm_id (te_base e)) (st_Templates st) \<and>
     wf_store (\<lambda>e. bm_id (ura_base e)) (st_UserRoleAssignments st) \<and>
     wf_store (\<lambda>e. bm_id (u_base e)) (st_Users st) \<and>
     wf_store (\<lambda>e. bm_id (vs_base e)) (st_VirtualServers st)"

lemmas wf_store_preserved =
  app.apply_wf aum.apply_wf al.insert_wf cr.apply_wf fi.insert_wf gr.apply_wf ob.apply_wf
  pr.apply_wf p.apply_wf rs.apply_wf rss.apply_wf ro.apply_wf se.apply_wf te.insert_wf
  ura.insert_wf u.apply_wf vs.apply_wf

lemmas kind_effects =
  app.apply_effect aum.apply_effect al.insert_effect cr.apply_effect fi.insert_effect
  gr.apply_effect ob.apply_effect pr.apply_effect p.apply_effect rs.apply_effect
  rss.apply_effect ro.apply_effect se.apply_effect te.insert_effect ura.insert_effect
  u.apply_effect vs.apply_effect

lemma wf_newStores [simp]: "wf_stores newStores"
  by (simp add: wf_stores_def newStores_def)

lemma Context_applyChange_wf:
  assumes "Context_applyChange st ch = Inr st'" "wf_stores st"
  shows "wf_stores st'"
  using assms
  by (cases "ch_itemType ch")
    (auto simp: Context_applyChange_def wf_stores_def go_bind_Inr_iff applySessionChange_eq
      applyOutboxMessageChange_eq dest: wf_store_preserved split: if_splits)

lemma stored_stores_simps:
  "stored st ApplicationEntityType = app.view (st_Applications st)"
  "stored st ApplicationUserMetadataEntityType = aum.view (st_ApplicationUserMetadata st)"
  "stored st AuditLogEntityType = al.view (st_AuditLogs st)"
  "stored st CredentialEntityType = cr.view (st_Credentials st)"
  "stored st FileEntityType = fi.view (st_Files st)"
  "stored st GroupEntityType = gr.view (st_Groups st)"
  "stored st OutboxMessageEntityType = ob.view (st_OutboxMessages st)"
  "stored st PasswordRuleEntityType = pr.view (st_PasswordRules st)"
  "stored st ProjectEntityType = p.view (st_Projects st)"
  "stored st ResourceServerEntityType = rs.view (st_ResourceServers st)"
  "stored st ResourceServerScopeEntityType = rss.view (st_ResourceServerScopes st)"
  "stored st RoleEntityType = ro.view (st_Roles st)"
  "stored st SessionEntityType = se.view (st_Sessions st)"
  "stored st TemplateEntityType = te.view (st_Templates st)"
  "stored st UserRoleAssignmentEntityType = ura.view (st_UserRoleAssignments st)"
  "stored st UserEntityType = u.view (st_Users st)"
  "stored st VirtualServerEntityType = vs.view (st_VirtualServers st)"
  by (auto simp: stored.simps app.view_def aum.view_def al.view_def cr.view_def fi.view_def gr.view_def ob.view_def pr.view_def p.view_def rs.view_def rss.view_def ro.view_def se.view_def te.view_def ura.view_def u.view_def vs.view_def)

lemma Context_applyChange_stored:
  assumes "Context_applyChange st ch = Inr st'"
  shows "stored st' =
    (stored st)(ch_itemType ch := entry_effect ch (stored st (ch_itemType ch)))"
proof (intro ext)
  fix ty i
  show "stored st' ty i =
    ((stored st)(ch_itemType ch := entry_effect ch (stored st (ch_itemType ch)))) ty i"
    using assms
    by (cases "ch_itemType ch"; cases ty)
      (auto simp: Context_applyChange_def go_bind_Inr_iff applySessionChange_eq applyOutboxMessageChange_eq
        stored_stores_simps stored.simps(6,19) dest!: kind_effects split: if_splits)
qed

text \<open>The entries that the switch accepts.\<close>

definition entry_ok :: "entry \<Rightarrow> bool" where
  "entry_ok ch =
     (let ty = ch_itemType ch; it = ch_item ch;
          insert_only = ty \<in> {AuditLogEntityType, FileEntityType, TemplateEntityType, UserRoleAssignmentEntityType}
      in ty \<noteq> GroupRoleEntityType \<and>
         (case ch_changeType ch of
            Added \<Rightarrow> item_type it = Some ty
          | Updated \<Rightarrow> item_type it = Some ty \<and> \<not> insert_only
                      \<and> ty \<notin> {SessionEntityType, OutboxMessageEntityType}
          | Deleted \<Rightarrow> as_Id it \<noteq> None \<and> \<not> insert_only \<and> (\<forall>n. ty \<noteq> OtherEntityType n)
          | OtherChangeType _ \<Rightarrow> False))"

end
