(* ===== verification/DbSpec.thy ===== *)
theory DbSpec
  imports MemoryDb
begin

text \<open>
  The contract of the in-memory database: the eighteen stores behave as one map from
  entity types and identifiers to entities (\<^const>\<open>stored\<close>), an entry of the tracker
  updates that map at one point, and \<^verbatim>\<open>SaveChanges\<close> performs the entries in order. The
  section on reads relates a lookup by identifier to the same map.
\<close>

type_synonym abstract_db = "entity_type \<Rightarrow> uuid \<Rightarrow> item option"

definition db_effect :: "abstract_db \<Rightarrow> entry \<Rightarrow> abstract_db" where
  "db_effect m ch = m (ch_itemType ch := entry_effect ch (m (ch_itemType ch)))"

section \<open>Which entries are written\<close>

lemma item_type_iff:
  "item_type it = Some ApplicationEntityType \<longleftrightarrow> as_Application it \<noteq> None"
  "item_type it = Some ApplicationUserMetadataEntityType \<longleftrightarrow> as_ApplicationUserMetadata it \<noteq> None"
  "item_type it = Some AuditLogEntityType \<longleftrightarrow> as_AuditLog it \<noteq> None"
  "item_type it = Some CredentialEntityType \<longleftrightarrow> as_Credential it \<noteq> None"
  "item_type it = Some FileEntityType \<longleftrightarrow> as_File it \<noteq> None"
  "item_type it = Some GroupEntityType \<longleftrightarrow> as_Group it \<noteq> None"
  "item_type it = Some OutboxMessageEntityType \<longleftrightarrow> as_OutboxMessage it \<noteq> None"
  "item_type it = Some PasswordRuleEntityType \<longleftrightarrow> as_PasswordRule it \<noteq> None"
  "item_type it = Some ProjectEntityType \<longleftrightarrow> as_Project it \<noteq> None"
  "item_type it = Some ResourceServerEntityType \<longleftrightarrow> as_ResourceServer it \<noteq> None"
  "item_type it = Some ResourceServerScopeEntityType \<longleftrightarrow> as_ResourceServerScope it \<noteq> None"
  "item_type it = Some RoleEntityType \<longleftrightarrow> as_Role it \<noteq> None"
  "item_type it = Some SessionEntityType \<longleftrightarrow> as_Session it \<noteq> None"
  "item_type it = Some TemplateEntityType \<longleftrightarrow> as_Template it \<noteq> None"
  "item_type it = Some UserRoleAssignmentEntityType \<longleftrightarrow> as_UserRoleAssignment it \<noteq> None"
  "item_type it = Some UserEntityType \<longleftrightarrow> as_User it \<noteq> None"
  "item_type it = Some VirtualServerEntityType \<longleftrightarrow> as_VirtualServer it \<noteq> None"
  "item_type it \<noteq> Some (OtherEntityType n)"
  by (cases it; simp add: as_item_defs)+

lemmas kind_returns =
  app.apply_returns aum.apply_returns al.insert_returns cr.apply_returns fi.insert_returns
  gr.apply_returns ob.apply_returns pr.apply_returns p.apply_returns rs.apply_returns
  rss.apply_returns ro.apply_returns se.apply_returns te.insert_returns ura.insert_returns
  u.apply_returns vs.apply_returns

lemma go_bind_returns: "(\<exists>y. go_bind m (\<lambda>x. Inr (f x)) = Inr y) \<longleftrightarrow> (\<exists>x. m = Inr x)"
  by (auto simp: go_bind_Inr_iff)

lemma entry_ok_returns: "entry_ok ch \<longleftrightarrow> (\<exists>st'. Context_applyChange st ch = Inr st')"
  by (cases "ch_itemType ch"; cases "ch_changeType ch")
    (simp_all add: entry_ok_def Context_applyChange_def Let_def go_bind_returns item_type_iff kind_returns
      applySessionChange_eq applyOutboxMessageChange_eq)

lemma entry_ok_fails: "\<not> entry_ok ch \<Longrightarrow> \<exists>e. Context_applyChange st ch = Inl e"
  using entry_ok_returns [of ch st] by (cases "Context_applyChange st ch") auto

section \<open>SaveChanges\<close>

lemma Context_applyChange_db_effect:
  "Context_applyChange st ch = Inr st' \<Longrightarrow> stored st' = db_effect (stored st) ch"
  by (simp add: db_effect_def Context_applyChange_stored)

lemma apply_entries_append:
  "apply_entries st (xs @ ys) =
     (case apply_entries st xs of (st', None) \<Rightarrow> apply_entries st' ys | r \<Rightarrow> r)"
  by (induction st xs rule: apply_entries.induct) (auto split: sum.splits)

lemma apply_entries_all_ok:
  "list_all entry_ok chs \<Longrightarrow>
     \<exists>st'. apply_entries st chs = (st', None) \<and> stored st' = foldl db_effect (stored st) chs"
proof (induction chs arbitrary: st)
  case (Cons ch chs)
  then obtain st' where st': "Context_applyChange st ch = Inr st'"
    using entry_ok_returns [of ch st] by auto
  from Cons.IH [of st'] Cons.prems show ?case
    by (simp add: st' Context_applyChange_db_effect [OF st'])
qed simp

lemma apply_entries_wf: "wf_stores st \<Longrightarrow> wf_stores (fst (apply_entries st chs))"
  by (induction st chs rule: apply_entries.induct)
    (auto split: sum.splits dest: Context_applyChange_wf)



text \<open>
  C21: an entry that the switch rejects stops \<^verbatim>\<open>SaveChanges\<close> with an error or a panic. The entries
  before it stay written, none after it is, and the tracker still holds all of them: there
  is no rollback.
\<close>

theorem SaveChanges_stops_at_first_failure:
  assumes "db_tracker c = good @ bad # rest" "list_all entry_ok good" "\<not> entry_ok bad"
  shows "\<exists>c' e. SaveChanges c = (c', Inl e) \<and> db_tracker c' = db_tracker c \<and>
    stored (db_stores c') = foldl db_effect (stored (db_stores c)) good"
proof -
  obtain st' where st': "apply_entries (db_stores c) good = (st', None)"
    "stored st' = foldl db_effect (stored (db_stores c)) good"
    using apply_entries_all_ok [OF assms(2)] by blast
  obtain e where e: "Context_applyChange st' bad = Inl e"
    using entry_ok_fails [OF assms(3)] by blast
  show ?thesis
    by (cases e) (simp_all add: SaveChanges_def Tracker_GetChanges_def assms(1) apply_entries_append st' e)
qed

theorem SaveChanges_stops_at_first_failure_witness:
  "\<exists>c' e. SaveChanges \<lparr>db_stores = newStores, db_tracker =
      [NewEntry Added FileEntityType (ItemFile (NewFile 7 0 ''a'' ''b'' ''c'')),
       NewEntry Deleted FileEntityType (ItemId 7)]\<rparr> = (c', Inl e) \<and>
    stored (db_stores c') FileEntityType 7 = Some (ItemFile (written_File (NewFile 7 0 ''a'' ''b'' ''c'')))"
  using SaveChanges_stops_at_first_failure [of "\<lparr>db_stores = newStores, db_tracker =
      [NewEntry Added FileEntityType (ItemFile (NewFile 7 0 ''a'' ''b'' ''c'')),
       NewEntry Deleted FileEntityType (ItemId 7)]\<rparr>"
      "[NewEntry Added FileEntityType (ItemFile (NewFile 7 0 ''a'' ''b'' ''c''))]"
      "NewEntry Deleted FileEntityType (ItemId 7)" "[]"]
  by (auto simp: entry_ok_def as_Id_def Let_def db_effect_def entry_effect_def NewFile_def)

lemma saved_wf: "wf_stores (db_stores c) \<Longrightarrow> wf_stores (db_stores (fst (SaveChanges c)))"
  using apply_entries_wf [of "db_stores c" "db_tracker c"]
  by (auto simp: SaveChanges_def Tracker_GetChanges_def split: prod.splits option.splits)

lemma apply_entries_stored:
  "apply_entries st chs = (st', None) \<Longrightarrow> stored st' = foldl db_effect (stored st) chs"
  by (induction st chs rule: apply_entries.induct)
    (auto simp: Context_applyChange_db_effect split: sum.splits)

lemma saved_stored:
  "SaveChanges c = (c', Inr ()) \<Longrightarrow>
     stored (db_stores c') = foldl db_effect (stored (db_stores c)) (db_tracker c)"
  using apply_entries_stored [of "db_stores c" "db_tracker c"]
  by (auto simp: SaveChanges_def Tracker_GetChanges_def wrap_def
      split: prod.splits option.splits stop.splits)

text \<open>
  Whether it succeeds or fails, \<^verbatim>\<open>SaveChanges\<close> keeps the invariant of the
  stores: distinct keys, and each entity stored under its own identifier.
\<close>

theorem SaveChanges_keeps_wf:
  assumes "wf_stores (db_stores c)"
  shows "wf_stores (db_stores (fst (SaveChanges c)))"
  using assms by (rule saved_wf)

theorem SaveChanges_keeps_wf_witness:
  "wf_stores (db_stores (fst (SaveChanges \<lparr>db_stores = newStores,
     db_tracker = [NewEntry Added FileEntityType (ItemFile (NewFile 7 0 ''a'' ''b'' ''c''))]\<rparr>)))"
  using SaveChanges_keeps_wf [of "\<lparr>db_stores = newStores,
     db_tracker = [NewEntry Added FileEntityType (ItemFile (NewFile 7 0 ''a'' ''b'' ''c''))]\<rparr>"]
  by simp

section \<open>What the saved entries leave behind\<close>

definition entry_key :: "entry \<Rightarrow> entity_type \<times> uuid" where
  "entry_key ch = (ch_itemType ch, item_id (ch_item ch))"

definition entry_result :: "entry \<Rightarrow> item option" where
  "entry_result ch = (if ch_changeType ch = Deleted then None else Some (item_written (ch_item ch)))"

lemma db_effect_point:
  "db_effect m ch ty i = (if entry_key ch = (ty, i) then entry_result ch else m ty i)"
  by (auto simp: db_effect_def entry_effect_def entry_key_def entry_result_def)

lemma foldl_db_effect_other:
  "(ty, i) \<notin> entry_key ` set chs \<Longrightarrow> foldl db_effect m chs ty i = m ty i"
  by (induction chs arbitrary: m) (auto simp: db_effect_point)

lemma foldl_db_effect_last:
  "foldl db_effect m chs ty i =
    (case filter (\<lambda>ch. entry_key ch = (ty, i)) chs of [] \<Rightarrow> m ty i | ks \<Rightarrow> entry_result (last ks))"
  by (induction chs arbitrary: m) (auto simp: db_effect_point split: list.splits)

lemma saved_entry:
  assumes "SaveChanges c = (c', Inr ())" "db_tracker c = chs @ ch # rest" "entry_key ch \<notin> entry_key ` set rest"
  shows "stored (db_stores c') (ch_itemType ch) (item_id (ch_item ch)) = entry_result ch"
  using foldl_db_effect_other [of "ch_itemType ch" "item_id (ch_item ch)" rest] assms(3)
  by (simp add: saved_stored [OF assms(1)] assms(2)) (simp add: db_effect_point entry_key_def)

text \<open>
  After a successful \<^verbatim>\<open>SaveChanges\<close> an identifier holds what the last entry for
  it wrote, nothing when that entry deleted it, and an identifier without an entry holds
  what it held before.
\<close>

theorem SaveChanges_last_writer:
  assumes "SaveChanges c = (c', Inr ())"
  shows "stored (db_stores c') ty i =
    (case filter (\<lambda>ch. entry_key ch = (ty, i)) (db_tracker c) of
       [] \<Rightarrow> stored (db_stores c) ty i
     | chs \<Rightarrow> entry_result (last chs))"
  by (simp add: saved_stored [OF assms] foldl_db_effect_last)

theorem SaveChanges_last_writer_witness:
  "stored (db_stores (fst (SaveChanges \<lparr>db_stores = newStores,
      db_tracker = [NewEntry Added FileEntityType (ItemFile (NewFile 7 0 ''a'' ''b'' ''c''))]\<rparr>)))
    FileEntityType 7 = Some (ItemFile (written_File (NewFile 7 0 ''a'' ''b'' ''c'')))"
  using SaveChanges_last_writer [of "\<lparr>db_stores = newStores,
      db_tracker = [NewEntry Added FileEntityType (ItemFile (NewFile 7 0 ''a'' ''b'' ''c''))]\<rparr>" _
      FileEntityType 7, OF surjective_pairing [THEN trans]]
  by (simp add: SaveChanges_def Tracker_GetChanges_def Context_applyChange_def applyInsertOnly_def
      as_File_def entry_key_def entry_result_def NewFile_def Let_def)

section \<open>Trackers that the repositories build\<close>

text \<open>
  A context reaches its tracker through the repositories only: the trackers are those made
  by any sequence of their \<^verbatim>\<open>Insert\<close>, \<^verbatim>\<open>Update\<close> and
  \<^verbatim>\<open>Delete\<close> operations.
\<close>

inductive repo_tracker :: "tracker \<Rightarrow> bool" where
  repo_NewTracker: "repo_tracker NewTracker"
| repo_VirtualServerRepository_Insert: "repo_tracker t \<Longrightarrow> repo_tracker (VirtualServerRepository_Insert m t)"
| repo_VirtualServerRepository_Update: "repo_tracker t \<Longrightarrow> repo_tracker (VirtualServerRepository_Update m t)"
| repo_ApplicationRepository_Insert: "repo_tracker t \<Longrightarrow> repo_tracker (ApplicationRepository_Insert m t)"
| repo_ApplicationRepository_Update: "repo_tracker t \<Longrightarrow> repo_tracker (ApplicationRepository_Update m t)"
| repo_ApplicationRepository_Delete: "repo_tracker t \<Longrightarrow> repo_tracker (ApplicationRepository_Delete i t)"
| repo_UserRepository_Insert: "repo_tracker t \<Longrightarrow> repo_tracker (UserRepository_Insert m t)"
| repo_UserRepository_Update: "repo_tracker t \<Longrightarrow> repo_tracker (UserRepository_Update m t)"
| repo_CredentialRepository_Insert: "repo_tracker t \<Longrightarrow> repo_tracker (CredentialRepository_Insert m t)"
| repo_CredentialRepository_Update: "repo_tracker t \<Longrightarrow> repo_tracker (CredentialRepository_Update m t)"
| repo_CredentialRepository_Delete: "repo_tracker t \<Longrightarrow> repo_tracker (CredentialRepository_Delete i t)"
| repo_SessionRepository_Insert: "repo_tracker t \<Longrightarrow> repo_tracker (SessionRepository_Insert m t)"
| repo_SessionRepository_Delete: "repo_tracker t \<Longrightarrow> repo_tracker (SessionRepository_Delete i t)"
| repo_ProjectRepository_Insert: "repo_tracker t \<Longrightarrow> repo_tracker (ProjectRepository_Insert m t)"
| repo_ProjectRepository_Update: "repo_tracker t \<Longrightarrow> repo_tracker (ProjectRepository_Update m t)"
| repo_ProjectRepository_Delete: "repo_tracker t \<Longrightarrow> repo_tracker (ProjectRepository_Delete i t)"
| repo_RoleRepository_Insert: "repo_tracker t \<Longrightarrow> repo_tracker (RoleRepository_Insert m t)"
| repo_RoleRepository_Update: "repo_tracker t \<Longrightarrow> repo_tracker (RoleRepository_Update m t)"
| repo_RoleRepository_Delete: "repo_tracker t \<Longrightarrow> repo_tracker (RoleRepository_Delete i t)"
| repo_GroupRepository_Insert: "repo_tracker t \<Longrightarrow> repo_tracker (GroupRepository_Insert m t)"
| repo_GroupRepository_Update: "repo_tracker t \<Longrightarrow> repo_tracker (GroupRepository_Update m t)"
| repo_GroupRepository_Delete: "repo_tracker t \<Longrightarrow> repo_tracker (GroupRepository_Delete i t)"
| repo_ResourceServerRepository_Insert: "repo_tracker t \<Longrightarrow> repo_tracker (ResourceServerRepository_Insert m t)"
| repo_ResourceServerRepository_Update: "repo_tracker t \<Longrightarrow> repo_tracker (ResourceServerRepository_Update m t)"
| repo_ResourceServerRepository_Delete: "repo_tracker t \<Longrightarrow> repo_tracker (ResourceServerRepository_Delete i t)"
| repo_ResourceServerScopeRepository_Insert: "repo_tracker t \<Longrightarrow> repo_tracker (ResourceServerScopeRepository_Insert m t)"
| repo_ResourceServerScopeRepository_Update: "repo_tracker t \<Longrightarrow> repo_tracker (ResourceServerScopeRepository_Update m t)"
| repo_ResourceServerScopeRepository_Delete: "repo_tracker t \<Longrightarrow> repo_tracker (ResourceServerScopeRepository_Delete i t)"
| repo_PasswordRuleRepository_Insert: "repo_tracker t \<Longrightarrow> repo_tracker (PasswordRuleRepository_Insert m t)"
| repo_PasswordRuleRepository_Update: "repo_tracker t \<Longrightarrow> repo_tracker (PasswordRuleRepository_Update m t)"
| repo_PasswordRuleRepository_Delete: "repo_tracker t \<Longrightarrow> repo_tracker (PasswordRuleRepository_Delete i t)"
| repo_TemplateRepository_Insert: "repo_tracker t \<Longrightarrow> repo_tracker (TemplateRepository_Insert m t)"
| repo_FileRepository_Insert: "repo_tracker t \<Longrightarrow> repo_tracker (FileRepository_Insert m t)"
| repo_ApplicationUserMetadataRepository_Insert: "repo_tracker t \<Longrightarrow> repo_tracker (ApplicationUserMetadataRepository_Insert m t)"
| repo_ApplicationUserMetadataRepository_Update: "repo_tracker t \<Longrightarrow> repo_tracker (ApplicationUserMetadataRepository_Update m t)"
| repo_OutboxMessageRepository_Insert: "repo_tracker t \<Longrightarrow> repo_tracker (OutboxMessageRepository_Insert m t)"
| repo_OutboxMessageRepository_Delete: "repo_tracker t \<Longrightarrow> repo_tracker (OutboxMessageRepository_Delete i t)"
| repo_AuditLogRepository_Insert: "repo_tracker t \<Longrightarrow> repo_tracker (AuditLogRepository_Insert m t)"
| repo_UserRoleAssignmentRepository_Insert: "repo_tracker t \<Longrightarrow> repo_tracker (UserRoleAssignmentRepository_Insert m t)"

lemmas repo_write_defs =
  VirtualServerRepository_Insert_def VirtualServerRepository_Update_def
  ApplicationRepository_Insert_def ApplicationRepository_Update_def
  ApplicationRepository_Delete_def UserRepository_Insert_def UserRepository_Update_def
  CredentialRepository_Insert_def CredentialRepository_Update_def
  CredentialRepository_Delete_def SessionRepository_Insert_def SessionRepository_Delete_def
  ProjectRepository_Insert_def ProjectRepository_Update_def ProjectRepository_Delete_def
  RoleRepository_Insert_def RoleRepository_Update_def RoleRepository_Delete_def
  GroupRepository_Insert_def GroupRepository_Update_def GroupRepository_Delete_def
  ResourceServerRepository_Insert_def ResourceServerRepository_Update_def
  ResourceServerRepository_Delete_def ResourceServerScopeRepository_Insert_def
  ResourceServerScopeRepository_Update_def ResourceServerScopeRepository_Delete_def
  PasswordRuleRepository_Insert_def PasswordRuleRepository_Update_def
  PasswordRuleRepository_Delete_def TemplateRepository_Insert_def FileRepository_Insert_def
  ApplicationUserMetadataRepository_Insert_def ApplicationUserMetadataRepository_Update_def
  OutboxMessageRepository_Insert_def OutboxMessageRepository_Delete_def
  AuditLogRepository_Insert_def UserRoleAssignmentRepository_Insert_def


lemma entry_ok_simps [simp]:
  "entry_ok (NewEntry Added ty it) \<longleftrightarrow> ty \<noteq> GroupRoleEntityType \<and> item_type it = Some ty"
  "entry_ok (NewEntry Deleted ty (ItemId i)) \<longleftrightarrow>
     ty \<notin> {GroupRoleEntityType, AuditLogEntityType, FileEntityType, TemplateEntityType,
            UserRoleAssignmentEntityType} \<and> (\<forall>n. ty \<noteq> OtherEntityType n)"
  by (auto simp: entry_ok_def as_Id_def Let_def)

lemma entry_ok_Updated [simp]:
  "entry_ok (NewEntry Updated ty it) \<longleftrightarrow>
     ty \<notin> {GroupRoleEntityType, AuditLogEntityType, FileEntityType, TemplateEntityType,
            UserRoleAssignmentEntityType, SessionEntityType, OutboxMessageEntityType} \<and>
     item_type it = Some ty"
  by (auto simp: entry_ok_def Let_def)

lemma repo_tracker_ok: "repo_tracker t \<Longrightarrow> list_all entry_ok t"
  by (induction rule: repo_tracker.induct) (simp_all add: NewTracker_def repo_write_defs Tracker_Add_def)

text \<open>
  No sequence of repository operations makes \<^verbatim>\<open>SaveChanges\<close> of the in-memory
  database fail or panic: every operation adds an entry that the switch accepts.
\<close>

theorem repository_writes_always_save:
  assumes "repo_tracker (db_tracker c)"
  shows "\<exists>c'. SaveChanges c = (c', Inr ()) \<and> db_tracker c' = []"
  using apply_entries_all_ok [OF repo_tracker_ok [OF assms], of "db_stores c"]
  by (auto simp: SaveChanges_def Tracker_GetChanges_def Tracker_Clear_def)

theorem repository_writes_always_save_witness:
  "\<exists>c'. SaveChanges \<lparr>db_stores = newStores,
      db_tracker = SessionRepository_Delete 1 (SessionRepository_Insert (NewSession 1 0 2 3 4) NewTracker)\<rparr> =
    (c', Inr ()) \<and> db_tracker c' = []"
  using repository_writes_always_save [of "\<lparr>db_stores = newStores,
      db_tracker = SessionRepository_Delete 1 (SessionRepository_Insert (NewSession 1 0 2 3 4) NewTracker)\<rparr>"]
  by (simp add: repo_tracker.intros)

section \<open>Reads by identifier\<close>

lemma filter_map_snd_absent:
  "i \<notin> fst ` set s \<Longrightarrow> (\<forall>(k, e) \<in> set s. idOf e = k) \<Longrightarrow> filter (\<lambda>e. idOf e = i \<and> P e) (map snd s) = []"
  by (induction s) (auto simp: filter_empty_conv)

lemma wf_store_filter_id:
  assumes "wf_store idOf s"
  shows "filter (\<lambda>e. idOf e = i \<and> P e) (map snd s) =
    (case map_of s i of None \<Rightarrow> [] | Some e \<Rightarrow> if P e then [e] else [])"
proof -
  have "distinct (map fst s) \<Longrightarrow> \<forall>(k, e) \<in> set s. idOf e = k \<Longrightarrow> ?thesis"
  proof (induction s)
    case (Cons x s)
    obtain k e where x: "x = (k, e)" by (cases x)
    show ?case
      using Cons filter_map_snd_absent [of i s idOf P] by (auto simp: x)
  qed simp
  moreover have "\<forall>(k, e) \<in> set s. idOf e = k"
    using assms by (auto simp: wf_store_def)
  ultimately show ?thesis using assms by (simp add: wf_store_def)
qed

lemma repo_filtered_id:
  assumes "wf_store idOf s" "\<And>e. p e = Inr (idOf e = i \<and> P e)"
  shows "repo_filtered p s =
    Inr (case map_of s i of None \<Rightarrow> [] | Some e \<Rightarrow> if P e then [e] else [])"
  using filter_go_pure [of "map snd s" p "\<lambda>e. idOf e = i \<and> P e"] assms
  by (simp add: repo_filtered_def wf_store_filter_id)

lemma first_of_simps [simp]: "first_of [] = None" "first_of (x # xs) = Some x"
  by (simp_all add: first_of_def)

lemma or_err_simps [simp]:
  "or_err s (Inr None) = Inl (Err (Named s))" "or_err s (Inr (Some x)) = Inr x" "or_err s (Inl e) = Inl e"
  by (simp_all add: or_err_def)

lemma VirtualServerRepository_FirstOrErr_id:
  assumes "wf_stores st"
  shows "VirtualServerRepository_FirstOrErr (st_VirtualServers st) (VirtualServerFilter_Id i NewVirtualServerFilter) =
    (case map_of (st_VirtualServers st) i of
       Some v \<Rightarrow> Inr v | None \<Rightarrow> Inl (Err (Named ErrVirtualServerNotFound)))"
  using repo_filtered_id [of "\<lambda>e. bm_id (vs_base e)" "st_VirtualServers st"
      "VirtualServer_matches (VirtualServerFilter_Id i NewVirtualServerFilter)" i "\<lambda>_. True"] assms
  by (auto simp: wf_stores_def filter_defs repo_defs split: option.splits)

lemma UserRepository_FirstOrErr_id:
  assumes "wf_stores st"
  shows "UserRepository_FirstOrErr (st_Users st)
      (UserFilter_Id i (UserFilter_VirtualServerId vsId NewUserFilter)) =
    (case map_of (st_Users st) i of
       Some u \<Rightarrow> if u_virtualServerId u = vsId then Inr u else Inl (Err (Named ErrUserNotFound))
     | None \<Rightarrow> Inl (Err (Named ErrUserNotFound)))"
  using repo_filtered_id [of "\<lambda>e. bm_id (u_base e)" "st_Users st"
      "User_matches (UserFilter_Id i (UserFilter_VirtualServerId vsId NewUserFilter))" i
      "\<lambda>u. u_virtualServerId u = vsId"] assms
  by (auto simp: wf_stores_def filter_defs repo_defs split: option.splits)

text \<open>
  A user that a context updates, with no later entry for the same user, is found after
  \<^verbatim>\<open>SaveChanges\<close> by its identifier and its virtual server, exactly as it was handed
  to the repository, with no pending changes and with a version one higher.
\<close>

theorem User_read_your_write:
  assumes "wf_stores (db_stores c)"
    and "db_tracker c = chs @ NewEntry Updated UserEntityType (ItemUser u) # rest"
    and "(UserEntityType, bm_id (u_base u)) \<notin> entry_key ` set rest"
    and "SaveChanges c = (c', Inr ())"
  shows "UserRepository_FirstOrErr (st_Users (db_stores c'))
      (UserFilter_Id (bm_id (u_base u)) (UserFilter_VirtualServerId (u_virtualServerId u) NewUserFilter)) =
    Inr (u\<lparr>u_base := (u_base u)\<lparr>bm_version := VersionInt (incrementVersion (bm_version (u_base u)))\<rparr>,
           u_changes := []\<rparr>)"
proof -
  have wf: "wf_stores (db_stores c')" using saved_wf [OF assms(1)] assms(4) by simp
  have "stored (db_stores c') UserEntityType (bm_id (u_base u)) = Some (ItemUser (written_User u))"
    using saved_entry [OF assms(4) assms(2)] assms(3) by (simp add: entry_key_def entry_result_def)
  then show ?thesis
    using UserRepository_FirstOrErr_id [OF wf]
    by (auto simp: stored.simps written_User_def SetVersion_def ClearChanges_def NewChanges_def)
qed

theorem User_read_your_write_witness:
  "\<exists>c'. SaveChanges \<lparr>db_stores = newStores,
       db_tracker = [NewEntry Updated UserEntityType (ItemUser (NewUser 5 0 ''a'' ''b'' ''c'' 9))]\<rparr> = (c', Inr ()) \<and>
     UserRepository_FirstOrErr (st_Users (db_stores c'))
       (UserFilter_Id 5 (UserFilter_VirtualServerId 9 NewUserFilter)) =
     Inr (written_User (NewUser 5 0 ''a'' ''b'' ''c'' 9))"
proof -
  let ?u = "NewUser 5 0 ''a'' ''b'' ''c'' 9"
  let ?c = "\<lparr>db_stores = newStores, db_tracker = [NewEntry Updated UserEntityType (ItemUser ?u)]\<rparr>"
  obtain c' where c': "SaveChanges ?c = (c', Inr ())"
    using apply_entries_all_ok [of "db_tracker ?c" newStores]
    by (auto simp: SaveChanges_def Tracker_GetChanges_def)
  show ?thesis
    using User_read_your_write [of ?c "[]" ?u "[]", OF _ _ _ c'] c'
    by (auto simp: written_User_def NewUser_def SetVersion_def ClearChanges_def NewChanges_def)
qed

section \<open>Pages\<close>

lemma map_go_append:
  "map_go f (xs @ ys) = go_bind (map_go f xs) (\<lambda>as. go_bind (map_go f ys) (\<lambda>bs. Inr (as @ bs)))"
proof (induction xs)
  case Nil
  show ?case by (cases "map_go f ys") auto
next
  case (Cons x xs)
  then show ?case by (cases "f x"; cases "map_go f xs"; cases "map_go f ys") auto
qed

lemma paginateSlice_page:
  assumes "1 \<le> pi_page pg" "1 \<le> pi_size pg" "pi_page pg * pi_size pg < 2 ^ 63"
  shows "paginateSlice items pg =
    Inr (take (nat (pi_size pg)) (drop (nat ((pi_page pg - 1) * pi_size pg)) items))"
proof -
  let ?o = "(pi_page pg - 1) * pi_size pg"
  have o: "0 \<le> ?o" "?o + pi_size pg = pi_page pg * pi_size pg"
    using assms by (simp_all add: algebra_simps)
  have "in_int64 ?o"
    unfolding in_int64_def using o assms by linarith
  moreover have "in_int64 (?o + pi_size pg)"
    unfolding in_int64_def using o assms by linarith
  moreover have "nat (?o + pi_size pg) - nat ?o = nat (pi_size pg)"
    using o assms by linarith
  ultimately show ?thesis
    using assms o(1)
    by (simp add: paginateSlice_def PagingInfo_IsZero_def Let_def slice_def)
qed

lemma pages_concat:
  assumes "1 \<le> s" "int n * s < 2 ^ 63"
  shows "\<exists>pages. map_go (\<lambda>page. paginateSlice items (PagingInfo page s)) (map int [1..<Suc n]) = Inr pages \<and>
    concat pages = take (n * nat s) items"
  using assms(2)
proof (induction n)
  case (Suc n)
  have "int n * s < 2 ^ 63"
    using Suc.prems assms(1) by (simp add: distrib_right)
  then obtain pages where p: "map_go (\<lambda>page. paginateSlice items (PagingInfo page s)) (map int [1..<Suc n]) = Inr pages"
    "concat pages = take (n * nat s) items"
    using Suc.IH by blast
  have "paginateSlice items (PagingInfo (int (Suc n)) s) = Inr (take (nat s) (drop (n * nat s) items))"
    using paginateSlice_page [of "PagingInfo (int (Suc n)) s" items] assms(1) Suc.prems
    by (simp add: nat_mult_distrib)
  then have "map_go (\<lambda>page. paginateSlice items (PagingInfo page s)) (map int [1..<Suc (Suc n)]) =
      Inr (pages @ [take (nat s) (drop (n * nat s) items)])"
    using p(1) by (simp add: map_go_append)
  then show ?case
    using p(2) by (auto simp: take_add [symmetric] add.commute)
qed simp

text \<open>
  The pages of a list, taken from the first to one that reaches its end, give all its
  elements once and in order, as long as the page number times the page size stays below
  the largest 64-bit integer.
\<close>

theorem pages_partition:
  assumes "1 \<le> s" "int n * s < 2 ^ 63" "int (length items) \<le> int n * s"
  shows "\<exists>pages. map_go (\<lambda>page. paginateSlice items (PagingInfo page s)) (map int [1..<Suc n]) = Inr pages \<and>
    concat pages = items"
proof -
  have "int (length items) \<le> int (n * nat s)"
    using assms(1,3) by simp
  then have "length items \<le> n * nat s"
    by (simp only: of_nat_le_iff)
  then show ?thesis
    using pages_concat [OF assms(1,2), of items] by simp
qed

theorem pages_partition_witness:
  "\<exists>pages. map_go (\<lambda>page. paginateSlice ''abc'' (PagingInfo page 2)) (map int [1..<Suc 2]) = Inr pages \<and>
    concat pages = ''abc''"
  using pages_partition [of 2 2 "''abc''"] by simp

text \<open>
  Beyond that bound the product of page and size wraps around, the slice starts at a
  negative index and the request panics: page 3 of size two to the power of 62.
\<close>

theorem paginateSlice_overflow_panics:
  "paginateSlice items (PagingInfo 3 (2 ^ 62)) = Inl (Panic ''slice bounds out of range'')"
  by (simp add: paginateSlice_def PagingInfo_IsZero_def Let_def wrap64_def slice_def)

end
