(* ===== verification/Environment.thy ===== *)
theory Environment
  imports MemoryDb
begin

text \<open>
  What the program takes from outside its own source: its configuration, the source of
  identifiers and random bytes, and third-party code (argon2 password hashes, one-time
  passwords, signature algorithms, JSON web tokens, URL parsing, text templates). Each is a
  field of the record \<open>env\<close>, so a theorem holds for every choice of it. A call
  that draws random values takes a counter, which the state of the program increases.
  The predicates \<open>uuid_ok\<close> and \<open>rand_ok\<close> state the documented behaviour that theorems rely on.
\<close>

text \<open>
  A public key as the \<^verbatim>\<open>crypto\<close> packages represent it: the exponent and the
  big-endian bytes of the modulus of RSA, the 32 bytes of Ed25519, an encoded point for ECDSA.
\<close>

datatype public_key =
    RSAPublicKey int string
  | Ed25519PublicKey string
  | ECDSAPublicKey string
  | OtherPublicKey

datatype totp_opts = TotpOpts (to_Period: int) (to_Skew: int) (to_Digits: int) (to_Algorithm: int)

record env =
  \<comment> \<open>configuration\<close>
  e_ExternalUrl :: string
  e_FrontendExternalUrl :: string
  e_InitialVirtualServerName :: string
  \<comment> \<open>identifiers and random bytes\<close>
  e_uuid_String :: "uuid \<Rightarrow> string"
  e_uuid_Parse :: "string \<Rightarrow> uuid option"
  e_uuid_New :: "nat \<Rightarrow> uuid"
  e_rand_Read :: "nat \<Rightarrow> nat \<Rightarrow> string"
  \<comment> \<open>keys and signatures\<close>
  e_rsa_GenerateKey :: "nat \<Rightarrow> (int \<times> string) \<times> string"
  e_ed25519_GenerateKey :: "nat \<Rightarrow> string \<times> string"
  e_ParsePKIXPublicKey :: "string \<Rightarrow> public_key option"
  e_rsa_VerifyPKCS1v15 :: "public_key \<Rightarrow> string \<Rightarrow> string \<Rightarrow> bool"
  e_rsa_VerifyPSS :: "public_key \<Rightarrow> string \<Rightarrow> string \<Rightarrow> bool"
  e_ecdsa_VerifyASN1 :: "public_key \<Rightarrow> string \<Rightarrow> string \<Rightarrow> bool"
  e_ed25519_Verify :: "public_key \<Rightarrow> string \<Rightarrow> string \<Rightarrow> bool"
  \<comment> \<open>JSON web tokens: the algorithm of the header; the claims of a token that is valid at a time under a key; a signed token\<close>
  e_jwt_Algorithm :: "string \<Rightarrow> string option"
  e_jwt_Parse :: "time \<Rightarrow> string \<Rightarrow> string \<Rightarrow> public_key \<Rightarrow> (string \<times> json) list option"
  e_jwt_ParseUnverified :: "string \<Rightarrow> (string \<times> json) list option"
  e_jwt_Header :: "string \<Rightarrow> (string \<times> json) list"
  e_jwt_Sign :: "string \<Rightarrow> string \<Rightarrow> (string \<times> json) list \<Rightarrow> json \<Rightarrow> string option"
  e_jwt_GetSubject :: "(string \<times> json) list \<Rightarrow> string option" \<comment> \<open>the registered claims, empty when missing\<close>
  e_jwt_GetIssuer :: "(string \<times> json) list \<Rightarrow> string option"
  e_jwt_GetAudience :: "(string \<times> json) list \<Rightarrow> string list option"
  e_pem_Decode :: "string \<Rightarrow> string option"
  \<comment> \<open>passwords and one-time passwords\<close>
  e_CheckPassword :: "string \<Rightarrow> string \<Rightarrow> bool option"
  e_HashPassword :: "nat \<Rightarrow> string \<Rightarrow> string"
  e_totp_Validate :: "time \<Rightarrow> string \<Rightarrow> string \<Rightarrow> bool"
  e_totp_ValidateCustom :: "string \<Rightarrow> string \<Rightarrow> time \<Rightarrow> totp_opts \<Rightarrow> bool option"
  \<comment> \<open>texts\<close>
  e_url_Parse :: "string \<Rightarrow> (string \<times> string) option" \<comment> \<open>scheme and host\<close>
  e_url_Split :: "string \<Rightarrow> (string \<times> string \<times> bool \<times> string) option"
    \<comment> \<open>of a URL that parses: the text before the query, the query, if it is forced, the fragment\<close>
  e_base32 :: "string \<Rightarrow> string"
  e_json_Parse :: "string \<Rightarrow> json option" \<comment> \<open>bytes that come from outside\<close>
  e_json_Text :: "json \<Rightarrow> string" \<comment> \<open>the bytes of a document\<close>
  e_script_Run :: "string \<Rightarrow> json \<Rightarrow> json option" \<comment> \<open>a JavaScript program under global variables\<close>
  e_template :: "string \<Rightarrow> json \<Rightarrow> string option" \<comment> \<open>parse and execute\<close>

definition uuid_ok :: "env \<Rightarrow> bool" where
  "uuid_ok E \<longleftrightarrow>
     (\<forall>i. e_uuid_Parse E (e_uuid_String E i) = Some i) \<and>
     (\<forall>i. e_uuid_String E i \<noteq> [] \<and> CHR '':'' \<notin> set (e_uuid_String E i))"

definition rand_ok :: "env \<Rightarrow> bool" where
  "rand_ok E \<longleftrightarrow> (\<forall>n k. length (e_rand_Read E n k) = k)"

lemma uuid_okD:
  assumes "uuid_ok E"
  shows "e_uuid_Parse E (e_uuid_String E i) = Some i" "e_uuid_String E i \<noteq> []"
    "CHR '':'' \<notin> set (e_uuid_String E i)"
  using assms by (auto simp: uuid_ok_def)

lemma uuid_String_inj: "uuid_ok E \<Longrightarrow> e_uuid_String E i = e_uuid_String E j \<longleftrightarrow> i = j"
  by (metis uuid_okD(1) option.inject)

lemma rand_okD: "rand_ok E \<Longrightarrow> length (e_rand_Read E n k) = k"
  by (simp add: rand_ok_def)

text \<open>A concrete environment, for theorems applied at concrete inputs.\<close>

fun unary :: "nat \<Rightarrow> string" where
  "unary 0 = ''0''"
| "unary (Suc n) = CHR ''1'' # unary n"

definition test_env :: env where
  "test_env =
     \<lparr>e_ExternalUrl = ''https://id.example'', e_FrontendExternalUrl = ''https://app.example'',
      e_InitialVirtualServerName = ''main'',
      e_uuid_String = unary,
      e_uuid_Parse = (\<lambda>s. if s = [] then None else Some (length s - 1)),
      e_uuid_New = (\<lambda>n. 1000 + n),
      e_rand_Read = (\<lambda>n k. map (\<lambda>i. char_of (n div 256 ^ i)) [0..<k]),
      e_rsa_GenerateKey = (\<lambda>n. ((65537, unary n), unary n)),
      e_ed25519_GenerateKey = (\<lambda>n. (unary n, unary n)),
      e_ParsePKIXPublicKey = (\<lambda>s. Some (Ed25519PublicKey s)),
      e_rsa_VerifyPKCS1v15 = (\<lambda>_ _ _. False), e_rsa_VerifyPSS = (\<lambda>_ _ _. False),
      e_ecdsa_VerifyASN1 = (\<lambda>_ _ _. False),
      e_ed25519_Verify = (\<lambda>_ _ s. s = ''sig''),
      e_jwt_Algorithm = (\<lambda>_. Some ''EdDSA''), e_jwt_Parse = (\<lambda>_ _ _ _. None),
      e_jwt_ParseUnverified = (\<lambda>_. None), e_jwt_Header = (\<lambda>_. []), e_jwt_Sign = (\<lambda>_ _ _ _. Some ''jwt''),
      e_jwt_GetSubject = (\<lambda>cs. case map_of cs ''sub'' of Some (JStr s) \<Rightarrow> Some s | _ \<Rightarrow> Some []),
      e_jwt_GetIssuer = (\<lambda>cs. case map_of cs ''iss'' of Some (JStr s) \<Rightarrow> Some s | _ \<Rightarrow> Some []),
      e_jwt_GetAudience = (\<lambda>cs. case map_of cs ''aud'' of Some (JStr s) \<Rightarrow> Some [s] | _ \<Rightarrow> Some []),
      e_pem_Decode = Some,
      e_CheckPassword = (\<lambda>p h. Some (h = ''h:'' @ p)),
      e_HashPassword = (\<lambda>_ p. ''h:'' @ p),
      e_totp_Validate = (\<lambda>_ c _. c = ''123456''),
      e_totp_ValidateCustom = (\<lambda>c _ _ _. Some (c = ''123456'')),
      e_url_Parse = (\<lambda>_. Some (''https'', ''app.example'')),
      e_url_Split = (\<lambda>s. Some (s, [], False, [])),
      e_base32 = (\<lambda>s. ''b32''),
      e_json_Parse = (\<lambda>_. None), e_json_Text = (\<lambda>_. ''json''), e_script_Run = (\<lambda>_ _. None),
      e_template = (\<lambda>_ _. Some ''mail'')\<rparr>"

lemma set_unary: "set (unary n) \<subseteq> {CHR ''0'', CHR ''1''}"
  by (induction n) auto

lemma unary_not_Nil: "unary n \<noteq> []"
  by (cases n) auto

lemma length_unary [simp]: "length (unary n) = Suc n"
  by (induction n) auto

lemma uuid_ok_test_env [simp]: "uuid_ok test_env"
proof -
  show ?thesis using set_unary unary_not_Nil by (force simp: uuid_ok_def test_env_def)
qed

lemma rand_ok_test_env [simp]: "rand_ok test_env"
  by (simp add: rand_ok_def test_env_def)

end
