(* ===== verification/Keys.thy ===== *)
theory Keys
  imports Environment
begin

text \<open>
  Signing keys: their generation and the in-memory key store with its service
  (\<^verbatim>\<open>internal/services/keys.go\<close>), the cache of the service
  (\<^verbatim>\<open>internal/caching/memorycache.go\<close>), and the rotation job
  (\<^verbatim>\<open>internal/jobs/KeyRotateJob.go\<close>). The store maps a string made of the virtual
  server, the algorithm and the key identifier to a key pair; lists of keys come in the order
  of one \<^verbatim>\<open>range\<close> loop over the map, which Go leaves open.
\<close>

section \<open>Key pairs\<close>

record key_pair =
  kp_algorithm :: signing_algorithm
  kp_publicKey :: public_key
  kp_privateKey :: string
  kp_kid :: string
  kp_createdAt :: time
  kp_rotatesAt :: time
  kp_expiresAt :: time

text \<open>The big-endian bytes of an exponent.\<close>

function bigIntToBytes_loop :: "int \<Rightarrow> string \<Rightarrow> string" where
  "bigIntToBytes_loop i b =
     (if i > 0 then bigIntToBytes_loop (i div 256) (char_of (i mod 256) # b) else b)"
  by pat_completeness auto
termination
  by (relation "measure (\<lambda>(i, b). nat i)") auto

definition bigIntToBytes :: "int \<Rightarrow> string" where
  "bigIntToBytes i = (if i = 0 then [char_of (0 :: nat)] else bigIntToBytes_loop i [])"

declare bigIntToBytes_loop.simps [simp del]

fun bytes_value :: "string \<Rightarrow> int" where
  "bytes_value [] = 0"
| "bytes_value (c # cs) = of_char c * 256 ^ length cs + bytes_value cs"

lemma bytes_value_append: "bytes_value (xs @ ys) = bytes_value xs * 256 ^ length ys + bytes_value ys"
  by (induction xs) (auto simp: algebra_simps power_add)

lemma bigIntToBytes_loop_value:
  "0 \<le> i \<Longrightarrow> bytes_value (bigIntToBytes_loop i b) = i * 256 ^ length b + bytes_value b"
proof (induction i b rule: bigIntToBytes_loop.induct)
  case (1 i b)
  show ?case
  proof (cases "i > 0")
    case True
    have "i * 256 ^ length b = (i div 256 * 256 + i mod 256) * 256 ^ length b"
      by simp
    then have "i * 256 ^ length b = i div 256 * 256 ^ Suc (length b) + (i mod 256) * 256 ^ length b"
      by (simp only: distrib_right power_Suc mult.assoc)
    then show ?thesis
      using 1 True by (subst bigIntToBytes_loop.simps) simp
  qed (use 1 in \<open>subst bigIntToBytes_loop.simps, simp\<close>)
qed

definition jwk_thumbprint :: "string \<Rightarrow> string \<Rightarrow> string" where
  "jwk_thumbprint e n =
     CHR 0x7B # CHR 0x22 # ''e'' @ [CHR 0x22, CHR '':'', CHR 0x22] @ e @
     [CHR 0x22, CHR '','', CHR 0x22] @ ''kty'' @ [CHR 0x22, CHR '':'', CHR 0x22] @ ''RSA'' @
     [CHR 0x22, CHR '','', CHR 0x22] @ ''n'' @ [CHR 0x22, CHR '':'', CHR 0x22] @ n @ [CHR 0x22, CHR 0x7D]"

definition computeRSAPublicKeyKid :: "int \<Rightarrow> string \<Rightarrow> string" where
  "computeRSAPublicKeyKid e n =
     RawURLEncoding_EncodeToString (sha256_Sum256
       (jwk_thumbprint (RawURLEncoding_EncodeToString (bigIntToBytes e)) (RawURLEncoding_EncodeToString n)))"

definition computeEdCSAPublicKeyKid :: "string \<Rightarrow> string" where
  "computeEdCSAPublicKeyKid key = RawURLEncoding_EncodeToString (sha256_Sum256 key)"

definition RSAKeyStrategy_Generate :: "env \<Rightarrow> time \<Rightarrow> nat \<Rightarrow> key_pair" where
  "RSAKeyStrategy_Generate E now n =
     (let (pub, privateKey) = e_rsa_GenerateKey E n
      in \<lparr>kp_algorithm = SigningAlgorithmRS256, kp_publicKey = RSAPublicKey (fst pub) (snd pub),
          kp_privateKey = privateKey, kp_kid = computeRSAPublicKeyKid (fst pub) (snd pub),
          kp_createdAt = now, kp_rotatesAt = now + Hour * 24 * 20, kp_expiresAt = now + Hour * 24 * 30\<rparr>)"

definition EdDSAKeyStrategy_Generate :: "env \<Rightarrow> time \<Rightarrow> nat \<Rightarrow> key_pair" where
  "EdDSAKeyStrategy_Generate E now n =
     (let (publicKey, privateKey) = e_ed25519_GenerateKey E n
      in \<lparr>kp_algorithm = SigningAlgorithmEdDSA, kp_publicKey = Ed25519PublicKey publicKey,
          kp_privateKey = privateKey, kp_kid = computeEdCSAPublicKeyKid publicKey,
          kp_createdAt = now, kp_rotatesAt = now + Hour * 24 * 20, kp_expiresAt = now + Hour * 24 * 30\<rparr>)"

text \<open>\<^verbatim>\<open>GetKeyStrategy\<close> panics for an algorithm it does not know.\<close>

definition GetKeyStrategy :: "signing_algorithm \<Rightarrow> (env \<Rightarrow> time \<Rightarrow> nat \<Rightarrow> key_pair) go" where
  "GetKeyStrategy algorithm =
     (if algorithm = SigningAlgorithmRS256 then Inr RSAKeyStrategy_Generate
      else if algorithm = SigningAlgorithmEdDSA then Inr EdDSAKeyStrategy_Generate
      else Inl (Panic (''not implemented for algorithm: '' @ algorithm)))"

lemma GetKeyStrategy_known:
  "(\<exists>g. GetKeyStrategy alg = Inr g) \<longleftrightarrow> alg \<in> set SupportedSigningAlgorithms"
  by (auto simp: GetKeyStrategy_def SupportedSigningAlgorithms_def)

lemma GetKeyStrategy_generated:
  assumes "GetKeyStrategy alg = Inr g"
  shows "kp_algorithm (g E now n) = alg" "kp_rotatesAt (g E now n) = now + Hour * 24 * 20"
    "kp_expiresAt (g E now n) = now + Hour * 24 * 30" "kp_createdAt (g E now n) = now"
  using assms
  by (auto simp: GetKeyStrategy_def RSAKeyStrategy_Generate_def EdDSAKeyStrategy_Generate_def
      split: if_splits prod.splits)

section \<open>Key stores\<close>

text \<open>
  The interface \<^verbatim>\<open>KeyStore\<close> as a record of its methods over a state. A method that
  changes the state returns its error, or none, and the new state.
\<close>

record 's key_store =
  KS_Get :: "string \<Rightarrow> signing_algorithm \<Rightarrow> string \<Rightarrow> 's \<Rightarrow> key_pair option go"
  KS_GetAll :: "string \<Rightarrow> 's \<Rightarrow> key_pair list go"
  KS_GetAllForAlgorithm :: "string \<Rightarrow> signing_algorithm \<Rightarrow> 's \<Rightarrow> key_pair list go"
  KS_Add :: "string \<Rightarrow> key_pair \<Rightarrow> 's \<Rightarrow> unit go \<times> 's"
  KS_Remove :: "string \<Rightarrow> signing_algorithm \<Rightarrow> string \<Rightarrow> 's \<Rightarrow> unit go \<times> 's"
  KS_RemoveAllForAlgorithm :: "string \<Rightarrow> signing_algorithm \<Rightarrow> 's \<Rightarrow> unit go \<times> 's"

type_synonym key_data = "(string \<times> key_pair) list"

definition memory_key :: "string \<Rightarrow> signing_algorithm \<Rightarrow> string \<Rightarrow> string" where
  "memory_key virtualServerName algorithm kid = virtualServerName @ '':'' @ algorithm @ '':'' @ kid"

definition memoryKeyStore_Get :: "string \<Rightarrow> signing_algorithm \<Rightarrow> string \<Rightarrow> key_data \<Rightarrow> key_pair option go" where
  "memoryKeyStore_Get vs alg kid m = Inr (map_of m (memory_key vs alg kid))"

definition memoryKeyStore_GetAll :: "string \<Rightarrow> key_data \<Rightarrow> key_pair list go" where
  "memoryKeyStore_GetAll vs m = Inr (map snd (filter (\<lambda>(key, _). HasPrefix key (vs @ '':'')) m))"

definition memoryKeyStore_GetAllForAlgorithm :: "string \<Rightarrow> signing_algorithm \<Rightarrow> key_data \<Rightarrow> key_pair list go" where
  "memoryKeyStore_GetAllForAlgorithm vs alg m =
     Inr (map snd (filter (\<lambda>(key, _). HasPrefix key (vs @ '':'' @ alg @ '':'')) m))"

definition memoryKeyStore_Add :: "string \<Rightarrow> key_pair \<Rightarrow> key_data \<Rightarrow> unit go \<times> key_data" where
  "memoryKeyStore_Add vs kp m = (Inr (), AList.update (memory_key vs (kp_algorithm kp) (kp_kid kp)) kp m)"

definition memoryKeyStore_Remove :: "string \<Rightarrow> signing_algorithm \<Rightarrow> string \<Rightarrow> key_data \<Rightarrow> unit go \<times> key_data" where
  "memoryKeyStore_Remove vs alg kid m = (Inr (), AList.delete (memory_key vs alg kid) m)"

definition memoryKeyStore_RemoveAllForAlgorithm ::
  "string \<Rightarrow> signing_algorithm \<Rightarrow> key_data \<Rightarrow> unit go \<times> key_data" where
  "memoryKeyStore_RemoveAllForAlgorithm vs alg m =
     (Inr (), filter (\<lambda>(key, _). \<not> HasPrefix key (vs @ '':'' @ alg @ '':'')) m)"

definition NewMemoryKeyStore :: "key_data key_store" where
  "NewMemoryKeyStore =
     \<lparr>KS_Get = memoryKeyStore_Get, KS_GetAll = memoryKeyStore_GetAll,
      KS_GetAllForAlgorithm = memoryKeyStore_GetAllForAlgorithm, KS_Add = memoryKeyStore_Add,
      KS_Remove = memoryKeyStore_Remove, KS_RemoveAllForAlgorithm = memoryKeyStore_RemoveAllForAlgorithm\<rparr>"

lemma NewMemoryKeyStore_simps [simp]:
  "KS_Get NewMemoryKeyStore = memoryKeyStore_Get" "KS_GetAll NewMemoryKeyStore = memoryKeyStore_GetAll"
  "KS_GetAllForAlgorithm NewMemoryKeyStore = memoryKeyStore_GetAllForAlgorithm"
  "KS_Add NewMemoryKeyStore = memoryKeyStore_Add" "KS_Remove NewMemoryKeyStore = memoryKeyStore_Remove"
  "KS_RemoveAllForAlgorithm NewMemoryKeyStore = memoryKeyStore_RemoveAllForAlgorithm"
  by (simp_all add: NewMemoryKeyStore_def)

section \<open>The key service\<close>

type_synonym key_cache = "((string \<times> signing_algorithm) \<times> key_pair) list"

text \<open>The cache of the service (\<^verbatim>\<open>caching/memorycache.go\<close>).\<close>

definition TryGet :: "'k \<Rightarrow> ('k \<times> 'v) list \<Rightarrow> 'v option" where
  "TryGet key values = map_of values key"

definition Put :: "'k \<Rightarrow> 'v \<Rightarrow> ('k \<times> 'v) list \<Rightarrow> ('k \<times> 'v) list" where
  "Put key v values = AList.update key v values"

definition KeyService_Generate ::
  "env \<Rightarrow> 's key_store \<Rightarrow> time \<Rightarrow> nat \<Rightarrow> string \<Rightarrow> signing_algorithm \<Rightarrow> 's \<Rightarrow> key_pair go \<times> 's" where
  "KeyService_Generate E KS now n vs alg s =
     (case GetKeyStrategy alg of
        Inl e \<Rightarrow> (Inl e, s)
      | Inr strategy \<Rightarrow>
          let keyPair = strategy E now n in
          (case KS_Add KS vs keyPair s of
             (Inl e, s') \<Rightarrow> (wrap ''storing key pair'' (Inl e), s')
           | (Inr _, s') \<Rightarrow> (Inr keyPair, s')))"

definition KeyService_GetKey ::
  "'s key_store \<Rightarrow> string \<Rightarrow> signing_algorithm \<Rightarrow> 's \<Rightarrow> key_cache \<Rightarrow> key_pair go \<times> key_cache" where
  "KeyService_GetKey KS vs alg s cache =
     (case TryGet (vs, alg) cache of
        Some keyPair \<Rightarrow> (Inr keyPair, cache)
      | None \<Rightarrow>
          (case KS_GetAllForAlgorithm KS vs alg s of
             Inl e \<Rightarrow> (wrap ''getting key pairs'' (Inl e), cache)
           | Inr [] \<Rightarrow>
               (Inl (Err (Wrap (''no signing keys for virtual server '' @ vs) (Named ErrHttpServiceUnavailable))), cache)
           | Inr (keyPair # _) \<Rightarrow> (Inr keyPair, Put (vs, alg) keyPair cache)))"

definition KeyService_GetAllKeys :: "'s key_store \<Rightarrow> string \<Rightarrow> 's \<Rightarrow> key_pair list go" where
  "KeyService_GetAllKeys KS vs s = KS_GetAll KS vs s"

section \<open>The rotation job\<close>

text \<open>A loop of removals that returns at the first error.\<close>

fun remove_each :: "(key_pair \<Rightarrow> bool) \<Rightarrow> string \<Rightarrow> 's key_store \<Rightarrow> string \<Rightarrow> key_pair list \<Rightarrow> 's \<Rightarrow> unit go \<times> 's" where
  "remove_each doomed msg KS vs [] s = (Inr (), s)"
| "remove_each doomed msg KS vs (kp # kps) s =
     (if doomed kp then
        (case KS_Remove KS vs (kp_algorithm kp) (kp_kid kp) s of
           (Inl e, s') \<Rightarrow> (wrap msg (Inl e), s')
         | (Inr _, s') \<Rightarrow> remove_each doomed msg KS vs kps s')
      else remove_each doomed msg KS vs kps s)"

definition deleteExpiredKeys :: "key_pair list \<Rightarrow> 's key_store \<Rightarrow> string \<Rightarrow> time \<Rightarrow> 's \<Rightarrow> unit go \<times> 's" where
  "deleteExpiredKeys keyPairs KS vs now =
     remove_each (\<lambda>kp. kp_expiresAt kp < now) ''removing key pair'' KS vs keyPairs"

definition deleteOrphanKeys :: "key_pair list \<Rightarrow> 's key_store \<Rightarrow> virtual_server \<Rightarrow> 's \<Rightarrow> unit go \<times> 's" where
  "deleteOrphanKeys keyPairs KS server =
     remove_each (\<lambda>kp. kp_algorithm kp \<notin> set (VirtualServer_AllSigningAlgorithms server))
       ''removing orphan key pair'' KS (vs_name server) keyPairs"

text \<open>The two loops that fill the map \<^verbatim>\<open>algorithmsToRotate\<close>.\<close>

definition algorithmsToRotate :: "key_pair list \<Rightarrow> time \<Rightarrow> (signing_algorithm \<times> bool) list" where
  "algorithmsToRotate keyPairs now =
     fold (\<lambda>kp m. if kp_rotatesAt kp > now then AList.update (kp_algorithm kp) False m else m) keyPairs
       (fold (\<lambda>kp m. AList.update (kp_algorithm kp) True m) keyPairs [])"

text \<open>
  One new key for each algorithm of a list. The result is the error, if any, the counter of
  fresh key material, and the store.
\<close>

fun generate_each ::
  "env \<Rightarrow> 's key_store \<Rightarrow> time \<Rightarrow> string \<Rightarrow> signing_algorithm list \<Rightarrow> nat \<Rightarrow> 's \<Rightarrow> unit go \<times> nat \<times> 's" where
  "generate_each E KS now vs [] n s = (Inr (), n, s)"
| "generate_each E KS now vs (alg # algs) n s =
     (case KeyService_Generate E KS now n vs alg s of
        (Inl e, s') \<Rightarrow> (wrap ''generating key pair'' (Inl e), Suc n, s')
      | (Inr _, s') \<Rightarrow> generate_each E KS now vs algs (Suc n) s')"

definition generateNewKeys ::
  "env \<Rightarrow> 's key_store \<Rightarrow> time \<Rightarrow> key_pair list \<Rightarrow> virtual_server \<Rightarrow> nat \<Rightarrow> 's \<Rightarrow> unit go \<times> nat \<times> 's" where
  "generateNewKeys E KS now keyPairs server n s =
     (let toRotate = algorithmsToRotate keyPairs now;
          rotating = map fst (filter snd toRotate);
          seeding = filter (\<lambda>alg. alg \<notin> fst ` set toRotate) (VirtualServer_AllSigningAlgorithms server)
      in case generate_each E KS now (vs_name server) rotating n s of
           (Inl e, n', s') \<Rightarrow> (Inl e, n', s')
         | (Inr _, n', s') \<Rightarrow> generate_each E KS now (vs_name server) seeding n' s')"

definition rotateKeysForVirtualServer ::
  "env \<Rightarrow> 's key_store \<Rightarrow> time \<Rightarrow> virtual_server \<Rightarrow> nat \<Rightarrow> 's \<Rightarrow> unit go \<times> nat \<times> 's" where
  "rotateKeysForVirtualServer E KS now server n s =
     (case KS_GetAll KS (vs_name server) s of
        Inl e \<Rightarrow> (wrap ''getting key pairs'' (Inl e), n, s)
      | Inr keyPairs \<Rightarrow>
          (case deleteExpiredKeys keyPairs KS (vs_name server) now s of
             (Inl e, s1) \<Rightarrow> (wrap ''deleting expired key'' (Inl e), n, s1)
           | (Inr _, s1) \<Rightarrow>
               (case deleteOrphanKeys keyPairs KS server s1 of
                  (Inl e, s2) \<Rightarrow> (wrap ''deleting orphan keys'' (Inl e), n, s2)
                | (Inr _, s2) \<Rightarrow>
                    (case generateNewKeys E KS now keyPairs server n s2 of
                       (r, n', s3) \<Rightarrow> (wrap ''generating new key'' r, n', s3)))))"

text \<open>The job runs over all virtual servers and stops at the first that fails.\<close>

fun rotate_all :: "env \<Rightarrow> 's key_store \<Rightarrow> time \<Rightarrow> virtual_server list \<Rightarrow> nat \<Rightarrow> 's \<Rightarrow> unit go \<times> nat \<times> 's" where
  "rotate_all E KS now [] n s = (Inr (), n, s)"
| "rotate_all E KS now (server # servers) n s =
     (case rotateKeysForVirtualServer E KS now server n s of
        (Inl e, n', s') \<Rightarrow> (wrap ''rotating keys for virtual server'' (Inl e), n', s')
      | (Inr _, n', s') \<Rightarrow> rotate_all E KS now servers n' s')"

definition KeyRotateJob :: "env \<Rightarrow> 's key_store \<Rightarrow> time \<Rightarrow> stores \<Rightarrow> nat \<Rightarrow> 's \<Rightarrow> unit go \<times> nat \<times> 's" where
  "KeyRotateJob E KS now st n s =
     (case VirtualServerRepository_List (st_VirtualServers st) NewVirtualServerFilter of
        Inl e \<Rightarrow> (wrap ''listing virtual servers'' (Inl e), n, s)
      | Inr servers \<Rightarrow> rotate_all E KS now servers n s)"

end
