(* ===== verification/KeySpec.thy ===== *)
theory KeySpec
  imports Keys
begin

text \<open>
  The contract of a key store (locale \<open>key_store_laws\<close>), which the in-memory store meets, and
  what the rotation job achieves on every store that meets it: each configured algorithm
  has a key that is not due, no expired key is left, other virtual servers keep their keys.
\<close>

text \<open>Names that the in-memory store can tell apart: the separator is a colon.\<close>

definition plain_name :: "string \<Rightarrow> bool" where
  "plain_name s \<longleftrightarrow> CHR '':'' \<notin> set s"

section \<open>Which algorithms rotate\<close>

lemma map_of_fold_True:
  "map_of (fold (\<lambda>kp m. AList.update (kp_algorithm kp) True m) kps m) alg =
     (if alg \<in> kp_algorithm ` set kps then Some True else map_of m alg)"
  by (induction kps arbitrary: m) (auto simp: update_conv')

lemma map_of_fold_False:
  "map_of (fold (\<lambda>kp m. if kp_rotatesAt kp > now then AList.update (kp_algorithm kp) False m else m) kps m) alg =
     (if \<exists>kp \<in> set kps. kp_algorithm kp = alg \<and> kp_rotatesAt kp > now then Some False else map_of m alg)"
  by (induction kps arbitrary: m) (auto simp: update_conv')

lemma map_of_algorithmsToRotate:
  "map_of (algorithmsToRotate kps now) alg =
     (if \<exists>kp \<in> set kps. kp_algorithm kp = alg \<and> kp_rotatesAt kp > now then Some False
      else if alg \<in> kp_algorithm ` set kps then Some True else None)"
  by (simp add: algorithmsToRotate_def map_of_fold_False map_of_fold_True)

lemma distinct_algorithmsToRotate: "distinct (map fst (algorithmsToRotate kps now))"
proof -
  have "distinct (map fst m) \<Longrightarrow> distinct (map fst (fold (\<lambda>kp m. AList.update (kp_algorithm kp) True m) kps m))" for m
    by (induction kps arbitrary: m) (auto simp: distinct_update)
  moreover have "distinct (map fst m) \<Longrightarrow> distinct (map fst (fold (\<lambda>kp m.
      if kp_rotatesAt kp > now then AList.update (kp_algorithm kp) False m else m) kps m))" for m
    by (induction kps arbitrary: m) (auto simp: distinct_update)
  ultimately show ?thesis by (simp add: algorithmsToRotate_def)
qed

lemma set_rotating:
  "set (map fst (filter snd (algorithmsToRotate kps now))) =
     {alg \<in> kp_algorithm ` set kps. \<forall>kp \<in> set kps. kp_algorithm kp = alg \<longrightarrow> kp_rotatesAt kp \<le> now}"
proof (intro set_eqI)
  fix alg
  have "alg \<in> set (map fst (filter snd (algorithmsToRotate kps now))) \<longleftrightarrow>
      map_of (algorithmsToRotate kps now) alg = Some True"
    unfolding map_of_eq_Some_iff [OF distinct_algorithmsToRotate] by (auto simp: image_iff)
  then show "alg \<in> set (map fst (filter snd (algorithmsToRotate kps now))) \<longleftrightarrow>
      alg \<in> {alg \<in> kp_algorithm ` set kps. \<forall>kp \<in> set kps. kp_algorithm kp = alg \<longrightarrow> kp_rotatesAt kp \<le> now}"
    unfolding map_of_algorithmsToRotate by (auto simp: not_less)
qed

lemma keys_algorithmsToRotate: "fst ` set (algorithmsToRotate kps now) = kp_algorithm ` set kps"
proof (intro set_eqI)
  fix a
  have "a \<in> fst ` set (algorithmsToRotate kps now) \<longleftrightarrow> map_of (algorithmsToRotate kps now) a \<noteq> None"
    by (simp add: map_of_eq_None_iff)
  then show "a \<in> fst ` set (algorithmsToRotate kps now) \<longleftrightarrow> a \<in> kp_algorithm ` set kps"
    unfolding map_of_algorithmsToRotate by auto
qed

section \<open>The contract\<close>

text \<open>
  The contract is about the names of virtual servers and algorithms, the identifiers and the key pairs that the store
  can tell apart and keep: \<open>named\<close>, \<open>kid_ok\<close>, \<open>storable\<close>.
\<close>

text \<open>A store that keeps the key pairs with a property keeps the keys that are generated.\<close>

definition fresh_keys :: "(key_pair \<Rightarrow> bool) \<Rightarrow> env \<Rightarrow> bool" where
  "fresh_keys storable E \<longleftrightarrow> (\<forall>alg g now n. GetKeyStrategy alg = Inr g \<longrightarrow> storable (g E now n))"

locale key_store_laws =
  fixes KS :: "'s key_store"
    and view :: "'s \<Rightarrow> string \<Rightarrow> signing_algorithm \<Rightarrow> string \<Rightarrow> key_pair option"
    and valid :: "'s \<Rightarrow> bool"
    and named :: "string \<Rightarrow> bool"
    and kid_ok :: "string \<Rightarrow> bool"
    and storable :: "key_pair \<Rightarrow> bool"
  assumes get: "\<lbrakk>valid s; named vs; named alg; kid_ok kid\<rbrakk> \<Longrightarrow> KS_Get KS vs alg kid s = Inr (view s vs alg kid)"
    and get_all: "\<lbrakk>valid s; named vs\<rbrakk> \<Longrightarrow>
      \<exists>kps. KS_GetAll KS vs s = Inr kps \<and> set kps = {kp. \<exists>alg kid. view s vs alg kid = Some kp}"
    and get_all_for: "\<lbrakk>valid s; named vs; named alg\<rbrakk> \<Longrightarrow>
      \<exists>kps. KS_GetAllForAlgorithm KS vs alg s = Inr kps \<and> set kps = {kp. \<exists>kid. view s vs alg kid = Some kp}"
    and add: "\<lbrakk>valid s; named vs; storable kp\<rbrakk> \<Longrightarrow>
      \<exists>s'. KS_Add KS vs kp s = (Inr (), s') \<and> valid s' \<and>
        (\<forall>v a k. view s' v a k = (if v = vs \<and> a = kp_algorithm kp \<and> k = kp_kid kp then Some kp else view s v a k))"
    and remove: "\<lbrakk>valid s; named vs; named alg; kid_ok kid\<rbrakk> \<Longrightarrow>
      \<exists>s'. KS_Remove KS vs alg kid s = (Inr (), s') \<and> valid s' \<and>
        (\<forall>v a k. view s' v a k = (if v = vs \<and> a = alg \<and> k = kid then None else view s v a k))"
    and remove_all: "\<lbrakk>valid s; named vs; named alg\<rbrakk> \<Longrightarrow>
      \<exists>s'. KS_RemoveAllForAlgorithm KS vs alg s = (Inr (), s') \<and> valid s' \<and>
        (\<forall>v a k. view s' v a k = (if v = vs \<and> a = alg then None else view s v a k))"
    and own: "\<lbrakk>valid s; view s vs alg kid = Some kp\<rbrakk> \<Longrightarrow>
      kp_algorithm kp = alg \<and> kp_kid kp = kid \<and> named alg \<and> kid_ok kid"
begin

lemma remove_each_view:
  assumes "valid s" "named vs" "\<forall>kp \<in> set kps. named (kp_algorithm kp) \<and> kid_ok (kp_kid kp)"
  shows "\<exists>s'. remove_each doomed msg KS vs kps s = (Inr (), s') \<and> valid s' \<and>
    (\<forall>v a k. view s' v a k =
      (if v = vs \<and> (\<exists>kp \<in> set kps. doomed kp \<and> kp_algorithm kp = a \<and> kp_kid kp = k) then None else view s v a k))"
  using assms
proof (induction kps arbitrary: s)
  case (Cons kp kps)
  show ?case
  proof (cases "doomed kp")
    case True
    obtain s1 where s1: "KS_Remove KS vs (kp_algorithm kp) (kp_kid kp) s = (Inr (), s1)" "valid s1"
      "\<forall>v a k. view s1 v a k = (if v = vs \<and> a = kp_algorithm kp \<and> k = kp_kid kp then None else view s v a k)"
      using remove Cons.prems by (meson list.set_intros(1))
    from Cons.IH [OF s1(2)] Cons.prems True show ?thesis
      by (auto simp: s1)
  next
    case False
    from Cons.IH [OF Cons.prems(1)] Cons.prems False show ?thesis
      by auto
  qed
qed simp

lemma generate_each_view:
  assumes "fresh_keys storable E" "valid s" "named vs" "set algs \<subseteq> set SupportedSigningAlgorithms"
  shows "\<exists>n' s'. generate_each E KS now vs algs n s = (Inr (), n', s') \<and> valid s' \<and>
    (\<forall>v a k. v \<noteq> vs \<or> a \<notin> set algs \<longrightarrow> view s' v a k = view s v a k) \<and>
    (\<forall>a k kp. view s vs a k = Some kp \<longrightarrow> view s' vs a k \<noteq> None) \<and>
    (\<forall>a k kp. view s' vs a k = Some kp \<longrightarrow> view s vs a k = Some kp \<or>
        kp_rotatesAt kp = now + Hour * 24 * 20 \<and> kp_expiresAt kp = now + Hour * 24 * 30) \<and>
    (\<forall>a \<in> set algs. \<exists>k kp. view s' vs a k = Some kp \<and>
        kp_rotatesAt kp = now + Hour * 24 * 20 \<and> kp_expiresAt kp = now + Hour * 24 * 30)"
  using assms
proof (induction algs arbitrary: n s)
  case (Cons alg algs)
  obtain g where g: "GetKeyStrategy alg = Inr g"
    using Cons.prems GetKeyStrategy_known [of alg] by auto
  let ?kp = "g E now n"
  have kept: "storable ?kp" using Cons.prems(1) g unfolding fresh_keys_def by blast
  obtain s1 where s1: "KS_Add KS vs ?kp s = (Inr (), s1)" "valid s1"
    "\<forall>v a k. view s1 v a k = (if v = vs \<and> a = alg \<and> k = kp_kid ?kp then Some ?kp else view s v a k)"
    using add [OF Cons.prems(2,3) kept] by (auto simp: GetKeyStrategy_generated [OF g])
  obtain n' s' where s': "generate_each E KS now vs algs (Suc n) s1 = (Inr (), n', s')" "valid s'"
    "\<forall>v a k. v \<noteq> vs \<or> a \<notin> set algs \<longrightarrow> view s' v a k = view s1 v a k"
    "\<forall>a k kp. view s1 vs a k = Some kp \<longrightarrow> view s' vs a k \<noteq> None"
    "\<forall>a k kp. view s' vs a k = Some kp \<longrightarrow> view s1 vs a k = Some kp \<or>
        kp_rotatesAt kp = now + Hour * 24 * 20 \<and> kp_expiresAt kp = now + Hour * 24 * 30"
    "\<forall>a \<in> set algs. \<exists>k kp. view s' vs a k = Some kp \<and>
        kp_rotatesAt kp = now + Hour * 24 * 20 \<and> kp_expiresAt kp = now + Hour * 24 * 30"
    using Cons.IH [OF Cons.prems(1) s1(2), of "Suc n"] Cons.prems by auto
  have "\<exists>k kp. view s' vs alg k = Some kp \<and>
      kp_rotatesAt kp = now + Hour * 24 * 20 \<and> kp_expiresAt kp = now + Hour * 24 * 30"
  proof (cases "alg \<in> set algs")
    case False
    then have "view s' vs alg (kp_kid ?kp) = Some ?kp" using s'(3) s1(3) by simp
    then show ?thesis using GetKeyStrategy_generated [OF g, of E now n] by auto
  qed (use s'(6) in auto)
  moreover have "\<forall>a k kp. view s' vs a k = Some kp \<longrightarrow> view s vs a k = Some kp \<or>
      kp_rotatesAt kp = now + Hour * 24 * 20 \<and> kp_expiresAt kp = now + Hour * 24 * 30"
    using s'(5) s1(3) GetKeyStrategy_generated [OF g, of E now n] by (metis option.inject)
  moreover have "\<forall>a k kp. view s vs a k = Some kp \<longrightarrow> view s' vs a k \<noteq> None"
    using s'(4) s1(3) by (metis option.distinct(1) option.exhaust)
  ultimately show ?case
    using s' s1 by (simp add: KeyService_Generate_def g Let_def)
qed simp

text \<open>What the job needs of a virtual server and its keys, and what it achieves.\<close>

definition keys_ok :: "time \<Rightarrow> 's \<Rightarrow> virtual_server \<Rightarrow> bool" where
  "keys_ok now s server \<longleftrightarrow>
     (\<forall>a \<in> set (VirtualServer_AllSigningAlgorithms server).
        \<exists>k kp. view s (vs_name server) a k = Some kp \<and> now < kp_rotatesAt kp) \<and>
     (\<forall>a k kp. view s (vs_name server) a k = Some kp \<longrightarrow> now \<le> kp_expiresAt kp)"

definition rotatable :: "'s \<Rightarrow> virtual_server \<Rightarrow> bool" where
  "rotatable s server \<longleftrightarrow> named (vs_name server) \<and>
     set (VirtualServer_AllSigningAlgorithms server) \<subseteq> set SupportedSigningAlgorithms \<and>
     (\<forall>a k kp. view s (vs_name server) a k = Some kp \<longrightarrow>
        a \<in> set SupportedSigningAlgorithms \<and> kp_rotatesAt kp \<le> kp_expiresAt kp)"

lemma rotate_view:
  assumes E: "fresh_keys storable E" and s: "valid s" and r: "rotatable s server"
  shows "\<exists>n' s'. rotateKeysForVirtualServer E KS now server n s = (Inr (), n', s') \<and> valid s' \<and>
    keys_ok now s' server \<and>
    (\<forall>v. v \<noteq> vs_name server \<longrightarrow> view s' v = view s v) \<and>
    (\<forall>a. (\<exists>k kp. view s (vs_name server) a k = Some kp) \<longrightarrow>
       (\<forall>k kp. view s (vs_name server) a k = Some kp \<longrightarrow> kp_rotatesAt kp \<le> now) \<longrightarrow>
       (\<exists>k kp. view s' (vs_name server) a k = Some kp \<and> now < kp_rotatesAt kp))"
proof -
  let ?vs = "vs_name server" and ?conf = "set (VirtualServer_AllSigningAlgorithms server)"
  have vs: "named ?vs"
    and conf: "?conf \<subseteq> set SupportedSigningAlgorithms"
    and keys: "\<And>a k kp. view s ?vs a k = Some kp \<Longrightarrow>
      a \<in> set SupportedSigningAlgorithms \<and> kp_rotatesAt kp \<le> kp_expiresAt kp"
    using r unfolding rotatable_def by blast+
  obtain kps where kps: "KS_GetAll KS ?vs s = Inr kps" "set kps = {kp. \<exists>alg kid. view s ?vs alg kid = Some kp}"
    using get_all [OF s vs] by blast
  have own': "\<And>a k kp. view s ?vs a k = Some kp \<Longrightarrow> kp_algorithm kp = a \<and> kp_kid kp = k"
    using own [OF s] by blast
  have in_kps: "view s ?vs a k = Some kp \<longleftrightarrow> kp \<in> set kps \<and> kp_algorithm kp = a \<and> kp_kid kp = k" for a k kp
    using kps(2) own' by blast
  have plain: "\<forall>kp \<in> set kps. named (kp_algorithm kp) \<and> kid_ok (kp_kid kp)"
    using kps(2) own [OF s] by blast
  obtain s1 where s1: "deleteExpiredKeys kps KS ?vs now s = (Inr (), s1)" "valid s1"
    "\<forall>v a k. view s1 v a k = (if v = ?vs \<and>
       (\<exists>kp \<in> set kps. kp_expiresAt kp < now \<and> kp_algorithm kp = a \<and> kp_kid kp = k) then None else view s v a k)"
    using remove_each_view [OF s vs plain] unfolding deleteExpiredKeys_def by blast
  obtain s2 where s2: "deleteOrphanKeys kps KS server s1 = (Inr (), s2)" "valid s2"
    "\<forall>v a k. view s2 v a k = (if v = ?vs \<and>
       (\<exists>kp \<in> set kps. kp_algorithm kp \<notin> ?conf \<and> kp_algorithm kp = a \<and> kp_kid kp = k) then None else view s1 v a k)"
    using remove_each_view [OF s1(2) vs plain] unfolding deleteOrphanKeys_def by blast
  have kept: "view s2 ?vs a k = Some kp \<longleftrightarrow> view s ?vs a k = Some kp \<and> a \<in> ?conf \<and> now \<le> kp_expiresAt kp" for a k kp
  proof -
    have only: "(\<exists>kp' \<in> set kps. P kp' \<and> kp_algorithm kp' = a \<and> kp_kid kp' = k) \<longleftrightarrow> P kp"
      if "view s ?vs a k = Some kp" for P
      using that in_kps [of a k] by (metis option.inject)
    show ?thesis
    proof (cases "view s ?vs a k = Some kp")
      case True
      then have "kp_algorithm kp = a" using own' by blast
      with True show ?thesis
        unfolding s1(3) [rule_format] s2(3) [rule_format] only [OF True] by auto
    qed (auto simp: s1(3) s2(3))
  qed
  let ?rot = "map fst (filter snd (algorithmsToRotate kps now))"
  let ?seed = "filter (\<lambda>alg. alg \<notin> fst ` set (algorithmsToRotate kps now)) (VirtualServer_AllSigningAlgorithms server)"
  have "set ?rot \<subseteq> set SupportedSigningAlgorithms"
    unfolding set_rotating using keys in_kps by blast
  from generate_each_view [OF E s2(2) vs this, of now n] obtain n3 s3 where
    s3: "generate_each E KS now ?vs ?rot n s2 = (Inr (), n3, s3)" "valid s3"
    "\<forall>v a k. v \<noteq> ?vs \<or> a \<notin> set ?rot \<longrightarrow> view s3 v a k = view s2 v a k"
    "\<forall>a k kp. view s2 ?vs a k = Some kp \<longrightarrow> view s3 ?vs a k \<noteq> None"
    "\<forall>a k kp. view s3 ?vs a k = Some kp \<longrightarrow> view s2 ?vs a k = Some kp \<or>
        kp_rotatesAt kp = now + Hour * 24 * 20 \<and> kp_expiresAt kp = now + Hour * 24 * 30"
    "\<forall>a \<in> set ?rot. \<exists>k kp. view s3 ?vs a k = Some kp \<and>
        kp_rotatesAt kp = now + Hour * 24 * 20 \<and> kp_expiresAt kp = now + Hour * 24 * 30"
    by blast
  have "set ?seed \<subseteq> set SupportedSigningAlgorithms" using conf by auto
  from generate_each_view [OF E s3(2) vs this, of now n3] obtain n4 s4 where
    s4: "generate_each E KS now ?vs ?seed n3 s3 = (Inr (), n4, s4)" "valid s4"
    "\<forall>v a k. v \<noteq> ?vs \<or> a \<notin> set ?seed \<longrightarrow> view s4 v a k = view s3 v a k"
    "\<forall>a k kp. view s4 ?vs a k = Some kp \<longrightarrow> view s3 ?vs a k = Some kp \<or>
        kp_rotatesAt kp = now + Hour * 24 * 20 \<and> kp_expiresAt kp = now + Hour * 24 * 30"
    "\<forall>a \<in> set ?seed. \<exists>k kp. view s4 ?vs a k = Some kp \<and>
        kp_rotatesAt kp = now + Hour * 24 * 20 \<and> kp_expiresAt kp = now + Hour * 24 * 30"
    by blast
  have run: "rotateKeysForVirtualServer E KS now server n s = (Inr (), n4, s4)"
    using s3(1) s4(1) by (simp add: rotateKeysForVirtualServer_def generateNewKeys_def kps(1) s1(1) s2(1) Let_def)
  have fresh: "\<exists>k kp. view s4 ?vs a k = Some kp \<and> now < kp_rotatesAt kp" if a: "a \<in> ?conf" for a
  proof (cases "a \<in> set ?seed")
    case True
    with s4(5) show ?thesis by (fastforce simp: duration_defs)
  next
    case seeded: False
    show ?thesis
    proof (cases "a \<in> set ?rot")
      case True
      with s3(6) s4(3) seeded show ?thesis by (fastforce simp: duration_defs)
    next
      case False
      have "a \<in> kp_algorithm ` set kps"
        using a seeded by (simp add: keys_algorithmsToRotate del: set_AllSigningAlgorithms)
      with False obtain kp where kp: "kp \<in> set kps" "kp_algorithm kp = a" "now < kp_rotatesAt kp"
        unfolding set_rotating by (auto simp: not_le)
      then have "view s ?vs a (kp_kid kp) = Some kp" using in_kps by blast
      then have "view s2 ?vs a (kp_kid kp) = Some kp" using kept keys a kp(3) by fastforce
      then show ?thesis using s3(3) s4(3) seeded False kp(3) by force
    qed
  qed
  have "now \<le> kp_expiresAt kp" if "view s4 ?vs a k = Some kp" for a k kp
    using that s4(4) s3(5) kept by (fastforce simp: duration_defs)
  moreover have "view s4 v = view s v" if "v \<noteq> ?vs" for v
    using that s1(3) s2(3) s3(3) s4(3) by (simp add: fun_eq_iff)
  moreover have "\<exists>k kp. view s4 ?vs a k = Some kp \<and> now < kp_rotatesAt kp"
    if a: "\<exists>k kp. view s ?vs a k = Some kp" "\<forall>k kp. view s ?vs a k = Some kp \<longrightarrow> kp_rotatesAt kp \<le> now" for a
  proof -
    have "a \<in> set ?rot" "a \<notin> set ?seed"
      unfolding set_rotating using a in_kps by (auto simp: keys_algorithmsToRotate)
    with s3(6) s4(3) show ?thesis by (fastforce simp: duration_defs)
  qed
  ultimately show ?thesis using run s4(2) fresh unfolding keys_ok_def by blast
qed

lemma rotate_all_view:
  assumes "fresh_keys storable E" "valid s" "\<forall>server \<in> set servers. rotatable s server" "distinct (map vs_name servers)"
  shows "\<exists>n' s'. rotate_all E KS now servers n s = (Inr (), n', s') \<and> valid s' \<and>
    (\<forall>server \<in> set servers. keys_ok now s' server) \<and>
    (\<forall>v. v \<notin> vs_name ` set servers \<longrightarrow> view s' v = view s v)"
  using assms
proof (induction servers arbitrary: n s)
  case (Cons server servers)
  have "rotatable s server" using Cons.prems(3) by simp
  then obtain n1 s1 where s1: "rotateKeysForVirtualServer E KS now server n s = (Inr (), n1, s1)" "valid s1"
    "keys_ok now s1 server" "\<forall>v. v \<noteq> vs_name server \<longrightarrow> view s1 v = view s v"
    using rotate_view [OF Cons.prems(1,2), where now = now and n = n] by blast
  have other: "vs_name sv \<noteq> vs_name server" if "sv \<in> set servers" for sv
    using Cons.prems(4) that by (auto simp: image_iff)
  have "\<forall>sv \<in> set servers. rotatable s1 sv"
    using Cons.prems(3) s1(4) other by (simp add: rotatable_def)
  from Cons.IH [OF Cons.prems(1) s1(2) this, of n1] Cons.prems(4) obtain n2 s2 where
    s2: "rotate_all E KS now servers n1 s1 = (Inr (), n2, s2)" "valid s2"
    "\<forall>sv \<in> set servers. keys_ok now s2 sv" "\<forall>v. v \<notin> vs_name ` set servers \<longrightarrow> view s2 v = view s1 v"
    by auto
  have "vs_name server \<notin> vs_name ` set servers" using Cons.prems(4) by auto
  then have "keys_ok now s2 server" using s1(3) s2(4) by (simp add: keys_ok_def)
  with s1 s2 show ?case by auto
qed simp

end

section \<open>The in-memory store meets the contract\<close>

lemma memory_key_eq:
  assumes "plain_name vs" "plain_name vs'" "plain_name alg" "plain_name alg'"
  shows "memory_key vs alg kid = memory_key vs' alg' kid' \<longleftrightarrow> vs = vs' \<and> alg = alg' \<and> kid = kid'"
  using assms by (auto simp: memory_key_def plain_name_def append_sep_eq)

lemma memory_key_prefix:
  assumes "plain_name vs" "plain_name vs'" "plain_name alg" "plain_name alg'"
  shows "HasPrefix (memory_key vs' alg' kid) (vs @ '':'') \<longleftrightarrow> vs' = vs"
    and "HasPrefix (memory_key vs' alg' kid) (vs @ '':'' @ alg @ '':'') \<longleftrightarrow> vs' = vs \<and> alg' = alg"
  using assms by (auto simp: HasPrefix_iff memory_key_def plain_name_def append_sep_eq)

definition memory_view :: "key_data \<Rightarrow> string \<Rightarrow> signing_algorithm \<Rightarrow> string \<Rightarrow> key_pair option" where
  "memory_view m vs alg kid =
     (if plain_name vs \<and> plain_name alg then map_of m (memory_key vs alg kid) else None)"

text \<open>Every key is stored under the name of a virtual server and its own algorithm and identifier.\<close>

definition memory_valid :: "key_data \<Rightarrow> bool" where
  "memory_valid m \<longleftrightarrow> distinct (map fst m) \<and>
     (\<forall>key kp. map_of m key = Some kp \<longrightarrow> plain_name (kp_algorithm kp) \<and>
        (\<exists>vs. plain_name vs \<and> key = memory_key vs (kp_algorithm kp) (kp_kid kp)))"

lemma memory_validD:
  assumes "memory_valid m" "(key, kp) \<in> set m"
  shows "map_of m key = Some kp" "plain_name (kp_algorithm kp)"
    "\<exists>vs. plain_name vs \<and> key = memory_key vs (kp_algorithm kp) (kp_kid kp)"
  using assms by (auto simp: memory_valid_def)

lemma memory_view_Some:
  assumes "memory_valid m"
  shows "memory_view m vs alg kid = Some kp \<longleftrightarrow>
    plain_name vs \<and> kp_algorithm kp = alg \<and> kp_kid kp = kid \<and> (memory_key vs alg kid, kp) \<in> set m"
proof
  assume l: "memory_view m vs alg kid = Some kp"
  then have n: "plain_name vs" "plain_name alg" and kp: "(memory_key vs alg kid, kp) \<in> set m"
    by (auto simp: memory_view_def dest: map_of_SomeD split: if_splits)
  from memory_validD(2,3) [OF assms kp] n memory_key_eq kp
  show "plain_name vs \<and> kp_algorithm kp = alg \<and> kp_kid kp = kid \<and> (memory_key vs alg kid, kp) \<in> set m"
    by metis
next
  assume "plain_name vs \<and> kp_algorithm kp = alg \<and> kp_kid kp = kid \<and> (memory_key vs alg kid, kp) \<in> set m"
  then show "memory_view m vs alg kid = Some kp"
    using memory_validD(1,2) [OF assms] by (auto simp: memory_view_def)
qed

lemma memory_filter_all:
  assumes m: "memory_valid m" and vs: "plain_name vs"
  shows "snd ` {x \<in> set m. HasPrefix (fst x) (vs @ '':'')} = {kp. \<exists>alg kid. memory_view m vs alg kid = Some kp}"
proof -
  have "kp \<in> snd ` {x \<in> set m. HasPrefix (fst x) (vs @ '':'')} \<longleftrightarrow>
      (memory_key vs (kp_algorithm kp) (kp_kid kp), kp) \<in> set m" for kp
  proof
    assume "kp \<in> snd ` {x \<in> set m. HasPrefix (fst x) (vs @ '':'')}"
    then obtain key where k: "(key, kp) \<in> set m" "HasPrefix key (vs @ '':'')" by auto
    obtain vs' where vs': "plain_name vs'" "key = memory_key vs' (kp_algorithm kp) (kp_kid kp)"
      using memory_validD(3) [OF m k(1)] by blast
    with k(2) have "vs' = vs"
      using memory_key_prefix(1) [OF vs vs'(1)] memory_validD(2) [OF m k(1)] by blast
    with k(1) vs'(2) show "(memory_key vs (kp_algorithm kp) (kp_kid kp), kp) \<in> set m" by simp
  qed (force simp: HasPrefix_iff memory_key_def)
  then show ?thesis unfolding memory_view_Some [OF m] using vs by blast
qed

lemma memory_filter_alg:
  assumes m: "memory_valid m" and vs: "plain_name vs" and alg: "plain_name alg"
  shows "snd ` {x \<in> set m. HasPrefix (fst x) (vs @ '':'' @ alg @ '':'')} = {kp. \<exists>kid. memory_view m vs alg kid = Some kp}"
proof -
  have "kp \<in> snd ` {x \<in> set m. HasPrefix (fst x) (vs @ '':'' @ alg @ '':'')} \<longleftrightarrow>
      kp_algorithm kp = alg \<and> (memory_key vs alg (kp_kid kp), kp) \<in> set m" for kp
  proof
    assume "kp \<in> snd ` {x \<in> set m. HasPrefix (fst x) (vs @ '':'' @ alg @ '':'')}"
    then obtain key where k: "(key, kp) \<in> set m" "HasPrefix key (vs @ '':'' @ alg @ '':'')" by auto
    obtain vs' where vs': "plain_name vs'" "key = memory_key vs' (kp_algorithm kp) (kp_kid kp)"
      using memory_validD(3) [OF m k(1)] by blast
    with k(2) have "vs' = vs \<and> kp_algorithm kp = alg"
      using memory_key_prefix(2) [OF vs vs'(1) alg] memory_validD(2) [OF m k(1)] by blast
    with k(1) vs'(2) show "kp_algorithm kp = alg \<and> (memory_key vs alg (kp_kid kp), kp) \<in> set m" by simp
  qed (force simp: HasPrefix_iff memory_key_def)
  then show ?thesis unfolding memory_view_Some [OF m] using vs by blast
qed

lemma memory_valid_update:
  "memory_valid m \<Longrightarrow> plain_name vs \<Longrightarrow> plain_name (kp_algorithm kp) \<Longrightarrow>
     memory_valid (AList.update (memory_key vs (kp_algorithm kp) (kp_kid kp)) kp m)"
  by (auto simp: memory_valid_def distinct_update update_conv')

lemma map_of_filter_keys: "map_of (filter (\<lambda>(key, _). P key) m) k = (if P k then map_of m k else None)"
  by (induction m) auto

lemma memory_valid_delete: "memory_valid m \<Longrightarrow> memory_valid (AList.delete key m)"
  by (auto simp: memory_valid_def distinct_delete delete_conv')

lemma memory_valid_filter: "memory_valid m \<Longrightarrow> memory_valid (filter (\<lambda>(key, _). P key) m)"
  unfolding memory_valid_def by (auto simp: map_of_filter_keys distinct_map_filter split: if_splits)

interpretation memory_store:
  key_store_laws NewMemoryKeyStore memory_view memory_valid plain_name "\<lambda>kid. True" "\<lambda>kp. plain_name (kp_algorithm kp)"
proof unfold_locales
  fix s :: key_data and vs alg kid kp
  assume s: "memory_valid s"
  show "plain_name vs \<Longrightarrow> plain_name alg \<Longrightarrow>
      KS_Get NewMemoryKeyStore vs alg kid s = Inr (memory_view s vs alg kid)"
    by (simp add: memoryKeyStore_Get_def memory_view_def)
  show "plain_name vs \<Longrightarrow> \<exists>kps. KS_GetAll NewMemoryKeyStore vs s = Inr kps \<and>
      set kps = {kp. \<exists>alg kid. memory_view s vs alg kid = Some kp}"
    using memory_filter_all [OF s, of vs] by (simp add: memoryKeyStore_GetAll_def case_prod_unfold)
  show "plain_name vs \<Longrightarrow> plain_name alg \<Longrightarrow> \<exists>kps. KS_GetAllForAlgorithm NewMemoryKeyStore vs alg s = Inr kps \<and>
      set kps = {kp. \<exists>kid. memory_view s vs alg kid = Some kp}"
    using memory_filter_alg [OF s, of vs alg] by (simp add: memoryKeyStore_GetAllForAlgorithm_def case_prod_unfold)
  show "plain_name vs \<Longrightarrow> plain_name (kp_algorithm kp) \<Longrightarrow>
      \<exists>s'. KS_Add NewMemoryKeyStore vs kp s = (Inr (), s') \<and> memory_valid s' \<and>
        (\<forall>v a k. memory_view s' v a k =
          (if v = vs \<and> a = kp_algorithm kp \<and> k = kp_kid kp then Some kp else memory_view s v a k))"
    using memory_valid_update [OF s, of vs kp]
    by (auto simp: memoryKeyStore_Add_def memory_view_def update_conv' memory_key_eq)
  show "plain_name vs \<Longrightarrow> plain_name alg \<Longrightarrow>
      \<exists>s'. KS_Remove NewMemoryKeyStore vs alg kid s = (Inr (), s') \<and> memory_valid s' \<and>
        (\<forall>v a k. memory_view s' v a k = (if v = vs \<and> a = alg \<and> k = kid then None else memory_view s v a k))"
    using memory_valid_delete [OF s]
    by (auto simp: memoryKeyStore_Remove_def memory_view_def delete_conv' memory_key_eq)
  show "plain_name vs \<Longrightarrow> plain_name alg \<Longrightarrow>
      \<exists>s'. KS_RemoveAllForAlgorithm NewMemoryKeyStore vs alg s = (Inr (), s') \<and> memory_valid s' \<and>
        (\<forall>v a k. memory_view s' v a k = (if v = vs \<and> a = alg then None else memory_view s v a k))"
    using memory_valid_filter [OF s]
    by (auto simp: memoryKeyStore_RemoveAllForAlgorithm_def memory_view_def map_of_filter_keys memory_key_prefix(2) [unfolded append_Cons append_Nil])
  show "memory_view s vs alg kid = Some kp \<Longrightarrow> kp_algorithm kp = alg \<and> kp_kid kp = kid \<and> plain_name alg \<and> True"
    using memory_view_Some [OF s] memory_validD(2) [OF s] by metis
qed

lemma memory_fresh_keys [simp]: "fresh_keys (\<lambda>kp. plain_name (kp_algorithm kp)) E"
proof -
  have "plain_name alg" if "GetKeyStrategy alg = Inr g" for alg g
    using that GetKeyStrategy_known [of alg]
    by (auto simp: SupportedSigningAlgorithms_def SigningAlgorithmRS256_def SigningAlgorithmEdDSA_def plain_name_def)
  thus ?thesis by (auto simp: fresh_keys_def GetKeyStrategy_generated)
qed

section \<open>Properties of key rotation\<close>

text \<open>
  C19: the rotation job succeeds on the in-memory store, whatever keys it finds, and leaves every
  virtual server with a key that is not due for each of its configured algorithms and with
  no key past its expiration. It needs names without a colon, supported algorithms, and keys
  that are not due for rotation later than they expire.
\<close>

theorem rotation_job_ensures_keys:
  assumes "memory_valid m" "distinct (map vs_name servers)"
    and "VirtualServerRepository_List (st_VirtualServers st) NewVirtualServerFilter = Inr servers"
    and "\<forall>server \<in> set servers. plain_name (vs_name server) \<and>
      set (VirtualServer_AllSigningAlgorithms server) \<subseteq> set SupportedSigningAlgorithms \<and>
      (\<forall>a k kp. memory_view m (vs_name server) a k = Some kp \<longrightarrow>
         a \<in> set SupportedSigningAlgorithms \<and> kp_rotatesAt kp \<le> kp_expiresAt kp)"
  shows "\<exists>n' m'. KeyRotateJob E NewMemoryKeyStore now st n m = (Inr (), n', m') \<and> memory_valid m' \<and>
    (\<forall>server \<in> set servers.
       (\<forall>a \<in> set (VirtualServer_AllSigningAlgorithms server).
          \<exists>k kp. memory_view m' (vs_name server) a k = Some kp \<and> now < kp_rotatesAt kp) \<and>
       (\<forall>a k kp. memory_view m' (vs_name server) a k = Some kp \<longrightarrow> now \<le> kp_expiresAt kp))"
proof -
  have "\<forall>server \<in> set servers. memory_store.rotatable m server"
    using assms(4) unfolding memory_store.rotatable_def .
  from memory_store.rotate_all_view [OF memory_fresh_keys assms(1) this assms(2), where E = E and now = now and n = n]
  show ?thesis unfolding KeyRotateJob_def assms(3) memory_store.keys_ok_def by auto
qed

definition sample_server :: virtual_server where
  "sample_server = (NewVirtualServer 1 0 ''a'' ''A'')\<lparr>vs_primarySigningAlgorithm := SigningAlgorithmEdDSA\<rparr>"

lemma sample_server_simps [simp]:
  "vs_name sample_server = ''a''" "plain_name ''a''"
  "VirtualServer_AllSigningAlgorithms sample_server = [SigningAlgorithmEdDSA]"
  by (simp_all add: sample_server_def NewVirtualServer_def plain_name_def VirtualServer_AllSigningAlgorithms_def)

theorem rotation_job_ensures_keys_witness:
  "\<exists>n' m' k kp. KeyRotateJob test_env NewMemoryKeyStore 5
      (newStores\<lparr>st_VirtualServers := [(1, sample_server)]\<rparr>) 0 [] = (Inr (), n', m') \<and>
    memory_view m' ''a'' SigningAlgorithmEdDSA k = Some kp \<and> 5 < kp_rotatesAt kp"
proof -
  let ?st = "newStores\<lparr>st_VirtualServers := [(1, sample_server)]\<rparr>"
  have l: "VirtualServerRepository_List (st_VirtualServers ?st) NewVirtualServerFilter = Inr [sample_server]"
    by (simp add: filter_defs repo_defs repo_filtered_def)
  have "memory_valid []" "memory_view [] v a k = None" for v a k
    by (simp_all add: memory_valid_def memory_view_def)
  then show ?thesis
    using rotation_job_ensures_keys [OF _ _ l, where m = "[]" and E = test_env and now = 5 and n = 0]
    by (simp add: SupportedSigningAlgorithms_def) blast
qed

text \<open>
  An algorithm that is no longer configured for the virtual server gets a new key when
  its last key is due: the job removes the orphan and then generates a key of the same
  algorithm, because it works on the list of keys read before the removals.
\<close>

theorem rotation_job_regenerates_orphans:
  assumes "memory_valid m" "plain_name (vs_name server)"
    and "set (VirtualServer_AllSigningAlgorithms server) \<subseteq> set SupportedSigningAlgorithms"
    and "\<forall>a k kp. memory_view m (vs_name server) a k = Some kp \<longrightarrow>
      a \<in> set SupportedSigningAlgorithms \<and> kp_rotatesAt kp \<le> kp_expiresAt kp"
    and "a \<notin> set (VirtualServer_AllSigningAlgorithms server)"
    and "memory_view m (vs_name server) a k = Some kp"
    and "\<forall>k kp. memory_view m (vs_name server) a k = Some kp \<longrightarrow> kp_rotatesAt kp \<le> now"
  shows "\<exists>n' m' k' kp'. rotateKeysForVirtualServer E NewMemoryKeyStore now server n m = (Inr (), n', m') \<and>
    memory_view m' (vs_name server) a k' = Some kp' \<and> now < kp_rotatesAt kp'"
proof -
  have "memory_store.rotatable m server"
    using assms(2-4) unfolding memory_store.rotatable_def by blast
  from memory_store.rotate_view [OF memory_fresh_keys assms(1) this, where E = E and now = now and n = n]
  show ?thesis using assms(6,7) by blast
qed

definition sample_orphan :: key_pair where
  "sample_orphan = \<lparr>kp_algorithm = SigningAlgorithmRS256, kp_publicKey = OtherPublicKey, kp_privateKey = [],
     kp_kid = ''k'', kp_createdAt = 0, kp_rotatesAt = 3, kp_expiresAt = 10\<rparr>"

theorem rotation_job_regenerates_orphans_witness:
  "\<exists>n' m' k' kp'. rotateKeysForVirtualServer test_env NewMemoryKeyStore 5 sample_server 0
      [(memory_key ''a'' SigningAlgorithmRS256 ''k'', sample_orphan)] = (Inr (), n', m') \<and>
    memory_view m' ''a'' SigningAlgorithmRS256 k' = Some kp' \<and> 5 < kp_rotatesAt kp'"
proof -
  let ?m = "[(memory_key ''a'' SigningAlgorithmRS256 ''k'', sample_orphan)]"
  have RS: "plain_name SigningAlgorithmRS256"
    by (simp add: plain_name_def SigningAlgorithmRS256_def)
  have v: "memory_valid ?m"
    using RS by (auto simp: memory_valid_def sample_orphan_def intro: exI [of _ "''a''"])
  have view: "memory_view ?m ''a'' a k = Some kp \<longleftrightarrow> a = SigningAlgorithmRS256 \<and> k = ''k'' \<and> kp = sample_orphan"
    for a k kp
    using RS by (auto simp: memory_view_def memory_key_eq split: if_splits)
  show ?thesis
    using rotation_job_regenerates_orphans [OF v, where server = sample_server and a = SigningAlgorithmRS256
        and k = "''k''" and kp = sample_orphan and now = 5 and E = test_env and n = 0]
    by (simp add: view SupportedSigningAlgorithms_def) (simp add: sample_orphan_def SigningAlgorithmRS256_def
        SigningAlgorithmEdDSA_def)
qed

text \<open>
  Once \<^verbatim>\<open>GetKey\<close> has returned a key, it returns that key for ever, whatever the
  store holds: a key that the rotation job replaced or removed as expired keeps signing.
\<close>

theorem GetKey_never_forgets:
  assumes "KeyService_GetKey KS vs alg s cache = (Inr kp, cache')"
  shows "KeyService_GetKey KS' vs alg s' cache' = (Inr kp, cache')"
  using assms
  by (auto simp: KeyService_GetKey_def TryGet_def Put_def update_conv' wrap_def
      split: option.splits sum.splits list.splits stop.splits)

theorem GetKey_never_forgets_witness:
  "KeyService_GetKey NewMemoryKeyStore ''a'' SigningAlgorithmRS256 [] [((''a'', SigningAlgorithmRS256), sample_orphan)] =
    (Inr sample_orphan, [((''a'', SigningAlgorithmRS256), sample_orphan)])"
  by (rule GetKey_never_forgets [of NewMemoryKeyStore "''a''" SigningAlgorithmRS256
        "[(''a:RS256:k'', sample_orphan)]" "[]"])
    (simp add: KeyService_GetKey_def TryGet_def Put_def memoryKeyStore_GetAllForAlgorithm_def HasPrefix_def
      SigningAlgorithmRS256_def)

end
