(* ===== verification/KeyValue.thy ===== *)
theory KeyValue
  imports MemoryDb
begin

text \<open>
  The in-memory key-value store (\<^verbatim>\<open>internal/services/keyValue/kvStore.go\<close>): values
  with an optional expiration, evicted by the read that finds them expired. The locale
  \<open>kv_store\<close> states what its clients (tokens and sessions) rely on. The Redis store of the
  same interface only calls a client library.
\<close>

datatype kv_item = Item (kv_value: jtext) (kv_expiration: time)

type_synonym kv_data = "(string \<times> kv_item) list"

definition ErrNotFound :: stop where
  "ErrNotFound = Err (Named ErrKvNotFound)"

definition IsExpired :: "kv_item \<Rightarrow> time \<Rightarrow> bool" where
  "IsExpired m now = (if time_IsZero (kv_expiration m) then False else kv_expiration m < now)"

text \<open>The options of \<^verbatim>\<open>Set\<close>, folded into the options record that starts at zero.\<close>

datatype options = Options (opt_Expiration: duration)

definition WithExpiration :: "duration \<Rightarrow> options \<Rightarrow> options" where
  "WithExpiration expiration opts = Options expiration"

definition kv_Set :: "time \<Rightarrow> string \<Rightarrow> jtext \<Rightarrow> (options \<Rightarrow> options) list \<Rightarrow> kv_data \<Rightarrow> kv_data" where
  "kv_Set now key v opts data =
     (let options = fold (\<lambda>opt. opt) opts (Options 0);
          item = Item v (if opt_Expiration options \<noteq> 0 then now + opt_Expiration options else time_zero)
      in AList.update key item data)"

text \<open>
  \<^verbatim>\<open>Get\<close> releases the read lock before it takes the write lock, so it is two steps:
  a read, and the eviction, which looks at the item again.
\<close>

definition kv_Get_read :: "time \<Rightarrow> string \<Rightarrow> kv_data \<Rightarrow> jtext go \<times> bool" where
  "kv_Get_read now key data =
     (case map_of data key of
        None \<Rightarrow> (Inl ErrNotFound, False)
      | Some item \<Rightarrow> if IsExpired item now then (Inl ErrNotFound, True) else (Inr (kv_value item), False))"

definition kv_Get_evict :: "time \<Rightarrow> string \<Rightarrow> kv_data \<Rightarrow> kv_data" where
  "kv_Get_evict now key data =
     (let itemBeforeDeletion = (case map_of data key of Some item \<Rightarrow> item | None \<Rightarrow> Item (Plain []) time_zero)
      in if IsExpired itemBeforeDeletion now then AList.delete key data else data)"

definition kv_Get :: "time \<Rightarrow> string \<Rightarrow> kv_data \<Rightarrow> jtext go \<times> kv_data" where
  "kv_Get now key data =
     (case kv_Get_read now key data of
        (r, evict) \<Rightarrow> (r, if evict then kv_Get_evict now key data else data))"

definition kv_Delete :: "string \<Rightarrow> kv_data \<Rightarrow> kv_data" where
  "kv_Delete key data = AList.delete key data"

section \<open>The contract of a store\<close>

text \<open>
  Clients see a store as a map from keys to values at each time: a value is there
  from \<^verbatim>\<open>Set\<close> until its expiration passes or \<^verbatim>\<open>Delete\<close> removes it, reading
  it changes nothing that a later read can see, and operations on one key leave the others alone.
\<close>

locale kv_store =
  fixes set_item :: "time \<Rightarrow> 'k \<Rightarrow> 'v \<Rightarrow> duration \<Rightarrow> 's \<Rightarrow> 's"
    and get_item :: "time \<Rightarrow> 'k \<Rightarrow> 's \<Rightarrow> 'v option \<times> 's"
    and delete_item :: "'k \<Rightarrow> 's \<Rightarrow> 's"
    and view :: "'s \<Rightarrow> time \<Rightarrow> 'k \<Rightarrow> 'v option"
    and valid_time :: "time \<Rightarrow> bool"
  assumes get_view: "fst (get_item now k s) = view s now k"
    and get_keeps: "now \<le> now' \<Longrightarrow> view (snd (get_item now k s)) now' k' = view s now' k'"
    and set_view: "valid_time (now + d) \<Longrightarrow> view (set_item now k v d s) now' k' =
      (if k' = k then (if d = 0 \<or> now' \<le> now + d then Some v else None) else view s now' k')"
    and delete_view: "view (delete_item k s) now' k' = (if k' = k then None else view s now' k')"
    and view_mono: "view s now' k = Some v \<Longrightarrow> now \<le> now' \<Longrightarrow> view s now k = Some v"
begin

lemma get_after_set:
  "valid_time (now + d) \<Longrightarrow> now' \<le> now + d \<Longrightarrow> fst (get_item now' k (set_item now k v d s)) = Some v"
  by (simp add: get_view set_view)

lemma get_after_expiry:
  "valid_time (now + d) \<Longrightarrow> d \<noteq> 0 \<Longrightarrow> now + d < now' \<Longrightarrow> fst (get_item now' k (set_item now k v d s)) = None"
  by (simp add: get_view set_view)

lemma get_after_delete: "fst (get_item now k (delete_item k s)) = None"
  by (simp add: get_view delete_view)

lemma other_key_untouched:
  "k \<noteq> k' \<Longrightarrow> valid_time (now + d) \<Longrightarrow> fst (get_item now' k' (set_item now k v d s)) = fst (get_item now' k' s)"
  "k \<noteq> k' \<Longrightarrow> fst (get_item now' k' (delete_item k s)) = fst (get_item now' k' s)"
  by (simp_all add: get_view set_view delete_view)

lemma get_get:
  "now \<le> now' \<Longrightarrow> fst (get_item now' k' (snd (get_item now k s))) = fst (get_item now' k' s)"
  by (simp add: get_view get_keeps)

text \<open>Once gone, a value stays gone until it is set again.\<close>

lemma expired_stays: "fst (get_item now k s) = None \<Longrightarrow> now \<le> now' \<Longrightarrow> fst (get_item now' k s) = None"
  using view_mono [of s now' k _ now] by (cases "view s now' k") (auto simp: get_view)

end

definition kv_view :: "kv_data \<Rightarrow> time \<Rightarrow> string \<Rightarrow> jtext option" where
  "kv_view data now key =
     (case map_of data key of
        None \<Rightarrow> None
      | Some item \<Rightarrow> if IsExpired item now then None else Some (kv_value item))"

definition to_option :: "'a go \<Rightarrow> 'a option" where
  "to_option r = (case r of Inl e \<Rightarrow> None | Inr x \<Rightarrow> Some x)"

definition kv_set_exp :: "time \<Rightarrow> string \<Rightarrow> jtext \<Rightarrow> duration \<Rightarrow> kv_data \<Rightarrow> kv_data" where
  "kv_set_exp now key v d = kv_Set now key v [WithExpiration d]"

lemma kv_Get_eq:
  "kv_Get now key data =
     (case kv_view data now key of Some v \<Rightarrow> Inr v | None \<Rightarrow> Inl ErrNotFound, snd (kv_Get now key data))"
  by (auto simp: kv_Get_def kv_Get_read_def kv_view_def split: option.splits)

lemma kv_Get_keeps: "now \<le> now' \<Longrightarrow> kv_view (snd (kv_Get now key data)) now' k = kv_view data now' k"
  by (auto simp: kv_Get_def kv_Get_read_def kv_Get_evict_def kv_view_def IsExpired_def delete_conv' Let_def
      split: option.splits)

lemma kv_set_view:
  "now + d \<noteq> time_zero \<Longrightarrow> kv_view (kv_set_exp now key v d data) now' k =
     (if k = key then (if d = 0 \<or> now' \<le> now + d then Some v else None) else kv_view data now' k)"
  by (auto simp: kv_set_exp_def kv_Set_def WithExpiration_def kv_view_def IsExpired_def update_conv'
      time_IsZero_def Let_def)

lemma kv_delete_view: "kv_view (kv_Delete key data) now k = (if k = key then None else kv_view data now k)"
  by (simp add: kv_view_def kv_Delete_def delete_conv')

interpretation mem: kv_store kv_set_exp "\<lambda>now k s. (to_option (fst (kv_Get now k s)), snd (kv_Get now k s))"
  kv_Delete kv_view "\<lambda>t. t \<noteq> time_zero"
proof unfold_locales
  show "fst (to_option (fst (kv_Get now k s)), snd (kv_Get now k s)) = kv_view s now k" for now k s
    by (subst kv_Get_eq) (simp add: to_option_def split: option.splits)
  show "kv_view s now' k = Some v \<Longrightarrow> now \<le> now' \<Longrightarrow> kv_view s now k = Some v" for s now' k v now
    by (auto simp: kv_view_def IsExpired_def split: option.splits if_splits)
qed (simp_all add: kv_Get_keeps kv_set_view kv_delete_view)

section \<open>Eviction and concurrent writers\<close>

text \<open>
  A \<^verbatim>\<open>Set\<close> that runs between the two steps of a \<^verbatim>\<open>Get\<close> of an expired
  item is not lost: the eviction looks again and keeps the new value.
\<close>

theorem kv_eviction_keeps_concurrent_set:
  assumes "snd (kv_Get_read now key data)" "0 < d" "now + d \<noteq> time_zero"
  shows "kv_view (kv_Get_evict now key (kv_set_exp now key v d data)) now key = Some v"
  using assms
  by (simp add: kv_Get_evict_def kv_set_exp_def kv_Set_def WithExpiration_def kv_view_def IsExpired_def
      update_conv' time_IsZero_def Let_def)

theorem kv_eviction_keeps_concurrent_set_witness:
  "kv_view (kv_Get_evict 10 ''k'' (kv_set_exp 10 ''k'' (Plain ''new'') 60 [(''k'', Item (Plain ''old'') 5)])) 10 ''k'' =
    Some (Plain ''new'')"
  using kv_eviction_keeps_concurrent_set [of 10 "''k''" "[(''k'', Item (Plain ''old'') 5)]" 60 "Plain ''new''"]
  by (simp add: kv_Get_read_def IsExpired_def time_IsZero_def time_zero_def)

text \<open>
  A value is returned up to and including the moment of its expiration and never
  after it, whatever happens to other keys.
\<close>

theorem kv_value_until_expiration:
  assumes "now + d \<noteq> time_zero" "d \<noteq> 0"
  shows "fst (kv_Get now' key (kv_set_exp now key v d data)) =
    (if now' \<le> now + d then Inr v else Inl ErrNotFound)"
  using assms by (subst kv_Get_eq) (simp add: kv_set_view)

theorem kv_value_until_expiration_witness:
  "fst (kv_Get 70 ''k'' (kv_set_exp 10 ''k'' (Plain ''v'') 60 [])) = Inr (Plain ''v'') \<and>
   fst (kv_Get 71 ''k'' (kv_set_exp 10 ''k'' (Plain ''v'') 60 [])) = Inl ErrNotFound"
  using kv_value_until_expiration [of 10 60 70 "''k''" "Plain ''v''" "[]"]
    kv_value_until_expiration [of 10 60 71 "''k''" "Plain ''v''" "[]"]
  by (simp add: time_zero_def)

end
