(* ===== verification/World.thy ===== *)
theory World
  imports DbSpec KeyValue Keys
begin

text \<open>
  The state a request sees and the way handlers run over it: the shared stores with the
  tracker of the request's database context, the key-value store, the key store and its
  cache, the clock, the counter of random draws, and what was written to the response.
  A computation returns a result or stops with an error or a panic, and the new state.
\<close>

named_theorems act_simps \<open>evaluation of computations over the state\<close>

section \<open>State\<close>

text \<open>
  What a handler writes: \<^verbatim>\<open>http.Error\<close> and \<^verbatim>\<open>HandleHttpError\<close> write a
  status and a text (left out), \<^verbatim>\<open>http.Redirect\<close> a target and a status.
\<close>

datatype http_event =
    HttpError int
  | WriteHeader int
  | WriteJson json
  | WriteText string
  | Redirect string int
  | SetCookie string string int \<comment> \<open>name, value, maximal age\<close>

record world =
  w_now :: time
  w_db :: db_context
  w_kv :: kv_data
  w_keys :: key_data
  w_keycache :: key_cache
  w_rand :: nat
  w_out :: "http_event list"

definition w_stores :: "world \<Rightarrow> stores" where
  "w_stores w = db_stores (w_db w)"

section \<open>Computations\<close>

type_synonym 'a act = "world \<Rightarrow> 'a go \<times> world"

definition ret :: "'a \<Rightarrow> 'a act" where
  "ret x w = (Inr x, w)"

definition stop_with :: "stop \<Rightarrow> 'a act" where
  "stop_with e w = (Inl e, w)"

definition bnd :: "'a act \<Rightarrow> ('a \<Rightarrow> 'b act) \<Rightarrow> 'b act" where
  "bnd m f w = (case m w of (Inl e, w') \<Rightarrow> (Inl e, w') | (Inr x, w') \<Rightarrow> f x w')"

definition lift :: "'a go \<Rightarrow> 'a act" where
  "lift r w = (r, w)"

definition wrapped :: "string \<Rightarrow> 'a act \<Rightarrow> 'a act" where
  "wrapped msg m w = (case m w of (r, w') \<Rightarrow> (wrap msg r, w'))"

definition err :: "goerr \<Rightarrow> 'a act" where
  "err e = stop_with (Err e)"

definition panic :: "string \<Rightarrow> 'a act" where
  "panic msg = stop_with (Panic msg)"

text \<open>The result as a value, for code that looks at an error; a panic goes on.\<close>

definition catch :: "'a act \<Rightarrow> (goerr + 'a) act" where
  "catch m w = (case m w of
     (Inl (Err e), w') \<Rightarrow> (Inr (Inl e), w')
   | (Inl (Panic p), w') \<Rightarrow> (Inl (Panic p), w')
   | (Inr x, w') \<Rightarrow> (Inr (Inr x), w'))"

lemma act_base_simps [simp, act_simps]:
  "ret x w = (Inr x, w)" "stop_with e w = (Inl e, w)" "lift r w = (r, w)"
  "err e' w = (Inl (Err e'), w)" "panic p w = (Inl (Panic p), w)"
  by (simp_all add: ret_def stop_with_def lift_def err_def panic_def)

lemma bnd_eq_Inr: "bnd m f w = (Inr y, w') \<longleftrightarrow> (\<exists>x w1. m w = (Inr x, w1) \<and> f x w1 = (Inr y, w'))"
  by (auto simp: bnd_def split: prod.splits sum.splits)

lemma bnd_eq_Inl:
  "bnd m f w = (Inl e, w') \<longleftrightarrow>
     m w = (Inl e, w') \<or> (\<exists>x w1. m w = (Inr x, w1) \<and> f x w1 = (Inl e, w'))"
  by (auto simp: bnd_def split: prod.splits sum.splits)

lemma bnd_Inr [act_simps]: "m w = (Inr x, w1) \<Longrightarrow> bnd m f w = f x w1"
  by (simp add: bnd_def)

lemma bnd_Inl [act_simps]: "m w = (Inl e, w1) \<Longrightarrow> bnd m f w = (Inl e, w1)"
  by (simp add: bnd_def)

lemma bnd_simps [simp]:
  "bnd (ret x) f = f x" "bnd (stop_with e) f = stop_with e" "bnd (lift (Inr x)) f = f x"
  "bnd (lift (Inl e)) f = stop_with e" "bnd (err e') f = err e'" "bnd (panic p) f = panic p"
  by (auto simp: bnd_def fun_eq_iff err_def panic_def)

lemma wrapped_eq_Inr [simp]: "wrapped msg m w = (Inr x, w') \<longleftrightarrow> m w = (Inr x, w')"
  by (auto simp: wrapped_def split: prod.splits)

lemma wrapped_apply [act_simps]: "m w = (r, w') \<Longrightarrow> wrapped msg m w = (wrap msg r, w')"
  by (simp add: wrapped_def)

lemma catch_apply [act_simps]:
  "m w = (Inr x, w') \<Longrightarrow> catch m w = (Inr (Inr x), w')"
  "m w = (Inl (Err e), w') \<Longrightarrow> catch m w = (Inr (Inl e), w')"
  "m w = (Inl (Panic p), w') \<Longrightarrow> catch m w = (Inl (Panic p), w')"
  by (simp_all add: catch_def)

section \<open>Primitive steps\<close>

definition get_now :: "time act" where
  "get_now w = (Inr (w_now w), w)"

definition db_read :: "(stores \<Rightarrow> 'a go) \<Rightarrow> 'a act" where
  "db_read q w = (q (w_stores w), w)"

definition db_write :: "(tracker \<Rightarrow> tracker) \<Rightarrow> unit act" where
  "db_write op w = (Inr (), w\<lparr>w_db := (w_db w)\<lparr>db_tracker := op (db_tracker (w_db w))\<rparr>\<rparr>)"

definition db_save :: "unit act" where
  "db_save w = (case SaveChanges (w_db w) of (c, r) \<Rightarrow> (r, w\<lparr>w_db := c\<rparr>))"

definition kv_get :: "string \<Rightarrow> jtext act" where
  "kv_get key w = (case kv_Get (w_now w) key (w_kv w) of (r, data) \<Rightarrow> (r, w\<lparr>w_kv := data\<rparr>))"

definition kv_set :: "string \<Rightarrow> jtext \<Rightarrow> (options \<Rightarrow> options) list \<Rightarrow> unit act" where
  "kv_set key v opts w = (Inr (), w\<lparr>w_kv := kv_Set (w_now w) key v opts (w_kv w)\<rparr>)"

definition kv_delete :: "string \<Rightarrow> unit act" where
  "kv_delete key w = (Inr (), w\<lparr>w_kv := kv_Delete key (w_kv w)\<rparr>)"

definition uuid_New :: "env \<Rightarrow> uuid act" where
  "uuid_New E w = (Inr (e_uuid_New E (w_rand w)), w\<lparr>w_rand := Suc (w_rand w)\<rparr>)"

definition GetSecureRandomBytes :: "env \<Rightarrow> nat \<Rightarrow> string act" where
  "GetSecureRandomBytes E k w = (Inr (e_rand_Read E (w_rand w) k), w\<lparr>w_rand := Suc (w_rand w)\<rparr>)"

definition emit :: "http_event \<Rightarrow> unit act" where
  "emit ev w = (Inr (), w\<lparr>w_out := w_out w @ [ev]\<rparr>)"

definition get_key :: "string \<Rightarrow> signing_algorithm \<Rightarrow> key_pair act" where
  "get_key vs alg w =
     (case KeyService_GetKey NewMemoryKeyStore vs alg (w_keys w) (w_keycache w) of
        (r, cache) \<Rightarrow> (r, w\<lparr>w_keycache := cache\<rparr>))"

lemmas step_defs =
  get_now_def db_read_def db_write_def db_save_def kv_get_def kv_set_def kv_delete_def uuid_New_def
  GetSecureRandomBytes_def emit_def get_key_def

section \<open>Responses\<close>

definition HandleHttpError :: "goerr \<Rightarrow> unit act" where
  "HandleHttpError e = emit (HttpError (http_status_of e))"

text \<open>
  The pattern \<^verbatim>\<open>x, err := m; if err != nil { ...; return }\<close> of the handlers: an error
  is answered and the handler returns, a result goes on.
\<close>

definition or_answer :: "(goerr \<Rightarrow> unit act) \<Rightarrow> 'a act \<Rightarrow> ('a \<Rightarrow> unit act) \<Rightarrow> unit act" where
  "or_answer h m f w = (case m w of
     (Inl (Err e), w') \<Rightarrow> h e w'
   | (Inl (Panic p), w') \<Rightarrow> (Inl (Panic p), w')
   | (Inr x, w') \<Rightarrow> f x w')"

definition or_http :: "'a act \<Rightarrow> ('a \<Rightarrow> unit act) \<Rightarrow> unit act" where
  "or_http = or_answer HandleHttpError"

definition or_status :: "int \<Rightarrow> 'a act \<Rightarrow> ('a \<Rightarrow> unit act) \<Rightarrow> unit act" where
  "or_status status = or_answer (\<lambda>_. emit (HttpError status))"

lemma or_answer_apply [act_simps]:
  "m w = (Inr x, w') \<Longrightarrow> or_answer h m f w = f x w'"
  "m w = (Inl (Err e), w') \<Longrightarrow> or_answer h m f w = h e w'"
  "m w = (Inl (Panic p), w') \<Longrightarrow> or_answer h m f w = (Inl (Panic p), w')"
  by (simp_all add: or_answer_def)

lemma or_http_apply [act_simps]:
  "m w = (Inr x, w') \<Longrightarrow> or_http m f w = f x w'"
  "m w = (Inl (Err e), w') \<Longrightarrow> or_http m f w = HandleHttpError e w'"
  "m w = (Inl (Panic p), w') \<Longrightarrow> or_http m f w = (Inl (Panic p), w')"
  by (simp_all add: or_http_def or_answer_def)

lemma or_status_apply [act_simps]:
  "m w = (Inr x, w') \<Longrightarrow> or_status s m f w = f x w'"
  "m w = (Inl (Err e), w') \<Longrightarrow> or_status s m f w = emit (HttpError s) w'"
  "m w = (Inl (Panic p), w') \<Longrightarrow> or_status s m f w = (Inl (Panic p), w')"
  by (simp_all add: or_status_def or_answer_def)

text \<open>How the three outcomes of a handler's step split a statement about the handler.\<close>

lemma or_answer_split:
  "P (or_answer h m f w) \<longleftrightarrow>
     (\<forall>x w'. m w = (Inr x, w') \<longrightarrow> P (f x w')) \<and>
     (\<forall>e w'. m w = (Inl (Err e), w') \<longrightarrow> P (h e w')) \<and>
     (\<forall>p w'. m w = (Inl (Panic p), w') \<longrightarrow> P (Inl (Panic p), w'))"
  by (auto simp: or_answer_def split: prod.splits sum.splits stop.splits)

lemma HandleHttpError_apply [simp, act_simps]:
  "HandleHttpError e w = (Inr (), w\<lparr>w_out := w_out w @ [HttpError (http_status_of e)]\<rparr>)"
  by (simp add: HandleHttpError_def emit_def)

end
