(* ===== verification/Tokens.thy ===== *)
theory Tokens
  imports World
begin

text \<open>
  The token service (\<^verbatim>\<open>internal/services/tokens.go\<close>): random tokens of several types,
  stored in the key-value store under the type and the token.
\<close>

type_synonym token_type = string

definition EmailVerificationTokenType :: token_type where
  "EmailVerificationTokenType = ''email_verification''"

definition LoginSessionTokenType :: token_type where
  "LoginSessionTokenType = ''login_session''"

definition OidcCodeTokenType :: token_type where
  "OidcCodeTokenType = ''oidc_code''"

definition OidcRefreshTokenTokenType :: token_type where
  "OidcRefreshTokenTokenType = ''oidc_refresh_token''"

definition OidcDeviceCodeTokenType :: token_type where
  "OidcDeviceCodeTokenType = ''oidc_device_code''"

definition OidcUserCodeTokenType :: token_type where
  "OidcUserCodeTokenType = ''oidc_user_code''"

lemmas token_type_defs =
  EmailVerificationTokenType_def LoginSessionTokenType_def OidcCodeTokenType_def
  OidcRefreshTokenTokenType_def OidcDeviceCodeTokenType_def OidcUserCodeTokenType_def

definition TokenType_Key :: "token_type \<Rightarrow> string \<Rightarrow> string" where
  "TokenType_Key t token = t @ '':'' @ token"

definition GenerateAndStoreToken :: "env \<Rightarrow> token_type \<Rightarrow> jtext \<Rightarrow> duration \<Rightarrow> string act" where
  "GenerateAndStoreToken E tokenType v expiration =
     bnd (GetSecureRandomBytes E 16) (\<lambda>bytes.
       let token = URLEncoding_EncodeToString bytes in
       bnd (wrapped ''setting token in kv'' (kv_set (TokenType_Key tokenType token) v [WithExpiration expiration]))
         (\<lambda>_. ret token))"

definition UpdateToken :: "token_type \<Rightarrow> string \<Rightarrow> jtext \<Rightarrow> duration \<Rightarrow> unit act" where
  "UpdateToken tokenType token v expiration =
     wrapped ''updating token in kv'' (kv_set (TokenType_Key tokenType token) v [WithExpiration expiration])"

definition GetToken :: "token_type \<Rightarrow> string \<Rightarrow> jtext act" where
  "GetToken tokenType token =
     bnd (catch (kv_get (TokenType_Key tokenType token))) (\<lambda>r.
       case r of
         Inl e \<Rightarrow> if errors_Is e ErrKvNotFound then err (Named ErrTokenNotFound)
                  else err (Wrap ''getting token from kv'' e)
       | Inr v \<Rightarrow> ret v)"

definition DeleteToken :: "token_type \<Rightarrow> string \<Rightarrow> unit act" where
  "DeleteToken tokenType token =
     bnd (catch (kv_delete (TokenType_Key tokenType token))) (\<lambda>r.
       case r of
         Inl e \<Rightarrow> if errors_Is e ErrKvNotFound then ret () else err (Wrap ''deleting token from kv'' e)
       | Inr v \<Rightarrow> ret ())"

definition StoreToken :: "token_type \<Rightarrow> string \<Rightarrow> jtext \<Rightarrow> duration \<Rightarrow> unit act" where
  "StoreToken tokenType token v expiration =
     wrapped ''storing token in kv'' (kv_set (TokenType_Key tokenType token) v [WithExpiration expiration])"

section \<open>What a request sees of the key-value store\<close>

text \<open>The live value under a key at the current time.\<close>

definition kv_live :: "world \<Rightarrow> string \<Rightarrow> jtext option" where
  "kv_live w key = kv_view (w_kv w) (w_now w) key"

definition token_live :: "world \<Rightarrow> token_type \<Rightarrow> string \<Rightarrow> jtext option" where
  "token_live w t token = kv_live w (TokenType_Key t token)"

definition known_type :: "token_type \<Rightarrow> bool" where
  "known_type t \<longleftrightarrow> t \<in> {EmailVerificationTokenType, LoginSessionTokenType, OidcCodeTokenType,
     OidcRefreshTokenTokenType, OidcDeviceCodeTokenType, OidcUserCodeTokenType}"

lemma known_type_simps [simp]:
  "known_type EmailVerificationTokenType" "known_type LoginSessionTokenType" "known_type OidcCodeTokenType"
  "known_type OidcRefreshTokenTokenType" "known_type OidcDeviceCodeTokenType" "known_type OidcUserCodeTokenType"
  by (simp_all add: known_type_def)

lemma TokenType_Key_inj:
  "known_type t \<Longrightarrow> known_type t' \<Longrightarrow> TokenType_Key t x = TokenType_Key t' y \<longleftrightarrow> t = t' \<and> x = y"
proof -
  assume "known_type t" "known_type t'"
  then have "CHR '':'' \<notin> set t" "CHR '':'' \<notin> set t'" by (auto simp: known_type_def token_type_defs)
  then show ?thesis by (simp add: TokenType_Key_def append_sep_eq)
qed

text \<open>The clock of a request: a positive time, so that an expiration is never the zero time.\<close>

definition clock_ok :: "world \<Rightarrow> bool" where
  "clock_ok w \<longleftrightarrow> 0 \<le> w_now w"

lemma clock_ok_valid: "clock_ok w \<Longrightarrow> 0 \<le> d \<Longrightarrow> w_now w + d \<noteq> time_zero"
  by (simp add: clock_ok_def time_zero_def)

text \<open>What a read leaves: the same state, but for the eviction of an expired value.\<close>

definition after_get :: "string \<Rightarrow> world \<Rightarrow> world" where
  "after_get key w = w\<lparr>w_kv := snd (kv_Get (w_now w) key (w_kv w))\<rparr>"

lemma after_get_simps [simp, act_simps]:
  "w_now (after_get k w) = w_now w" "w_db (after_get k w) = w_db w" "w_keys (after_get k w) = w_keys w"
  "w_keycache (after_get k w) = w_keycache w" "w_rand (after_get k w) = w_rand w"
  "w_out (after_get k w) = w_out w" "w_stores (after_get k w) = w_stores w"
  by (simp_all add: after_get_def w_stores_def)

lemma kv_live_after_get [simp, act_simps]: "kv_live (after_get k w) k' = kv_live w k'"
  by (simp add: kv_live_def after_get_def kv_Get_keeps)

lemma token_live_after_get [simp, act_simps]: "token_live (after_get k w) t x = token_live w t x"
  by (simp add: token_live_def)

lemma clock_ok_after_get [simp]: "clock_ok (after_get k w) = clock_ok w"
  by (simp add: clock_ok_def)

lemma kv_get_eq [act_simps]:
  "kv_get key w = (case kv_live w key of Some v \<Rightarrow> Inr v | None \<Rightarrow> Inl ErrNotFound, after_get key w)"
  by (subst kv_get_def, subst kv_Get_eq) (simp add: kv_live_def after_get_def)

lemma GetToken_eq [act_simps]:
  "GetToken t x w =
     (case token_live w t x of Some v \<Rightarrow> Inr v | None \<Rightarrow> Inl (Err (Named ErrTokenNotFound)),
      after_get (TokenType_Key t x) w)"
  by (cases "kv_live w (TokenType_Key t x)")
    (simp_all add: GetToken_def bnd_def catch_def kv_get_eq token_live_def ErrNotFound_def sentinel_is_def)

lemma DeleteToken_eq [act_simps]:
  "DeleteToken t x w = (Inr (), w\<lparr>w_kv := kv_Delete (TokenType_Key t x) (w_kv w)\<rparr>)"
  by (simp add: DeleteToken_def bnd_def catch_def kv_delete_def)

definition store_at :: "string \<Rightarrow> jtext \<Rightarrow> duration \<Rightarrow> world \<Rightarrow> world" where
  "store_at key v d w = w\<lparr>w_kv := kv_set_exp (w_now w) key v d (w_kv w)\<rparr>"

definition drop_at :: "string \<Rightarrow> world \<Rightarrow> world" where
  "drop_at key w = w\<lparr>w_kv := kv_Delete key (w_kv w)\<rparr>"

lemma store_at_simps [simp, act_simps]:
  "w_now (store_at k v d w) = w_now w" "w_db (store_at k v d w) = w_db w" "w_keys (store_at k v d w) = w_keys w"
  "w_keycache (store_at k v d w) = w_keycache w" "w_rand (store_at k v d w) = w_rand w"
  "w_out (store_at k v d w) = w_out w" "w_stores (store_at k v d w) = w_stores w"
  "clock_ok (store_at k v d w) = clock_ok w"
  by (simp_all add: store_at_def w_stores_def clock_ok_def)

lemma drop_at_simps [simp, act_simps]:
  "w_now (drop_at k w) = w_now w" "w_db (drop_at k w) = w_db w" "w_keys (drop_at k w) = w_keys w"
  "w_keycache (drop_at k w) = w_keycache w" "w_rand (drop_at k w) = w_rand w"
  "w_out (drop_at k w) = w_out w" "w_stores (drop_at k w) = w_stores w" "clock_ok (drop_at k w) = clock_ok w"
  by (simp_all add: drop_at_def w_stores_def clock_ok_def)

lemma kv_live_store_at:
  "clock_ok w \<Longrightarrow> 0 < d \<Longrightarrow> kv_live (store_at k v d w) k' = (if k' = k then Some v else kv_live w k')"
  using clock_ok_valid [of w d] by (simp add: kv_live_def store_at_def kv_set_view)

lemma kv_live_drop_at [simp, act_simps]: "kv_live (drop_at k w) k' = (if k' = k then None else kv_live w k')"
  by (simp add: kv_live_def drop_at_def kv_delete_view)

lemma token_live_store_at:
  "clock_ok w \<Longrightarrow> 0 < d \<Longrightarrow> known_type t \<Longrightarrow> known_type t' \<Longrightarrow>
     token_live (store_at (TokenType_Key t x) v d w) t' y =
       (if t' = t \<and> y = x then Some v else token_live w t' y)"
  by (simp add: token_live_def kv_live_store_at TokenType_Key_inj)

lemma token_live_drop_at:
  "known_type t \<Longrightarrow> known_type t' \<Longrightarrow>
     token_live (drop_at (TokenType_Key t x) w) t' y = (if t' = t \<and> y = x then None else token_live w t' y)"
  by (simp add: token_live_def TokenType_Key_inj)

lemma UpdateToken_eq [act_simps]: "UpdateToken t x v d w = (Inr (), store_at (TokenType_Key t x) v d w)"
  by (simp add: UpdateToken_def wrapped_def kv_set_def store_at_def kv_set_exp_def)

lemma StoreToken_eq [act_simps]: "StoreToken t x v d w = (Inr (), store_at (TokenType_Key t x) v d w)"
  by (simp add: StoreToken_def wrapped_def kv_set_def store_at_def kv_set_exp_def)

definition drew :: "world \<Rightarrow> world" where
  "drew w = w\<lparr>w_rand := Suc (w_rand w)\<rparr>"

lemma drew_simps [simp, act_simps]:
  "w_now (drew w) = w_now w" "w_db (drew w) = w_db w" "w_keys (drew w) = w_keys w"
  "w_keycache (drew w) = w_keycache w" "w_rand (drew w) = Suc (w_rand w)" "w_out (drew w) = w_out w"
  "w_stores (drew w) = w_stores w" "clock_ok (drew w) = clock_ok w" "kv_live (drew w) k = kv_live w k"
  "token_live (drew w) t x = token_live w t x"
  by (simp_all add: drew_def w_stores_def clock_ok_def kv_live_def token_live_def)

definition fresh_token :: "env \<Rightarrow> world \<Rightarrow> string" where
  "fresh_token E w = URLEncoding_EncodeToString (e_rand_Read E (w_rand w) 16)"

lemma GenerateAndStoreToken_eq [act_simps]:
  "GenerateAndStoreToken E t v d w =
     (Inr (fresh_token E w), store_at (TokenType_Key t (fresh_token E w)) v d (drew w))"
  by (simp add: GenerateAndStoreToken_def bnd_def GetSecureRandomBytes_def fresh_token_def drew_def
      wrapped_def kv_set_def store_at_def kv_set_exp_def Let_def)

lemma DeleteToken_drop [act_simps]: "DeleteToken t x w = (Inr (), drop_at (TokenType_Key t x) w)"
  by (simp add: DeleteToken_eq drop_at_def)

lemma drew_act [act_simps]:
  "uuid_New E w = (Inr (e_uuid_New E (w_rand w)), drew w)"
  "GetSecureRandomBytes E k w = (Inr (e_rand_Read E (w_rand w) k), drew w)"
  by (simp_all add: uuid_New_def GetSecureRandomBytes_def drew_def)

section \<open>Properties of tokens\<close>

text \<open>
  A stored token gives back the value it was stored with until its expiration passes, and
  is not found afterwards; storing it changes no token of another type or another name.
\<close>

theorem StoreToken_GetToken:
  assumes "clock_ok w" "0 < d" "known_type t" "StoreToken t x v d w = (Inr (), w')" "w_now w \<le> now"
  shows "fst (GetToken t x (w'\<lparr>w_now := now\<rparr>)) =
      (if now \<le> w_now w + d then Inr v else Inl (Err (Named ErrTokenNotFound))) \<and>
    (known_type t' \<longrightarrow> (t', y) \<noteq> (t, x) \<longrightarrow> token_live w' t' y = token_live w t' y)"
proof -
  have w': "w' = store_at (TokenType_Key t x) v d w"
    using assms(4) by (simp add: StoreToken_eq)
  show ?thesis
    using assms clock_ok_valid [of w d]
    by (simp add: w' GetToken_eq token_live_store_at)
      (simp add: token_live_def kv_live_def store_at_def kv_set_view)
qed

theorem StoreToken_GetToken_witness:
  "fst (GetToken OidcCodeTokenType ''c''
     ((snd (StoreToken OidcCodeTokenType ''c'' (Plain ''v'') 60
        \<lparr>w_now = 0, w_db = newContext newStores, w_kv = [], w_keys = [], w_keycache = [], w_rand = 0,
         w_out = []\<rparr>))\<lparr>w_now := 61\<rparr>)) =
   Inl (Err (Named ErrTokenNotFound))"
  using StoreToken_GetToken [of "\<lparr>w_now = 0, w_db = newContext newStores, w_kv = [], w_keys = [], w_keycache = [],
      w_rand = 0, w_out = []\<rparr>" 60 OidcCodeTokenType "''c''" "Plain ''v''" _ 61]
  by (simp add: clock_ok_def StoreToken_eq)

text \<open>
  Deleting a token always succeeds, whether or not it exists; the token is gone and
  every other token is as it was.
\<close>

theorem DeleteToken_removes:
  assumes "known_type t" "known_type t'"
  shows "\<exists>w'. DeleteToken t x w = (Inr (), w') \<and>
    token_live w' t' y = (if t' = t \<and> y = x then None else token_live w t' y)"
  using assms by (simp add: DeleteToken_drop token_live_drop_at)

theorem DeleteToken_removes_witness:
  "\<exists>w'. DeleteToken OidcCodeTokenType ''c''
      \<lparr>w_now = 0, w_db = newContext newStores, w_kv = [(''oidc_code:c'', Item (Plain ''v'') 9)], w_keys = [],
       w_keycache = [], w_rand = 0, w_out = []\<rparr> = (Inr (), w') \<and>
    token_live w' OidcCodeTokenType ''c'' = None"
  using DeleteToken_removes [of OidcCodeTokenType OidcCodeTokenType "''c''" _ "''c''"] by simp

end
