(* ===== verification/Json_Types.thy ===== *)
theory Json_Types
  imports Tokens
begin

text \<open>
  The records kept in the key-value store (\<^verbatim>\<open>internal/jsonTypes\<close>) and how
  \<^verbatim>\<open>encoding/json\<close> writes and reads them: a member that is missing or null
  leaves the zero value, a member of another type is an error. Member names are compared
  exactly; the decoder of Go ignores case, which makes no difference on what the program itself wrote.
\<close>

named_theorems codec_simps \<open>decoding of encoded records\<close>

section \<open>Members of an object\<close>

definition type_error :: "'a go" where
  "type_error = Inl (Err (ErrorsNew ''json: cannot unmarshal''))"

definition get_string :: "string \<Rightarrow> json_obj \<Rightarrow> string go" where
  "get_string k ms = (case map_of ms k of
     None \<Rightarrow> Inr [] | Some JNull \<Rightarrow> Inr [] | Some (JStr s) \<Rightarrow> Inr s | Some _ \<Rightarrow> type_error)"

definition get_bool :: "string \<Rightarrow> json_obj \<Rightarrow> bool go" where
  "get_bool k ms = (case map_of ms k of
     None \<Rightarrow> Inr False | Some JNull \<Rightarrow> Inr False | Some (JBool b) \<Rightarrow> Inr b | Some _ \<Rightarrow> type_error)"

definition get_int :: "string \<Rightarrow> json_obj \<Rightarrow> int go" where
  "get_int k ms = (case map_of ms k of
     None \<Rightarrow> Inr 0 | Some JNull \<Rightarrow> Inr 0 | Some (JNum i) \<Rightarrow> Inr i | Some _ \<Rightarrow> type_error)"

definition get_time :: "string \<Rightarrow> json_obj \<Rightarrow> time go" where
  "get_time k ms = (case map_of ms k of
     None \<Rightarrow> Inr time_zero | Some JNull \<Rightarrow> Inr time_zero | Some (JTime t) \<Rightarrow> Inr t | Some _ \<Rightarrow> type_error)"

definition uuid_Parse :: "env \<Rightarrow> string \<Rightarrow> uuid go" where
  "uuid_Parse E s = (case e_uuid_Parse E s of
     Some i \<Rightarrow> Inr i | None \<Rightarrow> Inl (Err (ErrorsNew ''invalid UUID'')))"

definition get_uuid :: "env \<Rightarrow> string \<Rightarrow> json_obj \<Rightarrow> uuid go" where
  "get_uuid E k ms = (case map_of ms k of
     None \<Rightarrow> Inr uuid_Nil | Some JNull \<Rightarrow> Inr uuid_Nil | Some (JStr s) \<Rightarrow> uuid_Parse E s | Some _ \<Rightarrow> type_error)"

definition json_string :: "json \<Rightarrow> string go" where
  "json_string j = (case j of JStr s \<Rightarrow> Inr s | JNull \<Rightarrow> Inr [] | _ \<Rightarrow> type_error)"

definition get_strings :: "string \<Rightarrow> json_obj \<Rightarrow> string list go" where
  "get_strings k ms = (case map_of ms k of
     None \<Rightarrow> Inr [] | Some JNull \<Rightarrow> Inr [] | Some (JArr js) \<Rightarrow> map_go json_string js | Some _ \<Rightarrow> type_error)"

definition as_object :: "json \<Rightarrow> json_obj go" where
  "as_object j = (case j of JObj ms \<Rightarrow> Inr ms | JNull \<Rightarrow> Inr [] | _ \<Rightarrow> type_error)"

lemma uuid_Parse_String [simp, codec_simps]: "uuid_ok E \<Longrightarrow> uuid_Parse E (e_uuid_String E i) = Inr i"
  by (simp add: uuid_Parse_def uuid_okD)

lemma map_go_json_string [simp, codec_simps]: "map_go json_string (map JStr ss) = Inr ss"
  by (induction ss) (simp_all add: json_string_def)

lemmas get_defs = get_string_def get_bool_def get_int_def get_time_def get_uuid_def get_strings_def as_object_def

definition json_strings :: "string list \<Rightarrow> json" where
  "json_strings ss = JArr (map JStr ss)"

section \<open>LoginInfo.go\<close>

type_synonym login_step = string

definition LoginStepPasswordVerification :: login_step where
  "LoginStepPasswordVerification = ''passwordVerification''"
definition LoginStepTemporaryPassword :: login_step where
  "LoginStepTemporaryPassword = ''temporaryPassword''"
definition LoginStepEmailVerification :: login_step where
  "LoginStepEmailVerification = ''emailVerification''"
definition LoginStepOnboardTotp :: login_step where
  "LoginStepOnboardTotp = ''onboardTotp''"
definition LoginStepVerifyTotp :: login_step where
  "LoginStepVerifyTotp = ''verifyTotp''"
definition LoginStepPasskey :: login_step where
  "LoginStepPasskey = ''passkey''"
definition LoginStepFinish :: login_step where
  "LoginStepFinish = ''finish''"

lemmas login_step_defs =
  LoginStepPasswordVerification_def LoginStepTemporaryPassword_def LoginStepEmailVerification_def
  LoginStepOnboardTotp_def LoginStepVerifyTotp_def LoginStepPasskey_def LoginStepFinish_def

lemma login_steps_distinct [simp]:
  "distinct [LoginStepPasswordVerification, LoginStepTemporaryPassword, LoginStepEmailVerification,
     LoginStepOnboardTotp, LoginStepVerifyTotp, LoginStepPasskey, LoginStepFinish]"
  by (simp add: login_step_defs)

lemma login_steps_neq [simp]:
  "LoginStepFinish \<noteq> LoginStepPasswordVerification" "LoginStepFinish \<noteq> LoginStepTemporaryPassword"
  "LoginStepFinish \<noteq> LoginStepEmailVerification" "LoginStepFinish \<noteq> LoginStepOnboardTotp"
  "LoginStepFinish \<noteq> LoginStepVerifyTotp" "LoginStepFinish \<noteq> LoginStepPasskey"
  "LoginStepPasswordVerification \<noteq> LoginStepTemporaryPassword" "LoginStepPasswordVerification \<noteq> LoginStepEmailVerification"
  "LoginStepPasswordVerification \<noteq> LoginStepOnboardTotp" "LoginStepPasswordVerification \<noteq> LoginStepVerifyTotp"
  "LoginStepPasswordVerification \<noteq> LoginStepPasskey" "LoginStepTemporaryPassword \<noteq> LoginStepEmailVerification"
  "LoginStepTemporaryPassword \<noteq> LoginStepOnboardTotp" "LoginStepTemporaryPassword \<noteq> LoginStepVerifyTotp"
  "LoginStepTemporaryPassword \<noteq> LoginStepPasskey" "LoginStepEmailVerification \<noteq> LoginStepOnboardTotp"
  "LoginStepEmailVerification \<noteq> LoginStepVerifyTotp" "LoginStepEmailVerification \<noteq> LoginStepPasskey"
  "LoginStepOnboardTotp \<noteq> LoginStepVerifyTotp" "LoginStepOnboardTotp \<noteq> LoginStepPasskey"
  "LoginStepVerifyTotp \<noteq> LoginStepPasskey"
  by (simp_all add: login_step_defs)

lemmas login_steps_neq' [simp] = login_steps_neq [symmetric]

record login_info =
  li_Step :: login_step
  li_ApplicationDisplayName :: string
  li_VirtualServerDisplayName :: string
  li_VirtualServerName :: string
  li_VirtualServerId :: uuid
  li_RegistrationEnabled :: bool
  li_UserId :: uuid
  li_OriginalUrl :: string
  li_TotpSecret :: string
  li_DeviceCode :: string
  li_FailedPasswordAttempts :: int

definition NewLoginInfo :: "virtual_server \<Rightarrow> application \<Rightarrow> string \<Rightarrow> login_info" where
  "NewLoginInfo virtualServer app originalUrl =
     \<lparr>li_Step = LoginStepPasswordVerification, li_ApplicationDisplayName = app_displayName app,
      li_VirtualServerDisplayName = vs_displayName virtualServer, li_VirtualServerName = vs_name virtualServer,
      li_VirtualServerId = bm_id (vs_base virtualServer), li_RegistrationEnabled = vs_enableRegistration virtualServer,
      li_UserId = uuid_Nil, li_OriginalUrl = originalUrl, li_TotpSecret = [], li_DeviceCode = [],
      li_FailedPasswordAttempts = 0\<rparr>"

definition LoginInfo_json :: "env \<Rightarrow> login_info \<Rightarrow> json" where
  "LoginInfo_json E i = JObj
     [(''step'', JStr (li_Step i)), (''applicationDisplayName'', JStr (li_ApplicationDisplayName i)),
      (''virtualServerDisplayName'', JStr (li_VirtualServerDisplayName i)),
      (''virtualServerName'', JStr (li_VirtualServerName i)),
      (''virtualServerId'', JStr (e_uuid_String E (li_VirtualServerId i))),
      (''registrationEnabled'', JBool (li_RegistrationEnabled i)),
      (''userId'', JStr (e_uuid_String E (li_UserId i))), (''originalUrl'', JStr (li_OriginalUrl i)),
      (''totpSecret'', JStr (li_TotpSecret i)), (''deviceCode'', JStr (li_DeviceCode i)),
      (''failedPasswordAttempts'', JNum (li_FailedPasswordAttempts i))]"

definition LoginInfo_decode :: "env \<Rightarrow> jtext \<Rightarrow> login_info go" where
  "LoginInfo_decode E t =
     go_bind (json_Unmarshal t) (\<lambda>j. go_bind (as_object j) (\<lambda>ms.
     go_bind (get_string ''step'' ms) (\<lambda>step.
     go_bind (get_string ''applicationDisplayName'' ms) (\<lambda>appName.
     go_bind (get_string ''virtualServerDisplayName'' ms) (\<lambda>vsDisplay.
     go_bind (get_string ''virtualServerName'' ms) (\<lambda>vsName.
     go_bind (get_uuid E ''virtualServerId'' ms) (\<lambda>vsId.
     go_bind (get_bool ''registrationEnabled'' ms) (\<lambda>reg.
     go_bind (get_uuid E ''userId'' ms) (\<lambda>userId.
     go_bind (get_string ''originalUrl'' ms) (\<lambda>url.
     go_bind (get_string ''totpSecret'' ms) (\<lambda>totp.
     go_bind (get_string ''deviceCode'' ms) (\<lambda>device.
     go_bind (get_int ''failedPasswordAttempts'' ms) (\<lambda>failed.
       Inr \<lparr>li_Step = step, li_ApplicationDisplayName = appName, li_VirtualServerDisplayName = vsDisplay,
            li_VirtualServerName = vsName, li_VirtualServerId = vsId, li_RegistrationEnabled = reg,
            li_UserId = userId, li_OriginalUrl = url, li_TotpSecret = totp, li_DeviceCode = device,
            li_FailedPasswordAttempts = failed\<rparr>)))))))))))))"

lemma LoginInfo_decode_json [simp, codec_simps]:
  "uuid_ok E \<Longrightarrow> LoginInfo_decode E (Doc (LoginInfo_json E i)) = Inr i"
  by (simp add: LoginInfo_decode_def LoginInfo_json_def get_defs)

section \<open>CodeInfo.go\<close>

record code_info =
  ci_VirtualServerName :: string
  ci_ApplicationId :: uuid
  ci_GrantedScopes :: "string list"
  ci_UserId :: uuid
  ci_Nonce :: string
  ci_AuthenticatedAt :: time
  ci_RedirectUri :: string
  ci_CodeChallenge :: string
  ci_CodeChallengeMethod :: string

definition NewCodeInfo ::
  "string \<Rightarrow> uuid \<Rightarrow> string list \<Rightarrow> uuid \<Rightarrow> string \<Rightarrow> time \<Rightarrow> string \<Rightarrow> string \<Rightarrow> string \<Rightarrow> code_info" where
  "NewCodeInfo vsName applicationId grantedScopes userId nonce authenticatedAt redirectUri challenge challengeMethod =
     \<lparr>ci_VirtualServerName = vsName, ci_ApplicationId = applicationId, ci_GrantedScopes = grantedScopes,
      ci_UserId = userId, ci_Nonce = nonce, ci_AuthenticatedAt = authenticatedAt, ci_RedirectUri = redirectUri,
      ci_CodeChallenge = challenge, ci_CodeChallengeMethod = challengeMethod\<rparr>"

definition CodeInfo_json :: "env \<Rightarrow> code_info \<Rightarrow> json" where
  "CodeInfo_json E i = JObj
     [(''VirtualServerName'', JStr (ci_VirtualServerName i)), (''ApplicationId'', JStr (e_uuid_String E (ci_ApplicationId i))),
      (''GrantedScopes'', json_strings (ci_GrantedScopes i)), (''UserId'', JStr (e_uuid_String E (ci_UserId i))),
      (''Nonce'', JStr (ci_Nonce i)), (''AuthenticatedAt'', JTime (ci_AuthenticatedAt i)),
      (''RedirectUri'', JStr (ci_RedirectUri i)), (''CodeChallenge'', JStr (ci_CodeChallenge i)),
      (''CodeChallengeMethod'', JStr (ci_CodeChallengeMethod i))]"

definition CodeInfo_decode :: "env \<Rightarrow> jtext \<Rightarrow> code_info go" where
  "CodeInfo_decode E t =
     go_bind (json_Unmarshal t) (\<lambda>j. go_bind (as_object j) (\<lambda>ms.
     go_bind (get_string ''VirtualServerName'' ms) (\<lambda>vsName.
     go_bind (get_uuid E ''ApplicationId'' ms) (\<lambda>appId.
     go_bind (get_strings ''GrantedScopes'' ms) (\<lambda>scopes.
     go_bind (get_uuid E ''UserId'' ms) (\<lambda>userId.
     go_bind (get_string ''Nonce'' ms) (\<lambda>nonce.
     go_bind (get_time ''AuthenticatedAt'' ms) (\<lambda>authTime.
     go_bind (get_string ''RedirectUri'' ms) (\<lambda>uri.
     go_bind (get_string ''CodeChallenge'' ms) (\<lambda>challenge.
     go_bind (get_string ''CodeChallengeMethod'' ms) (\<lambda>challengeMethod.
       Inr (NewCodeInfo vsName appId scopes userId nonce authTime uri challenge challengeMethod))))))))))))"

lemma CodeInfo_decode_json [simp, codec_simps]:
  "uuid_ok E \<Longrightarrow> CodeInfo_decode E (Doc (CodeInfo_json E i)) = Inr i"
  by (simp add: CodeInfo_decode_def CodeInfo_json_def NewCodeInfo_def json_strings_def get_defs)

section \<open>RefreshTokenInfo.go\<close>

record refresh_token_info =
  ri_VirtualServerName :: string
  ri_UserId :: uuid
  ri_GrantedScopes :: "string list"
  ri_ClientId :: string

definition NewRefreshTokenInfo :: "string \<Rightarrow> string \<Rightarrow> uuid \<Rightarrow> string list \<Rightarrow> refresh_token_info" where
  "NewRefreshTokenInfo vsName clientId userId grantedScopes =
     \<lparr>ri_VirtualServerName = vsName, ri_UserId = userId, ri_GrantedScopes = grantedScopes, ri_ClientId = clientId\<rparr>"

definition RefreshTokenInfo_json :: "env \<Rightarrow> refresh_token_info \<Rightarrow> json" where
  "RefreshTokenInfo_json E i = JObj
     [(''VirtualServerName'', JStr (ri_VirtualServerName i)), (''UserId'', JStr (e_uuid_String E (ri_UserId i))),
      (''GrantedScopes'', json_strings (ri_GrantedScopes i)), (''ClientId'', JStr (ri_ClientId i))]"

definition RefreshTokenInfo_decode :: "env \<Rightarrow> jtext \<Rightarrow> refresh_token_info go" where
  "RefreshTokenInfo_decode E t =
     go_bind (json_Unmarshal t) (\<lambda>j. go_bind (as_object j) (\<lambda>ms.
     go_bind (get_string ''VirtualServerName'' ms) (\<lambda>vsName.
     go_bind (get_uuid E ''UserId'' ms) (\<lambda>userId.
     go_bind (get_strings ''GrantedScopes'' ms) (\<lambda>scopes.
     go_bind (get_string ''ClientId'' ms) (\<lambda>clientId.
       Inr (NewRefreshTokenInfo vsName clientId userId scopes)))))))"

lemma RefreshTokenInfo_decode_json [simp, codec_simps]:
  "uuid_ok E \<Longrightarrow> RefreshTokenInfo_decode E (Doc (RefreshTokenInfo_json E i)) = Inr i"
  by (simp add: RefreshTokenInfo_decode_def RefreshTokenInfo_json_def NewRefreshTokenInfo_def json_strings_def get_defs)

section \<open>DeviceCodeInfo.go\<close>

definition DeviceCodeStatusPending :: string where "DeviceCodeStatusPending = ''pending''"
definition DeviceCodeStatusAuthorized :: string where "DeviceCodeStatusAuthorized = ''authorized''"
definition DeviceCodeStatusDenied :: string where "DeviceCodeStatusDenied = ''denied''"

lemmas device_status_defs =
  DeviceCodeStatusPending_def DeviceCodeStatusAuthorized_def DeviceCodeStatusDenied_def

record device_code_info =
  di_VirtualServerName :: string
  di_ClientId :: string
  di_GrantedScopes :: "string list"
  di_Status :: string
  di_UserId :: string
  di_UserCode :: string

definition DeviceCodeInfo_json :: "device_code_info \<Rightarrow> json" where
  "DeviceCodeInfo_json i = JObj
     [(''VirtualServerName'', JStr (di_VirtualServerName i)), (''ClientId'', JStr (di_ClientId i)),
      (''GrantedScopes'', json_strings (di_GrantedScopes i)), (''Status'', JStr (di_Status i)),
      (''UserId'', JStr (di_UserId i)), (''UserCode'', JStr (di_UserCode i))]"

definition DeviceCodeInfo_decode :: "jtext \<Rightarrow> device_code_info go" where
  "DeviceCodeInfo_decode t =
     go_bind (json_Unmarshal t) (\<lambda>j. go_bind (as_object j) (\<lambda>ms.
     go_bind (get_string ''VirtualServerName'' ms) (\<lambda>vsName.
     go_bind (get_string ''ClientId'' ms) (\<lambda>clientId.
     go_bind (get_strings ''GrantedScopes'' ms) (\<lambda>scopes.
     go_bind (get_string ''Status'' ms) (\<lambda>status.
     go_bind (get_string ''UserId'' ms) (\<lambda>userId.
     go_bind (get_string ''UserCode'' ms) (\<lambda>userCode.
       Inr \<lparr>di_VirtualServerName = vsName, di_ClientId = clientId, di_GrantedScopes = scopes,
            di_Status = status, di_UserId = userId, di_UserCode = userCode\<rparr>))))))))"

lemma DeviceCodeInfo_decode_json [simp, codec_simps]:
  "DeviceCodeInfo_decode (Doc (DeviceCodeInfo_json i)) = Inr i"
  by (simp add: DeviceCodeInfo_decode_def DeviceCodeInfo_json_def json_strings_def get_defs)

section \<open>Passkey.go\<close>

record passkey_login_challenge =
  plc_Id :: uuid
  plc_Challenge :: string
  plc_LoginSessionToken :: string

definition PasskeyLoginChallenge_json :: "env \<Rightarrow> passkey_login_challenge \<Rightarrow> json" where
  "PasskeyLoginChallenge_json E c = JObj
     [(''id'', JStr (e_uuid_String E (plc_Id c))), (''challenge'', JStr (plc_Challenge c)),
      (''loginSessionToken'', JStr (plc_LoginSessionToken c))]"

definition PasskeyLoginChallenge_decode :: "env \<Rightarrow> jtext \<Rightarrow> passkey_login_challenge go" where
  "PasskeyLoginChallenge_decode E t =
     go_bind (json_Unmarshal t) (\<lambda>j. go_bind (as_object j) (\<lambda>ms.
     go_bind (get_uuid E ''id'' ms) (\<lambda>i.
     go_bind (get_string ''challenge'' ms) (\<lambda>c.
     go_bind (get_string ''loginSessionToken'' ms) (\<lambda>s.
       Inr \<lparr>plc_Id = i, plc_Challenge = c, plc_LoginSessionToken = s\<rparr>)))))"

lemma PasskeyLoginChallenge_decode_json [simp, codec_simps]:
  "uuid_ok E \<Longrightarrow> PasskeyLoginChallenge_decode E (Doc (PasskeyLoginChallenge_json E c)) = Inr c"
  by (simp add: PasskeyLoginChallenge_decode_def PasskeyLoginChallenge_json_def get_defs)

end
