(* ===== verification/Go_Paths.thy ===== *)
theory Go_Paths
  imports Go_Strings
begin

text \<open>
  \<^verbatim>\<open>filepath.Join\<close> and \<^verbatim>\<open>filepath.Clean\<close> on Unix, and what they do to a path that is extended by plain file names: it
  is extended by the names, whatever it is.
\<close>

section \<open>Cleaning\<close>

text \<open>One element of a path; the elements so far are a stack.\<close>

definition clean_step :: "bool \<Rightarrow> string list \<Rightarrow> string \<Rightarrow> string list" where
  "clean_step rooted st c =
     (if c = [] \<or> c = ''.'' then st
      else if c = ''..'' then
        (case st of
           [] \<Rightarrow> if rooted then [] else [''..'']
         | t # ts \<Rightarrow> if t = ''..'' then ''..'' # st else ts)
      else c # st)"

definition rooted_path :: "string \<Rightarrow> bool" where
  "rooted_path p = HasPrefix p ''/''"

definition clean_stack :: "string \<Rightarrow> string list" where
  "clean_stack p = foldl (clean_step (rooted_path p)) [] (Split p CHR ''/'')"

definition render :: "bool \<Rightarrow> string list \<Rightarrow> string" where
  "render rooted st = (if rooted then ''/'' else []) @ Join (rev st) ''/''"

definition filepath_Clean :: "string \<Rightarrow> string" where
  "filepath_Clean p = (let s = render (rooted_path p) (clean_stack p) in if s = [] then ''.'' else s)"

text \<open>\<^verbatim>\<open>Join\<close> leaves out empty elements in front.\<close>

fun filepath_Join :: "string list \<Rightarrow> string" where
  "filepath_Join [] = []"
| "filepath_Join (e # es) = (if e = [] then filepath_Join es else filepath_Clean (Join (e # es) ''/''))"

section \<open>Plain names\<close>

definition file_name :: "string \<Rightarrow> bool" where
  "file_name n \<longleftrightarrow> CHR ''/'' \<notin> set n \<and> n \<notin> {[], ''.'', ''..''}"

lemma file_nameD: "file_name n \<Longrightarrow> CHR ''/'' \<notin> set n"
  by (simp add: file_name_def)

lemma Split_append: "Split (s @ c # t) c = Split s c @ Split t c"
proof (induction s)
  case (Cons x xs)
  show ?case
  proof (cases "x = c")
    case False
    obtain w ws where "Split xs c = w # ws" by (cases "Split xs c") simp_all
    with Cons False show ?thesis by simp
  qed (use Cons in simp)
qed simp

lemma Join_not_Nil: "xs \<noteq> [] \<Longrightarrow> \<forall>x \<in> set xs. x \<noteq> [] \<Longrightarrow> Join xs sep \<noteq> []"
  by (induction xs sep rule: Join.induct) auto

lemma Join_snoc: "xs \<noteq> [] \<Longrightarrow> Join (xs @ [x]) sep = Join xs sep @ sep @ x"
  by (induction xs sep rule: Join.induct) auto

lemma clean_step_name [simp]: "file_name c \<Longrightarrow> clean_step r st c = c # st"
  by (simp add: clean_step_def file_name_def)

lemma render_push: "st \<noteq> [] \<Longrightarrow> render r (c # st) = render r st @ ''/'' @ c"
  by (simp add: render_def Join_snoc)

text \<open>The stack of a cleaned path is its own: leading double dots, then names.\<close>

fun stack_ok :: "bool \<Rightarrow> string list \<Rightarrow> bool" where
  "stack_ok r [] = True"
| "stack_ok r (c # st) =
     (stack_ok r st \<and> CHR ''/'' \<notin> set c \<and> (file_name c \<or> c = ''..'' \<and> \<not> r \<and> set st \<subseteq> {''..''}))"

lemma stack_ok_step: "stack_ok r st \<Longrightarrow> CHR ''/'' \<notin> set c \<Longrightarrow> stack_ok r (clean_step r st c)"
  by (cases st) (auto simp: clean_step_def file_name_def)

lemma stack_ok_fold: "stack_ok r st \<Longrightarrow> \<forall>c \<in> set cs. CHR ''/'' \<notin> set c \<Longrightarrow> stack_ok r (foldl (clean_step r) st cs)"
  by (induction cs arbitrary: st) (simp_all add: stack_ok_step)

lemma stack_ok_clean: "stack_ok (rooted_path p) (clean_stack p)"
  unfolding clean_stack_def by (rule stack_ok_fold) (auto dest: Split_pieces)

lemma fold_own_stack: "stack_ok r st \<Longrightarrow> foldl (clean_step r) [] (rev st) = st"
proof (induction st)
  case (Cons c st)
  show ?case
  proof (cases "file_name c")
    case False
    with Cons.prems have "c = ''..''" "\<not> r" "set st \<subseteq> {''..''}" by auto
    with Cons show ?thesis by (cases st) (auto simp: clean_step_def)
  qed (use Cons in simp)
qed simp

lemma Split_Join_names: "xs \<noteq> [] \<Longrightarrow> \<forall>x \<in> set xs. c \<notin> set x \<Longrightarrow> Split (Join xs [c]) c = xs"
proof (induction xs rule: rev_induct)
  case (snoc x xs)
  thus ?case
    by (cases "xs = []") (simp_all add: Join_snoc Split_append Split_no_sep)
qed simp

lemma stack_elements: "stack_ok r st \<Longrightarrow> x \<in> set st \<Longrightarrow> CHR ''/'' \<notin> set x \<and> x \<noteq> []"
  by (induction st) (auto simp: file_name_def)

lemma rooted_render:
  assumes "stack_ok r st" "st \<noteq> []"
  shows "rooted_path (render r st) = r"
proof (cases "rev st")
  case (Cons x xs)
  hence "x \<in> set st" by (metis list.set_intros(1) set_rev)
  hence "CHR ''/'' \<notin> set x" "x \<noteq> []" using stack_elements [OF assms(1)] by blast+
  moreover obtain y ys where "x = y # ys" using \<open>x \<noteq> []\<close> by (cases x) simp_all
  ultimately show ?thesis by (cases xs) (auto simp: render_def Cons rooted_path_def HasPrefix_def)
qed (use assms in simp)

lemma clean_stack_render:
  assumes "stack_ok r st" "st \<noteq> []"
  shows "clean_stack (render r st) = st"
proof -
  have names: "Split (Join (rev st) ''/'') CHR ''/'' = rev st"
    using stack_elements [OF assms(1)] assms(2) by (intro Split_Join_names) auto
  have "Split (render r st) CHR ''/'' = (if r then [[]] else []) @ rev st"
    using names by (simp add: render_def)
  hence "clean_stack (render r st) = foldl (clean_step r) [] (rev st)"
    unfolding clean_stack_def rooted_render [OF assms] by (simp add: clean_step_def)
  thus ?thesis using fold_own_stack [OF assms(1)] by simp
qed

text \<open>A path that is extended by a name.\<close>

lemma extended:
  assumes "p \<noteq> []" "file_name n"
  shows "rooted_path (p @ CHR ''/'' # n) = rooted_path p" "clean_stack (p @ CHR ''/'' # n) = n # clean_stack p"
proof -
  show "rooted_path (p @ CHR ''/'' # n) = rooted_path p"
    using assms(1) by (cases p) (auto simp: rooted_path_def HasPrefix_def)
  thus "clean_stack (p @ CHR ''/'' # n) = n # clean_stack p"
    using assms(2) by (simp add: clean_stack_def Split_append Split_no_sep file_nameD)
qed

lemma render_not_Nil: "stack_ok r st \<Longrightarrow> st \<noteq> [] \<Longrightarrow> render r st \<noteq> []"
  using Join_not_Nil [of "rev st"] stack_elements [of r st] by (simp add: render_def)

lemma clean_extended:
  assumes "p \<noteq> []" "file_name n"
  shows "filepath_Clean (p @ CHR ''/'' # n) = render (rooted_path p) (n # clean_stack p)"
proof -
  have "stack_ok (rooted_path p) (n # clean_stack p)"
    using stack_ok_clean [of p] assms(2) by (simp add: file_nameD)
  from render_not_Nil [OF this] show ?thesis
    by (simp add: filepath_Clean_def extended [OF assms])
qed

lemma render_extended:
  assumes "stack_ok r st" "st \<noteq> []" "file_name n"
  shows "filepath_Join [render r st, n] = render r st @ ''/'' @ n"
  using clean_extended [OF render_not_Nil [OF assms(1,2)] assms(3)] render_not_Nil [OF assms(1,2)] assms(2)
  by (simp add: rooted_render [OF assms(1,2)] clean_stack_render [OF assms(1,2)] render_push)

text \<open>What comes before a name that is joined to a path.\<close>

definition path_root :: "string \<Rightarrow> string" where
  "path_root p =
     (if p = [] then []
      else if clean_stack p = [] then (if rooted_path p then ''/'' else [])
      else render (rooted_path p) (clean_stack p) @ ''/'')"

lemma join_two_names:
  assumes "file_name a" "file_name b"
  shows "filepath_Join [p, a, b] = path_root p @ a @ ''/'' @ b"
    and "file_name n \<Longrightarrow> filepath_Join [filepath_Join [p, a, b], n] = path_root p @ a @ ''/'' @ b @ ''/'' @ n"
proof -
  let ?r = "p \<noteq> [] \<and> rooted_path p" and ?st = "b # a # (if p = [] then [] else clean_stack p)"
  have ok: "stack_ok ?r ?st"
    using stack_ok_clean [of p] assms by (simp add: file_nameD)
  have ab: "a \<noteq> []" "CHR ''/'' \<notin> set a" using assms(1) by (auto simp: file_name_def)
  have fst: "filepath_Join [p, a, b] = render ?r ?st"
  proof (cases "p = []")
    case True
    have "\<not> rooted_path a" "clean_stack a = [a]"
      using ab assms(1) by (auto simp: rooted_path_def HasPrefix_iff clean_stack_def Split_no_sep)
    thus ?thesis using True clean_extended [OF ab(1) assms(2)] ab by simp
  next
    case False
    thus ?thesis
      using clean_extended [of "p @ CHR ''/'' # a" b] extended [OF False assms(1)] assms(2) by simp
  qed
  also have root: "\<dots> = path_root p @ a @ ''/'' @ b"
    by (simp add: path_root_def render_push) (simp add: render_def)
  finally show first: "filepath_Join [p, a, b] = path_root p @ a @ ''/'' @ b" .
  show "filepath_Join [filepath_Join [p, a, b], n] = path_root p @ a @ ''/'' @ b @ ''/'' @ n" if "file_name n"
    unfolding fst using render_extended [OF ok _ that] root by simp
qed

lemma path_root_ends: "path_root p = [] \<or> (\<exists>q. path_root p = q @ ''/'')"
  by (simp add: path_root_def)

declare filepath_Join.simps [simp del]

end
