(* ===== verification/KeyFiles.thy ===== *)
theory KeyFiles
  imports KeySpec Json_Types Go_Paths
begin

text \<open>
  Keys as text and the key store in a directory (\<^verbatim>\<open>internal/services/keys.go\<close>). The encodings of keys
  (\<^verbatim>\<open>crypto/x509\<close>, \<^verbatim>\<open>encoding/pem\<close>) are the parameter \<open>key_codec\<close>, the file system (\<^verbatim>\<open>os\<close>) the parameter \<open>files\<close>; its
  documented behaviour is the locale \<open>files_laws\<close>, which a tree of files meets. On every file system that meets it,
  the directory is a key store in the sense of \<open>key_store_laws\<close>.
\<close>

section \<open>Keys as text\<close>

text \<open>A private key is opaque; its Go type, its public key and its encodings are functions of it.\<close>

record key_codec =
  kc_pem_EncodeToMemory :: "string \<Rightarrow> string \<Rightarrow> string" \<comment> \<open>the type and the bytes of a block\<close>
  kc_pem_Decode :: "string \<Rightarrow> (string \<times> string) option"
  kc_is_rsa :: "string \<Rightarrow> bool" \<comment> \<open>the key is a \<^verbatim>\<open>*rsa.PrivateKey\<close>\<close>
  kc_is_ed25519 :: "string \<Rightarrow> bool" \<comment> \<open>the key is an \<^verbatim>\<open>ed25519.PrivateKey\<close>\<close>
  kc_rsa_Public :: "string \<Rightarrow> int \<times> string"
  kc_ed25519_Public :: "string \<Rightarrow> string"
  kc_MarshalPKCS1PrivateKey :: "string \<Rightarrow> string"
  kc_ParsePKCS1PrivateKey :: "string \<Rightarrow> goerr + string"
  kc_MarshalPKCS8PrivateKey :: "string \<Rightarrow> goerr + string"
  kc_ParsePKCS8PrivateKey :: "string \<Rightarrow> goerr + string"
  kc_MarshalPKIXPublicKey :: "public_key \<Rightarrow> goerr + string"

text \<open>A call that fails: \<^verbatim>\<open>return fmt.Errorf("msg: %w", err)\<close>, or \<^verbatim>\<open>return err\<close>.\<close>

definition or_wrap :: "string \<Rightarrow> goerr + 'a \<Rightarrow> 'a go" where
  "or_wrap msg r = (case r of Inl e \<Rightarrow> Inl (Err (Wrap msg e)) | Inr x \<Rightarrow> Inr x)"

definition failed :: "string \<Rightarrow> 'a go" where
  "failed msg = Inl (Err (ErrorsNew msg))"

lemma or_wrap_simps [simp]: "or_wrap msg (Inr x) = Inr x" "or_wrap msg (Inl e) = Inl (Err (Wrap msg e))"
  by (simp_all add: or_wrap_def)

definition RSAKeyStrategy_Import :: "key_codec \<Rightarrow> string \<Rightarrow> (string \<times> public_key) go" where
  "RSAKeyStrategy_Import C serializedPrivateKey =
     (case kc_pem_Decode C serializedPrivateKey of
        None \<Rightarrow> failed ''failed to decode PEM block containing RSA private key''
      | Some (type, bytes) \<Rightarrow>
          if type \<noteq> ''RSA PRIVATE KEY'' then failed ''failed to decode PEM block containing RSA private key''
          else go_bind (or_wrap ''parsing PKCS1 private key'' (kc_ParsePKCS1PrivateKey C bytes)) (\<lambda>key.
            Inr (key, RSAPublicKey (fst (kc_rsa_Public C key)) (snd (kc_rsa_Public C key)))))"

definition RSAKeyStrategy_Export :: "key_codec \<Rightarrow> string \<Rightarrow> string go" where
  "RSAKeyStrategy_Export C privateKey =
     (if \<not> kc_is_rsa C privateKey then failed ''invalid private key type, expected *rsa.PrivateKey''
      else Inr (kc_pem_EncodeToMemory C ''RSA PRIVATE KEY'' (kc_MarshalPKCS1PrivateKey C privateKey)))"

definition EdDSAKeyStrategy_Export :: "key_codec \<Rightarrow> string \<Rightarrow> string go" where
  "EdDSAKeyStrategy_Export C privateKey =
     (if \<not> kc_is_ed25519 C privateKey then failed ''invalid private key type, expected ed25519.PrivateKey''
      else go_bind (or_wrap ''marshalling private key'' (kc_MarshalPKCS8PrivateKey C privateKey)) (\<lambda>der.
        Inr (kc_pem_EncodeToMemory C ''PRIVATE KEY'' der)))"

definition EdDSAKeyStrategy_Import :: "key_codec \<Rightarrow> string \<Rightarrow> (string \<times> public_key) go" where
  "EdDSAKeyStrategy_Import C serializedPrivateKey =
     (case kc_pem_Decode C serializedPrivateKey of
        None \<Rightarrow> failed ''failed to decode PEM block''
      | Some (type, bytes) \<Rightarrow>
          go_bind (or_wrap ''parsing PKCS8 private key'' (kc_ParsePKCS8PrivateKey C bytes)) (\<lambda>key.
            if \<not> kc_is_ed25519 C key then failed ''not an Ed25519 private key''
            else Inr (key, Ed25519PublicKey (kc_ed25519_Public C key))))"

text \<open>The methods of the strategy that \<^verbatim>\<open>GetKeyStrategy\<close> returns; it panics for an algorithm it does not know.\<close>

definition strategy_Import :: "key_codec \<Rightarrow> signing_algorithm \<Rightarrow> string \<Rightarrow> (string \<times> public_key) go" where
  "strategy_Import C algorithm text =
     go_bind (GetKeyStrategy algorithm) (\<lambda>_.
       if algorithm = SigningAlgorithmRS256 then RSAKeyStrategy_Import C text else EdDSAKeyStrategy_Import C text)"

definition strategy_Export :: "key_codec \<Rightarrow> signing_algorithm \<Rightarrow> string \<Rightarrow> string go" where
  "strategy_Export C algorithm privateKey =
     go_bind (GetKeyStrategy algorithm) (\<lambda>_.
       if algorithm = SigningAlgorithmRS256 then RSAKeyStrategy_Export C privateKey
       else EdDSAKeyStrategy_Export C privateKey)"

text \<open>The bytes of the keys of a pair; a key of another type is a failed type assertion.\<close>

definition KeyPair_PublicKeyBytes :: "key_codec \<Rightarrow> key_pair \<Rightarrow> string go" where
  "KeyPair_PublicKeyBytes C k =
     (if kp_algorithm k = SigningAlgorithmEdDSA then
        (case kp_publicKey k of Ed25519PublicKey bytes \<Rightarrow> Inr bytes | _ \<Rightarrow> Inl (Panic ''interface conversion''))
      else if kp_algorithm k = SigningAlgorithmRS256 then
        (case kp_publicKey k of
           RSAPublicKey ex n \<Rightarrow>
             (case kc_MarshalPKIXPublicKey C (RSAPublicKey ex n) of
                Inl e \<Rightarrow> Inl (Panic ''marshaling public key'')
              | Inr bytes \<Rightarrow> Inr bytes)
         | _ \<Rightarrow> Inl (Panic ''interface conversion''))
      else Inl (Panic (''not implemented for algorithm: '' @ kp_algorithm k)))"

definition KeyPair_PrivateKeyBytes :: "key_codec \<Rightarrow> key_pair \<Rightarrow> string go" where
  "KeyPair_PrivateKeyBytes C k =
     (if kp_algorithm k = SigningAlgorithmEdDSA then
        (if kc_is_ed25519 C (kp_privateKey k) then Inr (kp_privateKey k) else Inl (Panic ''interface conversion''))
      else if kp_algorithm k = SigningAlgorithmRS256 then
        (if kc_is_rsa C (kp_privateKey k) then Inr (kc_MarshalPKCS1PrivateKey C (kp_privateKey k))
         else Inl (Panic ''interface conversion''))
      else Inl (Panic (''not implemented for algorithm: '' @ kp_algorithm k)))"

text \<open>What a strategy exports, it imports; and the keys it generates have the type it exports.\<close>

definition codec_ok :: "env \<Rightarrow> key_codec \<Rightarrow> bool" where
  "codec_ok E C \<longleftrightarrow>
     (\<forall>type \<in> {''RSA PRIVATE KEY'', ''PRIVATE KEY''}. \<forall>bytes.
        kc_pem_Decode C (kc_pem_EncodeToMemory C type bytes) = Some (type, bytes)) \<and>
     (\<forall>k. kc_is_rsa C k \<longrightarrow> kc_ParsePKCS1PrivateKey C (kc_MarshalPKCS1PrivateKey C k) = Inr k) \<and>
     (\<forall>k. kc_is_ed25519 C k \<longrightarrow>
        (\<exists>der. kc_MarshalPKCS8PrivateKey C k = Inr der \<and> kc_ParsePKCS8PrivateKey C der = Inr k)) \<and>
     (\<forall>n pub k. e_rsa_GenerateKey E n = (pub, k) \<longrightarrow> kc_is_rsa C k \<and> kc_rsa_Public C k = pub) \<and>
     (\<forall>n pub k. e_ed25519_GenerateKey E n = (pub, k) \<longrightarrow> kc_is_ed25519 C k \<and> kc_ed25519_Public C k = pub)"

section \<open>Key pairs as documents\<close>

record key_pair_json =
  kj_Algorithm :: string
  kj_PrivateKey :: string
  kj_Kid :: string
  kj_CreatedAt :: time
  kj_RotatesAt :: time
  kj_ExpiresAt :: time

definition keyPairJson_Marshal :: "key_pair_json \<Rightarrow> jtext" where
  "keyPairJson_Marshal dto =
     Doc (JObj [(''algorithm'', JStr (kj_Algorithm dto)), (''private_key'', JStr (kj_PrivateKey dto)),
       (''kid'', JStr (kj_Kid dto)), (''created_at'', JTime (kj_CreatedAt dto)),
       (''rotates_at'', JTime (kj_RotatesAt dto)), (''expires_at'', JTime (kj_ExpiresAt dto))])"

definition keyPairJson_Unmarshal :: "jtext \<Rightarrow> key_pair_json go" where
  "keyPairJson_Unmarshal t =
     go_bind (json_Unmarshal t) (\<lambda>j. go_bind (as_object j) (\<lambda>ms.
     go_bind (get_string ''algorithm'' ms) (\<lambda>algorithm.
     go_bind (get_string ''private_key'' ms) (\<lambda>privateKey.
     go_bind (get_string ''kid'' ms) (\<lambda>kid.
     go_bind (get_time ''created_at'' ms) (\<lambda>createdAt.
     go_bind (get_time ''rotates_at'' ms) (\<lambda>rotatesAt.
     go_bind (get_time ''expires_at'' ms) (\<lambda>expiresAt.
       Inr \<lparr>kj_Algorithm = algorithm, kj_PrivateKey = privateKey, kj_Kid = kid, kj_CreatedAt = createdAt,
            kj_RotatesAt = rotatesAt, kj_ExpiresAt = expiresAt\<rparr>))))))))"

lemma keyPairJson_roundtrip [simp]: "keyPairJson_Unmarshal (keyPairJson_Marshal dto) = Inr dto"
  by (simp add: keyPairJson_Unmarshal_def keyPairJson_Marshal_def get_defs json_Unmarshal_def)

definition key_pair_of :: "signing_algorithm \<Rightarrow> string \<times> public_key \<Rightarrow> key_pair_json \<Rightarrow> key_pair" where
  "key_pair_of algorithm imported dto =
     \<lparr>kp_algorithm = algorithm, kp_publicKey = snd imported, kp_privateKey = fst imported, kp_kid = kj_Kid dto,
      kp_createdAt = kj_CreatedAt dto, kp_rotatesAt = kj_RotatesAt dto, kp_expiresAt = kj_ExpiresAt dto\<rparr>"

definition key_pair_json_of :: "key_pair \<Rightarrow> string \<Rightarrow> key_pair_json" where
  "key_pair_json_of keyPair serializedPrivateKey =
     \<lparr>kj_Algorithm = kp_algorithm keyPair, kj_PrivateKey = serializedPrivateKey, kj_Kid = kp_kid keyPair,
      kj_CreatedAt = kp_createdAt keyPair, kj_RotatesAt = kp_rotatesAt keyPair, kj_ExpiresAt = kp_expiresAt keyPair\<rparr>"

definition directoryKeyStore_Serialize :: "key_codec \<Rightarrow> key_pair \<Rightarrow> jtext go" where
  "directoryKeyStore_Serialize C keyPair =
     go_bind (wrap ''exporting key pair'' (strategy_Export C (kp_algorithm keyPair) (kp_privateKey keyPair))) (\<lambda>serializedPrivateKey.
       Inr (keyPairJson_Marshal (key_pair_json_of keyPair serializedPrivateKey)))"

text \<open>\<^verbatim>\<open>Deserialize\<close>, which nothing calls, does not set the identifier of the key.\<close>

definition directoryKeyStore_Deserialize :: "key_codec \<Rightarrow> jtext \<Rightarrow> key_pair go" where
  "directoryKeyStore_Deserialize C data =
     go_bind (wrap ''unmarshaling key pair'' (keyPairJson_Unmarshal data)) (\<lambda>dto.
     go_bind (GetKeyStrategy (kj_Algorithm dto)) (\<lambda>_.
     go_bind (wrap ''importing key pair'' (strategy_Import C (kj_Algorithm dto) (kj_PrivateKey dto))) (\<lambda>imported.
       Inr ((key_pair_of (kj_Algorithm dto) imported dto)\<lparr>kp_kid := []\<rparr>))))"

section \<open>The directory\<close>

text \<open>An error of the package \<^verbatim>\<open>os\<close>: whether \<^verbatim>\<open>os.IsNotExist\<close> holds of it, and the error.\<close>

datatype os_error = OsError (os_IsNotExist: bool) (os_err: goerr)

record 'f files =
  os_Stat :: "string \<Rightarrow> 'f \<Rightarrow> os_error + bool" \<comment> \<open>\<^verbatim>\<open>IsDir\<close> of the result\<close>
  os_MkdirAll :: "string \<Rightarrow> 'f \<Rightarrow> (os_error + unit) \<times> 'f"
  os_WriteFile :: "string \<Rightarrow> jtext \<Rightarrow> 'f \<Rightarrow> (os_error + unit) \<times> 'f"
  os_ReadFile :: "string \<Rightarrow> 'f \<Rightarrow> os_error + jtext"
  os_Remove :: "string \<Rightarrow> 'f \<Rightarrow> (os_error + unit) \<times> 'f"
  os_RemoveAll :: "string \<Rightarrow> 'f \<Rightarrow> (os_error + unit) \<times> 'f"
  os_ReadDir :: "string \<Rightarrow> 'f \<Rightarrow> os_error + (string \<times> bool) list" \<comment> \<open>names, and \<^verbatim>\<open>IsDir\<close>\<close>

definition directoryKeyStore_getPath :: "string \<Rightarrow> string \<Rightarrow> signing_algorithm \<Rightarrow> string" where
  "directoryKeyStore_getPath path virtualServerName algorithm = filepath_Join [path, virtualServerName, algorithm]"

text \<open>The end of \<^verbatim>\<open>Add\<close>, when the directory exists.\<close>

definition write_key :: "'f files \<Rightarrow> key_codec \<Rightarrow> string \<Rightarrow> key_pair \<Rightarrow> 'f \<Rightarrow> unit go \<times> 'f" where
  "write_key F C algPath keyPair f =
     (case wrap ''serializing key pair'' (directoryKeyStore_Serialize C keyPair) of
        Inl e \<Rightarrow> (Inl e, f)
      | Inr serializedKeyPair \<Rightarrow>
          (case os_WriteFile F (filepath_Join [algPath, kp_kid keyPair]) serializedKeyPair f of
             (Inl e, f) \<Rightarrow> (Inl (Err (Wrap ''writing key'' (os_err e))), f)
           | (Inr _, f) \<Rightarrow> (Inr (), f)))"

definition directoryKeyStore_Add ::
  "'f files \<Rightarrow> key_codec \<Rightarrow> string \<Rightarrow> string \<Rightarrow> key_pair \<Rightarrow> 'f \<Rightarrow> unit go \<times> 'f" where
  "directoryKeyStore_Add F C path virtualServerName keyPair f =
     (let algPath = directoryKeyStore_getPath path virtualServerName (kp_algorithm keyPair) in
      case os_Stat F algPath f of
        Inl e \<Rightarrow>
          if \<not> os_IsNotExist e then (Inl (Err (os_err e)), f)
          else (case os_MkdirAll F algPath f of
                  (Inl e, f) \<Rightarrow> (Inl (Err (os_err e)), f)
                | (Inr _, f) \<Rightarrow> write_key F C algPath keyPair f)
      | Inr isDir \<Rightarrow>
          if \<not> isDir then (failed (''path '' @ algPath @ '' is not a directory''), f)
          else write_key F C algPath keyPair f)"

definition directoryKeyStore_RemoveAllForAlgorithm ::
  "'f files \<Rightarrow> string \<Rightarrow> string \<Rightarrow> signing_algorithm \<Rightarrow> 'f \<Rightarrow> unit go \<times> 'f" where
  "directoryKeyStore_RemoveAllForAlgorithm F path virtualServerName algorithm f =
     (case os_RemoveAll F (directoryKeyStore_getPath path virtualServerName algorithm) f of
        (Inl e, f) \<Rightarrow>
          if \<not> os_IsNotExist e then (Inl (Err (Wrap ''removing algorithm directory'' (os_err e))), f) else (Inr (), f)
      | (Inr _, f) \<Rightarrow> (Inr (), f))"

definition directoryKeyStore_Remove ::
  "'f files \<Rightarrow> string \<Rightarrow> string \<Rightarrow> signing_algorithm \<Rightarrow> string \<Rightarrow> 'f \<Rightarrow> unit go \<times> 'f" where
  "directoryKeyStore_Remove F path virtualServerName algorithm kid f =
     (let keyPath = filepath_Join [directoryKeyStore_getPath path virtualServerName algorithm, kid] in
      case os_Stat F keyPath f of
        Inl e \<Rightarrow> if os_IsNotExist e then (Inr (), f) else (Inl (Err (os_err e)), f)
      | Inr isDir \<Rightarrow>
          if isDir then (failed (''path '' @ keyPath @ '' is a directory''), f)
          else (case os_Remove F keyPath f of
                  (Inl e, f) \<Rightarrow> (Inl (Err (Wrap ''removing key'' (os_err e))), f)
                | (Inr _, f) \<Rightarrow> (Inr (), f)))"

text \<open>The document of a key as the readers import it: under the algorithm that was asked for, not the one it names.\<close>

definition imported_key :: "key_codec \<Rightarrow> signing_algorithm \<Rightarrow> key_pair_json \<Rightarrow> key_pair go" where
  "imported_key C algorithm importedJson =
     go_bind (wrap ''importing key pair'' (strategy_Import C algorithm (kj_PrivateKey importedJson))) (\<lambda>imported.
       Inr (key_pair_of algorithm imported importedJson))"

text \<open>One file of the loop of \<^verbatim>\<open>GetAllForAlgorithm\<close>, which picks the strategy before it decodes.\<close>

definition listed_key :: "'f files \<Rightarrow> key_codec \<Rightarrow> string \<Rightarrow> signing_algorithm \<Rightarrow> 'f \<Rightarrow> string \<Rightarrow> key_pair go" where
  "listed_key F C algPath algorithm f name =
     (case os_ReadFile F (filepath_Join [algPath, name]) f of
        Inl e \<Rightarrow> Inl (Err (Wrap ''reading key'' (os_err e)))
      | Inr serializedKeyPair \<Rightarrow>
          go_bind (GetKeyStrategy algorithm) (\<lambda>_.
          go_bind (wrap ''unmarshaling key pair'' (keyPairJson_Unmarshal serializedKeyPair)) (imported_key C algorithm)))"

definition directoryKeyStore_GetAllForAlgorithm ::
  "'f files \<Rightarrow> key_codec \<Rightarrow> string \<Rightarrow> string \<Rightarrow> signing_algorithm \<Rightarrow> 'f \<Rightarrow> key_pair list go" where
  "directoryKeyStore_GetAllForAlgorithm F C path virtualServerName algorithm f =
     (let algPath = directoryKeyStore_getPath path virtualServerName algorithm in
      case os_ReadDir F algPath f of
        Inl e \<Rightarrow> if os_IsNotExist e then Inr [] else Inl (Err (os_err e))
      | Inr entries \<Rightarrow> map_go (listed_key F C algPath algorithm f) (map fst (filter (\<lambda>(_, isDir). \<not> isDir) entries)))"

text \<open>The loop over the supported algorithms, the same for the vault.\<close>

definition GetAll_supported :: "(signing_algorithm \<Rightarrow> key_pair list go) \<Rightarrow> key_pair list go" where
  "GetAll_supported GetAllForAlgorithm = go_bind (map_go GetAllForAlgorithm SupportedSigningAlgorithms) (\<lambda>ks. Inr (concat ks))"

definition directoryKeyStore_GetAll :: "'f files \<Rightarrow> key_codec \<Rightarrow> string \<Rightarrow> string \<Rightarrow> 'f \<Rightarrow> key_pair list go" where
  "directoryKeyStore_GetAll F C path virtualServerName f =
     GetAll_supported (\<lambda>alg. directoryKeyStore_GetAllForAlgorithm F C path virtualServerName alg f)"

definition directoryKeyStore_Get ::
  "'f files \<Rightarrow> key_codec \<Rightarrow> string \<Rightarrow> string \<Rightarrow> signing_algorithm \<Rightarrow> string \<Rightarrow> 'f \<Rightarrow> key_pair option go" where
  "directoryKeyStore_Get F C path virtualServerName algorithm kid f =
     (case os_ReadFile F (filepath_Join [directoryKeyStore_getPath path virtualServerName algorithm, kid]) f of
        Inl e \<Rightarrow> if os_IsNotExist e then Inr None else Inl (Err (Wrap ''reading key'' (os_err e)))
      | Inr privateKeyBytes \<Rightarrow>
          go_bind (wrap ''unmarshaling key pair'' (keyPairJson_Unmarshal privateKeyBytes)) (\<lambda>importedJson.
          go_bind (GetKeyStrategy algorithm) (\<lambda>_.
          go_bind (imported_key C algorithm importedJson) (\<lambda>keyPair. Inr (Some keyPair)))))"

definition NewDirectoryKeyStore :: "'f files \<Rightarrow> key_codec \<Rightarrow> string \<Rightarrow> 'f key_store" where
  "NewDirectoryKeyStore F C path =
     \<lparr>KS_Get = directoryKeyStore_Get F C path, KS_GetAll = directoryKeyStore_GetAll F C path,
      KS_GetAllForAlgorithm = directoryKeyStore_GetAllForAlgorithm F C path, KS_Add = directoryKeyStore_Add F C path,
      KS_Remove = directoryKeyStore_Remove F path,
      KS_RemoveAllForAlgorithm = directoryKeyStore_RemoveAllForAlgorithm F path\<rparr>"

end
