(* ===== verification/KeyDirectory.thy ===== *)
theory KeyDirectory
  imports KeyFiles
begin

text \<open>
  The directory of keys meets the contract of a key store on every file system that does what is documented
  (\<open>files_laws\<close>), so the rotation job does there what it does in memory. A tree of files is such a file system.
\<close>

section \<open>File systems\<close>

datatype file_node = Directory | Content jtext

definition above :: "string \<Rightarrow> string \<Rightarrow> bool" where
  "above q p \<longleftrightarrow> q \<noteq> [] \<and> HasPrefix p (q @ ''/'')"

text \<open>No file stands where a directory is needed on the way to a path.\<close>

definition open_way :: "(string \<Rightarrow> file_node option) \<Rightarrow> string \<Rightarrow> bool" where
  "open_way t p \<longleftrightarrow> (\<forall>q. above q p \<longrightarrow> t q = None \<or> t q = Some Directory)"

text \<open>
  What \<^verbatim>\<open>os\<close> documents, for a disk that does not fail and a process that may read and write: a path is the name of a
  directory, of a file with its content, or of nothing.
\<close>

locale files_laws =
  fixes F :: "'f files"
    and tree :: "'f \<Rightarrow> string \<Rightarrow> file_node option"
  assumes stat_none: "open_way (tree f) p \<Longrightarrow> tree f p = None \<Longrightarrow> \<exists>e. os_Stat F p f = Inl e \<and> os_IsNotExist e"
    and stat_some: "tree f p = Some x \<Longrightarrow> os_Stat F p f = Inr (x = Directory)"
    and mkdir_all: "open_way (tree f) p \<Longrightarrow> tree f p = None \<Longrightarrow> \<exists>f'. os_MkdirAll F p f = (Inr (), f') \<and>
      tree f' = (\<lambda>q. if q = p \<or> above q p then Some Directory else tree f q)"
    and write_file: "tree f d = Some Directory \<Longrightarrow> file_name n \<Longrightarrow> tree f (d @ CHR ''/'' # n) \<noteq> Some Directory \<Longrightarrow>
      \<exists>f'. os_WriteFile F (d @ CHR ''/'' # n) t f = (Inr (), f') \<and> tree f' = (tree f)(d @ CHR ''/'' # n \<mapsto> Content t)"
    and read_none: "open_way (tree f) p \<Longrightarrow> tree f p = None \<Longrightarrow> \<exists>e. os_ReadFile F p f = Inl e \<and> os_IsNotExist e"
    and read_content: "tree f p = Some (Content t) \<Longrightarrow> os_ReadFile F p f = Inr t"
    and remove_content: "tree f p = Some (Content t) \<Longrightarrow>
      \<exists>f'. os_Remove F p f = (Inr (), f') \<and> tree f' = (tree f)(p := None)"
    and remove_tree: "open_way (tree f) p \<Longrightarrow> \<exists>f'. os_RemoveAll F p f = (Inr (), f') \<and>
      tree f' = (\<lambda>q. if q = p \<or> above p q then None else tree f q)"
    and read_dir_none: "open_way (tree f) p \<Longrightarrow> tree f p = None \<Longrightarrow> \<exists>e. os_ReadDir F p f = Inl e \<and> os_IsNotExist e"
    and read_dir: "tree f p = Some Directory \<Longrightarrow> \<exists>entries. os_ReadDir F p f = Inr entries \<and>
      set entries = {(n, x = Directory) | n x. n \<noteq> [] \<and> CHR ''/'' \<notin> set n \<and> tree f (p @ CHR ''/'' # n) = Some x}"

section \<open>The paths of keys\<close>

definition alg_dir :: "string \<Rightarrow> string \<Rightarrow> signing_algorithm \<Rightarrow> string" where
  "alg_dir path vs alg = path_root path @ vs @ CHR ''/'' # alg"

definition key_file :: "string \<Rightarrow> string \<Rightarrow> signing_algorithm \<Rightarrow> string \<Rightarrow> string" where
  "key_file path vs alg kid = alg_dir path vs alg @ CHR ''/'' # kid"

lemma paths_joined:
  assumes "file_name vs" "file_name alg"
  shows "directoryKeyStore_getPath path vs alg = alg_dir path vs alg"
    and "file_name kid \<Longrightarrow> filepath_Join [alg_dir path vs alg, kid] = key_file path vs alg kid"
  using join_two_names(1) [OF assms, of path] join_two_names(2) [OF assms, where p = path and n = kid]
  by (simp_all add: directoryKeyStore_getPath_def alg_dir_def key_file_def del: filepath_Join.simps)

lemma two_names_eq:
  "CHR ''/'' \<notin> set a \<Longrightarrow> CHR ''/'' \<notin> set a' \<Longrightarrow> a @ CHR ''/'' # s = a' @ CHR ''/'' # s' \<longleftrightarrow> a = a' \<and> s = s'"
  using append_sep_eq [of "CHR ''/''" a a' s s'] by auto

lemma alg_dir_eq:
  assumes "file_name vs" "file_name alg" "file_name vs'" "file_name alg'"
  shows "alg_dir path vs alg = alg_dir path vs' alg' \<longleftrightarrow> vs = vs' \<and> alg = alg'"
  using assms by (simp add: alg_dir_def file_nameD two_names_eq)

lemma key_file_eq:
  assumes "file_name vs" "file_name alg" "file_name vs'" "file_name alg'"
  shows "key_file path vs alg kid = key_file path vs' alg' kid' \<longleftrightarrow> vs = vs' \<and> alg = alg' \<and> kid = kid'"
  using assms by (simp add: key_file_def alg_dir_def file_nameD two_names_eq)

text \<open>A key is no directory of keys, and nothing is above such a directory that is below another.\<close>

lemma file_name_slash [simp]: "\<not> file_name (a @ CHR ''/'' # b)"
  by (simp add: file_name_def)

lemma key_file_not_above:
  assumes "file_name vs" "file_name alg" "file_name vs'" "file_name alg'"
  shows "key_file path vs' alg' kid \<noteq> alg_dir path vs alg" "\<not> above (key_file path vs' alg' kid) (alg_dir path vs alg)"
    "\<not> above (alg_dir path vs' alg') (alg_dir path vs alg)"
    "above (alg_dir path vs' alg') (key_file path vs alg kid') \<longleftrightarrow> vs = vs' \<and> alg = alg'"
  using assms
  by (auto simp: key_file_def alg_dir_def above_def HasPrefix_iff file_nameD two_names_eq)

lemma prefix_before_last:
  assumes "c \<notin> set n"
  shows "HasPrefix (d @ c # n) (q @ [c]) \<longleftrightarrow> q = d \<or> HasPrefix d (q @ [c])"
  using assms by (auto simp: HasPrefix_iff append_eq_append_conv2 Cons_eq_append_conv append_eq_Cons_conv)

lemma above_key_file:
  assumes "file_name vs" "file_name alg" "file_name kid"
  shows "above q (key_file path vs alg kid) \<longleftrightarrow> q = alg_dir path vs alg \<or> above q (alg_dir path vs alg)"
  using assms prefix_before_last [of "CHR ''/''" kid "alg_dir path vs alg" q]
  by (auto simp: above_def key_file_def alg_dir_def file_name_def)

lemma slash_free: "open_way t (alg_dir path vs alg) \<Longrightarrow> t (alg_dir path vs alg) \<in> {None, Some Directory} \<Longrightarrow>
    file_name vs \<Longrightarrow> file_name alg \<Longrightarrow> file_name kid \<Longrightarrow> open_way t (key_file path vs alg kid)"
  by (auto simp: open_way_def above_key_file)

section \<open>The keys of a tree\<close>

text \<open>A key pair that can be written and imported as it is, under its own identifier as the name of its file.\<close>

definition exportable :: "key_codec \<Rightarrow> key_pair \<Rightarrow> bool" where
  "exportable C kp \<longleftrightarrow> file_name (kp_kid kp) \<and> kp_algorithm kp \<in> set SupportedSigningAlgorithms \<and>
     (\<exists>text. strategy_Export C (kp_algorithm kp) (kp_privateKey kp) = Inr text \<and>
        strategy_Import C (kp_algorithm kp) text = Inr (kp_privateKey kp, kp_publicKey kp))"

lemma supported_file_name: "alg \<in> set SupportedSigningAlgorithms \<Longrightarrow> file_name alg"
  by (auto simp: SupportedSigningAlgorithms_def SigningAlgorithmRS256_def SigningAlgorithmEdDSA_def file_name_def)

lemma exportable_read:
  assumes "exportable C kp"
  obtains doc dto where "directoryKeyStore_Serialize C kp = Inr doc" "keyPairJson_Unmarshal doc = Inr dto"
    "imported_key C (kp_algorithm kp) dto = Inr kp"
proof -
  obtain enc where enc: "strategy_Export C (kp_algorithm kp) (kp_privateKey kp) = Inr enc"
    "strategy_Import C (kp_algorithm kp) enc = Inr (kp_privateKey kp, kp_publicKey kp)"
    using assms by (auto simp: exportable_def)
  show thesis
    by (rule that [of "keyPairJson_Marshal (key_pair_json_of kp enc)" "key_pair_json_of kp enc"])
      (simp_all add: directoryKeyStore_Serialize_def imported_key_def key_pair_of_def key_pair_json_of_def enc wrap_def)
qed

text \<open>The file of a key.\<close>

definition holds_key :: "key_codec \<Rightarrow> string \<Rightarrow> (string \<Rightarrow> file_node option) \<Rightarrow> string \<Rightarrow> signing_algorithm \<Rightarrow> string \<Rightarrow>
    key_pair \<Rightarrow> bool" where
  "holds_key C path t vs alg kid kp \<longleftrightarrow>
     kp_algorithm kp = alg \<and> kp_kid kp = kid \<and> exportable C kp \<and>
     (\<exists>doc. t (key_file path vs alg kid) = Some (Content doc) \<and> directoryKeyStore_Serialize C kp = Inr doc)"

text \<open>A tree where nothing but keys stands in the directories of keys.\<close>

definition keys_tree :: "key_codec \<Rightarrow> string \<Rightarrow> (string \<Rightarrow> file_node option) \<Rightarrow> bool" where
  "keys_tree C path t \<longleftrightarrow>
     (\<forall>vs alg. file_name vs \<longrightarrow> file_name alg \<longrightarrow>
        open_way t (alg_dir path vs alg) \<and> t (alg_dir path vs alg) \<in> {None, Some Directory} \<and>
        (\<forall>n. n \<noteq> [] \<longrightarrow> CHR ''/'' \<notin> set n \<longrightarrow> t (key_file path vs alg n) \<noteq> None \<longrightarrow>
           t (alg_dir path vs alg) = Some Directory \<and> (\<exists>kp. holds_key C path t vs alg n kp)))"

definition keys_view :: "key_codec \<Rightarrow> string \<Rightarrow> (string \<Rightarrow> file_node option) \<Rightarrow> string \<Rightarrow> signing_algorithm \<Rightarrow> string \<Rightarrow>
    key_pair option" where
  "keys_view C path t vs alg kid =
     (if file_name vs \<and> file_name alg \<and> file_name kid then
        (case t (key_file path vs alg kid) of
           Some (Content doc) \<Rightarrow>
             (case go_bind (keyPairJson_Unmarshal doc) (imported_key C alg) of Inr kp \<Rightarrow> Some kp | Inl _ \<Rightarrow> None)
         | _ \<Rightarrow> None)
      else None)"

lemma keys_treeD:
  assumes "keys_tree C path t" "file_name vs" "file_name alg"
  shows "open_way t (alg_dir path vs alg)" "t (alg_dir path vs alg) = None \<or> t (alg_dir path vs alg) = Some Directory"
    "n \<noteq> [] \<Longrightarrow> CHR ''/'' \<notin> set n \<Longrightarrow> t (key_file path vs alg n) \<noteq> None \<Longrightarrow>
       t (alg_dir path vs alg) = Some Directory \<and> (\<exists>kp. holds_key C path t vs alg n kp)"
  using assms unfolding keys_tree_def by blast+

lemma holds_key_names: "holds_key C path t vs alg kid kp \<Longrightarrow> file_name alg \<and> file_name kid"
  by (auto simp: holds_key_def exportable_def supported_file_name)

lemma holds_key_unique: "holds_key C path t vs alg kid kp \<Longrightarrow> holds_key C path t vs alg kid kp' \<Longrightarrow> kp = kp'"
  by (auto simp: holds_key_def elim!: exportable_read)

lemma keys_view_Some:
  assumes "keys_tree C path t"
  shows "keys_view C path t vs alg kid = Some kp \<longleftrightarrow> file_name vs \<and> holds_key C path t vs alg kid kp"
proof
  assume v: "keys_view C path t vs alg kid = Some kp"
  hence names: "file_name vs" "file_name alg" "file_name kid" "t (key_file path vs alg kid) \<noteq> None"
    by (auto simp: keys_view_def split: if_splits option.splits)
  then obtain kp' where kp': "holds_key C path t vs alg kid kp'"
    using keys_treeD(3) [OF assms] by (metis file_name_def insertCI)
  hence "keys_view C path t vs alg kid = Some kp'"
    using names by (auto simp: keys_view_def holds_key_def elim!: exportable_read)
  with v kp' names show "file_name vs \<and> holds_key C path t vs alg kid kp" by simp
next
  assume "file_name vs \<and> holds_key C path t vs alg kid kp"
  moreover from this have "file_name alg" "file_name kid" using holds_key_names by blast+
  ultimately show "keys_view C path t vs alg kid = Some kp"
    by (auto simp: keys_view_def holds_key_def elim!: exportable_read)
qed

text \<open>Writing the file of a key, and removing one.\<close>

lemma option_eqI: "(\<And>y. a = Some y \<longleftrightarrow> b = Some y) \<Longrightarrow> a = b"
  by (cases a; cases b) auto

lemma keys_tree_add:
  assumes t: "keys_tree C path t" and names: "file_name vs" and kp: "exportable C kp"
    and doc: "directoryKeyStore_Serialize C kp = Inr doc" and alg: "alg = kp_algorithm kp"
    and new: "t' (key_file path vs alg (kp_kid kp)) = Some (Content doc)" "t' (alg_dir path vs alg) = Some Directory"
    and old: "\<And>q. q \<noteq> key_file path vs alg (kp_kid kp) \<Longrightarrow>
      t' q = t q \<or> (q = alg_dir path vs alg \<or> above q (alg_dir path vs alg)) \<and> t' q = Some Directory"
  shows "keys_tree C path t'"
    "keys_view C path t' v a k = (if v = vs \<and> a = kp_algorithm kp \<and> k = kp_kid kp then Some kp else keys_view C path t v a k)"
proof -
  have fa: "file_name alg" and fk: "file_name (kp_kid kp)"
    using kp supported_file_name unfolding alg exportable_def by blast+
  have at: "t' (key_file path v a n) = (if v = vs \<and> a = alg \<and> n = kp_kid kp then Some (Content doc) else t (key_file path v a n))"
    if "file_name v" "file_name a" for v a n
    using that names fa new(1) old [of "key_file path v a n"] by (simp add: key_file_eq key_file_not_above)
  have dir: "t' (alg_dir path v a) = Some Directory \<or> t' (alg_dir path v a) = t (alg_dir path v a)"
    if "file_name v" "file_name a" for v a
    using key_file_not_above(1) [OF that names fa] old [of "alg_dir path v a"] by metis
  have way: "open_way t' (alg_dir path v a)" if "file_name v" "file_name a" for v a
    unfolding open_way_def
  proof (intro allI impI)
    fix q
    assume q: "above q (alg_dir path v a)"
    hence "q \<noteq> key_file path vs alg (kp_kid kp)" using key_file_not_above(2) [OF that names fa] by blast
    from old [OF this] q keys_treeD(1) [OF t that] show "t' q = None \<or> t' q = Some Directory"
      unfolding open_way_def by metis
  qed
  have other: "holds_key C path t' v a n kp' \<longleftrightarrow> holds_key C path t v a n kp'"
    if "file_name v" "\<not> (v = vs \<and> a = alg \<and> n = kp_kid kp)" for v a n kp'
  proof (cases "file_name a")
    case True
    thus ?thesis using at [OF that(1) True, of n] that(2) by (auto simp: holds_key_def)
  qed (auto dest: holds_key_names)
  have own: "holds_key C path t' vs alg (kp_kid kp) kp"
    using new(1) kp doc by (simp add: holds_key_def alg)
  show tree: "keys_tree C path t'"
    unfolding keys_tree_def
  proof (intro allI impI conjI)
    fix v a n
    assume va: "file_name v" "file_name a"
    show "open_way t' (alg_dir path v a)" "t' (alg_dir path v a) \<in> {None, Some Directory}"
      using way [OF va] dir [OF va] keys_treeD(2) [OF t va] by auto
    assume n: "n \<noteq> []" "CHR ''/'' \<notin> set n" "t' (key_file path v a n) \<noteq> None"
    have "t' (alg_dir path v a) = Some Directory \<and> (\<exists>kp'. holds_key C path t' v a n kp')"
    proof (cases "v = vs \<and> a = alg \<and> n = kp_kid kp")
      case True
      thus ?thesis using own new(2) by auto
    next
      case False
      hence "t (key_file path v a n) \<noteq> None" using n(3) unfolding at [OF va] if_not_P [OF False] by blast
      from keys_treeD(3) [OF t va n(1,2) this] show ?thesis using other [OF va(1) False] dir [OF va] by auto
    qed
    thus "t' (alg_dir path v a) = Some Directory" "\<exists>kp'. holds_key C path t' v a n kp'" by blast+
  qed
  show "keys_view C path t' v a k = (if v = vs \<and> a = kp_algorithm kp \<and> k = kp_kid kp then Some kp else keys_view C path t v a k)"
  proof (rule option_eqI)
    fix kp'
    show "keys_view C path t' v a k = Some kp' \<longleftrightarrow>
        (if v = vs \<and> a = kp_algorithm kp \<and> k = kp_kid kp then Some kp else keys_view C path t v a k) = Some kp'"
    proof (cases "v = vs \<and> a = alg \<and> k = kp_kid kp")
      case True
      thus ?thesis using own names holds_key_unique [OF own] by (auto simp: keys_view_Some [OF tree] alg)
    next
      case False
      thus ?thesis using other [of v a k kp'] by (auto simp: keys_view_Some [OF tree] keys_view_Some [OF t] alg)
    qed
  qed
qed

lemma keys_tree_remove:
  assumes t: "keys_tree C path t" and less: "\<And>q. t' q = t q \<or> t' q = None"
    and files: "\<And>v a n. file_name v \<Longrightarrow> file_name a \<Longrightarrow> CHR ''/'' \<notin> set n \<Longrightarrow>
      t' (key_file path v a n) = (if gone v a n then None else t (key_file path v a n))"
    and dirs: "\<And>v a n. file_name v \<Longrightarrow> file_name a \<Longrightarrow> CHR ''/'' \<notin> set n \<Longrightarrow> \<not> gone v a n \<Longrightarrow>
      t' (alg_dir path v a) = t (alg_dir path v a)"
  shows "keys_tree C path t'" "keys_view C path t' v a k = (if gone v a k then None else keys_view C path t v a k)"
proof -
  have keys: "holds_key C path t' v a n kp \<longleftrightarrow> \<not> gone v a n \<and> holds_key C path t v a n kp" if "file_name v" for v a n kp
  proof (cases "file_name a \<and> file_name n")
    case True
    thus ?thesis using files [OF that, of a n] by (auto simp: holds_key_def file_nameD)
  qed (auto dest: holds_key_names)
  show tree: "keys_tree C path t'"
    unfolding keys_tree_def
  proof (intro allI impI conjI)
    fix v a n
    assume va: "file_name v" "file_name a"
    show "open_way t' (alg_dir path v a)"
      using keys_treeD(1) [OF t va] less unfolding open_way_def by metis
    show "t' (alg_dir path v a) \<in> {None, Some Directory}"
      using keys_treeD(2) [OF t va] less [of "alg_dir path v a"] by auto
    assume n: "n \<noteq> []" "CHR ''/'' \<notin> set n" "t' (key_file path v a n) \<noteq> None"
    hence kept: "\<not> gone v a n" "t (key_file path v a n) \<noteq> None" using files [OF va n(2)] by (auto split: if_splits)
    show "t' (alg_dir path v a) = Some Directory" "\<exists>kp. holds_key C path t' v a n kp"
      using keys_treeD(3) [OF t va n(1,2) kept(2)] unfolding dirs [OF va n(2) kept(1)] keys [OF va(1)] using kept(1) by blast+
  qed
  show "keys_view C path t' v a k = (if gone v a k then None else keys_view C path t v a k)"
  proof (rule option_eqI)
    fix kp
    show "keys_view C path t' v a k = Some kp \<longleftrightarrow> (if gone v a k then None else keys_view C path t v a k) = Some kp"
      using keys [of v a k kp] by (simp add: keys_view_Some [OF tree] keys_view_Some [OF t]) blast
  qed
qed

section \<open>The directory meets the contract\<close>

locale key_directory = files_laws F tree for F :: "'f files" and tree +
  fixes C :: key_codec and path :: string
begin

lemma listed_files:
  assumes f: "keys_tree C path (tree f)" "file_name vs" "file_name alg"
    and n: "n \<noteq> []" "CHR ''/'' \<notin> set n" "tree f (key_file path vs alg n) \<noteq> None"
  shows "\<exists>kp. holds_key C path (tree f) vs alg n kp \<and> listed_key F C (alg_dir path vs alg) alg f n = Inr kp"
proof -
  obtain kp where kp: "holds_key C path (tree f) vs alg n kp" using keys_treeD(3) [OF f n] by blast
  hence "exportable C kp" and alg: "alg = kp_algorithm kp" by (simp_all add: holds_key_def)
  then obtain doc dto where doc: "directoryKeyStore_Serialize C kp = Inr doc" "keyPairJson_Unmarshal doc = Inr dto"
    "imported_key C alg dto = Inr kp" by (auto elim: exportable_read)
  with kp have "tree f (key_file path vs alg n) = Some (Content doc)" by (auto simp: holds_key_def)
  from read_content [OF this] have "os_ReadFile F (filepath_Join [alg_dir path vs alg, n]) f = Inr doc"
    using paths_joined(2) [OF f(2,3)] holds_key_names [OF kp] by simp
  moreover obtain g where "GetKeyStrategy alg = Inr g"
    using \<open>exportable C kp\<close> GetKeyStrategy_known [of alg] by (auto simp: alg exportable_def)
  ultimately have "listed_key F C (alg_dir path vs alg) alg f n = Inr kp"
    by (simp add: listed_key_def doc wrap_def)
  thus ?thesis using kp by blast
qed

lemma directory_list:
  assumes f: "keys_tree C path (tree f)" "file_name vs" "file_name alg"
  shows "\<exists>kps. directoryKeyStore_GetAllForAlgorithm F C path vs alg f = Inr kps \<and>
    set kps = {kp. \<exists>kid. keys_view C path (tree f) vs alg kid = Some kp}"
proof (cases "tree f (alg_dir path vs alg) = None")
  case True
  moreover have "\<not> holds_key C path (tree f) vs alg kid kp" for kid kp
    using keys_treeD(3) [OF f, of kid] True holds_key_names [of C path "tree f" vs alg kid kp]
    by (auto simp: holds_key_def file_name_def)
  ultimately show ?thesis
    using read_dir_none [OF keys_treeD(1) [OF f]]
    by (auto simp: directoryKeyStore_GetAllForAlgorithm_def paths_joined(1) [OF f(2,3)] keys_view_Some [OF f(1)])
next
  case False
  with keys_treeD(2) [OF f] have dir: "tree f (alg_dir path vs alg) = Some Directory" by simp
  let ?files = "{n. n \<noteq> [] \<and> CHR ''/'' \<notin> set n \<and> tree f (key_file path vs alg n) \<noteq> None}"
  obtain entries where entries: "os_ReadDir F (alg_dir path vs alg) f = Inr entries"
    "set entries = {(n, x = Directory) | n x. n \<noteq> [] \<and> CHR ''/'' \<notin> set n \<and> tree f (key_file path vs alg n) = Some x}"
    using read_dir [OF dir] unfolding key_file_def by blast
  let ?names = "map fst (filter (\<lambda>(_, isDir). \<not> isDir) entries)"
  have "x \<noteq> Directory" if "n \<noteq> []" "CHR ''/'' \<notin> set n" "tree f (key_file path vs alg n) = Some x" for n x
    using keys_treeD(3) [OF f that(1,2)] that(3) by (auto simp: holds_key_def)
  hence names: "set ?names = ?files"
    by (auto simp: entries(2) image_iff)
  define key where "key n = projr (listed_key F C (alg_dir path vs alg) alg f n)" for n
  have key: "holds_key C path (tree f) vs alg n (key n)" "listed_key F C (alg_dir path vs alg) alg f n = Inr (key n)"
    if "n \<in> ?files" for n
    using listed_files [OF f, of n] that unfolding key_def by fastforce+
  have "directoryKeyStore_GetAllForAlgorithm F C path vs alg f = Inr (map key ?names)"
    using map_go_pure [of ?names "listed_key F C (alg_dir path vs alg) alg f" key] key(2) names
    by (simp add: directoryKeyStore_GetAllForAlgorithm_def paths_joined(1) [OF f(2,3)] entries(1))
  moreover have "set (map key ?names) = {kp. \<exists>kid. keys_view C path (tree f) vs alg kid = Some kp}"
  proof -
    have "kp \<in> key ` ?files \<longleftrightarrow> (\<exists>kid. holds_key C path (tree f) vs alg kid kp)" for kp
    proof
      assume "\<exists>kid. holds_key C path (tree f) vs alg kid kp"
      then obtain kid where kid: "holds_key C path (tree f) vs alg kid kp" by blast
      hence "kid \<in> ?files" using holds_key_names [OF kid] by (auto simp: holds_key_def file_name_def)
      with key(1) [OF this] holds_key_unique [OF kid] show "kp \<in> key ` ?files" by blast
    qed (use key(1) in blast)
    thus ?thesis unfolding set_map names [unfolded set_map] keys_view_Some [OF f(1)] using f(2) by blast
  qed
  ultimately show ?thesis by blast
qed

lemma directory_all:
  assumes f: "keys_tree C path (tree f)" "file_name vs"
  shows "\<exists>kps. directoryKeyStore_GetAll F C path vs f = Inr kps \<and>
    set kps = {kp. \<exists>alg kid. keys_view C path (tree f) vs alg kid = Some kp}"
proof -
  have "\<forall>alg \<in> set SupportedSigningAlgorithms. \<exists>kps. directoryKeyStore_GetAllForAlgorithm F C path vs alg f = Inr kps \<and>
      set kps = {kp. \<exists>kid. keys_view C path (tree f) vs alg kid = Some kp}"
    using directory_list [OF f] supported_file_name by blast
  then obtain ks where ks: "\<forall>alg \<in> set SupportedSigningAlgorithms.
      directoryKeyStore_GetAllForAlgorithm F C path vs alg f = Inr (ks alg) \<and>
      set (ks alg) = {kp. \<exists>kid. keys_view C path (tree f) vs alg kid = Some kp}"
    by metis
  have supported: "alg \<in> set SupportedSigningAlgorithms" if "keys_view C path (tree f) vs alg kid = Some kp" for alg kid kp
    using that by (auto simp: keys_view_Some [OF f(1)] holds_key_def exportable_def)
  have "directoryKeyStore_GetAll F C path vs f = Inr (concat (map ks SupportedSigningAlgorithms))"
    using map_go_pure [of SupportedSigningAlgorithms _ ks] ks by (simp add: directoryKeyStore_GetAll_def GetAll_supported_def)
  moreover have "set (concat (map ks SupportedSigningAlgorithms)) = {kp. \<exists>alg kid. keys_view C path (tree f) vs alg kid = Some kp}"
  proof -
    have "set (concat (map ks SupportedSigningAlgorithms)) =
        (\<Union>alg \<in> set SupportedSigningAlgorithms. {kp. \<exists>kid. keys_view C path (tree f) vs alg kid = Some kp})"
      using ks by simp
    also have "\<dots> = {kp. \<exists>alg kid. keys_view C path (tree f) vs alg kid = Some kp}" using supported by blast
    finally show ?thesis .
  qed
  ultimately show ?thesis by blast
qed

lemma directory_get:
  assumes f: "keys_tree C path (tree f)" and names: "file_name vs" "file_name alg" "file_name kid"
  shows "directoryKeyStore_Get F C path vs alg kid f = Inr (keys_view C path (tree f) vs alg kid)"
proof (cases "tree f (key_file path vs alg kid)")
  case None
  have "open_way (tree f) (key_file path vs alg kid)"
    using keys_treeD(1,2) [OF f names(1,2)] names by (intro slash_free) auto
  from read_none [OF this None] show ?thesis
    using None names by (auto simp: directoryKeyStore_Get_def paths_joined [OF names(1,2)] keys_view_def)
next
  case (Some x)
  then obtain kp where kp: "holds_key C path (tree f) vs alg kid kp"
    using keys_treeD(3) [OF f names(1,2), of kid] names(3) by (auto simp: file_name_def)
  hence "exportable C kp" and alg: "alg = kp_algorithm kp" by (simp_all add: holds_key_def)
  then obtain doc dto where doc: "directoryKeyStore_Serialize C kp = Inr doc" "keyPairJson_Unmarshal doc = Inr dto"
    "imported_key C alg dto = Inr kp" by (auto elim: exportable_read)
  with kp have "tree f (key_file path vs alg kid) = Some (Content doc)" by (auto simp: holds_key_def)
  moreover obtain g where "GetKeyStrategy alg = Inr g"
    using \<open>exportable C kp\<close> GetKeyStrategy_known [of alg] by (auto simp: alg exportable_def)
  moreover have "keys_view C path (tree f) vs alg kid = Some kp" using kp names(1) by (simp add: keys_view_Some [OF f])
  ultimately show ?thesis
    using read_content doc by (simp add: directoryKeyStore_Get_def paths_joined [OF names(1,2)] names(3) wrap_def)
qed

lemma directory_write:
  assumes f: "keys_tree C path (tree f)" and names: "file_name vs" and kp: "exportable C kp"
    and dir: "tree g (alg_dir path vs (kp_algorithm kp)) = Some Directory"
    and old: "\<And>q. tree g q = tree f q \<or>
      (q = alg_dir path vs (kp_algorithm kp) \<or> above q (alg_dir path vs (kp_algorithm kp))) \<and> tree g q = Some Directory"
  shows "\<exists>f'. write_key F C (alg_dir path vs (kp_algorithm kp)) kp g = (Inr (), f') \<and> keys_tree C path (tree f') \<and>
    (\<forall>v a k. keys_view C path (tree f') v a k =
      (if v = vs \<and> a = kp_algorithm kp \<and> k = kp_kid kp then Some kp else keys_view C path (tree f) v a k))"
proof -
  let ?d = "alg_dir path vs (kp_algorithm kp)" and ?k = "key_file path vs (kp_algorithm kp) (kp_kid kp)"
  have fk: "file_name (kp_kid kp)" and fa: "file_name (kp_algorithm kp)"
    using kp supported_file_name unfolding exportable_def by blast+
  obtain doc dto where doc: "directoryKeyStore_Serialize C kp = Inr doc" using kp by (rule exportable_read)
  have "tree g ?k = tree f ?k" using old [of ?k] key_file_not_above [OF names fa names fa] by blast
  moreover have "tree f ?k \<noteq> Some Directory"
    using keys_treeD(3) [OF f names fa, of "kp_kid kp"] fk by (auto simp: holds_key_def file_name_def)
  ultimately obtain f' where f': "os_WriteFile F ?k doc g = (Inr (), f')" "tree f' = (tree g)(?k \<mapsto> Content doc)"
    using write_file [of g ?d "kp_kid kp" doc] dir fk by (auto simp: key_file_def)
  have new: "tree f' ?k = Some (Content doc)" "tree f' ?d = Some Directory"
    using dir key_file_not_above(1) [OF names fa names fa] by (simp_all add: f'(2)) (metis)
  have "tree f' q = tree f q \<or> (q = ?d \<or> above q ?d) \<and> tree f' q = Some Directory" if "q \<noteq> ?k" for q
    using old [of q] that by (simp add: f'(2))
  note keys_tree_add [OF f names kp doc refl new this]
  hence "keys_tree C path (tree f')" "\<forall>v a k. keys_view C path (tree f') v a k =
      (if v = vs \<and> a = kp_algorithm kp \<and> k = kp_kid kp then Some kp else keys_view C path (tree f) v a k)" by blast+
  moreover have "write_key F C ?d kp g = (Inr (), f')"
    using paths_joined(2) [OF names fa fk] by (simp add: write_key_def doc wrap_def f'(1))
  ultimately show ?thesis by blast
qed

lemma directory_add:
  assumes f: "keys_tree C path (tree f)" and names: "file_name vs" and kp: "exportable C kp"
  shows "\<exists>f'. directoryKeyStore_Add F C path vs kp f = (Inr (), f') \<and> keys_tree C path (tree f') \<and>
    (\<forall>v a k. keys_view C path (tree f') v a k =
      (if v = vs \<and> a = kp_algorithm kp \<and> k = kp_kid kp then Some kp else keys_view C path (tree f) v a k))"
proof -
  let ?d = "alg_dir path vs (kp_algorithm kp)"
  have fa: "file_name (kp_algorithm kp)" using kp supported_file_name unfolding exportable_def by blast
  note way = keys_treeD(1) [OF f names fa] and path = paths_joined(1) [OF names fa]
  show ?thesis
  proof (cases "tree f ?d = None")
    case True
    obtain e where e: "os_Stat F ?d f = Inl e" "os_IsNotExist e" using stat_none [OF way True] by blast
    obtain g where g: "os_MkdirAll F ?d f = (Inr (), g)"
      "tree g = (\<lambda>q. if q = ?d \<or> above q ?d then Some Directory else tree f q)" using mkdir_all [OF way True] by blast
    have "directoryKeyStore_Add F C path vs kp f = write_key F C ?d kp g"
      by (simp add: directoryKeyStore_Add_def path Let_def e g(1))
    with directory_write [OF f names kp, of g] g(2) show ?thesis by simp
  next
    case False
    with keys_treeD(2) [OF f names fa] have dir: "tree f ?d = Some Directory" by simp
    hence add: "directoryKeyStore_Add F C path vs kp f = write_key F C ?d kp f"
      using stat_some [OF dir] by (simp add: directoryKeyStore_Add_def path Let_def)
    from directory_write [OF f names kp, of f] dir add show ?thesis by simp
  qed
qed

lemma directory_remove:
  assumes f: "keys_tree C path (tree f)" and names: "file_name vs" "file_name alg" "file_name kid"
  shows "\<exists>f'. directoryKeyStore_Remove F path vs alg kid f = (Inr (), f') \<and> keys_tree C path (tree f') \<and>
    (\<forall>v a k. keys_view C path (tree f') v a k = (if v = vs \<and> a = alg \<and> k = kid then None else keys_view C path (tree f) v a k))"
proof -
  let ?k = "key_file path vs alg kid"
  note paths = paths_joined(1) [OF names(1,2)] paths_joined(2) [OF names]
  have "\<exists>f'. directoryKeyStore_Remove F path vs alg kid f = (Inr (), f') \<and> tree f' = (tree f)(?k := None)"
  proof (cases "tree f ?k")
    case None
    have "open_way (tree f) ?k" using keys_treeD(1,2) [OF f names(1,2)] names by (intro slash_free) auto
    from stat_none [OF this None] None show ?thesis
      by (auto simp: directoryKeyStore_Remove_def paths Let_def fun_upd_idem)
  next
    case (Some x)
    then obtain kp where "holds_key C path (tree f) vs alg kid kp"
      using keys_treeD(3) [OF f names(1,2), of kid] names(3) by (auto simp: file_name_def)
    then obtain doc where doc: "tree f ?k = Some (Content doc)" by (auto simp: holds_key_def)
    from remove_content [OF this] stat_some [OF this] show ?thesis
      by (auto simp: directoryKeyStore_Remove_def paths Let_def)
  qed
  then obtain f' where f': "directoryKeyStore_Remove F path vs alg kid f = (Inr (), f')" "tree f' = (tree f)(?k := None)"
    by blast
  have less: "tree f' q = tree f q \<or> tree f' q = None" for q by (simp add: f'(2))
  have files: "tree f' (key_file path v a n) = (if v = vs \<and> a = alg \<and> n = kid then None else tree f (key_file path v a n))"
    if "file_name v" "file_name a" for v a n
    using that names by (simp add: f'(2) key_file_eq)
  have dirs: "tree f' (alg_dir path v a) = tree f (alg_dir path v a)" if "file_name v" "file_name a" for v a
    using key_file_not_above(1) [OF that names(1,2), of path kid] by (simp add: f'(2))
  note keys_tree_remove [OF f less, of "\<lambda>v a k. v = vs \<and> a = alg \<and> k = kid", OF files dirs]
  with f'(1) show ?thesis by simp
qed

lemma directory_remove_all:
  assumes f: "keys_tree C path (tree f)" and names: "file_name vs" "file_name alg"
  shows "\<exists>f'. directoryKeyStore_RemoveAllForAlgorithm F path vs alg f = (Inr (), f') \<and> keys_tree C path (tree f') \<and>
    (\<forall>v a k. keys_view C path (tree f') v a k = (if v = vs \<and> a = alg then None else keys_view C path (tree f) v a k))"
proof -
  let ?d = "alg_dir path vs alg"
  obtain f' where f': "os_RemoveAll F ?d f = (Inr (), f')" "tree f' = (\<lambda>q. if q = ?d \<or> above ?d q then None else tree f q)"
    using remove_tree [OF keys_treeD(1) [OF f names]] by blast
  have less: "tree f' q = tree f q \<or> tree f' q = None" for q by (simp add: f'(2))
  have files: "tree f' (key_file path v a n) = (if v = vs \<and> a = alg then None else tree f (key_file path v a n))"
    if "file_name v" "file_name a" for v a n
    using that names key_file_not_above(1) [OF names that, of path n] key_file_not_above(4) [OF that names, of path n]
    by (auto simp: f'(2))
  have dirs: "tree f' (alg_dir path v a) = tree f (alg_dir path v a)"
    if "file_name v" "file_name a" "\<not> (v = vs \<and> a = alg)" for v a
    using that(3) key_file_not_above(3) [OF that(1,2) names, of path] alg_dir_eq [OF that(1,2) names, of path]
    by (auto simp: f'(2))
  note keys_tree_remove [OF f less, of "\<lambda>v a k. v = vs \<and> a = alg", OF files dirs]
  moreover have "directoryKeyStore_RemoveAllForAlgorithm F path vs alg f = (Inr (), f')"
    by (simp add: directoryKeyStore_RemoveAllForAlgorithm_def paths_joined(1) [OF names] f'(1))
  ultimately show ?thesis by simp
qed

end

lemma NewDirectoryKeyStore_simps [simp]:
  "KS_Get (NewDirectoryKeyStore F C path) = directoryKeyStore_Get F C path"
  "KS_GetAll (NewDirectoryKeyStore F C path) = directoryKeyStore_GetAll F C path"
  "KS_GetAllForAlgorithm (NewDirectoryKeyStore F C path) = directoryKeyStore_GetAllForAlgorithm F C path"
  "KS_Add (NewDirectoryKeyStore F C path) = directoryKeyStore_Add F C path"
  "KS_Remove (NewDirectoryKeyStore F C path) = directoryKeyStore_Remove F path"
  "KS_RemoveAllForAlgorithm (NewDirectoryKeyStore F C path) = directoryKeyStore_RemoveAllForAlgorithm F path"
  by (simp_all add: NewDirectoryKeyStore_def)

lemma holds_key_own: "holds_key C path t vs alg kid kp \<Longrightarrow> kp_algorithm kp = alg \<and> kp_kid kp = kid"
  by (simp add: holds_key_def)

sublocale key_directory \<subseteq> directory:
  key_store_laws "NewDirectoryKeyStore F C path" "\<lambda>f. keys_view C path (tree f)" "\<lambda>f. keys_tree C path (tree f)"
    file_name file_name "exportable C"
  by unfold_locales
    (simp_all add: directory_get directory_all directory_list directory_add directory_remove directory_remove_all,
      auto simp: keys_view_Some dest: holds_key_names holds_key_own)

text \<open>The rotation job on the directory, with the conditions of the contract written out.\<close>

context key_directory
begin

lemma rotation:
  assumes "fresh_keys (exportable C) E" "keys_tree C path (tree f)" "distinct (map vs_name servers)"
    and listed: "VirtualServerRepository_List (st_VirtualServers st) NewVirtualServerFilter = Inr servers"
    and fine: "\<forall>server \<in> set servers. file_name (vs_name server) \<and>
      set (VirtualServer_AllSigningAlgorithms server) \<subseteq> set SupportedSigningAlgorithms \<and>
      (\<forall>a k kp. keys_view C path (tree f) (vs_name server) a k = Some kp \<longrightarrow> kp_rotatesAt kp \<le> kp_expiresAt kp)"
  shows "\<exists>n' f'. KeyRotateJob E (NewDirectoryKeyStore F C path) now st n f = (Inr (), n', f') \<and>
    keys_tree C path (tree f') \<and>
    (\<forall>server \<in> set servers.
       (\<forall>a \<in> set (VirtualServer_AllSigningAlgorithms server).
          \<exists>k kp. keys_view C path (tree f') (vs_name server) a k = Some kp \<and> now < kp_rotatesAt kp) \<and>
       (\<forall>a k kp. keys_view C path (tree f') (vs_name server) a k = Some kp \<longrightarrow> now \<le> kp_expiresAt kp)) \<and>
    (\<forall>v. v \<notin> vs_name ` set servers \<longrightarrow> keys_view C path (tree f') v = keys_view C path (tree f) v)"
proof -
  have "a \<in> set SupportedSigningAlgorithms" if "keys_view C path (tree f) vs a k = Some kp" for vs a k kp
    using that by (auto simp: keys_view_Some [OF assms(2)] holds_key_def exportable_def)
  hence "\<forall>server \<in> set servers. directory.rotatable f server"
    using fine unfolding directory.rotatable_def by blast
  from directory.rotate_all_view [OF assms(1,2) this assms(3), of now n] show ?thesis
    unfolding KeyRotateJob_def listed directory.keys_ok_def by auto
qed

end

section \<open>A tree of files\<close>

type_synonym file_tree = "(string \<times> file_node) list"

definition not_exist :: "os_error + 'a" where
  "not_exist = Inl (OsError True (ErrorsNew ''no such file or directory''))"

definition is_dir :: "os_error + 'a" where
  "is_dir = Inl (OsError False (ErrorsNew ''is a directory''))"

definition parents :: "string \<Rightarrow> string list" where
  "parents p = map (\<lambda>n. take n p) (filter (\<lambda>n. p ! n = CHR ''/'') [1..<length p])"

lemma set_parents: "set (parents p) = {q. above q p}"
proof (intro set_eqI iffI)
  fix q
  assume "q \<in> set (parents p)"
  then obtain n where "n \<in> {1..<length p}" and p: "p ! n = CHR ''/''" "q = take n p"
    unfolding parents_def set_map set_filter set_upt by blast
  hence n: "0 < n" "n < length p" by simp_all
  hence "p = q @ CHR ''/'' # drop (Suc n) p" using p id_take_nth_drop [of n p] by simp
  thus "q \<in> {q. above q p}" using n p(2) by (auto simp: above_def HasPrefix_iff)
next
  fix q
  assume "q \<in> {q. above q p}"
  then obtain r where r: "q \<noteq> []" "p = q @ CHR ''/'' # r" by (auto simp: above_def HasPrefix_iff)
  have "length q \<in> {1..<length p}" using r by (simp add: Suc_le_eq)
  moreover have "p ! length q = CHR ''/''" "take (length q) p = q" using r(2) by simp_all
  ultimately show "q \<in> set (parents p)"
    unfolding parents_def set_map set_filter set_upt by (intro image_eqI [of _ _ "length q"]) simp_all
qed

text \<open>The names in a directory.\<close>

definition tree_names :: "string \<Rightarrow> file_tree \<Rightarrow> string list" where
  "tree_names p f =
     filter (\<lambda>n. n \<noteq> [] \<and> CHR ''/'' \<notin> set n)
       (map (drop (Suc (length p))) (filter (\<lambda>q. HasPrefix q (p @ ''/'')) (map fst f)))"

lemma set_tree_names:
  "n \<in> set (tree_names p f) \<longleftrightarrow> n \<noteq> [] \<and> CHR ''/'' \<notin> set n \<and> map_of f (p @ CHR ''/'' # n) \<noteq> None"
proof -
  have "n \<in> drop (Suc (length p)) ` {q \<in> fst ` set f. HasPrefix q (p @ ''/'')} \<longleftrightarrow> p @ CHR ''/'' # n \<in> fst ` set f"
    (is "_ \<in> _ ` ?Q \<longleftrightarrow> _")
  proof
    assume "p @ CHR ''/'' # n \<in> fst ` set f"
    hence "p @ CHR ''/'' # n \<in> ?Q" by (auto simp: HasPrefix_iff)
    moreover have "n = drop (Suc (length p)) (p @ CHR ''/'' # n)" by simp
    ultimately show "n \<in> drop (Suc (length p)) ` ?Q" by blast
  qed (auto simp: HasPrefix_iff intro: rev_image_eqI)
  thus ?thesis by (auto simp: tree_names_def map_of_eq_None_iff)
qed

definition tree_files :: "file_tree files" where
  "tree_files =
     \<lparr>os_Stat = (\<lambda>p f. case map_of f p of None \<Rightarrow> not_exist | Some x \<Rightarrow> Inr (x = Directory)),
      os_MkdirAll = (\<lambda>p f. (Inr (), map (\<lambda>q. (q, Directory)) (p # parents p) @ f)),
      os_WriteFile = (\<lambda>p t f. (Inr (), (p, Content t) # f)),
      os_ReadFile = (\<lambda>p f. case map_of f p of None \<Rightarrow> not_exist | Some Directory \<Rightarrow> is_dir | Some (Content t) \<Rightarrow> Inr t),
      os_Remove = (\<lambda>p f. (Inr (), filter (\<lambda>(q, _). q \<noteq> p) f)),
      os_RemoveAll = (\<lambda>p f. (Inr (), filter (\<lambda>(q, _). \<not> (q = p \<or> above p q)) f)),
      os_ReadDir = (\<lambda>p f. case map_of f p of None \<Rightarrow> not_exist | Some (Content t) \<Rightarrow> is_dir
        | Some Directory \<Rightarrow> Inr (map (\<lambda>n. (n, map_of f (p @ CHR ''/'' # n) = Some Directory)) (tree_names p f)))\<rparr>"

lemma map_of_directories: "map_of (map (\<lambda>q. (q, Directory)) qs) q = (if q \<in> set qs then Some Directory else None)"
  by (induction qs) auto

lemma map_of_kept: "map_of (filter (\<lambda>(q, _). P q) f) = (\<lambda>q. if P q then map_of f q else None)"
  by (simp add: map_of_filter_keys fun_eq_iff)

lemma tree_entries:
  "set (map (\<lambda>n. (n, map_of f (p @ CHR ''/'' # n) = Some Directory)) (tree_names p f)) =
   {(n, x = Directory) | n x. n \<noteq> [] \<and> CHR ''/'' \<notin> set n \<and> map_of f (p @ CHR ''/'' # n) = Some x}"
  unfolding set_map by (auto simp: set_tree_names image_iff)

interpretation disk: key_directory tree_files map_of C path for C path
proof unfold_locales
  fix f :: file_tree and p
  show "map_of f p = Some Directory \<Longrightarrow> \<exists>entries. os_ReadDir tree_files p f = Inr entries \<and>
      set entries = {(n, x = Directory) | n x. n \<noteq> [] \<and> CHR ''/'' \<notin> set n \<and> map_of f (p @ CHR ''/'' # n) = Some x}"
    by (simp add: tree_files_def tree_entries del: set_map)
qed (auto simp: tree_files_def not_exist_def map_of_kept map_of_directories set_parents map_add_def fun_eq_iff
      split: option.splits file_node.splits)

end
