(* ===== verification/Sessions.thy ===== *)
theory Sessions
  imports Json_Types
begin

text \<open>
  Sessions: the session service with its cache (\<^verbatim>\<open>internal/services/sessions.go\<close>), the
  middleware that turns a cookie into the current session, and the functions that create
  and delete sessions (\<^verbatim>\<open>internal/middlewares/SessionMiddleware.go\<close>,
  \<^verbatim>\<open>SessionService.go\<close>), and the handlers of \<^verbatim>\<open>internal/handlers/sessions.go\<close>.
\<close>

section \<open>The session service\<close>

record mw_session =
  mw_userId :: uuid
  mw_hashedSecret :: string
  mw_createdAt :: time

definition middlewares_NewSession :: "uuid \<Rightarrow> string \<Rightarrow> time \<Rightarrow> mw_session" where
  "middlewares_NewSession userId hashedSecret createdAt =
     \<lparr>mw_userId = userId, mw_hashedSecret = hashedSecret, mw_createdAt = createdAt\<rparr>"

definition sessionTokenValue_json :: "env \<Rightarrow> uuid \<Rightarrow> string \<Rightarrow> json" where
  "sessionTokenValue_json E userId hashedSecret =
     JObj [(''userId'', JStr (e_uuid_String E userId)), (''hashedSecret'', JStr hashedSecret)]"

definition sessionTokenValue_decode :: "env \<Rightarrow> jtext \<Rightarrow> (uuid \<times> string) go" where
  "sessionTokenValue_decode E t =
     go_bind (json_Unmarshal t) (\<lambda>j. go_bind (as_object j) (\<lambda>ms.
     go_bind (get_uuid E ''userId'' ms) (\<lambda>userId.
     go_bind (get_string ''hashedSecret'' ms) (\<lambda>secret. Inr (userId, secret)))))"

lemma sessionTokenValue_decode_json [simp, codec_simps]:
  "uuid_ok E \<Longrightarrow> sessionTokenValue_decode E (Doc (sessionTokenValue_json E u s)) = Inr (u, s)"
  by (simp add: sessionTokenValue_decode_def sessionTokenValue_json_def get_defs)

definition getCacheKey :: "env \<Rightarrow> string \<Rightarrow> uuid \<Rightarrow> string" where
  "getCacheKey E virtualServerName sessionId =
     ''session:'' @ virtualServerName @ '':'' @ e_uuid_String E sessionId"

definition vs_by_name :: "string \<Rightarrow> virtual_server act" where
  "vs_by_name name = db_read (\<lambda>st.
     VirtualServerRepository_FirstOrErr (st_VirtualServers st) (VirtualServerFilter_Name name NewVirtualServerFilter))"

definition SessionService_NewSession :: "env \<Rightarrow> string \<Rightarrow> uuid \<Rightarrow> split_token act" where
  "SessionService_NewSession E vsName userId =
     bnd (wrapped ''getting virtual server'' (vs_by_name vsName)) (\<lambda>virtualServer.
     bnd get_now (\<lambda>now.
     bnd (uuid_New E) (\<lambda>i.
     bnd (GetSecureRandomBytes E 16) (\<lambda>secretBytes.
       let session = NewSession i now (bm_id (vs_base virtualServer)) userId (now + Hour * 24 * 30);
           (token, session) = Session_GenerateToken secretBytes session
       in bnd (db_write (SessionRepository_Insert session)) (\<lambda>_.
            ret (NewSplitToken (e_uuid_String E (bm_id (se_base session))) token))))))"

definition loadSessionFromDatabase :: "string \<Rightarrow> uuid \<Rightarrow> mw_session option act" where
  "loadSessionFromDatabase vsName i =
     bnd (wrapped ''getting virtual server'' (vs_by_name vsName)) (\<lambda>virtualServer.
     bnd (wrapped ''getting session from db'' (db_read (\<lambda>st.
            SessionRepository_FirstOrNil (st_Sessions st)
              (SessionFilter_Id i (SessionFilter_VirtualServerId (bm_id (vs_base virtualServer)) NewSessionFilter)))))
       (\<lambda>dbSession.
         case dbSession of
           None \<Rightarrow> ret None
         | Some s \<Rightarrow> bnd get_now (\<lambda>now. ret (Some (middlewares_NewSession (se_userId s) (se_hashedToken s) now)))))"

definition SessionService_GetSession :: "env \<Rightarrow> string \<Rightarrow> uuid \<Rightarrow> mw_session option act" where
  "SessionService_GetSession E vsName i =
     bnd (catch (kv_get (getCacheKey E vsName i))) (\<lambda>r.
       case r of
         Inl e \<Rightarrow>
           if errors_Is e ErrKvNotFound then
             bnd (wrapped ''loading session from db'' (loadSessionFromDatabase vsName i)) (\<lambda>dbSession.
               case dbSession of
                 None \<Rightarrow> ret None
               | Some s \<Rightarrow>
                   bnd (wrapped ''marshalling session''
                          (lift (json_Marshal (sessionTokenValue_json E (mw_userId s) (mw_hashedSecret s)))))
                     (\<lambda>valueBytes.
                   bnd (wrapped ''storing session token in kv''
                          (kv_set (getCacheKey E vsName i) valueBytes [WithExpiration (Minute * 15)]))
                     (\<lambda>_.
                   bnd get_now (\<lambda>now.
                     ret (Some (middlewares_NewSession (mw_userId s) (mw_hashedSecret s) now))))))
           else err (Wrap ''getting session from cache'' e)
       | Inr sessionValue \<Rightarrow>
           bnd (wrapped ''decoding token from cache'' (lift (sessionTokenValue_decode E sessionValue)))
             (\<lambda>(userId, hashedSecret).
           bnd get_now (\<lambda>now. ret (Some (middlewares_NewSession userId hashedSecret now)))))"

definition SessionService_DeleteSession :: "env \<Rightarrow> string \<Rightarrow> uuid \<Rightarrow> unit act" where
  "SessionService_DeleteSession E vsName i =
     bnd (wrapped ''getting virtual server'' (vs_by_name vsName)) (\<lambda>virtualServer.
     bnd (wrapped ''getting session from db'' (db_read (\<lambda>st.
            SessionRepository_FirstOrNil (st_Sessions st) (SessionFilter_Id i NewSessionFilter))))
       (\<lambda>dbSession.
         case dbSession of
           None \<Rightarrow> ret ()
         | Some s \<Rightarrow>
             if se_virtualServerId s \<noteq> bm_id (vs_base virtualServer)
             then err (ErrorsNew ''session does not belong to virtual server'')
             else
               bnd (wrapped ''deleting session token from kv'' (kv_delete (getCacheKey E vsName i))) (\<lambda>_.
               db_write (SessionRepository_Delete i))))"

section \<open>The session middleware\<close>

record current_session =
  cs_userId :: uuid
  cs_sessionId :: uuid
  cs_createdAt :: time

definition GetSessionCookieName :: "string \<Rightarrow> string" where
  "GetSessionCookieName realmName = ''keylineSession_'' @ realmName"

text \<open>
  The middleware: the cookie of the virtual server, if the request has one, and the rest of
  the handler chain, which gets the current session, if the cookie proves one.
\<close>

definition SessionMiddleware ::
  "env \<Rightarrow> string \<Rightarrow> string option \<Rightarrow> (current_session option \<Rightarrow> unit act) \<Rightarrow> unit act" where
  "SessionMiddleware E vsName cookie next_ServeHTTP =
     (if vsName = [] then HandleHttpError (Wrap ''getting virtual server name'' (Named ErrMissingVirtualServerNameInContext))
      else case cookie of
        None \<Rightarrow> next_ServeHTTP None
      | Some cookieValue \<Rightarrow>
          or_http (wrapped ''decoding split token'' (lift (DecodeSplitToken cookieValue))) (\<lambda>token.
          or_http (wrapped ''decoding token id'' (lift (uuid_Parse E (st_id token)))) (\<lambda>tokenId.
          or_http (wrapped ''getting session'' (SessionService_GetSession E vsName tokenId)) (\<lambda>session.
            case session of
              None \<Rightarrow> next_ServeHTTP None
            | Some s \<Rightarrow>
                if CheapCompareHash (st_secret token) (mw_hashedSecret s)
                then next_ServeHTTP (Some \<lparr>cs_userId = mw_userId s, cs_sessionId = tokenId, cs_createdAt = mw_createdAt s\<rparr>)
                else next_ServeHTTP None))))"

definition middlewares_DeleteSession :: "env \<Rightarrow> current_session option \<Rightarrow> string \<Rightarrow> unit act" where
  "middlewares_DeleteSession E current vsName =
     (case current of
        None \<Rightarrow> ret ()
      | Some s \<Rightarrow>
          bnd (wrapped ''deleting session'' (SessionService_DeleteSession E vsName (cs_sessionId s))) (\<lambda>_.
          emit (SetCookie (GetSessionCookieName vsName) [] (-1))))"

definition CreateSession :: "env \<Rightarrow> string \<Rightarrow> uuid \<Rightarrow> unit act" where
  "CreateSession E vsName userId =
     bnd (wrapped ''creating session'' (SessionService_NewSession E vsName userId)) (\<lambda>sessionToken.
     emit (SetCookie (GetSessionCookieName vsName) (SplitToken_Encode sessionToken) (24 * 14 * 3600)))"

definition ClearSessionCookie :: "string \<Rightarrow> unit act" where
  "ClearSessionCookie vsName = emit (SetCookie (GetSessionCookieName vsName) [] (-1))"

section \<open>The session handlers (handlers/sessions.go)\<close>

definition active_session_json :: "string \<Rightarrow> user \<Rightarrow> json" where
  "active_session_json vsName u =
     JObj [(''vsName'', JStr vsName), (''username'', JStr (u_username u)), (''displayName'', JStr (u_displayName u))]"

text \<open>One turn of the loop over the cookies: a failure of any kind skips the cookie.\<close>

definition active_session_of :: "env \<Rightarrow> string \<Rightarrow> string \<Rightarrow> json option act" where
  "active_session_of E vsName cookieValue =
     bnd (lift (DecodeSplitToken cookieValue)) (\<lambda>token.
     bnd (lift (uuid_Parse E (st_id token))) (\<lambda>tokenId.
     bnd (SessionService_GetSession E vsName tokenId) (\<lambda>session.
       case session of
         None \<Rightarrow> ret None
       | Some s \<Rightarrow>
           if \<not> CheapCompareHash (st_secret token) (mw_hashedSecret s) then ret None
           else
             bnd (db_read (\<lambda>st. VirtualServerRepository_FirstOrNil (st_VirtualServers st)
                    (VirtualServerFilter_Name vsName NewVirtualServerFilter))) (\<lambda>vs.
               case vs of
                 None \<Rightarrow> ret None
               | Some v \<Rightarrow>
                   bnd (db_read (\<lambda>st. UserRepository_FirstOrNil (st_Users st)
                          (UserFilter_Id (mw_userId s) (UserFilter_VirtualServerId (bm_id (vs_base v)) NewUserFilter))))
                     (\<lambda>user. ret (MapPtr user (active_session_json vsName)))))))"

fun active_sessions :: "env \<Rightarrow> (string \<times> string) list \<Rightarrow> json list act" where
  "active_sessions E [] = ret []"
| "active_sessions E ((name, cookieValue) # cookies) =
     (if \<not> HasPrefix name ''keylineSession_'' then active_sessions E cookies
      else
        bnd (catch (active_session_of E (TrimPrefix name ''keylineSession_'') cookieValue)) (\<lambda>r.
        bnd (active_sessions E cookies) (\<lambda>rest.
          ret (case r of Inr (Some dto) \<Rightarrow> dto # rest | _ \<Rightarrow> rest))))"

definition ListActiveSessions :: "env \<Rightarrow> (string \<times> string) list \<Rightarrow> unit act" where
  "ListActiveSessions E cookies =
     bnd (active_sessions E cookies) (\<lambda>result.
     bnd (emit (WriteHeader 200)) (\<lambda>_.
     emit (WriteJson (JArr result))))"

definition DeleteActiveSession :: "env \<Rightarrow> string \<Rightarrow> string option \<Rightarrow> unit act" where
  "DeleteActiveSession E vsName cookie =
     (let done = bnd (ClearSessionCookie vsName) (\<lambda>_. emit (WriteHeader 204))
      in if vsName = [] then emit (HttpError 400)
         else case cookie of
           None \<Rightarrow> done
         | Some cookieValue \<Rightarrow>
             (case DecodeSplitToken cookieValue of
                Inl _ \<Rightarrow> done
              | Inr token \<Rightarrow>
                  (case uuid_Parse E (st_id token) of
                     Inl _ \<Rightarrow> done
                   | Inr tokenId \<Rightarrow>
                       bnd (catch (SessionService_GetSession E vsName tokenId)) (\<lambda>session.
                         case session of
                           Inr (Some s) \<Rightarrow>
                             if CheapCompareHash (st_secret token) (mw_hashedSecret s)
                             then bnd (catch (SessionService_DeleteSession E vsName tokenId)) (\<lambda>_. done)
                             else done
                         | _ \<Rightarrow> done))))"

end
