(* ===== verification/SessionSpec.thy ===== *)
theory SessionSpec
  imports Sessions
begin

text \<open>
  What the session service and the session middleware guarantee: a cookie made at login is
  accepted and names the user, an accepted cookie carries the secret of a session of the
  virtual server, and deleting a session ends it, unless another request reads it in between.
\<close>

section \<open>Lookups\<close>

lemma find_go_pure: "(\<And>x. x \<in> set xs \<Longrightarrow> p x = Inr (q x)) \<Longrightarrow> find_go p xs = Inr (first_of (filter q xs))"
  by (induction xs) auto

lemma repo_find_id:
  assumes "wf_store idOf s" "\<And>e. p e = Inr (idOf e = i \<and> P e)"
  shows "repo_find p s = Inr (case map_of s i of None \<Rightarrow> None | Some e \<Rightarrow> if P e then Some e else None)"
  using find_go_pure [of "map snd s" p "\<lambda>e. idOf e = i \<and> P e"] assms
  by (simp add: repo_find_def wf_store_filter_id split: option.splits)

lemma SessionRepository_FirstOrNil_id:
  assumes "wf_stores st"
  shows "SessionRepository_FirstOrNil (st_Sessions st) (SessionFilter_Id i NewSessionFilter) =
    Inr (map_of (st_Sessions st) i)"
  using repo_find_id [of "\<lambda>e. bm_id (se_base e)" "st_Sessions st"
      "Session_matches (SessionFilter_Id i NewSessionFilter)" i "\<lambda>_. True"] assms
  by (auto simp: wf_stores_def filter_defs repo_defs split: option.splits)

lemma SessionRepository_FirstOrNil_vs_id:
  assumes "wf_stores st"
  shows "SessionRepository_FirstOrNil (st_Sessions st)
      (SessionFilter_Id i (SessionFilter_VirtualServerId vsId NewSessionFilter)) =
    Inr (case map_of (st_Sessions st) i of
           None \<Rightarrow> None | Some s \<Rightarrow> if se_virtualServerId s = vsId then Some s else None)"
  using repo_find_id [of "\<lambda>e. bm_id (se_base e)" "st_Sessions st"
      "Session_matches (SessionFilter_Id i (SessionFilter_VirtualServerId vsId NewSessionFilter))" i
      "\<lambda>s. se_virtualServerId s = vsId"] assms
  by (auto simp: wf_stores_def filter_defs repo_defs split: option.splits)

text \<open>The virtual server that a name leads to.\<close>

definition vs_named :: "stores \<Rightarrow> string \<Rightarrow> virtual_server option" where
  "vs_named st name = first_of (filter (\<lambda>v. vs_name v = name) (map snd (st_VirtualServers st)))"

lemma VirtualServerRepository_FirstOrErr_name:
  "VirtualServerRepository_FirstOrErr (st_VirtualServers st) (VirtualServerFilter_Name name NewVirtualServerFilter) =
     (case vs_named st name of Some v \<Rightarrow> Inr v | None \<Rightarrow> Inl (Err (Named ErrVirtualServerNotFound)))"
proof -
  have "VirtualServer_matches (VirtualServerFilter_Name name NewVirtualServerFilter) v = Inr (vs_name v = name)" for v
    by (simp add: filter_defs repo_defs)
  then have "VirtualServerRepository_filtered (st_VirtualServers st) (VirtualServerFilter_Name name NewVirtualServerFilter) =
      Inr (filter (\<lambda>v. vs_name v = name) (map snd (st_VirtualServers st)))"
    by (simp add: VirtualServerRepository_filtered_def repo_filtered_def filter_go_pure)
  then show ?thesis
    by (simp add: VirtualServerRepository_FirstOrErr_def VirtualServerRepository_FirstOrNil_def vs_named_def
        split: option.splits)
qed

lemma vs_by_name_eq [act_simps]:
  "vs_by_name name w =
     (case vs_named (w_stores w) name of Some v \<Rightarrow> Inr v | None \<Rightarrow> Inl (Err (Named ErrVirtualServerNotFound)), w)"
  by (simp add: vs_by_name_def db_read_def VirtualServerRepository_FirstOrErr_name)

text \<open>The session of a virtual server in the database.\<close>

definition db_session :: "stores \<Rightarrow> string \<Rightarrow> uuid \<Rightarrow> session option" where
  "db_session st vsName i =
     (case vs_named st vsName of
        None \<Rightarrow> None
      | Some v \<Rightarrow>
          (case map_of (st_Sessions st) i of
             Some s \<Rightarrow> if se_virtualServerId s = bm_id (vs_base v) then Some s else None
           | None \<Rightarrow> None))"

definition wf_world :: "world \<Rightarrow> bool" where
  "wf_world w \<longleftrightarrow> wf_stores (w_stores w) \<and> clock_ok w"

lemma wf_world_simps [simp]:
  "wf_world (after_get k w) = wf_world w" "wf_world (store_at k v d w) = wf_world w"
  "wf_world (drop_at k w) = wf_world w" "wf_world (drew w) = wf_world w"
  by (simp_all add: wf_world_def)

lemma loadSessionFromDatabase_eq:
  assumes "wf_world w" "vs_named (w_stores w) vsName = Some v"
  shows "loadSessionFromDatabase vsName i w =
    (Inr (map_option (\<lambda>s. middlewares_NewSession (se_userId s) (se_hashedToken s) (w_now w))
       (db_session (w_stores w) vsName i)), w)"
  using assms SessionRepository_FirstOrNil_vs_id [of "w_stores w" i "bm_id (vs_base v)"]
  by (auto simp: loadSessionFromDatabase_def bnd_def wrapped_def vs_by_name_eq db_read_def db_session_def
      get_now_def wf_world_def split: option.splits)

lemma minute15 [simp]: "(0 :: int) < Minute * 15" by (simp add: duration_defs)

lemma kv_set_store_at [act_simps]: "kv_set k v [WithExpiration d] w = (Inr (), store_at k v d w)"
  by (simp add: kv_set_def store_at_def kv_set_exp_def)

lemma kv_delete_drop_at [act_simps]: "kv_delete k w = (Inr (), drop_at k w)"
  by (simp add: kv_delete_def drop_at_def)

lemma GetSession_miss:
  assumes "wf_world w" "vs_named (w_stores w) vsName = Some v" "kv_live w (getCacheKey E vsName i) = None"
  shows "SessionService_GetSession E vsName i w =
    (case db_session (w_stores w) vsName i of
       None \<Rightarrow> (Inr None, after_get (getCacheKey E vsName i) w)
     | Some s \<Rightarrow>
         (Inr (Some (middlewares_NewSession (se_userId s) (se_hashedToken s) (w_now w))),
          store_at (getCacheKey E vsName i)
            (Doc (sessionTokenValue_json E (se_userId s) (se_hashedToken s))) (Minute * 15)
            (after_get (getCacheKey E vsName i) w)))"
proof -
  have l: "loadSessionFromDatabase vsName i (after_get (getCacheKey E vsName i) w) =
    (Inr (map_option (\<lambda>s. middlewares_NewSession (se_userId s) (se_hashedToken s) (w_now w))
       (db_session (w_stores w) vsName i)), after_get (getCacheKey E vsName i) w)"
    using loadSessionFromDatabase_eq [of "after_get (getCacheKey E vsName i) w"] assms by simp
  show ?thesis
    by (simp add: SessionService_GetSession_def bnd_def catch_def kv_get_eq assms(3) ErrNotFound_def sentinel_is_def
        wrapped_def l kv_set_store_at get_now_def middlewares_NewSession_def split: option.splits)
qed

lemma GetSession_hit:
  assumes "kv_live w (getCacheKey E vsName i) = Some v" "sessionTokenValue_decode E v = Inr (u, h)"
  shows "SessionService_GetSession E vsName i w =
    (Inr (Some (middlewares_NewSession u h (w_now w))), after_get (getCacheKey E vsName i) w)"
  by (simp add: SessionService_GetSession_def bnd_def catch_def kv_get_eq assms wrapped_def get_now_def)

section \<open>The session a request sees\<close>

text \<open>The user and the hashed secret, from the cache if it holds the session, else from the database.\<close>

definition seen_session :: "env \<Rightarrow> world \<Rightarrow> string \<Rightarrow> uuid \<Rightarrow> (uuid \<times> string) option" where
  "seen_session E w vsName i =
     (case kv_live w (getCacheKey E vsName i) of
        Some v \<Rightarrow> (case sessionTokenValue_decode E v of Inr p \<Rightarrow> Some p | Inl _ \<Rightarrow> None)
      | None \<Rightarrow> map_option (\<lambda>s. (se_userId s, se_hashedToken s)) (db_session (w_stores w) vsName i))"

lemma uuid_Parse_not_Panic [simp]: "uuid_Parse E s \<noteq> Inl (Panic p)"
  by (simp add: uuid_Parse_def split: option.splits)

lemma map_go_json_string_not_Panic [simp]: "map_go json_string js \<noteq> Inl (Panic p)"
  by (induction js) (auto simp: go_bind_Inl_iff json_string_def type_error_def split: json.splits)

lemma get_not_Panic [simp]:
  "get_string k ms \<noteq> Inl (Panic p)" "get_uuid E k ms \<noteq> Inl (Panic p)" "as_object j \<noteq> Inl (Panic p)"
  "json_Unmarshal t \<noteq> Inl (Panic p)"
  by (simp_all add: get_defs type_error_def json_Unmarshal_def split: option.splits json.splits jtext.splits)

lemma sessionTokenValue_decode_not_Panic [simp]: "sessionTokenValue_decode E t \<noteq> Inl (Panic p)"
  by (auto simp: sessionTokenValue_decode_def go_bind_Inl_iff)

lemma RawURLEncoding_not_Panic [simp]: "RawURLEncoding_DecodeString s \<noteq> Inl (Panic p)"
  by (simp add: RawURLEncoding_DecodeString_def b64_decode_body_def split: option.splits)

lemma DecodeSplitToken_not_Panic [simp]: "DecodeSplitToken s \<noteq> Inl (Panic p)"
  by (auto simp: DecodeSplitToken_def go_bind_Inl_iff Let_def split: if_splits)

lemma GetSession_result:
  assumes "wf_world w"
  shows "\<exists>r w'. SessionService_GetSession E vsName i w = (r, w') \<and> w_out w' = w_out w \<and>
    (case r of
       Inl (Panic p) \<Rightarrow> False
     | Inl (Err e) \<Rightarrow> True
     | Inr None \<Rightarrow> seen_session E w vsName i = None
     | Inr (Some s) \<Rightarrow> seen_session E w vsName i = Some (mw_userId s, mw_hashedSecret s) \<and> mw_createdAt s = w_now w)"
proof (cases "kv_live w (getCacheKey E vsName i)")
  case None
  show ?thesis
  proof (cases "vs_named (w_stores w) vsName")
    case None
    then show ?thesis
      using \<open>kv_live w _ = None\<close>
      by (simp add: SessionService_GetSession_def bnd_def catch_def kv_get_eq ErrNotFound_def sentinel_is_def
          wrapped_def loadSessionFromDatabase_def vs_by_name_eq)
  next
    case (Some v)
    show ?thesis
      using GetSession_miss [OF assms Some None]
      by (simp add: seen_session_def None middlewares_NewSession_def split: option.splits)
  qed
next
  case (Some v)
  then show ?thesis
    by (cases "sessionTokenValue_decode E v"; cases "projl (sessionTokenValue_decode E v)")
      (auto simp: SessionService_GetSession_def bnd_def catch_def kv_get_eq wrapped_def get_now_def
        seen_session_def middlewares_NewSession_def)
qed


section \<open>Sample state\<close>

definition sample_vs :: virtual_server where
  "sample_vs = (NewVirtualServer 1 0 ''a'' ''A'')\<lparr>vs_primarySigningAlgorithm := SigningAlgorithmEdDSA\<rparr>"

definition sample_session :: session where
  "sample_session = (NewSession 3 0 1 7 99)\<lparr>se_hashedToken := CheapHash ''secret''\<rparr>"

definition world_with :: "stores \<Rightarrow> world" where
  "world_with st = \<lparr>w_now = 0, w_db = newContext st, w_kv = [], w_keys = [], w_keycache = [], w_rand = 0, w_out = []\<rparr>"

definition sample_world :: world where
  "sample_world = world_with
     (newStores\<lparr>st_VirtualServers := [(1, sample_vs)], st_Sessions := [(3, sample_session)]\<rparr>)"

lemma world_with_simps [simp]:
  "w_now (world_with st) = 0" "w_stores (world_with st) = st" "w_kv (world_with st) = []"
  "w_out (world_with st) = []" "w_rand (world_with st) = 0" "clock_ok (world_with st)"
  "kv_live (world_with st) k = None" "w_db (world_with st) = newContext st" "token_live (world_with st) t x = None"
  by (simp_all add: world_with_def w_stores_def newContext_def clock_ok_def kv_live_def kv_view_def token_live_def)

lemma wf_sample_world [simp]: "wf_world sample_world"
  by (simp add: sample_world_def wf_world_def wf_stores_def wf_store_def newStores_def sample_vs_def
      NewVirtualServer_def sample_session_def NewSession_def)

lemma vs_named_sample [simp]: "vs_named (w_stores sample_world) ''a'' = Some sample_vs"
  by (simp add: sample_world_def vs_named_def sample_vs_def NewVirtualServer_def)

lemma db_session_sample [simp]: "db_session (w_stores sample_world) ''a'' 3 = Some sample_session"
  unfolding db_session_def vs_named_sample
  by (simp add: sample_world_def sample_vs_def NewVirtualServer_def sample_session_def NewSession_def)

definition sample_cookie :: string where
  "sample_cookie = SplitToken_Encode (NewSplitToken (e_uuid_String test_env 3) ''secret'')"


section \<open>Creating and ending a session\<close>

lemma save_one_session:
  assumes "db_tracker (w_db w) = [NewEntry Added SessionEntityType (ItemSession s)]"
  shows "db_save w = (Inr (), w\<lparr>w_db := \<lparr>db_stores = (w_stores w)\<lparr>st_Sessions :=
      AList.update (bm_id (se_base s)) (written_Session s) (st_Sessions (w_stores w))\<rparr>, db_tracker = []\<rparr>\<rparr>)"
  by (simp add: db_save_def SaveChanges_def Tracker_GetChanges_def assms Context_applyChange_def applySessionChange_def
      as_Session_def Let_def Tracker_Clear_def w_stores_def written_Session_def SetVersion_def)

definition new_session :: "env \<Rightarrow> world \<Rightarrow> virtual_server \<Rightarrow> uuid \<Rightarrow> session" where
  "new_session E w v u =
     (NewSession (e_uuid_New E (w_rand w)) (w_now w) (bm_id (vs_base v)) u (w_now w + Hour * 24 * 30))
       \<lparr>se_hashedToken := CheapHash (RawURLEncoding_EncodeToString (e_rand_Read E (Suc (w_rand w)) 16))\<rparr>"

definition new_session_cookie :: "env \<Rightarrow> world \<Rightarrow> string" where
  "new_session_cookie E w = SplitToken_Encode (NewSplitToken (e_uuid_String E (e_uuid_New E (w_rand w)))
     (RawURLEncoding_EncodeToString (e_rand_Read E (Suc (w_rand w)) 16)))"

lemma CreateSession_eq:
  assumes "vs_named (w_stores w) vsName = Some v"
  shows "CreateSession E vsName u w = (Inr (), w
    \<lparr>w_db := (w_db w)\<lparr>db_tracker := db_tracker (w_db w) @
               [NewEntry Added SessionEntityType (ItemSession (new_session E w v u))]\<rparr>,
     w_rand := Suc (Suc (w_rand w)),
     w_out := w_out w @ [SetCookie (GetSessionCookieName vsName) (new_session_cookie E w) (24 * 14 * 3600)]\<rparr>)"
  by (simp add: CreateSession_def SessionService_NewSession_def bnd_def wrapped_def vs_by_name_eq assms get_now_def
      uuid_New_def GetSecureRandomBytes_def Session_GenerateToken_def Let_def db_write_def emit_def
      SessionRepository_Insert_def Tracker_Add_def new_session_def new_session_cookie_def NewSession_def)

lemma new_session_cookie_decodes:
  assumes "uuid_ok E" "rand_ok E"
  shows "DecodeSplitToken (new_session_cookie E w) =
    Inr (NewSplitToken (e_uuid_String E (e_uuid_New E (w_rand w)))
      (RawURLEncoding_EncodeToString (e_rand_Read E (Suc (w_rand w)) 16)))"
proof -
  have "RawURLEncoding_EncodeToString (e_rand_Read E (Suc (w_rand w)) 16) \<noteq> []"
    unfolding length_greater_0_conv [symmetric] using rand_okD [OF assms(2)] by simp
  then show ?thesis
    unfolding new_session_cookie_def
    using uuid_okD [OF assms(1)] by (intro DecodeSplitToken_Encode) (auto simp: NewSplitToken_def)
qed

text \<open>
  C22: the cookie that a login sets is accepted once the session is saved: every handler
  behind the session middleware then runs with a current session of that user.
\<close>

theorem login_cookie_accepted:
  assumes "uuid_ok E" "rand_ok E" "wf_world w" "db_tracker (w_db w) = []" "vsName \<noteq> []"
    and "vs_named (w_stores w) vsName = Some v"
    and "CreateSession E vsName u w = (Inr (), w1)" "db_save w1 = (Inr (), w2)"
    and "kv_live w2 (getCacheKey E vsName (e_uuid_New E (w_rand w))) = None"
  shows "\<exists>cookie w3. w_out w1 = w_out w @ [SetCookie (GetSessionCookieName vsName) cookie (24 * 14 * 3600)] \<and>
    SessionMiddleware E vsName (Some cookie) handler w2 =
      handler (Some \<lparr>cs_userId = u, cs_sessionId = e_uuid_New E (w_rand w), cs_createdAt = w_now w\<rparr>) w3 \<and>
    w_stores w3 = w_stores w2"
proof -
  let ?s = "new_session E w v u" and ?i = "e_uuid_New E (w_rand w)"
  let ?secret = "RawURLEncoding_EncodeToString (e_rand_Read E (Suc (w_rand w)) 16)"
  have w1: "w1 = w\<lparr>w_db := (w_db w)\<lparr>db_tracker := [NewEntry Added SessionEntityType (ItemSession ?s)]\<rparr>,
     w_rand := Suc (Suc (w_rand w)),
     w_out := w_out w @ [SetCookie (GetSessionCookieName vsName) (new_session_cookie E w) (24 * 14 * 3600)]\<rparr>"
    using assms(7) CreateSession_eq [OF assms(6), of E u] assms(4) by simp
  have st1: "w_stores w1 = w_stores w" by (simp add: w1 w_stores_def)
  have s_id: "bm_id (se_base ?s) = ?i" by (simp add: new_session_def NewSession_def)
  have "db_tracker (w_db w1) = [NewEntry Added SessionEntityType (ItemSession ?s)]" by (simp add: w1)
  from save_one_session [OF this] have
    w2: "w2 = w1\<lparr>w_db := \<lparr>db_stores = (w_stores w)\<lparr>st_Sessions :=
      AList.update ?i (written_Session ?s) (st_Sessions (w_stores w))\<rparr>, db_tracker = []\<rparr>\<rparr>"
    using assms(8) st1 s_id by simp
  have st2: "w_stores w2 = (w_stores w)\<lparr>st_Sessions := AList.update ?i (written_Session ?s) (st_Sessions (w_stores w))\<rparr>"
    by (simp add: w2 w_stores_def)
  have now2: "w_now w2 = w_now w" by (simp add: w2 w1)
  have wid: "bm_id (se_base (written_Session ?s)) = ?i" by (simp add: written_Session_def s_id)
  have wf2: "wf_world w2"
    using assms(3) wf_store_update [of "\<lambda>e. bm_id (se_base e)" "st_Sessions (w_stores w)" "written_Session ?s"]
    by (simp add: wf_world_def st2 wf_stores_def clock_ok_def now2 wid)
  have vs2: "vs_named (w_stores w2) vsName = Some v"
    using assms(6) by (simp add: st2 vs_named_def)
  have db2: "db_session (w_stores w2) vsName ?i = Some (written_Session ?s)"
    unfolding db_session_def vs2
    by (simp add: st2 update_conv' written_Session_def new_session_def NewSession_def)
  obtain w3 where w3: "SessionService_GetSession E vsName ?i w2 =
      (Inr (Some (middlewares_NewSession u (CheapHash ?secret) (w_now w))), w3)" "w_stores w3 = w_stores w2"
    using GetSession_miss [OF wf2 vs2 assms(9)]
    by (simp add: db2 now2 written_Session_def new_session_def NewSession_def)
  have "SessionMiddleware E vsName (Some (new_session_cookie E w)) handler w2 =
      handler (Some \<lparr>cs_userId = u, cs_sessionId = ?i, cs_createdAt = w_now w\<rparr>) w3"
    using assms(5) assms(1) by (simp add: SessionMiddleware_def or_http_def or_answer_def wrapped_def
        new_session_cookie_decodes [OF assms(1,2)] NewSplitToken_def w3(1) middlewares_NewSession_def)
  then show ?thesis using w3(2) by (auto simp: w1)
qed

theorem login_cookie_accepted_witness:
  "\<exists>w1 w2 cookie w3. CreateSession test_env ''a'' 7 sample_world = (Inr (), w1) \<and> db_save w1 = (Inr (), w2) \<and>
    w_out w1 = [SetCookie ''keylineSession_a'' cookie 1209600] \<and>
    SessionMiddleware test_env ''a'' (Some cookie) (\<lambda>cs. emit (WriteText (case cs of None \<Rightarrow> ''none'' | Some _ \<Rightarrow> ''some''))) w2 =
      emit (WriteText ''some'') w3"
proof -
  obtain w1 where w1: "CreateSession test_env ''a'' 7 sample_world = (Inr (), w1)"
    and t1: "db_tracker (w_db w1) = [NewEntry Added SessionEntityType (ItemSession (new_session test_env sample_world sample_vs 7))]"
    and k1: "w_kv w1 = []" "w_now w1 = 0"
    and o1: "w_out w1 = [SetCookie ''keylineSession_a'' (new_session_cookie test_env sample_world) 1209600]"
    using CreateSession_eq [OF vs_named_sample, of test_env 7]
    by (auto simp: sample_world_def newContext_def NewTracker_def GetSessionCookieName_def world_with_def)
  obtain w2 where w2: "db_save w1 = (Inr (), w2)" and k2: "w_kv w2 = []" "w_now w2 = 0"
    using save_one_session [OF t1] k1 by simp
  have "kv_live w2 k = None" for k
    by (simp add: kv_live_def k2 kv_view_def)
  moreover have "db_tracker (w_db sample_world) = []" "w_now sample_world = 0" "w_out sample_world = []"
    by (simp_all add: sample_world_def newContext_def NewTracker_def)
  ultimately show ?thesis
    using login_cookie_accepted [OF uuid_ok_test_env rand_ok_test_env wf_sample_world _ _ vs_named_sample w1 w2,
        of "\<lambda>cs. emit (WriteText (case cs of None \<Rightarrow> ''none'' | Some _ \<Rightarrow> ''some''))"] w1 w2 o1
    by (auto simp: GetSessionCookieName_def)
qed

lemma save_one_deletion:
  assumes "db_tracker (w_db w) = [NewEntry Deleted SessionEntityType (ItemId i)]"
  shows "db_save w = (Inr (), w\<lparr>w_db := \<lparr>db_stores = (w_stores w)\<lparr>st_Sessions :=
      AList.delete i (st_Sessions (w_stores w))\<rparr>, db_tracker = []\<rparr>\<rparr>)"
  by (simp add: db_save_def SaveChanges_def Tracker_GetChanges_def assms Context_applyChange_def applySessionChange_def
      as_Id_def Tracker_Clear_def w_stores_def)

lemma DeleteSession_eq:
  assumes "wf_world w" "db_tracker (w_db w) = []" "db_session (w_stores w) vsName i = Some s"
  shows "SessionService_DeleteSession E vsName i w =
    (Inr (), (drop_at (getCacheKey E vsName i) w)
      \<lparr>w_db := (w_db w)\<lparr>db_tracker := [NewEntry Deleted SessionEntityType (ItemId i)]\<rparr>\<rparr>)"
proof -
  obtain v where v: "vs_named (w_stores w) vsName = Some v" "map_of (st_Sessions (w_stores w)) i = Some s"
    "se_virtualServerId s = bm_id (vs_base v)"
    using assms(3) by (auto simp: db_session_def split: option.splits if_splits)
  then show ?thesis
    using SessionRepository_FirstOrNil_id [of "w_stores w" i] assms(1,2)
    by (simp add: SessionService_DeleteSession_def bnd_def wrapped_def vs_by_name_eq db_read_def wf_world_def
        kv_delete_drop_at db_write_def SessionRepository_Delete_def Tracker_Add_def)
qed

text \<open>
  A session that is deleted, with the change saved, is not accepted any more: neither the
  cache nor the database holds it.
\<close>

theorem deleted_session_ends:
  assumes "wf_world w" "db_tracker (w_db w) = []" "db_session (w_stores w) vsName i = Some s"
    and "SessionService_DeleteSession E vsName i w = (Inr (), w1)" "db_save w1 = (Inr (), w2)"
  shows "seen_session E w2 vsName i = None"
proof -
  have w1: "w1 = (drop_at (getCacheKey E vsName i) w)
      \<lparr>w_db := (w_db w)\<lparr>db_tracker := [NewEntry Deleted SessionEntityType (ItemId i)]\<rparr>\<rparr>"
    using assms(4) DeleteSession_eq [OF assms(1-3), of E] by simp
  have "w_stores w1 = w_stores w" by (simp add: w1 w_stores_def)
  then have w2: "w2 = w1\<lparr>w_db := \<lparr>db_stores = (w_stores w)\<lparr>st_Sessions := AList.delete i (st_Sessions (w_stores w))\<rparr>,
      db_tracker = []\<rparr>\<rparr>"
    using assms(5) save_one_deletion [of w1 i] by (simp add: w1)
  have "kv_live w2 (getCacheKey E vsName i) = None"
    by (simp add: w2 w1 kv_live_def drop_at_def kv_delete_view)
  moreover have "map_of (st_Sessions (w_stores w2)) i = None"
    by (simp add: w2 w_stores_def delete_conv')
  ultimately show ?thesis
    by (simp add: seen_session_def db_session_def split: option.splits)
qed

lemma sample_tracker [simp]: "db_tracker (w_db sample_world) = []"
  by (simp add: sample_world_def newContext_def NewTracker_def)

theorem deleted_session_ends_witness:
  "\<exists>w1 w2. SessionService_DeleteSession test_env ''a'' 3 sample_world = (Inr (), w1) \<and> db_save w1 = (Inr (), w2) \<and>
    seen_session test_env sample_world ''a'' 3 = Some (7, CheapHash ''secret'') \<and>
    seen_session test_env w2 ''a'' 3 = None"
proof -
  obtain w1 where w1: "SessionService_DeleteSession test_env ''a'' 3 sample_world = (Inr (), w1)"
    and t1: "db_tracker (w_db w1) = [NewEntry Deleted SessionEntityType (ItemId 3)]"
    using DeleteSession_eq [OF wf_sample_world sample_tracker db_session_sample, of test_env] by simp
  obtain w2 where w2: "db_save w1 = (Inr (), w2)" using save_one_deletion [OF t1] by simp
  have "seen_session test_env sample_world ''a'' 3 = Some (7, CheapHash ''secret'')"
    unfolding seen_session_def db_session_sample
    by (simp add: sample_world_def sample_session_def NewSession_def)
  then show ?thesis
    using deleted_session_ends [OF wf_sample_world sample_tracker db_session_sample w1 w2] w1 w2 by blast
qed

text \<open>
  Another request that looks the session up after \<^verbatim>\<open>DeleteSession\<close> has cleared
  the cache and before the deletion is saved puts it back into the cache: the deleted session
  stays accepted until the cache entry expires.
\<close>

theorem concurrent_lookup_revives_session:
  assumes "uuid_ok E" "wf_world w" "db_tracker (w_db w) = []" "db_session (w_stores w) vsName i = Some s"
    and "SessionService_DeleteSession E vsName i w = (Inr (), w1)"
    and "SessionService_GetSession E vsName i w1 = (r, w1')"
    and "db_save w1' = (Inr (), w2)"
  shows "seen_session E w2 vsName i = Some (se_userId s, se_hashedToken s) \<and>
    db_session (w_stores w2) vsName i = None"
proof -
  let ?k = "getCacheKey E vsName i"
  obtain v where v: "vs_named (w_stores w) vsName = Some v"
    using assms(4) by (auto simp: db_session_def split: option.splits)
  have w1: "w1 = (drop_at ?k w)\<lparr>w_db := (w_db w)\<lparr>db_tracker := [NewEntry Deleted SessionEntityType (ItemId i)]\<rparr>\<rparr>"
    using assms(5) DeleteSession_eq [OF assms(2-4), of E] by simp
  have st1: "w_stores w1 = w_stores w" by (simp add: w1 w_stores_def)
  have wf1: "wf_world w1" using assms(2) by (simp add: wf_world_def st1 clock_ok_def) (simp add: w1)
  have miss: "kv_live w1 ?k = None" by (simp add: w1 kv_live_def drop_at_def kv_delete_view)
  have w1': "w1' = store_at ?k (Doc (sessionTokenValue_json E (se_userId s) (se_hashedToken s))) (Minute * 15)
      (after_get ?k w1)"
    using GetSession_miss [OF wf1 _ miss] v assms(4,6) by (simp add: st1)
  have tr: "db_tracker (w_db w1') = [NewEntry Deleted SessionEntityType (ItemId i)]"
    and st1': "w_stores w1' = w_stores w"
    by (simp_all add: w1' st1) (simp add: w1)
  have w2: "w2 = w1'\<lparr>w_db := \<lparr>db_stores = (w_stores w)\<lparr>st_Sessions := AList.delete i (st_Sessions (w_stores w))\<rparr>,
      db_tracker = []\<rparr>\<rparr>"
    using assms(7) save_one_deletion [OF tr] st1' by simp
  have "clock_ok (after_get ?k w1)" using wf1 by (simp add: wf_world_def)
  then have "kv_live w1' ?k = Some (Doc (sessionTokenValue_json E (se_userId s) (se_hashedToken s)))"
    by (simp add: w1' kv_live_store_at)
  then have "kv_live w2 ?k = Some (Doc (sessionTokenValue_json E (se_userId s) (se_hashedToken s)))"
    by (simp add: w2 kv_live_def)
  moreover have "map_of (st_Sessions (w_stores w2)) i = None"
    by (simp add: w2 w_stores_def delete_conv')
  ultimately show ?thesis
    using assms(1) by (simp add: seen_session_def db_session_def split: option.splits)
qed

theorem concurrent_lookup_revives_session_witness:
  "\<exists>w1 r w1' w2. SessionService_DeleteSession test_env ''a'' 3 sample_world = (Inr (), w1) \<and>
    SessionService_GetSession test_env ''a'' 3 w1 = (r, w1') \<and> db_save w1' = (Inr (), w2) \<and>
    seen_session test_env w2 ''a'' 3 = Some (7, CheapHash ''secret'')"
proof -
  obtain w1 where w1: "SessionService_DeleteSession test_env ''a'' 3 sample_world = (Inr (), w1)"
    and t1: "db_tracker (w_db w1) = [NewEntry Deleted SessionEntityType (ItemId 3)]"
    and m1: "kv_live w1 (getCacheKey test_env ''a'' 3) = None" and st1: "w_stores w1 = w_stores sample_world"
    and n1: "w_now w1 = 0"
    using DeleteSession_eq [OF wf_sample_world sample_tracker db_session_sample, of test_env]
    by (simp add: kv_live_def drop_at_def kv_delete_view w_stores_def sample_world_def)
  have "wf_world w1" using wf_sample_world by (simp add: wf_world_def st1 clock_ok_def n1)
  then obtain r w1' where g: "SessionService_GetSession test_env ''a'' 3 w1 = (r, w1')"
    and "db_tracker (w_db w1') = [NewEntry Deleted SessionEntityType (ItemId 3)]"
    using GetSession_miss [OF _ _ m1] t1 by (simp add: st1)
  then obtain w2 where w2: "db_save w1' = (Inr (), w2)" using save_one_deletion by blast
  show ?thesis
    using concurrent_lookup_revives_session [OF uuid_ok_test_env wf_sample_world sample_tracker db_session_sample w1 g w2]
      w1 g w2 by (auto simp: sample_session_def NewSession_def)
qed

text \<open>
  The expiration time of a session is never looked at. A session that the database holds
  is accepted however long ago it expired, and its creation time is the time of the request.
\<close>

theorem expired_session_accepted:
  assumes "wf_world w" "db_session (w_stores w) vsName i = Some s" "se_expiresAt s < w_now w"
    and "kv_live w (getCacheKey E vsName i) = None"
  shows "\<exists>m w'. SessionService_GetSession E vsName i w = (Inr (Some m), w') \<and>
    mw_userId m = se_userId s \<and> mw_hashedSecret m = se_hashedToken s \<and> mw_createdAt m = w_now w"
proof -
  obtain v where "vs_named (w_stores w) vsName = Some v"
    using assms(2) by (auto simp: db_session_def split: option.splits)
  from GetSession_miss [OF assms(1) this assms(4)] assms(2) show ?thesis
    by (simp add: middlewares_NewSession_def)
qed

theorem expired_session_accepted_witness:
  "\<exists>m w'. SessionService_GetSession test_env ''a'' 3 (sample_world\<lparr>w_now := 100\<rparr>) = (Inr (Some m), w') \<and>
    mw_userId m = 7 \<and> se_expiresAt sample_session = 99"
proof -
  have "wf_world (sample_world\<lparr>w_now := 100\<rparr>)"
    using wf_sample_world by (simp add: wf_world_def w_stores_def clock_ok_def)
  moreover have "db_session (w_stores (sample_world\<lparr>w_now := 100\<rparr>)) ''a'' 3 = Some sample_session"
    using db_session_sample by (simp add: w_stores_def)
  moreover have "kv_live (sample_world\<lparr>w_now := 100\<rparr>) k = None" for k
    by (simp add: sample_world_def world_with_def kv_live_def kv_view_def)
  ultimately show ?thesis
    using expired_session_accepted [of "sample_world\<lparr>w_now := 100\<rparr>" "''a''" 3 sample_session test_env]
    by (force simp: sample_session_def NewSession_def)
qed

end
