(* ===== verification/Authz.thy ===== *)
theory Authz
  imports SessionSpec
begin

text \<open>
  Who may do what: permissions and roles (\<^verbatim>\<open>internal/authentication/permissions\<close>,
  \<^verbatim>\<open>roles\<close>), the current user that the bearer token of a request makes
  (\<^verbatim>\<open>internal/authentication/AuthenticationMiddleware.go\<close>), and the behaviours
  around every command and query (\<^verbatim>\<open>internal/behaviours\<close>): the policy check with
  the audit log (\<^verbatim>\<open>internal/services/audit\<close>), and the saving of changes.
\<close>

section \<open>Permissions and roles\<close>

datatype permission =
    SystemUser | AuditView | ApplicationCreate | ApplicationDelete | ApplicationUpdate |
    ApplicationView | GroupView | RoleCreate | RoleUpdate | RoleDelete | RoleAssign |
    RoleView | UserCreate | UserUpdate | UserResetPassword | UserView | UserMetadataUpdate |
    UserMetadataView | AppMetadataUpdateAny | ServiceUserCreate | ServiceUserAssociateKey |
    ServiceUserRemoveKey | VirtualServerCreate | VirtualServerUpdate | VirtualServerView |
    TemplateView | ProjectCreate | ProjectUpdate | ProjectView | ResourceServerCreate |
    ResourceServerUpdate | ResourceServerView | ResourceServerScopeCreate |
    ResourceServerScopeUpdate | ResourceServerScopeView

fun permission_String :: "permission \<Rightarrow> string" where
  "permission_String SystemUser = ''system_user''"
| "permission_String AuditView = ''audit:view''"
| "permission_String ApplicationCreate = ''application:create''"
| "permission_String ApplicationDelete = ''application:delete''"
| "permission_String ApplicationUpdate = ''application:update''"
| "permission_String ApplicationView = ''application:view''"
| "permission_String GroupView = ''group:view''"
| "permission_String RoleCreate = ''role:create''"
| "permission_String RoleUpdate = ''role:update''"
| "permission_String RoleDelete = ''role:delete''"
| "permission_String RoleAssign = ''role:assign''"
| "permission_String RoleView = ''role:view''"
| "permission_String UserCreate = ''user:create''"
| "permission_String UserUpdate = ''user:update''"
| "permission_String UserResetPassword = ''user:reset_password''"
| "permission_String UserView = ''user:view''"
| "permission_String UserMetadataUpdate = ''user_metadata:update''"
| "permission_String UserMetadataView = ''user_metadata:view''"
| "permission_String AppMetadataUpdateAny = ''app_metadata:update:any''"
| "permission_String ServiceUserCreate = ''service_user:create''"
| "permission_String ServiceUserAssociateKey = ''service_user:associate_key''"
| "permission_String ServiceUserRemoveKey = ''service_user:remove_key''"
| "permission_String VirtualServerCreate = ''virtual_server:create''"
| "permission_String VirtualServerUpdate = ''virtual_server:update''"
| "permission_String VirtualServerView = ''virtual_server:view''"
| "permission_String TemplateView = ''template:view''"
| "permission_String ProjectCreate = ''project:create''"
| "permission_String ProjectUpdate = ''project:update''"
| "permission_String ProjectView = ''project:view''"
| "permission_String ResourceServerCreate = ''resource_server:create''"
| "permission_String ResourceServerUpdate = ''resource_server:update''"
| "permission_String ResourceServerView = ''resource_server:view''"
| "permission_String ResourceServerScopeCreate = ''resource_server_scope:create''"
| "permission_String ResourceServerScopeUpdate = ''resource_server_scope:update''"
| "permission_String ResourceServerScopeView = ''resource_server_scope:view''"

type_synonym role_name = string

definition roles_SystemUser :: role_name where "roles_SystemUser = ''system-user''"
definition roles_SystemAdmin :: role_name where "roles_SystemAdmin = ''system-admin''"
definition roles_VirtualServerAdmin :: role_name where "roles_VirtualServerAdmin = ''admin''"

lemmas role_defs = roles_SystemUser_def roles_SystemAdmin_def roles_VirtualServerAdmin_def

definition SystemUserPermissions :: "permission list" where
  "SystemUserPermissions =
     [SystemUser]"

definition SystemAdminPermissions :: "permission list" where
  "SystemAdminPermissions =
     [VirtualServerCreate, VirtualServerUpdate, VirtualServerView, ProjectCreate,
     ProjectUpdate, ProjectView, ResourceServerCreate, ResourceServerUpdate,
     ResourceServerView, ResourceServerScopeCreate, ResourceServerScopeUpdate,
     ResourceServerScopeView, AuditView, ApplicationCreate, ApplicationDelete,
     ApplicationUpdate, ApplicationView, GroupView, RoleCreate, RoleUpdate, RoleDelete,
     RoleAssign, RoleView, UserCreate, UserUpdate, UserResetPassword, UserView,
     UserMetadataUpdate, UserMetadataView, AppMetadataUpdateAny, ServiceUserCreate,
     ServiceUserAssociateKey, ServiceUserRemoveKey, TemplateView]"

definition VirtualServerAdminPermissions :: "permission list" where
  "VirtualServerAdminPermissions =
     [VirtualServerUpdate, VirtualServerView, ProjectCreate, ProjectUpdate, ProjectView,
     ResourceServerCreate, ResourceServerUpdate, ResourceServerView,
     ResourceServerScopeCreate, ResourceServerScopeUpdate, ResourceServerScopeView,
     AuditView, ApplicationCreate, ApplicationDelete, ApplicationUpdate, ApplicationView,
     GroupView, RoleCreate, RoleUpdate, RoleDelete, RoleAssign, RoleView, UserCreate,
     UserUpdate, UserResetPassword, UserView, UserMetadataUpdate, UserMetadataView,
     AppMetadataUpdateAny, ServiceUserCreate, ServiceUserAssociateKey, ServiceUserRemoveKey,
     TemplateView]"

lemmas role_permission_defs = SystemUserPermissions_def SystemAdminPermissions_def VirtualServerAdminPermissions_def

definition AllRoles :: "role_name \<Rightarrow> permission list option" where
  "AllRoles r =
     (if r = roles_SystemUser then Some SystemUserPermissions
      else if r = roles_SystemAdmin then Some SystemAdminPermissions
      else if r = roles_VirtualServerAdmin then Some VirtualServerAdminPermissions
      else None)"

section \<open>The current user\<close>

record current_user =
  cu_UserId :: uuid
  cu_Permissions :: "(permission \<times> role_name list) list" \<comment> \<open>with the source roles\<close>

definition NewCurrentUser :: "uuid \<Rightarrow> current_user" where
  "NewCurrentUser userId = \<lparr>cu_UserId = userId, cu_Permissions = []\<rparr>"

definition IsAuthenticated :: "current_user \<Rightarrow> bool" where
  "IsAuthenticated c = (cu_UserId c \<noteq> uuid_Nil)"

text \<open>The source roles when the user has the permission.\<close>

definition HasPermission :: "current_user \<Rightarrow> permission \<Rightarrow> role_name list option" where
  "HasPermission c p = map_of (cu_Permissions c) p"

fun assign_each :: "role_name \<Rightarrow> permission list \<Rightarrow> current_user \<Rightarrow> current_user" where
  "assign_each r [] c = c"
| "assign_each r (p # ps) c =
     assign_each r ps
       (c\<lparr>cu_Permissions := AList.update p
            ((case map_of (cu_Permissions c) p of Some rs \<Rightarrow> rs | None \<Rightarrow> []) @ [r]) (cu_Permissions c)\<rparr>)"

definition assignPermissionsToUser :: "role_name \<Rightarrow> current_user \<Rightarrow> current_user" where
  "assignPermissionsToUser r c = (case AllRoles r of Some ps \<Rightarrow> assign_each r ps c | None \<Rightarrow> c)"

definition SystemUser_identity :: current_user where
  "SystemUser_identity = assignPermissionsToUser roles_SystemUser (NewCurrentUser uuid_Nil)"

text \<open>The loop over the role claims: strings of the system project add the permissions of the role.\<close>

fun assign_role_claims :: "json list \<Rightarrow> current_user \<Rightarrow> current_user" where
  "assign_role_claims [] c = c"
| "assign_role_claims (j # js) c =
     assign_role_claims js
       (case j of
          JStr s \<Rightarrow> if HasPrefix s ''system:'' then assignPermissionsToUser (TrimPrefix s ''system:'') c else c
        | _ \<Rightarrow> c)"

text \<open>
  \<^verbatim>\<open>jwt.Parse\<close> looks up the key of the algorithm named in the header, and returns the
  claims of a token that the key verifies and whose times are valid.
\<close>

definition parseTokenWithVS :: "env \<Rightarrow> string \<Rightarrow> string \<Rightarrow> json_obj act" where
  "parseTokenWithVS E tokenString vsName =
     (case e_jwt_Algorithm E tokenString of
        None \<Rightarrow> err (ErrorsNew ''token is malformed'')
      | Some alg \<Rightarrow>
          bnd (wrapped ''token is unverifiable'' (get_key vsName alg)) (\<lambda>keyPair.
          bnd get_now (\<lambda>now.
            case e_jwt_Parse E now tokenString alg (kp_publicKey keyPair) of
              None \<Rightarrow> err (ErrorsNew ''token is invalid'')
            | Some claims \<Rightarrow> ret claims)))"

definition extractUserFromBearerToken :: "env \<Rightarrow> string \<Rightarrow> string \<Rightarrow> current_user act" where
  "extractUserFromBearerToken E authorizationHeader vsName =
     (if \<not> HasPrefix authorizationHeader ''Bearer '' then err (Named ErrHttpUnauthorized)
      else
        let tokenString = TrimPrefix authorizationHeader ''Bearer '' in
        if tokenString = [] then err (Wrap ''empty token'' (Named ErrHttpUnauthorized))
        else
          bnd (catch (parseTokenWithVS E tokenString vsName)) (\<lambda>first_try.
          bnd (case first_try of
                 Inl e \<Rightarrow>
                   if vsName \<noteq> e_InitialVirtualServerName E
                   then catch (parseTokenWithVS E tokenString (e_InitialVirtualServerName E))
                   else ret first_try
               | Inr _ \<Rightarrow> ret first_try) (\<lambda>parsed.
            case parsed of
              Inl e \<Rightarrow> err (Wrap ''parsing token'' (Named ErrHttpUnauthorized))
            | Inr claims \<Rightarrow>
                (case map_of claims ''sub'' of
                   Some (JStr userIdString) \<Rightarrow>
                     (case uuid_Parse E userIdString of
                        Inl _ \<Rightarrow> err (Wrap ''parsing sub claim'' (Named ErrHttpUnauthorized))
                      | Inr userId \<Rightarrow>
                          ret (case map_of claims ''roles'' of
                                 Some (JArr roleClaims) \<Rightarrow> assign_role_claims roleClaims (NewCurrentUser userId)
                               | _ \<Rightarrow> NewCurrentUser userId))
                 | _ \<Rightarrow> err (Wrap ''sub claim not found'' (Named ErrHttpUnauthorized))))))"

text \<open>What the rest of the program reads from the context of a request.\<close>

record req_ctx =
  rc_user :: "current_user option"
  rc_vsName :: string

definition AuthenticationMiddleware :: "env \<Rightarrow> string \<Rightarrow> string \<Rightarrow> (req_ctx \<Rightarrow> unit act) \<Rightarrow> unit act" where
  "AuthenticationMiddleware E authorizationHeader vsName next_ServeHTTP =
     (if vsName = [] then HandleHttpError (Named ErrMissingVirtualServerNameInContext)
      else
        or_http (if authorizationHeader \<noteq> []
                 then wrapped ''extracting user from bearer token'' (extractUserFromBearerToken E authorizationHeader vsName)
                 else ret (NewCurrentUser uuid_Nil)) (\<lambda>currentUser.
          next_ServeHTTP \<lparr>rc_user = Some currentUser, rc_vsName = vsName\<rparr>))"

definition GetCurrentUser :: "req_ctx \<Rightarrow> current_user go" where
  "GetCurrentUser ctx = (case rc_user ctx of Some u \<Rightarrow> Inr u | None \<Rightarrow> Inl (Panic ''current user not found''))"

section \<open>Policies (behaviours/PolicyMiddleware.go)\<close>

datatype allow_reason = AllowedByAnyone | AllowedByOwnership | AllowedByPermission permission "role_name list"

fun GetReasonType :: "allow_reason \<Rightarrow> string" where
  "GetReasonType AllowedByAnyone = ''anyone''"
| "GetReasonType AllowedByOwnership = ''ownership''"
| "GetReasonType (AllowedByPermission _ _) = ''permission''"

fun IsServiceUserReason :: "allow_reason \<Rightarrow> bool" where
  "IsServiceUserReason (AllowedByPermission p _) = (p = SystemUser)"
| "IsServiceUserReason _ = False"

fun allow_reason_json :: "allow_reason \<Rightarrow> json" where
  "allow_reason_json (AllowedByPermission p rs) =
     JObj [(''Permission'', JStr (permission_String p)), (''SourceRoles'', json_strings rs)]"
| "allow_reason_json _ = JObj []"

datatype policy_result =
    Allowed (pr_userId: uuid) (pr_vsId: uuid) (pr_reason: allow_reason)
  | Denied (pr_userId: uuid) (pr_vsId: uuid)

definition PermissionBasedPolicy :: "permission \<Rightarrow> req_ctx \<Rightarrow> policy_result act" where
  "PermissionBasedPolicy p ctx =
     bnd (if rc_vsName ctx \<noteq> [] then
            bnd (wrapped ''getting virtual server'' (db_read (\<lambda>st.
                   VirtualServerRepository_FirstOrNil (st_VirtualServers st)
                     (VirtualServerFilter_Name (rc_vsName ctx) NewVirtualServerFilter)))) (\<lambda>v.
              case v of None \<Rightarrow> lift nil_dereference | Some v \<Rightarrow> ret (bm_id (vs_base v)))
          else ret uuid_Nil) (\<lambda>virtualServerId.
     bnd (lift (GetCurrentUser ctx)) (\<lambda>currentUser.
       ret (if \<not> IsAuthenticated currentUser then Denied (cu_UserId currentUser) virtualServerId
            else case HasPermission currentUser p of
              None \<Rightarrow> Denied (cu_UserId currentUser) virtualServerId
            | Some sourceRoles \<Rightarrow>
                Allowed (cu_UserId currentUser) virtualServerId (AllowedByPermission p sourceRoles))))"

text \<open>A request of the mediator: the methods of the interface \<^verbatim>\<open>Policy\<close> and its JSON form.\<close>

record request =
  rq_IsAllowed :: "req_ctx \<Rightarrow> policy_result act"
  rq_Name :: string
  rq_LogRequest :: bool
  rq_LogResponse :: bool
  rq_json :: json

definition evaluatePolicy :: "request \<Rightarrow> req_ctx \<Rightarrow> policy_result act" where
  "evaluatePolicy rq ctx =
     bnd (lift (GetCurrentUser ctx)) (\<lambda>currentUser.
     bnd (if rc_vsName ctx \<noteq> []
          then bnd (wrapped ''getting virtual server'' (vs_by_name (rc_vsName ctx))) (\<lambda>v. ret (bm_id (vs_base v)))
          else ret uuid_Nil) (\<lambda>virtualServerId.
       case HasPermission currentUser SystemUser of
         Some sourceRoles \<Rightarrow>
           ret (Allowed (cu_UserId currentUser) virtualServerId (AllowedByPermission SystemUser sourceRoles))
       | None \<Rightarrow> rq_IsAllowed rq ctx))"

section \<open>The audit log\<close>

definition NewAllowedAuditLog ::
  "uuid \<Rightarrow> time \<Rightarrow> uuid \<Rightarrow> uuid \<Rightarrow> request \<Rightarrow> json \<Rightarrow> allow_reason \<Rightarrow> audit_log" where
  "NewAllowedAuditLog i now virtualServerId userId rq response reason =
     \<lparr>al_base = NewBaseModel i now, al_virtualServerId = virtualServerId, al_userId = Some userId,
      al_requestType = rq_Name rq, al_request = Doc (rq_json rq), al_response = Some (Doc response),
      al_allowed = True, al_allowReasonType = Some (GetReasonType reason),
      al_allowReason = Some (Doc (allow_reason_json reason))\<rparr>"

definition NewDeniedAuditLog :: "uuid \<Rightarrow> time \<Rightarrow> uuid \<Rightarrow> uuid \<Rightarrow> request \<Rightarrow> audit_log" where
  "NewDeniedAuditLog i now virtualServerId userId rq =
     \<lparr>al_base = NewBaseModel i now, al_virtualServerId = virtualServerId, al_userId = Some userId,
      al_requestType = rq_Name rq, al_request = Doc (rq_json rq), al_response = None,
      al_allowed = False, al_allowReasonType = None, al_allowReason = None\<rparr>"

text \<open>The reason of a denied result is nil, so asking it for its kind panics.\<close>

definition isBootstrapRequest :: "policy_result \<Rightarrow> bool go" where
  "isBootstrapRequest p =
     (if pr_userId p = uuid_Nil then
        (case p of
           Allowed _ vsId reason \<Rightarrow> Inr (IsServiceUserReason reason \<and> vsId = uuid_Nil)
         | Denied _ _ \<Rightarrow> nil_dereference)
      else Inr False)"

definition dbAuditLogger_Log :: "env \<Rightarrow> request \<Rightarrow> policy_result \<Rightarrow> json \<Rightarrow> unit act" where
  "dbAuditLogger_Log E rq p response =
     bnd (lift (isBootstrapRequest p)) (\<lambda>bootstrap.
       if bootstrap then ret ()
       else
         bnd (uuid_New E) (\<lambda>i.
         bnd get_now (\<lambda>now.
           db_write (AuditLogRepository_Insert
             (case p of
                Allowed userId vsId reason \<Rightarrow> NewAllowedAuditLog i now vsId userId rq response reason
              | Denied userId vsId \<Rightarrow> NewDeniedAuditLog i now vsId userId rq)))))"

section \<open>The behaviours around a request\<close>

definition PolicyBehaviour :: "env \<Rightarrow> ('r \<Rightarrow> json) \<Rightarrow> request \<Rightarrow> req_ctx \<Rightarrow> 'r act \<Rightarrow> 'r act" where
  "PolicyBehaviour E to_json rq ctx next_handler =
     bnd (wrapped ''failed to check if request is allowed'' (evaluatePolicy rq ctx)) (\<lambda>p.
       case p of
         Denied _ _ \<Rightarrow> err (Wrap ''request not allowed'' (Named ErrHttpUnauthorized))
       | Allowed _ _ _ \<Rightarrow>
           bnd next_handler (\<lambda>response.
             if rq_LogRequest rq then
               bnd (wrapped ''failed to log request''
                      (dbAuditLogger_Log E rq p (if rq_LogResponse rq then to_json response else JNull)))
                 (\<lambda>_. ret response)
             else ret response))"

definition SaveChangesBehaviour :: "'r act \<Rightarrow> 'r act" where
  "SaveChangesBehaviour next_handler =
     bnd next_handler (\<lambda>response.
     bnd (wrapped ''saving changes'' db_save) (\<lambda>_. ret response))"

text \<open>\<^verbatim>\<open>mediatr.Send\<close> with the behaviours in the order in which \<^verbatim>\<open>setup/mediator.go\<close> registers them.\<close>

definition Send :: "env \<Rightarrow> ('r \<Rightarrow> json) \<Rightarrow> request \<Rightarrow> req_ctx \<Rightarrow> 'r act \<Rightarrow> 'r act" where
  "Send E to_json rq ctx handler = PolicyBehaviour E to_json rq ctx (SaveChangesBehaviour handler)"

text \<open>
  A request as the scope middleware runs it: when the handler is done, however it ended, the
  scope closes and saves what is left in the tracker; a failure to do so panics.
\<close>

definition serve :: "unit act \<Rightarrow> unit act" where
  "serve handler w =
     (case handler w of
        (r, w') \<Rightarrow>
          (case db_save w' of
             (Inr _, w2) \<Rightarrow> (r, w2)
           | (Inl _, w2) \<Rightarrow> (Inl (Panic ''failed to close scope''), w2)))"

end
