(* ===== verification/Go_Url.thy ===== *)
theory Go_Url
  imports Go_Encoding "HOL-Library.List_Lexorder"
begin

text \<open>
  Query strings as the Go package \<^verbatim>\<open>net/url\<close> reads and writes them, and the parts of a URL that
  the code replaces. The encoding of a map of values reads back as that map.
\<close>

section \<open>Escapes\<close>

definition unreserved :: "char \<Rightarrow> bool" where
  "unreserved c = (let n = (of_char c :: nat) in
     (97 \<le> n \<and> n \<le> 122) \<or> (65 \<le> n \<and> n \<le> 90) \<or> (48 \<le> n \<and> n \<le> 57) \<or>
     c \<in> {CHR ''-'', CHR ''_'', CHR ''.'', CHR ''~''})"

definition upper_hex :: "nat \<Rightarrow> char" where
  "upper_hex n = (if n < 10 then char_of (n + 48) else char_of (n + 55))"

definition unhex :: "char \<Rightarrow> nat option" where
  "unhex c = (let n = (of_char c :: nat) in
     if 48 \<le> n \<and> n \<le> 57 then Some (n - 48)
     else if 97 \<le> n \<and> n \<le> 102 then Some (n - 87)
     else if 65 \<le> n \<and> n \<le> 70 then Some (n - 55) else None)"

definition escape_char :: "char \<Rightarrow> string" where
  "escape_char c =
     (if unreserved c then [c] else if c = CHR '' '' then [CHR ''+'']
      else [CHR ''%'', upper_hex (of_char c div 16), upper_hex (of_char c mod 16)])"

definition QueryEscape :: "string \<Rightarrow> string" where
  "QueryEscape s = concat (map escape_char s)"

fun QueryUnescape :: "string \<Rightarrow> string option" where
  "QueryUnescape [] = Some []"
| "QueryUnescape (c # s) =
     (if c = CHR ''%'' then
        (case s of
           a # b # t \<Rightarrow>
             (case (unhex a, unhex b) of
                (Some x, Some y) \<Rightarrow> map_option (Cons (char_of (16 * x + y))) (QueryUnescape t)
              | _ \<Rightarrow> None)
         | _ \<Rightarrow> None)
      else map_option (Cons (if c = CHR ''+'' then CHR '' '' else c)) (QueryUnescape s))"

lemma unhex_upper_hex: "n < 16 \<Longrightarrow> unhex (upper_hex n) = Some n"
  by (simp add: unhex_def upper_hex_def Let_def)

lemma unreserved_neq: "unreserved c \<Longrightarrow> c \<noteq> CHR ''%'' \<and> c \<noteq> CHR ''+'' \<and> c \<noteq> CHR ''&'' \<and> c \<noteq> CHR ''='' \<and> c \<noteq> CHR '';''"
  by (auto simp: unreserved_def Let_def)

lemma upper_hex_neq: "n < 16 \<Longrightarrow> upper_hex n \<noteq> CHR ''&'' \<and> upper_hex n \<noteq> CHR ''='' \<and> upper_hex n \<noteq> CHR '';''"
proof -
  assume "n < 16"
  then have "(of_char (upper_hex n) :: nat) \<ge> 48 \<and> (of_char (upper_hex n) :: nat) \<noteq> 59 \<and> (of_char (upper_hex n) :: nat) \<noteq> 61"
    by (auto simp: upper_hex_def)
  then show ?thesis by auto
qed

lemma high_nibble: "(of_char c :: nat) div 16 < 16"
  using char_code_less [of c] by (simp add: less_mult_imp_div_less)

lemma char_nibbles: "char_of (16 * (of_char c div 16) + of_char c mod 16 :: nat) = c"
  by simp

lemma QueryUnescape_escape_char: "QueryUnescape (escape_char c @ s) = map_option (Cons c) (QueryUnescape s)"
proof -
  have "(of_char c :: nat) div 16 < 16" by (rule high_nibble)
  then show ?thesis
    using unreserved_neq [of c] by (auto simp: escape_char_def unhex_upper_hex)
qed

lemma QueryUnescape_QueryEscape [simp]: "QueryUnescape (QueryEscape s) = Some s"
  by (induction s) (simp_all add: QueryEscape_def QueryUnescape_escape_char)

lemma escape_char_safe: "x \<in> set (escape_char c) \<Longrightarrow> x \<noteq> CHR ''&'' \<and> x \<noteq> CHR ''='' \<and> x \<noteq> CHR '';''"
proof -
  have "(of_char c :: nat) div 16 < 16" by (rule high_nibble)
  then have "upper_hex (of_char c div 16) \<noteq> CHR ''&'' \<and> upper_hex (of_char c div 16) \<noteq> CHR ''='' \<and>
      upper_hex (of_char c div 16) \<noteq> CHR '';''"
    "upper_hex (of_char c mod 16) \<noteq> CHR ''&'' \<and> upper_hex (of_char c mod 16) \<noteq> CHR ''='' \<and>
      upper_hex (of_char c mod 16) \<noteq> CHR '';''"
    by (auto intro!: upper_hex_neq)
  then show "x \<in> set (escape_char c) \<Longrightarrow> x \<noteq> CHR ''&'' \<and> x \<noteq> CHR ''='' \<and> x \<noteq> CHR '';''"
    using unreserved_neq [of c] by (auto simp: escape_char_def split: if_splits)
qed

lemma QueryEscape_safe:
  "x \<in> set (QueryEscape s) \<Longrightarrow> x \<noteq> CHR ''&'' \<and> x \<noteq> CHR ''='' \<and> x \<noteq> CHR '';''"
  by (induction s) (auto simp: QueryEscape_def dest: escape_char_safe)

section \<open>Values\<close>

type_synonym url_values = "(string \<times> string list) list"

definition Values_Get :: "string \<Rightarrow> url_values \<Rightarrow> string" where
  "Values_Get k vs = (case map_of vs k of Some (v # _) \<Rightarrow> v | _ \<Rightarrow> [])"

definition Values_Set :: "string \<Rightarrow> string \<Rightarrow> url_values \<Rightarrow> url_values" where
  "Values_Set k v vs = AList.update k [v] vs"

definition Values_Add :: "string \<Rightarrow> string \<Rightarrow> url_values \<Rightarrow> url_values" where
  "Values_Add k v vs = AList.update k ((case map_of vs k of Some ws \<Rightarrow> ws | None \<Rightarrow> []) @ [v]) vs"

definition Cut :: "string \<Rightarrow> char \<Rightarrow> string \<times> string" where
  "Cut s c = (takeWhile (\<lambda>x. x \<noteq> c) s, drop 1 (dropWhile (\<lambda>x. x \<noteq> c) s))"

text \<open>One piece of a query between ampersands; a piece that cannot be read is skipped.\<close>

definition parse_piece :: "string \<Rightarrow> (string \<times> string) option" where
  "parse_piece piece =
     (if CHR '';'' \<in> set piece \<or> piece = [] then None
      else case Cut piece CHR ''='' of
        (key, v) \<Rightarrow>
          (case (QueryUnescape key, QueryUnescape v) of
             (Some k, Some v) \<Rightarrow> Some (k, v) | _ \<Rightarrow> None))"

definition ParseQuery :: "string \<Rightarrow> url_values" where
  "ParseQuery query =
     fold (\<lambda>(k, v). Values_Add k v) (List.map_filter parse_piece (Split query CHR ''&'')) []"

definition write_pair :: "string \<times> string \<Rightarrow> string" where
  "write_pair p = QueryEscape (fst p) @ CHR ''='' # QueryEscape (snd p)"

definition value_pairs :: "url_values \<Rightarrow> (string \<times> string) list" where
  "value_pairs vs = concat (map (\<lambda>(k, ws). map (Pair k) ws) (sort_key fst vs))"

definition Values_Encode :: "url_values \<Rightarrow> string" where
  "Values_Encode vs = Join (map write_pair (value_pairs vs)) ''&''"

lemma Cut_append: "c \<notin> set a \<Longrightarrow> Cut (a @ c # b) c = (a, b)"
proof -
  assume "c \<notin> set a"
  then have "x \<in> set a \<Longrightarrow> x \<noteq> c" for x by auto
  then show ?thesis by (simp add: Cut_def)
qed

lemma write_pair_safe: "CHR ''&'' \<notin> set (write_pair p)"
  using QueryEscape_safe by (auto simp: write_pair_def)

lemma parse_piece_write: "parse_piece (write_pair p) = Some p"
proof -
  have "CHR ''='' \<notin> set (QueryEscape (fst p))" "CHR '';'' \<notin> set (write_pair p)"
    using QueryEscape_safe by (auto simp: write_pair_def)
  then show ?thesis by (simp add: parse_piece_def write_pair_def Cut_append)
qed

lemma map_filter_write: "List.map_filter parse_piece (map write_pair ps) = ps"
  by (induction ps) (simp_all add: List.map_filter_simps parse_piece_write)

lemma ParseQuery_pairs:
  "ParseQuery (Join (map write_pair ps) ''&'') = fold (\<lambda>(k, v). Values_Add k v) ps []"
proof (cases "ps = []")
  case True
  then show ?thesis by (simp add: ParseQuery_def List.map_filter_simps parse_piece_def)
next
  case False
  then have "Split (Join (map write_pair ps) ''&'') CHR ''&'' = map write_pair ps"
    using write_pair_safe by (intro Split_Join) auto
  then show ?thesis by (simp add: ParseQuery_def map_filter_write)
qed

lemma map_of_fold_Add:
  "map_of (fold (\<lambda>(k, v). Values_Add k v) ps vs) k =
     (case map snd (filter (\<lambda>p. fst p = k) ps) of
        [] \<Rightarrow> map_of vs k
      | ws \<Rightarrow> Some ((case map_of vs k of Some us \<Rightarrow> us | None \<Rightarrow> []) @ ws))"
proof (induction ps arbitrary: vs)
  case (Cons p ps)
  obtain k' v where "p = (k', v)" by (cases p)
  with Cons [of "Values_Add k' v vs"] show ?case
    by (auto simp: Values_Add_def update_conv' split: list.splits option.splits)
qed simp

lemma filter_value_pairs:
  assumes "distinct (map fst vs)"
  shows "map snd (filter (\<lambda>p. fst p = k) (value_pairs vs)) = (case map_of vs k of Some ws \<Rightarrow> ws | None \<Rightarrow> [])"
proof -
  have "map snd (filter (\<lambda>p. fst p = k) (concat (map (\<lambda>(k, ws). map (Pair k) ws) us))) =
      (case map_of us k of Some ws \<Rightarrow> ws | None \<Rightarrow> [])" if "distinct (map fst us)" for us :: url_values
    using that
  proof (induction us)
    case (Cons u us)
    have "map_of us (fst u) = None" using Cons.prems by (simp add: map_of_eq_None_iff)
    with Cons show ?case
      by (cases u) (auto simp: filter_map comp_def)
  qed simp
  moreover have "map_of (sort_key fst vs) = map_of vs" "distinct (map fst (sort_key fst vs))"
    using assms by (auto intro!: map_of_eqI simp: distinct_map inj_on_def
        map_of_eq_Some_iff [of "sort_key fst vs"] map_of_eq_Some_iff [OF assms])
  ultimately show ?thesis by (simp add: value_pairs_def)
qed

text \<open>What was encoded reads back; a key without values is lost.\<close>

lemma ParseQuery_Encode:
  assumes "distinct (map fst vs)"
  shows "map_of (ParseQuery (Values_Encode vs)) k = (case map_of vs k of Some (w # ws) \<Rightarrow> Some (w # ws) | _ \<Rightarrow> None)"
  using filter_value_pairs [OF assms, of k]
  by (simp add: Values_Encode_def ParseQuery_pairs map_of_fold_Add) (auto split: list.splits option.splits)

lemma distinct_Values_Set [simp]: "distinct (map fst vs) \<Longrightarrow> distinct (map fst (Values_Set k v vs))"
  by (simp add: Values_Set_def distinct_update)

lemma distinct_ParseQuery [simp]: "distinct (map fst (ParseQuery q))"
proof -
  have "distinct (map fst vs) \<Longrightarrow> distinct (map fst (fold (\<lambda>(k, v). Values_Add k v) ps vs))" for vs ps
    by (induction ps arbitrary: vs) (auto simp: Values_Add_def distinct_update)
  then show ?thesis by (simp add: ParseQuery_def)
qed

lemma map_of_Values_Set [simp]: "map_of (Values_Set k v vs) k' = (if k' = k then Some [v] else map_of vs k')"
  by (simp add: Values_Set_def update_conv')

lemma Values_Get_ParseQuery_Encode:
  assumes "distinct (map fst vs)"
  shows "Values_Get k (ParseQuery (Values_Encode vs)) = Values_Get k vs"
  by (simp add: Values_Get_def ParseQuery_Encode [OF assms] split: option.splits list.splits)

section \<open>URLs\<close>

text \<open>
  A parsed URL, as far as the code uses it: the text before the query, the query, whether a
  question mark stays when the query is empty, and the text of the fragment.
\<close>

record go_url =
  url_head :: string
  url_RawQuery :: string
  url_ForceQuery :: bool
  url_tail :: string

definition url_Query :: "go_url \<Rightarrow> url_values" where
  "url_Query u = ParseQuery (url_RawQuery u)"

definition url_String :: "go_url \<Rightarrow> string" where
  "url_String u =
     url_head u @ (if url_ForceQuery u \<or> url_RawQuery u \<noteq> [] then CHR ''?'' # url_RawQuery u else []) @ url_tail u"

end
