(* ===== verification/OidcTokens.thy ===== *)
theory OidcTokens
  imports Authz Go_Url
begin

text \<open>
  The parts that the endpoints of OpenID Connect share (\<^verbatim>\<open>internal/handlers/oidc.go\<close>):
  requests, client authentication, the proof key of a code, the claims of a token
  (\<^verbatim>\<open>internal/services/claimsMapping\<close>), and the generation of tokens.
\<close>

section \<open>Requests and answers\<close>

text \<open>
  What a handler reads of a request. \<open>hr_Form\<close> and \<open>hr_PostForm\<close> give the first value of a
  parameter, or the empty string; \<open>hr_ParseForm\<close> is the result of parsing them.
\<close>

record http_request =
  hr_ParseForm :: "unit go"
  hr_Form :: "string \<Rightarrow> string"
  hr_PostForm :: "string \<Rightarrow> string"
  hr_BasicAuth :: "(string \<times> string) option"
  hr_Authorization :: string
  hr_URL :: string
  hr_RawQuery :: string
  hr_vsName :: string
  hr_session :: "current_session option"

definition GetVirtualServerName :: "http_request \<Rightarrow> string go" where
  "GetVirtualServerName r =
     (if hr_vsName r = [] then Inl (Err (Named ErrMissingVirtualServerNameInContext)) else Inr (hr_vsName r))"

text \<open>The texts of the errors, for the answers that show them.\<close>

fun sentinel_text :: "sentinel \<Rightarrow> string" where
  "sentinel_text ErrHttpUnauthorized = ''unauthorized''"
| "sentinel_text ErrHttpNotFound = ''not found''"
| "sentinel_text ErrHttpBadRequest = ''bad request''"
| "sentinel_text ErrHttpConflict = ''conflict''"
| "sentinel_text ErrHttpServiceUnavailable = ''service unavailable''"
| "sentinel_text ErrVirtualServerNotFound = ''virtual server: not found''"
| "sentinel_text ErrUserNotFound = ''user: not found''"
| "sentinel_text ErrApplicationNotFound = ''application: not found''"
| "sentinel_text ErrRoleNotFound = ''role: not found''"
| "sentinel_text ErrGroupNotFound = ''group: not found''"
| "sentinel_text ErrProjectNotFound = ''project: not found''"
| "sentinel_text ErrSessionNotFound = ''session: not found''"
| "sentinel_text ErrFileNotFoud = ''file: not found''"
| "sentinel_text ErrTemplateNotFound = ''template: not found''"
| "sentinel_text ErrCredentialNotFound = ''credential: not found''"
| "sentinel_text ErrUserApplicationMetadataNotFound = ''user application metadata: not found''"
| "sentinel_text ErrPasswordRuleNotFound = ''password rule: not found''"
| "sentinel_text ErrResourceServerNotFound = ''resource server: not found''"
| "sentinel_text ErrResourceServerScopeNotFound = ''resource server scope: not found''"
| "sentinel_text ErrRegistrationNotEnabled = ''registration is not enabled: bad request''"
| "sentinel_text ErrInvalidUuid = ''invalid uuid: bad request''"
| "sentinel_text ErrVersionMismatch = ''version mismatch: conflict''"
| "sentinel_text ErrTokenNotFound = ''token: not found''"
| "sentinel_text ErrKvNotFound = ''not found''"
| "sentinel_text ErrDecodingToken = ''error decoding token''"
| "sentinel_text ErrWrongCredentialCast = ''wrong credential cast''"
| "sentinel_text ErrMissingVirtualServerNameInContext = ''no virtual server name in context''"
| "sentinel_text ErrSignatureInvalid = ''signature verification failed: unauthorized''"
| "sentinel_text ErrSignatureInvalidAlgorithm = ''invalid public key algorithm''"

fun Error :: "goerr \<Rightarrow> string" where
  "Error (ErrorsNew msg) = msg"
| "Error (Named s) = sentinel_text s"
| "Error (Wrap msg e) = msg @ '': '' @ Error e"
| "Error (Joined es) = Join (map Error es) [CHR 0x0A]"

definition writeOAuthError :: "string \<Rightarrow> string \<Rightarrow> unit act" where
  "writeOAuthError code description =
     bnd (emit (WriteHeader 400)) (\<lambda>_.
     emit (WriteJson (JObj [(''error'', JStr code), (''error_description'', JStr description)])))"

text \<open>A value of the key-value store used as a string.\<close>

definition token_text :: "env \<Rightarrow> jtext \<Rightarrow> string" where
  "token_text E t = (case t of Plain s \<Rightarrow> s | Doc j \<Rightarrow> e_json_Text E j)"

text \<open>The lookups of the handlers.\<close>

definition vs_or_nil :: "string \<Rightarrow> virtual_server option act" where
  "vs_or_nil name = wrapped ''getting virtual server'' (db_read (\<lambda>st.
     VirtualServerRepository_FirstOrNil (st_VirtualServers st) (VirtualServerFilter_Name name NewVirtualServerFilter)))"

definition app_or_nil :: "uuid \<Rightarrow> string \<Rightarrow> application option act" where
  "app_or_nil vsId name = wrapped ''getting application'' (db_read (\<lambda>st.
     ApplicationRepository_FirstOrNil (st_Applications st)
       (ApplicationFilter_Name name (ApplicationFilter_VirtualServerId vsId NewApplicationFilter))))"

definition user_or_nil :: "user_filter \<Rightarrow> user option act" where
  "user_or_nil f = wrapped ''getting user'' (db_read (\<lambda>st. UserRepository_FirstOrNil (st_Users st) f))"

definition client_credentials :: "http_request \<Rightarrow> string \<times> string" where
  "client_credentials r =
     (case hr_BasicAuth r of
        Some (clientId, clientSecret) \<Rightarrow> (clientId, clientSecret)
      | None \<Rightarrow> (hr_Form r ''client_id'', hr_Form r ''client_secret''))"

section \<open>Client authentication\<close>

definition authenticateApplication :: "virtual_server \<Rightarrow> string \<Rightarrow> string \<Rightarrow> application act" where
  "authenticateApplication virtualServer applicationName applicationSecret =
     bnd (app_or_nil (bm_id (vs_base virtualServer)) applicationName) (\<lambda>app.
       case app of
         None \<Rightarrow> err (ErrorsNew ''application not found'')
       | Some app \<Rightarrow>
           (case app_type app of
              ApplicationTypeConfidential \<Rightarrow>
                if applicationSecret = [] then err (ErrorsNew ''client_secret is required for confidential clients'')
                else if \<not> CheapCompareHash applicationSecret (app_hashedSecret app) then err (ErrorsNew ''invalid secret'')
                else ret app
            | ApplicationTypePublic \<Rightarrow>
                if applicationSecret \<noteq> [] then err (ErrorsNew ''public clients must not present a client_secret'')
                else ret app
            | OtherApplicationType ty \<Rightarrow> err (ErrorsNew (''unsupported application type: '' @ ty))))"

text \<open>The proof key: the challenge is the encoded hash of the verifier.\<close>

definition verifyPKCE :: "string \<Rightarrow> string \<Rightarrow> string \<Rightarrow> unit go" where
  "verifyPKCE verifier challenge challengeMethod =
     (if verifier = [] then Inl (Err (ErrorsNew ''code_verifier is required''))
      else if length verifier < 43 \<or> length verifier > 128
        then Inl (Err (ErrorsNew ''code_verifier length must be between 43 and 128 characters''))
      else if challengeMethod = ''S256'' then
        (if RawURLEncoding_EncodeToString (sha256_Sum256 verifier) \<noteq> challenge
         then Inl (Err (ErrorsNew ''code_verifier does not match code_challenge'')) else Inr ())
      else Inl (Err (ErrorsNew (''unsupported code_challenge_method: '' @ challengeMethod))))"

section \<open>Claims (services/claimsMapping/claimsMapping.go)\<close>

record mapping_params =
  mp_Roles :: "string list"
  mp_ApplicationRoles :: "string list"
  mp_GlobalMetadata :: json
  mp_AppMetadata :: json

definition defaultMapping :: "mapping_params \<Rightarrow> json_obj" where
  "defaultMapping p = [(''roles'', json_strings (mp_Roles p)), (''application_roles'', json_strings (mp_ApplicationRoles p))]"

text \<open>The script runs with the parameters as global variables; its result must be an object.\<close>

definition runCustomClaimsMappingScript :: "env \<Rightarrow> string \<Rightarrow> mapping_params \<Rightarrow> json_obj go" where
  "runCustomClaimsMappingScript E script p =
     (case e_script_Run E script (JObj
        [(''roles'', json_strings (mp_Roles p)), (''applicationRoles'', json_strings (mp_ApplicationRoles p)),
         (''globalMetadata'', mp_GlobalMetadata p), (''appMetadata'', mp_AppMetadata p)]) of
        None \<Rightarrow> Inl (Err (Wrap ''failed running script'' (ErrorsNew ''script'')))
      | Some (JObj ms) \<Rightarrow> Inr ms
      | Some _ \<Rightarrow> Inl (Err (ErrorsNew ''failed casting result to map[string]any'')))"

text \<open>Every failure falls back to the default mapping.\<close>

definition MapClaims :: "env \<Rightarrow> uuid \<Rightarrow> mapping_params \<Rightarrow> json_obj act" where
  "MapClaims E applicationId p =
     bnd (catch (db_read (\<lambda>st. ApplicationRepository_FirstOrNil (st_Applications st)
            (ApplicationFilter_Id applicationId NewApplicationFilter)))) (\<lambda>app.
       ret (case app of
              Inl _ \<Rightarrow> defaultMapping p
            | Inr None \<Rightarrow> defaultMapping p
            | Inr (Some app) \<Rightarrow>
                (case app_claimsMappingScript app of
                   None \<Rightarrow> defaultMapping p
                 | Some script \<Rightarrow>
                     (case runCustomClaimsMappingScript E script p of
                        Inl _ \<Rightarrow> defaultMapping p | Inr claims \<Rightarrow> claims))))"

section \<open>Token generation\<close>

definition appSigningAlgorithm :: "virtual_server \<Rightarrow> application \<Rightarrow> signing_algorithm" where
  "appSigningAlgorithm vs app =
     (case app_signingAlgorithm app of Some alg \<Rightarrow> alg | None \<Rightarrow> vs_primarySigningAlgorithm vs)"

text \<open>The method is known by the name it has in the header of a token.\<close>

definition getJwtSigningMethod :: "signing_algorithm \<Rightarrow> string go" where
  "getJwtSigningMethod algorithm =
     (if algorithm = SigningAlgorithmEdDSA then Inr ''EdDSA''
      else if algorithm = SigningAlgorithmRS256 then Inr ''RS256''
      else Inl (Err (ErrorsNew (''unsupported signing algorithm: '' @ algorithm))))"

record token_generation_params =
  tgp_UserId :: uuid
  tgp_VirtualServerName :: string
  tgp_ClientId :: string
  tgp_ApplicationId :: uuid
  tgp_GrantedScopes :: "string list"
  tgp_UserDisplayName :: string
  tgp_UserPrimaryEmail :: string
  tgp_ExternalUrl :: string
  tgp_KeyPair :: key_pair
  tgp_IssuedAt :: time
  tgp_AccessTokenExpiry :: duration
  tgp_IdTokenExpiry :: duration
  tgp_RefreshTokenExpiry :: duration
  tgp_Nonce :: string
  tgp_AuthenticatedAt :: time
  tgp_AccessTokenHeaderType :: string

record refresh_token_params =
  rtp_VirtualServerName :: string
  rtp_GrantedScopes :: "string list"
  rtp_ClientId :: string
  rtp_UserId :: uuid

record access_token_params =
  atp_ExternalUrl :: string
  atp_VirtualServerName :: string
  atp_ClientId :: string
  atp_ApplicationId :: uuid
  atp_GrantedScopes :: "string list"
  atp_IssuedAt :: time
  atp_Expiry :: duration
  atp_UserId :: uuid
  atp_KeyPair :: key_pair
  atp_HeaderType :: string

record id_token_params =
  itp_ClientId :: string
  itp_ExternalUrl :: string
  itp_UserDisplayName :: string
  itp_VirtualServerName :: string
  itp_Nonce :: string
  itp_IssuedAt :: time
  itp_Expiry :: duration
  itp_UserId :: uuid
  itp_KeyPair :: key_pair
  itp_GrantedScopes :: "string list"
  itp_AuthenticatedAt :: time

definition ToAccessTokenGenerationParams :: "token_generation_params \<Rightarrow> access_token_params" where
  "ToAccessTokenGenerationParams t =
     \<lparr>atp_ExternalUrl = tgp_ExternalUrl t, atp_VirtualServerName = tgp_VirtualServerName t,
      atp_ClientId = tgp_ClientId t, atp_ApplicationId = tgp_ApplicationId t,
      atp_GrantedScopes = tgp_GrantedScopes t, atp_IssuedAt = tgp_IssuedAt t,
      atp_Expiry = tgp_AccessTokenExpiry t, atp_UserId = tgp_UserId t, atp_KeyPair = tgp_KeyPair t,
      atp_HeaderType = tgp_AccessTokenHeaderType t\<rparr>"

definition ToIdTokenGenerationParams :: "token_generation_params \<Rightarrow> id_token_params" where
  "ToIdTokenGenerationParams t =
     \<lparr>itp_ClientId = tgp_ClientId t, itp_ExternalUrl = tgp_ExternalUrl t,
      itp_UserDisplayName = tgp_UserDisplayName t, itp_VirtualServerName = tgp_VirtualServerName t,
      itp_Nonce = tgp_Nonce t, itp_IssuedAt = tgp_IssuedAt t, itp_Expiry = tgp_IdTokenExpiry t,
      itp_UserId = tgp_UserId t, itp_KeyPair = tgp_KeyPair t, itp_GrantedScopes = tgp_GrantedScopes t,
      itp_AuthenticatedAt = tgp_AuthenticatedAt t\<rparr>"

definition ToRefreshTokenGenerationParams :: "token_generation_params \<Rightarrow> refresh_token_params" where
  "ToRefreshTokenGenerationParams t =
     \<lparr>rtp_VirtualServerName = tgp_VirtualServerName t, rtp_GrantedScopes = tgp_GrantedScopes t,
      rtp_ClientId = tgp_ClientId t, rtp_UserId = tgp_UserId t\<rparr>"

record generated_tokens =
  gt_IdToken :: string
  gt_AccessToken :: string
  gt_RefreshToken :: string
  gt_ExpiresIn :: int

definition issuer :: "string \<Rightarrow> string \<Rightarrow> string" where
  "issuer externalUrl vsName = externalUrl @ ''/oidc/'' @ vsName"

text \<open>\<^verbatim>\<open>jwt.NewWithClaims\<close> with further members of the header, signed with a private key.\<close>

definition SignedString :: "env \<Rightarrow> string \<Rightarrow> json_obj \<Rightarrow> json_obj \<Rightarrow> key_pair \<Rightarrow> string go" where
  "SignedString E signingMethod header claims keyPair =
     (case e_jwt_Sign E signingMethod (kp_privateKey keyPair)
             (fold (\<lambda>(k, v). AList.update k v) header [(''typ'', JStr ''JWT''), (''alg'', JStr signingMethod)])
             (JObj claims) of
        None \<Rightarrow> Inl (Err (ErrorsNew ''signing'')) | Some s \<Rightarrow> Inr s)"

definition id_token_claims :: "env \<Rightarrow> id_token_params \<Rightarrow> json_obj" where
  "id_token_claims E params =
     [(''sub'', JStr (e_uuid_String E (itp_UserId params))),
      (''iss'', JStr (issuer (itp_ExternalUrl params) (itp_VirtualServerName params))),
      (''aud'', json_strings [itp_ClientId params]),
      (''iat'', JNum (time_Unix (itp_IssuedAt params))),
      (''exp'', JNum (time_Unix (itp_IssuedAt params + itp_Expiry params)))] @
     (if \<not> time_IsZero (itp_AuthenticatedAt params)
      then [(''auth_time'', JNum (time_Unix (itp_AuthenticatedAt params)))] else []) @
     (if ''profile'' \<in> set (itp_GrantedScopes params) then [(''name'', JStr (itp_UserDisplayName params))] else []) @
     (if itp_Nonce params \<noteq> [] then [(''nonce'', JStr (itp_Nonce params))] else [])"

definition generateIdToken :: "env \<Rightarrow> id_token_params \<Rightarrow> string go" where
  "generateIdToken E params =
     go_bind (wrap ''getting jwt signing method'' (getJwtSigningMethod (kp_algorithm (itp_KeyPair params))))
       (\<lambda>signingMethod.
     SignedString E signingMethod [(''kid'', JStr (kp_kid (itp_KeyPair params)))] (id_token_claims E params)
       (itp_KeyPair params))"

text \<open>\<^verbatim>\<open>json.Unmarshal\<close> into a map: null makes it nil.\<close>

definition decode_map :: "jtext \<Rightarrow> json go" where
  "decode_map t = go_bind (json_Unmarshal t) (\<lambda>j.
     case j of JObj ms \<Rightarrow> Inr (JObj ms) | JNull \<Rightarrow> Inr JNull | _ \<Rightarrow> type_error)"

definition role_claim :: "user_role_assignment \<Rightarrow> string go" where
  "role_claim a = (case ura_roleInfo a of
     None \<Rightarrow> nil_dereference | Some info \<Rightarrow> Inr (uri_ProjectSlug info @ '':'' @ uri_Name info))"

definition application_role_claim :: "user_role_assignment \<Rightarrow> string go" where
  "application_role_claim a = (case ura_roleInfo a of
     None \<Rightarrow> nil_dereference | Some info \<Rightarrow> Inr (uri_Name info))"

definition assignments_of :: "uuid \<Rightarrow> (user_role_assignment list \<times> int) act" where
  "assignments_of userId = wrapped ''getting user role assignments'' (db_read (\<lambda>st.
     UserRoleAssignmentRepository_List st
       (UserRoleAssignmentFilter_IncludeRole (UserRoleAssignmentFilter_UserId userId NewUserRoleAssignmentFilter))))"

definition mapClaims :: "env \<Rightarrow> access_token_params \<Rightarrow> json_obj act" where
  "mapClaims E params =
     bnd (user_or_nil (UserFilter_Id (atp_UserId params) NewUserFilter)) (\<lambda>user.
       case user of
         None \<Rightarrow> err (ErrorsNew ''user not found'')
       | Some user \<Rightarrow>
           bnd (assignments_of (atp_UserId params)) (\<lambda>(globalUserRoleAssignments, _).
           bnd (lift (map_go role_claim globalUserRoleAssignments)) (\<lambda>globalRoles.
           bnd (assignments_of (atp_UserId params)) (\<lambda>(applicationUserRoleAssignments, _).
           bnd (lift (map_go application_role_claim applicationUserRoleAssignments)) (\<lambda>applicationRoles.
           bnd (wrapped ''getting application user metadata'' (db_read (\<lambda>st.
                  ApplicationUserMetadataRepository_FirstOrNil (st_ApplicationUserMetadata st)
                    (ApplicationUserMetadataFilter_ApplicationId (atp_ApplicationId params)
                       (ApplicationUserMetadataFilter_UserId (atp_UserId params) NewApplicationUserMetadataFilter)))))
             (\<lambda>applicationUserMetadata.
           bnd (case applicationUserMetadata of
                  None \<Rightarrow> ret (JObj [])
                | Some m \<Rightarrow> wrapped ''unmarshaling application user metadata'' (lift (decode_map (aum_metadata m))))
             (\<lambda>appMetadata.
           bnd (wrapped ''unmarshaling user metadata'' (lift (decode_map (u_metadata user)))) (\<lambda>userMetadata.
             MapClaims E (atp_ApplicationId params)
               \<lparr>mp_Roles = globalRoles, mp_ApplicationRoles = applicationRoles,
                mp_GlobalMetadata = userMetadata, mp_AppMetadata = appMetadata\<rparr>))))))))"

text \<open>The claims that the server sets override those of the mapping.\<close>

definition access_token_claims :: "env \<Rightarrow> access_token_params \<Rightarrow> json_obj \<Rightarrow> json_obj" where
  "access_token_claims E params mapped =
     fold (\<lambda>(k, v). AList.update k v)
       [(''sub'', JStr (e_uuid_String E (atp_UserId params))),
        (''iss'', JStr (issuer (atp_ExternalUrl params) (atp_VirtualServerName params))),
        (''aud'', json_strings [atp_ClientId params]),
        (''scopes'', json_strings (atp_GrantedScopes params)),
        (''iat'', JNum (time_Unix (atp_IssuedAt params))),
        (''exp'', JNum (time_Unix (atp_IssuedAt params + atp_Expiry params)))] mapped"

definition generateAccessToken :: "env \<Rightarrow> access_token_params \<Rightarrow> string act" where
  "generateAccessToken E params =
     bnd (wrapped ''getting jwt signing method'' (lift (getJwtSigningMethod (kp_algorithm (atp_KeyPair params)))))
       (\<lambda>signingMethod.
     bnd (wrapped ''mapping claims'' (mapClaims E params)) (\<lambda>mapped.
     lift (SignedString E signingMethod
       [(''kid'', JStr (kp_kid (atp_KeyPair params))), (''typ'', JStr (atp_HeaderType params))]
       (access_token_claims E params mapped) (atp_KeyPair params))))"

definition generateRefreshTokenInfo :: "env \<Rightarrow> refresh_token_params \<Rightarrow> jtext go" where
  "generateRefreshTokenInfo E params =
     wrap ''marshaling refresh token info'' (json_Marshal (RefreshTokenInfo_json E
       (NewRefreshTokenInfo (rtp_VirtualServerName params) (rtp_ClientId params) (rtp_UserId params)
          (rtp_GrantedScopes params))))"

text \<open>The seconds of a duration, cut to an integer.\<close>

definition duration_seconds :: "duration \<Rightarrow> int" where
  "duration_seconds d = (if 0 \<le> d then d div Second else - ((- d) div Second))"

definition generateTokens :: "env \<Rightarrow> token_generation_params \<Rightarrow> generated_tokens act" where
  "generateTokens E params =
     bnd (wrapped ''signing id token'' (lift (generateIdToken E (ToIdTokenGenerationParams params)))) (\<lambda>idTokenString.
     bnd (wrapped ''signing access token'' (generateAccessToken E (ToAccessTokenGenerationParams params)))
       (\<lambda>accessTokenString.
     bnd (lift (generateRefreshTokenInfo E (ToRefreshTokenGenerationParams params))) (\<lambda>refreshTokenInfoString.
     bnd (wrapped ''generating refresh token'' (GenerateAndStoreToken E OidcRefreshTokenTokenType
            refreshTokenInfoString (tgp_RefreshTokenExpiry params))) (\<lambda>refreshTokenString.
       ret \<lparr>gt_IdToken = idTokenString, gt_AccessToken = accessTokenString, gt_RefreshToken = refreshTokenString,
            gt_ExpiresIn = duration_seconds (tgp_AccessTokenExpiry params)\<rparr>))))"

end
