(* ===== verification/KeyVault.thy ===== *)
theory KeyVault
  imports KeyDirectory OidcTokens
begin

text \<open>
  The key store in HashiCorp Vault (\<^verbatim>\<open>internal/services/keys.go\<close>) over the calls of the client that it makes, which are the
  parameter \<open>vault_client\<close>; what the two stores outside the process guarantee: the rotation job does in a directory
  what it does in memory, while in a vault that keeps the names of deleted keys, as the second version of its key-value
  engine documents, one removal ends the rotation of a virtual server.
\<close>

section \<open>The vault\<close>

text \<open>A value of the data of a secret; only strings and lists are looked at.\<close>

datatype vault_value = VaultString jtext | VaultList "vault_value list" | VaultOther

type_synonym vault_data = "(string \<times> vault_value) list"

record 'v vault_client =
  vc_Put :: "string \<Rightarrow> string \<Rightarrow> vault_data \<Rightarrow> 'v \<Rightarrow> (goerr + unit) \<times> 'v" \<comment> \<open>\<^verbatim>\<open>KVv2(mount).Put\<close>\<close>
  vc_Get :: "string \<Rightarrow> string \<Rightarrow> 'v \<Rightarrow> goerr + vault_data" \<comment> \<open>\<^verbatim>\<open>KVv2(mount).Get\<close>, the data of the secret\<close>
  vc_Delete :: "string \<Rightarrow> string \<Rightarrow> 'v \<Rightarrow> (goerr + unit) \<times> 'v" \<comment> \<open>\<^verbatim>\<open>KVv2(mount).Delete\<close>\<close>
  vc_List :: "string \<Rightarrow> 'v \<Rightarrow> (bool \<times> goerr) + vault_data option"
    \<comment> \<open>\<^verbatim>\<open>Logical().List\<close>: an error, and if it is a response with status 404; the data, if any\<close>

record vault_place =
  vp_mountPath :: string
  vp_prefix :: string

definition vaultKeyStore_keyPath :: "vault_place \<Rightarrow> string \<Rightarrow> signing_algorithm \<Rightarrow> string \<Rightarrow> string" where
  "vaultKeyStore_keyPath v virtualServerName algorithm kid =
     vp_prefix v @ virtualServerName @ ''/'' @ algorithm @ ''/'' @ kid"

definition vaultKeyStore_Add ::
  "'v vault_client \<Rightarrow> key_codec \<Rightarrow> vault_place \<Rightarrow> string \<Rightarrow> key_pair \<Rightarrow> 'v \<Rightarrow> unit go \<times> 'v" where
  "vaultKeyStore_Add V C v virtualServerName keyPair s =
     (case wrap ''exporting key pair'' (strategy_Export C (kp_algorithm keyPair) (kp_privateKey keyPair)) of
        Inl e \<Rightarrow> (Inl e, s)
      | Inr serializedPrivateKey \<Rightarrow>
          (case vc_Put V (vp_mountPath v) (vaultKeyStore_keyPath v virtualServerName (kp_algorithm keyPair) (kp_kid keyPair))
                  [(''data'', VaultString (keyPairJson_Marshal (key_pair_json_of keyPair serializedPrivateKey)))] s of
             (Inl e, s) \<Rightarrow> (Inl (Err (Wrap ''storing key in vault'' e)), s)
           | (Inr _, s) \<Rightarrow> (Inr (), s)))"

definition vaultKeyStore_Get ::
  "'v vault_client \<Rightarrow> key_codec \<Rightarrow> vault_place \<Rightarrow> string \<Rightarrow> signing_algorithm \<Rightarrow> string \<Rightarrow> 'v \<Rightarrow> key_pair option go" where
  "vaultKeyStore_Get V C v virtualServerName algorithm kid s =
     (case vc_Get V (vp_mountPath v) (vaultKeyStore_keyPath v virtualServerName algorithm kid) s of
        Inl e \<Rightarrow>
          if Contains (Error e) ''404'' then Inr None else Inl (Err (Wrap ''reading key from vault'' e))
      | Inr secret \<Rightarrow>
          (case map_of secret ''data'' of
             Some (VaultString rawData) \<Rightarrow>
               go_bind (wrap ''unmarshaling key pair'' (keyPairJson_Unmarshal rawData)) (\<lambda>dto.
               go_bind (GetKeyStrategy (kj_Algorithm dto)) (\<lambda>_.
               go_bind (wrap ''importing key'' (strategy_Import C (kj_Algorithm dto) (kj_PrivateKey dto))) (\<lambda>imported.
                 Inr (Some (key_pair_of (kj_Algorithm dto) imported dto)))))
           | _ \<Rightarrow> failed ''invalid vault data format''))"

definition vaultKeyStore_Remove ::
  "'v vault_client \<Rightarrow> vault_place \<Rightarrow> string \<Rightarrow> signing_algorithm \<Rightarrow> string \<Rightarrow> 'v \<Rightarrow> unit go \<times> 'v" where
  "vaultKeyStore_Remove V v virtualServerName algorithm kid s =
     (case vc_Delete V (vp_mountPath v) (vaultKeyStore_keyPath v virtualServerName algorithm kid) s of
        (Inl e, s) \<Rightarrow> (Inl (Err e), s)
      | (Inr _, s) \<Rightarrow> (Inr (), s))"

text \<open>
  The loop over the names of a listing skips what is no string; a name without a key is a nil pointer that it dereferences.
\<close>

fun vault_keys :: "(string \<Rightarrow> key_pair option go) \<Rightarrow> env \<Rightarrow> vault_value list \<Rightarrow> key_pair list go" where
  "vault_keys Get E [] = Inr []"
| "vault_keys Get E (VaultString k # ks) =
     go_bind (Get (token_text E k)) (\<lambda>keyPair.
     case keyPair of
       None \<Rightarrow> nil_dereference
     | Some kp \<Rightarrow> go_bind (vault_keys Get E ks) (\<lambda>kps. Inr (kp # kps)))"
| "vault_keys Get E (k # ks) = vault_keys Get E ks"

definition vault_metadataPath :: "vault_place \<Rightarrow> string \<Rightarrow> signing_algorithm \<Rightarrow> string" where
  "vault_metadataPath v virtualServerName algorithm =
     vp_mountPath v @ ''/metadata/'' @ vp_prefix v @ virtualServerName @ ''/'' @ algorithm"

definition vaultKeyStore_GetAllForAlgorithm ::
  "'v vault_client \<Rightarrow> env \<Rightarrow> key_codec \<Rightarrow> vault_place \<Rightarrow> string \<Rightarrow> signing_algorithm \<Rightarrow> 'v \<Rightarrow> key_pair list go" where
  "vaultKeyStore_GetAllForAlgorithm V E C v virtualServerName algorithm s =
     (case vc_List V (vault_metadataPath v virtualServerName algorithm) s of
        Inl (missing, e) \<Rightarrow> if missing then Inr [] else Inl (Err (Wrap ''listing keys in vault'' e))
      | Inr None \<Rightarrow> Inr []
      | Inr (Some data) \<Rightarrow>
          (case map_of data ''keys'' of
             Some (VaultList keysRaw) \<Rightarrow>
               vault_keys (\<lambda>kid. vaultKeyStore_Get V C v virtualServerName algorithm kid s) E keysRaw
           | _ \<Rightarrow> Inr []))"

definition vaultKeyStore_GetAll ::
  "'v vault_client \<Rightarrow> env \<Rightarrow> key_codec \<Rightarrow> vault_place \<Rightarrow> string \<Rightarrow> 'v \<Rightarrow> key_pair list go" where
  "vaultKeyStore_GetAll V E C v virtualServerName s =
     GetAll_supported (\<lambda>alg. vaultKeyStore_GetAllForAlgorithm V E C v virtualServerName alg s)"

fun vault_remove_each :: "'v vault_client \<Rightarrow> vault_place \<Rightarrow> string \<Rightarrow> signing_algorithm \<Rightarrow> key_pair list \<Rightarrow> 'v \<Rightarrow>
    unit go \<times> 'v" where
  "vault_remove_each V v virtualServerName algorithm [] s = (Inr (), s)"
| "vault_remove_each V v virtualServerName algorithm (kp # kps) s =
     (case vaultKeyStore_Remove V v virtualServerName algorithm (kp_kid kp) s of
        (Inl e, s) \<Rightarrow> (wrap (''removing key '' @ kp_kid kp) (Inl e), s)
      | (Inr _, s) \<Rightarrow> vault_remove_each V v virtualServerName algorithm kps s)"

definition vaultKeyStore_RemoveAllForAlgorithm ::
  "'v vault_client \<Rightarrow> env \<Rightarrow> key_codec \<Rightarrow> vault_place \<Rightarrow> string \<Rightarrow> signing_algorithm \<Rightarrow> 'v \<Rightarrow> unit go \<times> 'v" where
  "vaultKeyStore_RemoveAllForAlgorithm V E C v virtualServerName algorithm s =
     (case vaultKeyStore_GetAllForAlgorithm V E C v virtualServerName algorithm s of
        Inl e \<Rightarrow> (wrap ''listing keys for removal'' (Inl e), s)
      | Inr keys \<Rightarrow> vault_remove_each V v virtualServerName algorithm keys s)"

text \<open>\<^verbatim>\<open>NewVaultKeyStore\<close>; the first argument makes a client for an address and a token.\<close>

definition vaultKeyStore :: "'v vault_client \<Rightarrow> env \<Rightarrow> key_codec \<Rightarrow> vault_place \<Rightarrow> 'v key_store" where
  "vaultKeyStore V E C v =
     \<lparr>KS_Get = vaultKeyStore_Get V C v, KS_GetAll = vaultKeyStore_GetAll V E C v,
      KS_GetAllForAlgorithm = vaultKeyStore_GetAllForAlgorithm V E C v, KS_Add = vaultKeyStore_Add V C v,
      KS_Remove = vaultKeyStore_Remove V v, KS_RemoveAllForAlgorithm = vaultKeyStore_RemoveAllForAlgorithm V E C v\<rparr>"

definition NewVaultKeyStore ::
  "(string \<Rightarrow> string \<Rightarrow> goerr + 'v vault_client) \<Rightarrow> env \<Rightarrow> key_codec \<Rightarrow> string \<Rightarrow> string \<Rightarrow> string \<Rightarrow> string \<Rightarrow>
   'v key_store go" where
  "NewVaultKeyStore newClient E C addr token mountPath prefix =
     go_bind (or_wrap ''creating vault client'' (newClient addr token)) (\<lambda>client.
       Inr (vaultKeyStore client E C \<lparr>vp_mountPath = mountPath, vp_prefix = prefix\<rparr>))"

lemma vault_keys_all: "vault_keys Get E ks = Inr kps \<Longrightarrow> VaultString k \<in> set ks \<Longrightarrow> \<exists>kp. Get (token_text E k) = Inr (Some kp)"
  by (induction Get E ks arbitrary: kps rule: vault_keys.induct) (auto simp: go_bind_Inr_iff nil_dereference_def split: option.splits)

lemma GetAll_supported_fails: "alg \<in> set SupportedSigningAlgorithms \<Longrightarrow> G alg = Inl e \<Longrightarrow> \<exists>e. GetAll_supported G = Inl e"
  by (cases "GetAll_supported G")
    (auto simp: GetAll_supported_def go_bind_Inr_iff SupportedSigningAlgorithms_def SigningAlgorithmEdDSA_def SigningAlgorithmRS256_def)

section \<open>Rotation in a directory\<close>

lemma RawURLEncoding_no_slash: "CHR ''/'' \<notin> set (RawURLEncoding_EncodeToString s)"
proof
  assume "CHR ''/'' \<in> set (RawURLEncoding_EncodeToString s)"
  then obtain x where "x \<in> set (sextets (map of_char s))" "CHR ''/'' = b64_char True x"
    by (auto simp: RawURLEncoding_EncodeToString_def b64_body_def)
  moreover from this have "x < 64" by (blast intro: sextets_range char_code_bound)
  ultimately have "b64_val True (CHR ''/'') = Some x" using b64_val_char [of x True] by simp
  thus False by (simp add: b64_val_def Let_def)
qed

lemma digest_file_name: "file_name (RawURLEncoding_EncodeToString (sha256_Sum256 s))"
proof -
  have "length (RawURLEncoding_EncodeToString (sha256_Sum256 s)) = 43" by simp
  thus ?thesis using RawURLEncoding_no_slash unfolding file_name_def by fastforce
qed

lemma generated_exportable:
  assumes "codec_ok E C"
  shows "fresh_keys (exportable C) E"
proof -
  have "exportable C (g E now n)" if "GetKeyStrategy alg = Inr g" for alg g now n
  proof -
    obtain pub k where rsa: "e_rsa_GenerateKey E n = (pub, k)" by (cases "e_rsa_GenerateKey E n")
    obtain pub' k' where ed: "e_ed25519_GenerateKey E n = (pub', k')" by (cases "e_ed25519_GenerateKey E n")
    from that consider "alg = SigningAlgorithmRS256" "g = RSAKeyStrategy_Generate"
      | "alg = SigningAlgorithmEdDSA" "g = EdDSAKeyStrategy_Generate"
      by (auto simp: GetKeyStrategy_def split: if_splits)
    thus ?thesis
    proof cases
      case 1
      have "kc_is_rsa C k" "kc_rsa_Public C k = pub" using assms rsa unfolding codec_ok_def by blast+
      thus ?thesis using assms
        by (simp add: 1 exportable_def RSAKeyStrategy_Generate_def rsa computeRSAPublicKeyKid_def digest_file_name
            SupportedSigningAlgorithms_def strategy_Export_def strategy_Import_def GetKeyStrategy_def
            RSAKeyStrategy_Export_def RSAKeyStrategy_Import_def codec_ok_def)
    next
      case 2
      have "kc_is_ed25519 C k'" "kc_ed25519_Public C k' = pub'" using assms ed unfolding codec_ok_def by blast+
      moreover obtain der where "kc_MarshalPKCS8PrivateKey C k' = Inr der" "kc_ParsePKCS8PrivateKey C der = Inr k'"
        using assms calculation(1) unfolding codec_ok_def by blast
      ultimately show ?thesis using assms
        by (simp add: 2 exportable_def EdDSAKeyStrategy_Generate_def ed computeEdCSAPublicKeyKid_def digest_file_name
            SupportedSigningAlgorithms_def strategy_Export_def strategy_Import_def GetKeyStrategy_def
            EdDSAKeyStrategy_Export_def EdDSAKeyStrategy_Import_def codec_ok_def
            SigningAlgorithmRS256_def SigningAlgorithmEdDSA_def)
    qed
  qed
  thus ?thesis
    by (simp add: fresh_keys_def)
qed

text \<open>
  C20: On a file system that does what is documented, the rotation job succeeds on the store in a directory, whatever keys
  it finds there, and leaves each virtual server with a key that is not due for each configured algorithm and with no key
  past its expiration; the keys of other servers stay. It needs names that are plain names of files, and keys
  that are not due for rotation later than they expire.
\<close>

theorem directory_rotation_ensures_keys:
  assumes "files_laws F tree" "codec_ok E C" "keys_tree C path (tree f)" "distinct (map vs_name servers)"
    and "VirtualServerRepository_List (st_VirtualServers st) NewVirtualServerFilter = Inr servers"
    and "\<forall>server \<in> set servers. file_name (vs_name server) \<and>
      set (VirtualServer_AllSigningAlgorithms server) \<subseteq> set SupportedSigningAlgorithms \<and>
      (\<forall>a k kp. keys_view C path (tree f) (vs_name server) a k = Some kp \<longrightarrow> kp_rotatesAt kp \<le> kp_expiresAt kp)"
  shows "\<exists>n' f'. KeyRotateJob E (NewDirectoryKeyStore F C path) now st n f = (Inr (), n', f') \<and>
    keys_tree C path (tree f') \<and>
    (\<forall>server \<in> set servers.
       (\<forall>a \<in> set (VirtualServer_AllSigningAlgorithms server).
          \<exists>k kp. keys_view C path (tree f') (vs_name server) a k = Some kp \<and> now < kp_rotatesAt kp) \<and>
       (\<forall>a k kp. keys_view C path (tree f') (vs_name server) a k = Some kp \<longrightarrow> now \<le> kp_expiresAt kp)) \<and>
    (\<forall>v. v \<notin> vs_name ` set servers \<longrightarrow> keys_view C path (tree f') v = keys_view C path (tree f) v)"
  by (rule key_directory.rotation [OF key_directory.intro [OF assms(1)] generated_exportable [OF assms(2)] assms(3-6)])

text \<open>Encodings for the examples: a key is its own encoding.\<close>

definition plain_codec :: key_codec where
  "plain_codec =
     \<lparr>kc_pem_EncodeToMemory = (\<lambda>type bytes. type @ CHR '':'' # bytes),
      kc_pem_Decode = (\<lambda>t. if CHR '':'' \<in> set t
         then Some (takeWhile (\<lambda>c. c \<noteq> CHR '':'') t, drop 1 (dropWhile (\<lambda>c. c \<noteq> CHR '':'') t)) else None),
      kc_is_rsa = (\<lambda>_. True), kc_is_ed25519 = (\<lambda>_. True),
      kc_rsa_Public = (\<lambda>k. (65537, k)), kc_ed25519_Public = id,
      kc_MarshalPKCS1PrivateKey = id, kc_ParsePKCS1PrivateKey = Inr,
      kc_MarshalPKCS8PrivateKey = Inr, kc_ParsePKCS8PrivateKey = Inr,
      kc_MarshalPKIXPublicKey = (\<lambda>k. case k of RSAPublicKey _ n \<Rightarrow> Inr n | _ \<Rightarrow> Inl (ErrorsNew ''x509''))\<rparr>"

lemma plain_codec_ok: "codec_ok test_env plain_codec"
proof -
  have "takeWhile (\<lambda>c. c \<noteq> CHR '':'') (t @ CHR '':'' # b) = t" "dropWhile (\<lambda>c. c \<noteq> CHR '':'') (t @ CHR '':'' # b) = CHR '':'' # b"
    if "CHR '':'' \<notin> set t" for t b :: string
    using that by (induction t) auto
  thus ?thesis by (simp add: codec_ok_def plain_codec_def test_env_def)
qed

lemma disk_laws: "files_laws tree_files map_of"
  by (rule disk.files_laws_axioms)

theorem directory_rotation_ensures_keys_witness:
  "\<exists>n' f' k kp. KeyRotateJob test_env (NewDirectoryKeyStore tree_files plain_codec ''keys'') 5
      (newStores\<lparr>st_VirtualServers := [(1, sample_server)]\<rparr>) 0 [] = (Inr (), n', f') \<and>
    keys_view plain_codec ''keys'' (map_of f') ''a'' SigningAlgorithmEdDSA k = Some kp \<and> 5 < kp_rotatesAt kp"
proof -
  let ?st = "newStores\<lparr>st_VirtualServers := [(1, sample_server)]\<rparr>"
  have l: "VirtualServerRepository_List (st_VirtualServers ?st) NewVirtualServerFilter = Inr [sample_server]"
    by (simp add: filter_defs repo_defs repo_filtered_def)
  have tree: "keys_tree plain_codec ''keys'' (map_of [])" by (simp add: keys_tree_def open_way_def)
  have "file_name ''a''" "keys_view plain_codec ''keys'' (map_of []) v a k = None" for v a k
    by (simp_all add: file_name_def keys_view_def)
  then show ?thesis
    using directory_rotation_ensures_keys [OF disk_laws plain_codec_ok tree _ l, where now = 5 and n = 0]
    by (simp add: SupportedSigningAlgorithms_def) blast
qed

section \<open>Rotation in a vault\<close>

text \<open>
  What the second version of the key-value engine documents of a deletion: it can be undone, the data of the secret is
  gone and its name is not.
\<close>

definition soft_delete :: "'v vault_client \<Rightarrow> bool" where
  "soft_delete V \<longleftrightarrow>
     (\<forall>mount p s s'. vc_Delete V mount p s = (Inr (), s') \<longrightarrow>
        (\<forall>data. vc_Get V mount p s = Inr data \<longrightarrow> vc_Get V mount p s' = Inr []) \<and>
        (\<forall>q. vc_List V q s' = vc_List V q s))"

lemma vault_removed_fails:
  assumes "soft_delete V" "vc_List V (vault_metadataPath v vs alg) s = Inr (Some data)"
    "map_of data ''keys'' = Some (VaultList ks)" "VaultString (Plain kid) \<in> set ks"
    "vc_Get V (vp_mountPath v) (vaultKeyStore_keyPath v vs alg kid) s = Inr secret"
    "vaultKeyStore_Remove V v vs alg kid s = (Inr (), s')"
  shows "\<exists>e. vaultKeyStore_GetAllForAlgorithm V E C v vs alg s' = Inl e"
proof -
  have "vc_Delete V (vp_mountPath v) (vaultKeyStore_keyPath v vs alg kid) s = (Inr (), s')"
    using assms(6) by (auto simp: vaultKeyStore_Remove_def split: prod.splits sum.splits)
  hence gone: "vc_Get V (vp_mountPath v) (vaultKeyStore_keyPath v vs alg kid) s' = Inr []"
    and kept: "vc_List V (vault_metadataPath v vs alg) s' = Inr (Some data)"
    using assms(1,2,5) unfolding soft_delete_def by (blast, metis)
  have "vaultKeyStore_Get V C v vs alg kid s' = failed ''invalid vault data format''"
    by (simp add: vaultKeyStore_Get_def gone)
  hence "vault_keys (\<lambda>kid. vaultKeyStore_Get V C v vs alg kid s') E ks \<noteq> Inr kps" for kps
    using vault_keys_all [of "\<lambda>kid. vaultKeyStore_Get V C v vs alg kid s'" E ks kps "Plain kid"] assms(4)
    by (auto simp: token_text_def failed_def)
  thus ?thesis
    using assms(3) by (cases "vault_keys (\<lambda>kid. vaultKeyStore_Get V C v vs alg kid s') E ks")
      (auto simp: vaultKeyStore_GetAllForAlgorithm_def kept)
qed

text \<open>
  C37: Once a key of a virtual server was removed from a vault that keeps the names of deleted secrets, as the second version
  of its engine does, the keys of the virtual server cannot be listed any more and its rotation fails before it
  does anything: the listing reads every name, and stops at the one that has no data.
\<close>

theorem vault_removal_ends_rotation:
  assumes "soft_delete V" "vc_List V (vault_metadataPath v (vs_name server) alg) s = Inr (Some data)"
    "map_of data ''keys'' = Some (VaultList ks)" "VaultString (Plain kid) \<in> set ks"
    "vc_Get V (vp_mountPath v) (vaultKeyStore_keyPath v (vs_name server) alg kid) s = Inr secret"
    "vaultKeyStore_Remove V v (vs_name server) alg kid s = (Inr (), s')" "alg \<in> set SupportedSigningAlgorithms"
  shows "\<exists>e1 e2 e3. vaultKeyStore_GetAllForAlgorithm V E C v (vs_name server) alg s' = Inl e1 \<and>
    KeyService_GetAllKeys (vaultKeyStore V E C v) (vs_name server) s' = Inl e2 \<and>
    rotateKeysForVirtualServer E (vaultKeyStore V E C v) now server n s' = (Inl e3, n, s')"
proof -
  obtain e1 where e1: "vaultKeyStore_GetAllForAlgorithm V E C v (vs_name server) alg s' = Inl e1"
    using vault_removed_fails [OF assms(1-6)] by blast
  from GetAll_supported_fails [OF assms(7), where G = "\<lambda>alg. vaultKeyStore_GetAllForAlgorithm V E C v (vs_name server) alg s'", OF this]
  obtain e2 where e2: "vaultKeyStore_GetAll V E C v (vs_name server) s' = Inl e2" by (auto simp: vaultKeyStore_GetAll_def)
  obtain e3 where "wrap ''getting key pairs'' (Inl e2 :: unit go) = Inl e3" by (cases e2) (auto simp: wrap_def)
  hence "rotateKeysForVirtualServer E (vaultKeyStore V E C v) now server n s' = (Inl e3, n, s')"
    by (simp add: rotateKeysForVirtualServer_def vaultKeyStore_def e2)
  moreover have "KeyService_GetAllKeys (vaultKeyStore V E C v) (vs_name server) s' = Inl e2"
    by (simp add: KeyService_GetAllKeys_def vaultKeyStore_def e2)
  ultimately show ?thesis using e1 by blast
qed

text \<open>A vault: the data of each path of the metadata; a deletion leaves the path without data.\<close>

definition sample_vault :: "(string \<times> vault_data) list vault_client" where
  "sample_vault =
     \<lparr>vc_Put = (\<lambda>mount p data s. (Inr (), AList.update (mount @ ''/metadata/'' @ p) data s)),
      vc_Get = (\<lambda>mount p s. case map_of s (mount @ ''/metadata/'' @ p) of
         None \<Rightarrow> Inl (ErrorsNew ''secret not found'') | Some data \<Rightarrow> Inr data),
      vc_Delete = (\<lambda>mount p s. (Inr (), map (\<lambda>(q, data). (q, if q = mount @ ''/metadata/'' @ p then [] else data)) s)),
      vc_List = (\<lambda>p s. Inr (Some [(''keys'', VaultList (map (\<lambda>q. VaultString (Plain (drop (Suc (length p)) q)))
         (filter (\<lambda>q. HasPrefix q (p @ ''/'')) (map fst s))))]))\<rparr>"

lemma sample_vault_soft: "soft_delete sample_vault"
proof -
  have "map_of (map (\<lambda>(q, data). (q, if q = p then [] else data)) s) p = map_option (\<lambda>_. []) (map_of s p)"
    for p and s :: "(string \<times> vault_data) list"
    by (induction s) auto
  moreover have "map fst (map (\<lambda>(q, data). (q, if q = p then [] else data)) s) = map fst s"
    for p and s :: "(string \<times> vault_data) list"
    by (induction s) auto
  ultimately show ?thesis
    by (auto simp: soft_delete_def sample_vault_def simp del: map_map split: option.splits)
qed

definition sample_place :: vault_place where
  "sample_place = \<lparr>vp_mountPath = ''secret'', vp_prefix = []\<rparr>"

theorem vault_removal_ends_rotation_witness:
  "\<exists>s' e. vaultKeyStore_Remove sample_vault sample_place ''a'' SigningAlgorithmEdDSA ''k''
      [(''secret/metadata/a/EdDSA/k'', [(''data'', VaultString (Plain []))])] = (Inr (), s') \<and>
    rotateKeysForVirtualServer test_env (vaultKeyStore sample_vault test_env plain_codec sample_place) 5 sample_server 0 s' =
      (Inl e, 0, s')"
proof -
  let ?s = "[(''secret/metadata/a/EdDSA/k'', [(''data'', VaultString (Plain []))])]"
  obtain s' where s': "vaultKeyStore_Remove sample_vault sample_place ''a'' SigningAlgorithmEdDSA ''k'' ?s = (Inr (), s')"
    by (simp add: vaultKeyStore_Remove_def sample_vault_def)
  have "vc_List sample_vault (vault_metadataPath sample_place ''a'' SigningAlgorithmEdDSA) ?s =
      Inr (Some [(''keys'', VaultList [VaultString (Plain ''k'')])])"
    "vc_Get sample_vault (vp_mountPath sample_place) (vaultKeyStore_keyPath sample_place ''a'' SigningAlgorithmEdDSA ''k'') ?s =
      Inr [(''data'', VaultString (Plain []))]"
    by (simp_all add: sample_vault_def sample_place_def vault_metadataPath_def vaultKeyStore_keyPath_def
        SigningAlgorithmEdDSA_def HasPrefix_def)
  from vault_removal_ends_rotation [OF sample_vault_soft, of sample_place sample_server SigningAlgorithmEdDSA ?s, simplified,
      OF this(1) _ _ this(2) s', where E = test_env and C = plain_codec and now = 5 and n = 0]
  show ?thesis using s' by (auto simp: SupportedSigningAlgorithms_def)
qed

end
