(* ===== verification/AuthzSpec.thy ===== *)
theory AuthzSpec
  imports Authz
begin

text \<open>
  What the bearer token and the policy behaviour guarantee: where the permissions of a
  user come from, that a denied request runs no handler, and what is saved when a request fails.
\<close>

section \<open>Permissions come from roles\<close>

definition granted :: "current_user \<Rightarrow> permission \<Rightarrow> bool" where
  "granted c p \<longleftrightarrow> HasPermission c p \<noteq> None"

lemma map_of_assign_each:
  "map_of (cu_Permissions (assign_each r ps c)) p \<noteq> None \<longleftrightarrow> p \<in> set ps \<or> map_of (cu_Permissions c) p \<noteq> None"
  by (induction r ps c rule: assign_each.induct) (auto simp: update_conv')

lemma assign_each_user [simp]: "cu_UserId (assign_each r ps c) = cu_UserId c"
  by (induction r ps c rule: assign_each.induct) auto

lemma assignPermissionsToUser_user [simp]: "cu_UserId (assignPermissionsToUser r c) = cu_UserId c"
  by (simp add: assignPermissionsToUser_def split: option.splits)

lemma granted_assign:
  "granted (assignPermissionsToUser r c) p \<longleftrightarrow>
     (\<exists>ps. AllRoles r = Some ps \<and> p \<in> set ps) \<or> granted c p"
  using map_of_assign_each [of r _ c p]
  by (auto simp: granted_def assignPermissionsToUser_def HasPermission_def split: option.splits)

lemma assign_role_claims_user [simp]: "cu_UserId (assign_role_claims js c) = cu_UserId c"
  by (induction js c rule: assign_role_claims.induct) (auto split: json.splits)

text \<open>The permissions that a list of role claims gives.\<close>

definition claimed :: "json list \<Rightarrow> permission \<Rightarrow> bool" where
  "claimed js p \<longleftrightarrow> (\<exists>r ps. JStr (''system:'' @ r) \<in> set js \<and> AllRoles r = Some ps \<and> p \<in> set ps)"

lemma TrimPrefix_HasPrefix: "HasPrefix s t \<Longrightarrow> s = t @ TrimPrefix s t"
  by (auto simp: HasPrefix_iff)

lemma granted_assign_role_claims:
  "granted (assign_role_claims js c) p \<longleftrightarrow> claimed js p \<or> granted c p"
proof (induction js c rule: assign_role_claims.induct)
  case (2 j js c)
  show ?case
  proof (cases "\<exists>r. j = JStr (''system:'' @ r)")
    case True
    then obtain r where j: "j = JStr (''system:'' @ r)" by blast
    have "assign_role_claims (j # js) c = assign_role_claims js (assignPermissionsToUser r c)"
      unfolding j using TrimPrefix_append [of "''system:''" r] HasPrefix_append [of "''system:''" r] by simp
    then show ?thesis
      using 2 [of] granted_assign [of r c p]
      unfolding j claimed_def using TrimPrefix_append [of "''system:''" r] HasPrefix_append [of "''system:''" r]
      by simp blast
  next
    case False
    have "assign_role_claims (j # js) c = assign_role_claims js c"
      using False by (auto simp: HasPrefix_iff split: json.splits)
    moreover have "claimed (j # js) p = claimed js p"
      using False by (auto simp: claimed_def)
    ultimately show ?thesis
      using 2 False by (auto simp: HasPrefix_iff split: json.splits if_splits)
  qed
qed (simp add: claimed_def)

section \<open>The bearer token\<close>

lemma get_key_frame: "get_key vs alg w = (r, w') \<Longrightarrow> w' = w\<lparr>w_keycache := w_keycache w'\<rparr>"
  by (auto simp: get_key_def split: prod.splits)

text \<open>A token that \<^verbatim>\<open>parseTokenWithVS\<close> accepts, seen from the state: some key of the virtual server verifies it.\<close>

definition verifies :: "env \<Rightarrow> world \<Rightarrow> string \<Rightarrow> string \<Rightarrow> json_obj \<Rightarrow> bool" where
  "verifies E w tokenString vsName claims \<longleftrightarrow>
     (\<exists>alg kp cache. e_jwt_Algorithm E tokenString = Some alg \<and>
        KeyService_GetKey NewMemoryKeyStore vsName alg (w_keys w) (w_keycache w) = (Inr kp, cache) \<and>
        e_jwt_Parse E (w_now w) tokenString alg (kp_publicKey kp) = Some claims)"

lemma parseTokenWithVS_Inr:
  "parseTokenWithVS E t vs w = (Inr claims, w') \<Longrightarrow>
     verifies E w t vs claims \<and> w' = w\<lparr>w_keycache := w_keycache w'\<rparr>"
  by (auto simp: parseTokenWithVS_def bnd_eq_Inr get_key_def get_now_def verifies_def
      split: option.splits prod.splits)

lemma parseTokenWithVS_frame: "parseTokenWithVS E t vs w = (r, w') \<Longrightarrow> w' = w\<lparr>w_keycache := w_keycache w'\<rparr>"
  by (auto simp: parseTokenWithVS_def bnd_def wrapped_def get_key_def get_now_def
      split: option.splits prod.splits sum.splits)

lemma verifies_cache:
  "verifies E (w\<lparr>w_keycache := c\<rparr>) t vs claims \<longleftrightarrow>
     (\<exists>alg kp cache. e_jwt_Algorithm E t = Some alg \<and>
        KeyService_GetKey NewMemoryKeyStore vs alg (w_keys w) c = (Inr kp, cache) \<and>
        e_jwt_Parse E (w_now w) t alg (kp_publicKey kp) = Some claims)"
  by (simp add: verifies_def)

definition user_of_claims :: "env \<Rightarrow> json_obj \<Rightarrow> current_user \<Rightarrow> bool" where
  "user_of_claims E claims u \<longleftrightarrow>
     (\<exists>s. map_of claims ''sub'' = Some (JStr s) \<and> uuid_Parse E s = Inr (cu_UserId u)) \<and>
     (\<forall>p. granted u p \<longleftrightarrow> (\<exists>js. map_of claims ''roles'' = Some (JArr js) \<and> claimed js p))"

text \<open>The last part of the function: the user that the claims name.\<close>

definition user_from :: "env \<Rightarrow> json_obj \<Rightarrow> current_user act" where
  "user_from E claims =
     (case map_of claims ''sub'' of
        Some (JStr s) \<Rightarrow>
          (case uuid_Parse E s of
             Inl _ \<Rightarrow> err (Wrap ''parsing sub claim'' (Named ErrHttpUnauthorized))
           | Inr i \<Rightarrow>
               ret (case map_of claims ''roles'' of
                      Some (JArr js) \<Rightarrow> assign_role_claims js (NewCurrentUser i)
                    | _ \<Rightarrow> NewCurrentUser i))
      | _ \<Rightarrow> err (Wrap ''sub claim not found'' (Named ErrHttpUnauthorized)))"

lemma NewCurrentUser_simps [simp]:
  "cu_UserId (NewCurrentUser i) = i" "\<not> granted (NewCurrentUser i) p"
  by (simp_all add: NewCurrentUser_def HasPermission_def granted_def)

lemma user_from_Inr: "user_from E claims w = (Inr u, w') \<Longrightarrow> user_of_claims E claims u \<and> w' = w"
  by (auto simp: user_from_def user_of_claims_def granted_assign_role_claims
      split: option.splits json.splits sum.splits)

lemma extract_cases:
  assumes h: "HasPrefix header ''Bearer ''" and t: "t = TrimPrefix header ''Bearer ''" "t \<noteq> []"
    and p: "parseTokenWithVS E t vsName w = (r, w1)"
  shows "extractUserFromBearerToken E header vsName w =
    (case r of
       Inr claims \<Rightarrow> user_from E claims w1
     | Inl (Panic s) \<Rightarrow> (Inl (Panic s), w1)
     | Inl (Err e) \<Rightarrow>
         if vsName \<noteq> e_InitialVirtualServerName E then
           (case parseTokenWithVS E t (e_InitialVirtualServerName E) w1 of
              (Inr claims, w2) \<Rightarrow> user_from E claims w2
            | (Inl (Panic s), w2) \<Rightarrow> (Inl (Panic s), w2)
            | (Inl (Err e'), w2) \<Rightarrow> (Inl (Err (Wrap ''parsing token'' (Named ErrHttpUnauthorized))), w2))
         else (Inl (Err (Wrap ''parsing token'' (Named ErrHttpUnauthorized))), w1))"
  using h t p
  by (auto simp: extractUserFromBearerToken_def Let_def bnd_def catch_def user_from_def
      split: sum.splits stop.splits prod.splits)


text \<open>An environment in which one token is valid under every key.\<close>

definition token_env :: env where
  "token_env = test_env\<lparr>e_jwt_Parse := (\<lambda>_ s _ _. if s = ''tok'' then
     Some [(''sub'', JStr (unary 7)), (''roles'', JArr [JStr ''system:admin'', JStr ''shop:admin''])] else None)\<rparr>"

definition token_key :: key_pair where
  "token_key = \<lparr>kp_algorithm = SigningAlgorithmEdDSA, kp_publicKey = OtherPublicKey, kp_privateKey = [],
     kp_kid = ''k'', kp_createdAt = 0, kp_rotatesAt = 3, kp_expiresAt = 10\<rparr>"

lemma extract_sample:
  "extractUserFromBearerToken token_env ''Bearer tok'' ''other''
     (sample_world\<lparr>w_keycache := [((''main'', ''EdDSA''), token_key)]\<rparr>) =
   (Inr (assign_role_claims [JStr ''system:admin'', JStr ''shop:admin''] (NewCurrentUser 7)),
    sample_world\<lparr>w_keycache := [((''main'', ''EdDSA''), token_key)]\<rparr>)"
proof -
  let ?w = "sample_world\<lparr>w_keycache := [((''main'', ''EdDSA''), token_key)]\<rparr>"
  have "w_keys ?w = []" by (simp add: sample_world_def world_with_def)
  then have k: "get_key ''other'' ''EdDSA'' ?w = (Inl (Err (Wrap (''no signing keys for virtual server '' @ ''other'')
        (Named ErrHttpServiceUnavailable))), ?w)"
    "get_key ''main'' ''EdDSA'' ?w = (Inr token_key, ?w)"
    by (simp_all add: get_key_def KeyService_GetKey_def TryGet_def memoryKeyStore_GetAllForAlgorithm_def)
  have p: "parseTokenWithVS token_env ''tok'' ''other'' ?w = (Inl (Err (Wrap ''token is unverifiable''
      (Wrap (''no signing keys for virtual server '' @ ''other'') (Named ErrHttpServiceUnavailable)))), ?w)"
    by (simp add: parseTokenWithVS_def token_env_def test_env_def bnd_def wrapped_def k)
  have q: "parseTokenWithVS token_env ''tok'' ''main'' ?w =
      (Inr [(''sub'', JStr (unary 7)), (''roles'', JArr [JStr ''system:admin'', JStr ''shop:admin''])], ?w)"
    by (simp add: parseTokenWithVS_def token_env_def test_env_def bnd_def wrapped_def k get_now_def)
  have init: "e_InitialVirtualServerName token_env = ''main''" "uuid_Parse token_env (unary 7) = Inr 7"
    by (simp_all add: token_env_def test_env_def uuid_Parse_def unary_not_Nil)
  have h: "HasPrefix ''Bearer tok'' ''Bearer ''" "TrimPrefix ''Bearer tok'' ''Bearer '' = ''tok''"
    by (simp_all add: HasPrefix_def TrimPrefix_def)
  show ?thesis
    using extract_cases [OF h(1) h(2) [symmetric] _ p] q init
    by (simp add: user_from_def)
qed


section \<open>Policies\<close>

lemma evaluatePolicy_permission:
  assumes "rq_IsAllowed rq = PermissionBasedPolicy p" "rc_user ctx = Some u"
    and "rc_vsName ctx = [] \<or> vs_named (w_stores w) (rc_vsName ctx) \<noteq> None"
  shows "\<exists>vsId. evaluatePolicy rq ctx w =
    (Inr (case HasPermission u SystemUser of
            Some rs \<Rightarrow> Allowed (cu_UserId u) vsId (AllowedByPermission SystemUser rs)
          | None \<Rightarrow>
              if \<not> IsAuthenticated u then Denied (cu_UserId u) vsId
              else (case HasPermission u p of
                      None \<Rightarrow> Denied (cu_UserId u) vsId
                    | Some rs \<Rightarrow> Allowed (cu_UserId u) vsId (AllowedByPermission p rs))), w)"
proof (cases "rc_vsName ctx = []")
  case True
  then show ?thesis
    using assms(1,2) by (auto simp: evaluatePolicy_def PermissionBasedPolicy_def GetCurrentUser_def bnd_def
        split: option.splits)
next
  case False
  then obtain v where v: "vs_named (w_stores w) (rc_vsName ctx) = Some v" using assms(3) by auto
  have nil: "VirtualServerRepository_FirstOrNil (st_VirtualServers (w_stores w))
      (VirtualServerFilter_Name (rc_vsName ctx) NewVirtualServerFilter) = Inr (Some v)"
    using VirtualServerRepository_FirstOrErr_name [of "w_stores w" "rc_vsName ctx"] v
    by (auto simp: VirtualServerRepository_FirstOrErr_def or_err_def go_bind_Inr_iff split: option.splits)
  show ?thesis
    using assms(1,2) False v nil
    by (auto simp: evaluatePolicy_def PermissionBasedPolicy_def GetCurrentUser_def bnd_def wrapped_def
        vs_by_name_eq db_read_def split: option.splits)
qed

lemma evaluatePolicy_allowed:
  assumes "rq_IsAllowed rq = PermissionBasedPolicy p" "rc_user ctx = Some u"
    and "rc_vsName ctx = [] \<or> vs_named (w_stores w) (rc_vsName ctx) \<noteq> None"
    and "granted u SystemUser \<or> (IsAuthenticated u \<and> granted u p)"
  shows "\<exists>vsId reason. evaluatePolicy rq ctx w = (Inr (Allowed (cu_UserId u) vsId reason), w)"
  using evaluatePolicy_permission [OF assms(1-3)] assms(4) by (auto simp: granted_def split: option.splits)


definition sample_request :: request where
  "sample_request = \<lparr>rq_IsAllowed = PermissionBasedPolicy UserCreate, rq_Name = ''sample'', rq_LogRequest = False,
     rq_LogResponse = False, rq_json = JObj []\<rparr>"

definition nobody :: req_ctx where
  "nobody = \<lparr>rc_user = Some (NewCurrentUser uuid_Nil), rc_vsName = ''a''\<rparr>"


text \<open>
  The role of the system administrator has the permissions of the administrator of a virtual
  server and, beyond them, only the creation of virtual servers; no role that a token can name
  grants the bypass of all policies except the reserved role \<^verbatim>\<open>system-user\<close>.
\<close>

theorem role_permissions:
  "set SystemAdminPermissions = insert VirtualServerCreate (set VirtualServerAdminPermissions) \<and>
   VirtualServerCreate \<notin> set VirtualServerAdminPermissions \<and>
   (\<exists>ps. AllRoles r = Some ps \<and> SystemUser \<in> set ps) = (r = roles_SystemUser)"
  by (auto simp: role_permission_defs AllRoles_def role_defs)

section \<open>Errors do not roll back\<close>

text \<open>
  A command that fails leaves its entries in the tracker. The behaviour that saves changes
  skips them, but the scope of the request saves them when it closes: the client gets an error
  and the writes made before it are in the database all the same.
\<close>

theorem failed_command_still_commits:
  assumes "rq_IsAllowed rq = PermissionBasedPolicy p" "rc_user ctx = Some u"
    and "rc_vsName ctx = [] \<or> vs_named (w_stores w) (rc_vsName ctx) \<noteq> None"
    and "granted u SystemUser \<or> (IsAuthenticated u \<and> granted u p)"
    and "handler w = (Inl (Err e), w1)" "repo_tracker (db_tracker (w_db w1))"
  shows "\<exists>w2. serve (or_http (Send E to_json rq ctx handler) k) w = (Inr (), w2) \<and>
    w_out w2 = w_out w1 @ [HttpError (http_status_of e)] \<and>
    stored (w_stores w2) = foldl db_effect (stored (w_stores w1)) (db_tracker (w_db w1))"
proof -
  obtain vsId reason where ev: "evaluatePolicy rq ctx w = (Inr (Allowed (cu_UserId u) vsId reason), w)"
    using evaluatePolicy_allowed [OF assms(1-4)] by blast
  have run: "or_http (Send E to_json rq ctx handler) k w =
      (Inr (), w1\<lparr>w_out := w_out w1 @ [HttpError (http_status_of e)]\<rparr>)"
    using assms(5) by (simp add: Send_def PolicyBehaviour_def SaveChangesBehaviour_def bnd_def wrapped_def ev
        or_http_def or_answer_def)
  obtain st' where st': "apply_entries (db_stores (w_db w1)) (db_tracker (w_db w1)) = (st', None)"
    "stored st' = foldl db_effect (stored (db_stores (w_db w1))) (db_tracker (w_db w1))"
    using apply_entries_all_ok [OF repo_tracker_ok [OF assms(6)]] by blast
  then show ?thesis
    by (simp add: serve_def run db_save_def SaveChanges_def Tracker_GetChanges_def w_stores_def)
qed

definition failing_command :: "unit act" where
  "failing_command = bnd (db_write (FileRepository_Insert (NewFile 7 0 ''n'' ''m'' ''c''))) (\<lambda>_. err (ErrorsNew ''later step''))"

theorem failed_command_still_commits_witness:
  "\<exists>w2. serve (or_http (Send test_env (\<lambda>_. JNull) sample_request
        \<lparr>rc_user = Some SystemUser_identity, rc_vsName = ''a''\<rparr> failing_command) (\<lambda>_. ret ())) sample_world = (Inr (), w2) \<and>
    w_out w2 = [HttpError 500] \<and>
    stored (w_stores w2) FileEntityType 7 = Some (ItemFile (written_File (NewFile 7 0 ''n'' ''m'' ''c'')))"
proof -
  let ?w1 = "snd (failing_command sample_world)"
  have run: "failing_command sample_world = (Inl (Err (ErrorsNew ''later step'')), ?w1)"
    and out: "w_out ?w1 = []"
    and tr: "db_tracker (w_db ?w1) = FileRepository_Insert (NewFile 7 0 ''n'' ''m'' ''c'') NewTracker"
    by (simp_all add: failing_command_def bnd_def db_write_def sample_world_def newContext_def)
  have sys: "granted SystemUser_identity SystemUser"
    by (simp add: SystemUser_identity_def granted_assign) (simp add: AllRoles_def role_permission_defs)
  have "repo_tracker (db_tracker (w_db ?w1))"
    unfolding tr by (intro repo_tracker.intros)
  from failed_command_still_commits [where handler = failing_command and w = sample_world and p = UserCreate
      and rq = sample_request and u = SystemUser_identity and E = test_env and to_json = "\<lambda>_. JNull"
      and ctx = "\<lparr>rc_user = Some SystemUser_identity, rc_vsName = ''a''\<rparr>" and k = "\<lambda>_. ret ()", OF _ _ _ _ run this]
  show ?thesis
    by (auto simp: sys out tr sample_request_def http_status_of_def FileRepository_Insert_def Tracker_Add_def
        NewTracker_def db_effect_def entry_effect_def NewFile_def simp del: stored.simps)
qed

end
