(* ===== verification/Login.thy ===== *)
theory Login
  imports Authz
begin

text \<open>
  The login flow (\<^verbatim>\<open>internal/handlers/login.go\<close>): a login token of the key-value store
  holds the state of one login, each handler checks the step it belongs to, and
  \<^verbatim>\<open>DetermineNextLoginStep\<close> decides the next step. The command that sets a password
  (\<^verbatim>\<open>internal/commands/SetPassword.go\<close>) is part of it. The body of a request comes
  decoded, or as the error of the decoder; the login token comes from the path of the request.
\<close>

section \<open>Helpers\<close>

text \<open>\<^verbatim>\<open>ValidateDto\<close> for members with the tag \<^verbatim>\<open>required\<close>.\<close>

definition ValidateDto :: "string list \<Rightarrow> unit go" where
  "ValidateDto required =
     (if [] \<in> set required then Inl (Err (Wrap ''invalid request'' (Named ErrHttpBadRequest))) else Inr ())"

text \<open>\<^verbatim>\<open>CompareHash\<close> panics when the stored hash cannot be read.\<close>

definition CompareHash :: "env \<Rightarrow> string \<Rightarrow> string \<Rightarrow> bool go" where
  "CompareHash E password hashedPassword =
     (case e_CheckPassword E password hashedPassword of
        None \<Rightarrow> Inl (Panic ''CheckPassword'') | Some valid \<Rightarrow> Inr valid)"

definition HashPassword :: "env \<Rightarrow> string \<Rightarrow> string act" where
  "HashPassword E password w = (Inr (e_HashPassword E (w_rand w) password), w\<lparr>w_rand := Suc (w_rand w)\<rparr>)"

definition user_credentials :: "uuid \<Rightarrow> credential_type \<Rightarrow> credential_filter" where
  "user_credentials userId ty = CredentialFilter_Type ty (CredentialFilter_UserId userId NewCredentialFilter)"

section \<open>SetPassword\<close>

record set_password =
  sp_UserId :: uuid
  sp_NewPassword :: string
  sp_Temporary :: bool

definition SetPassword_request :: "env \<Rightarrow> set_password \<Rightarrow> request" where
  "SetPassword_request E a =
     \<lparr>rq_IsAllowed = PermissionBasedPolicy UserResetPassword, rq_Name = ''SetPassword'',
      rq_LogRequest = True, rq_LogResponse = True,
      rq_json = JObj [(''UserId'', JStr (e_uuid_String E (sp_UserId a))), (''NewPassword'', JStr (sp_NewPassword a)),
                      (''Temporary'', JBool (sp_Temporary a))]\<rparr>"

definition HandleSetPassword :: "env \<Rightarrow> set_password \<Rightarrow> unit act" where
  "HandleSetPassword E command =
     bnd (HashPassword E (sp_NewPassword command)) (\<lambda>hashedPassword.
     bnd (wrapped ''getting credential'' (db_read (\<lambda>st.
            CredentialRepository_FirstOrNil (st_Credentials st)
              (user_credentials (sp_UserId command) CredentialTypePassword)))) (\<lambda>found.
     bnd (case found of
            Some c \<Rightarrow> ret c
          | None \<Rightarrow> bnd (uuid_New E) (\<lambda>i. bnd get_now (\<lambda>now.
                      ret (NewCredential i now (sp_UserId command) (CredentialPasswordDetails [] False))))) (\<lambda>credential.
     bnd (wrapped ''getting password details'' (lift (Credential_PasswordDetails (Some credential)))) (\<lambda>_.
       let credential = Credential_SetDetails (CredentialPasswordDetails hashedPassword (sp_Temporary command)) credential
       in case found of
            Some _ \<Rightarrow> db_write (CredentialRepository_Update credential)
          | None \<Rightarrow> db_write (CredentialRepository_Insert credential)))))"

definition Send_SetPassword :: "env \<Rightarrow> req_ctx \<Rightarrow> set_password \<Rightarrow> unit act" where
  "Send_SetPassword E ctx a =
     Send E (\<lambda>_. JObj []) (SetPassword_request E a) ctx (HandleSetPassword E a)"

section \<open>The next login step\<close>

text \<open>The decision on the data that the function reads; it may draw a new TOTP secret.\<close>

definition next_step :: "env \<Rightarrow> virtual_server \<Rightarrow> user \<Rightarrow> bool \<Rightarrow> credential list \<Rightarrow> login_info \<Rightarrow> (login_step \<times> login_info) act" where
  "next_step E virtualServer user temporary totpCredentials li =
     (let after_email =
            (if length totpCredentials > 0 then ret (LoginStepVerifyTotp, li)
             else if vs_require2fa virtualServer then
               bnd (GetSecureRandomBytes E 32) (\<lambda>bytes.
                 ret (LoginStepOnboardTotp, li\<lparr>li_TotpSecret := e_base32 E bytes\<rparr>))
             else ret (LoginStepFinish, li));
          after_temporary =
            (if \<not> u_emailVerified user \<and> vs_requireEmailVerification virtualServer
             then ret (LoginStepEmailVerification, li) else after_email)
      in if li_Step li = LoginStepPasswordVerification then
           (if temporary then ret (LoginStepTemporaryPassword, li) else after_temporary)
         else if li_Step li = LoginStepTemporaryPassword then after_temporary
         else if li_Step li = LoginStepEmailVerification then after_email
         else if li_Step li = LoginStepOnboardTotp \<or> li_Step li = LoginStepVerifyTotp then ret (LoginStepFinish, li)
         else err (ErrorsNew ''invalid login step''))"

definition DetermineNextLoginStep :: "env \<Rightarrow> login_info \<Rightarrow> (login_step \<times> login_info) act" where
  "DetermineNextLoginStep E li =
     (if li_Step li = LoginStepPasskey then ret (LoginStepFinish, li)
      else
        bnd (db_read (\<lambda>st. VirtualServerRepository_FirstOrErr (st_VirtualServers st)
               (VirtualServerFilter_Id (li_VirtualServerId li) NewVirtualServerFilter))) (\<lambda>virtualServer.
        bnd (db_read (\<lambda>st. UserRepository_FirstOrErr (st_Users st)
               (UserFilter_Id (li_UserId li) (UserFilter_VirtualServerId (li_VirtualServerId li) NewUserFilter)))) (\<lambda>user.
        bnd (db_read (\<lambda>st. CredentialRepository_FirstOrNil (st_Credentials st)
               (user_credentials (bm_id (u_base user)) CredentialTypePassword))) (\<lambda>passwordCredential.
        bnd (lift (Credential_PasswordDetails passwordCredential)) (\<lambda>(hash, temporary).
        bnd (db_read (\<lambda>st. CredentialRepository_List (st_Credentials st)
               (user_credentials (bm_id (u_base user)) CredentialTypeTotp))) (\<lambda>totpCredentials.
          next_step E virtualServer user temporary totpCredentials li))))))"

definition updateLoginStep :: "env \<Rightarrow> string \<Rightarrow> (login_info \<Rightarrow> login_info act) \<Rightarrow> unit act" where
  "updateLoginStep E loginToken mutate =
     bnd (wrapped ''getting token'' (GetToken LoginSessionTokenType loginToken)) (\<lambda>redisValueString.
     bnd (wrapped ''unmarshal login info'' (lift (LoginInfo_decode E redisValueString))) (\<lambda>loginInfo.
     bnd (wrapped ''mutate login info'' (mutate loginInfo)) (\<lambda>loginInfo.
     bnd (wrapped ''determine next login step'' (DetermineNextLoginStep E loginInfo)) (\<lambda>(step, loginInfo).
     bnd (wrapped ''marshal login info'' (lift (json_Marshal (LoginInfo_json E (loginInfo\<lparr>li_Step := step\<rparr>)))))
       (\<lambda>updated.
     wrapped ''update token'' (UpdateToken LoginSessionTokenType loginToken updated (15 * Minute)))))))"

section \<open>The handlers\<close>

definition NoContent :: "unit act" where
  "NoContent = emit (WriteHeader 204)"

text \<open>The two readings of a failed lookup of the login token.\<close>

definition GetLoginState :: "env \<Rightarrow> string \<Rightarrow> unit act" where
  "GetLoginState E loginToken =
     or_answer (\<lambda>e. if errors_Is e ErrTokenNotFound then emit (HttpError 401) else emit (HttpError 400))
       (GetToken LoginSessionTokenType loginToken) (\<lambda>rawTokenData.
     or_status 400 (lift (LoginInfo_decode E rawTokenData)) (\<lambda>loginInfo.
     bnd (emit (WriteHeader 200)) (\<lambda>_.
     emit (WriteJson (JObj
       [(''step'', JStr (li_Step loginInfo)), (''applicationDisplayName'', JStr (li_ApplicationDisplayName loginInfo)),
        (''virtualServerDisplayName'', JStr (li_VirtualServerDisplayName loginInfo)),
        (''virtualServerName'', JStr (li_VirtualServerName loginInfo)),
        (''signupEnabled'', JBool (li_RegistrationEnabled loginInfo)), (''totpSecret'', JStr (li_TotpSecret loginInfo))])))))"

definition MaxFailedPasswordAttempts :: int where
  "MaxFailedPasswordAttempts = 5"

definition verifyPasswordCredential :: "env \<Rightarrow> uuid \<Rightarrow> string \<Rightarrow> string \<Rightarrow> (user option \<times> bool) act" where
  "verifyPasswordCredential E virtualServerId username password =
     bnd (wrapped ''getting user'' (db_read (\<lambda>st. UserRepository_FirstOrNil (st_Users st)
            (UserFilter_Username username (UserFilter_VirtualServerId virtualServerId NewUserFilter))))) (\<lambda>user.
       case user of
         None \<Rightarrow> ret (None, False)
       | Some u \<Rightarrow>
           bnd (wrapped ''getting credential'' (db_read (\<lambda>st. CredentialRepository_FirstOrNil (st_Credentials st)
                  (user_credentials (bm_id (u_base u)) CredentialTypePassword)))) (\<lambda>credential.
             case credential of
               None \<Rightarrow> ret (Some u, False)
             | Some c \<Rightarrow>
                 (case Credential_PasswordDetails (Some c) of
                    Inl _ \<Rightarrow> ret (Some u, False)
                  | Inr (hashedPassword, temporary) \<Rightarrow>
                      bnd (lift (CompareHash E password hashedPassword)) (\<lambda>valid. ret (Some u, valid)))))"

record verify_password_dto =
  vp_Username :: string
  vp_Password :: string

text \<open>The counter is a Go \<^verbatim>\<open>int\<close>.\<close>

definition count_failure :: "login_info \<Rightarrow> login_info" where
  "count_failure li = li\<lparr>li_FailedPasswordAttempts := wrap64 (li_FailedPasswordAttempts li + 1)\<rparr>"

definition VerifyPassword :: "env \<Rightarrow> string \<Rightarrow> verify_password_dto go \<Rightarrow> unit act" where
  "VerifyPassword E loginToken body =
     or_http (lift body) (\<lambda>dto.
     or_http (lift (ValidateDto [vp_Username dto, vp_Password dto])) (\<lambda>_.
     or_http (wrapped ''getting token'' (GetToken LoginSessionTokenType loginToken)) (\<lambda>rawLoginInfo.
     or_http (wrapped ''unmarshal login info'' (lift (LoginInfo_decode E rawLoginInfo))) (\<lambda>loginInfo.
       if li_Step loginInfo \<noteq> LoginStepPasswordVerification then HandleHttpError (Named ErrHttpUnauthorized)
       else
         or_http (wrapped ''verifying password''
                    (verifyPasswordCredential E (li_VirtualServerId loginInfo) (vp_Username dto) (vp_Password dto)))
           (\<lambda>(user, ok).
           if \<not> ok then
             (let loginInfo = count_failure loginInfo in
              or_http (if li_FailedPasswordAttempts loginInfo \<ge> MaxFailedPasswordAttempts
                       then wrapped ''deleting login token'' (DeleteToken LoginSessionTokenType loginToken)
                       else bnd (wrapped ''marshal login info'' (lift (json_Marshal (LoginInfo_json E loginInfo))))
                              (\<lambda>updated. wrapped ''update login token''
                                 (UpdateToken LoginSessionTokenType loginToken updated (15 * Minute))))
                (\<lambda>_. HandleHttpError (Named ErrHttpUnauthorized)))
           else
             or_http (updateLoginStep E loginToken (\<lambda>info.
                case user of
                  Some u \<Rightarrow> ret (info\<lparr>li_UserId := bm_id (u_base u), li_FailedPasswordAttempts := 0\<rparr>)
                | None \<Rightarrow> lift nil_dereference)) (\<lambda>_. NoContent))))))"

definition VerifyEmailToken :: "env \<Rightarrow> string \<Rightarrow> unit act" where
  "VerifyEmailToken E loginToken =
     or_http (updateLoginStep E loginToken (\<lambda>loginInfo.
       if li_Step loginInfo \<noteq> LoginStepEmailVerification then err (Named ErrHttpUnauthorized)
       else
         bnd (db_read (\<lambda>st. UserRepository_FirstOrNil (st_Users st) (UserFilter_Id (li_UserId loginInfo) NewUserFilter)))
           (\<lambda>user.
             case user of
               None \<Rightarrow> lift nil_dereference
             | Some u \<Rightarrow> if \<not> u_emailVerified u then err (Named ErrHttpUnauthorized) else ret loginInfo)))
     (\<lambda>_. NoContent)"

definition OnboardTotp :: "env \<Rightarrow> string \<Rightarrow> string go \<Rightarrow> unit act" where
  "OnboardTotp E loginToken body =
     or_http (lift body) (\<lambda>totpCode.
     or_http (lift (ValidateDto [totpCode])) (\<lambda>_.
     or_http (updateLoginStep E loginToken (\<lambda>loginInfo.
       if li_Step loginInfo \<noteq> LoginStepOnboardTotp then err (Named ErrHttpUnauthorized)
       else
         bnd get_now (\<lambda>now.
           if \<not> e_totp_Validate E now totpCode (li_TotpSecret loginInfo)
           then err (Wrap ''invalid totp code'' (Named ErrHttpBadRequest))
           else
             bnd (uuid_New E) (\<lambda>i.
             bnd (db_write (CredentialRepository_Insert
                    (NewCredential i now (li_UserId loginInfo) (CredentialTotpDetails (li_TotpSecret loginInfo) 6 0))))
               (\<lambda>_. ret (loginInfo\<lparr>li_TotpSecret := []\<rparr>))))))
     (\<lambda>_. NoContent)))"

text \<open>The loop over the credentials stops at the first that the code matches, or at an error.\<close>

fun any_totp :: "env \<Rightarrow> time \<Rightarrow> string \<Rightarrow> credential list \<Rightarrow> bool go" where
  "any_totp E now code [] = Inr False"
| "any_totp E now code (c # cs) =
     go_bind (wrap ''failed to get totp details'' (Credential_TotpDetails (Some c))) (\<lambda>(secret, digits, algorithm).
       case e_totp_ValidateCustom E code secret now (TotpOpts 30 1 digits algorithm) of
         None \<Rightarrow> Inl (Err (Wrap ''failed to validate totp code'' (ErrorsNew ''otp'')))
       | Some valid \<Rightarrow> if valid then Inr True else any_totp E now code cs)"

definition VerifyTotp :: "env \<Rightarrow> string \<Rightarrow> string go \<Rightarrow> unit act" where
  "VerifyTotp E loginToken body =
     or_http (lift body) (\<lambda>totpCode.
     or_http (lift (ValidateDto [totpCode])) (\<lambda>_.
     or_http (updateLoginStep E loginToken (\<lambda>loginInfo.
       if li_Step loginInfo \<noteq> LoginStepVerifyTotp then err (Named ErrHttpUnauthorized)
       else
         bnd (wrapped ''failed to get totp credentials'' (db_read (\<lambda>st.
                CredentialRepository_List (st_Credentials st)
                  (user_credentials (li_UserId loginInfo) CredentialTypeTotp)))) (\<lambda>totpCredentials.
         bnd get_now (\<lambda>now.
         bnd (lift (any_totp E now totpCode totpCredentials)) (\<lambda>isValid.
           if \<not> isValid then err (Wrap ''invalid totp code'' (Named ErrHttpBadRequest)) else ret loginInfo)))))
     (\<lambda>_. NoContent)))"

definition FinishLogin :: "env \<Rightarrow> string \<Rightarrow> unit act" where
  "FinishLogin E loginToken =
     or_status 400 (GetToken LoginSessionTokenType loginToken) (\<lambda>rawTokenData.
     or_http (lift (LoginInfo_decode E rawTokenData)) (\<lambda>loginInfo.
       if li_Step loginInfo \<noteq> LoginStepFinish then emit (WriteHeader 401)
       else
         or_http (CreateSession E (li_VirtualServerName loginInfo) (li_UserId loginInfo)) (\<lambda>_.
         or_http (DeleteToken LoginSessionTokenType loginToken) (\<lambda>_.
           if li_DeviceCode loginInfo \<noteq> [] then
             or_http (wrapped ''getting device code info'' (GetToken OidcDeviceCodeTokenType (li_DeviceCode loginInfo)))
               (\<lambda>deviceCodeInfoString.
             or_http (wrapped ''unmarshaling device code info'' (lift (DeviceCodeInfo_decode deviceCodeInfoString)))
               (\<lambda>info.
                let info = info\<lparr>di_Status := DeviceCodeStatusAuthorized,
                                di_UserId := e_uuid_String E (li_UserId loginInfo)\<rparr> in
             or_http (wrapped ''marshaling device code info'' (lift (json_Marshal (DeviceCodeInfo_json info))))
               (\<lambda>updatedInfoJson.
             or_http (wrapped ''updating device code info''
                        (UpdateToken OidcDeviceCodeTokenType (li_DeviceCode loginInfo) updatedInfoJson (10 * Minute)))
               (\<lambda>_.
             bnd (if di_UserCode info \<noteq> [] then bnd (catch (DeleteToken OidcUserCodeTokenType (di_UserCode info))) (\<lambda>_. ret ())
                  else ret ()) (\<lambda>_.
               emit (Redirect (e_ExternalUrl E @ ''/oidc/'' @ li_VirtualServerName loginInfo @ ''/activate/success'') 302))))))
           else emit (Redirect (li_OriginalUrl loginInfo) 302)))))"

text \<open>The routes of a login have no virtual server and no user in their context.\<close>

definition system_ctx :: req_ctx where
  "system_ctx = \<lparr>rc_user = Some SystemUser_identity, rc_vsName = []\<rparr>"

definition ResetTemporaryPassword :: "env \<Rightarrow> string \<Rightarrow> string go \<Rightarrow> unit act" where
  "ResetTemporaryPassword E loginToken body =
     or_http (updateLoginStep E loginToken (\<lambda>loginInfo.
       if li_Step loginInfo \<noteq> LoginStepTemporaryPassword then err (Named ErrHttpUnauthorized)
       else
         bnd (lift body) (\<lambda>newPassword.
         bnd (lift (ValidateDto [newPassword])) (\<lambda>_.
         bnd (Send_SetPassword E system_ctx
                \<lparr>sp_UserId = li_UserId loginInfo, sp_NewPassword = newPassword, sp_Temporary = False\<rparr>)
           (\<lambda>_. ret loginInfo)))))
     (\<lambda>_. NoContent)"

section \<open>Resending the verification mail\<close>

definition EmailVerificationMailTemplate :: string where
  "EmailVerificationMailTemplate = ''email_verification''"

text \<open>\<^verbatim>\<open>internal/services/templating.go\<close>; parsing and executing the template is a parameter.\<close>

definition TemplateService_Template :: "env \<Rightarrow> uuid \<Rightarrow> string \<Rightarrow> json \<Rightarrow> string act" where
  "TemplateService_Template E virtualServerId templateType data =
     bnd (wrapped ''querying template'' (db_read (\<lambda>st. TemplateRepository_FirstOrNil (st_Templates st)
            (TemplateFilter_TemplateType templateType (TemplateFilter_VirtualServerId virtualServerId NewTemplateFilter)))))
       (\<lambda>dbTemplate.
         case dbTemplate of
           None \<Rightarrow> err (ErrorsNew ''template not found'')
         | Some tpl \<Rightarrow>
             bnd (wrapped ''querying file'' (db_read (\<lambda>st. FileRepository_FirstOrNil (st_Files st)
                    (FileFilter_Id (te_fileId tpl) NewFileFilter)))) (\<lambda>dbFile.
               case dbFile of
                 None \<Rightarrow> panic ''unreachable''
               | Some f \<Rightarrow>
                   (case e_template E (fi_content f) data of
                      None \<Rightarrow> err (Wrap ''executing template'' (ErrorsNew ''template''))
                    | Some s \<Rightarrow> ret s)))"

definition SendEmailMessage_json :: "env \<Rightarrow> uuid \<Rightarrow> string \<Rightarrow> string \<Rightarrow> string \<Rightarrow> json" where
  "SendEmailMessage_json E virtualServerId to subject body =
     JObj [(''virtualServerId'', JStr (e_uuid_String E virtualServerId)), (''displayName'', JStr []),
           (''to'', JStr to), (''subject'', JStr subject), (''body'', JStr body)]"

definition SendMailOutboxMessageType :: string where
  "SendMailOutboxMessageType = ''send_mail''"

definition ResendEmailVerification :: "env \<Rightarrow> string \<Rightarrow> unit act" where
  "ResendEmailVerification E loginToken =
     or_status 400 (GetToken LoginSessionTokenType loginToken) (\<lambda>rawTokenData.
     or_http (lift (LoginInfo_decode E rawTokenData)) (\<lambda>loginInfo.
       if li_Step loginInfo \<noteq> LoginStepEmailVerification then emit (WriteHeader 401)
       else
         or_http (wrapped ''storing email verification token''
                    (GenerateAndStoreToken E EmailVerificationTokenType
                       (Plain (e_uuid_String E (li_UserId loginInfo))) (Minute * 15))) (\<lambda>token.
         or_http (wrapped ''templating email verification mail''
                    (TemplateService_Template E (li_VirtualServerId loginInfo) EmailVerificationMailTemplate
                       (JObj [(''VerificationLink'', JStr (e_ExternalUrl E @ ''/api/virtual-servers/'' @
                          li_VirtualServerName loginInfo @ ''/users/verify-email?token='' @ token))]))) (\<lambda>mailBody.
         or_http (wrapped ''getting user'' (db_read (\<lambda>st. UserRepository_FirstOrNil (st_Users st)
                    (UserFilter_Id (li_UserId loginInfo) NewUserFilter)))) (\<lambda>user.
           case user of
             None \<Rightarrow> lift nil_dereference
           | Some u \<Rightarrow>
               bnd (uuid_New E) (\<lambda>i. bnd get_now (\<lambda>now.
               or_http (wrapped ''creating email outbox message''
                          (lift (NewOutboxMessage i now SendMailOutboxMessageType
                             (json_Marshal (SendEmailMessage_json E (li_VirtualServerId loginInfo) (u_primaryEmail u)
                                ''Email verification'' mailBody))))) (\<lambda>outboxMessage.
               bnd (db_write (OutboxMessageRepository_Insert outboxMessage)) (\<lambda>_. NoContent)))))))))"

section \<open>Passkeys\<close>

definition StartPasskeyLogin :: "env \<Rightarrow> string \<Rightarrow> unit act" where
  "StartPasskeyLogin E loginToken =
     bnd (GetSecureRandomBytes E 64) (\<lambda>challengeBytes.
     bnd (uuid_New E) (\<lambda>i.
       let challenge = \<lparr>plc_Id = i, plc_Challenge = StdEncoding_EncodeToString challengeBytes,
                        plc_LoginSessionToken = loginToken\<rparr> in
     or_http (lift (json_Marshal (PasskeyLoginChallenge_json E challenge))) (\<lambda>challengeJson.
     or_http (kv_set (''passkey_login:'' @ e_uuid_String E (plc_Id challenge)) challengeJson [WithExpiration (Minute * 5)])
       (\<lambda>_.
     emit (WriteJson (JObj [(''id'', JStr (e_uuid_String E (plc_Id challenge))),
                            (''challenge'', JStr (plc_Challenge challenge))]))))))"

record passkey_dto =
  pk_Id :: uuid
  pk_RawId :: string
  pk_ClientDataJSON :: string
  pk_AuthenticatorData :: string
  pk_Signature :: string

definition CoseAlgorithmES256 :: int where "CoseAlgorithmES256 = -7"
definition CoseAlgorithmEd25519 :: int where "CoseAlgorithmEd25519 = -8"
definition CoseAlgorithmPS256 :: int where "CoseAlgorithmPS256 = -37"
definition CoseAlgorithmRS256 :: int where "CoseAlgorithmRS256 = -257"

lemmas cose_defs = CoseAlgorithmES256_def CoseAlgorithmEd25519_def CoseAlgorithmPS256_def CoseAlgorithmRS256_def

definition validateSignature :: "env \<Rightarrow> public_key \<Rightarrow> int \<Rightarrow> string \<Rightarrow> string \<Rightarrow> unit go" where
  "validateSignature E pubKey pubKeyAlgorithm message sigBytes =
     (let invalid = Inl (Err (Named ErrSignatureInvalid));
          wrong_algorithm = Inl (Err (Named ErrSignatureInvalidAlgorithm))
      in case pubKey of
           RSAPublicKey e n \<Rightarrow>
             if pubKeyAlgorithm = CoseAlgorithmRS256 then
               (if \<not> e_rsa_VerifyPKCS1v15 E pubKey message sigBytes then invalid else Inr ())
             else if pubKeyAlgorithm = CoseAlgorithmPS256 then
               (if \<not> e_rsa_VerifyPSS E pubKey message sigBytes then invalid else Inr ())
             else wrong_algorithm
         | ECDSAPublicKey p \<Rightarrow>
             if pubKeyAlgorithm \<noteq> CoseAlgorithmES256 then wrong_algorithm
             else if \<not> e_ecdsa_VerifyASN1 E pubKey (sha256_Sum256 message) sigBytes then invalid
             else Inr ()
         | Ed25519PublicKey p \<Rightarrow>
             if pubKeyAlgorithm \<noteq> CoseAlgorithmEd25519 then wrong_algorithm
             else if \<not> e_ed25519_Verify E pubKey message sigBytes then invalid
             else Inr ()
         | OtherPublicKey \<Rightarrow> wrong_algorithm)"

definition webauthnExpectedOrigin :: "env \<Rightarrow> string go" where
  "webauthnExpectedOrigin E =
     (if e_FrontendExternalUrl E = [] then Inl (Err (ErrorsNew ''frontend.externalUrl is not configured''))
      else case e_url_Parse E (e_FrontendExternalUrl E) of
        None \<Rightarrow> Inl (Err (Wrap ''parsing frontend.externalUrl'' (ErrorsNew ''url'')))
      | Some (scheme, host) \<Rightarrow>
          if scheme = [] \<or> host = [] then Inl (Err (ErrorsNew ''frontend.externalUrl is missing scheme or host''))
          else Inr (scheme @ ''://'' @ host))"

text \<open>The members of \<^verbatim>\<open>clientDataJSON\<close> that the handler reads.\<close>

definition clientData_decode :: "env \<Rightarrow> string \<Rightarrow> (string \<times> string \<times> string) go" where
  "clientData_decode E clientDataBytes =
     (case e_json_Parse E clientDataBytes of
        None \<Rightarrow> Inl (Err (ErrorsNew ''invalid character''))
      | Some j \<Rightarrow>
          go_bind (as_object j) (\<lambda>ms.
          go_bind (get_string ''type'' ms) (\<lambda>ty.
          go_bind (get_string ''challenge'' ms) (\<lambda>challenge.
          go_bind (get_string ''origin'' ms) (\<lambda>origin. Inr (ty, challenge, origin))))))"

definition webauthn_by_id :: "string \<Rightarrow> credential_filter" where
  "webauthn_by_id rawId =
     CredentialFilter_Type CredentialTypeWebauthn (CredentialFilter_DetailsId rawId NewCredentialFilter)"

definition FinishPasskeyLogin :: "env \<Rightarrow> string \<Rightarrow> passkey_dto go \<Rightarrow> unit act" where
  "FinishPasskeyLogin E loginToken body =
     or_http (lift body) (\<lambda>dto.
     or_http (lift (if pk_Id dto = uuid_Nil then Inl (Err (Wrap ''invalid request'' (Named ErrHttpBadRequest))) else Inr ()))
       (\<lambda>_.
     or_answer (\<lambda>_. HandleHttpError (ErrorsNew ''challenge expired or missing''))
       (kv_get (''passkey_login:'' @ e_uuid_String E (pk_Id dto))) (\<lambda>challengeJson.
     or_http (lift (PasskeyLoginChallenge_decode E challengeJson)) (\<lambda>challenge.
       if plc_LoginSessionToken challenge \<noteq> loginToken then HandleHttpError (ErrorsNew ''challenge mismatch'')
       else
     or_http (lift (StdEncoding_DecodeString (pk_ClientDataJSON dto))) (\<lambda>clientDataBytes.
     or_http (lift (clientData_decode E clientDataBytes)) (\<lambda>(ty, clientChallenge, origin).
       if ty \<noteq> ''webauthn.get'' then HandleHttpError (ErrorsNew ''invalid clientData type'')
       else
     or_http (wrapped ''computing expected webauthn origin'' (lift (webauthnExpectedOrigin E))) (\<lambda>expectedOrigin.
       if origin \<noteq> expectedOrigin then HandleHttpError (Wrap ''clientData origin'' (Named ErrHttpUnauthorized))
       else
     or_http (lift (RawURLEncoding_DecodeString clientChallenge)) (\<lambda>challengeFromClient.
     or_http (lift (StdEncoding_DecodeString (plc_Challenge challenge))) (\<lambda>actualChallenge.
       if challengeFromClient \<noteq> actualChallenge then HandleHttpError (Wrap ''challenge mismatch'' (Named ErrHttpUnauthorized))
       else
     or_http (lift (RawURLEncoding_DecodeString (pk_AuthenticatorData dto))) (\<lambda>authData.
     or_http (db_read (\<lambda>st. CredentialRepository_FirstOrErr (st_Credentials st) (webauthn_by_id (pk_RawId dto))))
       (\<lambda>credential.
     or_http (lift (Credential_WebauthnDetails (Some credential))) (\<lambda>(credentialId, publicKeyAlgorithm, publicKey).
       let signedData = authData @ sha256_Sum256 clientDataBytes in
     or_http (wrapped ''invalid signature encoding'' (lift (RawURLEncoding_DecodeString (pk_Signature dto)))) (\<lambda>sigBytes.
     or_http (lift (case e_ParsePKIXPublicKey E publicKey of
                      None \<Rightarrow> Inl (Err (ErrorsNew ''x509'')) | Some k \<Rightarrow> Inr k)) (\<lambda>pubKey.
     or_http (lift (validateSignature E pubKey publicKeyAlgorithm signedData sigBytes)) (\<lambda>_.
     or_http (updateLoginStep E loginToken (\<lambda>loginInfo.
       bnd (wrapped ''getting credential owner'' (db_read (\<lambda>st. UserRepository_FirstOrNil (st_Users st)
              (UserFilter_Id (cr_userId credential)
                 (UserFilter_VirtualServerId (li_VirtualServerId loginInfo) NewUserFilter))))) (\<lambda>owner.
         case owner of
           None \<Rightarrow> err (Wrap ''credential does not belong to this virtual server'' (Named ErrHttpUnauthorized))
         | Some _ \<Rightarrow> ret (loginInfo\<lparr>li_UserId := cr_userId credential, li_Step := LoginStepPasskey\<rparr>))))
     (\<lambda>_. NoContent))))))))))))))))"

end
