(* ===== verification/Frames.thy ===== *)
theory Frames
  imports Login AuthzSpec
begin

text \<open>
  Computations that keep a part of the state: rules for every way the code composes steps, and
  the steps that leave the saved entities or the live values of the key-value store as they are.
\<close>

section \<open>Computations that keep a part of the state\<close>

definition keeps :: "(world \<Rightarrow> 'b) \<Rightarrow> 'a act \<Rightarrow> bool" where
  "keeps part m \<longleftrightarrow> (\<forall>w. part (snd (m w)) = part w)"

text \<open>The live values of the key-value store at the time of the request, and with them the saved entities.\<close>

definition live_values :: "world \<Rightarrow> time \<times> (string \<Rightarrow> jtext option)" where
  "live_values w = (w_now w, kv_live w)"

definition snapshot :: "world \<Rightarrow> (time \<times> (string \<Rightarrow> jtext option)) \<times> stores" where
  "snapshot w = (live_values w, w_stores w)"

lemma part_simps [simp]:
  "live_values (after_get k w) = live_values w" "live_values (drew w) = live_values w"
  "live_values (w\<lparr>w_out := es\<rparr>) = live_values w" "live_values (w\<lparr>w_db := c\<rparr>) = live_values w"
  "live_values (w\<lparr>w_keycache := kc\<rparr>) = live_values w" "live_values (w\<lparr>w_rand := n\<rparr>) = live_values w"
  "snapshot (after_get k w) = snapshot w" "snapshot (drew w) = snapshot w"
  "snapshot (w\<lparr>w_out := es\<rparr>) = snapshot w" "snapshot (w\<lparr>w_rand := n\<rparr>) = snapshot w"
  "w_stores (w\<lparr>w_out := es\<rparr>) = w_stores w"
  by (simp_all add: live_values_def snapshot_def fun_eq_iff) (simp_all add: kv_live_def w_stores_def)

named_theorems frame \<open>computations that keep a part of the state\<close>

lemma keepsI: "(\<And>w r w'. m w = (r, w') \<Longrightarrow> part w' = part w) \<Longrightarrow> keeps part m"
  unfolding keeps_def by (metis prod.collapse)

lemma keepsD: "keeps part m \<Longrightarrow> m w = (r, w') \<Longrightarrow> part w' = part w"
  by (metis keeps_def snd_conv)

lemma keeps_pure [frame, simp]:
  "keeps part (ret x)" "keeps part (lift r)" "keeps part (err e)" "keeps part (panic p)" "keeps part (stop_with s)"
  "keeps part get_now" "keeps part (db_read q)"
  by (simp_all add: keeps_def get_now_def db_read_def)

lemma keeps_live [frame, simp]:
  "keeps live_values (db_write t)" "keeps live_values db_save" "keeps live_values (emit ev)"
  "keeps live_values (uuid_New E)" "keeps live_values (GetSecureRandomBytes E n)" "keeps live_values (kv_get k)"
  "keeps live_values (HashPassword E pw)" "keeps live_values (HandleHttpError e)" "keeps live_values (GetToken ty tok)"
  by (simp_all add: keeps_def drew_act kv_get_eq HashPassword_def GetToken_eq
      db_write_def db_save_def emit_def split: prod.splits)

lemma keeps_snapshot [frame, simp]:
  "keeps snapshot (db_write t)" "keeps snapshot (emit ev)" "keeps snapshot (uuid_New E)"
  "keeps snapshot (GetSecureRandomBytes E n)" "keeps snapshot (kv_get k)"
  "keeps snapshot (HandleHttpError e)" "keeps snapshot (GetToken ty tok)"
  by (simp_all add: keeps_def drew_act kv_get_eq GetToken_eq emit_def db_write_def)
    (simp add: snapshot_def w_stores_def)

lemma keeps_bnd [frame]:
  assumes "keeps part m" "\<And>x. keeps part (f x)" shows "keeps part (bnd m f)"
  by (rule keepsI) (auto simp: bnd_def dest!: keepsD [OF assms(1)] keepsD [OF assms(2)] split: prod.splits sum.splits)

lemma keeps_wrapped [frame]: "keeps part m \<Longrightarrow> keeps part (wrapped msg m)"
  by (rule keepsI) (auto simp: wrapped_def dest: keepsD split: prod.splits)

lemma keeps_catch [frame]: "keeps part m \<Longrightarrow> keeps part (catch m)"
  by (rule keepsI) (auto simp: catch_def dest: keepsD split: prod.splits sum.splits stop.splits)

lemma keeps_or_answer [frame]:
  assumes "keeps part m" "\<And>x. keeps part (f x)" "\<And>e. keeps part (h e)" shows "keeps part (or_answer h m f)"
  by (rule keepsI) (auto simp: or_answer_def dest!: keepsD [OF assms(1)] keepsD [OF assms(2)] keepsD [OF assms(3)]
      split: prod.splits sum.splits stop.splits)

lemma keeps_if: "keeps part m \<Longrightarrow> keeps part n \<Longrightarrow> keeps part (if b then m else n)"
  by simp

lemma keeps_case_option:
  "keeps part m \<Longrightarrow> (\<And>x. keeps part (f x)) \<Longrightarrow> keeps part (case y of None \<Rightarrow> m | Some x \<Rightarrow> f x)"
  by (cases y) simp_all

lemma keeps_case_json:
  assumes "\<And>n. keeps part (num n)" "\<And>s. keeps part (str s)" "\<And>b. keeps part (bool b)" "keeps part nul"
    "\<And>t. keeps part (tm t)" "\<And>xs. keeps part (arr xs)" "\<And>ys. keeps part (obj ys)"
  shows "keeps part (case j of JNull \<Rightarrow> nul | JBool b \<Rightarrow> bool b | JNum n \<Rightarrow> num n | JStr s \<Rightarrow> str s | JTime t \<Rightarrow> tm t
    | JArr xs \<Rightarrow> arr xs | JObj ys \<Rightarrow> obj ys)"
  using assms by (cases j) simp_all

lemma keeps_case_prod: "(\<And>a b. keeps part (f a b)) \<Longrightarrow> keeps part (case x of (a, b) \<Rightarrow> f a b)"
  by (cases x) simp

lemmas keeps_branches = keeps_if keeps_case_option keeps_case_json keeps_case_prod

lemma keeps_PermissionBasedPolicy [frame, simp]: "keeps part (PermissionBasedPolicy p ctx)"
  unfolding PermissionBasedPolicy_def by (intro frame | auto split: option.splits)+

lemma keeps_live_Send:
  assumes "keeps live_values handler" "keeps live_values (rq_IsAllowed rq ctx)"
  shows "keeps live_values (Send E to_json rq ctx handler)"
  unfolding Send_def PolicyBehaviour_def SaveChangesBehaviour_def evaluatePolicy_def dbAuditLogger_Log_def vs_by_name_def
  by (intro frame assms | auto split: option.splits policy_result.splits intro!: frame assms)+

lemma keeps_live_CreateSession [frame, simp]: "keeps live_values (CreateSession E vsName u)"
  unfolding CreateSession_def SessionService_NewSession_def vs_by_name_def
  by (intro frame | auto simp: Let_def intro!: frame split: prod.splits)+

end
