(* ===== verification/LoginSpec.thy ===== *)
theory LoginSpec
  imports Frames
begin

text \<open>
  How each request moves a login: which step follows, what counts as a proof of identity, and
  for every handler that it changes the state of a login only along such a proof.
\<close>

section \<open>Frames of the login\<close>

lemma keeps_live_SetPassword [frame, simp]: "keeps live_values (Send_SetPassword E ctx a)"
  unfolding Send_SetPassword_def HandleSetPassword_def
  by (rule keeps_live_Send) (intro frame | auto simp: SetPassword_request_def Let_def split: option.splits intro!: frame)+

lemma DetermineNextLoginStep_keeps [frame, simp]:
  "keeps live_values (DetermineNextLoginStep E li)" "keeps snapshot (DetermineNextLoginStep E li)"
  unfolding DetermineNextLoginStep_def next_step_def
  by (intro frame | auto simp: Let_def intro!: frame split: prod.splits)+

section \<open>The state of a login\<close>

text \<open>What the token of a login holds, while it lives.\<close>

definition login_state :: "env \<Rightarrow> world \<Rightarrow> string \<Rightarrow> login_info option" where
  "login_state E w loginToken =
     (case token_live w LoginSessionTokenType loginToken of
        None \<Rightarrow> None
      | Some v \<Rightarrow> (case LoginInfo_decode E v of Inl _ \<Rightarrow> None | Inr li \<Rightarrow> Some li))"

lemma token_live_values: "live_values w' = live_values w \<Longrightarrow> token_live w' t x = token_live w t x"
  by (simp add: live_values_def token_live_def)

lemma login_state_live: "live_values w' = live_values w \<Longrightarrow> login_state E w' tok = login_state E w tok"
  using token_live_values [of w' w] by (simp add: login_state_def)

lemma clock_ok_live: "live_values w' = live_values w \<Longrightarrow> clock_ok w' = clock_ok w"
  by (simp add: live_values_def clock_ok_def)

lemma snapshot_live: "snapshot w' = snapshot w \<Longrightarrow> live_values w' = live_values w"
  by (simp add: snapshot_def)

lemma snapshot_stores: "snapshot w' = snapshot w \<Longrightarrow> w_stores w' = w_stores w"
  by (simp add: snapshot_def)

lemma snapshot_now: "snapshot w' = snapshot w \<Longrightarrow> w_now w' = w_now w"
  by (simp add: snapshot_def live_values_def)

lemma minute15' [simp]: "(0 :: int) < 15 * Minute" by (simp add: duration_defs)

lemma login_state_store_at [simp]:
  "uuid_ok E \<Longrightarrow> clock_ok w \<Longrightarrow> 0 < d \<Longrightarrow>
    login_state E (store_at (TokenType_Key LoginSessionTokenType tok) (Doc (LoginInfo_json E li)) d w) tok = Some li"
  by (simp add: login_state_def token_live_store_at)

text \<open>An update of the state fails and leaves the token, or it stores the new state with the next step.\<close>

lemma updateLoginStep_cases:
  assumes "uuid_ok E" "clock_ok w" "\<And>li. keeps live_values (mutate li)" "updateLoginStep E tok mutate w = (r, w')"
  obtains (failed) "r \<noteq> Inr ()" "live_values w' = live_values w"
  | (updated) li li1 w1 step li2 w2 where "r = Inr ()" "login_state E w tok = Some li"
      "mutate li (after_get (TokenType_Key LoginSessionTokenType tok) w) = (Inr li1, w1)"
      "live_values w1 = live_values w"
      "DetermineNextLoginStep E li1 w1 = (Inr (step, li2), w2)" "snapshot w2 = snapshot w1"
      "w' = store_at (TokenType_Key LoginSessionTokenType tok) (Doc (LoginInfo_json E (li2\<lparr>li_Step := step\<rparr>))) (15 * Minute) w2"
      "login_state E w' tok = Some (li2\<lparr>li_Step := step\<rparr>)"
proof -
  let ?k = "TokenType_Key LoginSessionTokenType tok"
  show thesis
  proof (cases "login_state E w tok")
    case None
    then have "r \<noteq> Inr ()" "live_values w' = live_values w" using assms(4)
      by (auto simp: updateLoginStep_def bnd_def wrapped_def GetToken_eq login_state_def split: option.splits sum.splits)
    then show thesis by (rule failed)
  next
    case li: (Some li)
    then obtain v where v: "token_live w LoginSessionTokenType tok = Some v" "LoginInfo_decode E v = Inr li"
      by (auto simp: login_state_def split: option.splits sum.splits)
    obtain r1 w1 where m: "mutate li (after_get ?k w) = (r1, w1)" by (cases "mutate li (after_get ?k w)")
    have l1: "live_values w1 = live_values w" using keepsD [OF assms(3) m] by simp
    show thesis
    proof (cases r1)
      case (Inl e)
      then have "r \<noteq> Inr ()" "w' = w1" using assms(4) v m
        by (auto simp: updateLoginStep_def bnd_def wrapped_def GetToken_eq wrap_def split: stop.splits)
      then show thesis using l1 failed by simp
    next
      case (Inr li1)
      obtain r2 w2 where d: "DetermineNextLoginStep E li1 w1 = (r2, w2)" by (cases "DetermineNextLoginStep E li1 w1")
      have s2: "snapshot w2 = snapshot w1" using keepsD [OF DetermineNextLoginStep_keeps(2) d] .
      show thesis
      proof (cases r2)
        case (Inl e)
        then have "r \<noteq> Inr ()" "w' = w2" using assms(4) v m d \<open>r1 = Inr li1\<close>
          by (auto simp: updateLoginStep_def bnd_def wrapped_def GetToken_eq wrap_def split: stop.splits)
        then show thesis using l1 snapshot_live [OF s2] failed by simp
      next
        case (Inr sl)
        obtain step li2 where sl: "sl = (step, li2)" by (cases sl)
        have w': "r = Inr ()" "w' = store_at ?k (Doc (LoginInfo_json E (li2\<lparr>li_Step := step\<rparr>))) (15 * Minute) w2"
          using assms(4) v m d \<open>r1 = Inr li1\<close> Inr sl
          by (auto simp: updateLoginStep_def bnd_def wrapped_def GetToken_eq json_Marshal_def UpdateToken_eq)
        have "clock_ok w2" using assms(2) clock_ok_live [OF l1] clock_ok_live [OF snapshot_live [OF s2]] by simp
        then have "login_state E w' tok = Some (li2\<lparr>li_Step := step\<rparr>)" using assms(1) by (simp add: w'(2))
        then show thesis using updated [OF w'(1) li] m l1 d s2 w' Inr sl \<open>r1 = Inr li1\<close> by simp
      qed
    qed
  qed
qed

section \<open>The next step\<close>

lemma UserRepository_FirstOrErr_filter_id:
  assumes "UserRepository_FirstOrErr s (UserFilter_Id i f) = Inr u"
  shows "bm_id (u_base u) = i"
proof -
  obtain us where us: "filter_go (User_matches (UserFilter_Id i f)) (map snd s) = Inr us" "first_of us = Some u"
    using assms by (auto simp: UserRepository_FirstOrErr_def UserRepository_FirstOrNil_def UserRepository_filtered_def
        repo_filtered_def or_err_def go_bind_Inr_iff split: option.splits)
  have "u \<in> set us" using us(2) by (cases us) (auto simp: first_of_def)
  then have "User_matches (UserFilter_Id i f) u = Inr True" using filter_go_sound [OF us(1)] by blast
  then show ?thesis
    by (auto simp: User_matches_def UserFilter_Id_def filter_eq_def split: if_splits)
qed

text \<open>A user without one-time password on a virtual server that does not ask for one.\<close>

definition no_second_factor :: "stores \<Rightarrow> uuid \<Rightarrow> uuid \<Rightarrow> bool" where
  "no_second_factor st vsId u \<longleftrightarrow>
     (\<exists>v. VirtualServerRepository_FirstOrErr (st_VirtualServers st) (VirtualServerFilter_Id vsId NewVirtualServerFilter) = Inr v \<and>
        \<not> vs_require2fa v) \<and>
     CredentialRepository_List (st_Credentials st) (user_credentials u CredentialTypeTotp) = Inr []"

lemma next_step_result:
  assumes "next_step E v user temporary totps li w = (Inr (step, li2), w2)"
  shows "li_UserId li2 = li_UserId li \<and> li_VirtualServerId li2 = li_VirtualServerId li \<and>
    (step = LoginStepFinish \<longrightarrow>
       li_Step li \<in> {LoginStepOnboardTotp, LoginStepVerifyTotp} \<or> totps = [] \<and> \<not> vs_require2fa v)"
  using assms by (auto simp: next_step_def Let_def bnd_def drew_act split: if_splits)

lemma DetermineNextLoginStep_result:
  assumes "DetermineNextLoginStep E li w = (Inr (step, li2), w2)"
  shows "li_UserId li2 = li_UserId li \<and> li_VirtualServerId li2 = li_VirtualServerId li \<and>
    (step = LoginStepFinish \<longrightarrow>
       li_Step li \<in> {LoginStepOnboardTotp, LoginStepVerifyTotp, LoginStepPasskey} \<or>
       no_second_factor (w_stores w) (li_VirtualServerId li) (li_UserId li))"
proof (cases "li_Step li = LoginStepPasskey")
  case True
  then show ?thesis using assms by (simp add: DetermineNextLoginStep_def)
next
  case False
  obtain v user c totps hash temporary where
    v: "VirtualServerRepository_FirstOrErr (st_VirtualServers (w_stores w))
      (VirtualServerFilter_Id (li_VirtualServerId li) NewVirtualServerFilter) = Inr v"
    and u: "UserRepository_FirstOrErr (st_Users (w_stores w))
      (UserFilter_Id (li_UserId li) (UserFilter_VirtualServerId (li_VirtualServerId li) NewUserFilter)) = Inr user"
    and t: "CredentialRepository_List (st_Credentials (w_stores w))
      (user_credentials (bm_id (u_base user)) CredentialTypeTotp) = Inr totps"
    and n: "next_step E v user temporary totps li w = (Inr (step, li2), w2)"
    using assms False by (auto simp: DetermineNextLoginStep_def bnd_eq_Inr db_read_def)
  show ?thesis
    using next_step_result [OF n] UserRepository_FirstOrErr_filter_id [OF u] v t
    by (auto simp: no_second_factor_def)
qed

section \<open>Proofs of identity\<close>

datatype login_request =
    RVerifyPassword "verify_password_dto go"
  | RVerifyEmail
  | ROnboardTotp "string go"
  | RVerifyTotp "string go"
  | RResetPassword "string go"
  | RResendMail
  | RGetState
  | RStartPasskey
  | RFinishPasskey "passkey_dto go"
  | RFinish

fun run_request :: "env \<Rightarrow> string \<Rightarrow> login_request \<Rightarrow> unit act" where
  "run_request E tok (RVerifyPassword body) = VerifyPassword E tok body"
| "run_request E tok RVerifyEmail = VerifyEmailToken E tok"
| "run_request E tok (ROnboardTotp body) = OnboardTotp E tok body"
| "run_request E tok (RVerifyTotp body) = VerifyTotp E tok body"
| "run_request E tok (RResetPassword body) = ResetTemporaryPassword E tok body"
| "run_request E tok RResendMail = ResendEmailVerification E tok"
| "run_request E tok RGetState = GetLoginState E tok"
| "run_request E tok RStartPasskey = StartPasskeyLogin E tok"
| "run_request E tok (RFinishPasskey body) = FinishPasskeyLogin E tok body"
| "run_request E tok RFinish = FinishLogin E tok"

text \<open>The password of a user of the virtual server, found by its name.\<close>

definition password_proof :: "env \<Rightarrow> stores \<Rightarrow> uuid \<Rightarrow> verify_password_dto \<Rightarrow> uuid \<Rightarrow> bool" where
  "password_proof E st vsId dto u \<longleftrightarrow>
     (\<exists>user c hash temporary.
        UserRepository_FirstOrNil (st_Users st)
          (UserFilter_Username (vp_Username dto) (UserFilter_VirtualServerId vsId NewUserFilter)) = Inr (Some user) \<and>
        bm_id (u_base user) = u \<and>
        CredentialRepository_FirstOrNil (st_Credentials st) (user_credentials u CredentialTypePassword) = Inr (Some c) \<and>
        Credential_PasswordDetails (Some c) = Inr (hash, temporary) \<and>
        e_CheckPassword E (vp_Password dto) hash = Some True)"

text \<open>
  An assertion of a passkey of the user: it signs the challenge that was made for this login,
  for the origin of the frontend, and the signature verifies under the stored public key.
\<close>

definition passkey_proof :: "env \<Rightarrow> world \<Rightarrow> string \<Rightarrow> passkey_dto \<Rightarrow> uuid \<Rightarrow> bool" where
  "passkey_proof E w tok dto u \<longleftrightarrow>
     (\<exists>challengeJson challenge bytes clientData clientChallenge origin authData c cid alg publicKey key sig.
        kv_live w (''passkey_login:'' @ e_uuid_String E (pk_Id dto)) = Some challengeJson \<and>
        PasskeyLoginChallenge_decode E challengeJson = Inr challenge \<and> plc_LoginSessionToken challenge = tok \<and>
        StdEncoding_DecodeString (pk_ClientDataJSON dto) = Inr clientData \<and>
        clientData_decode E clientData = Inr (''webauthn.get'', clientChallenge, origin) \<and>
        webauthnExpectedOrigin E = Inr origin \<and>
        RawURLEncoding_DecodeString clientChallenge = Inr bytes \<and>
        StdEncoding_DecodeString (plc_Challenge challenge) = Inr bytes \<and>
        RawURLEncoding_DecodeString (pk_AuthenticatorData dto) = Inr authData \<and>
        CredentialRepository_FirstOrErr (st_Credentials (w_stores w)) (webauthn_by_id (pk_RawId dto)) = Inr c \<and>
        cr_userId c = u \<and> Credential_WebauthnDetails (Some c) = Inr (cid, alg, publicKey) \<and>
        e_ParsePKIXPublicKey E publicKey = Some key \<and>
        RawURLEncoding_DecodeString (pk_Signature dto) = Inr sig \<and>
        validateSignature E key alg (authData @ sha256_Sum256 clientData) sig = Inr ())"

fun first_factor :: "env \<Rightarrow> string \<Rightarrow> world \<Rightarrow> login_request \<Rightarrow> uuid \<Rightarrow> bool" where
  "first_factor E tok w (RVerifyPassword (Inr dto)) u =
     (\<exists>li. login_state E w tok = Some li \<and> password_proof E (w_stores w) (li_VirtualServerId li) dto u)"
| "first_factor E tok w (RFinishPasskey (Inr dto)) u = passkey_proof E w tok dto u"
| "first_factor E tok w _ u = False"

fun second_factor :: "env \<Rightarrow> string \<Rightarrow> world \<Rightarrow> login_request \<Rightarrow> uuid \<Rightarrow> bool" where
  "second_factor E tok w (ROnboardTotp (Inr code)) u =
     (\<exists>li. login_state E w tok = Some li \<and> li_UserId li = u \<and> e_totp_Validate E (w_now w) code (li_TotpSecret li))"
| "second_factor E tok w (RVerifyTotp (Inr code)) u =
     (\<exists>cs. CredentialRepository_List (st_Credentials (w_stores w)) (user_credentials u CredentialTypeTotp) = Inr cs \<and>
        any_totp E (w_now w) code cs = Inr True)"
| "second_factor E tok w (RFinishPasskey (Inr dto)) u = passkey_proof E w tok dto u"
| "second_factor E tok w _ u = False"

text \<open>
  How a request may change the state of a login: it stays at the password, or the user proves
  who it is, or a proved user goes on; the last step is reached with a second factor, or
  where none is asked for.
\<close>

definition progress :: "env \<Rightarrow> string \<Rightarrow> login_request \<Rightarrow> world \<Rightarrow> world \<Rightarrow> login_info \<Rightarrow> login_info \<Rightarrow> bool" where
  "progress E tok q w w' li li' \<longleftrightarrow>
     li_VirtualServerId li' = li_VirtualServerId li \<and>
     (li_Step li = LoginStepPasswordVerification \<and> li_Step li' = LoginStepPasswordVerification \<or>
      (first_factor E tok w q (li_UserId li') \<or>
         li_Step li \<noteq> LoginStepPasswordVerification \<and> li_UserId li' = li_UserId li) \<and>
      (li_Step li' = LoginStepFinish \<longrightarrow>
         second_factor E tok w q (li_UserId li') \<or>
         no_second_factor (w_stores w') (li_VirtualServerId li) (li_UserId li')))"

definition moves :: "env \<Rightarrow> string \<Rightarrow> login_request \<Rightarrow> world \<Rightarrow> world \<Rightarrow> bool" where
  "moves E tok q w w' \<longleftrightarrow>
     login_state E w' tok = login_state E w tok \<or> login_state E w' tok = None \<or>
     (\<exists>li li'. login_state E w tok = Some li \<and> login_state E w' tok = Some li' \<and> progress E tok q w w' li li')"

lemma moves_live: "live_values w' = live_values w \<Longrightarrow> moves E tok q w w'"
  by (drule login_state_live [where E = E and tok = tok]) (simp add: moves_def)

lemma moves_snapshot:
  assumes "snapshot w2 = snapshot w1" "moves E tok q w w1" shows "moves E tok q w w2"
  using assms(2) login_state_live [OF snapshot_live [OF assms(1)]] snapshot_stores [OF assms(1)]
  by (simp add: moves_def progress_def)

section \<open>The effect of each request\<close>

definition ends :: "(world \<Rightarrow> bool) \<Rightarrow> unit act \<Rightarrow> world \<Rightarrow> bool" where
  "ends Q m w \<longleftrightarrow> (\<forall>r w'. m w = (r, w') \<longrightarrow> Q w')"

lemma ends_live: "keeps live_values m \<Longrightarrow> snapshot w = snapshot w0 \<Longrightarrow> ends (moves E tok q w0) m w"
  unfolding ends_def by (metis keepsD moves_live snapshot_live)

lemma moves_same: "snapshot w' = snapshot w \<Longrightarrow> moves E tok q w w'"
  by (blast intro: moves_live snapshot_live)

lemma ends_or_answer:
  assumes "keeps snapshot m" "snapshot w = snapshot w0" "\<And>e. keeps snapshot (h e)"
    and "\<And>x w1. m w = (Inr x, w1) \<Longrightarrow> snapshot w1 = snapshot w0 \<Longrightarrow> ends (moves E tok q w0) (f x) w1"
  shows "ends (moves E tok q w0) (or_answer h m f) w"
proof -
  obtain r w1 where m: "m w = (r, w1)" by (cases "m w")
  have s1: "snapshot w1 = snapshot w0" using keepsD [OF assms(1) m] assms(2) by simp
  have h: "snapshot w' = snapshot w0" if "h e w1 = (r', w')" for e r' w'
    using keepsD [OF assms(3) that] s1 by simp
  show ?thesis
  proof (cases r)
    case (Inl e)
    then show ?thesis using m s1 h by (cases e) (auto simp: ends_def or_answer_def intro: moves_same)
  next
    case (Inr x)
    then show ?thesis using m s1 assms(4) [of x w1] by (simp add: ends_def or_answer_def)
  qed
qed

lemma ends_or_http:
  assumes "keeps snapshot m" "snapshot w = snapshot w0"
    and "\<And>x w1. m w = (Inr x, w1) \<Longrightarrow> snapshot w1 = snapshot w0 \<Longrightarrow> ends (moves E tok q w0) (f x) w1"
  shows "ends (moves E tok q w0) (or_http m f) w"
  unfolding or_http_def by (rule ends_or_answer [OF assms(1,2) _ assms(3)]) simp_all

lemma NoContent_apply: "NoContent w = (Inr (), w\<lparr>w_out := w_out w @ [WriteHeader 204]\<rparr>)"
  by (simp add: NoContent_def emit_def)

lemma ends_update:
  assumes "uuid_ok E" "clock_ok w0" "snapshot w = snapshot w0" "\<And>li. keeps live_values (mutate li)"
    and "\<And>li li1 w1 wg. login_state E w0 tok = Some li \<Longrightarrow> mutate li wg = (Inr li1, w1) \<Longrightarrow>
      w_stores wg = w_stores w0 \<Longrightarrow> w_now wg = w_now w0 \<Longrightarrow>
      li_VirtualServerId li1 = li_VirtualServerId li \<and>
      (first_factor E tok w0 q (li_UserId li1) \<or>
         li_Step li \<noteq> LoginStepPasswordVerification \<and> li_UserId li1 = li_UserId li) \<and>
      (li_Step li1 \<in> {LoginStepOnboardTotp, LoginStepVerifyTotp, LoginStepPasskey} \<longrightarrow>
         second_factor E tok w0 q (li_UserId li1))"
  shows "ends (moves E tok q w0) (or_http (updateLoginStep E tok mutate) (\<lambda>_. NoContent)) w"
  unfolding ends_def
proof (intro allI impI)
  fix r w' assume run: "or_http (updateLoginStep E tok mutate) (\<lambda>_. NoContent) w = (r, w')"
  obtain r1 w1 where u: "updateLoginStep E tok mutate w = (r1, w1)" by (cases "updateLoginStep E tok mutate w")
  have w': "snapshot w' = snapshot w1"
    using run u by (auto simp: or_http_def or_answer_def NoContent_apply split: sum.splits stop.splits)
  have live: "live_values w = live_values w0" using snapshot_live [OF assms(3)] .
  have clock: "clock_ok w" using assms(2) clock_ok_live [OF live] by simp
  have "moves E tok q w0 w1"
  proof (cases rule: updateLoginStep_cases [OF assms(1) clock assms(4) u])
    case 1
    then show ?thesis using live by (intro moves_live) simp
  next
    case (2 li li1 wm step li2 w2)
    have li: "login_state E w0 tok = Some li" using 2(2) login_state_live [OF live] by simp
    have m: "li_VirtualServerId li1 = li_VirtualServerId li \<and>
      (first_factor E tok w0 q (li_UserId li1) \<or>
         li_Step li \<noteq> LoginStepPasswordVerification \<and> li_UserId li1 = li_UserId li) \<and>
      (li_Step li1 \<in> {LoginStepOnboardTotp, LoginStepVerifyTotp, LoginStepPasskey} \<longrightarrow>
         second_factor E tok w0 q (li_UserId li1))"
      using assms(5) [OF li 2(3)] snapshot_stores [OF assms(3)] snapshot_now [OF assms(3)] by simp
    note d = DetermineNextLoginStep_result [OF 2(5)]
    have "w_stores w1 = w_stores wm" using 2(7) snapshot_stores [OF 2(6)] by simp
    then have "progress E tok q w0 w1 li (li2\<lparr>li_Step := step\<rparr>)"
      using m d by (auto simp: progress_def)
    then show ?thesis using li 2(8) by (auto simp: moves_def)
  qed
  then show "moves E tok q w0 w'" by (rule moves_snapshot [OF w'])
qed

lemmas step_or_http = ends_or_http [rotated 2]

lemma nil_dereference_not_Inr [simp]: "nil_dereference \<noteq> Inr x"
  by (simp add: nil_dereference_def)

lemmas effect_simps = bnd_eq_Inr get_now_def db_read_def drew_act db_write_def

lemma moves_VerifyEmailToken:
  assumes "uuid_ok E" "clock_ok w"
  shows "ends (moves E tok RVerifyEmail w) (VerifyEmailToken E tok) w"
  unfolding VerifyEmailToken_def
  by (rule ends_update [OF assms refl])
    (intro frame | auto simp: effect_simps split: option.splits if_splits sum.splits intro!: frame)+

lemma moves_OnboardTotp:
  assumes "uuid_ok E" "clock_ok w"
  shows "ends (moves E tok (ROnboardTotp body) w) (OnboardTotp E tok body) w"
  unfolding OnboardTotp_def
  by (rule step_or_http, rule step_or_http, rule ends_update [OF assms], assumption)
    (intro frame | auto simp: effect_simps split: if_splits intro!: frame)+

lemma moves_VerifyTotp:
  assumes "uuid_ok E" "clock_ok w"
  shows "ends (moves E tok (RVerifyTotp body) w) (VerifyTotp E tok body) w"
  unfolding VerifyTotp_def
  by (rule step_or_http, rule step_or_http, rule ends_update [OF assms], assumption)
    (intro frame | auto simp: effect_simps split: if_splits intro!: frame)+

lemma moves_ResetTemporaryPassword:
  assumes "uuid_ok E" "clock_ok w"
  shows "ends (moves E tok (RResetPassword body) w) (ResetTemporaryPassword E tok body) w"
  unfolding ResetTemporaryPassword_def
  by (rule ends_update [OF assms refl])
    (intro frame | auto simp: effect_simps split: if_splits intro!: frame)+

lemma moves_GetLoginState: "ends (moves E tok RGetState w) (GetLoginState E tok) w"
  unfolding GetLoginState_def or_status_def
  by (rule ends_live) (intro frame | auto intro!: frame)+

text \<open>A password that is right is the password of the user that the name leads to.\<close>

lemma verifyPasswordCredential_keeps [simp]: "keeps snapshot (verifyPasswordCredential E vsId name pw)"
  unfolding verifyPasswordCredential_def
  by (intro frame | auto split: option.splits sum.splits intro!: frame)+

lemma verifyPasswordCredential_right:
  assumes "verifyPasswordCredential E vsId (vp_Username dto) (vp_Password dto) w = (Inr (user, True), w1)"
  shows "\<exists>u. user = Some u \<and> password_proof E (w_stores w) vsId dto (bm_id (u_base u))"
proof -
  obtain uo where uo: "UserRepository_FirstOrNil (st_Users (w_stores w))
      (UserFilter_Username (vp_Username dto) (UserFilter_VirtualServerId vsId NewUserFilter)) = Inr uo"
    using assms by (auto simp: verifyPasswordCredential_def bnd_eq_Inr db_read_def)
  obtain u where u: "uo = Some u"
    using assms uo by (cases uo) (auto simp: verifyPasswordCredential_def bnd_eq_Inr db_read_def)
  obtain co where co: "CredentialRepository_FirstOrNil (st_Credentials (w_stores w))
      (user_credentials (bm_id (u_base u)) CredentialTypePassword) = Inr co"
    using assms uo u by (auto simp: verifyPasswordCredential_def bnd_eq_Inr db_read_def)
  obtain c where c: "co = Some c"
    using assms uo u co by (cases co) (auto simp: verifyPasswordCredential_def bnd_eq_Inr db_read_def)
  obtain h t where d: "Credential_PasswordDetails (Some c) = Inr (h, t)"
    using assms uo u co c by (cases "Credential_PasswordDetails (Some c)")
      (auto simp: verifyPasswordCredential_def bnd_eq_Inr db_read_def)
  have "e_CheckPassword E (vp_Password dto) h = Some True \<and> user = Some u"
    using assms uo u co c d
    by (auto simp: verifyPasswordCredential_def bnd_eq_Inr db_read_def CompareHash_def split: option.splits)
  then show ?thesis using uo u co c d by (auto simp: password_proof_def)
qed

lemma http_status_unauthorized [simp]: "http_status_of (Named ErrHttpUnauthorized) = 401"
  by (simp add: http_status_of_def sentinel_is_def)

lemma ends_or_http_live:
  "keeps live_values m \<Longrightarrow> (\<And>x. keeps live_values (f x)) \<Longrightarrow> keeps live_values (or_http m f)"
  unfolding or_http_def by (intro frame) simp_all

lemma login_state_drop_at [simp]:
  "login_state E (drop_at (TokenType_Key LoginSessionTokenType tok) w) tok = None"
  by (simp add: login_state_def token_live_drop_at)

lemma login_state_out [simp]: "login_state E (w\<lparr>w_out := es\<rparr>) tok = login_state E w tok"
  by (rule login_state_live) simp

text \<open>A wrong password is counted; the last one ends the login.\<close>

lemma wrong_password_step:
  assumes "uuid_ok E" "clock_ok w" "login_state E w tok = Some li"
  shows "or_http (if li_FailedPasswordAttempts (count_failure li) \<ge> MaxFailedPasswordAttempts
                  then wrapped ''deleting login token'' (DeleteToken LoginSessionTokenType tok)
                  else bnd (wrapped ''marshal login info'' (lift (json_Marshal (LoginInfo_json E (count_failure li)))))
                    (\<lambda>updated. wrapped ''update login token''
                       (UpdateToken LoginSessionTokenType tok updated (15 * Minute))))
          (\<lambda>_. HandleHttpError (Named ErrHttpUnauthorized)) w = (r, w') \<Longrightarrow>
    r = Inr () \<and> w_out w' = w_out w @ [HttpError 401] \<and> w_db w' = w_db w \<and> clock_ok w' \<and>
    login_state E w' tok =
      (if li_FailedPasswordAttempts (count_failure li) \<ge> MaxFailedPasswordAttempts then None else Some (count_failure li))"
  using assms
  by (auto simp: or_http_def or_answer_def wrapped_def bnd_def DeleteToken_drop UpdateToken_eq json_Marshal_def
      clock_ok_def split: if_splits)

lemma moves_VerifyPassword:
  assumes "uuid_ok E" "clock_ok w"
  shows "ends (moves E tok (RVerifyPassword body) w) (VerifyPassword E tok body) w"
  unfolding VerifyPassword_def
proof ((rule step_or_http)+, goal_cases)
  case (1 dto w1 _ w2 raw w3 li w4)
  have li: "login_state E w tok = Some li"
    using 1(5,7) token_live_values [OF snapshot_live [OF 1(4)]]
    by (auto simp: login_state_def GetToken_eq split: option.splits)
  have body: "body = Inr dto" using 1(1) by simp
  have w4: "snapshot w4 = snapshot w" using 1(8) .
  show ?case
  proof (cases "li_Step li = LoginStepPasswordVerification")
    case False
    then show ?thesis by simp (rule ends_live [OF _ 1(8)], simp)
  next
    case True
    have "\<not> li_Step li \<noteq> LoginStepPasswordVerification" using True by simp
    note stays = if_not_P [OF this]
    show ?thesis
      unfolding stays
    proof (rule step_or_http, goal_cases)
      case (1 p w5)
      obtain user ok where p: "p = (user, ok)" by (cases p)
      have s5: "snapshot w5 = snapshot w" by (rule 1(2))
      have li5: "login_state E w5 tok = Some li" and c5: "clock_ok w5"
        using li login_state_live [OF snapshot_live [OF s5]] clock_ok_live [OF snapshot_live [OF s5]] assms(2) by simp_all
      show ?case
      proof (cases ok)
        case False
        then show ?thesis
          using wrong_password_step [OF assms(1) c5 li5] li True
          by (fastforce simp: p ends_def moves_def progress_def count_failure_def Let_def)
      next
        case right: True
        obtain u where u: "user = Some u" "password_proof E (w_stores w) (li_VirtualServerId li) dto (bm_id (u_base u))"
          using verifyPasswordCredential_right [of E "li_VirtualServerId li" dto w4 user w5] 1(1) p right
            snapshot_stores [OF w4] by auto
        have "first_factor E tok w (RVerifyPassword body) (bm_id (u_base u))" using body li u by simp
        then show ?thesis
          using right p u True li
          by (simp only: p prod.case)
            (simp, rule ends_update [OF assms s5], auto)
      qed
    qed (simp_all add: w4 keeps_wrapped)
  qed
qed (simp_all add: keeps_wrapped)

text \<open>Writes under other keys do not touch the login.\<close>

definition this_login :: "env \<Rightarrow> string \<Rightarrow> world \<Rightarrow> jtext option" where
  "this_login E tok w = token_live w LoginSessionTokenType tok"

lemma kv_live_store_other [simp]: "k' \<noteq> k \<Longrightarrow> kv_live (store_at k v d w) k' = kv_live w k'"
  by (simp add: kv_live_def store_at_def kv_set_exp_def kv_Set_def kv_view_def update_conv' Let_def)

lemma keeps_this_login: "keeps live_values m \<Longrightarrow> keeps (this_login E tok) m"
  unfolding keeps_def this_login_def by (metis token_live_values)

lemma this_login_login_state: "this_login E tok w' = this_login E tok w \<Longrightarrow> login_state E w' tok = login_state E w tok"
  by (simp add: this_login_def login_state_def)

lemma ends_this_login: "keeps (this_login E tok) m \<Longrightarrow> ends (moves E tok q w) m w"
  unfolding ends_def moves_def by (metis keepsD this_login_login_state)

lemma other_token_key:
  "known_type t \<Longrightarrow> t \<noteq> LoginSessionTokenType \<Longrightarrow> TokenType_Key LoginSessionTokenType tok \<noteq> TokenType_Key t x"
  by (simp add: TokenType_Key_inj)

lemma passkey_key: "TokenType_Key LoginSessionTokenType tok \<noteq> ''passkey_login:'' @ x"
  by (simp add: TokenType_Key_def LoginSessionTokenType_def)

lemma keeps_this_login_writes [frame]:
  "known_type t \<Longrightarrow> t \<noteq> LoginSessionTokenType \<Longrightarrow> keeps (this_login E tok) (GenerateAndStoreToken E' t v d)"
  "known_type t \<Longrightarrow> t \<noteq> LoginSessionTokenType \<Longrightarrow> keeps (this_login E tok) (UpdateToken t x v d)"
  "known_type t \<Longrightarrow> t \<noteq> LoginSessionTokenType \<Longrightarrow> keeps (this_login E tok) (DeleteToken t x)"
  "keeps (this_login E tok) (kv_set (''passkey_login:'' @ y) v [WithExpiration d])"
  using other_token_key [of t tok] passkey_key [of tok]
  by (simp_all add: keeps_def this_login_def token_live_def GenerateAndStoreToken_eq UpdateToken_eq DeleteToken_drop
      kv_set_store_at)

lemma keeps_this_login_steps [frame, simp]:
  "keeps (this_login E tok) (db_write t)" "keeps (this_login E tok) db_save" "keeps (this_login E tok) (emit ev)"
  "keeps (this_login E tok) (uuid_New E')" "keeps (this_login E tok) (GetSecureRandomBytes E' n)"
  "keeps (this_login E tok) (kv_get k)" "keeps (this_login E tok) (HandleHttpError e)"
  "keeps (this_login E tok) (GetToken ty x)" "keeps (this_login E tok) (CreateSession E' vs u)"
  by (simp_all add: keeps_this_login)

lemma token_types_neq [simp]:
  "EmailVerificationTokenType \<noteq> LoginSessionTokenType" "OidcDeviceCodeTokenType \<noteq> LoginSessionTokenType"
  "OidcUserCodeTokenType \<noteq> LoginSessionTokenType" "OidcCodeTokenType \<noteq> LoginSessionTokenType"
  "OidcRefreshTokenTokenType \<noteq> LoginSessionTokenType"
  by (simp_all add: token_type_defs)

lemma keeps_this_login_or_http [frame]:
  "keeps (this_login E tok) m \<Longrightarrow> (\<And>x. keeps (this_login E tok) (f x)) \<Longrightarrow> keeps (this_login E tok) (or_http m f)"
  "keeps (this_login E tok) m \<Longrightarrow> (\<And>x. keeps (this_login E tok) (f x)) \<Longrightarrow> keeps (this_login E tok) (or_status s m f)"
  unfolding or_http_def or_status_def by (intro frame; simp)+

lemma moves_ResendEmailVerification: "ends (moves E tok RResendMail w) (ResendEmailVerification E tok) w"
  unfolding ResendEmailVerification_def TemplateService_Template_def NoContent_def
  by (rule ends_this_login) (intro frame | auto split: option.splits intro!: frame)+

lemma moves_StartPasskeyLogin: "ends (moves E tok RStartPasskey w) (StartPasskeyLogin E tok) w"
  unfolding StartPasskeyLogin_def Let_def
  by (rule ends_this_login) (intro frame | auto intro!: frame)+

lemma ends_if: "(\<not> c \<Longrightarrow> ends Q b w) \<Longrightarrow> (c \<Longrightarrow> ends Q a w) \<Longrightarrow> ends Q (if c then a else b) w"
  by simp

lemma ends_prod: "(\<And>a b. x = (a, b) \<Longrightarrow> ends Q (f a b) w) \<Longrightarrow> ends Q (case x of (a, b) \<Rightarrow> f a b) w"
  by (cases x) simp

lemma ends_HandleHttpError: "snapshot w' = snapshot w \<Longrightarrow> ends (moves E tok q w) (HandleHttpError e) w'"
  by (rule ends_live) simp_all

lemmas step_or_answer = ends_or_answer [rotated 3]

lemma moves_FinishPasskeyLogin:
  assumes "uuid_ok E" "clock_ok w"
  shows "ends (moves E tok (RFinishPasskey body) w) (FinishPasskeyLogin E tok body) w"
  unfolding FinishPasskeyLogin_def Let_def
  apply ((rule ends_update [OF assms] | rule ends_if | rule ends_prod | rule step_or_http | rule step_or_answer)+)
   subgoal by assumption
  subgoal by (intro frame | auto split: option.splits intro!: frame)+
  subgoal
    by (auto simp: snapshot_def live_values_def kv_get_eq effect_simps passkey_proof_def
        split: option.splits if_splits)
  by (intro frame ends_HandleHttpError | assumption | auto split: option.splits intro!: frame ends_HandleHttpError)+

section \<open>The end of a login\<close>

lemma keeps_db [frame, simp]:
  "keeps w_db (emit ev)" "keeps w_db (GetToken ty x)" "keeps w_db (UpdateToken ty x v d)" "keeps w_db (DeleteToken ty x)"
  "keeps w_db (HandleHttpError e)"
  by (simp_all add: keeps_def emit_def GetToken_eq UpdateToken_eq DeleteToken_drop)

lemma keeps_db_or_http [frame]:
  "keeps w_db m \<Longrightarrow> (\<And>x. keeps w_db (f x)) \<Longrightarrow> keeps w_db (or_http m f)"
  unfolding or_http_def by (intro frame; simp)+

text \<open>What \<^verbatim>\<open>FinishLogin\<close> does once the session is created and the token deleted.\<close>

definition after_login :: "env \<Rightarrow> login_info \<Rightarrow> unit act" where
  "after_login E loginInfo =
     (if li_DeviceCode loginInfo \<noteq> [] then
        or_http (wrapped ''getting device code info'' (GetToken OidcDeviceCodeTokenType (li_DeviceCode loginInfo)))
          (\<lambda>deviceCodeInfoString.
        or_http (wrapped ''unmarshaling device code info'' (lift (DeviceCodeInfo_decode deviceCodeInfoString)))
          (\<lambda>info.
           let info = info\<lparr>di_Status := DeviceCodeStatusAuthorized,
                           di_UserId := e_uuid_String E (li_UserId loginInfo)\<rparr> in
        or_http (wrapped ''marshaling device code info'' (lift (json_Marshal (DeviceCodeInfo_json info))))
          (\<lambda>updatedInfoJson.
        or_http (wrapped ''updating device code info''
                   (UpdateToken OidcDeviceCodeTokenType (li_DeviceCode loginInfo) updatedInfoJson (10 * Minute)))
          (\<lambda>_.
        bnd (if di_UserCode info \<noteq> [] then bnd (catch (DeleteToken OidcUserCodeTokenType (di_UserCode info))) (\<lambda>_. ret ())
             else ret ()) (\<lambda>_.
          emit (Redirect (e_ExternalUrl E @ ''/oidc/'' @ li_VirtualServerName loginInfo @ ''/activate/success'') 302))))))
      else emit (Redirect (li_OriginalUrl loginInfo) 302))"

lemma keeps_after_login:
  "keeps w_db (after_login E li)" "keeps (this_login E' tok) (after_login E li)"
  unfolding after_login_def Let_def
  by (intro frame | auto intro!: frame)+

lemma FinishLogin_parts:
  "FinishLogin E tok =
     or_status 400 (GetToken LoginSessionTokenType tok) (\<lambda>rawTokenData.
     or_http (lift (LoginInfo_decode E rawTokenData)) (\<lambda>li.
       if li_Step li \<noteq> LoginStepFinish then emit (WriteHeader 401)
       else
         or_http (CreateSession E (li_VirtualServerName li) (li_UserId li)) (\<lambda>_.
         or_http (DeleteToken LoginSessionTokenType tok) (\<lambda>_. after_login E li))))"
  unfolding FinishLogin_def after_login_def ..

lemma FinishLogin_live:
  "login_state E w tok = Some li \<Longrightarrow>
   FinishLogin E tok w =
     (if li_Step li \<noteq> LoginStepFinish then emit (WriteHeader 401)
      else or_http (CreateSession E (li_VirtualServerName li) (li_UserId li)) (\<lambda>_.
             or_http (DeleteToken LoginSessionTokenType tok) (\<lambda>_. after_login E li)))
     (after_get (TokenType_Key LoginSessionTokenType tok) w)"
  by (auto simp: FinishLogin_parts or_status_def or_answer_def or_http_def GetToken_eq login_state_def
      split: option.splits sum.splits)

lemma FinishLogin_dead:
  assumes "login_state E w tok = None" "FinishLogin E tok w = (r, w')"
  shows "w_db w' = w_db w \<and> login_state E w' tok = None"
proof -
  have "login_state E (after_get (TokenType_Key LoginSessionTokenType tok) w) tok = None"
    using assms(1) login_state_live [of "after_get (TokenType_Key LoginSessionTokenType tok) w" w] by simp
  then show ?thesis
    using assms by (auto simp: FinishLogin_parts or_status_def or_answer_def or_http_def GetToken_eq emit_def
        login_state_def [of E w] split: option.splits sum.splits stop.splits)
qed

lemma CreateSession_unknown:
  "vs_named (w_stores w) vsName = None \<Longrightarrow>
     \<exists>e. CreateSession E vsName u w = (Inl (Err e), w)"
  by (simp add: CreateSession_def SessionService_NewSession_def bnd_def wrapped_def vs_by_name_eq)

text \<open>A login is finished with a new session of the user in its state, or nothing is saved and the login stays.\<close>

lemma FinishLogin_effect:
  assumes "FinishLogin E tok w = (r, w')"
  shows "w_db w' = w_db w \<and> login_state E w' tok = login_state E w tok \<or>
    (\<exists>li v s. login_state E w tok = Some li \<and> li_Step li = LoginStepFinish \<and>
       vs_named (w_stores w) (li_VirtualServerName li) = Some v \<and>
       se_userId s = li_UserId li \<and> se_virtualServerId s = bm_id (vs_base v) \<and>
       db_tracker (w_db w') = db_tracker (w_db w) @ [NewEntry Added SessionEntityType (ItemSession s)] \<and>
       login_state E w' tok = None)"
proof (cases "login_state E w tok")
  case None
  then show ?thesis using FinishLogin_dead [OF None assms] by simp
next
  case li: (Some li)
  let ?k = "TokenType_Key LoginSessionTokenType tok"
  show ?thesis
  proof (cases "li_Step li = LoginStepFinish")
    case False
    have "login_state E (after_get ?k w) tok = login_state E w tok" by (rule login_state_live) simp
    then show ?thesis using assms li False by (auto simp: FinishLogin_live [OF li] emit_def)
  next
    case fin: True
    show ?thesis
    proof (cases "vs_named (w_stores w) (li_VirtualServerName li)")
      case None
      then obtain e where "CreateSession E (li_VirtualServerName li) (li_UserId li) (after_get ?k w) =
          (Inl (Err e), after_get ?k w)"
        using CreateSession_unknown [of "after_get ?k w" "li_VirtualServerName li" E "li_UserId li"] by auto
      moreover have "login_state E (after_get ?k w) tok = login_state E w tok" by (rule login_state_live) simp
      ultimately show ?thesis using assms li fin by (auto simp: FinishLogin_live [OF li] or_http_def or_answer_def)
    next
      case v: (Some v)
      obtain w1 s where c: "CreateSession E (li_VirtualServerName li) (li_UserId li) (after_get ?k w) = (Inr (), w1)"
        "db_tracker (w_db w1) = db_tracker (w_db w) @ [NewEntry Added SessionEntityType (ItemSession s)]"
        "se_userId s = li_UserId li" "se_virtualServerId s = bm_id (vs_base v)"
        using CreateSession_eq [of "after_get ?k w"] v by (auto simp: new_session_def NewSession_def)
      have a: "after_login E li (drop_at ?k w1) = (r, w')"
        using assms li fin c(1) by (simp add: FinishLogin_live [OF li] or_http_def or_answer_def DeleteToken_drop)
      have "w_db w' = w_db w1" using keepsD [OF keeps_after_login(1) a] by simp
      moreover have "login_state E w' tok = None"
        using this_login_login_state [OF keepsD [OF keeps_after_login(2) a]] by simp
      ultimately show ?thesis using li fin v c by auto
    qed
  qed
qed

lemma FinishLogin_session:
  assumes "login_state E w tok = Some li" "li_Step li = LoginStepFinish"
    and "vs_named (w_stores w) (li_VirtualServerName li) = Some v" "FinishLogin E tok w = (r, w')"
  shows "\<exists>s. db_tracker (w_db w') = db_tracker (w_db w) @ [NewEntry Added SessionEntityType (ItemSession s)]"
proof -
  let ?k = "TokenType_Key LoginSessionTokenType tok"
  obtain w1 s where c: "CreateSession E (li_VirtualServerName li) (li_UserId li) (after_get ?k w) = (Inr (), w1)"
    "db_tracker (w_db w1) = db_tracker (w_db w) @ [NewEntry Added SessionEntityType (ItemSession s)]"
    using CreateSession_eq [of "after_get ?k w"] assms(3) by auto
  have a: "after_login E li (drop_at ?k w1) = (r, w')"
    using assms c(1) by (simp add: FinishLogin_live or_http_def or_answer_def DeleteToken_drop)
  show ?thesis using keepsD [OF keeps_after_login(1) a] c(2) by auto
qed

lemma moves_FinishLogin: "ends (moves E tok RFinish w) (FinishLogin E tok) w"
  unfolding ends_def moves_def using FinishLogin_effect by blast

lemma run_request_moves:
  assumes "uuid_ok E" "clock_ok w" "run_request E tok q w = (r, w')"
  shows "moves E tok q w w'"
proof -
  have "ends (moves E tok q w) (run_request E tok q) w"
    using assms(1,2) moves_VerifyPassword moves_VerifyEmailToken moves_OnboardTotp moves_VerifyTotp
      moves_ResetTemporaryPassword moves_ResendEmailVerification moves_GetLoginState moves_StartPasskeyLogin
      moves_FinishPasskeyLogin moves_FinishLogin
    by (cases q) simp_all
  then show ?thesis using assms(3) by (simp add: ends_def)
qed

end
