(* ===== verification/LoginTrace.thy ===== *)
theory LoginTrace
  imports LoginSpec
begin

text \<open>
  Properties of the login flow over whole histories of requests: what a login that ends in a
  session has proved, how wrong passwords are counted, and where passwords end up.
\<close>

section \<open>Histories of a login\<close>

text \<open>
  The requests on one login token, each with the state before and after it. In between, other
  requests and the clock may change everything but this token, which may expire.
\<close>

type_synonym history = "(login_request \<times> world \<times> world) list"

inductive login_trace :: "env \<Rightarrow> string \<Rightarrow> world \<Rightarrow> history \<Rightarrow> world \<Rightarrow> bool" for E tok w0 where
  trace_start: "login_trace E tok w0 [] w0"
| trace_request:
    "login_trace E tok w0 es w \<Longrightarrow> clock_ok w \<Longrightarrow> run_request E tok q w = (r, w') \<Longrightarrow>
       login_trace E tok w0 (es @ [(q, w, w')]) w'"
| trace_other:
    "login_trace E tok w0 es w \<Longrightarrow> login_state E w' tok = login_state E w tok \<or> login_state E w' tok = None \<Longrightarrow>
       login_trace E tok w0 es w'"

text \<open>What the history of a login in a given state must contain.\<close>

definition accounted :: "env \<Rightarrow> string \<Rightarrow> history \<Rightarrow> login_info \<Rightarrow> bool" where
  "accounted E tok es li \<longleftrightarrow>
     li_Step li = LoginStepPasswordVerification \<or>
     (\<exists>(q, w, w') \<in> set es. first_factor E tok w q (li_UserId li)) \<and>
     (li_Step li = LoginStepFinish \<longrightarrow>
        (\<exists>(q, w, w') \<in> set es. second_factor E tok w q (li_UserId li) \<or>
           no_second_factor (w_stores w') (li_VirtualServerId li) (li_UserId li)))"

lemma accounted_step:
  assumes "accounted E tok es li" "progress E tok q w w' li li'"
  shows "accounted E tok (es @ [(q, w, w')]) li'"
  using assms by (auto simp: accounted_def progress_def)

lemma progress_server: "progress E tok q w w' li li' \<Longrightarrow> li_VirtualServerId li' = li_VirtualServerId li"
  by (simp add: progress_def)

lemma accounted_more: "accounted E tok es li \<Longrightarrow> accounted E tok (es @ [e]) li"
  by (auto simp: accounted_def)

lemma login_trace_accounted:
  assumes "uuid_ok E" "login_trace E tok w0 es w" "login_state E w0 tok = Some li0"
    and "li_Step li0 = LoginStepPasswordVerification" "login_state E w tok = Some li"
  shows "li_VirtualServerId li = li_VirtualServerId li0 \<and> accounted E tok es li"
  using assms(2,5)
proof (induction arbitrary: li rule: login_trace.induct)
  case trace_start
  then show ?case using assms(3,4) by (simp add: accounted_def)
next
  case (trace_request es w q r w')
  from run_request_moves [OF assms(1) trace_request(2,3)] trace_request(4,5) show ?case
    by (auto simp: moves_def dest: progress_server
        dest: accounted_step intro: accounted_more)
next
  case (trace_other es w w')
  then show ?case by auto
qed

text \<open>
  C1: a session is created at the end of a login only for a user that has proved who it is in
  this login, by its password or a passkey, and has given a one-time password or enrolled for
  one, unless it came with a passkey or at that time the user had no one-time password and
  the virtual server did not ask for it. Other requests may run in any order in between. The
  login cannot be finished twice.
\<close>

theorem session_needs_authentication:
  assumes "uuid_ok E" "login_state E w0 tok = Some li0" "li_Step li0 = LoginStepPasswordVerification"
    and "login_trace E tok w0 es w" "FinishLogin E tok w = (r, w')" "w_db w' \<noteq> w_db w"
  shows "\<exists>s. db_tracker (w_db w') = db_tracker (w_db w) @ [NewEntry Added SessionEntityType (ItemSession s)] \<and>
    (\<exists>(q, wq, wq') \<in> set es. first_factor E tok wq q (se_userId s)) \<and>
    (\<exists>(q, wq, wq') \<in> set es. second_factor E tok wq q (se_userId s) \<or>
       no_second_factor (w_stores wq') (li_VirtualServerId li0) (se_userId s)) \<and>
    login_state E w' tok = None"
proof -
  obtain li s where li: "login_state E w tok = Some li" "li_Step li = LoginStepFinish" "se_userId s = li_UserId li"
    and s: "db_tracker (w_db w') = db_tracker (w_db w) @ [NewEntry Added SessionEntityType (ItemSession s)]"
      "login_state E w' tok = None"
    using FinishLogin_effect [OF assms(5)] assms(6) by blast
  have "li_VirtualServerId li = li_VirtualServerId li0" "accounted E tok es li"
    using login_trace_accounted [OF assms(1,4,2,3) li(1)] by simp_all
  then show ?thesis using li s by (intro exI [of _ s]) (auto simp: accounted_def)
qed


definition login_user :: user where
  "login_user = NewUser 7 0 ''alice'' ''Alice'' ''a@example'' 1"

definition login_credential :: credential where
  "login_credential = NewCredential 8 0 7 (CredentialPasswordDetails ''h:secret'' False)"

definition fresh_login :: login_info where
  "fresh_login =
     \<lparr>li_Step = LoginStepPasswordVerification, li_ApplicationDisplayName = [], li_VirtualServerDisplayName = [],
      li_VirtualServerName = ''a'', li_VirtualServerId = 1, li_RegistrationEnabled = False, li_UserId = uuid_Nil,
      li_OriginalUrl = ''https://app'', li_TotpSecret = [], li_DeviceCode = [], li_FailedPasswordAttempts = 0\<rparr>"

lemma fresh_login_simps [simp]:
  "li_Step fresh_login = LoginStepPasswordVerification" "li_VirtualServerId fresh_login = 1"
  "li_VirtualServerName fresh_login = ''a''" "li_DeviceCode fresh_login = []" "li_FailedPasswordAttempts fresh_login = 0"
  by (simp_all add: fresh_login_def)

definition login_world :: world where
  "login_world =
     (world_with (newStores\<lparr>st_VirtualServers := [(1, sample_vs)], st_Users := [(7, login_user)],
                            st_Credentials := [(8, login_credential)]\<rparr>))
       \<lparr>w_kv := [(''login_session:t'', Item (Doc (LoginInfo_json test_env fresh_login)) 100)]\<rparr>"

lemma login_state_login_world: "login_state test_env login_world ''t'' = Some fresh_login"
  by (simp add: login_state_def token_live_def kv_live_def login_world_def kv_view_def IsExpired_def
      TokenType_Key_def LoginSessionTokenType_def)

lemma login_stores:
  "w_stores login_world = newStores\<lparr>st_VirtualServers := [(1, sample_vs)], st_Users := [(7, login_user)],
                            st_Credentials := [(8, login_credential)]\<rparr>"
  by (simp add: login_world_def w_stores_def newContext_def)

text \<open>The two outcomes of a password that reaches the check.\<close>

lemma VerifyPassword_run:
  assumes "login_state E w tok = Some li" "li_Step li = LoginStepPasswordVerification"
    and "vp_Username dto \<noteq> []" "vp_Password dto \<noteq> []"
    and "verifyPasswordCredential E (li_VirtualServerId li) (vp_Username dto) (vp_Password dto)
        (after_get (TokenType_Key LoginSessionTokenType tok) w) = (Inr (user, ok), w1)"
  shows "VerifyPassword E tok (Inr dto) w =
    (if \<not> ok then
       or_http (if li_FailedPasswordAttempts (count_failure li) \<ge> MaxFailedPasswordAttempts
                  then wrapped ''deleting login token'' (DeleteToken LoginSessionTokenType tok)
                  else bnd (wrapped ''marshal login info'' (lift (json_Marshal (LoginInfo_json E (count_failure li)))))
                    (\<lambda>updated. wrapped ''update login token''
                       (UpdateToken LoginSessionTokenType tok updated (15 * Minute))))
          (\<lambda>_. HandleHttpError (Named ErrHttpUnauthorized)) w1
     else or_http (updateLoginStep E tok (\<lambda>info.
            case user of
              Some u \<Rightarrow> ret (info\<lparr>li_UserId := bm_id (u_base u), li_FailedPasswordAttempts := 0\<rparr>)
            | None \<Rightarrow> lift nil_dereference)) (\<lambda>_. NoContent) w1)"
proof -
  obtain v where "token_live w LoginSessionTokenType tok = Some v" "LoginInfo_decode E v = Inr li"
    using assms(1) by (auto simp: login_state_def split: option.splits sum.splits)
  then show ?thesis
    using assms(2-5) by (simp add: VerifyPassword_def or_http_apply ValidateDto_def GetToken_eq wrapped_apply Let_def)
qed

lemma updateLoginStep_run:
  assumes "login_state E w tok = Some li"
    and "mutate li (after_get (TokenType_Key LoginSessionTokenType tok) w) = (Inr li1, w1)"
    and "DetermineNextLoginStep E li1 w1 = (Inr (step, li2), w2)"
  shows "updateLoginStep E tok mutate w =
    (Inr (), store_at (TokenType_Key LoginSessionTokenType tok) (Doc (LoginInfo_json E (li2\<lparr>li_Step := step\<rparr>))) (15 * Minute) w2)"
proof -
  obtain v where "token_live w LoginSessionTokenType tok = Some v" "LoginInfo_decode E v = Inr li"
    using assms(1) by (auto simp: login_state_def split: option.splits sum.splits)
  then show ?thesis
    using assms(2,3) by (simp add: updateLoginStep_def bnd_Inr wrapped_apply GetToken_eq json_Marshal_def UpdateToken_eq)
qed

lemma login_check:
  assumes "w_stores w = w_stores login_world"
  shows "verifyPasswordCredential test_env 1 ''alice'' ''secret'' w = (Inr (Some login_user, True), w)"
    "verifyPasswordCredential test_env 1 ''alice'' ''guess'' w = (Inr (Some login_user, False), w)"
  using assms
  by (simp_all add: verifyPasswordCredential_def bnd_def db_read_def login_stores wrapped_def filter_defs repo_defs
     sample_vs_def login_user_def login_credential_def NewUser_def NewCredential_def user_credentials_def
     CompareHash_def test_env_def Credential_PasswordDetails_def repo_filtered_def or_err_def first_of_def)

lemma login_next:
  assumes "w_stores w = w_stores login_world" "li_VirtualServerId li = 1" "li_UserId li = 7"
    and "li_Step li = LoginStepPasswordVerification"
  shows "DetermineNextLoginStep test_env li w = (Inr (LoginStepFinish, li), w)"
  using assms
  by (simp add: DetermineNextLoginStep_def next_step_def bnd_def db_read_def login_stores wrapped_def filter_defs repo_defs
     sample_vs_def login_user_def login_credential_def NewUser_def NewCredential_def user_credentials_def
     Credential_PasswordDetails_def NewVirtualServer_def repo_filtered_def or_err_def first_of_def)

lemma login_history:
  obtains w1 where "VerifyPassword test_env ''t'' (Inr \<lparr>vp_Username = ''alice'', vp_Password = ''secret''\<rparr>) login_world = (Inr (), w1)"
    "login_state test_env w1 ''t'' = Some (fresh_login\<lparr>li_UserId := 7, li_Step := LoginStepFinish\<rparr>)"
    "w_stores w1 = w_stores login_world"
proof -
  let ?k = "TokenType_Key LoginSessionTokenType ''t''"
  let ?dto = "\<lparr>vp_Username = ''alice'', vp_Password = ''secret''\<rparr>"
  let ?w = "after_get ?k login_world" and ?li = "fresh_login\<lparr>li_UserId := 7, li_FailedPasswordAttempts := 0\<rparr>"
  have s: "login_state test_env ?w ''t'' = Some fresh_login"
    using login_state_live [of ?w login_world] login_state_login_world by simp
  have d: "DetermineNextLoginStep test_env ?li (after_get ?k ?w) = (Inr (LoginStepFinish, ?li), after_get ?k ?w)"
    by (rule login_next) (simp_all add: fresh_login_def)
  have u: "updateLoginStep test_env ''t'' (\<lambda>info.
      case Some login_user of
        Some u \<Rightarrow> ret (info\<lparr>li_UserId := bm_id (u_base u), li_FailedPasswordAttempts := 0\<rparr>)
      | None \<Rightarrow> lift nil_dereference) ?w =
    (Inr (), store_at ?k (Doc (LoginInfo_json test_env (?li\<lparr>li_Step := LoginStepFinish\<rparr>))) (15 * Minute) (after_get ?k ?w))"
    by (rule updateLoginStep_run [OF s _ d]) (simp add: login_user_def NewUser_def)
  have c: "clock_ok (after_get ?k ?w)" by (simp add: login_world_def clock_ok_def world_with_def)
  have "VerifyPassword test_env ''t'' (Inr ?dto) login_world =
    (Inr (), (store_at ?k (Doc (LoginInfo_json test_env (?li\<lparr>li_Step := LoginStepFinish\<rparr>))) (15 * Minute) (after_get ?k ?w))
      \<lparr>w_out := w_out login_world @ [WriteHeader 204]\<rparr>)"
    using VerifyPassword_run [OF login_state_login_world, of ?dto "Some login_user" True ?w] login_check(1) [of ?w]
    by (simp add: u [simplified] NoContent_apply or_http_def or_answer_def)
  then show thesis using that c by (simp add: fresh_login_def)
qed

theorem session_needs_authentication_witness:
  "\<exists>w1 r w2 s. VerifyPassword test_env ''t'' (Inr \<lparr>vp_Username = ''alice'', vp_Password = ''secret''\<rparr>) login_world = (Inr (), w1) \<and>
    FinishLogin test_env ''t'' w1 = (r, w2) \<and>
    db_tracker (w_db w2) = db_tracker (w_db w1) @ [NewEntry Added SessionEntityType (ItemSession s)] \<and>
    login_state test_env w2 ''t'' = None"
proof -
  let ?q = "RVerifyPassword (Inr \<lparr>vp_Username = ''alice'', vp_Password = ''secret''\<rparr>)"
  obtain w1 where w1: "VerifyPassword test_env ''t'' (Inr \<lparr>vp_Username = ''alice'', vp_Password = ''secret''\<rparr>) login_world = (Inr (), w1)"
    "login_state test_env w1 ''t'' = Some (fresh_login\<lparr>li_UserId := 7, li_Step := LoginStepFinish\<rparr>)"
    "w_stores w1 = w_stores login_world"
    by (rule login_history)
  have c: "clock_ok login_world" by (simp add: login_world_def clock_ok_def world_with_def)
  have t: "login_trace test_env ''t'' login_world [(?q, login_world, w1)] w1"
    using trace_request [OF trace_start c, of test_env "''t''" ?q "Inr ()" w1] w1(1) by simp
  obtain r w2 where f: "FinishLogin test_env ''t'' w1 = (r, w2)" by (cases "FinishLogin test_env ''t'' w1") blast
  have v: "vs_named (w_stores w1) ''a'' = Some sample_vs"
    by (simp add: w1(3) login_stores vs_named_def sample_vs_def NewVirtualServer_def)
  have "w_db w2 \<noteq> w_db w1"
    using FinishLogin_session [OF w1(2) _ _ f] v by (auto simp: fresh_login_def)
  from session_needs_authentication [OF uuid_ok_test_env login_state_login_world _ t f this] w1(1) f
  show ?thesis by (auto simp: fresh_login_def)
qed

section \<open>Wrong passwords\<close>

text \<open>A user name and a password that the virtual server does not have.\<close>

definition wrong_guess :: "env \<Rightarrow> stores \<Rightarrow> uuid \<Rightarrow> verify_password_dto \<Rightarrow> bool" where
  "wrong_guess E st vsId dto \<longleftrightarrow> vp_Username dto \<noteq> [] \<and> vp_Password dto \<noteq> [] \<and>
     (\<exists>user. \<forall>w. w_stores w = st \<longrightarrow>
        verifyPasswordCredential E vsId (vp_Username dto) (vp_Password dto) w = (Inr (user, False), w))"

fun verify_all :: "env \<Rightarrow> string \<Rightarrow> verify_password_dto list \<Rightarrow> world \<Rightarrow> world" where
  "verify_all E tok [] w = w"
| "verify_all E tok (dto # dtos) w = verify_all E tok dtos (snd (VerifyPassword E tok (Inr dto) w))"

lemma VerifyPassword_dead:
  assumes "token_live w LoginSessionTokenType tok = None" "wrong_guess E st vsId dto"
  shows "VerifyPassword E tok (Inr dto) w =
    (Inr (), (after_get (TokenType_Key LoginSessionTokenType tok) w)\<lparr>w_out := w_out w @ [HttpError 404]\<rparr>)"
  using assms
  by (auto simp: VerifyPassword_def or_http_def or_answer_def ValidateDto_def wrong_guess_def wrapped_def GetToken_eq
      http_status_of_def sentinel_is_def)

definition refused :: "world \<Rightarrow> world \<Rightarrow> bool" where
  "refused w w' \<longleftrightarrow> w_db w' = w_db w \<and>
     (\<exists>evs. w_out w' = w_out w @ evs \<and> set evs \<subseteq> {HttpError 401, HttpError 404})"

lemma refused_trans: "refused w w1 \<Longrightarrow> refused w1 w2 \<Longrightarrow> refused w w2"
  by (fastforce simp: refused_def)

lemma verify_all_dead:
  "token_live w LoginSessionTokenType tok = None \<Longrightarrow> \<forall>dto \<in> set dtos. wrong_guess E st vsId dto \<Longrightarrow>
     token_live (verify_all E tok dtos w) LoginSessionTokenType tok = None \<and> refused w (verify_all E tok dtos w)"
proof (induction dtos arbitrary: w)
  case Nil
  then show ?case by (simp add: refused_def)
next
  case (Cons dto dtos)
  let ?w = "snd (VerifyPassword E tok (Inr dto) w)"
  have "VerifyPassword E tok (Inr dto) w =
      (Inr (), (after_get (TokenType_Key LoginSessionTokenType tok) w)\<lparr>w_out := w_out w @ [HttpError 404]\<rparr>)"
    using VerifyPassword_dead [OF Cons.prems(1), of E st vsId dto] Cons.prems(2) by simp
  moreover have "token_live (w\<lparr>w_out := es\<rparr>) t x = token_live w t x" for w es t x
    by (rule token_live_values) simp
  ultimately have "token_live ?w LoginSessionTokenType tok = None" "refused w ?w"
    using Cons.prems(1) by (simp_all add: refused_def)
  then show ?case using Cons.IH [of ?w] Cons.prems(2) refused_trans by auto
qed

lemma VerifyPassword_wrong:
  assumes "uuid_ok E" "clock_ok w" "login_state E w tok = Some li" "li_Step li = LoginStepPasswordVerification"
    and "wrong_guess E (w_stores w) (li_VirtualServerId li) dto"
  shows "\<exists>w'. VerifyPassword E tok (Inr dto) w = (Inr (), w') \<and> refused w w' \<and> clock_ok w' \<and>
    (if li_FailedPasswordAttempts (count_failure li) \<ge> MaxFailedPasswordAttempts
     then token_live w' LoginSessionTokenType tok = None
     else login_state E w' tok = Some (count_failure li))"
proof -
  let ?k = "TokenType_Key LoginSessionTokenType tok"
  obtain user where user: "verifyPasswordCredential E (li_VirtualServerId li) (vp_Username dto) (vp_Password dto)
      (after_get ?k w) = (Inr (user, False), after_get ?k w)"
    using assms(5) by (auto simp: wrong_guess_def)
  have li: "login_state E (after_get ?k w) tok = Some li"
    using login_state_live [of "after_get ?k w" w] assms(3) by simp
  have clock: "clock_ok (after_get ?k w)" using assms(2) by simp
  let ?run = "or_http (if li_FailedPasswordAttempts (count_failure li) \<ge> MaxFailedPasswordAttempts
                  then wrapped ''deleting login token'' (DeleteToken LoginSessionTokenType tok)
                  else bnd (wrapped ''marshal login info'' (lift (json_Marshal (LoginInfo_json E (count_failure li)))))
                    (\<lambda>updated. wrapped ''update login token''
                       (UpdateToken LoginSessionTokenType tok updated (15 * Minute))))
          (\<lambda>_. HandleHttpError (Named ErrHttpUnauthorized)) (after_get ?k w)"
  have run: "VerifyPassword E tok (Inr dto) w = ?run"
    using VerifyPassword_run [OF assms(3,4) _ _ user] assms(5) by (simp add: wrong_guess_def)
  obtain r w' where w': "?run = (r, w')" by (cases ?run) blast
  note step = wrong_password_step [OF assms(1) clock li w']
  have "token_live w' LoginSessionTokenType tok = None"
    if "li_FailedPasswordAttempts (count_failure li) \<ge> MaxFailedPasswordAttempts"
  proof -
    have "w' = (drop_at ?k (after_get ?k w))\<lparr>w_out := w_out w @ [HttpError 401]\<rparr>"
      using w' that by (simp add: or_http_def or_answer_def wrapped_def DeleteToken_drop)
    moreover have "token_live (w\<lparr>w_out := es\<rparr>) t x = token_live w t x" for w es t x
      by (rule token_live_values) simp
    ultimately show ?thesis by (simp add: token_live_drop_at)
  qed
  then show ?thesis using run w' step by (auto simp: refused_def)
qed

text \<open>
  C39: wrong passwords, one after the other, are refused and counted; with the fifth the login
  token is gone, so that a login allows at most five guesses. Nothing else changes.
\<close>

theorem wrong_passwords_end_login:
  assumes "uuid_ok E" "clock_ok w" "login_state E w tok = Some li" "li_Step li = LoginStepPasswordVerification"
    and "0 \<le> li_FailedPasswordAttempts li" "li_FailedPasswordAttempts li < 5"
    and "\<forall>dto \<in> set dtos. wrong_guess E (w_stores w) (li_VirtualServerId li) dto"
  shows "refused w (verify_all E tok dtos w) \<and>
    login_state E (verify_all E tok dtos w) tok =
      (if li_FailedPasswordAttempts li + int (length dtos) < 5
       then Some (li\<lparr>li_FailedPasswordAttempts := li_FailedPasswordAttempts li + int (length dtos)\<rparr>) else None)"
  using assms
proof (induction dtos arbitrary: w li)
  case Nil
  then show ?case by (simp add: refused_def)
next
  case (Cons dto dtos)
  have c: "li_FailedPasswordAttempts (count_failure li) = li_FailedPasswordAttempts li + 1"
    using Cons.prems(5,6) by (simp add: count_failure_def wrap64_def)
  obtain w' where w': "VerifyPassword E tok (Inr dto) w = (Inr (), w')" "refused w w'" "clock_ok w'"
    and out: "if li_FailedPasswordAttempts (count_failure li) \<ge> MaxFailedPasswordAttempts
      then token_live w' LoginSessionTokenType tok = None else login_state E w' tok = Some (count_failure li)"
    using VerifyPassword_wrong [OF Cons.prems(1-4)] Cons.prems(7) by auto
  have st: "w_stores w' = w_stores w" using w'(2) by (simp add: refused_def w_stores_def)
  show ?case
  proof (cases "li_FailedPasswordAttempts li + 1 \<ge> 5")
    case True
    then have dead: "token_live w' LoginSessionTokenType tok = None" using out c by (simp add: MaxFailedPasswordAttempts_def)
    from verify_all_dead [OF dead, of dtos E "w_stores w" "li_VirtualServerId li"] Cons.prems(7) w' True
    show ?thesis by (auto simp: login_state_def intro: refused_trans)
  next
    case False
    then have "login_state E w' tok = Some (count_failure li)" using out c by (simp add: MaxFailedPasswordAttempts_def)
    from Cons.IH [OF Cons.prems(1) w'(3) this] Cons.prems(4,5,7) c False st w'(1,2)
    show ?thesis by (auto simp: count_failure_def intro: refused_trans)
  qed
qed

theorem wrong_passwords_end_login_witness:
  "let dto = \<lparr>vp_Username = ''alice'', vp_Password = ''guess''\<rparr> in
   login_state test_env (verify_all test_env ''t'' [dto, dto, dto, dto] login_world) ''t'' =
     Some (fresh_login\<lparr>li_FailedPasswordAttempts := 4\<rparr>) \<and>
   login_state test_env (verify_all test_env ''t'' [dto, dto, dto, dto, dto] login_world) ''t'' = None"
proof -
  let ?dto = "\<lparr>vp_Username = ''alice'', vp_Password = ''guess''\<rparr>"
  have c: "clock_ok login_world" by (simp add: login_world_def clock_ok_def world_with_def)
  have g: "wrong_guess test_env (w_stores login_world) (li_VirtualServerId fresh_login) ?dto"
    using login_check(2) by (auto simp: wrong_guess_def)
  from wrong_passwords_end_login [OF uuid_ok_test_env c login_state_login_world, of "[?dto, ?dto, ?dto, ?dto]"]
    wrong_passwords_end_login [OF uuid_ok_test_env c login_state_login_world, of "[?dto, ?dto, ?dto, ?dto, ?dto]"] g
  show ?thesis by simp
qed

section \<open>Requests in the wrong step\<close>

fun required_step :: "login_request \<Rightarrow> login_step option" where
  "required_step (RVerifyPassword _) = Some LoginStepPasswordVerification"
| "required_step RVerifyEmail = Some LoginStepEmailVerification"
| "required_step (ROnboardTotp _) = Some LoginStepOnboardTotp"
| "required_step (RVerifyTotp _) = Some LoginStepVerifyTotp"
| "required_step (RResetPassword _) = Some LoginStepTemporaryPassword"
| "required_step RResendMail = Some LoginStepEmailVerification"
| "required_step RFinish = Some LoginStepFinish"
| "required_step _ = None"

fun valid_body :: "login_request \<Rightarrow> bool" where
  "valid_body (RVerifyPassword body) = (\<exists>dto. body = Inr dto \<and> vp_Username dto \<noteq> [] \<and> vp_Password dto \<noteq> [])"
| "valid_body (ROnboardTotp body) = (\<exists>c. body = Inr c \<and> c \<noteq> [])"
| "valid_body (RVerifyTotp body) = (\<exists>c. body = Inr c \<and> c \<noteq> [])"
| "valid_body _ = True"

lemma updateLoginStep_rejects:
  assumes "login_state E w tok = Some li"
    and "\<And>wg. mutate li wg = (Inl (Err (Named ErrHttpUnauthorized)), wg)"
  shows "or_http (updateLoginStep E tok mutate) (\<lambda>_. NoContent) w =
    (Inr (), (after_get (TokenType_Key LoginSessionTokenType tok) w)\<lparr>w_out := w_out w @ [HttpError 401]\<rparr>)"
proof -
  obtain v where "token_live w LoginSessionTokenType tok = Some v" "LoginInfo_decode E v = Inr li"
    using assms(1) by (auto simp: login_state_def split: option.splits sum.splits)
  then show ?thesis
    by (simp add: updateLoginStep_def bnd_def wrapped_def GetToken_eq or_http_def or_answer_def assms(2))
qed

text \<open>
  A request that belongs to another step of the login than the one it is in is answered
  with 401; the login, the database and the tracked changes stay as they are.
\<close>

theorem wrong_step_rejected:
  assumes "login_state E w tok = Some li" "required_step q = Some step" "li_Step li \<noteq> step" "valid_body q"
  shows "\<exists>w' ev. run_request E tok q w = (Inr (), w') \<and> w_db w' = w_db w \<and> live_values w' = live_values w \<and>
    w_out w' = w_out w @ [ev] \<and> ev \<in> {HttpError 401, WriteHeader 401}"
proof -
  obtain v where v: "token_live w LoginSessionTokenType tok = Some v" "LoginInfo_decode E v = Inr li"
    using assms(1) by (auto simp: login_state_def split: option.splits sum.splits)
  note run = or_http_def or_answer_def or_status_def ValidateDto_def wrapped_def GetToken_eq emit_def
  let ?rejected = "(Inr (), (after_get (TokenType_Key LoginSessionTokenType tok) w)\<lparr>w_out := w_out w @ [HttpError 401]\<rparr>)"
  have mail: "VerifyEmailToken E tok w = ?rejected" if "li_Step li \<noteq> LoginStepEmailVerification"
    unfolding VerifyEmailToken_def by (rule updateLoginStep_rejects [OF assms(1)]) (simp add: that)
  have reset: "ResetTemporaryPassword E tok body w = ?rejected" if "li_Step li \<noteq> LoginStepTemporaryPassword" for body
    unfolding ResetTemporaryPassword_def by (rule updateLoginStep_rejects [OF assms(1)]) (simp add: that)
  have valid: "or_http (lift (ValidateDto [c])) f w = f () w" if "c \<noteq> []" for c f
    using that by (auto simp: ValidateDto_def or_http_def or_answer_def)
  have lift: "or_http (lift (Inr x)) f w = f x w" for x f
    by (simp add: or_http_def or_answer_def)
  have onboard: "OnboardTotp E tok (Inr c) w = ?rejected" if "li_Step li \<noteq> LoginStepOnboardTotp" "c \<noteq> []" for c
    unfolding OnboardTotp_def lift valid [OF that(2)]
    by (rule updateLoginStep_rejects [OF assms(1)]) (simp add: that)
  have totp: "VerifyTotp E tok (Inr c) w = ?rejected" if "li_Step li \<noteq> LoginStepVerifyTotp" "c \<noteq> []" for c
    unfolding VerifyTotp_def lift valid [OF that(2)]
    by (rule updateLoginStep_rejects [OF assms(1)]) (simp add: that)
  show ?thesis
    using assms(2-4)
    by (cases q) (auto simp: v run VerifyPassword_def ResendEmailVerification_def FinishLogin_def mail reset onboard totp)
qed

theorem wrong_step_rejected_witness:
  "\<exists>w' ev. FinishLogin test_env ''t'' login_world = (Inr (), w') \<and> w_db w' = w_db login_world \<and>
     w_out w' = w_out login_world @ [ev] \<and> ev \<in> {HttpError 401, WriteHeader 401}"
  using wrong_step_rejected [OF login_state_login_world, of RFinish LoginStepFinish] by auto

section \<open>Passkeys with RSA keys\<close>

text \<open>
  The functions of \<^verbatim>\<open>crypto/rsa\<close> verify a signature of a digest; with SHA-256
  they return an error for any input that does not have 32 bytes.
\<close>

definition rsa_ok :: "env \<Rightarrow> bool" where
  "rsa_ok E \<longleftrightarrow>
     (\<forall>key digest sig. e_rsa_VerifyPKCS1v15 E key digest sig \<or> e_rsa_VerifyPSS E key digest sig \<longrightarrow> length digest = 32)"

text \<open>
  No passkey with an RSA key can ever log in: the signed data is handed over without being
  hashed, and it is longer than a digest.
\<close>

theorem rsa_passkeys_never_verify:
  assumes "rsa_ok E" "authData \<noteq> []"
  shows "\<exists>s. validateSignature E (RSAPublicKey e n) alg (authData @ sha256_Sum256 clientData) sig = Inl (Err (Named s))"
proof -
  have "length (authData @ sha256_Sum256 clientData) \<noteq> 32" using assms(2) by simp
  then have "\<not> e_rsa_VerifyPKCS1v15 E key (authData @ sha256_Sum256 clientData) sig"
    "\<not> e_rsa_VerifyPSS E key (authData @ sha256_Sum256 clientData) sig" for key
    using assms(1) unfolding rsa_ok_def by blast+
  then show ?thesis by (simp add: validateSignature_def Let_def)
qed

theorem rsa_passkeys_never_verify_witness:
  "\<exists>s. validateSignature test_env (RSAPublicKey 65537 ''n'') CoseAlgorithmRS256 (''a'' @ sha256_Sum256 ''c'') ''sig'' =
     Inl (Err (Named s))"
  by (rule rsa_passkeys_never_verify) (simp_all add: rsa_ok_def test_env_def)

section \<open>Setting a password\<close>

lemma bound_audit_log:
  assumes "dbAuditLogger_Log E rq (Allowed u vsId reason) response w = (r, w')" "u \<noteq> uuid_Nil"
  shows "r = Inr () \<and> (\<exists>l. al_request l = Doc (rq_json rq) \<and> al_userId l = Some u \<and>
    db_tracker (w_db w') = db_tracker (w_db w) @ [NewEntry Added AuditLogEntityType (ItemAuditLog l)])"
  using assms
  by (auto simp: dbAuditLogger_Log_def isBootstrapRequest_def bnd_def drew_act get_now_def db_write_def
      AuditLogRepository_Insert_def Tracker_Add_def NewAllowedAuditLog_def)

text \<open>
  An administrator who sets the password of a user leaves the new password in clear in the
  audit log: the log entry holds the whole command, and it is saved when the request ends.
\<close>

theorem set_password_in_audit_log:
  assumes "rc_user ctx = Some u" "cu_UserId u \<noteq> uuid_Nil" "Send_SetPassword E ctx a w = (Inr (), w')"
  shows "\<exists>l rest. db_tracker (w_db w') = rest @ [NewEntry Added AuditLogEntityType (ItemAuditLog l)] \<and>
    al_userId l = Some (cu_UserId u) \<and>
    (\<exists>ms. al_request l = Doc (JObj ms) \<and> map_of ms ''NewPassword'' = Some (JStr (sp_NewPassword a)))"
proof -
  let ?rq = "SetPassword_request E a"
  obtain p w1 where p: "evaluatePolicy ?rq ctx w = (Inr p, w1)"
    using assms(3) by (auto simp: Send_SetPassword_def Send_def PolicyBehaviour_def bnd_eq_Inr)
  obtain u' vsId reason where allowed: "p = Allowed u' vsId reason"
    using assms(3) p by (cases p) (auto simp: Send_SetPassword_def Send_def PolicyBehaviour_def bnd_eq_Inr)
  have u': "u' = cu_UserId u"
    using p allowed assms(1)
    by (auto simp: evaluatePolicy_def PermissionBasedPolicy_def SetPassword_request_def GetCurrentUser_def bnd_eq_Inr
        split: option.splits if_splits)
  obtain w2 where "dbAuditLogger_Log E ?rq p (JObj []) w2 = (Inr (), w')"
    using assms(3) p allowed
    by (auto simp: Send_SetPassword_def Send_def PolicyBehaviour_def bnd_eq_Inr SetPassword_request_def)
  from bound_audit_log [OF this [unfolded allowed]] show ?thesis
    using u' assms(2) by (auto simp: SetPassword_request_def)
qed

definition admin_ctx :: req_ctx where
  "admin_ctx = \<lparr>rc_user = Some (assignPermissionsToUser roles_VirtualServerAdmin (NewCurrentUser 5)), rc_vsName = ''a''\<rparr>"

lemma db_save_ok:
  assumes "repo_tracker (db_tracker (w_db w))"
  obtains w' where "db_save w = (Inr (), w')" "db_tracker (w_db w') = []"
proof -
  obtain st' where "apply_entries (db_stores (w_db w)) (db_tracker (w_db w)) = (st', None)"
    using apply_entries_all_ok [OF repo_tracker_ok [OF assms]] by blast
  then show thesis
    using that by (simp add: db_save_def SaveChanges_def Tracker_GetChanges_def Tracker_Clear_def)
qed

theorem set_password_in_audit_log_witness:
  "\<exists>w' l. Send_SetPassword test_env admin_ctx \<lparr>sp_UserId = 7, sp_NewPassword = ''new'', sp_Temporary = False\<rparr> sample_world =
      (Inr (), w') \<and>
    NewEntry Added AuditLogEntityType (ItemAuditLog l) \<in> set (db_tracker (w_db w')) \<and>
    (\<exists>ms. al_request l = Doc (JObj ms) \<and> map_of ms ''NewPassword'' = Some (JStr ''new''))"
proof -
  let ?a = "\<lparr>sp_UserId = 7, sp_NewPassword = ''new'', sp_Temporary = False\<rparr>"
  let ?u = "assignPermissionsToUser roles_VirtualServerAdmin (NewCurrentUser 5)"
  have u: "rc_user admin_ctx = Some ?u" "cu_UserId ?u = 5" "granted ?u UserResetPassword" "IsAuthenticated ?u"
    by (simp_all add: admin_ctx_def granted_assign IsAuthenticated_def uuid_Nil_def)
      (simp add: AllRoles_def role_permission_defs role_defs)
  obtain vsId reason where ev: "evaluatePolicy (SetPassword_request test_env ?a) admin_ctx sample_world =
      (Inr (Allowed 5 vsId reason), sample_world)"
    using evaluatePolicy_allowed [of "SetPassword_request test_env ?a" UserResetPassword admin_ctx ?u sample_world] u
    by (auto simp: SetPassword_request_def admin_ctx_def)
  obtain w1 c where h: "HandleSetPassword test_env ?a sample_world = (Inr (), w1)"
    and "db_tracker (w_db w1) = CredentialRepository_Insert c NewTracker"
    by (auto simp: HandleSetPassword_def HashPassword_def bnd_def wrapped_def db_read_def db_write_def get_now_def
        sample_world_def filter_defs repo_defs repo_filtered_def first_of_def user_credentials_def newStores_def
        Credential_PasswordDetails_def NewCredential_def Let_def newContext_def world_with_def w_stores_def
        uuid_New_def Credential_SetDetails_def)
  then have "repo_tracker (db_tracker (w_db w1))" by (auto intro: repo_tracker.intros)
  then obtain w2 where s: "db_save w1 = (Inr (), w2)" by (rule db_save_ok)
  obtain r w3 where l: "dbAuditLogger_Log test_env (SetPassword_request test_env ?a) (Allowed 5 vsId reason) (JObj []) w2 = (r, w3)"
    by (cases "dbAuditLogger_Log test_env (SetPassword_request test_env ?a) (Allowed 5 vsId reason) (JObj []) w2") blast
  have "r = Inr ()" using bound_audit_log [OF l] by (simp add: uuid_Nil_def)
  then have "Send_SetPassword test_env admin_ctx ?a sample_world = (Inr (), w3)"
    using ev h s l
    by (simp add: Send_SetPassword_def Send_def PolicyBehaviour_def SaveChangesBehaviour_def bnd_def wrapped_def)
      (simp add: SetPassword_request_def)
  from set_password_in_audit_log [OF u(1) _ this] this show ?thesis
    using u(2) by (auto simp: uuid_Nil_def)
qed

end
