(* ===== verification/OidcGrants.thy ===== *)
theory OidcGrants
  imports OidcTokens
begin

text \<open>
  The token endpoint (\<^verbatim>\<open>OidcToken\<close> of \<^verbatim>\<open>internal/handlers/oidc.go\<close>): the
  grants for an authorization code, a refresh token, the token of a service user and a device code.
\<close>

definition CodeFlowResponse_json :: "generated_tokens \<Rightarrow> string \<Rightarrow> json" where
  "CodeFlowResponse_json tokens scopeString = JObj
     [(''token_type'', JStr ''Bearer''), (''id_token'', JStr (gt_IdToken tokens)),
      (''access_token'', JStr (gt_AccessToken tokens)), (''refresh_token'', JStr (gt_RefreshToken tokens)),
      (''scope'', JStr scopeString), (''expires_in'', JNum (gt_ExpiresIn tokens))]"

definition RefreshTokenResponse_json :: "generated_tokens \<Rightarrow> json" where
  "RefreshTokenResponse_json tokens = JObj
     [(''token_type'', JStr ''Bearer''), (''id_token'', JStr (gt_IdToken tokens)),
      (''access_token'', JStr (gt_AccessToken tokens)), (''refresh_token'', JStr (gt_RefreshToken tokens)),
      (''expires_in'', JNum (gt_ExpiresIn tokens))]"

definition TokenExchangeResponse_json :: "string \<Rightarrow> json" where
  "TokenExchangeResponse_json accessToken = JObj
     [(''access_token'', JStr accessToken),
      (''issued_token_type'', JStr ''urn:ietf:params:oauth:token-type:access_token''),
      (''token_type'', JStr ''Bearer'')]"

definition answer_json :: "json \<Rightarrow> unit act" where
  "answer_json j = bnd (emit (WriteHeader 200)) (\<lambda>_. emit (WriteJson j))"

section \<open>Authorization codes\<close>

definition tokenDuration :: duration where
  "tokenDuration = Hour"

text \<open>What the tokens for a code are made of.\<close>

definition code_token_params :: "env \<Rightarrow> code_info \<Rightarrow> string \<Rightarrow> application \<Rightarrow> user \<Rightarrow> key_pair \<Rightarrow> time \<Rightarrow> token_generation_params" where
  "code_token_params E codeInfo clientId app user keyPair now =
     \<lparr>tgp_UserId = ci_UserId codeInfo, tgp_VirtualServerName = ci_VirtualServerName codeInfo,
      tgp_ClientId = clientId, tgp_ApplicationId = bm_id (app_base app),
      tgp_GrantedScopes = ci_GrantedScopes codeInfo, tgp_UserDisplayName = u_displayName user,
      tgp_UserPrimaryEmail = u_primaryEmail user, tgp_ExternalUrl = e_ExternalUrl E, tgp_KeyPair = keyPair,
      tgp_IssuedAt = now, tgp_AccessTokenExpiry = tokenDuration, tgp_IdTokenExpiry = tokenDuration,
      tgp_RefreshTokenExpiry = tokenDuration, tgp_Nonce = ci_Nonce codeInfo,
      tgp_AuthenticatedAt = ci_AuthenticatedAt codeInfo, tgp_AccessTokenHeaderType = app_accessTokenHeaderType app\<rparr>"

text \<open>The handler from the point where the client has proved itself and the code is its own.\<close>

definition redeem_code :: "env \<Rightarrow> string \<Rightarrow> code_info \<Rightarrow> virtual_server \<Rightarrow> string \<Rightarrow> application \<Rightarrow> unit act" where
  "redeem_code E code codeInfo virtualServer clientId app =
     or_http (user_or_nil (UserFilter_Id (ci_UserId codeInfo) NewUserFilter)) (\<lambda>user.
       case user of
         None \<Rightarrow> HandleHttpError (ErrorsNew ''user not found'')
       | Some user \<Rightarrow>
           bnd get_now (\<lambda>now.
           or_http (get_key (ci_VirtualServerName codeInfo) (appSigningAlgorithm virtualServer app)) (\<lambda>keyPair.
           or_http (generateTokens E (code_token_params E codeInfo clientId app user keyPair now)) (\<lambda>tokens.
           or_http (wrapped ''deleting code'' (DeleteToken OidcCodeTokenType code)) (\<lambda>_.
             answer_json (CodeFlowResponse_json tokens (Join (ci_GrantedScopes codeInfo) '' '')))))))"

text \<open>The handler once the code has been read from the store.\<close>

definition continue_with_code :: "env \<Rightarrow> http_request \<Rightarrow> jtext \<Rightarrow> unit act" where
  "continue_with_code E r valueString =
     or_http (wrapped ''unmarshaling code info'' (lift (CodeInfo_decode E valueString))) (\<lambda>codeInfo.
     let (clientId, clientSecret) = client_credentials r in
     or_http (vs_or_nil (ci_VirtualServerName codeInfo)) (\<lambda>virtualServer.
       case virtualServer of
         None \<Rightarrow> writeOAuthError ''invalid_grant'' ''virtual server not found''
       | Some virtualServer \<Rightarrow>
           or_answer (\<lambda>e. writeOAuthError ''invalid_client'' (Error e))
             (authenticateApplication virtualServer clientId clientSecret) (\<lambda>app.
             if bm_id (app_base app) \<noteq> ci_ApplicationId codeInfo
             then writeOAuthError ''invalid_grant'' ''authorization code was issued to a different client''
             else if hr_Form r ''redirect_uri'' \<noteq> ci_RedirectUri codeInfo
             then writeOAuthError ''invalid_grant'' ''redirect_uri does not match the authorization request''
             else
               or_answer (\<lambda>e. writeOAuthError ''invalid_grant'' (Error e))
                 (lift (if ci_CodeChallenge codeInfo \<noteq> []
                        then verifyPKCE (hr_Form r ''code_verifier'') (ci_CodeChallenge codeInfo)
                               (ci_CodeChallengeMethod codeInfo)
                        else Inr ())) (\<lambda>_.
                 redeem_code E (hr_Form r ''code'') codeInfo virtualServer clientId app))))"

definition handleAuthorizationCode :: "env \<Rightarrow> http_request \<Rightarrow> unit act" where
  "handleAuthorizationCode E r =
     or_answer (\<lambda>_. writeOAuthError ''invalid_grant'' ''authorization code already used'')
       (GetToken OidcCodeTokenType (hr_Form r ''code'')) (continue_with_code E r)"

section \<open>Refresh tokens\<close>

definition refresh_token_params_of :: "env \<Rightarrow> refresh_token_info \<Rightarrow> string \<Rightarrow> application \<Rightarrow> user \<Rightarrow> key_pair \<Rightarrow> time \<Rightarrow> token_generation_params" where
  "refresh_token_params_of E info clientId app user keyPair now =
     \<lparr>tgp_UserId = ri_UserId info, tgp_VirtualServerName = ri_VirtualServerName info,
      tgp_ClientId = clientId, tgp_ApplicationId = bm_id (app_base app),
      tgp_GrantedScopes = ri_GrantedScopes info, tgp_UserDisplayName = u_displayName user,
      tgp_UserPrimaryEmail = u_primaryEmail user, tgp_ExternalUrl = e_ExternalUrl E, tgp_KeyPair = keyPair,
      tgp_IssuedAt = now, tgp_AccessTokenExpiry = tokenDuration, tgp_IdTokenExpiry = tokenDuration,
      tgp_RefreshTokenExpiry = tokenDuration, tgp_Nonce = [], tgp_AuthenticatedAt = time_zero,
      tgp_AccessTokenHeaderType = app_accessTokenHeaderType app\<rparr>"

text \<open>The handler after the old token has been deleted.\<close>

definition renew_tokens :: "env \<Rightarrow> refresh_token_info \<Rightarrow> virtual_server \<Rightarrow> string \<Rightarrow> unit act" where
  "renew_tokens E info virtualServer clientId =
     or_http (user_or_nil (UserFilter_Id (ri_UserId info) NewUserFilter)) (\<lambda>user.
       case user of
         None \<Rightarrow> HandleHttpError (ErrorsNew ''user not found'')
       | Some user \<Rightarrow>
           bnd get_now (\<lambda>now.
           or_http (app_or_nil (bm_id (vs_base virtualServer)) clientId) (\<lambda>app.
             case app of
               None \<Rightarrow> HandleHttpError (ErrorsNew ''application not found'')
             | Some app \<Rightarrow>
                 or_http (get_key (ri_VirtualServerName info) (appSigningAlgorithm virtualServer app)) (\<lambda>keyPair.
                 or_http (generateTokens E (refresh_token_params_of E info clientId app user keyPair now)) (\<lambda>tokens.
                   answer_json (RefreshTokenResponse_json tokens))))))"

definition handleRefreshToken :: "env \<Rightarrow> http_request \<Rightarrow> unit act" where
  "handleRefreshToken E r =
     (let (clientId, clientSecret) = client_credentials r in
      or_answer (\<lambda>_. writeOAuthError ''invalid_grant'' ''refresh token is invalid or expired'')
        (GetToken OidcRefreshTokenTokenType (hr_Form r ''refresh_token'')) (\<lambda>refreshTokenInfoString.
      or_http (wrapped ''unmarshaling refresh token info'' (lift (RefreshTokenInfo_decode E refreshTokenInfoString)))
        (\<lambda>refreshTokenInfo.
      or_http (vs_or_nil (ri_VirtualServerName refreshTokenInfo)) (\<lambda>virtualServer.
        case virtualServer of
          None \<Rightarrow> writeOAuthError ''invalid_grant'' ''virtual server not found''
        | Some virtualServer \<Rightarrow>
            or_answer (\<lambda>e. writeOAuthError ''invalid_client'' (Error e))
              (authenticateApplication virtualServer clientId clientSecret) (\<lambda>_.
              if ri_ClientId refreshTokenInfo \<noteq> clientId
              then writeOAuthError ''invalid_grant'' ''refresh token was issued to a different client''
              else
                or_http (wrapped ''deleting refresh token''
                           (DeleteToken OidcRefreshTokenTokenType (hr_Form r ''refresh_token''))) (\<lambda>_.
                  renew_tokens E refreshTokenInfo virtualServer clientId))))))"

section \<open>Token exchange\<close>

definition service_key_filter :: "uuid \<Rightarrow> string \<Rightarrow> credential_filter" where
  "service_key_filter userId kid =
     CredentialFilter_DetailKid kid (CredentialFilter_UserId userId
       (CredentialFilter_Type CredentialTypeServiceUserKey NewCredentialFilter))"

definition vs_username :: "uuid \<Rightarrow> string \<Rightarrow> user_filter" where
  "vs_username vsId username = UserFilter_Username username (UserFilter_VirtualServerId vsId NewUserFilter)"

text \<open>The function that gives \<^verbatim>\<open>jwt.Parse\<close> the key of the service user a token names.\<close>

definition service_user_key :: "env \<Rightarrow> virtual_server \<Rightarrow> json_obj \<Rightarrow> json_obj \<Rightarrow> public_key act" where
  "service_user_key E virtualServer header claims =
     bnd (wrapped ''getting subject'' (lift (case e_jwt_GetSubject E claims of
            Some s \<Rightarrow> Inr s | None \<Rightarrow> Inl (Err (ErrorsNew ''sub is invalid''))))) (\<lambda>subject.
     bnd (wrapped ''getting issuer'' (lift (case e_jwt_GetIssuer E claims of
            Some s \<Rightarrow> Inr s | None \<Rightarrow> Inl (Err (ErrorsNew ''iss is invalid''))))) (\<lambda>iss.
       if iss \<noteq> subject then err (ErrorsNew ''invalid issuer'')
       else case map_of header ''kid'' of
         Some (JStr kid) \<Rightarrow>
           bnd (wrapped ''getting audience'' (lift (case e_jwt_GetAudience E claims of
                  Some ss \<Rightarrow> Inr ss | None \<Rightarrow> Inl (Err (ErrorsNew ''aud is invalid''))))) (\<lambda>audience.
             if length audience \<noteq> 1 then err (ErrorsNew ''expected audience to be a single string'')
             else case map_of claims ''scopes'' of
               Some (JStr scopesString) \<Rightarrow>
                 if ''openid'' \<notin> set (Split scopesString CHR '' '')
                 then err (ErrorsNew ''expected scopes claim to contain openid'')
                 else
                   bnd (user_or_nil (vs_username (bm_id (vs_base virtualServer)) subject)) (\<lambda>user.
                     case user of
                       None \<Rightarrow> err (ErrorsNew ''user not found'')
                     | Some user \<Rightarrow>
                         if \<not> u_serviceUser user then err (ErrorsNew ''user is not a service user'')
                         else
                           bnd (wrapped ''getting credential'' (db_read (\<lambda>st.
                                  CredentialRepository_FirstOrNil (st_Credentials st)
                                    (service_key_filter (bm_id (u_base user)) kid)))) (\<lambda>credential.
                             case credential of
                               None \<Rightarrow> err (ErrorsNew ''credential not found'')
                             | Some credential \<Rightarrow>
                                 bnd (wrapped ''getting service user key details''
                                        (lift (Credential_ServiceUserKeyDetails (Some credential)))) (\<lambda>(_, publicKey).
                                 case e_pem_Decode E publicKey of
                                   None \<Rightarrow> err (ErrorsNew ''failed to decode PEM block'')
                                 | Some block \<Rightarrow>
                                     (case e_ParsePKIXPublicKey E block of
                                        None \<Rightarrow> err (Wrap ''parse public key'' (ErrorsNew ''x509''))
                                      | Some key \<Rightarrow> ret key))))
             | _ \<Rightarrow> err (ErrorsNew ''expected scopes claim to be a space separated string''))
       | _ \<Rightarrow> err (ErrorsNew ''expected kid header to be a string'')))"

text \<open>\<^verbatim>\<open>jwt.Parse\<close> with that function.\<close>

definition parse_subject_token :: "env \<Rightarrow> virtual_server \<Rightarrow> string \<Rightarrow> json_obj act" where
  "parse_subject_token E virtualServer subjectToken =
     (case (e_jwt_Algorithm E subjectToken, e_jwt_ParseUnverified E subjectToken) of
        (Some alg, Some unverified) \<Rightarrow>
          bnd (wrapped ''token is unverifiable''
                 (service_user_key E virtualServer (e_jwt_Header E subjectToken) unverified)) (\<lambda>key.
          bnd get_now (\<lambda>now.
            case e_jwt_Parse E now subjectToken alg key of
              None \<Rightarrow> err (ErrorsNew ''token is invalid'') | Some claims \<Rightarrow> ret claims))
      | _ \<Rightarrow> err (ErrorsNew ''token is malformed''))"

definition exchange_params :: "env \<Rightarrow> virtual_server \<Rightarrow> user \<Rightarrow> string \<Rightarrow> application \<Rightarrow> string list \<Rightarrow> key_pair \<Rightarrow> time \<Rightarrow> access_token_params" where
  "exchange_params E virtualServer user applicationName app scopes keyPair now =
     \<lparr>atp_ExternalUrl = e_ExternalUrl E, atp_VirtualServerName = vs_name virtualServer,
      atp_ClientId = applicationName, atp_ApplicationId = bm_id (app_base app), atp_GrantedScopes = scopes,
      atp_IssuedAt = now, atp_Expiry = Minute * 5, atp_UserId = bm_id (u_base user), atp_KeyPair = keyPair,
      atp_HeaderType = app_accessTokenHeaderType app\<rparr>"

text \<open>The end of the handler: the application of the audience, a key, an access token.\<close>

definition issue_exchanged :: "env \<Rightarrow> string \<Rightarrow> virtual_server \<Rightarrow> user \<Rightarrow> string \<Rightarrow> string list \<Rightarrow> unit act" where
  "issue_exchanged E virtualServerName virtualServer user applicationName scopes =
     or_http (app_or_nil (bm_id (vs_base virtualServer)) applicationName) (\<lambda>app.
       case app of
         None \<Rightarrow> HandleHttpError (ErrorsNew ''application not found'')
       | Some app \<Rightarrow>
           or_http (get_key virtualServerName (appSigningAlgorithm virtualServer app)) (\<lambda>keyPair.
           bnd get_now (\<lambda>now.
           or_http (wrapped ''generating access token'' (generateAccessToken E
                      (exchange_params E virtualServer user applicationName app scopes keyPair now))) (\<lambda>accessToken.
             emit (WriteJson (TokenExchangeResponse_json accessToken))))))"

text \<open>The handler on the claims of the subject token; a wrong audience is answered without a return.\<close>

definition exchange_claims :: "env \<Rightarrow> string \<Rightarrow> virtual_server \<Rightarrow> json_obj \<Rightarrow> unit act" where
  "exchange_claims E virtualServerName virtualServer claims =
     or_http (wrapped ''getting subject'' (lift (case e_jwt_GetSubject E claims of
                Some s \<Rightarrow> Inr s | None \<Rightarrow> Inl (Err (ErrorsNew ''sub is invalid''))))) (\<lambda>subject.
     or_http (user_or_nil (vs_username (bm_id (vs_base virtualServer)) subject)) (\<lambda>user.
       case user of
         None \<Rightarrow> HandleHttpError (ErrorsNew ''user not found'')
       | Some user \<Rightarrow>
     or_http (wrapped ''getting audience'' (lift (case e_jwt_GetAudience E claims of
                Some ss \<Rightarrow> Inr ss | None \<Rightarrow> Inl (Err (ErrorsNew ''aud is invalid''))))) (\<lambda>audience.
     bnd (if length audience \<noteq> 1
          then HandleHttpError (ErrorsNew ''expected audience to be a single string'') else ret ()) (\<lambda>_.
       case audience of
         [] \<Rightarrow> panic ''index out of range''
       | applicationName # _ \<Rightarrow>
     bnd (lift (case map_of claims ''scopes'' of
                  Some (JStr s) \<Rightarrow> Inr s | _ \<Rightarrow> Inl (Panic ''interface conversion''))) (\<lambda>scopesClaim.
       issue_exchanged E virtualServerName virtualServer user applicationName (Split scopesClaim CHR '' ''))))))"

text \<open>The handler after the checks of the form.\<close>

definition exchange_token :: "env \<Rightarrow> http_request \<Rightarrow> string \<Rightarrow> unit act" where
  "exchange_token E r subjectToken =
     or_http (wrapped ''getting virtual server name'' (lift (GetVirtualServerName r))) (\<lambda>virtualServerName.
     or_http (vs_or_nil virtualServerName) (\<lambda>virtualServer.
       case virtualServer of
         None \<Rightarrow> HandleHttpError (ErrorsNew ''virtual server not found'')
       | Some virtualServer \<Rightarrow>
           or_http (wrapped ''parsing subject token'' (parse_subject_token E virtualServer subjectToken)) (\<lambda>claims.
             exchange_claims E virtualServerName virtualServer claims)))"

text \<open>A wrong type of token is answered without a return.\<close>

definition handleTokenExchange :: "env \<Rightarrow> http_request \<Rightarrow> unit act" where
  "handleTokenExchange E r =
     (let subjectToken = hr_Form r ''subject_token'';
          subjectTokenType = hr_Form r ''subject_token_type''
      in if subjectToken = [] then HandleHttpError (ErrorsNew ''missing subject token'')
         else if subjectTokenType = [] then HandleHttpError (ErrorsNew ''missing subject token type'')
         else
           bnd (if subjectTokenType \<noteq> ''urn:ietf:params:oauth:token-type:access_token''
                then HandleHttpError (ErrorsNew (''unsupported subject token type: '' @ subjectTokenType))
                else ret ()) (\<lambda>_.
             exchange_token E r subjectToken))"

section \<open>Device codes\<close>

definition device_token_params :: "env \<Rightarrow> device_code_info \<Rightarrow> uuid \<Rightarrow> string \<Rightarrow> application \<Rightarrow> user \<Rightarrow> key_pair \<Rightarrow> time \<Rightarrow> token_generation_params" where
  "device_token_params E info userId clientId app user keyPair now =
     \<lparr>tgp_UserId = userId, tgp_VirtualServerName = di_VirtualServerName info,
      tgp_ClientId = clientId, tgp_ApplicationId = bm_id (app_base app),
      tgp_GrantedScopes = di_GrantedScopes info, tgp_UserDisplayName = u_displayName user,
      tgp_UserPrimaryEmail = u_primaryEmail user, tgp_ExternalUrl = e_ExternalUrl E, tgp_KeyPair = keyPair,
      tgp_IssuedAt = now, tgp_AccessTokenExpiry = tokenDuration, tgp_IdTokenExpiry = tokenDuration,
      tgp_RefreshTokenExpiry = tokenDuration, tgp_Nonce = [], tgp_AuthenticatedAt = time_zero,
      tgp_AccessTokenHeaderType = app_accessTokenHeaderType app\<rparr>"

definition redeem_device_code :: "env \<Rightarrow> string \<Rightarrow> device_code_info \<Rightarrow> virtual_server \<Rightarrow> string \<Rightarrow> application \<Rightarrow> unit act" where
  "redeem_device_code E deviceCode info virtualServer clientId app =
     or_http (wrapped ''parsing user id'' (lift (uuid_Parse E (di_UserId info)))) (\<lambda>userId.
     or_http (wrapped ''deleting device code'' (DeleteToken OidcDeviceCodeTokenType deviceCode)) (\<lambda>_.
     or_http (user_or_nil (UserFilter_Id userId NewUserFilter)) (\<lambda>user.
       case user of
         None \<Rightarrow> HandleHttpError (ErrorsNew ''user not found'')
       | Some user \<Rightarrow>
           or_http (get_key (di_VirtualServerName info) (appSigningAlgorithm virtualServer app)) (\<lambda>keyPair.
           bnd get_now (\<lambda>now.
           or_http (generateTokens E (device_token_params E info userId clientId app user keyPair now)) (\<lambda>tokens.
             answer_json (CodeFlowResponse_json tokens (Join (di_GrantedScopes info) '' ''))))))))"

definition handleDeviceCodeGrant :: "env \<Rightarrow> http_request \<Rightarrow> unit act" where
  "handleDeviceCodeGrant E r =
     (let (clientId, clientSecret) = client_credentials r;
          deviceCode = hr_Form r ''device_code''
      in if deviceCode = [] then writeOAuthError ''invalid_request'' ''device_code is required''
         else
           or_answer (\<lambda>_. writeOAuthError ''expired_token'' ''device code has expired or is invalid'')
             (GetToken OidcDeviceCodeTokenType deviceCode) (\<lambda>valueString.
           or_http (wrapped ''unmarshaling device code info'' (lift (DeviceCodeInfo_decode valueString))) (\<lambda>info.
             if di_Status info = DeviceCodeStatusPending
             then writeOAuthError ''authorization_pending'' ''the authorization request is still pending''
             else if di_Status info = DeviceCodeStatusDenied
             then writeOAuthError ''access_denied'' ''the user denied the authorization request''
             else if di_Status info \<noteq> DeviceCodeStatusAuthorized
             then writeOAuthError ''server_error'' ''unexpected device code status''
             else
               or_http (vs_or_nil (di_VirtualServerName info)) (\<lambda>virtualServer.
                 case virtualServer of
                   None \<Rightarrow> writeOAuthError ''invalid_grant'' ''virtual server not found''
                 | Some virtualServer \<Rightarrow>
                     or_answer (\<lambda>e. writeOAuthError ''invalid_client'' (Error e))
                       (authenticateApplication virtualServer clientId clientSecret) (\<lambda>app.
                       if di_ClientId info \<noteq> clientId
                       then writeOAuthError ''invalid_grant'' ''device code was issued to a different client''
                       else redeem_device_code E deviceCode info virtualServer clientId app)))))"

section \<open>The endpoint\<close>

definition OidcToken :: "env \<Rightarrow> http_request \<Rightarrow> unit act" where
  "OidcToken E r =
     or_http (lift (hr_ParseForm r)) (\<lambda>_.
       let grantType = hr_Form r ''grant_type'' in
       if grantType = ''authorization_code'' then handleAuthorizationCode E r
       else if grantType = ''refresh_token'' then handleRefreshToken E r
       else if grantType = ''urn:ietf:params:oauth:grant-type:token-exchange'' then handleTokenExchange E r
       else if grantType = ''urn:ietf:params:oauth:grant-type:device_code'' then handleDeviceCodeGrant E r
       else HandleHttpError (ErrorsNew (''unsupported grant type: '' @ grantType)))"

end
