(* ===== verification/Oidc.thy ===== *)
theory Oidc
  imports OidcGrants
begin

text \<open>
  The other endpoints of OpenID Connect (\<^verbatim>\<open>internal/handlers/oidc.go\<close>): discovery, the
  authorization endpoint, the end of a session, user information and the device flow.
\<close>

section \<open>Discovery\<close>

fun trimLeadingZeros :: "string \<Rightarrow> string" where
  "trimLeadingZeros [] = [CHR 0x00]"
| "trimLeadingZeros (c # b) = (if c \<noteq> CHR 0x00 then c # b else trimLeadingZeros b)"

text \<open>The eight bytes of an unsigned number, the highest first.\<close>

definition PutUint64 :: "int \<Rightarrow> string" where
  "PutUint64 e = map (\<lambda>i. char_of (nat (e mod 2 ^ 64) div 256 ^ i)) (rev [0..<8])"

definition Ed25519JWK_json :: "string \<Rightarrow> string \<Rightarrow> json" where
  "Ed25519JWK_json kid x = JObj
     [(''kty'', JStr ''OKP''), (''crv'', JStr ''Ed25519''), (''alg'', JStr ''EdDSA''), (''use'', JStr ''sig''),
      (''kid'', JStr kid), (''x'', JStr x)]"

definition RS256JWK_json :: "string \<Rightarrow> string \<Rightarrow> string \<Rightarrow> json" where
  "RS256JWK_json kid n e = JObj
     [(''kty'', JStr ''RSA''), (''alg'', JStr ''RS256''), (''use'', JStr ''sig''), (''kid'', JStr kid),
      (''n'', JStr n), (''e'', JStr e)]"

text \<open>The key a pair contributes to the set, if any.\<close>

definition jwk_of :: "key_pair \<Rightarrow> json list go" where
  "jwk_of keyPair =
     (if kp_algorithm keyPair = SigningAlgorithmEdDSA then
        (case kp_publicKey keyPair of
           Ed25519PublicKey b \<Rightarrow> Inr [Ed25519JWK_json (kp_kid keyPair) (RawURLEncoding_EncodeToString b)]
         | _ \<Rightarrow> Inl (Panic ''interface conversion''))
      else if kp_algorithm keyPair = SigningAlgorithmRS256 then
        (case kp_publicKey keyPair of
           RSAPublicKey e n \<Rightarrow>
             Inr [RS256JWK_json (kp_kid keyPair) (RawURLEncoding_EncodeToString n)
                    (RawURLEncoding_EncodeToString (trimLeadingZeros (PutUint64 e)))]
         | _ \<Rightarrow> Inl (Panic ''interface conversion''))
      else Inr [])"

definition get_all_keys :: "string \<Rightarrow> key_pair list act" where
  "get_all_keys vsName w = (KeyService_GetAllKeys NewMemoryKeyStore vsName (w_keys w), w)"

definition WellKnownJwks :: "http_request \<Rightarrow> unit act" where
  "WellKnownJwks r =
     or_http (lift (GetVirtualServerName r)) (\<lambda>vsName.
     or_http (vs_or_nil vsName) (\<lambda>virtualServer.
       case virtualServer of
         None \<Rightarrow> HandleHttpError (ErrorsNew ''virtual server not found'')
       | Some virtualServer \<Rightarrow>
           or_http (get_all_keys vsName) (\<lambda>allKeyPairs.
           bnd (lift (map_go jwk_of
                  (filter (\<lambda>k. kp_algorithm k \<in> set (VirtualServer_AllSigningAlgorithms virtualServer)) allKeyPairs)))
             (\<lambda>keys.
           bnd (emit (WriteHeader 200)) (\<lambda>_.
           emit (WriteJson (JObj [(''keys'', JArr (concat keys))])))))))"

definition WellKnownOpenIdConfiguration :: "env \<Rightarrow> http_request \<Rightarrow> unit act" where
  "WellKnownOpenIdConfiguration E r =
     or_http (lift (GetVirtualServerName r)) (\<lambda>vsName.
     or_http (vs_or_nil vsName) (\<lambda>virtualServer.
       case virtualServer of
         None \<Rightarrow> HandleHttpError (ErrorsNew ''virtual server not found'')
       | Some virtualServer \<Rightarrow>
           let endpoint = (\<lambda>path. JStr (e_ExternalUrl E @ ''/oidc/'' @ vsName @ path)) in
           bnd (emit (WriteHeader 200)) (\<lambda>_.
           emit (WriteJson (JObj
             [(''issuer'', endpoint []), (''authorization_endpoint'', endpoint ''/authorize''),
              (''token_endpoint'', endpoint ''/token''), (''userinfo_endpoint'', endpoint ''/userinfo''),
              (''end_session_endpoint'', endpoint ''/end_session''),
              (''device_authorization_endpoint'', endpoint ''/device''),
              (''jwks_uri'', endpoint ''/.well-known/jwks.json''),
              (''response_types_supported'', json_strings [''code'']),
              (''subject_types_supported'', json_strings [''public'']),
              (''id_token_signing_alg_values_supported'', json_strings (VirtualServer_AllSigningAlgorithms virtualServer)),
              (''scopes_supported'', json_strings [''openid'', ''email'', ''profile'']),
              (''claims_supported'', json_strings [''sub'', ''name'', ''email'']),
              (''token_endpoint_auth_methods_supported'', json_strings [''client_secret_basic'', ''client_secret_post'']),
              (''request_parameter_supported'', JBool True),
              (''grant_types_supported'', json_strings
                 [''authorization_code'', ''refresh_token'', ''urn:ietf:params:oauth:grant-type:token-exchange'',
                  ''urn:ietf:params:oauth:grant-type:device_code''])])))))"

section \<open>The authorization endpoint\<close>

record authorization_request =
  ar_ResponseTypes :: "string list"
  ar_VirtualServerName :: string
  ar_ApplicationName :: string
  ar_RedirectUri :: string
  ar_Scopes :: "string list"
  ar_State :: string
  ar_Nonce :: string
  ar_ResponseMode :: string
  ar_PKCEChallenge :: string
  ar_PKCEChallengeMethod :: string

datatype oidc_error = OidcError (oe_Error: string) (oe_ErrorDescription: string) (oe_ErrorUri: string)

definition loginRequired :: oidc_error where
  "loginRequired = OidcError ''login_required''
     ''The Authorization Server requires End-User authentication''
     ''https://openid.net/specs/openid-connect-core-1_0.html#AuthError''"

definition unsupportedResponseType :: oidc_error where
  "unsupportedResponseType = OidcError ''unsupported_response_type''
     ''The authorization server does not support obtaining an authorization code using this method.''
     ''https://datatracker.ietf.org/doc/html/rfc6749#section-4.1.2.1''"

definition invalidRedirectUri :: oidc_error where
  "invalidRedirectUri = OidcError ''invalid_redirect_uri''
     ''The redirect_uri in the Authorization Request does not match a pre-registered value.''
     ''https://datatracker.ietf.org/doc/html/rfc6749#section-3.1.2''"

definition invalid_request :: "string \<Rightarrow> oidc_error" where
  "invalid_request description = OidcError ''invalid_request'' description []"

definition url_parse :: "env \<Rightarrow> string \<Rightarrow> go_url go" where
  "url_parse E s =
     (case e_url_Split E s of
        None \<Rightarrow> Inl (Err (ErrorsNew ''parse''))
      | Some (before, query, force, rest) \<Rightarrow>
          Inr \<lparr>url_head = before, url_RawQuery = query, url_ForceQuery = force, url_tail = rest\<rparr>)"

definition set_nonempty :: "string \<Rightarrow> string \<Rightarrow> url_values \<Rightarrow> url_values" where
  "set_nonempty k v q = (if v \<noteq> [] then Values_Set k v q else q)"

definition errorRedirect :: "env \<Rightarrow> authorization_request \<Rightarrow> oidc_error \<Rightarrow> unit act" where
  "errorRedirect E authRequest e =
     or_http (wrapped ''parsing redirect uri'' (lift (url_parse E (ar_RedirectUri authRequest)))) (\<lambda>errorUrl.
       let query = set_nonempty ''state'' (ar_State authRequest)
             (set_nonempty ''error_uri'' (oe_ErrorUri e)
               (set_nonempty ''error_description'' (oe_ErrorDescription e)
                 (Values_Set ''error'' (oe_Error e) (url_Query errorUrl))))
       in emit (Redirect (url_String (errorUrl\<lparr>url_RawQuery := Values_Encode query\<rparr>)) 302))"

text \<open>A claim of the request object replaces the parameter; a claim that is not a string panics.\<close>

definition claim_override :: "string \<Rightarrow> (string \<Rightarrow> 'a \<Rightarrow> 'a) \<Rightarrow> json_obj \<Rightarrow> 'a \<Rightarrow> 'a go" where
  "claim_override k set_it claims a =
     (case map_of claims k of
        None \<Rightarrow> Inr a | Some JNull \<Rightarrow> Inr a | Some (JStr s) \<Rightarrow> Inr (set_it s a)
      | Some _ \<Rightarrow> Inl (Panic ''interface conversion''))"

definition apply_request_object :: "json_obj \<Rightarrow> authorization_request \<Rightarrow> authorization_request go" where
  "apply_request_object claims a0 =
     go_bind (claim_override ''response_type'' (\<lambda>s a. a\<lparr>ar_ResponseTypes := Split s CHR '' ''\<rparr>) claims a0) (\<lambda>a.
     go_bind (claim_override ''client_id'' (\<lambda>s a. a\<lparr>ar_ApplicationName := s\<rparr>) claims a) (\<lambda>a.
     go_bind (claim_override ''redirect_uri'' (\<lambda>s a. a\<lparr>ar_RedirectUri := s\<rparr>) claims a) (\<lambda>a.
     go_bind (claim_override ''scope'' (\<lambda>s a. a\<lparr>ar_Scopes := Split s CHR '' ''\<rparr>) claims a) (\<lambda>a.
     go_bind (claim_override ''state'' (\<lambda>s a. a\<lparr>ar_State := s\<rparr>) claims a) (\<lambda>a.
     go_bind (claim_override ''nonce'' (\<lambda>s a. a\<lparr>ar_Nonce := s\<rparr>) claims a) (\<lambda>a.
     claim_override ''response_mode'' (\<lambda>s a. a\<lparr>ar_ResponseMode := s\<rparr>) claims a))))))"

definition form_request :: "http_request \<Rightarrow> string \<Rightarrow> authorization_request" where
  "form_request r vsName =
     \<lparr>ar_ResponseTypes = Split (hr_Form r ''response_type'') CHR '' '', ar_VirtualServerName = vsName,
      ar_ApplicationName = hr_Form r ''client_id'', ar_RedirectUri = hr_Form r ''redirect_uri'',
      ar_Scopes = Split (hr_Form r ''scope'') CHR '' '', ar_State = hr_Form r ''state'',
      ar_Nonce = hr_Form r ''nonce'', ar_ResponseMode = hr_Form r ''response_mode'',
      ar_PKCEChallenge = hr_Form r ''code_challenge'',
      ar_PKCEChallengeMethod = hr_Form r ''code_challenge_method''\<rparr>"

definition read_request :: "env \<Rightarrow> http_request \<Rightarrow> string \<Rightarrow> authorization_request go" where
  "read_request E r vsName =
     (if hr_Form r ''request'' = [] then Inr (form_request r vsName)
      else case e_jwt_ParseUnverified E (hr_Form r ''request'') of
        None \<Rightarrow> Inl (Err (Wrap ''parsing request parameter'' (ErrorsNew ''jwt'')))
      | Some claims \<Rightarrow> apply_request_object claims (form_request r vsName))"

text \<open>With a session: the code is stored, and the browser sent back with it.\<close>

definition issue_code :: "env \<Rightarrow> authorization_request \<Rightarrow> virtual_server \<Rightarrow> application \<Rightarrow> current_session \<Rightarrow> unit act" where
  "issue_code E authRequest virtualServer app s =
     (let codeInfo = NewCodeInfo (vs_name virtualServer) (bm_id (app_base app)) (ar_Scopes authRequest) (cs_userId s)
            (ar_Nonce authRequest) (cs_createdAt s) (ar_RedirectUri authRequest) (ar_PKCEChallenge authRequest)
            (ar_PKCEChallengeMethod authRequest)
      in or_http (wrapped ''marshaling code info'' (lift (json_Marshal (CodeInfo_json E codeInfo)))) (\<lambda>codeInfoString.
         or_http (wrapped ''generating code'' (GenerateAndStoreToken E OidcCodeTokenType codeInfoString Minute)) (\<lambda>code.
         or_http (wrapped ''parsing redirect uri'' (lift (url_parse E (ar_RedirectUri authRequest)))) (\<lambda>redirectUri.
           let query = set_nonempty ''state'' (ar_State authRequest) (Values_Set ''code'' code (url_Query redirectUri))
           in emit (Redirect (url_String (redirectUri\<lparr>url_RawQuery := Values_Encode query\<rparr>)) 302)))))"

text \<open>Without one: a login begins, which comes back to this URL.\<close>

definition begin_login :: "env \<Rightarrow> http_request \<Rightarrow> virtual_server \<Rightarrow> application \<Rightarrow> unit act" where
  "begin_login E r virtualServer app =
     or_http (wrapped ''marshaling login info'' (lift (json_Marshal
                (LoginInfo_json E (NewLoginInfo virtualServer app (hr_URL r)))))) (\<lambda>loginInfoString.
     or_http (wrapped ''generating login session token''
                (GenerateAndStoreToken E LoginSessionTokenType loginInfoString (Minute * 15))) (\<lambda>loginSessionToken.
       emit (Redirect (e_FrontendExternalUrl E @ ''/login?token='' @ loginSessionToken) 302)))"

text \<open>The checks of the request on an application that is known.\<close>

definition authorize_checked :: "env \<Rightarrow> http_request \<Rightarrow> authorization_request \<Rightarrow> virtual_server \<Rightarrow> application \<Rightarrow> unit act" where
  "authorize_checked E r authRequest virtualServer app =
     (if app_redirectUris app = [] then HandleHttpError (ErrorsNew ''application has no redirect uris'')
      else if ar_RedirectUri authRequest \<notin> set (app_redirectUris app) then errorRedirect E authRequest invalidRedirectUri
      else if ar_ResponseTypes authRequest \<noteq> [''code''] then errorRedirect E authRequest unsupportedResponseType
      else if ''openid'' \<notin> set (ar_Scopes authRequest) then HandleHttpError (ErrorsNew ''required openid scope missing'')
      else if ar_PKCEChallenge authRequest = []
        then errorRedirect E authRequest (invalid_request ''code_challenge is required'')
      else if ar_PKCEChallengeMethod authRequest = []
        then errorRedirect E authRequest (invalid_request ''code_challenge_method is required and must be S256'')
      else if ar_PKCEChallengeMethod authRequest \<noteq> ''S256''
        then errorRedirect E authRequest (invalid_request ''unsupported code_challenge_method (only S256 is allowed)'')
      else case hr_session r of
        Some s \<Rightarrow> issue_code E authRequest virtualServer app s
      | None \<Rightarrow> if hr_Form r ''prompt'' = ''none'' then errorRedirect E authRequest loginRequired
                else begin_login E r virtualServer app)"

definition BeginAuthorizationFlow :: "env \<Rightarrow> http_request \<Rightarrow> unit act" where
  "BeginAuthorizationFlow E r =
     or_http (lift (hr_ParseForm r)) (\<lambda>_.
     or_http (lift (GetVirtualServerName r)) (\<lambda>vsName.
     or_http (lift (read_request E r vsName)) (\<lambda>authRequest.
     or_http (vs_or_nil vsName) (\<lambda>virtualServer.
       case virtualServer of
         None \<Rightarrow> HandleHttpError (ErrorsNew ''virtual server not found'')
       | Some virtualServer \<Rightarrow>
           or_http (app_or_nil (bm_id (vs_base virtualServer)) (ar_ApplicationName authRequest)) (\<lambda>app.
             case app of
               None \<Rightarrow> HandleHttpError (ErrorsNew ''application not found'')
             | Some app \<Rightarrow> authorize_checked E r authRequest virtualServer app)))))"

section \<open>The end of a session\<close>

definition extractClientIdFromJwt :: "json_obj \<Rightarrow> string go" where
  "extractClientIdFromJwt idTokenClaims =
     (case map_of idTokenClaims ''aud'' of
        None \<Rightarrow> Inl (Err (ErrorsNew ''client id not found''))
      | Some (JStr clientId) \<Rightarrow> Inr clientId
      | Some (JArr clientIds) \<Rightarrow>
          (case clientIds of
             [JStr clientId] \<Rightarrow> Inr clientId
           | [_] \<Rightarrow> Inl (Err (ErrorsNew ''expected string for client id''))
           | _ \<Rightarrow> Inl (Err (ErrorsNew ''expected array of length 1 for client id'')))
      | Some _ \<Rightarrow> Inl (Err (ErrorsNew ''expected string or array of strings for client id'')))"

text \<open>The query with the state is built and then not used.\<close>

definition OidcEndSession :: "env \<Rightarrow> http_request \<Rightarrow> unit act" where
  "OidcEndSession E r =
     or_http (lift (hr_ParseForm r)) (\<lambda>_.
     or_http (lift (GetVirtualServerName r)) (\<lambda>vsName.
       let state = hr_Form r ''state''; idTokenString = hr_Form r ''id_token_hint'' in
       if idTokenString = [] then HandleHttpError (ErrorsNew ''id token hint not found'')
       else
     or_http (wrapped ''parsing id token'' (parseTokenWithVS E idTokenString vsName)) (\<lambda>idTokenClaims.
     or_http (wrapped ''extracting client id from id token'' (lift (extractClientIdFromJwt idTokenClaims))) (\<lambda>clientId.
       if clientId = [] then HandleHttpError (ErrorsNew ''client id not found'')
       else
     or_http (vs_or_nil vsName) (\<lambda>virtualServer.
       case virtualServer of
         None \<Rightarrow> HandleHttpError (ErrorsNew ''virtual server not found'')
       | Some virtualServer \<Rightarrow>
     or_http (app_or_nil (bm_id (vs_base virtualServer)) clientId) (\<lambda>app.
       case app of
         None \<Rightarrow> HandleHttpError (ErrorsNew ''application not found'')
       | Some app \<Rightarrow>
     bnd (if hr_Form r ''post_logout_redirect_uri'' \<noteq> [] then ret (hr_Form r ''post_logout_redirect_uri'')
          else (case app_redirectUris app of [] \<Rightarrow> panic ''index out of range'' | u # _ \<Rightarrow> ret u)) (\<lambda>redirectUriString.
       if redirectUriString \<notin> set (app_postLogoutRedirectUris app)
       then HandleHttpError (ErrorsNew ''redirect uri not found'')
       else
     or_http (middlewares_DeleteSession E (hr_session r) vsName) (\<lambda>_.
     or_http (wrapped ''parsing redirect uri'' (lift (url_parse E redirectUriString))) (\<lambda>redirectUri.
       let redirectUri = redirectUri\<lparr>url_RawQuery := Values_Encode (set_nonempty ''state'' state (url_Query redirectUri))\<rparr>
       in emit (Redirect redirectUriString 302))))))))))"

section \<open>User information\<close>

definition extractScopes :: "json_obj \<Rightarrow> string list go" where
  "extractScopes claims =
     (case map_of claims ''scopes'' of
        None \<Rightarrow> Inr []
      | Some (JArr scopes) \<Rightarrow>
          map_go (\<lambda>t. case t of JStr s \<Rightarrow> Inr s | _ \<Rightarrow> Inl (Err (ErrorsNew ''scope value is not a string''))) scopes
      | Some _ \<Rightarrow> Inl (Err (ErrorsNew ''expected array of strings for scope'')))"

definition extractAccessToken :: "http_request \<Rightarrow> string go" where
  "extractAccessToken r =
     (if hr_Authorization r \<noteq> [] then
        (if \<not> HasPrefix (hr_Authorization r) ''Bearer ''
         then Inl (Err (ErrorsNew ''authorization header is not a bearer token''))
         else Inr (hr_Authorization r))
      else Inr (hr_PostForm r ''access_token''))"

definition userinfo_json :: "env \<Rightarrow> uuid \<Rightarrow> string list \<Rightarrow> user \<Rightarrow> json" where
  "userinfo_json E userId scopes user = JObj
     ([(''sub'', JStr (e_uuid_String E userId))] @
      (if ''email'' \<in> set scopes
       then (if u_primaryEmail user \<noteq> [] then [(''email'', JStr (u_primaryEmail user))] else []) @
            [(''email_verified'', JBool (u_emailVerified user))] else []) @
      (if ''profile'' \<in> set scopes \<and> u_displayName user \<noteq> [] then [(''name'', JStr (u_displayName user))] else []))"

text \<open>The result of the lookup of the virtual server is not checked before it is used.\<close>

definition OidcUserinfo :: "env \<Rightarrow> http_request \<Rightarrow> unit act" where
  "OidcUserinfo E r =
     or_http (lift (GetVirtualServerName r)) (\<lambda>vsName.
     or_http (vs_or_nil vsName) (\<lambda>virtualServer.
     or_http (lift (hr_ParseForm r)) (\<lambda>_.
     or_http (wrapped ''extracting access token'' (lift (extractAccessToken r))) (\<lambda>bearer.
       if bearer = [] then HandleHttpError (ErrorsNew ''authorization header not found'')
       else
         let tokenString = TrimPrefix bearer ''Bearer '' in
         if tokenString = [] then HandleHttpError (ErrorsNew ''token not found'')
         else
     or_http (wrapped ''parsing token'' (parseTokenWithVS E tokenString vsName)) (\<lambda>claims.
     or_http (wrapped ''getting subject'' (lift (case e_jwt_GetSubject E claims of
                Some s \<Rightarrow> Inr s | None \<Rightarrow> Inl (Err (ErrorsNew ''sub is invalid''))))) (\<lambda>subject.
     or_http (wrapped ''parsing subject'' (lift (uuid_Parse E subject))) (\<lambda>userId.
     bnd (case virtualServer of None \<Rightarrow> lift nil_dereference | Some v \<Rightarrow> ret v) (\<lambda>virtualServer.
     or_http (user_or_nil (UserFilter_VirtualServerId (bm_id (vs_base virtualServer)) (UserFilter_Id userId NewUserFilter)))
       (\<lambda>user.
       case user of
         None \<Rightarrow> HandleHttpError (ErrorsNew ''user not found'')
       | Some user \<Rightarrow>
           bnd (emit (WriteHeader 200)) (\<lambda>_.
           or_http (wrapped ''extracting scopes'' (lift (extractScopes claims))) (\<lambda>scopes.
             emit (WriteJson (userinfo_json E userId scopes user)))))))))))))"

section \<open>The device flow\<close>

definition user_code_chars :: string where
  "user_code_chars = ''ABCDEFGHIJKLMNOPQRSTUVWXYZ''"

definition user_code_char :: "char \<Rightarrow> char" where
  "user_code_char b = user_code_chars ! (of_char b mod length user_code_chars)"

definition generateUserCode :: "env \<Rightarrow> string act" where
  "generateUserCode E =
     bnd (GetSecureRandomBytes E 8) (\<lambda>b.
       ret (map user_code_char (take 4 b) @ CHR ''-'' # map user_code_char (take 4 (drop 4 b))))"

definition DeviceAuthorizationResponse_json :: "string \<Rightarrow> string \<Rightarrow> string \<Rightarrow> json" where
  "DeviceAuthorizationResponse_json deviceCode userCode verificationUri = JObj
     [(''device_code'', JStr deviceCode), (''user_code'', JStr userCode),
      (''verification_uri'', JStr verificationUri),
      (''verification_uri_complete'', JStr (verificationUri @ ''?user_code='' @ userCode)),
      (''expires_in'', JNum 600), (''interval'', JNum 5)]"

definition BeginDeviceFlow :: "env \<Rightarrow> http_request \<Rightarrow> unit act" where
  "BeginDeviceFlow E r =
     or_http (lift (hr_ParseForm r)) (\<lambda>_.
     or_http (lift (GetVirtualServerName r)) (\<lambda>vsName.
       let (clientId, clientSecret) = client_credentials r; scopes = Split (hr_Form r ''scope'') CHR '' '' in
       if clientId = [] then writeOAuthError ''invalid_client'' ''client_id is required''
       else if ''openid'' \<notin> set scopes then writeOAuthError ''invalid_scope'' ''required openid scope missing''
       else
     or_http (vs_or_nil vsName) (\<lambda>virtualServer.
       case virtualServer of
         None \<Rightarrow> HandleHttpError (ErrorsNew ''virtual server not found'')
       | Some virtualServer \<Rightarrow>
     or_answer (\<lambda>e. writeOAuthError ''invalid_client'' (Error e))
       (authenticateApplication virtualServer clientId clientSecret) (\<lambda>app.
       if \<not> app_deviceFlowEnabled app
       then writeOAuthError ''unauthorized_client'' ''device flow is not enabled for this application''
       else
     bnd (generateUserCode E) (\<lambda>userCode.
       let info = \<lparr>di_VirtualServerName = vsName, di_ClientId = clientId, di_GrantedScopes = scopes,
                   di_Status = DeviceCodeStatusPending, di_UserId = [], di_UserCode = userCode\<rparr> in
     or_http (wrapped ''marshaling device code info'' (lift (json_Marshal (DeviceCodeInfo_json info)))) (\<lambda>deviceCodeInfoJson.
     or_http (wrapped ''generating device code''
                (GenerateAndStoreToken E OidcDeviceCodeTokenType deviceCodeInfoJson (10 * Minute))) (\<lambda>deviceCode.
     or_http (wrapped ''storing user code''
                (StoreToken OidcUserCodeTokenType userCode (Plain deviceCode) (10 * Minute))) (\<lambda>_.
       answer_json (DeviceAuthorizationResponse_json deviceCode userCode
         (e_FrontendExternalUrl E @ ''/'' @ vsName @ ''/activate''))))))))))"

definition GetActivatePage :: "env \<Rightarrow> http_request \<Rightarrow> unit act" where
  "GetActivatePage E r =
     or_http (lift (GetVirtualServerName r)) (\<lambda>vsName.
       let redirectUrl = e_FrontendExternalUrl E @ ''/'' @ vsName @ ''/activate'';
           userCode = Values_Get ''user_code'' (ParseQuery (hr_RawQuery r))
       in emit (Redirect (if userCode \<noteq> [] then redirectUrl @ ''?user_code='' @ QueryEscape userCode else redirectUrl) 302))"

definition PostActivatePage :: "env \<Rightarrow> http_request \<Rightarrow> unit act" where
  "PostActivatePage E r =
     or_http (lift (hr_ParseForm r)) (\<lambda>_.
     or_http (lift (GetVirtualServerName r)) (\<lambda>vsName.
       let userCode = hr_Form r ''user_code'' in
       if userCode = [] then emit (HttpError 400)
       else
     or_status 404 (GetToken OidcUserCodeTokenType userCode) (\<lambda>deviceCodeText.
       let deviceCode = token_text E deviceCodeText in
     or_status 404 (GetToken OidcDeviceCodeTokenType deviceCode) (\<lambda>deviceCodeInfoString.
     or_http (wrapped ''unmarshaling device code info'' (lift (DeviceCodeInfo_decode deviceCodeInfoString))) (\<lambda>info.
       if di_Status info \<noteq> DeviceCodeStatusPending then emit (HttpError 400)
       else
     or_http (vs_or_nil vsName) (\<lambda>virtualServer.
       case virtualServer of
         None \<Rightarrow> HandleHttpError (ErrorsNew ''virtual server not found'')
       | Some virtualServer \<Rightarrow>
     or_http (app_or_nil (bm_id (vs_base virtualServer)) (di_ClientId info)) (\<lambda>app.
       case app of
         None \<Rightarrow> HandleHttpError (ErrorsNew ''application not found'')
       | Some app \<Rightarrow>
           let loginInfo = (NewLoginInfo virtualServer app (e_ExternalUrl E @ ''/oidc/'' @ vsName @ ''/activate''))
                             \<lparr>li_DeviceCode := deviceCode\<rparr> in
     or_http (wrapped ''marshaling login info'' (lift (json_Marshal (LoginInfo_json E loginInfo)))) (\<lambda>loginInfoString.
     or_http (wrapped ''generating login session token''
                (GenerateAndStoreToken E LoginSessionTokenType loginInfoString (15 * Minute))) (\<lambda>loginSessionToken.
       emit (Redirect (e_FrontendExternalUrl E @ ''/login?token='' @ loginSessionToken) 302))))))))))"

definition ActivateSuccess :: "env \<Rightarrow> http_request \<Rightarrow> unit act" where
  "ActivateSuccess E r =
     or_http (lift (GetVirtualServerName r)) (\<lambda>vsName.
       emit (Redirect (e_FrontendExternalUrl E @ ''/'' @ vsName @ ''/activate/success'') 302))"

end
