(* ===== verification/OidcSpec.thy ===== *)
theory OidcSpec
  imports Oidc Frames LoginTrace
begin

text \<open>
  What the token endpoint guarantees: the lookups and the generation of tokens in closed form,
  then codes, refresh tokens and token exchange.
\<close>

named_theorems oidc_eqs \<open>steps of the handlers in closed form\<close>

lemma oidc_types_neq [simp]:
  "OidcDeviceCodeTokenType \<noteq> OidcRefreshTokenTokenType" "OidcCodeTokenType \<noteq> OidcRefreshTokenTokenType"
  "OidcDeviceCodeTokenType \<noteq> OidcUserCodeTokenType" "OidcUserCodeTokenType \<noteq> OidcDeviceCodeTokenType"
  by (simp_all add: token_type_defs)

lemma token_live_other_parts [simp]:
  "token_live (w\<lparr>w_out := es\<rparr>) t x = token_live w t x" "token_live (w\<lparr>w_keycache := c\<rparr>) t x = token_live w t x"
  by (simp_all add: token_live_def kv_live_def)

section \<open>Lookups\<close>

definition app_named :: "stores \<Rightarrow> uuid \<Rightarrow> string \<Rightarrow> application option" where
  "app_named st vsId name =
     first_of (filter (\<lambda>a. app_virtualServerId a = vsId \<and> app_name a = name) (map snd (st_Applications st)))"

definition user_with :: "stores \<Rightarrow> uuid \<Rightarrow> user option" where
  "user_with st i = first_of (filter (\<lambda>u. bm_id (u_base u) = i) (map snd (st_Users st)))"

lemma first_filter_Some: "first_of (filter p xs) = Some x \<Longrightarrow> x \<in> set xs \<and> p x"
  by (induction xs) (auto split: if_splits)

lemma app_named_Some: "app_named st vsId name = Some a \<Longrightarrow> app_virtualServerId a = vsId \<and> app_name a = name"
  unfolding app_named_def by (drule first_filter_Some) simp

lemma vs_named_Some: "vs_named st name = Some v \<Longrightarrow> vs_name v = name"
  unfolding vs_named_def by (drule first_filter_Some) simp

lemma user_with_Some: "user_with st i = Some u \<Longrightarrow> bm_id (u_base u) = i"
  unfolding user_with_def by (drule first_filter_Some) simp

lemma vs_or_nil_eq [oidc_eqs]: "vs_or_nil name w = (Inr (vs_named (w_stores w) name), w)"
proof -
  have "filter_go (VirtualServer_matches (VirtualServerFilter_Name name NewVirtualServerFilter)) xs =
      Inr (filter (\<lambda>v. vs_name v = name) xs)" for xs
    by (rule filter_go_pure) (auto simp: VirtualServer_matches_def filter_defs)
  then show ?thesis
    by (simp add: vs_or_nil_def db_read_def wrapped_def vs_named_def VirtualServerRepository_FirstOrNil_def
        VirtualServerRepository_filtered_def repo_filtered_def)
qed

lemma app_or_nil_eq [oidc_eqs]: "app_or_nil vsId name w = (Inr (app_named (w_stores w) vsId name), w)"
proof -
  have "filter_go (Application_matches (ApplicationFilter_Name name (ApplicationFilter_VirtualServerId vsId NewApplicationFilter))) xs =
      Inr (filter (\<lambda>a. app_virtualServerId a = vsId \<and> app_name a = name) xs)" for xs
    by (rule filter_go_pure) (auto simp: Application_matches_def filter_defs)
  then show ?thesis
    by (simp add: app_or_nil_def db_read_def wrapped_def app_named_def ApplicationRepository_FirstOrNil_def
        ApplicationRepository_filtered_def repo_filtered_def)
qed

lemma user_or_nil_eq [oidc_eqs]:
  "user_or_nil (UserFilter_Id i NewUserFilter) w = (Inr (user_with (w_stores w) i), w)"
proof -
  have "filter_go (User_matches (UserFilter_Id i NewUserFilter)) xs = Inr (filter (\<lambda>u. bm_id (u_base u) = i) xs)" for xs
    by (rule filter_go_pure) (auto simp: User_matches_def filter_defs)
  then show ?thesis
    by (simp add: user_or_nil_def db_read_def wrapped_def user_with_def UserRepository_FirstOrNil_def
        UserRepository_filtered_def repo_filtered_def)
qed

text \<open>The client authentication as a decision on the saved entities.\<close>

definition client_ok :: "application \<Rightarrow> string \<Rightarrow> bool" where
  "client_ok app secret \<longleftrightarrow>
     (case app_type app of
        ApplicationTypeConfidential \<Rightarrow> secret \<noteq> [] \<and> CheapCompareHash secret (app_hashedSecret app)
      | ApplicationTypePublic \<Rightarrow> secret = []
      | OtherApplicationType _ \<Rightarrow> False)"

lemma authenticateApplication_Inr [oidc_eqs]:
  "authenticateApplication v name secret w = (Inr app, w') \<longleftrightarrow>
     w' = w \<and> app_named (w_stores w) (bm_id (vs_base v)) name = Some app \<and> client_ok app secret"
  by (auto simp: authenticateApplication_def bnd_def app_or_nil_eq client_ok_def
      split: option.splits application_type.splits if_splits)

lemma authenticateApplication_Inl: "authenticateApplication v name secret w = (Inl e, w') \<Longrightarrow> w' = w \<and> (\<exists>x. e = Err x)"
  by (auto simp: authenticateApplication_def bnd_def app_or_nil_eq
      split: option.splits application_type.splits if_splits)

section \<open>Generation of tokens\<close>

text \<open>An access token is computed without a change of the state.\<close>

lemma generateAccessToken_reads: "generateAccessToken E params w = (r, w') \<Longrightarrow> w' = w"
proof -
  have "keeps (\<lambda>w. w) (generateAccessToken E params)"
    unfolding generateAccessToken_def mapClaims_def MapClaims_def assignments_of_def user_or_nil_def
    by (intro frame | auto split: option.splits intro!: frame)+
  then show "generateAccessToken E params w = (r, w') \<Longrightarrow> w' = w"
    by (auto dest: keepsD)
qed

definition refresh_info_of :: "token_generation_params \<Rightarrow> refresh_token_info" where
  "refresh_info_of p = NewRefreshTokenInfo (tgp_VirtualServerName p) (tgp_ClientId p) (tgp_UserId p) (tgp_GrantedScopes p)"

definition refresh_stored :: "env \<Rightarrow> token_generation_params \<Rightarrow> world \<Rightarrow> world" where
  "refresh_stored E p w =
     store_at (TokenType_Key OidcRefreshTokenTokenType (fresh_token E w)) (Doc (RefreshTokenInfo_json E (refresh_info_of p)))
       (tgp_RefreshTokenExpiry p) (drew w)"

definition made_tokens :: "env \<Rightarrow> token_generation_params \<Rightarrow> world \<Rightarrow> generated_tokens \<Rightarrow> bool" where
  "made_tokens E p w t \<longleftrightarrow>
     generateIdToken E (ToIdTokenGenerationParams p) = Inr (gt_IdToken t) \<and>
     generateAccessToken E (ToAccessTokenGenerationParams p) w = (Inr (gt_AccessToken t), w) \<and>
     gt_RefreshToken t = fresh_token E w \<and> gt_ExpiresIn t = duration_seconds (tgp_AccessTokenExpiry p)"

lemma generateTokens_Inr [oidc_eqs]:
  "generateTokens E p w = (Inr t, w') \<longleftrightarrow> made_tokens E p w t \<and> w' = refresh_stored E p w"
proof -
  obtain r1 where r1: "generateIdToken E (ToIdTokenGenerationParams p) = r1" by blast
  obtain r2 where r2: "generateAccessToken E (ToAccessTokenGenerationParams p) w = (r2, w)"
    by (metis generateAccessToken_reads prod.exhaust_sel)
  show ?thesis
    by (cases r1; cases r2)
      (auto simp: generateTokens_def bnd_def wrapped_def r1 r2 made_tokens_def refresh_stored_def refresh_info_of_def
        generateRefreshTokenInfo_def json_Marshal_def ToRefreshTokenGenerationParams_def GenerateAndStoreToken_eq
        wrap_def split: stop.splits intro!: generated_tokens.equality)
qed

lemma generateTokens_Inl: "generateTokens E p w = (Inl e, w') \<Longrightarrow> w' = w"
proof -
  obtain r2 where r2: "generateAccessToken E (ToAccessTokenGenerationParams p) w = (r2, w)"
    by (metis generateAccessToken_reads prod.exhaust_sel)
  show "generateTokens E p w = (Inl e, w') \<Longrightarrow> w' = w"
    by (auto simp: generateTokens_def bnd_def wrapped_def r2 generateRefreshTokenInfo_def json_Marshal_def
        GenerateAndStoreToken_eq wrap_def split: sum.splits stop.splits)
qed

lemma refresh_stored_simps [simp]:
  "w_now (refresh_stored E p w) = w_now w" "w_stores (refresh_stored E p w) = w_stores w"
  "w_db (refresh_stored E p w) = w_db w"
  "w_keys (refresh_stored E p w) = w_keys w" "w_keycache (refresh_stored E p w) = w_keycache w"
  "w_out (refresh_stored E p w) = w_out w" "clock_ok (refresh_stored E p w) = clock_ok w"
  by (simp_all add: refresh_stored_def)

lemma token_live_refresh_stored:
  assumes "clock_ok w" "known_type t" "0 < tgp_RefreshTokenExpiry p"
  shows "token_live (refresh_stored E p w) t x =
    (if t = OidcRefreshTokenTokenType \<and> x = fresh_token E w
     then Some (Doc (RefreshTokenInfo_json E (refresh_info_of p))) else token_live w t x)"
  using assms by (simp add: refresh_stored_def token_live_store_at)

text \<open>The claims an access token carries.\<close>

lemma generateAccessToken_Inr:
  assumes "generateAccessToken E p w = (Inr token, w')"
  shows "\<exists>method mapped. getJwtSigningMethod (kp_algorithm (atp_KeyPair p)) = Inr method \<and>
    mapClaims E p w = (Inr mapped, w) \<and>
    SignedString E method [(''kid'', JStr (kp_kid (atp_KeyPair p))), (''typ'', JStr (atp_HeaderType p))]
      (access_token_claims E p mapped) (atp_KeyPair p) = Inr token"
proof -
  have "keeps (\<lambda>w. w) (mapClaims E p)"
    unfolding mapClaims_def MapClaims_def assignments_of_def user_or_nil_def
    by (intro frame | auto split: option.splits intro!: frame)+
  then show ?thesis
    using assms by (auto simp: generateAccessToken_def bnd_eq_Inr dest: keepsD)
qed

lemma access_token_claims_set:
  "map_of (access_token_claims E p mapped) ''sub'' = Some (JStr (e_uuid_String E (atp_UserId p)))"
  "map_of (access_token_claims E p mapped) ''iss'' = Some (JStr (issuer (atp_ExternalUrl p) (atp_VirtualServerName p)))"
  "map_of (access_token_claims E p mapped) ''aud'' = Some (json_strings [atp_ClientId p])"
  "map_of (access_token_claims E p mapped) ''scopes'' = Some (json_strings (atp_GrantedScopes p))"
  "map_of (access_token_claims E p mapped) ''exp'' = Some (JNum (time_Unix (atp_IssuedAt p + atp_Expiry p)))"
  "k \<notin> {''sub'', ''iss'', ''aud'', ''scopes'', ''iat'', ''exp''} \<Longrightarrow>
     map_of (access_token_claims E p mapped) k = map_of mapped k"
  by (simp_all add: access_token_claims_def update_conv')

section \<open>What the tokens are made of depends on the saved entities only\<close>

definition reads_stores :: "'a act \<Rightarrow> bool" where
  "reads_stores m \<longleftrightarrow> (\<exists>g. \<forall>w. m w = (g (w_stores w), w))"

lemma reads_stores_pure [simp, intro]:
  "reads_stores (ret x)" "reads_stores (lift r)" "reads_stores (err e)" "reads_stores (db_read q)"
  by (auto simp: reads_stores_def db_read_def)

lemma reads_stores_bnd [intro]:
  assumes "reads_stores m" "\<And>x. reads_stores (f x)" shows "reads_stores (bnd m f)"
proof -
  obtain g where g: "\<And>w. m w = (g (w_stores w), w)" using assms(1) by (auto simp: reads_stores_def)
  obtain h where h: "\<And>x w. f x w = (h x (w_stores w), w)" using assms(2) unfolding reads_stores_def by metis
  have "bnd m f w = ((case g (w_stores w) of Inl e \<Rightarrow> Inl e | Inr x \<Rightarrow> h x (w_stores w)), w)" for w
    by (simp add: bnd_def g h split: sum.split)
  then show ?thesis by (auto simp: reads_stores_def intro!: exI [of _ "\<lambda>st. case g st of Inl e \<Rightarrow> Inl e | Inr x \<Rightarrow> h x st"])
qed

lemma reads_stores_wrapped [intro]: "reads_stores m \<Longrightarrow> reads_stores (wrapped msg m)"
  by (auto simp: reads_stores_def wrapped_def)

lemma reads_stores_catch [intro]:
  assumes "reads_stores m" shows "reads_stores (catch m)"
proof -
  obtain g where g: "\<And>w. m w = (g (w_stores w), w)" using assms by (auto simp: reads_stores_def)
  have "catch m w = ((case g (w_stores w) of Inl (Err e) \<Rightarrow> Inr (Inl e) | Inl (Panic p) \<Rightarrow> Inl (Panic p)
      | Inr x \<Rightarrow> Inr (Inr x)), w)" for w
    by (simp add: catch_def g split: sum.split stop.split)
  then show ?thesis
    by (auto simp: reads_stores_def intro!: exI [of _ "\<lambda>st. case g st of Inl (Err e) \<Rightarrow> Inr (Inl e)
      | Inl (Panic p) \<Rightarrow> Inl (Panic p) | Inr x \<Rightarrow> Inr (Inr x)"])
qed

lemma reads_stores_generateAccessToken: "reads_stores (generateAccessToken E params)"
  unfolding generateAccessToken_def mapClaims_def MapClaims_def assignments_of_def user_or_nil_def
  by (intro reads_stores_bnd reads_stores_wrapped reads_stores_catch reads_stores_pure
      | auto split: option.splits)+

lemma reads_storesD: "reads_stores m \<Longrightarrow> m w = (r, w') \<Longrightarrow> w_stores v = w_stores w \<Longrightarrow> m v = (r, v)"
  by (auto simp: reads_stores_def)

lemma made_tokens_stores:
  assumes "made_tokens E p w t" "w_stores v = w_stores w"
  shows "made_tokens E p v (t\<lparr>gt_RefreshToken := fresh_token E v\<rparr>)"
  using assms reads_storesD [OF reads_stores_generateAccessToken] by (auto simp: made_tokens_def)

section \<open>Authorization codes\<close>

definition succeeded :: "world \<Rightarrow> world \<Rightarrow> bool" where
  "succeeded w w' = (WriteHeader 200 \<in> set (drop (length (w_out w)) (w_out w')))"

definition code_state :: "env \<Rightarrow> world \<Rightarrow> string \<Rightarrow> code_info option" where
  "code_state E w code =
     (case token_live w OidcCodeTokenType code of
        None \<Rightarrow> None | Some v \<Rightarrow> (case CodeInfo_decode E v of Inr ci \<Rightarrow> Some ci | Inl _ \<Rightarrow> None))"

definition pkce_ok :: "code_info \<Rightarrow> string \<Rightarrow> bool" where
  "pkce_ok ci verifier \<longleftrightarrow> ci_CodeChallenge ci = [] \<or>
     verifyPKCE verifier (ci_CodeChallenge ci) (ci_CodeChallengeMethod ci) = Inr ()"

text \<open>The answer that does not grant anything: the live values and the database stay, and no 200 is written.\<close>

definition refused_grant :: "world \<Rightarrow> world \<Rightarrow> bool" where
  "refused_grant w w' \<longleftrightarrow> live_values w' = live_values w \<and> w_db w' = w_db w \<and> \<not> succeeded w w'"

lemma succeeded_more: "succeeded w (w'\<lparr>w_out := w_out w @ es\<rparr>) \<longleftrightarrow> WriteHeader 200 \<in> set es"
  by (simp add: succeeded_def)

lemma error_status: "http_status_of e \<noteq> 200"
  by (simp add: http_status_of_def)

lemma refused_HandleHttpError: "HandleHttpError e w = (r, w') \<Longrightarrow> refused_grant w w'"
  by (auto simp: refused_grant_def succeeded_def)

lemma writeOAuthError_eq [oidc_eqs]:
  "writeOAuthError code msg w = (Inr (), w\<lparr>w_out := w_out w @ [WriteHeader 400, WriteJson (JObj
     [(''error'', JStr code), (''error_description'', JStr msg)])]\<rparr>)"
  by (simp add: writeOAuthError_def bnd_def emit_def)

lemma refused_writeOAuthError: "writeOAuthError c m w = (r, w') \<Longrightarrow> refused_grant w w'"
  by (auto simp: writeOAuthError_eq refused_grant_def succeeded_def)

lemma answer_json_eq [oidc_eqs]:
  "answer_json j w = (Inr (), w\<lparr>w_out := w_out w @ [WriteHeader 200, WriteJson j]\<rparr>)"
  by (simp add: answer_json_def bnd_def emit_def)

definition key_for :: "world \<Rightarrow> string \<Rightarrow> signing_algorithm \<Rightarrow> key_pair \<Rightarrow> key_cache \<Rightarrow> bool" where
  "key_for w vs alg kp cache \<longleftrightarrow> KeyService_GetKey NewMemoryKeyStore vs alg (w_keys w) (w_keycache w) = (Inr kp, cache)"

lemma get_key_Inr: "get_key vs alg w = (Inr kp, w') \<longleftrightarrow> (\<exists>cache. key_for w vs alg kp cache \<and> w' = w\<lparr>w_keycache := cache\<rparr>)"
  by (auto simp: get_key_def key_for_def split: prod.splits)

lemma get_key_Inl: "get_key vs alg w = (Inl e, w') \<Longrightarrow> \<exists>cache. w' = w\<lparr>w_keycache := cache\<rparr>"
  by (auto simp: get_key_def split: prod.splits)

lemma key_for_again: "key_for w vs alg kp cache \<Longrightarrow> key_for (w'\<lparr>w_keycache := cache\<rparr>) vs alg kp cache"
  by (auto simp: key_for_def KeyService_GetKey_def TryGet_def Put_def update_conv' wrap_def
      split: option.splits sum.splits list.splits stop.splits)

text \<open>A granted redemption: the key, the tokens and the state it leaves.\<close>

definition code_granted ::
  "env \<Rightarrow> string \<Rightarrow> code_info \<Rightarrow> virtual_server \<Rightarrow> string \<Rightarrow> application \<Rightarrow> generated_tokens \<Rightarrow> world \<Rightarrow> world \<Rightarrow> bool" where
  "code_granted E code ci v clientId app tokens w w' \<longleftrightarrow>
     (\<exists>u kp cache. user_with (w_stores w) (ci_UserId ci) = Some u \<and>
        key_for w (ci_VirtualServerName ci) (appSigningAlgorithm v app) kp cache \<and>
        (let p = code_token_params E ci clientId app u kp (w_now w); w1 = w\<lparr>w_keycache := cache\<rparr>
         in made_tokens E p w1 tokens \<and>
            w' = (drop_at (TokenType_Key OidcCodeTokenType code) (refresh_stored E p w1))
                   \<lparr>w_out := w_out w @ [WriteHeader 200,
                      WriteJson (CodeFlowResponse_json tokens (Join (ci_GrantedScopes ci) '' ''))]\<rparr>))"

text \<open>The common end of the grants: a key, tokens, an answer.\<close>

lemma issue_cases:
  assumes "or_http (get_key vs alg) (\<lambda>kp. or_http (generateTokens E (p kp)) m) w = (r, w')"
  shows "(\<exists>kp cache tokens. key_for w vs alg kp cache \<and> made_tokens E (p kp) (w\<lparr>w_keycache := cache\<rparr>) tokens \<and>
      m tokens (refresh_stored E (p kp) (w\<lparr>w_keycache := cache\<rparr>)) = (r, w')) \<or> refused_grant w w'"
proof -
  obtain k w1 where k: "get_key vs alg w = (k, w1)" by fastforce
  then obtain cache where w1: "w1 = w\<lparr>w_keycache := cache\<rparr>" using get_key_frame by blast
  show ?thesis
  proof (cases k)
    case (Inl e)
    then show ?thesis using assms k
      by (auto simp: or_http_def or_answer_def w1 refused_grant_def succeeded_def split: stop.splits)
  next
    case (Inr kp)
    have kf: "key_for w vs alg kp cache"
      using k Inr w1 by (auto simp: get_key_Inr dest!: arg_cong [where f = w_keycache])
    obtain g w2 where g: "generateTokens E (p kp) w1 = (g, w2)" by fastforce
    show ?thesis
    proof (cases g)
      case (Inl e)
      then have "w2 = w1" using g generateTokens_Inl by blast
      then show ?thesis using assms k g Inl Inr
        by (auto simp: or_http_def or_answer_def w1 refused_grant_def succeeded_def split: stop.splits)
    next
      case (Inr tokens)
      then have "made_tokens E (p kp) w1 tokens" "w2 = refresh_stored E (p kp) w1" using g generateTokens_Inr by simp_all
      moreover have "m tokens w2 = (r, w')"
        using assms k \<open>k = Inr kp\<close> g Inr by (simp add: or_http_def or_answer_def)
      ultimately show ?thesis using kf w1 by blast
    qed
  qed
qed

lemma get_now_after_key: "or_http (get_key vs alg) (\<lambda>kp. bnd get_now (f kp)) w = or_http (get_key vs alg) (\<lambda>kp. f kp (w_now w)) w"
proof -
  obtain k w1 where k: "get_key vs alg w = (k, w1)" by fastforce
  obtain cache where "w1 = w\<lparr>w_keycache := cache\<rparr>" using get_key_frame [OF k] by blast
  then have "w_now w1 = w_now w" by simp
  then show ?thesis by (simp add: or_http_def or_answer_def k bnd_def get_now_def split: sum.split stop.split)
qed

lemma redeem_code_cases:
  assumes "redeem_code E code ci v clientId app w = (r, w')"
  shows "(\<exists>tokens. r = Inr () \<and> code_granted E code ci v clientId app tokens w w') \<or> refused_grant w w'"
proof (cases "user_with (w_stores w) (ci_UserId ci)")
  case None
  then show ?thesis using assms refused_HandleHttpError
    by (auto simp: redeem_code_def or_http_def or_answer_def user_or_nil_eq)
next
  case (Some u)
  then have "or_http (get_key (ci_VirtualServerName ci) (appSigningAlgorithm v app)) (\<lambda>keyPair.
      or_http (generateTokens E (code_token_params E ci clientId app u keyPair (w_now w))) (\<lambda>tokens.
      or_http (wrapped ''deleting code'' (DeleteToken OidcCodeTokenType code)) (\<lambda>_.
        answer_json (CodeFlowResponse_json tokens (Join (ci_GrantedScopes ci) '' ''))))) w = (r, w')"
    using assms by (simp add: redeem_code_def or_http_apply user_or_nil_eq bnd_def get_now_def)
  from issue_cases [OF this] Some show ?thesis
    by (auto simp: code_granted_def Let_def or_http_apply wrapped_def DeleteToken_drop answer_json_eq)
qed

lemma continue_with_code_cases:
  assumes "continue_with_code E r v w = (res, w')"
  shows "(\<exists>ci vs app tokens. CodeInfo_decode E v = Inr ci \<and> vs_named (w_stores w) (ci_VirtualServerName ci) = Some vs \<and>
      app_named (w_stores w) (bm_id (vs_base vs)) (fst (client_credentials r)) = Some app \<and>
      client_ok app (snd (client_credentials r)) \<and> bm_id (app_base app) = ci_ApplicationId ci \<and>
      hr_Form r ''redirect_uri'' = ci_RedirectUri ci \<and> pkce_ok ci (hr_Form r ''code_verifier'') \<and> res = Inr () \<and>
      code_granted E (hr_Form r ''code'') ci vs (fst (client_credentials r)) app tokens w w') \<or> refused_grant w w'"
proof (cases "CodeInfo_decode E v")
  case (Inl e)
  then show ?thesis using assms
    by (auto simp: continue_with_code_def or_http_def or_answer_def wrapped_def wrap_def
        refused_grant_def succeeded_def split: stop.splits)
next
  case (Inr ci)
  obtain clientId secret where c: "client_credentials r = (clientId, secret)" by fastforce
  show ?thesis
  proof (cases "vs_named (w_stores w) (ci_VirtualServerName ci)")
    case None
    then show ?thesis using assms Inr c refused_writeOAuthError
      by (auto simp: continue_with_code_def or_http_def or_answer_def wrapped_def vs_or_nil_eq)
  next
    case (Some vs)
    obtain a w1 where a: "authenticateApplication vs clientId secret w = (a, w1)" by fastforce
    show ?thesis
    proof (cases a)
      case (Inl e)
      then show ?thesis using assms \<open>CodeInfo_decode E v = Inr ci\<close> c a Some authenticateApplication_Inl [of vs clientId secret w e w1]
          refused_writeOAuthError
        by (auto simp: continue_with_code_def or_http_def or_answer_def wrapped_def vs_or_nil_eq)
    next
      case (Inr app)
      then have app: "w1 = w" "app_named (w_stores w) (bm_id (vs_base vs)) clientId = Some app" "client_ok app secret"
        using a authenticateApplication_Inr by blast+
      have run: "(if bm_id (app_base app) \<noteq> ci_ApplicationId ci
           then writeOAuthError ''invalid_grant'' ''authorization code was issued to a different client''
           else if hr_Form r ''redirect_uri'' \<noteq> ci_RedirectUri ci
           then writeOAuthError ''invalid_grant'' ''redirect_uri does not match the authorization request''
           else or_answer (\<lambda>e. writeOAuthError ''invalid_grant'' (Error e))
                 (lift (if ci_CodeChallenge ci \<noteq> []
                        then verifyPKCE (hr_Form r ''code_verifier'') (ci_CodeChallenge ci) (ci_CodeChallengeMethod ci)
                        else Inr ())) (\<lambda>_. redeem_code E (hr_Form r ''code'') ci vs clientId app)) w = (res, w')"
        using assms \<open>CodeInfo_decode E v = Inr ci\<close> c a Some Inr app
        by (simp add: continue_with_code_def or_http_def or_answer_def wrapped_def vs_or_nil_eq)
      have no_panic: "verifyPKCE x y z \<noteq> Inl (Panic s)" for x y z s by (simp add: verifyPKCE_def)
      show ?thesis
      proof (cases "bm_id (app_base app) = ci_ApplicationId ci \<and> hr_Form r ''redirect_uri'' = ci_RedirectUri ci \<and>
          pkce_ok ci (hr_Form r ''code_verifier'')")
        case True
        then have "redeem_code E (hr_Form r ''code'') ci vs clientId app w = (res, w')"
          using run by (cases "ci_CodeChallenge ci = []") (auto simp: or_answer_def pkce_ok_def)
        from redeem_code_cases [OF this] show ?thesis
          using True \<open>CodeInfo_decode E v = Inr ci\<close> Some app c by auto
      next
        case False
        then have "\<exists>m. writeOAuthError ''invalid_grant'' m w = (res, w')"
          using run no_panic by (auto simp: or_answer_def pkce_ok_def split: if_splits sum.splits stop.splits)
        then show ?thesis using refused_writeOAuthError by blast
      qed
    qed
  qed
qed

section \<open>Refresh tokens\<close>

definition refresh_state :: "env \<Rightarrow> world \<Rightarrow> string \<Rightarrow> refresh_token_info option" where
  "refresh_state E w token =
     (case token_live w OidcRefreshTokenTokenType token of
        None \<Rightarrow> None | Some v \<Rightarrow> (case RefreshTokenInfo_decode E v of Inr info \<Rightarrow> Some info | Inl _ \<Rightarrow> None))"

lemma renew_tokens_cases:
  assumes "renew_tokens E info v clientId w = (r, w')"
  shows "(\<exists>u app kp cache tokens. user_with (w_stores w) (ri_UserId info) = Some u \<and>
      app_named (w_stores w) (bm_id (vs_base v)) clientId = Some app \<and>
      key_for w (ri_VirtualServerName info) (appSigningAlgorithm v app) kp cache \<and>
      made_tokens E (refresh_token_params_of E info clientId app u kp (w_now w)) (w\<lparr>w_keycache := cache\<rparr>) tokens \<and>
      r = Inr () \<and>
      w' = (refresh_stored E (refresh_token_params_of E info clientId app u kp (w_now w)) (w\<lparr>w_keycache := cache\<rparr>))
             \<lparr>w_out := w_out w @ [WriteHeader 200, WriteJson (RefreshTokenResponse_json tokens)]\<rparr>) \<or> refused_grant w w'"
proof (cases "user_with (w_stores w) (ri_UserId info)")
  case None
  then show ?thesis using assms refused_HandleHttpError
    by (auto simp: renew_tokens_def or_http_def or_answer_def user_or_nil_eq)
next
  case (Some u)
  show ?thesis
  proof (cases "app_named (w_stores w) (bm_id (vs_base v)) clientId")
    case None
    then show ?thesis using assms Some refused_HandleHttpError
      by (auto simp: renew_tokens_def or_http_def or_answer_def user_or_nil_eq app_or_nil_eq bnd_def get_now_def)
  next
    case (Some app)
    then have "or_http (get_key (ri_VirtualServerName info) (appSigningAlgorithm v app)) (\<lambda>keyPair.
        or_http (generateTokens E (refresh_token_params_of E info clientId app u keyPair (w_now w))) (\<lambda>tokens.
        answer_json (RefreshTokenResponse_json tokens))) w = (r, w')"
      using assms \<open>user_with _ _ = Some u\<close>
      by (simp add: renew_tokens_def or_http_apply user_or_nil_eq app_or_nil_eq bnd_def get_now_def)
    from issue_cases [OF this] Some \<open>user_with _ _ = Some u\<close> show ?thesis
      by (auto simp: answer_json_eq)
  qed
qed

text \<open>A refresh request, up to the deletion of the old token and the renewal.\<close>

definition refresh_proved :: "env \<Rightarrow> http_request \<Rightarrow> stores \<Rightarrow> refresh_token_info \<Rightarrow> virtual_server \<Rightarrow> bool" where
  "refresh_proved E r st info vs \<longleftrightarrow>
     vs_named st (ri_VirtualServerName info) = Some vs \<and> ri_ClientId info = fst (client_credentials r) \<and>
     (\<exists>app. app_named st (bm_id (vs_base vs)) (ri_ClientId info) = Some app \<and> client_ok app (snd (client_credentials r)))"

lemma handleRefreshToken_cases:
  assumes "handleRefreshToken E r w = (res, w')"
  shows "(\<exists>info vs w1. refresh_state E w (hr_Form r ''refresh_token'') = Some info \<and> refresh_proved E r (w_stores w) info vs \<and>
      w1 = drop_at (TokenType_Key OidcRefreshTokenTokenType (hr_Form r ''refresh_token''))
             (after_get (TokenType_Key OidcRefreshTokenTokenType (hr_Form r ''refresh_token'')) w) \<and>
      renew_tokens E info vs (ri_ClientId info) w1 = (res, w')) \<or> refused_grant w w'"
proof -
  let ?tok = "hr_Form r ''refresh_token''"
  let ?k = "TokenType_Key OidcRefreshTokenTokenType ?tok"
  obtain clientId secret where c: "client_credentials r = (clientId, secret)" by fastforce
  have refused: "refused_grant (after_get ?k w) w' \<Longrightarrow> refused_grant w w'"
    by (simp add: refused_grant_def succeeded_def)
  show ?thesis
  proof (cases "refresh_state E w ?tok")
    case None
    have "refused_grant (after_get ?k w) w'"
    proof (cases "token_live w OidcRefreshTokenTokenType ?tok")
      case None
      then show ?thesis using assms c refused_writeOAuthError
        by (simp add: handleRefreshToken_def or_answer_def GetToken_eq)
    next
      case (Some v)
      then obtain e where "RefreshTokenInfo_decode E v = Inl e"
        using \<open>refresh_state E w ?tok = None\<close> by (auto simp: refresh_state_def split: sum.splits)
      then show ?thesis using assms c Some
        by (auto simp: handleRefreshToken_def or_http_def or_answer_def GetToken_eq wrapped_def wrap_def
            refused_grant_def succeeded_def split: stop.splits)
    qed
    then show ?thesis using refused by blast
  next
    case (Some info)
    then obtain v where v: "token_live w OidcRefreshTokenTokenType ?tok = Some v" "RefreshTokenInfo_decode E v = Inr info"
      by (auto simp: refresh_state_def split: option.splits sum.splits)
    show ?thesis
    proof (cases "vs_named (w_stores w) (ri_VirtualServerName info)")
      case None
      then have "refused_grant (after_get ?k w) w'" using assms c v refused_writeOAuthError
        by (auto simp: handleRefreshToken_def or_http_def or_answer_def GetToken_eq wrapped_def vs_or_nil_eq)
      then show ?thesis using refused by blast
    next
      case (Some vs)
      obtain a w1 where a: "authenticateApplication vs clientId secret (after_get ?k w) = (a, w1)" by fastforce
      show ?thesis
      proof (cases a)
        case (Inl e)
        then have "refused_grant (after_get ?k w) w'"
          using assms c v Some a authenticateApplication_Inl [of vs clientId secret "after_get ?k w" e w1] refused_writeOAuthError
          by (auto simp: handleRefreshToken_def or_http_def or_answer_def GetToken_eq wrapped_def vs_or_nil_eq)
        then show ?thesis using refused by blast
      next
        case (Inr app)
        then have app: "w1 = after_get ?k w" "app_named (w_stores w) (bm_id (vs_base vs)) clientId = Some app" "client_ok app secret"
          using a authenticateApplication_Inr [of vs clientId secret "after_get ?k w" app w1] by auto
        show ?thesis
        proof (cases "ri_ClientId info = clientId")
          case True
          then have "renew_tokens E info vs clientId (drop_at ?k (after_get ?k w)) = (res, w')"
            using assms c v Some a Inr app
            by (simp add: handleRefreshToken_def or_http_def or_answer_def GetToken_eq wrapped_def vs_or_nil_eq DeleteToken_drop)
          then show ?thesis using Some app True c \<open>refresh_state E w ?tok = Some info\<close>
            by (auto simp: refresh_proved_def)
        next
          case False
          then have "refused_grant (after_get ?k w) w'"
            using assms c v Some a Inr app refused_writeOAuthError
            by (auto simp: handleRefreshToken_def or_http_def or_answer_def GetToken_eq wrapped_def vs_or_nil_eq)
          then show ?thesis using refused by blast
        qed
      qed
    qed
  qed
qed

end
