(* ===== verification/OidcProps.thy ===== *)
theory OidcProps
  imports OidcSpec
begin

text \<open>
  Properties of codes, of the proof key, of refresh tokens and of token exchange.
\<close>

section \<open>A code is bound to its client and used once\<close>

lemma code_granted_effects:
  assumes "code_granted E code ci vs clientId app tokens w w'" "clock_ok w"
  shows "succeeded w w'" "token_live w' OidcCodeTokenType code = None" "w_db w' = w_db w" "w_now w' = w_now w"
    "WriteJson (CodeFlowResponse_json tokens (Join (ci_GrantedScopes ci) '' '')) \<in> set (w_out w')"
    "gt_RefreshToken tokens = fresh_token E w"
    "\<exists>u kp cache. user_with (w_stores w) (ci_UserId ci) = Some u \<and>
       key_for w (ci_VirtualServerName ci) (appSigningAlgorithm vs app) kp cache \<and>
       w_keycache w' = cache \<and>
       made_tokens E (code_token_params E ci clientId app u kp (w_now w)) (w\<lparr>w_keycache := cache\<rparr>) tokens"
proof -
  obtain u kp cache where h: "user_with (w_stores w) (ci_UserId ci) = Some u"
    "key_for w (ci_VirtualServerName ci) (appSigningAlgorithm vs app) kp cache"
    "made_tokens E (code_token_params E ci clientId app u kp (w_now w)) (w\<lparr>w_keycache := cache\<rparr>) tokens"
    "w' = (drop_at (TokenType_Key OidcCodeTokenType code)
        (refresh_stored E (code_token_params E ci clientId app u kp (w_now w)) (w\<lparr>w_keycache := cache\<rparr>)))
       \<lparr>w_out := w_out w @ [WriteHeader 200, WriteJson (CodeFlowResponse_json tokens (Join (ci_GrantedScopes ci) '' ''))]\<rparr>"
    using assms(1) by (auto simp: code_granted_def Let_def)
  show "succeeded w w'" "w_db w' = w_db w" "w_now w' = w_now w"
    "WriteJson (CodeFlowResponse_json tokens (Join (ci_GrantedScopes ci) '' '')) \<in> set (w_out w')"
    by (simp_all add: h(4) succeeded_def)
  show "token_live w' OidcCodeTokenType code = None"
    by (simp add: h(4) token_live_def kv_live_def drop_at_def kv_delete_view)
  show "gt_RefreshToken tokens = fresh_token E w"
    using h(3) by (simp add: made_tokens_def fresh_token_def)
  have "w_keycache w' = cache" by (simp add: h(4))
  then show "\<exists>u kp cache. user_with (w_stores w) (ci_UserId ci) = Some u \<and>
       key_for w (ci_VirtualServerName ci) (appSigningAlgorithm vs app) kp cache \<and>
       w_keycache w' = cache \<and>
       made_tokens E (code_token_params E ci clientId app u kp (w_now w)) (w\<lparr>w_keycache := cache\<rparr>) tokens"
    using h(1-3) by blast
qed

lemma handleAuthorizationCode_eq:
  "handleAuthorizationCode E r w =
     (case token_live w OidcCodeTokenType (hr_Form r ''code'') of
        None \<Rightarrow> writeOAuthError ''invalid_grant'' ''authorization code already used''
                  (after_get (TokenType_Key OidcCodeTokenType (hr_Form r ''code'')) w)
      | Some v \<Rightarrow> continue_with_code E r v (after_get (TokenType_Key OidcCodeTokenType (hr_Form r ''code'')) w))"
  by (simp add: handleAuthorizationCode_def or_answer_def GetToken_eq split: option.split)

lemma refused_after_get: "refused_grant (after_get k w) w' \<longleftrightarrow> refused_grant w w'"
  by (simp add: refused_grant_def succeeded_def)

lemma succeeded_after_get: "succeeded (after_get k w) w' \<longleftrightarrow> succeeded w w'"
  by (simp add: succeeded_def)

text \<open>What a redemption that succeeds has proved about the request.\<close>

definition code_proved :: "env \<Rightarrow> http_request \<Rightarrow> stores \<Rightarrow> code_info \<Rightarrow> virtual_server \<Rightarrow> application \<Rightarrow> bool" where
  "code_proved E r st ci vs app \<longleftrightarrow>
     vs_named st (ci_VirtualServerName ci) = Some vs \<and>
     app_named st (bm_id (vs_base vs)) (fst (client_credentials r)) = Some app \<and>
     bm_id (app_base app) = ci_ApplicationId ci \<and> client_ok app (snd (client_credentials r)) \<and>
     hr_Form r ''redirect_uri'' = ci_RedirectUri ci \<and> pkce_ok ci (hr_Form r ''code_verifier'')"

lemma handleAuthorizationCode_cases:
  assumes "handleAuthorizationCode E r w = (res, w')" "clock_ok w"
  shows "(\<exists>ci vs app tokens. code_state E w (hr_Form r ''code'') = Some ci \<and> code_proved E r (w_stores w) ci vs app \<and> res = Inr () \<and>
      code_granted E (hr_Form r ''code'') ci vs (fst (client_credentials r)) app tokens
        (after_get (TokenType_Key OidcCodeTokenType (hr_Form r ''code'')) w) w') \<or> refused_grant w w'"
proof (cases "token_live w OidcCodeTokenType (hr_Form r ''code'')")
  case None
  then have "refused_grant (after_get (TokenType_Key OidcCodeTokenType (hr_Form r ''code'')) w) w'"
    using assms refused_writeOAuthError by (simp add: handleAuthorizationCode_eq)
  then show ?thesis by (simp add: refused_after_get)
next
  case (Some v)
  then have "continue_with_code E r v (after_get (TokenType_Key OidcCodeTokenType (hr_Form r ''code'')) w) = (res, w')"
    using assms by (simp add: handleAuthorizationCode_eq)
  from continue_with_code_cases [OF this] Some show ?thesis
    by (auto simp: code_state_def code_proved_def refused_after_get)
qed

text \<open>
  C2: the token endpoint gives tokens for an authorization code only to the application it was issued
  to, with its secret if it has one, for the same redirect URI and with the verifier of the challenge;
  the tokens are for the user and the scopes of the code, and the code is gone. In every other case the
  answer is an error and no stored value and no entity changes.
\<close>

theorem authorization_code_bound:
  assumes "clock_ok w" "handleAuthorizationCode E r w = (res, w')"
  shows "if succeeded w w' then
      (\<exists>ci vs app u kp tokens. code_state E w (hr_Form r ''code'') = Some ci \<and> code_proved E r (w_stores w) ci vs app \<and>
         user_with (w_stores w) (ci_UserId ci) = Some u \<and>
         generateIdToken E (ToIdTokenGenerationParams
           (code_token_params E ci (fst (client_credentials r)) app u kp (w_now w))) = Inr (gt_IdToken tokens) \<and>
         WriteJson (CodeFlowResponse_json tokens (Join (ci_GrantedScopes ci) '' '')) \<in> set (w_out w') \<and>
         code_state E w' (hr_Form r ''code'') = None)
    else live_values w' = live_values w \<and> w_db w' = w_db w"
proof (cases "refused_grant w w'")
  case True
  then show ?thesis by (simp add: refused_grant_def)
next
  case False
  then obtain ci vs app tokens where h: "code_state E w (hr_Form r ''code'') = Some ci" "code_proved E r (w_stores w) ci vs app"
    "code_granted E (hr_Form r ''code'') ci vs (fst (client_credentials r)) app tokens
       (after_get (TokenType_Key OidcCodeTokenType (hr_Form r ''code'')) w) w'"
    using handleAuthorizationCode_cases [OF assms(2,1)] by blast
  have ok: "clock_ok (after_get (TokenType_Key OidcCodeTokenType (hr_Form r ''code'')) w)" using assms(1) by simp
  note e = code_granted_effects [OF h(3) ok]
  from e(7) obtain u kp where u: "user_with (w_stores w) (ci_UserId ci) = Some u"
    "generateIdToken E (ToIdTokenGenerationParams
       (code_token_params E ci (fst (client_credentials r)) app u kp (w_now w))) = Inr (gt_IdToken tokens)"
    by (auto simp: made_tokens_def)
  have "succeeded w w'" using e(1) by (simp add: succeeded_after_get)
  moreover have "code_state E w' (hr_Form r ''code'') = None" using e(2) by (simp add: code_state_def)
  ultimately show ?thesis using h(1,2) u e(5) by auto
qed

text \<open>Requests for the same code, one after the other, and how many of them get tokens.\<close>

fun redemptions :: "env \<Rightarrow> http_request list \<Rightarrow> world \<Rightarrow> nat" where
  "redemptions E [] w = 0"
| "redemptions E (r # rs) w =
     (let w' = snd (handleAuthorizationCode E r w)
      in (if succeeded w w' then 1 else 0) + redemptions E rs w')"

lemma no_redemption:
  assumes "clock_ok w" "token_live w OidcCodeTokenType code = None" "\<forall>r \<in> set rs. hr_Form r ''code'' = code"
  shows "redemptions E rs w = 0"
  using assms
proof (induction rs arbitrary: w)
  case (Cons r rs)
  let ?k = "TokenType_Key OidcCodeTokenType code"
  have "handleAuthorizationCode E r w = writeOAuthError ''invalid_grant'' ''authorization code already used'' (after_get ?k w)"
    using Cons.prems by (simp add: handleAuthorizationCode_eq)
  then obtain res w' where w': "handleAuthorizationCode E r w = (res, w')" "w' = (after_get ?k w)\<lparr>w_out := w_out w'\<rparr>"
    "\<not> succeeded w w'"
    by (simp add: writeOAuthError_eq succeeded_def)
  have "clock_ok w'" "token_live w' OidcCodeTokenType code = None"
    using Cons.prems(1,2) by (subst w'(2), simp add: clock_ok_def token_live_def kv_live_def after_get_def kv_Get_keeps)+
  from Cons.IH [OF this] Cons.prems(3) w' show ?case by (simp add: Let_def)
qed simp

text \<open>
  C4: of any number of requests for the same code, one after the other, at most one gets tokens.
\<close>

theorem authorization_code_single_use:
  assumes "clock_ok w" "\<forall>r \<in> set rs. hr_Form r ''code'' = code"
  shows "redemptions E rs w \<le> 1"
  using assms
proof (induction rs arbitrary: w)
  case (Cons r rs)
  obtain res w' where w': "handleAuthorizationCode E r w = (res, w')" by fastforce
  have live: "w_now w' = w_now w" if "refused_grant w w'"
    using that by (simp add: refused_grant_def live_values_def)
  show ?case
  proof (cases "refused_grant w w'")
    case True
    then have "clock_ok w'" using Cons.prems(1) live by (simp add: clock_ok_def)
    from Cons.IH [OF this] Cons.prems(2) True w' show ?thesis by (simp add: Let_def refused_grant_def)
  next
    case False
    then obtain ci vs app tokens where "code_granted E code ci vs (fst (client_credentials r)) app tokens
        (after_get (TokenType_Key OidcCodeTokenType code) w) w'"
      using handleAuthorizationCode_cases [OF w' Cons.prems(1)] Cons.prems(2) by auto
    from code_granted_effects [OF this] Cons.prems(1) have "clock_ok w'" "token_live w' OidcCodeTokenType code = None"
      by (simp_all add: clock_ok_def)
    from no_redemption [OF this] Cons.prems(2) w' show ?thesis by (simp add: Let_def)
  qed
qed simp

text \<open>A client that has proved itself gets tokens, when there is a key and tokens can be made.\<close>

lemma continue_with_code_run:
  assumes "CodeInfo_decode E v = Inr ci" "code_proved E r (w_stores w) ci vs app" "user_with (w_stores w) (ci_UserId ci) = Some u"
    and "key_for w (ci_VirtualServerName ci) (appSigningAlgorithm vs app) kp cache"
    and "made_tokens E (code_token_params E ci (fst (client_credentials r)) app u kp (w_now w)) (w\<lparr>w_keycache := cache\<rparr>) t"
  shows "\<exists>w'. continue_with_code E r v w = (Inr (), w') \<and> succeeded w w'"
proof -
  let ?id = "fst (client_credentials r)" and ?w1 = "w\<lparr>w_keycache := cache\<rparr>"
  have g: "generateTokens E (code_token_params E ci ?id app u kp (w_now w)) ?w1 =
      (Inr t, refresh_stored E (code_token_params E ci ?id app u kp (w_now w)) ?w1)"
    using assms(5) by (simp add: generateTokens_Inr)
  have k: "get_key (ci_VirtualServerName ci) (appSigningAlgorithm vs app) w = (Inr kp, ?w1)"
    using assms(4) by (auto simp: get_key_Inr)
  obtain w2 where red: "redeem_code E (hr_Form r ''code'') ci vs ?id app w = (Inr (), w2)" "succeeded w w2"
    using assms(3) by (simp add: redeem_code_def or_http_def or_answer_def user_or_nil_eq bnd_def get_now_def k g
        wrapped_def DeleteToken_drop answer_json_eq succeeded_def)
  obtain secret where c: "client_credentials r = (?id, secret)" by (metis prod.collapse)
  have auth: "authenticateApplication vs ?id secret w = (Inr app, w)"
    using assms(2) c unfolding authenticateApplication_Inr code_proved_def by (metis snd_conv)
  have "continue_with_code E r v w = redeem_code E (hr_Form r ''code'') ci vs ?id app w"
    using assms(1,2)
    by (subst continue_with_code_def, subst c)
      (auto simp: or_http_def or_answer_def wrapped_def vs_or_nil_eq auth code_proved_def pkce_ok_def)
  with red show ?thesis by auto
qed


section \<open>The proof key\<close>

lemma RawURLEncoding_inj: "RawURLEncoding_EncodeToString a = RawURLEncoding_EncodeToString b \<longleftrightarrow> a = b"
  by (metis RawURLEncoding_roundtrip sum.inject(2))


section \<open>Refresh tokens rotate\<close>

lemma refresh_state_live: "live_values w' = live_values w \<Longrightarrow> refresh_state E w' tok = refresh_state E w tok"
  by (simp add: live_values_def refresh_state_def token_live_def)

lemma refresh_info_of_refresh:
  "refresh_info_of (refresh_token_params_of E info (ri_ClientId info) app u kp now) = info"
  by (simp add: refresh_info_of_def refresh_token_params_of_def NewRefreshTokenInfo_def)

lemma refresh_state_drop:
  "refresh_state E (drop_at (TokenType_Key OidcRefreshTokenTokenType old) w) tok = (if tok = old then None else refresh_state E w tok)"
  by (simp add: refresh_state_def token_live_drop_at)

lemma refresh_state_out: "refresh_state E (w\<lparr>w_out := es\<rparr>) tok = refresh_state E w tok"
  by (simp add: refresh_state_def token_live_def kv_live_def)

lemma refresh_state_keycache: "refresh_state E (w\<lparr>w_keycache := es\<rparr>) tok = refresh_state E w tok"
  by (simp add: refresh_state_def token_live_def kv_live_def)

lemma refresh_state_after_get: "refresh_state E (after_get k w) tok = refresh_state E w tok"
  by (simp add: refresh_state_def)

lemma refresh_state_stored:
  assumes "uuid_ok E" "clock_ok w" "0 < tgp_RefreshTokenExpiry p"
  shows "refresh_state E (refresh_stored E p w) tok =
    (if tok = fresh_token E w then Some (refresh_info_of p) else refresh_state E w tok)"
  using assms by (simp add: refresh_state_def token_live_refresh_stored)

lemmas refresh_state_eqs = refresh_state_drop refresh_state_out refresh_state_keycache refresh_state_after_get
  refresh_state_stored


end
