(* ===== verification/DeviceProps.thy ===== *)
theory DeviceProps
  imports OidcProps
begin

text \<open>
  Properties of the device flow: what a device code gives, and that it can be activated on any
  virtual server.
\<close>

section \<open>The device grant\<close>

definition device_state :: "world \<Rightarrow> string \<Rightarrow> device_code_info option" where
  "device_state w dc =
     (case token_live w OidcDeviceCodeTokenType dc of
        None \<Rightarrow> None | Some v \<Rightarrow> (case DeviceCodeInfo_decode v of Inr info \<Rightarrow> Some info | Inl _ \<Rightarrow> None))"

lemma device_state_live: "live_values w' = live_values w \<Longrightarrow> device_state w' dc = device_state w dc"
  by (simp add: live_values_def device_state_def token_live_def)

lemma redeem_device_code_cases:
  assumes "redeem_device_code E dc info v clientId app w = (r, w')"
  shows "(\<exists>i u kp cache tokens. uuid_Parse E (di_UserId info) = Inr i \<and> user_with (w_stores w) i = Some u \<and>
      key_for w (di_VirtualServerName info) (appSigningAlgorithm v app) kp cache \<and>
      made_tokens E (device_token_params E info i clientId app u kp (w_now w))
        ((drop_at (TokenType_Key OidcDeviceCodeTokenType dc) w)\<lparr>w_keycache := cache\<rparr>) tokens \<and> r = Inr () \<and>
      w' = (refresh_stored E (device_token_params E info i clientId app u kp (w_now w))
             ((drop_at (TokenType_Key OidcDeviceCodeTokenType dc) w)\<lparr>w_keycache := cache\<rparr>))
             \<lparr>w_out := w_out w @ [WriteHeader 200,
                WriteJson (CodeFlowResponse_json tokens (Join (di_GrantedScopes info) '' ''))]\<rparr>) \<or>
    refused_grant w w' \<or> refused_grant (drop_at (TokenType_Key OidcDeviceCodeTokenType dc) w) w'"
proof (cases "uuid_Parse E (di_UserId info)")
  case (Inl e)
  then show ?thesis using assms
    by (auto simp: redeem_device_code_def or_http_def or_answer_def wrapped_def wrap_def refused_grant_def
        succeeded_def split: stop.splits)
next
  case (Inr i)
  let ?w1 = "drop_at (TokenType_Key OidcDeviceCodeTokenType dc) w"
  show ?thesis
  proof (cases "user_with (w_stores w) i")
    case None
    then have "refused_grant ?w1 w'" using assms Inr
      by (auto simp: redeem_device_code_def or_http_def or_answer_def wrapped_def DeleteToken_drop user_or_nil_eq
          refused_grant_def succeeded_def)
    then show ?thesis by blast
  next
    case (Some u)
    then have "or_http (get_key (di_VirtualServerName info) (appSigningAlgorithm v app)) (\<lambda>keyPair. bnd get_now (\<lambda>now.
        or_http (generateTokens E (device_token_params E info i clientId app u keyPair now)) (\<lambda>tokens.
        answer_json (CodeFlowResponse_json tokens (Join (di_GrantedScopes info) '' ''))))) ?w1 = (r, w')"
      using assms Inr by (simp add: redeem_device_code_def or_http_apply wrapped_def DeleteToken_drop user_or_nil_eq)
    from issue_cases [OF this [unfolded get_now_after_key]] show ?thesis
      using Some Inr by (auto simp: answer_json_eq key_for_def)
  qed
qed

text \<open>What a device grant that succeeds has proved.\<close>

definition device_proved :: "http_request \<Rightarrow> stores \<Rightarrow> device_code_info \<Rightarrow> virtual_server \<Rightarrow> application \<Rightarrow> bool" where
  "device_proved r st info vs app \<longleftrightarrow>
     di_Status info = DeviceCodeStatusAuthorized \<and> di_ClientId info = fst (client_credentials r) \<and>
     vs_named st (di_VirtualServerName info) = Some vs \<and>
     app_named st (bm_id (vs_base vs)) (di_ClientId info) = Some app \<and> client_ok app (snd (client_credentials r))"

lemma handleDeviceCodeGrant_cases:
  assumes "handleDeviceCodeGrant E r w = (res, w')"
  shows "(\<exists>info vs app. device_state w (hr_Form r ''device_code'') = Some info \<and> device_proved r (w_stores w) info vs app \<and>
      redeem_device_code E (hr_Form r ''device_code'') info vs (di_ClientId info) app
        (after_get (TokenType_Key OidcDeviceCodeTokenType (hr_Form r ''device_code'')) w) = (res, w')) \<or> refused_grant w w'"
proof -
  let ?dc = "hr_Form r ''device_code''"
  let ?k = "TokenType_Key OidcDeviceCodeTokenType ?dc"
  obtain clientId secret where c: "client_credentials r = (clientId, secret)" by fastforce
  have refused: "refused_grant (after_get ?k w) w' \<Longrightarrow> refused_grant w w'"
    by (simp add: refused_grant_def succeeded_def)
  show ?thesis
  proof (cases "?dc = []")
    case True
    then show ?thesis using assms c refused_writeOAuthError by (simp add: handleDeviceCodeGrant_def)
  next
    case dc: False
    show ?thesis
    proof (cases "device_state w ?dc")
      case None
      have "refused_grant (after_get ?k w) w'"
      proof (cases "token_live w OidcDeviceCodeTokenType ?dc")
        case None
        then show ?thesis using assms c dc refused_writeOAuthError
          by (simp add: handleDeviceCodeGrant_def Let_def or_answer_def GetToken_eq Let_def)
      next
        case (Some v)
        then obtain e where "DeviceCodeInfo_decode v = Inl e"
          using \<open>device_state w ?dc = None\<close> by (auto simp: device_state_def split: sum.splits)
        then show ?thesis using assms c Some dc
          by (auto simp: handleDeviceCodeGrant_def Let_def or_http_def or_answer_def GetToken_eq wrapped_def wrap_def
              refused_grant_def succeeded_def split: stop.splits)
      qed
      then show ?thesis using refused by blast
    next
      case (Some info)
      then obtain v where v: "token_live w OidcDeviceCodeTokenType ?dc = Some v" "DeviceCodeInfo_decode v = Inr info"
        by (auto simp: device_state_def split: option.splits sum.splits)
      show ?thesis
      proof (cases "di_Status info = DeviceCodeStatusAuthorized \<and> vs_named (w_stores w) (di_VirtualServerName info) \<noteq> None")
        case False
        then have "refused_grant (after_get ?k w) w'" using assms c v dc refused_writeOAuthError
          by (auto simp: handleDeviceCodeGrant_def Let_def or_http_def or_answer_def GetToken_eq wrapped_def vs_or_nil_eq
              split: if_splits)
        then show ?thesis using refused by blast
      next
        case True
        then obtain vs where vs: "vs_named (w_stores w) (di_VirtualServerName info) = Some vs" by blast
        obtain a w1 where a: "authenticateApplication vs clientId secret (after_get ?k w) = (a, w1)" by fastforce
        have status: "DeviceCodeStatusAuthorized \<noteq> DeviceCodeStatusPending" "DeviceCodeStatusAuthorized \<noteq> DeviceCodeStatusDenied"
          by (simp_all add: device_status_defs)
        have run: "or_answer (\<lambda>e. writeOAuthError ''invalid_client'' (Error e)) (authenticateApplication vs clientId secret)
            (\<lambda>app. if di_ClientId info \<noteq> clientId
              then writeOAuthError ''invalid_grant'' ''device code was issued to a different client''
              else redeem_device_code E ?dc info vs clientId app) (after_get ?k w) = (res, w')"
          using assms c v dc vs True status
          by (simp add: handleDeviceCodeGrant_def Let_def or_http_def or_answer_def GetToken_eq wrapped_def vs_or_nil_eq)
        show ?thesis
        proof (cases a)
          case (Inl e)
          then have "refused_grant (after_get ?k w) w'"
            using run a authenticateApplication_Inl [of vs clientId secret "after_get ?k w" e w1] refused_writeOAuthError
            by (auto simp: or_answer_def)
          then show ?thesis using refused by blast
        next
          case (Inr app)
          then have app: "w1 = after_get ?k w" "app_named (w_stores w) (bm_id (vs_base vs)) clientId = Some app" "client_ok app secret"
            using a authenticateApplication_Inr [of vs clientId secret "after_get ?k w" app w1] by auto
          show ?thesis
          proof (cases "di_ClientId info = clientId")
            case True
            then have "redeem_device_code E ?dc info vs clientId app (after_get ?k w) = (res, w')"
              using run a Inr app by (simp add: or_answer_def)
            then show ?thesis
              using vs app True c \<open>device_state w ?dc = Some info\<close> \<open>di_Status info = _ \<and> _\<close> by (auto simp: device_proved_def)
          next
            case False
            then have "refused_grant (after_get ?k w) w'"
              using run a Inr app refused_writeOAuthError by (auto simp: or_answer_def)
            then show ?thesis using refused by blast
          qed
        qed
      qed
    qed
  qed
qed

text \<open>
  C15: a device code gives tokens only when a user has authorized it, and only to the client it was
  issued to, with the secret of the client if it has one; the tokens are those of the virtual server and
  the scopes of the code, for the user that authorized it. The code is gone afterwards. In every other
  case no entity and no value but the device code changes.
\<close>

theorem device_grant_bound:
  assumes "clock_ok w" "handleDeviceCodeGrant E r w = (res, w')"
  shows "if succeeded w w' then
      (\<exists>info vs app i u kp tokens. device_state w (hr_Form r ''device_code'') = Some info \<and>
         device_proved r (w_stores w) info vs app \<and>
         uuid_Parse E (di_UserId info) = Inr i \<and> user_with (w_stores w) i = Some u \<and>
         generateIdToken E (ToIdTokenGenerationParams
           (device_token_params E info i (di_ClientId info) app u kp (w_now w))) = Inr (gt_IdToken tokens) \<and>
         WriteJson (CodeFlowResponse_json tokens (Join (di_GrantedScopes info) '' '')) \<in> set (w_out w') \<and>
         device_state w' (hr_Form r ''device_code'') = None)
    else w_db w' = w_db w \<and>
      (\<forall>t x. known_type t \<and> \<not> (t = OidcDeviceCodeTokenType \<and> x = hr_Form r ''device_code'') \<longrightarrow>
         token_live w' t x = token_live w t x)"
proof -
  let ?dc = "hr_Form r ''device_code''"
  let ?k = "TokenType_Key OidcDeviceCodeTokenType ?dc"
  have live: "token_live w' t x = token_live w1 t x" if "live_values w' = live_values w1" for w1 t x
    using that by (simp add: live_values_def token_live_def)
  have same: ?thesis if "refused_grant w w'"
    using that live [of w] by (simp add: refused_grant_def)
  show ?thesis
  proof (cases "refused_grant w w'")
    case True
    then show ?thesis by (rule same)
  next
    case False
    then obtain info vs app where h: "device_state w ?dc = Some info" "device_proved r (w_stores w) info vs app"
      "redeem_device_code E ?dc info vs (di_ClientId info) app (after_get ?k w) = (res, w')"
      using handleDeviceCodeGrant_cases [OF assms(2)] by blast
    let ?w1 = "drop_at ?k (after_get ?k w)"
    show ?thesis
    proof (cases "refused_grant ?w1 w'")
      case True
      then have l: "live_values w' = live_values ?w1" "w_db w' = w_db w" "\<not> succeeded w w'"
        by (simp_all add: refused_grant_def succeeded_def)
      show ?thesis using live [OF l(1)] l(2,3) by (simp add: token_live_drop_at)
    next
      case gr: False
      have "\<not> refused_grant (after_get ?k w) w'" using False by (simp add: refused_after_get)
      then obtain i u kp cache tokens where t: "uuid_Parse E (di_UserId info) = Inr i" "user_with (w_stores w) i = Some u"
        "made_tokens E (device_token_params E info i (di_ClientId info) app u kp (w_now w)) (?w1\<lparr>w_keycache := cache\<rparr>) tokens"
        "w' = (refresh_stored E (device_token_params E info i (di_ClientId info) app u kp (w_now w)) (?w1\<lparr>w_keycache := cache\<rparr>))
             \<lparr>w_out := w_out w @ [WriteHeader 200,
                WriteJson (CodeFlowResponse_json tokens (Join (di_GrantedScopes info) '' ''))]\<rparr>"
        using redeem_device_code_cases [OF h(3)] gr by auto
      have ok: "clock_ok (?w1\<lparr>w_keycache := cache\<rparr>)"
        "0 < tgp_RefreshTokenExpiry (device_token_params E info i (di_ClientId info) app u kp (w_now w))"
        using assms(1) by (simp_all add: clock_ok_def device_token_params_def tokenDuration_def duration_defs)
      have "token_live w' OidcDeviceCodeTokenType ?dc = None"
        using token_live_refresh_stored [OF ok(1) _ ok(2), where t = OidcDeviceCodeTokenType and x = ?dc]
        by (simp add: t(4) token_live_drop_at)
      then have "device_state w' ?dc = None" by (simp add: device_state_def)
      moreover have "succeeded w w'" by (simp add: t(4) succeeded_def)
      moreover have "WriteJson (CodeFlowResponse_json tokens (Join (di_GrantedScopes info) '' '')) \<in> set (w_out w')"
        by (simp add: t(4))
      ultimately show ?thesis using h(1,2) t(1-3) by (auto simp: made_tokens_def)
    qed
  qed
qed

section \<open>Activation on another server\<close>

lemma PostActivatePage_eq:
  assumes "hr_ParseForm r = Inr ()" "hr_vsName r \<noteq> []" "hr_Form r ''user_code'' = uc" "uc \<noteq> []"
    and "token_live w OidcUserCodeTokenType uc = Some (Plain dc)" "device_state w dc = Some info"
    and "di_Status info = DeviceCodeStatusPending"
    and "vs_named (w_stores w) (hr_vsName r) = Some vs" "app_named (w_stores w) (bm_id (vs_base vs)) (di_ClientId info) = Some app"
  obtains w1 li where "PostActivatePage E r w = (Inr (), w1)" "live_values w1 = live_values
      (store_at (TokenType_Key LoginSessionTokenType (fresh_token E w)) (Doc (LoginInfo_json E li)) (15 * Minute)
        (drew (after_get (TokenType_Key OidcDeviceCodeTokenType dc) (after_get (TokenType_Key OidcUserCodeTokenType uc) w))))"
    "li = (NewLoginInfo vs app (e_ExternalUrl E @ ''/oidc/'' @ hr_vsName r @ ''/activate''))\<lparr>li_DeviceCode := dc\<rparr>"
    "w_db w1 = w_db w"
proof -
  let ?w2 = "after_get (TokenType_Key OidcDeviceCodeTokenType dc) (after_get (TokenType_Key OidcUserCodeTokenType uc) w)"
  let ?li = "(NewLoginInfo vs app (e_ExternalUrl E @ ''/oidc/'' @ hr_vsName r @ ''/activate''))\<lparr>li_DeviceCode := dc\<rparr>"
  obtain v where v: "token_live w OidcDeviceCodeTokenType dc = Some v" "DeviceCodeInfo_decode v = Inr info"
    using assms(6) by (auto simp: device_state_def split: option.splits sum.splits)
  have "fresh_token E ?w2 = fresh_token E w" by (simp add: fresh_token_def)
  then have "PostActivatePage E r w =
    (Inr (), (store_at (TokenType_Key LoginSessionTokenType (fresh_token E w)) (Doc (LoginInfo_json E ?li)) (15 * Minute) (drew ?w2))
      \<lparr>w_out := w_out w @ [Redirect (e_FrontendExternalUrl E @ ''/login?token='' @ fresh_token E w) 302]\<rparr>)"
    using assms v
    by (simp add: PostActivatePage_def GetVirtualServerName_def or_http_def or_status_def or_answer_def GetToken_eq
        token_text_def wrapped_def vs_or_nil_eq app_or_nil_eq GenerateAndStoreToken_eq json_Marshal_def emit_def)
  then show thesis by (rule that) simp_all
qed

lemma FinishLogin_authorizes:
  assumes "clock_ok w" "login_state E w tok = Some li" "li_Step li = LoginStepFinish"
    and "vs_named (w_stores w) (li_VirtualServerName li) = Some v" "li_DeviceCode li = dc" "dc \<noteq> []"
    and "device_state w dc = Some info" "FinishLogin E tok w = (r, w')"
  shows "device_state w' dc = Some (info\<lparr>di_Status := DeviceCodeStatusAuthorized, di_UserId := e_uuid_String E (li_UserId li)\<rparr>)"
proof -
  let ?k = "TokenType_Key LoginSessionTokenType tok" and ?kd = "TokenType_Key OidcDeviceCodeTokenType dc"
  let ?info = "info\<lparr>di_Status := DeviceCodeStatusAuthorized, di_UserId := e_uuid_String E (li_UserId li)\<rparr>"
  obtain w1 where c: "CreateSession E (li_VirtualServerName li) (li_UserId li) (after_get ?k w) = (Inr (), w1)"
    "live_values w1 = live_values w" "w_now w1 = w_now w"
    using CreateSession_eq [of "after_get ?k w"] assms(4) by auto
  have a: "after_login E li (drop_at ?k w1) = (r, w')"
    using assms(2,3,8) c(1) by (simp add: FinishLogin_live or_http_def or_answer_def DeleteToken_drop)
  obtain x where x: "token_live w OidcDeviceCodeTokenType dc = Some x" "DeviceCodeInfo_decode x = Inr info"
    using assms(7) by (auto simp: device_state_def split: option.splits sum.splits)
  have "token_live w1 OidcDeviceCodeTokenType dc = Some x" using c(2) x(1) by (simp add: live_values_def token_live_def)
  then have live: "token_live (drop_at ?k w1) OidcDeviceCodeTokenType dc = Some x"
    by (simp add: token_live_drop_at token_types_neq)
  have ok: "clock_ok (after_get ?kd (drop_at ?k w1))" using assms(1) c(3) by (simp add: clock_ok_def)
  let ?w2 = "store_at ?kd (Doc (DeviceCodeInfo_json ?info)) (10 * Minute) (after_get ?kd (drop_at ?k w1))"
  have "live_values w' = live_values (if di_UserCode info \<noteq> [] then drop_at (TokenType_Key OidcUserCodeTokenType (di_UserCode info)) ?w2 else ?w2)"
    using a assms(5,6) live x(2)
    by (auto simp: after_login_def or_http_def or_answer_def GetToken_eq wrapped_def json_Marshal_def UpdateToken_eq
        bnd_def catch_def DeleteToken_drop emit_def split: if_splits)
  then have "token_live w' OidcDeviceCodeTokenType dc = token_live ?w2 OidcDeviceCodeTokenType dc"
    by (auto simp: live_values_def token_live_def [of w'] token_live_def [of ?w2] TokenType_Key_inj split: if_splits)
  moreover have "token_live ?w2 OidcDeviceCodeTokenType dc = Some (Doc (DeviceCodeInfo_json ?info))"
    using ok by (simp add: token_live_store_at duration_defs)
  ultimately show ?thesis by (simp add: device_state_def)
qed

text \<open>
  A device code of one virtual server can be activated on every other one that has an application of
  that name: the activation page of server B begins a login on B that carries the code of A, and when a user of B
  finishes that login, the code of A is authorized for the user of B. The token endpoint then gives tokens of A.
\<close>

theorem device_code_crosses_servers:
  assumes "uuid_ok E" "clock_ok w" "device_state w dc = Some info" "di_Status info = DeviceCodeStatusPending" "dc \<noteq> []"
    and "token_live w OidcUserCodeTokenType uc = Some (Plain dc)" "uc \<noteq> []"
    and "hr_ParseForm r = Inr ()" "hr_Form r ''user_code'' = uc" "hr_vsName r = vsB" "vsB \<noteq> []"
    and "vs_named (w_stores w) vsB = Some vs" "app_named (w_stores w) (bm_id (vs_base vs)) (di_ClientId info) = Some app"
  shows "\<exists>w1 tok li. PostActivatePage E r w = (Inr (), w1) \<and> w_stores w1 = w_stores w \<and>
    login_state E w1 tok = Some li \<and> li_VirtualServerId li = bm_id (vs_base vs) \<and> li_VirtualServerName li = vsB \<and>
    li_Step li = LoginStepPasswordVerification \<and> device_state w1 dc = Some info \<and>
    (\<forall>w2 userId res w3. clock_ok w2 \<and> vs_named (w_stores w2) vsB = Some vs \<and> device_state w2 dc = Some info \<and>
       login_state E w2 tok = Some (li\<lparr>li_Step := LoginStepFinish, li_UserId := userId\<rparr>) \<and>
       FinishLogin E tok w2 = (res, w3) \<longrightarrow>
       device_state w3 dc = Some (info\<lparr>di_Status := DeviceCodeStatusAuthorized, di_UserId := e_uuid_String E userId\<rparr>))"
proof -
  let ?tok = "fresh_token E w"
  let ?w2 = "after_get (TokenType_Key OidcDeviceCodeTokenType dc) (after_get (TokenType_Key OidcUserCodeTokenType uc) w)"
  have name: "hr_vsName r \<noteq> []" "vs_named (w_stores w) (hr_vsName r) = Some vs" using assms(10-12) by simp_all
  obtain w1 li where p: "PostActivatePage E r w = (Inr (), w1)" "live_values w1 = live_values
      (store_at (TokenType_Key LoginSessionTokenType ?tok) (Doc (LoginInfo_json E li)) (15 * Minute) (drew ?w2))"
    "li = (NewLoginInfo vs app (e_ExternalUrl E @ ''/oidc/'' @ hr_vsName r @ ''/activate''))\<lparr>li_DeviceCode := dc\<rparr>"
    "w_db w1 = w_db w"
    by (rule PostActivatePage_eq [OF assms(8) name(1) assms(9,7,6,3,4) name(2) assms(13)])
  have ok: "clock_ok (drew ?w2)" using assms(2) by simp
  have l: "login_state E w1 ?tok = Some li"
    using login_state_live [OF p(2)] login_state_store_at [OF assms(1) ok] by (simp add: duration_defs)
  have "device_state w1 dc = device_state
      (store_at (TokenType_Key LoginSessionTokenType ?tok) (Doc (LoginInfo_json E li)) (15 * Minute) (drew ?w2)) dc"
    by (rule device_state_live [OF p(2)])
  also have "\<dots> = device_state w dc"
    using ok by (simp add: device_state_def token_live_store_at duration_defs)
  finally have d: "device_state w1 dc = Some info" using assms(3) by simp
  have li: "li_VirtualServerId li = bm_id (vs_base vs)" "li_VirtualServerName li = vsB" "li_DeviceCode li = dc"
    "li_Step li = LoginStepPasswordVerification"
    using p(3) vs_named_Some [OF assms(12)] by (simp_all add: NewLoginInfo_def)
  have "device_state w3 dc = Some (info\<lparr>di_Status := DeviceCodeStatusAuthorized, di_UserId := e_uuid_String E userId\<rparr>)"
    if "clock_ok w2" "vs_named (w_stores w2) vsB = Some vs" "device_state w2 dc = Some info"
      "login_state E w2 ?tok = Some (li\<lparr>li_Step := LoginStepFinish, li_UserId := userId\<rparr>)" "FinishLogin E ?tok w2 = (res, w3)"
    for w2 userId res w3
    using FinishLogin_authorizes [OF that(1,4) _ _ _ assms(5) that(3,5)] that(2) li by simp
  then show ?thesis using p(1,4) l d li by (intro exI [of _ w1] exI [of _ ?tok] exI [of _ li]) (auto simp: w_stores_def)
qed

end
