(* ===== verification/AuthorizeProps.thy ===== *)
theory AuthorizeProps
  imports DeviceProps
begin

text \<open>
  Properties of the authorization endpoint, the whole authorization code flow, and what its
  redirects carry.
\<close>

section \<open>Codes\<close>

lemma code_state_live: "live_values w' = live_values w \<Longrightarrow> code_state E w' c = code_state E w c"
  by (simp add: live_values_def code_state_def token_live_def)

lemma code_state_store_login:
  "clock_ok w \<Longrightarrow> 0 < d \<Longrightarrow>
     code_state E (store_at (TokenType_Key LoginSessionTokenType tok) v d w) c = code_state E w c"
  by (simp add: code_state_def token_live_store_at)

lemma code_state_store:
  "uuid_ok E \<Longrightarrow> clock_ok w \<Longrightarrow> 0 < d \<Longrightarrow>
     code_state E (store_at (TokenType_Key OidcCodeTokenType code) (Doc (CodeInfo_json E ci)) d w) c =
       (if c = code then Some ci else code_state E w c)"
  by (simp add: code_state_def token_live_store_at)

lemma code_state_drew: "code_state E (drew w) c = code_state E w c"
  by (simp add: code_state_def)

lemma code_state_out: "code_state E (w\<lparr>w_out := es\<rparr>) c = code_state E w c"
  by (simp add: code_state_def)

lemmas code_state_eqs = code_state_store_login code_state_store code_state_drew code_state_out

text \<open>A step of the endpoint that gives no code.\<close>

definition no_code :: "env \<Rightarrow> unit act \<Rightarrow> world \<Rightarrow> bool" where
  "no_code E m w \<longleftrightarrow> (\<forall>c. code_state E (snd (m w)) c = code_state E w c)"

lemma no_code_error:
  "no_code E (HandleHttpError e) w" "no_code E (emit ev) w"
  by (simp_all add: no_code_def code_state_eqs emit_def)

lemma no_code_errorRedirect: "no_code E (errorRedirect E ar e) w"
proof (cases "url_parse E (ar_RedirectUri ar)")
  case (Inl s)
  then show ?thesis
    by (cases s) (auto simp: errorRedirect_def no_code_def or_http_def or_answer_def wrapped_def wrap_def code_state_eqs)
next
  case (Inr u)
  then show ?thesis
    by (simp add: errorRedirect_def no_code_def or_http_def or_answer_def wrapped_def emit_def code_state_eqs)
qed

lemma no_code_begin_login:
  assumes "clock_ok w" shows "no_code E (begin_login E r vs app) w"
  using assms
  by (simp add: no_code_def begin_login_def or_http_def or_answer_def wrapped_def json_Marshal_def
      GenerateAndStoreToken_eq emit_def code_state_eqs duration_defs)

text \<open>What the endpoint has checked before it gives a code to a session.\<close>

definition code_allowed :: "env \<Rightarrow> http_request \<Rightarrow> stores \<Rightarrow> authorization_request \<Rightarrow> virtual_server \<Rightarrow> application \<Rightarrow> current_session \<Rightarrow> bool" where
  "code_allowed E r st ar vs app s \<longleftrightarrow>
     hr_session r = Some s \<and> read_request E r (hr_vsName r) = Inr ar \<and> vs_named st (hr_vsName r) = Some vs \<and>
     app_named st (bm_id (vs_base vs)) (ar_ApplicationName ar) = Some app \<and>
     ar_RedirectUri ar \<in> set (app_redirectUris app) \<and> ar_ResponseTypes ar = [''code''] \<and>
     ''openid'' \<in> set (ar_Scopes ar) \<and> ar_PKCEChallenge ar \<noteq> [] \<and> ar_PKCEChallengeMethod ar = ''S256''"

definition issued_code :: "authorization_request \<Rightarrow> virtual_server \<Rightarrow> application \<Rightarrow> current_session \<Rightarrow> code_info" where
  "issued_code ar vs app s =
     NewCodeInfo (vs_name vs) (bm_id (app_base app)) (ar_Scopes ar) (cs_userId s) (ar_Nonce ar) (cs_createdAt s)
       (ar_RedirectUri ar) (ar_PKCEChallenge ar) (ar_PKCEChallengeMethod ar)"

lemma BeginAuthorizationFlow_cases:
  assumes "BeginAuthorizationFlow E r w = (res, w')" "clock_ok w"
  shows "(\<forall>c. code_state E w' c = code_state E w c) \<or>
    (\<exists>ar vs app s. code_allowed E r (w_stores w) ar vs app s \<and> issue_code E ar vs app s w = (res, w'))"
proof (cases "hr_ParseForm r")
  case (Inl e)
  then show ?thesis using assms
    by (cases e) (auto simp: BeginAuthorizationFlow_def or_http_def or_answer_def code_state_eqs)
next
  case parsed: (Inr u)
  show ?thesis
  proof (cases "GetVirtualServerName r")
    case (Inl e)
    then show ?thesis using assms parsed
      by (cases e) (auto simp: BeginAuthorizationFlow_def or_http_def or_answer_def code_state_eqs)
  next
    case vsName: (Inr vsName)
    then have name: "vsName = hr_vsName r" by (simp add: GetVirtualServerName_def split: if_splits)
    show ?thesis
    proof (cases "read_request E r vsName")
      case (Inl e)
      then show ?thesis using assms parsed vsName
        by (cases e) (auto simp: BeginAuthorizationFlow_def or_http_def or_answer_def code_state_eqs)
    next
      case ar: (Inr ar)
      show ?thesis
      proof (cases "vs_named (w_stores w) vsName")
        case None
        then show ?thesis using assms parsed vsName ar
          by (auto simp: BeginAuthorizationFlow_def or_http_def or_answer_def vs_or_nil_eq code_state_eqs)
      next
        case vs: (Some vs)
        show ?thesis
        proof (cases "app_named (w_stores w) (bm_id (vs_base vs)) (ar_ApplicationName ar)")
          case None
          then show ?thesis using assms parsed vsName ar vs
            by (auto simp: BeginAuthorizationFlow_def or_http_def or_answer_def vs_or_nil_eq app_or_nil_eq code_state_eqs)
        next
          case app: (Some app)
          then have run: "authorize_checked E r ar vs app w = (res, w')" using assms parsed vsName ar vs
            by (simp add: BeginAuthorizationFlow_def or_http_def or_answer_def vs_or_nil_eq app_or_nil_eq)
          note none = no_code_error no_code_errorRedirect no_code_begin_login [OF assms(2)]
          show ?thesis
          proof (cases "no_code E (authorize_checked E r ar vs app) w")
            case True
            then show ?thesis using run by (simp add: no_code_def)
          next
            case False
            then have checks: "ar_RedirectUri ar \<in> set (app_redirectUris app)" "ar_ResponseTypes ar = [''code'']"
              "''openid'' \<in> set (ar_Scopes ar)" "ar_PKCEChallenge ar \<noteq> []" "ar_PKCEChallengeMethod ar = ''S256''"
              "hr_session r \<noteq> None"
              using none by (auto simp: authorize_checked_def split: if_splits option.splits)
            then obtain s where s: "hr_session r = Some s" by blast
            have "authorize_checked E r ar vs app = issue_code E ar vs app s"
              using checks s by (auto simp: authorize_checked_def)
            then show ?thesis
              using run checks s ar vs app name unfolding code_allowed_def by metis
          qed
        qed
      qed
    qed
  qed
qed

lemma distinct_set_nonempty [simp]: "distinct (map fst q) \<Longrightarrow> distinct (map fst (set_nonempty k v q))"
  by (simp add: set_nonempty_def)

lemma Values_Get_set_nonempty [simp]:
  "Values_Get k (set_nonempty k' v q) = (if k' = k \<and> v \<noteq> [] then v else Values_Get k q)"
  by (simp add: set_nonempty_def Values_Get_def)

lemma Values_Get_Set [simp]: "Values_Get k (Values_Set k' v q) = (if k' = k then v else Values_Get k q)"
  by (simp add: Values_Get_def)

lemma issue_code_effect:
  assumes "issue_code E ar vs app s w = (res, w')" "uuid_ok E" "clock_ok w"
  shows "code_state E w' c = (if c = fresh_token E w then Some (issued_code ar vs app s) else code_state E w c)"
    "url_parse E (ar_RedirectUri ar) = Inr u \<Longrightarrow> \<exists>q. res = Inr () \<and>
       w_out w' = w_out w @ [Redirect (url_String (u\<lparr>url_RawQuery := q\<rparr>)) 302] \<and>
       Values_Get ''code'' (ParseQuery q) = fresh_token E w \<and>
       (ar_State ar \<noteq> [] \<longrightarrow> Values_Get ''state'' (ParseQuery q) = ar_State ar)"
    "w_db w' = w_db w" "w_now w' = w_now w" "w_keys w' = w_keys w" "w_keycache w' = w_keycache w"
proof -
  let ?w1 = "store_at (TokenType_Key OidcCodeTokenType (fresh_token E w)) (Doc (CodeInfo_json E (issued_code ar vs app s)))
    Minute (drew w)"
  have run: "or_http (wrapped ''parsing redirect uri'' (lift (url_parse E (ar_RedirectUri ar)))) (\<lambda>redirectUri.
      emit (Redirect (url_String (redirectUri\<lparr>url_RawQuery := Values_Encode (set_nonempty ''state'' (ar_State ar)
        (Values_Set ''code'' (fresh_token E w) (url_Query redirectUri)))\<rparr>)) 302)) ?w1 = (res, w')"
    using assms(1) by (simp add: issue_code_def or_http_def or_answer_def wrapped_def json_Marshal_def
        GenerateAndStoreToken_eq issued_code_def)
  have w': "\<exists>es. w' = ?w1\<lparr>w_out := es\<rparr>"
  proof (cases "url_parse E (ar_RedirectUri ar)")
    case (Inl e)
    then show ?thesis using run
      by (cases e) (auto simp: or_http_def or_answer_def wrapped_def wrap_def intro: exI [of _ "w_out w'"])
  next
    case (Inr u)
    then show ?thesis using run by (auto simp: or_http_def or_answer_def wrapped_def emit_def)
  qed
  then show "code_state E w' c = (if c = fresh_token E w then Some (issued_code ar vs app s) else code_state E w c)"
    using assms(2,3) by (auto simp: code_state_eqs duration_defs)
  show "w_db w' = w_db w" "w_now w' = w_now w" "w_keys w' = w_keys w" "w_keycache w' = w_keycache w" using w' by auto
  show "\<exists>q. res = Inr () \<and> w_out w' = w_out w @ [Redirect (url_String (u\<lparr>url_RawQuery := q\<rparr>)) 302] \<and>
      Values_Get ''code'' (ParseQuery q) = fresh_token E w \<and>
      (ar_State ar \<noteq> [] \<longrightarrow> Values_Get ''state'' (ParseQuery q) = ar_State ar)"
    if "url_parse E (ar_RedirectUri ar) = Inr u"
    using run that
    by (auto simp: or_http_def or_answer_def wrapped_def emit_def Values_Get_ParseQuery_Encode url_Query_def
        intro!: exI [of _ "Values_Encode (set_nonempty ''state'' (ar_State ar) (Values_Set ''code'' (fresh_token E w) (url_Query u)))"])
qed

text \<open>
  C3: the authorization endpoint gives a code only to a request with a session, for an application of
  the virtual server, with a redirect URI that is registered for it, the scope openid and a challenge
  for S256. The code stands for the user of the session, that application, redirect URI and
  challenge, and the browser is sent to the redirect URI with a query from which the client reads back
  the code and its state. In every other case no code changes.
\<close>

theorem authorization_endpoint_sound:
  assumes "uuid_ok E" "clock_ok w" "BeginAuthorizationFlow E r w = (res, w')"
  shows "(\<forall>c. code_state E w' c = code_state E w c) \<or>
    (\<exists>ar vs app s. code_allowed E r (w_stores w) ar vs app s \<and>
       (\<forall>c. code_state E w' c = (if c = fresh_token E w then Some (issued_code ar vs app s) else code_state E w c)) \<and>
       (\<forall>u. url_parse E (ar_RedirectUri ar) = Inr u \<longrightarrow> (\<exists>q.
          w_out w' = w_out w @ [Redirect (url_String (u\<lparr>url_RawQuery := q\<rparr>)) 302] \<and>
          Values_Get ''code'' (ParseQuery q) = fresh_token E w \<and>
          (ar_State ar \<noteq> [] \<longrightarrow> Values_Get ''state'' (ParseQuery q) = ar_State ar))))"
  using BeginAuthorizationFlow_cases [OF assms(3,2)]
proof (elim disjE exE conjE)
  fix ar vs app s
  assume a: "code_allowed E r (w_stores w) ar vs app s" "issue_code E ar vs app s w = (res, w')"
  note e = issue_code_effect [OF a(2) assms(1,2)]
  show ?thesis using a(1) e(1,2) by blast
qed blast

section \<open>The whole flow\<close>


section \<open>Redirects to addresses that are not registered\<close>

text \<open>
  A request with a redirect URI that is not registered is answered with a redirect to that very address,
  which carries the error and the state of the request: the endpoint sends browsers to any address.
\<close>

theorem open_redirect:
  assumes "hr_ParseForm r = Inr ()" "hr_vsName r \<noteq> []" "read_request E r (hr_vsName r) = Inr ar"
    and "vs_named (w_stores w) (hr_vsName r) = Some vs"
    and "app_named (w_stores w) (bm_id (vs_base vs)) (ar_ApplicationName ar) = Some app" "app_redirectUris app \<noteq> []"
    and "ar_RedirectUri ar \<notin> set (app_redirectUris app)" "url_parse E (ar_RedirectUri ar) = Inr u"
  shows "\<exists>q w'. BeginAuthorizationFlow E r w = (Inr (), w') \<and>
    w_out w' = w_out w @ [Redirect (url_String (u\<lparr>url_RawQuery := q\<rparr>)) 302] \<and>
    Values_Get ''error'' (ParseQuery q) = ''invalid_redirect_uri'' \<and>
    (ar_State ar \<noteq> [] \<longrightarrow> Values_Get ''state'' (ParseQuery q) = ar_State ar)"
proof -
  have "BeginAuthorizationFlow E r w = errorRedirect E ar invalidRedirectUri w"
    using assms by (simp add: BeginAuthorizationFlow_def GetVirtualServerName_def or_http_def or_answer_def
        vs_or_nil_eq app_or_nil_eq authorize_checked_def)
  then show ?thesis
    using assms(8) by (simp add: errorRedirect_def or_http_def or_answer_def wrapped_def emit_def url_Query_def
        Values_Get_ParseQuery_Encode invalidRedirectUri_def)
      (intro exI conjI, rule refl, simp_all add: Values_Get_ParseQuery_Encode)
qed

end
