(* ===== verification/ExchangeProps.thy ===== *)
theory ExchangeProps
  imports AuthorizeProps
begin

text \<open>
  Properties of token exchange and of the claims of access tokens.
\<close>

section \<open>Token exchange\<close>

text \<open>\<^verbatim>\<open>jwt.Parse\<close> gives the claims of the token it was called with.\<close>

definition jwt_ok :: "env \<Rightarrow> bool" where
  "jwt_ok E \<longleftrightarrow> (\<forall>now s alg key claims. e_jwt_Parse E now s alg key = Some claims \<longrightarrow> e_jwt_ParseUnverified E s = Some claims)"

definition user_named :: "stores \<Rightarrow> uuid \<Rightarrow> string \<Rightarrow> user option" where
  "user_named st vsId name =
     first_of (filter (\<lambda>u. u_virtualServerId u = vsId \<and> u_username u = name) (map snd (st_Users st)))"

lemma user_named_Some: "user_named st vsId name = Some u \<Longrightarrow> u_virtualServerId u = vsId \<and> u_username u = name"
  unfolding user_named_def by (drule first_filter_Some) simp

lemma user_named_eq [oidc_eqs]: "user_or_nil (vs_username vsId name) w = (Inr (user_named (w_stores w) vsId name), w)"
proof -
  have "filter_go (User_matches (vs_username vsId name)) xs =
      Inr (filter (\<lambda>u. u_virtualServerId u = vsId \<and> u_username u = name) xs)" for xs
    by (rule filter_go_pure) (auto simp: User_matches_def vs_username_def filter_defs)
  then show ?thesis
    by (simp add: user_or_nil_def db_read_def wrapped_def user_named_def UserRepository_FirstOrNil_def
        UserRepository_filtered_def repo_filtered_def)
qed

lemma service_credential:
  assumes "CredentialRepository_FirstOrNil store (service_key_filter i kid) = Inr (Some c)"
    and "Credential_ServiceUserKeyDetails (Some c) = Inr (k, pk)"
  shows "c \<in> set (map snd store) \<and> cr_userId c = i \<and> cr_details c = CredentialServiceUserKey kid pk"
proof -
  obtain cs where cs: "filter_go (Credential_matches (service_key_filter i kid)) (map snd store) = Inr cs" "first_of cs = Some c"
    using assms(1) by (auto simp: CredentialRepository_FirstOrNil_def CredentialRepository_filtered_def
        repo_filtered_def go_bind_Inr_iff)
  have "c \<in> set cs" using cs(2) first_of_Some by fast
  then have "c \<in> set (map snd store)" "Credential_matches (service_key_filter i kid) c = Inr True"
    using filter_go_sound [OF cs(1)] by blast+
  moreover have "cr_details c = CredentialServiceUserKey k pk"
    using assms(2) by (auto simp: Credential_ServiceUserKeyDetails_def wrong_cast_def split: credential_details.splits)
  ultimately show ?thesis
    by (auto simp: Credential_matches_def service_key_filter_def filter_defs detail_kid_def split: if_splits)
qed

text \<open>The key that a subject token is verified with is the key of the service user it names.\<close>

definition service_key :: "env \<Rightarrow> stores \<Rightarrow> user \<Rightarrow> string \<Rightarrow> public_key \<Rightarrow> bool" where
  "service_key E st u kid key \<longleftrightarrow> u_serviceUser u \<and>
     (\<exists>c pk block. c \<in> set (map snd (st_Credentials st)) \<and> cr_userId c = bm_id (u_base u) \<and>
        cr_details c = CredentialServiceUserKey kid pk \<and> e_pem_Decode E pk = Some block \<and>
        e_ParsePKIXPublicKey E block = Some key)"

lemma service_user_key_Inr:
  assumes "service_user_key E vs header claims w = (Inr key, w')"
  shows "w' = w \<and> (\<exists>subject u kid app scopes. e_jwt_GetSubject E claims = Some subject \<and> e_jwt_GetIssuer E claims = Some subject \<and>
    e_jwt_GetAudience E claims = Some [app] \<and> map_of header ''kid'' = Some (JStr kid) \<and>
    map_of claims ''scopes'' = Some (JStr scopes) \<and> ''openid'' \<in> set (Split scopes CHR '' '') \<and>
    user_named (w_stores w) (bm_id (vs_base vs)) subject = Some u \<and> service_key E (w_stores w) u kid key)"
proof -
  note run = service_user_key_def wrapped_def bnd_def
  obtain subject where sub: "e_jwt_GetSubject E claims = Some subject"
    using assms by (cases "e_jwt_GetSubject E claims") (auto simp: run)
  have iss: "e_jwt_GetIssuer E claims = Some subject"
    using assms sub by (cases "e_jwt_GetIssuer E claims") (auto simp: run split: if_splits)
  obtain kid where kid: "map_of header ''kid'' = Some (JStr kid)"
    using assms sub iss by (auto simp: run split: option.splits json.splits)
  obtain auds where "e_jwt_GetAudience E claims = Some auds" "length auds = 1"
    using assms sub iss kid by (cases "e_jwt_GetAudience E claims") (auto simp: run split: if_splits)
  then obtain app where aud: "e_jwt_GetAudience E claims = Some [app]" by (cases auds) auto
  obtain scopes where sc: "map_of claims ''scopes'' = Some (JStr scopes)"
    using assms sub iss kid aud by (auto simp: run split: option.splits json.splits)
  have op: "''openid'' \<in> set (Split scopes CHR '' '')"
    using assms sub iss kid aud sc by (auto simp: run split: if_splits)
  obtain u where u: "user_named (w_stores w) (bm_id (vs_base vs)) subject = Some u" "u_serviceUser u"
    using assms sub iss kid aud sc op
    by (cases "user_named (w_stores w) (bm_id (vs_base vs)) subject") (auto simp: run user_named_eq split: if_splits)
  obtain c where c: "CredentialRepository_FirstOrNil (st_Credentials (w_stores w)) (service_key_filter (bm_id (u_base u)) kid) =
      Inr (Some c)"
    using assms sub iss kid aud sc op u
    by (cases "CredentialRepository_FirstOrNil (st_Credentials (w_stores w)) (service_key_filter (bm_id (u_base u)) kid)")
      (auto simp: run user_named_eq db_read_def wrap_def split: option.splits stop.splits)
  obtain k pk where d: "Credential_ServiceUserKeyDetails (Some c) = Inr (k, pk)"
    using assms sub iss kid aud sc op u c
    by (cases "Credential_ServiceUserKeyDetails (Some c)") (auto simp: run user_named_eq db_read_def wrap_def split: stop.splits)
  obtain block where "e_pem_Decode E pk = Some block" "e_ParsePKIXPublicKey E block = Some key" "w' = w"
    using assms sub iss kid aud sc op u c d
    by (auto simp: run user_named_eq db_read_def split: option.splits)
  then show ?thesis
    using sub iss kid aud sc op u service_credential [OF c d] by (auto simp: service_key_def)
qed

lemma parse_subject_token_Inr:
  assumes "parse_subject_token E vs s w = (Inr claims, w')"
  shows "w' = w \<and> (\<exists>alg key unverified. e_jwt_ParseUnverified E s = Some unverified \<and>
    service_user_key E vs (e_jwt_Header E s) unverified w = (Inr key, w) \<and>
    e_jwt_Parse E (w_now w) s alg key = Some claims)"
  using assms service_user_key_Inr [of E vs "e_jwt_Header E s"]
  by (auto simp: parse_subject_token_def bnd_eq_Inr get_now_def split: option.splits) blast+

lemma keeps_parse_subject_token: "keeps (\<lambda>w. w) (parse_subject_token E vs s)"
  unfolding parse_subject_token_def service_user_key_def user_or_nil_def
  by (intro frame keeps_branches)

text \<open>What an exchange that writes an access token has proved.\<close>

definition exchange_proved ::
  "env \<Rightarrow> stores \<Rightarrow> time \<Rightarrow> virtual_server \<Rightarrow> string \<Rightarrow> user \<Rightarrow> application \<Rightarrow> string list \<Rightarrow> bool" where
  "exchange_proved E st now vs subjectToken u app scopes \<longleftrightarrow>
     (\<exists>claims kid key alg s. e_jwt_Parse E now subjectToken alg key = Some claims \<and>
        e_jwt_GetSubject E claims = Some (u_username u) \<and> e_jwt_GetIssuer E claims = Some (u_username u) \<and>
        e_jwt_GetAudience E claims = Some [app_name app] \<and>
        map_of claims ''scopes'' = Some (JStr s) \<and> scopes = Split s CHR '' '' \<and> ''openid'' \<in> set scopes \<and>
        map_of (e_jwt_Header E subjectToken) ''kid'' = Some (JStr kid) \<and> service_key E st u kid key \<and>
        user_named st (bm_id (vs_base vs)) (u_username u) = Some u \<and>
        app_named st (bm_id (vs_base vs)) (app_name app) = Some app)"

text \<open>A step writes no document.\<close>

definition quiet :: "world \<Rightarrow> world \<Rightarrow> bool" where
  "quiet w w' \<longleftrightarrow> (\<exists>es. w_out w' = w_out w @ es \<and> (\<forall>j. WriteJson j \<notin> set es))"

lemma quiet_error:
  "HandleHttpError e w = (r, w') \<Longrightarrow> quiet w w'" "(Inl e', w) = (r, w') \<Longrightarrow> quiet w w'"
  by (auto simp: quiet_def)

lemma quiet_keycache [simp]: "quiet (w\<lparr>w_keycache := c\<rparr>) w' \<longleftrightarrow> quiet w w'"
  by (simp add: quiet_def)

lemma issue_exchanged_cases:
  assumes "issue_exchanged E vsName vs u appName scopes w = (res, w')" "\<not> quiet w w'"
  shows "\<exists>app kp token w1. app_named (w_stores w) (bm_id (vs_base vs)) appName = Some app \<and> w_stores w1 = w_stores w \<and>
    generateAccessToken E (exchange_params E vs u appName app scopes kp (w_now w)) w1 = (Inr token, w1) \<and>
    w_out w' = w_out w @ [WriteJson (TokenExchangeResponse_json token)]"
proof (cases "app_named (w_stores w) (bm_id (vs_base vs)) appName")
  case None
  then have "HandleHttpError (ErrorsNew ''application not found'') w = (res, w')"
    using assms(1) by (simp add: issue_exchanged_def or_http_def or_answer_def app_or_nil_eq)
  then show ?thesis using quiet_error(1) assms(2) by blast
next
  case (Some app)
  obtain k w1 where k: "get_key vsName (appSigningAlgorithm vs app) w = (k, w1)" by fastforce
  then obtain cache where w1: "w1 = w\<lparr>w_keycache := cache\<rparr>" using get_key_frame by blast
  show ?thesis
  proof (cases k)
    case (Inl e)
    then have "quiet w w'" using assms(1) k Some w1
      by (cases e) (auto simp: issue_exchanged_def or_http_def or_answer_def app_or_nil_eq quiet_def)
    then show ?thesis using assms(2) by blast
  next
    case (Inr kp)
    let ?p = "exchange_params E vs u appName app scopes kp (w_now w)"
    obtain t where t: "generateAccessToken E ?p w1 = (t, w1)"
      by (metis generateAccessToken_reads prod.exhaust_sel)
    have run: "or_http (wrapped ''generating access token'' (generateAccessToken E ?p))
        (\<lambda>accessToken. emit (WriteJson (TokenExchangeResponse_json accessToken))) w1 = (res, w')"
      using assms(1) k Some w1 Inr
      by (simp add: issue_exchanged_def or_http_def or_answer_def app_or_nil_eq bnd_def get_now_def)
    show ?thesis
    proof (cases t)
      case (Inl e)
      then have "quiet w w'" using run t w1
        by (cases e) (auto simp: or_http_def or_answer_def wrapped_def quiet_def)
      then show ?thesis using assms(2) by blast
    next
      case (Inr token)
      then have "w_out w' = w_out w @ [WriteJson (TokenExchangeResponse_json token)]" using run t w1
        by (auto simp: or_http_def or_answer_def wrapped_def emit_def)
      then show ?thesis using Some t Inr w1
        by (intro exI [of _ app] exI [of _ kp] exI [of _ token] exI [of _ w1]) (simp add: w_stores_def)
    qed
  qed
qed

lemma exchange_token_cases:
  assumes "jwt_ok E" "exchange_token E r s w = (res, w')" "\<not> quiet w w'"
  shows "\<exists>vs u app scopes kp token w1. vs_named (w_stores w) (hr_vsName r) = Some vs \<and>
    exchange_proved E (w_stores w) (w_now w) vs s u app scopes \<and> w_stores w1 = w_stores w \<and>
    generateAccessToken E (exchange_params E vs u (app_name app) app scopes kp (w_now w)) w1 = (Inr token, w1) \<and>
    w_out w' = w_out w @ [WriteJson (TokenExchangeResponse_json token)]"
proof (cases "hr_vsName r = [] \<or> vs_named (w_stores w) (hr_vsName r) = None")
  case True
  then have "quiet w w'" using assms(2)
    by (auto simp: exchange_token_def or_http_def or_answer_def wrapped_def GetVirtualServerName_def vs_or_nil_eq
        quiet_def split: if_splits)
  then show ?thesis using assms(3) by blast
next
  case False
  then obtain vs where vs: "vs_named (w_stores w) (hr_vsName r) = Some vs" and n: "GetVirtualServerName r = Inr (hr_vsName r)"
    by (auto simp: GetVirtualServerName_def)
  obtain p where p: "parse_subject_token E vs s w = (p, w)"
    using keepsD [OF keeps_parse_subject_token] by (metis prod.exhaust_sel)
  have run: "or_http (wrapped ''parsing subject token'' (parse_subject_token E vs s)) (\<lambda>claims.
      exchange_claims E (hr_vsName r) vs claims) w = (res, w')"
    using assms(2) vs n by (simp add: exchange_token_def or_http_def or_answer_def wrapped_def vs_or_nil_eq)
  show ?thesis
  proof (cases p)
    case (Inl e)
    then have "quiet w w'" using run p
      by (cases e) (auto simp: or_http_def or_answer_def wrapped_def quiet_def)
    then show ?thesis using assms(3) by blast
  next
    case (Inr claims)
    then obtain alg key where k: "service_user_key E vs (e_jwt_Header E s) claims w = (Inr key, w)"
      "e_jwt_Parse E (w_now w) s alg key = Some claims"
      using parse_subject_token_Inr [of E vs s w claims w] p assms(1) unfolding jwt_ok_def by fastforce
    obtain subject u kid appName scopes where c: "e_jwt_GetSubject E claims = Some subject"
      "e_jwt_GetIssuer E claims = Some subject" "e_jwt_GetAudience E claims = Some [appName]"
      "map_of (e_jwt_Header E s) ''kid'' = Some (JStr kid)" "map_of claims ''scopes'' = Some (JStr scopes)"
      "''openid'' \<in> set (Split scopes CHR '' '')"
      "user_named (w_stores w) (bm_id (vs_base vs)) subject = Some u" "service_key E (w_stores w) u kid key"
      using service_user_key_Inr [OF k(1)] by blast
    have "issue_exchanged E (hr_vsName r) vs u appName (Split scopes CHR '' '') w = (res, w')"
      using run p Inr c
      by (simp add: or_http_def or_answer_def wrapped_def exchange_claims_def user_named_eq)
    from issue_exchanged_cases [OF this assms(3)] obtain app kp token w1 where
      a: "app_named (w_stores w) (bm_id (vs_base vs)) appName = Some app" "w_stores w1 = w_stores w"
      "generateAccessToken E (exchange_params E vs u appName app (Split scopes CHR '' '') kp (w_now w)) w1 = (Inr token, w1)"
      "w_out w' = w_out w @ [WriteJson (TokenExchangeResponse_json token)]" by blast
    have names: "app_name app = appName" "u_username u = subject"
      using app_named_Some [OF a(1)] user_named_Some [OF c(7)] by simp_all
    have "exchange_proved E (w_stores w) (w_now w) vs s u app (Split scopes CHR '' '')"
      using k(2) c a(1) names unfolding exchange_proved_def by blast
    then show ?thesis using vs a names by blast
  qed
qed

text \<open>
  C14: token exchange gives an access token only for a token that the registered key of a service user
  of the virtual server verifies; the user is subject and issuer of that token, its only audience is an
  application of the server, and the new token is for that user, application and those scopes. The type of
  the subject token plays no part: an unsupported type is answered with an error, and the token follows.
\<close>

theorem token_exchange_sound:
  assumes "jwt_ok E" "handleTokenExchange E r w = (res, w')" "WriteJson j \<in> set (drop (length (w_out w)) (w_out w'))"
  shows "\<exists>vs u app scopes kp token w1. vs_named (w_stores w) (hr_vsName r) = Some vs \<and>
    exchange_proved E (w_stores w) (w_now w) vs (hr_Form r ''subject_token'') u app scopes \<and>
    generateAccessToken E (exchange_params E vs u (app_name app) app scopes kp (w_now w)) w1 = (Inr token, w1) \<and>
    w_out w' = w_out w @
      (if hr_Form r ''subject_token_type'' = ''urn:ietf:params:oauth:token-type:access_token'' then [] else [HttpError 500]) @
      [WriteJson (TokenExchangeResponse_json token)]"
proof -
  let ?ok = "hr_Form r ''subject_token_type'' = ''urn:ietf:params:oauth:token-type:access_token''"
  let ?w1 = "w\<lparr>w_out := w_out w @ (if ?ok then [] else [HttpError 500])\<rparr>"
  have ne: "hr_Form r ''subject_token'' \<noteq> []" "hr_Form r ''subject_token_type'' \<noteq> []"
    using assms(2,3) by (auto simp: handleTokenExchange_def Let_def split: if_splits)
  have run: "exchange_token E r (hr_Form r ''subject_token'') ?w1 = (res, w')"
    using assms(2) ne by (auto simp: handleTokenExchange_def Let_def bnd_def http_status_of_def split: if_splits)
  have nq: "\<not> quiet ?w1 w'" using assms(3) by (auto simp: quiet_def split: if_splits)
  show ?thesis
    using exchange_token_cases [OF assms(1) run nq] by (fastforce simp: w_stores_def)
qed

end
