(* ===== verification/OidcSamples.thy ===== *)
theory OidcSamples
  imports ExchangeProps
begin

text \<open>
  The properties of OpenID Connect at concrete inputs: two virtual servers with their applications
  and users, a code, a refresh token, a device code and a token of a service user.
\<close>

section \<open>A world\<close>

definition web_app :: application where
  "web_app = NewApplication 9 0 1 5 ''web'' ''Web'' ApplicationTypePublic [''https://web/cb'']"

definition cli_app :: "uuid \<Rightarrow> uuid \<Rightarrow> application" where
  "cli_app i vsId = NewApplication i 0 vsId 5 ''cli'' ''Cli'' ApplicationTypePublic [''https://cli/cb'']"

definition vs_b :: virtual_server where
  "vs_b = NewVirtualServer 2 0 ''b'' ''B''"

definition robot :: user where
  "robot = (NewUser 20 0 ''robot'' ''Robot'' ''r@example'' 1)\<lparr>u_serviceUser := True\<rparr>"

definition oidc_stores :: stores where
  "oidc_stores = newStores
     \<lparr>st_VirtualServers := [(1, sample_vs), (2, vs_b)],
      st_Applications := [(9, web_app), (10, cli_app 10 1), (11, cli_app 11 2)],
      st_Users := [(7, login_user), (20, robot)],
      st_Credentials := [(21, NewCredential 21 0 20 (CredentialServiceUserKey ''k1'' ''pem''))]\<rparr>"

definition oidc_world :: "kv_data \<Rightarrow> world" where
  "oidc_world kv = (world_with oidc_stores)\<lparr>w_keycache := [((''a'', SigningAlgorithmEdDSA), token_key)], w_kv := kv\<rparr>"

lemma oidc_world_simps [simp]:
  "w_stores (oidc_world kv) = oidc_stores" "clock_ok (oidc_world kv)" "w_now (oidc_world kv) = 0"
  "w_out (oidc_world kv) = []"
  "w_keycache (oidc_world kv) = [((''a'', SigningAlgorithmEdDSA), token_key)]"
  "token_live (oidc_world kv) t x = kv_view kv 0 (TokenType_Key t x)"
  by (simp_all add: oidc_world_def world_with_def w_stores_def newContext_def clock_ok_def token_live_def kv_live_def)

lemma oidc_stores_simps [simp]:
  "vs_named oidc_stores ''a'' = Some sample_vs" "vs_named oidc_stores ''b'' = Some vs_b"
  "app_named oidc_stores 1 ''web'' = Some web_app" "app_named oidc_stores 1 ''cli'' = Some (cli_app 10 1)"
  "app_named oidc_stores 2 ''cli'' = Some (cli_app 11 2)" "user_with oidc_stores 7 = Some login_user"
  "user_with oidc_stores 20 = Some robot"
  "user_named oidc_stores 1 ''robot'' = Some robot"
  "st_UserRoleAssignments oidc_stores = []" "st_ApplicationUserMetadata oidc_stores = []"
  by (simp_all add: oidc_stores_def vs_named_def sample_vs_def vs_b_def NewVirtualServer_def app_named_def web_app_def
      cli_app_def NewApplication_def user_with_def user_named_def login_user_def robot_def NewUser_def NewBaseModel_def newStores_def)

lemmas oidc_stores_simps' [simp] = oidc_stores_simps [unfolded One_nat_def]

lemma sample_parts [simp]:
  "bm_id (vs_base sample_vs) = 1" "bm_id (vs_base vs_b) = 2" "bm_id (app_base web_app) = 9"
  "app_redirectUris web_app = [''https://web/cb'']" "app_name web_app = ''web''"
  "client_ok web_app secret \<longleftrightarrow> secret = []" "client_ok (cli_app i v) secret \<longleftrightarrow> secret = []"
  "appSigningAlgorithm sample_vs web_app = SigningAlgorithmEdDSA"
  "appSigningAlgorithm sample_vs (cli_app i v) = SigningAlgorithmEdDSA" "vs_name sample_vs = ''a''"
  by (simp_all add: sample_vs_def vs_b_def NewVirtualServer_def NewBaseModel_def web_app_def cli_app_def NewApplication_def
      client_ok_def appSigningAlgorithm_def)

lemma key_for_sample: "w_keycache w = [((''a'', SigningAlgorithmEdDSA), token_key)] \<Longrightarrow>
    key_for w ''a'' SigningAlgorithmEdDSA token_key [((''a'', SigningAlgorithmEdDSA), token_key)]"
  by (simp add: key_for_def KeyService_GetKey_def TryGet_def)

text \<open>Tokens can be made for a user without roles and metadata, when the signature succeeds.\<close>

lemma access_token_exists:
  assumes "\<forall>alg key header claims. e_jwt_Sign E alg key header claims \<noteq> None"
    and "kp_algorithm (atp_KeyPair q) = SigningAlgorithmEdDSA"
    and "user_with (w_stores w) (atp_UserId q) = Some u" "u_metadata u = Doc (JObj [])"
    and "st_UserRoleAssignments (w_stores w) = []" "st_ApplicationUserMetadata (w_stores w) = []"
  shows "\<exists>t. generateAccessToken E q w = (Inr t, w)"
proof -
  have sign: "\<exists>s. SignedString E m h c k = Inr s" for m h c k
    using assms(1) by (auto simp: SignedString_def split: option.split)
  have roles: "assignments_of i w = (Inr ([], 0), w)" for i
    using assms(5) by (simp add: assignments_of_def db_read_def wrapped_def UserRoleAssignmentRepository_List_def repo_filtered_def)
  have "\<exists>claims. MapClaims E i q w = (Inr claims, w)" for i q
    by (auto simp: MapClaims_def bnd_def catch_def db_read_def ApplicationRepository_FirstOrNil_def
        ApplicationRepository_filtered_def repo_filtered_def Application_matches_def filter_defs
        filter_go_pure [where q = "\<lambda>a. bm_id (app_base a) = i"] split: option.split sum.split)
  then obtain claims where "mapClaims E q w = (Inr claims, w)"
    using assms(3,4,6)
    by (auto simp: mapClaims_def bnd_def user_or_nil_eq roles wrapped_def db_read_def
        ApplicationUserMetadataRepository_FirstOrNil_def ApplicationUserMetadataRepository_filtered_def repo_filtered_def
        decode_map_def json_Unmarshal_def)
  then show ?thesis
    using sign assms(2) by (fastforce simp: generateAccessToken_def bnd_def wrapped_def getJwtSigningMethod_def)
qed

lemma made_tokens_exist:
  assumes "\<forall>alg key header claims. e_jwt_Sign E alg key header claims \<noteq> None"
    and "kp_algorithm (tgp_KeyPair p) = SigningAlgorithmEdDSA"
    and "user_with (w_stores w) (tgp_UserId p) = Some u" "u_metadata u = Doc (JObj [])"
    and "st_UserRoleAssignments (w_stores w) = []" "st_ApplicationUserMetadata (w_stores w) = []"
  shows "\<exists>t. made_tokens E p w t"
proof -
  have sign: "\<exists>s. SignedString E m h c k = Inr s" for m h c k
    using assms(1) by (auto simp: SignedString_def split: option.split)
  obtain i where i: "generateIdToken E (ToIdTokenGenerationParams p) = Inr i"
    using sign assms(2) by (fastforce simp: generateIdToken_def ToIdTokenGenerationParams_def getJwtSigningMethod_def)
  obtain a where a: "generateAccessToken E (ToAccessTokenGenerationParams p) w = (Inr a, w)"
    using access_token_exists [OF assms(1), of "ToAccessTokenGenerationParams p" w u] assms(2-6)
    by (auto simp: ToAccessTokenGenerationParams_def)
  show ?thesis
    using i a by (intro exI [of _ "\<lparr>gt_IdToken = i, gt_AccessToken = a, gt_RefreshToken = fresh_token E w,
      gt_ExpiresIn = duration_seconds (tgp_AccessTokenExpiry p)\<rparr>"]) (simp add: made_tokens_def)
qed

lemma sample_sign: "\<forall>alg key header claims. e_jwt_Sign test_env alg key header claims \<noteq> None"
  by (simp add: test_env_def)

lemma sample_users [simp]: "u_metadata login_user = Doc (JObj [])" "u_metadata robot = Doc (JObj [])"
  by (simp_all add: login_user_def robot_def NewUser_def)

lemma token_key_EdDSA [simp]: "kp_algorithm token_key = SigningAlgorithmEdDSA"
  by (simp add: token_key_def)

section \<open>A code\<close>

definition verifier :: string where
  "verifier = replicate 43 CHR ''v''"

definition sample_code :: code_info where
  "sample_code = NewCodeInfo ''a'' 9 [''openid''] 7 ''n'' 0 ''https://web/cb''
     (RawURLEncoding_EncodeToString (sha256_Sum256 verifier)) ''S256''"

definition form :: "(string \<times> string) list \<Rightarrow> string \<Rightarrow> string" where
  "form ps k = (case map_of ps k of Some v \<Rightarrow> v | None \<Rightarrow> [])"

definition form_post :: "(string \<times> string) list \<Rightarrow> http_request" where
  "form_post ps =
     \<lparr>hr_ParseForm = Inr (), hr_Form = form ps, hr_PostForm = form ps, hr_BasicAuth = None, hr_Authorization = [],
      hr_URL = ''/authorize'', hr_RawQuery = [], hr_vsName = ''a'', hr_session = None\<rparr>"

lemma form_post_simps [simp]:
  "hr_ParseForm (form_post ps) = Inr ()" "hr_Form (form_post ps) = form ps"
  "client_credentials (form_post ps) = (form ps ''client_id'', form ps ''client_secret'')"
  "hr_vsName (form_post ps) = ''a''"
  by (simp_all add: form_post_def client_credentials_def)

definition code_request :: http_request where
  "code_request = form_post [(''code'', ''c''), (''redirect_uri'', ''https://web/cb''), (''client_id'', ''web''),
     (''code_verifier'', verifier)]"

definition code_world :: world where
  "code_world = oidc_world [(TokenType_Key OidcCodeTokenType ''c'', Item (Doc (CodeInfo_json test_env sample_code)) 100)]"

lemma code_world_live: "token_live code_world OidcCodeTokenType ''c'' = Some (Doc (CodeInfo_json test_env sample_code))"
  by (simp add: code_world_def kv_view_def IsExpired_def)

lemma sample_verified: "verifyPKCE verifier (RawURLEncoding_EncodeToString (sha256_Sum256 verifier)) ''S256'' = Inr ()"
proof -
  have "length verifier = 43" "verifier \<noteq> []" by (simp_all add: verifier_def)
  then show ?thesis by (simp add: verifyPKCE_def)
qed

lemma sample_code_proved: "w_stores w = oidc_stores \<Longrightarrow> code_proved test_env code_request (w_stores w) sample_code sample_vs web_app"
  using sample_verified by (simp add: code_proved_def code_request_def form_def sample_code_def NewCodeInfo_def pkce_ok_def)

lemma sample_redeemed: "\<exists>w1. handleAuthorizationCode test_env code_request code_world = (Inr (), w1) \<and> succeeded code_world w1"
proof -
  let ?w = "after_get (TokenType_Key OidcCodeTokenType ''c'') code_world"
  have c: "hr_Form code_request ''code'' = ''c''" "fst (client_credentials code_request) = ''web''"
    by (simp_all add: code_request_def form_def)
  have st: "w_stores ?w = oidc_stores" "w_keycache ?w = [((''a'', SigningAlgorithmEdDSA), token_key)]"
    by (simp_all add: code_world_def)
  have ci: "ci_UserId sample_code = 7" "ci_VirtualServerName sample_code = ''a''" by (simp_all add: sample_code_def NewCodeInfo_def)
  let ?p = "code_token_params test_env sample_code ''web'' web_app login_user token_key (w_now ?w)"
  have "\<exists>t. made_tokens test_env ?p (?w\<lparr>w_keycache := [((''a'', SigningAlgorithmEdDSA), token_key)]\<rparr>) t"
    using st ci by (intro made_tokens_exist [OF sample_sign]) (auto simp: code_token_params_def w_stores_def)
  then obtain t where t: "made_tokens test_env ?p (?w\<lparr>w_keycache := [((''a'', SigningAlgorithmEdDSA), token_key)]\<rparr>) t" by blast
  have "\<exists>w'. continue_with_code test_env code_request (Doc (CodeInfo_json test_env sample_code)) ?w = (Inr (), w') \<and> succeeded ?w w'"
    using continue_with_code_run [of test_env "Doc (CodeInfo_json test_env sample_code)" sample_code code_request ?w
        sample_vs web_app login_user token_key "[((''a'', SigningAlgorithmEdDSA), token_key)]" t]
      sample_code_proved [OF st(1)] st ci t c(2) key_for_sample [OF st(2)] by simp
  then show ?thesis using code_world_live c(1) by (auto simp: handleAuthorizationCode_eq succeeded_after_get)
qed

theorem authorization_code_bound_witness:
  "\<exists>ci vs app w'. code_state test_env code_world ''c'' = Some ci \<and> code_proved test_env code_request (w_stores code_world) ci vs app \<and>
     handleAuthorizationCode test_env code_request code_world = (Inr (), w') \<and> code_state test_env w' ''c'' = None"
proof -
  obtain w1 where w1: "handleAuthorizationCode test_env code_request code_world = (Inr (), w1)" "succeeded code_world w1"
    using sample_redeemed by blast
  have "clock_ok code_world" "hr_Form code_request ''code'' = ''c''" by (simp_all add: code_world_def code_request_def form_def)
  then show ?thesis using authorization_code_bound [OF _ w1(1)] w1 by fastforce
qed

theorem authorization_code_single_use_witness: "redemptions test_env [code_request, code_request, code_request] code_world = 1"
proof -
  have "clock_ok code_world" "hr_Form code_request ''code'' = ''c''" by (simp_all add: code_world_def code_request_def form_def)
  then have "redemptions test_env [code_request, code_request, code_request] code_world \<le> 1"
    by (intro authorization_code_single_use [where code = "''c''"]) auto
  moreover have "redemptions test_env [code_request, code_request, code_request] code_world \<ge> 1"
    using sample_redeemed by (auto simp: Let_def)
  ultimately show ?thesis by simp
qed


section \<open>A refresh token\<close>

lemma issue_run:
  assumes "key_for w vs alg kp cache" "made_tokens E (p kp) (w\<lparr>w_keycache := cache\<rparr>) t"
  shows "or_http (get_key vs alg) (\<lambda>kp. or_http (generateTokens E (p kp)) m) w =
    m t (refresh_stored E (p kp) (w\<lparr>w_keycache := cache\<rparr>))"
proof -
  have "get_key vs alg w = (Inr kp, w\<lparr>w_keycache := cache\<rparr>)" using assms(1) by (auto simp: get_key_Inr)
  moreover have "generateTokens E (p kp) (w\<lparr>w_keycache := cache\<rparr>) = (Inr t, refresh_stored E (p kp) (w\<lparr>w_keycache := cache\<rparr>))"
    using assms(2) by (simp add: generateTokens_Inr)
  ultimately show ?thesis by (simp add: or_http_def or_answer_def)
qed

lemma authenticate_run:
  "app_named (w_stores w) (bm_id (vs_base v)) name = Some app \<Longrightarrow> client_ok app secret \<Longrightarrow>
     authenticateApplication v name secret w = (Inr app, w)"
  by (simp add: authenticateApplication_Inr)

definition sample_refresh :: refresh_token_info where
  "sample_refresh = NewRefreshTokenInfo ''a'' ''web'' 7 [''openid'']"

definition refresh_world :: world where
  "refresh_world = oidc_world [(TokenType_Key OidcRefreshTokenTokenType ''r'', Item (Doc (RefreshTokenInfo_json test_env sample_refresh)) 100)]"

definition refresh_request :: http_request where
  "refresh_request = form_post [(''refresh_token'', ''r''), (''client_id'', ''web'')]"

lemma refresh_request_simps [simp]:
  "hr_Form refresh_request ''refresh_token'' = ''r''" "client_credentials refresh_request = (''web'', [])"
  by (simp_all add: refresh_request_def form_def)

lemma sample_refreshed: "\<exists>w1. handleRefreshToken test_env refresh_request refresh_world = (Inr (), w1) \<and> succeeded refresh_world w1"
proof -
  let ?k = "TokenType_Key OidcRefreshTokenTokenType ''r''"
  let ?w = "drop_at ?k (after_get ?k refresh_world)" and ?c = "[((''a'', SigningAlgorithmEdDSA), token_key)]"
  let ?p = "\<lambda>kp. refresh_token_params_of test_env sample_refresh ''web'' web_app login_user kp 0"
  have st: "w_stores ?w = oidc_stores" "w_keycache ?w = ?c" by (simp_all add: refresh_world_def)
  have info: "ri_UserId sample_refresh = 7" "ri_VirtualServerName sample_refresh = ''a''" "ri_ClientId sample_refresh = ''web''"
    by (simp_all add: sample_refresh_def NewRefreshTokenInfo_def)
  have "\<exists>t. made_tokens test_env (?p token_key) (?w\<lparr>w_keycache := ?c\<rparr>) t"
    using st info by (intro made_tokens_exist [OF sample_sign]) (auto simp: refresh_token_params_of_def w_stores_def)
  then obtain t where t: "made_tokens test_env (?p token_key) (?w\<lparr>w_keycache := ?c\<rparr>) t" by blast
  have "renew_tokens test_env sample_refresh sample_vs ''web'' ?w =
      answer_json (RefreshTokenResponse_json t) (refresh_stored test_env (?p token_key) (?w\<lparr>w_keycache := ?c\<rparr>))"
    using issue_run [of ?w "''a''" SigningAlgorithmEdDSA token_key ?c test_env ?p t
        "\<lambda>tokens. answer_json (RefreshTokenResponse_json tokens)", OF key_for_sample [OF st(2)] t] st info
    by (simp add: renew_tokens_def or_http_apply user_or_nil_eq app_or_nil_eq bnd_def get_now_def refresh_world_def)
  then have r: "\<exists>w1. renew_tokens test_env sample_refresh sample_vs ''web'' ?w = (Inr (), w1) \<and> succeeded refresh_world w1"
    by (simp add: answer_json_eq succeeded_def)
  have a: "authenticateApplication sample_vs ''web'' [] (after_get ?k refresh_world) = (Inr web_app, after_get ?k refresh_world)"
    by (rule authenticate_run) (simp_all add: refresh_world_def)
  have rst: "w_stores refresh_world = oidc_stores" by (simp add: refresh_world_def)
  have "token_live refresh_world OidcRefreshTokenTokenType ''r'' = Some (Doc (RefreshTokenInfo_json test_env sample_refresh))"
    by (simp add: refresh_world_def kv_view_def IsExpired_def)
  then have "handleRefreshToken test_env refresh_request refresh_world = renew_tokens test_env sample_refresh sample_vs ''web'' ?w"
    using a info rst
    by (simp add: handleRefreshToken_def or_http_def or_answer_def GetToken_eq wrapped_def vs_or_nil_eq DeleteToken_drop)
  then show ?thesis using r by simp
qed


section \<open>Device codes\<close>

definition sample_device :: "string \<Rightarrow> string \<Rightarrow> device_code_info" where
  "sample_device status userId = \<lparr>di_VirtualServerName = ''a'', di_ClientId = ''cli'', di_GrantedScopes = [''openid''],
     di_Status = status, di_UserId = userId, di_UserCode = ''u''\<rparr>"

definition device_world :: "device_code_info \<Rightarrow> world" where
  "device_world info = oidc_world [(TokenType_Key OidcDeviceCodeTokenType ''d'', Item (Doc (DeviceCodeInfo_json info)) 100),
     (TokenType_Key OidcUserCodeTokenType ''u'', Item (Plain ''d'') 100)]"

lemma device_world_simps [simp]:
  "w_stores (device_world info) = oidc_stores" "clock_ok (device_world info)" "w_now (device_world info) = 0"
  "w_keycache (device_world info) = [((''a'', SigningAlgorithmEdDSA), token_key)]"
  "token_live (device_world info) OidcDeviceCodeTokenType ''d'' = Some (Doc (DeviceCodeInfo_json info))"
  "token_live (device_world info) OidcUserCodeTokenType ''u'' = Some (Plain ''d'')"
  "device_state (device_world info) ''d'' = Some info"
  by (simp_all add: device_world_def kv_view_def IsExpired_def device_state_def TokenType_Key_def token_type_defs)

definition device_request :: http_request where
  "device_request = form_post [(''device_code'', ''d''), (''client_id'', ''cli'')]"

lemma device_request_simps [simp]:
  "hr_Form device_request ''device_code'' = ''d''" "client_credentials device_request = (''cli'', [])"
  by (simp_all add: device_request_def form_def)

abbreviation authorized_device :: device_code_info where
  "authorized_device \<equiv> sample_device DeviceCodeStatusAuthorized (unary 7)"

lemma sample_device_granted:
  "\<exists>w1. handleDeviceCodeGrant test_env device_request (device_world authorized_device) = (Inr (), w1) \<and>
     succeeded (device_world authorized_device) w1"
proof -
  let ?k = "TokenType_Key OidcDeviceCodeTokenType ''d''" and ?start = "device_world authorized_device"
  let ?w = "drop_at ?k (after_get ?k ?start)" and ?c = "[((''a'', SigningAlgorithmEdDSA), token_key)]"
  let ?p = "\<lambda>kp. device_token_params test_env authorized_device 7 ''cli'' (cli_app 10 1) login_user kp 0"
  have st: "w_stores ?w = oidc_stores" "w_keycache ?w = ?c" "w_now ?w = 0" by simp_all
  have "\<exists>t. made_tokens test_env (?p token_key) (?w\<lparr>w_keycache := ?c\<rparr>) t"
    using st by (intro made_tokens_exist [OF sample_sign]) (auto simp: device_token_params_def w_stores_def)
  then obtain t where t: "made_tokens test_env (?p token_key) (?w\<lparr>w_keycache := ?c\<rparr>) t" by blast
  have id7: "uuid_Parse test_env (di_UserId authorized_device) = Inr 7"
    by (simp add: sample_device_def uuid_Parse_def test_env_def unary_not_Nil)
  have di: "di_VirtualServerName authorized_device = ''a''" "di_ClientId authorized_device = ''cli''"
    "di_Status authorized_device = DeviceCodeStatusAuthorized" by (simp_all add: sample_device_def)
  have "redeem_device_code test_env ''d'' authorized_device sample_vs ''cli'' (cli_app 10 1) (after_get ?k ?start) =
      answer_json (CodeFlowResponse_json t (Join (di_GrantedScopes authorized_device) '' ''))
        (refresh_stored test_env (?p token_key) (?w\<lparr>w_keycache := ?c\<rparr>))"
    using issue_run [of ?w "''a''" SigningAlgorithmEdDSA token_key ?c test_env ?p t
        "\<lambda>tokens. answer_json (CodeFlowResponse_json tokens (Join (di_GrantedScopes authorized_device) '' ''))",
        OF key_for_sample [OF st(2)] t] st id7 di(1)
    by (simp add: redeem_device_code_def or_http_apply user_or_nil_eq wrapped_def DeleteToken_drop get_now_after_key)
  then have r: "\<exists>w1. redeem_device_code test_env ''d'' authorized_device sample_vs ''cli'' (cli_app 10 1) (after_get ?k ?start) =
      (Inr (), w1) \<and> succeeded ?start w1"
    by (simp add: answer_json_eq succeeded_def)
  have a: "authenticateApplication sample_vs ''cli'' [] (after_get ?k ?start) = (Inr (cli_app 10 1), after_get ?k ?start)"
    by (rule authenticate_run) simp_all
  have "DeviceCodeStatusAuthorized \<noteq> DeviceCodeStatusPending" "DeviceCodeStatusAuthorized \<noteq> DeviceCodeStatusDenied"
    by (simp_all add: device_status_defs)
  then have "handleDeviceCodeGrant test_env device_request ?start =
      redeem_device_code test_env ''d'' authorized_device sample_vs ''cli'' (cli_app 10 1) (after_get ?k ?start)"
    using a di by (simp add: handleDeviceCodeGrant_def Let_def or_http_def or_answer_def GetToken_eq wrapped_def vs_or_nil_eq)
  then show ?thesis using r by simp
qed

theorem device_grant_bound_witness:
  "\<exists>w1 vs app. handleDeviceCodeGrant test_env device_request (device_world authorized_device) = (Inr (), w1) \<and>
     device_proved device_request oidc_stores authorized_device vs app \<and> device_state w1 ''d'' = None"
proof -
  obtain w1 where w1: "handleDeviceCodeGrant test_env device_request (device_world authorized_device) = (Inr (), w1)"
    "succeeded (device_world authorized_device) w1"
    using sample_device_granted by blast
  from device_grant_bound [OF _ w1(1)] w1 show ?thesis by auto
qed

definition activate_request :: http_request where
  "activate_request = (form_post [(''user_code'', ''u'')])\<lparr>hr_vsName := ''b''\<rparr>"

theorem device_code_crosses_servers_witness:
  "\<exists>w1 tok li. PostActivatePage test_env activate_request (device_world (sample_device DeviceCodeStatusPending [])) = (Inr (), w1) \<and>
     login_state test_env w1 tok = Some li \<and> li_VirtualServerId li = 2 \<and>
     device_state w1 ''d'' = Some (sample_device DeviceCodeStatusPending [])"
proof -
  have "hr_Form activate_request ''user_code'' = ''u''" "hr_ParseForm activate_request = Inr ()" "hr_vsName activate_request = ''b''"
    by (simp_all add: activate_request_def form_post_def form_def)
  then show ?thesis
    using device_code_crosses_servers [OF uuid_ok_test_env, of "device_world (sample_device DeviceCodeStatusPending [])" "''d''"
        "sample_device DeviceCodeStatusPending []" "''u''" activate_request "''b''" vs_b "cli_app 11 2"]
    by (simp add: sample_device_def) blast
qed

section \<open>The authorization endpoint\<close>

definition sample_session_of_7 :: current_session where
  "sample_session_of_7 = \<lparr>cs_userId = 7, cs_sessionId = 3, cs_createdAt = 0\<rparr>"

definition authorize_request :: "string \<Rightarrow> http_request" where
  "authorize_request uri =
     (form_post [(''response_type'', ''code''), (''client_id'', ''web''), (''redirect_uri'', uri),
        (''scope'', ''openid profile''), (''state'', ''s''), (''code_challenge'', RawURLEncoding_EncodeToString (sha256_Sum256 verifier)),
        (''code_challenge_method'', ''S256'')])
     \<lparr>hr_session := Some sample_session_of_7\<rparr>"

definition sample_ar :: "string \<Rightarrow> authorization_request" where
  "sample_ar uri = \<lparr>ar_ResponseTypes = [''code''], ar_VirtualServerName = ''a'', ar_ApplicationName = ''web'', ar_RedirectUri = uri,
     ar_Scopes = [''openid'', ''profile''], ar_State = ''s'', ar_Nonce = [], ar_ResponseMode = [],
     ar_PKCEChallenge = RawURLEncoding_EncodeToString (sha256_Sum256 verifier), ar_PKCEChallengeMethod = ''S256''\<rparr>"

lemma challenge_not_Nil [simp]: "RawURLEncoding_EncodeToString (sha256_Sum256 s) \<noteq> []"
proof -
  have "length (RawURLEncoding_EncodeToString (sha256_Sum256 s)) = 43" by simp
  then show ?thesis by (metis list.size(3) zero_neq_numeral)
qed

lemma authorize_request_read: "read_request test_env (authorize_request uri) ''a'' = Inr (sample_ar uri)"
  by (simp add: read_request_def authorize_request_def form_post_def form_request_def form_def sample_ar_def)

lemma authorize_request_simps [simp]:
  "hr_ParseForm (authorize_request uri) = Inr ()" "hr_vsName (authorize_request uri) = ''a''"
  "hr_session (authorize_request uri) = Some sample_session_of_7"
  by (simp_all add: authorize_request_def)

lemma sample_allowed:
  "w_stores w = oidc_stores \<Longrightarrow>
     code_allowed test_env (authorize_request ''https://web/cb'') (w_stores w) (sample_ar ''https://web/cb'') sample_vs web_app sample_session_of_7"
  by (simp add: code_allowed_def authorize_request_read) (simp add: sample_ar_def)

lemma sample_authorized:
  "w_stores w = oidc_stores \<Longrightarrow> BeginAuthorizationFlow test_env (authorize_request ''https://web/cb'') w =
     issue_code test_env (sample_ar ''https://web/cb'') sample_vs web_app sample_session_of_7 w"
  by (simp add: BeginAuthorizationFlow_def GetVirtualServerName_def or_http_def or_answer_def
      vs_or_nil_eq app_or_nil_eq authorize_request_read) (simp add: authorize_checked_def sample_ar_def)

theorem authorization_endpoint_sound_witness:
  "\<exists>w1 ci. BeginAuthorizationFlow test_env (authorize_request ''https://web/cb'') (oidc_world []) = (Inr (), w1) \<and>
     code_state test_env w1 (fresh_token test_env (oidc_world [])) = Some ci \<and> ci_UserId ci = 7"
proof -
  let ?s = "oidc_world []"
  obtain res w1 where run: "issue_code test_env (sample_ar ''https://web/cb'') sample_vs web_app sample_session_of_7 ?s = (res, w1)"
    by fastforce
  have p: "url_parse test_env (ar_RedirectUri (sample_ar ''https://web/cb'')) =
      Inr \<lparr>url_head = ''https://web/cb'', url_RawQuery = [], url_ForceQuery = False, url_tail = []\<rparr>"
    by (simp add: url_parse_def test_env_def sample_ar_def)
  note e = issue_code_effect [OF run uuid_ok_test_env]
  have ok: "clock_ok ?s" by simp
  have "res = Inr ()" using e(2) [OF ok p] by blast
  then have b: "BeginAuthorizationFlow test_env (authorize_request ''https://web/cb'') ?s = (Inr (), w1)"
    using sample_authorized [of ?s] run by simp
  have none: "code_state test_env ?s (fresh_token test_env ?s) = None"
    by (simp add: code_state_def kv_view_def)
  have changed: "code_state test_env w1 (fresh_token test_env ?s) \<noteq> code_state test_env ?s (fresh_token test_env ?s)"
    using e(1) [OF ok, of "fresh_token test_env ?s"] none by simp
  from authorization_endpoint_sound [OF uuid_ok_test_env ok b] changed
  obtain ar vs app s where a: "code_allowed test_env (authorize_request ''https://web/cb'') (w_stores ?s) ar vs app s"
    "code_state test_env w1 (fresh_token test_env ?s) = Some (issued_code ar vs app s)" by auto
  have "s = sample_session_of_7" using a(1) by (simp add: code_allowed_def)
  then show ?thesis using b a(2) by (simp add: issued_code_def NewCodeInfo_def sample_session_of_7_def)
qed


theorem open_redirect_witness:
  "\<exists>w'. BeginAuthorizationFlow test_env (authorize_request ''https://evil'') (oidc_world []) = (Inr (), w') \<and>
     (\<exists>q. w_out w' = [Redirect (''https://evil'' @ CHR ''?'' # q) 302])"
proof -
  let ?u = "\<lparr>url_head = ''https://evil'', url_RawQuery = [], url_ForceQuery = False, url_tail = []\<rparr>"
  have ar: "ar_ApplicationName (sample_ar ''https://evil'') = ''web''" "ar_RedirectUri (sample_ar ''https://evil'') = ''https://evil''"
    by (simp_all add: sample_ar_def)
  have p: "url_parse test_env ''https://evil'' = Inr ?u" by (simp add: url_parse_def test_env_def)
  obtain q w' where r: "BeginAuthorizationFlow test_env (authorize_request ''https://evil'') (oidc_world []) = (Inr (), w')"
    "w_out w' = w_out (oidc_world []) @ [Redirect (url_String (?u\<lparr>url_RawQuery := q\<rparr>)) 302]"
    "Values_Get ''error'' (ParseQuery q) = ''invalid_redirect_uri''"
    using open_redirect [of "authorize_request ''https://evil''" test_env "sample_ar ''https://evil''" "oidc_world []" sample_vs web_app ?u]
      authorize_request_read ar p by auto
  have "q \<noteq> []" using r(3) by (auto simp: ParseQuery_def Values_Get_def List.map_filter_simps parse_piece_def)
  then show ?thesis using r(1,2) by (simp add: url_String_def)
qed

section \<open>Token exchange\<close>

definition robot_claims :: json_obj where
  "robot_claims = [(''sub'', JStr ''robot''), (''iss'', JStr ''robot''), (''aud'', JStr ''web''), (''scopes'', JStr ''openid'')]"

definition exchange_env :: env where
  "exchange_env = test_env
     \<lparr>e_jwt_Parse := (\<lambda>_ s _ _. if s = ''tok'' then Some robot_claims else None),
      e_jwt_ParseUnverified := (\<lambda>s. if s = ''tok'' then Some robot_claims else None),
      e_jwt_Header := (\<lambda>_. [(''kid'', JStr ''k1'')])\<rparr>"

definition exchange_request :: http_request where
  "exchange_request = form_post [(''subject_token'', ''tok''), (''subject_token_type'', ''saml'')]"

lemma sample_exchanged:
  "\<exists>w1 token. handleTokenExchange exchange_env exchange_request (oidc_world []) = (Inr (), w1) \<and>
     w_out w1 = [HttpError 500, WriteJson (TokenExchangeResponse_json token)]"
proof -
  let ?c = "[((''a'', SigningAlgorithmEdDSA), token_key)]"
  let ?s = "(oidc_world [])\<lparr>w_out := [HttpError 500]\<rparr>"
  have st: "w_stores ?s = oidc_stores" "w_keycache ?s = ?c" by (simp_all add: w_stores_def [symmetric] oidc_world_def world_with_def newContext_def)
      (simp_all add: w_stores_def)
  have env: "e_jwt_GetSubject exchange_env robot_claims = Some ''robot''" "e_jwt_GetIssuer exchange_env robot_claims = Some ''robot''"
    "e_jwt_GetAudience exchange_env robot_claims = Some [''web'']" "map_of robot_claims ''scopes'' = Some (JStr ''openid'')"
    "e_jwt_Header exchange_env ''tok'' = [(''kid'', JStr ''k1'')]" "e_jwt_Parse exchange_env now ''tok'' alg key = Some robot_claims"
    "e_jwt_ParseUnverified exchange_env ''tok'' = Some robot_claims" "e_jwt_Algorithm exchange_env ''tok'' = Some ''EdDSA''"
    "e_pem_Decode exchange_env ''pem'' = Some ''pem''" "e_ParsePKIXPublicKey exchange_env ''pem'' = Some (Ed25519PublicKey ''pem'')"
    "e_jwt_Sign exchange_env m k h c \<noteq> None" for now alg key m k h c
    by (simp_all add: exchange_env_def test_env_def robot_claims_def)
  have robot_id: "bm_id (u_base robot) = 20" "u_serviceUser robot" by (simp_all add: robot_def NewUser_def NewBaseModel_def)
  have cred: "CredentialRepository_FirstOrNil (st_Credentials oidc_stores) (service_key_filter 20 ''k1'') =
      Inr (Some (NewCredential 21 0 20 (CredentialServiceUserKey ''k1'' ''pem'')))"
    by (simp add: oidc_stores_def robot_def NewUser_def NewBaseModel_def CredentialRepository_FirstOrNil_def
        CredentialRepository_filtered_def repo_filtered_def Credential_matches_def service_key_filter_def filter_defs
        NewCredential_def detail_kid_def)
  have key: "service_user_key exchange_env sample_vs [(''kid'', JStr ''k1'')] robot_claims ?s = (Inr (Ed25519PublicKey ''pem''), ?s)"
    by (simp add: service_user_key_def bnd_def wrapped_def env user_named_eq st robot_id db_read_def cred
        Credential_ServiceUserKeyDetails_def NewCredential_def)
  have parse: "parse_subject_token exchange_env sample_vs ''tok'' ?s = (Inr robot_claims, ?s)"
    by (simp add: parse_subject_token_def env bnd_def wrapped_def key get_now_def)
  let ?p = "exchange_params exchange_env sample_vs robot ''web'' web_app [''openid''] token_key (w_now ?s)"
  have "\<exists>t. generateAccessToken exchange_env ?p ?s = (Inr t, ?s)"
    by (rule access_token_exists [where u = robot]) (simp_all add: env exchange_params_def st robot_id)
  then obtain t where t: "generateAccessToken exchange_env ?p ?s = (Inr t, ?s)" by blast
  have key_ok: "get_key ''a'' SigningAlgorithmEdDSA ?s = (Inr token_key, ?s)"
    unfolding get_key_Inr using key_for_sample [OF st(2)] st(2)
    by (intro exI [of _ ?c]) (simp add: oidc_world_def world_with_def)
  have split: "Split ''openid'' CHR '' '' = [''openid'']" by simp
  have "exchange_token exchange_env exchange_request ''tok'' ?s = (Inr (), ?s\<lparr>w_out := [HttpError 500, WriteJson (TokenExchangeResponse_json t)]\<rparr>)"
    using t
    by (simp add: exchange_token_def or_http_def or_answer_def wrapped_def vs_or_nil_eq GetVirtualServerName_def
      exchange_request_def parse exchange_claims_def env user_named_eq st split issue_exchanged_def app_or_nil_eq key_ok
      bnd_def get_now_def emit_def)
  then show ?thesis
    by (simp add: handleTokenExchange_def exchange_request_def form_def bnd_def Let_def HandleHttpError_def emit_def http_status_of_def) blast
qed

theorem token_exchange_sound_witness:
  "\<exists>w1 u app scopes. handleTokenExchange exchange_env exchange_request (oidc_world []) = (Inr (), w1) \<and>
     exchange_proved exchange_env oidc_stores 0 sample_vs ''tok'' u app scopes"
proof -
  obtain w1 token where run: "handleTokenExchange exchange_env exchange_request (oidc_world []) = (Inr (), w1)"
    "w_out w1 = [HttpError 500, WriteJson (TokenExchangeResponse_json token)]" using sample_exchanged by blast
  have "jwt_ok exchange_env" by (simp add: jwt_ok_def exchange_env_def)
  from token_exchange_sound [OF this run(1), of "TokenExchangeResponse_json token"] run(2)
  have "\<exists>vs u app scopes. vs_named oidc_stores (hr_vsName exchange_request) = Some vs \<and>
      exchange_proved exchange_env oidc_stores 0 vs (hr_Form exchange_request ''subject_token'') u app scopes"
    by fastforce
  then show ?thesis using run(1) by (auto simp: exchange_request_def form_def)
qed

end
