(* ===== verification/Password.thy ===== *)
theory Password
  imports Login OidcTokens
begin

text \<open>
  Password rules (\<^verbatim>\<open>internal/password\<close>): the policies, their stored form and the
  validator that collects them for a virtual server. The list of common passwords is embedded
  in the program from a file; its text is an argument here. A password is a list of bytes: the
  characters the policies count are ASCII, and no byte of a longer UTF-8 sequence is.
\<close>

section \<open>Policies\<close>

datatype policy =
    MinLengthPolicy int | MaxLengthPolicy int | MinimumNumbersPolicy int | MinimumLowerCasePolicy int
  | MinimumUpperCasePolicy int | MinimumSpecialPolicy int | CommonPolicy

fun digits_of :: "nat \<Rightarrow> string" where
  "digits_of n = (if n < 10 then [char_of (48 + n)] else digits_of (n div 10) @ [char_of (48 + n mod 10)])"

declare digits_of.simps [simp del]

definition Itoa :: "int \<Rightarrow> string" where
  "Itoa i = (if i < 0 then CHR ''-'' # digits_of (nat (- i)) else digits_of (nat i))"

definition between :: "char \<Rightarrow> char \<Rightarrow> char \<Rightarrow> bool" where
  "between a b c \<longleftrightarrow> of_char a \<le> (of_char c :: nat) \<and> (of_char c :: nat) \<le> of_char b"

definition is_digit :: "char \<Rightarrow> bool" where
  "is_digit = between CHR ''0'' CHR ''9''"

definition is_lower_case :: "char \<Rightarrow> bool" where
  "is_lower_case = between CHR ''a'' CHR ''z''"

definition is_upper_case :: "char \<Rightarrow> bool" where
  "is_upper_case = between CHR ''A'' CHR ''Z''"

definition is_special :: "char \<Rightarrow> bool" where
  "is_special c \<longleftrightarrow> between CHR ''!'' CHR ''/'' c \<or> between CHR '':'' CHR ''@'' c \<or> between CHR ''['' CHR 0x60 c"

definition at_least :: "string \<Rightarrow> (char \<Rightarrow> bool) \<Rightarrow> int \<Rightarrow> string \<Rightarrow> unit go" where
  "at_least kind p minAmount password =
     (if int (length (filter p password)) < minAmount
      then Inl (Err (ErrorsNew (''password must contain at least '' @ Itoa minAmount @ '' '' @ kind @ '' characters'')))
      else Inr ())"

text \<open>The words of the embedded list: its lines that are not empty.\<close>

definition wordsSet :: "string \<Rightarrow> string set" where
  "wordsSet content = set (filter (\<lambda>line. line \<noteq> []) (Split content CHR 0x0A))"

definition minLengthPolicy_Validate :: "int \<Rightarrow> string \<Rightarrow> unit go" where
  "minLengthPolicy_Validate n password = (if int (length password) < n
      then Inl (Err (ErrorsNew (''password must be at least '' @ Itoa n @ '' characters long''))) else Inr ())"

definition maxLengthPolicy_Validate :: "int \<Rightarrow> string \<Rightarrow> unit go" where
  "maxLengthPolicy_Validate n password = (if int (length password) > n
      then Inl (Err (ErrorsNew (''password must be at most '' @ Itoa n @ '' characters long''))) else Inr ())"

definition minimumNumbersPolicy_Validate :: "int \<Rightarrow> string \<Rightarrow> unit go" where
  "minimumNumbersPolicy_Validate n password = at_least ''numeric'' is_digit n password"

definition minimumLowerCasePolicy_Validate :: "int \<Rightarrow> string \<Rightarrow> unit go" where
  "minimumLowerCasePolicy_Validate n password = at_least ''lowercase'' is_lower_case n password"

definition minimumUpperCasePolicy_Validate :: "int \<Rightarrow> string \<Rightarrow> unit go" where
  "minimumUpperCasePolicy_Validate n password = at_least ''uppercase'' is_upper_case n password"

definition minimumSpecialPolicy_Validate :: "int \<Rightarrow> string \<Rightarrow> unit go" where
  "minimumSpecialPolicy_Validate n password = at_least ''special'' is_special n password"

definition commonPolicy_Validate :: "string \<Rightarrow> string \<Rightarrow> unit go" where
  "commonPolicy_Validate content password =
     (if password \<in> wordsSet content then Inl (Err (ErrorsNew ''password is a common password'')) else Inr ())"

fun Policy_Validate :: "string \<Rightarrow> policy \<Rightarrow> string \<Rightarrow> unit go" where
  "Policy_Validate content (MinLengthPolicy n) password = minLengthPolicy_Validate n password"
| "Policy_Validate content (MaxLengthPolicy n) password = maxLengthPolicy_Validate n password"
| "Policy_Validate content (MinimumNumbersPolicy n) password = minimumNumbersPolicy_Validate n password"
| "Policy_Validate content (MinimumLowerCasePolicy n) password = minimumLowerCasePolicy_Validate n password"
| "Policy_Validate content (MinimumUpperCasePolicy n) password = minimumUpperCasePolicy_Validate n password"
| "Policy_Validate content (MinimumSpecialPolicy n) password = minimumSpecialPolicy_Validate n password"
| "Policy_Validate content CommonPolicy password = commonPolicy_Validate content password"

definition amount_json :: "string \<Rightarrow> int \<Rightarrow> jtext go" where
  "amount_json member n = json_Marshal (JObj [(member, JNum n)])"

definition minLengthPolicy_Serialize :: "int \<Rightarrow> jtext go" where
  "minLengthPolicy_Serialize n = wrap ''failed to serialize min length rule'' (amount_json ''minLength'' n)"

definition maxLengthPolicy_Serialize :: "int \<Rightarrow> jtext go" where
  "maxLengthPolicy_Serialize n = wrap ''failed to serialize max length rule'' (amount_json ''maxLength'' n)"

definition minimumNumbersPolicy_Serialize :: "int \<Rightarrow> jtext go" where
  "minimumNumbersPolicy_Serialize n = wrap ''failed to serialize digit rule'' (amount_json ''minAmount'' n)"

definition minimumLowerCasePolicy_Serialize :: "int \<Rightarrow> jtext go" where
  "minimumLowerCasePolicy_Serialize n = wrap ''failed to serialize lower case rule'' (amount_json ''minAmount'' n)"

definition minimumUpperCasePolicy_Serialize :: "int \<Rightarrow> jtext go" where
  "minimumUpperCasePolicy_Serialize n = wrap ''failed to serialize upper case rule'' (amount_json ''minAmount'' n)"

definition minimumSpecialPolicy_Serialize :: "int \<Rightarrow> jtext go" where
  "minimumSpecialPolicy_Serialize n = wrap ''failed to serialize special character rule'' (amount_json ''minAmount'' n)"

text \<open>The policy of the common passwords is made by the validator and never stored.\<close>

fun Policy_Serialize :: "policy \<Rightarrow> jtext go" where
  "Policy_Serialize (MinLengthPolicy n) = minLengthPolicy_Serialize n"
| "Policy_Serialize (MaxLengthPolicy n) = maxLengthPolicy_Serialize n"
| "Policy_Serialize (MinimumNumbersPolicy n) = minimumNumbersPolicy_Serialize n"
| "Policy_Serialize (MinimumLowerCasePolicy n) = minimumLowerCasePolicy_Serialize n"
| "Policy_Serialize (MinimumUpperCasePolicy n) = minimumUpperCasePolicy_Serialize n"
| "Policy_Serialize (MinimumSpecialPolicy n) = minimumSpecialPolicy_Serialize n"
| "Policy_Serialize CommonPolicy = Inl (Panic ''unreachable'')"

lemmas policy_defs [simp] =
  minLengthPolicy_Validate_def minLengthPolicy_Serialize_def maxLengthPolicy_Validate_def maxLengthPolicy_Serialize_def minimumNumbersPolicy_Validate_def minimumNumbersPolicy_Serialize_def minimumLowerCasePolicy_Validate_def minimumLowerCasePolicy_Serialize_def minimumUpperCasePolicy_Validate_def minimumUpperCasePolicy_Serialize_def minimumSpecialPolicy_Validate_def minimumSpecialPolicy_Serialize_def commonPolicy_Validate_def

fun GetPasswordRuleType :: "policy \<Rightarrow> password_rule_type go" where
  "GetPasswordRuleType (MinLengthPolicy _) = Inr PasswordRuleTypeMinLength"
| "GetPasswordRuleType (MaxLengthPolicy _) = Inr PasswordRuleTypeMaxLength"
| "GetPasswordRuleType (MinimumNumbersPolicy _) = Inr PasswordRuleTypeDigits"
| "GetPasswordRuleType (MinimumLowerCasePolicy _) = Inr PasswordRuleTypeLowerCase"
| "GetPasswordRuleType (MinimumUpperCasePolicy _) = Inr PasswordRuleTypeUpperCase"
| "GetPasswordRuleType (MinimumSpecialPolicy _) = Inr PasswordRuleTypeSpecial"
| "GetPasswordRuleType CommonPolicy = Inl (Panic ''unreachable'')"

section \<open>The stored form\<close>

text \<open>
  The details come from a request, so the decoder's comparison of member names is modelled: it
  ignores case, a later member wins, null changes nothing, and a number must fit in 64 bits.
\<close>

definition int64 :: "int \<Rightarrow> bool" where
  "int64 i \<longleftrightarrow> - (2 ^ 63) \<le> i \<and> i < 2 ^ 63"

fun read_amount :: "string \<Rightarrow> json_obj \<Rightarrow> int \<Rightarrow> int go" where
  "read_amount member [] n = Inr n"
| "read_amount member ((k, j) # ms) n =
     (if EqualFold k member then
        (case j of
           JNull \<Rightarrow> read_amount member ms n
         | JNum i \<Rightarrow> if int64 i then read_amount member ms i else type_error
         | _ \<Rightarrow> type_error)
      else read_amount member ms n)"

definition Unmarshal_amount :: "string \<Rightarrow> jtext \<Rightarrow> int go" where
  "Unmarshal_amount member jsonBytes =
     go_bind (json_Unmarshal jsonBytes) (\<lambda>j. go_bind (as_object j) (\<lambda>ms. read_amount member ms 0))"

text \<open>The cases of the length rules do not return, and the statement after the switch panics.\<close>

definition DeserializePolicy :: "password_rule_type \<Rightarrow> jtext \<Rightarrow> policy go" where
  "DeserializePolicy ruleType jsonBytes =
     (case ruleType of
        PasswordRuleTypeMinLength \<Rightarrow>
          go_bind (wrap ''failed to unmarshal min length rule'' (Unmarshal_amount ''minLength'' jsonBytes))
            (\<lambda>_. Inl (Panic ''unreachable''))
      | PasswordRuleTypeMaxLength \<Rightarrow>
          go_bind (wrap ''failed to unmarshal max length rule'' (Unmarshal_amount ''maxLength'' jsonBytes))
            (\<lambda>_. Inl (Panic ''unreachable''))
      | PasswordRuleTypeDigits \<Rightarrow>
          go_bind (wrap ''failed to unmarshal number rule'' (Unmarshal_amount ''minAmount'' jsonBytes))
            (\<lambda>n. Inr (MinimumNumbersPolicy n))
      | PasswordRuleTypeLowerCase \<Rightarrow>
          go_bind (wrap ''failed to unmarshal lower case rule'' (Unmarshal_amount ''minAmount'' jsonBytes))
            (\<lambda>n. Inr (MinimumLowerCasePolicy n))
      | PasswordRuleTypeUpperCase \<Rightarrow>
          go_bind (wrap ''failed to unmarshal upper case rule'' (Unmarshal_amount ''minAmount'' jsonBytes))
            (\<lambda>n. Inr (MinimumUpperCasePolicy n))
      | PasswordRuleTypeSpecial \<Rightarrow>
          go_bind (wrap ''failed to unmarshal special rule'' (Unmarshal_amount ''minAmount'' jsonBytes))
            (\<lambda>n. Inr (MinimumSpecialPolicy n))
      | OtherPasswordRuleType s \<Rightarrow> Inl (Err (ErrorsNew (''unknown password rule type: '' @ s))))"

section \<open>The validator\<close>

text \<open>The loop over the rules: an error is collected, a panic ends it.\<close>

fun collect_errors :: "unit go list \<Rightarrow> goerr list go" where
  "collect_errors [] = Inr []"
| "collect_errors (r # rs) =
     (case r of
        Inl (Panic p) \<Rightarrow> Inl (Panic p)
      | Inl (Err e) \<Rightarrow> go_bind (collect_errors rs) (\<lambda>es. Inr (e # es))
      | Inr _ \<Rightarrow> collect_errors rs)"

definition errors_Join :: "goerr list \<Rightarrow> unit go" where
  "errors_Join es = (if es = [] then Inr () else Inl (Err (Joined es)))"

definition Validator_Validate :: "string \<Rightarrow> req_ctx \<Rightarrow> string \<Rightarrow> unit act" where
  "Validator_Validate content ctx password =
     bnd (wrapped ''failed to get virtual server name''
            (if rc_vsName ctx = [] then err (Named ErrMissingVirtualServerNameInContext) else ret (rc_vsName ctx)))
       (\<lambda>vsName.
     bnd (wrapped ''failed to get virtual server'' (vs_by_name vsName)) (\<lambda>virtualServer.
     bnd (wrapped ''failed to get password rules'' (db_read (\<lambda>st.
            PasswordRuleRepository_List (st_PasswordRules st)
              (PasswordRuleFilter_VirtualServerId (bm_id (vs_base virtualServer)) NewPasswordRuleFilter))))
       (\<lambda>passwordRules.
     bnd (wrapped ''failed to deserialize password rule''
            (lift (map_go (\<lambda>r. DeserializePolicy (pr_type r) (pr_details r)) passwordRules))) (\<lambda>rules.
     bnd (lift (collect_errors (map (\<lambda>rule. Policy_Validate content rule password) (rules @ [CommonPolicy]))))
       (\<lambda>aggregateErr. lift (errors_Join aggregateErr))))))"

end
