(* ===== verification/Commands.thy ===== *)
theory Commands
  imports Password
begin

text \<open>
  The commands of the mediator (\<^verbatim>\<open>internal/commands\<close>): per command its record, its methods of the
  interface \<^verbatim>\<open>Policy\<close>, and its handler. A command whose type lacks a method of the interface has no
  \<open>_Policy\<close>. A nil map is None. The repositories of the memory database hand out pointers to the
  stored entities, so a setter changes the store at once, before the entity is tracked and saved;
  the operations \<open>edit_\<dots>\<close> below do that.
\<close>

section \<open>Values in requests\<close>

fun application_type_String :: "application_type \<Rightarrow> string" where
  "application_type_String ApplicationTypePublic = ''public''"
| "application_type_String ApplicationTypeConfidential = ''confidential''"
| "application_type_String (OtherApplicationType s) = s"

definition ApplicationType :: "string \<Rightarrow> application_type" where
  "ApplicationType s = (if s = ''public'' then ApplicationTypePublic
     else if s = ''confidential'' then ApplicationTypeConfidential else OtherApplicationType s)"

fun password_rule_type_String :: "password_rule_type \<Rightarrow> string" where
  "password_rule_type_String PasswordRuleTypeMinLength = ''min_length''"
| "password_rule_type_String PasswordRuleTypeMaxLength = ''max_length''"
| "password_rule_type_String PasswordRuleTypeLowerCase = ''lower_case''"
| "password_rule_type_String PasswordRuleTypeUpperCase = ''upper_case''"
| "password_rule_type_String PasswordRuleTypeDigits = ''digits''"
| "password_rule_type_String PasswordRuleTypeSpecial = ''special''"
| "password_rule_type_String (OtherPasswordRuleType s) = s"

definition PasswordRuleType :: "string \<Rightarrow> password_rule_type" where
  "PasswordRuleType s =
     (if s = ''min_length'' then PasswordRuleTypeMinLength else if s = ''max_length'' then PasswordRuleTypeMaxLength
      else if s = ''lower_case'' then PasswordRuleTypeLowerCase else if s = ''upper_case'' then PasswordRuleTypeUpperCase
      else if s = ''digits'' then PasswordRuleTypeDigits else if s = ''special'' then PasswordRuleTypeSpecial
      else OtherPasswordRuleType s)"

definition json_pointer :: "('a \<Rightarrow> json) \<Rightarrow> 'a option \<Rightarrow> json" where
  "json_pointer f v = (case v of None \<Rightarrow> JNull | Some x \<Rightarrow> f x)"

definition json_map :: "json_obj option \<Rightarrow> json" where
  "json_map m = (case m of None \<Rightarrow> JNull | Some ms \<Rightarrow> JObj ms)"

section \<open>Steps the handlers share\<close>

definition the_vs :: "string \<Rightarrow> virtual_server act" where
  "the_vs name = wrapped ''getting virtual server'' (vs_by_name name)"

definition the_project :: "virtual_server \<Rightarrow> string \<Rightarrow> project act" where
  "the_project virtualServer slug =
     wrapped ''getting project'' (db_read (\<lambda>st. ProjectRepository_FirstOrErr (st_Projects st)
       (ProjectFilter_Slug slug (ProjectFilter_VirtualServerId (bm_id (vs_base virtualServer)) NewProjectFilter))))"

definition fresh :: "env \<Rightarrow> (uuid \<Rightarrow> time \<Rightarrow> 'e) \<Rightarrow> 'e act" where
  "fresh E new = bnd (uuid_New E) (\<lambda>i. bnd get_now (\<lambda>now. ret (new i now)))"

text \<open>What belongs to the system project may only be touched with the permission of the system user.\<close>

definition system_guard :: "req_ctx \<Rightarrow> project \<Rightarrow> string \<Rightarrow> unit act" where
  "system_guard ctx project message =
     (if p_systemProject project then
        bnd (lift (GetCurrentUser ctx)) (\<lambda>currentUser.
          if HasPermission currentUser SystemUser = None then err (Wrap message (Named ErrHttpUnauthorized))
          else ret ())
      else ret ())"

definition set_optional :: "('v \<Rightarrow> 'e \<Rightarrow> 'e) \<Rightarrow> 'v option \<Rightarrow> 'e \<Rightarrow> 'e" where
  "set_optional setter v e = (case v of None \<Rightarrow> e | Some x \<Rightarrow> setter x e)"

definition db_alter :: "(stores \<Rightarrow> stores) \<Rightarrow> unit act" where
  "db_alter f w = (Inr (), w\<lparr>w_db := (w_db w)\<lparr>db_stores := f (db_stores (w_db w))\<rparr>\<rparr>)"

definition edit_application :: "application \<Rightarrow> (application \<Rightarrow> application) \<Rightarrow> application act" where
  "edit_application a f =
     bnd (db_alter (\<lambda>st. st\<lparr>st_Applications := AList.map_entry (bm_id (app_base a)) (\<lambda>_. f a) (st_Applications st)\<rparr>))
       (\<lambda>_. ret (f a))"

definition edit_project :: "project \<Rightarrow> (project \<Rightarrow> project) \<Rightarrow> project act" where
  "edit_project a f =
     bnd (db_alter (\<lambda>st. st\<lparr>st_Projects := AList.map_entry (bm_id (p_base a)) (\<lambda>_. f a) (st_Projects st)\<rparr>))
       (\<lambda>_. ret (f a))"

definition edit_role :: "role \<Rightarrow> (role \<Rightarrow> role) \<Rightarrow> role act" where
  "edit_role a f =
     bnd (db_alter (\<lambda>st. st\<lparr>st_Roles := AList.map_entry (bm_id (ro_base a)) (\<lambda>_. f a) (st_Roles st)\<rparr>)) (\<lambda>_. ret (f a))"

definition edit_user :: "user \<Rightarrow> (user \<Rightarrow> user) \<Rightarrow> user act" where
  "edit_user a f =
     bnd (db_alter (\<lambda>st. st\<lparr>st_Users := AList.map_entry (bm_id (u_base a)) (\<lambda>_. f a) (st_Users st)\<rparr>)) (\<lambda>_. ret (f a))"

definition edit_resource_server :: "resource_server \<Rightarrow> (resource_server \<Rightarrow> resource_server) \<Rightarrow> resource_server act" where
  "edit_resource_server a f =
     bnd (db_alter (\<lambda>st. st\<lparr>st_ResourceServers :=
            AList.map_entry (bm_id (rs_base a)) (\<lambda>_. f a) (st_ResourceServers st)\<rparr>)) (\<lambda>_. ret (f a))"

definition edit_virtual_server :: "virtual_server \<Rightarrow> (virtual_server \<Rightarrow> virtual_server) \<Rightarrow> virtual_server act" where
  "edit_virtual_server a f =
     bnd (db_alter (\<lambda>st. st\<lparr>st_VirtualServers :=
            AList.map_entry (bm_id (vs_base a)) (\<lambda>_. f a) (st_VirtualServers st)\<rparr>)) (\<lambda>_. ret (f a))"

definition edit_metadata ::
  "application_user_metadata \<Rightarrow> (application_user_metadata \<Rightarrow> application_user_metadata) \<Rightarrow> application_user_metadata act" where
  "edit_metadata a f =
     bnd (db_alter (\<lambda>st. st\<lparr>st_ApplicationUserMetadata :=
            AList.map_entry (bm_id (aum_base a)) (\<lambda>_. f a) (st_ApplicationUserMetadata st)\<rparr>)) (\<lambda>_. ret (f a))"

definition edit_password_rule :: "password_rule \<Rightarrow> password_rule \<Rightarrow> password_rule act" where
  "edit_password_rule a b =
     bnd (db_alter (\<lambda>st. st\<lparr>st_PasswordRules := AList.map_entry (bm_id (pr_base a)) (\<lambda>_. b) (st_PasswordRules st)\<rparr>))
       (\<lambda>_. ret b)"

section \<open>Projects\<close>

record create_project =
  cp_VirtualServerName :: string
  cp_Slug :: string
  cp_Name :: string
  cp_Description :: string

definition CreateProject_Policy :: "env \<Rightarrow> create_project \<Rightarrow> request" where
  "CreateProject_Policy E a =
     \<lparr>rq_IsAllowed = PermissionBasedPolicy ProjectCreate, rq_Name = ''CreateProject'',
      rq_LogRequest = True, rq_LogResponse = True,
      rq_json = JObj
        [(''VirtualServerName'', JStr (cp_VirtualServerName a)), (''Slug'', JStr (cp_Slug a)),
         (''Name'', JStr (cp_Name a)), (''Description'', JStr (cp_Description a))]\<rparr>"

definition HandleCreateProject :: "env \<Rightarrow> create_project \<Rightarrow> uuid act" where
  "HandleCreateProject E command =
     bnd (the_vs (cp_VirtualServerName command)) (\<lambda>virtualServer.
     bnd (fresh E (\<lambda>i now. NewProject i now (bm_id (vs_base virtualServer)) (cp_Slug command) (cp_Name command)
            (cp_Description command))) (\<lambda>project.
     bnd (db_write (ProjectRepository_Insert project)) (\<lambda>_. ret (bm_id (p_base project)))))"

record patch_project =
  pp_VirtualServerName :: string
  pp_Slug :: string
  pp_Name :: "string option"
  pp_Description :: "string option"

definition PatchProject_Policy :: "env \<Rightarrow> patch_project \<Rightarrow> request" where
  "PatchProject_Policy E a =
     \<lparr>rq_IsAllowed = PermissionBasedPolicy ProjectUpdate, rq_Name = ''PatchProject'',
      rq_LogRequest = True, rq_LogResponse = True,
      rq_json = JObj
        [(''VirtualServerName'', JStr (pp_VirtualServerName a)), (''Slug'', JStr (pp_Slug a)),
         (''Name'', json_pointer JStr (pp_Name a)),
         (''Description'', json_pointer JStr (pp_Description a))]\<rparr>"

definition HandlePatchProject :: "patch_project \<Rightarrow> unit act" where
  "HandlePatchProject command =
     bnd (the_vs (pp_VirtualServerName command)) (\<lambda>virtualServer.
     bnd (the_project virtualServer (pp_Slug command)) (\<lambda>project.
     bnd (edit_project project (\<lambda>project.
            set_optional Project_SetDescription (pp_Description command)
              (set_optional Project_SetName (pp_Name command) project))) (\<lambda>project.
     db_write (ProjectRepository_Update project))))"

section \<open>Roles\<close>

record create_role =
  cro_VirtualServerName :: string
  cro_ProjectSlug :: string
  cro_Name :: string
  cro_Description :: string

definition CreateRole_Policy :: "env \<Rightarrow> create_role \<Rightarrow> request" where
  "CreateRole_Policy E a =
     \<lparr>rq_IsAllowed = PermissionBasedPolicy RoleCreate, rq_Name = ''CreateRole'',
      rq_LogRequest = True, rq_LogResponse = True,
      rq_json = JObj
        [(''VirtualServerName'', JStr (cro_VirtualServerName a)),
         (''ProjectSlug'', JStr (cro_ProjectSlug a)), (''Name'', JStr (cro_Name a)),
         (''Description'', JStr (cro_Description a))]\<rparr>"

text \<open>No handler is registered for the event \<^verbatim>\<open>RoleCreatedEvent\<close>, so sending it does nothing.\<close>

definition HandleCreateRole :: "env \<Rightarrow> req_ctx \<Rightarrow> create_role \<Rightarrow> uuid act" where
  "HandleCreateRole E ctx command =
     bnd (the_vs (cro_VirtualServerName command)) (\<lambda>virtualServer.
     bnd (the_project virtualServer (cro_ProjectSlug command)) (\<lambda>project.
     bnd (system_guard ctx project ''creating roles in system project requires system user permission'') (\<lambda>_.
     bnd (fresh E (\<lambda>i now. NewRole i now (bm_id (vs_base virtualServer)) (bm_id (p_base project)) (cro_Name command)
            (cro_Description command))) (\<lambda>role.
     bnd (db_write (RoleRepository_Insert role)) (\<lambda>_. ret (bm_id (ro_base role)))))))"

definition role_filter_of :: "virtual_server \<Rightarrow> project \<Rightarrow> uuid \<Rightarrow> role_filter" where
  "role_filter_of virtualServer project roleId =
     RoleFilter_Id roleId (RoleFilter_ProjectId (bm_id (p_base project))
       (RoleFilter_VirtualServerId (bm_id (vs_base virtualServer)) NewRoleFilter))"

record patch_role =
  pro_VirtualServerName :: string
  pro_ProjectSlug :: string
  pro_RoleId :: uuid
  pro_Name :: "string option"
  pro_Description :: "string option"

definition PatchRole_Policy :: "env \<Rightarrow> patch_role \<Rightarrow> request" where
  "PatchRole_Policy E a =
     \<lparr>rq_IsAllowed = PermissionBasedPolicy RoleUpdate, rq_Name = ''PatchRole'',
      rq_LogRequest = True, rq_LogResponse = True,
      rq_json = JObj
        [(''VirtualServerName'', JStr (pro_VirtualServerName a)),
         (''ProjectSlug'', JStr (pro_ProjectSlug a)),
         (''RoleId'', JStr (e_uuid_String E (pro_RoleId a))),
         (''Name'', json_pointer JStr (pro_Name a)),
         (''Description'', json_pointer JStr (pro_Description a))]\<rparr>"

definition HandlePatchRole :: "req_ctx \<Rightarrow> patch_role \<Rightarrow> unit act" where
  "HandlePatchRole ctx command =
     bnd (the_vs (pro_VirtualServerName command)) (\<lambda>virtualServer.
     bnd (the_project virtualServer (pro_ProjectSlug command)) (\<lambda>project.
     bnd (system_guard ctx project ''modifying roles in system project requires system user permission'') (\<lambda>_.
     bnd (wrapped ''getting role'' (db_read (\<lambda>st. RoleRepository_FirstOrErr (st_Roles st)
            (role_filter_of virtualServer project (pro_RoleId command))))) (\<lambda>role.
     bnd (edit_role role (\<lambda>role.
            set_optional Role_SetDescription (pro_Description command)
              (set_optional Role_SetName (pro_Name command) role))) (\<lambda>role.
     db_write (RoleRepository_Update role))))))"

record delete_role =
  dr_VirtualServerName :: string
  dr_ProjectSlug :: string
  dr_RoleId :: uuid

definition DeleteRole_Policy :: "env \<Rightarrow> delete_role \<Rightarrow> request" where
  "DeleteRole_Policy E a =
     \<lparr>rq_IsAllowed = PermissionBasedPolicy RoleDelete, rq_Name = ''DeleteRole'',
      rq_LogRequest = True, rq_LogResponse = True,
      rq_json = JObj
        [(''VirtualServerName'', JStr (dr_VirtualServerName a)),
         (''ProjectSlug'', JStr (dr_ProjectSlug a)), (''RoleId'', JStr (e_uuid_String E (dr_RoleId a)))]\<rparr>"

definition HandleDeleteRole :: "req_ctx \<Rightarrow> delete_role \<Rightarrow> unit act" where
  "HandleDeleteRole ctx command =
     bnd (the_vs (dr_VirtualServerName command)) (\<lambda>virtualServer.
     bnd (the_project virtualServer (dr_ProjectSlug command)) (\<lambda>project.
     bnd (system_guard ctx project ''deleting roles in system project requires system user permission'') (\<lambda>_.
     bnd (wrapped ''getting role'' (db_read (\<lambda>st. RoleRepository_FirstOrNil (st_Roles st)
            (role_filter_of virtualServer project (dr_RoleId command))))) (\<lambda>role.
       case role of
         None \<Rightarrow> ret ()
       | Some role \<Rightarrow> db_write (RoleRepository_Delete (bm_id (ro_base role)))))))"

record assign_role_to_user =
  aru_VirtualServerName :: string
  aru_ProjectSlug :: string
  aru_UserId :: uuid
  aru_RoleId :: uuid

definition AssignRoleToUser_Policy :: "env \<Rightarrow> assign_role_to_user \<Rightarrow> request" where
  "AssignRoleToUser_Policy E a =
     \<lparr>rq_IsAllowed = PermissionBasedPolicy RoleAssign, rq_Name = ''AssignRoleToUser'',
      rq_LogRequest = True, rq_LogResponse = True,
      rq_json = JObj
        [(''VirtualServerName'', JStr (aru_VirtualServerName a)),
         (''ProjectSlug'', JStr (aru_ProjectSlug a)),
         (''UserId'', JStr (e_uuid_String E (aru_UserId a))),
         (''RoleId'', JStr (e_uuid_String E (aru_RoleId a)))]\<rparr>"

definition HandleAssignRoleToUser :: "env \<Rightarrow> req_ctx \<Rightarrow> assign_role_to_user \<Rightarrow> unit act" where
  "HandleAssignRoleToUser E ctx command =
     bnd (the_vs (aru_VirtualServerName command)) (\<lambda>virtualServer.
     bnd (the_project virtualServer (aru_ProjectSlug command)) (\<lambda>project.
     bnd (system_guard ctx project ''assigning roles in system project requires system user permission'') (\<lambda>_.
     bnd (wrapped ''getting role'' (db_read (\<lambda>st. RoleRepository_FirstOrErr (st_Roles st)
            (role_filter_of virtualServer project (aru_RoleId command))))) (\<lambda>_.
     bnd (wrapped ''getting user'' (db_read (\<lambda>st. UserRepository_FirstOrErr (st_Users st)
            (UserFilter_VirtualServerId (bm_id (vs_base virtualServer)) (UserFilter_Id (aru_UserId command) NewUserFilter)))))
       (\<lambda>_.
     bnd (fresh E (\<lambda>i now. NewUserRoleAssignment i now (aru_UserId command) (aru_RoleId command) None))
       (\<lambda>userRoleAssignment. db_write (UserRoleAssignmentRepository_Insert userRoleAssignment)))))))"

end
