(* ===== verification/CommandsApps.thy ===== *)
theory CommandsApps
  imports Commands
begin

text \<open>
  The commands on applications, resource servers with their scopes, and password rules.
\<close>

section \<open>Applications\<close>

record create_application =
  ca_VirtualServerName :: string
  ca_ProjectSlug :: string
  ca_Name :: string
  ca_DisplayName :: string
  ca_Type :: application_type
  ca_RedirectUris :: "string list"
  ca_PostLogoutRedirectUris :: "string list"
  ca_HashedSecret :: "string option"
  ca_AccessTokenHeaderType :: string
  ca_DeviceFlowEnabled :: bool
  ca_SigningAlgorithm :: "signing_algorithm option"

definition CreateApplication_Policy :: "env \<Rightarrow> create_application \<Rightarrow> request" where
  "CreateApplication_Policy E a =
     \<lparr>rq_IsAllowed = PermissionBasedPolicy ApplicationCreate, rq_Name = ''CreateApplication'',
      rq_LogRequest = True, rq_LogResponse = True,
      rq_json = JObj
        [(''VirtualServerName'', JStr (ca_VirtualServerName a)),
         (''ProjectSlug'', JStr (ca_ProjectSlug a)), (''Name'', JStr (ca_Name a)),
         (''DisplayName'', JStr (ca_DisplayName a)),
         (''Type'', JStr (application_type_String (ca_Type a))),
         (''RedirectUris'', json_strings (ca_RedirectUris a)),
         (''PostLogoutRedirectUris'', json_strings (ca_PostLogoutRedirectUris a)),
         (''HashedSecret'', json_pointer JStr (ca_HashedSecret a)),
         (''AccessTokenHeaderType'', JStr (ca_AccessTokenHeaderType a)),
         (''DeviceFlowEnabled'', JBool (ca_DeviceFlowEnabled a)),
         (''SigningAlgorithm'', json_pointer JStr (ca_SigningAlgorithm a))]\<rparr>"

text \<open>The secret of a confidential application: given as a hash, or drawn here and shown once.\<close>

definition secret_for :: "env \<Rightarrow> create_application \<Rightarrow> application \<Rightarrow> (string option \<times> application) act" where
  "secret_for E command app =
     (if ca_Type command = ApplicationTypeConfidential then
        (case ca_HashedSecret command of
           Some hashedSecret \<Rightarrow>
             ret (Some ''pre hashed secret was used'', Application_SetHashedSecret hashedSecret app)
         | None \<Rightarrow>
             bnd (GetSecureRandomBytes E 16) (\<lambda>secretBytes.
               case Application_GenerateSecret secretBytes app of (secret, app) \<Rightarrow> ret (Some secret, app)))
      else ret (None, app))"

definition HandleCreateApplication :: "env \<Rightarrow> req_ctx \<Rightarrow> create_application \<Rightarrow> (uuid \<times> string option) act" where
  "HandleCreateApplication E ctx command =
     bnd (the_vs (ca_VirtualServerName command)) (\<lambda>virtualServer.
     bnd (the_project virtualServer (ca_ProjectSlug command)) (\<lambda>project.
     bnd (system_guard ctx project ''creating applications in system project requires system user permission'') (\<lambda>_.
     bnd (fresh E (\<lambda>i now. NewApplication i now (bm_id (vs_base virtualServer)) (bm_id (p_base project))
            (ca_Name command) (ca_DisplayName command) (ca_Type command) (ca_RedirectUris command))) (\<lambda>app.
     bnd (secret_for E command app) (\<lambda>(secret, app).
       let app = Application_SetDeviceFlowEnabled (ca_DeviceFlowEnabled command)
                   (Application_SetAccessTokenHeaderType (ca_AccessTokenHeaderType command)
                     (Application_SetPostLogoutRedirectUris (ca_PostLogoutRedirectUris command) app)) in
     bnd (case ca_SigningAlgorithm command of
            None \<Rightarrow> ret app
          | Some alg \<Rightarrow>
              if \<not> VirtualServer_HasSigningAlgorithm alg virtualServer
              then err (Wrap (''signing algorithm '' @ alg @ '' is not configured on virtual server'') (Named ErrHttpBadRequest))
              else ret (Application_SetSigningAlgorithm (Some alg) app)) (\<lambda>app.
     bnd (db_write (ApplicationRepository_Insert app)) (\<lambda>_. ret (bm_id (app_base app), secret))))))))"

definition app_filter_of :: "virtual_server \<Rightarrow> project \<Rightarrow> uuid \<Rightarrow> application_filter" where
  "app_filter_of virtualServer project applicationId =
     ApplicationFilter_Id applicationId (ApplicationFilter_ProjectId (bm_id (p_base project))
       (ApplicationFilter_VirtualServerId (bm_id (vs_base virtualServer)) NewApplicationFilter))"

record patch_application =
  pa_VirtualServerName :: string
  pa_ProjectSlug :: string
  pa_ApplicationId :: uuid
  pa_DisplayName :: "string option"
  pa_ClaimsMappingScript :: "string option"
  pa_AccessTokenHeaderType :: "string option"
  pa_DeviceFlowEnabled :: "bool option"
  pa_RedirectUris :: "string list option"
  pa_PostLogoutRedirectUris :: "string list option"
  pa_SigningAlgorithm :: "signing_algorithm option"

definition PatchApplication_Policy :: "env \<Rightarrow> patch_application \<Rightarrow> request" where
  "PatchApplication_Policy E a =
     \<lparr>rq_IsAllowed = PermissionBasedPolicy ApplicationUpdate, rq_Name = ''PatchApplication'',
      rq_LogRequest = True, rq_LogResponse = True,
      rq_json = JObj
        [(''VirtualServerName'', JStr (pa_VirtualServerName a)),
         (''ProjectSlug'', JStr (pa_ProjectSlug a)),
         (''ApplicationId'', JStr (e_uuid_String E (pa_ApplicationId a))),
         (''DisplayName'', json_pointer JStr (pa_DisplayName a)),
         (''ClaimsMappingScript'', json_pointer JStr (pa_ClaimsMappingScript a)),
         (''AccessTokenHeaderType'', json_pointer JStr (pa_AccessTokenHeaderType a)),
         (''DeviceFlowEnabled'', json_pointer JBool (pa_DeviceFlowEnabled a)),
         (''RedirectUris'', json_pointer json_strings (pa_RedirectUris a)),
         (''PostLogoutRedirectUris'', json_pointer json_strings (pa_PostLogoutRedirectUris a)),
         (''SigningAlgorithm'', json_pointer JStr (pa_SigningAlgorithm a))]\<rparr>"

text \<open>What a system application must keep.\<close>

definition unless_system :: "application \<Rightarrow> string \<Rightarrow> (application \<Rightarrow> application) \<Rightarrow> application act" where
  "unless_system app what setter =
     (if app_systemApplication app
      then err (Wrap (''cannot update '' @ what @ '' for system application'') (Named ErrHttpBadRequest))
      else edit_application app setter)"

definition HandlePatchApplication :: "patch_application \<Rightarrow> unit act" where
  "HandlePatchApplication command =
     bnd (the_vs (pa_VirtualServerName command)) (\<lambda>virtualServer.
     bnd (the_project virtualServer (pa_ProjectSlug command)) (\<lambda>project.
     bnd (wrapped ''getting application'' (db_read (\<lambda>st. ApplicationRepository_FirstOrErr (st_Applications st)
            (app_filter_of virtualServer project (pa_ApplicationId command))))) (\<lambda>app.
     bnd (edit_application app (set_optional Application_SetDisplayName (pa_DisplayName command))) (\<lambda>app.
     bnd (case pa_ClaimsMappingScript command of
            None \<Rightarrow> ret app
          | Some script \<Rightarrow> unless_system app ''claims mapping script''
              (Application_SetClaimsMappingScript (if script = [] then None else Some script))) (\<lambda>app.
     bnd (edit_application app (\<lambda>app.
            set_optional Application_SetDeviceFlowEnabled (pa_DeviceFlowEnabled command)
              (set_optional Application_SetAccessTokenHeaderType (pa_AccessTokenHeaderType command) app))) (\<lambda>app.
     bnd (case pa_RedirectUris command of
            None \<Rightarrow> ret app
          | Some uris \<Rightarrow> unless_system app ''redirect URIs'' (Application_SetRedirectUris uris)) (\<lambda>app.
     bnd (case pa_PostLogoutRedirectUris command of
            None \<Rightarrow> ret app
          | Some uris \<Rightarrow> unless_system app ''post-logout redirect URIs'' (Application_SetPostLogoutRedirectUris uris)) (\<lambda>app.
     bnd (case pa_SigningAlgorithm command of
            None \<Rightarrow> ret app
          | Some alg \<Rightarrow>
              if \<not> VirtualServer_HasSigningAlgorithm alg virtualServer
              then err (Wrap (''signing algorithm '' @ alg @ '' is not configured on virtual server'') (Named ErrHttpBadRequest))
              else edit_application app (Application_SetSigningAlgorithm (Some alg))) (\<lambda>app.
     db_write (ApplicationRepository_Update app))))))))))"

record delete_application =
  da_VirtualServerName :: string
  da_ProjectSlug :: string
  da_ApplicationId :: uuid

definition DeleteApplication_Policy :: "env \<Rightarrow> delete_application \<Rightarrow> request" where
  "DeleteApplication_Policy E a =
     \<lparr>rq_IsAllowed = PermissionBasedPolicy ApplicationDelete, rq_Name = ''DeleteApplication'',
      rq_LogRequest = True, rq_LogResponse = True,
      rq_json = JObj
        [(''VirtualServerName'', JStr (da_VirtualServerName a)),
         (''ProjectSlug'', JStr (da_ProjectSlug a)),
         (''ApplicationId'', JStr (e_uuid_String E (da_ApplicationId a)))]\<rparr>"

definition HandleDeleteApplication :: "delete_application \<Rightarrow> unit act" where
  "HandleDeleteApplication command =
     bnd (the_vs (da_VirtualServerName command)) (\<lambda>virtualServer.
     bnd (the_project virtualServer (da_ProjectSlug command)) (\<lambda>project.
     bnd (wrapped ''getting application'' (db_read (\<lambda>st. ApplicationRepository_FirstOrNil (st_Applications st)
            (app_filter_of virtualServer project (da_ApplicationId command))))) (\<lambda>app.
       case app of
         None \<Rightarrow> ret ()
       | Some app \<Rightarrow>
           if app_systemApplication app
           then err (Wrap ''cannot delete system application'' (Named ErrHttpBadRequest))
           else db_write (ApplicationRepository_Delete (bm_id (app_base app))))))"

section \<open>Resource servers\<close>

record create_resource_server =
  crs_VirtualServerName :: string
  crs_ProjectSlug :: string
  crs_Slug :: string
  crs_Name :: string
  crs_Description :: string

definition CreateResourceServer_Policy :: "env \<Rightarrow> create_resource_server \<Rightarrow> request" where
  "CreateResourceServer_Policy E a =
     \<lparr>rq_IsAllowed = PermissionBasedPolicy ResourceServerCreate, rq_Name = ''CreateResourceServer'',
      rq_LogRequest = True, rq_LogResponse = True,
      rq_json = JObj
        [(''VirtualServerName'', JStr (crs_VirtualServerName a)),
         (''ProjectSlug'', JStr (crs_ProjectSlug a)), (''Slug'', JStr (crs_Slug a)),
         (''Name'', JStr (crs_Name a)), (''Description'', JStr (crs_Description a))]\<rparr>"

definition HandleCreateResourceServer :: "env \<Rightarrow> req_ctx \<Rightarrow> create_resource_server \<Rightarrow> uuid act" where
  "HandleCreateResourceServer E ctx command =
     bnd (the_vs (crs_VirtualServerName command)) (\<lambda>virtualServer.
     bnd (the_project virtualServer (crs_ProjectSlug command)) (\<lambda>project.
     bnd (system_guard ctx project ''creating resource servers in system project requires system user permission'') (\<lambda>_.
     bnd (fresh E (\<lambda>i now. NewResourceServer i now (bm_id (vs_base virtualServer)) (bm_id (p_base project))
            (crs_Slug command) (crs_Name command) (crs_Description command))) (\<lambda>resourceServer.
     bnd (db_write (ResourceServerRepository_Insert resourceServer)) (\<lambda>_. ret (bm_id (rs_base resourceServer)))))))"

definition the_resource_server :: "virtual_server \<Rightarrow> project \<Rightarrow> uuid \<Rightarrow> resource_server act" where
  "the_resource_server virtualServer project i =
     wrapped ''getting resource server'' (db_read (\<lambda>st. ResourceServerRepository_FirstOrErr (st_ResourceServers st)
       (ResourceServerFilter_Id i (ResourceServerFilter_ProjectId (bm_id (p_base project))
         (ResourceServerFilter_VirtualServerId (bm_id (vs_base virtualServer)) NewResourceServerFilter)))))"

record patch_resource_server =
  prs_VirtualServerName :: string
  prs_ProjectSlug :: string
  prs_ResourceServerId :: uuid
  prs_Name :: "string option"
  prs_Description :: "string option"

definition PatchResourceServer_Policy :: "env \<Rightarrow> patch_resource_server \<Rightarrow> request" where
  "PatchResourceServer_Policy E a =
     \<lparr>rq_IsAllowed = PermissionBasedPolicy ResourceServerUpdate, rq_Name = ''PatchResourceServer'',
      rq_LogRequest = True, rq_LogResponse = True,
      rq_json = JObj
        [(''VirtualServerName'', JStr (prs_VirtualServerName a)),
         (''ProjectSlug'', JStr (prs_ProjectSlug a)),
         (''ResourceServerId'', JStr (e_uuid_String E (prs_ResourceServerId a))),
         (''Name'', json_pointer JStr (prs_Name a)),
         (''Description'', json_pointer JStr (prs_Description a))]\<rparr>"

definition HandlePatchResourceServer :: "patch_resource_server \<Rightarrow> unit act" where
  "HandlePatchResourceServer command =
     bnd (the_vs (prs_VirtualServerName command)) (\<lambda>virtualServer.
     bnd (the_project virtualServer (prs_ProjectSlug command)) (\<lambda>project.
     bnd (the_resource_server virtualServer project (prs_ResourceServerId command)) (\<lambda>resourceServer.
     bnd (edit_resource_server resourceServer (\<lambda>resourceServer.
            set_optional ResourceServer_SetDescription (prs_Description command)
              (set_optional ResourceServer_SetName (prs_Name command) resourceServer))) (\<lambda>resourceServer.
     db_write (ResourceServerRepository_Update resourceServer)))))"

text \<open>The type of this command has no method \<^verbatim>\<open>GetRequestName\<close>, so it is no \<^verbatim>\<open>Policy\<close>.\<close>

record create_resource_server_scope =
  crss_VirtualServerName :: string
  crss_ProjectSlug :: string
  crss_ResourceServerId :: uuid
  crss_Scope :: string
  crss_Name :: string
  crss_Description :: string

definition HandleCreateResourceServerScope :: "env \<Rightarrow> create_resource_server_scope \<Rightarrow> uuid act" where
  "HandleCreateResourceServerScope E command =
     bnd (the_vs (crss_VirtualServerName command)) (\<lambda>virtualServer.
     bnd (the_project virtualServer (crss_ProjectSlug command)) (\<lambda>project.
     bnd (the_resource_server virtualServer project (crss_ResourceServerId command)) (\<lambda>resourceServer.
     bnd (fresh E (\<lambda>i now. ResourceServerScope_SetDescription (crss_Description command)
            (NewResourceServerScope i now (bm_id (vs_base virtualServer)) (bm_id (p_base project))
               (bm_id (rs_base resourceServer)) (crss_Scope command) (crss_Name command)))) (\<lambda>resourceServerScope.
     bnd (db_write (ResourceServerScopeRepository_Insert resourceServerScope)) (\<lambda>_.
       ret (bm_id (rss_base resourceServerScope)))))))"

section \<open>Password rules\<close>

record create_password_rule =
  cpr_VirtualServerName :: string
  cpr_Type :: password_rule_type
  cpr_Details :: "json_obj option"

definition CreatePasswordRule_Policy :: "env \<Rightarrow> create_password_rule \<Rightarrow> request" where
  "CreatePasswordRule_Policy E a =
     \<lparr>rq_IsAllowed = PermissionBasedPolicy VirtualServerUpdate, rq_Name = ''CreatePasswordRule'',
      rq_LogRequest = True, rq_LogResponse = True,
      rq_json = JObj
        [(''VirtualServerName'', JStr (cpr_VirtualServerName a)),
         (''Type'', JStr (password_rule_type_String (cpr_Type a))),
         (''Details'', json_map (cpr_Details a))]\<rparr>"

text \<open>\<^verbatim>\<open>json.Marshal\<close> writes the members of a map in the order of their names.\<close>

definition Marshal_map :: "json_obj option \<Rightarrow> jtext go" where
  "Marshal_map m = json_Marshal (json_map (map_option (sort_key fst) m))"

definition HandleCreatePasswordRule :: "env \<Rightarrow> create_password_rule \<Rightarrow> unit act" where
  "HandleCreatePasswordRule E command =
     bnd (the_vs (cpr_VirtualServerName command)) (\<lambda>virtualServer.
     bnd (wrapped ''getting password rule'' (db_read (\<lambda>st. PasswordRuleRepository_FirstOrNil (st_PasswordRules st)
            (PasswordRuleFilter_Type (cpr_Type command)
              (PasswordRuleFilter_VirtualServerId (bm_id (vs_base virtualServer)) NewPasswordRuleFilter))))) (\<lambda>passwordRule.
       if passwordRule \<noteq> None then err (Wrap ''password rule already exists'' (Named ErrHttpConflict))
       else
     bnd (wrapped ''marshaling details'' (lift (Marshal_map (cpr_Details command)))) (\<lambda>jsonBytes.
     bnd (wrapped ''deserializing details'' (lift (DeserializePolicy (cpr_Type command) jsonBytes))) (\<lambda>details.
     bnd (lift (GetPasswordRuleType details)) (\<lambda>ty.
     bnd (fresh E (\<lambda>i now. NewPasswordRule i now (bm_id (vs_base virtualServer)) ty (Policy_Serialize details))) (\<lambda>rule.
     bnd (wrapped ''creating password rule'' (lift rule)) (\<lambda>passwordRule.
     db_write (PasswordRuleRepository_Insert passwordRule))))))))"

text \<open>The type of this command has none of the methods of \<^verbatim>\<open>Policy\<close>.\<close>

record update_password_rule =
  upr_VirtualServerName :: string
  upr_Type :: password_rule_type
  upr_Details :: "json_obj option"

definition HandleUpdatePasswordRule :: "update_password_rule \<Rightarrow> unit act" where
  "HandleUpdatePasswordRule command =
     bnd (the_vs (upr_VirtualServerName command)) (\<lambda>virtualServer.
     bnd (wrapped ''getting password rule'' (db_read (\<lambda>st. PasswordRuleRepository_FirstOrErr (st_PasswordRules st)
            (PasswordRuleFilter_VirtualServerId (bm_id (vs_base virtualServer))
              (PasswordRuleFilter_Type (upr_Type command) NewPasswordRuleFilter))))) (\<lambda>passwordRule.
     bnd (wrapped ''marshaling details'' (lift (Marshal_map (upr_Details command)))) (\<lambda>jsonBytes.
     bnd (wrapped ''deserializing details'' (lift (DeserializePolicy (upr_Type command) jsonBytes))) (\<lambda>details.
     bnd (wrapped ''setting details'' (lift (PasswordRule_SetDetails (Policy_Serialize details) passwordRule))) (\<lambda>updated.
     bnd (edit_password_rule passwordRule updated) (\<lambda>passwordRule.
     db_write (PasswordRuleRepository_Update passwordRule)))))))"

end
