(* ===== verification/CommandsUsers.thy ===== *)
theory CommandsUsers
  imports CommandsApps
begin

text \<open>
  The commands on users, service users and metadata, and the event handler that mails a new user the
  link to verify the address (\<^verbatim>\<open>internal/events/usercreated.go\<close>).
\<close>

section \<open>A new user\<close>

definition QueueEmailVerificationJobOnUserCreatedEvent :: "env \<Rightarrow> user \<Rightarrow> unit act" where
  "QueueEmailVerificationJobOnUserCreatedEvent E user =
     (if u_emailVerified user then ret ()
      else
     bnd (wrapped ''getting virtual server'' (db_read (\<lambda>st. VirtualServerRepository_FirstOrNil (st_VirtualServers st)
            (VirtualServerFilter_Id (u_virtualServerId user) NewVirtualServerFilter)))) (\<lambda>virtualServer.
     bnd (wrapped ''storing email verification token'' (GenerateAndStoreToken E EmailVerificationTokenType
            (Plain (e_uuid_String E (bm_id (u_base user)))) (Minute * 15))) (\<lambda>token.
       case virtualServer of
         None \<Rightarrow> lift nil_dereference
       | Some virtualServer \<Rightarrow>
     bnd (wrapped ''templating email verification mail''
            (TemplateService_Template E (u_virtualServerId user) EmailVerificationMailTemplate
               (JObj [(''VerificationLink'', JStr (e_ExternalUrl E @ ''/api/virtual-servers/'' @
                  vs_name virtualServer @ ''/users/verify-email?token='' @ token))]))) (\<lambda>mailBody.
     bnd (fresh E (\<lambda>i now. NewOutboxMessage i now SendMailOutboxMessageType
            (json_Marshal (SendEmailMessage_json E (u_virtualServerId user) (u_primaryEmail user)
               ''Email verification'' mailBody)))) (\<lambda>message.
     bnd (wrapped ''creating email outbox message'' (lift message)) (\<lambda>outboxMessage.
     db_write (OutboxMessageRepository_Insert outboxMessage)))))))"

record create_user =
  cus_VirtualServerName :: string
  cus_Username :: string
  cus_DisplayName :: string
  cus_Email :: string
  cus_EmailVerified :: bool

definition CreateUser_Policy :: "env \<Rightarrow> create_user \<Rightarrow> request" where
  "CreateUser_Policy E a =
     \<lparr>rq_IsAllowed = PermissionBasedPolicy UserCreate, rq_Name = ''CreateUser'',
      rq_LogRequest = True, rq_LogResponse = True,
      rq_json = JObj
        [(''VirtualServerName'', JStr (cus_VirtualServerName a)),
         (''Username'', JStr (cus_Username a)), (''DisplayName'', JStr (cus_DisplayName a)),
         (''Email'', JStr (cus_Email a)), (''EmailVerified'', JBool (cus_EmailVerified a))]\<rparr>"

definition HandleCreateUser :: "env \<Rightarrow> create_user \<Rightarrow> uuid act" where
  "HandleCreateUser E command =
     bnd (the_vs (cus_VirtualServerName command)) (\<lambda>virtualServer.
     bnd (fresh E (\<lambda>i now. User_SetEmailVerified (cus_EmailVerified command)
            (NewUser i now (cus_Username command) (cus_DisplayName command) (cus_Email command)
               (bm_id (vs_base virtualServer))))) (\<lambda>user.
     bnd (db_write (UserRepository_Insert user)) (\<lambda>_.
     bnd (wrapped ''raising event'' (QueueEmailVerificationJobOnUserCreatedEvent E user)) (\<lambda>_.
       ret (bm_id (u_base user))))))"

text \<open>Anyone may register; the type of this command has none of the methods of \<^verbatim>\<open>Policy\<close>.\<close>

record register_user =
  ru_VirtualServerName :: string
  ru_DisplayName :: string
  ru_Username :: string
  ru_Password :: string
  ru_Email :: string

definition HandleRegisterUser :: "env \<Rightarrow> string \<Rightarrow> req_ctx \<Rightarrow> register_user \<Rightarrow> uuid act" where
  "HandleRegisterUser E commonPasswords ctx command =
     bnd (the_vs (ru_VirtualServerName command)) (\<lambda>virtualServer.
       if \<not> vs_enableRegistration virtualServer then err (Named ErrRegistrationNotEnabled)
       else
     bnd (wrapped ''password validation'' (Validator_Validate commonPasswords ctx (ru_Password command))) (\<lambda>_.
     bnd (fresh E (\<lambda>i now. NewUser i now (ru_Username command) (ru_DisplayName command) (ru_Email command)
            (bm_id (vs_base virtualServer)))) (\<lambda>user.
     bnd (db_write (UserRepository_Insert user)) (\<lambda>_.
     bnd (HashPassword E (ru_Password command)) (\<lambda>hashedPassword.
     bnd (fresh E (\<lambda>i now. NewCredential i now (bm_id (u_base user)) (CredentialPasswordDetails hashedPassword False)))
       (\<lambda>credential.
     bnd (db_write (CredentialRepository_Insert credential)) (\<lambda>_.
     bnd (wrapped ''raising event'' (QueueEmailVerificationJobOnUserCreatedEvent E user)) (\<lambda>_.
       ret (bm_id (u_base user))))))))))"

text \<open>The type of this command has only the method \<^verbatim>\<open>GetRequestName\<close>. A user that is gone panics.\<close>

record verify_email =
  ve_VirtualServerName :: string
  ve_Token :: string

definition HandleVerifyEmail :: "env \<Rightarrow> verify_email \<Rightarrow> unit act" where
  "HandleVerifyEmail E command =
     bnd (wrapped ''getting token'' (GetToken EmailVerificationTokenType (ve_Token command))) (\<lambda>val.
     bnd (wrapped ''parsing value'' (lift (uuid_Parse E (token_text E val)))) (\<lambda>userId.
     bnd (wrapped ''getting user'' (db_read (\<lambda>st. UserRepository_FirstOrNil (st_Users st)
            (UserFilter_Id userId NewUserFilter)))) (\<lambda>user.
       case user of
         None \<Rightarrow> lift nil_dereference
       | Some user \<Rightarrow>
     bnd (edit_user user (User_SetEmailVerified True)) (\<lambda>user.
     bnd (db_write (UserRepository_Update user)) (\<lambda>_.
     wrapped ''deleting token'' (DeleteToken EmailVerificationTokenType (ve_Token command)))))))"

definition the_user :: "user_filter \<Rightarrow> user act" where
  "the_user f = wrapped ''getting user'' (db_read (\<lambda>st. UserRepository_FirstOrErr (st_Users st) f))"

definition user_of_server :: "virtual_server \<Rightarrow> uuid \<Rightarrow> user_filter" where
  "user_of_server virtualServer userId =
     UserFilter_VirtualServerId (bm_id (vs_base virtualServer)) (UserFilter_Id userId NewUserFilter)"

record patch_user =
  pu_VirtualServerName :: string
  pu_UserId :: uuid
  pu_DisplayName :: "string option"
  pu_EmailVerified :: "bool option"

definition PatchUser_Policy :: "env \<Rightarrow> patch_user \<Rightarrow> request" where
  "PatchUser_Policy E a =
     \<lparr>rq_IsAllowed = PermissionBasedPolicy UserUpdate, rq_Name = ''PatchUser'',
      rq_LogRequest = True, rq_LogResponse = True,
      rq_json = JObj
        [(''VirtualServerName'', JStr (pu_VirtualServerName a)),
         (''UserId'', JStr (e_uuid_String E (pu_UserId a))),
         (''DisplayName'', json_pointer JStr (pu_DisplayName a)),
         (''EmailVerified'', json_pointer JBool (pu_EmailVerified a))]\<rparr>"

definition HandlePatchUser :: "patch_user \<Rightarrow> unit act" where
  "HandlePatchUser command =
     bnd (the_vs (pu_VirtualServerName command)) (\<lambda>virtualServer.
     bnd (the_user (user_of_server virtualServer (pu_UserId command))) (\<lambda>user.
     bnd (edit_user user (\<lambda>user.
            set_optional User_SetEmailVerified (pu_EmailVerified command)
              (set_optional User_SetDisplayName (pu_DisplayName command) user))) (\<lambda>user.
     db_write (UserRepository_Update user))))"

section \<open>Service users\<close>

record create_service_user =
  csu_VirtualServerName :: string
  csu_Username :: string

definition CreateServiceUser_Policy :: "env \<Rightarrow> create_service_user \<Rightarrow> request" where
  "CreateServiceUser_Policy E a =
     \<lparr>rq_IsAllowed = PermissionBasedPolicy ServiceUserCreate, rq_Name = ''CreateServiceUser'',
      rq_LogRequest = True, rq_LogResponse = True,
      rq_json = JObj
        [(''VirtualServerName'', JStr (csu_VirtualServerName a)), (''Username'', JStr (csu_Username a))]\<rparr>"

definition HandleCreateServiceUser :: "env \<Rightarrow> create_service_user \<Rightarrow> uuid act" where
  "HandleCreateServiceUser E command =
     bnd (the_vs (csu_VirtualServerName command)) (\<lambda>virtualServer.
     bnd (fresh E (\<lambda>i now. NewServiceUser i now (csu_Username command) (bm_id (vs_base virtualServer)))) (\<lambda>user.
     bnd (db_write (UserRepository_Insert user)) (\<lambda>_. ret (bm_id (u_base user)))))"

record associate_service_user_public_key =
  ak_Kid :: "string option"
  ak_VirtualServerName :: string
  ak_ServiceUserId :: uuid
  ak_PublicKey :: string

definition AssociateServiceUserPublicKey_Policy :: "env \<Rightarrow> associate_service_user_public_key \<Rightarrow> request" where
  "AssociateServiceUserPublicKey_Policy E a =
     \<lparr>rq_IsAllowed = PermissionBasedPolicy ServiceUserAssociateKey, rq_Name = ''AssociateServiceUserPublicKey'',
      rq_LogRequest = True, rq_LogResponse = True,
      rq_json = JObj
        [(''Kid'', json_pointer JStr (ak_Kid a)),
         (''VirtualServerName'', JStr (ak_VirtualServerName a)),
         (''ServiceUserId'', JStr (e_uuid_String E (ak_ServiceUserId a))),
         (''PublicKey'', JStr (ak_PublicKey a))]\<rparr>"

definition HandleAssociateServiceUserPublicKey ::
  "env \<Rightarrow> associate_service_user_public_key \<Rightarrow> (uuid \<times> string) act" where
  "HandleAssociateServiceUserPublicKey E command =
     bnd (the_vs (ak_VirtualServerName command)) (\<lambda>virtualServer.
     bnd (the_user (UserFilter_ServiceUser True (user_of_server virtualServer (ak_ServiceUserId command)))) (\<lambda>user.
     bnd (case ak_Kid command of None \<Rightarrow> bnd (uuid_New E) (\<lambda>i. ret (e_uuid_String E i)) | Some kid \<Rightarrow> ret kid) (\<lambda>kid.
     bnd (fresh E (\<lambda>i now. NewCredential i now (bm_id (u_base user)) (CredentialServiceUserKey kid (ak_PublicKey command))))
       (\<lambda>credential.
     bnd (db_write (CredentialRepository_Insert credential)) (\<lambda>_. ret (bm_id (cr_base credential), kid))))))"

record remove_service_user_public_key =
  rk_VirtualServerName :: string
  rk_ServiceUserId :: uuid
  rk_Kid :: string

definition RemoveServiceUserPublicKey_Policy :: "env \<Rightarrow> remove_service_user_public_key \<Rightarrow> request" where
  "RemoveServiceUserPublicKey_Policy E a =
     \<lparr>rq_IsAllowed = PermissionBasedPolicy ServiceUserRemoveKey, rq_Name = ''RemoveServiceUserPublicKey'',
      rq_LogRequest = True, rq_LogResponse = True,
      rq_json = JObj
        [(''VirtualServerName'', JStr (rk_VirtualServerName a)),
         (''ServiceUserId'', JStr (e_uuid_String E (rk_ServiceUserId a))), (''Kid'', JStr (rk_Kid a))]\<rparr>"

definition HandleRemoveServiceUserPublicKey :: "remove_service_user_public_key \<Rightarrow> unit act" where
  "HandleRemoveServiceUserPublicKey command =
     bnd (the_vs (rk_VirtualServerName command)) (\<lambda>virtualServer.
     bnd (the_user (UserFilter_Id (rk_ServiceUserId command) (UserFilter_ServiceUser True
            (UserFilter_VirtualServerId (bm_id (vs_base virtualServer)) NewUserFilter)))) (\<lambda>user.
     bnd (wrapped ''getting credential'' (db_read (\<lambda>st. CredentialRepository_FirstOrErr (st_Credentials st)
            (CredentialFilter_DetailKid (rk_Kid command) (CredentialFilter_Type CredentialTypeServiceUserKey
              (CredentialFilter_UserId (bm_id (u_base user)) NewCredentialFilter)))))) (\<lambda>credential.
     db_write (CredentialRepository_Delete (bm_id (cr_base credential))))))"

section \<open>Metadata\<close>

record update_user_metadata =
  uum_VirtualServerName :: string
  uum_UserId :: uuid
  uum_Metadata :: "json_obj option"

definition UpdateUserMetadata_Policy :: "env \<Rightarrow> update_user_metadata \<Rightarrow> request" where
  "UpdateUserMetadata_Policy E a =
     \<lparr>rq_IsAllowed = PermissionBasedPolicy UserMetadataUpdate, rq_Name = ''UpdateUserMetadata'',
      rq_LogRequest = True, rq_LogResponse = True,
      rq_json = JObj
        [(''VirtualServerName'', JStr (uum_VirtualServerName a)),
         (''UserId'', JStr (e_uuid_String E (uum_UserId a))), (''Metadata'', json_map (uum_Metadata a))]\<rparr>"

definition HandleUpdateUserMetadata :: "update_user_metadata \<Rightarrow> unit act" where
  "HandleUpdateUserMetadata command =
     bnd (the_vs (uum_VirtualServerName command)) (\<lambda>virtualServer.
     bnd (the_user (user_of_server virtualServer (uum_UserId command))) (\<lambda>user.
     bnd (wrapped ''marshaling metadata'' (lift (Marshal_map (uum_Metadata command)))) (\<lambda>jsonString.
     bnd (edit_user user (User_SetMetadata jsonString)) (\<lambda>user.
     db_write (UserRepository_Update user)))))"

text \<open>
  The stored metadata as a map: empty text leaves the map that was made, the text of null makes
  it nil. Writing to a nil map panics.
\<close>

definition stored_map :: "jtext \<Rightarrow> json_obj option go" where
  "stored_map t =
     (if t = Plain [] then Inr (Some [])
      else go_bind (decode_map t) (\<lambda>j. case j of JObj ms \<Rightarrow> Inr (Some ms) | _ \<Rightarrow> Inr None))"

definition merge_map :: "json_obj option \<Rightarrow> json_obj option \<Rightarrow> json_obj option go" where
  "merge_map base patch =
     (case base of
        Some ms \<Rightarrow> Inr (Some (JsonMergePatch ms (case patch of None \<Rightarrow> [] | Some ps \<Rightarrow> ps)))
      | None \<Rightarrow>
          if \<forall>(_, v) \<in> set (case patch of None \<Rightarrow> [] | Some ps \<Rightarrow> ps). v = JNull then Inr None
          else Inl (Panic ''assignment to entry in nil map''))"

record patch_user_metadata =
  pum_VirtualServerName :: string
  pum_UserId :: uuid
  pum_Metadata :: "json_obj option"

definition PatchUserMetadata_Policy :: "env \<Rightarrow> patch_user_metadata \<Rightarrow> request" where
  "PatchUserMetadata_Policy E a =
     \<lparr>rq_IsAllowed = PermissionBasedPolicy UserMetadataUpdate, rq_Name = ''PatchUserMetadata'',
      rq_LogRequest = True, rq_LogResponse = True,
      rq_json = JObj
        [(''VirtualServerName'', JStr (pum_VirtualServerName a)),
         (''UserId'', JStr (e_uuid_String E (pum_UserId a))), (''Metadata'', json_map (pum_Metadata a))]\<rparr>"

definition HandlePatchUserMetadata :: "patch_user_metadata \<Rightarrow> unit act" where
  "HandlePatchUserMetadata command =
     bnd (the_vs (pum_VirtualServerName command)) (\<lambda>virtualServer.
     bnd (the_user (UserFilter_IncludeMetadata (user_of_server virtualServer (pum_UserId command)))) (\<lambda>user.
     bnd (wrapped ''unmarshaling metadata'' (lift (stored_map (u_metadata user)))) (\<lambda>metadata.
     bnd (lift (merge_map metadata (pum_Metadata command))) (\<lambda>metadata.
     bnd (wrapped ''marshaling metadata'' (lift (Marshal_map metadata))) (\<lambda>jsonString.
     bnd (edit_user user (User_SetMetadata jsonString)) (\<lambda>user.
     db_write (UserRepository_Update user)))))))"

definition the_application :: "virtual_server \<Rightarrow> uuid \<Rightarrow> application act" where
  "the_application virtualServer applicationId =
     wrapped ''getting application'' (db_read (\<lambda>st. ApplicationRepository_FirstOrErr (st_Applications st)
       (ApplicationFilter_VirtualServerId (bm_id (vs_base virtualServer)) (ApplicationFilter_Id applicationId NewApplicationFilter))))"

definition metadata_filter_of :: "uuid \<Rightarrow> uuid \<Rightarrow> application_user_metadata_filter" where
  "metadata_filter_of applicationId userId =
     ApplicationUserMetadataFilter_UserId userId
       (ApplicationUserMetadataFilter_ApplicationId applicationId NewApplicationUserMetadataFilter)"

text \<open>A user that does not exist is dereferenced once the application was found.\<close>

record update_user_app_metadata =
  uuam_VirtualServerName :: string
  uuam_UserId :: uuid
  uuam_ApplicationId :: uuid
  uuam_Metadata :: "json_obj option"

definition UpdateUserAppMetadata_Policy :: "env \<Rightarrow> update_user_app_metadata \<Rightarrow> request" where
  "UpdateUserAppMetadata_Policy E a =
     \<lparr>rq_IsAllowed = PermissionBasedPolicy AppMetadataUpdateAny, rq_Name = ''UpdateUserAppMetadata'',
      rq_LogRequest = True, rq_LogResponse = True,
      rq_json = JObj
        [(''VirtualServerName'', JStr (uuam_VirtualServerName a)),
         (''UserId'', JStr (e_uuid_String E (uuam_UserId a))),
         (''ApplicationId'', JStr (e_uuid_String E (uuam_ApplicationId a))),
         (''Metadata'', json_map (uuam_Metadata a))]\<rparr>"

definition HandleUpdateUserAppMetadata :: "env \<Rightarrow> update_user_app_metadata \<Rightarrow> unit act" where
  "HandleUpdateUserAppMetadata E command =
     bnd (the_vs (uuam_VirtualServerName command)) (\<lambda>virtualServer.
     bnd (wrapped ''getting user'' (db_read (\<lambda>st. UserRepository_FirstOrNil (st_Users st)
            (user_of_server virtualServer (uuam_UserId command))))) (\<lambda>user.
     bnd (the_application virtualServer (uuam_ApplicationId command)) (\<lambda>app.
       case user of
         None \<Rightarrow> lift nil_dereference
       | Some user \<Rightarrow>
     bnd (wrapped ''getting application user metadata'' (db_read (\<lambda>st.
            ApplicationUserMetadataRepository_FirstOrNil (st_ApplicationUserMetadata st)
              (metadata_filter_of (bm_id (app_base app)) (bm_id (u_base user)))))) (\<lambda>metadata.
     bnd (wrapped ''marshaling metadata'' (lift (Marshal_map (uuam_Metadata command)))) (\<lambda>jsonString.
       case metadata of
         None \<Rightarrow>
           bnd (fresh E (\<lambda>i now. NewApplicationUserMetadata i now (bm_id (app_base app)) (bm_id (u_base user)) jsonString))
             (\<lambda>metadata. db_write (ApplicationUserMetadataRepository_Insert metadata))
       | Some metadata \<Rightarrow>
           bnd (edit_metadata metadata (ApplicationUserMetadata_SetMetadata jsonString)) (\<lambda>metadata.
             db_write (ApplicationUserMetadataRepository_Update metadata)))))))"

record patch_user_app_metadata =
  puam_VirtualServerName :: string
  puam_UserId :: uuid
  puam_ApplicationId :: uuid
  puam_Metadata :: "json_obj option"

definition PatchUserAppMetadata_Policy :: "env \<Rightarrow> patch_user_app_metadata \<Rightarrow> request" where
  "PatchUserAppMetadata_Policy E a =
     \<lparr>rq_IsAllowed = PermissionBasedPolicy AppMetadataUpdateAny, rq_Name = ''PatchUserAppMetadata'',
      rq_LogRequest = True, rq_LogResponse = True,
      rq_json = JObj
        [(''VirtualServerName'', JStr (puam_VirtualServerName a)),
         (''UserId'', JStr (e_uuid_String E (puam_UserId a))),
         (''ApplicationId'', JStr (e_uuid_String E (puam_ApplicationId a))),
         (''Metadata'', json_map (puam_Metadata a))]\<rparr>"

definition HandlePatchUserAppMetadata :: "patch_user_app_metadata \<Rightarrow> unit act" where
  "HandlePatchUserAppMetadata command =
     bnd (the_vs (puam_VirtualServerName command)) (\<lambda>virtualServer.
     bnd (the_user (user_of_server virtualServer (puam_UserId command))) (\<lambda>user.
     bnd (the_application virtualServer (puam_ApplicationId command)) (\<lambda>app.
     bnd (wrapped ''getting application user metadata'' (db_read (\<lambda>st.
            ApplicationUserMetadataRepository_FirstOrErr (st_ApplicationUserMetadata st)
              (metadata_filter_of (bm_id (app_base app)) (bm_id (u_base user)))))) (\<lambda>applicationUserMetadata.
     bnd (wrapped ''unmarshaling metadata'' (lift (stored_map (aum_metadata applicationUserMetadata)))) (\<lambda>metadata.
     bnd (lift (merge_map metadata (puam_Metadata command))) (\<lambda>metadata.
     bnd (wrapped ''marshaling metadata'' (lift (Marshal_map metadata))) (\<lambda>jsonString.
     bnd (edit_metadata applicationUserMetadata (ApplicationUserMetadata_SetMetadata jsonString)) (\<lambda>metadata.
     db_write (ApplicationUserMetadataRepository_Update metadata)))))))))"

end
