(* ===== verification/CommandsServers.thy ===== *)
theory CommandsServers
  imports CommandsUsers
begin

text \<open>
  The commands on virtual servers (\<^verbatim>\<open>CreateVirtualServer.go\<close>, \<^verbatim>\<open>PatchVirtualServer.go\<close>). Creating one
  also creates its keys, its template, the system project with the administration application and
  roles, and what the configuration asks for. The embedded default template is an argument.
\<close>

section \<open>Loops\<close>

fun each :: "('x \<Rightarrow> unit act) \<Rightarrow> 'x list \<Rightarrow> unit act" where
  "each f [] = ret ()"
| "each f (x # xs) = bnd (f x) (\<lambda>_. each f xs)"

fun each_with :: "('x \<Rightarrow> 's \<Rightarrow> 's act) \<Rightarrow> 'x list \<Rightarrow> 's \<Rightarrow> 's act" where
  "each_with f [] s = ret s"
| "each_with f (x # xs) s = bnd (f x s) (\<lambda>s. each_with f xs s)"

definition generate_key :: "env \<Rightarrow> string \<Rightarrow> signing_algorithm \<Rightarrow> key_pair act" where
  "generate_key E vs alg w =
     (case KeyService_Generate E NewMemoryKeyStore (w_now w) (w_rand w) vs alg (w_keys w) of
        (r, keys) \<Rightarrow> (r, w\<lparr>w_keys := keys, w_rand := Suc (w_rand w)\<rparr>))"

section \<open>CreateVirtualServer\<close>

definition AdminRoleName :: string where
  "AdminRoleName = ''admin''"
definition SystemAdminRoleName :: string where
  "SystemAdminRoleName = ''system-admin''"
definition AdminApplicationName :: string where
  "AdminApplicationName = ''admin-ui''"

record create_virtual_server_admin =
  cva_Username :: string
  cva_DisplayName :: string
  cva_PrimaryEmail :: string
  cva_PasswordHash :: string
  cva_Roles :: "string list"

record create_virtual_server_service_user =
  cvu_Username :: string
  cvu_Roles :: "string list"
  cvu_Pem :: string
  cvu_Kid :: string

record create_virtual_server_resource_server =
  cvr_Slug :: string
  cvr_Name :: string
  cvr_Description :: string

record create_virtual_server_role =
  cvro_Name :: string
  cvro_Description :: string

record create_virtual_server_application =
  cvap_Name :: string
  cvap_DisplayName :: string
  cvap_Type :: string
  cvap_HashedSecret :: "string option"
  cvap_RedirectUris :: "string list"
  cvap_PostLogoutUris :: "string list"
  cvap_DeviceFlowEnabled :: bool

record create_virtual_server_project =
  cvp_Slug :: string
  cvp_Name :: string
  cvp_Description :: string
  cvp_Applications :: "create_virtual_server_application list"
  cvp_Roles :: "create_virtual_server_role list"
  cvp_ResourceServers :: "create_virtual_server_resource_server list"

record create_virtual_server =
  cvs_Name :: string
  cvs_DisplayName :: string
  cvs_EnableRegistration :: bool
  cvs_PrimarySigningAlgorithm :: signing_algorithm
  cvs_AdditionalSigningAlgorithms :: "signing_algorithm list"
  cvs_Require2fa :: bool
  cvs_CreateSystemAdminRole :: bool
  cvs_Admin :: "create_virtual_server_admin option"
  cvs_ServiceUsers :: "create_virtual_server_service_user list"
  cvs_Projects :: "create_virtual_server_project list"

definition admin_json :: "create_virtual_server_admin \<Rightarrow> json" where
  "admin_json a = JObj
     [(''Username'', JStr (cva_Username a)), (''DisplayName'', JStr (cva_DisplayName a)),
      (''PrimaryEmail'', JStr (cva_PrimaryEmail a)), (''PasswordHash'', JStr (cva_PasswordHash a)),
      (''Roles'', json_strings (cva_Roles a))]"

definition service_user_json :: "create_virtual_server_service_user \<Rightarrow> json" where
  "service_user_json u = JObj
     [(''Username'', JStr (cvu_Username u)), (''Roles'', json_strings (cvu_Roles u)),
      (''PublicKey'', JObj [(''Pem'', JStr (cvu_Pem u)), (''Kid'', JStr (cvu_Kid u))])]"

definition project_json :: "create_virtual_server_project \<Rightarrow> json" where
  "project_json p = JObj
     [(''Slug'', JStr (cvp_Slug p)), (''Name'', JStr (cvp_Name p)), (''Description'', JStr (cvp_Description p)),
      (''Applications'', JArr (map (\<lambda>a. JObj
         [(''Name'', JStr (cvap_Name a)), (''DisplayName'', JStr (cvap_DisplayName a)), (''Type'', JStr (cvap_Type a)),
          (''HashedSecret'', json_pointer JStr (cvap_HashedSecret a)), (''RedirectUris'', json_strings (cvap_RedirectUris a)),
          (''PostLogoutUris'', json_strings (cvap_PostLogoutUris a)), (''DeviceFlowEnabled'', JBool (cvap_DeviceFlowEnabled a))])
         (cvp_Applications p))),
      (''Roles'', JArr (map (\<lambda>r. JObj [(''Name'', JStr (cvro_Name r)), (''Description'', JStr (cvro_Description r))])
         (cvp_Roles p))),
      (''ResourceServers'', JArr (map (\<lambda>r. JObj
         [(''Slug'', JStr (cvr_Slug r)), (''Name'', JStr (cvr_Name r)), (''Description'', JStr (cvr_Description r))])
         (cvp_ResourceServers p)))]"

definition CreateVirtualServer_Policy :: "env \<Rightarrow> create_virtual_server \<Rightarrow> request" where
  "CreateVirtualServer_Policy E a =
     \<lparr>rq_IsAllowed = PermissionBasedPolicy VirtualServerCreate, rq_Name = ''CreateVirtualServer'',
      rq_LogRequest = True, rq_LogResponse = True,
      rq_json = JObj
        [(''Name'', JStr (cvs_Name a)), (''DisplayName'', JStr (cvs_DisplayName a)),
         (''EnableRegistration'', JBool (cvs_EnableRegistration a)),
         (''PrimarySigningAlgorithm'', JStr (cvs_PrimarySigningAlgorithm a)),
         (''AdditionalSigningAlgorithms'', json_strings (cvs_AdditionalSigningAlgorithms a)),
         (''Require2fa'', JBool (cvs_Require2fa a)), (''CreateSystemAdminRole'', JBool (cvs_CreateSystemAdminRole a)),
         (''Admin'', json_pointer admin_json (cvs_Admin a)),
         (''ServiceUsers'', JArr (map service_user_json (cvs_ServiceUsers a))),
         (''Projects'', JArr (map project_json (cvs_Projects a)))]\<rparr>"

record create_virtual_server_response =
  cvsr_Id :: uuid
  cvsr_SystemProjectId :: uuid
  cvsr_SystemProjectSlug :: string
  cvsr_AdminUiApplicationId :: uuid
  cvsr_AdminRoleId :: uuid

type_synonym role_ids = "(string \<times> uuid) list"

definition insertTemplate :: "env \<Rightarrow> string \<Rightarrow> string \<Rightarrow> virtual_server \<Rightarrow> unit act" where
  "insertTemplate E defaultTemplate templateName virtualServer =
     bnd (fresh E (\<lambda>i now. NewFile i now templateName ''text/plain'' defaultTemplate)) (\<lambda>fil.
     bnd (db_write (FileRepository_Insert fil)) (\<lambda>_.
     bnd (fresh E (\<lambda>i now. NewTemplate i now (bm_id (vs_base virtualServer)) (bm_id (fi_base fil))
            EmailVerificationMailTemplate)) (\<lambda>t.
     db_write (TemplateRepository_Insert t))))"

definition initializeDefaultTemplates :: "env \<Rightarrow> string \<Rightarrow> virtual_server \<Rightarrow> unit act" where
  "initializeDefaultTemplates E defaultTemplate virtualServer =
     insertTemplate E defaultTemplate ''email_verification_template'' virtualServer"

definition initializeDefaultApplications :: "env \<Rightarrow> virtual_server \<Rightarrow> project \<Rightarrow> uuid act" where
  "initializeDefaultApplications E virtualServer systemProject =
     bnd (fresh E (\<lambda>i now. NewApplication i now (bm_id (vs_base virtualServer)) (bm_id (p_base systemProject))
            AdminApplicationName ''Admin Application'' ApplicationTypePublic
            [e_FrontendExternalUrl E @ ''/mgmt/'' @ vs_name virtualServer @ ''/auth''])) (\<lambda>app.
     bnd (GetSecureRandomBytes E 16) (\<lambda>secretBytes.
       let app = Application_SetSystemApplication True
                   (Application_SetPostLogoutRedirectUris
                      [e_FrontendExternalUrl E @ ''/mgmt/'' @ vs_name virtualServer @ ''/logout'']
                      (snd (Application_GenerateSecret secretBytes app))) in
     bnd (db_write (ApplicationRepository_Insert app)) (\<lambda>_. ret (bm_id (app_base app)))))"

definition initializeDefaultAdminRoles ::
  "env \<Rightarrow> virtual_server \<Rightarrow> project \<Rightarrow> bool \<Rightarrow> (uuid \<times> uuid option) act" where
  "initializeDefaultAdminRoles E virtualServer project createSystemAdminRole =
     bnd (fresh E (\<lambda>i now. NewRole i now (bm_id (vs_base virtualServer)) (bm_id (p_base project))
            AdminRoleName ''Administrator role'')) (\<lambda>adminRole.
     bnd (db_write (RoleRepository_Insert adminRole)) (\<lambda>_.
       if createSystemAdminRole then
         bnd (fresh E (\<lambda>i now. NewRole i now (bm_id (vs_base virtualServer)) (bm_id (p_base project))
                SystemAdminRoleName ''System administrator role'')) (\<lambda>systemAdminRole.
         bnd (db_write (RoleRepository_Insert systemAdminRole)) (\<lambda>_.
           ret (bm_id (ro_base adminRole), Some (bm_id (ro_base systemAdminRole)))))
       else ret (bm_id (ro_base adminRole), None)))"

definition assign_role :: "env \<Rightarrow> uuid \<Rightarrow> uuid \<Rightarrow> unit act" where
  "assign_role E userId roleId =
     bnd (fresh E (\<lambda>i now. NewUserRoleAssignment i now userId roleId None))
       (\<lambda>a. db_write (UserRoleAssignmentRepository_Insert a))"

definition assignRoles :: "env \<Rightarrow> uuid \<Rightarrow> role_ids \<Rightarrow> string list \<Rightarrow> unit act" where
  "assignRoles E userId roleIds roleList =
     each (\<lambda>configuredRole.
       if CHR '':'' \<notin> set configuredRole
       then err (ErrorsNew (''role '' @ configuredRole @ '' does not contain project slug''))
       else case map_of roleIds configuredRole of
         None \<Rightarrow> err (ErrorsNew (''role '' @ configuredRole @ '' not found''))
       | Some roleId \<Rightarrow> assign_role E userId roleId) roleList"

text \<open>One project of the configuration.\<close>

definition create_configured_application :: "env \<Rightarrow> uuid \<Rightarrow> uuid \<Rightarrow> create_virtual_server_application \<Rightarrow> unit act" where
  "create_configured_application E vsId projectId a =
     bnd (fresh E (\<lambda>i now. NewApplication i now vsId projectId (cvap_Name a) (cvap_DisplayName a)
            (ApplicationType (cvap_Type a)) (cvap_RedirectUris a))) (\<lambda>app.
     db_write (ApplicationRepository_Insert
       (Application_SetDeviceFlowEnabled (cvap_DeviceFlowEnabled a)
         (Application_SetPostLogoutRedirectUris (cvap_PostLogoutUris a)
           (set_optional Application_SetHashedSecret (cvap_HashedSecret a) app)))))"

definition create_configured_role :: "env \<Rightarrow> uuid \<Rightarrow> project \<Rightarrow> create_virtual_server_role \<Rightarrow> role_ids \<Rightarrow> role_ids act" where
  "create_configured_role E vsId project r roleIds =
     bnd (fresh E (\<lambda>i now. NewRole i now vsId (bm_id (p_base project)) (cvro_Name r) (cvro_Description r))) (\<lambda>role.
     bnd (db_write (RoleRepository_Insert role)) (\<lambda>_.
       ret (AList.update (p_slug project @ '':'' @ cvro_Name r) (bm_id (ro_base role)) roleIds)))"

definition create_configured_project :: "env \<Rightarrow> uuid \<Rightarrow> create_virtual_server_project \<Rightarrow> role_ids \<Rightarrow> role_ids act" where
  "create_configured_project E vsId p roleIds =
     bnd (fresh E (\<lambda>i now. NewProject i now vsId (cvp_Slug p) (cvp_Name p) (cvp_Description p))) (\<lambda>project.
     bnd (db_write (ProjectRepository_Insert project)) (\<lambda>_.
     bnd (each (create_configured_application E vsId (bm_id (p_base project))) (cvp_Applications p)) (\<lambda>_.
     bnd (each_with (create_configured_role E vsId project) (cvp_Roles p) roleIds) (\<lambda>roleIds.
     bnd (each (\<lambda>r. bnd (fresh E (\<lambda>i now. NewResourceServer i now vsId (bm_id (p_base project)) (cvr_Slug r) (cvr_Name r)
                          (cvr_Description r))) (\<lambda>rs. db_write (ResourceServerRepository_Insert rs)))
            (cvp_ResourceServers p)) (\<lambda>_. ret roleIds)))))"

text \<open>The administrator of the configuration; the pointer to the identifier of the second role is dereferenced.\<close>

definition create_admin :: "env \<Rightarrow> uuid \<Rightarrow> bool \<Rightarrow> uuid \<times> uuid option \<Rightarrow> role_ids \<Rightarrow> create_virtual_server_admin \<Rightarrow> unit act" where
  "create_admin E vsId createSystemAdminRole roles roleIds a =
     bnd (fresh E (\<lambda>i now. User_SetEmailVerified True
            (NewUser i now (cva_Username a) (cva_DisplayName a) (cva_PrimaryEmail a) vsId))) (\<lambda>user.
     bnd (db_write (UserRepository_Insert user)) (\<lambda>_.
     bnd (fresh E (\<lambda>i now. NewCredential i now (bm_id (u_base user)) (CredentialPasswordDetails (cva_PasswordHash a) False)))
       (\<lambda>credential.
     bnd (db_write (CredentialRepository_Insert credential)) (\<lambda>_.
     bnd (assign_role E (bm_id (u_base user)) (fst roles)) (\<lambda>_.
     bnd (if createSystemAdminRole then
            (case snd roles of None \<Rightarrow> lift nil_dereference | Some i \<Rightarrow> assign_role E (bm_id (u_base user)) i)
          else ret ()) (\<lambda>_.
     wrapped ''assigning roles to admin user'' (assignRoles E (bm_id (u_base user)) roleIds (cva_Roles a))))))))"

definition create_configured_service_user ::
  "env \<Rightarrow> uuid \<Rightarrow> role_ids \<Rightarrow> create_virtual_server_service_user \<Rightarrow> unit act" where
  "create_configured_service_user E vsId roleIds u =
     bnd (fresh E (\<lambda>i now. NewServiceUser i now (cvu_Username u) vsId)) (\<lambda>user.
     bnd (db_write (UserRepository_Insert user)) (\<lambda>_.
     bnd (fresh E (\<lambda>i now. NewCredential i now (bm_id (u_base user)) (CredentialServiceUserKey (cvu_Kid u) (cvu_Pem u))))
       (\<lambda>credential.
     bnd (db_write (CredentialRepository_Insert credential)) (\<lambda>_.
     wrapped ''assigning roles to service user'' (assignRoles E (bm_id (u_base user)) roleIds (cvu_Roles u))))))"

definition HandleCreateVirtualServer :: "env \<Rightarrow> string \<Rightarrow> create_virtual_server \<Rightarrow> create_virtual_server_response act" where
  "HandleCreateVirtualServer E defaultTemplate command =
     bnd (fresh E (\<lambda>i now.
            VirtualServer_SetAdditionalSigningAlgorithms (cvs_AdditionalSigningAlgorithms command)
              (VirtualServer_SetPrimarySigningAlgorithm (cvs_PrimarySigningAlgorithm command)
                (VirtualServer_SetRequire2fa (cvs_Require2fa command)
                  (VirtualServer_SetEnableRegistration (cvs_EnableRegistration command)
                    (NewVirtualServer i now (cvs_Name command) (cvs_DisplayName command))))))) (\<lambda>virtualServer.
     bnd (db_write (VirtualServerRepository_Insert virtualServer)) (\<lambda>_.
     bnd (each (\<lambda>alg. bnd (wrapped (''generating keypair for '' @ alg) (generate_key E (cvs_Name command) alg))
            (\<lambda>_. ret ())) (VirtualServer_AllSigningAlgorithms virtualServer)) (\<lambda>_.
     bnd (initializeDefaultTemplates E defaultTemplate virtualServer) (\<lambda>_.
     bnd (fresh E (\<lambda>i now. NewSystemProject i now (bm_id (vs_base virtualServer)))) (\<lambda>systemProject.
     bnd (db_write (ProjectRepository_Insert systemProject)) (\<lambda>_.
     bnd (initializeDefaultApplications E virtualServer systemProject) (\<lambda>adminUiApplicationId.
     bnd (initializeDefaultAdminRoles E virtualServer systemProject (cvs_CreateSystemAdminRole command)) (\<lambda>roles.
       let roleIds = [(p_slug systemProject @ '':'' @ AdminRoleName, fst roles)];
           roleIds = (case snd roles of
                        None \<Rightarrow> roleIds
                      | Some i \<Rightarrow> AList.update (p_slug systemProject @ '':'' @ SystemAdminRoleName) i roleIds) in
     bnd (each_with (create_configured_project E (bm_id (vs_base virtualServer))) (cvs_Projects command) roleIds) (\<lambda>roleIds.
     bnd (case cvs_Admin command of
            None \<Rightarrow> ret ()
          | Some a \<Rightarrow> create_admin E (bm_id (vs_base virtualServer)) (cvs_CreateSystemAdminRole command) roles roleIds a) (\<lambda>_.
     bnd (each (create_configured_service_user E (bm_id (vs_base virtualServer)) roleIds) (cvs_ServiceUsers command)) (\<lambda>_.
       ret \<lparr>cvsr_Id = bm_id (vs_base virtualServer), cvsr_SystemProjectId = bm_id (p_base systemProject),
            cvsr_SystemProjectSlug = p_slug systemProject, cvsr_AdminUiApplicationId = adminUiApplicationId,
            cvsr_AdminRoleId = fst roles\<rparr>)))))))))))"

section \<open>PatchVirtualServer\<close>

record patch_virtual_server =
  pvs_VirtualServerName :: string
  pvs_DisplayName :: "string option"
  pvs_EnableRegistration :: "bool option"
  pvs_Require2fa :: "bool option"
  pvs_RequireEmailVerification :: "bool option"
  pvs_PrimarySigningAlgorithm :: "signing_algorithm option"
  pvs_AdditionalSigningAlgorithms :: "signing_algorithm list option"

definition PatchVirtualServer_Policy :: "env \<Rightarrow> patch_virtual_server \<Rightarrow> request" where
  "PatchVirtualServer_Policy E a =
     \<lparr>rq_IsAllowed = PermissionBasedPolicy VirtualServerUpdate, rq_Name = ''PatchVirtualServer'',
      rq_LogRequest = True, rq_LogResponse = True,
      rq_json = JObj
        [(''VirtualServerName'', JStr (pvs_VirtualServerName a)),
         (''DisplayName'', json_pointer JStr (pvs_DisplayName a)),
         (''EnableRegistration'', json_pointer JBool (pvs_EnableRegistration a)),
         (''Require2fa'', json_pointer JBool (pvs_Require2fa a)),
         (''RequireEmailVerification'', json_pointer JBool (pvs_RequireEmailVerification a)),
         (''PrimarySigningAlgorithm'', json_pointer JStr (pvs_PrimarySigningAlgorithm a)),
         (''AdditionalSigningAlgorithms'', json_pointer json_strings (pvs_AdditionalSigningAlgorithms a))]\<rparr>"

text \<open>An algorithm that an application of the server uses cannot be taken away.\<close>

definition check_applications :: "virtual_server \<Rightarrow> unit act" where
  "check_applications virtualServer =
     bnd (wrapped ''listing applications'' (db_read (\<lambda>st. ApplicationRepository_List (st_Applications st)
            (ApplicationFilter_VirtualServerId (bm_id (vs_base virtualServer)) NewApplicationFilter)))) (\<lambda>(apps, _).
       each (\<lambda>app. case app_signingAlgorithm app of
           None \<Rightarrow> ret ()
         | Some alg \<Rightarrow>
             if VirtualServer_HasSigningAlgorithm alg virtualServer then ret ()
             else err (Wrap (''cannot remove algorithm '' @ alg @ '': application '' @ app_name app @ '' still uses it'')
                         (Named ErrHttpBadRequest))) apps)"

text \<open>Missing keys are generated for every algorithm of the server.\<close>

definition ensure_key :: "env \<Rightarrow> string \<Rightarrow> signing_algorithm \<Rightarrow> unit act" where
  "ensure_key E vsName alg =
     bnd (wrapped (''checking keys for algorithm '' @ alg)
            (\<lambda>w. (KS_GetAllForAlgorithm NewMemoryKeyStore vsName alg (w_keys w), w))) (\<lambda>existing.
       if existing \<noteq> [] then ret ()
       else bnd (wrapped (''generating key for algorithm '' @ alg) (generate_key E vsName alg)) (\<lambda>_. ret ()))"

definition HandlePatchVirtualServer :: "env \<Rightarrow> patch_virtual_server \<Rightarrow> unit act" where
  "HandlePatchVirtualServer E command =
     bnd (the_vs (pvs_VirtualServerName command)) (\<lambda>virtualServer.
     bnd (edit_virtual_server virtualServer (\<lambda>virtualServer.
            set_optional VirtualServer_SetAdditionalSigningAlgorithms (pvs_AdditionalSigningAlgorithms command)
              (set_optional VirtualServer_SetPrimarySigningAlgorithm (pvs_PrimarySigningAlgorithm command)
                (set_optional VirtualServer_SetRequireEmailVerification (pvs_RequireEmailVerification command)
                  (set_optional VirtualServer_SetRequire2fa (pvs_Require2fa command)
                    (set_optional VirtualServer_SetEnableRegistration (pvs_EnableRegistration command)
                      (set_optional VirtualServer_SetDisplayName (pvs_DisplayName command) virtualServer)))))))
       (\<lambda>virtualServer.
       let algorithms_change = (pvs_PrimarySigningAlgorithm command \<noteq> None \<or> pvs_AdditionalSigningAlgorithms command \<noteq> None) in
     bnd (if algorithms_change then check_applications virtualServer else ret ()) (\<lambda>_.
     bnd (db_write (VirtualServerRepository_Update virtualServer)) (\<lambda>_.
       if algorithms_change
       then each (ensure_key E (pvs_VirtualServerName command)) (VirtualServer_AllSigningAlgorithms virtualServer)
       else ret ()))))"

end
