(* ===== verification/Mediator.thy ===== *)
theory Mediator
  imports CommandsServers
begin

text \<open>
  The mediator with its commands (\<^verbatim>\<open>internal/setup/mediator.go\<close>). The behaviours are
  registered for requests of the interface \<^verbatim>\<open>Policy\<close>, so they run for the commands whose type
  has its four methods, and the other commands go straight to their handlers. The answer of a
  command is its response as JSON, as the audit log writes it.
\<close>

text \<open>The files that are embedded in the program.\<close>

record embedded_files =
  cf_commonPasswords :: string
  cf_defaultTemplate :: string

datatype command =
    AssignRoleToUserCommand assign_role_to_user
  | AssociateServiceUserPublicKeyCommand associate_service_user_public_key
  | CreateApplicationCommand create_application
  | CreatePasswordRuleCommand create_password_rule
  | CreateProjectCommand create_project
  | CreateResourceServerCommand create_resource_server
  | CreateResourceServerScopeCommand create_resource_server_scope
  | CreateRoleCommand create_role
  | CreateServiceUserCommand create_service_user
  | CreateUserCommand create_user
  | CreateVirtualServerCommand create_virtual_server
  | DeleteApplicationCommand delete_application
  | DeleteRoleCommand delete_role
  | PatchApplicationCommand patch_application
  | PatchProjectCommand patch_project
  | PatchResourceServerCommand patch_resource_server
  | PatchRoleCommand patch_role
  | PatchUserCommand patch_user
  | PatchUserAppMetadataCommand patch_user_app_metadata
  | PatchUserMetadataCommand patch_user_metadata
  | PatchVirtualServerCommand patch_virtual_server
  | RegisterUserCommand register_user
  | RemoveServiceUserPublicKeyCommand remove_service_user_public_key
  | SetPasswordCommand set_password
  | UpdatePasswordRuleCommand update_password_rule
  | UpdateUserAppMetadataCommand update_user_app_metadata
  | UpdateUserMetadataCommand update_user_metadata
  | VerifyEmailCommand verify_email

definition id_json :: "env \<Rightarrow> uuid \<Rightarrow> json" where
  "id_json E i = JObj [(''Id'', JStr (e_uuid_String E i))]"

definition created_server_json :: "env \<Rightarrow> create_virtual_server_response \<Rightarrow> json" where
  "created_server_json E r = JObj
     [(''Id'', JStr (e_uuid_String E (cvsr_Id r))), (''SystemProjectId'', JStr (e_uuid_String E (cvsr_SystemProjectId r))),
      (''SystemProjectSlug'', JStr (cvsr_SystemProjectSlug r)),
      (''AdminUiApplicationId'', JStr (e_uuid_String E (cvsr_AdminUiApplicationId r))),
      (''AdminRoleId'', JStr (e_uuid_String E (cvsr_AdminRoleId r)))]"

definition answer_of :: "('r \<Rightarrow> json) \<Rightarrow> 'r act \<Rightarrow> json act" where
  "answer_of to_json m = bnd m (\<lambda>response. ret (to_json response))"

fun policy_of :: "env \<Rightarrow> command \<Rightarrow> request option" where
  "policy_of E (AssignRoleToUserCommand a) = Some (AssignRoleToUser_Policy E a)"
| "policy_of E (AssociateServiceUserPublicKeyCommand a) = Some (AssociateServiceUserPublicKey_Policy E a)"
| "policy_of E (CreateApplicationCommand a) = Some (CreateApplication_Policy E a)"
| "policy_of E (CreatePasswordRuleCommand a) = Some (CreatePasswordRule_Policy E a)"
| "policy_of E (CreateProjectCommand a) = Some (CreateProject_Policy E a)"
| "policy_of E (CreateResourceServerCommand a) = Some (CreateResourceServer_Policy E a)"
| "policy_of E (CreateResourceServerScopeCommand a) = None"
| "policy_of E (CreateRoleCommand a) = Some (CreateRole_Policy E a)"
| "policy_of E (CreateServiceUserCommand a) = Some (CreateServiceUser_Policy E a)"
| "policy_of E (CreateUserCommand a) = Some (CreateUser_Policy E a)"
| "policy_of E (CreateVirtualServerCommand a) = Some (CreateVirtualServer_Policy E a)"
| "policy_of E (DeleteApplicationCommand a) = Some (DeleteApplication_Policy E a)"
| "policy_of E (DeleteRoleCommand a) = Some (DeleteRole_Policy E a)"
| "policy_of E (PatchApplicationCommand a) = Some (PatchApplication_Policy E a)"
| "policy_of E (PatchProjectCommand a) = Some (PatchProject_Policy E a)"
| "policy_of E (PatchResourceServerCommand a) = Some (PatchResourceServer_Policy E a)"
| "policy_of E (PatchRoleCommand a) = Some (PatchRole_Policy E a)"
| "policy_of E (PatchUserCommand a) = Some (PatchUser_Policy E a)"
| "policy_of E (PatchUserAppMetadataCommand a) = Some (PatchUserAppMetadata_Policy E a)"
| "policy_of E (PatchUserMetadataCommand a) = Some (PatchUserMetadata_Policy E a)"
| "policy_of E (PatchVirtualServerCommand a) = Some (PatchVirtualServer_Policy E a)"
| "policy_of E (RegisterUserCommand a) = None"
| "policy_of E (RemoveServiceUserPublicKeyCommand a) = Some (RemoveServiceUserPublicKey_Policy E a)"
| "policy_of E (SetPasswordCommand a) = Some (SetPassword_request E a)"
| "policy_of E (UpdatePasswordRuleCommand a) = None"
| "policy_of E (UpdateUserAppMetadataCommand a) = Some (UpdateUserAppMetadata_Policy E a)"
| "policy_of E (UpdateUserMetadataCommand a) = Some (UpdateUserMetadata_Policy E a)"
| "policy_of E (VerifyEmailCommand a) = None"

fun handle_command :: "env \<Rightarrow> embedded_files \<Rightarrow> req_ctx \<Rightarrow> command \<Rightarrow> json act" where
  "handle_command E cf ctx (AssignRoleToUserCommand a) =
     answer_of (\<lambda>_. JObj []) (HandleAssignRoleToUser E ctx a)"
| "handle_command E cf ctx (AssociateServiceUserPublicKeyCommand a) =
     answer_of (\<lambda>(i, kid). JObj [(''Id'', JStr (e_uuid_String E i)), (''Kid'', JStr kid)]) (HandleAssociateServiceUserPublicKey E a)"
| "handle_command E cf ctx (CreateApplicationCommand a) =
     answer_of (\<lambda>(i, secret). JObj [(''Id'', JStr (e_uuid_String E i)), (''Secret'', json_pointer JStr secret)]) (HandleCreateApplication E ctx a)"
| "handle_command E cf ctx (CreatePasswordRuleCommand a) =
     answer_of (\<lambda>_. JObj []) (HandleCreatePasswordRule E a)"
| "handle_command E cf ctx (CreateProjectCommand a) =
     answer_of (id_json E) (HandleCreateProject E a)"
| "handle_command E cf ctx (CreateResourceServerCommand a) =
     answer_of (id_json E) (HandleCreateResourceServer E ctx a)"
| "handle_command E cf ctx (CreateResourceServerScopeCommand a) =
     answer_of (id_json E) (HandleCreateResourceServerScope E a)"
| "handle_command E cf ctx (CreateRoleCommand a) =
     answer_of (id_json E) (HandleCreateRole E ctx a)"
| "handle_command E cf ctx (CreateServiceUserCommand a) =
     answer_of (id_json E) (HandleCreateServiceUser E a)"
| "handle_command E cf ctx (CreateUserCommand a) =
     answer_of (id_json E) (HandleCreateUser E a)"
| "handle_command E cf ctx (CreateVirtualServerCommand a) =
     answer_of (created_server_json E) (HandleCreateVirtualServer E (cf_defaultTemplate cf) a)"
| "handle_command E cf ctx (DeleteApplicationCommand a) =
     answer_of (\<lambda>_. JObj []) (HandleDeleteApplication a)"
| "handle_command E cf ctx (DeleteRoleCommand a) =
     answer_of (\<lambda>_. JObj []) (HandleDeleteRole ctx a)"
| "handle_command E cf ctx (PatchApplicationCommand a) =
     answer_of (\<lambda>_. JObj []) (HandlePatchApplication a)"
| "handle_command E cf ctx (PatchProjectCommand a) =
     answer_of (\<lambda>_. JObj []) (HandlePatchProject a)"
| "handle_command E cf ctx (PatchResourceServerCommand a) =
     answer_of (\<lambda>_. JObj []) (HandlePatchResourceServer a)"
| "handle_command E cf ctx (PatchRoleCommand a) =
     answer_of (\<lambda>_. JObj []) (HandlePatchRole ctx a)"
| "handle_command E cf ctx (PatchUserCommand a) =
     answer_of (\<lambda>_. JObj []) (HandlePatchUser a)"
| "handle_command E cf ctx (PatchUserAppMetadataCommand a) =
     answer_of (\<lambda>_. JObj []) (HandlePatchUserAppMetadata a)"
| "handle_command E cf ctx (PatchUserMetadataCommand a) =
     answer_of (\<lambda>_. JObj []) (HandlePatchUserMetadata a)"
| "handle_command E cf ctx (PatchVirtualServerCommand a) =
     answer_of (\<lambda>_. JObj []) (HandlePatchVirtualServer E a)"
| "handle_command E cf ctx (RegisterUserCommand a) =
     answer_of (id_json E) (HandleRegisterUser E (cf_commonPasswords cf) ctx a)"
| "handle_command E cf ctx (RemoveServiceUserPublicKeyCommand a) =
     answer_of (\<lambda>_. JObj []) (HandleRemoveServiceUserPublicKey a)"
| "handle_command E cf ctx (SetPasswordCommand a) =
     answer_of (\<lambda>_. JObj []) (HandleSetPassword E a)"
| "handle_command E cf ctx (UpdatePasswordRuleCommand a) =
     answer_of (\<lambda>_. JObj []) (HandleUpdatePasswordRule a)"
| "handle_command E cf ctx (UpdateUserAppMetadataCommand a) =
     answer_of (\<lambda>_. JObj []) (HandleUpdateUserAppMetadata E a)"
| "handle_command E cf ctx (UpdateUserMetadataCommand a) =
     answer_of (\<lambda>_. JObj []) (HandleUpdateUserMetadata a)"
| "handle_command E cf ctx (VerifyEmailCommand a) =
     answer_of (\<lambda>_. JObj []) (HandleVerifyEmail E a)"

definition mediatr_Send :: "env \<Rightarrow> embedded_files \<Rightarrow> req_ctx \<Rightarrow> command \<Rightarrow> json act" where
  "mediatr_Send E cf ctx c =
     (case policy_of E c of
        None \<Rightarrow> handle_command E cf ctx c
      | Some rq \<Rightarrow> Send E id rq ctx (handle_command E cf ctx c))"

end
