(* ===== verification/PasswordSpec.thy ===== *)
theory PasswordSpec
  imports Password SessionSpec
begin

text \<open>What the validator accepts, in terms of the rules stored for the virtual server.\<close>

section \<open>Decimal numbers of the messages\<close>

lemma digits_of_not_Nil: "digits_of n \<noteq> []"
  by (subst digits_of.simps) simp

section \<open>One rule\<close>

definition counted_class :: "password_rule_type \<Rightarrow> (char \<Rightarrow> bool) option" where
  "counted_class ty = (case ty of
     PasswordRuleTypeDigits \<Rightarrow> Some is_digit
   | PasswordRuleTypeLowerCase \<Rightarrow> Some is_lower_case
   | PasswordRuleTypeUpperCase \<Rightarrow> Some is_upper_case
   | PasswordRuleTypeSpecial \<Rightarrow> Some is_special
   | _ \<Rightarrow> None)"

text \<open>A rule is met when it counts characters, its minimum can be read, and the password has that many.\<close>

definition rule_met :: "password_rule \<Rightarrow> string \<Rightarrow> bool" where
  "rule_met r password \<longleftrightarrow> (\<exists>cls n. counted_class (pr_type r) = Some cls \<and>
     Unmarshal_amount ''minAmount'' (pr_details r) = Inr n \<and> n \<le> int (length (filter cls password)))"

lemma go_bind_wrap_Inr: "go_bind (wrap s m) f = Inr y \<longleftrightarrow> (\<exists>x. m = Inr x \<and> f x = Inr y)"
  by (auto simp: go_bind_Inr_iff)

lemma DeserializePolicy_met:
  "(\<exists>p. DeserializePolicy (pr_type r) (pr_details r) = Inr p \<and> Policy_Validate content p password = Inr ()) \<longleftrightarrow>
     rule_met r password"
  by (cases "pr_type r")
    (auto simp: DeserializePolicy_def rule_met_def counted_class_def go_bind_wrap_Inr at_least_def split: if_splits)

lemma DeserializePolicy_not_common: "DeserializePolicy ty d \<noteq> Inr CommonPolicy"
  by (auto simp: DeserializePolicy_def go_bind_wrap_Inr split: password_rule_type.splits)

lemma Policy_Validate_not_Panic: "Policy_Validate content p password \<noteq> Inl (Panic s)"
  by (cases p) (simp_all add: at_least_def)

section \<open>All rules\<close>

lemma collect_errors_Inr:
  assumes "\<And>r p. r \<in> set rs \<Longrightarrow> r \<noteq> Inl (Panic p)"
  shows "\<exists>es. collect_errors rs = Inr es \<and> (es = [] \<longleftrightarrow> (\<forall>r \<in> set rs. r = Inr ()))"
  using assms
proof (induction rs)
  case (Cons r rs)
  then obtain es where es: "collect_errors rs = Inr es" "es = [] \<longleftrightarrow> (\<forall>r \<in> set rs. r = Inr ())" by force
  show ?case
  proof (cases r)
    case (Inl e)
    then show ?thesis using es Cons.prems [of r] by (cases e) auto
  qed (use es in auto)
qed simp

lemma map_go_all: "(\<exists>ys. map_go f xs = Inr ys \<and> (\<forall>y \<in> set ys. P y)) \<longleftrightarrow> (\<forall>x \<in> set xs. \<exists>y. f x = Inr y \<and> P y)"
proof (induction xs)
  case (Cons x xs)
  show ?case
  proof
    assume "\<exists>ys. map_go f (x # xs) = Inr ys \<and> (\<forall>y \<in> set ys. P y)"
    then obtain ys where ys: "map_go f (x # xs) = Inr ys" "\<forall>y \<in> set ys. P y" by blast
    then obtain y zs where "f x = Inr y" "map_go f xs = Inr zs" "ys = y # zs"
      by (auto simp: go_bind_Inr_iff)
    then show "\<forall>x \<in> set (x # xs). \<exists>y. f x = Inr y \<and> P y" using ys(2) Cons.IH by auto
  next
    assume r: "\<forall>x \<in> set (x # xs). \<exists>y. f x = Inr y \<and> P y"
    then obtain y where "f x = Inr y" "P y" by auto
    moreover obtain ys where "map_go f xs = Inr ys" "\<forall>y \<in> set ys. P y" using r Cons.IH by auto
    ultimately show "\<exists>ys. map_go f (x # xs) = Inr ys \<and> (\<forall>y \<in> set ys. P y)" by simp
  qed
qed simp

lemma rules_of_server:
  "PasswordRuleRepository_List st (PasswordRuleFilter_VirtualServerId i NewPasswordRuleFilter) =
     Inr (filter (\<lambda>r. pr_virtualServerId r = i) (map snd st))"
proof -
  have "filter_go (PasswordRule_matches (PasswordRuleFilter_VirtualServerId i NewPasswordRuleFilter)) xs =
      Inr (filter (\<lambda>r. pr_virtualServerId r = i) xs)" for xs
    by (rule filter_go_pure) (auto simp: PasswordRule_matches_def filter_defs)
  then show ?thesis
    by (simp add: PasswordRuleRepository_List_def PasswordRuleRepository_filtered_def repo_filtered_def)
qed

text \<open>
  C23: the validator accepts a password exactly when the virtual server of the request exists, the
  password is not in the list of common ones, and every rule stored for the server counts a kind of
  character of which the password has the stored minimum. In particular a rule on the length, or one
  whose details cannot be read, makes it refuse every password.
\<close>

theorem password_accepted_iff:
  "fst (Validator_Validate content ctx password w) = Inr () \<longleftrightarrow>
     (\<exists>vs. rc_vsName ctx \<noteq> [] \<and> vs_named (w_stores w) (rc_vsName ctx) = Some vs \<and> password \<notin> wordsSet content \<and>
        filter (\<lambda>r. pr_virtualServerId r = bm_id (vs_base vs) \<and> \<not> rule_met r password)
          (map snd (st_PasswordRules (w_stores w))) = [])"
proof (cases "rc_vsName ctx = [] \<or> vs_named (w_stores w) (rc_vsName ctx) = None")
  case True
  then show ?thesis
    by (auto simp: Validator_Validate_def wrapped_def bnd_def vs_by_name_eq split: option.splits)
next
  case False
  then obtain vs where vs: "rc_vsName ctx \<noteq> []" "vs_named (w_stores w) (rc_vsName ctx) = Some vs" by auto
  let ?rules = "filter (\<lambda>r. pr_virtualServerId r = bm_id (vs_base vs)) (map snd (st_PasswordRules (w_stores w)))"
  let ?read = "map_go (\<lambda>r. DeserializePolicy (pr_type r) (pr_details r)) ?rules"
  let ?check = "\<lambda>p. Policy_Validate content p password"
  have step: "fst (Validator_Validate content ctx password w) =
      go_bind (wrap ''failed to deserialize password rule'' ?read) (\<lambda>ps.
      go_bind (collect_errors (map ?check (ps @ [CommonPolicy]))) errors_Join)"
    using vs by (auto simp: Validator_Validate_def wrapped_def bnd_def vs_by_name_eq db_read_def rules_of_server
        split: sum.split)
  have join: "go_bind (collect_errors (map ?check ps)) errors_Join = Inr () \<longleftrightarrow> (\<forall>p \<in> set ps. ?check p = Inr ())" for ps
  proof -
    have "r \<noteq> Inl (Panic s)" if "r \<in> set (map ?check ps)" for r s using that Policy_Validate_not_Panic by auto
    from collect_errors_Inr [of "map ?check ps", OF this] obtain es where
      "collect_errors (map ?check ps) = Inr es" "es = [] \<longleftrightarrow> (\<forall>p \<in> set ps. ?check p = Inr ())" by auto
    then show ?thesis by (auto simp: errors_Join_def)
  qed
  have "fst (Validator_Validate content ctx password w) = Inr () \<longleftrightarrow>
      (\<exists>ps. ?read = Inr ps \<and> (\<forall>p \<in> set ps. ?check p = Inr ())) \<and> password \<notin> wordsSet content"
    unfolding step go_bind_wrap_Inr join by auto
  also have "(\<exists>ps. ?read = Inr ps \<and> (\<forall>p \<in> set ps. ?check p = Inr ())) \<longleftrightarrow> (\<forall>r \<in> set ?rules. rule_met r password)"
    by (simp only: map_go_all DeserializePolicy_met)
  finally show ?thesis using vs by (auto simp: filter_empty_conv)
qed

section \<open>Writing and reading a rule\<close>

fun policy_amount :: "policy \<Rightarrow> int" where
  "policy_amount (MinLengthPolicy n) = n"
| "policy_amount (MaxLengthPolicy n) = n"
| "policy_amount (MinimumNumbersPolicy n) = n"
| "policy_amount (MinimumLowerCasePolicy n) = n"
| "policy_amount (MinimumUpperCasePolicy n) = n"
| "policy_amount (MinimumSpecialPolicy n) = n"
| "policy_amount CommonPolicy = 0"

text \<open>
  A policy that counts characters reads back as itself from its stored form, for every minimum of
  64 bits; the stored form of a policy on the length can only be read with a panic.
\<close>

theorem stored_policy_read_back:
  assumes "GetPasswordRuleType p = Inr ty" "Policy_Serialize p = Inr d" "int64 (policy_amount p)"
  shows "DeserializePolicy ty d = (if counted_class ty = None then Inl (Panic ''unreachable'') else Inr p)"
  using assms
  by (cases p) (auto simp: DeserializePolicy_def amount_json_def Unmarshal_amount_def as_object_def EqualFold_def counted_class_def)

theorem stored_policy_read_back_witness:
  "DeserializePolicy PasswordRuleTypeDigits (Doc (JObj [(''minAmount'', JNum 3)])) = Inr (MinimumNumbersPolicy 3) \<and>
   DeserializePolicy PasswordRuleTypeMinLength (Doc (JObj [(''minLength'', JNum 8)])) = Inl (Panic ''unreachable'')"
  using stored_policy_read_back [of "MinimumNumbersPolicy 3" PasswordRuleTypeDigits "Doc (JObj [(''minAmount'', JNum 3)])"]
    stored_policy_read_back [of "MinLengthPolicy 8" PasswordRuleTypeMinLength "Doc (JObj [(''minLength'', JNum 8)])"]
  by (simp add: amount_json_def int64_def counted_class_def)

end
