(* ===== verification/MediatorSpec.thy ===== *)
theory MediatorSpec
  imports Mediator PasswordSpec AuthzSpec
begin

text \<open>
  What the mediator guarantees for every command: who may run it, and that a command that succeeds
  leaves exactly its entry of the audit log to be saved; and what the commands without a policy allow.
\<close>

section \<open>The permission of a command\<close>

fun command_permission :: "command \<Rightarrow> permission option" where
  "command_permission (AssignRoleToUserCommand _) = Some RoleAssign"
| "command_permission (AssociateServiceUserPublicKeyCommand _) = Some ServiceUserAssociateKey"
| "command_permission (CreateApplicationCommand _) = Some ApplicationCreate"
| "command_permission (CreatePasswordRuleCommand _) = Some VirtualServerUpdate"
| "command_permission (CreateProjectCommand _) = Some ProjectCreate"
| "command_permission (CreateResourceServerCommand _) = Some ResourceServerCreate"
| "command_permission (CreateResourceServerScopeCommand _) = None"
| "command_permission (CreateRoleCommand _) = Some RoleCreate"
| "command_permission (CreateServiceUserCommand _) = Some ServiceUserCreate"
| "command_permission (CreateUserCommand _) = Some UserCreate"
| "command_permission (CreateVirtualServerCommand _) = Some VirtualServerCreate"
| "command_permission (DeleteApplicationCommand _) = Some ApplicationDelete"
| "command_permission (DeleteRoleCommand _) = Some RoleDelete"
| "command_permission (PatchApplicationCommand _) = Some ApplicationUpdate"
| "command_permission (PatchProjectCommand _) = Some ProjectUpdate"
| "command_permission (PatchResourceServerCommand _) = Some ResourceServerUpdate"
| "command_permission (PatchRoleCommand _) = Some RoleUpdate"
| "command_permission (PatchUserCommand _) = Some UserUpdate"
| "command_permission (PatchUserAppMetadataCommand _) = Some AppMetadataUpdateAny"
| "command_permission (PatchUserMetadataCommand _) = Some UserMetadataUpdate"
| "command_permission (PatchVirtualServerCommand _) = Some VirtualServerUpdate"
| "command_permission (RegisterUserCommand _) = None"
| "command_permission (RemoveServiceUserPublicKeyCommand _) = Some ServiceUserRemoveKey"
| "command_permission (SetPasswordCommand _) = Some UserResetPassword"
| "command_permission (UpdatePasswordRuleCommand _) = None"
| "command_permission (UpdateUserAppMetadataCommand _) = Some AppMetadataUpdateAny"
| "command_permission (UpdateUserMetadataCommand _) = Some UserMetadataUpdate"
| "command_permission (VerifyEmailCommand _) = None"

lemma policy_of_permission:
  "case command_permission c of
     None \<Rightarrow> policy_of E c = None
   | Some p \<Rightarrow> \<exists>rq. policy_of E c = Some rq \<and> rq_IsAllowed rq = PermissionBasedPolicy p \<and> rq_LogRequest rq"
  by (cases c)
    (simp_all add: AssignRoleToUser_Policy_def AssociateServiceUserPublicKey_Policy_def CreateApplication_Policy_def
      CreatePasswordRule_Policy_def CreateProject_Policy_def CreateResourceServer_Policy_def CreateRole_Policy_def
      CreateServiceUser_Policy_def CreateUser_Policy_def CreateVirtualServer_Policy_def DeleteApplication_Policy_def
      DeleteRole_Policy_def PatchApplication_Policy_def PatchProject_Policy_def PatchResourceServer_Policy_def
      PatchRole_Policy_def PatchUser_Policy_def PatchUserAppMetadata_Policy_def PatchUserMetadata_Policy_def
      PatchVirtualServer_Policy_def RemoveServiceUserPublicKey_Policy_def SetPassword_request_def
      UpdateUserAppMetadata_Policy_def UpdateUserMetadata_Policy_def)

lemma db_save_Inr: "db_save w = (Inr (), w') \<Longrightarrow> db_tracker (w_db w') = []"
  by (auto simp: db_save_def SaveChanges_def Tracker_Clear_def split: prod.splits option.splits sum.splits stop.splits)

lemma save_ok:
  "apply_entries (w_stores w) (db_tracker (w_db w)) = (st', None) \<Longrightarrow> db_save w = (Inr (), w\<lparr>w_db := newContext st'\<rparr>)"
  by (simp add: db_save_def SaveChanges_def Tracker_GetChanges_def w_stores_def newContext_def Tracker_Clear_def NewTracker_def)

text \<open>What a guarded request that succeeds leaves in the tracker.\<close>

lemma Send_audits:
  assumes ev: "evaluatePolicy rq ctx w = (Inr (Allowed i vsId reason), w)" and "rq_LogRequest rq" "i \<noteq> uuid_Nil"
    and run: "Send E to_json rq ctx handler w = (Inr x, w')"
  shows "\<exists>al. db_tracker (w_db w') = [NewEntry Added AuditLogEntityType (ItemAuditLog al)] \<and>
    al_userId al = Some i \<and> al_requestType al = rq_Name rq \<and> al_request al = Doc (rq_json rq) \<and> al_allowed al"
proof -
  obtain w1 where w1: "db_tracker (w_db w1) = []"
    and log: "dbAuditLogger_Log E rq (Allowed i vsId reason) (if rq_LogResponse rq then to_json x else JNull) w1 = (Inr (), w')"
    using run assms(2) by (auto simp: Send_def PolicyBehaviour_def SaveChangesBehaviour_def bnd_eq_Inr ev dest!: db_save_Inr)
  then show ?thesis
    using assms(3)
    by (auto simp: dbAuditLogger_Log_def isBootstrapRequest_def bnd_def uuid_New_def get_now_def db_write_def
        AuditLogRepository_Insert_def Tracker_Add_def NewAllowedAuditLog_def)
qed

lemma Send_denied:
  "evaluatePolicy rq ctx w = (Inr (Denied i v), w) \<Longrightarrow>
   Send E to_json rq ctx handler w = (Inl (Err (Wrap ''request not allowed'' (Named ErrHttpUnauthorized))), w)"
  by (simp add: Send_def PolicyBehaviour_def bnd_def wrapped_def)


definition no_files :: embedded_files where
  "no_files = \<lparr>cf_commonPasswords = [], cf_defaultTemplate = []\<rparr>"


section \<open>Commands without a policy\<close>

lemma first_filter: "first_of (filter P xs) = Some x \<Longrightarrow> x \<in> set xs \<and> P x"
  by (cases "filter P xs") (auto simp: filter_eq_Cons_iff)

lemma first_of_filter_ex: "x \<in> set xs \<Longrightarrow> P x \<Longrightarrow> \<exists>y. first_of (filter P xs) = Some y"
  by (cases "filter P xs") (auto simp: filter_empty_conv)

lemma rule_of_server:
  "PasswordRuleRepository_FirstOrErr st (PasswordRuleFilter_VirtualServerId i (PasswordRuleFilter_Type ty NewPasswordRuleFilter)) =
     (case first_of (filter (\<lambda>r. pr_virtualServerId r = i \<and> pr_type r = ty) (map snd st)) of
        None \<Rightarrow> Inl (Err (Named ErrPasswordRuleNotFound)) | Some r \<Rightarrow> Inr r)"
proof -
  have "filter_go (PasswordRule_matches (PasswordRuleFilter_VirtualServerId i (PasswordRuleFilter_Type ty NewPasswordRuleFilter))) xs =
      Inr (filter (\<lambda>r. pr_virtualServerId r = i \<and> pr_type r = ty) xs)" for xs
    by (rule filter_go_pure) (auto simp: PasswordRule_matches_def filter_defs)
  then show ?thesis
    by (simp add: PasswordRuleRepository_FirstOrErr_def PasswordRuleRepository_FirstOrNil_def or_err_def
        PasswordRuleRepository_filtered_def repo_filtered_def split: option.split)
qed

lemma map_of_map_entry: "map_of (AList.map_entry k f m) k' = (if k' = k then map_option f (map_of m k) else map_of m k')"
  by (induction k f m rule: AList.map_entry.induct) auto

lemma EqualFold_refl [simp]: "EqualFold s s"
  by (simp add: EqualFold_def)

definition nothing_required :: json_obj where
  "nothing_required = [(''minAmount'', JNum 0)]"

lemma nothing_required_amount [simp]: "Unmarshal_amount ''minAmount'' (Doc (JObj nothing_required)) = Inr 0"
  by (simp add: nothing_required_def Unmarshal_amount_def as_object_def int64_def)

lemma nothing_required_policy:
  "counted_class ty \<noteq> None \<Longrightarrow>
   \<exists>p. DeserializePolicy ty (Doc (JObj nothing_required)) = Inr p \<and> Policy_Serialize p = Inr (Doc (JObj nothing_required))"
  by (cases ty) (simp_all add: counted_class_def DeserializePolicy_def amount_json_def, simp_all add: nothing_required_def)

text \<open>
  C24: whoever sends the command, an anonymous caller too, can reduce a password rule of every virtual
  server to one that every password meets: the command to update a rule has no policy.
\<close>

theorem anyone_can_weaken_password_rules:
  assumes "wf_stores (w_stores w)" "vs_named (w_stores w) name = Some vs" "counted_class ty \<noteq> None"
    and "r \<in> set (map snd (st_PasswordRules (w_stores w)))" "pr_virtualServerId r = bm_id (vs_base vs)" "pr_type r = ty"
  shows "\<exists>w' i r'. mediatr_Send E cf ctx (UpdatePasswordRuleCommand
        \<lparr>upr_VirtualServerName = name, upr_Type = ty, upr_Details = Some nothing_required\<rparr>) w = (Inr (JObj []), w') \<and>
      map_of (st_PasswordRules (w_stores w')) i = Some r' \<and> pr_virtualServerId r' = bm_id (vs_base vs) \<and> pr_type r' = ty \<and>
      (\<forall>password. rule_met r' password)"
proof -
  let ?store = "st_PasswordRules (w_stores w)"
  obtain q where q: "first_of (filter (\<lambda>r. pr_virtualServerId r = bm_id (vs_base vs) \<and> pr_type r = ty) (map snd ?store)) = Some q"
    using first_of_filter_ex [OF assms(4), of "\<lambda>r. pr_virtualServerId r = bm_id (vs_base vs) \<and> pr_type r = ty"] assms(5,6) by auto
  have q': "q \<in> set (map snd ?store)" "pr_virtualServerId q = bm_id (vs_base vs)" "pr_type q = ty"
    using first_filter [OF q] by simp_all
  have store: "wf_store (\<lambda>e. bm_id (pr_base e)) ?store" using assms(1) by (simp add: wf_stores_def)
  obtain k where "(k, q) \<in> set ?store" using q'(1) by auto
  then have k: "map_of ?store (bm_id (pr_base q)) = Some q"
    using store unfolding wf_store_def by (metis map_of_is_SomeI)
  obtain p where p: "DeserializePolicy ty (Doc (JObj nothing_required)) = Inr p" "Policy_Serialize p = Inr (Doc (JObj nothing_required))"
    using nothing_required_policy [OF assms(3)] by blast
  let ?q = "q\<lparr>pr_details := Doc (JObj nothing_required), pr_changes := TrackChange PasswordRuleChangeDetails (pr_changes q)\<rparr>"
  have met: "rule_met ?q password" for password
    using assms(3) q'(3)
    by (auto simp: rule_met_def)
  let ?w = "w\<lparr>w_db := (w_db w)\<lparr>db_stores := (w_stores w)\<lparr>st_PasswordRules :=
      AList.map_entry (bm_id (pr_base q)) (\<lambda>_. ?q) ?store\<rparr>, db_tracker := PasswordRuleRepository_Update ?q (db_tracker (w_db w))\<rparr>\<rparr>"
  have sorted: "sort_key fst nothing_required = nothing_required" by (simp add: nothing_required_def)
  have "mediatr_Send E cf ctx (UpdatePasswordRuleCommand
        \<lparr>upr_VirtualServerName = name, upr_Type = ty, upr_Details = Some nothing_required\<rparr>) w = (Inr (JObj []), ?w)"
    using p(1,2)
    by (simp add: mediatr_Send_def answer_of_def HandleUpdatePasswordRule_def the_vs_def bnd_def wrapped_def vs_by_name_eq
        assms(2) [unfolded w_stores_def] db_read_def rule_of_server q [unfolded w_stores_def] Marshal_map_def sorted json_map_def PasswordRule_SetDetails_def edit_password_rule_def db_alter_def
        db_write_def w_stores_def)
  moreover have "map_of (st_PasswordRules (w_stores ?w)) (bm_id (pr_base q)) = Some ?q"
    using k by (simp add: w_stores_def map_of_map_entry)
  ultimately show ?thesis
    using met q'(2,3) by (intro exI [of _ ?w] exI [of _ "bm_id (pr_base q)"] exI [of _ ?q]) simp
qed

definition eight_digits :: password_rule where
  "eight_digits = \<lparr>pr_base = NewBaseModel 9 0, pr_changes = NewChanges, pr_virtualServerId = 1,
     pr_type = PasswordRuleTypeDigits, pr_details = Doc (JObj [(''minAmount'', JNum 8)])\<rparr>"

definition ruled_world :: world where
  "ruled_world = world_with
     (newStores\<lparr>st_VirtualServers := [(1, sample_vs)], st_PasswordRules := [(9, eight_digits)]\<rparr>)"

theorem anyone_can_weaken_password_rules_witness:
  "\<not> rule_met eight_digits ''secret'' \<and>
   (\<exists>w' i r'. mediatr_Send test_env no_files nobody (UpdatePasswordRuleCommand
        \<lparr>upr_VirtualServerName = ''a'', upr_Type = PasswordRuleTypeDigits, upr_Details = Some nothing_required\<rparr>) ruled_world =
      (Inr (JObj []), w') \<and>
    map_of (st_PasswordRules (w_stores w')) i = Some r' \<and> rule_met r' ''secret'')"
proof -
  have "wf_stores (w_stores ruled_world)"
    by (simp add: ruled_world_def wf_stores_def newStores_def wf_store_def eight_digits_def NewBaseModel_def
        sample_vs_def NewVirtualServer_def)
  moreover have "vs_named (w_stores ruled_world) ''a'' = Some sample_vs"
    by (simp add: ruled_world_def vs_named_def sample_vs_def NewVirtualServer_def)
  moreover have "\<not> rule_met eight_digits ''secret''"
    by (simp add: rule_met_def eight_digits_def counted_class_def Unmarshal_amount_def as_object_def int64_def
        is_digit_def between_def)
  moreover have "eight_digits \<in> set (map snd (st_PasswordRules (w_stores ruled_world)))"
    "pr_virtualServerId eight_digits = bm_id (vs_base sample_vs)" "pr_type eight_digits = PasswordRuleTypeDigits"
    by (simp_all add: ruled_world_def eight_digits_def sample_vs_def NewVirtualServer_def NewBaseModel_def)
  ultimately show ?thesis
    using anyone_can_weaken_password_rules [of ruled_world "''a''" sample_vs PasswordRuleTypeDigits eight_digits
        test_env no_files nobody]
    by (auto simp: counted_class_def)
qed

end
