(* ===== verification/SystemRoles.thy ===== *)
theory SystemRoles
  imports MediatorSpec
begin

text \<open>
  The roles of the system projects carry the permissions of the program itself. No sequence of
  commands of callers without the permission of the system user, creating a virtual server apart,
  changes which projects are system projects, what their roles are, or who has them.
\<close>

section \<open>The protected part of the stores\<close>

record protected_part =
  pp_projects :: "uuid set"
  pp_roles :: "(uuid \<times> role) set"
  pp_assignments :: "(uuid \<times> user_role_assignment) set"

definition protected_of ::
  "(uuid \<times> project) list \<Rightarrow> (uuid \<times> role) list \<Rightarrow> (uuid \<times> user_role_assignment) list \<Rightarrow> protected_part" where
  "protected_of ps rs as =
     (let P = {i. \<exists>p. map_of ps i = Some p \<and> p_systemProject p};
          R = {(i, r). map_of rs i = Some r \<and> ro_projectId r \<in> P}
      in \<lparr>pp_projects = P, pp_roles = R,
          pp_assignments = {(i, a). map_of as i = Some a \<and> ura_roleId a \<in> fst ` R}\<rparr>)"

definition protected :: "stores \<Rightarrow> protected_part" where
  "protected st = protected_of (st_Projects st) (st_Roles st) (st_UserRoleAssignments st)"

lemma protected_simps:
  "i \<in> pp_projects (protected st) \<longleftrightarrow> (\<exists>p. map_of (st_Projects st) i = Some p \<and> p_systemProject p)"
  "(i, r) \<in> pp_roles (protected st) \<longleftrightarrow> map_of (st_Roles st) i = Some r \<and> ro_projectId r \<in> pp_projects (protected st)"
  "(i, a) \<in> pp_assignments (protected st) \<longleftrightarrow>
     map_of (st_UserRoleAssignments st) i = Some a \<and> ura_roleId a \<in> fst ` pp_roles (protected st)"
  by (simp_all add: protected_def protected_of_def Let_def)

lemma protected_eqI:
  assumes "pp_projects (protected st) = P" "pp_roles (protected st) = R" "pp_assignments (protected st) = A"
  shows "protected st = \<lparr>pp_projects = P, pp_roles = R, pp_assignments = A\<rparr>"
  using assms by (cases "protected st") simp

definition protected_ids :: "protected_part \<Rightarrow> uuid set" where
  "protected_ids V = pp_projects V \<union> fst ` pp_roles V \<union> fst ` pp_assignments V"

lemma protected_idI:
  "i \<notin> protected_ids V \<Longrightarrow> i \<notin> pp_projects V \<and> i \<notin> fst ` pp_roles V \<and> i \<notin> fst ` pp_assignments V"
  by (simp add: protected_ids_def)

section \<open>Harmless entries of the tracker\<close>

definition own_kind :: "protected_part \<Rightarrow> project \<Rightarrow> bool" where
  "own_kind V p \<longleftrightarrow> (p_systemProject p \<longleftrightarrow> bm_id (p_base p) \<in> pp_projects V)"

definition plain_role :: "protected_part \<Rightarrow> role \<Rightarrow> bool" where
  "plain_role V r \<longleftrightarrow> bm_id (ro_base r) \<notin> fst ` pp_roles V \<and> ro_projectId r \<notin> pp_projects V"

fun harmless :: "protected_part \<Rightarrow> entry \<Rightarrow> bool" where
  "harmless V (NewEntry ct ty it) =
     (case ty of
        ProjectEntityType \<Rightarrow> ct \<noteq> Deleted \<and> (\<exists>p. it = ItemProject p \<and> own_kind V p)
      | RoleEntityType \<Rightarrow>
          (if ct = Deleted then \<exists>i. it = ItemId i \<and> i \<notin> fst ` pp_roles V else \<exists>r. it = ItemRole r \<and> plain_role V r)
      | UserRoleAssignmentEntityType \<Rightarrow>
          \<exists>a. it = ItemUserRoleAssignment a \<and> bm_id (ura_base a) \<notin> fst ` pp_assignments V \<and>
              ura_roleId a \<notin> fst ` pp_roles V
      | _ \<Rightarrow> True)"

definition stores_wf :: "stores \<Rightarrow> bool" where
  "stores_wf st \<longleftrightarrow> wf_store (\<lambda>e. bm_id (p_base e)) (st_Projects st) \<and> wf_store (\<lambda>e. bm_id (ro_base e)) (st_Roles st)"

lemma wf_stores_wf: "wf_stores st \<Longrightarrow> stores_wf st"
  by (simp add: wf_stores_def stores_wf_def)

text \<open>Changing one project, role or assignment that is not protected.\<close>

lemma protected_project:
  assumes "own_kind V p" "protected st = V" "map_of ps' = (map_of (st_Projects st))(bm_id (p_base p) \<mapsto> p)"
  shows "protected (st\<lparr>st_Projects := ps'\<rparr>) = V"
proof -
  have "{i. \<exists>q. map_of ps' i = Some q \<and> p_systemProject q} = {i. \<exists>q. map_of (st_Projects st) i = Some q \<and> p_systemProject q}"
    using assms protected_simps(1) [of _ st] by (auto simp: own_kind_def split: if_splits)
  then show ?thesis using assms(2) by (simp add: protected_def protected_of_def)
qed

lemma protected_role:
  assumes "protected st = V" "i \<notin> fst ` pp_roles V"
    and "\<And>j. j \<noteq> i \<Longrightarrow> map_of rs' j = map_of (st_Roles st) j"
    and "\<And>r. map_of rs' i = Some r \<Longrightarrow> ro_projectId r \<notin> pp_projects V"
  shows "protected (st\<lparr>st_Roles := rs'\<rparr>) = V"
proof -
  let ?P = "pp_projects V"
  have P: "?P = {i. \<exists>p. map_of (st_Projects st) i = Some p \<and> p_systemProject p}"
    using assms(1) protected_simps(1) [of _ st] by auto
  have "map_of (st_Roles st) i = Some r \<Longrightarrow> ro_projectId r \<notin> ?P" for r
    using assms(1,2) protected_simps(2) [of i r st] by force
  then have "{(j, r). map_of rs' j = Some r \<and> ro_projectId r \<in> ?P} = {(j, r). map_of (st_Roles st) j = Some r \<and> ro_projectId r \<in> ?P}"
    using assms(3,4) by (auto, metis, metis)
  then show ?thesis using assms(1) P by (simp add: protected_def protected_of_def)
qed

lemma unseen_update:
  "\<not> P a \<Longrightarrow> (\<And>b. map_of m k = Some b \<Longrightarrow> \<not> P b) \<Longrightarrow>
   {(i, b). map_of (AList.update k a m) i = Some b \<and> P b} = {(i, b). map_of m i = Some b \<and> P b}"
  by (auto simp: update_conv' split: if_splits)

lemma protected_assignment:
  assumes "protected st = V" "bm_id (ura_base a) \<notin> fst ` pp_assignments V" "ura_roleId a \<notin> fst ` pp_roles V"
  shows "protected (st\<lparr>st_UserRoleAssignments := AList.update (bm_id (ura_base a)) a (st_UserRoleAssignments st)\<rparr>) = V"
proof -
  let ?i = "bm_id (ura_base a)" and ?as = "st_UserRoleAssignments st" and ?R = "fst ` pp_roles V"
  have A: "pp_assignments V = {(i, b). map_of ?as i = Some b \<and> ura_roleId b \<in> ?R}"
    using assms(1) by (auto simp: protected_simps(3), force)
  have old: "ura_roleId b \<notin> ?R" if "map_of ?as ?i = Some b" for b
    using assms(2) that unfolding A by force
  have "{(i, b). map_of (AList.update ?i a ?as) i = Some b \<and> ura_roleId b \<in> ?R} =
      {(i, b). map_of ?as i = Some b \<and> ura_roleId b \<in> ?R}"
    using assms(3) old by (intro unseen_update [where P = "\<lambda>b. ura_roleId b \<in> ?R"])
  moreover have "protected (st\<lparr>st_UserRoleAssignments := as\<rparr>) =
      V\<lparr>pp_assignments := {(i, b). map_of as i = Some b \<and> ura_roleId b \<in> ?R}\<rparr>" for as
    using assms(1) by (auto simp: protected_def protected_of_def Let_def)
  ultimately show ?thesis using A by simp
qed

lemma harmless_apply:
  assumes "Context_applyChange st ch = Inr st'" "harmless V ch" "protected st = V"
  shows "protected st' = V"
proof -
  obtain ct ty it where ch: "ch = NewEntry ct ty it" by (cases ch)
  show ?thesis
  proof (cases "ty = ProjectEntityType \<or> ty = RoleEntityType \<or> ty = UserRoleAssignmentEntityType")
    case False
    then show ?thesis
      using assms ch by (cases ty) (auto simp: Context_applyChange_def go_bind_Inr_iff protected_def)
  next
    case True
    then show ?thesis
    proof (elim disjE)
      assume ty: "ty = ProjectEntityType"
      then obtain p where p: "it = ItemProject p" "own_kind V p" "ct \<noteq> Deleted" using assms(2) ch by auto
      then have "own_kind V (written_Project p)" "bm_id (p_base (written_Project p)) = bm_id (p_base p)"
        by (simp_all add: own_kind_def written_Project_def)
      then show ?thesis
        using assms(1,3) p ty ch protected_project [of V "written_Project p" st]
        by (cases ct) (auto simp: Context_applyChange_def applyChange_def go_bind_Inr_iff as_Project_def update_conv' Let_def)
    next
      assume ty: "ty = RoleEntityType"
      show ?thesis
      proof (cases "ct = Deleted")
        case True
        then show ?thesis
          using assms ty ch
          by (auto simp: Context_applyChange_def applyChange_def go_bind_Inr_iff as_Id_def delete_conv'
              intro!: protected_role split: if_splits)
      next
        case False
        then obtain r where r: "it = ItemRole r" "plain_role V r" using assms(2) ty ch by auto
        then have "plain_role V (written_Role r)" by (simp add: plain_role_def written_Role_def)
        then show ?thesis
          using assms(1,3) r ty ch False
          by (cases ct) (auto simp: Context_applyChange_def applyChange_def go_bind_Inr_iff as_Role_def update_conv'
              plain_role_def Let_def intro!: protected_role [where i = "bm_id (ro_base (written_Role r))"])
      qed
    next
      assume ty: "ty = UserRoleAssignmentEntityType"
      then obtain a where a: "it = ItemUserRoleAssignment a" "bm_id (ura_base a) \<notin> fst ` pp_assignments V"
        "ura_roleId a \<notin> fst ` pp_roles V" using assms(2) ch by auto
      then show ?thesis
        using assms(1,3) ty ch protected_assignment [of st V "written_UserRoleAssignment a"]
        by (cases ct) (auto simp: Context_applyChange_def applyInsertOnly_def go_bind_Inr_iff as_UserRoleAssignment_def
            written_UserRoleAssignment_def Let_def)
    qed
  qed
qed

lemma Context_applyChange_stores_wf: "Context_applyChange st ch = Inr st' \<Longrightarrow> stores_wf st \<Longrightarrow> stores_wf st'"
  by (cases "ch_itemType ch")
    (auto simp: Context_applyChange_def stores_wf_def go_bind_Inr_iff dest: wf_store_preserved split: if_splits)

lemma harmless_entries:
  "list_all (harmless V) chs \<Longrightarrow> protected st = V \<Longrightarrow> stores_wf st \<Longrightarrow>
   protected (fst (apply_entries st chs)) = V \<and> stores_wf (fst (apply_entries st chs))"
  by (induction chs arbitrary: st)
    (auto split: sum.split dest: harmless_apply Context_applyChange_stores_wf)

section \<open>Computations that keep what is protected\<close>

definition calm :: "env \<Rightarrow> protected_part \<Rightarrow> world \<Rightarrow> bool" where
  "calm E V w \<longleftrightarrow> protected (w_stores w) = V \<and> stores_wf (w_stores w) \<and>
     list_all (harmless V) (db_tracker (w_db w)) \<and> (\<forall>n \<ge> w_rand w. e_uuid_New E n \<notin> protected_ids V)"

text \<open>A computation that starts calm ends calm, and a result it gives satisfies \<open>Q\<close>.\<close>

definition stays :: "env \<Rightarrow> protected_part \<Rightarrow> ('a \<Rightarrow> bool) \<Rightarrow> 'a act \<Rightarrow> bool" where
  "stays E V Q m \<longleftrightarrow> (\<forall>w. calm E V w \<longrightarrow> calm E V (snd (m w)) \<and> (\<forall>x. fst (m w) = Inr x \<longrightarrow> Q x))"

definition steady :: "env \<Rightarrow> protected_part \<Rightarrow> 'a act \<Rightarrow> bool" where
  "steady E V m \<longleftrightarrow> (\<forall>w. calm E V w \<longrightarrow> calm E V (snd (m w)))"

named_theorems steady \<open>computations that keep what is protected\<close>

lemma stays_steady: "stays E V Q m \<Longrightarrow> steady E V m"
  by (simp add: stays_def steady_def)

lemma stays_bnd:
  assumes "stays E V Q m" "\<And>x. Q x \<Longrightarrow> steady E V (f x)" shows "steady E V (bnd m f)"
  using assms by (fastforce simp: steady_def stays_def bnd_def split: prod.splits sum.splits)

lemma steady_bnd [steady]: "steady E V m \<Longrightarrow> (\<And>x. steady E V (f x)) \<Longrightarrow> steady E V (bnd m f)"
  by (rule stays_bnd [where Q = "\<lambda>_. True"]) (simp_all add: steady_def stays_def)

lemma stays_wrapped: "stays E V Q m \<Longrightarrow> stays E V Q (wrapped msg m)"
  by (fastforce simp: stays_def wrapped_def split: prod.splits)

lemma steady_wrapped [steady]: "steady E V m \<Longrightarrow> steady E V (wrapped msg m)"
  by (fastforce simp: steady_def wrapped_def split: prod.splits)

lemma steady_pure [steady, simp]:
  "steady E V (ret x)" "steady E V (lift r)" "steady E V (err e)" "steady E V (panic p)" "steady E V (stop_with s)"
  "steady E V get_now" "steady E V (db_read q)" "steady E V (emit ev)" "steady E V (kv_get k)" "steady E V (kv_set k v opts)"
  "steady E V (kv_delete k)"
  by (simp_all add: steady_def get_now_def db_read_def emit_def kv_get_def kv_set_def kv_delete_def calm_def w_stores_def
      split: prod.splits)

lemma steady_catch [steady]: "steady E V m \<Longrightarrow> steady E V (catch m)"
  by (fastforce simp: steady_def catch_def split: prod.splits sum.splits stop.splits)

lemma steady_draws [steady, simp]:
  "steady E V (uuid_New E)" "steady E V (GetSecureRandomBytes E n)" "steady E V (HashPassword E pw)"
  "steady E V (generate_key E vs alg)"
  by (simp_all add: steady_def uuid_New_def GetSecureRandomBytes_def HashPassword_def generate_key_def calm_def w_stores_def split: prod.splits)

lemma steady_db_save [steady, simp]: "steady E V db_save"
  unfolding steady_def
proof (intro allI impI)
  fix w assume w: "calm E V w"
  then have "protected (fst (apply_entries (w_stores w) (db_tracker (w_db w)))) = V"
    "stores_wf (fst (apply_entries (w_stores w) (db_tracker (w_db w))))"
    using harmless_entries by (auto simp: calm_def)
  then show "calm E V (snd (db_save w))"
    using w by (auto simp: calm_def db_save_def SaveChanges_def Tracker_GetChanges_def Tracker_Clear_def w_stores_def
        split: prod.splits option.splits)
qed

lemma steady_db_write [steady]:
  "(\<And>tr. list_all (harmless V) tr \<Longrightarrow> list_all (harmless V) (t tr)) \<Longrightarrow> steady E V (db_write t)"
  by (simp add: steady_def db_write_def calm_def w_stores_def)

text \<open>Entries of the other kinds of entities are harmless.\<close>

lemma harmless_repo [simp]:
  "list_all (harmless V) (VirtualServerRepository_Update vs tr) = list_all (harmless V) tr"
  "list_all (harmless V) (ApplicationRepository_Insert app tr) = list_all (harmless V) tr"
  "list_all (harmless V) (ApplicationRepository_Update app tr) = list_all (harmless V) tr"
  "list_all (harmless V) (ApplicationRepository_Delete i tr) = list_all (harmless V) tr"
  "list_all (harmless V) (UserRepository_Insert user tr) = list_all (harmless V) tr"
  "list_all (harmless V) (UserRepository_Update user tr) = list_all (harmless V) tr"
  "list_all (harmless V) (CredentialRepository_Insert cr tr) = list_all (harmless V) tr"
  "list_all (harmless V) (CredentialRepository_Update cr tr) = list_all (harmless V) tr"
  "list_all (harmless V) (CredentialRepository_Delete i tr) = list_all (harmless V) tr"
  "list_all (harmless V) (ResourceServerRepository_Insert rs tr) = list_all (harmless V) tr"
  "list_all (harmless V) (ResourceServerRepository_Update rs tr) = list_all (harmless V) tr"
  "list_all (harmless V) (ResourceServerScopeRepository_Insert rss tr) = list_all (harmless V) tr"
  "list_all (harmless V) (PasswordRuleRepository_Insert pr tr) = list_all (harmless V) tr"
  "list_all (harmless V) (PasswordRuleRepository_Update pr tr) = list_all (harmless V) tr"
  "list_all (harmless V) (ApplicationUserMetadataRepository_Insert aum tr) = list_all (harmless V) tr"
  "list_all (harmless V) (ApplicationUserMetadataRepository_Update aum tr) = list_all (harmless V) tr"
  "list_all (harmless V) (OutboxMessageRepository_Insert ob tr) = list_all (harmless V) tr"
  "list_all (harmless V) (AuditLogRepository_Insert al tr) = list_all (harmless V) tr"
  by (simp_all add: repo_write_defs Tracker_Add_def)

lemma harmless_protected_repo:
  "own_kind V p \<Longrightarrow> list_all (harmless V) tr \<Longrightarrow> list_all (harmless V) (ProjectRepository_Insert p tr)"
  "own_kind V p \<Longrightarrow> list_all (harmless V) tr \<Longrightarrow> list_all (harmless V) (ProjectRepository_Update p tr)"
  "plain_role V r \<Longrightarrow> list_all (harmless V) tr \<Longrightarrow> list_all (harmless V) (RoleRepository_Insert r tr)"
  "plain_role V r \<Longrightarrow> list_all (harmless V) tr \<Longrightarrow> list_all (harmless V) (RoleRepository_Update r tr)"
  "i \<notin> fst ` pp_roles V \<Longrightarrow> list_all (harmless V) tr \<Longrightarrow> list_all (harmless V) (RoleRepository_Delete i tr)"
  "bm_id (ura_base a) \<notin> fst ` pp_assignments V \<Longrightarrow> ura_roleId a \<notin> fst ` pp_roles V \<Longrightarrow> list_all (harmless V) tr \<Longrightarrow>
   list_all (harmless V) (UserRoleAssignmentRepository_Insert a tr)"
  by (simp_all add: repo_write_defs Tracker_Add_def)

lemma steady_db_alter:
  "(\<And>st. protected (f st) = protected st \<and> stores_wf (f st) = stores_wf st) \<Longrightarrow> steady E V (db_alter f)"
  by (simp add: steady_def db_alter_def calm_def w_stores_def)

lemma steady_edit [steady, simp]:
  "steady E V (edit_application a fa)" "steady E V (edit_user u fu)" "steady E V (edit_resource_server r fr)"
  "steady E V (edit_virtual_server v fv)" "steady E V (edit_metadata m fm)" "steady E V (edit_password_rule q q')"
  unfolding edit_application_def edit_user_def edit_resource_server_def edit_virtual_server_def edit_metadata_def
    edit_password_rule_def
  by (auto intro!: steady_bnd steady_db_alter simp: protected_def stores_wf_def)

lemma steady_each [steady]: "(\<And>x. steady E V (f x)) \<Longrightarrow> steady E V (each f xs)"
  by (induction xs) (auto intro: steady)

lemma steady_guard: "steady E V m \<Longrightarrow> steady E V m'  \<Longrightarrow> steady E V (if b then m else m')"
  by simp

lemma steady_shared [steady, simp]:
  "steady E V (the_vs name)" "steady E V (the_project vs slug)" "steady E V (the_user fu)" "steady E V (the_application vs i)"
  "steady E V (the_resource_server vs pr i)" "steady E V (system_guard ctx p msg)" "steady E V (vs_by_name n)"
  "steady E V (GetToken tt tok)" "steady E V (DeleteToken tt tok)"
  "steady E V (GenerateAndStoreToken E tt v d)" "steady E V (PermissionBasedPolicy perm ctx)"
  "steady E V (unless_system app msg fa)"
  unfolding the_vs_def the_project_def the_user_def the_application_def the_resource_server_def system_guard_def vs_by_name_def
    GetToken_def DeleteToken_def GenerateAndStoreToken_def PermissionBasedPolicy_def unless_system_def
  by (auto intro!: steady simp: Let_def split: option.splits sum.splits)

lemma steady_fresh [steady, simp]: "steady E V (fresh E new)"
  by (auto simp: fresh_def intro!: steady)

lemma steady_secret_for [steady, simp]: "steady E V (secret_for E c app)"
  unfolding secret_for_def by (auto intro!: steady split: option.splits prod.splits)

lemma steady_Template [steady, simp]: "steady E V (TemplateService_Template E vs ty data)"
  unfolding TemplateService_Template_def by (auto intro!: steady split: option.splits)

lemma steady_QueueEmail [steady, simp]: "steady E V (QueueEmailVerificationJobOnUserCreatedEvent E user)"
  unfolding QueueEmailVerificationJobOnUserCreatedEvent_def by (auto intro!: steady split: option.splits)

lemma steady_Validate [steady, simp]: "steady E V (Validator_Validate content ctx pw)"
  unfolding Validator_Validate_def by (auto intro!: steady)

section \<open>Commands on other entities\<close>

lemma steady_other_handlers [simp]:
  "steady E V (HandleCreateApplication E ctx c1)" "steady E V (HandlePatchApplication c2)" "steady E V (HandleDeleteApplication c3)"
  "steady E V (HandleCreateResourceServer E ctx c4)" "steady E V (HandlePatchResourceServer c5)"
  "steady E V (HandleCreateResourceServerScope E c6)" "steady E V (HandleCreatePasswordRule E c7)"
  "steady E V (HandleUpdatePasswordRule c8)"
  unfolding HandleCreateApplication_def HandlePatchApplication_def HandleDeleteApplication_def HandleCreateResourceServer_def
    HandlePatchResourceServer_def HandleCreateResourceServerScope_def HandleCreatePasswordRule_def HandleUpdatePasswordRule_def
  by (auto intro!: steady simp: Let_def split: option.splits prod.splits)

lemma steady_user_handlers [simp]:
  "steady E V (HandleCreateUser E c1)" "steady E V (HandleRegisterUser E content ctx c2)" "steady E V (HandleVerifyEmail E c3)"
  "steady E V (HandlePatchUser c4)" "steady E V (HandleCreateServiceUser E c5)"
  "steady E V (HandleAssociateServiceUserPublicKey E c6)" "steady E V (HandleRemoveServiceUserPublicKey c7)"
  "steady E V (HandleUpdateUserMetadata c8)" "steady E V (HandlePatchUserMetadata c9)"
  unfolding HandleCreateUser_def HandleRegisterUser_def HandleVerifyEmail_def HandlePatchUser_def HandleCreateServiceUser_def
    HandleAssociateServiceUserPublicKey_def HandleRemoveServiceUserPublicKey_def HandleUpdateUserMetadata_def
    HandlePatchUserMetadata_def
  by (auto intro!: steady simp: Let_def split: option.splits prod.splits)

lemma steady_more_handlers [simp]:
  "steady E V (HandleUpdateUserAppMetadata E c1)" "steady E V (HandlePatchUserAppMetadata c2)" "steady E V (HandleSetPassword E c3)"
  unfolding HandleUpdateUserAppMetadata_def HandlePatchUserAppMetadata_def HandleSetPassword_def
  by (auto intro!: steady simp: Let_def split: option.splits prod.splits)

lemma steady_ensure_key [steady, simp]: "steady E V (ensure_key E vs alg)"
proof -
  have "steady E V (\<lambda>w. (KS_GetAllForAlgorithm NewMemoryKeyStore vs alg (w_keys w), w))" by (simp add: steady_def)
  then show ?thesis unfolding ensure_key_def by (auto intro!: steady)
qed

lemma steady_PatchVirtualServer [simp]: "steady E V (HandlePatchVirtualServer E c)"
  unfolding HandlePatchVirtualServer_def check_applications_def
  by (auto intro!: steady simp: Let_def split: option.splits prod.splits)

section \<open>Commands on projects, roles and assignments\<close>

lemma stays_read:
  assumes "\<And>st x. protected st = V \<Longrightarrow> stores_wf st \<Longrightarrow> q st = Inr x \<Longrightarrow> Q x"
  shows "stays E V Q (db_read q)"
  using assms unfolding stays_def db_read_def calm_def by auto

text \<open>What a repository finds is in its store under its identifier.\<close>

lemma filter_go_subset: "filter_go p xs = Inr ys \<Longrightarrow> set ys \<subseteq> set xs \<and> (\<forall>y \<in> set ys. p y = Inr True)"
  by (induction xs arbitrary: ys) (auto simp: go_bind_Inr_iff split: if_splits)

lemma found_in_store:
  assumes "go_bind (repo_filtered p store) (\<lambda>items. Inr (first_of items)) = Inr (Some x)" "wf_store idOf store"
  shows "map_of store (idOf x) = Some x \<and> p x = Inr True"
proof -
  obtain items where "filter_go p (map snd store) = Inr items" "first_of items = Some x"
    using assms(1) by (auto simp: repo_filtered_def go_bind_Inr_iff)
  then have "x \<in> set (map snd store)" "p x = Inr True"
    using filter_go_subset [of p "map snd store" items] by (auto simp: first_of_def split: list.splits)
  moreover then obtain k where "(k, x) \<in> set store" by auto
  ultimately show ?thesis using assms(2) unfolding wf_store_def by (metis map_of_is_SomeI)
qed

lemma the_project_own: "stays E V (\<lambda>p. own_kind V p) (the_project vs slug)"
  unfolding the_project_def
proof (intro stays_wrapped stays_read)
  fix st p assume st: "protected st = V" "stores_wf st"
    and p: "ProjectRepository_FirstOrErr (st_Projects st)
      (ProjectFilter_Slug slug (ProjectFilter_VirtualServerId (bm_id (vs_base vs)) NewProjectFilter)) = Inr p"
  have "map_of (st_Projects st) (bm_id (p_base p)) = Some p"
    using p st(2) found_in_store [of "Project_matches _" "st_Projects st" p "\<lambda>e. bm_id (p_base e)"]
    by (auto simp: ProjectRepository_FirstOrErr_def or_err_def ProjectRepository_FirstOrNil_def ProjectRepository_filtered_def
        stores_wf_def go_bind_Inr_iff split: option.splits)
  then show "own_kind V p" using st(1) by (auto simp: own_kind_def protected_simps(1))
qed

lemma role_found:
  assumes "RoleRepository_FirstOrNil (st_Roles st) (role_filter_of vs project i) = Inr (Some r)" "stores_wf st" "protected st = V"
    and "bm_id (p_base project) \<notin> pp_projects V"
  shows "plain_role V r \<and> bm_id (ro_base r) = i"
proof -
  have "map_of (st_Roles st) (bm_id (ro_base r)) = Some r \<and> Role_matches (role_filter_of vs project i) r = Inr True"
    using assms(1,2) found_in_store [of "Role_matches _" "st_Roles st" r "\<lambda>e. bm_id (ro_base e)"]
    by (auto simp: RoleRepository_FirstOrNil_def RoleRepository_filtered_def stores_wf_def)
  then have "map_of (st_Roles st) (bm_id (ro_base r)) = Some r" "ro_projectId r = bm_id (p_base project)" "bm_id (ro_base r) = i"
    by (auto simp: Role_matches_def role_filter_of_def filter_defs split: if_splits)
  then show ?thesis
    using assms(3,4) by (auto simp: plain_role_def protected_simps(2))
qed

definition unprivileged :: "req_ctx \<Rightarrow> bool" where
  "unprivileged ctx \<longleftrightarrow> (\<forall>u. rc_user ctx = Some u \<longrightarrow> \<not> granted u SystemUser)"

lemma stays_system_guard:
  "unprivileged ctx \<Longrightarrow> stays E V (\<lambda>_. \<not> p_systemProject project) (system_guard ctx project msg)"
  by (auto simp: stays_def system_guard_def unprivileged_def granted_def GetCurrentUser_def bnd_def split: option.splits)

lemma stays_fresh: "stays E V (\<lambda>e. \<exists>i now. e = new i now \<and> i \<notin> protected_ids V) (fresh E new)"
  by (auto simp: stays_def fresh_def bnd_def uuid_New_def get_now_def calm_def w_stores_def)

lemma wf_store_map_entry: "wf_store idOf s \<Longrightarrow> idOf e = k \<Longrightarrow> wf_store idOf (AList.map_entry k (\<lambda>_. e) s)"
  by (auto simp: wf_store_def distinct_map_entry map_of_map_entry split: if_splits)

lemma stays_edit_project:
  assumes "own_kind V p" "own_kind V (f p)" "bm_id (p_base (f p)) = bm_id (p_base p)"
  shows "stays E V (own_kind V) (edit_project p f)"
proof -
  let ?g = "\<lambda>st. st\<lparr>st_Projects := AList.map_entry (bm_id (p_base p)) (\<lambda>_. f p) (st_Projects st)\<rparr>"
  have "protected (?g st) = V \<and> stores_wf (?g st)" if st: "protected st = V" "stores_wf st" for st
  proof -
    have "protected (?g st) = V"
    proof (cases "map_of (st_Projects st) (bm_id (p_base p))")
      case None
      then have "map_of (st_Projects (?g st)) = map_of (st_Projects st)" by (auto simp: map_of_map_entry)
      then show ?thesis using st(1) by (simp add: protected_def protected_of_def)
    next
      case (Some q)
      then have "map_of (st_Projects (?g st)) = (map_of (st_Projects st))(bm_id (p_base (f p)) \<mapsto> f p)"
        using assms(3) by (auto simp: map_of_map_entry)
      then show ?thesis using protected_project [OF assms(2) st(1)] by simp
    qed
    then show ?thesis using st(2) assms(3) by (auto simp: stores_wf_def intro: wf_store_map_entry)
  qed
  then show ?thesis
    using assms(2) by (simp add: stays_def edit_project_def bnd_def db_alter_def calm_def w_stores_def)
qed

lemma stays_edit_role:
  assumes "plain_role V r" "plain_role V (f r)" "bm_id (ro_base (f r)) = bm_id (ro_base r)"
  shows "stays E V (plain_role V) (edit_role r f)"
proof -
  let ?rs = "\<lambda>st. AList.map_entry (bm_id (ro_base r)) (\<lambda>_. f r) (st_Roles st)"
  have "protected (st\<lparr>st_Roles := ?rs st\<rparr>) = V \<and> stores_wf (st\<lparr>st_Roles := ?rs st\<rparr>)"
    if st: "protected st = V" "stores_wf st" for st
    using assms st
    by (auto simp: stores_wf_def plain_role_def map_of_map_entry intro!: wf_store_map_entry
        protected_role [where i = "bm_id (ro_base r)"])
  then show ?thesis
    using assms(2) by (simp add: stays_def edit_role_def bnd_def db_alter_def calm_def w_stores_def)
qed

lemma own_kind_not_system: "own_kind V p \<Longrightarrow> \<not> p_systemProject p \<Longrightarrow> bm_id (p_base p) \<notin> pp_projects V"
  by (simp add: own_kind_def)

lemma steady_CreateProject: "steady E V (HandleCreateProject E c)"
  unfolding HandleCreateProject_def
proof (rule steady_bnd [OF steady_shared(1)])
  fix vs :: virtual_server
  show "steady E V (bnd (fresh E (\<lambda>i now. NewProject i now (bm_id (vs_base vs)) (cp_Slug c) (cp_Name c) (cp_Description c)))
      (\<lambda>project. bnd (db_write (ProjectRepository_Insert project)) (\<lambda>_. ret (bm_id (p_base project)))))"
    by (rule stays_bnd [OF stays_fresh])
      (auto intro!: steady harmless_protected_repo simp: NewProject_def own_kind_def dest: protected_idI)
qed

lemma project_setters [simp]:
  "own_kind V (set_optional Project_SetDescription d p) = own_kind V p"
  "own_kind V (set_optional Project_SetName n p) = own_kind V p"
  "p_base (set_optional Project_SetDescription d p) = p_base p" "p_base (set_optional Project_SetName n p) = p_base p"
  by (auto simp: set_optional_def own_kind_def Project_SetDescription_def Project_SetName_def split: option.splits)

lemma role_setters [simp]:
  "plain_role V (set_optional Role_SetDescription d r) = plain_role V r"
  "plain_role V (set_optional Role_SetName n r) = plain_role V r"
  "ro_base (set_optional Role_SetDescription d r) = ro_base r" "ro_base (set_optional Role_SetName n r) = ro_base r"
  by (auto simp: set_optional_def plain_role_def Role_SetDescription_def Role_SetName_def split: option.splits)

lemma steady_PatchProject: "steady E V (HandlePatchProject c)"
  unfolding HandlePatchProject_def
  by (intro steady_bnd [OF steady_shared(1)] stays_bnd [OF the_project_own] stays_bnd [OF stays_edit_project] steady_db_write
      harmless_protected_repo) simp_all

lemma guarded_project:
  assumes "unprivileged ctx" "\<And>p. bm_id (p_base p) \<notin> pp_projects V \<Longrightarrow> steady E V (f p)"
  shows "steady E V (bnd (the_project vs slug) (\<lambda>p. bnd (system_guard ctx p msg) (\<lambda>_. f p)))"
  using assms own_kind_not_system
  by (intro stays_bnd [OF the_project_own] stays_bnd [OF stays_system_guard]) auto

lemma steady_CreateRole: "unprivileged ctx \<Longrightarrow> steady E V (HandleCreateRole E ctx c)"
  unfolding HandleCreateRole_def
  by (intro steady_bnd [OF steady_shared(1)] guarded_project stays_bnd [OF stays_fresh])
    (auto intro!: steady harmless_protected_repo simp: NewRole_def plain_role_def dest: protected_idI)

lemma steady_PatchRole: "unprivileged ctx \<Longrightarrow> steady E V (HandlePatchRole ctx c)"
  unfolding HandlePatchRole_def
proof (intro steady_bnd [OF steady_shared(1)] guarded_project)
  fix vs :: virtual_server and p :: project assume p: "bm_id (p_base p) \<notin> pp_projects V"
  have read: "stays E V (plain_role V) (wrapped ''getting role'' (db_read (\<lambda>st. RoleRepository_FirstOrErr (st_Roles st)
      (role_filter_of vs p (pro_RoleId c)))))"
    using role_found p by (intro stays_wrapped stays_read)
      (auto simp: RoleRepository_FirstOrErr_def or_err_def go_bind_Inr_iff split: option.splits)
  show "steady E V (bnd (wrapped ''getting role'' (db_read (\<lambda>st. RoleRepository_FirstOrErr (st_Roles st)
      (role_filter_of vs p (pro_RoleId c))))) (\<lambda>role.
      bnd (edit_role role (\<lambda>role. set_optional Role_SetDescription (pro_Description c)
        (set_optional Role_SetName (pro_Name c) role))) (\<lambda>role. db_write (RoleRepository_Update role))))"
    by (intro stays_bnd [OF read] stays_bnd [OF stays_edit_role] steady_db_write harmless_protected_repo) simp_all
qed

lemma steady_DeleteRole: "unprivileged ctx \<Longrightarrow> steady E V (HandleDeleteRole ctx c)"
  unfolding HandleDeleteRole_def
proof (intro steady_bnd [OF steady_shared(1)] guarded_project)
  fix vs :: virtual_server and p :: project assume p: "bm_id (p_base p) \<notin> pp_projects V"
  have read: "stays E V (\<lambda>r. \<forall>x. r = Some x \<longrightarrow> plain_role V x) (wrapped ''getting role''
      (db_read (\<lambda>st. RoleRepository_FirstOrNil (st_Roles st) (role_filter_of vs p (dr_RoleId c)))))"
    using role_found p by (intro stays_wrapped stays_read) auto
  show "steady E V (bnd (wrapped ''getting role''
      (db_read (\<lambda>st. RoleRepository_FirstOrNil (st_Roles st) (role_filter_of vs p (dr_RoleId c))))) (\<lambda>role.
      case role of None \<Rightarrow> ret () | Some role \<Rightarrow> db_write (RoleRepository_Delete (bm_id (ro_base role)))))"
    by (intro stays_bnd [OF read])
      (auto intro!: steady harmless_protected_repo simp: plain_role_def split: option.splits)
qed

lemma steady_AssignRole: "unprivileged ctx \<Longrightarrow> steady E V (HandleAssignRoleToUser E ctx c)"
  unfolding HandleAssignRoleToUser_def
proof (intro steady_bnd [OF steady_shared(1)] guarded_project)
  fix vs :: virtual_server and p :: project assume p: "bm_id (p_base p) \<notin> pp_projects V"
  let ?rest = "\<lambda>_. bnd (wrapped ''getting user'' (db_read (\<lambda>st. UserRepository_FirstOrErr (st_Users st)
            (UserFilter_VirtualServerId (bm_id (vs_base vs)) (UserFilter_Id (aru_UserId c) NewUserFilter)))))
       (\<lambda>_. bnd (fresh E (\<lambda>i now. NewUserRoleAssignment i now (aru_UserId c) (aru_RoleId c) None))
       (\<lambda>a. db_write (UserRoleAssignmentRepository_Insert a)))"
  have read: "stays E V (\<lambda>_. aru_RoleId c \<notin> fst ` pp_roles V) (wrapped ''getting role'' (db_read (\<lambda>st.
      RoleRepository_FirstOrErr (st_Roles st) (role_filter_of vs p (aru_RoleId c)))))"
  proof (intro stays_wrapped stays_read)
    fix st x
    assume st: "protected st = V" "stores_wf st"
      and "RoleRepository_FirstOrErr (st_Roles st) (role_filter_of vs p (aru_RoleId c)) = Inr x"
    then have "RoleRepository_FirstOrNil (st_Roles st) (role_filter_of vs p (aru_RoleId c)) = Inr (Some x)"
      by (auto simp: RoleRepository_FirstOrErr_def or_err_def go_bind_Inr_iff split: option.splits)
    from role_found [OF this st(2,1) p] show "aru_RoleId c \<notin> fst ` pp_roles V" by (metis plain_role_def)
  qed
  have "steady E V (?rest x)" if "aru_RoleId c \<notin> fst ` pp_roles V" for x :: role
    by (rule steady_bnd [OF steady_wrapped [OF steady_pure(7)]], rule stays_bnd [OF stays_fresh], elim exE conjE,
        intro steady_db_write harmless_protected_repo)
      (use that in \<open>simp_all add: NewUserRoleAssignment_def protected_ids_def\<close>)
  then show "steady E V (bnd (wrapped ''getting role'' (db_read (\<lambda>st.
      RoleRepository_FirstOrErr (st_Roles st) (role_filter_of vs p (aru_RoleId c))))) ?rest)"
    by (rule stays_bnd [OF read])
qed

lemma steady_command:
  assumes "unprivileged ctx" "\<And>a. c \<noteq> CreateVirtualServerCommand a"
  shows "steady E V (mediatr_Send E cf ctx c)"
proof -
  have handler: "steady E V (handle_command E cf ctx c)"
    using assms
    by (cases c) (auto simp: answer_of_def steady_CreateProject steady_PatchProject steady_CreateRole steady_PatchRole
        steady_DeleteRole steady_AssignRole intro!: steady)
  have "steady E V (rq_IsAllowed rq ctx)" if "policy_of E c = Some rq" for rq
    using policy_of_permission [where c = c and E = E] that by (auto split: option.splits)
  then show ?thesis
    using handler
    by (auto simp: mediatr_Send_def Send_def PolicyBehaviour_def SaveChangesBehaviour_def evaluatePolicy_def
        dbAuditLogger_Log_def intro!: steady split: option.splits policy_result.splits)
qed

section \<open>Sequences of requests\<close>

text \<open>
  A request that sends one command: it has a context of its own on the shared stores, answers an error,
  and saves what is left in its tracker when it ends.
\<close>

definition command_request :: "env \<Rightarrow> embedded_files \<Rightarrow> req_ctx \<Rightarrow> command \<Rightarrow> world \<Rightarrow> world" where
  "command_request E cf ctx c w =
     snd (serve (or_http (mediatr_Send E cf ctx c) (\<lambda>_. ret ())) (w\<lparr>w_db := newContext (w_stores w)\<rparr>))"

inductive reaches :: "env \<Rightarrow> embedded_files \<Rightarrow> world \<Rightarrow> world \<Rightarrow> bool" for E cf where
  reaches_refl: "reaches E cf w w"
| reaches_step: "reaches E cf w w1 \<Longrightarrow> unprivileged ctx \<Longrightarrow> (\<And>a. c \<noteq> CreateVirtualServerCommand a) \<Longrightarrow>
    reaches E cf w (command_request E cf ctx c w1)"

lemma steadyD: "steady E V m \<Longrightarrow> calm E V w \<Longrightarrow> m w = (r, w1) \<Longrightarrow> calm E V w1"
  by (metis snd_conv steady_def)

lemma steady_or_http:
  assumes "steady E V m" "\<And>x. steady E V (f x)" shows "steady E V (or_http m f)"
  unfolding steady_def
proof (intro allI impI)
  fix w assume w: "calm E V w"
  obtain r w1 where r: "m w = (r, w1)" by fastforce
  have w1: "calm E V w1" by (rule steadyD [OF assms(1) w r])
  show "calm E V (snd (or_http m f w))"
  proof (cases r)
    case (Inl e)
    then show ?thesis using w1 r by (cases e) (simp_all add: or_http_def or_answer_def calm_def w_stores_def)
  next
    case (Inr x)
    then show ?thesis using assms(2) w1 r by (simp add: or_http_def or_answer_def steady_def)
  qed
qed

lemma steady_serve: "steady E V m \<Longrightarrow> steady E V (serve m)"
  unfolding steady_def [of _ _ "serve m"]
proof (intro allI impI)
  fix w assume m: "steady E V m" and w: "calm E V w"
  obtain r w1 r2 w2 where r: "m w = (r, w1)" "db_save w1 = (r2, w2)" by fastforce
  have "calm E V w2" by (rule steadyD [OF steady_db_save steadyD [OF m w r(1)] r(2)])
  then show "calm E V (snd (serve m w))" using r by (auto simp: serve_def split: sum.splits)
qed

lemma command_request_calm:
  assumes "calm E V w" "unprivileged ctx" "\<And>a. c \<noteq> CreateVirtualServerCommand a"
  shows "calm E V (command_request E cf ctx c w)"
proof -
  have "calm E V (w\<lparr>w_db := newContext (w_stores w)\<rparr>)"
    using assms(1) by (simp add: calm_def newContext_def NewTracker_def w_stores_def)
  moreover have "steady E V (serve (or_http (mediatr_Send E cf ctx c) (\<lambda>_. ret ())))"
    using assms(2,3) by (intro steady_serve steady_or_http steady_command steady_pure)
  ultimately show ?thesis by (simp add: command_request_def steady_def)
qed

lemma reaches_calm: "reaches E cf w w' \<Longrightarrow> calm E V w \<Longrightarrow> calm E V w'"
  by (induction rule: reaches.induct) (auto intro: command_request_calm)

text \<open>
  C7: whatever commands callers without the permission of the system user send, in whatever order and
  whether they succeed, fail or panic, the system projects, their roles and the assignments of these roles
  stay what they were, provided new identifiers do not meet theirs. The one command that is left
  out, creating a virtual server, makes a new system project.
\<close>

theorem system_roles_protected:
  assumes "reaches E cf w w'" "wf_stores (w_stores w)" "db_tracker (w_db w) = []"
    and "\<forall>n \<ge> w_rand w. e_uuid_New E n \<notin> protected_ids (protected (w_stores w))"
  shows "protected (w_stores w') = protected (w_stores w)"
  using reaches_calm [OF assms(1), of "protected (w_stores w)"] assms(2-4)
  by (simp add: calm_def wf_stores_wf)

definition role_world :: world where
  "role_world = world_with (newStores\<lparr>st_VirtualServers := [(1, sample_vs)],
     st_Projects := [(2, NewSystemProject 2 0 1), (3, NewProject 3 0 1 ''shop'' ''Shop'' [])],
     st_Roles := [(4, NewRole 4 0 1 2 ''admin'' [])]\<rparr>)"

definition admin_ctx :: req_ctx where
  "admin_ctx = \<lparr>rc_user = Some (assignPermissionsToUser roles_VirtualServerAdmin (NewCurrentUser 7)), rc_vsName = ''a''\<rparr>"

theorem system_roles_protected_witness:
  "protected (w_stores (command_request (test_env\<lparr>e_uuid_New := \<lambda>n. n + 10\<rparr>) no_files admin_ctx
      (DeleteRoleCommand \<lparr>dr_VirtualServerName = ''a'', dr_ProjectSlug = ''system'', dr_RoleId = 4\<rparr>) role_world)) =
   protected (w_stores role_world) \<and> (4, NewRole 4 0 1 2 ''admin'' []) \<in> pp_roles (protected (w_stores role_world))"
proof -
  let ?E = "test_env\<lparr>e_uuid_New := \<lambda>n. n + 10\<rparr>"
  let ?c = "DeleteRoleCommand \<lparr>dr_VirtualServerName = ''a'', dr_ProjectSlug = ''system'', dr_RoleId = 4\<rparr>"
  have user: "\<not> granted (assignPermissionsToUser roles_VirtualServerAdmin (NewCurrentUser 7)) SystemUser"
    by (simp add: granted_assign) (simp add: AllRoles_def role_defs role_permission_defs)
  have "reaches ?E no_files role_world (command_request ?E no_files admin_ctx ?c role_world)"
    by (rule reaches_step [OF reaches_refl]) (simp_all add: unprivileged_def admin_ctx_def user)
  moreover have "wf_stores (w_stores role_world)"
    by (simp add: role_world_def wf_stores_def newStores_def wf_store_def sample_vs_def NewVirtualServer_def NewSystemProject_def
        NewProject_def NewRole_def NewBaseModel_def)
  moreover have "i \<le> 4" if "i \<in> protected_ids (protected (w_stores role_world))" for i
    using that by (auto simp: protected_ids_def protected_simps role_world_def newStores_def split: if_splits)
  ultimately show ?thesis
    using system_roles_protected [of ?E no_files role_world "command_request ?E no_files admin_ctx ?c role_world"]
    by (fastforce simp: role_world_def newContext_def NewTracker_def protected_simps NewRole_def NewSystemProject_def)
qed

end
