(* ===== verification/Queries.thy ===== *)
theory Queries
  imports CommandsServers
begin

text \<open>
  The queries of the mediator (\<^verbatim>\<open>internal/queries\<close>): per query its record, its methods of the interface
  \<^verbatim>\<open>Policy\<close> where it has them, its result, and its handler. A nil slice and an empty one are both \<open>[]\<close>.
\<close>

record 'a paged_response =
  pgr_Items :: "'a list"
  pgr_TotalCount :: int

definition NewPagedResponse :: "'a list \<Rightarrow> int \<Rightarrow> 'a paged_response" where
  "NewPagedResponse items totalCount = \<lparr>pgr_Items = items, pgr_TotalCount = totalCount\<rparr>"

text \<open>The virtual server with the message of half of the queries.\<close>

definition search_vs :: "string \<Rightarrow> virtual_server act" where
  "search_vs name = wrapped ''searching virtual servers'' (vs_by_name name)"

section \<open>Virtual servers\<close>

definition HandleAnyVirtualServerExists :: "bool act" where
  "HandleAnyVirtualServerExists =
     bnd (wrapped ''searching virtual servers'' (db_read (\<lambda>st. VirtualServerRepository_FirstOrNil (st_VirtualServers st)
            NewVirtualServerFilter))) (\<lambda>virtualServer. ret (virtualServer \<noteq> None))"

record get_virtual_server_public_info =
  gvp_VirtualServerName :: string

record get_virtual_server_public_info_response =
  gvpr_Name :: string
  gvpr_DisplayName :: string
  gvpr_RegistrationEnabled :: bool

definition HandleGetVirtualServerPublicInfo ::
  "get_virtual_server_public_info \<Rightarrow> get_virtual_server_public_info_response act" where
  "HandleGetVirtualServerPublicInfo query =
     bnd (search_vs (gvp_VirtualServerName query)) (\<lambda>virtualServer.
       ret
         \<lparr>gvpr_Name = vs_name virtualServer, gvpr_DisplayName = vs_displayName virtualServer,
          gvpr_RegistrationEnabled = vs_enableRegistration virtualServer\<rparr>)"

record get_virtual_server_query =
  gvs_VirtualServerName :: string

definition GetVirtualServerQuery_Policy :: "env \<Rightarrow> get_virtual_server_query \<Rightarrow> request" where
  "GetVirtualServerQuery_Policy E a =
     \<lparr>rq_IsAllowed = PermissionBasedPolicy VirtualServerView, rq_Name = ''GetVirtualServerQuery'',
      rq_LogRequest = True, rq_LogResponse = False,
      rq_json = JObj
        [(''VirtualServerName'', JStr (gvs_VirtualServerName a))]\<rparr>"

record get_virtual_server_response =
  gvsr_Id :: uuid
  gvsr_Name :: string
  gvsr_DisplayName :: string
  gvsr_RegistrationEnabled :: bool
  gvsr_Require2fa :: bool
  gvsr_RequireEmailVerification :: bool
  gvsr_PrimarySigningAlgorithm :: signing_algorithm
  gvsr_AdditionalSigningAlgorithms :: "signing_algorithm list"
  gvsr_CreatedAt :: time
  gvsr_UpdatedAt :: time

definition HandleGetVirtualServerQuery :: "get_virtual_server_query \<Rightarrow> get_virtual_server_response act" where
  "HandleGetVirtualServerQuery command =
     bnd (vs_by_name (gvs_VirtualServerName command)) (\<lambda>virtualServer.
       ret
         \<lparr>gvsr_Id = bm_id (vs_base virtualServer), gvsr_Name = vs_name virtualServer,
          gvsr_DisplayName = vs_displayName virtualServer,
          gvsr_RegistrationEnabled = vs_enableRegistration virtualServer,
          gvsr_Require2fa = vs_require2fa virtualServer,
          gvsr_RequireEmailVerification = vs_requireEmailVerification virtualServer,
          gvsr_PrimarySigningAlgorithm = vs_primarySigningAlgorithm virtualServer,
          gvsr_AdditionalSigningAlgorithms = vs_additionalSigningAlgorithms virtualServer,
          gvsr_CreatedAt = bm_auditCreatedAt (vs_base virtualServer),
          gvsr_UpdatedAt = bm_auditUpdatedAt (vs_base virtualServer)\<rparr>)"

section \<open>Projects\<close>

record get_project =
  gp_VirtualServerName :: string
  gp_ProjectSlug :: string

definition GetProject_Policy :: "env \<Rightarrow> get_project \<Rightarrow> request" where
  "GetProject_Policy E a =
     \<lparr>rq_IsAllowed = PermissionBasedPolicy ProjectView, rq_Name = ''GetProject'',
      rq_LogRequest = True, rq_LogResponse = False,
      rq_json = JObj
        [(''VirtualServerName'', JStr (gp_VirtualServerName a)),
         (''ProjectSlug'', JStr (gp_ProjectSlug a))]\<rparr>"

record get_project_response =
  gpr_Id :: uuid
  gpr_Slug :: string
  gpr_Name :: string
  gpr_Description :: string
  gpr_SystemProject :: bool
  gpr_CreatedAt :: time
  gpr_UpdatedAt :: time

definition HandleGetProject :: "get_project \<Rightarrow> get_project_response act" where
  "HandleGetProject query =
     bnd (the_vs (gp_VirtualServerName query)) (\<lambda>virtualServer.
     bnd (the_project virtualServer (gp_ProjectSlug query)) (\<lambda>project.
       ret
         \<lparr>gpr_Id = bm_id (p_base project), gpr_Slug = p_slug project, gpr_Name = p_name project,
          gpr_Description = p_description project, gpr_SystemProject = p_systemProject project,
          gpr_CreatedAt = bm_auditCreatedAt (p_base project),
          gpr_UpdatedAt = bm_auditUpdatedAt (p_base project)\<rparr>))"

record list_projects =
  lp_PageSize :: int
  lp_Page :: int
  lp_OrderBy :: string
  lp_OrderDir :: string
  lp_VirtualServerName :: string
  lp_SearchText :: string

definition ListProjects_Policy :: "env \<Rightarrow> list_projects \<Rightarrow> request" where
  "ListProjects_Policy E a =
     \<lparr>rq_IsAllowed = PermissionBasedPolicy ProjectView, rq_Name = ''ListProjects'',
      rq_LogRequest = True, rq_LogResponse = False,
      rq_json = JObj
        [(''PageSize'', JNum (lp_PageSize a)), (''Page'', JNum (lp_Page a)),
         (''OrderBy'', JStr (lp_OrderBy a)), (''OrderDir'', JStr (lp_OrderDir a)),
         (''VirtualServerName'', JStr (lp_VirtualServerName a)),
         (''SearchText'', JStr (lp_SearchText a))]\<rparr>"

record list_projects_item =
  lpi_Id :: uuid
  lpi_Slug :: string
  lpi_Name :: string
  lpi_SystemProject :: bool

definition HandleListProjects :: "list_projects \<Rightarrow> list_projects_item paged_response act" where
  "HandleListProjects query =
     bnd (the_vs (lp_VirtualServerName query)) (\<lambda>virtualServer.
     bnd (wrapped ''getting projects'' (db_read (\<lambda>st. ProjectRepository_List (st_Projects st)
            (ProjectFilter_Search (NewContainsSearchFilter (lp_SearchText query))
              (ProjectFilter_Order (lp_OrderBy query) (lp_OrderDir query)
                (ProjectFilter_Pagination (lp_Page query) (lp_PageSize query)
                (ProjectFilter_VirtualServerId (bm_id (vs_base virtualServer)) NewProjectFilter))))))) (\<lambda>(projects, total).
       let items = map (\<lambda>t.
         \<lparr>lpi_Id = bm_id (p_base t), lpi_Slug = p_slug t, lpi_Name = p_name t,
          lpi_SystemProject = p_systemProject t\<rparr>) projects in
       ret (NewPagedResponse items total)))"

section \<open>Roles\<close>

record get_role_query =
  gro_VirtualServerName :: string
  gro_ProjectSlug :: string
  gro_RoleId :: uuid

definition GetRoleQuery_Policy :: "env \<Rightarrow> get_role_query \<Rightarrow> request" where
  "GetRoleQuery_Policy E a =
     \<lparr>rq_IsAllowed = PermissionBasedPolicy RoleView, rq_Name = ''GetRoleQuery'',
      rq_LogRequest = True, rq_LogResponse = False,
      rq_json = JObj
        [(''VirtualServerName'', JStr (gro_VirtualServerName a)),
         (''ProjectSlug'', JStr (gro_ProjectSlug a)),
         (''RoleId'', JStr (e_uuid_String E (gro_RoleId a)))]\<rparr>"

record get_role_query_result =
  gror_Id :: uuid
  gror_Name :: string
  gror_Description :: string
  gror_CreatedAt :: time
  gror_UpdatedAt :: time

definition HandleGetRole :: "get_role_query \<Rightarrow> get_role_query_result act" where
  "HandleGetRole query =
     bnd (the_vs (gro_VirtualServerName query)) (\<lambda>virtualServer.
     bnd (the_project virtualServer (gro_ProjectSlug query)) (\<lambda>project.
     bnd (wrapped ''getting role'' (db_read (\<lambda>st. RoleRepository_FirstOrErr (st_Roles st)
            (role_filter_of virtualServer project (gro_RoleId query))))) (\<lambda>role.
       ret
         \<lparr>gror_Id = bm_id (ro_base role), gror_Name = ro_name role,
          gror_Description = ro_description role, gror_CreatedAt = bm_auditCreatedAt (ro_base role),
          gror_UpdatedAt = bm_auditUpdatedAt (ro_base role)\<rparr>)))"

record list_roles =
  lro_PageSize :: int
  lro_Page :: int
  lro_OrderBy :: string
  lro_OrderDir :: string
  lro_VirtualServerName :: string
  lro_ProjectSlug :: string
  lro_SearchText :: string

definition ListRoles_Policy :: "env \<Rightarrow> list_roles \<Rightarrow> request" where
  "ListRoles_Policy E a =
     \<lparr>rq_IsAllowed = PermissionBasedPolicy RoleView, rq_Name = ''ListRoles'',
      rq_LogRequest = True, rq_LogResponse = False,
      rq_json = JObj
        [(''PageSize'', JNum (lro_PageSize a)), (''Page'', JNum (lro_Page a)),
         (''OrderBy'', JStr (lro_OrderBy a)), (''OrderDir'', JStr (lro_OrderDir a)),
         (''VirtualServerName'', JStr (lro_VirtualServerName a)),
         (''ProjectSlug'', JStr (lro_ProjectSlug a)), (''SearchText'', JStr (lro_SearchText a))]\<rparr>"

record list_roles_item =
  lroi_Id :: uuid
  lroi_Name :: string
  lroi_DisplayName :: string

text \<open>The display name of an item is never set.\<close>

definition HandleListRoles :: "list_roles \<Rightarrow> list_roles_item paged_response act" where
  "HandleListRoles query =
     bnd (search_vs (lro_VirtualServerName query)) (\<lambda>virtualServer.
     bnd (the_project virtualServer (lro_ProjectSlug query)) (\<lambda>project.
     bnd (wrapped ''searching roles'' (db_read (\<lambda>st. RoleRepository_List (st_Roles st)
            (RoleFilter_Search (NewContainsSearchFilter (lro_SearchText query))
              (RoleFilter_Order (lro_OrderBy query) (lro_OrderDir query)
                (RoleFilter_Pagination (lro_Page query) (lro_PageSize query)
                (RoleFilter_ProjectId (bm_id (p_base project))
                  (RoleFilter_VirtualServerId (bm_id (vs_base virtualServer)) NewRoleFilter)))))))) (\<lambda>(roles, total).
       let items = map (\<lambda>t. \<lparr>lroi_Id = bm_id (ro_base t), lroi_Name = ro_name t, lroi_DisplayName = []\<rparr>) roles in
       ret (NewPagedResponse items total))))"

record list_users_in_role =
  lur_PageSize :: int
  lur_Page :: int
  lur_OrderBy :: string
  lur_OrderDir :: string
  lur_VirtualServerName :: string
  lur_ProjectSlug :: string
  lur_RoleId :: uuid

definition ListUsersInRole_Policy :: "env \<Rightarrow> list_users_in_role \<Rightarrow> request" where
  "ListUsersInRole_Policy E a =
     \<lparr>rq_IsAllowed = PermissionBasedPolicy UserView, rq_Name = ''ListUsersInRole'',
      rq_LogRequest = True, rq_LogResponse = False,
      rq_json = JObj
        [(''PageSize'', JNum (lur_PageSize a)), (''Page'', JNum (lur_Page a)),
         (''OrderBy'', JStr (lur_OrderBy a)), (''OrderDir'', JStr (lur_OrderDir a)),
         (''VirtualServerName'', JStr (lur_VirtualServerName a)),
         (''ProjectSlug'', JStr (lur_ProjectSlug a)),
         (''RoleId'', JStr (e_uuid_String E (lur_RoleId a)))]\<rparr>"

record list_users_in_role_item =
  luri_Id :: uuid
  luri_Username :: string
  luri_DisplayName :: string

text \<open>The assignments are looked up by the role alone; the information on a user that is gone is dereferenced.\<close>

definition HandleListUsersInRole :: "list_users_in_role \<Rightarrow> list_users_in_role_item paged_response act" where
  "HandleListUsersInRole query =
     bnd (the_vs (lur_VirtualServerName query)) (\<lambda>virtualServer.
     bnd (the_project virtualServer (lur_ProjectSlug query)) (\<lambda>_.
     bnd (wrapped ''getting user role assignments'' (db_read (\<lambda>st. UserRoleAssignmentRepository_List st
            (UserRoleAssignmentFilter_IncludeUser (UserRoleAssignmentFilter_RoleId (lur_RoleId query)
              NewUserRoleAssignmentFilter))))) (\<lambda>(userRoleAssignments, totalCount).
     bnd (lift (map_go (\<lambda>t. case ura_userInfo t of
            None \<Rightarrow> nil_dereference
          | Some userInfo \<Rightarrow> Inr \<lparr>luri_Id = ura_userId t, luri_Username = uui_Username userInfo,
                                luri_DisplayName = uui_DisplayName userInfo\<rparr>) userRoleAssignments)) (\<lambda>items.
       ret (NewPagedResponse items totalCount)))))"

section \<open>Applications\<close>

record get_application =
  ga_VirtualServerName :: string
  ga_ProjectSlug :: string
  ga_ApplicationId :: uuid

definition GetApplication_Policy :: "env \<Rightarrow> get_application \<Rightarrow> request" where
  "GetApplication_Policy E a =
     \<lparr>rq_IsAllowed = PermissionBasedPolicy ApplicationView, rq_Name = ''GetApplication'',
      rq_LogRequest = True, rq_LogResponse = False,
      rq_json = JObj
        [(''VirtualServerName'', JStr (ga_VirtualServerName a)),
         (''ProjectSlug'', JStr (ga_ProjectSlug a)),
         (''ApplicationId'', JStr (e_uuid_String E (ga_ApplicationId a)))]\<rparr>"

record get_application_result =
  gar_Id :: uuid
  gar_Name :: string
  gar_DisplayName :: string
  gar_Type :: application_type
  gar_RedirectUris :: "string list"
  gar_PostLogoutUris :: "string list"
  gar_SystemApplication :: bool
  gar_ClaimsMappingScript :: "string option"
  gar_AccessTokenHeaderType :: string
  gar_DeviceFlowEnabled :: bool
  gar_SigningAlgorithm :: "signing_algorithm option"
  gar_CreatedAt :: time
  gar_UpdatedAt :: time

text \<open>An application that is not there gives a nil result and no error.\<close>

definition HandleGetApplication :: "get_application \<Rightarrow> get_application_result option act" where
  "HandleGetApplication query =
     bnd (search_vs (ga_VirtualServerName query)) (\<lambda>virtualServer.
     bnd (the_project virtualServer (ga_ProjectSlug query)) (\<lambda>project.
     bnd (wrapped ''searching application'' (db_read (\<lambda>st. ApplicationRepository_FirstOrNil (st_Applications st)
            (app_filter_of virtualServer project (ga_ApplicationId query))))) (\<lambda>application.
       ret (map_option (\<lambda>application.
         \<lparr>gar_Id = bm_id (app_base application), gar_Name = app_name application,
          gar_DisplayName = app_displayName application, gar_Type = app_type application,
          gar_RedirectUris = app_redirectUris application,
          gar_PostLogoutUris = app_postLogoutRedirectUris application,
          gar_SystemApplication = app_systemApplication application,
          gar_ClaimsMappingScript = app_claimsMappingScript application,
          gar_AccessTokenHeaderType = app_accessTokenHeaderType application,
          gar_DeviceFlowEnabled = app_deviceFlowEnabled application,
          gar_SigningAlgorithm = app_signingAlgorithm application,
          gar_CreatedAt = bm_auditCreatedAt (app_base application),
          gar_UpdatedAt = bm_auditUpdatedAt (app_base application)\<rparr>) application))))"

record list_applications =
  la_PageSize :: int
  la_Page :: int
  la_OrderBy :: string
  la_OrderDir :: string
  la_VirtualServerName :: string
  la_ProjectSlug :: string
  la_SearchText :: string

definition ListApplications_Policy :: "env \<Rightarrow> list_applications \<Rightarrow> request" where
  "ListApplications_Policy E a =
     \<lparr>rq_IsAllowed = PermissionBasedPolicy ApplicationView, rq_Name = ''ListApplications'',
      rq_LogRequest = True, rq_LogResponse = False,
      rq_json = JObj
        [(''PageSize'', JNum (la_PageSize a)), (''Page'', JNum (la_Page a)),
         (''OrderBy'', JStr (la_OrderBy a)), (''OrderDir'', JStr (la_OrderDir a)),
         (''VirtualServerName'', JStr (la_VirtualServerName a)),
         (''ProjectSlug'', JStr (la_ProjectSlug a)), (''SearchText'', JStr (la_SearchText a))]\<rparr>"

record list_applications_item =
  lai_Id :: uuid
  lai_Name :: string
  lai_DisplayName :: string
  lai_Type :: application_type
  lai_SystemApplication :: bool

definition HandleListApplications :: "list_applications \<Rightarrow> list_applications_item paged_response act" where
  "HandleListApplications query =
     bnd (search_vs (la_VirtualServerName query)) (\<lambda>virtualServer.
     bnd (the_project virtualServer (la_ProjectSlug query)) (\<lambda>project.
     bnd (wrapped ''searching applications'' (db_read (\<lambda>st. ApplicationRepository_List (st_Applications st)
            (ApplicationFilter_Search (NewContainsSearchFilter (la_SearchText query))
              (ApplicationFilter_Order (la_OrderBy query) (la_OrderDir query)
                (ApplicationFilter_Pagination (la_Page query) (la_PageSize query)
                (ApplicationFilter_ProjectId (bm_id (p_base project))
                  (ApplicationFilter_VirtualServerId (bm_id (vs_base virtualServer)) NewApplicationFilter))))))))
       (\<lambda>(applications, total).
       let items = map (\<lambda>t.
         \<lparr>lai_Id = bm_id (app_base t), lai_Name = app_name t, lai_DisplayName = app_displayName t,
          lai_Type = app_type t, lai_SystemApplication = app_systemApplication t\<rparr>) applications in
       ret (NewPagedResponse items total))))"

section \<open>Resource servers\<close>

record get_resource_server =
  grs_VirtualServerName :: string
  grs_ProjectSlug :: string
  grs_ResourceServerId :: uuid

definition GetResourceServer_Policy :: "env \<Rightarrow> get_resource_server \<Rightarrow> request" where
  "GetResourceServer_Policy E a =
     \<lparr>rq_IsAllowed = PermissionBasedPolicy ResourceServerView, rq_Name = ''GetResourceServer'',
      rq_LogRequest = True, rq_LogResponse = False,
      rq_json = JObj
        [(''VirtualServerName'', JStr (grs_VirtualServerName a)),
         (''ProjectSlug'', JStr (grs_ProjectSlug a)),
         (''ResourceServerId'', JStr (e_uuid_String E (grs_ResourceServerId a)))]\<rparr>"

record get_resource_server_response =
  grsr_Id :: uuid
  grsr_Slug :: string
  grsr_Name :: string
  grsr_Description :: string
  grsr_CreatedAt :: time
  grsr_UpdatedAt :: time

definition HandleGetResourceServer :: "get_resource_server \<Rightarrow> get_resource_server_response act" where
  "HandleGetResourceServer query =
     bnd (the_vs (grs_VirtualServerName query)) (\<lambda>virtualServer.
     bnd (the_project virtualServer (grs_ProjectSlug query)) (\<lambda>project.
     bnd (the_resource_server virtualServer project (grs_ResourceServerId query)) (\<lambda>resourceServer.
       ret
         \<lparr>grsr_Id = bm_id (rs_base resourceServer), grsr_Slug = rs_slug resourceServer,
          grsr_Name = rs_name resourceServer, grsr_Description = rs_description resourceServer,
          grsr_CreatedAt = bm_auditCreatedAt (rs_base resourceServer),
          grsr_UpdatedAt = bm_auditUpdatedAt (rs_base resourceServer)\<rparr>)))"

record list_resource_servers =
  lrs_PageSize :: int
  lrs_Page :: int
  lrs_VirtualServerName :: string
  lrs_ProjectSlug :: string
  lrs_SearchText :: string

definition ListResourceServers_Policy :: "env \<Rightarrow> list_resource_servers \<Rightarrow> request" where
  "ListResourceServers_Policy E a =
     \<lparr>rq_IsAllowed = PermissionBasedPolicy ResourceServerView, rq_Name = ''ListResourceServers'',
      rq_LogRequest = True, rq_LogResponse = False,
      rq_json = JObj
        [(''PageSize'', JNum (lrs_PageSize a)), (''Page'', JNum (lrs_Page a)),
         (''VirtualServerName'', JStr (lrs_VirtualServerName a)),
         (''ProjectSlug'', JStr (lrs_ProjectSlug a)), (''SearchText'', JStr (lrs_SearchText a))]\<rparr>"

record list_resource_servers_item =
  lrsi_Id :: uuid
  lrsi_Slug :: string
  lrsi_Name :: string

text \<open>The page and the search text are not used.\<close>

definition HandleListResourceServers :: "list_resource_servers \<Rightarrow> list_resource_servers_item paged_response act" where
  "HandleListResourceServers query =
     bnd (the_vs (lrs_VirtualServerName query)) (\<lambda>virtualServer.
     bnd (the_project virtualServer (lrs_ProjectSlug query)) (\<lambda>project.
     bnd (wrapped ''getting resource servers'' (db_read (\<lambda>st. ResourceServerRepository_List (st_ResourceServers st)
            (ResourceServerFilter_ProjectId (bm_id (p_base project))
              (ResourceServerFilter_VirtualServerId (bm_id (vs_base virtualServer)) NewResourceServerFilter)))))
       (\<lambda>(resourceServers, total).
       let items = map (\<lambda>x.
         \<lparr>lrsi_Id = bm_id (rs_base x), lrsi_Slug = rs_slug x, lrsi_Name = rs_name x\<rparr>) resourceServers in
       ret (NewPagedResponse items total))))"

record get_resource_server_scope =
  grss_VirtualServerName :: string
  grss_ProjectSlug :: string
  grss_ResourceServerId :: uuid
  grss_ScopeId :: uuid

definition GetResourceServerScope_Policy :: "env \<Rightarrow> get_resource_server_scope \<Rightarrow> request" where
  "GetResourceServerScope_Policy E a =
     \<lparr>rq_IsAllowed = PermissionBasedPolicy ResourceServerScopeCreate, rq_Name = ''GetResourceServerScope'',
      rq_LogRequest = True, rq_LogResponse = False,
      rq_json = JObj
        [(''VirtualServerName'', JStr (grss_VirtualServerName a)),
         (''ProjectSlug'', JStr (grss_ProjectSlug a)),
         (''ResourceServerId'', JStr (e_uuid_String E (grss_ResourceServerId a))),
         (''ScopeId'', JStr (e_uuid_String E (grss_ScopeId a)))]\<rparr>"

record get_resource_server_scope_response =
  grssr_Id :: uuid
  grssr_Scope :: string
  grssr_Name :: string
  grssr_Description :: string
  grssr_CreatedAt :: time
  grssr_UpdatedAt :: time

text \<open>The two times are swapped.\<close>

definition HandleGetResourceServerScope :: "get_resource_server_scope \<Rightarrow> get_resource_server_scope_response act" where
  "HandleGetResourceServerScope query =
     bnd (the_vs (grss_VirtualServerName query)) (\<lambda>virtualServer.
     bnd (the_project virtualServer (grss_ProjectSlug query)) (\<lambda>project.
     bnd (wrapped ''getting resource server scope'' (db_read (\<lambda>st.
            ResourceServerScopeRepository_FirstOrErr (st_ResourceServerScopes st)
              (ResourceServerScopeFilter_Id (grss_ScopeId query)
                (ResourceServerScopeFilter_ResourceServerId (grss_ResourceServerId query)
                  (ResourceServerScopeFilter_ProjectId (bm_id (p_base project))
                    (ResourceServerScopeFilter_VirtualServerId (bm_id (vs_base virtualServer))
                      NewResourceServerScopeFilter))))))) (\<lambda>resourceServerScope.
       ret
         \<lparr>grssr_Id = bm_id (rss_base resourceServerScope),
          grssr_Scope = rss_scope resourceServerScope, grssr_Name = rss_name resourceServerScope,
          grssr_Description = rss_description resourceServerScope,
          grssr_CreatedAt = bm_auditUpdatedAt (rss_base resourceServerScope),
          grssr_UpdatedAt = bm_auditCreatedAt (rss_base resourceServerScope)\<rparr>)))"

record list_ressouce_server_scopes =
  lrss_PageSize :: int
  lrss_Page :: int
  lrss_OrderBy :: string
  lrss_OrderDir :: string
  lrss_VirtualServerName :: string
  lrss_ProjectSlug :: string
  lrss_ResourceServerId :: uuid
  lrss_SearchText :: string

definition ListRessouceServerScopes_Policy :: "env \<Rightarrow> list_ressouce_server_scopes \<Rightarrow> request" where
  "ListRessouceServerScopes_Policy E a =
     \<lparr>rq_IsAllowed = PermissionBasedPolicy ResourceServerScopeCreate, rq_Name = ''ListRessouceServerScopes'',
      rq_LogRequest = True, rq_LogResponse = False,
      rq_json = JObj
        [(''PageSize'', JNum (lrss_PageSize a)), (''Page'', JNum (lrss_Page a)),
         (''OrderBy'', JStr (lrss_OrderBy a)), (''OrderDir'', JStr (lrss_OrderDir a)),
         (''VirtualServerName'', JStr (lrss_VirtualServerName a)),
         (''ProjectSlug'', JStr (lrss_ProjectSlug a)),
         (''ResourceServerId'', JStr (e_uuid_String E (lrss_ResourceServerId a))),
         (''SearchText'', JStr (lrss_SearchText a))]\<rparr>"

record list_resource_server_scopes_item =
  lrssi_Id :: uuid
  lrssi_Name :: string
  lrssi_Scope :: string

definition HandleListResourceServerScopes ::
  "list_ressouce_server_scopes \<Rightarrow> list_resource_server_scopes_item paged_response act" where
  "HandleListResourceServerScopes query =
     bnd (the_vs (lrss_VirtualServerName query)) (\<lambda>virtualServer.
     bnd (the_project virtualServer (lrss_ProjectSlug query)) (\<lambda>project.
     bnd (the_resource_server virtualServer project (lrss_ResourceServerId query)) (\<lambda>resourceServer.
     bnd (wrapped ''getting resource server scopes'' (db_read (\<lambda>st.
            ResourceServerScopeRepository_List (st_ResourceServerScopes st)
              (ResourceServerScopeFilter_Search (NewContainsSearchFilter (lrss_SearchText query))
                (ResourceServerScopeFilter_Order (lrss_OrderBy query) (lrss_OrderDir query)
                  (ResourceServerScopeFilter_Pagination (lrss_Page query) (lrss_PageSize query)
                  (ResourceServerScopeFilter_ResourceServerId (bm_id (rs_base resourceServer))
                    (ResourceServerScopeFilter_ProjectId (bm_id (p_base project))
                      (ResourceServerScopeFilter_VirtualServerId (bm_id (vs_base virtualServer))
                        NewResourceServerScopeFilter))))))))) (\<lambda>(resourceServerScopes, total).
       let items = map (\<lambda>t.
         \<lparr>lrssi_Id = bm_id (rss_base t), lrssi_Name = rss_name t, lrssi_Scope = rss_scope t\<rparr>) resourceServerScopes in
       ret (NewPagedResponse items total)))))"

section \<open>Users and groups\<close>

record get_user_query =
  guq_UserId :: uuid
  guq_VirtualServerName :: string

definition GetUserQuery_Policy :: "env \<Rightarrow> get_user_query \<Rightarrow> request" where
  "GetUserQuery_Policy E a =
     \<lparr>rq_IsAllowed = PermissionBasedPolicy UserView, rq_Name = ''GetUserQuery'',
      rq_LogRequest = True, rq_LogResponse = False,
      rq_json = JObj
        [(''UserId'', JStr (e_uuid_String E (guq_UserId a))),
         (''VirtualServerName'', JStr (guq_VirtualServerName a))]\<rparr>"

record get_user_query_result =
  guqr_Id :: uuid
  guqr_Username :: string
  guqr_DisplayName :: string
  guqr_PrimaryEmail :: string
  guqr_EmailVerified :: bool
  guqr_IsServiceUser :: bool
  guqr_CreatedAt :: time
  guqr_UpdatedAt :: time

definition HandleGetUserQuery :: "get_user_query \<Rightarrow> get_user_query_result act" where
  "HandleGetUserQuery query =
     bnd (the_vs (guq_VirtualServerName query)) (\<lambda>virtualServer.
     bnd (the_user (UserFilter_Id (guq_UserId query) (UserFilter_VirtualServerId (bm_id (vs_base virtualServer))
            NewUserFilter))) (\<lambda>user.
       ret
         \<lparr>guqr_Id = bm_id (u_base user), guqr_Username = u_username user,
          guqr_DisplayName = u_displayName user, guqr_PrimaryEmail = u_primaryEmail user,
          guqr_EmailVerified = u_emailVerified user, guqr_IsServiceUser = u_serviceUser user,
          guqr_CreatedAt = bm_auditCreatedAt (u_base user),
          guqr_UpdatedAt = bm_auditUpdatedAt (u_base user)\<rparr>))"

record list_users =
  lu_PageSize :: int
  lu_Page :: int
  lu_OrderBy :: string
  lu_OrderDir :: string
  lu_VirtualServerName :: string
  lu_SearchText :: string

definition ListUsers_Policy :: "env \<Rightarrow> list_users \<Rightarrow> request" where
  "ListUsers_Policy E a =
     \<lparr>rq_IsAllowed = PermissionBasedPolicy UserView, rq_Name = ''ListUsers'',
      rq_LogRequest = True, rq_LogResponse = False,
      rq_json = JObj
        [(''PageSize'', JNum (lu_PageSize a)), (''Page'', JNum (lu_Page a)),
         (''OrderBy'', JStr (lu_OrderBy a)), (''OrderDir'', JStr (lu_OrderDir a)),
         (''VirtualServerName'', JStr (lu_VirtualServerName a)),
         (''SearchText'', JStr (lu_SearchText a))]\<rparr>"

record list_users_item =
  lui_Id :: uuid
  lui_Username :: string
  lui_DisplayName :: string
  lui_Email :: string
  lui_IsServiceUser :: bool

definition HandleListUsers :: "list_users \<Rightarrow> list_users_item paged_response act" where
  "HandleListUsers query =
     bnd (search_vs (lu_VirtualServerName query)) (\<lambda>virtualServer.
     bnd (wrapped ''searching users'' (db_read (\<lambda>st. UserRepository_List (st_Users st)
            (UserFilter_Search (NewContainsSearchFilter (lu_SearchText query))
              (UserFilter_Order (lu_OrderBy query) (lu_OrderDir query)
                (UserFilter_Pagination (lu_Page query) (lu_PageSize query)
                (UserFilter_VirtualServerId (bm_id (vs_base virtualServer)) NewUserFilter))))))) (\<lambda>(users, total).
       let items = map (\<lambda>t.
         \<lparr>lui_Id = bm_id (u_base t), lui_Username = u_username t, lui_DisplayName = u_displayName t,
          lui_Email = u_primaryEmail t, lui_IsServiceUser = u_serviceUser t\<rparr>) users in
       ret (NewPagedResponse items total)))"

record list_groups =
  lg_PageSize :: int
  lg_Page :: int
  lg_OrderBy :: string
  lg_OrderDir :: string
  lg_VirtualServerName :: string
  lg_SearchText :: string

definition ListGroups_Policy :: "env \<Rightarrow> list_groups \<Rightarrow> request" where
  "ListGroups_Policy E a =
     \<lparr>rq_IsAllowed = PermissionBasedPolicy GroupView, rq_Name = ''ListGroups'',
      rq_LogRequest = True, rq_LogResponse = False,
      rq_json = JObj
        [(''PageSize'', JNum (lg_PageSize a)), (''Page'', JNum (lg_Page a)),
         (''OrderBy'', JStr (lg_OrderBy a)), (''OrderDir'', JStr (lg_OrderDir a)),
         (''VirtualServerName'', JStr (lg_VirtualServerName a)),
         (''SearchText'', JStr (lg_SearchText a))]\<rparr>"

record list_groups_item =
  lgi_Id :: uuid
  lgi_Name :: string
  lgi_Description :: string

definition HandleListGroups :: "list_groups \<Rightarrow> list_groups_item paged_response act" where
  "HandleListGroups query =
     bnd (the_vs (lg_VirtualServerName query)) (\<lambda>virtualServer.
     bnd (wrapped ''searching groups'' (db_read (\<lambda>st. GroupRepository_List (st_Groups st)
            (GroupFilter_Search (NewContainsSearchFilter (lg_SearchText query))
              (GroupFilter_Order (lg_OrderBy query) (lg_OrderDir query)
                (GroupFilter_Pagination (lg_Page query) (lg_PageSize query)
                (GroupFilter_VirtualServerId (bm_id (vs_base virtualServer)) NewGroupFilter))))))) (\<lambda>(groups, total).
       let items = map (\<lambda>t.
         \<lparr>lgi_Id = bm_id (gr_base t), lgi_Name = gr_name t,
          lgi_Description = gr_description t\<rparr>) groups in
       ret (NewPagedResponse items total)))"

record list_passkeys =
  lpk_VirtualServerName :: string
  lpk_UserId :: uuid

definition ListPasskeys_Policy :: "env \<Rightarrow> list_passkeys \<Rightarrow> request" where
  "ListPasskeys_Policy E a =
     \<lparr>rq_IsAllowed = PermissionBasedPolicy UserView, rq_Name = ''ListPasskeys'',
      rq_LogRequest = False, rq_LogResponse = False,
      rq_json = JObj
        [(''VirtualServerName'', JStr (lpk_VirtualServerName a)),
         (''UserId'', JStr (e_uuid_String E (lpk_UserId a)))]\<rparr>"

definition HandleListPasskeys :: "list_passkeys \<Rightarrow> uuid paged_response act" where
  "HandleListPasskeys query =
     bnd (the_vs (lpk_VirtualServerName query)) (\<lambda>virtualServer.
     bnd (the_user (UserFilter_Id (lpk_UserId query) (UserFilter_VirtualServerId (bm_id (vs_base virtualServer))
            NewUserFilter))) (\<lambda>user.
     bnd (wrapped ''getting credentials'' (db_read (\<lambda>st. CredentialRepository_List (st_Credentials st)
            (user_credentials (bm_id (u_base user)) CredentialTypeWebauthn)))) (\<lambda>credentials.
       let items = map (\<lambda>x. bm_id (cr_base x)) credentials in
       ret (NewPagedResponse items (int (length credentials))))))"

section \<open>Metadata of a user\<close>

record get_user_metadata =
  gum_VirtualServerName :: string
  gum_UserId :: uuid
  gum_IncludeGlobalMetadata :: bool
  gum_IncludeAllApplicationMetadata :: bool
  gum_ApplicationIds :: "uuid list option"

definition GetUserMetadata_Policy :: "env \<Rightarrow> get_user_metadata \<Rightarrow> request" where
  "GetUserMetadata_Policy E a =
     \<lparr>rq_IsAllowed = PermissionBasedPolicy UserMetadataView, rq_Name = ''GetUserMetadata'',
      rq_LogRequest = True, rq_LogResponse = False,
      rq_json = JObj
        [(''VirtualServerName'', JStr (gum_VirtualServerName a)),
         (''UserId'', JStr (e_uuid_String E (gum_UserId a))),
         (''IncludeGlobalMetadata'', JBool (gum_IncludeGlobalMetadata a)),
         (''IncludeAllApplicationMetadata'', JBool (gum_IncludeAllApplicationMetadata a)),
         (''ApplicationIds'', json_pointer (\<lambda>is. JArr (map (\<lambda>i. JStr (e_uuid_String E i)) is)) (gum_ApplicationIds a))]\<rparr>"

record get_user_metadata_result =
  gumr_Metadata :: jtext
  gumr_ApplicationMetadata :: "(string \<times> jtext) list"

text \<open>The metadata of the applications under their names; applications of the same name overwrite each other.\<close>

definition add_app_metadata ::
  "application list \<Rightarrow> application_user_metadata \<Rightarrow> (string \<times> jtext) list \<Rightarrow> (string \<times> jtext) list go" where
  "add_app_metadata applications metadata m =
     (case List.find (\<lambda>a. bm_id (app_base a) = aum_applicationId metadata) applications of
        None \<Rightarrow> Inl (Panic ''application not found'')
      | Some application \<Rightarrow> Inr (AList.update (app_name application) (aum_metadata metadata) m))"

fun collect_app_metadata ::
  "application list \<Rightarrow> application_user_metadata list \<Rightarrow> (string \<times> jtext) list \<Rightarrow> (string \<times> jtext) list go" where
  "collect_app_metadata applications [] m = Inr m"
| "collect_app_metadata applications (x # xs) m =
     go_bind (add_app_metadata applications x m) (collect_app_metadata applications xs)"

definition HandleGetUserMetadata :: "get_user_metadata \<Rightarrow> get_user_metadata_result act" where
  "HandleGetUserMetadata query =
     bnd (the_vs (gum_VirtualServerName query)) (\<lambda>virtualServer.
     bnd (the_user (UserFilter_IncludeMetadata (UserFilter_Id (gum_UserId query)
            (UserFilter_VirtualServerId (bm_id (vs_base virtualServer)) NewUserFilter)))) (\<lambda>user.
       let result = \<lparr>gumr_Metadata = (if gum_IncludeGlobalMetadata query then u_metadata user else Plain []),
                     gumr_ApplicationMetadata = []\<rparr> in
       if gum_ApplicationIds query = None \<and> \<not> gum_IncludeAllApplicationMetadata query then ret result
       else
     bnd (wrapped ''searching applications'' (db_read (\<lambda>st. ApplicationRepository_List (st_Applications st)
            (case gum_ApplicationIds query of
               None \<Rightarrow> NewApplicationFilter | Some is \<Rightarrow> ApplicationFilter_Ids is NewApplicationFilter)))) (\<lambda>(applications, _).
     bnd (wrapped ''searching application user metadata'' (db_read (\<lambda>st.
            ApplicationUserMetadataRepository_List (st_ApplicationUserMetadata st)
              (ApplicationUserMetadataFilter_UserId (gum_UserId query)
                (ApplicationUserMetadataFilter_ApplicationIds (map (\<lambda>a. bm_id (app_base a)) applications)
                  NewApplicationUserMetadataFilter))))) (\<lambda>applicationMetadata.
     bnd (lift (collect_app_metadata applications applicationMetadata [])) (\<lambda>m.
       ret (result\<lparr>gumr_ApplicationMetadata := m\<rparr>))))))"

section \<open>Templates, password rules and the audit log\<close>

record get_template =
  gt0_VirtualServerName :: string
  gt0_Type :: string

definition GetTemplate_Policy :: "env \<Rightarrow> get_template \<Rightarrow> request" where
  "GetTemplate_Policy E a =
     \<lparr>rq_IsAllowed = PermissionBasedPolicy TemplateView, rq_Name = ''GetTemplate'',
      rq_LogRequest = True, rq_LogResponse = False,
      rq_json = JObj
        [(''VirtualServerName'', JStr (gt0_VirtualServerName a)), (''Type'', JStr (gt0_Type a))]\<rparr>"

record get_template_result =
  gtr_Id :: uuid
  gtr_Text :: string
  gtr_CreatedAt :: time
  gtr_UpdatedAt :: time

definition HandleGetTemplate :: "get_template \<Rightarrow> get_template_result act" where
  "HandleGetTemplate query =
     bnd (the_vs (gt0_VirtualServerName query)) (\<lambda>virtualServer.
     bnd (wrapped ''getting template'' (db_read (\<lambda>st. TemplateRepository_FirstOrErr (st_Templates st)
            (TemplateFilter_TemplateType (gt0_Type query)
              (TemplateFilter_VirtualServerId (bm_id (vs_base virtualServer)) NewTemplateFilter))))) (\<lambda>template.
     bnd (wrapped ''getting file'' (db_read (\<lambda>st. FileRepository_FirstOrErr (st_Files st)
            (FileFilter_Id (te_fileId template) NewFileFilter)))) (\<lambda>f.
       ret \<lparr>gtr_Id = bm_id (te_base template), gtr_Text = fi_content f,
            gtr_CreatedAt = bm_auditCreatedAt (te_base template), gtr_UpdatedAt = bm_auditUpdatedAt (te_base template)\<rparr>)))"

record list_templates =
  lt_PageSize :: int
  lt_Page :: int
  lt_OrderBy :: string
  lt_OrderDir :: string
  lt_VirtualServerName :: string
  lt_SearchText :: string

definition ListTemplates_Policy :: "env \<Rightarrow> list_templates \<Rightarrow> request" where
  "ListTemplates_Policy E a =
     \<lparr>rq_IsAllowed = PermissionBasedPolicy TemplateView, rq_Name = ''ListTemplates'',
      rq_LogRequest = True, rq_LogResponse = False,
      rq_json = JObj
        [(''PageSize'', JNum (lt_PageSize a)), (''Page'', JNum (lt_Page a)),
         (''OrderBy'', JStr (lt_OrderBy a)), (''OrderDir'', JStr (lt_OrderDir a)),
         (''VirtualServerName'', JStr (lt_VirtualServerName a)),
         (''SearchText'', JStr (lt_SearchText a))]\<rparr>"

record list_templates_item =
  lti_Id :: uuid
  lti_Type :: string

definition HandleListTemplates :: "list_templates \<Rightarrow> list_templates_item paged_response act" where
  "HandleListTemplates query =
     bnd (search_vs (lt_VirtualServerName query)) (\<lambda>virtualServer.
     bnd (wrapped ''searching templates'' (db_read (\<lambda>st. TemplateRepository_List (st_Templates st)
            (TemplateFilter_Search (NewContainsSearchFilter (lt_SearchText query))
              (TemplateFilter_Order (lt_OrderBy query) (lt_OrderDir query)
                (TemplateFilter_Pagination (lt_Page query) (lt_PageSize query)
                  (TemplateFilter_VirtualServerId (bm_id (vs_base virtualServer)) NewTemplateFilter))))))) (\<lambda>(templates, total).
       let items = map (\<lambda>t.
         \<lparr>lti_Id = bm_id (te_base t), lti_Type = te_templateType t\<rparr>) templates in
       ret (NewPagedResponse items total)))"

record list_password_rules =
  lpr_VirtualServerName :: string

definition ListPasswordRules_Policy :: "env \<Rightarrow> list_password_rules \<Rightarrow> request" where
  "ListPasswordRules_Policy E a =
     \<lparr>rq_IsAllowed = PermissionBasedPolicy VirtualServerView, rq_Name = ''ListPasswordRules'',
      rq_LogRequest = False, rq_LogResponse = False,
      rq_json = JObj
        [(''VirtualServerName'', JStr (lpr_VirtualServerName a))]\<rparr>"

record list_password_rules_item =
  lpri_Id :: uuid
  lpri_Type :: password_rule_type
  lpri_Details :: jtext

definition HandleListPasswordRules :: "list_password_rules \<Rightarrow> list_password_rules_item list act" where
  "HandleListPasswordRules query =
     bnd (the_vs (lpr_VirtualServerName query)) (\<lambda>virtualServer.
     bnd (wrapped ''getting password rules'' (db_read (\<lambda>st. PasswordRuleRepository_List (st_PasswordRules st)
            (PasswordRuleFilter_VirtualServerId (bm_id (vs_base virtualServer)) NewPasswordRuleFilter)))) (\<lambda>passwordRules.
       ret (map (\<lambda>x.
         \<lparr>lpri_Id = bm_id (pr_base x), lpri_Type = pr_type x, lpri_Details = pr_details x\<rparr>) passwordRules)))"

record list_audit_entries =
  lae_PageSize :: int
  lae_Page :: int
  lae_OrderBy :: string
  lae_OrderDir :: string
  lae_VirtualServerName :: string

definition ListAuditEntries_Policy :: "env \<Rightarrow> list_audit_entries \<Rightarrow> request" where
  "ListAuditEntries_Policy E a =
     \<lparr>rq_IsAllowed = PermissionBasedPolicy AuditView, rq_Name = ''ListAuditEntries'',
      rq_LogRequest = False, rq_LogResponse = False,
      rq_json = JObj
        [(''PageSize'', JNum (lae_PageSize a)), (''Page'', JNum (lae_Page a)),
         (''OrderBy'', JStr (lae_OrderBy a)), (''OrderDir'', JStr (lae_OrderDir a)),
         (''VirtualServerName'', JStr (lae_VirtualServerName a))]\<rparr>"

text \<open>The JSON columns of an entry as maps; a text that is no object counts as absent, the text of null is a nil map.\<close>

definition entry_map :: "jtext \<Rightarrow> json_obj option option" where
  "entry_map t = (case decode_map t of Inr (JObj ms) \<Rightarrow> Some (Some ms) | Inr _ \<Rightarrow> Some None | Inl _ \<Rightarrow> None)"

record list_audit_entries_item =
  laei_Id :: uuid
  laei_UserId :: "uuid option"
  laei_RequestType :: string
  laei_Request :: "json_obj option"
  laei_Response :: "json_obj option option"
  laei_Allowed :: bool
  laei_AllowReasonType :: "string option"
  laei_AllowReason :: "json_obj option option"
  laei_CreatedAt :: time

definition audit_item :: "audit_log \<Rightarrow> list_audit_entries_item go" where
  "audit_item t =
     go_bind (if al_allowed t then (case al_allowReason t of None \<Rightarrow> nil_dereference | Some r \<Rightarrow> Inr (entry_map r)) else Inr None)
       (\<lambda>allowReasonJson. Inr
         \<lparr>laei_Id = bm_id (al_base t), laei_UserId = al_userId t, laei_RequestType = al_requestType t,
          laei_Request = (case entry_map (al_request t) of None \<Rightarrow> Some [] | Some m \<Rightarrow> m),
          laei_Response = (case al_response t of None \<Rightarrow> None | Some r \<Rightarrow> entry_map r),
          laei_Allowed = al_allowed t, laei_AllowReasonType = al_allowReasonType t,
          laei_AllowReason = allowReasonJson, laei_CreatedAt = bm_auditCreatedAt (al_base t)\<rparr>)"

definition HandleListAuditEntries :: "list_audit_entries \<Rightarrow> list_audit_entries_item paged_response act" where
  "HandleListAuditEntries query =
     bnd (the_vs (lae_VirtualServerName query)) (\<lambda>virtualServer.
     bnd (wrapped ''getting audit logs'' (db_read (\<lambda>st. AuditLogRepository_List (st_AuditLogs st)
            (AuditLogFilter_Order (lae_OrderBy query) (lae_OrderDir query)
              (AuditLogFilter_Pagination (lae_Page query) (lae_PageSize query)
                (AuditLogFilter_VirtualServerId (bm_id (vs_base virtualServer)) NewAuditLogFilter)))))) (\<lambda>(auditLogs, total).
     bnd (lift (map_go audit_item auditLogs)) (\<lambda>items.
       ret (NewPagedResponse items total))))"

end
