(* ===== verification/MediatorQueries.thy ===== *)
theory MediatorQueries
  imports Queries
begin

text \<open>
  The mediator with its queries (\<^verbatim>\<open>internal/setup/mediator.go\<close>): every query with its policy and its
  handler. No query writes its answer into the audit log.
\<close>

datatype query =
    AskAnyVirtualServerExists
  | AskGetVirtualServerPublicInfo get_virtual_server_public_info
  | AskGetVirtualServerQuery get_virtual_server_query
  | AskGetProject get_project
  | AskListProjects list_projects
  | AskGetRoleQuery get_role_query
  | AskListRoles list_roles
  | AskListUsersInRole list_users_in_role
  | AskGetApplication get_application
  | AskListApplications list_applications
  | AskGetResourceServer get_resource_server
  | AskListResourceServers list_resource_servers
  | AskGetResourceServerScope get_resource_server_scope
  | AskListRessouceServerScopes list_ressouce_server_scopes
  | AskGetUserQuery get_user_query
  | AskListUsers list_users
  | AskListGroups list_groups
  | AskListPasskeys list_passkeys
  | AskGetUserMetadata get_user_metadata
  | AskGetTemplate get_template
  | AskListTemplates list_templates
  | AskListPasswordRules list_password_rules
  | AskListAuditEntries list_audit_entries

datatype query_answer =
    AnyVirtualServerExistsAnswer bool
  | GetVirtualServerPublicInfoAnswer get_virtual_server_public_info_response
  | GetVirtualServerQueryAnswer get_virtual_server_response
  | GetProjectAnswer get_project_response
  | ListProjectsAnswer "list_projects_item paged_response"
  | GetRoleQueryAnswer get_role_query_result
  | ListRolesAnswer "list_roles_item paged_response"
  | ListUsersInRoleAnswer "list_users_in_role_item paged_response"
  | GetApplicationAnswer "get_application_result option"
  | ListApplicationsAnswer "list_applications_item paged_response"
  | GetResourceServerAnswer get_resource_server_response
  | ListResourceServersAnswer "list_resource_servers_item paged_response"
  | GetResourceServerScopeAnswer get_resource_server_scope_response
  | ListRessouceServerScopesAnswer "list_resource_server_scopes_item paged_response"
  | GetUserQueryAnswer get_user_query_result
  | ListUsersAnswer "list_users_item paged_response"
  | ListGroupsAnswer "list_groups_item paged_response"
  | ListPasskeysAnswer "uuid paged_response"
  | GetUserMetadataAnswer get_user_metadata_result
  | GetTemplateAnswer get_template_result
  | ListTemplatesAnswer "list_templates_item paged_response"
  | ListPasswordRulesAnswer "list_password_rules_item list"
  | ListAuditEntriesAnswer "list_audit_entries_item paged_response"

text \<open>The virtual server that a query names.\<close>

fun query_server :: "query \<Rightarrow> string option" where
  "query_server AskAnyVirtualServerExists = None"
| "query_server (AskGetVirtualServerPublicInfo a) = Some (gvp_VirtualServerName a)"
| "query_server (AskGetVirtualServerQuery a) = Some (gvs_VirtualServerName a)"
| "query_server (AskGetProject a) = Some (gp_VirtualServerName a)"
| "query_server (AskListProjects a) = Some (lp_VirtualServerName a)"
| "query_server (AskGetRoleQuery a) = Some (gro_VirtualServerName a)"
| "query_server (AskListRoles a) = Some (lro_VirtualServerName a)"
| "query_server (AskListUsersInRole a) = Some (lur_VirtualServerName a)"
| "query_server (AskGetApplication a) = Some (ga_VirtualServerName a)"
| "query_server (AskListApplications a) = Some (la_VirtualServerName a)"
| "query_server (AskGetResourceServer a) = Some (grs_VirtualServerName a)"
| "query_server (AskListResourceServers a) = Some (lrs_VirtualServerName a)"
| "query_server (AskGetResourceServerScope a) = Some (grss_VirtualServerName a)"
| "query_server (AskListRessouceServerScopes a) = Some (lrss_VirtualServerName a)"
| "query_server (AskGetUserQuery a) = Some (guq_VirtualServerName a)"
| "query_server (AskListUsers a) = Some (lu_VirtualServerName a)"
| "query_server (AskListGroups a) = Some (lg_VirtualServerName a)"
| "query_server (AskListPasskeys a) = Some (lpk_VirtualServerName a)"
| "query_server (AskGetUserMetadata a) = Some (gum_VirtualServerName a)"
| "query_server (AskGetTemplate a) = Some (gt0_VirtualServerName a)"
| "query_server (AskListTemplates a) = Some (lt_VirtualServerName a)"
| "query_server (AskListPasswordRules a) = Some (lpr_VirtualServerName a)"
| "query_server (AskListAuditEntries a) = Some (lae_VirtualServerName a)"

fun policy_of_query :: "env \<Rightarrow> query \<Rightarrow> request option" where
  "policy_of_query E AskAnyVirtualServerExists = None"
| "policy_of_query E (AskGetVirtualServerPublicInfo a) = None"
| "policy_of_query E (AskGetVirtualServerQuery a) = Some (GetVirtualServerQuery_Policy E a)"
| "policy_of_query E (AskGetProject a) = Some (GetProject_Policy E a)"
| "policy_of_query E (AskListProjects a) = Some (ListProjects_Policy E a)"
| "policy_of_query E (AskGetRoleQuery a) = Some (GetRoleQuery_Policy E a)"
| "policy_of_query E (AskListRoles a) = Some (ListRoles_Policy E a)"
| "policy_of_query E (AskListUsersInRole a) = Some (ListUsersInRole_Policy E a)"
| "policy_of_query E (AskGetApplication a) = Some (GetApplication_Policy E a)"
| "policy_of_query E (AskListApplications a) = Some (ListApplications_Policy E a)"
| "policy_of_query E (AskGetResourceServer a) = Some (GetResourceServer_Policy E a)"
| "policy_of_query E (AskListResourceServers a) = Some (ListResourceServers_Policy E a)"
| "policy_of_query E (AskGetResourceServerScope a) = Some (GetResourceServerScope_Policy E a)"
| "policy_of_query E (AskListRessouceServerScopes a) = Some (ListRessouceServerScopes_Policy E a)"
| "policy_of_query E (AskGetUserQuery a) = Some (GetUserQuery_Policy E a)"
| "policy_of_query E (AskListUsers a) = Some (ListUsers_Policy E a)"
| "policy_of_query E (AskListGroups a) = Some (ListGroups_Policy E a)"
| "policy_of_query E (AskListPasskeys a) = Some (ListPasskeys_Policy E a)"
| "policy_of_query E (AskGetUserMetadata a) = Some (GetUserMetadata_Policy E a)"
| "policy_of_query E (AskGetTemplate a) = Some (GetTemplate_Policy E a)"
| "policy_of_query E (AskListTemplates a) = Some (ListTemplates_Policy E a)"
| "policy_of_query E (AskListPasswordRules a) = Some (ListPasswordRules_Policy E a)"
| "policy_of_query E (AskListAuditEntries a) = Some (ListAuditEntries_Policy E a)"

definition answered :: "('r \<Rightarrow> query_answer) \<Rightarrow> 'r act \<Rightarrow> query_answer act" where
  "answered f m = bnd m (\<lambda>response. ret (f response))"

fun handle_query :: "query \<Rightarrow> query_answer act" where
  "handle_query AskAnyVirtualServerExists = answered AnyVirtualServerExistsAnswer HandleAnyVirtualServerExists"
| "handle_query (AskGetVirtualServerPublicInfo a) = answered GetVirtualServerPublicInfoAnswer (HandleGetVirtualServerPublicInfo a)"
| "handle_query (AskGetVirtualServerQuery a) = answered GetVirtualServerQueryAnswer (HandleGetVirtualServerQuery a)"
| "handle_query (AskGetProject a) = answered GetProjectAnswer (HandleGetProject a)"
| "handle_query (AskListProjects a) = answered ListProjectsAnswer (HandleListProjects a)"
| "handle_query (AskGetRoleQuery a) = answered GetRoleQueryAnswer (HandleGetRole a)"
| "handle_query (AskListRoles a) = answered ListRolesAnswer (HandleListRoles a)"
| "handle_query (AskListUsersInRole a) = answered ListUsersInRoleAnswer (HandleListUsersInRole a)"
| "handle_query (AskGetApplication a) = answered GetApplicationAnswer (HandleGetApplication a)"
| "handle_query (AskListApplications a) = answered ListApplicationsAnswer (HandleListApplications a)"
| "handle_query (AskGetResourceServer a) = answered GetResourceServerAnswer (HandleGetResourceServer a)"
| "handle_query (AskListResourceServers a) = answered ListResourceServersAnswer (HandleListResourceServers a)"
| "handle_query (AskGetResourceServerScope a) = answered GetResourceServerScopeAnswer (HandleGetResourceServerScope a)"
| "handle_query (AskListRessouceServerScopes a) = answered ListRessouceServerScopesAnswer (HandleListResourceServerScopes a)"
| "handle_query (AskGetUserQuery a) = answered GetUserQueryAnswer (HandleGetUserQuery a)"
| "handle_query (AskListUsers a) = answered ListUsersAnswer (HandleListUsers a)"
| "handle_query (AskListGroups a) = answered ListGroupsAnswer (HandleListGroups a)"
| "handle_query (AskListPasskeys a) = answered ListPasskeysAnswer (HandleListPasskeys a)"
| "handle_query (AskGetUserMetadata a) = answered GetUserMetadataAnswer (HandleGetUserMetadata a)"
| "handle_query (AskGetTemplate a) = answered GetTemplateAnswer (HandleGetTemplate a)"
| "handle_query (AskListTemplates a) = answered ListTemplatesAnswer (HandleListTemplates a)"
| "handle_query (AskListPasswordRules a) = answered ListPasswordRulesAnswer (HandleListPasswordRules a)"
| "handle_query (AskListAuditEntries a) = answered ListAuditEntriesAnswer (HandleListAuditEntries a)"

definition mediatr_Ask :: "env \<Rightarrow> req_ctx \<Rightarrow> query \<Rightarrow> query_answer act" where
  "mediatr_Ask E ctx q =
     (case policy_of_query E q of
        None \<Rightarrow> handle_query q
      | Some rq \<Rightarrow> Send E (\<lambda>_. JNull) rq ctx (handle_query q))"

end
