(* ===== verification/QuerySpec.thy ===== *)
theory QuerySpec
  imports MediatorQueries SessionSpec
begin

text \<open>
  What the queries see: every query that names a virtual server, but two, reads nothing but the entities of
  that server, so the answer is the same on a database that holds nothing else.
\<close>

section \<open>The part of one virtual server\<close>

abbreviation of_server :: "('e \<Rightarrow> uuid) \<Rightarrow> uuid \<Rightarrow> (uuid \<times> 'e) list \<Rightarrow> (uuid \<times> 'e) list" where
  "of_server server i s \<equiv> filter (\<lambda>x. server (snd x) = i) s"

text \<open>
  The entities of a virtual server, with the credentials of its users and the files of its templates. All
  sessions, assignments, metadata, groups of roles and queued messages are left out.
\<close>

definition server_part :: "uuid \<Rightarrow> stores \<Rightarrow> stores" where
  "server_part i st = newStores\<lparr>
     st_VirtualServers := of_server (\<lambda>e. bm_id (vs_base e)) i (st_VirtualServers st),
     st_Projects := of_server p_virtualServerId i (st_Projects st),
     st_Roles := of_server ro_virtualServerId i (st_Roles st),
     st_Applications := of_server app_virtualServerId i (st_Applications st),
     st_ResourceServers := of_server rs_virtualServerId i (st_ResourceServers st),
     st_ResourceServerScopes := of_server rss_virtualServerId i (st_ResourceServerScopes st),
     st_Users := of_server u_virtualServerId i (st_Users st),
     st_Groups := of_server gr_virtualServerId i (st_Groups st),
     st_Templates := of_server te_virtualServerId i (st_Templates st),
     st_PasswordRules := of_server pr_virtualServerId i (st_PasswordRules st),
     st_AuditLogs := of_server al_virtualServerId i (st_AuditLogs st),
     st_Credentials := filter (\<lambda>c. \<exists>u \<in> set (st_Users st).
        u_virtualServerId (snd u) = i \<and> bm_id (u_base (snd u)) = cr_userId (snd c)) (st_Credentials st),
     st_Files := filter (\<lambda>f. \<exists>t \<in> set (st_Templates st).
        te_virtualServerId (snd t) = i \<and> te_fileId (snd t) = bm_id (fi_base (snd f))) (st_Files st)\<rparr>"

definition tenant_part :: "string \<Rightarrow> stores \<Rightarrow> stores" where
  "tenant_part n st = (case vs_named st n of None \<Rightarrow> newStores | Some v \<Rightarrow> server_part (bm_id (vs_base v)) st)"

definition tenant_world :: "string \<Rightarrow> world \<Rightarrow> world" where
  "tenant_world n w = w\<lparr>w_db := (w_db w)\<lparr>db_stores := tenant_part n (w_stores w)\<rparr>\<rparr>"

lemma tenant_world_stores [simp]: "w_stores (tenant_world n w) = tenant_part n (w_stores w)"
  by (simp add: tenant_world_def w_stores_def)

section \<open>Reads that stay in the part\<close>

lemma filter_go_cut: "(\<And>x. \<not> Q x \<Longrightarrow> p x = Inr False) \<Longrightarrow> filter_go p (filter Q xs) = filter_go p xs"
proof (induction xs)
  case (Cons x xs)
  then show ?case by (cases "filter_go p xs") auto
qed simp

lemma find_go_cut: "(\<And>x. \<not> Q x \<Longrightarrow> p x = Inr False) \<Longrightarrow> find_go p (filter Q xs) = find_go p xs"
proof (induction xs)
  case (Cons x xs)
  then show ?case by (cases "p x") auto
qed simp

lemma repo_cut:
  assumes "\<And>x. \<not> Q x \<Longrightarrow> p x = Inr False"
  shows "repo_filtered p (filter (\<lambda>x. Q (snd x)) s) = repo_filtered p s" "repo_find p (filter (\<lambda>x. Q (snd x)) s) = repo_find p s"
proof -
  have "map snd (filter (\<lambda>x. Q (snd x)) s) = filter Q (map snd s)" by (simp add: filter_map o_def)
  then show "repo_filtered p (filter (\<lambda>x. Q (snd x)) s) = repo_filtered p s" "repo_find p (filter (\<lambda>x. Q (snd x)) s) = repo_find p s"
    using filter_go_cut [where p = p and Q = Q, OF assms] find_go_cut [where p = p and Q = Q, OF assms]
    by (simp_all add: repo_filtered_def repo_find_def)
qed

text \<open>
  A computation that leaves the state as it is and gives the same on the part of the named server.
\<close>

definition within :: "string \<Rightarrow> world \<Rightarrow> 'a act \<Rightarrow> bool" where
  "within n w m \<longleftrightarrow> (\<exists>r. m w = (r, w) \<and> m (tenant_world n w) = (r, tenant_world n w))"

lemma within_bnd:
  assumes "within n w m" "\<And>x. fst (m w) = Inr x \<Longrightarrow> within n w (f x)"
  shows "within n w (bnd m f)"
proof -
  obtain r where r: "m w = (r, w)" "m (tenant_world n w) = (r, tenant_world n w)" using assms(1) by (auto simp: within_def)
  then show ?thesis using assms(2) by (cases r) (auto simp: within_def bnd_def)
qed

lemma within_wrapped: "within n w m \<Longrightarrow> within n w (wrapped msg m)"
  by (auto simp: within_def wrapped_def)

lemma within_pure: "within n w (ret x)" "within n w (lift r)" "within n w (err e)"
  by (simp_all add: within_def)

lemma within_read: "q (tenant_part n (w_stores w)) = q (w_stores w) \<Longrightarrow> within n w (db_read q)"
  by (simp add: within_def db_read_def)

lemma within_answered: "within n w m \<Longrightarrow> within n w (answered f m)"
  by (simp add: answered_def within_bnd within_pure)

lemma vs_named_part: "vs_named (tenant_part n st) n = vs_named st n"
proof (cases "vs_named st n")
  case (Some v)
  have *: "first_of (filter P xs) = Some v \<Longrightarrow> first_of (filter P (filter Q xs)) = Some v" if "Q v" for P Q xs and v :: virtual_server
    using that by (induction xs) (auto split: if_splits)
  show ?thesis
    using * [of "\<lambda>x. bm_id (vs_base x) = bm_id (vs_base v)" v "\<lambda>x. vs_name x = n" "map snd (st_VirtualServers st)"] Some
    by (simp add: tenant_part_def server_part_def vs_named_def filter_map o_def)
qed (simp add: tenant_part_def vs_named_def newStores_def)

lemma within_vs: "within n w (vs_by_name n)"
  by (simp add: within_def vs_by_name_eq vs_named_part)

lemma the_vs_named:
  "fst (the_vs n w) = Inr v \<Longrightarrow> vs_named (w_stores w) n = Some v" "fst (search_vs n w) = Inr v \<Longrightarrow> vs_named (w_stores w) n = Some v"
  "fst (vs_by_name n w) = Inr v \<Longrightarrow> vs_named (w_stores w) n = Some v"
  by (simp_all add: the_vs_def search_vs_def wrapped_def vs_by_name_eq split: option.splits)

lemma within_the_vs: "within n w (the_vs n)" "within n w (search_vs n)"
  by (simp_all add: the_vs_def search_vs_def within_wrapped within_vs)

text \<open>The lists and single entities of every repository, for a filter on the server of the part.\<close>

lemma part_reads:
  assumes "vs_named st n = Some v"
  shows "pf_virtualServerId pf = Some (bm_id (vs_base v)) \<Longrightarrow>
      repo_filtered (Project_matches pf) (st_Projects (tenant_part n st)) = repo_filtered (Project_matches pf) (st_Projects st)"
    "rof_virtualServerId rof = Some (bm_id (vs_base v)) \<Longrightarrow>
      repo_filtered (Role_matches rof) (st_Roles (tenant_part n st)) = repo_filtered (Role_matches rof) (st_Roles st)"
    "appf_virtualServerId af = Some (bm_id (vs_base v)) \<Longrightarrow>
      repo_filtered (Application_matches af) (st_Applications (tenant_part n st)) = repo_filtered (Application_matches af) (st_Applications st)"
    "rsf_virtualServerId rsf = Some (bm_id (vs_base v)) \<Longrightarrow>
      repo_filtered (ResourceServer_matches rsf) (st_ResourceServers (tenant_part n st)) = repo_filtered (ResourceServer_matches rsf) (st_ResourceServers st)"
    "rssf_virtualServerId rssf = Some (bm_id (vs_base v)) \<Longrightarrow>
      repo_filtered (ResourceServerScope_matches rssf) (st_ResourceServerScopes (tenant_part n st)) =
        repo_filtered (ResourceServerScope_matches rssf) (st_ResourceServerScopes st)"
    "uf_virtualServerId uf = Some (bm_id (vs_base v)) \<Longrightarrow>
      repo_filtered (User_matches uf) (st_Users (tenant_part n st)) = repo_filtered (User_matches uf) (st_Users st)"
    "grf_virtualServerId gf = Some (bm_id (vs_base v)) \<Longrightarrow>
      repo_filtered (Group_matches gf) (st_Groups (tenant_part n st)) = repo_filtered (Group_matches gf) (st_Groups st)"
    "tef_virtualServerId tf = Some (bm_id (vs_base v)) \<Longrightarrow>
      repo_filtered (Template_matches tf) (st_Templates (tenant_part n st)) = repo_filtered (Template_matches tf) (st_Templates st)"
    "prf_virtualServerId prf = Some (bm_id (vs_base v)) \<Longrightarrow>
      repo_filtered (PasswordRule_matches prf) (st_PasswordRules (tenant_part n st)) = repo_filtered (PasswordRule_matches prf) (st_PasswordRules st)"
    "alf_virtualServerId alf = Some (bm_id (vs_base v)) \<Longrightarrow>
      repo_filtered (AuditLog_matches alf) (st_AuditLogs (tenant_part n st)) = repo_filtered (AuditLog_matches alf) (st_AuditLogs st)"
  using assms
  by (simp_all add: tenant_part_def server_part_def)
    (rule repo_cut(1), simp add: Project_matches_def Role_matches_def Application_matches_def ResourceServer_matches_def
      ResourceServerScope_matches_def User_matches_def Group_matches_def Template_matches_def PasswordRule_matches_def AuditLog_matches_def)+

lemma part_credentials:
  assumes "vs_named st n = Some v" "u \<in> snd ` set (st_Users st)" "u_virtualServerId u = bm_id (vs_base v)" "crf_userId f = Some (bm_id (u_base u))"
  shows "repo_filtered (Credential_matches f) (st_Credentials (tenant_part n st)) = repo_filtered (Credential_matches f) (st_Credentials st)"
  using assms
  by (simp add: tenant_part_def server_part_def)
    (rule repo_cut(1) [where Q = "\<lambda>c. \<exists>u \<in> set (st_Users st). u_virtualServerId (snd u) = bm_id (vs_base v) \<and> bm_id (u_base (snd u)) = cr_userId c"],
     auto simp: Credential_matches_def)

lemma part_files:
  assumes "vs_named st n = Some v" "t \<in> snd ` set (st_Templates st)" "te_virtualServerId t = bm_id (vs_base v)" "fif_id f = Some (te_fileId t)"
  shows "repo_find (File_matches f) (st_Files (tenant_part n st)) = repo_find (File_matches f) (st_Files st)"
  using assms
  by (simp add: tenant_part_def server_part_def)
    (rule repo_cut(2) [where Q = "\<lambda>f. \<exists>t \<in> set (st_Templates st). te_virtualServerId (snd t) = bm_id (vs_base v) \<and> te_fileId (snd t) = bm_id (fi_base f)"],
     auto simp: File_matches_def)

section \<open>The handlers\<close>

lemma within_server:
  assumes "\<And>v. vs_named (w_stores w) n = Some v \<Longrightarrow> within n w (f v)"
  shows "within n w (bnd (the_vs n) f)" "within n w (bnd (search_vs n) f)" "within n w (bnd (vs_by_name n) f)"
  by (auto intro!: within_bnd within_the_vs within_vs assms dest: the_vs_named)

lemma within_the_project: "vs_named (w_stores w) n = Some v \<Longrightarrow> within n w (the_project v slug)"
  by (simp add: the_project_def within_wrapped within_read part_reads ProjectRepository_FirstOrErr_def ProjectRepository_FirstOrNil_def
      ProjectRepository_filtered_def filter_defs)

lemma within_the_resource_server: "vs_named (w_stores w) n = Some v \<Longrightarrow> within n w (the_resource_server v project i)"
  by (simp add: the_resource_server_def within_wrapped within_read part_reads ResourceServerRepository_FirstOrErr_def
      ResourceServerRepository_FirstOrNil_def ResourceServerRepository_filtered_def filter_defs)

lemma within_the_user:
  "vs_named (w_stores w) n = Some v \<Longrightarrow> within n w (the_user (UserFilter_Id i (UserFilter_VirtualServerId (bm_id (vs_base v)) NewUserFilter)))"
  "vs_named (w_stores w) n = Some v \<Longrightarrow>
    within n w (the_user (UserFilter_IncludeMetadata (UserFilter_Id i (UserFilter_VirtualServerId (bm_id (vs_base v)) NewUserFilter))))"
  by (simp_all add: the_user_def within_wrapped within_read part_reads UserRepository_FirstOrErr_def
      UserRepository_FirstOrNil_def UserRepository_filtered_def filter_defs)

lemma within_prod: "(\<And>a b. within n w (f a b)) \<Longrightarrow> within n w (case x of (a, b) \<Rightarrow> f a b)"
  by (cases x) simp

fun confined :: "query \<Rightarrow> bool" where
  "confined AskAnyVirtualServerExists = False"
| "confined (AskListUsersInRole _) = False"
| "confined (AskGetUserMetadata a) = (gum_ApplicationIds a = None \<and> \<not> gum_IncludeAllApplicationMetadata a)"
| "confined _ = True"

lemmas within_steps = within_server within_bnd within_wrapped within_prod within_pure within_the_project within_the_resource_server
  within_the_user within_answered

lemmas list_defs = ProjectRepository_List_def ProjectRepository_filtered_def RoleRepository_List_def RoleRepository_filtered_def
  RoleRepository_FirstOrErr_def RoleRepository_FirstOrNil_def
  ApplicationRepository_List_def ApplicationRepository_filtered_def ApplicationRepository_FirstOrNil_def
  ResourceServerRepository_List_def ResourceServerRepository_filtered_def
  ResourceServerScopeRepository_List_def ResourceServerScopeRepository_filtered_def
  ResourceServerScopeRepository_FirstOrErr_def ResourceServerScopeRepository_FirstOrNil_def
  UserRepository_List_def UserRepository_filtered_def GroupRepository_List_def GroupRepository_filtered_def
  TemplateRepository_List_def TemplateRepository_filtered_def PasswordRuleRepository_List_def PasswordRuleRepository_filtered_def
  AuditLogRepository_List_def

lemma within_lists:
  "n = lp_VirtualServerName a1 \<Longrightarrow> within n w (HandleListProjects a1)"
  "n = lro_VirtualServerName a2 \<Longrightarrow> within n w (HandleListRoles a2)"
  "n = la_VirtualServerName a3 \<Longrightarrow> within n w (HandleListApplications a3)"
  "n = lrs_VirtualServerName a4 \<Longrightarrow> within n w (HandleListResourceServers a4)"
  "n = lrss_VirtualServerName a5 \<Longrightarrow> within n w (HandleListResourceServerScopes a5)"
  "n = lu_VirtualServerName a6 \<Longrightarrow> within n w (HandleListUsers a6)"
  "n = lg_VirtualServerName a7 \<Longrightarrow> within n w (HandleListGroups a7)"
  "n = lt_VirtualServerName a8 \<Longrightarrow> within n w (HandleListTemplates a8)"
  "n = lpr_VirtualServerName a9 \<Longrightarrow> within n w (HandleListPasswordRules a9)"
  "n = lae_VirtualServerName a10 \<Longrightarrow> within n w (HandleListAuditEntries a10)"
  unfolding HandleListProjects_def HandleListRoles_def HandleListApplications_def HandleListResourceServers_def
    HandleListResourceServerScopes_def HandleListUsers_def HandleListGroups_def HandleListTemplates_def HandleListPasswordRules_def
    HandleListAuditEntries_def Let_def
  by (hypsubst, (intro within_steps within_read; simp add: part_reads list_defs filter_defs))+

lemma within_gets:
  "n = gvp_VirtualServerName a1 \<Longrightarrow> within n w (HandleGetVirtualServerPublicInfo a1)"
  "n = gvs_VirtualServerName a2 \<Longrightarrow> within n w (HandleGetVirtualServerQuery a2)"
  "n = gp_VirtualServerName a3 \<Longrightarrow> within n w (HandleGetProject a3)"
  "n = gro_VirtualServerName a4 \<Longrightarrow> within n w (HandleGetRole a4)"
  "n = ga_VirtualServerName a5 \<Longrightarrow> within n w (HandleGetApplication a5)"
  "n = grs_VirtualServerName a6 \<Longrightarrow> within n w (HandleGetResourceServer a6)"
  "n = grss_VirtualServerName a7 \<Longrightarrow> within n w (HandleGetResourceServerScope a7)"
  "n = guq_VirtualServerName a8 \<Longrightarrow> within n w (HandleGetUserQuery a8)"
  "n = gum_VirtualServerName a9 \<Longrightarrow> gum_ApplicationIds a9 = None \<Longrightarrow> \<not> gum_IncludeAllApplicationMetadata a9 \<Longrightarrow>
    within n w (HandleGetUserMetadata a9)"
  unfolding HandleGetVirtualServerPublicInfo_def HandleGetVirtualServerQuery_def HandleGetProject_def HandleGetRole_def
    HandleGetApplication_def HandleGetResourceServer_def HandleGetResourceServerScope_def HandleGetUserQuery_def HandleGetUserMetadata_def
    Let_def role_filter_of_def app_filter_of_def
  by (hypsubst, (intro within_steps within_read; simp add: part_reads list_defs filter_defs within_pure))+

text \<open>The entity that a read by server found is one of that server.\<close>

lemma found_user:
  assumes "fst (the_user (UserFilter_Id i (UserFilter_VirtualServerId vi NewUserFilter)) w) = Inr u"
  shows "u \<in> snd ` set (st_Users (w_stores w)) \<and> u_virtualServerId u = vi"
proof -
  obtain us where us: "filter_go (User_matches (UserFilter_Id i (UserFilter_VirtualServerId vi NewUserFilter))) (map snd (st_Users (w_stores w))) = Inr us"
    "first_of us = Some u"
    using assms by (auto simp: the_user_def wrapped_def db_read_def UserRepository_FirstOrErr_def UserRepository_FirstOrNil_def
        UserRepository_filtered_def repo_filtered_def or_err_def go_bind_Inr_iff split: option.splits)
  then have "u \<in> set (map snd (st_Users (w_stores w)))" "User_matches (UserFilter_Id i (UserFilter_VirtualServerId vi NewUserFilter)) u = Inr True"
    using filter_go_sound [OF us(1), of u] first_of_Some [OF us(2)] by auto
  then show ?thesis by (auto simp: User_matches_def filter_defs split: if_splits)
qed

lemma found_template:
  assumes "TemplateRepository_FirstOrErr s (TemplateFilter_TemplateType ty (TemplateFilter_VirtualServerId vi NewTemplateFilter)) = Inr t"
  shows "t \<in> snd ` set s \<and> te_virtualServerId t = vi"
proof -
  obtain ts where ts: "filter_go (Template_matches (TemplateFilter_TemplateType ty (TemplateFilter_VirtualServerId vi NewTemplateFilter))) (map snd s) = Inr ts"
    "first_of ts = Some t"
    using assms by (auto simp: TemplateRepository_FirstOrErr_def TemplateRepository_FirstOrNil_def
        TemplateRepository_filtered_def repo_filtered_def or_err_def go_bind_Inr_iff split: option.splits)
  then have "t \<in> set (map snd s)" "Template_matches (TemplateFilter_TemplateType ty (TemplateFilter_VirtualServerId vi NewTemplateFilter)) t = Inr True"
    using filter_go_sound [OF ts(1), of t] first_of_Some [OF ts(2)] by auto
  then show ?thesis by (auto simp: Template_matches_def filter_defs split: if_splits)
qed

lemma within_credentials:
  assumes "vs_named (w_stores w) n = Some v"
    and "fst (the_user (UserFilter_Id i (UserFilter_VirtualServerId (bm_id (vs_base v)) NewUserFilter)) w) = Inr u"
  shows "within n w (db_read (\<lambda>st. CredentialRepository_List (st_Credentials st) (user_credentials (bm_id (u_base u)) ty)))"
  using found_user [OF assms(2)] part_credentials [OF assms(1), of u "user_credentials (bm_id (u_base u)) ty"]
  by (intro within_read)
    (simp add: CredentialRepository_List_def CredentialRepository_filtered_def user_credentials_def filter_defs)

lemma within_passkeys: "within (lpk_VirtualServerName a) w (HandleListPasskeys a)"
  unfolding HandleListPasskeys_def Let_def by (intro within_steps within_credentials)

lemma within_file:
  assumes "vs_named (w_stores w) n = Some v"
    and "fst (wrapped m (db_read (\<lambda>st. TemplateRepository_FirstOrErr (st_Templates st)
        (TemplateFilter_TemplateType ty (TemplateFilter_VirtualServerId (bm_id (vs_base v)) NewTemplateFilter)))) w) = Inr t"
  shows "within n w (db_read (\<lambda>st. FileRepository_FirstOrErr (st_Files st) (FileFilter_Id (te_fileId t) NewFileFilter)))"
proof -
  have "t \<in> snd ` set (st_Templates (w_stores w)) \<and> te_virtualServerId t = bm_id (vs_base v)"
    using found_template [of "st_Templates (w_stores w)" ty "bm_id (vs_base v)" t] assms(2) by (simp add: wrapped_def db_read_def)
  then show ?thesis
    using part_files [OF assms(1), of t "FileFilter_Id (te_fileId t) NewFileFilter"]
    by (intro within_read) (simp add: FileRepository_FirstOrErr_def FileRepository_FirstOrNil_def filter_defs)
qed

lemma within_the_template:
  "vs_named (w_stores w) n = Some v \<Longrightarrow> within n w (db_read (\<lambda>st. TemplateRepository_FirstOrErr (st_Templates st)
        (TemplateFilter_TemplateType ty (TemplateFilter_VirtualServerId (bm_id (vs_base v)) NewTemplateFilter))))"
  by (simp add: within_read part_reads TemplateRepository_FirstOrErr_def TemplateRepository_FirstOrNil_def TemplateRepository_filtered_def
      filter_defs)

lemma within_template: "within (gt0_VirtualServerName a) w (HandleGetTemplate a)"
  unfolding HandleGetTemplate_def by (intro within_steps within_the_template within_file)

lemma handle_query_within: "query_server q = Some n \<Longrightarrow> confined q \<Longrightarrow> within n w (handle_query q)"
  by (cases q) (auto intro!: within_answered within_gets within_lists within_passkeys within_template)

text \<open>
  C10: queries do not cross tenants. A query that names a virtual server changes nothing, and its answer, an
  error or a panic included, is the one it gets on a database that holds only the entities of that server;
  this holds for all queries but the users in a role and the metadata of a user in applications.
\<close>

theorem queries_confined:
  assumes "query_server q = Some n" "confined q"
  shows "handle_query q w = (fst (handle_query q (tenant_world n w)), w)"
  using handle_query_within [OF assms, of w] by (auto simp: within_def)

definition two_servers :: world where
  "two_servers = world_with (newStores\<lparr>
     st_VirtualServers := [(1, sample_vs), (2, NewVirtualServer 2 0 ''b'' ''B'')],
     st_Users := [(7, NewUser 7 0 ''ann'' ''Ann'' ''ann@x'' 1), (8, NewUser 8 0 ''bob'' ''Bob'' ''bob@y'' 2)]\<rparr>)"

lemma part_of_a: "tenant_part ''a'' (w_stores two_servers) = newStores\<lparr>
     st_VirtualServers := [(1, sample_vs)], st_Users := [(7, NewUser 7 0 ''ann'' ''Ann'' ''ann@x'' 1)]\<rparr>"
  by (simp add: two_servers_def tenant_part_def server_part_def vs_named_def sample_vs_def NewVirtualServer_def NewUser_def NewBaseModel_def
      newStores_def)

theorem queries_confined_witness:
  "handle_query (AskListUsers \<lparr>lu_PageSize = 10, lu_Page = 1, lu_OrderBy = [], lu_OrderDir = [], lu_VirtualServerName = ''a'',
      lu_SearchText = []\<rparr>) two_servers =
   (Inr (ListUsersAnswer \<lparr>pgr_Items = [\<lparr>lui_Id = 7, lui_Username = ''ann'', lui_DisplayName = ''Ann'', lui_Email = ''ann@x'',
      lui_IsServiceUser = False\<rparr>], pgr_TotalCount = 1\<rparr>), two_servers)"
proof -
  let ?q = "AskListUsers \<lparr>lu_PageSize = 10, lu_Page = 1, lu_OrderBy = [], lu_OrderDir = [], lu_VirtualServerName = ''a'', lu_SearchText = []\<rparr>"
  let ?ann = "NewUser 7 0 ''ann'' ''Ann'' ''ann@x'' 1"
  let ?part = "newStores\<lparr>st_VirtualServers := [(1, sample_vs)], st_Users := [(7, ?ann)]\<rparr>"
  have vs: "vs_named ?part ''a'' = Some sample_vs" "bm_id (vs_base sample_vs) = 1"
    by (simp_all add: vs_named_def sample_vs_def NewVirtualServer_def NewBaseModel_def)
  have one: "paginateSlice [?ann] (PagingInfo 1 10) = Inr [?ann]"
    by (simp add: paginateSlice_def Let_def wrap64_def PagingInfo_IsZero_def slice_def)
  have everywhere: "Contains s (ToLower [])" for s
    by (metis Contains_iff ToLower_def append_Nil list.map_disc_iff)
  have "UserRepository_List (st_Users ?part) (UserFilter_Search (NewContainsSearchFilter []) (UserFilter_Order [] []
      (UserFilter_Pagination 1 10 (UserFilter_VirtualServerId 1 NewUserFilter)))) = Inr ([?ann], 1)"
    using one by (simp add: list_defs repo_filtered_def repo_page_def filter_defs User_matches_def matchesSearch_contains PagingInfo_IsZero_def
        )
      (simp add: NewUser_def everywhere)
  then have "fst (handle_query ?q (tenant_world ''a'' two_servers)) =
      Inr (ListUsersAnswer \<lparr>pgr_Items = [\<lparr>lui_Id = 7, lui_Username = ''ann'', lui_DisplayName = ''Ann'', lui_Email = ''ann@x'',
        lui_IsServiceUser = False\<rparr>], pgr_TotalCount = 1\<rparr>)"
    using vs by (simp add: answered_def HandleListUsers_def bnd_def search_vs_def wrapped_def vs_by_name_eq part_of_a db_read_def
        NewPagedResponse_def)
      (simp add: NewUser_def NewBaseModel_def)
  then show ?thesis using queries_confined [of ?q "''a''" two_servers] by simp
qed

end
