(* ===== verification/Outbox.thy ===== *)
theory Outbox
  imports CommandsUsers
begin

text \<open>
  The outbox: decoding and distribution of queued messages (\<^verbatim>\<open>internal/services/outbox\<close>,
  \<^verbatim>\<open>internal/services/mails.go\<close>), the job that sends them (\<^verbatim>\<open>internal/jobs/OutboxJob.go\<close>), what a
  run of the job does to the queue, and a mail that comes through the whole chain. The mail server is
  a parameter: its answer to every attempt to send a mail, by the number of attempts before.
\<close>

section \<open>Mails\<close>

record mail =
  ml_To :: string
  ml_ToName :: string
  ml_From :: string
  ml_FromName :: string
  ml_Subject :: string
  ml_Body :: string

type_synonym mail_server = "nat \<Rightarrow> mail \<Rightarrow> goerr option"
type_synonym mail_log = "(mail \<times> goerr option) list"

definition mailService_Send :: "mail_server \<Rightarrow> mail \<Rightarrow> mail_log \<Rightarrow> unit go \<times> mail_log" where
  "mailService_Send smtp m log =
     (let answer = smtp (length log) m in
      (case answer of None \<Rightarrow> Inr () | Some e \<Rightarrow> Inl (Err (Wrap ''sending mail'' e)), log @ [(m, answer)]))"

record send_email_message =
  sem_VirtualServerId :: uuid
  sem_DisplayName :: string
  sem_To :: string
  sem_Subject :: string
  sem_Body :: string

definition SendEmailMessage_decode :: "env \<Rightarrow> jtext \<Rightarrow> send_email_message go" where
  "SendEmailMessage_decode E t =
     go_bind (json_Unmarshal t) (\<lambda>j. go_bind (as_object j) (\<lambda>ms.
     go_bind (get_uuid E ''virtualServerId'' ms) (\<lambda>vsId.
     go_bind (get_string ''displayName'' ms) (\<lambda>displayName.
     go_bind (get_string ''to'' ms) (\<lambda>to.
     go_bind (get_string ''subject'' ms) (\<lambda>subject.
     go_bind (get_string ''body'' ms) (\<lambda>body.
       Inr \<lparr>sem_VirtualServerId = vsId, sem_DisplayName = displayName, sem_To = to, sem_Subject = subject,
            sem_Body = body\<rparr>)))))))"

section \<open>Distribution\<close>

definition messageBroker_Distribute :: "env \<Rightarrow> mail_server \<Rightarrow> outbox_message \<Rightarrow> mail_log \<Rightarrow> unit go \<times> mail_log" where
  "messageBroker_Distribute E smtp message log =
     (if ob_type message = SendMailOutboxMessageType then
        (case wrap ''failed to unmarshal send email message details'' (SendEmailMessage_decode E (ob_details message)) of
           Inl e \<Rightarrow> (Inl e, log)
         | Inr sendEmailDetails \<Rightarrow>
             (case mailService_Send smtp
                 \<lparr>ml_To = sem_To sendEmailDetails, ml_ToName = sem_DisplayName sendEmailDetails,
                  ml_From = ''no-reply@keyline.home.arpa'', ml_FromName = ''Keyline'',
                  ml_Subject = sem_Subject sendEmailDetails, ml_Body = sem_Body sendEmailDetails\<rparr> log of
                (r, log') \<Rightarrow> (wrap ''failed to send email'' r, log')))
      else (Inl (Err (ErrorsNew ''unsupported message type'')), log))"

datatype delivery_service = inProcessDeliveryService | noopDeliveryService

fun Deliver :: "delivery_service \<Rightarrow> env \<Rightarrow> mail_server \<Rightarrow> outbox_message \<Rightarrow> mail_log \<Rightarrow> unit go \<times> mail_log" where
  "Deliver inProcessDeliveryService E smtp message log =
     (case messageBroker_Distribute E smtp message log of (r, log') \<Rightarrow> (wrap ''failed to handle message'' r, log'))"
| "Deliver noopDeliveryService E smtp message log = (Inr (), log)"

text \<open>The service of the configured queue mode.\<close>

definition OutboxDelivery :: "string \<Rightarrow> delivery_service go" where
  "OutboxDelivery queueMode =
     (if queueMode = ''noop'' then Inr noopDeliveryService
      else if queueMode = ''in-process'' then Inr inProcessDeliveryService
      else Inl (Panic ''queue mode missing or not supported''))"

section \<open>The job\<close>

definition handleMessage ::
  "delivery_service \<Rightarrow> env \<Rightarrow> mail_server \<Rightarrow> outbox_message \<Rightarrow> world \<times> mail_log \<Rightarrow> unit go \<times> world \<times> mail_log" where
  "handleMessage delivery E smtp message s =
     (case Deliver delivery E smtp message (snd s) of
        (Inl e, log') \<Rightarrow> (wrap ''failed to handle message'' (Inl e), fst s, log')
      | (Inr _, log') \<Rightarrow>
          (case db_write (OutboxMessageRepository_Delete (bm_id (ob_base message))) (fst s) of
             (r, w') \<Rightarrow> (r, w', log')))"

text \<open>The loop: an error is logged and the next message follows, a panic ends it.\<close>

fun handle_messages ::
  "delivery_service \<Rightarrow> env \<Rightarrow> mail_server \<Rightarrow> outbox_message list \<Rightarrow> world \<times> mail_log \<Rightarrow> unit go \<times> world \<times> mail_log" where
  "handle_messages delivery E smtp [] s = (Inr (), s)"
| "handle_messages delivery E smtp (message # rest) s =
     (case handleMessage delivery E smtp message s of
        (Inl (Panic p), s') \<Rightarrow> (Inl (Panic p), s')
      | (_, s') \<Rightarrow> handle_messages delivery E smtp rest s')"

text \<open>A run up to the end of the loop, in a context of its own, and the whole run, which ends with the close of the scope.\<close>

definition outbox_loop ::
  "delivery_service \<Rightarrow> env \<Rightarrow> mail_server \<Rightarrow> world \<times> mail_log \<Rightarrow> unit go \<times> world \<times> mail_log" where
  "outbox_loop delivery E smtp s =
     (let w = (fst s)\<lparr>w_db := newContext (w_stores (fst s))\<rparr> in
      case wrap ''failed to list outbox messages''
             (OutboxMessageRepository_List (st_OutboxMessages (w_stores w)) NewOutboxMessageFilter) of
        Inl e \<Rightarrow> (Inl e, w, snd s)
      | Inr outboxMessages \<Rightarrow> handle_messages delivery E smtp outboxMessages (w, snd s))"

definition OutboxSendingJob ::
  "delivery_service \<Rightarrow> env \<Rightarrow> mail_server \<Rightarrow> world \<times> mail_log \<Rightarrow> unit go \<times> world \<times> mail_log" where
  "OutboxSendingJob delivery E smtp s =
     (case outbox_loop delivery E smtp s of
        (r, w, log) \<Rightarrow>
          (case db_save w of
             (Inr _, w') \<Rightarrow> (r, w', log)
           | (Inl _, w') \<Rightarrow> (Inl (Panic ''failed to close scope''), w', log)))"

section \<open>What a run does\<close>

text \<open>The mail that a message stands for, if it can be read.\<close>

definition mail_of :: "env \<Rightarrow> outbox_message \<Rightarrow> mail option" where
  "mail_of E message =
     (case SendEmailMessage_decode E (ob_details message) of
        Inr d \<Rightarrow>
          if ob_type message = SendMailOutboxMessageType then
            Some \<lparr>ml_To = sem_To d, ml_ToName = sem_DisplayName d, ml_From = ''no-reply@keyline.home.arpa'',
                  ml_FromName = ''Keyline'', ml_Subject = sem_Subject d, ml_Body = sem_Body d\<rparr>
          else None
      | Inl _ \<Rightarrow> None)"

text \<open>
  The attempts a run should make, in the order of the queue: every message that can be read, its mail and
  the answer of the mail server, which has seen \<open>n\<close> attempts before.
\<close>

definition attempts :: "env \<Rightarrow> mail_server \<Rightarrow> nat \<Rightarrow> outbox_message list \<Rightarrow> (outbox_message \<times> mail \<times> goerr option) list" where
  "attempts E smtp n ms =
     map (\<lambda>(k, m). (m, the (mail_of E m), smtp k (the (mail_of E m))))
       (List.enumerate n (filter (\<lambda>m. mail_of E m \<noteq> None) ms))"

lemma attempts_simps [simp]:
  "attempts E smtp n [] = []"
  "attempts E smtp n (m # ms) =
     (case mail_of E m of None \<Rightarrow> attempts E smtp n ms | Some l \<Rightarrow> (m, l, smtp n l) # attempts E smtp (Suc n) ms)"
  by (auto simp: attempts_def split: option.splits)

definition accepted_ids :: "(outbox_message \<times> mail \<times> goerr option) list \<Rightarrow> uuid list" where
  "accepted_ids as = map (\<lambda>(m, _). bm_id (ob_base m)) (filter (\<lambda>(_, _, answer). answer = None) as)"

lemma accepted_ids_simps [simp]:
  "accepted_ids [] = []"
  "accepted_ids ((m, l, a) # as) = (if a = None then [bm_id (ob_base m)] else []) @ accepted_ids as"
  by (simp_all add: accepted_ids_def)

lemma go_bind_not_Panic: "m \<noteq> Inl (Panic p) \<Longrightarrow> (\<And>x. f x \<noteq> Inl (Panic p)) \<Longrightarrow> go_bind m f \<noteq> Inl (Panic p)"
  by (cases m) auto

lemma getters_not_Panic:
  "get_uuid E k ms \<noteq> Inl (Panic p)" "get_string k ms \<noteq> Inl (Panic p)" "as_object j \<noteq> Inl (Panic p)"
  "json_Unmarshal t \<noteq> Inl (Panic p)"
  by (auto simp: get_defs type_error_def uuid_Parse_def split: option.splits json.splits)

lemma SendEmailMessage_decode_not_Panic: "SendEmailMessage_decode E t \<noteq> Inl (Panic p)"
  unfolding SendEmailMessage_decode_def by (intro go_bind_not_Panic getters_not_Panic) simp

lemma Distribute_unreadable:
  "mail_of E m = None \<Longrightarrow> \<exists>e. messageBroker_Distribute E smtp m log = (Inl (Err e), log)"
proof (cases "SendEmailMessage_decode E (ob_details m)")
  case (Inl e)
  then show ?thesis
    using SendEmailMessage_decode_not_Panic [of E "ob_details m"] by (cases e) (auto simp: messageBroker_Distribute_def)
qed (auto simp: messageBroker_Distribute_def mail_of_def split: if_splits)

lemma Distribute_readable:
  "mail_of E m = Some l \<Longrightarrow> messageBroker_Distribute E smtp m log =
     (case smtp (length log) l of None \<Rightarrow> Inr () | Some e \<Rightarrow> Inl (Err (Wrap ''failed to send email'' (Wrap ''sending mail'' e))),
      log @ [(l, smtp (length log) l)])"
  by (auto simp: messageBroker_Distribute_def mail_of_def mailService_Send_def Let_def split: sum.splits if_splits option.splits)

definition with_deleted :: "world \<Rightarrow> uuid list \<Rightarrow> world" where
  "with_deleted w is = w\<lparr>w_db := (w_db w)\<lparr>db_tracker := db_tracker (w_db w) @
     map (\<lambda>i. NewEntry Deleted OutboxMessageEntityType (ItemId i)) is\<rparr>\<rparr>"

lemma with_deleted_simps [simp]:
  "with_deleted w [] = w" "with_deleted (with_deleted w is) js = with_deleted w (is @ js)"
  by (simp_all add: with_deleted_def)

lemma handleMessage_eq:
  "\<exists>r. handleMessage inProcessDeliveryService E smtp m (w, log) =
     (r, with_deleted w (accepted_ids (attempts E smtp (length log) [m])),
      log @ map snd (attempts E smtp (length log) [m])) \<and> (\<forall>p. r \<noteq> Inl (Panic p))"
proof (cases "mail_of E m")
  case None
  then show ?thesis using Distribute_unreadable [OF None, of smtp log] by (auto simp: handleMessage_def)
next
  case (Some l)
  then show ?thesis
    by (cases "smtp (length log) l")
      (simp_all add: handleMessage_def Distribute_readable db_write_def OutboxMessageRepository_Delete_def Tracker_Add_def with_deleted_def)
qed

lemma attempts_append: "attempts E smtp n (ms @ ms') = attempts E smtp n ms @ attempts E smtp (n + length (attempts E smtp n ms)) ms'"
  by (induction ms arbitrary: n) (auto split: option.splits)

lemma accepted_ids_append [simp]: "accepted_ids (as @ bs) = accepted_ids as @ accepted_ids bs"
  by (simp add: accepted_ids_def)

lemma handle_messages_eq:
  "handle_messages inProcessDeliveryService E smtp ms (w, log) =
     (Inr (), with_deleted w (accepted_ids (attempts E smtp (length log) ms)),
      log @ map snd (attempts E smtp (length log) ms))"
proof (induction ms arbitrary: w log)
  case (Cons m ms)
  let ?a = "attempts E smtp (length log) [m]"
  obtain r where "handleMessage inProcessDeliveryService E smtp m (w, log) = (r, with_deleted w (accepted_ids ?a), log @ map snd ?a)"
    "\<forall>p. r \<noteq> Inl (Panic p)" using handleMessage_eq by blast
  then have "handle_messages inProcessDeliveryService E smtp (m # ms) (w, log) =
      handle_messages inProcessDeliveryService E smtp ms (with_deleted w (accepted_ids ?a), log @ map snd ?a)"
    by (auto split: sum.splits stop.splits)
  also have "\<dots> = (Inr (), with_deleted w (accepted_ids (?a @ attempts E smtp (length log + length ?a) ms)),
      log @ map snd (?a @ attempts E smtp (length log + length ?a) ms))"
    by (simp add: Cons.IH del: attempts_simps)
  also have "?a @ attempts E smtp (length log + length ?a) ms = attempts E smtp (length log) (m # ms)"
    using attempts_append [of E smtp "length log" "[m]" ms] by simp
  finally show ?case .
qed simp

lemma attempts_contain:
  "m \<in> set ms \<Longrightarrow> mail_of E m = Some l \<Longrightarrow> (l, None) \<in> set (map snd (attempts E (\<lambda>_ _. None) n ms))"
  by (induction ms arbitrary: n) (auto split: option.splits)

definition queue_of :: "world \<Rightarrow> outbox_message list" where
  "queue_of w = map snd (st_OutboxMessages (w_stores w))"

lemma outbox_loop_eq:
  "outbox_loop inProcessDeliveryService E smtp (w, log) =
     (Inr (), with_deleted (w\<lparr>w_db := newContext (w_stores w)\<rparr>) (accepted_ids (attempts E smtp (length log) (queue_of w))),
      log @ map snd (attempts E smtp (length log) (queue_of w)))"
proof -
  have "OutboxMessageRepository_List s NewOutboxMessageFilter = Inr (map snd s)" for s
    using filter_go_pure [of "map snd s" "OutboxMessage_matches NewOutboxMessageFilter" "\<lambda>_. True"]
    by (simp add: OutboxMessageRepository_List_def repo_filtered_def OutboxMessage_matches_def NewOutboxMessageFilter_def filter_eq_def)
  then show ?thesis
    by (simp add: outbox_loop_def Let_def w_stores_def newContext_def handle_messages_eq queue_of_def)
qed

lemma apply_deletes:
  "apply_entries st (map (\<lambda>i. NewEntry Deleted OutboxMessageEntityType (ItemId i)) is) =
     (st\<lparr>st_OutboxMessages := filter (\<lambda>(i, _). i \<notin> set is) (st_OutboxMessages st)\<rparr>, None)"
proof (induction "is" arbitrary: st)
  case (Cons i "is")
  have "filter (\<lambda>(j, _). j \<notin> set is) (AList.delete i s) = filter (\<lambda>(j, _). j \<notin> set (i # is)) s" for s :: "(uuid \<times> outbox_message) list"
    by (induction s) (auto simp: AList.delete_eq)
  then show ?case
    by (simp add: Cons.IH Context_applyChange_def applyOutboxMessageChange_def as_Id_def)
qed simp

lemma OutboxSendingJob_eq:
  "OutboxSendingJob inProcessDeliveryService E smtp (w, log) =
     (Inr (), w\<lparr>w_db := newContext ((w_stores w)\<lparr>st_OutboxMessages :=
        filter (\<lambda>(i, _). i \<notin> set (accepted_ids (attempts E smtp (length log) (queue_of w)))) (st_OutboxMessages (w_stores w))\<rparr>)\<rparr>,
      log @ map snd (attempts E smtp (length log) (queue_of w)))"
  by (simp add: OutboxSendingJob_def outbox_loop_eq with_deleted_def db_save_def SaveChanges_def newContext_def NewTracker_def
        Tracker_GetChanges_def Tracker_Clear_def apply_deletes)

text \<open>
  C26: a run of the outbox job makes one attempt for every queued message that can be read, in the order of
  the queue, with the mail that the message describes; it never fails, and afterwards exactly the messages
  whose mail the server accepted are gone. A refused message stays for the next run, as does one that
  cannot be read or has another type, for ever. Nothing else of the database changes.
\<close>

theorem outbox_delivers:
  assumes "wf_stores (w_stores w)"
    and "OutboxSendingJob inProcessDeliveryService E smtp (w, log) = (r, w', log')"
  shows "r = Inr () \<and> log' = log @ map snd (attempts E smtp (length log) (queue_of w)) \<and>
    w' = w\<lparr>w_db := newContext ((w_stores w)\<lparr>st_OutboxMessages :=
      filter (\<lambda>(i, m). \<nexists>l. (m, l, None) \<in> set (attempts E smtp (length log) (queue_of w)))
        (st_OutboxMessages (w_stores w))\<rparr>)\<rparr>"
proof -
  let ?as = "attempts E smtp (length log) (queue_of w)" and ?s = "st_OutboxMessages (w_stores w)"
  have wf: "wf_store (\<lambda>e. bm_id (ob_base e)) ?s" using assms(1) by (simp add: wf_stores_def)
  have own: "(i, m) \<in> set ?s \<Longrightarrow> bm_id (ob_base m) = i" for i m
    using wf by (auto simp: wf_store_def)
  have from_queue: "(m, l, a) \<in> set ?as \<Longrightarrow> m \<in> snd ` set ?s" for m l a
    by (auto simp: attempts_def queue_of_def enumerate_eq_zip dest!: set_zip_rightD)
  have same: "m = m'" if "(i, m) \<in> set ?s" "(i, m') \<in> set ?s" for i m m'
    using that wf by (metis map_of_is_SomeI option.inject wf_store_def)
  have "i \<in> set (accepted_ids ?as) \<longleftrightarrow> (\<exists>l. (m, l, None) \<in> set ?as)" if im: "(i, m) \<in> set ?s" for i m
  proof
    assume "i \<in> set (accepted_ids ?as)"
    then obtain m' l where m': "(m', l, None) \<in> set ?as" "bm_id (ob_base m') = i"
      by (auto simp: accepted_ids_def)
    from from_queue [OF m'(1)] have "(i, m') \<in> set ?s" using own m'(2) by auto
    then show "\<exists>l. (m, l, None) \<in> set ?as" using same [OF im] m'(1) by auto
  next
    assume "\<exists>l. (m, l, None) \<in> set ?as"
    then show "i \<in> set (accepted_ids ?as)" using own [OF im] by (force simp: accepted_ids_def)
  qed
  then have kept: "filter (\<lambda>(i, _). i \<notin> set (accepted_ids ?as)) ?s = filter (\<lambda>(i, m). \<nexists>l. (m, l, None) \<in> set ?as) ?s"
    by (intro filter_cong) auto
  show ?thesis
    using assms(2) kept by (simp add: OutboxSendingJob_eq)
qed

definition queued_mail :: "uuid \<Rightarrow> string \<Rightarrow> outbox_message" where
  "queued_mail i ty = \<lparr>ob_base = \<lparr>bm_id = i, bm_auditCreatedAt = 0, bm_auditUpdatedAt = 0, bm_version = VersionInt 1\<rparr>, ob_type = ty,
     ob_details = Doc (SendEmailMessage_json test_env 5 ''ann@x'' ''Hi'' ''text'')\<rparr>"

definition outbox_world :: world where
  "outbox_world = \<lparr>w_now = 0, w_db = newContext (newStores\<lparr>st_OutboxMessages := [(1, queued_mail 1 ''send_mail''), (2, queued_mail 2 ''other'')]\<rparr>),
     w_kv = [], w_keys = [], w_keycache = [], w_rand = 0, w_out = []\<rparr>"

definition mail_to_ann :: mail where
  "mail_to_ann = \<lparr>ml_To = ''ann@x'', ml_ToName = [], ml_From = ''no-reply@keyline.home.arpa'', ml_FromName = ''Keyline'',
     ml_Subject = ''Hi'', ml_Body = ''text''\<rparr>"

lemma mail_of_queued: "mail_of test_env (queued_mail i ty) = (if ty = ''send_mail'' then Some mail_to_ann else None)"
  by (simp add: mail_of_def queued_mail_def SendEmailMessage_decode_def SendEmailMessage_json_def get_defs mail_to_ann_def
      SendMailOutboxMessageType_def)

lemma attempts_outbox_world:
  "attempts test_env smtp n (queue_of outbox_world) = [(queued_mail 1 ''send_mail'', mail_to_ann, smtp n mail_to_ann)]"
  by (simp add: queue_of_def outbox_world_def newContext_def w_stores_def mail_of_queued)

theorem outbox_delivers_witness:
  "\<exists>w'. OutboxSendingJob inProcessDeliveryService test_env (\<lambda>_ _. None) (outbox_world, []) = (Inr (), w', [(mail_to_ann, None)]) \<and>
     st_OutboxMessages (w_stores w') = [(2, queued_mail 2 ''other'')]"
proof -
  obtain r w' log' where run: "OutboxSendingJob inProcessDeliveryService test_env (\<lambda>_ _. None) (outbox_world, []) = (r, w', log')"
    by (metis prod.exhaust)
  have "wf_stores (w_stores outbox_world)"
    by (simp add: outbox_world_def w_stores_def newContext_def wf_stores_def newStores_def wf_store_def queued_mail_def)
  from outbox_delivers [OF this run] have "r = Inr ()" "log' = [(mail_to_ann, None)]"
    "st_OutboxMessages (w_stores w') = [(2, queued_mail 2 ''other'')]"
    by (simp_all add: attempts_outbox_world) (simp add: outbox_world_def w_stores_def newContext_def queued_mail_def)
  then show ?thesis using run by blast
qed

text \<open>
  Mails can be sent twice. The deletions of a run take effect when its scope closes, so a run that
  begins before that, in another process or after a restart of the job manager, makes the same
  attempts again; so does the next run when the first one is killed before its end.
\<close>

theorem outbox_sends_again:
  assumes "outbox_loop inProcessDeliveryService E (\<lambda>_ _. None) (w, log) = (r, w1, log1)"
    and "OutboxSendingJob inProcessDeliveryService E (\<lambda>_ _. None) (w\<lparr>w_db := newContext (w_stores w1)\<rparr>, log1) = (r2, w2, log2)"
  shows "\<exists>mails. mails = map snd (attempts E (\<lambda>_ _. None) 0 (queue_of w)) \<and> log2 = log @ mails @ mails"
proof -
  have "map f (List.enumerate n xs) = map (\<lambda>x. f (0, x)) xs" if "\<forall>k x. f (k, x) = f (0, x)"
    for f :: "nat \<times> outbox_message \<Rightarrow> outbox_message \<times> mail \<times> goerr option" and n xs
    using that by (induction xs arbitrary: n) auto
  from this [of "\<lambda>(k, m). (m, the (mail_of E m), None)"]
  have no_count: "attempts E (\<lambda>_ _. None) n ms = attempts E (\<lambda>_ _. None) 0 ms" for n ms
    by (simp add: attempts_def)
  have log1: "log1 = log @ map snd (attempts E (\<lambda>_ _. None) 0 (queue_of w))" "queue_of (w\<lparr>w_db := newContext (w_stores w1)\<rparr>) = queue_of w"
    using assms(1) by (auto simp: outbox_loop_eq no_count [of "length log"] queue_of_def with_deleted_def newContext_def w_stores_def)
  have "log2 = log1 @ map snd (attempts E (\<lambda>_ _. None) 0 (queue_of w))"
    using assms(2) log1(2) by (auto simp: OutboxSendingJob_def outbox_loop_eq no_count [of "length log1"] split: prod.splits sum.splits)
  then show ?thesis using log1(1) by auto
qed

theorem outbox_sends_again_witness:
  "\<exists>r w1 log1 r2 w2 log2. outbox_loop inProcessDeliveryService test_env (\<lambda>_ _. None) (outbox_world, []) = (r, w1, log1) \<and>
     OutboxSendingJob inProcessDeliveryService test_env (\<lambda>_ _. None) (outbox_world\<lparr>w_db := newContext (w_stores w1)\<rparr>, log1) = (r2, w2, log2) \<and>
     log2 = [(mail_to_ann, None), (mail_to_ann, None)]"
proof -
  obtain r w1 log1 r2 w2 log2 where
    run: "outbox_loop inProcessDeliveryService test_env (\<lambda>_ _. None) (outbox_world, []) = (r, w1, log1)"
      "OutboxSendingJob inProcessDeliveryService test_env (\<lambda>_ _. None) (outbox_world\<lparr>w_db := newContext (w_stores w1)\<rparr>, log1) = (r2, w2, log2)"
    by (metis prod.exhaust)
  from outbox_sends_again [OF run] have "log2 = [(mail_to_ann, None), (mail_to_ann, None)]"
    by (simp add: attempts_outbox_world)
  then show ?thesis using run by blast
qed

end
