(* ===== verification/MailProps.thy ===== *)
theory MailProps
  imports Outbox AuthzSpec
begin

text \<open>
  A mail through the whole chain: a user is created, the event queues a mail, the job of the outbox sends
  it, and the token in the link of the mail verifies the address.
\<close>

lemma UserRepository_FirstOrNil_id:
  assumes "wf_stores st"
  shows "UserRepository_FirstOrNil (st_Users st) (UserFilter_Id i NewUserFilter) = Inr (map_of (st_Users st) i)"
  using repo_filtered_id [of "\<lambda>e. bm_id (u_base e)" "st_Users st" "User_matches (UserFilter_Id i NewUserFilter)" i "\<lambda>_. True"] assms
  by (auto simp: wf_stores_def filter_defs repo_defs split: option.splits)

definition verification_link :: "env \<Rightarrow> string \<Rightarrow> string \<Rightarrow> json" where
  "verification_link E server token =
     JObj [(''VerificationLink'', JStr (e_ExternalUrl E @ ''/api/virtual-servers/'' @ server @ ''/users/verify-email?token='' @ token))]"

definition verification_mail :: "string \<Rightarrow> string \<Rightarrow> mail" where
  "verification_mail address body =
     \<lparr>ml_To = address, ml_ToName = [], ml_From = ''no-reply@keyline.home.arpa'', ml_FromName = ''Keyline'',
      ml_Subject = ''Email verification'', ml_Body = body\<rparr>"

text \<open>What the event handler leaves: a message in the tracker with the mail, and the token it is about.\<close>

lemma QueueEmail_effect:
  assumes "QueueEmailVerificationJobOnUserCreatedEvent E u w = (Inr (), w')" "\<not> u_emailVerified u"
  obtains token server content body m where "e_template E content (verification_link E server token) = Some body"
    "ob_type m = SendMailOutboxMessageType"
    "ob_details m = Doc (SendEmailMessage_json E (u_virtualServerId u) (u_primaryEmail u) ''Email verification'' body)"
    "db_tracker (w_db w') = db_tracker (w_db w) @ [NewEntry Added OutboxMessageEntityType (ItemOutboxMessage m)]"
    "w_stores w' = w_stores w" "w_now w' = w_now w"
    "clock_ok w \<Longrightarrow> token_live w' EmailVerificationTokenType token = Some (Plain (e_uuid_String E (bm_id (u_base u))))"
proof -
  have frame: "TemplateService_Template E v t d wa = (Inr b, wb) \<Longrightarrow> wb = wa \<and> (\<exists>content. e_template E content d = Some b)" for v t d wa b wb
    by (auto simp: TemplateService_Template_def bnd_eq_Inr db_read_def split: option.splits)
  let ?k = "TokenType_Key EmailVerificationTokenType (fresh_token E w)" and ?v = "Plain (e_uuid_String E (bm_id (u_base u)))"
  let ?w1 = "store_at ?k ?v (Minute * 15) (drew w)"
  let ?queue = "\<lambda>mailBody. bnd (fresh E (\<lambda>i now. NewOutboxMessage i now SendMailOutboxMessageType
            (json_Marshal (SendEmailMessage_json E (u_virtualServerId u) (u_primaryEmail u) ''Email verification'' mailBody)))) (\<lambda>message.
     bnd (wrapped ''creating email outbox message'' (lift message)) (\<lambda>outboxMessage.
     db_write (OutboxMessageRepository_Insert outboxMessage)))"
  let ?mail = "\<lambda>(vs :: virtual_server) token. bnd (wrapped ''templating email verification mail''
            (TemplateService_Template E (u_virtualServerId u) EmailVerificationMailTemplate (verification_link E (vs_name vs) token))) ?queue"
  have "\<exists>x. (case x of None \<Rightarrow> lift nil_dereference | Some vs \<Rightarrow> ?mail vs (fresh_token E w)) ?w1 = (Inr (), w')"
    using assms unfolding QueueEmailVerificationJobOnUserCreatedEvent_def verification_link_def
    by (simp add: bnd_eq_Inr [of "wrapped _ _"] db_read_def GenerateAndStoreToken_eq) blast
  then obtain vs where "?mail vs (fresh_token E w) ?w1 = (Inr (), w')"
    by (auto simp: nil_dereference_def split: option.splits)
  then obtain body wb where
    t0: "TemplateService_Template E (u_virtualServerId u) EmailVerificationMailTemplate
        (verification_link E (vs_name vs) (fresh_token E w)) ?w1 = (Inr body, wb)"
    and rest: "?queue body wb = (Inr (), w')"
    by (auto simp only: bnd_eq_Inr [of "wrapped _ _"] wrapped_eq_Inr)
  have t: "TemplateService_Template E (u_virtualServerId u) EmailVerificationMailTemplate
        (verification_link E (vs_name vs) (fresh_token E w)) ?w1 = (Inr body, ?w1)" and wb: "wb = ?w1"
    using frame [OF t0] t0 by simp_all
  define m where "m = \<lparr>ob_base = NewBaseModel (e_uuid_New E (Suc (w_rand w))) (w_now w), ob_type = SendMailOutboxMessageType,
      ob_details = Doc (SendEmailMessage_json E (u_virtualServerId u) (u_primaryEmail u) ''Email verification'' body)\<rparr>"
  have w': "w' = (drew ?w1)\<lparr>w_db := (w_db w)\<lparr>db_tracker := db_tracker (w_db w) @ [NewEntry Added OutboxMessageEntityType (ItemOutboxMessage m)]\<rparr>\<rparr>"
    using rest by (auto simp: wb m_def fresh_def bnd_eq_Inr drew_act get_now_def NewOutboxMessage_def json_Marshal_def db_write_def
        OutboxMessageRepository_Insert_def Tracker_Add_def)
  obtain content where "e_template E content (verification_link E (vs_name vs) (fresh_token E w)) = Some body"
    using frame [OF t] by blast
  moreover have "token_live w' EmailVerificationTokenType (fresh_token E w) = Some ?v" if "clock_ok w"
  proof -
    have "token_live w' EmailVerificationTokenType (fresh_token E w) = token_live ?w1 EmailVerificationTokenType (fresh_token E w)"
      by (simp add: w' token_live_def kv_live_def drew_def)
    then show ?thesis using that by (simp add: token_live_store_at duration_defs)
  qed
  ultimately show thesis
    using that [of content "vs_name vs" "fresh_token E w" body m] by (simp add: w' w_stores_def m_def)
qed

text \<open>What verifying an address does with a live token.\<close>

lemma HandleVerifyEmail_effect:
  assumes "uuid_ok E" "wf_stores (w_stores w)" "db_tracker (w_db w) = []"
    and "token_live w EmailVerificationTokenType token = Some (Plain (e_uuid_String E i))" "map_of (st_Users (w_stores w)) i = Some u"
  shows "\<exists>w1 w2 u'. HandleVerifyEmail E \<lparr>ve_VirtualServerName = n, ve_Token = token\<rparr> w = (Inr (), w1) \<and> db_save w1 = (Inr (), w2) \<and>
    map_of (st_Users (w_stores w2)) i = Some u' \<and> u_emailVerified u' \<and> u_primaryEmail u' = u_primaryEmail u \<and>
    token_live w1 EmailVerificationTokenType token = None"
proof -
  have id: "bm_id (u_base u) = i" using assms(2,5) by (auto simp: wf_stores_def wf_store_def)
  let ?k = "TokenType_Key EmailVerificationTokenType token" and ?u = "User_SetEmailVerified True u"
  let ?w1 = "drop_at ?k ((after_get ?k w)\<lparr>w_db := (w_db w)\<lparr>db_stores := (w_stores w)\<lparr>st_Users := AList.map_entry i (\<lambda>_. ?u) (st_Users (w_stores w))\<rparr>,
      db_tracker := [NewEntry Updated UserEntityType (ItemUser ?u)]\<rparr>\<rparr>)"
  have "HandleVerifyEmail E \<lparr>ve_VirtualServerName = n, ve_Token = token\<rparr> w = (Inr (), ?w1)"
    using assms id
    by (simp add: HandleVerifyEmail_def bnd_def wrapped_def GetToken_eq token_text_def db_read_def UserRepository_FirstOrNil_id
        edit_user_def db_alter_def db_write_def DeleteToken_drop UserRepository_Update_def Tracker_Add_def w_stores_def)
  moreover have "\<exists>w2. db_save ?w1 = (Inr (), w2) \<and> map_of (st_Users (w_stores w2)) i = Some (written_User ?u)"
    using id by (simp add: db_save_def SaveChanges_def Tracker_GetChanges_def Context_applyChange_def applyChange_def as_User_def w_stores_def
        update_conv' Let_def User_SetEmailVerified_def written_User_def SetVersion_def)
  moreover have "token_live ?w1 EmailVerificationTokenType token = None"
    by (simp add: token_live_def)
  moreover have "u_emailVerified (written_User ?u)" "u_primaryEmail (written_User ?u) = u_primaryEmail u"
    by (simp_all add: User_SetEmailVerified_def written_User_def)
  ultimately show ?thesis by blast
qed

text \<open>
  C25: a mail arrives, and its link works. When a user with an unverified address was created and saved, the
  next run of the outbox job sends a mail to that address, made from the template of the virtual server and
  a link with a token; verifying the address with that token then succeeds, uses the token up, and leaves
  the user, once saved, with a verified address.
\<close>

theorem verification_mail_arrives:
  assumes "uuid_ok E" "clock_ok w" "wf_stores (w_stores w)" "db_tracker (w_db w) = []"
    and created: "HandleCreateUser E a w = (Inr uid, w1)" "\<not> cus_EmailVerified a" and saved: "db_save w1 = (Inr (), w2)"
    and run: "OutboxSendingJob inProcessDeliveryService E (\<lambda>_ _. None) (w2, log) = (r, w3, log')"
  shows "\<exists>token server content body w4 w5 u.
    (verification_mail (cus_Email a) body, None) \<in> set log' \<and>
    e_template E content (verification_link E server token) = Some body \<and>
    HandleVerifyEmail E \<lparr>ve_VirtualServerName = server, ve_Token = token\<rparr> w3 = (Inr (), w4) \<and> db_save w4 = (Inr (), w5) \<and>
    map_of (st_Users (w_stores w5)) uid = Some u \<and> u_emailVerified u \<and> u_primaryEmail u = cus_Email a \<and>
    token_live w4 EmailVerificationTokenType token = None"
proof -
  have vs_keeps: "the_vs n wa = (Inr v, wb) \<Longrightarrow> wb = wa" for n wa v wb
    by (auto simp: the_vs_def vs_by_name_def db_read_def)
  obtain vs :: virtual_server and i now where u: "QueueEmailVerificationJobOnUserCreatedEvent E
        (NewUser i now (cus_Username a) (cus_DisplayName a) (cus_Email a) (bm_id (vs_base vs)))
        ((drew w)\<lparr>w_db := (w_db w)\<lparr>db_tracker := [NewEntry Added UserEntityType
          (ItemUser (NewUser i now (cus_Username a) (cus_DisplayName a) (cus_Email a) (bm_id (vs_base vs))))]\<rparr>\<rparr>) = (Inr (), w1)"
    and uid: "uid = i"
    using created assms(4)
    by (auto simp: HandleCreateUser_def bnd_eq_Inr fresh_def drew_act get_now_def db_write_def UserRepository_Insert_def Tracker_Add_def
        User_SetEmailVerified_def NewUser_def NewBaseModel_def dest!: vs_keeps)
  define u where "u = NewUser i now (cus_Username a) (cus_DisplayName a) (cus_Email a) (bm_id (vs_base vs))"
  let ?w0 = "(drew w)\<lparr>w_db := (w_db w)\<lparr>db_tracker := [NewEntry Added UserEntityType (ItemUser u)]\<rparr>\<rparr>"
  have plain: "\<not> u_emailVerified u" "bm_id (u_base u) = i" "u_primaryEmail u = cus_Email a"
    by (simp_all add: u_def NewUser_def NewBaseModel_def)
  obtain token server content body m where q: "e_template E content (verification_link E server token) = Some body"
    "ob_type m = SendMailOutboxMessageType"
    "ob_details m = Doc (SendEmailMessage_json E (u_virtualServerId u) (u_primaryEmail u) ''Email verification'' body)"
    "db_tracker (w_db w1) = [NewEntry Added UserEntityType (ItemUser u), NewEntry Added OutboxMessageEntityType (ItemOutboxMessage m)]"
    "w_stores w1 = w_stores w" "w_now w1 = w_now w"
    "token_live w1 EmailVerificationTokenType token = Some (Plain (e_uuid_String E i))"
    by (rule QueueEmail_effect [OF u [folded u_def] plain(1)], rule that)
      (use assms(2) plain(2) in \<open>simp_all add: w_stores_def clock_ok_def drew_def\<close>)
  have w2: "w2 = w1\<lparr>w_db := newContext ((w_stores w)\<lparr>st_Users := AList.update i (written_User u) (st_Users (w_stores w)),
      st_OutboxMessages := AList.update (bm_id (ob_base m)) (written_OutboxMessage m) (st_OutboxMessages (w_stores w))\<rparr>)\<rparr>"
    using saved q(4,5) plain(2)
    by (auto simp: db_save_def SaveChanges_def Tracker_GetChanges_def Tracker_Clear_def Context_applyChange_def applyChange_def
        applyOutboxMessageChange_def as_User_def as_OutboxMessage_def Let_def w_stores_def newContext_def NewTracker_def written_User_def
        written_OutboxMessage_def SetVersion_def)
  have wf2: "wf_stores (w_stores w2)"
    using saved_wf [of "w_db w1"] assms(3) q(5) saved by (auto simp: db_save_def w_stores_def split: prod.splits)
  let ?as = "attempts E (\<lambda>_ _. None) (length log) (queue_of w2)"
  have w3: "w3 = w2\<lparr>w_db := newContext ((w_stores w2)\<lparr>st_OutboxMessages :=
        filter (\<lambda>(i, _). i \<notin> set (accepted_ids ?as)) (st_OutboxMessages (w_stores w2))\<rparr>)\<rparr>" "log' = log @ map snd ?as"
    using run by (simp_all add: OutboxSendingJob_eq)
  have mail: "mail_of E (written_OutboxMessage m) = Some (verification_mail (cus_Email a) body)"
    using q(2,3) assms(1) plain(3)
    by (simp add: mail_of_def written_OutboxMessage_def SendEmailMessage_decode_def SendEmailMessage_json_def get_defs verification_mail_def)
  have "written_OutboxMessage m \<in> set (queue_of w2)"
    by (simp add: queue_of_def w2 w_stores_def newContext_def) (metis image_eqI map_of_SomeD snd_conv update_Some_unfold)
  then have "(verification_mail (cus_Email a) body, None) \<in> set (map snd ?as)"
    using mail by (rule attempts_contain)
  then have sent: "(verification_mail (cus_Email a) body, None) \<in> set log'" by (simp add: w3(2))
  have wf3: "wf_stores (w_stores w3)"
    using apply_entries_wf [OF wf2, of "map (\<lambda>i. NewEntry Deleted OutboxMessageEntityType (ItemId i)) (accepted_ids ?as)"]
    by (simp add: w3 apply_deletes w_stores_def newContext_def)
  have "token_live w3 EmailVerificationTokenType token = Some (Plain (e_uuid_String E i))"
    "map_of (st_Users (w_stores w3)) i = Some (written_User u)"
    using q(7) by (simp_all add: w3(1) w2 token_live_def kv_live_def w_stores_def newContext_def update_conv')
  from HandleVerifyEmail_effect [OF assms(1) wf3 _ this, of server] obtain w4 w5 u' where
    "HandleVerifyEmail E \<lparr>ve_VirtualServerName = server, ve_Token = token\<rparr> w3 = (Inr (), w4)" "db_save w4 = (Inr (), w5)"
    "map_of (st_Users (w_stores w5)) i = Some u'" "u_emailVerified u'" "u_primaryEmail u' = cus_Email a"
    "token_live w4 EmailVerificationTokenType token = None"
    using plain(3) by (auto simp: w3(1) newContext_def NewTracker_def written_User_def)
  then show ?thesis using sent q(1) uid by blast
qed

definition mail_stores :: stores where
  "mail_stores = newStores\<lparr>st_VirtualServers := [(1, sample_vs)],
     st_Templates := [(4, NewTemplate 4 0 1 5 EmailVerificationMailTemplate)], st_Files := [(5, NewFile 5 0 ''f'' ''t'' ''text'')]\<rparr>"

definition create_ann :: create_user where
  "create_ann = \<lparr>cus_VirtualServerName = ''a'', cus_Username = ''ann'', cus_DisplayName = ''Ann'', cus_Email = ''ann@x'', cus_EmailVerified = False\<rparr>"

lemma mail_queued:
  assumes "w_stores w = mail_stores" "u_virtualServerId u = 1" "\<not> u_emailVerified u"
  shows "\<exists>w' m. QueueEmailVerificationJobOnUserCreatedEvent test_env u w = (Inr (), w') \<and> w_stores w' = mail_stores \<and>
    db_tracker (w_db w') = db_tracker (w_db w) @ [NewEntry Added OutboxMessageEntityType (ItemOutboxMessage m)]"
proof -
  have vs: "VirtualServerRepository_FirstOrNil (st_VirtualServers mail_stores) (VirtualServerFilter_Id 1 NewVirtualServerFilter) = Inr (Some sample_vs)"
    by (simp add: mail_stores_def sample_vs_def NewVirtualServer_def NewBaseModel_def filter_defs repo_defs repo_filtered_def)
  have tpl: "TemplateService_Template test_env 1 EmailVerificationMailTemplate d w1 = (Inr ''mail'', w1)" if "w_stores w1 = mail_stores" for d w1
    using that by (simp add: TemplateService_Template_def bnd_def wrapped_def db_read_def)
      (simp add: mail_stores_def NewTemplate_def NewFile_def NewBaseModel_def bnd_def wrapped_def db_read_def filter_defs repo_defs repo_filtered_def repo_find_def test_env_def)
  show ?thesis
    using assms
    by (simp add: QueueEmailVerificationJobOnUserCreatedEvent_def bnd_def wrapped_def db_read_def vs [unfolded One_nat_def] GenerateAndStoreToken_eq tpl [unfolded One_nat_def] fresh_def
        drew_act get_now_def NewOutboxMessage_def json_Marshal_def db_write_def OutboxMessageRepository_Insert_def Tracker_Add_def)
      (simp add: w_stores_def)
qed

lemma ann_created: "\<exists>w1 w2. HandleCreateUser test_env create_ann (world_with mail_stores) = (Inr 1000, w1) \<and> db_save w1 = (Inr (), w2)"
proof -
  define u where "u = NewUser 1000 0 ''ann'' ''Ann'' ''ann@x'' 1"
  let ?w = "(drew (world_with mail_stores))\<lparr>w_db := (newContext mail_stores)\<lparr>db_tracker := [NewEntry Added UserEntityType (ItemUser u)]\<rparr>\<rparr>"
  have vs: "the_vs ''a'' (world_with mail_stores) = (Inr sample_vs, world_with mail_stores)" "bm_id (vs_base sample_vs) = 1"
    by (simp_all add: the_vs_def wrapped_def vs_by_name_eq vs_named_def mail_stores_def sample_vs_def NewVirtualServer_def NewBaseModel_def)
  obtain w1 m where q: "QueueEmailVerificationJobOnUserCreatedEvent test_env u ?w = (Inr (), w1)" "w_stores w1 = mail_stores"
    "db_tracker (w_db w1) = [NewEntry Added UserEntityType (ItemUser u), NewEntry Added OutboxMessageEntityType (ItemOutboxMessage m)]"
    using mail_queued [of ?w u] by (auto simp: w_stores_def newContext_def u_def NewUser_def)
  have "HandleCreateUser test_env create_ann (world_with mail_stores) = (Inr 1000, w1)"
    using q(1) vs by (simp add: HandleCreateUser_def bnd_def create_ann_def fresh_def drew_act get_now_def db_write_def wrapped_def
        UserRepository_Insert_def Tracker_Add_def User_SetEmailVerified_def u_def NewUser_def NewBaseModel_def newContext_def
        NewTracker_def test_env_def)
  moreover have "\<exists>w2. db_save w1 = (Inr (), w2)"
    using q(3) by (simp add: db_save_def SaveChanges_def Tracker_GetChanges_def Context_applyChange_def applyChange_def
        applyOutboxMessageChange_def as_User_def as_OutboxMessage_def Let_def)
  ultimately show ?thesis by blast
qed

theorem verification_mail_arrives_witness:
  "\<exists>w1 w2 w3 log' body. HandleCreateUser test_env create_ann (world_with mail_stores) = (Inr 1000, w1) \<and> db_save w1 = (Inr (), w2) \<and>
     OutboxSendingJob inProcessDeliveryService test_env (\<lambda>_ _. None) (w2, []) = (Inr (), w3, log') \<and>
     (verification_mail ''ann@x'' body, None) \<in> set log'"
proof -
  obtain w1 w2 where c: "HandleCreateUser test_env create_ann (world_with mail_stores) = (Inr 1000, w1)" "db_save w1 = (Inr (), w2)"
    using ann_created by blast
  obtain w3 log' where r: "OutboxSendingJob inProcessDeliveryService test_env (\<lambda>_ _. None) (w2, []) = (Inr (), w3, log')"
    by (simp add: OutboxSendingJob_eq)
  have "wf_stores (w_stores (world_with mail_stores))"
    by (simp add: mail_stores_def wf_stores_def newStores_def wf_store_def sample_vs_def NewVirtualServer_def NewTemplate_def NewFile_def
        NewBaseModel_def)
  from verification_mail_arrives [OF _ _ this _ c(1) _ c(2) r] show ?thesis
    using c r by (auto simp: create_ann_def newContext_def NewTracker_def)
qed

end
