(* ===== verification/JobRunner.thy ===== *)
theory JobRunner
  imports Prelude
begin

text \<open>
  The job manager (\<^verbatim>\<open>internal/jobs/JobRunner.go\<close>) as a transition system: the manager, the atomic
  flag of every job, and one goroutine per job and start. A goroutine runs its job when it starts, if
  the job asks for that, and then at ticks of its timer, unless the flag says that the job runs. The
  job itself is the time between two steps. Also \<^verbatim>\<open>internal/retry\<close>, the loop around the start-up steps.
\<close>

section \<open>Jobs and the manager\<close>

record job =
  jb_id :: nat
  jb_name :: string
  jb_timeout :: int
  jb_frequency :: int
  jb_startImmediately :: bool

definition WithName :: "string \<Rightarrow> job \<Rightarrow> job" where
  "WithName name j = j\<lparr>jb_name := name\<rparr>"

definition WithStartImmediate :: "job \<Rightarrow> job" where
  "WithStartImmediate j = j\<lparr>jb_startImmediately := True\<rparr>"

definition WithTimeout :: "int \<Rightarrow> job \<Rightarrow> job" where
  "WithTimeout timeout j = j\<lparr>jb_timeout := timeout\<rparr>"

text \<open>
  A goroutine: its job, the start of the manager whose context it has, and where it is. It is made
  (\<open>Spawned\<close>), executes the job at once (\<open>Immediate\<close>), waits for its timer or the end of its context
  (\<open>Waiting\<close>), executes the job after a tick (\<open>Ticked\<close>), or has returned (\<open>Returned\<close>).
\<close>

datatype pc = Spawned | Immediate | Waiting | Ticked | Returned

record goroutine =
  go_job :: nat
  go_epoch :: nat
  go_pc :: pc

definition executing :: "goroutine \<Rightarrow> bool" where
  "executing g \<longleftrightarrow> go_pc g = Immediate \<or> go_pc g = Ticked"

record manager =
  mg_jobs :: "job list"
  mg_isRunning :: bool
  mg_starts :: nat \<comment> \<open>how often it was started; the number of its context\<close>
  mg_cancelled :: "nat list" \<comment> \<open>the contexts that were cancelled\<close>
  mg_flag :: "nat \<Rightarrow> bool" \<comment> \<open>the flag \<^verbatim>\<open>isRunning\<close> of every job\<close>
  mg_routines :: "goroutine list"

definition NewJobManager :: manager where
  "NewJobManager = \<lparr>mg_jobs = [], mg_isRunning = False, mg_starts = 0, mg_cancelled = [], mg_flag = (\<lambda>_. False),
     mg_routines = []\<rparr>"

definition QueueJob :: "string \<Rightarrow> int \<Rightarrow> (job \<Rightarrow> job) list \<Rightarrow> manager \<Rightarrow> manager go" where
  "QueueJob default_name frequency opts m =
     (if mg_isRunning m then Inl (Panic ''job manager is already running'')
      else
        let j = \<lparr>jb_id = length (mg_jobs m), jb_name = default_name, jb_timeout = 0, jb_frequency = frequency,
                 jb_startImmediately = False\<rparr>
        in Inr (m\<lparr>mg_jobs := mg_jobs m @ [fold (\<lambda>opt. opt) opts j], mg_flag := (mg_flag m)(length (mg_jobs m) := False)\<rparr>))"

text \<open>A goroutine is made for every job; it runs on when it is scheduled.\<close>

definition Start :: "manager \<Rightarrow> manager" where
  "Start m =
     (if mg_isRunning m then m
      else m\<lparr>mg_isRunning := True, mg_starts := Suc (mg_starts m),
             mg_routines := mg_routines m @
               map (\<lambda>j. \<lparr>go_job = j, go_epoch = Suc (mg_starts m), go_pc = Spawned\<rparr>) [0..<length (mg_jobs m)]\<rparr>)"

text \<open>The contexts of the running executions are cancelled too, which the job may or may not look at.\<close>

definition Stop :: "manager \<Rightarrow> manager" where
  "Stop m =
     (if \<not> mg_isRunning m then m
      else m\<lparr>mg_isRunning := False, mg_cancelled := mg_starts m # mg_cancelled m\<rparr>)"

section \<open>The steps of a goroutine\<close>

definition goes_to :: "nat \<Rightarrow> pc \<Rightarrow> manager \<Rightarrow> manager" where
  "goes_to i pc m = m\<lparr>mg_routines := (mg_routines m)[i := (mg_routines m ! i)\<lparr>go_pc := pc\<rparr>]\<rparr>"

definition set_flag :: "nat \<Rightarrow> bool \<Rightarrow> manager \<Rightarrow> manager" where
  "set_flag j b m = m\<lparr>mg_flag := (mg_flag m)(j := b)\<rparr>"

text \<open>A goroutine begins: the flag is stored whatever it was.\<close>

definition run_begin :: "nat \<Rightarrow> manager \<Rightarrow> manager" where
  "run_begin i m =
     (let j = go_job (mg_routines m ! i) in
      if jb_startImmediately (mg_jobs m ! j) then goes_to i Immediate (set_flag j True m) else goes_to i Waiting m)"

text \<open>At a tick the flag is compared and swapped; when the job runs the tick is skipped.\<close>

definition run_tick :: "nat \<Rightarrow> manager \<Rightarrow> manager" where
  "run_tick i m =
     (let j = go_job (mg_routines m ! i) in
      if mg_flag m j then m else goes_to i Ticked (set_flag j True m))"

text \<open>The job returned, failed or panicked, all of which \<^verbatim>\<open>executeJob\<close> survives.\<close>

definition run_end :: "nat \<Rightarrow> manager \<Rightarrow> manager" where
  "run_end i m = goes_to i Waiting (set_flag (go_job (mg_routines m ! i)) False m)"

inductive job_step :: "manager \<Rightarrow> manager \<Rightarrow> bool" where
  start: "job_step m (Start m)"
| stop: "job_step m (Stop m)"
| begin_run: "i < length (mg_routines m) \<Longrightarrow> go_pc (mg_routines m ! i) = Spawned \<Longrightarrow> job_step m (run_begin i m)"
| tick: "i < length (mg_routines m) \<Longrightarrow> go_pc (mg_routines m ! i) = Waiting \<Longrightarrow> job_step m (run_tick i m)"
| end_run: "i < length (mg_routines m) \<Longrightarrow> executing (mg_routines m ! i) \<Longrightarrow> job_step m (run_end i m)"
| finish: "i < length (mg_routines m) \<Longrightarrow> go_pc (mg_routines m ! i) = Waiting \<Longrightarrow>
    go_epoch (mg_routines m ! i) \<in> set (mg_cancelled m) \<Longrightarrow> job_step m (goes_to i Returned m)"

inductive job_steps :: "manager \<Rightarrow> manager \<Rightarrow> bool" where
  no_step: "job_steps m m"
| one_more: "job_steps m m1 \<Longrightarrow> job_step m1 m2 \<Longrightarrow> job_steps m m2"

inductive_cases job_stepE: "job_step m m'"

section \<open>No job runs twice at a time\<close>

definition running :: "nat \<Rightarrow> manager \<Rightarrow> goroutine list" where
  "running j m = filter (\<lambda>g. go_job g = j \<and> executing g) (mg_routines m)"

definition own :: "nat \<Rightarrow> manager \<Rightarrow> goroutine list" where
  "own j m = filter (\<lambda>g. go_job g = j) (mg_routines m)"

text \<open>
  The invariant for one job: while its flag is false nothing executes it, and at most one goroutine ever
  does; and as long as there was one start there is one goroutine of it at most.
\<close>

definition exclusive :: "nat \<Rightarrow> manager \<Rightarrow> bool" where
  "exclusive j m \<longleftrightarrow> length (running j m) = (if mg_flag m j then 1 else 0)"

lemma filter_update_length:
  "i < length xs \<Longrightarrow>
   length (filter P (xs[i := y])) + (if P (xs ! i) then 1 else 0) = length (filter P xs) + (if P y then 1 else 0)"
proof (induction xs arbitrary: i)
  case (Cons x xs)
  then show ?case by (cases i) auto
qed simp

lemma running_goes_to:
  assumes "i < length (mg_routines m)" "go_job (mg_routines m ! i) = k"
  shows "length (running j (goes_to i pc m)) + (if j = k \<and> executing (mg_routines m ! i) then 1 else 0) =
    length (running j m) + (if j = k \<and> (pc = Immediate \<or> pc = Ticked) then 1 else 0)"
  using filter_update_length [OF assms(1), of "\<lambda>g. go_job g = j \<and> executing g" "(mg_routines m ! i)\<lparr>go_pc := pc\<rparr>"] assms(2)
  by (auto simp: running_def goes_to_def executing_def)

lemma simple_steps [simp]:
  "mg_flag (goes_to i pc m) = mg_flag m" "mg_flag (set_flag k b m) = (mg_flag m)(k := b)"
  "mg_routines (set_flag k b m) = mg_routines m" "running j (set_flag k b m) = running j m"
  "mg_jobs (goes_to i pc m) = mg_jobs m" "mg_jobs (set_flag k b m) = mg_jobs m"
  "mg_starts (goes_to i pc m) = mg_starts m" "mg_starts (set_flag k b m) = mg_starts m"
  "own j (set_flag k b m) = own j m"
  by (simp_all add: goes_to_def set_flag_def running_def own_def)

lemma own_goes_to [simp]: "i < length (mg_routines m) \<Longrightarrow> length (own j (goes_to i pc m)) = length (own j m)"
  using filter_update_length [of i "mg_routines m" "\<lambda>g. go_job g = j" "(mg_routines m ! i)\<lparr>go_pc := pc\<rparr>"]
  by (auto simp: own_def goes_to_def split: if_splits)

lemma jobs_kept: "job_step m m' \<Longrightarrow> mg_jobs m' = mg_jobs m"
  by (auto elim!: job_stepE simp: Start_def Stop_def run_begin_def run_tick_def run_end_def Let_def)

lemma starts_grow: "job_step m m' \<Longrightarrow> mg_starts m \<le> mg_starts m'"
  by (auto elim!: job_stepE simp: Start_def Stop_def run_begin_def run_tick_def run_end_def Let_def)

lemma own_in: "i < length (mg_routines m) \<Longrightarrow> mg_routines m ! i \<in> set (own (go_job (mg_routines m ! i)) m)"
  by (simp add: own_def)

lemma spawned_alone:
  assumes "i < length (mg_routines m)" "go_pc (mg_routines m ! i) = Spawned" "go_job (mg_routines m ! i) = j"
    and "length (own j m) \<le> 1"
  shows "running j m = []"
proof -
  have "mg_routines m ! i \<in> set (own j m)" using own_in [OF assms(1)] assms(3) by simp
  then have "own j m = [mg_routines m ! i]"
    using assms(4) by (cases "own j m") auto
  moreover have "running j m = filter executing (own j m)"
    by (simp add: running_def own_def conj_commute)
  ultimately show ?thesis using assms(2) by (simp add: executing_def)
qed

lemma Start_counts:
  "running j (Start m) = running j m"
  "length (own j (Start m)) \<le> length (own j m) + (mg_starts (Start m) - mg_starts m)"
proof -
  have "filter (\<lambda>g. go_job g = j) (map (\<lambda>j. \<lparr>go_job = j, go_epoch = e, go_pc = Spawned\<rparr>) [0..<n]) =
      (if j < n then [\<lparr>go_job = j, go_epoch = e, go_pc = Spawned\<rparr>] else [])" for e n
    by (induction n) auto
  then show "length (own j (Start m)) \<le> length (own j m) + (mg_starts (Start m) - mg_starts m)"
    by (simp add: own_def Start_def)
  show "running j (Start m) = running j m"
    by (auto simp: running_def Start_def executing_def filter_empty_conv)
qed

lemma exclusive_step:
  assumes "job_step m m'" "exclusive j m" "length (own j m) \<le> mg_starts m"
    and single: "mg_starts m' \<le> 1 \<or> \<not> jb_startImmediately (mg_jobs m ! j)"
  shows "exclusive j m' \<and> length (own j m') \<le> mg_starts m'"
  using assms(1)
proof (cases rule: job_step.cases)
  case start
  then show ?thesis
    using assms(2,3) Start_counts [of j m] by (auto simp: exclusive_def Start_def)
next
  case stop
  then show ?thesis using assms(2,3) by (cases "mg_isRunning m") (simp_all add: exclusive_def Stop_def running_def own_def)
next
  case (begin_run i)
  let ?k = "go_job (mg_routines m ! i)"
  have alone: "running j m = []" if "?k = j" "jb_startImmediately (mg_jobs m ! ?k)"
    using spawned_alone [OF begin_run(2,3)] that assms(3) single starts_grow [OF assms(1)] by fastforce
  show ?thesis
    using begin_run assms(2,3) alone
      running_goes_to [OF begin_run(2) refl, of j Immediate] running_goes_to [OF begin_run(2) refl, of j Waiting]
      running_goes_to [of i "set_flag ?k True m" ?k j Immediate]
    by (auto simp: run_begin_def Let_def exclusive_def executing_def split: if_splits)
next
  case (tick i)
  let ?k = "go_job (mg_routines m ! i)"
  show ?thesis
    using tick assms(2,3) running_goes_to [of i "set_flag ?k True m" ?k j Ticked]
    by (auto simp: run_tick_def Let_def exclusive_def executing_def split: if_splits)
next
  case (end_run i)
  let ?k = "go_job (mg_routines m ! i)"
  show ?thesis
    using end_run assms(2,3) running_goes_to [of i "set_flag ?k False m" ?k j Waiting]
    by (auto simp: run_end_def exclusive_def split: if_splits)
next
  case (finish i)
  then show ?thesis
    using assms(2,3) running_goes_to [OF finish(2) refl, of j Returned]
    by (auto simp: exclusive_def executing_def split: if_splits)
qed

definition queued :: "job list \<Rightarrow> manager" where
  "queued js = NewJobManager\<lparr>mg_jobs := js\<rparr>"

lemma QueueJob_queued:
  "QueueJob n f opts (queued js) = Inr (queued (js @ [fold (\<lambda>opt. opt) opts
     \<lparr>jb_id = length js, jb_name = n, jb_timeout = 0, jb_frequency = f, jb_startImmediately = False\<rparr>]))"
  by (auto simp: QueueJob_def queued_def NewJobManager_def fun_eq_iff)

lemma job_steps_kept: "job_steps m m' \<Longrightarrow> mg_jobs m' = mg_jobs m"
  by (induction rule: job_steps.induct) (simp_all add: jobs_kept)

lemma job_steps_exclusive:
  assumes "job_steps m m'" "exclusive j m" "length (own j m) \<le> mg_starts m"
    and "mg_starts m' \<le> 1 \<or> \<not> jb_startImmediately (mg_jobs m ! j)"
  shows "exclusive j m' \<and> length (own j m') \<le> mg_starts m'"
  using assms
proof (induction rule: job_steps.induct)
  case (one_more m m1 m2)
  have "mg_starts m1 \<le> mg_starts m2" "mg_jobs m1 = mg_jobs m"
    using starts_grow [OF one_more(2)] job_steps_kept [OF one_more(1)] by simp_all
  then show ?case
    using one_more exclusive_step [OF one_more(2), of j] by auto
qed simp

text \<open>
  C27: a job that a manager was given is never executed by two goroutines at a time, and its flag tells
  whether it is executed, in every order of starts, stops, ticks and ends of executions: for a job that
  is not to start immediately always, and for one that is as long as its manager was started only once.
\<close>

theorem job_never_overlaps:
  assumes "job_steps (queued js) m" "mg_starts m \<le> 1 \<or> \<not> jb_startImmediately (js ! j)"
  shows "length (running j m) \<le> 1 \<and> (mg_flag m j \<longleftrightarrow> running j m \<noteq> [])"
proof -
  have "exclusive j (queued js)" "length (own j (queued js)) \<le> mg_starts (queued js)"
    by (simp_all add: exclusive_def own_def running_def queued_def NewJobManager_def)
  then have "exclusive j m"
    using job_steps_exclusive [OF assms(1)] assms(2) by (simp add: queued_def)
  then show ?thesis by (auto simp: exclusive_def split: if_splits)
qed

definition mail_job :: job where
  "mail_job = \<lparr>jb_id = 0, jb_name = ''outbox_sender'', jb_timeout = 0, jb_frequency = 10, jb_startImmediately = True\<rparr>"

lemma started: "job_steps (queued [mail_job]) (run_begin 0 (Start (queued [mail_job])))"
  by (rule one_more [OF one_more [OF no_step start]], rule begin_run)
    (simp_all add: Start_def queued_def NewJobManager_def)

theorem job_never_overlaps_witness:
  "job_steps (queued [mail_job]) (run_begin 0 (Start (queued [mail_job]))) \<and>
   length (running 0 (run_begin 0 (Start (queued [mail_job])))) = 1"
  using job_never_overlaps [OF started, of 0] started
  by (simp add: Start_def queued_def NewJobManager_def run_begin_def Let_def mail_job_def goes_to_def set_flag_def running_def
      executing_def)

text \<open>
  A manager that is stopped and started again can run a job that is to start immediately twice at
  a time: stopping does not wait for the goroutine that executes it, and the new goroutine stores the
  flag instead of swapping it.
\<close>

theorem restart_overlaps:
  assumes "js \<noteq> []" "jb_startImmediately (js ! 0)"
  shows "\<exists>m. job_steps (queued js) m \<and> length (running 0 m) = 2"
proof -
  let ?m1 = "run_begin 0 (Start (queued js))"
  let ?m2 = "Start (Stop ?m1)" and ?n = "length js"
  have r: "mg_routines (Start (queued js)) = map (\<lambda>j. \<lparr>go_job = j, go_epoch = 1, go_pc = Spawned\<rparr>) [0..<?n]"
    by (simp add: Start_def queued_def NewJobManager_def)
  have m1: "job_steps (queued js) ?m1"
    using assms(1) by (intro one_more [OF one_more [OF no_step start] begin_run]) (simp_all add: r)
  have r1: "mg_routines ?m1 = (mg_routines (Start (queued js)))[0 := \<lparr>go_job = 0, go_epoch = 1, go_pc = Immediate\<rparr>]"
    "mg_isRunning ?m1" "mg_jobs ?m1 = js" "mg_starts ?m1 = 1"
    using assms by (simp_all add: run_begin_def r Let_def goes_to_def set_flag_def, simp_all add: Start_def queued_def NewJobManager_def)
  have r2: "mg_routines ?m2 = mg_routines ?m1 @ map (\<lambda>j. \<lparr>go_job = j, go_epoch = 2, go_pc = Spawned\<rparr>) [0..<?n]"
    using r1 by (simp add: Start_def Stop_def)
  have i: "?n < length (mg_routines ?m2)" "mg_routines ?m2 ! ?n = \<lparr>go_job = 0, go_epoch = 2, go_pc = Spawned\<rparr>"
    "mg_jobs ?m2 = js"
    using assms(1) r1 by (simp_all add: r2 r nth_append, simp add: Start_def Stop_def)
  have "job_steps (queued js) (run_begin ?n ?m2)"
    using i by (intro one_more [OF one_more [OF one_more [OF m1 stop] start] begin_run]) simp_all
  moreover have "length (running 0 (run_begin ?n ?m2)) = 2"
  proof -
    have one: "length (running 0 ?m2) = 1"
      using assms(1) by (cases ?n) (auto simp: running_def r2 r1(1) r executing_def upt_conv_Cons filter_empty_conv simp del: upt_Suc)
    show ?thesis
      using running_goes_to [of ?n "set_flag 0 True ?m2" 0 0 Immediate] one i assms(2)
      by (simp add: run_begin_def Let_def executing_def)
  qed
  ultimately show ?thesis by blast
qed

theorem restart_overlaps_witness: "\<exists>m. job_steps (queued [mail_job]) m \<and> length (running 0 m) = 2"
  by (rule restart_overlaps) (simp_all add: mail_job_def)

section \<open>Five attempts (internal/retry/retry.go)\<close>

text \<open>The loop; its state is what the function reads and changes. The pause between two attempts is left out.\<close>

function retry_loop :: "nat \<Rightarrow> goerr option \<Rightarrow> ('s \<Rightarrow> goerr option \<times> 's) \<Rightarrow> 's \<Rightarrow> unit go \<times> 's" where
  "retry_loop i e f s =
     (if i < 5 then
        (case f s of
           (None, s') \<Rightarrow> (Inr (), s')
         | (Some e', s') \<Rightarrow> retry_loop (Suc i) (Some e') f s')
      else (Inl (Panic (case e of None \<Rightarrow> [] | Some _ \<Rightarrow> ''error'')), s))"
  by pat_completeness auto
termination by (relation "measure (\<lambda>(i, _, _, _). 5 - i)") auto

definition FiveTimes :: "('s \<Rightarrow> goerr option \<times> 's) \<Rightarrow> 's \<Rightarrow> unit go \<times> 's" where
  "FiveTimes f s = retry_loop 0 None f s"

declare retry_loop.simps [simp del]

text \<open>The state after some attempts, and the outcome of the attempt that follows.\<close>

definition after_attempts :: "('s \<Rightarrow> goerr option \<times> 's) \<Rightarrow> 's \<Rightarrow> nat \<Rightarrow> 's" where
  "after_attempts f s k = ((snd \<circ> f) ^^ k) s"

lemma after_attempts_Suc: "after_attempts f s (Suc k) = after_attempts f (snd (f s)) k"
  by (simp add: after_attempts_def funpow_Suc_right del: funpow.simps)

definition outcome :: "('s \<Rightarrow> goerr option \<times> 's) \<Rightarrow> 's \<Rightarrow> nat \<Rightarrow> nat \<Rightarrow> bool \<Rightarrow> unit go \<times> 's" where
  "outcome f s d k failed =
     (if k < d then (Inr (), after_attempts f s (Suc k))
      else (Inl (Panic (if failed then ''error'' else [])), after_attempts f s d))"

definition stops_at :: "('s \<Rightarrow> goerr option \<times> 's) \<Rightarrow> 's \<Rightarrow> nat \<Rightarrow> nat \<Rightarrow> bool" where
  "stops_at f s d k \<longleftrightarrow> k \<le> d \<and> (\<forall>n < k. fst (f (after_attempts f s n)) \<noteq> None) \<and>
     (k < d \<longrightarrow> fst (f (after_attempts f s k)) = None)"

lemma retry_loop_outcome:
  "i + d = 5 \<Longrightarrow> \<exists>k. stops_at f s d k \<and> retry_loop i e f s = outcome f s d k (0 < d \<or> e \<noteq> None)"
proof (induction d arbitrary: i e s)
  case 0
  then show ?case
    by (auto simp: retry_loop.simps [of 5] after_attempts_def outcome_def stops_at_def split: option.splits)
next
  case (Suc d)
  obtain r s' where f: "f s = (r, s')" by fastforce
  show ?case
  proof (cases r)
    case None
    then have "retry_loop i e f s = outcome f s (Suc d) 0 True" "stops_at f s (Suc d) 0"
      using Suc(2) f by (simp_all add: retry_loop.simps [of i] after_attempts_def outcome_def stops_at_def)
    then show ?thesis by auto
  next
    case (Some e')
    have "retry_loop i e f s = retry_loop (Suc i) (Some e') f s'"
      using Suc(2) f Some by (simp add: retry_loop.simps [of i])
    moreover obtain k where k: "stops_at f s' d k" "retry_loop (Suc i) (Some e') f s' = outcome f s' d k True"
      using Suc(1) [of "Suc i" s' "Some e'"] Suc(2) by auto
    moreover have shift: "after_attempts f s (Suc n) = after_attempts f s' n" for n
      using f by (simp add: after_attempts_Suc)
    moreover have "outcome f s' d k True = outcome f s (Suc d) (Suc k) True"
      by (simp add: outcome_def shift)
    moreover have "stops_at f s (Suc d) (Suc k)"
      using k(1) f Some by (auto simp: stops_at_def shift less_Suc_eq_0_disj after_attempts_def [of _ _ 0])
    ultimately show ?thesis by auto
  qed
qed

text \<open>
  C28: the retry loop ends: it makes at most five attempts, stops at the first that succeeds, and panics
  exactly when all five failed. Nothing happens after the attempt that succeeds.
\<close>

theorem FiveTimes_ends:
  "\<exists>k \<le> 5. FiveTimes f s =
      (if k < 5 then (Inr (), after_attempts f s (Suc k)) else (Inl (Panic ''error''), after_attempts f s 5)) \<and>
    {n. n < k} = {n. n \<le> k \<and> n < 5 \<and> fst (f (after_attempts f s n)) \<noteq> None}"
proof -
  obtain k where k: "stops_at f s 5 k" "FiveTimes f s = outcome f s 5 k True"
    using retry_loop_outcome [of 0 5 f s None] unfolding FiveTimes_def by auto
  then have "{n. n < k} = {n. n \<le> k \<and> n < 5 \<and> fst (f (after_attempts f s n)) \<noteq> None}" "k \<le> 5"
    by (auto simp: stops_at_def order_le_less)
  then show ?thesis using k by (auto simp: outcome_def)
qed

end
