(* ===== verification/Config.thy ===== *)
theory Config
  imports Environment
begin

text \<open>
  The configuration (\<^verbatim>\<open>config/config.go\<close>): the structure that the files and the environment are
  unmarshalled into, its defaults, and the checks that end the program. The code works on a global variable;
  here a check takes the configuration and returns it with the defaults. Where the program reads its flags
  and files from is left out.
\<close>

section \<open>Structure\<close>

record server_config =
  sc_ExternalUrl :: string
  sc_ExternalDomain :: string
  sc_Host :: string
  sc_Port :: int
  sc_ApiPort :: int
  sc_AllowedOrigins :: "string list"

record postgres_config =
  pg_Database :: string
  pg_Host :: string
  pg_Port :: int
  pg_Username :: string
  pg_Password :: string
  pg_SslMode :: string

record database_config =
  dc_Mode :: string
  dc_Postgres :: postgres_config
  dc_Sqlite_Database :: string

record service_user_config =
  suc_Username :: string
  suc_Roles :: "string list"
  suc_Pem :: string
  suc_Kid :: string

record role_config =
  rc_Name :: string
  rc_Description :: string

record application_config =
  ac_Name :: string
  ac_DisplayName :: string
  ac_Type :: string
  ac_HashedSecret :: "string option"
  ac_RedirectUris :: "string list"
  ac_PostLogoutRedirectUris :: "string list"
  ac_DeviceFlowEnabled :: bool

record resource_server_config =
  rsc_Slug :: string
  rsc_Name :: string
  rsc_Description :: string

record initial_project_config =
  pc_Slug :: string
  pc_Name :: string
  pc_Description :: string
  pc_Roles :: "role_config list"
  pc_Applications :: "application_config list"
  pc_ResourceServers :: "resource_server_config list"

record admin_config =
  adc_Username :: string
  adc_DisplayName :: string
  adc_PrimaryEmail :: string
  adc_PasswordHash :: string
  adc_Roles :: "string list"

record initial_virtual_server_config =
  ivs_Name :: string
  ivs_DisplayName :: string
  ivs_EnableRegistration :: bool
  ivs_PrimarySigningAlgorithm :: string
  ivs_AdditionalSigningAlgorithms :: "string list"
  ivs_CreateSystemAdminRole :: bool
  ivs_CreateAdmin :: bool
  ivs_Admin :: admin_config
  ivs_ServiceUsers :: "service_user_config list"
  ivs_Projects :: "initial_project_config list"

record vault_key_store_config =
  vk_Address :: string
  vk_Token :: string
  vk_Mount :: string
  vk_Prefix :: string

record key_store_config =
  ks_Mode :: string
  ks_Vault :: vault_key_store_config
  ks_Directory_Path :: string

record cache_config =
  cc_Mode :: string
  cc_Redis_Host :: string
  cc_Redis_Port :: int
  cc_Redis_Username :: string
  cc_Redis_Password :: string
  cc_Redis_Database :: int

record raft_node =
  rn_Id :: string
  rn_Address :: string

record leader_election_raft_config =
  le_Host :: string
  le_Port :: int
  le_Id :: string
  le_InitiatorId :: string
  le_Nodes :: "raft_node list"

record leader_election_config =
  le_Mode :: string
  le_Raft :: leader_election_raft_config

record config =
  c_Server :: server_config
  c_Frontend_ExternalUrl :: string
  c_Database :: database_config
  c_InitialVirtualServer :: initial_virtual_server_config
  c_KeyStore :: key_store_config
  c_Cache :: cache_config
  c_LeaderElection :: leader_election_config

definition IsProduction :: "string \<Rightarrow> bool" where
  "IsProduction environment = (environment = ''PRODUCTION'')"

section \<open>Checks\<close>

definition panics_if :: "bool \<Rightarrow> string \<Rightarrow> unit go" where
  "panics_if b msg = (if b then Inl (Panic msg) else Inr ())"

definition default_to :: "string \<Rightarrow> string \<Rightarrow> string" where
  "default_to d v = (if v = [] then d else v)"

text \<open>\<^verbatim>\<open>fmt.Sprintf("%d", i)\<close>.\<close>

fun decimal :: "nat \<Rightarrow> string" where
  "decimal n = (if n < 10 then [char_of (48 + n)] else decimal (n div 10) @ [char_of (48 + n mod 10)])"

definition format_int :: "int \<Rightarrow> string" where
  "format_int i = (if i < 0 then CHR ''-'' # decimal (nat (- i)) else decimal (nat i))"

text \<open>The host of a URL without its port, as \<^verbatim>\<open>net/url\<close> splits it off.\<close>

definition Hostname :: "string \<Rightarrow> string" where
  "Hostname host =
     (let port = takeWhile (\<lambda>c. c \<noteq> CHR '':'') (rev host);
          host = (if CHR '':'' \<in> set host \<and> list_all (\<lambda>c. c \<in> set ''0123456789'') port
                  then take (length host - length port - 1) host else host)
      in if host \<noteq> [] \<and> hd host = CHR ''['' \<and> last host = CHR '']'' then butlast (tl host) else host)"

definition setServerDefaultsOrPanic :: "env \<Rightarrow> bool \<Rightarrow> server_config \<Rightarrow> server_config go" where
  "setServerDefaultsOrPanic E production c =
     go_bind (panics_if (sc_Host c = [] \<and> production) ''missing server hostname in config'') (\<lambda>_.
     let c = c\<lparr>sc_Host := default_to ''localhost'' (sc_Host c)\<rparr> in
     go_bind (if sc_ExternalDomain c = [] then
                (case e_url_Parse E (sc_ExternalUrl c) of
                   None \<Rightarrow> Inl (Panic ''extracting domain from external url'')
                 | Some (_, host) \<Rightarrow> Inr (c\<lparr>sc_ExternalDomain := Hostname host\<rparr>))
              else Inr c) (\<lambda>c.
     let c = c\<lparr>sc_Port := (if sc_Port c = 0 then 8080 else sc_Port c)\<rparr> in
     go_bind (panics_if (sc_ApiPort c = sc_Port c) ''api port must be different from server port'') (\<lambda>_.
     go_bind (panics_if (sc_ExternalUrl c = [] \<and> production) ''missing external url'') (\<lambda>_.
     let c = c\<lparr>sc_ExternalUrl := default_to (sc_Host c @ '':'' @ format_int (sc_Port c)) (sc_ExternalUrl c)\<rparr> in
     go_bind (panics_if (sc_AllowedOrigins c = [] \<and> production) ''missing allowed origins'') (\<lambda>_.
       Inr (c\<lparr>sc_AllowedOrigins :=
         (if sc_AllowedOrigins c = [] then [''*'', ''http://localhost:5173''] else sc_AllowedOrigins c)\<rparr>))))))"

definition setFrontendDefaultsOrPanic :: "bool \<Rightarrow> string \<Rightarrow> string go" where
  "setFrontendDefaultsOrPanic production externalUrl =
     go_bind (panics_if (externalUrl = [] \<and> production) ''missing frontend external url'') (\<lambda>_.
       Inr (default_to ''http://localhost:5173'' externalUrl))"

definition setPostgresDefaultsOrPanic :: "postgres_config \<Rightarrow> postgres_config go" where
  "setPostgresDefaultsOrPanic c =
     (let c = c\<lparr>pg_Database := default_to ''keyline'' (pg_Database c)\<rparr> in
      go_bind (panics_if (pg_Username c = []) ''missing postgres username'') (\<lambda>_.
      let c = c\<lparr>pg_Port := (if pg_Port c = 0 then 5432 else pg_Port c)\<rparr> in
      go_bind (panics_if (pg_Host c = []) ''missing postgres host'') (\<lambda>_.
      let c = c\<lparr>pg_SslMode := default_to ''enable'' (pg_SslMode c)\<rparr> in
      go_bind (panics_if (pg_Password c = []) ''missing postgres password'') (\<lambda>_. Inr c))))"

definition setSqliteDefaultsOrPanic :: "string \<Rightarrow> database_config go" where
  "setSqliteDefaultsOrPanic database =
     go_bind (panics_if (database = []) ''missing sqlite file path'') (\<lambda>_. Inl (Panic ''sqlite not implemented yet''))"

definition setDatabaseDefaultsOrPanic :: "database_config \<Rightarrow> database_config go" where
  "setDatabaseDefaultsOrPanic c =
     (if dc_Mode c = ''postgres'' then
        go_bind (setPostgresDefaultsOrPanic (dc_Postgres c)) (\<lambda>pg. Inr (c\<lparr>dc_Postgres := pg\<rparr>))
      else if dc_Mode c = ''sqlite'' then setSqliteDefaultsOrPanic (dc_Sqlite_Database c)
      else if dc_Mode c = ''memory'' then Inr c
      else Inl (Panic ''database mode missing or not supported''))"

definition setInitialAdminDefaultsOrPanic :: "bool \<Rightarrow> admin_config \<Rightarrow> admin_config go" where
  "setInitialAdminDefaultsOrPanic createAdmin a =
     (if \<not> createAdmin then Inr a
      else
        let a = a\<lparr>adc_Username := default_to ''admin'' (adc_Username a),
                  adc_DisplayName := default_to ''Administrator'' (adc_DisplayName a)\<rparr> in
        go_bind (panics_if (adc_PrimaryEmail a = []) ''missing initial admin primary email'') (\<lambda>_.
        go_bind (panics_if (adc_PasswordHash a = []) ''missing initial admin password hash'') (\<lambda>_. Inr a)))"

definition check_service_user :: "service_user_config \<Rightarrow> service_user_config go" where
  "check_service_user u =
     go_bind (panics_if (suc_Username u = []) ''missing service user username'') (\<lambda>_.
     go_bind (panics_if (suc_Pem u = []) ''missing service user public key pem'') (\<lambda>_.
     go_bind (panics_if (suc_Kid u = []) ''missing service user public key kid'') (\<lambda>_. Inr u)))"

definition setInitialServiceUserDefaultsOrPanic :: "service_user_config list \<Rightarrow> service_user_config list go" where
  "setInitialServiceUserDefaultsOrPanic = map_go check_service_user"

definition check_application :: "application_config \<Rightarrow> application_config go" where
  "check_application a =
     go_bind (panics_if (ac_Name a = []) ''missing application name'') (\<lambda>_.
     let a = a\<lparr>ac_DisplayName := default_to (ac_Name a) (ac_DisplayName a)\<rparr> in
     go_bind (panics_if (ac_Type a = []) ''missing application type (confidential or public)'') (\<lambda>_.
     go_bind (panics_if (ac_Type a \<noteq> ''confidential'' \<and> ac_Type a \<noteq> ''public'') ''application type not supported'') (\<lambda>_.
     go_bind (panics_if (ac_Type a = ''confidential'' \<and> ac_HashedSecret a = None) ''missing application secret'') (\<lambda>_.
     go_bind (panics_if (ac_Type a = ''confidential'' \<and> ac_HashedSecret a = Some []) ''application secret is empty'') (\<lambda>_.
       Inr a)))))"

definition setInitialApplicationsDefaultsOrPanic :: "application_config list \<Rightarrow> application_config list go" where
  "setInitialApplicationsDefaultsOrPanic = map_go check_application"

definition setInitialRolesDefaultsOrPanic :: "role_config list \<Rightarrow> role_config list go" where
  "setInitialRolesDefaultsOrPanic =
     map_go (\<lambda>r. go_bind (panics_if (rc_Name r = []) ''missing role name'') (\<lambda>_. Inr r))"

definition check_resource_server :: "resource_server_config \<Rightarrow> resource_server_config go" where
  "check_resource_server r =
     go_bind (panics_if (rsc_Slug r = []) ''missing resource server slug'') (\<lambda>_.
     let r = r\<lparr>rsc_Name := default_to (rsc_Slug r) (rsc_Name r)\<rparr> in
       Inr (r\<lparr>rsc_Description := default_to (rsc_Name r) (rsc_Description r)\<rparr>))"

definition setInitialResourceServersDefaultsOrPanic :: "resource_server_config list \<Rightarrow> resource_server_config list go" where
  "setInitialResourceServersDefaultsOrPanic = map_go check_resource_server"

definition check_project :: "initial_project_config \<Rightarrow> initial_project_config go" where
  "check_project p =
     go_bind (panics_if (pc_Slug p = []) ''missing project slug'') (\<lambda>_.
     let p = p\<lparr>pc_Name := default_to (pc_Slug p) (pc_Name p)\<rparr> in
     go_bind (setInitialApplicationsDefaultsOrPanic (pc_Applications p)) (\<lambda>apps.
     go_bind (setInitialRolesDefaultsOrPanic (pc_Roles p)) (\<lambda>roles.
     go_bind (setInitialResourceServersDefaultsOrPanic (pc_ResourceServers p)) (\<lambda>servers.
       Inr (p\<lparr>pc_Applications := apps, pc_Roles := roles, pc_ResourceServers := servers\<rparr>)))))"

definition setInitialProjectsDefaultsOrPanic :: "initial_project_config list \<Rightarrow> initial_project_config list go" where
  "setInitialProjectsDefaultsOrPanic = map_go check_project"

definition setInitialVirtualServerDefaultsOrPanic :: "initial_virtual_server_config \<Rightarrow> initial_virtual_server_config go" where
  "setInitialVirtualServerDefaultsOrPanic c =
     (let c = c\<lparr>ivs_Name := default_to ''keyline'' (ivs_Name c), ivs_DisplayName := default_to ''Keyline'' (ivs_DisplayName c),
                ivs_PrimarySigningAlgorithm := default_to SigningAlgorithmEdDSA (ivs_PrimarySigningAlgorithm c)\<rparr> in
      go_bind (setInitialAdminDefaultsOrPanic (ivs_CreateAdmin c) (ivs_Admin c)) (\<lambda>admin.
      go_bind (setInitialServiceUserDefaultsOrPanic (ivs_ServiceUsers c)) (\<lambda>users.
      go_bind (setInitialProjectsDefaultsOrPanic (ivs_Projects c)) (\<lambda>projects.
        Inr (c\<lparr>ivs_Admin := admin, ivs_ServiceUsers := users, ivs_Projects := projects\<rparr>)))))"

definition setKeyStoreModeVaultDefaultsOrPanic :: "vault_key_store_config \<Rightarrow> unit go" where
  "setKeyStoreModeVaultDefaultsOrPanic v =
     go_bind (panics_if (vk_Address v = []) ''missing key store vault address'') (\<lambda>_.
     go_bind (panics_if (vk_Token v = []) ''missing key store vault token'') (\<lambda>_.
     panics_if (vk_Mount v = []) ''missing key store vault mount''))"

definition setKeyStoreModeDirectoryDefaultsOrPanic :: "string \<Rightarrow> unit go" where
  "setKeyStoreModeDirectoryDefaultsOrPanic path = panics_if (path = []) ''missing key store directory path''"

definition setKeyStoreDefaultsOrPanic :: "key_store_config \<Rightarrow> key_store_config go" where
  "setKeyStoreDefaultsOrPanic c =
     go_bind (if ks_Mode c = ''memory'' then Inr ()
              else if ks_Mode c = ''vault'' then setKeyStoreModeVaultDefaultsOrPanic (ks_Vault c)
              else if ks_Mode c = ''directory'' then setKeyStoreModeDirectoryDefaultsOrPanic (ks_Directory_Path c)
              else Inl (Panic ''key store mode missing or not supported'')) (\<lambda>_. Inr c)"

definition setRedisDefaultsOrPanic :: "bool \<Rightarrow> cache_config \<Rightarrow> cache_config go" where
  "setRedisDefaultsOrPanic production c =
     go_bind (panics_if (cc_Redis_Host c = [] \<and> production) ''missing redis host'') (\<lambda>_.
       Inr (c\<lparr>cc_Redis_Host := default_to ''localhost'' (cc_Redis_Host c),
              cc_Redis_Port := (if cc_Redis_Port c = 0 then 6379 else cc_Redis_Port c)\<rparr>))"

definition setCacheDefaultsOrPanic :: "bool \<Rightarrow> cache_config \<Rightarrow> cache_config go" where
  "setCacheDefaultsOrPanic production c =
     (if cc_Mode c = ''memory'' then Inr c
      else if cc_Mode c = ''redis'' then setRedisDefaultsOrPanic production c
      else Inl (Panic ''cache mode missing or not supported''))"

definition setLeaderElectionRaftDefaultsOrPanic :: "leader_election_raft_config \<Rightarrow> unit go" where
  "setLeaderElectionRaftDefaultsOrPanic r =
     go_bind (panics_if (le_Host r = []) ''missing leader election raft host'') (\<lambda>_.
     go_bind (panics_if (le_Port r = 0) ''missing leader election raft port'') (\<lambda>_.
     go_bind (panics_if (le_Id r = []) ''missing leader election raft id'') (\<lambda>_.
     go_bind (panics_if (le_InitiatorId r = []) ''missing leader election raft initiator id'') (\<lambda>_.
     go_bind (panics_if (le_Nodes r = []) ''missing leader election raft nodes'') (\<lambda>_.
     go_bind (map_go (\<lambda>node.
       go_bind (panics_if (rn_Id node = []) ''missing leader election raft node id'') (\<lambda>_.
       panics_if (rn_Address node = []) ''missing leader election raft node address'')) (le_Nodes r)) (\<lambda>_. Inr ()))))))"

definition setLeaderElectionDefaultsOrPanic :: "leader_election_config \<Rightarrow> leader_election_config go" where
  "setLeaderElectionDefaultsOrPanic c =
     go_bind (if le_Mode c = ''none'' then Inr ()
              else if le_Mode c = ''raft'' then setLeaderElectionRaftDefaultsOrPanic (le_Raft c)
              else Inl (Panic ''leader election mode missing or not supported'')) (\<lambda>_. Inr c)"

definition setDefaultsOrPanic :: "env \<Rightarrow> string \<Rightarrow> config \<Rightarrow> config go" where
  "setDefaultsOrPanic E environment c =
     (let production = IsProduction environment in
      go_bind (setServerDefaultsOrPanic E production (c_Server c)) (\<lambda>server.
      go_bind (setFrontendDefaultsOrPanic production (c_Frontend_ExternalUrl c)) (\<lambda>frontend.
      go_bind (setDatabaseDefaultsOrPanic (c_Database c)) (\<lambda>database.
      go_bind (setInitialVirtualServerDefaultsOrPanic (c_InitialVirtualServer c)) (\<lambda>initial.
      go_bind (setKeyStoreDefaultsOrPanic (c_KeyStore c)) (\<lambda>keys.
      go_bind (setCacheDefaultsOrPanic production (c_Cache c)) (\<lambda>cache.
      go_bind (setLeaderElectionDefaultsOrPanic (c_LeaderElection c)) (\<lambda>election.
        Inr \<lparr>c_Server = server, c_Frontend_ExternalUrl = frontend, c_Database = database,
             c_InitialVirtualServer = initial, c_KeyStore = keys, c_Cache = cache, c_LeaderElection = election\<rparr>))))))))"

section \<open>A checked configuration\<close>

lemma panics_if_simps [simp]: "panics_if b msg = Inr x \<longleftrightarrow> \<not> b" "panics_if False msg = Inr ()"
  by (simp_all add: panics_if_def)

lemma default_to_simps [simp]: "default_to d v = [] \<longleftrightarrow> d = [] \<and> v = []" "v \<noteq> [] \<Longrightarrow> default_to d v = v"
  by (simp_all add: default_to_def)

lemma decimal_not_Nil [simp]: "decimal n \<noteq> []"
  by (cases "n < 10") (simp_all add: decimal.simps [of n])

declare decimal.simps [simp del]

text \<open>A check of the elements of a list: what it gives satisfies its condition, and checking again changes nothing.\<close>

lemma map_go_checked:
  assumes "map_go f xs = Inr ys" "\<And>x y. f x = Inr y \<Longrightarrow> P y \<and> f y = Inr y"
  shows "list_all P ys \<and> map_go f ys = Inr ys"
  using assms(1)
proof (induction xs arbitrary: ys)
  case (Cons x xs)
  then obtain y zs where "f x = Inr y" "map_go f xs = Inr zs" "ys = y # zs" by (auto simp: go_bind_Inr_iff)
  then show ?case using Cons.IH assms(2) by auto
qed simp

definition server_ok :: "server_config \<Rightarrow> bool" where
  "server_ok c \<longleftrightarrow> sc_Host c \<noteq> [] \<and> sc_Port c \<noteq> 0 \<and> sc_ApiPort c \<noteq> sc_Port c \<and> sc_ExternalUrl c \<noteq> [] \<and> sc_AllowedOrigins c \<noteq> []"

definition database_ok :: "database_config \<Rightarrow> bool" where
  "database_ok c \<longleftrightarrow> dc_Mode c = ''memory'' \<or> dc_Mode c = ''postgres'' \<and>
     (let p = dc_Postgres c in pg_Database p \<noteq> [] \<and> pg_Username p \<noteq> [] \<and> pg_Port p \<noteq> 0 \<and> pg_Host p \<noteq> [] \<and>
        pg_SslMode p \<noteq> [] \<and> pg_Password p \<noteq> [])"

definition service_user_ok :: "service_user_config \<Rightarrow> bool" where
  "service_user_ok u \<longleftrightarrow> suc_Username u \<noteq> [] \<and> suc_Pem u \<noteq> [] \<and> suc_Kid u \<noteq> []"

definition application_ok :: "application_config \<Rightarrow> bool" where
  "application_ok a \<longleftrightarrow> ac_Name a \<noteq> [] \<and> ac_DisplayName a \<noteq> [] \<and>
     (ac_Type a = ''public'' \<or> ac_Type a = ''confidential'' \<and> ac_HashedSecret a \<noteq> None \<and> ac_HashedSecret a \<noteq> Some [])"

definition project_ok :: "initial_project_config \<Rightarrow> bool" where
  "project_ok p \<longleftrightarrow> pc_Slug p \<noteq> [] \<and> pc_Name p \<noteq> [] \<and> list_all application_ok (pc_Applications p) \<and>
     list_all (\<lambda>r. rc_Name r \<noteq> []) (pc_Roles p) \<and>
     list_all (\<lambda>r. rsc_Slug r \<noteq> [] \<and> rsc_Name r \<noteq> [] \<and> rsc_Description r \<noteq> []) (pc_ResourceServers p)"

definition initial_ok :: "initial_virtual_server_config \<Rightarrow> bool" where
  "initial_ok c \<longleftrightarrow> ivs_Name c \<noteq> [] \<and> ivs_DisplayName c \<noteq> [] \<and> ivs_PrimarySigningAlgorithm c \<noteq> [] \<and>
     (ivs_CreateAdmin c \<longrightarrow> adc_Username (ivs_Admin c) \<noteq> [] \<and> adc_DisplayName (ivs_Admin c) \<noteq> [] \<and>
        adc_PrimaryEmail (ivs_Admin c) \<noteq> [] \<and> adc_PasswordHash (ivs_Admin c) \<noteq> []) \<and>
     list_all service_user_ok (ivs_ServiceUsers c) \<and> list_all project_ok (ivs_Projects c)"

definition key_store_ok :: "key_store_config \<Rightarrow> bool" where
  "key_store_ok c \<longleftrightarrow> ks_Mode c = ''memory'' \<or> ks_Mode c = ''directory'' \<and> ks_Directory_Path c \<noteq> [] \<or>
     ks_Mode c = ''vault'' \<and> vk_Address (ks_Vault c) \<noteq> [] \<and> vk_Token (ks_Vault c) \<noteq> [] \<and> vk_Mount (ks_Vault c) \<noteq> []"

definition cache_ok :: "cache_config \<Rightarrow> bool" where
  "cache_ok c \<longleftrightarrow> cc_Mode c = ''memory'' \<or> cc_Mode c = ''redis'' \<and> cc_Redis_Host c \<noteq> [] \<and> cc_Redis_Port c \<noteq> 0"

definition election_ok :: "leader_election_config \<Rightarrow> bool" where
  "election_ok c \<longleftrightarrow> le_Mode c = ''none'' \<or> le_Mode c = ''raft'' \<and>
     (let r = le_Raft c in le_Host r \<noteq> [] \<and> le_Port r \<noteq> 0 \<and> le_Id r \<noteq> [] \<and> le_InitiatorId r \<noteq> [] \<and> le_Nodes r \<noteq> [] \<and>
        list_all (\<lambda>n. rn_Id n \<noteq> [] \<and> rn_Address n \<noteq> []) (le_Nodes r))"

definition config_ok :: "config \<Rightarrow> bool" where
  "config_ok c \<longleftrightarrow> server_ok (c_Server c) \<and> c_Frontend_ExternalUrl c \<noteq> [] \<and> database_ok (c_Database c) \<and>
     initial_ok (c_InitialVirtualServer c) \<and> key_store_ok (c_KeyStore c) \<and> cache_ok (c_Cache c) \<and>
     election_ok (c_LeaderElection c)"

lemma server_stable: "server_ok c \<Longrightarrow> sc_ExternalDomain c \<noteq> [] \<Longrightarrow> setServerDefaultsOrPanic E production c = Inr c"
  by (cases c) (simp add: server_ok_def setServerDefaultsOrPanic_def Let_def)

lemma server_checked:
  assumes "setServerDefaultsOrPanic E production c = Inr c'"
  shows "server_ok c' \<and>
     (production \<longrightarrow> sc_Host c' = sc_Host c \<and> sc_ExternalUrl c' = sc_ExternalUrl c \<and> sc_AllowedOrigins c' = sc_AllowedOrigins c) \<and>
     (sc_ExternalDomain c' \<noteq> [] \<longrightarrow> setServerDefaultsOrPanic E production c' = Inr c')"
proof -
  let ?host = "default_to ''localhost'' (sc_Host c)" and ?port = "if sc_Port c = 0 then 8080 else sc_Port c"
  let ?url = "default_to (?host @ '':'' @ format_int ?port) (sc_ExternalUrl c)"
  let ?origins = "if sc_AllowedOrigins c = [] then [''*'', ''http://localhost:5173''] else sc_AllowedOrigins c"
  have "\<exists>d. c' = c\<lparr>sc_Host := ?host, sc_ExternalDomain := d, sc_Port := ?port, sc_ExternalUrl := ?url, sc_AllowedOrigins := ?origins\<rparr>"
  proof (cases "sc_ExternalDomain c = []")
    case True
    then show ?thesis
      using assms by (cases "e_url_Parse E (sc_ExternalUrl c)") (auto simp: setServerDefaultsOrPanic_def go_bind_Inr_iff Let_def cong: if_cong)
  next
    case False
    then show ?thesis
      using assms by (intro exI [of _ "sc_ExternalDomain c"]) (auto simp: setServerDefaultsOrPanic_def go_bind_Inr_iff Let_def cong: if_cong)
  qed
  then obtain d where c': "c' = c\<lparr>sc_Host := ?host, sc_ExternalDomain := d, sc_Port := ?port, sc_ExternalUrl := ?url, sc_AllowedOrigins := ?origins\<rparr>"
    by blast
  have g: "sc_ApiPort c \<noteq> ?port" "\<not> (sc_Host c = [] \<and> production)" "\<not> (sc_ExternalUrl c = [] \<and> production)"
    "\<not> (sc_AllowedOrigins c = [] \<and> production)"
    using assms by (auto simp: setServerDefaultsOrPanic_def go_bind_Inr_iff Let_def split: if_splits option.splits)
  have "server_ok c'" using g by (auto simp: c' server_ok_def default_to_def)
  then show ?thesis using g server_stable [of c'] by (auto simp: c')
qed

lemma database_checked: "setDatabaseDefaultsOrPanic c = Inr c' \<Longrightarrow> database_ok c' \<and> setDatabaseDefaultsOrPanic c' = Inr c'"
  by (auto simp: setDatabaseDefaultsOrPanic_def setPostgresDefaultsOrPanic_def setSqliteDefaultsOrPanic_def go_bind_Inr_iff
      database_ok_def Let_def split: if_splits)

lemma service_user_checked: "check_service_user u = Inr u' \<Longrightarrow> service_user_ok u' \<and> check_service_user u' = Inr u'"
  by (auto simp: check_service_user_def go_bind_Inr_iff service_user_ok_def)

lemma application_checked: "check_application a = Inr a' \<Longrightarrow> application_ok a' \<and> check_application a' = Inr a'"
  by (auto simp: check_application_def go_bind_Inr_iff application_ok_def Let_def)

lemma resource_server_checked:
  "check_resource_server r = Inr r' \<Longrightarrow> (rsc_Slug r' \<noteq> [] \<and> rsc_Name r' \<noteq> [] \<and> rsc_Description r' \<noteq> []) \<and> check_resource_server r' = Inr r'"
  by (auto simp: check_resource_server_def go_bind_Inr_iff Let_def)

lemma project_checked:
  assumes "check_project p = Inr p'" shows "project_ok p' \<and> check_project p' = Inr p'"
proof -
  obtain apps roles servers where
    a: "map_go check_application (pc_Applications p) = Inr apps"
    and r: "map_go (\<lambda>r. go_bind (panics_if (rc_Name r = []) ''missing role name'') (\<lambda>_. Inr r)) (pc_Roles p) = Inr roles"
    and s: "map_go check_resource_server (pc_ResourceServers p) = Inr servers"
    and p: "pc_Slug p \<noteq> []" "p' = p\<lparr>pc_Name := default_to (pc_Slug p) (pc_Name p), pc_Applications := apps, pc_Roles := roles,
      pc_ResourceServers := servers\<rparr>"
    using assms by (auto simp: check_project_def go_bind_Inr_iff Let_def setInitialApplicationsDefaultsOrPanic_def
        setInitialRolesDefaultsOrPanic_def setInitialResourceServersDefaultsOrPanic_def)
  show ?thesis
    using map_go_checked [OF a application_checked] map_go_checked [OF s resource_server_checked]
      map_go_checked [OF r, of "\<lambda>r. rc_Name r \<noteq> []"] p
    by (auto simp: check_project_def project_ok_def Let_def setInitialApplicationsDefaultsOrPanic_def go_bind_Inr_iff
        setInitialRolesDefaultsOrPanic_def setInitialResourceServersDefaultsOrPanic_def)
qed

lemma initial_checked:
  assumes "setInitialVirtualServerDefaultsOrPanic c = Inr c'"
  shows "initial_ok c' \<and> setInitialVirtualServerDefaultsOrPanic c' = Inr c'"
proof -
  obtain admin users projects where
    a: "setInitialAdminDefaultsOrPanic (ivs_CreateAdmin c) (ivs_Admin c) = Inr admin"
    and u: "map_go check_service_user (ivs_ServiceUsers c) = Inr users"
    and p: "map_go check_project (ivs_Projects c) = Inr projects"
    and c': "c' = c\<lparr>ivs_Name := default_to ''keyline'' (ivs_Name c), ivs_DisplayName := default_to ''Keyline'' (ivs_DisplayName c),
      ivs_PrimarySigningAlgorithm := default_to SigningAlgorithmEdDSA (ivs_PrimarySigningAlgorithm c), ivs_Admin := admin,
      ivs_ServiceUsers := users, ivs_Projects := projects\<rparr>"
    using assms by (auto simp: setInitialVirtualServerDefaultsOrPanic_def go_bind_Inr_iff Let_def setInitialServiceUserDefaultsOrPanic_def
        setInitialProjectsDefaultsOrPanic_def)
  have "setInitialAdminDefaultsOrPanic (ivs_CreateAdmin c) admin = Inr admin \<and>
      (ivs_CreateAdmin c \<longrightarrow> adc_Username admin \<noteq> [] \<and> adc_DisplayName admin \<noteq> [] \<and> adc_PrimaryEmail admin \<noteq> [] \<and>
        adc_PasswordHash admin \<noteq> [])"
    using a by (auto simp: setInitialAdminDefaultsOrPanic_def go_bind_Inr_iff Let_def split: if_splits)
  then show ?thesis
    using map_go_checked [OF u service_user_checked] map_go_checked [OF p project_checked]
    by (auto simp: c' initial_ok_def setInitialVirtualServerDefaultsOrPanic_def Let_def setInitialServiceUserDefaultsOrPanic_def
        setInitialProjectsDefaultsOrPanic_def SigningAlgorithmEdDSA_def)
qed

lemma key_store_checked: "setKeyStoreDefaultsOrPanic c = Inr c' \<Longrightarrow> key_store_ok c' \<and> setKeyStoreDefaultsOrPanic c' = Inr c'"
  by (auto simp: setKeyStoreDefaultsOrPanic_def setKeyStoreModeVaultDefaultsOrPanic_def setKeyStoreModeDirectoryDefaultsOrPanic_def
      go_bind_Inr_iff key_store_ok_def split: if_splits)

lemma cache_checked: "setCacheDefaultsOrPanic production c = Inr c' \<Longrightarrow> cache_ok c' \<and> setCacheDefaultsOrPanic production c' = Inr c'"
  by (auto simp: setCacheDefaultsOrPanic_def setRedisDefaultsOrPanic_def go_bind_Inr_iff cache_ok_def split: if_splits)

lemma map_go_returns: "map_go f xs = Inr ys \<Longrightarrow> list_all (\<lambda>x. \<exists>y. f x = Inr y) xs"
  by (induction xs arbitrary: ys) (auto simp: go_bind_Inr_iff)

lemma election_checked:
  assumes "setLeaderElectionDefaultsOrPanic c = Inr c'"
  shows "election_ok c' \<and> setLeaderElectionDefaultsOrPanic c' = Inr c'"
proof -
  have "c' = c" using assms by (auto simp: setLeaderElectionDefaultsOrPanic_def go_bind_Inr_iff)
  moreover have "election_ok c"
    using assms by (auto simp: setLeaderElectionDefaultsOrPanic_def setLeaderElectionRaftDefaultsOrPanic_def election_ok_def Let_def
        go_bind_Inr_iff list_all_iff split: if_splits dest!: map_go_returns)
  ultimately show ?thesis using assms by simp
qed


definition sample_config :: config where
  "sample_config =
     \<lparr>c_Server = \<lparr>sc_ExternalUrl = ''https://id.example'', sc_ExternalDomain = ''id.example'', sc_Host = ''0.0.0.0'', sc_Port = 0,
        sc_ApiPort = 0, sc_AllowedOrigins = [''https://app.example'']\<rparr>,
      c_Frontend_ExternalUrl = ''https://app.example'',
      c_Database = \<lparr>dc_Mode = ''memory'', dc_Postgres = \<lparr>pg_Database = [], pg_Host = [], pg_Port = 0, pg_Username = [], pg_Password = [],
        pg_SslMode = []\<rparr>, dc_Sqlite_Database = []\<rparr>,
      c_InitialVirtualServer = \<lparr>ivs_Name = [], ivs_DisplayName = [], ivs_EnableRegistration = False, ivs_PrimarySigningAlgorithm = [],
        ivs_AdditionalSigningAlgorithms = [], ivs_CreateSystemAdminRole = False, ivs_CreateAdmin = True,
        ivs_Admin = \<lparr>adc_Username = [], adc_DisplayName = [], adc_PrimaryEmail = ''root@x'', adc_PasswordHash = ''h'', adc_Roles = []\<rparr>,
        ivs_ServiceUsers = [],
        ivs_Projects = [\<lparr>pc_Slug = ''shop'', pc_Name = [], pc_Description = [], pc_Roles = [],
          pc_Applications = [\<lparr>ac_Name = ''web'', ac_DisplayName = [], ac_Type = ''public'', ac_HashedSecret = None, ac_RedirectUris = [],
            ac_PostLogoutRedirectUris = [], ac_DeviceFlowEnabled = False\<rparr>], pc_ResourceServers = []\<rparr>]\<rparr>,
      c_KeyStore = \<lparr>ks_Mode = ''memory'', ks_Vault = \<lparr>vk_Address = [], vk_Token = [], vk_Mount = [], vk_Prefix = []\<rparr>,
        ks_Directory_Path = []\<rparr>,
      c_Cache = \<lparr>cc_Mode = ''memory'', cc_Redis_Host = [], cc_Redis_Port = 0, cc_Redis_Username = [], cc_Redis_Password = [],
        cc_Redis_Database = 0\<rparr>,
      c_LeaderElection = \<lparr>le_Mode = ''none'', le_Raft = \<lparr>le_Host = [], le_Port = 0, le_Id = [], le_InitiatorId = [], le_Nodes = []\<rparr>\<rparr>\<rparr>"

lemma sample_config_checked: "\<exists>c'. setDefaultsOrPanic test_env ''PRODUCTION'' sample_config = Inr c' \<and> sc_Port (c_Server c') = 8080 \<and>
    sc_ExternalDomain (c_Server c') \<noteq> [] \<and> ivs_Name (c_InitialVirtualServer c') = ''keyline''"
  by (simp add: setDefaultsOrPanic_def Let_def sample_config_def setServerDefaultsOrPanic_def setFrontendDefaultsOrPanic_def
      setDatabaseDefaultsOrPanic_def setInitialVirtualServerDefaultsOrPanic_def setInitialAdminDefaultsOrPanic_def
      setInitialServiceUserDefaultsOrPanic_def setInitialProjectsDefaultsOrPanic_def check_project_def
      setInitialApplicationsDefaultsOrPanic_def check_application_def setInitialRolesDefaultsOrPanic_def
      setInitialResourceServersDefaultsOrPanic_def setKeyStoreDefaultsOrPanic_def setCacheDefaultsOrPanic_def
      setLeaderElectionDefaultsOrPanic_def default_to_def)


end
