(* ===== verification/Boot.thy ===== *)
theory Boot
  imports Config MediatorQueries MediatorSpec KeySpec JobRunner
begin

text \<open>
  The start of the program (\<^verbatim>\<open>cmd/api/main.go\<close>, \<^verbatim>\<open>internal/quorum\<close>): the initial virtual server is
  created from the configuration on the first start, and what the program does when it becomes the leader.
\<close>

section \<open>The initial virtual server\<close>

definition initial_admin :: "initial_virtual_server_config \<Rightarrow> create_virtual_server_admin option" where
  "initial_admin c =
     (if ivs_CreateAdmin c then
        let a = ivs_Admin c in
        Some \<lparr>cva_Username = adc_Username a, cva_DisplayName = adc_DisplayName a, cva_PrimaryEmail = adc_PrimaryEmail a,
              cva_PasswordHash = adc_PasswordHash a, cva_Roles = adc_Roles a\<rparr>
      else None)"

definition initial_project :: "initial_project_config \<Rightarrow> create_virtual_server_project" where
  "initial_project p =
     \<lparr>cvp_Slug = pc_Slug p, cvp_Name = pc_Name p, cvp_Description = pc_Description p,
      cvp_Applications = map (\<lambda>a.
        \<lparr>cvap_Name = ac_Name a, cvap_DisplayName = ac_DisplayName a, cvap_Type = ac_Type a, cvap_HashedSecret = ac_HashedSecret a,
         cvap_RedirectUris = ac_RedirectUris a, cvap_PostLogoutUris = ac_PostLogoutRedirectUris a,
         cvap_DeviceFlowEnabled = ac_DeviceFlowEnabled a\<rparr>) (pc_Applications p),
      cvp_Roles = map (\<lambda>r. \<lparr>cvro_Name = rc_Name r, cvro_Description = rc_Description r\<rparr>) (pc_Roles p),
      cvp_ResourceServers = map (\<lambda>r.
        \<lparr>cvr_Slug = rsc_Slug r, cvr_Name = rsc_Name r, cvr_Description = rsc_Description r\<rparr>) (pc_ResourceServers p)\<rparr>"

definition initial_command :: "initial_virtual_server_config \<Rightarrow> create_virtual_server" where
  "initial_command c =
     \<lparr>cvs_Name = ivs_Name c, cvs_DisplayName = ivs_DisplayName c, cvs_EnableRegistration = ivs_EnableRegistration c,
      cvs_PrimarySigningAlgorithm = ivs_PrimarySigningAlgorithm c,
      cvs_AdditionalSigningAlgorithms = ivs_AdditionalSigningAlgorithms c, cvs_Require2fa = False,
      cvs_CreateSystemAdminRole = ivs_CreateSystemAdminRole c, cvs_Admin = initial_admin c,
      cvs_ServiceUsers = map (\<lambda>u.
        \<lparr>cvu_Username = suc_Username u, cvu_Roles = suc_Roles u, cvu_Pem = suc_Pem u, cvu_Kid = suc_Kid u\<rparr>) (ivs_ServiceUsers c),
      cvs_Projects = map initial_project (ivs_Projects c)\<rparr>"

text \<open>
  The function in a scope of its own. An error is fatal: the process exits without closing the scope. A panic
  closes it on its way out.
\<close>

definition initApplication_body :: "env \<Rightarrow> embedded_files \<Rightarrow> initial_virtual_server_config \<Rightarrow> unit act" where
  "initApplication_body E cf c =
     bnd (wrapped ''failed to query if any virtual servers exist'' (mediatr_Ask E system_ctx AskAnyVirtualServerExists)) (\<lambda>found.
       if found = AnyVirtualServerExistsAnswer True then ret ()
       else
         bnd (fresh E (\<lambda>i now. NewSystemUser i now ''system-user'')) (\<lambda>systemUser.
         bnd (db_write (UserRepository_Insert systemUser)) (\<lambda>_.
         bnd (wrapped ''failed to create initial virtual server''
                (mediatr_Send E cf system_ctx (CreateVirtualServerCommand (initial_command c)))) (\<lambda>_. ret ()))))"

definition initApplication :: "env \<Rightarrow> embedded_files \<Rightarrow> initial_virtual_server_config \<Rightarrow> unit act" where
  "initApplication E cf c w =
     (case initApplication_body E cf c (w\<lparr>w_db := newContext (w_stores w)\<rparr>) of
        (Inl (Err e), w') \<Rightarrow> (Inl (Err e), w')
      | (r, w') \<Rightarrow>
          (case db_save w' of
             (Inr _, w2) \<Rightarrow> (r, w2)
           | (Inl _, w2) \<Rightarrow> (Inl (Panic ''failed creating scope to init application''), w2)))"

section \<open>Steps that return and only add entries\<close>

definition vs_free :: "entry \<Rightarrow> bool" where
  "vs_free e \<longleftrightarrow> entry_ok e \<and> ch_itemType e \<noteq> VirtualServerEntityType"

text \<open>
  A computation that returns, with a result that satisfies a predicate, and whose only effect on the database
  is a list of further entries, none of them on a virtual server.
\<close>

definition grows :: "('a \<Rightarrow> bool) \<Rightarrow> 'a act \<Rightarrow> bool" where
  "grows P m \<longleftrightarrow> (\<forall>w. \<exists>x w' es. m w = (Inr x, w') \<and> P x \<and> list_all vs_free es \<and> w_keys w' = w_keys w \<and> w_now w' = w_now w \<and>
     w_db w' = (w_db w)\<lparr>db_tracker := db_tracker (w_db w) @ es\<rparr>)"

named_theorems growing \<open>computations that return and only add entries\<close>

lemma grows_bnd [growing]:
  assumes "grows P m" "\<And>x. P x \<Longrightarrow> grows Q (f x)"
  shows "grows Q (bnd m f)"
  unfolding grows_def
proof
  fix w
  obtain x w1 es where 1: "m w = (Inr x, w1)" "P x" "list_all vs_free es" "w_keys w1 = w_keys w" "w_now w1 = w_now w"
    "w_db w1 = (w_db w)\<lparr>db_tracker := db_tracker (w_db w) @ es\<rparr>"
    using assms(1) unfolding grows_def by blast
  obtain y w2 fs where 2: "f x w1 = (Inr y, w2)" "Q y" "list_all vs_free fs" "w_keys w2 = w_keys w1" "w_now w2 = w_now w1"
    "w_db w2 = (w_db w1)\<lparr>db_tracker := db_tracker (w_db w1) @ fs\<rparr>"
    using assms(2) [OF 1(2)] unfolding grows_def by blast
  show "\<exists>y w' es. bnd m f w = (Inr y, w') \<and> Q y \<and> list_all vs_free es \<and> w_keys w' = w_keys w \<and> w_now w' = w_now w \<and>
      w_db w' = (w_db w)\<lparr>db_tracker := db_tracker (w_db w) @ es\<rparr>"
    using 1 2 by (intro exI [of _ y] exI [of _ w2] exI [of _ "es @ fs"]) (simp add: bnd_def)
qed

lemma grows_ret [growing]: "P x \<Longrightarrow> grows P (ret x)"
  unfolding grows_def by (auto intro!: exI [of _ "[]"])

lemma grows_wrapped [growing]: "grows P m \<Longrightarrow> grows P (wrapped msg m)"
  unfolding grows_def wrapped_eq_Inr by assumption

lemma grows_write [growing]: "vs_free e \<Longrightarrow> P () \<Longrightarrow> grows P (db_write (Tracker_Add e))"
  unfolding grows_def by (auto simp: db_write_def Tracker_Add_def intro!: exI [of _ "[e]"])

lemma grows_fresh [growing]: "(\<And>i now. P (new i now)) \<Longrightarrow> grows P (fresh E new)"
  unfolding grows_def fresh_def by (auto simp: bnd_def drew_act get_now_def drew_def intro!: exI [of _ "[]"])

lemma grows_uuid: "(\<And>i. P i) \<Longrightarrow> grows P (uuid_New E)"
  unfolding grows_def by (auto simp: uuid_New_def intro!: exI [of _ "[]"])

lemma grows_now: "(\<And>t. P t) \<Longrightarrow> grows P get_now"
  unfolding grows_def by (auto simp: get_now_def intro!: exI [of _ "[]"])

lemma grows_random [growing]: "(\<And>bs. P bs) \<Longrightarrow> grows P (GetSecureRandomBytes E k)"
  unfolding grows_def by (auto simp: drew_act drew_def intro!: exI [of _ "[]"])

lemma grows_each [growing]: "(\<And>x. x \<in> set xs \<Longrightarrow> grows (\<lambda>_. True) (f x)) \<Longrightarrow> P () \<Longrightarrow> grows P (each f xs)"
  by (induction xs) (auto intro: grows_bnd grows_ret)

lemma grows_weaken: "grows P m \<Longrightarrow> (\<And>x. P x \<Longrightarrow> Q x) \<Longrightarrow> grows Q m"
  unfolding grows_def by metis

text \<open>A loop that carries a map: every turn adds the keys of its element.\<close>

lemma grows_each_with:
  assumes "\<And>x m. grows (\<lambda>m'. dom (map_of m') = dom (map_of m) \<union> keys x) (f x m)"
  shows "grows (\<lambda>m'. dom (map_of m') = dom (map_of m) \<union> \<Union> (keys ` set xs)) (each_with f xs m)"
proof (induction xs arbitrary: m)
  case (Cons x xs)
  show ?case
    unfolding each_with.simps
    by (rule grows_bnd [OF assms]) (rule grows_weaken [OF Cons.IH], auto)
qed (simp add: grows_ret)

lemmas insert_defs = RoleRepository_Insert_def UserRepository_Insert_def CredentialRepository_Insert_def ApplicationRepository_Insert_def
  ProjectRepository_Insert_def ResourceServerRepository_Insert_def FileRepository_Insert_def TemplateRepository_Insert_def
  UserRoleAssignmentRepository_Insert_def

lemma vs_free_Insert [simp]:
  "vs_free (NewEntry Added RoleEntityType (ItemRole r))" "vs_free (NewEntry Added UserEntityType (ItemUser u))"
  "vs_free (NewEntry Added CredentialEntityType (ItemCredential c))" "vs_free (NewEntry Added ApplicationEntityType (ItemApplication a))"
  "vs_free (NewEntry Added ProjectEntityType (ItemProject p))" "vs_free (NewEntry Added ResourceServerEntityType (ItemResourceServer rs))"
  "vs_free (NewEntry Added FileEntityType (ItemFile f))" "vs_free (NewEntry Added TemplateEntityType (ItemTemplate t))"
  "vs_free (NewEntry Added UserRoleAssignmentEntityType (ItemUserRoleAssignment ra))"
  "vs_free (NewEntry Added AuditLogEntityType (ItemAuditLog al))"
  by (simp_all add: vs_free_def)


section \<open>The command grows\<close>

lemma grows_assign_role [growing]: "grows (\<lambda>_. True) (assign_role E u r)"
  unfolding assign_role_def insert_defs by (intro growing) simp_all

lemma grows_assignRoles:
  assumes "list_all (\<lambda>r. CHR '':'' \<in> set r \<and> r \<in> dom (map_of roleIds)) roleList"
  shows "grows (\<lambda>_. True) (assignRoles E u roleIds roleList)"
  unfolding assignRoles_def
proof (rule grows_each)
  fix r assume "r \<in> set roleList"
  then obtain i where "CHR '':'' \<in> set r" "map_of roleIds r = Some i"
    using assms by (auto simp: list_all_iff)
  then show "grows (\<lambda>_. True)
      (if CHR '':'' \<notin> set r then err (ErrorsNew (''role '' @ r @ '' does not contain project slug''))
       else case map_of roleIds r of None \<Rightarrow> err (ErrorsNew (''role '' @ r @ '' not found''))
         | Some roleId \<Rightarrow> assign_role E u roleId)"
    by (simp add: grows_assign_role)
qed simp

definition project_roles :: "create_virtual_server_project \<Rightarrow> string set" where
  "project_roles p = (\<lambda>r. cvp_Slug p @ '':'' @ cvro_Name r) ` set (cvp_Roles p)"

lemma grows_create_configured_role:
  "grows (\<lambda>m'. dom (map_of m') = dom (map_of m) \<union> {p_slug pr @ '':'' @ cvro_Name r})
     (create_configured_role E vsId pr r m)"
  unfolding create_configured_role_def insert_defs
  by (rule grows_bnd [OF grows_fresh [where P = "\<lambda>_. True"]], simp, rule grows_bnd [OF grows_write [where P = "\<lambda>_. True"]],
      simp, simp, rule grows_ret, simp add: update_conv')

lemma grows_create_configured_application: "grows (\<lambda>_. True) (create_configured_application E vsId i a)"
  unfolding create_configured_application_def insert_defs by (intro growing) simp_all

lemma grows_create_configured_project:
  "grows (\<lambda>m'. dom (map_of m') = dom (map_of m) \<union> project_roles p) (create_configured_project E vsId p m)"
  unfolding create_configured_project_def insert_defs
proof (rule grows_bnd [OF grows_fresh [where P = "\<lambda>pr. p_slug pr = cvp_Slug p"]], simp add: NewProject_def)
  fix pr :: project
  assume pr: "p_slug pr = cvp_Slug p"
  have roles: "grows (\<lambda>m'. dom (map_of m') = dom (map_of m) \<union> project_roles p)
      (each_with (create_configured_role E vsId pr) (cvp_Roles p) m)"
  proof -
    have "\<Union> ((\<lambda>r. {p_slug pr @ '':'' @ cvro_Name r}) ` set (cvp_Roles p)) = project_roles p"
      by (auto simp: pr project_roles_def)
    then show ?thesis
      using grows_each_with [where f = "create_configured_role E vsId pr" and xs = "cvp_Roles p" and m = m,
          OF grows_create_configured_role] by simp
  qed
  show "grows (\<lambda>m'. dom (map_of m') = dom (map_of m) \<union> project_roles p)
     (bnd (db_write (Tracker_Add (NewEntry Added ProjectEntityType (ItemProject pr)))) (\<lambda>_.
      bnd (each (create_configured_application E vsId (bm_id (p_base pr))) (cvp_Applications p)) (\<lambda>_.
      bnd (each_with (create_configured_role E vsId pr) (cvp_Roles p) m) (\<lambda>roleIds.
      bnd (each (\<lambda>r. bnd (fresh E (\<lambda>i now. NewResourceServer i now vsId (bm_id (p_base pr)) (cvr_Slug r) (cvr_Name r)
                          (cvr_Description r)))
                     (\<lambda>rs. db_write (Tracker_Add (NewEntry Added ResourceServerEntityType (ItemResourceServer rs)))))
            (cvp_ResourceServers p)) (\<lambda>_. ret roleIds)))))"
    by (rule grows_bnd [OF grows_write [where P = "\<lambda>_. True"]], simp, simp,
        rule grows_bnd [OF grows_each [OF grows_create_configured_application, where P = "\<lambda>_. True"]], simp,
        rule grows_bnd [OF roles],
        rule grows_bnd [where P = "\<lambda>_. True"], (intro growing; simp), simp add: grows_ret)
qed


text \<open>The names of the roles that a command can refer to, and those it refers to.\<close>

definition known_roles :: "create_virtual_server \<Rightarrow> string list" where
  "known_roles c = ''system:admin'' # (if cvs_CreateSystemAdminRole c then [''system:system-admin''] else []) @
     concat (map (\<lambda>p. map (\<lambda>r. cvp_Slug p @ '':'' @ cvro_Name r) (cvp_Roles p)) (cvs_Projects c))"

definition referenced_roles :: "create_virtual_server \<Rightarrow> string list" where
  "referenced_roles c = (case cvs_Admin c of None \<Rightarrow> [] | Some a \<Rightarrow> cva_Roles a) @ concat (map cvu_Roles (cvs_ServiceUsers c))"

lemma known_roles_eq:
  "set (known_roles c) = {''system:admin''} \<union> (if cvs_CreateSystemAdminRole c then {''system:system-admin''} else {}) \<union>
     \<Union> (project_roles ` set (cvs_Projects c))"
  by (auto simp: known_roles_def project_roles_def)

lemma known_roles_colon: "r \<in> set (known_roles c) \<Longrightarrow> CHR '':'' \<in> set r"
  by (auto simp: known_roles_def split: if_splits)

lemma grows_initializeDefaultTemplates: "grows (\<lambda>_. True) (initializeDefaultTemplates E t vs)"
  unfolding initializeDefaultTemplates_def insertTemplate_def insert_defs by (intro growing) simp_all

lemma grows_initializeDefaultApplications: "grows (\<lambda>_. True) (initializeDefaultApplications E vs p)"
  unfolding initializeDefaultApplications_def insert_defs Let_def by (intro growing) simp_all

lemma grows_initializeDefaultAdminRoles:
  "grows (\<lambda>r. (snd r \<noteq> None) = b) (initializeDefaultAdminRoles E vs p b)"
  unfolding initializeDefaultAdminRoles_def insert_defs by (cases b; simp; (intro growing); simp)

lemma grows_create_admin:
  assumes "list_all (\<lambda>r. CHR '':'' \<in> set r \<and> r \<in> dom (map_of roleIds)) (cva_Roles a)" "(snd roles \<noteq> None) = b"
  shows "grows (\<lambda>_. True) (create_admin E vsId b roles roleIds a)"
  unfolding create_admin_def insert_defs using assms
  by (cases b) (auto intro!: growing grows_assignRoles simp del: act_base_simps)

lemma grows_create_configured_service_user:
  assumes "list_all (\<lambda>r. CHR '':'' \<in> set r \<and> r \<in> dom (map_of roleIds)) (cvu_Roles u)"
  shows "grows (\<lambda>_. True) (create_configured_service_user E vsId roleIds u)"
  unfolding create_configured_service_user_def insert_defs using assms
  by (intro growing grows_assignRoles) auto


section \<open>The command as a whole\<close>

definition configured_server :: "create_virtual_server \<Rightarrow> uuid \<Rightarrow> time \<Rightarrow> virtual_server" where
  "configured_server c i now =
     VirtualServer_SetAdditionalSigningAlgorithms (cvs_AdditionalSigningAlgorithms c)
       (VirtualServer_SetPrimarySigningAlgorithm (cvs_PrimarySigningAlgorithm c)
         (VirtualServer_SetRequire2fa (cvs_Require2fa c)
           (VirtualServer_SetEnableRegistration (cvs_EnableRegistration c)
             (NewVirtualServer i now (cvs_Name c) (cvs_DisplayName c)))))"

lemma configured_server_fields [simp]:
  "vs_name (configured_server c i now) = cvs_Name c" "vs_displayName (configured_server c i now) = cvs_DisplayName c"
  "vs_enableRegistration (configured_server c i now) = cvs_EnableRegistration c"
  "vs_primarySigningAlgorithm (configured_server c i now) = cvs_PrimarySigningAlgorithm c"
  "vs_additionalSigningAlgorithms (configured_server c i now) = cvs_AdditionalSigningAlgorithms c"
  "bm_id (vs_base (configured_server c i now)) = i"
  by (auto simp: configured_server_def NewVirtualServer_def VirtualServer_SetEnableRegistration_def VirtualServer_SetRequire2fa_def
      VirtualServer_SetPrimarySigningAlgorithm_def VirtualServer_SetAdditionalSigningAlgorithms_def NewBaseModel_def)

lemma rest_of_CreateVirtualServer:
  assumes "list_all (\<lambda>r. r \<in> set (known_roles c)) (referenced_roles c)"
  shows "\<exists>rest. (\<forall>vs. grows (\<lambda>_. True) (rest vs)) \<and>
    HandleCreateVirtualServer E t c =
      bnd (fresh E (configured_server c)) (\<lambda>vs.
      bnd (db_write (VirtualServerRepository_Insert vs)) (\<lambda>_.
      bnd (each (\<lambda>alg. bnd (wrapped (''generating keypair for '' @ alg) (generate_key E (cvs_Name c) alg)) (\<lambda>_. ret ()))
             (VirtualServer_AllSigningAlgorithms vs)) (\<lambda>_. rest vs)))"
proof -
  let ?known = "\<lambda>roleIds :: role_ids. dom (map_of roleIds) = set (known_roles c)"
  have refs: "list_all (\<lambda>r. CHR '':'' \<in> set r \<and> r \<in> dom (map_of roleIds)) rs"
    if "?known roleIds" "set rs \<subseteq> set (referenced_roles c)" for roleIds rs
    unfolding that(1) using that(2) assms known_roles_colon by (auto simp: list_all_iff)
  have projects: "grows ?known (each_with (create_configured_project E vsId) (cvs_Projects c) m)"
    if "dom (map_of m) = {''system:admin''} \<union> (if cvs_CreateSystemAdminRole c then {''system:system-admin''} else {})" for vsId m
    unfolding known_roles_eq that [symmetric] by (rule grows_each_with) (rule grows_create_configured_project)
  have admin: "grows (\<lambda>_. True) (case cvs_Admin c of None \<Rightarrow> ret ()
      | Some a \<Rightarrow> create_admin E vsId (cvs_CreateSystemAdminRole c) roles roleIds a)"
    if "?known roleIds" "(snd roles \<noteq> None) = cvs_CreateSystemAdminRole c" for vsId roles roleIds
  proof (cases "cvs_Admin c")
    case (Some a)
    then show ?thesis
      using grows_create_admin [OF refs [OF that(1), of "cva_Roles a"] that(2)] by (simp add: referenced_roles_def)
  qed (simp add: grows_ret del: act_base_simps)
  have users: "grows (\<lambda>_. True) (create_configured_service_user E vsId roleIds u)"
    if "?known roleIds" "u \<in> set (cvs_ServiceUsers c)" for vsId roleIds u
    using that(2) by (intro grows_create_configured_service_user refs [OF that(1)]) (auto simp: referenced_roles_def)
  show ?thesis
    unfolding configured_server_def
    apply (rule exI, rule conjI [rotated], rule HandleCreateVirtualServer_def)
    apply (intro allI)
    apply (rule grows_bnd [OF grows_initializeDefaultTemplates])
    apply (rule grows_bnd [OF grows_fresh [where P = "\<lambda>p. p_slug p = ''system''"]], simp add: NewSystemProject_def NewProject_def)
    apply (unfold insert_defs, rule grows_bnd [OF grows_write [where P = "\<lambda>_. True"]], simp, simp)
    apply (rule grows_bnd [OF grows_initializeDefaultApplications])
    apply (rule grows_bnd [OF grows_initializeDefaultAdminRoles])
    apply (unfold Let_def, rule grows_bnd [OF projects])
     apply (auto simp: AdminRoleName_def SystemAdminRoleName_def update_conv' split: option.splits) [1]
    apply (rule grows_bnd [OF admin], assumption, assumption)
    apply (rule grows_bnd [OF grows_each [OF users, where P = "\<lambda>_. True"]], assumption, assumption, simp)
    apply (simp add: grows_ret del: act_base_simps)
    done
qed


lemma generate_loop:
  "generate_each E NewMemoryKeyStore (w_now w) vs algs (w_rand w) (w_keys w) = (Inr (), n', keys) \<Longrightarrow>
   each (\<lambda>alg. bnd (wrapped (''generating keypair for '' @ alg) (generate_key E vs alg)) (\<lambda>_. ret ())) algs w =
     (Inr (), w\<lparr>w_keys := keys, w_rand := n'\<rparr>)"
proof (induction algs arbitrary: w)
  case (Cons alg algs)
  then obtain kp ks where g: "KeyService_Generate E NewMemoryKeyStore (w_now w) (w_rand w) vs alg (w_keys w) = (Inr kp, ks)"
    and rest: "generate_each E NewMemoryKeyStore (w_now w) vs algs (Suc (w_rand w)) ks = (Inr (), n', keys)"
    by (auto split: prod.splits sum.splits)
  show ?case
    using Cons.IH [of "w\<lparr>w_keys := ks, w_rand := Suc (w_rand w)\<rparr>"] rest
    by (simp add: bnd_def wrapped_def generate_key_def g)
qed simp

definition server_entry :: "virtual_server \<Rightarrow> entry" where
  "server_entry vs = NewEntry Added VirtualServerEntityType (ItemVirtualServer vs)"

lemma CreateVirtualServer_run:
  assumes "list_all (\<lambda>r. r \<in> set (known_roles c)) (referenced_roles c)"
    and "memory_valid (w_keys w)" "plain_name (cvs_Name c)"
    and "set (cvs_PrimarySigningAlgorithm c # cvs_AdditionalSigningAlgorithms c) \<subseteq> set SupportedSigningAlgorithms"
  shows "\<exists>x w2 vs i es. HandleCreateVirtualServer E t c w = (Inr x, w2) \<and> vs = configured_server c i (w_now w) \<and>
    w_now w2 = w_now w \<and> list_all vs_free es \<and>
    w_db w2 = (w_db w)\<lparr>db_tracker := db_tracker (w_db w) @ server_entry vs # es\<rparr> \<and>
    list_all (\<lambda>alg. \<exists>kid kp. memory_view (w_keys w2) (cvs_Name c) alg kid = Some kp \<and> w_now w < kp_rotatesAt kp)
      (VirtualServer_AllSigningAlgorithms vs)"
proof -
  obtain rest where grow: "\<forall>vs. grows (\<lambda>_. True) (rest vs)"
    and split: "HandleCreateVirtualServer E t c =
      bnd (fresh E (configured_server c)) (\<lambda>vs.
      bnd (db_write (VirtualServerRepository_Insert vs)) (\<lambda>_.
      bnd (each (\<lambda>alg. bnd (wrapped (''generating keypair for '' @ alg) (generate_key E (cvs_Name c) alg)) (\<lambda>_. ret ()))
             (VirtualServer_AllSigningAlgorithms vs)) (\<lambda>_. rest vs)))"
    using rest_of_CreateVirtualServer [OF assms(1), of E t] by (elim exE conjE) (rule that)
  let ?i = "e_uuid_New E (w_rand w)"
  let ?vs = "configured_server c ?i (w_now w)"
  let ?w1 = "(drew w)\<lparr>w_db := (w_db w)\<lparr>db_tracker := db_tracker (w_db w) @ [server_entry ?vs]\<rparr>\<rparr>"
  have algs: "set (VirtualServer_AllSigningAlgorithms ?vs) \<subseteq> set SupportedSigningAlgorithms"
    using assms(4) by (simp add: VirtualServer_AllSigningAlgorithms_def)
  obtain n' keys where keys: "generate_each E NewMemoryKeyStore (w_now ?w1) (cvs_Name c)
      (VirtualServer_AllSigningAlgorithms ?vs) (w_rand ?w1) (w_keys ?w1) = (Inr (), n', keys)"
    and due: "\<forall>a \<in> set (VirtualServer_AllSigningAlgorithms ?vs). \<exists>k kp. memory_view keys (cvs_Name c) a k = Some kp \<and>
        kp_rotatesAt kp = w_now w + Hour * 24 * 20"
  proof -
    obtain n' s' where "generate_each E NewMemoryKeyStore (w_now w) (cvs_Name c) (VirtualServer_AllSigningAlgorithms ?vs)
        (Suc (w_rand w)) (w_keys w) = (Inr (), n', s')"
      "\<forall>a \<in> set (VirtualServer_AllSigningAlgorithms ?vs). \<exists>k kp. memory_view s' (cvs_Name c) a k = Some kp \<and>
        kp_rotatesAt kp = w_now w + Hour * 24 * 20 \<and> kp_expiresAt kp = w_now w + Hour * 24 * 30"
      using memory_store.generate_each_view [OF memory_fresh_keys assms(2,3) algs, where E = E and now = "w_now w" and n = "Suc (w_rand w)"]
      by (elim exE conjE)
    then show ?thesis by (intro that [of n' s']) (simp add: drew_def, meson)
  qed
  obtain x w2 es where g: "rest ?vs (?w1\<lparr>w_keys := keys, w_rand := n'\<rparr>) = (Inr x, w2)" "list_all vs_free es"
    "w_keys w2 = keys" "w_now w2 = w_now w"
    "w_db w2 = (w_db w)\<lparr>db_tracker := db_tracker (w_db w) @ server_entry ?vs # es\<rparr>"
    using grow [THEN spec, of ?vs, unfolded grows_def, rule_format, of "?w1\<lparr>w_keys := keys, w_rand := n'\<rparr>"]
    by (elim exE conjE, intro that) (simp_all add: drew_def)
  have "HandleCreateVirtualServer E t c w = (Inr x, w2)"
    using generate_loop [OF keys] g(1)
    by (simp add: split bnd_def fresh_def drew_act get_now_def db_write_def Tracker_Add_def server_entry_def
        VirtualServerRepository_Insert_def drew_def)
  moreover have "list_all (\<lambda>alg. \<exists>kid kp. memory_view (w_keys w2) (cvs_Name c) alg kid = Some kp \<and> w_now w < kp_rotatesAt kp)
      (VirtualServer_AllSigningAlgorithms ?vs)"
    unfolding list_all_iff g(3)
  proof
    fix alg assume "alg \<in> set (VirtualServer_AllSigningAlgorithms ?vs)"
    then obtain k kp where "memory_view keys (cvs_Name c) alg k = Some kp" "kp_rotatesAt kp = w_now w + Hour * 24 * 20"
      using due by meson
    moreover have "w_now w < w_now w + Hour * 24 * 20" by (simp add: Hour_def Minute_def Second_def)
    ultimately show "\<exists>kid kp. memory_view keys (cvs_Name c) alg kid = Some kp \<and> w_now w < kp_rotatesAt kp" by metis
  qed
  ultimately show ?thesis using g by blast
qed


section \<open>What is saved\<close>

lemma vs_free_applies:
  "vs_free e \<Longrightarrow> \<exists>st'. Context_applyChange st e = Inr st' \<and> st_VirtualServers st' = st_VirtualServers st"
proof -
  assume e: "vs_free e"
  then obtain st' where "Context_applyChange st e = Inr st'" using entry_ok_returns [of e st] by (auto simp: vs_free_def)
  with e show ?thesis
    by (cases "ch_itemType e") (auto simp: vs_free_def Context_applyChange_def go_bind_Inr_iff)
qed

lemma vs_free_all_apply:
  "list_all vs_free es \<Longrightarrow> \<exists>st'. apply_entries st es = (st', None) \<and> st_VirtualServers st' = st_VirtualServers st"
proof (induction es arbitrary: st)
  case (Cons e es)
  then obtain st1 where st1: "Context_applyChange st e = Inr st1" "st_VirtualServers st1 = st_VirtualServers st"
    using vs_free_applies by fastforce
  with Cons.IH [of st1] Cons.prems show ?case by (auto simp: st1)
qed simp

lemma server_entry_applies:
  "Context_applyChange st (server_entry vs) =
     Inr (st\<lparr>st_VirtualServers := AList.update (bm_id (vs_base vs)) (written_VirtualServer vs) (st_VirtualServers st)\<rparr>)"
  by (simp add: server_entry_def Context_applyChange_def applyChange_def as_VirtualServer_def Let_def written_VirtualServer_def)

lemma SystemUser_granted: "granted SystemUser_identity SystemUser"
  by (simp add: SystemUser_identity_def granted_assign) (simp add: AllRoles_def role_permission_defs)

lemma system_evaluates:
  assumes "rq_IsAllowed rq = PermissionBasedPolicy p"
  shows "\<exists>i vsId reason. evaluatePolicy rq system_ctx w = (Inr (Allowed i vsId reason), w)"
  using evaluatePolicy_allowed [OF assms, of system_ctx SystemUser_identity w] SystemUser_granted
  by (auto simp: system_ctx_def)

lemma grows_log: "grows (\<lambda>_. True) (dbAuditLogger_Log E rq (Allowed i vsId reason) j)"
proof -
  obtain b where b: "isBootstrapRequest (Allowed i vsId reason) = Inr b"
    by (cases "i = uuid_Nil") (simp_all add: isBootstrapRequest_def)
  show ?thesis
    unfolding dbAuditLogger_Log_def b AuditLogRepository_Insert_def
    by (cases b) (auto intro!: growing grows_uuid grows_now simp del: act_base_simps)
qed


section \<open>The first start\<close>

lemma asks_existing:
  "mediatr_Ask E ctx AskAnyVirtualServerExists w = (Inr (AnyVirtualServerExistsAnswer (st_VirtualServers (w_stores w) \<noteq> [])), w)"
proof -
  have "VirtualServer_matches NewVirtualServerFilter v = Inr True" for v
    by (simp add: filter_defs repo_defs)
  then have "VirtualServerRepository_FirstOrNil st NewVirtualServerFilter = Inr (first_of (map snd st))" for st
    using filter_go_pure [of "map snd st" "VirtualServer_matches NewVirtualServerFilter" "\<lambda>_. True"]
    by (simp add: VirtualServerRepository_FirstOrNil_def VirtualServerRepository_filtered_def repo_filtered_def)
  then show ?thesis
    by (cases "st_VirtualServers (w_stores w)")
      (simp_all add: mediatr_Ask_def answered_def HandleAnyVirtualServerExists_def bnd_def wrapped_def db_read_def)
qed

lemma later_start:
  assumes "st_VirtualServers (w_stores w) \<noteq> []" "w_db w = newContext (w_stores w)"
  shows "initApplication E cf c w = (Inr (), w)"
  using assms(1) save_ok [of w "w_stores w"]
  by (simp add: initApplication_def initApplication_body_def bnd_def wrapped_def asks_existing assms(2) [symmetric])
    (simp add: assms(2) newContext_def NewTracker_def)


lemma first_start_run:
  assumes "st_VirtualServers (w_stores w) = []" "memory_valid (w_keys w)" "plain_name (ivs_Name c)"
    and "set (ivs_PrimarySigningAlgorithm c # ivs_AdditionalSigningAlgorithms c) \<subseteq> set SupportedSigningAlgorithms"
    and "list_all (\<lambda>r. r \<in> set (known_roles (initial_command c))) (referenced_roles (initial_command c))"
  shows "\<exists>w' i vs. initApplication E cf c w = (Inr (), w') \<and> w_db w' = newContext (w_stores w') \<and>
    st_VirtualServers (w_stores w') = [(i, written_VirtualServer vs)] \<and> vs = configured_server (initial_command c) i (w_now w) \<and>
    list_all (\<lambda>alg. \<exists>kid kp. memory_view (w_keys w') (ivs_Name c) alg kid = Some kp \<and> w_now w < kp_rotatesAt kp)
      (VirtualServer_AllSigningAlgorithms vs)"
proof -
  let ?c = "initial_command c" and ?rq = "CreateVirtualServer_Policy E (initial_command c)"
  let ?w0 = "w\<lparr>w_db := newContext (w_stores w)\<rparr>"
  let ?user = "NewSystemUser (e_uuid_New E (w_rand w)) (w_now w) ''system-user''"
  let ?e = "NewEntry Added UserEntityType (ItemUser ?user)"
  let ?w1 = "(drew w)\<lparr>w_db := (newContext (w_stores w))\<lparr>db_tracker := [?e]\<rparr>\<rparr>"
  obtain x w2 vs i es where run: "HandleCreateVirtualServer E (cf_defaultTemplate cf) ?c ?w1 = (Inr x, w2)"
    and vs: "vs = configured_server ?c i (w_now w)" and es: "list_all vs_free es"
    and w2: "w_now w2 = w_now w" "w_db w2 = (newContext (w_stores w))\<lparr>db_tracker := ?e # server_entry vs # es\<rparr>"
    and keys: "list_all (\<lambda>alg. \<exists>kid kp. memory_view (w_keys w2) (ivs_Name c) alg kid = Some kp \<and> w_now w < kp_rotatesAt kp)
      (VirtualServer_AllSigningAlgorithms vs)"
    using CreateVirtualServer_run [of ?c ?w1 E "cf_defaultTemplate cf"] assms(2-5)
    by (auto simp: initial_command_def drew_def)
  obtain st1 where st1: "Context_applyChange (w_stores w) ?e = Inr st1" "st_VirtualServers st1 = []"
    using vs_free_applies [of ?e "w_stores w"] assms(1) by auto
  obtain st2 where st2: "apply_entries (w_stores w) (db_tracker (w_db w2)) = (st2, None)"
    "st_VirtualServers st2 = [(i, written_VirtualServer vs)]"
    using vs_free_all_apply [OF es, of "st1\<lparr>st_VirtualServers := [(i, written_VirtualServer vs)]\<rparr>"]
    by (auto simp: w2 st1 server_entry_applies vs)
  let ?w3 = "w2\<lparr>w_db := newContext st2\<rparr>"
  have save1: "db_save w2 = (Inr (), ?w3)"
    using st2(1) by (intro save_ok) (simp add: w2 w_stores_def newContext_def)
  obtain u vsId reason where ev: "evaluatePolicy ?rq system_ctx ?w1 = (Inr (Allowed u vsId reason), ?w1)"
    using system_evaluates [of ?rq VirtualServerCreate ?w1] by (auto simp: CreateVirtualServer_Policy_def)
  obtain w4 fs where log: "dbAuditLogger_Log E ?rq (Allowed u vsId reason) (created_server_json E x) ?w3 = (Inr (), w4)"
    "list_all vs_free fs" "w_keys w4 = w_keys w2" "w_db w4 = (newContext st2)\<lparr>db_tracker := fs\<rparr>"
    using grows_log [of E ?rq u vsId reason "created_server_json E x", unfolded grows_def, rule_format, of ?w3]
    by (auto simp: newContext_def NewTracker_def)
  have logged: "rq_LogRequest ?rq" "rq_LogResponse ?rq" by (simp_all add: CreateVirtualServer_Policy_def)
  have send: "mediatr_Send E cf system_ctx (CreateVirtualServerCommand ?c) ?w1 = (Inr (created_server_json E x), w4)"
    using run save1 log(1) logged
    by (simp add: mediatr_Send_def Send_def PolicyBehaviour_def SaveChangesBehaviour_def bnd_def wrapped_def ev answer_of_def)
  have body: "initApplication_body E cf c ?w0 = (Inr (), w4)"
    using send assms(1)
    by (simp add: initApplication_body_def bnd_def wrapped_def asks_existing fresh_def drew_act get_now_def db_write_def
        UserRepository_Insert_def Tracker_Add_def drew_def w_stores_def newContext_def NewTracker_def)
  obtain st3 where st3: "apply_entries (w_stores w4) (db_tracker (w_db w4)) = (st3, None)"
    "st_VirtualServers st3 = [(i, written_VirtualServer vs)]"
    using vs_free_all_apply [OF log(2), of st2] st2(2) by (auto simp: log(4) w_stores_def newContext_def)
  have "initApplication E cf c w = (Inr (), w4\<lparr>w_db := newContext st3\<rparr>)"
    by (simp add: initApplication_def body save_ok [OF st3(1)])
  then show ?thesis
    using st3(2) keys vs log(3) by (intro exI [of _ "w4\<lparr>w_db := newContext st3\<rparr>"]) (auto simp: w_stores_def newContext_def)
qed


text \<open>
  C11: the first start creates the configured virtual server. When the database has no virtual server, and the
  configuration has a name without a colon, supported signing algorithms and only roles that exist, the start
  succeeds; the database then has exactly one virtual server, with the configured name, registration and
  algorithms, and for each of its algorithms a signing key that is not yet due for rotation. Every later start
  finds it and changes nothing.
\<close>

theorem first_start_creates_server:
  assumes "st_VirtualServers (w_stores w) = []" "memory_valid (w_keys w)" "plain_name (ivs_Name c)"
    and "set (ivs_PrimarySigningAlgorithm c # ivs_AdditionalSigningAlgorithms c) \<subseteq> set SupportedSigningAlgorithms"
    and "list_all (\<lambda>r. r \<in> set (known_roles (initial_command c))) (referenced_roles (initial_command c))"
  shows "\<exists>w' i vs. initApplication E cf c w = (Inr (), w') \<and> st_VirtualServers (w_stores w') = [(i, vs)] \<and>
    vs_name vs = ivs_Name c \<and> vs_enableRegistration vs = ivs_EnableRegistration c \<and>
    VirtualServer_AllSigningAlgorithms vs = all_algorithms [ivs_PrimarySigningAlgorithm c] (ivs_AdditionalSigningAlgorithms c) \<and>
    list_all (\<lambda>alg. \<exists>kid kp. memory_view (w_keys w') (ivs_Name c) alg kid = Some kp \<and> w_now w < kp_rotatesAt kp)
      (VirtualServer_AllSigningAlgorithms vs) \<and>
    initApplication E cf c w' = (Inr (), w')"
proof -
  obtain w' i and vs :: virtual_server where run: "initApplication E cf c w = (Inr (), w')" "w_db w' = newContext (w_stores w')"
    "st_VirtualServers (w_stores w') = [(i, written_VirtualServer vs)]" "vs = configured_server (initial_command c) i (w_now w)"
    "list_all (\<lambda>alg. \<exists>kid kp. memory_view (w_keys w') (ivs_Name c) alg kid = Some kp \<and> w_now w < kp_rotatesAt kp)
      (VirtualServer_AllSigningAlgorithms vs)"
    using first_start_run [OF assms, of E cf] by (elim exE conjE)
  have same: "VirtualServer_AllSigningAlgorithms (written_VirtualServer vs) = VirtualServer_AllSigningAlgorithms vs"
    by (simp add: VirtualServer_AllSigningAlgorithms_def written_VirtualServer_def)
  have "initApplication E cf c w' = (Inr (), w')"
    using later_start [OF _ run(2), of E cf c] run(3) by simp
  moreover have "vs_name vs = ivs_Name c" "vs_enableRegistration vs = ivs_EnableRegistration c"
    "VirtualServer_AllSigningAlgorithms vs = all_algorithms [ivs_PrimarySigningAlgorithm c] (ivs_AdditionalSigningAlgorithms c)"
    by (simp_all add: run(4) VirtualServer_AllSigningAlgorithms_def) (simp_all add: initial_command_def)
  ultimately show ?thesis
    using run(1,3,5) same
    by (intro exI [of _ w'] exI [of _ i] exI [of _ "written_VirtualServer vs"]) (simp_all add: written_VirtualServer_def)
qed

definition sample_initial :: initial_virtual_server_config where
  "sample_initial =
     \<lparr>ivs_Name = ''keyline'', ivs_DisplayName = ''Keyline'', ivs_EnableRegistration = True, ivs_PrimarySigningAlgorithm = SigningAlgorithmEdDSA,
      ivs_AdditionalSigningAlgorithms = [SigningAlgorithmRS256], ivs_CreateSystemAdminRole = True, ivs_CreateAdmin = True,
      ivs_Admin = \<lparr>adc_Username = ''root'', adc_DisplayName = ''Root'', adc_PrimaryEmail = ''root@x'', adc_PasswordHash = ''h'',
        adc_Roles = [''shop:clerk'']\<rparr>,
      ivs_ServiceUsers = [\<lparr>suc_Username = ''robot'', suc_Roles = [''system:admin''], suc_Pem = ''pem'', suc_Kid = ''k''\<rparr>],
      ivs_Projects = [\<lparr>pc_Slug = ''shop'', pc_Name = ''Shop'', pc_Description = [],
        pc_Roles = [\<lparr>rc_Name = ''clerk'', rc_Description = []\<rparr>], pc_Applications = [], pc_ResourceServers = []\<rparr>]\<rparr>"

theorem first_start_creates_server_witness:
  "\<exists>w' i vs. initApplication test_env no_files sample_initial (sample_world\<lparr>w_db := newContext newStores\<rparr>) = (Inr (), w') \<and>
    st_VirtualServers (w_stores w') = [(i, vs)] \<and> vs_name vs = ''keyline''"
proof -
  have roles: "list_all (\<lambda>r. r \<in> set (known_roles (initial_command sample_initial))) (referenced_roles (initial_command sample_initial))"
    by (simp add: sample_initial_def known_roles_def referenced_roles_def initial_command_def initial_admin_def initial_project_def)
  have "plain_name (ivs_Name sample_initial)" "set (ivs_PrimarySigningAlgorithm sample_initial #
      ivs_AdditionalSigningAlgorithms sample_initial) \<subseteq> set SupportedSigningAlgorithms" "ivs_Name sample_initial = ''keyline''"
    by (simp_all add: sample_initial_def plain_name_def SupportedSigningAlgorithms_def)
  then show ?thesis
    using first_start_creates_server [OF _ _ _ _ roles, of "sample_world\<lparr>w_db := newContext newStores\<rparr>" test_env no_files]
    by (fastforce simp: sample_world_def world_with_def w_stores_def newContext_def newStores_def memory_valid_def)
qed

section \<open>The leader\<close>

text \<open>
  \<^verbatim>\<open>internal/quorum\<close>: without leader election the program leads from the start. The callback of the program
  makes a manager with the two jobs when it becomes the leader, and stops it when it is no longer.
\<close>

datatype leader_election = NoLeaderElection | RaftLeaderElection

definition Build :: "leader_election_config \<Rightarrow> leader_election go" where
  "Build c =
     (if le_Mode c = ''none'' then Inr NoLeaderElection
      else if le_Mode c = ''raft'' then Inr RaftLeaderElection
      else Inl (Panic (''leader election mode '' @ le_Mode c @ '' not supported'')))"

definition noLeaderElection_Start :: "(bool \<Rightarrow> 's \<Rightarrow> 's go) \<Rightarrow> 's \<Rightarrow> 's go" where
  "noLeaderElection_Start callback s = callback True s"

definition noLeaderElection_IsLeader :: bool where
  "noLeaderElection_IsLeader = True"

text \<open>The variable of the manager starts as nil; the default name of a job is generated.\<close>

definition on_leader_change :: "string \<Rightarrow> string \<Rightarrow> bool \<Rightarrow> manager option \<Rightarrow> manager option go" where
  "on_leader_change default1 default2 isLeader jobManager =
     (if isLeader then
        go_bind (QueueJob default1 (Second * 10) [WithName ''outbox_sender'', WithStartImmediate] NewJobManager) (\<lambda>m.
        go_bind (QueueJob default2 Hour [WithName ''signing_key_rotation'', WithStartImmediate] m) (\<lambda>m.
          Inr (Some (Start m))))
      else Inr (map_option Stop jobManager))"

lemma leader_runs_jobs:
  "\<exists>m. noLeaderElection_Start (on_leader_change d1 d2) None = Inr (Some m) \<and> mg_isRunning m \<and>
     map jb_name (mg_jobs m) = [''outbox_sender'', ''signing_key_rotation''] \<and> map go_job (mg_routines m) = [0, 1]"
  by (simp add: noLeaderElection_Start_def on_leader_change_def QueueJob_def NewJobManager_def Start_def WithName_def
      WithStartImmediate_def)

end
