(* ===== verification/Api.thy ===== *)
theory Api
  imports MediatorQueries MediatorSpec
begin

text \<open>
  What the handlers of the resource API share: requests, the options of a listing
  (\<^verbatim>\<open>internal/handlers/queryops.go\<close>, \<^verbatim>\<open>pagedresponsedto.go\<close>), the tags of the validator
  (\<^verbatim>\<open>utils/validation.go\<close>), and the middlewares around every route. The body of a request is what
  \<^verbatim>\<open>json.Decoder.Decode\<close> leaves: its error, if any, and the value it filled, for there are handlers
  that report the error and go on.
\<close>

section \<open>Requests\<close>

record api_request =
  aq_Vars :: "(string \<times> string) list"
  aq_ParseForm :: "goerr option"
  aq_Form :: "string \<Rightarrow> string"
  aq_Query :: "string \<Rightarrow> string"
  aq_Authorization :: string

text \<open>
  Library functions: the checks \<^verbatim>\<open>url\<close> and \<^verbatim>\<open>email\<close> of the validator, and what
  \<^verbatim>\<open>uuid.Parse\<close> returns beside its error.
\<close>

record http_libs =
  hl_url :: "string \<Rightarrow> bool"
  hl_email :: "string \<Rightarrow> bool"
  hl_uuid_rest :: "string \<Rightarrow> uuid"

definition path_var :: "api_request \<Rightarrow> string \<Rightarrow> string" where
  "path_var r name = (case map_of (aq_Vars r) name of None \<Rightarrow> [] | Some v \<Rightarrow> v)"

definition server_name :: "req_ctx \<Rightarrow> (string \<Rightarrow> unit act) \<Rightarrow> unit act" where
  "server_name ctx f =
     or_http (if rc_vsName ctx = [] then err (Named ErrMissingVirtualServerNameInContext) else ret (rc_vsName ctx)) f"

definition path_uuid :: "env \<Rightarrow> api_request \<Rightarrow> string \<Rightarrow> (uuid \<Rightarrow> unit act) \<Rightarrow> unit act" where
  "path_uuid E r name f =
     (case e_uuid_Parse E (path_var r name) of None \<Rightarrow> HandleHttpError (Named ErrInvalidUuid) | Some i \<Rightarrow> f i)"

text \<open>The same without the return after the error.\<close>

definition path_uuid_anyway :: "env \<Rightarrow> http_libs \<Rightarrow> api_request \<Rightarrow> string \<Rightarrow> (uuid \<Rightarrow> unit act) \<Rightarrow> unit act" where
  "path_uuid_anyway E L r name f =
     (case e_uuid_Parse E (path_var r name) of
        None \<Rightarrow> bnd (HandleHttpError (Named ErrInvalidUuid)) (\<lambda>_. f (hl_uuid_rest L (path_var r name)))
      | Some i \<Rightarrow> f i)"

type_synonym 'd body = "goerr option \<times> 'd"

definition decoded :: "'d body \<Rightarrow> ('d \<Rightarrow> unit act) \<Rightarrow> unit act" where
  "decoded b f = (case fst b of Some e \<Rightarrow> HandleHttpError e | None \<Rightarrow> f (snd b))"

definition decoded_anyway :: "'d body \<Rightarrow> ('d \<Rightarrow> unit act) \<Rightarrow> unit act" where
  "decoded_anyway b f =
     bnd (case fst b of Some e \<Rightarrow> HandleHttpError e | None \<Rightarrow> ret ()) (\<lambda>_. f (snd b))"

definition OK_json :: "json \<Rightarrow> unit act" where
  "OK_json j = bnd (emit (WriteHeader 200)) (\<lambda>_. emit (WriteJson j))"

definition Created_json :: "json \<Rightarrow> unit act" where
  "Created_json j = bnd (emit (WriteHeader 201)) (\<lambda>_. emit (WriteJson j))"

definition json_id :: "env \<Rightarrow> uuid \<Rightarrow> json" where
  "json_id E i = JStr (e_uuid_String E i)"

text \<open>A handler that does not return after the error of a request reads its nil response next.\<close>

definition or_http_then_nil :: "'a act \<Rightarrow> ('a \<Rightarrow> unit act) \<Rightarrow> unit act" where
  "or_http_then_nil = or_answer (\<lambda>e. bnd (HandleHttpError e) (\<lambda>_. lift nil_dereference))"

section \<open>The mediator with typed responses\<close>

definition Ask :: "env \<Rightarrow> request \<Rightarrow> req_ctx \<Rightarrow> 'r act \<Rightarrow> 'r act" where
  "Ask E rq ctx handler = Send E (\<lambda>_. JNull) rq ctx handler"

text \<open>The mediator of the commands and the queries gives the same response, in its common type.\<close>

lemma Send_answer_of: "Send E id rq ctx (answer_of to_json handler) = answer_of to_json (Send E to_json rq ctx handler)"
proof (rule ext)
  fix w
  show "Send E id rq ctx (answer_of to_json handler) w = answer_of to_json (Send E to_json rq ctx handler) w"
    by (simp add: Send_def PolicyBehaviour_def SaveChangesBehaviour_def answer_of_def bnd_def wrapped_def
        split: prod.split sum.split policy_result.split)
qed

lemma Ask_answered:
  "Send E (\<lambda>_. JNull) rq ctx (answered f handler) = answered f (Ask E rq ctx handler)"
proof (rule ext)
  fix w
  show "Send E (\<lambda>_. JNull) rq ctx (answered f handler) w = answered f (Ask E rq ctx handler) w"
    by (simp add: Ask_def Send_def PolicyBehaviour_def SaveChangesBehaviour_def answered_def bnd_def wrapped_def
        split: prod.split sum.split policy_result.split)
qed

section \<open>Options of a listing\<close>

text \<open>\<^verbatim>\<open>strconv.Atoi\<close>: decimal digits after an optional sign, within 64 bits.\<close>

definition digit_of :: "char \<Rightarrow> int option" where
  "digit_of c = (if of_char c \<ge> (48 :: nat) \<and> of_char c \<le> (57 :: nat) then Some (int (of_char c) - 48) else None)"

fun digits_value :: "int \<Rightarrow> string \<Rightarrow> int option" where
  "digits_value n [] = Some n"
| "digits_value n (c # cs) = (case digit_of c of None \<Rightarrow> None | Some d \<Rightarrow> digits_value (n * 10 + d) cs)"

definition Atoi :: "string \<Rightarrow> int go" where
  "Atoi s =
     (let (sign, ds) = (case s of c # cs \<Rightarrow> if c = CHR ''-'' then (-1, cs) else if c = CHR ''+'' then (1, cs) else (1, s)
                                | [] \<Rightarrow> (1, []))
      in case (if ds = [] then None else digits_value 0 ds) of
           None \<Rightarrow> Inl (Err (ErrorsNew ''invalid syntax''))
         | Some n \<Rightarrow>
             if - (2 ^ 63) \<le> sign * n \<and> sign * n < 2 ^ 63 then Inr (sign * n)
             else Inl (Err (ErrorsNew ''value out of range'')))"

record query_ops =
  qo_PageSize :: int
  qo_Page :: int
  qo_OrderBy :: string
  qo_OrderDir :: string
  qo_Search :: string

definition form_number :: "string \<Rightarrow> string \<Rightarrow> int go" where
  "form_number msg s =
     (if s = [] then Inr 0 else go_bind (wrap msg (Atoi s)) (\<lambda>n. Inr (if n < 0 then 0 else n)))"

definition ParseQueryOps :: "api_request \<Rightarrow> query_ops go" where
  "ParseQueryOps r =
     go_bind (case aq_ParseForm r of Some e \<Rightarrow> Inl (Err (Wrap ''parsing form'' e)) | None \<Rightarrow> Inr ()) (\<lambda>_.
     go_bind (form_number ''parsing page size'' (aq_Form r ''pageSize'')) (\<lambda>pageSize.
     go_bind (form_number ''parsing page'' (aq_Form r ''page'')) (\<lambda>page.
       let page = (if pageSize > 0 \<and> page = 0 then 1 else page);
           pageSize = (if page > 0 \<and> pageSize = 0 then 10 else pageSize);
           orderDir = aq_Form r ''orderDir''
       in Inr \<lparr>qo_PageSize = pageSize, qo_Page = page, qo_OrderBy = aq_Form r ''orderBy'',
               qo_OrderDir = (if orderDir \<noteq> ''asc'' \<and> orderDir \<noteq> ''desc'' then ''asc'' else orderDir),
               qo_Search = aq_Form r ''search''\<rparr>)))"

definition with_query_ops :: "api_request \<Rightarrow> (query_ops \<Rightarrow> unit act) \<Rightarrow> unit act" where
  "with_query_ops r = or_http (lift (ParseQueryOps r))"

text \<open>The envelope of a listing: the division is the one of Go, on numbers that are not negative.\<close>

definition Pagination_json :: "int \<Rightarrow> int \<Rightarrow> int \<Rightarrow> int \<Rightarrow> json" where
  "Pagination_json pageSize page totalPages totalItems =
     JObj [(''size'', JNum pageSize), (''page'', JNum page), (''totalPages'', JNum totalPages), (''totalItems'', JNum totalItems)]"

definition TotalPages :: "int \<Rightarrow> int \<Rightarrow> int" where
  "TotalPages totalItems pageSize = totalItems div pageSize + 1"

definition NewPagedResponseDto :: "json list \<Rightarrow> query_ops \<Rightarrow> int \<Rightarrow> json" where
  "NewPagedResponseDto items queryOps totalItems =
     JObj [(''items'', JArr items),
       (''pagination'',
          if qo_PageSize queryOps > 0
          then Pagination_json (qo_PageSize queryOps) (qo_Page queryOps) (TotalPages totalItems (qo_PageSize queryOps)) totalItems
          else JNull)]"

section \<open>The tags of the validator\<close>

text \<open>Lengths count characters: the bytes that do not continue one in UTF-8.\<close>

definition RuneCountInString :: "string \<Rightarrow> nat" where
  "RuneCountInString s = length (filter (\<lambda>c. of_char c div 64 \<noteq> (2 :: nat)) s)"

definition tag_required :: "string \<Rightarrow> bool" where
  "tag_required s = (s \<noteq> [])"

definition tag_min :: "nat \<Rightarrow> string \<Rightarrow> bool" where
  "tag_min n s = (n \<le> RuneCountInString s)"

definition tag_max :: "nat \<Rightarrow> string \<Rightarrow> bool" where
  "tag_max n s = (RuneCountInString s \<le> n)"

definition tag_name :: "string \<Rightarrow> bool" where
  "tag_name s = (tag_required s \<and> tag_min 1 s \<and> tag_max 255 s)"

definition tag_oneof :: "string list \<Rightarrow> string \<Rightarrow> bool" where
  "tag_oneof choices s = (s \<in> set choices)"

definition tag_omitempty :: "('a \<Rightarrow> bool) \<Rightarrow> 'a option \<Rightarrow> bool" where
  "tag_omitempty check v = (case v of None \<Rightarrow> True | Some x \<Rightarrow> check x)"

definition tag_alphanum :: "string \<Rightarrow> bool" where
  "tag_alphanum s =
     (s \<noteq> [] \<and> list_all (\<lambda>c. let n = (of_char c :: nat) in
        48 \<le> n \<and> n \<le> 57 \<or> 65 \<le> n \<and> n \<le> 90 \<or> 97 \<le> n \<and> n \<le> 122) s)"

definition validated :: "bool \<Rightarrow> unit act \<Rightarrow> unit act" where
  "validated valid m =
     or_http (if valid then ret () else err (Wrap ''invalid request'' (Named ErrHttpBadRequest))) (\<lambda>_. m)"

section \<open>strings.TrimSpace\<close>

text \<open>The space characters of Unicode, in UTF-8.\<close>

definition space_runes :: "string list" where
  "space_runes =
     [[CHR 0x09], [CHR 0x0A], [CHR 0x0B], [CHR 0x0C], [CHR 0x0D], [CHR 0x20], [CHR 0xC2, CHR 0x85], [CHR 0xC2, CHR 0xA0],
      [CHR 0xE1, CHR 0x9A, CHR 0x80], [CHR 0xE2, CHR 0x80, CHR 0xA8], [CHR 0xE2, CHR 0x80, CHR 0xA9],
      [CHR 0xE2, CHR 0x80, CHR 0xAF], [CHR 0xE2, CHR 0x81, CHR 0x9F], [CHR 0xE3, CHR 0x80, CHR 0x80]] @
     map (\<lambda>n. [CHR 0xE2, CHR 0x80, char_of (128 + n)]) [0..<11]"

lemma space_runes_not_Nil: "sp \<in> set space_runes \<Longrightarrow> sp \<noteq> []"
  by (auto simp: space_runes_def)

function trim_left :: "string list \<Rightarrow> string \<Rightarrow> string" where
  "trim_left spaces s =
     (case List.find (\<lambda>sp. sp \<noteq> [] \<and> HasPrefix s sp) spaces of None \<Rightarrow> s | Some sp \<Rightarrow> trim_left spaces (drop (length sp) s))"
  by pat_completeness auto
termination
  by (relation "measure (\<lambda>(_, s). length s)") (auto simp: find_Some_iff HasPrefix_iff)

declare trim_left.simps [simp del]

definition strings_TrimSpace :: "string \<Rightarrow> string" where
  "strings_TrimSpace s = rev (trim_left (map rev space_runes) (rev (trim_left space_runes s)))"

definition TrimSpace :: "string option \<Rightarrow> string option" where
  "TrimSpace s = map_option strings_TrimSpace s"

section \<open>The middlewares around a route\<close>

definition VirtualServerMiddleware :: "env \<Rightarrow> api_request \<Rightarrow> (string \<Rightarrow> unit act) \<Rightarrow> unit act" where
  "VirtualServerMiddleware E r next_ServeHTTP =
     (let name = path_var r ''virtualServerName'' in
      next_ServeHTTP (if name = [] then e_InitialVirtualServerName E else name))"

definition RecoverMiddleware :: "unit act \<Rightarrow> unit act" where
  "RecoverMiddleware handler w =
     (case handler w of
        (Inl (Panic p), w') \<Rightarrow> emit (HttpError 500) w'
      | (r, w') \<Rightarrow> (r, w'))"

definition api_route :: "env \<Rightarrow> api_request \<Rightarrow> (req_ctx \<Rightarrow> unit act) \<Rightarrow> unit act" where
  "api_route E r handler =
     RecoverMiddleware (serve (VirtualServerMiddleware E r (\<lambda>vsName.
       AuthenticationMiddleware E (aq_Authorization r) vsName handler)))"

end
