(* ===== verification/ApiUsers.thy ===== *)
theory ApiUsers
  imports Api
begin

text \<open>
  The handlers of users (\<^verbatim>\<open>internal/handlers/users.go\<close>) with their bodies (\<^verbatim>\<open>api/users.go\<close>). A slice or a
  map whose absence matters is an option.
\<close>

section \<open>Bodies\<close>

record register_user_dto =
  rud_Username :: string
  rud_DisplayName :: string
  rud_Password :: string
  rud_Email :: string

definition valid_RegisterUserRequestDto :: "register_user_dto \<Rightarrow> bool" where
  "valid_RegisterUserRequestDto d =
     (tag_name (rud_Username d) \<and> tag_name (rud_DisplayName d) \<and> tag_required (rud_Password d) \<and> tag_required (rud_Email d))"

record create_user_password_dto =
  cup_Plain :: string
  cup_Temporary :: bool

record create_user_dto =
  cud_Username :: string
  cud_DisplayName :: string
  cud_Email :: string
  cud_EmailVerified :: "bool option"
  cud_Password :: "create_user_password_dto option"

definition valid_CreateUserRequestDto :: "create_user_dto \<Rightarrow> bool" where
  "valid_CreateUserRequestDto d =
     (tag_required (cud_Username d) \<and> tag_required (cud_DisplayName d) \<and> tag_required (cud_Email d) \<and>
      tag_omitempty (\<lambda>p. tag_required (cup_Plain p)) (cud_Password d))"

record patch_user_dto =
  pud_DisplayName :: "string option"
  pud_EmailVerified :: "bool option"

record associate_key_dto =
  akd_PublicKey :: string
  akd_Kid :: "string option"

record passkey_validate_dto =
  pvd_Id :: uuid
  pvd_RawId :: string
  pvd_PublicKey :: string
  pvd_PublicKeyAlgorithm :: int

section \<open>Registration and creation\<close>

definition VerifyEmail :: "env \<Rightarrow> embedded_files \<Rightarrow> req_ctx \<Rightarrow> api_request \<Rightarrow> unit act" where
  "VerifyEmail E cf ctx r =
     server_name ctx (\<lambda>vsName.
       let token = aq_Query r ''token'' in
       if token = [] then HandleHttpError (Wrap ''missing email verification token'' (Named ErrHttpBadRequest))
       else
         or_http (mediatr_Send E cf ctx (VerifyEmailCommand \<lparr>ve_VirtualServerName = vsName, ve_Token = token\<rparr>)) (\<lambda>_.
         emit (Redirect (e_FrontendExternalUrl E @ ''/'' @ vsName @ ''/email-verified'') 302)))"

definition RegisterUser :: "env \<Rightarrow> embedded_files \<Rightarrow> req_ctx \<Rightarrow> register_user_dto body \<Rightarrow> unit act" where
  "RegisterUser E cf ctx body =
     server_name ctx (\<lambda>vsName.
     decoded body (\<lambda>dto.
     validated (valid_RegisterUserRequestDto dto) (
     or_http (mediatr_Send E cf ctx (RegisterUserCommand
         \<lparr>ru_VirtualServerName = vsName, ru_DisplayName = rud_DisplayName dto, ru_Username = rud_Username dto,
          ru_Password = rud_Password dto, ru_Email = rud_Email dto\<rparr>)) (\<lambda>_. NoContent))))"

text \<open>The password is a second request; when it fails the error is answered before the user.\<close>

definition CreateUser :: "env \<Rightarrow> embedded_files \<Rightarrow> req_ctx \<Rightarrow> create_user_dto body \<Rightarrow> unit act" where
  "CreateUser E cf ctx body =
     server_name ctx (\<lambda>vsName.
     decoded body (\<lambda>dto.
     validated (valid_CreateUserRequestDto dto) (
       let command = \<lparr>cus_VirtualServerName = vsName, cus_Username = cud_Username dto, cus_DisplayName = cud_DisplayName dto,
                      cus_Email = cud_Email dto, cus_EmailVerified = ZeroIfNil False (cud_EmailVerified dto)\<rparr> in
     or_http (Send E (id_json E) (CreateUser_Policy E command) ctx (HandleCreateUser E command)) (\<lambda>userId.
     bnd (case cud_Password dto of
            None \<Rightarrow> ret ()
          | Some p \<Rightarrow>
              or_http (Send_SetPassword E ctx
                \<lparr>sp_UserId = userId, sp_NewPassword = cup_Plain p, sp_Temporary = cup_Temporary p\<rparr>) (\<lambda>_. ret ())) (\<lambda>_.
     emit (WriteJson (JObj [(''id'', json_id E userId)])))))))"

section \<open>Reading users\<close>

definition ListUsers :: "env \<Rightarrow> req_ctx \<Rightarrow> api_request \<Rightarrow> unit act" where
  "ListUsers E ctx r =
     with_query_ops r (\<lambda>queryOps.
     server_name ctx (\<lambda>vsName.
       let query = \<lparr>lu_PageSize = qo_PageSize queryOps, lu_Page = qo_Page queryOps, lu_OrderBy = qo_OrderBy queryOps,
                    lu_OrderDir = qo_OrderDir queryOps, lu_VirtualServerName = vsName, lu_SearchText = qo_Search queryOps\<rparr> in
     or_http (Ask E (ListUsers_Policy E query) ctx (HandleListUsers query)) (\<lambda>users.
     emit (WriteJson (NewPagedResponseDto
       (map (\<lambda>x. JObj [(''id'', json_id E (lui_Id x)), (''username'', JStr (lui_Username x)), (''displayName'', JStr (lui_DisplayName x)),
          (''primaryEmail'', JStr (lui_Email x)), (''isServiceUser'', JBool (lui_IsServiceUser x))]) (pgr_Items users))
       queryOps (pgr_TotalCount users))))))"

definition GetUserById :: "env \<Rightarrow> req_ctx \<Rightarrow> api_request \<Rightarrow> unit act" where
  "GetUserById E ctx r =
     server_name ctx (\<lambda>vsName.
     path_uuid E r ''userId'' (\<lambda>userId.
       let query = \<lparr>guq_UserId = userId, guq_VirtualServerName = vsName\<rparr> in
     or_http (Ask E (GetUserQuery_Policy E query) ctx (HandleGetUserQuery query)) (\<lambda>u.
     OK_json (JObj
       [(''id'', json_id E (guqr_Id u)), (''username'', JStr (guqr_Username u)), (''displayName'', JStr (guqr_DisplayName u)),
        (''primaryEmail'', JStr (guqr_PrimaryEmail u)), (''emailVerified'', JBool (guqr_EmailVerified u)),
        (''isServiceUser'', JBool (guqr_IsServiceUser u)), (''createdAt'', JTime (guqr_CreatedAt u)),
        (''updatedAt'', JTime (guqr_UpdatedAt u))]))))"

section \<open>Metadata\<close>

text \<open>
  \<^verbatim>\<open>json.Unmarshal\<close> into a map that exists adds the members of the document; the document null makes it nil.
\<close>

definition unmarshal_into :: "json_obj option \<Rightarrow> jtext \<Rightarrow> json_obj option go" where
  "unmarshal_into m t =
     go_bind (decode_map t) (\<lambda>j. Inr (case j of
       JObj ms \<Rightarrow> Some (fold (\<lambda>(k, v). AList.update k v) ms (case m of None \<Rightarrow> [] | Some base \<Rightarrow> base))
     | _ \<Rightarrow> None))"

fun unmarshal_each :: "json_obj option \<Rightarrow> jtext list \<Rightarrow> json_obj option go" where
  "unmarshal_each m [] = Inr m"
| "unmarshal_each m (t # ts) = go_bind (unmarshal_into m t) (\<lambda>m. unmarshal_each m ts)"

fun unmarshal_named :: "json_obj \<Rightarrow> (string \<times> jtext) list \<Rightarrow> json_obj go" where
  "unmarshal_named m [] = Inr m"
| "unmarshal_named m ((name, t) # ts) =
     go_bind (unmarshal_into None t) (\<lambda>v. unmarshal_named (AList.update name (json_map v) m) ts)"

definition GetUserApplicationMetadata :: "env \<Rightarrow> req_ctx \<Rightarrow> api_request \<Rightarrow> unit act" where
  "GetUserApplicationMetadata E ctx r =
     server_name ctx (\<lambda>vsName.
     path_uuid E r ''userId'' (\<lambda>userId.
     path_uuid E r ''appId'' (\<lambda>appId.
       let query = \<lparr>gum_VirtualServerName = vsName, gum_UserId = userId, gum_IncludeGlobalMetadata = False,
                    gum_IncludeAllApplicationMetadata = False, gum_ApplicationIds = Some [appId]\<rparr> in
     or_http (Ask E (GetUserMetadata_Policy E query) ctx (HandleGetUserMetadata query)) (\<lambda>response.
     or_http (lift (unmarshal_each (Some []) (map snd (gumr_ApplicationMetadata response)))) (\<lambda>dto.
     emit (WriteJson (json_map dto)))))))"

definition GetUserGlobalMetadata :: "env \<Rightarrow> req_ctx \<Rightarrow> api_request \<Rightarrow> unit act" where
  "GetUserGlobalMetadata E ctx r =
     server_name ctx (\<lambda>vsName.
     path_uuid E r ''userId'' (\<lambda>userId.
       let query = \<lparr>gum_VirtualServerName = vsName, gum_UserId = userId, gum_IncludeGlobalMetadata = True,
                    gum_IncludeAllApplicationMetadata = False, gum_ApplicationIds = None\<rparr> in
     or_http (Ask E (GetUserMetadata_Policy E query) ctx (HandleGetUserMetadata query)) (\<lambda>response.
     or_http (if gumr_Metadata response \<noteq> Plain [] then lift (unmarshal_into (Some []) (gumr_Metadata response)) else ret (Some [])) (\<lambda>dto.
     emit (WriteJson (json_map dto))))))"

text \<open>Members that are empty are omitted.\<close>

definition GetUserMetadata :: "env \<Rightarrow> req_ctx \<Rightarrow> api_request \<Rightarrow> unit act" where
  "GetUserMetadata E ctx r =
     server_name ctx (\<lambda>vsName.
     path_uuid E r ''userId'' (\<lambda>userId.
       let query = \<lparr>gum_VirtualServerName = vsName, gum_UserId = userId, gum_IncludeGlobalMetadata = True,
                    gum_IncludeAllApplicationMetadata = True, gum_ApplicationIds = None\<rparr> in
     or_http (Ask E (GetUserMetadata_Policy E query) ctx (HandleGetUserMetadata query)) (\<lambda>response.
     or_http (if gumr_Metadata response \<noteq> Plain [] then lift (unmarshal_into None (gumr_Metadata response)) else ret None) (\<lambda>metadata.
     or_http (lift (unmarshal_named [] (gumr_ApplicationMetadata response))) (\<lambda>applications.
       let metadata = (case metadata of None \<Rightarrow> [] | Some ms \<Rightarrow> ms) in
     emit (WriteJson (JObj
       ((if metadata = [] then [] else [(''metadata'', JObj metadata)]) @
        (if applications = [] then [] else [(''applicationMetadata'', JObj applications)]))))))))) "

text \<open>Two of the writing handlers report an error and go on; the body is nil when it could not be decoded.\<close>

definition UpdateUserGlobalMetadata ::
  "env \<Rightarrow> embedded_files \<Rightarrow> http_libs \<Rightarrow> req_ctx \<Rightarrow> api_request \<Rightarrow> json_obj option body \<Rightarrow> unit act" where
  "UpdateUserGlobalMetadata E cf L ctx r body =
     server_name ctx (\<lambda>vsName.
     path_uuid_anyway E L r ''userId'' (\<lambda>userId.
     decoded body (\<lambda>dto.
     or_http (mediatr_Send E cf ctx (UpdateUserMetadataCommand
         \<lparr>uum_VirtualServerName = vsName, uum_UserId = userId, uum_Metadata = dto\<rparr>)) (\<lambda>_. NoContent))))"

definition PatchUserGlobalMetadata ::
  "env \<Rightarrow> embedded_files \<Rightarrow> req_ctx \<Rightarrow> api_request \<Rightarrow> json_obj option body \<Rightarrow> unit act" where
  "PatchUserGlobalMetadata E cf ctx r body =
     server_name ctx (\<lambda>vsName.
     path_uuid E r ''userId'' (\<lambda>userId.
     decoded body (\<lambda>dto.
     or_http (mediatr_Send E cf ctx (PatchUserMetadataCommand
         \<lparr>pum_VirtualServerName = vsName, pum_UserId = userId, pum_Metadata = dto\<rparr>)) (\<lambda>_. ret ()))))"

definition UpdateUserApplicationMetadata ::
  "env \<Rightarrow> embedded_files \<Rightarrow> req_ctx \<Rightarrow> api_request \<Rightarrow> json_obj option body \<Rightarrow> unit act" where
  "UpdateUserApplicationMetadata E cf ctx r body =
     server_name ctx (\<lambda>vsName.
     path_uuid E r ''userId'' (\<lambda>userId.
     path_uuid E r ''appId'' (\<lambda>appId.
     decoded body (\<lambda>dto.
     or_http (mediatr_Send E cf ctx (UpdateUserAppMetadataCommand
         \<lparr>uuam_VirtualServerName = vsName, uuam_UserId = userId, uuam_ApplicationId = appId, uuam_Metadata = dto\<rparr>))
       (\<lambda>_. NoContent)))))"

definition PatchUserApplicationMetadata ::
  "env \<Rightarrow> embedded_files \<Rightarrow> req_ctx \<Rightarrow> api_request \<Rightarrow> json_obj option body \<Rightarrow> unit act" where
  "PatchUserApplicationMetadata E cf ctx r body =
     server_name ctx (\<lambda>vsName.
     path_uuid E r ''userId'' (\<lambda>userId.
     path_uuid E r ''appId'' (\<lambda>appId.
     decoded_anyway body (\<lambda>dto.
     or_http (mediatr_Send E cf ctx (PatchUserAppMetadataCommand
         \<lparr>puam_VirtualServerName = vsName, puam_UserId = userId, puam_ApplicationId = appId, puam_Metadata = dto\<rparr>))
       (\<lambda>_. NoContent)))))"

definition PatchUser :: "env \<Rightarrow> embedded_files \<Rightarrow> req_ctx \<Rightarrow> api_request \<Rightarrow> patch_user_dto body \<Rightarrow> unit act" where
  "PatchUser E cf ctx r body =
     server_name ctx (\<lambda>vsName.
     path_uuid E r ''userId'' (\<lambda>userId.
     decoded body (\<lambda>dto.
     or_http (mediatr_Send E cf ctx (PatchUserCommand
         \<lparr>pu_VirtualServerName = vsName, pu_UserId = userId, pu_DisplayName = TrimSpace (pud_DisplayName dto),
          pu_EmailVerified = pud_EmailVerified dto\<rparr>)) (\<lambda>_. NoContent))))"

section \<open>Service users\<close>

definition CreateServiceUser :: "env \<Rightarrow> req_ctx \<Rightarrow> string body \<Rightarrow> unit act" where
  "CreateServiceUser E ctx body =
     server_name ctx (\<lambda>vsName.
     decoded_anyway body (\<lambda>username.
     validated (tag_name username) (
       let command = \<lparr>csu_VirtualServerName = vsName, csu_Username = username\<rparr> in
     or_http_then_nil (Send E (id_json E) (CreateServiceUser_Policy E command) ctx (HandleCreateServiceUser E command)) (\<lambda>userId.
     emit (WriteJson (JObj [(''id'', json_id E userId)]))))))"

definition AssociateServiceUserPublicKey ::
  "env \<Rightarrow> http_libs \<Rightarrow> req_ctx \<Rightarrow> api_request \<Rightarrow> associate_key_dto body \<Rightarrow> unit act" where
  "AssociateServiceUserPublicKey E L ctx r body =
     server_name ctx (\<lambda>vsName.
     path_uuid_anyway E L r ''serviceUserId'' (\<lambda>serviceUserId.
     decoded_anyway body (\<lambda>dto.
     validated (tag_required (akd_PublicKey dto)) (
       let command = \<lparr>ak_Kid = akd_Kid dto, ak_VirtualServerName = vsName, ak_ServiceUserId = serviceUserId,
                      ak_PublicKey = akd_PublicKey dto\<rparr> in
     or_http_then_nil (Send E (\<lambda>(i, kid). JObj [(''Id'', JStr (e_uuid_String E i)), (''Kid'', JStr kid)])
         (AssociateServiceUserPublicKey_Policy E command) ctx (HandleAssociateServiceUserPublicKey E command)) (\<lambda>response.
     emit (WriteJson (JObj [(''kid'', JStr (snd response))])))))))"

definition RemoveServiceUserPublicKey :: "env \<Rightarrow> embedded_files \<Rightarrow> req_ctx \<Rightarrow> api_request \<Rightarrow> unit act" where
  "RemoveServiceUserPublicKey E cf ctx r =
     server_name ctx (\<lambda>vsName.
     path_uuid E r ''serviceUserId'' (\<lambda>serviceUserId.
       let kid = path_var r ''kid'' in
       if kid = [] then HandleHttpError (Wrap ''missing kid'' (Named ErrHttpBadRequest))
       else
         or_http (mediatr_Send E cf ctx (RemoveServiceUserPublicKeyCommand
             \<lparr>rk_VirtualServerName = vsName, rk_ServiceUserId = serviceUserId, rk_Kid = kid\<rparr>)) (\<lambda>_. NoContent)))"

section \<open>Passkeys\<close>

definition PasskeyCreateChallenge_json :: "env \<Rightarrow> uuid \<Rightarrow> uuid \<Rightarrow> string \<Rightarrow> json" where
  "PasskeyCreateChallenge_json E i userId challenge =
     JObj [(''id'', json_id E i), (''userId'', json_id E userId), (''challenge'', JStr challenge)]"

definition challenge_key :: "env \<Rightarrow> uuid \<Rightarrow> string" where
  "challenge_key E i = ''passkey_challenge:'' @ e_uuid_String E i"

definition PasskeyCreateChallenge :: "env \<Rightarrow> req_ctx \<Rightarrow> api_request \<Rightarrow> unit act" where
  "PasskeyCreateChallenge E ctx r =
     path_uuid E r ''userId'' (\<lambda>userId.
     or_http (lift (GetCurrentUser ctx)) (\<lambda>currentUser.
       if cu_UserId currentUser \<noteq> userId
       then HandleHttpError (Wrap ''not allowed to create a challenge for another user'' (Named ErrHttpUnauthorized))
       else
     or_http (db_read (\<lambda>st. UserRepository_FirstOrErr (st_Users st) (UserFilter_Id userId NewUserFilter))) (\<lambda>user.
     or_http (GetSecureRandomBytes E 64) (\<lambda>challengeBytes.
     or_http (uuid_New E) (\<lambda>i.
       let challenge = StdEncoding_EncodeToString challengeBytes in
     or_http (lift (json_Marshal (PasskeyCreateChallenge_json E i userId challenge))) (\<lambda>challengeJson.
     or_http (kv_set (challenge_key E i) challengeJson [WithExpiration (Minute * 5)]) (\<lambda>_.
     emit (WriteJson (JObj
       [(''id'', json_id E i), (''challenge'', JStr challenge), (''userId'', json_id E userId), (''username'', JStr (u_username user)),
        (''displayName'', JStr (u_displayName user))]))))))))) "

definition PasskeyValidateCreateChallengeResponse ::
  "env \<Rightarrow> req_ctx \<Rightarrow> api_request \<Rightarrow> passkey_validate_dto body \<Rightarrow> unit act" where
  "PasskeyValidateCreateChallengeResponse E ctx r body =
     path_uuid E r ''userId'' (\<lambda>userId.
     or_http (lift (GetCurrentUser ctx)) (\<lambda>currentUser.
       if cu_UserId currentUser \<noteq> userId
       then HandleHttpError (Wrap ''not allowed to validate a challenge for another user'' (Named ErrHttpUnauthorized))
       else
     decoded body (\<lambda>dto.
     validated (pvd_Id dto \<noteq> uuid_Nil) (
     or_http (lift (RawURLEncoding_DecodeString (pvd_PublicKey dto))) (\<lambda>pubKey.
     or_http (fresh E (\<lambda>i now. NewCredential i now userId
         (CredentialWebauthnDetails (pvd_RawId dto) (pvd_PublicKeyAlgorithm dto) pubKey))) (\<lambda>credential.
     or_http (db_write (CredentialRepository_Insert credential)) (\<lambda>_.
     or_http (kv_delete (challenge_key E (pvd_Id dto))) (\<lambda>_.
     NoContent))))))))"

definition ListPasskeys :: "env \<Rightarrow> req_ctx \<Rightarrow> api_request \<Rightarrow> unit act" where
  "ListPasskeys E ctx r =
     server_name ctx (\<lambda>vsName.
     path_uuid E r ''userId'' (\<lambda>userId.
       let query = \<lparr>lpk_VirtualServerName = vsName, lpk_UserId = userId\<rparr> in
     or_http (Ask E (ListPasskeys_Policy E query) ctx (HandleListPasskeys query)) (\<lambda>passkeys.
     emit (WriteJson (JObj [(''items'', JArr (map (\<lambda>i. JObj [(''id'', json_id E i)]) (pgr_Items passkeys)))])))))"

section \<open>The routes\<close>

text \<open>The routes of users, each with the body that it decodes.\<close>

datatype user_endpoint =
    PostRegister "register_user_dto body"
  | GetVerifyEmail
  | GetUsers
  | PostUsers "create_user_dto body"
  | GetUser
  | GetMetadata
  | GetGlobalMetadata
  | PutGlobalMetadata "json_obj option body"
  | PatchGlobalMetadata "json_obj option body"
  | GetApplicationMetadata
  | PutApplicationMetadata "json_obj option body"
  | PatchApplicationMetadata "json_obj option body"
  | PatchUserRoute "patch_user_dto body"
  | PostServiceUsers "string body"
  | PostServiceUserKeys "associate_key_dto body"
  | DeleteServiceUserKey
  | PostPasskeyStart
  | PostPasskeyFinish "passkey_validate_dto body"
  | GetPasskeys

fun handle_user_endpoint :: "env \<Rightarrow> embedded_files \<Rightarrow> http_libs \<Rightarrow> api_request \<Rightarrow> user_endpoint \<Rightarrow> req_ctx \<Rightarrow> unit act" where
  "handle_user_endpoint E cf L r (PostRegister b) ctx = RegisterUser E cf ctx b"
| "handle_user_endpoint E cf L r GetVerifyEmail ctx = VerifyEmail E cf ctx r"
| "handle_user_endpoint E cf L r GetUsers ctx = ListUsers E ctx r"
| "handle_user_endpoint E cf L r (PostUsers b) ctx = CreateUser E cf ctx b"
| "handle_user_endpoint E cf L r GetUser ctx = GetUserById E ctx r"
| "handle_user_endpoint E cf L r GetMetadata ctx = GetUserMetadata E ctx r"
| "handle_user_endpoint E cf L r GetGlobalMetadata ctx = GetUserGlobalMetadata E ctx r"
| "handle_user_endpoint E cf L r (PutGlobalMetadata b) ctx = UpdateUserGlobalMetadata E cf L ctx r b"
| "handle_user_endpoint E cf L r (PatchGlobalMetadata b) ctx = PatchUserGlobalMetadata E cf ctx r b"
| "handle_user_endpoint E cf L r GetApplicationMetadata ctx = GetUserApplicationMetadata E ctx r"
| "handle_user_endpoint E cf L r (PutApplicationMetadata b) ctx = UpdateUserApplicationMetadata E cf ctx r b"
| "handle_user_endpoint E cf L r (PatchApplicationMetadata b) ctx = PatchUserApplicationMetadata E cf ctx r b"
| "handle_user_endpoint E cf L r (PatchUserRoute b) ctx = PatchUser E cf ctx r b"
| "handle_user_endpoint E cf L r (PostServiceUsers b) ctx = CreateServiceUser E ctx b"
| "handle_user_endpoint E cf L r (PostServiceUserKeys b) ctx = AssociateServiceUserPublicKey E L ctx r b"
| "handle_user_endpoint E cf L r DeleteServiceUserKey ctx = RemoveServiceUserPublicKey E cf ctx r"
| "handle_user_endpoint E cf L r PostPasskeyStart ctx = PasskeyCreateChallenge E ctx r"
| "handle_user_endpoint E cf L r (PostPasskeyFinish b) ctx = PasskeyValidateCreateChallengeResponse E ctx r b"
| "handle_user_endpoint E cf L r GetPasskeys ctx = ListPasskeys E ctx r"

end
