(* ===== verification/ApiProjects.thy ===== *)
theory ApiProjects
  imports Api
begin

text \<open>
  The handlers of projects and of what they hold: \<^verbatim>\<open>projects.go\<close>, \<^verbatim>\<open>roles.go\<close>, \<^verbatim>\<open>applications.go\<close>,
  \<^verbatim>\<open>resourceservers.go\<close> and \<^verbatim>\<open>resourceserverscopes.go\<close> of \<^verbatim>\<open>internal/handlers\<close>, with their bodies.
\<close>

section \<open>Projects\<close>

record create_project_dto =
  cpd_Slug :: string
  cpd_Name :: string
  cpd_Description :: string

definition valid_CreateProjectRequestDto :: "create_project_dto \<Rightarrow> bool" where
  "valid_CreateProjectRequestDto d = (tag_name (cpd_Slug d) \<and> tag_name (cpd_Name d))"

definition CreateProject :: "env \<Rightarrow> req_ctx \<Rightarrow> create_project_dto body \<Rightarrow> unit act" where
  "CreateProject E ctx body =
     server_name ctx (\<lambda>vsName.
     decoded body (\<lambda>dto.
     validated (valid_CreateProjectRequestDto dto) (
       let command = \<lparr>cp_VirtualServerName = vsName, cp_Slug = cpd_Slug dto, cp_Name = cpd_Name dto,
                      cp_Description = cpd_Description dto\<rparr> in
     or_http (Send E (id_json E) (CreateProject_Policy E command) ctx (HandleCreateProject E command)) (\<lambda>i.
     Created_json (JObj [(''id'', json_id E i)])))))"

definition ListProjects :: "env \<Rightarrow> req_ctx \<Rightarrow> api_request \<Rightarrow> unit act" where
  "ListProjects E ctx r =
     with_query_ops r (\<lambda>queryOps.
     server_name ctx (\<lambda>vsName.
       let query = \<lparr>lp_PageSize = qo_PageSize queryOps, lp_Page = qo_Page queryOps, lp_OrderBy = qo_OrderBy queryOps,
                    lp_OrderDir = qo_OrderDir queryOps, lp_VirtualServerName = vsName, lp_SearchText = qo_Search queryOps\<rparr> in
     or_http (Ask E (ListProjects_Policy E query) ctx (HandleListProjects query)) (\<lambda>projects.
     emit (WriteJson (NewPagedResponseDto
       (map (\<lambda>x. JObj [(''id'', json_id E (lpi_Id x)), (''slug'', JStr (lpi_Slug x)), (''name'', JStr (lpi_Name x)),
          (''systemProject'', JBool (lpi_SystemProject x))]) (pgr_Items projects))
       queryOps (pgr_TotalCount projects))))))"

text \<open>The member \<^verbatim>\<open>systemProject\<close> of the answer is never set.\<close>

definition GetProject :: "env \<Rightarrow> req_ctx \<Rightarrow> api_request \<Rightarrow> unit act" where
  "GetProject E ctx r =
     server_name ctx (\<lambda>vsName.
       let query = \<lparr>gp_VirtualServerName = vsName, gp_ProjectSlug = path_var r ''projectSlug''\<rparr> in
     or_http (Ask E (GetProject_Policy E query) ctx (HandleGetProject query)) (\<lambda>p.
     emit (WriteJson (JObj
       [(''id'', json_id E (gpr_Id p)), (''slug'', JStr (gpr_Slug p)), (''name'', JStr (gpr_Name p)),
        (''description'', JStr (gpr_Description p)), (''systemProject'', JBool False),
        (''createdAt'', JTime (gpr_CreatedAt p)), (''updatedAt'', JTime (gpr_UpdatedAt p))]))))"

section \<open>Roles\<close>

definition GetRoleById :: "env \<Rightarrow> req_ctx \<Rightarrow> api_request \<Rightarrow> unit act" where
  "GetRoleById E ctx r =
     server_name ctx (\<lambda>vsName.
     path_uuid E r ''roleId'' (\<lambda>roleId.
       let query = \<lparr>gro_VirtualServerName = vsName, gro_ProjectSlug = path_var r ''projectSlug'', gro_RoleId = roleId\<rparr> in
     or_http (Ask E (GetRoleQuery_Policy E query) ctx (HandleGetRole query)) (\<lambda>x.
     OK_json (JObj
       [(''id'', json_id E (gror_Id x)), (''name'', JStr (gror_Name x)), (''description'', JStr (gror_Description x)),
        (''createdAt'', JTime (gror_CreatedAt x)), (''updatedAt'', JTime (gror_UpdatedAt x))]))))"

definition ListRoles :: "env \<Rightarrow> req_ctx \<Rightarrow> api_request \<Rightarrow> unit act" where
  "ListRoles E ctx r =
     with_query_ops r (\<lambda>queryOps.
     server_name ctx (\<lambda>vsName.
       let query = \<lparr>lro_PageSize = qo_PageSize queryOps, lro_Page = qo_Page queryOps, lro_OrderBy = qo_OrderBy queryOps,
                    lro_OrderDir = qo_OrderDir queryOps, lro_VirtualServerName = vsName,
                    lro_ProjectSlug = path_var r ''projectSlug'', lro_SearchText = qo_Search queryOps\<rparr> in
     or_http (Ask E (ListRoles_Policy E query) ctx (HandleListRoles query)) (\<lambda>roles.
     OK_json (NewPagedResponseDto
       (map (\<lambda>x. JObj [(''id'', json_id E (lroi_Id x)), (''name'', JStr (lroi_Name x))]) (pgr_Items roles))
       queryOps (pgr_TotalCount roles)))))"

definition CreateRole :: "env \<Rightarrow> req_ctx \<Rightarrow> api_request \<Rightarrow> (string \<times> string) body \<Rightarrow> unit act" where
  "CreateRole E ctx r body =
     server_name ctx (\<lambda>vsName.
     decoded body (\<lambda>(name, description).
     validated (tag_name name \<and> tag_max 1024 description) (
       let command = \<lparr>cro_VirtualServerName = vsName, cro_ProjectSlug = path_var r ''projectSlug'', cro_Name = name,
                      cro_Description = description\<rparr> in
     or_http (Send E (id_json E) (CreateRole_Policy E command) ctx (HandleCreateRole E ctx command)) (\<lambda>i.
     Created_json (JObj [(''id'', json_id E i)])))))"

definition AssignRole :: "env \<Rightarrow> embedded_files \<Rightarrow> req_ctx \<Rightarrow> api_request \<Rightarrow> uuid body \<Rightarrow> unit act" where
  "AssignRole E cf ctx r body =
     server_name ctx (\<lambda>vsName.
     path_uuid E r ''roleId'' (\<lambda>roleId.
     decoded body (\<lambda>userId.
     validated (userId \<noteq> uuid_Nil) (
     or_http (mediatr_Send E cf ctx (AssignRoleToUserCommand
         \<lparr>aru_VirtualServerName = vsName, aru_ProjectSlug = path_var r ''projectSlug'', aru_UserId = userId,
          aru_RoleId = roleId\<rparr>)) (\<lambda>_. NoContent)))))"

definition ListUsersInRole :: "env \<Rightarrow> http_libs \<Rightarrow> req_ctx \<Rightarrow> api_request \<Rightarrow> unit act" where
  "ListUsersInRole E L ctx r =
     with_query_ops r (\<lambda>queryOps.
     server_name ctx (\<lambda>vsName.
     path_uuid_anyway E L r ''roleId'' (\<lambda>roleId.
       let query = \<lparr>lur_PageSize = qo_PageSize queryOps, lur_Page = qo_Page queryOps, lur_OrderBy = qo_OrderBy queryOps,
                    lur_OrderDir = qo_OrderDir queryOps, lur_VirtualServerName = vsName,
                    lur_ProjectSlug = path_var r ''projectSlug'', lur_RoleId = roleId\<rparr> in
     or_http (Ask E (ListUsersInRole_Policy E query) ctx (HandleListUsersInRole query)) (\<lambda>users.
     OK_json (NewPagedResponseDto
       (map (\<lambda>x. JObj [(''id'', json_id E (luri_Id x)), (''username'', JStr (luri_Username x)),
          (''displayName'', JStr (luri_DisplayName x))]) (pgr_Items users))
       queryOps (pgr_TotalCount users))))))"

definition PatchRole ::
  "env \<Rightarrow> embedded_files \<Rightarrow> req_ctx \<Rightarrow> api_request \<Rightarrow> (string option \<times> string option) body \<Rightarrow> unit act" where
  "PatchRole E cf ctx r body =
     server_name ctx (\<lambda>vsName.
     path_uuid E r ''roleId'' (\<lambda>roleId.
     decoded body (\<lambda>(name, description).
     or_http (mediatr_Send E cf ctx (PatchRoleCommand
         \<lparr>pro_VirtualServerName = vsName, pro_ProjectSlug = path_var r ''projectSlug'', pro_RoleId = roleId,
          pro_Name = name, pro_Description = description\<rparr>)) (\<lambda>_. NoContent))))"

definition DeleteRole :: "env \<Rightarrow> embedded_files \<Rightarrow> req_ctx \<Rightarrow> api_request \<Rightarrow> unit act" where
  "DeleteRole E cf ctx r =
     server_name ctx (\<lambda>vsName.
     path_uuid E r ''roleId'' (\<lambda>roleId.
     or_http (mediatr_Send E cf ctx (DeleteRoleCommand
         \<lparr>dr_VirtualServerName = vsName, dr_ProjectSlug = path_var r ''projectSlug'', dr_RoleId = roleId\<rparr>)) (\<lambda>_. NoContent)))"

section \<open>Applications\<close>

record create_application_dto =
  cad_Name :: string
  cad_DisplayName :: string
  cad_RedirectUris :: "string list option"
  cad_PostLogoutUris :: "string list option"
  cad_Type :: string
  cad_AccessTokenHeaderType :: "string option"
  cad_DeviceFlowEnabled :: bool
  cad_SigningAlgorithm :: "string option"

definition valid_urls :: "http_libs \<Rightarrow> string list option \<Rightarrow> bool" where
  "valid_urls L uris = list_all (hl_url L) (EmptyIfNil uris)"

definition valid_CreateApplicationRequestDto :: "http_libs \<Rightarrow> create_application_dto \<Rightarrow> bool" where
  "valid_CreateApplicationRequestDto L d =
     (tag_name (cad_Name d) \<and> tag_name (cad_DisplayName d) \<and> cad_RedirectUris d \<noteq> None \<and>
      valid_urls L (cad_RedirectUris d) \<and> list_all (tag_min 1) (EmptyIfNil (cad_RedirectUris d)) \<and>
      valid_urls L (cad_PostLogoutUris d) \<and>
      tag_required (cad_Type d) \<and> tag_oneof [''public'', ''confidential''] (cad_Type d) \<and>
      tag_omitempty (tag_oneof [''at+jwt'', ''JWT'']) (cad_AccessTokenHeaderType d) \<and>
      tag_omitempty (tag_oneof [''RS256'', ''EdDSA'']) (cad_SigningAlgorithm d))"

definition CreateApplication :: "env \<Rightarrow> http_libs \<Rightarrow> req_ctx \<Rightarrow> api_request \<Rightarrow> create_application_dto body \<Rightarrow> unit act" where
  "CreateApplication E L ctx r body =
     server_name ctx (\<lambda>vsName.
     decoded body (\<lambda>dto.
     validated (valid_CreateApplicationRequestDto L dto) (
       let accessTokenHeaderType = (case cad_AccessTokenHeaderType dto of None \<Rightarrow> ''at+jwt'' | Some t \<Rightarrow> t);
           command = \<lparr>ca_VirtualServerName = vsName, ca_ProjectSlug = path_var r ''projectSlug'', ca_Name = cad_Name dto,
                      ca_DisplayName = cad_DisplayName dto, ca_Type = ApplicationType (cad_Type dto),
                      ca_RedirectUris = EmptyIfNil (cad_RedirectUris dto),
                      ca_PostLogoutRedirectUris = EmptyIfNil (cad_PostLogoutUris dto), ca_HashedSecret = None,
                      ca_AccessTokenHeaderType = accessTokenHeaderType, ca_DeviceFlowEnabled = cad_DeviceFlowEnabled dto,
                      ca_SigningAlgorithm = cad_SigningAlgorithm dto\<rparr> in
     or_http (Send E (\<lambda>(i, secret). JObj [(''Id'', JStr (e_uuid_String E i)), (''Secret'', json_pointer JStr secret)])
         (CreateApplication_Policy E command) ctx (HandleCreateApplication E ctx command)) (\<lambda>(i, secret).
     Created_json (JObj ((''id'', json_id E i) #
       (case secret of None \<Rightarrow> [] | Some s \<Rightarrow> [(''secret'', JStr s)])))))))"

definition GetApplication :: "env \<Rightarrow> req_ctx \<Rightarrow> api_request \<Rightarrow> unit act" where
  "GetApplication E ctx r =
     server_name ctx (\<lambda>vsName.
     path_uuid E r ''appId'' (\<lambda>appId.
       let query = \<lparr>ga_VirtualServerName = vsName, ga_ProjectSlug = path_var r ''projectSlug'', ga_ApplicationId = appId\<rparr> in
     or_http (Ask E (GetApplication_Policy E query) ctx (HandleGetApplication query)) (\<lambda>found.
       case found of
         None \<Rightarrow> emit (WriteHeader 404)
       | Some a \<Rightarrow> OK_json (JObj
           ([(''id'', json_id E (gar_Id a)), (''name'', JStr (gar_Name a)), (''displayName'', JStr (gar_DisplayName a)),
             (''type'', JStr (application_type_String (gar_Type a))), (''redirectUris'', json_strings (gar_RedirectUris a)),
             (''postLogoutRedirectUris'', json_strings (gar_PostLogoutUris a)),
             (''systemApplication'', JBool (gar_SystemApplication a)),
             (''customClaimsMappingScript'', json_pointer JStr (gar_ClaimsMappingScript a)),
             (''accessTokenHeaderType'', JStr (gar_AccessTokenHeaderType a)), (''deviceFlowEnabled'', JBool (gar_DeviceFlowEnabled a))] @
            (case gar_SigningAlgorithm a of None \<Rightarrow> [] | Some alg \<Rightarrow> [(''signingAlgorithm'', JStr alg)]) @
            [(''createdAt'', JTime (gar_CreatedAt a)), (''updatedAt'', JTime (gar_UpdatedAt a))])))))"

record patch_application_dto =
  pad_DisplayName :: "string option"
  pad_ClaimsMappingScript :: "string option"
  pad_DeviceFlowEnabled :: "bool option"
  pad_RedirectUris :: "string list option"
  pad_PostLogoutUris :: "string list option"
  pad_AccessTokenHeaderType :: "string option"
  pad_SigningAlgorithm :: "string option"

text \<open>The tags of this body are never checked.\<close>

definition PatchApplication ::
  "env \<Rightarrow> embedded_files \<Rightarrow> req_ctx \<Rightarrow> api_request \<Rightarrow> patch_application_dto body \<Rightarrow> unit act" where
  "PatchApplication E cf ctx r body =
     server_name ctx (\<lambda>vsName.
     path_uuid E r ''appId'' (\<lambda>appId.
     decoded body (\<lambda>dto.
     or_http (mediatr_Send E cf ctx (PatchApplicationCommand
         \<lparr>pa_VirtualServerName = vsName, pa_ProjectSlug = path_var r ''projectSlug'', pa_ApplicationId = appId,
          pa_DisplayName = TrimSpace (pad_DisplayName dto), pa_ClaimsMappingScript = pad_ClaimsMappingScript dto,
          pa_AccessTokenHeaderType = pad_AccessTokenHeaderType dto, pa_DeviceFlowEnabled = pad_DeviceFlowEnabled dto,
          pa_RedirectUris = pad_RedirectUris dto, pa_PostLogoutRedirectUris = pad_PostLogoutUris dto,
          pa_SigningAlgorithm = pad_SigningAlgorithm dto\<rparr>)) (\<lambda>_. NoContent))))"

definition DeleteApplication :: "env \<Rightarrow> embedded_files \<Rightarrow> req_ctx \<Rightarrow> api_request \<Rightarrow> unit act" where
  "DeleteApplication E cf ctx r =
     server_name ctx (\<lambda>vsName.
     path_uuid E r ''appId'' (\<lambda>appId.
     or_http (mediatr_Send E cf ctx (DeleteApplicationCommand
         \<lparr>da_VirtualServerName = vsName, da_ProjectSlug = path_var r ''projectSlug'', da_ApplicationId = appId\<rparr>))
       (\<lambda>_. NoContent)))"

definition ListApplications :: "env \<Rightarrow> req_ctx \<Rightarrow> api_request \<Rightarrow> unit act" where
  "ListApplications E ctx r =
     with_query_ops r (\<lambda>queryOps.
     server_name ctx (\<lambda>vsName.
       let query = \<lparr>la_PageSize = qo_PageSize queryOps, la_Page = qo_Page queryOps, la_OrderBy = qo_OrderBy queryOps,
                    la_OrderDir = qo_OrderDir queryOps, la_VirtualServerName = vsName,
                    la_ProjectSlug = path_var r ''projectSlug'', la_SearchText = qo_Search queryOps\<rparr> in
     or_http (Ask E (ListApplications_Policy E query) ctx (HandleListApplications query)) (\<lambda>applications.
     emit (WriteJson (NewPagedResponseDto
       (map (\<lambda>x. JObj [(''id'', json_id E (lai_Id x)), (''name'', JStr (lai_Name x)), (''displayName'', JStr (lai_DisplayName x)),
          (''type'', JStr (application_type_String (lai_Type x))), (''systemApplication'', JBool (lai_SystemApplication x))])
          (pgr_Items applications))
       queryOps (pgr_TotalCount applications))))))"

section \<open>Resource servers\<close>

definition CreateResourceServer ::
  "env \<Rightarrow> embedded_files \<Rightarrow> req_ctx \<Rightarrow> api_request \<Rightarrow> create_project_dto body \<Rightarrow> unit act" where
  "CreateResourceServer E cf ctx r body =
     server_name ctx (\<lambda>vsName.
     decoded body (\<lambda>dto.
     validated (tag_name (cpd_Slug dto) \<and> tag_required (cpd_Name dto)) (
     or_http (mediatr_Send E cf ctx (CreateResourceServerCommand
         \<lparr>crs_VirtualServerName = vsName, crs_ProjectSlug = path_var r ''projectSlug'', crs_Slug = cpd_Slug dto,
          crs_Name = cpd_Name dto, crs_Description = cpd_Description dto\<rparr>)) (\<lambda>_. NoContent))))"

text \<open>The paging of the request is not passed on.\<close>

definition ListResourceServers :: "env \<Rightarrow> req_ctx \<Rightarrow> api_request \<Rightarrow> unit act" where
  "ListResourceServers E ctx r =
     with_query_ops r (\<lambda>queryOps.
     server_name ctx (\<lambda>vsName.
       let query = \<lparr>lrs_PageSize = 0, lrs_Page = 0, lrs_VirtualServerName = vsName,
                    lrs_ProjectSlug = path_var r ''projectSlug'', lrs_SearchText = []\<rparr> in
     or_http (Ask E (ListResourceServers_Policy E query) ctx (HandleListResourceServers query)) (\<lambda>resourceServers.
     emit (WriteJson (NewPagedResponseDto
       (map (\<lambda>x. JObj [(''id'', json_id E (lrsi_Id x)), (''slug'', JStr (lrsi_Slug x)), (''name'', JStr (lrsi_Name x))])
          (pgr_Items resourceServers))
       queryOps (pgr_TotalCount resourceServers))))))"

definition GetResourceServer :: "env \<Rightarrow> req_ctx \<Rightarrow> api_request \<Rightarrow> unit act" where
  "GetResourceServer E ctx r =
     server_name ctx (\<lambda>vsName.
     path_uuid E r ''resourceServerId'' (\<lambda>resourceServerId.
       let query = \<lparr>grs_VirtualServerName = vsName, grs_ProjectSlug = path_var r ''projectSlug'',
                    grs_ResourceServerId = resourceServerId\<rparr> in
     or_http (Ask E (GetResourceServer_Policy E query) ctx (HandleGetResourceServer query)) (\<lambda>s.
     emit (WriteJson (JObj
       [(''id'', json_id E (grsr_Id s)), (''slug'', JStr (grsr_Slug s)), (''name'', JStr (grsr_Name s)),
        (''description'', JStr (grsr_Description s)), (''createdAt'', JTime (grsr_CreatedAt s)),
        (''updatedAt'', JTime (grsr_UpdatedAt s))])))))"

section \<open>Scopes\<close>

record create_scope_dto =
  csd_Scope :: string
  csd_Name :: string
  csd_Description :: string

definition CreateResourceServerScope ::
  "env \<Rightarrow> req_ctx \<Rightarrow> api_request \<Rightarrow> create_scope_dto body \<Rightarrow> unit act" where
  "CreateResourceServerScope E ctx r body =
     server_name ctx (\<lambda>vsName.
     path_uuid E r ''resourceServerId'' (\<lambda>resourceServerId.
     decoded body (\<lambda>dto.
     validated (tag_name (csd_Scope dto) \<and> tag_name (csd_Name dto)) (
     or_http (HandleCreateResourceServerScope E
         \<lparr>crss_VirtualServerName = vsName, crss_ProjectSlug = path_var r ''projectSlug'', crss_ResourceServerId = resourceServerId,
          crss_Scope = csd_Scope dto, crss_Name = csd_Name dto, crss_Description = csd_Description dto\<rparr>) (\<lambda>i.
     Created_json (JObj [(''id'', json_id E i)]))))))"

definition ListResourceServerScopes :: "env \<Rightarrow> http_libs \<Rightarrow> req_ctx \<Rightarrow> api_request \<Rightarrow> unit act" where
  "ListResourceServerScopes E L ctx r =
     with_query_ops r (\<lambda>queryOps.
     server_name ctx (\<lambda>vsName.
     path_uuid_anyway E L r ''resourceServerId'' (\<lambda>resourceServerId.
       let query = \<lparr>lrss_PageSize = qo_PageSize queryOps, lrss_Page = qo_Page queryOps, lrss_OrderBy = qo_OrderBy queryOps,
                    lrss_OrderDir = qo_OrderDir queryOps, lrss_VirtualServerName = vsName,
                    lrss_ProjectSlug = path_var r ''projectSlug'', lrss_ResourceServerId = resourceServerId,
                    lrss_SearchText = qo_Search queryOps\<rparr> in
     or_http (Ask E (ListRessouceServerScopes_Policy E query) ctx (HandleListResourceServerScopes query)) (\<lambda>scopes.
     emit (WriteJson (NewPagedResponseDto
       (map (\<lambda>x. JObj [(''id'', json_id E (lrssi_Id x)), (''scope'', JStr (lrssi_Scope x)), (''name'', JStr (lrssi_Name x))])
          (pgr_Items scopes))
       queryOps (pgr_TotalCount scopes)))))))"

definition GetResourceServerScope :: "env \<Rightarrow> req_ctx \<Rightarrow> api_request \<Rightarrow> unit act" where
  "GetResourceServerScope E ctx r =
     server_name ctx (\<lambda>vsName.
     path_uuid E r ''resourceServerId'' (\<lambda>resourceServerId.
     path_uuid E r ''scopeId'' (\<lambda>scopeId.
       let query = \<lparr>grss_VirtualServerName = vsName, grss_ProjectSlug = path_var r ''projectSlug'',
                    grss_ResourceServerId = resourceServerId, grss_ScopeId = scopeId\<rparr> in
     or_http_then_nil (Ask E (GetResourceServerScope_Policy E query) ctx (HandleGetResourceServerScope query)) (\<lambda>s.
     emit (WriteJson (JObj
       [(''id'', json_id E (grssr_Id s)), (''scope'', JStr (grssr_Scope s)), (''name'', JStr (grssr_Name s)),
        (''description'', JStr (grssr_Description s)), (''createdAt'', JTime (grssr_CreatedAt s)),
        (''updatedAt'', JTime (grssr_UpdatedAt s))]))))))"

section \<open>The routes\<close>

text \<open>The routes of projects, each with the body that it decodes.\<close>

datatype project_endpoint =
    PostProjects "create_project_dto body"
  | GetProjects
  | GetProjectRoute
  | PostRoles "(string \<times> string) body"
  | GetRoles
  | GetRoleRoute
  | PatchRoleRoute "(string option \<times> string option) body"
  | DeleteRoleRoute
  | PostRoleAssign "uuid body"
  | GetRoleUsers
  | PostApplications "create_application_dto body"
  | GetApplications
  | GetApplicationRoute
  | PatchApplicationRoute "patch_application_dto body"
  | DeleteApplicationRoute
  | PostResourceServers "create_project_dto body"
  | GetResourceServers
  | GetResourceServerRoute
  | PostScopes "create_scope_dto body"
  | GetScopes
  | GetScopeRoute

fun handle_project_endpoint :: "env \<Rightarrow> embedded_files \<Rightarrow> http_libs \<Rightarrow> api_request \<Rightarrow> project_endpoint \<Rightarrow> req_ctx \<Rightarrow> unit act" where
  "handle_project_endpoint E cf L r (PostProjects b) ctx = CreateProject E ctx b"
| "handle_project_endpoint E cf L r GetProjects ctx = ListProjects E ctx r"
| "handle_project_endpoint E cf L r GetProjectRoute ctx = GetProject E ctx r"
| "handle_project_endpoint E cf L r (PostRoles b) ctx = CreateRole E ctx r b"
| "handle_project_endpoint E cf L r GetRoles ctx = ListRoles E ctx r"
| "handle_project_endpoint E cf L r GetRoleRoute ctx = GetRoleById E ctx r"
| "handle_project_endpoint E cf L r (PatchRoleRoute b) ctx = PatchRole E cf ctx r b"
| "handle_project_endpoint E cf L r DeleteRoleRoute ctx = DeleteRole E cf ctx r"
| "handle_project_endpoint E cf L r (PostRoleAssign b) ctx = AssignRole E cf ctx r b"
| "handle_project_endpoint E cf L r GetRoleUsers ctx = ListUsersInRole E L ctx r"
| "handle_project_endpoint E cf L r (PostApplications b) ctx = CreateApplication E L ctx r b"
| "handle_project_endpoint E cf L r GetApplications ctx = ListApplications E ctx r"
| "handle_project_endpoint E cf L r GetApplicationRoute ctx = GetApplication E ctx r"
| "handle_project_endpoint E cf L r (PatchApplicationRoute b) ctx = PatchApplication E cf ctx r b"
| "handle_project_endpoint E cf L r DeleteApplicationRoute ctx = DeleteApplication E cf ctx r"
| "handle_project_endpoint E cf L r (PostResourceServers b) ctx = CreateResourceServer E cf ctx r b"
| "handle_project_endpoint E cf L r GetResourceServers ctx = ListResourceServers E ctx r"
| "handle_project_endpoint E cf L r GetResourceServerRoute ctx = GetResourceServer E ctx r"
| "handle_project_endpoint E cf L r (PostScopes b) ctx = CreateResourceServerScope E ctx r b"
| "handle_project_endpoint E cf L r GetScopes ctx = ListResourceServerScopes E L ctx r"
| "handle_project_endpoint E cf L r GetScopeRoute ctx = GetResourceServerScope E ctx r"

end
