(* ===== verification/ApiServers.thy ===== *)
theory ApiServers
  imports ApiUsers ApiProjects
begin

text \<open>
  The remaining handlers of the resource API (\<^verbatim>\<open>virtualServers.go\<close>, \<^verbatim>\<open>passwordrules.go\<close>, \<^verbatim>\<open>templates.go\<close>,
  \<^verbatim>\<open>groups.go\<close>, \<^verbatim>\<open>audit.go\<close>, \<^verbatim>\<open>health.go\<close> of \<^verbatim>\<open>internal/handlers\<close>), and the routes of the API
  (\<^verbatim>\<open>internal/server/server.go\<close>).
\<close>

section \<open>Virtual servers\<close>

record cvs_admin_dto =
  cvad_Username :: string
  cvad_DisplayName :: string
  cvad_PrimaryEmail :: string
  cvad_PasswordHash :: string
  cvad_Roles :: "string list"

record cvs_service_user_dto =
  cvud_Username :: string
  cvud_Roles :: "string list"
  cvud_Pem :: string
  cvud_Kid :: string

record cvs_application_dto =
  cvapd_Name :: string
  cvapd_DisplayName :: string
  cvapd_Type :: string
  cvapd_HashedSecret :: "string option"
  cvapd_RedirectUris :: "string list"
  cvapd_PostLogoutUris :: "string list"

record cvs_project_dto =
  cvpd_Slug :: string
  cvpd_Name :: string
  cvpd_Description :: string
  cvpd_Roles :: "(string \<times> string) list" \<comment> \<open>name, description\<close>
  cvpd_Applications :: "cvs_application_dto list"
  cvpd_ResourceServers :: "(string \<times> string \<times> string) list" \<comment> \<open>slug, name, description\<close>

record create_virtual_server_dto =
  cvd_Name :: string
  cvd_DisplayName :: string
  cvd_EnableRegistration :: bool
  cvd_PrimarySigningAlgorithm :: "string option"
  cvd_AdditionalSigningAlgorithms :: "string list"
  cvd_Require2fa :: bool
  cvd_Admin :: "cvs_admin_dto option"
  cvd_ServiceUsers :: "cvs_service_user_dto list"
  cvd_Projects :: "cvs_project_dto list"

definition valid_admin_dto :: "http_libs \<Rightarrow> cvs_admin_dto \<Rightarrow> bool" where
  "valid_admin_dto L a =
     (tag_name (cvad_Username a) \<and> tag_name (cvad_DisplayName a) \<and> tag_required (cvad_PrimaryEmail a) \<and>
      hl_email L (cvad_PrimaryEmail a) \<and> tag_required (cvad_PasswordHash a))"

text \<open>The lists of service users and projects have no tag, so the tags of their elements are not checked.\<close>

definition valid_CreateVirtualServerRequestDto :: "http_libs \<Rightarrow> create_virtual_server_dto \<Rightarrow> bool" where
  "valid_CreateVirtualServerRequestDto L d =
     (tag_name (cvd_Name d) \<and> tag_alphanum (cvd_Name d) \<and> tag_name (cvd_DisplayName d) \<and>
      tag_omitempty (tag_oneof [''RS256'', ''EdDSA'']) (cvd_PrimarySigningAlgorithm d) \<and>
      list_all (tag_oneof [''RS256'', ''EdDSA'']) (cvd_AdditionalSigningAlgorithms d) \<and>
      tag_omitempty (valid_admin_dto L) (cvd_Admin d))"

definition project_of_dto :: "cvs_project_dto \<Rightarrow> create_virtual_server_project" where
  "project_of_dto p =
     \<lparr>cvp_Slug = cvpd_Slug p, cvp_Name = cvpd_Name p, cvp_Description = cvpd_Description p,
      cvp_Applications = map (\<lambda>a.
        \<lparr>cvap_Name = cvapd_Name a, cvap_DisplayName = cvapd_DisplayName a, cvap_Type = cvapd_Type a,
         cvap_HashedSecret = cvapd_HashedSecret a, cvap_RedirectUris = cvapd_RedirectUris a,
         cvap_PostLogoutUris = cvapd_PostLogoutUris a, cvap_DeviceFlowEnabled = False\<rparr>) (cvpd_Applications p),
      cvp_Roles = map (\<lambda>(name, description). \<lparr>cvro_Name = name, cvro_Description = description\<rparr>) (cvpd_Roles p),
      cvp_ResourceServers = map (\<lambda>(slug, name, description).
        \<lparr>cvr_Slug = slug, cvr_Name = name, cvr_Description = description\<rparr>) (cvpd_ResourceServers p)\<rparr>"

definition command_of_dto :: "create_virtual_server_dto \<Rightarrow> create_virtual_server" where
  "command_of_dto d =
     \<lparr>cvs_Name = cvd_Name d, cvs_DisplayName = cvd_DisplayName d, cvs_EnableRegistration = cvd_EnableRegistration d,
      cvs_PrimarySigningAlgorithm =
        (case cvd_PrimarySigningAlgorithm d of None \<Rightarrow> SigningAlgorithmEdDSA | Some alg \<Rightarrow> alg),
      cvs_AdditionalSigningAlgorithms = cvd_AdditionalSigningAlgorithms d, cvs_Require2fa = cvd_Require2fa d,
      cvs_CreateSystemAdminRole = False,
      cvs_Admin = MapPtr (cvd_Admin d) (\<lambda>a.
        \<lparr>cva_Username = cvad_Username a, cva_DisplayName = cvad_DisplayName a, cva_PrimaryEmail = cvad_PrimaryEmail a,
         cva_PasswordHash = cvad_PasswordHash a, cva_Roles = cvad_Roles a\<rparr>),
      cvs_ServiceUsers = map (\<lambda>x.
        \<lparr>cvu_Username = cvud_Username x, cvu_Roles = cvud_Roles x, cvu_Pem = cvud_Pem x, cvu_Kid = cvud_Kid x\<rparr>) (cvd_ServiceUsers d),
      cvs_Projects = map project_of_dto (cvd_Projects d)\<rparr>"

definition CreateVirtualServer ::
  "env \<Rightarrow> embedded_files \<Rightarrow> http_libs \<Rightarrow> req_ctx \<Rightarrow> create_virtual_server_dto body \<Rightarrow> unit act" where
  "CreateVirtualServer E cf L ctx body =
     decoded body (\<lambda>dto.
     validated (valid_CreateVirtualServerRequestDto L dto) (
     or_http (mediatr_Send E cf ctx (CreateVirtualServerCommand (command_of_dto dto))) (\<lambda>_. NoContent)))"

definition GetVirtualServer :: "env \<Rightarrow> req_ctx \<Rightarrow> unit act" where
  "GetVirtualServer E ctx =
     server_name ctx (\<lambda>vsName.
       let query = \<lparr>gvs_VirtualServerName = vsName\<rparr> in
     or_http (Ask E (GetVirtualServerQuery_Policy E query) ctx (HandleGetVirtualServerQuery query)) (\<lambda>v.
     OK_json (JObj
       [(''id'', json_id E (gvsr_Id v)), (''name'', JStr (gvsr_Name v)), (''displayName'', JStr (gvsr_DisplayName v)),
        (''registrationEnabled'', JBool (gvsr_RegistrationEnabled v)), (''require2fa'', JBool (gvsr_Require2fa v)),
        (''requireEmailVerification'', JBool (gvsr_RequireEmailVerification v)),
        (''primarySigningAlgorithm'', JStr (gvsr_PrimarySigningAlgorithm v)),
        (''additionalSigningAlgorithms'', json_strings (gvsr_AdditionalSigningAlgorithms v)),
        (''createdAt'', JTime (gvsr_CreatedAt v)), (''updatedAt'', JTime (gvsr_UpdatedAt v))])))"

definition GetVirtualServerPublicInfo :: "req_ctx \<Rightarrow> unit act" where
  "GetVirtualServerPublicInfo ctx =
     server_name ctx (\<lambda>vsName.
     or_http (HandleGetVirtualServerPublicInfo \<lparr>gvp_VirtualServerName = vsName\<rparr>) (\<lambda>v.
     OK_json (JObj
       [(''name'', JStr (gvpr_Name v)), (''displayName'', JStr (gvpr_DisplayName v)),
        (''registrationEnabled'', JBool (gvpr_RegistrationEnabled v))])))"

record patch_virtual_server_dto =
  pvd_DisplayName :: "string option"
  pvd_EnableRegistration :: "bool option"
  pvd_Require2fa :: "bool option"
  pvd_RequireEmailVerification :: "bool option"
  pvd_PrimarySigningAlgorithm :: "string option"
  pvd_AdditionalSigningAlgorithms :: "string list option"

text \<open>The tags of this body are never checked.\<close>

definition PatchVirtualServer ::
  "env \<Rightarrow> embedded_files \<Rightarrow> req_ctx \<Rightarrow> patch_virtual_server_dto body \<Rightarrow> unit act" where
  "PatchVirtualServer E cf ctx body =
     server_name ctx (\<lambda>vsName.
     decoded body (\<lambda>dto.
     or_http (mediatr_Send E cf ctx (PatchVirtualServerCommand
         \<lparr>pvs_VirtualServerName = vsName, pvs_DisplayName = TrimSpace (pvd_DisplayName dto),
          pvs_EnableRegistration = pvd_EnableRegistration dto, pvs_Require2fa = pvd_Require2fa dto,
          pvs_RequireEmailVerification = pvd_RequireEmailVerification dto,
          pvs_PrimarySigningAlgorithm = pvd_PrimarySigningAlgorithm dto,
          pvs_AdditionalSigningAlgorithms = pvd_AdditionalSigningAlgorithms dto\<rparr>)) (\<lambda>_. NoContent)))"

definition VirtualServerHealth :: "unit act" where
  "VirtualServerHealth = emit (WriteHeader 200)"

section \<open>Password rules\<close>

text \<open>The details of every rule are decoded for the answer.\<close>

fun rule_documents :: "env \<Rightarrow> list_password_rules_item list \<Rightarrow> json list go" where
  "rule_documents E [] = Inr []"
| "rule_documents E (rule # rules) =
     go_bind (unmarshal_into (Some []) (lpri_Details rule)) (\<lambda>details.
     go_bind (rule_documents E rules) (\<lambda>docs.
       Inr (JObj [(''id'', json_id E (lpri_Id rule)), (''type'', JStr (password_rule_type_String (lpri_Type rule))),
                  (''details'', json_map details)] # docs)))"

definition ListPasswordRules :: "env \<Rightarrow> req_ctx \<Rightarrow> unit act" where
  "ListPasswordRules E ctx =
     server_name ctx (\<lambda>vsName.
       let query = \<lparr>lpr_VirtualServerName = vsName\<rparr> in
     or_http (Ask E (ListPasswordRules_Policy E query) ctx (HandleListPasswordRules query)) (\<lambda>rules.
     or_http (lift (rule_documents E rules)) (\<lambda>docs.
     emit (WriteJson (JObj [(''items'', JArr docs)])))))"

text \<open>The type of the rule is the one of the body; the one of the path is not read.\<close>

definition CreatePasswordRule ::
  "env \<Rightarrow> embedded_files \<Rightarrow> req_ctx \<Rightarrow> (string \<times> json_obj option) body \<Rightarrow> unit act" where
  "CreatePasswordRule E cf ctx body =
     server_name ctx (\<lambda>vsName.
     decoded_anyway body (\<lambda>(ruleType, details).
     validated (tag_required ruleType \<and> details \<noteq> None) (
     or_http (mediatr_Send E cf ctx (CreatePasswordRuleCommand
         \<lparr>cpr_VirtualServerName = vsName, cpr_Type = PasswordRuleType ruleType, cpr_Details = details\<rparr>)) (\<lambda>_. NoContent))))"

definition UpdatePasswordRule ::
  "env \<Rightarrow> embedded_files \<Rightarrow> req_ctx \<Rightarrow> api_request \<Rightarrow> json_obj option body \<Rightarrow> unit act" where
  "UpdatePasswordRule E cf ctx r body =
     server_name ctx (\<lambda>vsName.
       case map_of (aq_Vars r) ''ruleType'' of
         None \<Rightarrow> HandleHttpError (Wrap ''ruleType is required'' (Named ErrHttpBadRequest))
       | Some ruleType \<Rightarrow>
           decoded body (\<lambda>details.
           or_http (mediatr_Send E cf ctx (UpdatePasswordRuleCommand
               \<lparr>upr_VirtualServerName = vsName, upr_Type = PasswordRuleType ruleType, upr_Details = details\<rparr>)) (\<lambda>_. NoContent)))"

section \<open>Templates, groups and the audit log\<close>

definition GetTemplate :: "env \<Rightarrow> req_ctx \<Rightarrow> api_request \<Rightarrow> unit act" where
  "GetTemplate E ctx r =
     server_name ctx (\<lambda>vsName.
       case map_of (aq_Vars r) ''templateType'' of
         None \<Rightarrow> HandleHttpError (Named ErrTemplateNotFound)
       | Some templateType \<Rightarrow>
           let query = \<lparr>gt0_VirtualServerName = vsName, gt0_Type = templateType\<rparr> in
           or_http (Ask E (GetTemplate_Policy E query) ctx (HandleGetTemplate query)) (\<lambda>t.
           OK_json (JObj
             [(''id'', json_id E (gtr_Id t)), (''type'', JStr templateType), (''text'', JStr (gtr_Text t)),
              (''createdAt'', JTime (gtr_CreatedAt t)), (''updatedAt'', JTime (gtr_UpdatedAt t))])))"

definition ListTemplates :: "env \<Rightarrow> req_ctx \<Rightarrow> api_request \<Rightarrow> unit act" where
  "ListTemplates E ctx r =
     with_query_ops r (\<lambda>queryOps.
     server_name ctx (\<lambda>vsName.
       let query = \<lparr>lt_PageSize = qo_PageSize queryOps, lt_Page = qo_Page queryOps, lt_OrderBy = qo_OrderBy queryOps,
                    lt_OrderDir = qo_OrderDir queryOps, lt_VirtualServerName = vsName, lt_SearchText = qo_Search queryOps\<rparr> in
     or_http (Ask E (ListTemplates_Policy E query) ctx (HandleListTemplates query)) (\<lambda>templates.
     OK_json (NewPagedResponseDto
       (map (\<lambda>x. JObj [(''id'', json_id E (lti_Id x)), (''type'', JStr (lti_Type x))]) (pgr_Items templates))
       queryOps (pgr_TotalCount templates)))))"

definition ListGroups :: "env \<Rightarrow> req_ctx \<Rightarrow> api_request \<Rightarrow> unit act" where
  "ListGroups E ctx r =
     with_query_ops r (\<lambda>queryOps.
     server_name ctx (\<lambda>vsName.
       let query = \<lparr>lg_PageSize = qo_PageSize queryOps, lg_Page = qo_Page queryOps, lg_OrderBy = qo_OrderBy queryOps,
                    lg_OrderDir = qo_OrderDir queryOps, lg_VirtualServerName = vsName, lg_SearchText = qo_Search queryOps\<rparr> in
     or_http_then_nil (Ask E (ListGroups_Policy E query) ctx (HandleListGroups query)) (\<lambda>groups.
     OK_json (NewPagedResponseDto
       (map (\<lambda>x. JObj [(''id'', json_id E (lgi_Id x)), (''name'', JStr (lgi_Name x))]) (pgr_Items groups))
       queryOps (pgr_TotalCount groups)))))"

definition audit_entry_json :: "env \<Rightarrow> list_audit_entries_item \<Rightarrow> json" where
  "audit_entry_json E x = JObj
     [(''id'', json_id E (laei_Id x)), (''userId'', json_pointer (json_id E) (laei_UserId x)),
      (''requestType'', JStr (laei_RequestType x)), (''requestData'', json_map (laei_Request x)),
      (''responseData'', json_pointer json_map (laei_Response x)), (''allowed'', JBool (laei_Allowed x)),
      (''allowReasonType'', json_pointer JStr (laei_AllowReasonType x)),
      (''allowReason'', json_pointer json_map (laei_AllowReason x)), (''createdAt'', JTime (laei_CreatedAt x))]"

definition ListAuditLog :: "env \<Rightarrow> req_ctx \<Rightarrow> api_request \<Rightarrow> unit act" where
  "ListAuditLog E ctx r =
     with_query_ops r (\<lambda>queryOps.
     server_name ctx (\<lambda>vsName.
       let query = \<lparr>lae_PageSize = qo_PageSize queryOps, lae_Page = qo_Page queryOps, lae_OrderBy = qo_OrderBy queryOps,
                    lae_OrderDir = qo_OrderDir queryOps, lae_VirtualServerName = vsName\<rparr> in
     or_http_then_nil (Ask E (ListAuditEntries_Policy E query) ctx (HandleListAuditEntries query)) (\<lambda>auditEntries.
     emit (WriteJson (NewPagedResponseDto (map (audit_entry_json E) (pgr_Items auditEntries))
       queryOps (pgr_TotalCount auditEntries))))))"

section \<open>The routes\<close>

text \<open>The routes of virtual servers, each with the body that it decodes.\<close>

datatype server_endpoint =
    PostVirtualServers "create_virtual_server_dto body"
  | GetVirtualServerRoute
  | GetPublicInfoRoute
  | GetHealthRoute
  | PatchVirtualServerRoute "patch_virtual_server_dto body"
  | GetPasswordRules
  | PostPasswordRule "(string \<times> json_obj option) body"
  | PutPasswordRule "json_obj option body"
  | GetTemplates
  | GetTemplateRoute
  | GetGroups
  | GetAudit

fun handle_server_endpoint :: "env \<Rightarrow> embedded_files \<Rightarrow> http_libs \<Rightarrow> api_request \<Rightarrow> server_endpoint \<Rightarrow> req_ctx \<Rightarrow> unit act" where
  "handle_server_endpoint E cf L r (PostVirtualServers b) ctx = CreateVirtualServer E cf L ctx b"
| "handle_server_endpoint E cf L r GetVirtualServerRoute ctx = GetVirtualServer E ctx"
| "handle_server_endpoint E cf L r GetPublicInfoRoute ctx = GetVirtualServerPublicInfo ctx"
| "handle_server_endpoint E cf L r GetHealthRoute ctx = VirtualServerHealth"
| "handle_server_endpoint E cf L r (PatchVirtualServerRoute b) ctx = PatchVirtualServer E cf ctx b"
| "handle_server_endpoint E cf L r GetPasswordRules ctx = ListPasswordRules E ctx"
| "handle_server_endpoint E cf L r (PostPasswordRule b) ctx = CreatePasswordRule E cf ctx b"
| "handle_server_endpoint E cf L r (PutPasswordRule b) ctx = UpdatePasswordRule E cf ctx r b"
| "handle_server_endpoint E cf L r GetTemplates ctx = ListTemplates E ctx r"
| "handle_server_endpoint E cf L r GetTemplateRoute ctx = GetTemplate E ctx r"
| "handle_server_endpoint E cf L r GetGroups ctx = ListGroups E ctx r"
| "handle_server_endpoint E cf L r GetAudit ctx = ListAuditLog E ctx r"

text \<open>All routes behind the authentication of the API.\<close>

datatype endpoint = Servers server_endpoint | Users user_endpoint | Projects project_endpoint

fun handle_endpoint :: "env \<Rightarrow> embedded_files \<Rightarrow> http_libs \<Rightarrow> api_request \<Rightarrow> endpoint \<Rightarrow> req_ctx \<Rightarrow> unit act" where
  "handle_endpoint E cf L r (Servers e) = handle_server_endpoint E cf L r e"
| "handle_endpoint E cf L r (Users e) = handle_user_endpoint E cf L r e"
| "handle_endpoint E cf L r (Projects e) = handle_project_endpoint E cf L r e"

definition serve_api :: "env \<Rightarrow> embedded_files \<Rightarrow> http_libs \<Rightarrow> api_request \<Rightarrow> endpoint \<Rightarrow> unit act" where
  "serve_api E cf L r e = api_route E r (handle_endpoint E cf L r e)"

end
