(* ===== verification/ApiSpec.thy ===== *)
theory ApiSpec
  imports ApiServers
begin

text \<open>
  What the resource API guarantees as a whole: which routes answer a caller without a token, the options of
  a listing, and the registration of a passkey.
\<close>

section \<open>Refusals\<close>

text \<open>The error that a request without a user gets from the mediator.\<close>

definition denial :: "req_ctx \<Rightarrow> world \<Rightarrow> goerr" where
  "denial ctx w =
     (if rc_vsName ctx = [] \<or> vs_named (w_stores w) (rc_vsName ctx) \<noteq> None
      then Wrap ''request not allowed'' (Named ErrHttpUnauthorized)
      else Wrap ''failed to check if request is allowed'' (Wrap ''getting virtual server'' (Named ErrVirtualServerNotFound)))"

definition nobody_on :: "string \<Rightarrow> req_ctx" where
  "nobody_on vsName = \<lparr>rc_user = Some (NewCurrentUser uuid_Nil), rc_vsName = vsName\<rparr>"

lemma nobody_on_simps [simp]: "rc_user (nobody_on n) = Some (NewCurrentUser uuid_Nil)" "rc_vsName (nobody_on n) = n"
  by (simp_all add: nobody_on_def)

lemma Send_anonymous:
  assumes "rq_IsAllowed rq = PermissionBasedPolicy p"
  shows "Send E to_json rq (nobody_on n) handler w = (Inl (Err (denial (nobody_on n) w)), w)"
proof (cases "n = [] \<or> vs_named (w_stores w) n \<noteq> None")
  case True
  have "\<not> IsAuthenticated (NewCurrentUser uuid_Nil)" "HasPermission (NewCurrentUser uuid_Nil) SystemUser = None"
    by (simp_all add: IsAuthenticated_def NewCurrentUser_def HasPermission_def)
  then obtain v where "evaluatePolicy rq (nobody_on n) w = (Inr (Denied (cu_UserId (NewCurrentUser uuid_Nil)) v), w)"
    using evaluatePolicy_permission [OF assms, of "nobody_on n" "NewCurrentUser uuid_Nil" w] True by auto
  then show ?thesis using True by (auto simp: Send_denied denial_def)
next
  case False
  then show ?thesis
    by (simp add: Send_def PolicyBehaviour_def evaluatePolicy_def GetCurrentUser_def bnd_def wrapped_def vs_by_name_eq denial_def)
qed

lemma mediatr_Send_anonymous:
  assumes "command_permission c \<noteq> None"
  shows "mediatr_Send E cf (nobody_on n) c w = (Inl (Err (denial (nobody_on n) w)), w)"
proof -
  obtain p where "command_permission c = Some p" using assms by blast
  then obtain rq where "policy_of E c = Some rq" "rq_IsAllowed rq = PermissionBasedPolicy p"
    using policy_of_permission [where c = c and E = E] by auto
  then show ?thesis using Send_anonymous by (simp add: mediatr_Send_def)
qed

text \<open>A handler that only answers with errors: it returns or panics, after at least one of them.\<close>

fun is_HttpError :: "http_event \<Rightarrow> bool" where
  "is_HttpError (HttpError _) = True"
| "is_HttpError _ = False"

fun no_error :: "unit go \<Rightarrow> bool" where
  "no_error (Inl (Err _)) = False"
| "no_error _ = True"

definition refuses :: "unit act \<Rightarrow> bool" where
  "refuses m \<longleftrightarrow> (\<forall>w. \<exists>r evs. m w = (r, w\<lparr>w_out := w_out w @ evs\<rparr>) \<and> no_error r \<and> evs \<noteq> [] \<and> list_all is_HttpError evs)"

named_theorems refusing \<open>handlers that refuse\<close>

lemma refuses_error [refusing]: "refuses (HandleHttpError e)"
  by (auto simp: refuses_def)

lemma refuses_after [refusing]: "refuses m \<Longrightarrow> refuses (bnd (HandleHttpError e) (\<lambda>_. m))"
  unfolding refuses_def
proof
  fix w :: world
  assume m: "\<forall>w. \<exists>r evs. m w = (r, w\<lparr>w_out := w_out w @ evs\<rparr>) \<and> no_error r \<and> evs \<noteq> [] \<and> list_all is_HttpError evs"
  let ?w = "w\<lparr>w_out := w_out w @ [HttpError (http_status_of e)]\<rparr>"
  obtain r evs where "m ?w = (r, ?w\<lparr>w_out := w_out ?w @ evs\<rparr>)" "no_error r" "list_all is_HttpError evs"
    using m by blast
  then show "\<exists>r evs. bnd (HandleHttpError e) (\<lambda>_. m) w = (r, w\<lparr>w_out := w_out w @ evs\<rparr>) \<and> no_error r \<and> evs \<noteq> [] \<and>
      list_all is_HttpError evs"
    by (intro exI [of _ r] exI [of _ "HttpError (http_status_of e) # evs"]) (simp add: bnd_def)
qed

lemma refuses_or_http: "(\<And>w. \<exists>e. m w = (Inl (Err e), w)) \<Longrightarrow> refuses (or_http m f)"
  unfolding refuses_def or_http_def or_answer_def
proof
  fix w :: world
  assume "\<And>w. \<exists>e. m w = (Inl (Err e), w)"
  then obtain e where "m w = (Inl (Err e), w)" by blast
  then show "\<exists>r evs. (case m w of (Inl (Err e), w') \<Rightarrow> HandleHttpError e w' | (Inl (Panic p), w') \<Rightarrow> (Inl (Panic p), w')
      | (Inr x, w') \<Rightarrow> f x w') = (r, w\<lparr>w_out := w_out w @ evs\<rparr>) \<and> no_error r \<and> evs \<noteq> [] \<and> list_all is_HttpError evs"
    by (intro exI [of _ "Inr ()"] exI [of _ "[HttpError (http_status_of e)]"]) simp
qed

lemma refuses_then_nil: "(\<And>w. \<exists>e. m w = (Inl (Err e), w)) \<Longrightarrow> refuses (or_http_then_nil m f)"
  unfolding refuses_def or_http_then_nil_def or_answer_def
proof
  fix w :: world
  assume "\<And>w. \<exists>e. m w = (Inl (Err e), w)"
  then obtain e where "m w = (Inl (Err e), w)" by blast
  then show "\<exists>r evs. (case m w of (Inl (Err e), w') \<Rightarrow> bnd (HandleHttpError e) (\<lambda>_. lift nil_dereference) w'
      | (Inl (Panic p), w') \<Rightarrow> (Inl (Panic p), w') | (Inr x, w') \<Rightarrow> f x w') = (r, w\<lparr>w_out := w_out w @ evs\<rparr>) \<and>
      no_error r \<and> evs \<noteq> [] \<and> list_all is_HttpError evs"
    by (intro exI [of _ "nil_dereference"] exI [of _ "[HttpError (http_status_of e)]"]) (simp add: bnd_def nil_dereference_def)
qed

lemma Ask_anonymous: "rq_IsAllowed rq = PermissionBasedPolicy p \<Longrightarrow> \<exists>e. Ask E rq (nobody_on n) h w = (Inl (Err e), w)"
  by (simp add: Ask_def Send_anonymous)

lemma Send_anonymous_ex: "rq_IsAllowed rq = PermissionBasedPolicy p \<Longrightarrow> \<exists>e. Send E tj rq (nobody_on n) h w = (Inl (Err e), w)"
  by (simp add: Send_anonymous)

lemma mediatr_Send_anonymous_ex: "command_permission c \<noteq> None \<Longrightarrow> \<exists>e. mediatr_Send E cf (nobody_on n) c w = (Inl (Err e), w)"
  by (simp add: mediatr_Send_anonymous)

lemma go_bind_no_panic:
  "(\<And>p. m \<noteq> Inl (Panic p)) \<Longrightarrow> (\<And>x p. f x \<noteq> Inl (Panic p)) \<Longrightarrow> go_bind m f \<noteq> Inl (Panic p)"
  by (cases m) auto

lemma form_number_no_panic: "form_number msg s \<noteq> Inl (Panic p)"
  by (auto simp: form_number_def Atoi_def wrap_def Let_def split: if_splits option.splits prod.splits list.splits stop.splits)

lemma ParseQueryOps_no_panic: "ParseQueryOps r \<noteq> Inl (Panic p)"
  unfolding ParseQueryOps_def Let_def
  by (intro go_bind_no_panic form_number_no_panic) (auto split: option.splits)

lemma refuses_with_query_ops [refusing]: "(\<And>q. refuses (f q)) \<Longrightarrow> refuses (with_query_ops r f)"
proof (cases "ParseQueryOps r")
  case (Inl e)
  then obtain e' where "ParseQueryOps r = Inl (Err e')" using ParseQueryOps_no_panic [of r] by (cases e) auto
  then show ?thesis by (auto simp: with_query_ops_def intro!: refuses_or_http)
qed (auto simp: with_query_ops_def refuses_def or_http_def or_answer_def)

lemma refuses_server_name [refusing]: "(\<And>x. refuses (f x)) \<Longrightarrow> refuses (server_name ctx f)"
  by (auto simp: server_name_def refuses_def or_http_def or_answer_def)

lemma refuses_path_uuid [refusing]: "(\<And>i. refuses (f i)) \<Longrightarrow> refuses (path_uuid E r name f)"
  by (auto simp: path_uuid_def intro: refusing split: option.split)

lemma refuses_path_uuid_anyway [refusing]: "(\<And>i. refuses (f i)) \<Longrightarrow> refuses (path_uuid_anyway E L r name f)"
  by (auto simp: path_uuid_anyway_def intro: refusing split: option.split)

lemma refuses_decoded [refusing]: "(\<And>d. refuses (f d)) \<Longrightarrow> refuses (decoded b f)"
  by (auto simp: decoded_def intro: refusing split: option.split)

lemma refuses_decoded_anyway [refusing]: "(\<And>d. refuses (f d)) \<Longrightarrow> refuses (decoded_anyway b f)"
  by (auto simp: decoded_anyway_def intro: refusing split: option.split)

lemma refuses_validated [refusing]: "refuses m \<Longrightarrow> refuses (validated b m)"
  by (auto simp: validated_def refuses_def or_http_def or_answer_def)

lemma refuses_Let [refusing]: "refuses (f a) \<Longrightarrow> refuses (let x = a in f x)"
  by simp

lemma refuses_if [refusing]: "refuses m \<Longrightarrow> refuses m' \<Longrightarrow> refuses (if b then m else m')"
  by simp

lemma refuses_option [refusing]: "refuses m \<Longrightarrow> (\<And>x. refuses (f x)) \<Longrightarrow> refuses (case v of None \<Rightarrow> m | Some x \<Rightarrow> f x)"
  by (simp split: option.split)

lemma refuses_prod [refusing]: "(\<And>x y. refuses (f x y)) \<Longrightarrow> refuses (case d of (x, y) \<Rightarrow> f x y)"
  by (simp split: prod.split)


text \<open>The requests with a policy are refused.\<close>

definition needs_permission :: "request \<Rightarrow> bool" where
  "needs_permission rq \<longleftrightarrow> (\<exists>p. rq_IsAllowed rq = PermissionBasedPolicy p)"

lemma policy_permissions [refusing]:
  "needs_permission (GetVirtualServerQuery_Policy E q1)"
  "needs_permission (GetProject_Policy E q2)"
  "needs_permission (ListProjects_Policy E q3)"
  "needs_permission (GetRoleQuery_Policy E q4)"
  "needs_permission (ListRoles_Policy E q5)"
  "needs_permission (ListUsersInRole_Policy E q6)"
  "needs_permission (GetApplication_Policy E q7)"
  "needs_permission (ListApplications_Policy E q8)"
  "needs_permission (GetResourceServer_Policy E q9)"
  "needs_permission (ListResourceServers_Policy E q10)"
  "needs_permission (GetResourceServerScope_Policy E q11)"
  "needs_permission (ListRessouceServerScopes_Policy E q12)"
  "needs_permission (GetUserQuery_Policy E q13)"
  "needs_permission (ListUsers_Policy E q14)"
  "needs_permission (ListGroups_Policy E q15)"
  "needs_permission (ListPasskeys_Policy E q16)"
  "needs_permission (GetUserMetadata_Policy E q17)"
  "needs_permission (GetTemplate_Policy E q18)"
  "needs_permission (ListTemplates_Policy E q19)"
  "needs_permission (ListPasswordRules_Policy E q20)"
  "needs_permission (ListAuditEntries_Policy E q21)"
  "needs_permission (CreateProject_Policy E q22)"
  "needs_permission (CreateRole_Policy E q23)"
  "needs_permission (CreateApplication_Policy E q24)"
  "needs_permission (CreateUser_Policy E q25)"
  "needs_permission (CreateServiceUser_Policy E q26)"
  "needs_permission (AssociateServiceUserPublicKey_Policy E q27)"
  unfolding needs_permission_def
  by (simp_all add: GetVirtualServerQuery_Policy_def GetProject_Policy_def ListProjects_Policy_def GetRoleQuery_Policy_def ListRoles_Policy_def ListUsersInRole_Policy_def GetApplication_Policy_def ListApplications_Policy_def GetResourceServer_Policy_def ListResourceServers_Policy_def GetResourceServerScope_Policy_def ListRessouceServerScopes_Policy_def GetUserQuery_Policy_def ListUsers_Policy_def ListGroups_Policy_def ListPasskeys_Policy_def GetUserMetadata_Policy_def GetTemplate_Policy_def ListTemplates_Policy_def ListPasswordRules_Policy_def ListAuditEntries_Policy_def CreateProject_Policy_def CreateRole_Policy_def CreateApplication_Policy_def CreateUser_Policy_def CreateServiceUser_Policy_def AssociateServiceUserPublicKey_Policy_def) blast+

lemma refuses_Ask [refusing]: "needs_permission rq \<Longrightarrow> refuses (or_http (Ask E rq (nobody_on n) h) f)"
  unfolding needs_permission_def by (rule refuses_or_http) (auto intro: Ask_anonymous)

lemma refuses_Ask_then_nil [refusing]:
  "needs_permission rq \<Longrightarrow> refuses (or_http_then_nil (Ask E rq (nobody_on n) h) f)"
  unfolding needs_permission_def by (rule refuses_then_nil) (auto intro: Ask_anonymous)

lemma refuses_Send [refusing]: "needs_permission rq \<Longrightarrow> refuses (or_http (Send E tj rq (nobody_on n) h) f)"
  unfolding needs_permission_def by (rule refuses_or_http) (auto intro: Send_anonymous_ex)

lemma refuses_Send_then_nil [refusing]:
  "needs_permission rq \<Longrightarrow> refuses (or_http_then_nil (Send E tj rq (nobody_on n) h) f)"
  unfolding needs_permission_def by (rule refuses_then_nil) (auto intro: Send_anonymous_ex)

lemma refuses_command [refusing]: "command_permission c \<noteq> None \<Longrightarrow> refuses (or_http (mediatr_Send E cf (nobody_on n) c) f)"
  by (rule refuses_or_http) (rule mediatr_Send_anonymous_ex)

section \<open>Callers without a token\<close>

text \<open>
  The routes that do more than refuse: the public data and the health of a virtual server, the commands without a policy, and
  the two steps of registering a passkey, which compare the user of the path with the caller themselves.
\<close>

fun open_endpoint :: "endpoint \<Rightarrow> bool" where
  "open_endpoint (Servers e) = (case e of GetPublicInfoRoute \<Rightarrow> True | GetHealthRoute \<Rightarrow> True | PutPasswordRule _ \<Rightarrow> True | _ \<Rightarrow> False)"
| "open_endpoint (Users e) =
     (case e of PostRegister _ \<Rightarrow> True | GetVerifyEmail \<Rightarrow> True | PostPasskeyStart \<Rightarrow> True | PostPasskeyFinish _ \<Rightarrow> True | _ \<Rightarrow> False)"
| "open_endpoint (Projects e) = (case e of PostScopes _ \<Rightarrow> True | _ \<Rightarrow> False)"

lemmas server_handler_defs = CreateVirtualServer_def GetVirtualServer_def PatchVirtualServer_def ListPasswordRules_def
  CreatePasswordRule_def GetTemplate_def ListTemplates_def ListGroups_def ListAuditLog_def

lemmas user_handler_defs = CreateUser_def ListUsers_def GetUserById_def GetUserApplicationMetadata_def
  GetUserGlobalMetadata_def GetUserMetadata_def UpdateUserGlobalMetadata_def PatchUserGlobalMetadata_def
  UpdateUserApplicationMetadata_def PatchUserApplicationMetadata_def PatchUser_def CreateServiceUser_def
  AssociateServiceUserPublicKey_def RemoveServiceUserPublicKey_def ListPasskeys_def

lemmas project_handler_defs = CreateProject_def ListProjects_def GetProject_def GetRoleById_def ListRoles_def CreateRole_def
  AssignRole_def ListUsersInRole_def PatchRole_def DeleteRole_def CreateApplication_def GetApplication_def PatchApplication_def
  DeleteApplication_def ListApplications_def CreateResourceServer_def ListResourceServers_def GetResourceServer_def
  ListResourceServerScopes_def GetResourceServerScope_def

lemma server_endpoint_refuses: "\<not> open_endpoint (Servers e) \<Longrightarrow> refuses (handle_server_endpoint E cf L r e (nobody_on n))"
  by (cases e) (simp_all add: server_handler_defs Let_def, (intro refusing; simp)+)

lemma user_endpoint_refuses: "\<not> open_endpoint (Users e) \<Longrightarrow> refuses (handle_user_endpoint E cf L r e (nobody_on n))"
  by (cases e) (simp_all add: user_handler_defs Let_def, (intro refusing; simp)+)

lemma project_endpoint_refuses: "\<not> open_endpoint (Projects e) \<Longrightarrow> refuses (handle_project_endpoint E cf L r e (nobody_on n))"
  by (cases e) (simp_all add: project_handler_defs Let_def, (intro refusing; simp)+)


lemma endpoint_refuses: "\<not> open_endpoint e \<Longrightarrow> refuses (handle_endpoint E cf L r e (nobody_on n))"
  using server_endpoint_refuses user_endpoint_refuses project_endpoint_refuses by (cases e) simp_all

lemma serve_refused:
  assumes "refuses m" "w_db w = newContext (w_stores w)"
  shows "\<exists>evs. RecoverMiddleware (serve m) w = (Inr (), w\<lparr>w_out := w_out w @ evs\<rparr>) \<and> evs \<noteq> [] \<and> list_all is_HttpError evs"
proof -
  obtain r evs where m: "m w = (r, w\<lparr>w_out := w_out w @ evs\<rparr>)" "no_error r" "evs \<noteq> []" "list_all is_HttpError evs"
    using assms(1) unfolding refuses_def by blast
  have "db_save (w\<lparr>w_out := out\<rparr>) = (Inr (), w\<lparr>w_out := out\<rparr>)" for out
    using assms(2) by (simp add: db_save_def SaveChanges_def Tracker_GetChanges_def newContext_def Tracker_Clear_def NewTracker_def)
  then have serve: "serve m w = (r, w\<lparr>w_out := w_out w @ evs\<rparr>)"
    by (simp add: serve_def m(1))
  show ?thesis
  proof (cases r)
    case (Inl s)
    then obtain p where "r = Inl (Panic p)" using m(2) by (cases s) auto
    then show ?thesis
      using m(3,4) by (intro exI [of _ "evs @ [HttpError 500]"]) (simp add: RecoverMiddleware_def serve emit_def)
  next
    case (Inr u)
    then show ?thesis using m(3,4) by (intro exI [of _ evs]) (simp add: RecoverMiddleware_def serve)
  qed
qed

text \<open>
  C9: what the resource API does for a caller without a token. On every route but eight the request ends with error
  answers only: it shows no document, sends no redirect, and leaves the database, the key-value store, the keys and the random
  source as they were, whatever the path, the form and the body are.
\<close>

theorem anonymous_api_refused:
  assumes "aq_Authorization r = []" "\<not> open_endpoint e" "w_db w = newContext (w_stores w)"
  shows "\<exists>evs. serve_api E cf L r e w = (Inr (), w\<lparr>w_out := w_out w @ evs\<rparr>) \<and> evs \<noteq> [] \<and> list_all is_HttpError evs"
proof -
  let ?handler = "\<lambda>vsName. AuthenticationMiddleware E (aq_Authorization r) vsName (handle_endpoint E cf L r e)"
  have "?handler n = (if n = [] then HandleHttpError (Named ErrMissingVirtualServerNameInContext)
      else or_http (ret (NewCurrentUser uuid_Nil)) (\<lambda>u. handle_endpoint E cf L r e \<lparr>rc_user = Some u, rc_vsName = n\<rparr>))" for n
    using assms(1) by (simp add: AuthenticationMiddleware_def)
  then have "refuses (?handler n)" for n
    using refuses_error endpoint_refuses [OF assms(2), of E cf L r n]
    by (cases "n = []") (auto simp: refuses_def or_http_def or_answer_def nobody_on_def)
  then show ?thesis
    using serve_refused assms(3) by (auto simp: serve_api_def api_route_def VirtualServerMiddleware_def Let_def)
qed

definition sample_request_api :: api_request where
  "sample_request_api =
     \<lparr>aq_Vars = [(''virtualServerName'', ''a''), (''userId'', unary 7), (''roleId'', unary 5), (''projectSlug'', ''p'')],
      aq_ParseForm = None, aq_Form = (\<lambda>_. []), aq_Query = (\<lambda>_. []), aq_Authorization = []\<rparr>"

definition sample_libs :: http_libs where
  "sample_libs = \<lparr>hl_url = (\<lambda>_. True), hl_email = (\<lambda>_. True), hl_uuid_rest = (\<lambda>_. uuid_Nil)\<rparr>"

theorem anonymous_api_refused_witness:
  "\<exists>evs. serve_api test_env no_files sample_libs sample_request_api (Projects DeleteRoleRoute) sample_world =
     (Inr (), sample_world\<lparr>w_out := w_out sample_world @ evs\<rparr>) \<and> evs \<noteq> [] \<and> list_all is_HttpError evs"
  by (rule anonymous_api_refused)
    (simp_all add: sample_request_api_def sample_world_def world_with_def w_stores_def newContext_def)

section \<open>Registering a passkey\<close>

text \<open>
  C29: the registration of a passkey does not use its challenge. Whatever the key-value store holds, also when no challenge
  was ever created, the caller's request stores the public key of its body as a credential of the user of the path; the caller
  only has to be that user.
\<close>

theorem passkey_registration_ignores_challenge:
  assumes "rc_user ctx = Some u" "e_uuid_Parse E (path_var r ''userId'') = Some (cu_UserId u)"
    and "RawURLEncoding_DecodeString (pvd_PublicKey dto) = Inr key" "pvd_Id dto \<noteq> uuid_Nil"
    and "w_db w = newContext (w_stores w)"
  shows "\<exists>w' i c. serve (PasskeyValidateCreateChallengeResponse E ctx r (None, dto)) w = (Inr (), w') \<and>
    map_of (st_Credentials (w_stores w')) i = Some c \<and> cr_userId c = cu_UserId u \<and>
    cr_details c = CredentialWebauthnDetails (pvd_RawId dto) (pvd_PublicKeyAlgorithm dto) key \<and>
    w_out w' = w_out w @ [WriteHeader 204]"
proof -
  let ?i = "e_uuid_New E (w_rand w)"
  let ?c = "NewCredential ?i (w_now w) (cu_UserId u)
      (CredentialWebauthnDetails (pvd_RawId dto) (pvd_PublicKeyAlgorithm dto) key)"
  let ?e = "NewEntry Added CredentialEntityType (ItemCredential ?c)"
  define kv where "kv = kv_Delete (challenge_key E (pvd_Id dto)) (w_kv w)"
  have run: "PasskeyValidateCreateChallengeResponse E ctx r (None, dto) w =
      (Inr (), (drew w)\<lparr>w_db := (w_db w)\<lparr>db_tracker := [?e]\<rparr>, w_kv := kv, w_out := w_out w @ [WriteHeader 204]\<rparr>)"
    using assms
    by (simp add: PasskeyValidateCreateChallengeResponse_def path_uuid_def GetCurrentUser_def decoded_def validated_def
        or_http_def or_answer_def fresh_def bnd_def drew_act get_now_def db_write_def CredentialRepository_Insert_def Tracker_Add_def
        kv_delete_def kv_def NoContent_def emit_def drew_def newContext_def NewTracker_def)
  obtain st' where st': "Context_applyChange (w_stores w) ?e = Inr st'"
    "map_of (st_Credentials st') ?i = Some (written_Credential ?c)"
    by (auto simp: Context_applyChange_def applyChange_def as_Credential_def Let_def NewCredential_def NewBaseModel_def
        written_Credential_def SetVersion_def update_conv')
  let ?w1 = "(drew w)\<lparr>w_db := (w_db w)\<lparr>db_tracker := [?e]\<rparr>, w_kv := kv, w_out := w_out w @ [WriteHeader 204]\<rparr>"
  have "db_save ?w1 = (Inr (), ?w1\<lparr>w_db := newContext st'\<rparr>)"
    using st'(1) by (intro save_ok) (simp add: w_stores_def)
  then have "serve (PasskeyValidateCreateChallengeResponse E ctx r (None, dto)) w = (Inr (), ?w1\<lparr>w_db := newContext st'\<rparr>)"
    by (simp add: serve_def run)
  moreover have "cr_userId (written_Credential ?c) = cu_UserId u"
    "cr_details (written_Credential ?c) = CredentialWebauthnDetails (pvd_RawId dto) (pvd_PublicKeyAlgorithm dto) key"
    by (simp_all add: written_Credential_def NewCredential_def)
  ultimately show ?thesis
    using st'(2) by (intro exI [of _ "?w1\<lparr>w_db := newContext st'\<rparr>"] exI [of _ ?i] exI [of _ "written_Credential ?c"])
      (simp add: w_stores_def newContext_def)
qed


text \<open>At a caller without a token, whose user is the zero identifier, and an empty key-value store.\<close>

theorem passkey_registration_ignores_challenge_witness:
  "\<exists>w' i c. serve (PasskeyValidateCreateChallengeResponse test_env (nobody_on ''a'')
        (sample_request_api\<lparr>aq_Vars := [(''userId'', unary 0)]\<rparr>)
        (None, \<lparr>pvd_Id = 5, pvd_RawId = ''raw'', pvd_PublicKey = RawURLEncoding_EncodeToString ''key'', pvd_PublicKeyAlgorithm = -8\<rparr>))
        (sample_world\<lparr>w_kv := []\<rparr>) = (Inr (), w') \<and>
     map_of (st_Credentials (w_stores w')) i = Some c \<and> cr_userId c = uuid_Nil"
proof -
  have "e_uuid_Parse test_env (path_var (sample_request_api\<lparr>aq_Vars := [(''userId'', unary 0)]\<rparr>) ''userId'') =
      Some (cu_UserId (NewCurrentUser uuid_Nil))"
    by (simp add: path_var_def test_env_def NewCurrentUser_def uuid_Nil_def)
  from passkey_registration_ignores_challenge [OF _ this, of "nobody_on ''a''"
      "\<lparr>pvd_Id = 5, pvd_RawId = ''raw'', pvd_PublicKey = RawURLEncoding_EncodeToString ''key'', pvd_PublicKeyAlgorithm = -8\<rparr>" "''key''"
      "sample_world\<lparr>w_kv := []\<rparr>"]
  show ?thesis
    by (fastforce simp: sample_world_def world_with_def w_stores_def newContext_def NewCurrentUser_def uuid_Nil_def)
qed

section \<open>Options of a listing\<close>

text \<open>
  The options of a listing are normalised. Options that parse have a page and a size that are not negative and either both
  zero (no paging) or both positive, and a direction that is ascending or descending. The number of pages that the answer
  announces covers every item, and its last page is empty exactly when the size divides the number of items.
\<close>

theorem listing_options:
  assumes "ParseQueryOps r = Inr q" "0 \<le> totalItems"
  shows "(qo_PageSize q = 0 \<and> qo_Page q = 0 \<or> 0 < qo_PageSize q \<and> 0 < qo_Page q) \<and> qo_PageSize q < 2 ^ 63 \<and> qo_Page q < 2 ^ 63 \<and>
    qo_OrderDir q \<in> {''asc'', ''desc''} \<and>
    (if qo_PageSize q = 0 then True
     else totalItems < TotalPages totalItems (qo_PageSize q) * qo_PageSize q \<and>
       (TotalPages totalItems (qo_PageSize q) - 1) * qo_PageSize q \<le> totalItems \<and>
       ((TotalPages totalItems (qo_PageSize q) - 1) * qo_PageSize q = totalItems) = (qo_PageSize q dvd totalItems))"
proof -
  have number: "0 \<le> n \<and> n < 2 ^ 63" if "form_number msg s = Inr n" for msg s n
    using that by (auto simp: form_number_def Atoi_def wrap_def Let_def split: if_splits option.splits prod.splits list.splits)
  obtain s p where sp: "form_number ''parsing page size'' (aq_Form r ''pageSize'') = Inr s"
    "form_number ''parsing page'' (aq_Form r ''page'') = Inr p"
    and q: "qo_Page q = (if s > 0 \<and> p = 0 then 1 else p)" "qo_PageSize q = (if qo_Page q > 0 \<and> s = 0 then 10 else s)"
    "qo_OrderDir q \<in> {''asc'', ''desc''}"
    using assms(1) by (auto simp: ParseQueryOps_def go_bind_Inr_iff Let_def)
  note ps = number [OF sp(1)] number [OF sp(2)]
  have pages: "totalItems < TotalPages totalItems k * k \<and> (TotalPages totalItems k - 1) * k \<le> totalItems \<and>
      ((TotalPages totalItems k - 1) * k = totalItems) = (k dvd totalItems)" if "0 < k" for k
  proof -
    have split: "totalItems < d + k \<and> d \<le> totalItems \<and> (d = totalItems) = (m = 0)"
      if "d + m = totalItems" "0 \<le> m" "m < k" for d m using that by auto
    have "TotalPages totalItems k * k = k * (totalItems div k) + k" "(TotalPages totalItems k - 1) * k = k * (totalItems div k)"
      by (simp_all add: TotalPages_def algebra_simps)
    then show ?thesis
      using split [of "k * (totalItems div k)" "totalItems mod k"] that by (simp add: dvd_eq_mod_eq_0 mult.commute)
  qed
  have normal: "(qo_PageSize q = 0 \<and> qo_Page q = 0 \<or> 0 < qo_PageSize q \<and> 0 < qo_Page q) \<and> qo_PageSize q < 2 ^ 63 \<and>
      qo_Page q < 2 ^ 63"
    using ps q(1,2) by (cases "s = 0"; cases "p = 0"; simp)
  show ?thesis
  proof (cases "qo_PageSize q = 0")
    case False
    then have "0 < qo_PageSize q" using normal by linarith
    from pages [OF this] show ?thesis using normal q(3) False by simp
  qed (use normal q(3) in simp)
qed

theorem listing_options_witness:
  "\<exists>q. ParseQueryOps (sample_request_api\<lparr>aq_Form := (\<lambda>n. if n = ''pageSize'' then ''10'' else [])\<rparr>) = Inr q \<and>
     qo_PageSize q = 10 \<and> qo_Page q = 1 \<and> TotalPages 20 (qo_PageSize q) = 3 \<and> (TotalPages 20 (qo_PageSize q) - 1) * qo_PageSize q = 20"
proof -
  let ?r = "sample_request_api\<lparr>aq_Form := (\<lambda>n. if n = ''pageSize'' then ''10'' else [])\<rparr>"
  obtain q where q: "ParseQueryOps ?r = Inr q" "qo_PageSize q = 10" "qo_Page q = 1"
    by (simp add: ParseQueryOps_def form_number_def Atoi_def digit_of_def sample_request_api_def Let_def)
  from listing_options [OF q(1), of 20] q show ?thesis by (auto simp: TotalPages_def)
qed

end
