(* ===== verification/Sql.thy ===== *)
theory Sql
  imports MemoryDb
begin

text \<open>
  The statements that the repositories on PostgreSQL build with \<^verbatim>\<open>go-sqlbuilder\<close>, as data: the texts of their
  columns and tables and the arguments they pass; how \<^verbatim>\<open>database/sql\<close> copies a row into variables
  (\<^verbatim>\<open>Scan\<close>); and the connection, a parameter with one operation per kind of statement. What PostgreSQL
  documents of these statements is stated in \<^verbatim>\<open>Postgres\<close>.
\<close>

section \<open>Values and statements\<close>

text \<open>
  A value that the driver sends or receives. \<open>GoSlice\<close> is a slice that is passed as it is, which is no value of a
  driver; \<open>SqlJson\<close> is a document of type \<^verbatim>\<open>jsonb\<close>.
\<close>

datatype sql_value =
    SqlNull | SqlUuid uuid | SqlText string | SqlBool bool | SqlTime time | SqlInt int
  | SqlBytes string | SqlJson jtext | SqlTexts "string list" | GoSlice "uuid list"

datatype sql_cond =
    Equal string sql_value
  | AnyEqual string "sql_value list" \<comment> \<open>\<^verbatim>\<open>s.Any(column, "=", pq.Array(values))\<close>\<close>
  | InValues string "sql_value list"
  | ILike string string
  | OrElse "sql_cond list"

record select_builder =
  sb_columns :: "string list"
  sb_from :: string
  sb_joins :: "(string \<times> string) list"
  sb_where :: "sql_cond list"
  sb_order :: "(string \<times> bool) option" \<comment> \<open>ascending or not\<close>
  sb_limit :: "int option"
  sb_offset :: "int option"

definition Select_From :: "string list \<Rightarrow> string \<Rightarrow> select_builder" where
  "Select_From columns table =
     \<lparr>sb_columns = columns, sb_from = table, sb_joins = [], sb_where = [], sb_order = None, sb_limit = None, sb_offset = None\<rparr>"

definition SelectMore :: "string list \<Rightarrow> select_builder \<Rightarrow> select_builder" where
  "SelectMore columns s = s\<lparr>sb_columns := sb_columns s @ columns\<rparr>"

definition Where :: "sql_cond \<Rightarrow> select_builder \<Rightarrow> select_builder" where
  "Where c s = s\<lparr>sb_where := sb_where s @ [c]\<rparr>"

definition Join_table :: "string \<Rightarrow> string \<Rightarrow> select_builder \<Rightarrow> select_builder" where
  "Join_table table cond s = s\<lparr>sb_joins := sb_joins s @ [(table, cond)]\<rparr>"

definition Limit :: "int \<Rightarrow> select_builder \<Rightarrow> select_builder" where
  "Limit n s = s\<lparr>sb_limit := Some n\<rparr>"

definition Offset :: "int \<Rightarrow> select_builder \<Rightarrow> select_builder" where
  "Offset n s = s\<lparr>sb_offset := Some n\<rparr>"

definition OrderByAsc :: "string \<Rightarrow> select_builder \<Rightarrow> select_builder" where
  "OrderByAsc column s = s\<lparr>sb_order := Some (column, True)\<rparr>"

definition OrderByDesc :: "string \<Rightarrow> select_builder \<Rightarrow> select_builder" where
  "OrderByDesc column s = s\<lparr>sb_order := Some (column, False)\<rparr>"

text \<open>\<^verbatim>\<open>if filter.HasX() { s.Where(...) }\<close>.\<close>

definition when_set :: "'a option \<Rightarrow> ('a \<Rightarrow> sql_cond) \<Rightarrow> select_builder \<Rightarrow> select_builder" where
  "when_set v c s = (case v of None \<Rightarrow> s | Some x \<Rightarrow> Where (c x) s)"

definition OrderInfo_Apply :: "order_info \<Rightarrow> select_builder \<Rightarrow> select_builder" where
  "OrderInfo_Apply i s =
     (if oi_orderBy i = [] then s
      else if oi_orderDir i \<noteq> [] then
        if oi_orderDir i = ''asc'' then OrderByAsc (oi_orderBy i) s else OrderByDesc (oi_orderBy i) s
      else s)"

definition PagingInfo_offset :: "paging_info \<Rightarrow> int" where
  "PagingInfo_offset i = wrap64 ((pi_page i - 1) * pi_size i)"

definition PagingInfo_Apply :: "paging_info \<Rightarrow> select_builder \<Rightarrow> select_builder" where
  "PagingInfo_Apply i s = (if pi_page i = 0 then s else Offset (PagingInfo_offset i) (Limit (pi_size i) s))"

text \<open>\<^verbatim>\<open>if filter.HasOrder()\<close>, \<^verbatim>\<open>if filter.HasPagination()\<close>, \<^verbatim>\<open>if filter.HasSearch()\<close>.\<close>

definition order_by :: "order_info \<Rightarrow> select_builder \<Rightarrow> select_builder" where
  "order_by i s = (if \<not> OrderInfo_IsZero i then OrderInfo_Apply i s else s)"

definition paginate :: "paging_info \<Rightarrow> select_builder \<Rightarrow> select_builder" where
  "paginate i s = (if \<not> PagingInfo_IsZero i then PagingInfo_Apply i s else s)"

definition search_in :: "string list \<Rightarrow> search_filter option \<Rightarrow> select_builder \<Rightarrow> select_builder go" where
  "search_in columns f s =
     (case f of
        None \<Rightarrow> Inr s
      | Some sf \<Rightarrow>
          go_bind (SearchFilter_Term sf) (\<lambda>t. Inr (Where (OrElse (map (\<lambda>c. ILike c t) columns)) s)))"

lemmas builder_defs = Select_From_def SelectMore_def Where_def Join_table_def Limit_def Offset_def OrderByAsc_def
  OrderByDesc_def when_set_def OrderInfo_Apply_def PagingInfo_Apply_def order_by_def paginate_def search_in_def

record insert_builder =
  ib_table :: string
  ib_columns :: "string list"
  ib_values :: "sql_value list"

record update_builder =
  ub_table :: string
  ub_where :: "sql_cond list"
  ub_set :: "(string \<times> sql_value) list"

record delete_builder =
  xb_table :: string
  xb_where :: "sql_cond list"

section \<open>Copying a row into variables (\<^verbatim>\<open>database/sql\<close>)\<close>

text \<open>A destination: a pointer to a field of type \<open>'r\<close>, with the conversion its type asks for.\<close>

type_synonym 'r dest = "sql_value \<Rightarrow> 'r \<Rightarrow> 'r go"

definition scan_failed :: "'r go" where
  "scan_failed = Inl (Err (ErrorsNew ''sql: Scan error''))"

definition to_uuid :: "(uuid \<Rightarrow> 'r \<Rightarrow> 'r) \<Rightarrow> 'r dest" where
  "to_uuid field v r = (case v of SqlUuid u \<Rightarrow> Inr (field u r) | SqlNull \<Rightarrow> Inr r | _ \<Rightarrow> scan_failed)"

definition to_uuid_pointer :: "(uuid option \<Rightarrow> 'r \<Rightarrow> 'r) \<Rightarrow> 'r dest" where
  "to_uuid_pointer field v r =
     (case v of SqlUuid u \<Rightarrow> Inr (field (Some u) r) | SqlNull \<Rightarrow> Inr (field None r) | _ \<Rightarrow> scan_failed)"

definition to_time :: "(time \<Rightarrow> 'r \<Rightarrow> 'r) \<Rightarrow> 'r dest" where
  "to_time field v r = (case v of SqlTime t \<Rightarrow> Inr (field t r) | _ \<Rightarrow> scan_failed)"

definition to_time_pointer :: "(time option \<Rightarrow> 'r \<Rightarrow> 'r) \<Rightarrow> 'r dest" where
  "to_time_pointer field v r =
     (case v of SqlTime t \<Rightarrow> Inr (field (Some t) r) | SqlNull \<Rightarrow> Inr (field None r) | _ \<Rightarrow> scan_failed)"

definition to_string :: "(string \<Rightarrow> 'r \<Rightarrow> 'r) \<Rightarrow> 'r dest" where
  "to_string field v r = (case v of SqlText s \<Rightarrow> Inr (field s r) | _ \<Rightarrow> scan_failed)"

definition to_bool :: "(bool \<Rightarrow> 'r \<Rightarrow> 'r) \<Rightarrow> 'r dest" where
  "to_bool field v r = (case v of SqlBool b \<Rightarrow> Inr (field b r) | _ \<Rightarrow> scan_failed)"

definition to_uint :: "(nat \<Rightarrow> 'r \<Rightarrow> 'r) \<Rightarrow> 'r dest" where
  "to_uint field v r = (case v of SqlInt n \<Rightarrow> if 0 \<le> n \<and> n < 2 ^ 64 then Inr (field (nat n) r) else scan_failed | _ \<Rightarrow> scan_failed)"

definition to_int :: "(int \<Rightarrow> 'r \<Rightarrow> 'r) \<Rightarrow> 'r dest" where
  "to_int field v r = (case v of SqlInt n \<Rightarrow> if - (2 ^ 63) \<le> n \<and> n < 2 ^ 63 then Inr (field n r) else scan_failed | _ \<Rightarrow> scan_failed)"

definition to_bytes :: "(string \<Rightarrow> 'r \<Rightarrow> 'r) \<Rightarrow> 'r dest" where
  "to_bytes field v r = (case v of SqlBytes b \<Rightarrow> Inr (field b r) | SqlNull \<Rightarrow> Inr (field [] r) | _ \<Rightarrow> scan_failed)"

text \<open>A string or a byte slice that receives a document.\<close>

definition to_json_string :: "(jtext \<Rightarrow> 'r \<Rightarrow> 'r) \<Rightarrow> 'r dest" where
  "to_json_string field v r = (case v of SqlJson j \<Rightarrow> Inr (field j r) | _ \<Rightarrow> scan_failed)"

definition to_json_bytes :: "(jtext \<Rightarrow> 'r \<Rightarrow> 'r) \<Rightarrow> 'r dest" where
  "to_json_bytes field v r =
     (case v of SqlJson j \<Rightarrow> Inr (field j r) | SqlNull \<Rightarrow> Inr (field (Plain []) r) | _ \<Rightarrow> scan_failed)"

definition to_json_pointer :: "(jtext option \<Rightarrow> 'r \<Rightarrow> 'r) \<Rightarrow> 'r dest" where
  "to_json_pointer field v r =
     (case v of SqlJson j \<Rightarrow> Inr (field (Some j) r) | SqlNull \<Rightarrow> Inr (field None r) | _ \<Rightarrow> scan_failed)"

text \<open>\<^verbatim>\<open>pq.StringArray\<close>.\<close>

definition to_strings :: "(string list \<Rightarrow> 'r \<Rightarrow> 'r) \<Rightarrow> 'r dest" where
  "to_strings field v r = (case v of SqlTexts ss \<Rightarrow> Inr (field ss r) | SqlNull \<Rightarrow> Inr (field [] r) | _ \<Rightarrow> scan_failed)"

text \<open>\<^verbatim>\<open>sql.NullString\<close> and the helpers of \<^verbatim>\<open>pghelpers\<close>; the string may hold a document.\<close>

datatype 'a null_string = NullString (ns_String: 'a) (ns_Valid: bool)

definition WrapStringPointer :: "'a \<Rightarrow> 'a option \<Rightarrow> 'a null_string" where
  "WrapStringPointer zeroValue s = (case s of None \<Rightarrow> NullString zeroValue False | Some x \<Rightarrow> NullString x True)"

definition UnwrapNullString :: "'a null_string \<Rightarrow> 'a option" where
  "UnwrapNullString s = (if \<not> ns_Valid s then None else Some (ns_String s))"

definition to_null_string :: "(string null_string \<Rightarrow> 'r \<Rightarrow> 'r) \<Rightarrow> 'r dest" where
  "to_null_string field v r =
     (case v of SqlText s \<Rightarrow> Inr (field (NullString s True) r) | SqlNull \<Rightarrow> Inr (field (NullString [] False) r)
      | _ \<Rightarrow> scan_failed)"

definition to_null_json :: "(jtext null_string \<Rightarrow> 'r \<Rightarrow> 'r) \<Rightarrow> 'r dest" where
  "to_null_json field v r =
     (case v of SqlJson j \<Rightarrow> Inr (field (NullString j True) r) | SqlNull \<Rightarrow> Inr (field (NullString (Plain []) False) r)
      | _ \<Rightarrow> scan_failed)"

definition null_text :: "string null_string \<Rightarrow> sql_value" where
  "null_text s = (if ns_Valid s then SqlText (ns_String s) else SqlNull)"

definition null_json :: "jtext null_string \<Rightarrow> sql_value" where
  "null_json s = (if ns_Valid s then SqlJson (ns_String s) else SqlNull)"

definition or_null :: "('a \<Rightarrow> sql_value) \<Rightarrow> 'a option \<Rightarrow> sql_value" where
  "or_null f v = (case v of None \<Rightarrow> SqlNull | Some x \<Rightarrow> f x)"

lemma UnwrapNullString_Wrap [simp]: "UnwrapNullString (WrapStringPointer e s) = s"
  by (simp add: UnwrapNullString_def WrapStringPointer_def split: option.splits)

lemmas dest_defs = to_uuid_def to_uuid_pointer_def to_time_def to_time_pointer_def to_string_def to_bool_def to_uint_def
  to_int_def to_bytes_def to_json_string_def to_json_bytes_def to_json_pointer_def to_strings_def to_null_string_def
  to_null_json_def

fun scan_each :: "'r dest list \<Rightarrow> sql_value list \<Rightarrow> 'r \<Rightarrow> 'r go" where
  "scan_each (d # ds) (v # vs) r = go_bind (d v r) (scan_each ds vs)"
| "scan_each _ _ r = Inr r"

definition Row_Scan :: "'r dest list \<Rightarrow> sql_value list \<Rightarrow> 'r \<Rightarrow> 'r go" where
  "Row_Scan dests row r =
     (if length row \<noteq> length dests then Inl (Err (ErrorsNew ''sql: expected another number of destination arguments in Scan''))
      else scan_each dests row r)"

text \<open>The additional pointer to the number of all rows.\<close>

definition on_item :: "'r dest \<Rightarrow> ('r \<times> int) dest" where
  "on_item d v = (\<lambda>(r, totalCount). go_bind (d v r) (\<lambda>r. Inr (r, totalCount)))"

definition to_total :: "('r \<times> int) dest" where
  "to_total = to_int (\<lambda>n (r, _). (r, n))"

section \<open>The connection\<close>

text \<open>
  What the repositories call of \<^verbatim>\<open>sql.DB\<close> and \<^verbatim>\<open>sql.Tx\<close>: a query, which changes nothing, the start and the
  end of a transaction, and the statements of the transaction. An insert returns the column \<^verbatim>\<open>xmin\<close> of the row, an
  update that of the changed row, if there is one.
\<close>

record 'c sql_server =
  sq_query :: "select_builder \<Rightarrow> 'c \<Rightarrow> goerr + sql_value list list"
  sq_begin :: "'c \<Rightarrow> (goerr + unit) \<times> 'c"
  sq_commit :: "'c \<Rightarrow> (goerr + unit) \<times> 'c"
  sq_insert :: "insert_builder \<Rightarrow> 'c \<Rightarrow> (goerr + nat) \<times> 'c"
  sq_update :: "update_builder \<Rightarrow> 'c \<Rightarrow> (goerr + nat option) \<times> 'c"
  sq_delete :: "delete_builder \<Rightarrow> 'c \<Rightarrow> (goerr + unit) \<times> 'c"

definition ErrNoRows :: goerr where
  "ErrNoRows = ErrorsNew ''sql: no rows in result set''"

text \<open>\<^verbatim>\<open>FirstOrNil\<close>: the error of the query comes out of \<^verbatim>\<open>Scan\<close>.\<close>

definition query_first :: "'c sql_server \<Rightarrow> 'r dest list \<Rightarrow> 'r \<Rightarrow> ('r \<Rightarrow> 'e go) \<Rightarrow> select_builder go \<Rightarrow> 'c \<Rightarrow> 'e option go" where
  "query_first S dests zero toEntity selectQuery c =
     go_bind selectQuery (\<lambda>s.
       case sq_query S (Limit 1 s) c of
         Inl e \<Rightarrow> Inl (Err (Wrap ''scanning row'' e))
       | Inr [] \<Rightarrow> Inr None
       | Inr (row # _) \<Rightarrow>
           go_bind (wrap ''scanning row'' (Row_Scan dests row zero)) (\<lambda>r. go_bind (toEntity r) (\<lambda>e. Inr (Some e))))"

text \<open>The loop over the rows, without and with the number of all rows as the last column.\<close>

fun scan_rows :: "'r dest list \<Rightarrow> 'r \<Rightarrow> ('r \<Rightarrow> 'e go) \<Rightarrow> sql_value list list \<Rightarrow> 'e list go" where
  "scan_rows dests zero toEntity [] = Inr []"
| "scan_rows dests zero toEntity (row # rows) =
     go_bind (wrap ''scanning row'' (Row_Scan dests row zero)) (\<lambda>r.
     go_bind (toEntity r) (\<lambda>e.
     go_bind (scan_rows dests zero toEntity rows) (\<lambda>es. Inr (e # es))))"

fun scan_counted :: "'r dest list \<Rightarrow> 'r \<Rightarrow> ('r \<Rightarrow> 'e go) \<Rightarrow> sql_value list list \<Rightarrow> int \<Rightarrow> ('e list \<times> int) go" where
  "scan_counted dests zero toEntity [] totalCount = Inr ([], totalCount)"
| "scan_counted dests zero toEntity (row # rows) totalCount =
     go_bind (wrap ''scanning row'' (Row_Scan (map on_item dests @ [to_total]) row (zero, totalCount))) (\<lambda>(r, totalCount).
     go_bind (toEntity r) (\<lambda>e.
     go_bind (scan_counted dests zero toEntity rows totalCount) (\<lambda>(es, totalCount). Inr (e # es, totalCount))))"

definition query_list :: "'c sql_server \<Rightarrow> string \<Rightarrow> 'r dest list \<Rightarrow> 'r \<Rightarrow> ('r \<Rightarrow> 'e go) \<Rightarrow> select_builder go \<Rightarrow> 'c \<Rightarrow> 'e list go" where
  "query_list S msg dests zero toEntity selectQuery c =
     go_bind selectQuery (\<lambda>s.
       case sq_query S s c of
         Inl e \<Rightarrow> Inl (Err (Wrap msg e))
       | Inr rows \<Rightarrow> scan_rows dests zero toEntity rows)"

definition query_counted ::
  "'c sql_server \<Rightarrow> string \<Rightarrow> 'r dest list \<Rightarrow> 'r \<Rightarrow> ('r \<Rightarrow> 'e go) \<Rightarrow> select_builder go \<Rightarrow> 'c \<Rightarrow> ('e list \<times> int) go" where
  "query_counted S msg dests zero toEntity selectQuery c =
     go_bind selectQuery (\<lambda>s.
       case sq_query S (SelectMore [''count(*) over()''] s) c of
         Inl e \<Rightarrow> Inl (Err (Wrap msg e))
       | Inr rows \<Rightarrow> scan_counted dests zero toEntity rows 0)"

text \<open>
  The statements of a transaction. An entity that was written gets its new version and, where the code clears them,
  no changes: \<open>written\<close>. The message names the step that fails.
\<close>

type_synonym ('c, 'a) tx = "'c \<Rightarrow> 'a go \<times> 'c"

definition tx_lift :: "'a go \<Rightarrow> ('a \<Rightarrow> ('c, 'b) tx) \<Rightarrow> ('c, 'b) tx" where
  "tx_lift r f c = (case r of Inl e \<Rightarrow> (Inl e, c) | Inr x \<Rightarrow> f x c)"

definition execute_insert :: "'c sql_server \<Rightarrow> string \<Rightarrow> insert_builder \<Rightarrow> (nat \<Rightarrow> 'e) \<Rightarrow> ('c, 'e) tx" where
  "execute_insert S msg s written c =
     (case sq_insert S s c of
        (Inl e, c) \<Rightarrow> (Inl (Err (Wrap msg e)), c)
      | (Inr xmin, c) \<Rightarrow> (Inr (written xmin), c))"

definition execute_update ::
  "'c sql_server \<Rightarrow> goerr \<Rightarrow> (string \<times> sql_value) list go \<Rightarrow> string \<Rightarrow> sql_cond list \<Rightarrow> (nat \<Rightarrow> 'e) \<Rightarrow> ('c, 'e) tx" where
  "execute_update S noRow sets table conds written =
     tx_lift sets (\<lambda>sets c.
       case sq_update S \<lparr>ub_table = table, ub_where = conds, ub_set = sets\<rparr> c of
         (Inl e, c) \<Rightarrow> (Inl (Err (Wrap ''scanning row'' e)), c)
       | (Inr None, c) \<Rightarrow> (Inl (Err noRow), c)
       | (Inr (Some xmin), c) \<Rightarrow> (Inr (written xmin), c))"

definition execute_delete :: "'c sql_server \<Rightarrow> string \<Rightarrow> string \<Rightarrow> uuid \<Rightarrow> ('c, unit) tx" where
  "execute_delete S msg table i c =
     (case sq_delete S \<lparr>xb_table = table, xb_where = [Equal ''id'' (SqlUuid i)]\<rparr> c of
        (Inl e, c) \<Rightarrow> (Inl (Err (Wrap msg e)), c)
      | (Inr _, c) \<Rightarrow> (Inr (), c))"

text \<open>The loop over the changes of an entity; a change without an assignment is not supported.\<close>

fun assignments :: "('ch \<Rightarrow> (string \<times> sql_value) option) \<Rightarrow> 'ch list \<Rightarrow> (string \<times> sql_value) list go" where
  "assignments assign [] = Inr []"
| "assignments assign (ch # chs) =
     (case assign ch of
        None \<Rightarrow> Inl (Err (ErrorsNew ''updating field is not supported''))
      | Some a \<Rightarrow> go_bind (assignments assign chs) (\<lambda>rest. Inr (a # rest)))"

text \<open>An entry of the tracker keeps the pointer to the entity.\<close>

datatype pg_item = Pointer nat | Identifier uuid

datatype pg_entry = PgEntry (pe_changeType: change_type) (pe_itemType: entity_type) (pe_item: pg_item)

definition track :: "change_type \<Rightarrow> entity_type \<Rightarrow> pg_item \<Rightarrow> pg_entry list \<Rightarrow> pg_entry list" where
  "track change ty it t = t @ [PgEntry change ty it]"

section \<open>The base of every row (base.go)\<close>

record postgresBaseModel =
  pb_id :: uuid
  pb_auditCreatedAt :: time
  pb_auditUpdatedAt :: time
  pb_xmin :: nat

definition postgresBaseModel_MapBase :: "'z postgresBaseModel_scheme \<Rightarrow> base_model" where
  "postgresBaseModel_MapBase b =
     NewBaseModelFromDB (pb_id b) (pb_auditCreatedAt b) (pb_auditUpdatedAt b) (VersionUint (pb_xmin b))"

text \<open>The type assertion \<^verbatim>\<open>GetVersion().(uint)\<close> panics for a version of another type.\<close>

definition mapBase :: "base_model \<Rightarrow> postgresBaseModel go" where
  "mapBase baseModel =
     go_bind
       (case bm_version baseModel of
          VersionNil \<Rightarrow> Inr 0
        | VersionUint n \<Rightarrow> Inr n
        | _ \<Rightarrow> Inl (Panic ''interface conversion''))
       (\<lambda>xmin. Inr \<lparr>pb_id = bm_id baseModel, pb_auditCreatedAt = bm_auditCreatedAt baseModel,
                    pb_auditUpdatedAt = bm_auditUpdatedAt baseModel, pb_xmin = xmin\<rparr>)"

definition base_pointers :: "'z postgresBaseModel_scheme dest list" where
  "base_pointers =
     [to_uuid (\<lambda>v r. r\<lparr>pb_id := v\<rparr>), to_time (\<lambda>v r. r\<lparr>pb_auditCreatedAt := v\<rparr>),
      to_time (\<lambda>v r. r\<lparr>pb_auditUpdatedAt := v\<rparr>), to_uint (\<lambda>v r. r\<lparr>pb_xmin := v\<rparr>)]"

definition base_columns :: "string list" where
  "base_columns = [''id'', ''audit_created_at'', ''audit_updated_at'', ''xmin'']"

definition inserted_base :: "string list" where
  "inserted_base = [''id'', ''audit_created_at'', ''audit_updated_at'']"

definition base_values :: "'z postgresBaseModel_scheme \<Rightarrow> sql_value list" where
  "base_values b = [SqlUuid (pb_id b), SqlTime (pb_auditCreatedAt b), SqlTime (pb_auditUpdatedAt b)]"

text \<open>\<^verbatim>\<open>WHERE id = ... AND xmin = ...\<close>.\<close>

definition same_row :: "'z postgresBaseModel_scheme \<Rightarrow> sql_cond list" where
  "same_row b = [Equal ''id'' (SqlUuid (pb_id b)), Equal ''xmin'' (SqlInt (int (pb_xmin b)))]"

definition zero_base :: postgresBaseModel where
  "zero_base = \<lparr>pb_id = uuid_Nil, pb_auditCreatedAt = time_zero, pb_auditUpdatedAt = time_zero, pb_xmin = 0\<rparr>"

lemmas base_defs = postgresBaseModel_MapBase_def mapBase_def base_pointers_def base_columns_def inserted_base_def
  base_values_def same_row_def zero_base_def

end
