(* ===== verification/PgUsers.thy ===== *)
theory PgUsers
  imports Sql Commands
begin

text \<open>
  The repositories of virtual servers, users, credentials, sessions and applications on PostgreSQL
  (\<^verbatim>\<open>internal/repositories/postgres\<close>): the struct of a row, its conversion from and to the entity, the
  pointers that \<^verbatim>\<open>scan\<close> hands out, and the statements.
\<close>

fun credential_type_String :: "credential_type \<Rightarrow> string" where
  "credential_type_String CredentialTypePassword = ''password''"
| "credential_type_String CredentialTypeTotp = ''totp''"
| "credential_type_String CredentialTypeServiceUserKey = ''service_user_key''"
| "credential_type_String CredentialTypeWebauthn = ''webauthn''"
| "credential_type_String (OtherCredentialType s) = s"

definition CredentialType :: "string \<Rightarrow> credential_type" where
  "CredentialType s =
     (if s = ''password'' then CredentialTypePassword else if s = ''totp'' then CredentialTypeTotp
      else if s = ''service_user_key'' then CredentialTypeServiceUserKey
      else if s = ''webauthn'' then CredentialTypeWebauthn else OtherCredentialType s)"

text \<open>The details of a credential as a document, and back by the type of the credential.\<close>

fun details_json :: "credential_details \<Rightarrow> json" where
  "details_json (CredentialPasswordDetails hashed temporary) =
     JObj [(''hashedPassword'', JStr hashed), (''temporary'', JBool temporary)]"
| "details_json (CredentialTotpDetails secret digits algorithm) =
     JObj [(''secret'', JStr secret), (''digits'', JNum digits), (''algorithm'', JNum algorithm)]"
| "details_json (CredentialServiceUserKey kid publicKey) = JObj [(''kid'', JStr kid), (''publicKey'', JStr publicKey)]"
| "details_json (CredentialWebauthnDetails i algorithm publicKey) =
     JObj [(''credentialId'', JStr i), (''publicKeyAlgorithm'', JNum algorithm),
           (''publicKey'', JStr (StdEncoding_EncodeToString publicKey))]"
| "details_json NoDetails = JNull"

definition Marshal_details :: "credential_details \<Rightarrow> jtext go" where
  "Marshal_details d = json_Marshal (details_json d)"

text \<open>The method \<^verbatim>\<open>Value\<close> of the details; nil details are a null.\<close>

definition details_Value :: "credential_details \<Rightarrow> sql_value" where
  "details_Value d = (if d = NoDetails then SqlNull else SqlJson (Doc (details_json d)))"

definition json_members :: "jtext \<Rightarrow> json_obj go" where
  "json_members t = go_bind (json_Unmarshal t) as_object"

definition Unmarshal_details :: "credential_type \<Rightarrow> jtext \<Rightarrow> credential_details go" where
  "Unmarshal_details ty t =
     (case ty of
        CredentialTypeServiceUserKey \<Rightarrow>
          wrap ''failed to unmarshal service user key details'' (go_bind (json_members t) (\<lambda>ms.
            go_bind (get_string ''kid'' ms) (\<lambda>kid. go_bind (get_string ''publicKey'' ms) (\<lambda>publicKey.
              Inr (CredentialServiceUserKey kid publicKey)))))
      | CredentialTypePassword \<Rightarrow>
          wrap ''failed to unmarshal password details'' (go_bind (json_members t) (\<lambda>ms.
            go_bind (get_string ''hashedPassword'' ms) (\<lambda>hashed. go_bind (get_bool ''temporary'' ms) (\<lambda>temporary.
              Inr (CredentialPasswordDetails hashed temporary)))))
      | CredentialTypeTotp \<Rightarrow>
          wrap ''failed to unmarshal totp details'' (go_bind (json_members t) (\<lambda>ms.
            go_bind (get_string ''secret'' ms) (\<lambda>secret. go_bind (get_int ''digits'' ms) (\<lambda>digits.
            go_bind (get_int ''algorithm'' ms) (\<lambda>algorithm.
              Inr (CredentialTotpDetails secret digits algorithm))))))
      | CredentialTypeWebauthn \<Rightarrow>
          wrap ''failed to unmarshal webauthn details'' (go_bind (json_members t) (\<lambda>ms.
            go_bind (get_string ''credentialId'' ms) (\<lambda>i. go_bind (get_int ''publicKeyAlgorithm'' ms) (\<lambda>algorithm.
            go_bind (go_bind (get_string ''publicKey'' ms) StdEncoding_DecodeString) (\<lambda>publicKey.
              Inr (CredentialWebauthnDetails i algorithm publicKey))))))
      | OtherCredentialType s \<Rightarrow> Inl (Err (ErrorsNew (''unsupported credential type: '' @ s))))"

text \<open>The expression \<^verbatim>\<open>column->>'member'\<close>.\<close>

definition member_column :: "string \<Rightarrow> string \<Rightarrow> string" where
  "member_column column k = column @ ''->>'' @ [CHR 0x27] @ k @ [CHR 0x27]"

subsection \<open>VirtualServer (\<^verbatim>\<open>virtualservers.go\<close>)\<close>

record postgresVirtualServer = postgresBaseModel +
  pgvs_displayName :: string
  pgvs_name :: string
  pgvs_enableRegistration :: bool
  pgvs_require2fa :: bool
  pgvs_requireEmailVerification :: bool
  pgvs_primarySigningAlgorithm :: string
  pgvs_additionalSigningAlgorithms :: "string list"

definition mapVirtualServer :: "virtual_server \<Rightarrow> postgresVirtualServer go" where
  "mapVirtualServer m =
     go_bind (mapBase (vs_base m)) (\<lambda>b.
       Inr \<lparr>pb_id = pb_id b, pb_auditCreatedAt = pb_auditCreatedAt b, pb_auditUpdatedAt = pb_auditUpdatedAt b, pb_xmin = pb_xmin b,
            pgvs_displayName = vs_displayName m,
            pgvs_name = vs_name m,
            pgvs_enableRegistration = vs_enableRegistration m,
            pgvs_require2fa = vs_require2fa m,
            pgvs_requireEmailVerification = vs_requireEmailVerification m,
            pgvs_primarySigningAlgorithm = vs_primarySigningAlgorithm m,
            pgvs_additionalSigningAlgorithms = vs_additionalSigningAlgorithms m\<rparr>)"

definition postgresVirtualServer_Map :: "postgresVirtualServer \<Rightarrow> virtual_server go" where
  "postgresVirtualServer_Map r =
     Inr (NewVirtualServerFromDB (postgresBaseModel_MapBase r) (pgvs_name r) (pgvs_displayName r) (pgvs_enableRegistration r)
       (pgvs_require2fa r) (pgvs_requireEmailVerification r) (pgvs_primarySigningAlgorithm r)
       (pgvs_additionalSigningAlgorithms r))"

definition postgresVirtualServer_pointers :: "postgresVirtualServer dest list" where
  "postgresVirtualServer_pointers =
     base_pointers @
     [to_string (\<lambda>v r. r\<lparr>pgvs_displayName := v\<rparr>),
      to_string (\<lambda>v r. r\<lparr>pgvs_name := v\<rparr>),
      to_bool (\<lambda>v r. r\<lparr>pgvs_enableRegistration := v\<rparr>),
      to_bool (\<lambda>v r. r\<lparr>pgvs_require2fa := v\<rparr>),
      to_bool (\<lambda>v r. r\<lparr>pgvs_requireEmailVerification := v\<rparr>),
      to_string (\<lambda>v r. r\<lparr>pgvs_primarySigningAlgorithm := v\<rparr>),
      to_strings (\<lambda>v r. r\<lparr>pgvs_additionalSigningAlgorithms := v\<rparr>)]"

definition postgresVirtualServer_zero :: postgresVirtualServer where
  "postgresVirtualServer_zero =
     \<lparr>pb_id = uuid_Nil, pb_auditCreatedAt = time_zero, pb_auditUpdatedAt = time_zero, pb_xmin = 0,
      pgvs_displayName = [],
      pgvs_name = [],
      pgvs_enableRegistration = False,
      pgvs_require2fa = False,
      pgvs_requireEmailVerification = False,
      pgvs_primarySigningAlgorithm = [],
      pgvs_additionalSigningAlgorithms = []\<rparr>"

definition PgVirtualServer_selectQuery :: "virtual_server_filter \<Rightarrow> select_builder go" where
  "PgVirtualServer_selectQuery f =
     Inr (when_set (vsf_id f) (\<lambda>v. Equal ''id'' (SqlUuid v)) (
       when_set (vsf_name f) (\<lambda>v. Equal ''name'' (SqlText v)) (
       Select_From (base_columns @ [''display_name'', ''name'', ''enable_registration'', ''require_2fa'',
         ''require_email_verification'', ''primary_signing_algorithm'', ''additional_signing_algorithms'']) ''virtual_servers'')))"

text \<open>Reads of one virtual server go through a cache of the repository.\<close>

definition VirtualServerFilter_GetCacheKey :: "virtual_server_filter \<Rightarrow> string \<times> uuid" where
  "VirtualServerFilter_GetCacheKey f = (ZeroIfNil [] (vsf_name f), ZeroIfNil uuid_Nil (vsf_id f))"

type_synonym virtual_server_cache = "((string \<times> uuid) \<times> virtual_server) list"

definition PgVirtualServer_FirstOrNil ::
  "'c sql_server \<Rightarrow> virtual_server_filter \<Rightarrow> 'c \<Rightarrow> virtual_server_cache \<Rightarrow> virtual_server option go \<times> virtual_server_cache" where
  "PgVirtualServer_FirstOrNil S f c cache =
     (let cacheKey = VirtualServerFilter_GetCacheKey f in
      case TryGet cacheKey cache of
        Some cachedValue \<Rightarrow> (Inr (Some cachedValue), cache)
      | None \<Rightarrow>
          (case query_first S postgresVirtualServer_pointers postgresVirtualServer_zero postgresVirtualServer_Map
                  (PgVirtualServer_selectQuery f) c of
             Inr (Some result) \<Rightarrow> (Inr (Some result), Put cacheKey result cache)
           | r \<Rightarrow> (r, cache)))"

definition PgVirtualServer_FirstOrErr ::
  "'c sql_server \<Rightarrow> virtual_server_filter \<Rightarrow> 'c \<Rightarrow> virtual_server_cache \<Rightarrow> virtual_server go \<times> virtual_server_cache" where
  "PgVirtualServer_FirstOrErr S f c cache =
     (let (r, cache) = PgVirtualServer_FirstOrNil S f c cache in (or_err ErrVirtualServerNotFound r, cache))"

definition PgVirtualServer_List :: "'c sql_server \<Rightarrow> virtual_server_filter \<Rightarrow> 'c \<Rightarrow> (virtual_server list \<times> int) go" where
  "PgVirtualServer_List S f =
     query_counted S ''querying db'' postgresVirtualServer_pointers postgresVirtualServer_zero postgresVirtualServer_Map (PgVirtualServer_selectQuery f)"

definition PgVirtualServer_Insert :: "nat \<Rightarrow> pg_entry list \<Rightarrow> pg_entry list" where
  "PgVirtualServer_Insert m = track Added VirtualServerEntityType (Pointer m)"

definition PgVirtualServer_Update :: "nat \<Rightarrow> pg_entry list \<Rightarrow> pg_entry list" where
  "PgVirtualServer_Update m = track Updated VirtualServerEntityType (Pointer m)"

definition PgVirtualServer_ExecuteInsert :: "'c sql_server \<Rightarrow> virtual_server \<Rightarrow> ('c, virtual_server) tx" where
  "PgVirtualServer_ExecuteInsert S m =
     tx_lift (mapVirtualServer m) (\<lambda>mapped.
       execute_insert S ''scanning row''
         \<lparr>ib_table = ''virtual_servers'',
          ib_columns = inserted_base @ [''name'', ''display_name'', ''enable_registration'', ''require_2fa'', ''primary_signing_algorithm'',
            ''additional_signing_algorithms''],
          ib_values = base_values mapped @
            [SqlText (pgvs_name mapped), SqlText (pgvs_displayName mapped),
             SqlBool (pgvs_enableRegistration mapped), SqlBool (pgvs_require2fa mapped),
             SqlText (pgvs_primarySigningAlgorithm mapped), SqlTexts (pgvs_additionalSigningAlgorithms mapped)]\<rparr>
         (\<lambda>xmin. m\<lparr>vs_base := SetVersion (VersionUint32 xmin) (vs_base m), vs_changes := ClearChanges (vs_changes m)\<rparr>))"

definition VirtualServer_assignment :: "postgresVirtualServer \<Rightarrow> virtual_server_change \<Rightarrow> (string \<times> sql_value) option" where
  "VirtualServer_assignment mapped field =
     (case field of
        VirtualServerChangeDisplayName \<Rightarrow> Some (''display_name'', SqlText (pgvs_displayName mapped))
      | VirtualServerChangeEnableRegistration \<Rightarrow> Some (''enable_registration'', SqlBool (pgvs_enableRegistration mapped))
      | VirtualServerChangeRequire2fa \<Rightarrow> Some (''require_2fa'', SqlBool (pgvs_require2fa mapped))
      | VirtualServerChangeRequireEmailVerification \<Rightarrow> Some (''require_email_verification'', SqlBool (pgvs_requireEmailVerification mapped))
      | VirtualServerChangePrimarySigningAlgorithm \<Rightarrow> Some (''primary_signing_algorithm'', SqlText (pgvs_primarySigningAlgorithm mapped))
      | VirtualServerChangeAdditionalSigningAlgorithms \<Rightarrow> Some (''additional_signing_algorithms'', SqlTexts (pgvs_additionalSigningAlgorithms mapped)))"

definition PgVirtualServer_ExecuteUpdate :: "'c sql_server \<Rightarrow> virtual_server \<Rightarrow> ('c, virtual_server) tx" where
  "PgVirtualServer_ExecuteUpdate S m =
     (if \<not> HasChanges (vs_changes m) then (\<lambda>c. (Inr m, c))
      else tx_lift (mapVirtualServer m) (\<lambda>mapped.
        execute_update S (Wrap ''updating application'' (Named ErrVersionMismatch))
          (assignments (VirtualServer_assignment mapped) (GetChanges (vs_changes m))) ''virtual_servers'' (same_row mapped)
          (\<lambda>xmin. m\<lparr>vs_base := SetVersion (VersionUint32 xmin) (vs_base m), vs_changes := ClearChanges (vs_changes m)\<rparr>)))"

subsection \<open>User (\<^verbatim>\<open>users.go\<close>)\<close>

record postgresUser = postgresBaseModel +
  pgu_virtualServerId :: uuid
  pgu_username :: string
  pgu_displayName :: string
  pgu_primaryEmail :: string
  pgu_emailVerified :: bool
  pgu_serviceUser :: bool
  pgu_metadata :: jtext

definition mapUser :: "user \<Rightarrow> postgresUser go" where
  "mapUser m =
     go_bind (mapBase (u_base m)) (\<lambda>b.
       Inr \<lparr>pb_id = pb_id b, pb_auditCreatedAt = pb_auditCreatedAt b, pb_auditUpdatedAt = pb_auditUpdatedAt b, pb_xmin = pb_xmin b,
            pgu_virtualServerId = u_virtualServerId m,
            pgu_username = u_username m,
            pgu_displayName = u_displayName m,
            pgu_primaryEmail = u_primaryEmail m,
            pgu_emailVerified = u_emailVerified m,
            pgu_serviceUser = u_serviceUser m,
            pgu_metadata = u_metadata m\<rparr>)"

definition postgresUser_Map :: "postgresUser \<Rightarrow> user go" where
  "postgresUser_Map r =
     Inr (NewUserFromDB (postgresBaseModel_MapBase r) (pgu_virtualServerId r) (pgu_username r) (pgu_displayName r)
       (pgu_primaryEmail r) (pgu_emailVerified r) (pgu_serviceUser r) (pgu_metadata r))"

definition postgresUser_pointers :: "user_filter \<Rightarrow> postgresUser dest list" where
  "postgresUser_pointers f =
     base_pointers @
     [to_uuid (\<lambda>v r. r\<lparr>pgu_virtualServerId := v\<rparr>),
      to_string (\<lambda>v r. r\<lparr>pgu_displayName := v\<rparr>),
      to_string (\<lambda>v r. r\<lparr>pgu_username := v\<rparr>),
      to_string (\<lambda>v r. r\<lparr>pgu_primaryEmail := v\<rparr>),
      to_bool (\<lambda>v r. r\<lparr>pgu_emailVerified := v\<rparr>),
      to_bool (\<lambda>v r. r\<lparr>pgu_serviceUser := v\<rparr>),
      to_json_string (\<lambda>v r. r\<lparr>pgu_metadata := v\<rparr>)] @
     (if uf_includeMetadata f then [to_json_string (\<lambda>v r. r\<lparr>pgu_metadata := v\<rparr>)] else [])"

definition postgresUser_zero :: postgresUser where
  "postgresUser_zero =
     \<lparr>pb_id = uuid_Nil, pb_auditCreatedAt = time_zero, pb_auditUpdatedAt = time_zero, pb_xmin = 0,
      pgu_virtualServerId = uuid_Nil,
      pgu_username = [],
      pgu_displayName = [],
      pgu_primaryEmail = [],
      pgu_emailVerified = False,
      pgu_serviceUser = False,
      pgu_metadata = Plain []\<rparr>"

definition PgUser_selectQuery :: "user_filter \<Rightarrow> select_builder go" where
  "PgUser_selectQuery f =
     go_bind (search_in [''username'', ''display_name''] (uf_searchFilter f)
      (when_set (uf_serviceUser f) (\<lambda>v. Equal ''service_user'' (SqlBool v)) (
       when_set (uf_id f) (\<lambda>v. Equal ''id'' (SqlUuid v)) (
       when_set (uf_virtualServerId f) (\<lambda>v. Equal ''virtual_server_id'' (SqlUuid v)) (
       when_set (uf_username f) (\<lambda>v. Equal ''username'' (SqlText v)) (
       (\<lambda>s. if uf_includeMetadata f then SelectMore [''metadata''] s else s) (
       Select_From (base_columns @ [''virtual_server_id'', ''display_name'', ''username'', ''primary_email'', ''email_verified'',
         ''service_user'', ''metadata'']) ''users''))))))) (\<lambda>s. Inr (
       paginate (uf_paging f) (
       order_by (uf_order f) (
       s))))"

definition PgUser_FirstOrNil :: "'c sql_server \<Rightarrow> user_filter \<Rightarrow> 'c \<Rightarrow> user option go" where
  "PgUser_FirstOrNil S f =
     query_first S (postgresUser_pointers f) postgresUser_zero postgresUser_Map (PgUser_selectQuery f)"

definition PgUser_FirstOrErr :: "'c sql_server \<Rightarrow> user_filter \<Rightarrow> 'c \<Rightarrow> user go" where
  "PgUser_FirstOrErr S f c = or_err ErrUserNotFound (PgUser_FirstOrNil S f c)"

definition PgUser_List :: "'c sql_server \<Rightarrow> user_filter \<Rightarrow> 'c \<Rightarrow> (user list \<times> int) go" where
  "PgUser_List S f =
     query_counted S ''querying db'' (postgresUser_pointers f) postgresUser_zero postgresUser_Map (PgUser_selectQuery f)"

definition PgUser_Insert :: "nat \<Rightarrow> pg_entry list \<Rightarrow> pg_entry list" where
  "PgUser_Insert m = track Added UserEntityType (Pointer m)"

definition PgUser_Update :: "nat \<Rightarrow> pg_entry list \<Rightarrow> pg_entry list" where
  "PgUser_Update m = track Updated UserEntityType (Pointer m)"

definition PgUser_ExecuteInsert :: "'c sql_server \<Rightarrow> user \<Rightarrow> ('c, user) tx" where
  "PgUser_ExecuteInsert S m =
     tx_lift (mapUser m) (\<lambda>mapped.
       let cols = inserted_base @ [''username'', ''display_name'', ''primary_email'', ''email_verified'', ''service_user'',
                  ''metadata''];
           cols = (if u_virtualServerId m \<noteq> uuid_Nil then cols @ [''virtual_server_id''] else cols);
           values = base_values mapped @
             [SqlText (pgu_username mapped), SqlText (pgu_displayName mapped), SqlText (pgu_primaryEmail mapped),
              SqlBool (pgu_emailVerified mapped), SqlBool (pgu_serviceUser mapped), SqlJson (pgu_metadata mapped)];
           values = (if u_virtualServerId m \<noteq> uuid_Nil then values @ [SqlUuid (pgu_virtualServerId mapped)] else values)
       in execute_insert S ''scanning row'' \<lparr>ib_table = ''users'', ib_columns = cols, ib_values = values\<rparr> (\<lambda>xmin.
            m\<lparr>u_base := SetVersion (VersionUint32 xmin) (u_base m), u_changes := ClearChanges (u_changes m)\<rparr>))"

definition User_assignment :: "postgresUser \<Rightarrow> user_change \<Rightarrow> (string \<times> sql_value) option" where
  "User_assignment mapped field =
     (case field of
        UserChangeDisplayName \<Rightarrow> Some (''display_name'', SqlText (pgu_displayName mapped))
      | UserChangeEmailVerified \<Rightarrow> Some (''email_verified'', SqlBool (pgu_emailVerified mapped))
      | _ \<Rightarrow> None)"

definition PgUser_ExecuteUpdate :: "'c sql_server \<Rightarrow> user \<Rightarrow> ('c, user) tx" where
  "PgUser_ExecuteUpdate S m =
     (if \<not> HasChanges (u_changes m) then (\<lambda>c. (Inr m, c))
      else tx_lift (mapUser m) (\<lambda>mapped.
        execute_update S (Wrap ''updating application'' (Named ErrVersionMismatch))
          (assignments (User_assignment mapped) (GetChanges (u_changes m))) ''users'' (same_row mapped)
          (\<lambda>xmin. m\<lparr>u_base := SetVersion (VersionUint32 xmin) (u_base m), u_changes := ClearChanges (u_changes m)\<rparr>)))"

subsection \<open>Credential (\<^verbatim>\<open>credentials.go\<close>)\<close>

record postgresCredential = postgresBaseModel +
  pgcr_userId :: uuid
  pgcr_type :: string
  pgcr_details :: jtext

definition mapCredential :: "credential \<Rightarrow> postgresCredential go" where
  "mapCredential m =
     go_bind (wrap ''failed to marshal details'' (Marshal_details (cr_details m))) (\<lambda>detailJson.
     go_bind (mapBase (cr_base m)) (\<lambda>b.
       Inr \<lparr>pb_id = pb_id b, pb_auditCreatedAt = pb_auditCreatedAt b, pb_auditUpdatedAt = pb_auditUpdatedAt b, pb_xmin = pb_xmin b,
            pgcr_userId = cr_userId m,
            pgcr_type = credential_type_String (cr_type m),
            pgcr_details = detailJson\<rparr>))"

definition postgresCredential_Map :: "postgresCredential \<Rightarrow> credential go" where
  "postgresCredential_Map r =
     (let credentialType = CredentialType (pgcr_type r) in
      go_bind (Unmarshal_details credentialType (pgcr_details r)) (\<lambda>details.
        Inr (NewCredentialFromDB (postgresBaseModel_MapBase r) (pgcr_userId r) credentialType details)))"

definition postgresCredential_pointers :: "postgresCredential dest list" where
  "postgresCredential_pointers =
     base_pointers @
     [to_uuid (\<lambda>v r. r\<lparr>pgcr_userId := v\<rparr>),
      to_string (\<lambda>v r. r\<lparr>pgcr_type := v\<rparr>),
      to_json_bytes (\<lambda>v r. r\<lparr>pgcr_details := v\<rparr>)]"

definition postgresCredential_zero :: postgresCredential where
  "postgresCredential_zero =
     \<lparr>pb_id = uuid_Nil, pb_auditCreatedAt = time_zero, pb_auditUpdatedAt = time_zero, pb_xmin = 0,
      pgcr_userId = uuid_Nil,
      pgcr_type = [],
      pgcr_details = Plain []\<rparr>"

definition PgCredential_selectQuery :: "credential_filter \<Rightarrow> select_builder go" where
  "PgCredential_selectQuery f =
     Inr (when_set (crf_detailKid f) (\<lambda>v. Equal (member_column ''details'' ''kid'') (SqlText v)) (
       when_set (crf_detailPublicKey f) (\<lambda>v. Equal (member_column ''details'' ''publicKey'') (SqlText v)) (
       when_set (crf_detailId f) (\<lambda>v. Equal (member_column ''details'' ''credentialId'') (SqlText v)) (
       when_set (crf_type f) (\<lambda>v. Equal ''type'' (SqlText (credential_type_String v))) (
       when_set (crf_userId f) (\<lambda>v. Equal ''user_id'' (SqlUuid v)) (
       when_set (crf_id f) (\<lambda>v. Equal ''id'' (SqlUuid v)) (
       Select_From (base_columns @ [''user_id'', ''type'', ''details'']) ''credentials'')))))))"

definition PgCredential_FirstOrNil :: "'c sql_server \<Rightarrow> credential_filter \<Rightarrow> 'c \<Rightarrow> credential option go" where
  "PgCredential_FirstOrNil S f =
     query_first S postgresCredential_pointers postgresCredential_zero postgresCredential_Map (PgCredential_selectQuery f)"

definition PgCredential_FirstOrErr :: "'c sql_server \<Rightarrow> credential_filter \<Rightarrow> 'c \<Rightarrow> credential go" where
  "PgCredential_FirstOrErr S f c = or_err ErrCredentialNotFound (PgCredential_FirstOrNil S f c)"

definition PgCredential_List :: "'c sql_server \<Rightarrow> credential_filter \<Rightarrow> 'c \<Rightarrow> credential list go" where
  "PgCredential_List S f =
     query_list S ''querying db'' postgresCredential_pointers postgresCredential_zero (\<lambda>r. wrap ''mapping credential'' (postgresCredential_Map r)) (PgCredential_selectQuery f)"

definition PgCredential_Insert :: "nat \<Rightarrow> pg_entry list \<Rightarrow> pg_entry list" where
  "PgCredential_Insert m = track Added CredentialEntityType (Pointer m)"

definition PgCredential_Update :: "nat \<Rightarrow> pg_entry list \<Rightarrow> pg_entry list" where
  "PgCredential_Update m = track Updated CredentialEntityType (Pointer m)"

definition PgCredential_Delete :: "uuid \<Rightarrow> pg_entry list \<Rightarrow> pg_entry list" where
  "PgCredential_Delete i = track Deleted CredentialEntityType (Identifier i)"

definition PgCredential_ExecuteInsert :: "'c sql_server \<Rightarrow> credential \<Rightarrow> ('c, credential) tx" where
  "PgCredential_ExecuteInsert S m =
     tx_lift (wrap ''mapping credential'' (mapCredential m)) (\<lambda>mapped.
       execute_insert S ''scanning row''
         \<lparr>ib_table = ''credentials'',
          ib_columns = inserted_base @ [''user_id'', ''type'', ''details''],
          ib_values = base_values mapped @
            [SqlUuid (cr_userId m), SqlText (credential_type_String (cr_type m)), details_Value (cr_details m)]\<rparr>
         (\<lambda>xmin. m\<lparr>cr_base := SetVersion (VersionUint32 xmin) (cr_base m), cr_changes := ClearChanges (cr_changes m)\<rparr>))"

definition Credential_assignment :: "postgresCredential \<Rightarrow> credential_change \<Rightarrow> (string \<times> sql_value) option" where
  "Credential_assignment mapped field =
     (case field of
        CredentialChangeType \<Rightarrow> Some (''type'', SqlText (pgcr_type mapped))
      | CredentialChangeDetails \<Rightarrow> Some (''details'', SqlJson (pgcr_details mapped)))"

definition PgCredential_ExecuteUpdate :: "'c sql_server \<Rightarrow> credential \<Rightarrow> ('c, credential) tx" where
  "PgCredential_ExecuteUpdate S m =
     (if \<not> HasChanges (cr_changes m) then (\<lambda>c. (Inr m, c))
      else tx_lift (wrap ''mapping credential'' (mapCredential m)) (\<lambda>mapped.
        execute_update S (Wrap ''updating credential'' (Named ErrVersionMismatch))
          (assignments (Credential_assignment mapped) (GetChanges (cr_changes m))) ''credentials'' (same_row mapped)
          (\<lambda>xmin. m\<lparr>cr_base := SetVersion (VersionUint32 xmin) (cr_base m), cr_changes := ClearChanges (cr_changes m)\<rparr>)))"

definition PgCredential_ExecuteDelete :: "'c sql_server \<Rightarrow> uuid \<Rightarrow> ('c, unit) tx" where
  "PgCredential_ExecuteDelete S i = execute_delete S ''executing sql'' ''credentials'' i"

subsection \<open>Session (\<^verbatim>\<open>sessions.go\<close>)\<close>

record postgresSession = postgresBaseModel +
  pgse_virtualServerId :: uuid
  pgse_userId :: uuid
  pgse_hashedToken :: string
  pgse_expiresAt :: time
  pgse_lastUsedAt :: "time option"

definition mapSession :: "session \<Rightarrow> postgresSession go" where
  "mapSession m =
     go_bind (mapBase (se_base m)) (\<lambda>b.
       Inr \<lparr>pb_id = pb_id b, pb_auditCreatedAt = pb_auditCreatedAt b, pb_auditUpdatedAt = pb_auditUpdatedAt b, pb_xmin = pb_xmin b,
            pgse_virtualServerId = se_virtualServerId m,
            pgse_userId = se_userId m,
            pgse_hashedToken = se_hashedToken m,
            pgse_expiresAt = se_expiresAt m,
            pgse_lastUsedAt = se_lastUsedAt m\<rparr>)"

definition postgresSession_Map :: "postgresSession \<Rightarrow> session go" where
  "postgresSession_Map r =
     Inr (NewSessionFromDB (postgresBaseModel_MapBase r) (pgse_virtualServerId r) (pgse_userId r) (pgse_hashedToken r)
       (pgse_expiresAt r) (pgse_lastUsedAt r))"

definition postgresSession_pointers :: "postgresSession dest list" where
  "postgresSession_pointers =
     base_pointers @
     [to_uuid (\<lambda>v r. r\<lparr>pgse_virtualServerId := v\<rparr>),
      to_uuid (\<lambda>v r. r\<lparr>pgse_userId := v\<rparr>),
      to_string (\<lambda>v r. r\<lparr>pgse_hashedToken := v\<rparr>),
      to_time (\<lambda>v r. r\<lparr>pgse_expiresAt := v\<rparr>),
      to_time_pointer (\<lambda>v r. r\<lparr>pgse_lastUsedAt := v\<rparr>)]"

definition postgresSession_zero :: postgresSession where
  "postgresSession_zero =
     \<lparr>pb_id = uuid_Nil, pb_auditCreatedAt = time_zero, pb_auditUpdatedAt = time_zero, pb_xmin = 0,
      pgse_virtualServerId = uuid_Nil,
      pgse_userId = uuid_Nil,
      pgse_hashedToken = [],
      pgse_expiresAt = time_zero,
      pgse_lastUsedAt = None\<rparr>"

definition PgSession_selectQuery :: "session_filter \<Rightarrow> select_builder go" where
  "PgSession_selectQuery f =
     Inr (when_set (sef_userId f) (\<lambda>v. Equal ''user_id'' (SqlUuid v)) (
       when_set (sef_virtualServerId f) (\<lambda>v. Equal ''virtual_server_id'' (SqlUuid v)) (
       when_set (sef_id f) (\<lambda>v. Equal ''id'' (SqlUuid v)) (
       Select_From (base_columns @ [''virtual_server_id'', ''user_id'', ''hashed_token'', ''expires_at'', ''last_used_at'']) ''sessions''))))"

definition PgSession_FirstOrNil :: "'c sql_server \<Rightarrow> session_filter \<Rightarrow> 'c \<Rightarrow> session option go" where
  "PgSession_FirstOrNil S f =
     query_first S postgresSession_pointers postgresSession_zero postgresSession_Map (PgSession_selectQuery f)"

definition PgSession_FirstOrErr :: "'c sql_server \<Rightarrow> session_filter \<Rightarrow> 'c \<Rightarrow> session go" where
  "PgSession_FirstOrErr S f c = or_err ErrSessionNotFound (PgSession_FirstOrNil S f c)"

definition PgSession_Insert :: "nat \<Rightarrow> pg_entry list \<Rightarrow> pg_entry list" where
  "PgSession_Insert m = track Added SessionEntityType (Pointer m)"

definition PgSession_Delete :: "uuid \<Rightarrow> pg_entry list \<Rightarrow> pg_entry list" where
  "PgSession_Delete i = track Deleted SessionEntityType (Identifier i)"

definition PgSession_ExecuteInsert :: "'c sql_server \<Rightarrow> session \<Rightarrow> ('c, session) tx" where
  "PgSession_ExecuteInsert S m =
     tx_lift (mapSession m) (\<lambda>mapped.
       execute_insert S ''scanning row''
         \<lparr>ib_table = ''sessions'',
          ib_columns = inserted_base @ [''virtual_server_id'', ''user_id'', ''hashed_token'', ''expires_at'', ''last_used_at''],
          ib_values = base_values mapped @
            [SqlUuid (pgse_virtualServerId mapped), SqlUuid (pgse_userId mapped),
             SqlText (pgse_hashedToken mapped), SqlTime (pgse_expiresAt mapped),
             or_null SqlTime (pgse_lastUsedAt mapped)]\<rparr>
         (\<lambda>xmin. m\<lparr>se_base := SetVersion (VersionUint32 xmin) (se_base m), se_changes := ClearChanges (se_changes m)\<rparr>))"

definition PgSession_ExecuteDelete :: "'c sql_server \<Rightarrow> uuid \<Rightarrow> ('c, unit) tx" where
  "PgSession_ExecuteDelete S i = execute_delete S ''executing sql'' ''sessions'' i"

subsection \<open>Application (\<^verbatim>\<open>applications.go\<close>)\<close>

record postgresApplication = postgresBaseModel +
  pgapp_virtualServerId :: uuid
  pgapp_projectId :: uuid
  pgapp_name :: string
  pgapp_displayName :: string
  pgapp_type :: string
  pgapp_hashedSecret :: string
  pgapp_redirectUris :: "string list"
  pgapp_postLogoutRedirectUris :: "string list"
  pgapp_systemApplication :: bool
  pgapp_claimsMappingScript :: "string null_string"
  pgapp_accessTokenHeaderType :: string
  pgapp_deviceFlowEnabled :: bool
  pgapp_signingAlgorithm :: "string null_string"

definition mapApplication :: "application \<Rightarrow> postgresApplication go" where
  "mapApplication m =
     go_bind (mapBase (app_base m)) (\<lambda>b.
       Inr \<lparr>pb_id = pb_id b, pb_auditCreatedAt = pb_auditCreatedAt b, pb_auditUpdatedAt = pb_auditUpdatedAt b, pb_xmin = pb_xmin b,
            pgapp_virtualServerId = app_virtualServerId m,
            pgapp_projectId = app_projectId m,
            pgapp_name = app_name m,
            pgapp_displayName = app_displayName m,
            pgapp_type = application_type_String (app_type m),
            pgapp_hashedSecret = app_hashedSecret m,
            pgapp_redirectUris = app_redirectUris m,
            pgapp_postLogoutRedirectUris = app_postLogoutRedirectUris m,
            pgapp_systemApplication = app_systemApplication m,
            pgapp_claimsMappingScript = WrapStringPointer [] (app_claimsMappingScript m),
            pgapp_accessTokenHeaderType = app_accessTokenHeaderType m,
            pgapp_deviceFlowEnabled = app_deviceFlowEnabled m,
            pgapp_signingAlgorithm = WrapStringPointer [] (app_signingAlgorithm m)\<rparr>)"

definition postgresApplication_Map :: "postgresApplication \<Rightarrow> application go" where
  "postgresApplication_Map r =
     Inr (NewApplicationFromDB (postgresBaseModel_MapBase r) (pgapp_virtualServerId r) (pgapp_projectId r) (pgapp_name r)
       (pgapp_displayName r) (ApplicationType (pgapp_type r)) (pgapp_hashedSecret r) (pgapp_redirectUris r)
       (pgapp_postLogoutRedirectUris r) (pgapp_systemApplication r)
       (UnwrapNullString (pgapp_claimsMappingScript r)) (pgapp_accessTokenHeaderType r)
       (pgapp_deviceFlowEnabled r) (UnwrapNullString (pgapp_signingAlgorithm r)))"

definition postgresApplication_pointers :: "postgresApplication dest list" where
  "postgresApplication_pointers =
     base_pointers @
     [to_uuid (\<lambda>v r. r\<lparr>pgapp_virtualServerId := v\<rparr>),
      to_uuid (\<lambda>v r. r\<lparr>pgapp_projectId := v\<rparr>),
      to_string (\<lambda>v r. r\<lparr>pgapp_name := v\<rparr>),
      to_string (\<lambda>v r. r\<lparr>pgapp_displayName := v\<rparr>),
      to_string (\<lambda>v r. r\<lparr>pgapp_type := v\<rparr>),
      to_string (\<lambda>v r. r\<lparr>pgapp_hashedSecret := v\<rparr>),
      to_strings (\<lambda>v r. r\<lparr>pgapp_redirectUris := v\<rparr>),
      to_strings (\<lambda>v r. r\<lparr>pgapp_postLogoutRedirectUris := v\<rparr>),
      to_bool (\<lambda>v r. r\<lparr>pgapp_systemApplication := v\<rparr>),
      to_null_string (\<lambda>v r. r\<lparr>pgapp_claimsMappingScript := v\<rparr>),
      to_string (\<lambda>v r. r\<lparr>pgapp_accessTokenHeaderType := v\<rparr>),
      to_bool (\<lambda>v r. r\<lparr>pgapp_deviceFlowEnabled := v\<rparr>),
      to_null_string (\<lambda>v r. r\<lparr>pgapp_signingAlgorithm := v\<rparr>)]"

definition postgresApplication_zero :: postgresApplication where
  "postgresApplication_zero =
     \<lparr>pb_id = uuid_Nil, pb_auditCreatedAt = time_zero, pb_auditUpdatedAt = time_zero, pb_xmin = 0,
      pgapp_virtualServerId = uuid_Nil,
      pgapp_projectId = uuid_Nil,
      pgapp_name = [],
      pgapp_displayName = [],
      pgapp_type = [],
      pgapp_hashedSecret = [],
      pgapp_redirectUris = [],
      pgapp_postLogoutRedirectUris = [],
      pgapp_systemApplication = False,
      pgapp_claimsMappingScript = NullString [] False,
      pgapp_accessTokenHeaderType = [],
      pgapp_deviceFlowEnabled = False,
      pgapp_signingAlgorithm = NullString [] False\<rparr>"

definition PgApplication_selectQuery :: "application_filter \<Rightarrow> select_builder go" where
  "PgApplication_selectQuery f =
     go_bind (search_in [''name'', ''display_name''] (appf_searchFilter f)
      (when_set (appf_projectId f) (\<lambda>v. Equal ''project_id'' (SqlUuid v)) (
       when_set (appf_virtualServerId f) (\<lambda>v. Equal ''virtual_server_id'' (SqlUuid v)) (
       when_set (appf_ids f) (\<lambda>v. AnyEqual ''id'' (map SqlUuid v)) (
       when_set (appf_id f) (\<lambda>v. Equal ''id'' (SqlUuid v)) (
       when_set (appf_name f) (\<lambda>v. Equal ''name'' (SqlText v)) (
       Select_From (base_columns @ [''virtual_server_id'', ''project_id'', ''name'', ''display_name'', ''type'', ''hashed_secret'',
         ''redirect_uris'', ''post_logout_redirect_uris'', ''system_application'', ''claims_mapping_script'',
         ''access_token_header_type'', ''device_flow_enabled'', ''signing_algorithm'']) ''applications''))))))) (\<lambda>s. Inr (
       paginate (appf_paging f) (
       order_by (appf_order f) (
       s))))"

definition PgApplication_FirstOrNil :: "'c sql_server \<Rightarrow> application_filter \<Rightarrow> 'c \<Rightarrow> application option go" where
  "PgApplication_FirstOrNil S f =
     query_first S postgresApplication_pointers postgresApplication_zero postgresApplication_Map (PgApplication_selectQuery f)"

definition PgApplication_FirstOrErr :: "'c sql_server \<Rightarrow> application_filter \<Rightarrow> 'c \<Rightarrow> application go" where
  "PgApplication_FirstOrErr S f c = or_err ErrApplicationNotFound (PgApplication_FirstOrNil S f c)"

definition PgApplication_List :: "'c sql_server \<Rightarrow> application_filter \<Rightarrow> 'c \<Rightarrow> (application list \<times> int) go" where
  "PgApplication_List S f =
     query_counted S ''querying db'' postgresApplication_pointers postgresApplication_zero postgresApplication_Map (PgApplication_selectQuery f)"

definition PgApplication_Insert :: "nat \<Rightarrow> pg_entry list \<Rightarrow> pg_entry list" where
  "PgApplication_Insert m = track Added ApplicationEntityType (Pointer m)"

definition PgApplication_Update :: "nat \<Rightarrow> pg_entry list \<Rightarrow> pg_entry list" where
  "PgApplication_Update m = track Updated ApplicationEntityType (Pointer m)"

definition PgApplication_Delete :: "uuid \<Rightarrow> pg_entry list \<Rightarrow> pg_entry list" where
  "PgApplication_Delete i = track Deleted ApplicationEntityType (Identifier i)"

definition PgApplication_ExecuteInsert :: "'c sql_server \<Rightarrow> application \<Rightarrow> ('c, application) tx" where
  "PgApplication_ExecuteInsert S m =
     tx_lift (mapApplication m) (\<lambda>mapped.
       execute_insert S ''inserting application''
         \<lparr>ib_table = ''applications'',
          ib_columns = inserted_base @ [''virtual_server_id'', ''project_id'', ''name'', ''display_name'', ''type'', ''hashed_secret'',
            ''redirect_uris'', ''post_logout_redirect_uris'', ''system_application'', ''claims_mapping_script'',
            ''access_token_header_type'', ''device_flow_enabled'', ''signing_algorithm''],
          ib_values = base_values mapped @
            [SqlUuid (pgapp_virtualServerId mapped), SqlUuid (pgapp_projectId mapped),
             SqlText (pgapp_name mapped), SqlText (pgapp_displayName mapped), SqlText (pgapp_type mapped),
             SqlText (pgapp_hashedSecret mapped), SqlTexts (pgapp_redirectUris mapped),
             SqlTexts (pgapp_postLogoutRedirectUris mapped), SqlBool (pgapp_systemApplication mapped),
             null_text (pgapp_claimsMappingScript mapped), SqlText (pgapp_accessTokenHeaderType mapped),
             SqlBool (pgapp_deviceFlowEnabled mapped), null_text (pgapp_signingAlgorithm mapped)]\<rparr>
         (\<lambda>xmin. m\<lparr>app_base := SetVersion (VersionUint32 xmin) (app_base m), app_changes := ClearChanges (app_changes m)\<rparr>))"

definition Application_assignment :: "postgresApplication \<Rightarrow> application_change \<Rightarrow> (string \<times> sql_value) option" where
  "Application_assignment mapped field =
     (case field of
        ApplicationChangeHashedSecret \<Rightarrow> Some (''hashed_secret'', SqlText (pgapp_hashedSecret mapped))
      | ApplicationChangeClaimsMappingScript \<Rightarrow> Some (''claims_mapping_script'', null_text (pgapp_claimsMappingScript mapped))
      | ApplicationChangeAccessTokenHeaderType \<Rightarrow> Some (''access_token_header_type'', SqlText (pgapp_accessTokenHeaderType mapped))
      | ApplicationChangeDisplayName \<Rightarrow> Some (''display_name'', SqlText (pgapp_displayName mapped))
      | ApplicationChangeRedirectUris \<Rightarrow> Some (''redirect_uris'', SqlTexts (pgapp_redirectUris mapped))
      | ApplicationChangePostLogoutRedirectUris \<Rightarrow> Some (''post_logout_redirect_uris'', SqlTexts (pgapp_postLogoutRedirectUris mapped))
      | ApplicationChangeSystemApplication \<Rightarrow> Some (''system_application'', SqlBool (pgapp_systemApplication mapped))
      | ApplicationChangeDeviceFlowEnabled \<Rightarrow> Some (''device_flow_enabled'', SqlBool (pgapp_deviceFlowEnabled mapped))
      | ApplicationChangeSigningAlgorithm \<Rightarrow> Some (''signing_algorithm'', null_text (pgapp_signingAlgorithm mapped)))"

definition PgApplication_ExecuteUpdate :: "'c sql_server \<Rightarrow> application \<Rightarrow> ('c, application) tx" where
  "PgApplication_ExecuteUpdate S m =
     (if \<not> HasChanges (app_changes m) then (\<lambda>c. (Inr m, c))
      else tx_lift (mapApplication m) (\<lambda>mapped.
        execute_update S (Wrap ''updating application'' (Named ErrVersionMismatch))
          (assignments (Application_assignment mapped) (GetChanges (app_changes m))) ''applications'' (same_row mapped)
          (\<lambda>xmin. m\<lparr>app_base := SetVersion (VersionUint32 xmin) (app_base m), app_changes := ClearChanges (app_changes m)\<rparr>)))"

definition PgApplication_ExecuteDelete :: "'c sql_server \<Rightarrow> uuid \<Rightarrow> ('c, unit) tx" where
  "PgApplication_ExecuteDelete S i = execute_delete S ''executing delete'' ''applications'' i"

end
