(* ===== verification/PgProjects.thy ===== *)
theory PgProjects
  imports Sql Commands
begin

text \<open>
  The repositories of projects, roles, groups, resource servers and their scopes on PostgreSQL.
\<close>

subsection \<open>Project (\<^verbatim>\<open>projects.go\<close>)\<close>

record postgresProject = postgresBaseModel +
  pgp_virtualServerId :: uuid
  pgp_slug :: string
  pgp_name :: string
  pgp_description :: string
  pgp_systemProject :: bool

definition mapProject :: "project \<Rightarrow> postgresProject go" where
  "mapProject m =
     go_bind (mapBase (p_base m)) (\<lambda>b.
       Inr \<lparr>pb_id = pb_id b, pb_auditCreatedAt = pb_auditCreatedAt b, pb_auditUpdatedAt = pb_auditUpdatedAt b, pb_xmin = pb_xmin b,
            pgp_virtualServerId = p_virtualServerId m,
            pgp_slug = p_slug m,
            pgp_name = p_name m,
            pgp_description = p_description m,
            pgp_systemProject = p_systemProject m\<rparr>)"

definition postgresProject_Map :: "postgresProject \<Rightarrow> project go" where
  "postgresProject_Map r =
     Inr (NewProjectFromDB (postgresBaseModel_MapBase r) (pgp_virtualServerId r) (pgp_slug r) (pgp_name r) (pgp_description r)
       (pgp_systemProject r))"

definition postgresProject_pointers :: "postgresProject dest list" where
  "postgresProject_pointers =
     base_pointers @
     [to_uuid (\<lambda>v r. r\<lparr>pgp_virtualServerId := v\<rparr>),
      to_string (\<lambda>v r. r\<lparr>pgp_slug := v\<rparr>),
      to_string (\<lambda>v r. r\<lparr>pgp_name := v\<rparr>),
      to_string (\<lambda>v r. r\<lparr>pgp_description := v\<rparr>),
      to_bool (\<lambda>v r. r\<lparr>pgp_systemProject := v\<rparr>)]"

definition postgresProject_zero :: postgresProject where
  "postgresProject_zero =
     \<lparr>pb_id = uuid_Nil, pb_auditCreatedAt = time_zero, pb_auditUpdatedAt = time_zero, pb_xmin = 0,
      pgp_virtualServerId = uuid_Nil,
      pgp_slug = [],
      pgp_name = [],
      pgp_description = [],
      pgp_systemProject = False\<rparr>"

definition PgProject_selectQuery :: "project_filter \<Rightarrow> select_builder go" where
  "PgProject_selectQuery f =
     go_bind (search_in [''slug'', ''name'', ''description''] (pf_searchFilter f)
      (when_set (pf_slug f) (\<lambda>v. Equal ''slug'' (SqlText v)) (
       when_set (pf_virtualServerId f) (\<lambda>v. Equal ''virtual_server_id'' (SqlUuid v)) (
       when_set (pf_id f) (\<lambda>v. Equal ''id'' (SqlUuid v)) (
       Select_From (base_columns @ [''virtual_server_id'', ''slug'', ''name'', ''description'', ''system_project'']) ''projects''))))) (\<lambda>s. Inr (
       order_by (pf_order f) (
       paginate (pf_paging f) (
       s))))"

definition PgProject_FirstOrNil :: "'c sql_server \<Rightarrow> project_filter \<Rightarrow> 'c \<Rightarrow> project option go" where
  "PgProject_FirstOrNil S f =
     query_first S postgresProject_pointers postgresProject_zero postgresProject_Map (PgProject_selectQuery f)"

definition PgProject_FirstOrErr :: "'c sql_server \<Rightarrow> project_filter \<Rightarrow> 'c \<Rightarrow> project go" where
  "PgProject_FirstOrErr S f c = or_err ErrProjectNotFound (PgProject_FirstOrNil S f c)"

definition PgProject_List :: "'c sql_server \<Rightarrow> project_filter \<Rightarrow> 'c \<Rightarrow> (project list \<times> int) go" where
  "PgProject_List S f =
     query_counted S ''querying db'' postgresProject_pointers postgresProject_zero postgresProject_Map (PgProject_selectQuery f)"

definition PgProject_Insert :: "nat \<Rightarrow> pg_entry list \<Rightarrow> pg_entry list" where
  "PgProject_Insert m = track Added ProjectEntityType (Pointer m)"

definition PgProject_Update :: "nat \<Rightarrow> pg_entry list \<Rightarrow> pg_entry list" where
  "PgProject_Update m = track Updated ProjectEntityType (Pointer m)"

definition PgProject_Delete :: "uuid \<Rightarrow> pg_entry list \<Rightarrow> pg_entry list" where
  "PgProject_Delete i = track Deleted ProjectEntityType (Identifier i)"

definition PgProject_ExecuteInsert :: "'c sql_server \<Rightarrow> project \<Rightarrow> ('c, project) tx" where
  "PgProject_ExecuteInsert S m =
     tx_lift (mapProject m) (\<lambda>mapped.
       execute_insert S ''scanning row''
         \<lparr>ib_table = ''projects'',
          ib_columns = inserted_base @ [''virtual_server_id'', ''slug'', ''name'', ''description'', ''system_project''],
          ib_values = base_values mapped @
            [SqlUuid (pgp_virtualServerId mapped), SqlText (pgp_slug mapped), SqlText (pgp_name mapped),
             SqlText (pgp_description mapped), SqlBool (pgp_systemProject mapped)]\<rparr>
         (\<lambda>xmin. m\<lparr>p_base := SetVersion (VersionUint32 xmin) (p_base m), p_changes := ClearChanges (p_changes m)\<rparr>))"

definition Project_assignment :: "postgresProject \<Rightarrow> project_change \<Rightarrow> (string \<times> sql_value) option" where
  "Project_assignment mapped field =
     (case field of
        ProjectChangeDescription \<Rightarrow> Some (''description'', SqlText (pgp_description mapped))
      | ProjectChangeName \<Rightarrow> Some (''name'', SqlText (pgp_name mapped)))"

definition PgProject_ExecuteUpdate :: "'c sql_server \<Rightarrow> project \<Rightarrow> ('c, project) tx" where
  "PgProject_ExecuteUpdate S m =
     (if \<not> HasChanges (p_changes m) then (\<lambda>c. (Inr m, c))
      else tx_lift (mapProject m) (\<lambda>mapped.
        execute_update S (Wrap ''scanning row'' ErrNoRows)
          (assignments (Project_assignment mapped) (GetChanges (p_changes m))) ''projects'' (same_row mapped)
          (\<lambda>xmin. m\<lparr>p_base := SetVersion (VersionUint32 xmin) (p_base m), p_changes := ClearChanges (p_changes m)\<rparr>)))"

definition PgProject_ExecuteDelete :: "'c sql_server \<Rightarrow> uuid \<Rightarrow> ('c, unit) tx" where
  "PgProject_ExecuteDelete S i = execute_delete S ''executing sql'' ''projects'' i"

subsection \<open>Role (\<^verbatim>\<open>roles.go\<close>)\<close>

record postgresRole = postgresBaseModel +
  pgro_virtualServerId :: uuid
  pgro_projectId :: uuid
  pgro_name :: string
  pgro_description :: string

definition mapRole :: "role \<Rightarrow> postgresRole go" where
  "mapRole m =
     go_bind (mapBase (ro_base m)) (\<lambda>b.
       Inr \<lparr>pb_id = pb_id b, pb_auditCreatedAt = pb_auditCreatedAt b, pb_auditUpdatedAt = pb_auditUpdatedAt b, pb_xmin = pb_xmin b,
            pgro_virtualServerId = ro_virtualServerId m,
            pgro_projectId = ro_projectId m,
            pgro_name = ro_name m,
            pgro_description = ro_description m\<rparr>)"

definition postgresRole_Map :: "postgresRole \<Rightarrow> role go" where
  "postgresRole_Map r =
     Inr (NewRoleFromDB (postgresBaseModel_MapBase r) (pgro_virtualServerId r) (pgro_projectId r) (pgro_name r)
       (pgro_description r))"

definition postgresRole_pointers :: "postgresRole dest list" where
  "postgresRole_pointers =
     base_pointers @
     [to_uuid (\<lambda>v r. r\<lparr>pgro_virtualServerId := v\<rparr>),
      to_uuid (\<lambda>v r. r\<lparr>pgro_projectId := v\<rparr>),
      to_string (\<lambda>v r. r\<lparr>pgro_name := v\<rparr>),
      to_string (\<lambda>v r. r\<lparr>pgro_description := v\<rparr>)]"

definition postgresRole_zero :: postgresRole where
  "postgresRole_zero =
     \<lparr>pb_id = uuid_Nil, pb_auditCreatedAt = time_zero, pb_auditUpdatedAt = time_zero, pb_xmin = 0,
      pgro_virtualServerId = uuid_Nil,
      pgro_projectId = uuid_Nil,
      pgro_name = [],
      pgro_description = []\<rparr>"

definition PgRole_selectQuery :: "role_filter \<Rightarrow> select_builder go" where
  "PgRole_selectQuery f =
     go_bind (search_in [''name''] (rof_searchFilter f)
      (when_set (rof_projectId f) (\<lambda>v. Equal ''project_id'' (SqlUuid v)) (
       when_set (rof_virtualServerId f) (\<lambda>v. Equal ''virtual_server_id'' (SqlUuid v)) (
       when_set (rof_id f) (\<lambda>v. Equal ''id'' (SqlUuid v)) (
       when_set (rof_name f) (\<lambda>v. Equal ''name'' (SqlText v)) (
       Select_From (base_columns @ [''virtual_server_id'', ''project_id'', ''name'', ''description'']) ''roles'')))))) (\<lambda>s. Inr (
       paginate (rof_paging f) (
       order_by (rof_order f) (
       s))))"

definition PgRole_FirstOrNil :: "'c sql_server \<Rightarrow> role_filter \<Rightarrow> 'c \<Rightarrow> role option go" where
  "PgRole_FirstOrNil S f =
     query_first S postgresRole_pointers postgresRole_zero postgresRole_Map (PgRole_selectQuery f)"

definition PgRole_FirstOrErr :: "'c sql_server \<Rightarrow> role_filter \<Rightarrow> 'c \<Rightarrow> role go" where
  "PgRole_FirstOrErr S f c = or_err ErrRoleNotFound (PgRole_FirstOrNil S f c)"

definition PgRole_List :: "'c sql_server \<Rightarrow> role_filter \<Rightarrow> 'c \<Rightarrow> (role list \<times> int) go" where
  "PgRole_List S f =
     query_counted S ''querying rows'' postgresRole_pointers postgresRole_zero postgresRole_Map (PgRole_selectQuery f)"

definition PgRole_Insert :: "nat \<Rightarrow> pg_entry list \<Rightarrow> pg_entry list" where
  "PgRole_Insert m = track Added RoleEntityType (Pointer m)"

definition PgRole_Update :: "nat \<Rightarrow> pg_entry list \<Rightarrow> pg_entry list" where
  "PgRole_Update m = track Updated RoleEntityType (Pointer m)"

definition PgRole_Delete :: "uuid \<Rightarrow> pg_entry list \<Rightarrow> pg_entry list" where
  "PgRole_Delete i = track Deleted RoleEntityType (Identifier i)"

definition PgRole_ExecuteInsert :: "'c sql_server \<Rightarrow> role \<Rightarrow> ('c, role) tx" where
  "PgRole_ExecuteInsert S m =
     tx_lift (mapRole m) (\<lambda>mapped.
       execute_insert S ''scanning row''
         \<lparr>ib_table = ''roles'',
          ib_columns = inserted_base @ [''virtual_server_id'', ''project_id'', ''name'', ''description''],
          ib_values = base_values mapped @
            [SqlUuid (pgro_virtualServerId mapped), SqlUuid (pgro_projectId mapped), SqlText (pgro_name mapped),
             SqlText (pgro_description mapped)]\<rparr>
         (\<lambda>xmin. m\<lparr>ro_base := SetVersion (VersionUint32 xmin) (ro_base m), ro_changes := ClearChanges (ro_changes m)\<rparr>))"

definition Role_assignment :: "postgresRole \<Rightarrow> role_change \<Rightarrow> (string \<times> sql_value) option" where
  "Role_assignment mapped field =
     (case field of
        RoleChangeName \<Rightarrow> Some (''name'', SqlText (pgro_name mapped))
      | RoleChangeDescription \<Rightarrow> Some (''description'', SqlText (pgro_description mapped)))"

definition PgRole_ExecuteUpdate :: "'c sql_server \<Rightarrow> role \<Rightarrow> ('c, role) tx" where
  "PgRole_ExecuteUpdate S m =
     (if \<not> HasChanges (ro_changes m) then (\<lambda>c. (Inr m, c))
      else tx_lift (mapRole m) (\<lambda>mapped.
        execute_update S (Wrap ''updating application'' (Named ErrVersionMismatch))
          (assignments (Role_assignment mapped) (GetChanges (ro_changes m))) ''roles'' (same_row mapped)
          (\<lambda>xmin. m\<lparr>ro_base := SetVersion (VersionUint32 xmin) (ro_base m), ro_changes := ClearChanges (ro_changes m)\<rparr>)))"

definition PgRole_ExecuteDelete :: "'c sql_server \<Rightarrow> uuid \<Rightarrow> ('c, unit) tx" where
  "PgRole_ExecuteDelete S i = execute_delete S ''executing sql'' ''roles'' i"

subsection \<open>Group (\<^verbatim>\<open>groups.go\<close>)\<close>

record postgresGroup = postgresBaseModel +
  pggr_virtualServerId :: uuid
  pggr_name :: string
  pggr_description :: string

definition mapGroup :: "group \<Rightarrow> postgresGroup go" where
  "mapGroup m =
     go_bind (mapBase (gr_base m)) (\<lambda>b.
       Inr \<lparr>pb_id = pb_id b, pb_auditCreatedAt = pb_auditCreatedAt b, pb_auditUpdatedAt = pb_auditUpdatedAt b, pb_xmin = pb_xmin b,
            pggr_virtualServerId = gr_virtualServerId m,
            pggr_name = gr_name m,
            pggr_description = gr_description m\<rparr>)"

definition postgresGroup_Map :: "postgresGroup \<Rightarrow> group go" where
  "postgresGroup_Map r =
     Inr (NewGroupFromDB (postgresBaseModel_MapBase r) (pggr_virtualServerId r) (pggr_name r) (pggr_description r))"

definition postgresGroup_pointers :: "postgresGroup dest list" where
  "postgresGroup_pointers =
     base_pointers @
     [to_uuid (\<lambda>v r. r\<lparr>pggr_virtualServerId := v\<rparr>),
      to_string (\<lambda>v r. r\<lparr>pggr_name := v\<rparr>),
      to_string (\<lambda>v r. r\<lparr>pggr_description := v\<rparr>)]"

definition postgresGroup_zero :: postgresGroup where
  "postgresGroup_zero =
     \<lparr>pb_id = uuid_Nil, pb_auditCreatedAt = time_zero, pb_auditUpdatedAt = time_zero, pb_xmin = 0,
      pggr_virtualServerId = uuid_Nil,
      pggr_name = [],
      pggr_description = []\<rparr>"

definition PgGroup_selectQuery :: "group_filter \<Rightarrow> select_builder go" where
  "PgGroup_selectQuery f =
     go_bind (search_in [''name''] (grf_searchFilter f)
      (when_set (grf_virtualServerId f) (\<lambda>v. Equal ''virtual_server_id'' (SqlUuid v)) (
       when_set (grf_name f) (\<lambda>v. Equal ''name'' (SqlText v)) (
       when_set (grf_id f) (\<lambda>v. Equal ''id'' (SqlUuid v)) (
       Select_From (base_columns @ [''virtual_server_id'', ''name'', ''description'']) ''groups''))))) (\<lambda>s. Inr (
       paginate (grf_paging f) (
       order_by (grf_order f) (
       s))))"

definition PgGroup_FirstOrNil :: "'c sql_server \<Rightarrow> group_filter \<Rightarrow> 'c \<Rightarrow> group option go" where
  "PgGroup_FirstOrNil S f =
     query_first S postgresGroup_pointers postgresGroup_zero postgresGroup_Map (PgGroup_selectQuery f)"

definition PgGroup_FirstOrErr :: "'c sql_server \<Rightarrow> group_filter \<Rightarrow> 'c \<Rightarrow> group go" where
  "PgGroup_FirstOrErr S f c = or_err ErrGroupNotFound (PgGroup_FirstOrNil S f c)"

definition PgGroup_List :: "'c sql_server \<Rightarrow> group_filter \<Rightarrow> 'c \<Rightarrow> (group list \<times> int) go" where
  "PgGroup_List S f =
     query_counted S ''querying db'' postgresGroup_pointers postgresGroup_zero postgresGroup_Map (PgGroup_selectQuery f)"

definition PgGroup_Insert :: "nat \<Rightarrow> pg_entry list \<Rightarrow> pg_entry list" where
  "PgGroup_Insert m = track Added GroupEntityType (Pointer m)"

definition PgGroup_Update :: "nat \<Rightarrow> pg_entry list \<Rightarrow> pg_entry list" where
  "PgGroup_Update m = track Updated GroupEntityType (Pointer m)"

definition PgGroup_Delete :: "uuid \<Rightarrow> pg_entry list \<Rightarrow> pg_entry list" where
  "PgGroup_Delete i = track Deleted GroupEntityType (Identifier i)"

definition PgGroup_ExecuteInsert :: "'c sql_server \<Rightarrow> group \<Rightarrow> ('c, group) tx" where
  "PgGroup_ExecuteInsert S m =
     tx_lift (mapGroup m) (\<lambda>mapped.
       execute_insert S ''scanning row''
         \<lparr>ib_table = ''groups'',
          ib_columns = inserted_base @ [''virtual_server_id'', ''name'', ''description''],
          ib_values = base_values mapped @
            [SqlUuid (pggr_virtualServerId mapped), SqlText (pggr_name mapped), SqlText (pggr_description mapped)]\<rparr>
         (\<lambda>xmin. m\<lparr>gr_base := SetVersion (VersionUint32 xmin) (gr_base m), gr_changes := ClearChanges (gr_changes m)\<rparr>))"

definition Group_assignment :: "postgresGroup \<Rightarrow> group_change \<Rightarrow> (string \<times> sql_value) option" where
  "Group_assignment mapped field =
     (case field of
        GroupChangeName \<Rightarrow> Some (''name'', SqlText (pggr_name mapped))
      | GroupChangeDescription \<Rightarrow> Some (''description'', SqlText (pggr_description mapped)))"

definition PgGroup_ExecuteUpdate :: "'c sql_server \<Rightarrow> group \<Rightarrow> ('c, group) tx" where
  "PgGroup_ExecuteUpdate S m =
     (if \<not> HasChanges (gr_changes m) then (\<lambda>c. (Inr m, c))
      else tx_lift (mapGroup m) (\<lambda>mapped.
        execute_update S (Wrap ''updating application'' (Named ErrVersionMismatch))
          (assignments (Group_assignment mapped) (GetChanges (gr_changes m))) ''groups'' (same_row mapped)
          (\<lambda>xmin. m\<lparr>gr_base := SetVersion (VersionUint32 xmin) (gr_base m), gr_changes := ClearChanges (gr_changes m)\<rparr>)))"

definition PgGroup_ExecuteDelete :: "'c sql_server \<Rightarrow> uuid \<Rightarrow> ('c, unit) tx" where
  "PgGroup_ExecuteDelete S i = execute_delete S ''executing delete'' ''groups'' i"

subsection \<open>ResourceServer (\<^verbatim>\<open>resourceservers.go\<close>)\<close>

record postgresResourceServer = postgresBaseModel +
  pgrs_virtualServerId :: uuid
  pgrs_projectId :: uuid
  pgrs_slug :: string
  pgrs_name :: string
  pgrs_description :: string

definition mapResourceServer :: "resource_server \<Rightarrow> postgresResourceServer go" where
  "mapResourceServer m =
     go_bind (mapBase (rs_base m)) (\<lambda>b.
       Inr \<lparr>pb_id = pb_id b, pb_auditCreatedAt = pb_auditCreatedAt b, pb_auditUpdatedAt = pb_auditUpdatedAt b, pb_xmin = pb_xmin b,
            pgrs_virtualServerId = rs_virtualServerId m,
            pgrs_projectId = rs_projectId m,
            pgrs_slug = rs_slug m,
            pgrs_name = rs_name m,
            pgrs_description = rs_description m\<rparr>)"

definition postgresResourceServer_Map :: "postgresResourceServer \<Rightarrow> resource_server go" where
  "postgresResourceServer_Map r =
     Inr (NewResourceServerFromDB (postgresBaseModel_MapBase r) (pgrs_virtualServerId r) (pgrs_projectId r) (pgrs_slug r) (pgrs_name r)
       (pgrs_description r))"

definition postgresResourceServer_pointers :: "postgresResourceServer dest list" where
  "postgresResourceServer_pointers =
     base_pointers @
     [to_uuid (\<lambda>v r. r\<lparr>pgrs_virtualServerId := v\<rparr>),
      to_uuid (\<lambda>v r. r\<lparr>pgrs_projectId := v\<rparr>),
      to_string (\<lambda>v r. r\<lparr>pgrs_slug := v\<rparr>),
      to_string (\<lambda>v r. r\<lparr>pgrs_name := v\<rparr>),
      to_string (\<lambda>v r. r\<lparr>pgrs_description := v\<rparr>)]"

definition postgresResourceServer_zero :: postgresResourceServer where
  "postgresResourceServer_zero =
     \<lparr>pb_id = uuid_Nil, pb_auditCreatedAt = time_zero, pb_auditUpdatedAt = time_zero, pb_xmin = 0,
      pgrs_virtualServerId = uuid_Nil,
      pgrs_projectId = uuid_Nil,
      pgrs_slug = [],
      pgrs_name = [],
      pgrs_description = []\<rparr>"

definition PgResourceServer_selectQuery :: "resource_server_filter \<Rightarrow> select_builder go" where
  "PgResourceServer_selectQuery f =
     go_bind (search_in [''name''] (rsf_searchFilter f)
      (when_set (rsf_id f) (\<lambda>v. Equal ''id'' (SqlUuid v)) (
       when_set (rsf_projectId f) (\<lambda>v. Equal ''project_id'' (SqlUuid v)) (
       when_set (rsf_virtualServerId f) (\<lambda>v. Equal ''virtual_server_id'' (SqlUuid v)) (
       Select_From (base_columns @ [''virtual_server_id'', ''project_id'', ''slug'', ''name'', ''description'']) ''resource_servers''))))) (\<lambda>s. Inr (
       paginate (rsf_paging f) (
       order_by (rsf_order f) (
       s))))"

text \<open>The answer without a row is not told apart from a failure.\<close>

definition PgResourceServer_FirstOrNil :: "'c sql_server \<Rightarrow> resource_server_filter \<Rightarrow> 'c \<Rightarrow> resource_server option go" where
  "PgResourceServer_FirstOrNil S f c =
     go_bind (query_first S postgresResourceServer_pointers postgresResourceServer_zero postgresResourceServer_Map (PgResourceServer_selectQuery f) c) (\<lambda>r.
       case r of None \<Rightarrow> Inl (Err (Wrap ''scanning row'' ErrNoRows)) | Some e \<Rightarrow> Inr (Some e))"

definition PgResourceServer_FirstOrErr :: "'c sql_server \<Rightarrow> resource_server_filter \<Rightarrow> 'c \<Rightarrow> resource_server go" where
  "PgResourceServer_FirstOrErr S f c = or_err ErrResourceServerNotFound (PgResourceServer_FirstOrNil S f c)"

definition PgResourceServer_List :: "'c sql_server \<Rightarrow> resource_server_filter \<Rightarrow> 'c \<Rightarrow> (resource_server list \<times> int) go" where
  "PgResourceServer_List S f =
     query_counted S ''querying db'' postgresResourceServer_pointers postgresResourceServer_zero postgresResourceServer_Map (PgResourceServer_selectQuery f)"

definition PgResourceServer_Insert :: "nat \<Rightarrow> pg_entry list \<Rightarrow> pg_entry list" where
  "PgResourceServer_Insert m = track Added ResourceServerEntityType (Pointer m)"

definition PgResourceServer_Update :: "nat \<Rightarrow> pg_entry list \<Rightarrow> pg_entry list" where
  "PgResourceServer_Update m = track Updated ResourceServerEntityType (Pointer m)"

definition PgResourceServer_Delete :: "uuid \<Rightarrow> pg_entry list \<Rightarrow> pg_entry list" where
  "PgResourceServer_Delete i = track Deleted ResourceServerEntityType (Identifier i)"

definition PgResourceServer_ExecuteInsert :: "'c sql_server \<Rightarrow> resource_server \<Rightarrow> ('c, resource_server) tx" where
  "PgResourceServer_ExecuteInsert S m =
     tx_lift (mapResourceServer m) (\<lambda>mapped.
       execute_insert S ''scanning row''
         \<lparr>ib_table = ''resource_servers'',
          ib_columns = inserted_base @ [''virtual_server_id'', ''project_id'', ''slug'', ''name'', ''description''],
          ib_values = base_values mapped @
            [SqlUuid (pgrs_virtualServerId mapped), SqlUuid (pgrs_projectId mapped), SqlText (pgrs_slug mapped),
             SqlText (pgrs_name mapped), SqlText (pgrs_description mapped)]\<rparr>
         (\<lambda>xmin. m\<lparr>rs_base := SetVersion (VersionUint32 xmin) (rs_base m), rs_changes := ClearChanges (rs_changes m)\<rparr>))"

definition ResourceServer_assignment :: "postgresResourceServer \<Rightarrow> resource_server_change \<Rightarrow> (string \<times> sql_value) option" where
  "ResourceServer_assignment mapped field =
     (case field of
        ResourceServerChangeName \<Rightarrow> Some (''name'', SqlText (pgrs_name mapped))
      | ResourceServerChangeDescription \<Rightarrow> Some (''description'', SqlText (pgrs_description mapped)))"

definition PgResourceServer_ExecuteUpdate :: "'c sql_server \<Rightarrow> resource_server \<Rightarrow> ('c, resource_server) tx" where
  "PgResourceServer_ExecuteUpdate S m =
     (if \<not> HasChanges (rs_changes m) then (\<lambda>c. (Inr m, c))
      else tx_lift (mapResourceServer m) (\<lambda>mapped.
        execute_update S (Wrap ''updating application'' (Named ErrVersionMismatch))
          (assignments (ResourceServer_assignment mapped) (GetChanges (rs_changes m))) ''resource_servers'' (same_row mapped)
          (\<lambda>xmin. m\<lparr>rs_base := SetVersion (VersionUint32 xmin) (rs_base m), rs_changes := ClearChanges (rs_changes m)\<rparr>)))"

definition PgResourceServer_ExecuteDelete :: "'c sql_server \<Rightarrow> uuid \<Rightarrow> ('c, unit) tx" where
  "PgResourceServer_ExecuteDelete S i = execute_delete S ''executing sql'' ''resource_servers'' i"

subsection \<open>ResourceServerScope (\<^verbatim>\<open>resourceserverscopes.go\<close>)\<close>

record postgresResourceServerScope = postgresBaseModel +
  pgrss_virtualServerId :: uuid
  pgrss_projectId :: uuid
  pgrss_resourceServerId :: uuid
  pgrss_scope :: string
  pgrss_name :: string
  pgrss_description :: string

definition mapResourceServerScope :: "resource_server_scope \<Rightarrow> postgresResourceServerScope go" where
  "mapResourceServerScope m =
     go_bind (mapBase (rss_base m)) (\<lambda>b.
       Inr \<lparr>pb_id = pb_id b, pb_auditCreatedAt = pb_auditCreatedAt b, pb_auditUpdatedAt = pb_auditUpdatedAt b, pb_xmin = pb_xmin b,
            pgrss_virtualServerId = rss_virtualServerId m,
            pgrss_projectId = rss_projectId m,
            pgrss_resourceServerId = rss_resourceServerId m,
            pgrss_scope = rss_scope m,
            pgrss_name = rss_name m,
            pgrss_description = rss_description m\<rparr>)"

definition postgresResourceServerScope_Map :: "postgresResourceServerScope \<Rightarrow> resource_server_scope go" where
  "postgresResourceServerScope_Map r =
     Inr (NewResourceServerScopeFromDB (postgresBaseModel_MapBase r) (pgrss_virtualServerId r) (pgrss_projectId r) (pgrss_resourceServerId r)
       (pgrss_scope r) (pgrss_name r) (pgrss_description r))"

definition postgresResourceServerScope_pointers :: "postgresResourceServerScope dest list" where
  "postgresResourceServerScope_pointers =
     base_pointers @
     [to_uuid (\<lambda>v r. r\<lparr>pgrss_virtualServerId := v\<rparr>),
      to_uuid (\<lambda>v r. r\<lparr>pgrss_projectId := v\<rparr>),
      to_uuid (\<lambda>v r. r\<lparr>pgrss_resourceServerId := v\<rparr>),
      to_string (\<lambda>v r. r\<lparr>pgrss_scope := v\<rparr>),
      to_string (\<lambda>v r. r\<lparr>pgrss_name := v\<rparr>)]"

definition postgresResourceServerScope_zero :: postgresResourceServerScope where
  "postgresResourceServerScope_zero =
     \<lparr>pb_id = uuid_Nil, pb_auditCreatedAt = time_zero, pb_auditUpdatedAt = time_zero, pb_xmin = 0,
      pgrss_virtualServerId = uuid_Nil,
      pgrss_projectId = uuid_Nil,
      pgrss_resourceServerId = uuid_Nil,
      pgrss_scope = [],
      pgrss_name = [],
      pgrss_description = []\<rparr>"

definition PgResourceServerScope_selectQuery :: "resource_server_scope_filter \<Rightarrow> select_builder go" where
  "PgResourceServerScope_selectQuery f =
     go_bind (search_in [''name''] (rssf_searchFilter f)
      (when_set (rssf_id f) (\<lambda>v. Equal ''id'' (SqlUuid v)) (
       when_set (rssf_resourceServerId f) (\<lambda>v. Equal ''resource_server_id'' (SqlUuid v)) (
       when_set (rssf_projectId f) (\<lambda>v. Equal ''project_id'' (SqlUuid v)) (
       when_set (rssf_virtualServerId f) (\<lambda>v. Equal ''virtual_server_id'' (SqlUuid v)) (
       Select_From (base_columns @ [''virtual_server_id'', ''project_id'', ''resource_server_id'', ''scope'', ''name'', ''description'']) ''resource_server_scopes'')))))) (\<lambda>s. Inr (
       paginate (rssf_paging f) (
       order_by (rssf_order f) (
       s))))"

definition PgResourceServerScope_FirstOrNil :: "'c sql_server \<Rightarrow> resource_server_scope_filter \<Rightarrow> 'c \<Rightarrow> resource_server_scope option go" where
  "PgResourceServerScope_FirstOrNil S f =
     query_first S postgresResourceServerScope_pointers postgresResourceServerScope_zero postgresResourceServerScope_Map (PgResourceServerScope_selectQuery f)"

definition PgResourceServerScope_FirstOrErr :: "'c sql_server \<Rightarrow> resource_server_scope_filter \<Rightarrow> 'c \<Rightarrow> resource_server_scope go" where
  "PgResourceServerScope_FirstOrErr S f c = or_err ErrResourceServerScopeNotFound (PgResourceServerScope_FirstOrNil S f c)"

definition PgResourceServerScope_List :: "'c sql_server \<Rightarrow> resource_server_scope_filter \<Rightarrow> 'c \<Rightarrow> (resource_server_scope list \<times> int) go" where
  "PgResourceServerScope_List S f =
     query_counted S ''querying db'' postgresResourceServerScope_pointers postgresResourceServerScope_zero postgresResourceServerScope_Map (PgResourceServerScope_selectQuery f)"

definition PgResourceServerScope_Insert :: "nat \<Rightarrow> pg_entry list \<Rightarrow> pg_entry list" where
  "PgResourceServerScope_Insert m = track Added ResourceServerScopeEntityType (Pointer m)"

definition PgResourceServerScope_Update :: "nat \<Rightarrow> pg_entry list \<Rightarrow> pg_entry list" where
  "PgResourceServerScope_Update m = track Updated ResourceServerScopeEntityType (Pointer m)"

definition PgResourceServerScope_Delete :: "uuid \<Rightarrow> pg_entry list \<Rightarrow> pg_entry list" where
  "PgResourceServerScope_Delete i = track Deleted ResourceServerScopeEntityType (Identifier i)"

definition PgResourceServerScope_ExecuteInsert :: "'c sql_server \<Rightarrow> resource_server_scope \<Rightarrow> ('c, resource_server_scope) tx" where
  "PgResourceServerScope_ExecuteInsert S m =
     tx_lift (mapResourceServerScope m) (\<lambda>mapped.
       execute_insert S ''scanning row''
         \<lparr>ib_table = ''resource_server_scopes'',
          ib_columns = inserted_base @ [''virtual_server_id'', ''project_id'', ''resource_server_id'', ''scope'', ''name'', ''description''],
          ib_values = base_values mapped @
            [SqlUuid (pgrss_virtualServerId mapped), SqlUuid (pgrss_projectId mapped),
             SqlUuid (pgrss_resourceServerId mapped), SqlText (pgrss_scope mapped), SqlText (pgrss_name mapped),
             SqlText (pgrss_description mapped)]\<rparr>
         (\<lambda>xmin. m\<lparr>rss_base := SetVersion (VersionUint32 xmin) (rss_base m), rss_changes := ClearChanges (rss_changes m)\<rparr>))"

definition ResourceServerScope_assignment :: "postgresResourceServerScope \<Rightarrow> resource_server_scope_change \<Rightarrow> (string \<times> sql_value) option" where
  "ResourceServerScope_assignment mapped field =
     (case field of
        ResourceServerScopeChangeName \<Rightarrow> Some (''name'', SqlText (pgrss_name mapped))
      | ResourceServerScopeChangeDescription \<Rightarrow> Some (''description'', SqlText (pgrss_description mapped)))"

definition PgResourceServerScope_ExecuteUpdate :: "'c sql_server \<Rightarrow> resource_server_scope \<Rightarrow> ('c, resource_server_scope) tx" where
  "PgResourceServerScope_ExecuteUpdate S m =
     (if \<not> HasChanges (rss_changes m) then (\<lambda>c. (Inr m, c))
      else tx_lift (mapResourceServerScope m) (\<lambda>mapped.
        execute_update S (Wrap ''updating application'' (Named ErrVersionMismatch))
          (assignments (ResourceServerScope_assignment mapped) (GetChanges (rss_changes m))) ''resource_server_scopes'' (same_row mapped)
          (\<lambda>xmin. m\<lparr>rss_base := SetVersion (VersionUint32 xmin) (rss_base m), rss_changes := ClearChanges (rss_changes m)\<rparr>)))"

definition PgResourceServerScope_ExecuteDelete :: "'c sql_server \<Rightarrow> uuid \<Rightarrow> ('c, unit) tx" where
  "PgResourceServerScope_ExecuteDelete S i = execute_delete S ''executing sql'' ''resource_server_scopes'' i"

end
