(* ===== verification/PgRecords.thy ===== *)
theory PgRecords
  imports Sql Commands
begin

text \<open>
  The repositories of password rules, templates, files, user metadata, outbox messages, the audit log and role
  assignments on PostgreSQL.
\<close>

subsection \<open>PasswordRule (\<^verbatim>\<open>passwordrules.go\<close>)\<close>

record postgresPasswordRule = postgresBaseModel +
  pgpr_virtualServerId :: uuid
  pgpr_type :: string
  pgpr_details :: jtext

definition mapPasswordRule :: "password_rule \<Rightarrow> postgresPasswordRule go" where
  "mapPasswordRule m =
     go_bind (mapBase (pr_base m)) (\<lambda>b.
       Inr \<lparr>pb_id = pb_id b, pb_auditCreatedAt = pb_auditCreatedAt b, pb_auditUpdatedAt = pb_auditUpdatedAt b, pb_xmin = pb_xmin b,
            pgpr_virtualServerId = pr_virtualServerId m,
            pgpr_type = password_rule_type_String (pr_type m),
            pgpr_details = pr_details m\<rparr>)"

definition postgresPasswordRule_Map :: "postgresPasswordRule \<Rightarrow> password_rule go" where
  "postgresPasswordRule_Map r =
     Inr (NewPasswordRuleFromDB (postgresBaseModel_MapBase r) (pgpr_virtualServerId r) (PasswordRuleType (pgpr_type r)) (pgpr_details r))"

definition postgresPasswordRule_pointers :: "postgresPasswordRule dest list" where
  "postgresPasswordRule_pointers =
     base_pointers @
     [to_uuid (\<lambda>v r. r\<lparr>pgpr_virtualServerId := v\<rparr>),
      to_string (\<lambda>v r. r\<lparr>pgpr_type := v\<rparr>)]"

definition postgresPasswordRule_zero :: postgresPasswordRule where
  "postgresPasswordRule_zero =
     \<lparr>pb_id = uuid_Nil, pb_auditCreatedAt = time_zero, pb_auditUpdatedAt = time_zero, pb_xmin = 0,
      pgpr_virtualServerId = uuid_Nil,
      pgpr_type = [],
      pgpr_details = Plain []\<rparr>"

definition PgPasswordRule_selectQuery :: "password_rule_filter \<Rightarrow> select_builder go" where
  "PgPasswordRule_selectQuery f =
     Inr (when_set (prf_type f) (\<lambda>v. Equal ''type'' (SqlText (password_rule_type_String v))) (
       when_set (prf_virtualServerId f) (\<lambda>v. Equal ''virtual_server_id'' (SqlUuid v)) (
       Select_From (base_columns @ [''virtual_server_id'', ''type'', ''details'']) ''password_rules'')))"

definition PgPasswordRule_FirstOrNil :: "'c sql_server \<Rightarrow> password_rule_filter \<Rightarrow> 'c \<Rightarrow> password_rule option go" where
  "PgPasswordRule_FirstOrNil S f =
     query_first S postgresPasswordRule_pointers postgresPasswordRule_zero postgresPasswordRule_Map (PgPasswordRule_selectQuery f)"

definition PgPasswordRule_FirstOrErr :: "'c sql_server \<Rightarrow> password_rule_filter \<Rightarrow> 'c \<Rightarrow> password_rule go" where
  "PgPasswordRule_FirstOrErr S f c = or_err ErrPasswordRuleNotFound (PgPasswordRule_FirstOrNil S f c)"

definition PgPasswordRule_List :: "'c sql_server \<Rightarrow> password_rule_filter \<Rightarrow> 'c \<Rightarrow> password_rule list go" where
  "PgPasswordRule_List S f =
     query_list S ''querying db'' postgresPasswordRule_pointers postgresPasswordRule_zero postgresPasswordRule_Map (PgPasswordRule_selectQuery f)"

definition PgPasswordRule_Insert :: "nat \<Rightarrow> pg_entry list \<Rightarrow> pg_entry list" where
  "PgPasswordRule_Insert m = track Added PasswordRuleEntityType (Pointer m)"

definition PgPasswordRule_Update :: "nat \<Rightarrow> pg_entry list \<Rightarrow> pg_entry list" where
  "PgPasswordRule_Update m = track Updated PasswordRuleEntityType (Pointer m)"

definition PgPasswordRule_Delete :: "uuid \<Rightarrow> pg_entry list \<Rightarrow> pg_entry list" where
  "PgPasswordRule_Delete i = track Deleted PasswordRuleEntityType (Identifier i)"

definition PgPasswordRule_ExecuteInsert :: "'c sql_server \<Rightarrow> password_rule \<Rightarrow> ('c, password_rule) tx" where
  "PgPasswordRule_ExecuteInsert S m =
     tx_lift (mapPasswordRule m) (\<lambda>mapped.
       execute_insert S ''scanning row''
         \<lparr>ib_table = ''password_rules'',
          ib_columns = inserted_base @ [''virtual_server_id'', ''type'', ''details''],
          ib_values = base_values mapped @
            [SqlUuid (pgpr_virtualServerId mapped), SqlText (pgpr_type mapped), SqlJson (pgpr_details mapped)]\<rparr>
         (\<lambda>xmin. m\<lparr>pr_base := SetVersion (VersionUint32 xmin) (pr_base m), pr_changes := ClearChanges (pr_changes m)\<rparr>))"

definition PasswordRule_assignment :: "postgresPasswordRule \<Rightarrow> password_rule_change \<Rightarrow> (string \<times> sql_value) option" where
  "PasswordRule_assignment mapped field =
     (case field of
        PasswordRuleChangeDetails \<Rightarrow> Some (''details'', SqlJson (pgpr_details mapped)))"

definition PgPasswordRule_ExecuteUpdate :: "'c sql_server \<Rightarrow> password_rule \<Rightarrow> ('c, password_rule) tx" where
  "PgPasswordRule_ExecuteUpdate S m =
     (if \<not> HasChanges (pr_changes m) then (\<lambda>c. (Inr m, c))
      else tx_lift (mapPasswordRule m) (\<lambda>mapped.
        execute_update S (Wrap ''scanning row'' ErrNoRows)
          (assignments (PasswordRule_assignment mapped) (GetChanges (pr_changes m))) ''password_rules'' (same_row mapped)
          (\<lambda>xmin. m\<lparr>pr_base := SetVersion (VersionUint32 xmin) (pr_base m), pr_changes := ClearChanges (pr_changes m)\<rparr>)))"

definition PgPasswordRule_ExecuteDelete :: "'c sql_server \<Rightarrow> uuid \<Rightarrow> ('c, unit) tx" where
  "PgPasswordRule_ExecuteDelete S i = execute_delete S ''executing delete'' ''password_rules'' i"

subsection \<open>Template (\<^verbatim>\<open>templates.go\<close>)\<close>

record postgresTemplate = postgresBaseModel +
  pgte_virtualServerId :: uuid
  pgte_fileId :: uuid
  pgte_type :: string

definition mapTemplate :: "template \<Rightarrow> postgresTemplate go" where
  "mapTemplate m =
     go_bind (mapBase (te_base m)) (\<lambda>b.
       Inr \<lparr>pb_id = pb_id b, pb_auditCreatedAt = pb_auditCreatedAt b, pb_auditUpdatedAt = pb_auditUpdatedAt b, pb_xmin = pb_xmin b,
            pgte_virtualServerId = te_virtualServerId m,
            pgte_fileId = te_fileId m,
            pgte_type = te_templateType m\<rparr>)"

definition postgresTemplate_Map :: "postgresTemplate \<Rightarrow> template go" where
  "postgresTemplate_Map r =
     Inr (NewTemplateFromDB (postgresBaseModel_MapBase r) (pgte_virtualServerId r) (pgte_fileId r) (pgte_type r))"

definition postgresTemplate_pointers :: "postgresTemplate dest list" where
  "postgresTemplate_pointers =
     base_pointers @
     [to_uuid (\<lambda>v r. r\<lparr>pgte_virtualServerId := v\<rparr>),
      to_uuid (\<lambda>v r. r\<lparr>pgte_fileId := v\<rparr>),
      to_string (\<lambda>v r. r\<lparr>pgte_type := v\<rparr>)]"

definition postgresTemplate_zero :: postgresTemplate where
  "postgresTemplate_zero =
     \<lparr>pb_id = uuid_Nil, pb_auditCreatedAt = time_zero, pb_auditUpdatedAt = time_zero, pb_xmin = 0,
      pgte_virtualServerId = uuid_Nil,
      pgte_fileId = uuid_Nil,
      pgte_type = []\<rparr>"

definition PgTemplate_selectQuery :: "template_filter \<Rightarrow> select_builder go" where
  "PgTemplate_selectQuery f =
     go_bind (search_in [''type''] (tef_searchFilter f)
      (when_set (tef_templateType f) (\<lambda>v. Equal ''type'' (SqlText v)) (
       when_set (tef_virtualServerId f) (\<lambda>v. Equal ''virtual_server_id'' (SqlUuid v)) (
       Select_From (base_columns @ [''virtual_server_id'', ''file_id'', ''type'']) ''templates'')))) (\<lambda>s. Inr (
       paginate (tef_paging f) (
       order_by (tef_order f) (
       s))))"

definition PgTemplate_FirstOrNil :: "'c sql_server \<Rightarrow> template_filter \<Rightarrow> 'c \<Rightarrow> template option go" where
  "PgTemplate_FirstOrNil S f =
     query_first S postgresTemplate_pointers postgresTemplate_zero postgresTemplate_Map (PgTemplate_selectQuery f)"

definition PgTemplate_FirstOrErr :: "'c sql_server \<Rightarrow> template_filter \<Rightarrow> 'c \<Rightarrow> template go" where
  "PgTemplate_FirstOrErr S f c = or_err ErrTemplateNotFound (PgTemplate_FirstOrNil S f c)"

definition PgTemplate_List :: "'c sql_server \<Rightarrow> template_filter \<Rightarrow> 'c \<Rightarrow> (template list \<times> int) go" where
  "PgTemplate_List S f =
     query_counted S ''querying rows'' postgresTemplate_pointers postgresTemplate_zero postgresTemplate_Map (PgTemplate_selectQuery f)"

definition PgTemplate_Insert :: "nat \<Rightarrow> pg_entry list \<Rightarrow> pg_entry list" where
  "PgTemplate_Insert m = track Added TemplateEntityType (Pointer m)"

definition PgTemplate_ExecuteInsert :: "'c sql_server \<Rightarrow> template \<Rightarrow> ('c, template) tx" where
  "PgTemplate_ExecuteInsert S m =
     tx_lift (mapTemplate m) (\<lambda>mapped.
       execute_insert S ''scanning row''
         \<lparr>ib_table = ''templates'',
          ib_columns = inserted_base @ [''virtual_server_id'', ''file_id'', ''type''],
          ib_values = base_values mapped @
            [SqlUuid (pgte_virtualServerId mapped), SqlUuid (pgte_fileId mapped), SqlText (pgte_type mapped)]\<rparr>
         (\<lambda>xmin. m\<lparr>te_base := SetVersion (VersionUint32 xmin) (te_base m)\<rparr>))"

subsection \<open>File (\<^verbatim>\<open>files.go\<close>)\<close>

record postgresFile = postgresBaseModel +
  pgfi_name :: string
  pgfi_mimeType :: string
  pgfi_content :: string

definition mapFile :: "file_entity \<Rightarrow> postgresFile go" where
  "mapFile m =
     go_bind (mapBase (fi_base m)) (\<lambda>b.
       Inr \<lparr>pb_id = pb_id b, pb_auditCreatedAt = pb_auditCreatedAt b, pb_auditUpdatedAt = pb_auditUpdatedAt b, pb_xmin = pb_xmin b,
            pgfi_name = fi_name m,
            pgfi_mimeType = fi_mimeType m,
            pgfi_content = fi_content m\<rparr>)"

definition postgresFile_Map :: "postgresFile \<Rightarrow> file_entity go" where
  "postgresFile_Map r =
     Inr (NewFileFromDB (postgresBaseModel_MapBase r) (pgfi_name r) (pgfi_mimeType r) (pgfi_content r))"

definition postgresFile_pointers :: "postgresFile dest list" where
  "postgresFile_pointers =
     base_pointers @
     [to_string (\<lambda>v r. r\<lparr>pgfi_name := v\<rparr>),
      to_string (\<lambda>v r. r\<lparr>pgfi_mimeType := v\<rparr>),
      to_bytes (\<lambda>v r. r\<lparr>pgfi_content := v\<rparr>)]"

definition postgresFile_zero :: postgresFile where
  "postgresFile_zero =
     \<lparr>pb_id = uuid_Nil, pb_auditCreatedAt = time_zero, pb_auditUpdatedAt = time_zero, pb_xmin = 0,
      pgfi_name = [],
      pgfi_mimeType = [],
      pgfi_content = []\<rparr>"

definition PgFile_selectQuery :: "file_entity_filter \<Rightarrow> select_builder go" where
  "PgFile_selectQuery f =
     Inr (when_set (fif_id f) (\<lambda>v. Equal ''id'' (SqlUuid v)) (
       Select_From (base_columns @ [''name'', ''mime_type'', ''content'']) ''files''))"

definition PgFile_FirstOrNil :: "'c sql_server \<Rightarrow> file_entity_filter \<Rightarrow> 'c \<Rightarrow> file_entity option go" where
  "PgFile_FirstOrNil S f =
     query_first S postgresFile_pointers postgresFile_zero postgresFile_Map (PgFile_selectQuery f)"

definition PgFile_FirstOrErr :: "'c sql_server \<Rightarrow> file_entity_filter \<Rightarrow> 'c \<Rightarrow> file_entity go" where
  "PgFile_FirstOrErr S f c = or_err ErrFileNotFoud (PgFile_FirstOrNil S f c)"

definition PgFile_Insert :: "nat \<Rightarrow> pg_entry list \<Rightarrow> pg_entry list" where
  "PgFile_Insert m = track Added FileEntityType (Pointer m)"

definition PgFile_ExecuteInsert :: "'c sql_server \<Rightarrow> file_entity \<Rightarrow> ('c, file_entity) tx" where
  "PgFile_ExecuteInsert S m =
     tx_lift (mapFile m) (\<lambda>mapped.
       execute_insert S ''scanning row''
         \<lparr>ib_table = ''files'',
          ib_columns = inserted_base @ [''name'', ''mime_type'', ''content''],
          ib_values = base_values mapped @
            [SqlText (pgfi_name mapped), SqlText (pgfi_mimeType mapped), SqlBytes (pgfi_content mapped)]\<rparr>
         (\<lambda>xmin. m\<lparr>fi_base := SetVersion (VersionUint32 xmin) (fi_base m)\<rparr>))"

subsection \<open>ApplicationUserMetadata (\<^verbatim>\<open>applicationusermetadata.go\<close>)\<close>

record postgresApplicationUserMetadata = postgresBaseModel +
  pgaum_applicationId :: uuid
  pgaum_userId :: uuid
  pgaum_metadata :: jtext

definition mapApplicationUserMetadata :: "application_user_metadata \<Rightarrow> postgresApplicationUserMetadata go" where
  "mapApplicationUserMetadata m =
     go_bind (mapBase (aum_base m)) (\<lambda>b.
       Inr \<lparr>pb_id = pb_id b, pb_auditCreatedAt = pb_auditCreatedAt b, pb_auditUpdatedAt = pb_auditUpdatedAt b, pb_xmin = pb_xmin b,
            pgaum_applicationId = aum_applicationId m,
            pgaum_userId = aum_userId m,
            pgaum_metadata = aum_metadata m\<rparr>)"

definition postgresApplicationUserMetadata_Map :: "postgresApplicationUserMetadata \<Rightarrow> application_user_metadata go" where
  "postgresApplicationUserMetadata_Map r =
     Inr (NewApplicationUserMetadataFromDB (postgresBaseModel_MapBase r) (pgaum_applicationId r) (pgaum_userId r) (pgaum_metadata r))"

definition postgresApplicationUserMetadata_pointers :: "postgresApplicationUserMetadata dest list" where
  "postgresApplicationUserMetadata_pointers =
     base_pointers @
     [to_uuid (\<lambda>v r. r\<lparr>pgaum_applicationId := v\<rparr>),
      to_uuid (\<lambda>v r. r\<lparr>pgaum_userId := v\<rparr>),
      to_json_string (\<lambda>v r. r\<lparr>pgaum_metadata := v\<rparr>)]"

definition postgresApplicationUserMetadata_zero :: postgresApplicationUserMetadata where
  "postgresApplicationUserMetadata_zero =
     \<lparr>pb_id = uuid_Nil, pb_auditCreatedAt = time_zero, pb_auditUpdatedAt = time_zero, pb_xmin = 0,
      pgaum_applicationId = uuid_Nil,
      pgaum_userId = uuid_Nil,
      pgaum_metadata = Plain []\<rparr>"

definition PgApplicationUserMetadata_selectQuery :: "application_user_metadata_filter \<Rightarrow> select_builder go" where
  "PgApplicationUserMetadata_selectQuery f =
     Inr (when_set (aumf_userId f) (\<lambda>v. Equal ''user_id'' (SqlUuid v)) (
       when_set (aumf_applicationIds f) (\<lambda>v. InValues ''application_id'' [GoSlice v]) (
       when_set (aumf_applicationId f) (\<lambda>v. Equal ''application_id'' (SqlUuid v)) (
       Select_From (base_columns @ [''application_id'', ''user_id'', ''metadata'']) ''application_user_metadata''))))"

definition PgApplicationUserMetadata_FirstOrNil :: "'c sql_server \<Rightarrow> application_user_metadata_filter \<Rightarrow> 'c \<Rightarrow> application_user_metadata option go" where
  "PgApplicationUserMetadata_FirstOrNil S f =
     query_first S postgresApplicationUserMetadata_pointers postgresApplicationUserMetadata_zero postgresApplicationUserMetadata_Map (PgApplicationUserMetadata_selectQuery f)"

definition PgApplicationUserMetadata_FirstOrErr :: "'c sql_server \<Rightarrow> application_user_metadata_filter \<Rightarrow> 'c \<Rightarrow> application_user_metadata go" where
  "PgApplicationUserMetadata_FirstOrErr S f c = or_err ErrUserApplicationMetadataNotFound (PgApplicationUserMetadata_FirstOrNil S f c)"

definition PgApplicationUserMetadata_List :: "'c sql_server \<Rightarrow> application_user_metadata_filter \<Rightarrow> 'c \<Rightarrow> (application_user_metadata list \<times> int) go" where
  "PgApplicationUserMetadata_List S f =
     query_counted S ''querying db'' postgresApplicationUserMetadata_pointers postgresApplicationUserMetadata_zero postgresApplicationUserMetadata_Map (PgApplicationUserMetadata_selectQuery f)"

definition PgApplicationUserMetadata_Insert :: "nat \<Rightarrow> pg_entry list \<Rightarrow> pg_entry list" where
  "PgApplicationUserMetadata_Insert m = track Added ApplicationUserMetadataEntityType (Pointer m)"

definition PgApplicationUserMetadata_Update :: "nat \<Rightarrow> pg_entry list \<Rightarrow> pg_entry list" where
  "PgApplicationUserMetadata_Update m = track Updated ApplicationUserMetadataEntityType (Pointer m)"

definition PgApplicationUserMetadata_ExecuteInsert :: "'c sql_server \<Rightarrow> application_user_metadata \<Rightarrow> ('c, application_user_metadata) tx" where
  "PgApplicationUserMetadata_ExecuteInsert S m =
     tx_lift (mapApplicationUserMetadata m) (\<lambda>mapped.
       execute_insert S ''scanning row''
         \<lparr>ib_table = ''application_user_metadata'',
          ib_columns = inserted_base @ [''application_id'', ''user_id'', ''metadata''],
          ib_values = base_values mapped @
            [SqlUuid (pgaum_applicationId mapped), SqlUuid (pgaum_userId mapped), SqlJson (pgaum_metadata mapped)]\<rparr>
         (\<lambda>xmin. m\<lparr>aum_base := SetVersion (VersionUint32 xmin) (aum_base m), aum_changes := ClearChanges (aum_changes m)\<rparr>))"

definition ApplicationUserMetadata_assignment :: "postgresApplicationUserMetadata \<Rightarrow> application_user_metadata_change \<Rightarrow> (string \<times> sql_value) option" where
  "ApplicationUserMetadata_assignment mapped field =
     (case field of
        ApplicationUserMetadataChangeMetadata \<Rightarrow> Some (''metadata'', SqlJson (pgaum_metadata mapped)))"

definition PgApplicationUserMetadata_ExecuteUpdate :: "'c sql_server \<Rightarrow> application_user_metadata \<Rightarrow> ('c, application_user_metadata) tx" where
  "PgApplicationUserMetadata_ExecuteUpdate S m =
     (if \<not> HasChanges (aum_changes m) then (\<lambda>c. (Inr m, c))
      else tx_lift (mapApplicationUserMetadata m) (\<lambda>mapped.
        execute_update S (Wrap ''updating application'' (Named ErrVersionMismatch))
          (assignments (ApplicationUserMetadata_assignment mapped) (GetChanges (aum_changes m))) ''application_user_metadata'' (same_row mapped)
          (\<lambda>xmin. m\<lparr>aum_base := SetVersion (VersionUint32 xmin) (aum_base m), aum_changes := ClearChanges (aum_changes m)\<rparr>)))"

subsection \<open>OutboxMessage (\<^verbatim>\<open>outboxmessages.go\<close>)\<close>

record postgresOutboxMessage = postgresBaseModel +
  pgob_type :: string
  pgob_details :: jtext

definition mapOutboxMessage :: "outbox_message \<Rightarrow> postgresOutboxMessage go" where
  "mapOutboxMessage m =
     go_bind (mapBase (ob_base m)) (\<lambda>b.
       Inr \<lparr>pb_id = pb_id b, pb_auditCreatedAt = pb_auditCreatedAt b, pb_auditUpdatedAt = pb_auditUpdatedAt b, pb_xmin = pb_xmin b,
            pgob_type = ob_type m,
            pgob_details = ob_details m\<rparr>)"

definition postgresOutboxMessage_Map :: "postgresOutboxMessage \<Rightarrow> outbox_message go" where
  "postgresOutboxMessage_Map r =
     Inr (NewOutboxMessageFromDB (postgresBaseModel_MapBase r) (pgob_type r) (pgob_details r))"

definition postgresOutboxMessage_pointers :: "postgresOutboxMessage dest list" where
  "postgresOutboxMessage_pointers =
     base_pointers @
     [to_string (\<lambda>v r. r\<lparr>pgob_type := v\<rparr>),
      to_json_bytes (\<lambda>v r. r\<lparr>pgob_details := v\<rparr>)]"

definition postgresOutboxMessage_zero :: postgresOutboxMessage where
  "postgresOutboxMessage_zero =
     \<lparr>pb_id = uuid_Nil, pb_auditCreatedAt = time_zero, pb_auditUpdatedAt = time_zero, pb_xmin = 0,
      pgob_type = [],
      pgob_details = Plain []\<rparr>"

definition PgOutboxMessage_selectQuery :: "outbox_message_filter \<Rightarrow> select_builder go" where
  "PgOutboxMessage_selectQuery f =
     Inr (when_set (obf_id f) (\<lambda>v. Equal ''id'' (SqlUuid v)) (
       Select_From (base_columns @ [''type'', ''details'']) ''outbox_messages''))"

definition PgOutboxMessage_List :: "'c sql_server \<Rightarrow> outbox_message_filter \<Rightarrow> 'c \<Rightarrow> outbox_message list go" where
  "PgOutboxMessage_List S f =
     query_list S ''querying db'' postgresOutboxMessage_pointers postgresOutboxMessage_zero postgresOutboxMessage_Map (PgOutboxMessage_selectQuery f)"

definition PgOutboxMessage_Insert :: "nat \<Rightarrow> pg_entry list \<Rightarrow> pg_entry list" where
  "PgOutboxMessage_Insert m = track Added OutboxMessageEntityType (Pointer m)"

definition PgOutboxMessage_Delete :: "uuid \<Rightarrow> pg_entry list \<Rightarrow> pg_entry list" where
  "PgOutboxMessage_Delete i = track Deleted OutboxMessageEntityType (Identifier i)"

definition PgOutboxMessage_ExecuteInsert :: "'c sql_server \<Rightarrow> outbox_message \<Rightarrow> ('c, outbox_message) tx" where
  "PgOutboxMessage_ExecuteInsert S m =
     tx_lift (mapOutboxMessage m) (\<lambda>mapped.
       execute_insert S ''scanning row''
         \<lparr>ib_table = ''outbox_messages'',
          ib_columns = inserted_base @ [''type'', ''details''],
          ib_values = base_values mapped @
            [SqlText (pgob_type mapped), SqlJson (pgob_details mapped)]\<rparr>
         (\<lambda>xmin. m\<lparr>ob_base := SetVersion (VersionUint32 xmin) (ob_base m)\<rparr>))"

definition PgOutboxMessage_ExecuteDelete :: "'c sql_server \<Rightarrow> uuid \<Rightarrow> ('c, unit) tx" where
  "PgOutboxMessage_ExecuteDelete S i = execute_delete S ''executing delete'' ''outbox_messages'' i"

subsection \<open>AuditLog (\<^verbatim>\<open>auditlogs.go\<close>)\<close>

record postgresAuditLog = postgresBaseModel +
  pgal_virtualServerId :: uuid
  pgal_userId :: "uuid option"
  pgal_requestType :: string
  pgal_request :: jtext
  pgal_response :: "jtext null_string"
  pgal_allowed :: bool
  pgal_allowReasonType :: "string null_string"
  pgal_allowReason :: "jtext option"

definition mapAuditLog :: "audit_log \<Rightarrow> postgresAuditLog go" where
  "mapAuditLog m =
     go_bind (mapBase (al_base m)) (\<lambda>b.
       Inr \<lparr>pb_id = pb_id b, pb_auditCreatedAt = pb_auditCreatedAt b, pb_auditUpdatedAt = pb_auditUpdatedAt b, pb_xmin = pb_xmin b,
            pgal_virtualServerId = al_virtualServerId m,
            pgal_userId = al_userId m,
            pgal_requestType = al_requestType m,
            pgal_request = al_request m,
            pgal_response = WrapStringPointer (Plain []) (al_response m),
            pgal_allowed = al_allowed m,
            pgal_allowReasonType = WrapStringPointer [] (al_allowReasonType m),
            pgal_allowReason = al_allowReason m\<rparr>)"

definition postgresAuditLog_Map :: "postgresAuditLog \<Rightarrow> audit_log go" where
  "postgresAuditLog_Map r =
     Inr (NewAuditLogFromDB (postgresBaseModel_MapBase r) (pgal_virtualServerId r) (pgal_userId r) (pgal_requestType r)
       (pgal_request r) (UnwrapNullString (pgal_response r)) (pgal_allowed r)
       (UnwrapNullString (pgal_allowReasonType r)) (pgal_allowReason r))"

definition postgresAuditLog_pointers :: "postgresAuditLog dest list" where
  "postgresAuditLog_pointers =
     base_pointers @
     [to_uuid (\<lambda>v r. r\<lparr>pgal_virtualServerId := v\<rparr>),
      to_uuid_pointer (\<lambda>v r. r\<lparr>pgal_userId := v\<rparr>),
      to_string (\<lambda>v r. r\<lparr>pgal_requestType := v\<rparr>),
      to_json_string (\<lambda>v r. r\<lparr>pgal_request := v\<rparr>),
      to_null_json (\<lambda>v r. r\<lparr>pgal_response := v\<rparr>),
      to_bool (\<lambda>v r. r\<lparr>pgal_allowed := v\<rparr>),
      to_null_string (\<lambda>v r. r\<lparr>pgal_allowReasonType := v\<rparr>),
      to_json_pointer (\<lambda>v r. r\<lparr>pgal_allowReason := v\<rparr>)]"

definition postgresAuditLog_zero :: postgresAuditLog where
  "postgresAuditLog_zero =
     \<lparr>pb_id = uuid_Nil, pb_auditCreatedAt = time_zero, pb_auditUpdatedAt = time_zero, pb_xmin = 0,
      pgal_virtualServerId = uuid_Nil,
      pgal_userId = None,
      pgal_requestType = [],
      pgal_request = Plain [],
      pgal_response = NullString (Plain []) False,
      pgal_allowed = False,
      pgal_allowReasonType = NullString [] False,
      pgal_allowReason = None\<rparr>"

definition PgAuditLog_selectQuery :: "audit_log_filter \<Rightarrow> select_builder go" where
  "PgAuditLog_selectQuery f =
     Inr (order_by (alf_order f) (
       paginate (alf_paging f) (
       when_set (alf_userId f) (\<lambda>v. Equal ''user_id'' (SqlUuid v)) (
       when_set (alf_virtualServerId f) (\<lambda>v. Equal ''virtual_server_id'' (SqlUuid v)) (
       Select_From (base_columns @ [''virtual_server_id'', ''user_id'', ''request_type'', ''request'', ''response'', ''allowed'',
         ''allow_reason_type'', ''allow_reason'']) ''audit_logs'')))))"

definition PgAuditLog_List :: "'c sql_server \<Rightarrow> audit_log_filter \<Rightarrow> 'c \<Rightarrow> (audit_log list \<times> int) go" where
  "PgAuditLog_List S f =
     query_counted S ''querying db'' postgresAuditLog_pointers postgresAuditLog_zero postgresAuditLog_Map (PgAuditLog_selectQuery f)"

definition PgAuditLog_Insert :: "nat \<Rightarrow> pg_entry list \<Rightarrow> pg_entry list" where
  "PgAuditLog_Insert m = track Added AuditLogEntityType (Pointer m)"

definition PgAuditLog_ExecuteInsert :: "'c sql_server \<Rightarrow> audit_log \<Rightarrow> ('c, audit_log) tx" where
  "PgAuditLog_ExecuteInsert S m =
     tx_lift (mapAuditLog m) (\<lambda>mapped.
       execute_insert S ''scanning row''
         \<lparr>ib_table = ''audit_logs'',
          ib_columns = inserted_base @ [''virtual_server_id'', ''user_id'', ''request_type'', ''request'', ''response'', ''allowed'',
            ''allow_reason_type'', ''allow_reason''],
          ib_values = base_values mapped @
            [SqlUuid (pgal_virtualServerId mapped), or_null SqlUuid (pgal_userId mapped),
             SqlText (pgal_requestType mapped), SqlJson (pgal_request mapped), null_json (pgal_response mapped),
             SqlBool (pgal_allowed mapped), null_text (pgal_allowReasonType mapped),
             or_null SqlJson (pgal_allowReason mapped)]\<rparr>
         (\<lambda>xmin. m\<lparr>al_base := SetVersion (VersionUint32 xmin) (al_base m)\<rparr>))"

subsection \<open>UserRoleAssignment (\<^verbatim>\<open>userroleassignments.go\<close>)\<close>

record postgresUserRoleAssignment = postgresBaseModel +
  pgura_userId :: uuid
  pgura_roleId :: uuid
  pgura_groupId :: "uuid option"
  pgura_userInfo :: "ura_user_info option"
  pgura_roleInfo :: "ura_role_info option"

definition mapUserRoleAssignment :: "user_role_assignment \<Rightarrow> postgresUserRoleAssignment go" where
  "mapUserRoleAssignment m =
     go_bind (mapBase (ura_base m)) (\<lambda>b.
       Inr \<lparr>pb_id = pb_id b, pb_auditCreatedAt = pb_auditCreatedAt b, pb_auditUpdatedAt = pb_auditUpdatedAt b, pb_xmin = pb_xmin b,
            pgura_userId = ura_userId m,
            pgura_roleId = ura_roleId m,
            pgura_groupId = ura_groupId m,
            pgura_userInfo = None,
            pgura_roleInfo = None\<rparr>)"

definition postgresUserRoleAssignment_Map :: "postgresUserRoleAssignment \<Rightarrow> user_role_assignment go" where
  "postgresUserRoleAssignment_Map r =
     Inr (NewUserRoleAssignmentFromDB (postgresBaseModel_MapBase r) (pgura_userId r) (pgura_roleId r) (pgura_groupId r)
       (pgura_userInfo r) (pgura_roleInfo r))"

text \<open>The records about the user and the role are made before the row is read.\<close>

definition to_user_info :: "(string \<Rightarrow> ura_user_info \<Rightarrow> ura_user_info) \<Rightarrow> postgresUserRoleAssignment dest" where
  "to_user_info field = to_string (\<lambda>v r. r\<lparr>pgura_userInfo := map_option (field v) (pgura_userInfo r)\<rparr>)"

definition to_role_info :: "(string \<Rightarrow> ura_role_info \<Rightarrow> ura_role_info) \<Rightarrow> postgresUserRoleAssignment dest" where
  "to_role_info field = to_string (\<lambda>v r. r\<lparr>pgura_roleInfo := map_option (field v) (pgura_roleInfo r)\<rparr>)"

definition postgresUserRoleAssignment_pointers :: "user_role_assignment_filter \<Rightarrow> postgresUserRoleAssignment dest list" where
  "postgresUserRoleAssignment_pointers f =
     base_pointers @
     [to_uuid (\<lambda>v r. r\<lparr>pgura_userId := v\<rparr>),
      to_uuid (\<lambda>v r. r\<lparr>pgura_roleId := v\<rparr>),
      to_uuid_pointer (\<lambda>v r. r\<lparr>pgura_groupId := v\<rparr>)] @
     (if uraf_includeUser f
      then [to_user_info (\<lambda>v i. i\<lparr>uui_Username := v\<rparr>), to_user_info (\<lambda>v i. i\<lparr>uui_DisplayName := v\<rparr>)] else []) @
     (if uraf_includeRole f
      then [to_role_info (\<lambda>v i. i\<lparr>uri_Name := v\<rparr>), to_role_info (\<lambda>v i. i\<lparr>uri_ProjectSlug := v\<rparr>)] else [])"

definition postgresUserRoleAssignment_zero :: "user_role_assignment_filter \<Rightarrow> postgresUserRoleAssignment" where
  "postgresUserRoleAssignment_zero f =
     \<lparr>pb_id = uuid_Nil, pb_auditCreatedAt = time_zero, pb_auditUpdatedAt = time_zero, pb_xmin = 0,
      pgura_userId = uuid_Nil, pgura_roleId = uuid_Nil, pgura_groupId = None,
      pgura_userInfo = (if uraf_includeUser f then Some \<lparr>uui_Username = [], uui_DisplayName = []\<rparr> else None),
      pgura_roleInfo = (if uraf_includeRole f then Some \<lparr>uri_ProjectSlug = [], uri_Name = []\<rparr> else None)\<rparr>"

definition PgUserRoleAssignment_selectQuery :: "user_role_assignment_filter \<Rightarrow> select_builder go" where
  "PgUserRoleAssignment_selectQuery f =
     Inr ((\<lambda>s. if uraf_includeRole f then SelectMore [''r.name'', ''(select slug from projects where id = r.project_id) as project_slug'']
         (Join_table ''roles as r'' ''r.id = ura.role_id'' s) else s) (
       (\<lambda>s. if uraf_includeUser f then SelectMore [''u.username'', ''u.display_name'']
         (Join_table ''users as u'' ''u.id = ura.user_id'' s) else s) (
       when_set (uraf_groupId f) (\<lambda>v. Equal ''ura.group_id'' (SqlUuid v)) (
       when_set (uraf_roleId f) (\<lambda>v. Equal ''ura.role_id'' (SqlUuid v)) (
       when_set (uraf_userId f) (\<lambda>v. Equal ''ura.user_id'' (SqlUuid v)) (
       Select_From ([''ura.id'', ''ura.audit_created_at'', ''ura.audit_updated_at'', ''ura.xmin'', ''ura.user_id'',
         ''ura.role_id'', ''ura.group_id'']) ''user_role_assignments as ura''))))))"

definition PgUserRoleAssignment_List :: "'c sql_server \<Rightarrow> user_role_assignment_filter \<Rightarrow> 'c \<Rightarrow> (user_role_assignment list \<times> int) go" where
  "PgUserRoleAssignment_List S f =
     query_counted S ''querying db'' (postgresUserRoleAssignment_pointers f) (postgresUserRoleAssignment_zero f) postgresUserRoleAssignment_Map (PgUserRoleAssignment_selectQuery f)"

definition PgUserRoleAssignment_Insert :: "nat \<Rightarrow> pg_entry list \<Rightarrow> pg_entry list" where
  "PgUserRoleAssignment_Insert m = track Added UserRoleAssignmentEntityType (Pointer m)"

definition PgUserRoleAssignment_ExecuteInsert :: "'c sql_server \<Rightarrow> user_role_assignment \<Rightarrow> ('c, user_role_assignment) tx" where
  "PgUserRoleAssignment_ExecuteInsert S m =
     tx_lift (mapUserRoleAssignment m) (\<lambda>mapped.
       execute_insert S ''scanning row''
         \<lparr>ib_table = ''user_role_assignments'',
          ib_columns = inserted_base @ [''user_id'', ''role_id'', ''group_id''],
          ib_values = base_values mapped @
            [SqlUuid (pgura_userId mapped), SqlUuid (pgura_roleId mapped), or_null SqlUuid (pgura_groupId mapped)]\<rparr>
         (\<lambda>xmin. m\<lparr>ura_base := SetVersion (VersionUint32 xmin) (ura_base m)\<rparr>))"

end
