(* ===== verification/PgContext.thy ===== *)
theory PgContext
  imports PgUsers PgProjects PgRecords
begin

text \<open>
  The database context on PostgreSQL (\<^verbatim>\<open>internal/database/postgres/context.go\<close>). An entry of its tracker keeps the
  pointer to the entity, so \<^verbatim>\<open>SaveChanges\<close> writes the entity as it is at that moment, and the version that it gets
  is seen by the later entries of the same pointer; \<open>heap\<close> is the part of the memory that holds entities.
\<close>

type_synonym heap = "nat \<Rightarrow> item option"

record pg_context =
  pgc_tracker :: "pg_entry list"
  pgc_virtualServers :: "virtual_server_cache option" \<comment> \<open>the repository of virtual servers, once it is made\<close>

definition Pg_newContext :: pg_context where
  "Pg_newContext = \<lparr>pgc_tracker = [], pgc_virtualServers = None\<rparr>"

definition Context_VirtualServers :: "pg_context \<Rightarrow> virtual_server_cache \<times> pg_context" where
  "Context_VirtualServers ctx =
     (case pgc_virtualServers ctx of
        Some r \<Rightarrow> (r, ctx)
      | None \<Rightarrow> ([], ctx\<lparr>pgc_virtualServers := Some []\<rparr>))"

type_synonym 'c apply_change = "heap \<Rightarrow> 'c \<Rightarrow> unit go \<times> heap \<times> 'c"

text \<open>
  \<^verbatim>\<open>ch.GetItem().(*repositories.X)\<close> and the write of the entity it points to; \<^verbatim>\<open>ch.GetItem().(uuid.UUID)\<close> and the
  delete.
\<close>

definition at_pointer ::
  "(item \<Rightarrow> 'e option) \<Rightarrow> ('e \<Rightarrow> item) \<Rightarrow> ('e \<Rightarrow> ('c, 'e) tx) \<Rightarrow> pg_item \<Rightarrow> 'c apply_change" where
  "at_pointer asT mk exec it h c =
     (case it of
        Identifier _ \<Rightarrow> (Inl (Panic ''interface conversion''), h, c)
      | Pointer p \<Rightarrow>
          (case Option.bind (h p) asT of
             None \<Rightarrow> (Inl (Panic ''interface conversion''), h, c)
           | Some entity \<Rightarrow>
               (case exec entity c of
                  (Inl e, c) \<Rightarrow> (Inl e, h, c)
                | (Inr entity, c) \<Rightarrow> (Inr (), h(p \<mapsto> mk entity), c))))"

definition at_identifier :: "(uuid \<Rightarrow> ('c, unit) tx) \<Rightarrow> pg_item \<Rightarrow> 'c apply_change" where
  "at_identifier exec it h c =
     (case it of
        Pointer _ \<Rightarrow> (Inl (Panic ''interface conversion''), h, c)
      | Identifier i \<Rightarrow> (case exec i c of (r, c) \<Rightarrow> (r, h, c)))"

definition not_supported :: "'c apply_change" where
  "not_supported h c = (unsupported, h, c)"

definition Pg_applyApplicationChange :: "'c sql_server \<Rightarrow> pg_entry \<Rightarrow> 'c apply_change" where
  "Pg_applyApplicationChange S ch =
     (case pe_changeType ch of
        Added \<Rightarrow> at_pointer as_Application ItemApplication (PgApplication_ExecuteInsert S) (pe_item ch)
      | Updated \<Rightarrow> at_pointer as_Application ItemApplication (PgApplication_ExecuteUpdate S) (pe_item ch)
      | Deleted \<Rightarrow> at_identifier (PgApplication_ExecuteDelete S) (pe_item ch)
      | _ \<Rightarrow> not_supported)"

definition Pg_applyApplicationUserMetadataChange :: "'c sql_server \<Rightarrow> pg_entry \<Rightarrow> 'c apply_change" where
  "Pg_applyApplicationUserMetadataChange S ch =
     (case pe_changeType ch of
        Added \<Rightarrow> at_pointer as_ApplicationUserMetadata ItemApplicationUserMetadata (PgApplicationUserMetadata_ExecuteInsert S) (pe_item ch)
      | Updated \<Rightarrow> at_pointer as_ApplicationUserMetadata ItemApplicationUserMetadata (PgApplicationUserMetadata_ExecuteUpdate S) (pe_item ch)
      | _ \<Rightarrow> not_supported)"

definition Pg_applyAuditLogChange :: "'c sql_server \<Rightarrow> pg_entry \<Rightarrow> 'c apply_change" where
  "Pg_applyAuditLogChange S ch =
     (case pe_changeType ch of
        Added \<Rightarrow> at_pointer as_AuditLog ItemAuditLog (PgAuditLog_ExecuteInsert S) (pe_item ch)
      | _ \<Rightarrow> not_supported)"

definition Pg_applyCredentialChange :: "'c sql_server \<Rightarrow> pg_entry \<Rightarrow> 'c apply_change" where
  "Pg_applyCredentialChange S ch =
     (case pe_changeType ch of
        Added \<Rightarrow> at_pointer as_Credential ItemCredential (PgCredential_ExecuteInsert S) (pe_item ch)
      | Updated \<Rightarrow> at_pointer as_Credential ItemCredential (PgCredential_ExecuteUpdate S) (pe_item ch)
      | Deleted \<Rightarrow> at_identifier (PgCredential_ExecuteDelete S) (pe_item ch)
      | _ \<Rightarrow> not_supported)"

definition Pg_applyFileChange :: "'c sql_server \<Rightarrow> pg_entry \<Rightarrow> 'c apply_change" where
  "Pg_applyFileChange S ch =
     (case pe_changeType ch of
        Added \<Rightarrow> at_pointer as_File ItemFile (PgFile_ExecuteInsert S) (pe_item ch)
      | _ \<Rightarrow> not_supported)"

definition Pg_applyGroupRoleChange :: "pg_entry \<Rightarrow> 'c apply_change" where
  "Pg_applyGroupRoleChange ch = not_supported"

definition Pg_applyGroupChange :: "'c sql_server \<Rightarrow> pg_entry \<Rightarrow> 'c apply_change" where
  "Pg_applyGroupChange S ch =
     (case pe_changeType ch of
        Added \<Rightarrow> at_pointer as_Group ItemGroup (PgGroup_ExecuteInsert S) (pe_item ch)
      | Updated \<Rightarrow> at_pointer as_Group ItemGroup (PgGroup_ExecuteUpdate S) (pe_item ch)
      | Deleted \<Rightarrow> at_identifier (PgGroup_ExecuteDelete S) (pe_item ch)
      | _ \<Rightarrow> not_supported)"

definition Pg_applyOutboxMessageChange :: "'c sql_server \<Rightarrow> pg_entry \<Rightarrow> 'c apply_change" where
  "Pg_applyOutboxMessageChange S ch =
     (case pe_changeType ch of
        Added \<Rightarrow> at_pointer as_OutboxMessage ItemOutboxMessage (PgOutboxMessage_ExecuteInsert S) (pe_item ch)
      | Deleted \<Rightarrow> at_identifier (PgOutboxMessage_ExecuteDelete S) (pe_item ch)
      | _ \<Rightarrow> not_supported)"

definition Pg_applyPasswordRuleChange :: "'c sql_server \<Rightarrow> pg_entry \<Rightarrow> 'c apply_change" where
  "Pg_applyPasswordRuleChange S ch =
     (case pe_changeType ch of
        Added \<Rightarrow> at_pointer as_PasswordRule ItemPasswordRule (PgPasswordRule_ExecuteInsert S) (pe_item ch)
      | Updated \<Rightarrow> at_pointer as_PasswordRule ItemPasswordRule (PgPasswordRule_ExecuteUpdate S) (pe_item ch)
      | Deleted \<Rightarrow> at_identifier (PgPasswordRule_ExecuteDelete S) (pe_item ch)
      | _ \<Rightarrow> not_supported)"

definition Pg_applyProjectChange :: "'c sql_server \<Rightarrow> pg_entry \<Rightarrow> 'c apply_change" where
  "Pg_applyProjectChange S ch =
     (case pe_changeType ch of
        Added \<Rightarrow> at_pointer as_Project ItemProject (PgProject_ExecuteInsert S) (pe_item ch)
      | Updated \<Rightarrow> at_pointer as_Project ItemProject (PgProject_ExecuteUpdate S) (pe_item ch)
      | Deleted \<Rightarrow> at_identifier (PgProject_ExecuteDelete S) (pe_item ch)
      | _ \<Rightarrow> not_supported)"

definition Pg_applyResourceServerChange :: "'c sql_server \<Rightarrow> pg_entry \<Rightarrow> 'c apply_change" where
  "Pg_applyResourceServerChange S ch =
     (case pe_changeType ch of
        Added \<Rightarrow> at_pointer as_ResourceServer ItemResourceServer (PgResourceServer_ExecuteInsert S) (pe_item ch)
      | Updated \<Rightarrow> at_pointer as_ResourceServer ItemResourceServer (PgResourceServer_ExecuteUpdate S) (pe_item ch)
      | Deleted \<Rightarrow> at_identifier (PgResourceServer_ExecuteDelete S) (pe_item ch)
      | _ \<Rightarrow> not_supported)"

definition Pg_applyResourceServerScopeChange :: "'c sql_server \<Rightarrow> pg_entry \<Rightarrow> 'c apply_change" where
  "Pg_applyResourceServerScopeChange S ch =
     (case pe_changeType ch of
        Added \<Rightarrow> at_pointer as_ResourceServerScope ItemResourceServerScope (PgResourceServerScope_ExecuteInsert S) (pe_item ch)
      | Updated \<Rightarrow> at_pointer as_ResourceServerScope ItemResourceServerScope (PgResourceServerScope_ExecuteUpdate S) (pe_item ch)
      | Deleted \<Rightarrow> at_identifier (PgResourceServerScope_ExecuteDelete S) (pe_item ch)
      | _ \<Rightarrow> not_supported)"

definition Pg_applyRoleChange :: "'c sql_server \<Rightarrow> pg_entry \<Rightarrow> 'c apply_change" where
  "Pg_applyRoleChange S ch =
     (case pe_changeType ch of
        Added \<Rightarrow> at_pointer as_Role ItemRole (PgRole_ExecuteInsert S) (pe_item ch)
      | Updated \<Rightarrow> at_pointer as_Role ItemRole (PgRole_ExecuteUpdate S) (pe_item ch)
      | Deleted \<Rightarrow> at_identifier (PgRole_ExecuteDelete S) (pe_item ch)
      | _ \<Rightarrow> not_supported)"

definition Pg_applySessionChange :: "'c sql_server \<Rightarrow> pg_entry \<Rightarrow> 'c apply_change" where
  "Pg_applySessionChange S ch =
     (case pe_changeType ch of
        Added \<Rightarrow> at_pointer as_Session ItemSession (PgSession_ExecuteInsert S) (pe_item ch)
      | Deleted \<Rightarrow> at_identifier (PgSession_ExecuteDelete S) (pe_item ch)
      | _ \<Rightarrow> not_supported)"

definition Pg_applyTemplateChange :: "'c sql_server \<Rightarrow> pg_entry \<Rightarrow> 'c apply_change" where
  "Pg_applyTemplateChange S ch =
     (case pe_changeType ch of
        Added \<Rightarrow> at_pointer as_Template ItemTemplate (PgTemplate_ExecuteInsert S) (pe_item ch)
      | _ \<Rightarrow> not_supported)"

definition Pg_applyUserRoleAssignmentChange :: "'c sql_server \<Rightarrow> pg_entry \<Rightarrow> 'c apply_change" where
  "Pg_applyUserRoleAssignmentChange S ch =
     (case pe_changeType ch of
        Added \<Rightarrow> at_pointer as_UserRoleAssignment ItemUserRoleAssignment (PgUserRoleAssignment_ExecuteInsert S) (pe_item ch)
      | _ \<Rightarrow> not_supported)"

definition Pg_applyUserChange :: "'c sql_server \<Rightarrow> pg_entry \<Rightarrow> 'c apply_change" where
  "Pg_applyUserChange S ch =
     (case pe_changeType ch of
        Added \<Rightarrow> at_pointer as_User ItemUser (PgUser_ExecuteInsert S) (pe_item ch)
      | Updated \<Rightarrow> at_pointer as_User ItemUser (PgUser_ExecuteUpdate S) (pe_item ch)
      | _ \<Rightarrow> not_supported)"

definition Pg_applyVirtualServerChange :: "'c sql_server \<Rightarrow> pg_entry \<Rightarrow> 'c apply_change" where
  "Pg_applyVirtualServerChange S ch =
     (case pe_changeType ch of
        Added \<Rightarrow> at_pointer as_VirtualServer ItemVirtualServer (PgVirtualServer_ExecuteInsert S) (pe_item ch)
      | Updated \<Rightarrow> at_pointer as_VirtualServer ItemVirtualServer (PgVirtualServer_ExecuteUpdate S) (pe_item ch)
      | _ \<Rightarrow> not_supported)"

definition Pg_applyChange :: "'c sql_server \<Rightarrow> pg_entry \<Rightarrow> 'c apply_change" where
  "Pg_applyChange S ch =
     (case pe_itemType ch of
        ApplicationEntityType \<Rightarrow> Pg_applyApplicationChange S ch
      | ApplicationUserMetadataEntityType \<Rightarrow> Pg_applyApplicationUserMetadataChange S ch
      | AuditLogEntityType \<Rightarrow> Pg_applyAuditLogChange S ch
      | CredentialEntityType \<Rightarrow> Pg_applyCredentialChange S ch
      | FileEntityType \<Rightarrow> Pg_applyFileChange S ch
      | GroupRoleEntityType \<Rightarrow> Pg_applyGroupRoleChange ch
      | GroupEntityType \<Rightarrow> Pg_applyGroupChange S ch
      | OutboxMessageEntityType \<Rightarrow> Pg_applyOutboxMessageChange S ch
      | PasswordRuleEntityType \<Rightarrow> Pg_applyPasswordRuleChange S ch
      | ProjectEntityType \<Rightarrow> Pg_applyProjectChange S ch
      | ResourceServerEntityType \<Rightarrow> Pg_applyResourceServerChange S ch
      | ResourceServerScopeEntityType \<Rightarrow> Pg_applyResourceServerScopeChange S ch
      | RoleEntityType \<Rightarrow> Pg_applyRoleChange S ch
      | SessionEntityType \<Rightarrow> Pg_applySessionChange S ch
      | TemplateEntityType \<Rightarrow> Pg_applyTemplateChange S ch
      | UserRoleAssignmentEntityType \<Rightarrow> Pg_applyUserRoleAssignmentChange S ch
      | UserEntityType \<Rightarrow> Pg_applyUserChange S ch
      | VirtualServerEntityType \<Rightarrow> Pg_applyVirtualServerChange S ch
      | OtherEntityType _ \<Rightarrow> (\<lambda>h c. (Inl (Err (ErrorsNew ''unsupported item type'')), h, c)))"

text \<open>The loop of \<^verbatim>\<open>SaveChanges\<close>: it returns at the first change that fails.\<close>

fun Pg_applyChanges :: "'c sql_server \<Rightarrow> pg_entry list \<Rightarrow> 'c apply_change" where
  "Pg_applyChanges S [] h c = (Inr (), h, c)"
| "Pg_applyChanges S (ch # chs) h c =
     (case Pg_applyChange S ch h c of
        (Inl e, h, c) \<Rightarrow> (wrap ''applying change'' (Inl e), h, c)
      | (Inr _, h, c) \<Rightarrow> Pg_applyChanges S chs h c)"

text \<open>An error leaves the transaction open: there is no rollback.\<close>

definition Pg_SaveChanges :: "'c sql_server \<Rightarrow> pg_context \<Rightarrow> heap \<Rightarrow> 'c \<Rightarrow> unit go \<times> pg_context \<times> heap \<times> 'c" where
  "Pg_SaveChanges S ctx h c =
     (case sq_begin S c of
        (Inl e, c) \<Rightarrow> (Inl (Err (Wrap ''starting transaction'' e)), ctx, h, c)
      | (Inr _, c) \<Rightarrow>
          (case Pg_applyChanges S (pgc_tracker ctx) h c of
             (Inl e, h, c) \<Rightarrow> (Inl e, ctx, h, c)
           | (Inr _, h, c) \<Rightarrow>
               (case sq_commit S c of
                  (Inl e, c) \<Rightarrow> (Inl (Err (Wrap ''committing transaction'' e)), ctx, h, c)
                | (Inr _, c) \<Rightarrow> (Inr (), ctx\<lparr>pgc_tracker := []\<rparr>, h, c))))"

end
