(* ===== verification/Postgres.thy ===== *)
theory Postgres
  imports PgContext "HOL-Library.Multiset"
begin

text \<open>
  What PostgreSQL documents of the statements that the repositories send, over an abstract database: every table
  is a list of rows, in any order. \<open>postgres_ok\<close> says that a connection behaves so; the properties of the
  backend have it as their hypothesis. \<open>reference\<close> is a connection that does: it shows that the hypothesis can hold.
\<close>

section \<open>Rows and conditions\<close>

type_synonym row = "string \<Rightarrow> sql_value"
type_synonym tables = "string \<Rightarrow> row list"

definition row_of :: "(string \<times> sql_value) list \<Rightarrow> row" where
  "row_of kvs column = (case map_of kvs column of None \<Rightarrow> SqlNull | Some v \<Rightarrow> v)"

text \<open>\<^verbatim>\<open>column->>'member'\<close>: the text of a member of a document.\<close>

fun split_member :: "string \<Rightarrow> string \<times> string" where
  "split_member [] = ([], [])"
| "split_member (c # s) =
     (if take 3 (c # s) = ''->>'' then ([], butlast (drop 4 (c # s)))
      else case split_member s of (column, member) \<Rightarrow> (c # column, member))"

definition member_text :: "sql_value \<Rightarrow> string \<Rightarrow> sql_value" where
  "member_text v k =
     (case v of
        SqlJson (Doc (JObj ms)) \<Rightarrow> (case map_of ms k of Some (JStr s) \<Rightarrow> SqlText s | _ \<Rightarrow> SqlNull)
      | _ \<Rightarrow> SqlNull)"

definition column_value :: "row \<Rightarrow> string \<Rightarrow> sql_value" where
  "column_value r e =
     (if CHR ''>'' \<in> set e then case split_member e of (column, member) \<Rightarrow> member_text (r column) member
      else r e)"

text \<open>
  \<^verbatim>\<open>LIKE\<close>: a percent sign stands for any characters, an underscore for one, and a backslash takes the meaning
  from the next character. \<^verbatim>\<open>ILIKE\<close> ignores the case.
\<close>

fun like :: "string \<Rightarrow> string \<Rightarrow> bool" where
  "like [] s = (s = [])"
| "like (p # ps) [] = (p = CHR ''%'' \<and> like ps [])"
| "like (p # ps) (c # s) =
     (if p = CHR ''%'' then like ps (c # s) \<or> like (p # ps) s
      else if p = CHR ''_'' then like ps s
      else if p = CHR 0x5C then
        (case ps of [] \<Rightarrow> False | q # qs \<Rightarrow> q = c \<and> like qs s)
      else p = c \<and> like ps s)"

definition ilike :: "string \<Rightarrow> string \<Rightarrow> bool" where
  "ilike pattern s = like (ToLower pattern) (ToLower s)"

fun sat :: "row \<Rightarrow> sql_cond \<Rightarrow> bool" where
  "sat r (Equal e v) = (v \<noteq> SqlNull \<and> column_value r e = v)"
| "sat r (AnyEqual e vs) = (column_value r e \<noteq> SqlNull \<and> column_value r e \<in> set vs)"
| "sat r (InValues e vs) = (column_value r e \<noteq> SqlNull \<and> column_value r e \<in> set vs)"
| "sat r (ILike e p) = (case column_value r e of SqlText s \<Rightarrow> ilike p s | _ \<Rightarrow> False)"
| "sat r (OrElse cs) = list_ex (sat r) cs"

definition sat_all :: "sql_cond list \<Rightarrow> row \<Rightarrow> bool" where
  "sat_all cs r = list_all (sat r) cs"

text \<open>The driver refuses a slice as an argument.\<close>

fun sendable :: "sql_cond \<Rightarrow> bool" where
  "sendable (Equal e v) = (\<forall>us. v \<noteq> GoSlice us)"
| "sendable (AnyEqual e vs) = list_all (\<lambda>v. \<forall>us. v \<noteq> GoSlice us) vs"
| "sendable (InValues e vs) = list_all (\<lambda>v. \<forall>us. v \<noteq> GoSlice us) vs"
| "sendable (ILike e p) = True"
| "sendable (OrElse cs) = list_all sendable cs"

section \<open>Queries\<close>

definition projected :: "int \<Rightarrow> string list \<Rightarrow> row \<Rightarrow> sql_value list" where
  "projected n columns r = map (\<lambda>e. if e = ''count(*) over()'' then SqlInt n else column_value r e) columns"

lemma length_projected [simp]: "length (projected n columns r) = length columns"
  by (simp add: projected_def)

definition window :: "select_builder \<Rightarrow> 'a list \<Rightarrow> 'a list" where
  "window s xs =
     (let xs = (case sb_offset s of None \<Rightarrow> xs | Some n \<Rightarrow> drop (nat n) xs)
      in case sb_limit s of None \<Rightarrow> xs | Some n \<Rightarrow> take (nat n) xs)"

text \<open>Without a join: the rows that satisfy every condition, in some order, and of these the requested window.\<close>

definition answers :: "tables \<Rightarrow> select_builder \<Rightarrow> sql_value list list \<Rightarrow> bool" where
  "answers tb s result \<longleftrightarrow>
     (\<exists>rs. mset rs = mset (filter (sat_all (sb_where s)) (tb (sb_from s))) \<and>
           result = map (projected (int (length rs)) (sb_columns s)) (window s rs))"

definition query_ok :: "tables \<Rightarrow> select_builder \<Rightarrow> sql_value list list \<Rightarrow> bool" where
  "query_ok tb s result \<longleftrightarrow>
     list_all sendable (sb_where s) \<and>
     list_all (\<lambda>r. length r = length (sb_columns s)) result \<and>
     (sb_joins s = [] \<longrightarrow> answers tb s result)"

section \<open>Writes\<close>

text \<open>
  A value that a column keeps as it is: the precision of a timestamp is a microsecond, and \<^verbatim>\<open>jsonb\<close> keeps a
  document, not its text.
\<close>

definition kept :: "sql_value \<Rightarrow> bool" where
  "kept v =
     (case v of
        SqlTime t \<Rightarrow> t mod 1000 = 0
      | SqlJson j \<Rightarrow> False
      | GoSlice us \<Rightarrow> False
      | _ \<Rightarrow> True)"

text \<open>The defaults of the migrations, for columns that an insert does not name.\<close>

definition column_default :: "string \<Rightarrow> string \<Rightarrow> sql_value" where
  "column_default table column =
     (if table = ''virtual_servers'' then
        (if column = ''enable_registration'' then SqlBool False
         else if column = ''require_2fa'' \<or> column = ''require_email_verification'' then SqlBool True
         else if column = ''primary_signing_algorithm'' then SqlText ''EdDSA''
         else if column = ''additional_signing_algorithms'' then SqlTexts []
         else SqlNull)
      else if table = ''users'' then
        (if column = ''service_user'' then SqlBool False
         else if column = ''metadata'' then SqlJson (Doc (JObj []))
         else SqlNull)
      else if table = ''projects'' then (if column = ''system_project'' then SqlBool False else SqlNull)
      else if table = ''applications'' then
        (if column = ''system_application'' \<or> column = ''device_flow_enabled'' then SqlBool False
         else if column = ''type'' then SqlText ''confidential''
         else if column = ''post_logout_redirect_uris'' then SqlTexts []
         else if column = ''access_token_header_type'' then SqlText ''at+jwt''
         else SqlNull)
      else SqlNull)"

definition inserted_row :: "insert_builder \<Rightarrow> nat \<Rightarrow> row \<Rightarrow> bool" where
  "inserted_row b x r \<longleftrightarrow>
     r ''xmin'' = SqlInt (int x) \<and>
     (\<forall>column. column \<noteq> ''xmin'' \<longrightarrow>
       (case map_of (zip (ib_columns b) (ib_values b)) column of
          Some v \<Rightarrow> kept v \<longrightarrow> r column = v
        | None \<Rightarrow> r column = column_default (ib_table b) column))"

text \<open>An update sets the columns it names, the version, and the time of the last change, by a trigger.\<close>

definition updated_row :: "update_builder \<Rightarrow> nat \<Rightarrow> row \<Rightarrow> row \<Rightarrow> bool" where
  "updated_row b x r r' \<longleftrightarrow>
     (if sat_all (ub_where b) r then
        r' ''xmin'' = SqlInt (int x) \<and>
        (\<forall>column. column \<noteq> ''xmin'' \<longrightarrow> column \<noteq> ''audit_updated_at'' \<longrightarrow>
          (case map_of (rev (ub_set b)) column of
             Some v \<Rightarrow> kept v \<longrightarrow> r' column = v
           | None \<Rightarrow> r' column = r column))
      else r' = r)"

definition only_table :: "string \<Rightarrow> tables \<Rightarrow> tables \<Rightarrow> bool" where
  "only_table t tb tb' \<longleftrightarrow> (\<forall>t'. t' \<noteq> t \<longrightarrow> tb' t' = tb t')"

definition insert_ok :: "insert_builder \<Rightarrow> tables \<Rightarrow> nat \<Rightarrow> tables \<Rightarrow> bool" where
  "insert_ok b tb x tb' \<longleftrightarrow>
     only_table (ib_table b) tb tb' \<and> x < 2 ^ 32 \<and>
     (\<exists>r. inserted_row b x r \<and> r ''id'' \<notin> (\<lambda>r. r ''id'') ` set (tb (ib_table b)) \<and>
          mset (tb' (ib_table b)) = add_mset r (mset (tb (ib_table b))))"

definition update_ok :: "update_builder \<Rightarrow> tables \<Rightarrow> nat option \<Rightarrow> tables \<Rightarrow> bool" where
  "update_ok b tb x tb' \<longleftrightarrow>
     (case x of
        None \<Rightarrow> tb' = tb \<and> filter (sat_all (ub_where b)) (tb (ub_table b)) = []
      | Some x \<Rightarrow>
          only_table (ub_table b) tb tb' \<and> x < 2 ^ 32 \<and>
          filter (sat_all (ub_where b)) (tb (ub_table b)) \<noteq> [] \<and>
          list_all2 (updated_row b x) (tb (ub_table b)) (tb' (ub_table b)))"

definition delete_ok :: "delete_builder \<Rightarrow> tables \<Rightarrow> tables \<Rightarrow> bool" where
  "delete_ok b tb tb' \<longleftrightarrow>
     tb' = tb(xb_table b := filter (\<lambda>r. \<not> sat_all (xb_where b) r) (tb (xb_table b)))"

section \<open>The connection\<close>

text \<open>
  \<open>visible\<close> are the tables that queries see, \<open>pending\<close> those of the transaction that was started last. A
  statement that fails leaves the visible tables alone; of a commit that fails it is unknown whether it took place. No
  other connection writes between the start and the end of a transaction.
\<close>

definition postgres_ok :: "'c sql_server \<Rightarrow> ('c \<Rightarrow> tables) \<Rightarrow> ('c \<Rightarrow> tables) \<Rightarrow> bool" where
  "postgres_ok S visible pending \<longleftrightarrow>
     (\<forall>s c result. sq_query S s c = Inr result \<longrightarrow> query_ok (visible c) s result) \<and>
     (\<forall>c r c'. sq_begin S c = (r, c') \<longrightarrow> visible c' = visible c \<and> (\<forall>u. r = Inr u \<longrightarrow> pending c' = visible c)) \<and>
     (\<forall>b c r c'. sq_insert S b c = (r, c') \<longrightarrow>
        visible c' = visible c \<and> (\<forall>x. r = Inr x \<longrightarrow> insert_ok b (pending c) x (pending c'))) \<and>
     (\<forall>b c r c'. sq_update S b c = (r, c') \<longrightarrow>
        visible c' = visible c \<and> (\<forall>x. r = Inr x \<longrightarrow> update_ok b (pending c) x (pending c'))) \<and>
     (\<forall>b c r c'. sq_delete S b c = (r, c') \<longrightarrow>
        visible c' = visible c \<and> (\<forall>u. r = Inr u \<longrightarrow> delete_ok b (pending c) (pending c'))) \<and>
     (\<forall>c r c'. sq_commit S c = (r, c') \<longrightarrow>
        (case r of Inr _ \<Rightarrow> visible c' = pending c | Inl _ \<Rightarrow> visible c' \<in> {visible c, pending c}))"

lemma postgres_okD:
  assumes "postgres_ok S visible pending"
  shows postgres_query: "\<And>s c result. sq_query S s c = Inr result \<Longrightarrow> query_ok (visible c) s result"
    and postgres_begin: "\<And>c r c'. sq_begin S c = (r, c') \<Longrightarrow> visible c' = visible c"
    and postgres_begun: "\<And>c u c'. sq_begin S c = (Inr u, c') \<Longrightarrow> pending c' = visible c"
    and postgres_insert: "\<And>b c r c'. sq_insert S b c = (r, c') \<Longrightarrow> visible c' = visible c"
    and postgres_inserted: "\<And>b c x c'. sq_insert S b c = (Inr x, c') \<Longrightarrow> insert_ok b (pending c) x (pending c')"
    and postgres_update: "\<And>b c r c'. sq_update S b c = (r, c') \<Longrightarrow> visible c' = visible c"
    and postgres_updated: "\<And>b c x c'. sq_update S b c = (Inr x, c') \<Longrightarrow> update_ok b (pending c) x (pending c')"
    and postgres_delete: "\<And>b c r c'. sq_delete S b c = (r, c') \<Longrightarrow> visible c' = visible c"
    and postgres_deleted: "\<And>b c u c'. sq_delete S b c = (Inr u, c') \<Longrightarrow> delete_ok b (pending c) (pending c')"
    and postgres_commit: "\<And>c r c'. sq_commit S c = (r, c') \<Longrightarrow>
      (case r of Inr _ \<Rightarrow> visible c' = pending c | Inl _ \<Rightarrow> visible c' \<in> {visible c, pending c})"
  using assms unfolding postgres_ok_def by (elim conjE, simp)+

section \<open>A reference connection\<close>

record reference_state =
  rf_visible :: tables
  rf_pending :: tables
  rf_xid :: nat

definition syntax_error :: goerr where
  "syntax_error = ErrorsNew ''pq: error''"

definition reference_insert :: "insert_builder \<Rightarrow> nat \<Rightarrow> row" where
  "reference_insert b x column =
     (if column = ''xmin'' then SqlInt (int x)
      else case map_of (zip (ib_columns b) (ib_values b)) column of
             Some v \<Rightarrow> v
           | None \<Rightarrow> column_default (ib_table b) column)"

definition reference_update :: "update_builder \<Rightarrow> nat \<Rightarrow> row \<Rightarrow> row" where
  "reference_update b x r =
     (if sat_all (ub_where b) r then
        (\<lambda>column. if column = ''xmin'' then SqlInt (int x)
                  else case map_of (rev (ub_set b)) column of Some v \<Rightarrow> v | None \<Rightarrow> r column)
      else r)"

definition reference :: "reference_state sql_server" where
  "reference =
     \<lparr>sq_query = (\<lambda>s c.
        if list_all sendable (sb_where s) \<and> sb_joins s = [] then
          (let rs = filter (sat_all (sb_where s)) (rf_visible c (sb_from s))
           in Inr (map (projected (int (length rs)) (sb_columns s)) (window s rs)))
        else Inl syntax_error),
      sq_begin = (\<lambda>c. (Inr (), c\<lparr>rf_pending := rf_visible c, rf_xid := (rf_xid c + 1) mod 2 ^ 32\<rparr>)),
      sq_commit = (\<lambda>c. (Inr (), c\<lparr>rf_visible := rf_pending c\<rparr>)),
      sq_insert = (\<lambda>b c.
        let x = rf_xid c mod 2 ^ 32; r = reference_insert b x; rs = rf_pending c (ib_table b)
        in if r ''id'' \<in> (\<lambda>r. r ''id'') ` set rs then (Inl syntax_error, c)
           else (Inr x, c\<lparr>rf_pending := (rf_pending c)(ib_table b := rs @ [r])\<rparr>)),
      sq_update = (\<lambda>b c.
        let x = rf_xid c mod 2 ^ 32; rs = rf_pending c (ub_table b)
        in if filter (sat_all (ub_where b)) rs = [] then (Inr None, c)
           else (Inr (Some x), c\<lparr>rf_pending := (rf_pending c)(ub_table b := map (reference_update b x) rs)\<rparr>)),
      sq_delete = (\<lambda>b c.
        (Inr (), c\<lparr>rf_pending := (rf_pending c)(xb_table b := filter (\<lambda>r. \<not> sat_all (xb_where b) r) (rf_pending c (xb_table b)))\<rparr>))\<rparr>"

lemma reference_simps [simp]:
  "sq_begin reference c = (Inr (), c\<lparr>rf_pending := rf_visible c, rf_xid := (rf_xid c + 1) mod 2 ^ 32\<rparr>)"
  "sq_commit reference c = (Inr (), c\<lparr>rf_visible := rf_pending c\<rparr>)"
  by (simp_all add: reference_def)

lemma reference_ok: "postgres_ok reference rf_visible rf_pending"
  unfolding postgres_ok_def
proof (intro conjI allI impI)
  fix s c result
  assume "sq_query reference s c = Inr result"
  hence "list_all sendable (sb_where s)" and
    "result = (let rs = filter (sat_all (sb_where s)) (rf_visible c (sb_from s))
               in map (projected (int (length rs)) (sb_columns s)) (window s rs))"
    by (auto simp: reference_def Let_def split: if_splits)
  thus "query_ok (rf_visible c) s result"
    unfolding query_ok_def answers_def Let_def
    by (intro conjI impI exI [of _ "filter (sat_all (sb_where s)) (rf_visible c (sb_from s))"]) (simp_all add: list_all_iff)
next
  fix b c r c' x
  assume *: "sq_insert reference b c = (r, c')"
  show "rf_visible c' = rf_visible c"
    using * by (auto simp: reference_def Let_def split: if_splits)
  assume "r = Inr x"
  with * show "insert_ok b (rf_pending c) x (rf_pending c')"
    by (auto simp: reference_def Let_def insert_ok_def inserted_row_def reference_insert_def only_table_def
        split: if_splits option.splits)
next
  fix b c r c' x
  assume *: "sq_update reference b c = (r, c')"
  show "rf_visible c' = rf_visible c"
    using * by (auto simp: reference_def Let_def split: if_splits)
  assume "r = Inr x"
  with * show "update_ok b (rf_pending c) x (rf_pending c')"
    by (auto simp: reference_def Let_def update_ok_def updated_row_def reference_update_def only_table_def
        list_all2_conv_all_nth split: if_splits option.splits)
qed (auto simp: reference_def delete_ok_def)

end
