(* ===== verification/PgTable.thy ===== *)
theory PgTable
  imports Postgres SessionSpec
begin

text \<open>
  Reads of the backend on PostgreSQL, for any table: the parts of a statement, searches whose text has no wildcard, and
  the locales \<open>pg_table\<close> and \<open>pg_inserts\<close>, the interfaces of a table. A read of a table returns the entities
  that its rows hold and that the repository in memory selects; an entity that was inserted is read back.
\<close>

section \<open>Statements\<close>

lemma builder_parts [simp]:
  "sb_where (when_set v f s) = sb_where s @ (case v of None \<Rightarrow> [] | Some x \<Rightarrow> [f x])"
  "sb_columns (when_set v f s) = sb_columns s" "sb_from (when_set v f s) = sb_from s"
  "sb_joins (when_set v f s) = sb_joins s" "sb_limit (when_set v f s) = sb_limit s" "sb_offset (when_set v f s) = sb_offset s"
  "sb_where (Select_From cols t) = []" "sb_columns (Select_From cols t) = cols" "sb_from (Select_From cols t) = t"
  "sb_joins (Select_From cols t) = []" "sb_limit (Select_From cols t) = None" "sb_offset (Select_From cols t) = None"
  "sb_where (SelectMore cols s) = sb_where s" "sb_columns (SelectMore cols s) = sb_columns s @ cols"
  "sb_from (SelectMore cols s) = sb_from s" "sb_joins (SelectMore cols s) = sb_joins s"
  "sb_limit (SelectMore cols s) = sb_limit s" "sb_offset (SelectMore cols s) = sb_offset s"
  "sb_where (order_by i s) = sb_where s" "sb_columns (order_by i s) = sb_columns s" "sb_from (order_by i s) = sb_from s"
  "sb_joins (order_by i s) = sb_joins s" "sb_limit (order_by i s) = sb_limit s" "sb_offset (order_by i s) = sb_offset s"
  "sb_where (Limit n s) = sb_where s" "sb_columns (Limit n s) = sb_columns s" "sb_from (Limit n s) = sb_from s"
  "sb_joins (Limit n s) = sb_joins s" "sb_limit (Limit n s) = Some n" "sb_offset (Limit n s) = sb_offset s"
  by (auto simp: builder_defs split: option.splits)

lemma paginate_none [simp]: "PagingInfo_IsZero i \<Longrightarrow> paginate i s = s"
  by (simp add: paginate_def)

lemma search_in_none [simp]: "search_in columns None s = Inr s"
  by (simp add: search_in_def)

lemma sat_all_simps [simp]:
  "sat_all [] r" "sat_all (x # xs) r \<longleftrightarrow> sat r x \<and> sat_all xs r"
  "sat_all (xs @ ys) r \<longleftrightarrow> sat_all xs r \<and> sat_all ys r"
  "sat_all (case v of None \<Rightarrow> [] | Some x \<Rightarrow> [f x]) r \<longleftrightarrow> (\<forall>x. v = Some x \<longrightarrow> sat r (f x))"
  by (auto simp: sat_all_def split: option.splits)

lemma filter_iff:
  "filter_eq v x \<longleftrightarrow> (\<forall>y. v = Some y \<longrightarrow> x = y)" "filter_in vs x \<longleftrightarrow> (\<forall>ys. vs = Some ys \<longrightarrow> x \<in> set ys)"
  "filter_opt v z \<longleftrightarrow> (\<forall>y. v = Some y \<longrightarrow> z = Some y)"
  by (auto simp: filter_eq_def filter_in_def filter_opt_def split: option.splits)

lemma projected_simps [simp]:
  "projected n [] r = []"
  "projected n (e # es) r = (if e = ''count(*) over()'' then SqlInt n else column_value r e) # projected n es r"
  "projected n (es @ es') r = projected n es r @ projected n es' r"
  by (simp_all add: projected_def)

section \<open>Searches\<close>

text \<open>A text without wildcards, and what the patterns of a search select then.\<close>

definition no_wildcard :: "string \<Rightarrow> bool" where
  "no_wildcard s = list_all (\<lambda>c. c \<noteq> CHR ''%'' \<and> c \<noteq> CHR ''_'' \<and> c \<noteq> CHR 0x5C) s"

lemma no_wildcard_simps [simp]:
  "no_wildcard []" "no_wildcard (c # s) \<longleftrightarrow> c \<noteq> CHR ''%'' \<and> c \<noteq> CHR ''_'' \<and> c \<noteq> CHR 0x5C \<and> no_wildcard s"
  by (auto simp: no_wildcard_def)

lemma lower_char_wildcard:
  "lower_char c = CHR ''%'' \<longleftrightarrow> c = CHR ''%''" "lower_char c = CHR ''_'' \<longleftrightarrow> c = CHR ''_''"
  "lower_char c = CHR 0x5C \<longleftrightarrow> c = CHR 0x5C"
proof -
  have u: "of_char (char_of (n + 32) :: char) = n + 32" if "65 \<le> n" "n \<le> 90" for n :: nat
    using that by simp
  have *: "lower_char c \<noteq> d" if "65 \<le> (of_char c :: nat)" "of_char c \<le> (90::nat)" "(of_char d :: nat) < 97" for d
    using that u [of "of_char c"] by (auto simp: lower_char_def Let_def)
  show "lower_char c = CHR ''%'' \<longleftrightarrow> c = CHR ''%''" "lower_char c = CHR ''_'' \<longleftrightarrow> c = CHR ''_''"
    "lower_char c = CHR 0x5C \<longleftrightarrow> c = CHR 0x5C"
    using * by (auto simp: lower_char_def Let_def)
qed

lemma no_wildcard_ToLower [simp]: "no_wildcard (ToLower s) = no_wildcard s"
  by (induction s) (auto simp: ToLower_def lower_char_wildcard)

lemma like_literal: "no_wildcard p \<Longrightarrow> like p s \<longleftrightarrow> s = p"
  by (induction p s rule: like.induct) auto

lemma like_rest: "like ''%'' s"
  by (induction s) auto

lemma like_prefix: "no_wildcard p \<Longrightarrow> like (p @ ''%'') s \<longleftrightarrow> HasPrefix s p"
proof (induction p arbitrary: s)
  case (Cons c p)
  thus ?case by (cases s) (auto simp: HasPrefix_def)
qed (simp add: HasPrefix_def like_rest)

lemma like_somewhere: "like (CHR ''%'' # p) s \<longleftrightarrow> (\<exists>k \<le> length s. like p (drop k s))"
proof (induction s)
  case (Cons c s)
  have "(\<exists>k \<le> length (c # s). like p (drop k (c # s))) \<longleftrightarrow> like p (c # s) \<or> (\<exists>k \<le> length s. like p (drop k s))"
  proof
    assume "\<exists>k \<le> length (c # s). like p (drop k (c # s))"
    then obtain k where "k \<le> length (c # s)" "like p (drop k (c # s))" by blast
    thus "like p (c # s) \<or> (\<exists>k \<le> length s. like p (drop k s))" by (cases k) auto
  next
    assume "like p (c # s) \<or> (\<exists>k \<le> length s. like p (drop k s))"
    thus "\<exists>k \<le> length (c # s). like p (drop k (c # s))"
      by (metis Suc_le_mono drop0 drop_Suc_Cons le0 list.size(4) One_nat_def add.right_neutral add_Suc_right)
  qed
  with Cons show ?case by simp
qed simp

lemma like_contains: "no_wildcard p \<Longrightarrow> like (CHR ''%'' # p @ ''%'') s \<longleftrightarrow> Contains s p"
  unfolding like_somewhere like_prefix Contains_iff HasPrefix_iff
proof
  assume "\<exists>k \<le> length s. \<exists>t. drop k s = p @ t"
  then obtain k t where "drop k s = p @ t" by blast
  hence "s = take k s @ p @ t" by (metis append_take_drop_id)
  thus "\<exists>u v. s = u @ p @ v" by blast
next
  assume "\<exists>u v. s = u @ p @ v"
  then obtain u v where "s = u @ p @ v" by blast
  thus "\<exists>k \<le> length s. \<exists>t. drop k s = p @ t" by (intro exI [of _ "length u"]) simp
qed

lemma like_suffix: "no_wildcard p \<Longrightarrow> like (CHR ''%'' # p) s \<longleftrightarrow> HasSuffix s p"
  unfolding like_somewhere like_literal HasSuffix_def
  by (metis diff_diff_cancel diff_le_self length_drop)

text \<open>A search that both backends understand alike.\<close>

definition search_plain :: "search_filter option \<Rightarrow> bool" where
  "search_plain f \<longleftrightarrow>
     (case f of None \<Rightarrow> True
      | Some sf \<Rightarrow> no_wildcard (sf_q sf) \<and>
          (case sf_searchType sf of
             SearchTypeContains \<Rightarrow> True | SearchTypeExact \<Rightarrow> True
           | OtherSearchType _ \<Rightarrow> False | _ \<Rightarrow> sf_q sf \<noteq> []))"

lemma no_wildcard_ends: "no_wildcard q \<Longrightarrow> \<not> HasPrefix q ''%''" "no_wildcard q \<Longrightarrow> \<not> HasSuffix q ''%''"
proof -
  show "no_wildcard q \<Longrightarrow> \<not> HasPrefix q ''%''" by (cases q) (auto simp: HasPrefix_def)
  show "no_wildcard q \<Longrightarrow> \<not> HasSuffix q ''%''"
    by (cases q rule: rev_cases) (auto simp: HasSuffix_def no_wildcard_def)
qed

lemma matchesSearch_ilike:
  assumes "search_plain (Some sf)"
  shows "\<exists>t. SearchFilter_Term sf = Inr t \<and> matchesSearch v sf = Inr (ilike t v)"
proof -
  from assms have q: "no_wildcard (sf_q sf)" by (simp add: search_plain_def)
  note low = no_wildcard_ends [OF q]
  have ends: "HasPrefix (s @ ''%'') ''%'' \<longleftrightarrow> s = [] \<or> HasPrefix s ''%''" "HasSuffix (s @ ''%'') ''%''"
    "HasPrefix (CHR ''%'' # s) ''%''" "HasSuffix (CHR ''%'' # s) ''%'' \<longleftrightarrow> s = [] \<or> HasSuffix s ''%''" for s
    by (cases s; simp add: HasPrefix_def HasSuffix_def Suc_diff_le)+
  have tl: "ToLower (s @ t) = ToLower s @ ToLower t" "ToLower [] = []"
    "ToLower (CHR ''%'' # s) = CHR ''%'' # ToLower s" for s t
    by (simp_all add: ToLower_def lower_char_def)
  show ?thesis
  proof (cases "sf_searchType sf")
    case SearchTypeContains
    thus ?thesis using q low
      by (simp add: matchesSearch_def SearchFilter_Term_def ends slice_def ilike_def tl like_contains)
  next
    case SearchTypeExact
    thus ?thesis using q low
      by (auto simp: matchesSearch_def SearchFilter_Term_def EqualFold_def ilike_def like_literal)
  next
    case SearchTypeStart
    thus ?thesis using q low assms
      by (auto simp: matchesSearch_def SearchFilter_Term_def search_plain_def ends slice_def ilike_def tl like_prefix)
  next
    case SearchTypeEnd
    thus ?thesis using q low assms
      by (auto simp: matchesSearch_def SearchFilter_Term_def search_plain_def ends slice_def ilike_def tl like_suffix)
  next
    case OtherSearchType
    thus ?thesis using assms by (simp add: search_plain_def)
  qed
qed

definition search_where :: "string list \<Rightarrow> search_filter option \<Rightarrow> select_builder \<Rightarrow> select_builder" where
  "search_where columns f s =
     (case f of None \<Rightarrow> s
      | Some sf \<Rightarrow> Where (OrElse (map (\<lambda>c. ILike c (projr (SearchFilter_Term sf))) columns)) s)"

lemma search_in_plain [simp]: "search_plain f \<Longrightarrow> search_in columns f s = Inr (search_where columns f s)"
  by (cases f) (auto simp: search_in_def search_where_def dest: matchesSearch_ilike)

lemma search_where_parts [simp]:
  "sb_where (search_where columns f s) =
     sb_where s @ (case f of None \<Rightarrow> [] | Some sf \<Rightarrow> [OrElse (map (\<lambda>c. ILike c (projr (SearchFilter_Term sf))) columns)])"
  "sb_columns (search_where columns f s) = sb_columns s" "sb_from (search_where columns f s) = sb_from s"
  "sb_joins (search_where columns f s) = sb_joins s" "sb_limit (search_where columns f s) = sb_limit s"
  "sb_offset (search_where columns f s) = sb_offset s"
  by (simp_all add: search_where_def Where_def split: option.splits)

lemma any_matches_plain:
  "search_plain (Some sf) \<Longrightarrow> any_matches vs sf = Inr (list_ex (ilike (projr (SearchFilter_Term sf))) vs)"
proof (induction vs)
  case (Cons v vs)
  with matchesSearch_ilike [OF Cons.prems, of v] show ?case by auto
qed simp

section \<open>The interface of a table\<close>

text \<open>A read fails only with the error of the connection.\<close>

definition server_failed :: "'c sql_server \<Rightarrow> 'c \<Rightarrow> string \<Rightarrow> stop \<Rightarrow> bool" where
  "server_failed S c msg stop = (\<exists>s e. sq_query S s c = Inl e \<and> stop = Err (Wrap msg e))"

definition table_holds :: "('e \<Rightarrow> row) \<Rightarrow> ('e \<Rightarrow> bool) \<Rightarrow> 'e list \<Rightarrow> row list \<Rightarrow> bool" where
  "table_holds toRow loaded es rows \<longleftrightarrow> mset rows = mset (map toRow es) \<and> list_all loaded es"

definition chosen :: "('e \<Rightarrow> bool go) \<Rightarrow> 'e list \<Rightarrow> 'e list" where
  "chosen p es = filter (\<lambda>e. p e = Inr True) es"

text \<open>A repository of one backend agrees with the other: on one entity, and on a listing.\<close>

definition same_first :: "'c sql_server \<Rightarrow> 'c \<Rightarrow> ('e \<Rightarrow> bool go) \<Rightarrow> 'e list \<Rightarrow> 'e option go \<Rightarrow> 'e option go \<Rightarrow> bool" where
  "same_first S c p es pg mem \<longleftrightarrow>
     (case pg of
        Inl stop \<Rightarrow> server_failed S c ''scanning row'' stop
      | Inr None \<Rightarrow> mem = Inr None
      | Inr (Some e) \<Rightarrow> e \<in> set (chosen p es) \<and> (\<exists>e' \<in> set (chosen p es). mem = Inr (Some e')))"

definition same_list :: "'c sql_server \<Rightarrow> 'c \<Rightarrow> string \<Rightarrow> 'e list go \<Rightarrow> 'e list go \<Rightarrow> bool" where
  "same_list S c msg pg mem \<longleftrightarrow>
     (case pg of
        Inl stop \<Rightarrow> server_failed S c msg stop
      | Inr xs \<Rightarrow> (\<exists>ys. mem = Inr ys \<and> mset xs = mset ys))"

definition same_counted :: "'c sql_server \<Rightarrow> 'c \<Rightarrow> string \<Rightarrow> ('e list \<times> int) go \<Rightarrow> ('e list \<times> int) go \<Rightarrow> bool" where
  "same_counted S c msg pg mem \<longleftrightarrow>
     (case pg of
        Inl stop \<Rightarrow> server_failed S c msg stop
      | Inr (xs, n) \<Rightarrow> (\<exists>ys. mem = Inr (ys, n) \<and> mset xs = mset ys))"

lemma filter_go_chosen: "list_all (\<lambda>e. \<exists>b. p e = Inr b) es \<Longrightarrow> filter_go p es = Inr (chosen p es)"
  by (induction es) (auto simp: chosen_def)

lemma find_go_chosen: "list_all (\<lambda>e. \<exists>b. p e = Inr b) es \<Longrightarrow> find_go p es = Inr (first_of (chosen p es))"
  by (induction es) (auto simp: chosen_def first_of_def)

lemma map_rows:
  assumes "mset rows = mset (map f es)"
  shows "\<exists>es'. mset es' = mset es \<and> rows = map f es'"
  using assms
proof (induction rows arbitrary: es)
  case (Cons r rows)
  then obtain e where e: "e \<in> set es" "r = f e"
    by (metis image_iff list.set_intros(1) list.set_map mset_eq_setD)
  hence "mset rows = image_mset f (mset es) - {#f e#}"
    using Cons.prems by (metis add_mset_remove_trivial mset.simps(2) mset_map)
  with e have "mset rows = mset (map f (remove1 e es))"
    by (simp add: image_mset_Diff)
  with Cons.IH obtain es' where "mset es' = mset (remove1 e es)" "rows = map f es'" by blast
  with e show ?case by (intro exI [of _ "e # es'"]) simp
qed simp

lemma scan_rows_all:
  assumes "\<And>e. e \<in> set es \<Longrightarrow> go_bind (Row_Scan dests (f e) zero) toEntity = Inr e"
  shows "scan_rows dests zero toEntity (map f es) = Inr es"
  using assms by (induction es) (auto simp: go_bind_Inr_iff)

lemma scan_each_on_item:
  assumes "length row = length dests"
  shows "scan_each (map on_item dests @ ds) (row @ vs) (r, n) = go_bind (scan_each dests row r) (\<lambda>r. scan_each ds vs (r, n))"
  using assms
proof (induction row arbitrary: dests r)
  case (Cons v row)
  then obtain d ds' where "dests = d # ds'" by (cases dests) auto
  with Cons show ?case by (cases "d v r") (auto simp: on_item_def)
qed simp

lemma Row_Scan_counted:
  assumes "length row = length dests" "- (2 ^ 63) \<le> n" "n < 2 ^ 63"
  shows "Row_Scan (map on_item dests @ [to_total]) (row @ [SqlInt n]) (r, m) = go_bind (Row_Scan dests row r) (\<lambda>r. Inr (r, n))"
  using assms by (simp add: Row_Scan_def scan_each_on_item to_total_def to_int_def)

lemma scan_counted_all:
  assumes "\<And>e. e \<in> set es \<Longrightarrow> go_bind (Row_Scan dests (f e) zero) toEntity = Inr e"
    and "- (2 ^ 63) \<le> n" "n < 2 ^ 63"
  shows "scan_counted dests zero toEntity (map (\<lambda>e. f e @ [SqlInt n]) es) m = Inr (es, if es = [] then m else n)"
  using assms(1)
proof (induction es arbitrary: m)
  case (Cons e es)
  have one: "go_bind (Row_Scan dests (f e) zero) toEntity = Inr e" using Cons.prems by simp
  hence "length (f e) = length dests" by (auto simp: Row_Scan_def split: if_splits)
  with one assms(2,3) Cons.IH [of n] Cons.prems show ?case
    by (auto simp: Row_Scan_counted go_bind_Inr_iff)
qed simp

locale pg_table =
  fixes dests :: "'f \<Rightarrow> 'r dest list" and zero :: 'r and toEntity :: "'r \<Rightarrow> 'e go" and query :: "'f \<Rightarrow> select_builder go"
    and matches :: "'f \<Rightarrow> 'e \<Rightarrow> bool go" and toRow :: "'e \<Rightarrow> row" and table :: string
    and loaded :: "'e \<Rightarrow> bool" and plain :: "'f \<Rightarrow> bool"
  assumes built: "plain f \<Longrightarrow>
      \<exists>s. query f = Inr s \<and> sb_from s = table \<and> sb_joins s = [] \<and> sb_limit s = None \<and> sb_offset s = None \<and>
          (\<forall>e. loaded e \<longrightarrow> matches f e = Inr (sat_all (sb_where s) (toRow e))) \<and>
          (\<forall>e n. loaded e \<longrightarrow>
             go_bind (Row_Scan (dests f) (projected n (sb_columns s) (toRow e)) zero) toEntity = Inr e)"
begin

lemma chosen_rows:
  assumes "postgres_ok S visible pending" "plain f" "table_holds toRow loaded es (visible c table)"
    and "query f = Inr s" "sq_query S s' c = Inr result" "sb_where s' = sb_where s" "sb_from s' = sb_from s" "sb_joins s' = sb_joins s"
  shows "\<exists>es'. mset es' = mset (chosen (matches f) es) \<and> list_all loaded es' \<and>
      result = map (projected (int (length es')) (sb_columns s')) (window s' (map toRow es'))"
proof -
  from built [OF assms(2)] assms(4) have s: "sb_from s = table" "sb_joins s = []"
    and m: "\<And>e. loaded e \<Longrightarrow> matches f e = Inr (sat_all (sb_where s) (toRow e))" by auto
  from assms(3) obtain l: "mset (visible c table) = mset (map toRow es)" "list_all loaded es" by (simp add: table_holds_def)
  from postgres_query [OF assms(1,5)] s assms(6-8) obtain rs where rs:
    "mset rs = mset (filter (sat_all (sb_where s)) (visible c table))"
    "result = map (projected (int (length rs)) (sb_columns s')) (window s' rs)"
    by (auto simp: query_ok_def answers_def)
  have "filter (sat_all (sb_where s)) (map toRow es) = map toRow (chosen (matches f) es)"
    using l(2) by (induction es) (auto simp: chosen_def m)
  with rs(1) l(1) have "mset rs = mset (map toRow (chosen (matches f) es))"
    by (metis mset_filter)
  from map_rows [OF this] obtain es' where "mset es' = mset (chosen (matches f) es)" "rs = map toRow es'" by blast
  moreover have "list_all loaded es'"
    using l(2) mset_eq_setD [OF \<open>mset es' = _\<close>] by (auto simp: list_all_iff chosen_def)
  ultimately show ?thesis using rs(2) by auto
qed

lemma first:
  assumes "postgres_ok S visible pending" "plain f" "table_holds toRow loaded es (visible c table)"
    and "mem = Inr (first_of (chosen (matches f) es))"
  shows "same_first S c (matches f) es (query_first S (dests f) zero toEntity (query f) c) mem"
proof -
  from built [OF assms(2)] obtain s where s: "query f = Inr s" "sb_limit s = None" "sb_offset s = None"
    and scan: "\<And>e n. loaded e \<Longrightarrow> go_bind (Row_Scan (dests f) (projected n (sb_columns s) (toRow e)) zero) toEntity = Inr e"
    by auto
  show ?thesis
  proof (cases "sq_query S (Limit 1 s) c")
    case (Inl e)
    thus ?thesis by (auto simp: query_first_def s(1) same_first_def server_failed_def)
  next
    case (Inr result)
    from chosen_rows [OF assms(1,2,3) s(1) Inr] obtain es' where es':
      "mset es' = mset (chosen (matches f) es)" "list_all loaded es'"
      "result = map (projected (int (length es')) (sb_columns s)) (window (Limit 1 s) (map toRow es'))" by auto
    show ?thesis
    proof (cases es')
      case Nil
      thus ?thesis using es' Inr assms(4) by (simp add: query_first_def s window_def same_first_def first_of_def)
    next
      case (Cons e rest)
      hence e: "e \<in> set (chosen (matches f) es)" "loaded e"
        using es'(2) mset_eq_setD [OF es'(1)] by auto
      hence "query_first S (dests f) zero toEntity (query f) c = Inr (Some e)"
        using es'(3) Cons Inr scan [of e] by (auto simp: query_first_def s window_def Limit_def go_bind_Inr_iff)
      with e assms(4) show ?thesis
        by (cases "chosen (matches f) es") (auto simp: same_first_def first_of_def)
    qed
  qed
qed

lemma all:
  assumes "postgres_ok S visible pending" "plain f" "table_holds toRow loaded es (visible c table)"
    and "mem = Inr (chosen (matches f) es)"
  shows "same_list S c msg (query_list S msg (dests f) zero toEntity (query f) c) mem"
proof -
  from built [OF assms(2)] obtain s where s: "query f = Inr s" "sb_limit s = None" "sb_offset s = None"
    and scan: "\<And>e n. loaded e \<Longrightarrow> go_bind (Row_Scan (dests f) (projected n (sb_columns s) (toRow e)) zero) toEntity = Inr e"
    by auto
  show ?thesis
  proof (cases "sq_query S s c")
    case (Inl e)
    thus ?thesis by (auto simp: query_list_def s(1) same_list_def server_failed_def)
  next
    case (Inr result)
    from chosen_rows [OF assms(1,2,3) s(1) Inr] obtain es' where es':
      "mset es' = mset (chosen (matches f) es)" "list_all loaded es'"
      "result = map (\<lambda>e. projected (int (length es')) (sb_columns s) (toRow e)) es'" by (auto simp: window_def s)
    have "scan_rows (dests f) zero toEntity result = Inr es'"
      unfolding es'(3) by (rule scan_rows_all) (use es'(2) scan in \<open>auto simp: list_all_iff\<close>)
    thus ?thesis using es'(1) assms(4) by (simp add: query_list_def s(1) Inr same_list_def)
  qed
qed

lemma counted:
  assumes "postgres_ok S visible pending" "plain f" "table_holds toRow loaded es (visible c table)"
    and "mem = Inr (chosen (matches f) es, int (length (chosen (matches f) es)))" "int (length es) < 2 ^ 63"
  shows "same_counted S c msg (query_counted S msg (dests f) zero toEntity (query f) c) mem"
proof -
  from built [OF assms(2)] obtain s where s: "query f = Inr s" "sb_limit s = None" "sb_offset s = None"
    and scan: "\<And>e n. loaded e \<Longrightarrow> go_bind (Row_Scan (dests f) (projected n (sb_columns s) (toRow e)) zero) toEntity = Inr e"
    by auto
  let ?s = "SelectMore [''count(*) over()''] s"
  show ?thesis
  proof (cases "sq_query S ?s c")
    case (Inl e)
    thus ?thesis by (auto simp: query_counted_def s(1) same_counted_def server_failed_def)
  next
    case (Inr result)
    from chosen_rows [OF assms(1,2,3) s(1) Inr] obtain es' where es':
      "mset es' = mset (chosen (matches f) es)" "list_all loaded es'"
      "result = map (\<lambda>e. projected (int (length es')) (sb_columns s) (toRow e) @ [SqlInt (int (length es'))]) es'"
      by (auto simp: window_def s)
    have len: "length es' = length (chosen (matches f) es)" using es'(1) by (metis size_mset)
    have "length (chosen (matches f) es) \<le> length es" by (simp add: chosen_def)
    with assms(5) len have n: "int (length es') < 2 ^ 63" by linarith
    have "scan_counted (dests f) zero toEntity result 0 = Inr (es', if es' = [] then 0 else int (length es'))"
      unfolding es'(3) by (rule scan_counted_all) (use es'(2) scan n in \<open>auto simp: list_all_iff\<close>)
    thus ?thesis using es'(1) assms(4) len by (auto simp: query_counted_def s(1) Inr same_counted_def)
  qed
qed

lemma decided:
  assumes "plain f" "table_holds toRow loaded es rows"
  shows "list_all (\<lambda>e. \<exists>b. matches f e = Inr b) es"
  using built [OF assms(1)] assms(2) by (auto simp: table_holds_def list_all_iff)

lemma first_filtered:
  assumes "postgres_ok S visible pending" "plain f" "table_holds toRow loaded (map snd store) (visible c table)"
  shows "same_first S c (matches f) (map snd store) (query_first S (dests f) zero toEntity (query f) c)
     (go_bind (repo_filtered (matches f) store) (\<lambda>items. Inr (first_of items)))"
  by (rule first [OF assms]) (simp add: repo_filtered_def filter_go_chosen [OF decided [OF assms(2,3)]])

lemma first_found:
  assumes "postgres_ok S visible pending" "plain f" "table_holds toRow loaded (map snd store) (visible c table)"
  shows "same_first S c (matches f) (map snd store) (query_first S (dests f) zero toEntity (query f) c)
     (repo_find (matches f) store)"
  by (rule first [OF assms]) (simp add: repo_find_def find_go_chosen [OF decided [OF assms(2,3)]])

lemma all_filtered:
  assumes "postgres_ok S visible pending" "plain f" "table_holds toRow loaded (map snd store) (visible c table)"
  shows "same_list S c msg (query_list S msg (dests f) zero toEntity (query f) c) (repo_filtered (matches f) store)"
  by (rule all [OF assms]) (simp add: repo_filtered_def filter_go_chosen [OF decided [OF assms(2,3)]])

lemma counted_page:
  assumes "postgres_ok S visible pending" "plain f" "table_holds toRow loaded (map snd store) (visible c table)"
    and "PagingInfo_IsZero pg" "int (length store) < 2 ^ 63"
  shows "same_counted S c msg (query_counted S msg (dests f) zero toEntity (query f) c)
     (repo_page pg (repo_filtered (matches f) store))"
  by (rule counted [OF assms(1-3)])
    (use assms(4,5) in \<open>simp_all add: repo_page_def repo_filtered_def filter_go_chosen [OF decided [OF assms(2,3)]]\<close>)

end

section \<open>A table that entities are inserted into\<close>

text \<open>
  \<open>stored x m\<close> is the entity that the row of an insert with version \<open>x\<close> holds; \<open>storable\<close> asks that the times are
  whole microseconds.
\<close>

locale pg_inserts = pg_table +
  fixes insert :: "'c sql_server \<Rightarrow> 'b \<Rightarrow> ('c, 'b) tx" and stored :: "nat \<Rightarrow> 'b \<Rightarrow> 'b" and storable :: "'b \<Rightarrow> bool"
    and byId :: "uuid \<Rightarrow> 'a" and baseOf :: "'b \<Rightarrow> base_model"
  assumes inserts: "storable m \<Longrightarrow> insert S m c = (Inr m', c') \<Longrightarrow>
      \<exists>b x. sq_insert S b c = (Inr x, c') \<and> ib_table b = table \<and> (\<forall>r. inserted_row b x r \<longrightarrow> r = toRow (stored x m))"
    and stored: "storable m \<Longrightarrow> x < 2 ^ 32 \<Longrightarrow> loaded (stored x m)" "bm_id (baseOf (stored x m)) = bm_id (baseOf m)"
    and byId: "plain (byId i)" "matches (byId i) e = Inr (bm_id (baseOf e) = i)"
    and row_id: "toRow e ''id'' = SqlUuid (bm_id (baseOf e))"
begin

lemma holds_inserted:
  assumes "postgres_ok S visible pending" "storable m" "insert S m c = (Inr m', c')"
    and "table_holds toRow loaded es (pending c table)"
  shows "\<exists>x < 2 ^ 32. table_holds toRow loaded (stored x m # es) (pending c' table) \<and>
      bm_id (baseOf m) \<notin> (\<lambda>e. bm_id (baseOf e)) ` set es"
proof -
  from inserts [OF assms(2,3)] obtain b x where b: "sq_insert S b c = (Inr x, c')" "ib_table b = table"
    "\<And>r. inserted_row b x r \<Longrightarrow> r = toRow (stored x m)" by blast
  from postgres_inserted [OF assms(1) b(1)] b(2,3) have x: "x < 2 ^ 32"
    "toRow (stored x m) ''id'' \<notin> (\<lambda>r. r ''id'') ` set (pending c table)"
    "mset (pending c' table) = add_mset (toRow (stored x m)) (mset (pending c table))"
    by (auto simp: insert_ok_def)
  have "set (pending c table) = toRow ` set es"
    using assms(4) by (metis list.set_map mset_eq_setD table_holds_def)
  with x(2) have "bm_id (baseOf m) \<notin> (\<lambda>e. bm_id (baseOf e)) ` set es"
    by (auto simp: row_id stored(2) image_image)
  with x assms(4) stored(1) [OF assms(2)] show ?thesis by (auto simp: table_holds_def)
qed

lemma read_back:
  assumes "postgres_ok S visible pending" "storable m" "insert S m c = (Inr m', c1)" "sq_commit S c1 = (Inr u, c2)"
    and "table_holds toRow loaded es (pending c table)"
    and "query_first S (dests (byId (bm_id (baseOf m)))) zero toEntity (query (byId (bm_id (baseOf m)))) c2 = Inr found"
  shows "\<exists>x < 2 ^ 32. found = Some (stored x m)"
proof -
  let ?f = "byId (bm_id (baseOf m))"
  from holds_inserted [OF assms(1,2,3,5)] obtain x where x: "x < 2 ^ 32"
    "table_holds toRow loaded (stored x m # es) (pending c1 table)" "bm_id (baseOf m) \<notin> (\<lambda>e. bm_id (baseOf e)) ` set es"
    by blast
  have "visible c2 = pending c1" using postgres_commit [OF assms(1,4)] by simp
  with x(2) have h: "table_holds toRow loaded (stored x m # es) (visible c2 table)" by simp
  have "chosen (matches ?f) (stored x m # es) = [stored x m]"
    using x(3) by (auto simp: chosen_def byId(2) stored(2) filter_empty_conv image_iff)
  with first [OF assms(1) byId(1) [of "bm_id (baseOf m)"] h refl] assms(6) x(1) show ?thesis
    by (auto simp: same_first_def first_of_def split: option.splits)
qed

end

end
