(* ===== verification/PgReads.thy ===== *)
theory PgReads
  imports PgTable
begin

text \<open>
  The reads of the repositories on PostgreSQL return the entities that the rows of their table hold and that the
  repositories in memory select. \<open>X_row\<close> is the row of an entity, \<open>X_loaded\<close> says that the entity is one that can
  come from a row, and \<open>X_plain\<close> that both backends understand the filter alike: no search, no paging, and nothing
  that only one of them looks at. The locale \<open>pg_table\<close> is the interface of a table; it is interpreted for each of them.
\<close>

definition selects_all :: "select_builder \<Rightarrow> string \<Rightarrow> bool" where
  "selects_all s table \<longleftrightarrow> sb_from s = table \<and> sb_joins s = [] \<and> sb_limit s = None \<and> sb_offset s = None"

section \<open>Rows\<close>

definition version_number :: "base_model \<Rightarrow> int" where
  "version_number b = (case bm_version b of VersionUint n \<Rightarrow> int n | _ \<Rightarrow> 0)"

definition base_row :: "base_model \<Rightarrow> (string \<times> sql_value) list" where
  "base_row b =
     [(''id'', SqlUuid (bm_id b)), (''audit_created_at'', SqlTime (bm_auditCreatedAt b)),
      (''audit_updated_at'', SqlTime (bm_auditUpdatedAt b)), (''xmin'', SqlInt (version_number b))]"

definition base_loaded :: "base_model \<Rightarrow> bool" where
  "base_loaded b \<longleftrightarrow> (\<exists>n. bm_version b = VersionUint n \<and> n < 2 ^ 64)"

lemma pg_tableI:
  assumes "\<And>f. plain f \<Longrightarrow> \<exists>s. query f = Inr s" "\<And>f. plain f \<Longrightarrow> selects_all (projr (query f)) table"
    and "\<And>f e. plain f \<Longrightarrow> loaded e \<Longrightarrow> matches f e = Inr (sat_all (sb_where (projr (query f))) (toRow e))"
    and "\<And>f e n. plain f \<Longrightarrow> loaded e \<Longrightarrow>
      go_bind (Row_Scan (dests f) (projected n (sb_columns (projr (query f))) (toRow e)) zero) toEntity = Inr e"
  shows "pg_table dests zero toEntity query matches toRow table loaded plain"
  using assms by unfold_locales (fastforce simp: selects_all_def)

lemma details_member:
  "v \<noteq> [] \<Longrightarrow> member_text (SqlJson (Doc (details_json d))) ''kid'' = SqlText v \<longleftrightarrow> detail_kid d = v"
  "v \<noteq> [] \<Longrightarrow> member_text (SqlJson (Doc (details_json d))) ''publicKey'' = SqlText v \<longleftrightarrow> detail_publicKey d = v"
  "v \<noteq> [] \<Longrightarrow> member_text (SqlJson (Doc (details_json d))) ''credentialId'' = SqlText v \<longleftrightarrow> detail_credentialId d = v"
  by (cases d; simp add: member_text_def detail_kid_def detail_publicKey_def detail_credentialId_def)+

lemma credential_type_inj:
  "CredentialType (credential_type_String a) = a \<Longrightarrow> CredentialType (credential_type_String b) = b \<Longrightarrow>
   credential_type_String a = credential_type_String b \<longleftrightarrow> a = b"
  by metis

lemmas table_defs = base_row_def base_loaded_def version_number_def row_of_def column_value_def base_columns_def base_pointers_def
  postgresBaseModel_MapBase_def NewBaseModelFromDB_def Row_Scan_def dest_defs filter_iff or_null_def UnwrapNullString_def

subsection \<open>VirtualServer\<close>

definition VirtualServer_row :: "virtual_server \<Rightarrow> row" where
  "VirtualServer_row m = row_of (base_row (vs_base m) @
     [(''display_name'', SqlText (vs_displayName m)), (''name'', SqlText (vs_name m)),
      (''enable_registration'', SqlBool (vs_enableRegistration m)),
      (''require_2fa'', SqlBool (vs_require2fa m)),
      (''require_email_verification'', SqlBool (vs_requireEmailVerification m)),
      (''primary_signing_algorithm'', SqlText (vs_primarySigningAlgorithm m)),
      (''additional_signing_algorithms'', SqlTexts (vs_additionalSigningAlgorithms m))])"

definition VirtualServer_loaded :: "virtual_server \<Rightarrow> bool" where
  "VirtualServer_loaded m \<longleftrightarrow> base_loaded (vs_base m) \<and>
     vs_changes m = NewChanges"

interpretation pg_virtual_servers: pg_table "\<lambda>_. postgresVirtualServer_pointers" postgresVirtualServer_zero postgresVirtualServer_Map
  PgVirtualServer_selectQuery VirtualServer_matches VirtualServer_row "''virtual_servers''" VirtualServer_loaded "(\<lambda>_. True)"
proof (rule pg_tableI)
  fix f :: virtual_server_filter and m :: virtual_server and n :: int
  assume f: "(\<lambda>_. True) f"
  show "\<exists>s. PgVirtualServer_selectQuery f = Inr s"
    using f by (simp add: PgVirtualServer_selectQuery_def)
  show "selects_all (projr (PgVirtualServer_selectQuery f)) ''virtual_servers''"
    using f by (simp add: PgVirtualServer_selectQuery_def selects_all_def)
  assume m: "VirtualServer_loaded m"
  show "VirtualServer_matches f m = Inr (sat_all (sb_where (projr (PgVirtualServer_selectQuery f))) (VirtualServer_row m))"
    using f m by (auto simp: VirtualServer_row_def VirtualServer_loaded_def PgVirtualServer_selectQuery_def VirtualServer_matches_def table_defs)
  show "go_bind (Row_Scan (postgresVirtualServer_pointers)
      (projected n (sb_columns (projr (PgVirtualServer_selectQuery f))) (VirtualServer_row m)) postgresVirtualServer_zero) postgresVirtualServer_Map = Inr m"
    using f m by (cases m; cases "vs_base m")
      (auto simp: VirtualServer_row_def VirtualServer_loaded_def PgVirtualServer_selectQuery_def postgresVirtualServer_pointers_def postgresVirtualServer_Map_def
        postgresVirtualServer_zero_def NewVirtualServerFromDB_def table_defs split: option.splits)
qed

subsection \<open>User\<close>

definition User_row :: "user \<Rightarrow> row" where
  "User_row m = row_of (base_row (u_base m) @
     [(''virtual_server_id'', (if u_virtualServerId m = uuid_Nil then SqlNull else SqlUuid (u_virtualServerId m))),
      (''display_name'', SqlText (u_displayName m)), (''username'', SqlText (u_username m)),
      (''primary_email'', SqlText (u_primaryEmail m)),
      (''email_verified'', SqlBool (u_emailVerified m)), (''service_user'', SqlBool (u_serviceUser m)),
      (''metadata'', SqlJson (u_metadata m))])"

definition User_loaded :: "user \<Rightarrow> bool" where
  "User_loaded m \<longleftrightarrow> base_loaded (u_base m) \<and>
     u_changes m = NewChanges"

definition User_plain :: "user_filter \<Rightarrow> bool" where
  "User_plain f \<longleftrightarrow> uf_virtualServerId f \<noteq> Some uuid_Nil \<and> PagingInfo_IsZero (uf_paging f) \<and> search_plain (uf_searchFilter f)"

interpretation pg_users: pg_table "postgresUser_pointers" postgresUser_zero postgresUser_Map
  PgUser_selectQuery User_matches User_row "''users''" User_loaded User_plain
proof (rule pg_tableI)
  fix f :: user_filter and m :: user and n :: int
  assume f: "User_plain f"
  show "\<exists>s. PgUser_selectQuery f = Inr s"
    using f by (simp add: PgUser_selectQuery_def User_plain_def)
  show "selects_all (projr (PgUser_selectQuery f)) ''users''"
    using f by (simp add: PgUser_selectQuery_def selects_all_def User_plain_def)
  assume m: "User_loaded m"
  show "User_matches f m = Inr (sat_all (sb_where (projr (PgUser_selectQuery f))) (User_row m))"
    using f m by (cases "uf_searchFilter f") (auto simp: User_row_def User_loaded_def PgUser_selectQuery_def User_matches_def table_defs User_plain_def any_matches_plain simp del: any_matches.simps)
  show "go_bind (Row_Scan (postgresUser_pointers f)
      (projected n (sb_columns (projr (PgUser_selectQuery f))) (User_row m)) postgresUser_zero) postgresUser_Map = Inr m"
    using f m by (cases m; cases "u_base m")
      (auto simp: User_row_def User_loaded_def PgUser_selectQuery_def postgresUser_pointers_def postgresUser_Map_def
        postgresUser_zero_def NewUserFromDB_def table_defs User_plain_def split: option.splits)
qed

subsection \<open>Credential\<close>

definition Credential_row :: "credential \<Rightarrow> row" where
  "Credential_row m = row_of (base_row (cr_base m) @
     [(''user_id'', SqlUuid (cr_userId m)), (''type'', SqlText (credential_type_String (cr_type m))),
      (''details'', SqlJson (Doc (details_json (cr_details m))))])"

definition Credential_loaded :: "credential \<Rightarrow> bool" where
  "Credential_loaded m \<longleftrightarrow> base_loaded (cr_base m) \<and>
     cr_changes m = NewChanges \<and>
     CredentialType (credential_type_String (cr_type m)) = cr_type m \<and>
     Unmarshal_details (cr_type m) (Doc (details_json (cr_details m))) = Inr (cr_details m)"

definition Credential_plain :: "credential_filter \<Rightarrow> bool" where
  "Credential_plain f \<longleftrightarrow> (\<forall>ty. crf_type f = Some ty \<longrightarrow> CredentialType (credential_type_String ty) = ty) \<and> crf_detailKid f \<noteq> Some [] \<and> crf_detailPublicKey f \<noteq> Some [] \<and> crf_detailId f \<noteq> Some []"

interpretation pg_credentials: pg_table "\<lambda>_. postgresCredential_pointers" postgresCredential_zero postgresCredential_Map
  PgCredential_selectQuery Credential_matches Credential_row "''credentials''" Credential_loaded Credential_plain
proof (rule pg_tableI)
  fix f :: credential_filter and m :: credential and n :: int
  assume f: "Credential_plain f"
  show "\<exists>s. PgCredential_selectQuery f = Inr s"
    using f by (simp add: PgCredential_selectQuery_def Credential_plain_def)
  show "selects_all (projr (PgCredential_selectQuery f)) ''credentials''"
    using f by (simp add: PgCredential_selectQuery_def selects_all_def Credential_plain_def)
  assume m: "Credential_loaded m"
  show "Credential_matches f m = Inr (sat_all (sb_where (projr (PgCredential_selectQuery f))) (Credential_row m))"
    using f m by (auto simp: Credential_row_def Credential_loaded_def PgCredential_selectQuery_def Credential_matches_def table_defs Credential_plain_def member_column_def details_member credential_type_inj)
  show "go_bind (Row_Scan (postgresCredential_pointers)
      (projected n (sb_columns (projr (PgCredential_selectQuery f))) (Credential_row m)) postgresCredential_zero) postgresCredential_Map = Inr m"
    using f m by (cases m; cases "cr_base m")
      (auto simp: Credential_row_def Credential_loaded_def PgCredential_selectQuery_def postgresCredential_pointers_def postgresCredential_Map_def
        postgresCredential_zero_def NewCredentialFromDB_def table_defs Credential_plain_def split: option.splits)
qed

interpretation pg_listed_credentials: pg_table "\<lambda>_. postgresCredential_pointers" postgresCredential_zero "\<lambda>r. wrap ''mapping credential'' (postgresCredential_Map r)"
  PgCredential_selectQuery Credential_matches Credential_row "''credentials''" Credential_loaded Credential_plain
proof (rule pg_tableI)
  fix f :: credential_filter and m :: credential and n :: int
  assume f: "Credential_plain f"
  show "\<exists>s. PgCredential_selectQuery f = Inr s"
    using f by (simp add: PgCredential_selectQuery_def Credential_plain_def)
  show "selects_all (projr (PgCredential_selectQuery f)) ''credentials''"
    using f by (simp add: PgCredential_selectQuery_def selects_all_def Credential_plain_def)
  assume m: "Credential_loaded m"
  show "Credential_matches f m = Inr (sat_all (sb_where (projr (PgCredential_selectQuery f))) (Credential_row m))"
    using f m by (auto simp: Credential_row_def Credential_loaded_def PgCredential_selectQuery_def Credential_matches_def table_defs Credential_plain_def member_column_def details_member credential_type_inj)
  show "go_bind (Row_Scan (postgresCredential_pointers)
      (projected n (sb_columns (projr (PgCredential_selectQuery f))) (Credential_row m)) postgresCredential_zero) (\<lambda>r. wrap ''mapping credential'' (postgresCredential_Map r)) = Inr m"
    using f m by (cases m; cases "cr_base m")
      (auto simp: Credential_row_def Credential_loaded_def PgCredential_selectQuery_def postgresCredential_pointers_def postgresCredential_Map_def
        postgresCredential_zero_def NewCredentialFromDB_def table_defs Credential_plain_def split: option.splits)
qed

subsection \<open>Session\<close>

definition Session_row :: "session \<Rightarrow> row" where
  "Session_row m = row_of (base_row (se_base m) @
     [(''virtual_server_id'', SqlUuid (se_virtualServerId m)), (''user_id'', SqlUuid (se_userId m)),
      (''hashed_token'', SqlText (se_hashedToken m)), (''expires_at'', SqlTime (se_expiresAt m)),
      (''last_used_at'', or_null SqlTime (se_lastUsedAt m))])"

definition Session_loaded :: "session \<Rightarrow> bool" where
  "Session_loaded m \<longleftrightarrow> base_loaded (se_base m) \<and>
     se_changes m = NewChanges"

interpretation pg_sessions: pg_table "\<lambda>_. postgresSession_pointers" postgresSession_zero postgresSession_Map
  PgSession_selectQuery Session_matches Session_row "''sessions''" Session_loaded "(\<lambda>_. True)"
proof (rule pg_tableI)
  fix f :: session_filter and m :: session and n :: int
  assume f: "(\<lambda>_. True) f"
  show "\<exists>s. PgSession_selectQuery f = Inr s"
    using f by (simp add: PgSession_selectQuery_def)
  show "selects_all (projr (PgSession_selectQuery f)) ''sessions''"
    using f by (simp add: PgSession_selectQuery_def selects_all_def)
  assume m: "Session_loaded m"
  show "Session_matches f m = Inr (sat_all (sb_where (projr (PgSession_selectQuery f))) (Session_row m))"
    using f m by (auto simp: Session_row_def Session_loaded_def PgSession_selectQuery_def Session_matches_def table_defs)
  show "go_bind (Row_Scan (postgresSession_pointers)
      (projected n (sb_columns (projr (PgSession_selectQuery f))) (Session_row m)) postgresSession_zero) postgresSession_Map = Inr m"
    using f m by (cases m; cases "se_base m")
      (auto simp: Session_row_def Session_loaded_def PgSession_selectQuery_def postgresSession_pointers_def postgresSession_Map_def
        postgresSession_zero_def NewSessionFromDB_def table_defs split: option.splits)
qed

subsection \<open>Application\<close>

definition Application_row :: "application \<Rightarrow> row" where
  "Application_row m = row_of (base_row (app_base m) @
     [(''virtual_server_id'', SqlUuid (app_virtualServerId m)),
      (''project_id'', SqlUuid (app_projectId m)), (''name'', SqlText (app_name m)),
      (''display_name'', SqlText (app_displayName m)),
      (''type'', SqlText (application_type_String (app_type m))),
      (''hashed_secret'', SqlText (app_hashedSecret m)),
      (''redirect_uris'', SqlTexts (app_redirectUris m)),
      (''post_logout_redirect_uris'', SqlTexts (app_postLogoutRedirectUris m)),
      (''system_application'', SqlBool (app_systemApplication m)),
      (''claims_mapping_script'', or_null SqlText (app_claimsMappingScript m)),
      (''access_token_header_type'', SqlText (app_accessTokenHeaderType m)),
      (''device_flow_enabled'', SqlBool (app_deviceFlowEnabled m)),
      (''signing_algorithm'', or_null SqlText (app_signingAlgorithm m))])"

definition Application_loaded :: "application \<Rightarrow> bool" where
  "Application_loaded m \<longleftrightarrow> base_loaded (app_base m) \<and>
     app_changes m = NewChanges \<and>
     ApplicationType (application_type_String (app_type m)) = app_type m"

definition Application_plain :: "application_filter \<Rightarrow> bool" where
  "Application_plain f \<longleftrightarrow> PagingInfo_IsZero (appf_paging f) \<and> search_plain (appf_searchFilter f)"

interpretation pg_applications: pg_table "\<lambda>_. postgresApplication_pointers" postgresApplication_zero postgresApplication_Map
  PgApplication_selectQuery Application_matches Application_row "''applications''" Application_loaded Application_plain
proof (rule pg_tableI)
  fix f :: application_filter and m :: application and n :: int
  assume f: "Application_plain f"
  show "\<exists>s. PgApplication_selectQuery f = Inr s"
    using f by (simp add: PgApplication_selectQuery_def Application_plain_def)
  show "selects_all (projr (PgApplication_selectQuery f)) ''applications''"
    using f by (simp add: PgApplication_selectQuery_def selects_all_def Application_plain_def)
  assume m: "Application_loaded m"
  show "Application_matches f m = Inr (sat_all (sb_where (projr (PgApplication_selectQuery f))) (Application_row m))"
    using f m by (cases "appf_searchFilter f") (auto simp: Application_row_def Application_loaded_def PgApplication_selectQuery_def Application_matches_def table_defs Application_plain_def any_matches_plain simp del: any_matches.simps)
  show "go_bind (Row_Scan (postgresApplication_pointers)
      (projected n (sb_columns (projr (PgApplication_selectQuery f))) (Application_row m)) postgresApplication_zero) postgresApplication_Map = Inr m"
    using f m by (cases m; cases "app_base m")
      (auto simp: Application_row_def Application_loaded_def PgApplication_selectQuery_def postgresApplication_pointers_def postgresApplication_Map_def
        postgresApplication_zero_def NewApplicationFromDB_def table_defs Application_plain_def split: option.splits)
qed

subsection \<open>Project\<close>

definition Project_row :: "project \<Rightarrow> row" where
  "Project_row m = row_of (base_row (p_base m) @
     [(''virtual_server_id'', SqlUuid (p_virtualServerId m)), (''slug'', SqlText (p_slug m)),
      (''name'', SqlText (p_name m)), (''description'', SqlText (p_description m)),
      (''system_project'', SqlBool (p_systemProject m))])"

definition Project_loaded :: "project \<Rightarrow> bool" where
  "Project_loaded m \<longleftrightarrow> base_loaded (p_base m) \<and>
     p_changes m = NewChanges"

definition Project_plain :: "project_filter \<Rightarrow> bool" where
  "Project_plain f \<longleftrightarrow> PagingInfo_IsZero (pf_paging f) \<and> pf_searchFilter f = None"

interpretation pg_projects: pg_table "\<lambda>_. postgresProject_pointers" postgresProject_zero postgresProject_Map
  PgProject_selectQuery Project_matches Project_row "''projects''" Project_loaded Project_plain
proof (rule pg_tableI)
  fix f :: project_filter and m :: project and n :: int
  assume f: "Project_plain f"
  show "\<exists>s. PgProject_selectQuery f = Inr s"
    using f by (simp add: PgProject_selectQuery_def Project_plain_def)
  show "selects_all (projr (PgProject_selectQuery f)) ''projects''"
    using f by (simp add: PgProject_selectQuery_def selects_all_def Project_plain_def)
  assume m: "Project_loaded m"
  show "Project_matches f m = Inr (sat_all (sb_where (projr (PgProject_selectQuery f))) (Project_row m))"
    using f m by (auto simp: Project_row_def Project_loaded_def PgProject_selectQuery_def Project_matches_def table_defs Project_plain_def)
  show "go_bind (Row_Scan (postgresProject_pointers)
      (projected n (sb_columns (projr (PgProject_selectQuery f))) (Project_row m)) postgresProject_zero) postgresProject_Map = Inr m"
    using f m by (cases m; cases "p_base m")
      (auto simp: Project_row_def Project_loaded_def PgProject_selectQuery_def postgresProject_pointers_def postgresProject_Map_def
        postgresProject_zero_def NewProjectFromDB_def table_defs Project_plain_def split: option.splits)
qed

subsection \<open>Role\<close>

definition Role_row :: "role \<Rightarrow> row" where
  "Role_row m = row_of (base_row (ro_base m) @
     [(''virtual_server_id'', SqlUuid (ro_virtualServerId m)),
      (''project_id'', SqlUuid (ro_projectId m)), (''name'', SqlText (ro_name m)),
      (''description'', SqlText (ro_description m))])"

definition Role_loaded :: "role \<Rightarrow> bool" where
  "Role_loaded m \<longleftrightarrow> base_loaded (ro_base m) \<and>
     ro_changes m = NewChanges"

definition Role_plain :: "role_filter \<Rightarrow> bool" where
  "Role_plain f \<longleftrightarrow> PagingInfo_IsZero (rof_paging f) \<and> rof_searchFilter f = None"

interpretation pg_roles: pg_table "\<lambda>_. postgresRole_pointers" postgresRole_zero postgresRole_Map
  PgRole_selectQuery Role_matches Role_row "''roles''" Role_loaded Role_plain
proof (rule pg_tableI)
  fix f :: role_filter and m :: role and n :: int
  assume f: "Role_plain f"
  show "\<exists>s. PgRole_selectQuery f = Inr s"
    using f by (simp add: PgRole_selectQuery_def Role_plain_def)
  show "selects_all (projr (PgRole_selectQuery f)) ''roles''"
    using f by (simp add: PgRole_selectQuery_def selects_all_def Role_plain_def)
  assume m: "Role_loaded m"
  show "Role_matches f m = Inr (sat_all (sb_where (projr (PgRole_selectQuery f))) (Role_row m))"
    using f m by (auto simp: Role_row_def Role_loaded_def PgRole_selectQuery_def Role_matches_def table_defs Role_plain_def)
  show "go_bind (Row_Scan (postgresRole_pointers)
      (projected n (sb_columns (projr (PgRole_selectQuery f))) (Role_row m)) postgresRole_zero) postgresRole_Map = Inr m"
    using f m by (cases m; cases "ro_base m")
      (auto simp: Role_row_def Role_loaded_def PgRole_selectQuery_def postgresRole_pointers_def postgresRole_Map_def
        postgresRole_zero_def NewRoleFromDB_def table_defs Role_plain_def split: option.splits)
qed

subsection \<open>Group\<close>

definition Group_row :: "group \<Rightarrow> row" where
  "Group_row m = row_of (base_row (gr_base m) @
     [(''virtual_server_id'', SqlUuid (gr_virtualServerId m)), (''name'', SqlText (gr_name m)),
      (''description'', SqlText (gr_description m))])"

definition Group_loaded :: "group \<Rightarrow> bool" where
  "Group_loaded m \<longleftrightarrow> base_loaded (gr_base m) \<and>
     gr_changes m = NewChanges"

definition Group_plain :: "group_filter \<Rightarrow> bool" where
  "Group_plain f \<longleftrightarrow> PagingInfo_IsZero (grf_paging f) \<and> grf_searchFilter f = None"

interpretation pg_groups: pg_table "\<lambda>_. postgresGroup_pointers" postgresGroup_zero postgresGroup_Map
  PgGroup_selectQuery Group_matches Group_row "''groups''" Group_loaded Group_plain
proof (rule pg_tableI)
  fix f :: group_filter and m :: group and n :: int
  assume f: "Group_plain f"
  show "\<exists>s. PgGroup_selectQuery f = Inr s"
    using f by (simp add: PgGroup_selectQuery_def Group_plain_def)
  show "selects_all (projr (PgGroup_selectQuery f)) ''groups''"
    using f by (simp add: PgGroup_selectQuery_def selects_all_def Group_plain_def)
  assume m: "Group_loaded m"
  show "Group_matches f m = Inr (sat_all (sb_where (projr (PgGroup_selectQuery f))) (Group_row m))"
    using f m by (auto simp: Group_row_def Group_loaded_def PgGroup_selectQuery_def Group_matches_def table_defs Group_plain_def)
  show "go_bind (Row_Scan (postgresGroup_pointers)
      (projected n (sb_columns (projr (PgGroup_selectQuery f))) (Group_row m)) postgresGroup_zero) postgresGroup_Map = Inr m"
    using f m by (cases m; cases "gr_base m")
      (auto simp: Group_row_def Group_loaded_def PgGroup_selectQuery_def postgresGroup_pointers_def postgresGroup_Map_def
        postgresGroup_zero_def NewGroupFromDB_def table_defs Group_plain_def split: option.splits)
qed

subsection \<open>ResourceServer\<close>

definition ResourceServer_row :: "resource_server \<Rightarrow> row" where
  "ResourceServer_row m = row_of (base_row (rs_base m) @
     [(''virtual_server_id'', SqlUuid (rs_virtualServerId m)),
      (''project_id'', SqlUuid (rs_projectId m)), (''slug'', SqlText (rs_slug m)),
      (''name'', SqlText (rs_name m)), (''description'', SqlText (rs_description m))])"

definition ResourceServer_loaded :: "resource_server \<Rightarrow> bool" where
  "ResourceServer_loaded m \<longleftrightarrow> base_loaded (rs_base m) \<and>
     rs_changes m = NewChanges"

definition ResourceServer_plain :: "resource_server_filter \<Rightarrow> bool" where
  "ResourceServer_plain f \<longleftrightarrow> PagingInfo_IsZero (rsf_paging f) \<and> rsf_searchFilter f = None \<and> rsf_slug f = None"

interpretation pg_resource_servers: pg_table "\<lambda>_. postgresResourceServer_pointers" postgresResourceServer_zero postgresResourceServer_Map
  PgResourceServer_selectQuery ResourceServer_matches ResourceServer_row "''resource_servers''" ResourceServer_loaded ResourceServer_plain
proof (rule pg_tableI)
  fix f :: resource_server_filter and m :: resource_server and n :: int
  assume f: "ResourceServer_plain f"
  show "\<exists>s. PgResourceServer_selectQuery f = Inr s"
    using f by (simp add: PgResourceServer_selectQuery_def ResourceServer_plain_def)
  show "selects_all (projr (PgResourceServer_selectQuery f)) ''resource_servers''"
    using f by (simp add: PgResourceServer_selectQuery_def selects_all_def ResourceServer_plain_def)
  assume m: "ResourceServer_loaded m"
  show "ResourceServer_matches f m = Inr (sat_all (sb_where (projr (PgResourceServer_selectQuery f))) (ResourceServer_row m))"
    using f m by (auto simp: ResourceServer_row_def ResourceServer_loaded_def PgResourceServer_selectQuery_def ResourceServer_matches_def table_defs ResourceServer_plain_def)
  show "go_bind (Row_Scan (postgresResourceServer_pointers)
      (projected n (sb_columns (projr (PgResourceServer_selectQuery f))) (ResourceServer_row m)) postgresResourceServer_zero) postgresResourceServer_Map = Inr m"
    using f m by (cases m; cases "rs_base m")
      (auto simp: ResourceServer_row_def ResourceServer_loaded_def PgResourceServer_selectQuery_def postgresResourceServer_pointers_def postgresResourceServer_Map_def
        postgresResourceServer_zero_def NewResourceServerFromDB_def table_defs ResourceServer_plain_def split: option.splits)
qed

subsection \<open>Template\<close>

definition Template_row :: "template \<Rightarrow> row" where
  "Template_row m = row_of (base_row (te_base m) @
     [(''virtual_server_id'', SqlUuid (te_virtualServerId m)), (''file_id'', SqlUuid (te_fileId m)),
      (''type'', SqlText (te_templateType m))])"

definition Template_loaded :: "template \<Rightarrow> bool" where
  "Template_loaded m \<longleftrightarrow> base_loaded (te_base m)"

definition Template_plain :: "template_filter \<Rightarrow> bool" where
  "Template_plain f \<longleftrightarrow> PagingInfo_IsZero (tef_paging f) \<and> tef_searchFilter f = None"

interpretation pg_templates: pg_table "\<lambda>_. postgresTemplate_pointers" postgresTemplate_zero postgresTemplate_Map
  PgTemplate_selectQuery Template_matches Template_row "''templates''" Template_loaded Template_plain
proof (rule pg_tableI)
  fix f :: template_filter and m :: template and n :: int
  assume f: "Template_plain f"
  show "\<exists>s. PgTemplate_selectQuery f = Inr s"
    using f by (simp add: PgTemplate_selectQuery_def Template_plain_def)
  show "selects_all (projr (PgTemplate_selectQuery f)) ''templates''"
    using f by (simp add: PgTemplate_selectQuery_def selects_all_def Template_plain_def)
  assume m: "Template_loaded m"
  show "Template_matches f m = Inr (sat_all (sb_where (projr (PgTemplate_selectQuery f))) (Template_row m))"
    using f m by (auto simp: Template_row_def Template_loaded_def PgTemplate_selectQuery_def Template_matches_def table_defs Template_plain_def)
  show "go_bind (Row_Scan (postgresTemplate_pointers)
      (projected n (sb_columns (projr (PgTemplate_selectQuery f))) (Template_row m)) postgresTemplate_zero) postgresTemplate_Map = Inr m"
    using f m by (cases m; cases "te_base m")
      (auto simp: Template_row_def Template_loaded_def PgTemplate_selectQuery_def postgresTemplate_pointers_def postgresTemplate_Map_def
        postgresTemplate_zero_def NewTemplateFromDB_def table_defs Template_plain_def split: option.splits)
qed

subsection \<open>File\<close>

definition File_row :: "file_entity \<Rightarrow> row" where
  "File_row m = row_of (base_row (fi_base m) @
     [(''name'', SqlText (fi_name m)), (''mime_type'', SqlText (fi_mimeType m)),
      (''content'', SqlBytes (fi_content m))])"

definition File_loaded :: "file_entity \<Rightarrow> bool" where
  "File_loaded m \<longleftrightarrow> base_loaded (fi_base m)"

interpretation pg_file_entitys: pg_table "\<lambda>_. postgresFile_pointers" postgresFile_zero postgresFile_Map
  PgFile_selectQuery File_matches File_row "''files''" File_loaded "(\<lambda>_. True)"
proof (rule pg_tableI)
  fix f :: file_entity_filter and m :: file_entity and n :: int
  assume f: "(\<lambda>_. True) f"
  show "\<exists>s. PgFile_selectQuery f = Inr s"
    using f by (simp add: PgFile_selectQuery_def)
  show "selects_all (projr (PgFile_selectQuery f)) ''files''"
    using f by (simp add: PgFile_selectQuery_def selects_all_def)
  assume m: "File_loaded m"
  show "File_matches f m = Inr (sat_all (sb_where (projr (PgFile_selectQuery f))) (File_row m))"
    using f m by (auto simp: File_row_def File_loaded_def PgFile_selectQuery_def File_matches_def table_defs)
  show "go_bind (Row_Scan (postgresFile_pointers)
      (projected n (sb_columns (projr (PgFile_selectQuery f))) (File_row m)) postgresFile_zero) postgresFile_Map = Inr m"
    using f m by (cases m; cases "fi_base m")
      (auto simp: File_row_def File_loaded_def PgFile_selectQuery_def postgresFile_pointers_def postgresFile_Map_def
        postgresFile_zero_def NewFileFromDB_def table_defs split: option.splits)
qed

subsection \<open>ApplicationUserMetadata\<close>

definition ApplicationUserMetadata_row :: "application_user_metadata \<Rightarrow> row" where
  "ApplicationUserMetadata_row m = row_of (base_row (aum_base m) @
     [(''application_id'', SqlUuid (aum_applicationId m)), (''user_id'', SqlUuid (aum_userId m)),
      (''metadata'', SqlJson (aum_metadata m))])"

definition ApplicationUserMetadata_loaded :: "application_user_metadata \<Rightarrow> bool" where
  "ApplicationUserMetadata_loaded m \<longleftrightarrow> base_loaded (aum_base m) \<and>
     aum_changes m = NewChanges"

definition ApplicationUserMetadata_plain :: "application_user_metadata_filter \<Rightarrow> bool" where
  "ApplicationUserMetadata_plain f \<longleftrightarrow> aumf_applicationIds f = None"

interpretation pg_application_user_metadatas: pg_table "\<lambda>_. postgresApplicationUserMetadata_pointers" postgresApplicationUserMetadata_zero postgresApplicationUserMetadata_Map
  PgApplicationUserMetadata_selectQuery ApplicationUserMetadata_matches ApplicationUserMetadata_row "''application_user_metadata''" ApplicationUserMetadata_loaded ApplicationUserMetadata_plain
proof (rule pg_tableI)
  fix f :: application_user_metadata_filter and m :: application_user_metadata and n :: int
  assume f: "ApplicationUserMetadata_plain f"
  show "\<exists>s. PgApplicationUserMetadata_selectQuery f = Inr s"
    using f by (simp add: PgApplicationUserMetadata_selectQuery_def ApplicationUserMetadata_plain_def)
  show "selects_all (projr (PgApplicationUserMetadata_selectQuery f)) ''application_user_metadata''"
    using f by (simp add: PgApplicationUserMetadata_selectQuery_def selects_all_def ApplicationUserMetadata_plain_def)
  assume m: "ApplicationUserMetadata_loaded m"
  show "ApplicationUserMetadata_matches f m = Inr (sat_all (sb_where (projr (PgApplicationUserMetadata_selectQuery f))) (ApplicationUserMetadata_row m))"
    using f m by (auto simp: ApplicationUserMetadata_row_def ApplicationUserMetadata_loaded_def PgApplicationUserMetadata_selectQuery_def ApplicationUserMetadata_matches_def table_defs ApplicationUserMetadata_plain_def)
  show "go_bind (Row_Scan (postgresApplicationUserMetadata_pointers)
      (projected n (sb_columns (projr (PgApplicationUserMetadata_selectQuery f))) (ApplicationUserMetadata_row m)) postgresApplicationUserMetadata_zero) postgresApplicationUserMetadata_Map = Inr m"
    using f m by (cases m; cases "aum_base m")
      (auto simp: ApplicationUserMetadata_row_def ApplicationUserMetadata_loaded_def PgApplicationUserMetadata_selectQuery_def postgresApplicationUserMetadata_pointers_def postgresApplicationUserMetadata_Map_def
        postgresApplicationUserMetadata_zero_def NewApplicationUserMetadataFromDB_def table_defs ApplicationUserMetadata_plain_def split: option.splits)
qed

subsection \<open>OutboxMessage\<close>

definition OutboxMessage_row :: "outbox_message \<Rightarrow> row" where
  "OutboxMessage_row m = row_of (base_row (ob_base m) @
     [(''type'', SqlText (ob_type m)), (''details'', SqlJson (ob_details m))])"

definition OutboxMessage_loaded :: "outbox_message \<Rightarrow> bool" where
  "OutboxMessage_loaded m \<longleftrightarrow> base_loaded (ob_base m)"

interpretation pg_outbox_messages: pg_table "\<lambda>_. postgresOutboxMessage_pointers" postgresOutboxMessage_zero postgresOutboxMessage_Map
  PgOutboxMessage_selectQuery OutboxMessage_matches OutboxMessage_row "''outbox_messages''" OutboxMessage_loaded "(\<lambda>_. True)"
proof (rule pg_tableI)
  fix f :: outbox_message_filter and m :: outbox_message and n :: int
  assume f: "(\<lambda>_. True) f"
  show "\<exists>s. PgOutboxMessage_selectQuery f = Inr s"
    using f by (simp add: PgOutboxMessage_selectQuery_def)
  show "selects_all (projr (PgOutboxMessage_selectQuery f)) ''outbox_messages''"
    using f by (simp add: PgOutboxMessage_selectQuery_def selects_all_def)
  assume m: "OutboxMessage_loaded m"
  show "OutboxMessage_matches f m = Inr (sat_all (sb_where (projr (PgOutboxMessage_selectQuery f))) (OutboxMessage_row m))"
    using f m by (auto simp: OutboxMessage_row_def OutboxMessage_loaded_def PgOutboxMessage_selectQuery_def OutboxMessage_matches_def table_defs)
  show "go_bind (Row_Scan (postgresOutboxMessage_pointers)
      (projected n (sb_columns (projr (PgOutboxMessage_selectQuery f))) (OutboxMessage_row m)) postgresOutboxMessage_zero) postgresOutboxMessage_Map = Inr m"
    using f m by (cases m; cases "ob_base m")
      (auto simp: OutboxMessage_row_def OutboxMessage_loaded_def PgOutboxMessage_selectQuery_def postgresOutboxMessage_pointers_def postgresOutboxMessage_Map_def
        postgresOutboxMessage_zero_def NewOutboxMessageFromDB_def table_defs split: option.splits)
qed

subsection \<open>AuditLog\<close>

definition AuditLog_row :: "audit_log \<Rightarrow> row" where
  "AuditLog_row m = row_of (base_row (al_base m) @
     [(''virtual_server_id'', SqlUuid (al_virtualServerId m)),
      (''user_id'', or_null SqlUuid (al_userId m)), (''request_type'', SqlText (al_requestType m)),
      (''request'', SqlJson (al_request m)), (''response'', or_null SqlJson (al_response m)),
      (''allowed'', SqlBool (al_allowed m)),
      (''allow_reason_type'', or_null SqlText (al_allowReasonType m)),
      (''allow_reason'', or_null SqlJson (al_allowReason m))])"

definition AuditLog_loaded :: "audit_log \<Rightarrow> bool" where
  "AuditLog_loaded m \<longleftrightarrow> base_loaded (al_base m)"

definition AuditLog_plain :: "audit_log_filter \<Rightarrow> bool" where
  "AuditLog_plain f \<longleftrightarrow> PagingInfo_IsZero (alf_paging f)"

interpretation pg_audit_logs: pg_table "\<lambda>_. postgresAuditLog_pointers" postgresAuditLog_zero postgresAuditLog_Map
  PgAuditLog_selectQuery AuditLog_matches AuditLog_row "''audit_logs''" AuditLog_loaded AuditLog_plain
proof (rule pg_tableI)
  fix f :: audit_log_filter and m :: audit_log and n :: int
  assume f: "AuditLog_plain f"
  show "\<exists>s. PgAuditLog_selectQuery f = Inr s"
    using f by (simp add: PgAuditLog_selectQuery_def AuditLog_plain_def)
  show "selects_all (projr (PgAuditLog_selectQuery f)) ''audit_logs''"
    using f by (simp add: PgAuditLog_selectQuery_def selects_all_def AuditLog_plain_def)
  assume m: "AuditLog_loaded m"
  show "AuditLog_matches f m = Inr (sat_all (sb_where (projr (PgAuditLog_selectQuery f))) (AuditLog_row m))"
    using f m by (auto simp: AuditLog_row_def AuditLog_loaded_def PgAuditLog_selectQuery_def AuditLog_matches_def table_defs AuditLog_plain_def split: option.splits)
  show "go_bind (Row_Scan (postgresAuditLog_pointers)
      (projected n (sb_columns (projr (PgAuditLog_selectQuery f))) (AuditLog_row m)) postgresAuditLog_zero) postgresAuditLog_Map = Inr m"
    using f m by (cases m; cases "al_base m")
      (auto simp: AuditLog_row_def AuditLog_loaded_def PgAuditLog_selectQuery_def postgresAuditLog_pointers_def postgresAuditLog_Map_def
        postgresAuditLog_zero_def NewAuditLogFromDB_def table_defs AuditLog_plain_def split: option.splits)
qed

end
