(* ===== verification/PgStored.thy ===== *)
theory PgStored
  imports PgReads
begin

text \<open>
  What an insert writes is what a read by its identifier returns. The one exception is a setting of virtual servers,
  which the insert leaves to the default of its column.
\<close>

lemma map_of_zip_None: "length xs = length ys \<Longrightarrow> map_of (zip xs ys) x = None \<longleftrightarrow> x \<notin> set xs"
  by (induction xs ys rule: list_induct2) auto

lemma inserted_is:
  assumes "inserted_row b x r" "list_all kept (ib_values b)" "length (ib_columns b) = length (ib_values b)"
    and "\<And>column. column \<notin> set (ib_columns b) \<Longrightarrow> column_default (ib_table b) column = row_of extra column"
    and "''xmin'' \<notin> set (ib_columns b)"
  shows "r = row_of ((''xmin'', SqlInt (int x)) # zip (ib_columns b) (ib_values b) @ extra)"
proof
  fix column
  show "r column = row_of ((''xmin'', SqlInt (int x)) # zip (ib_columns b) (ib_values b) @ extra) column"
  proof (cases "column = ''xmin''")
    case True
    thus ?thesis using assms(1) by (simp add: inserted_row_def row_of_def)
  next
    case False
    show ?thesis
    proof (cases "map_of (zip (ib_columns b) (ib_values b)) column")
      case None
      hence "column_default (ib_table b) column = row_of extra column"
        using assms(4) map_of_zip_None [OF assms(3)] by blast
      with None False assms(1) show ?thesis
        by (auto simp: inserted_row_def row_of_def map_add_def dest!: spec [of _ column])
    next
      case (Some v)
      hence "kept v" using assms(2) by (metis in_set_zipE list_all_iff map_of_SomeD)
      with False Some assms(1) show ?thesis
        by (auto simp: inserted_row_def row_of_def map_add_def dest!: spec [of _ column])
    qed
  qed
qed

lemma row_of_cong: "distinct (map fst xs) \<Longrightarrow> distinct (map fst ys) \<Longrightarrow> set xs = set ys \<Longrightarrow> row_of xs = row_of ys"
  using map_of_inject_set [of xs ys] by (simp add: row_of_def fun_eq_iff)

lemma null_text_Wrap [simp]: "null_text (WrapStringPointer e v) = or_null SqlText v"
  by (simp add: null_text_def WrapStringPointer_def or_null_def split: option.splits)

lemmas insert_defs = inserted_base_def base_values_def base_row_def version_number_def

definition VirtualServer_storable :: "virtual_server \<Rightarrow> bool" where
  "VirtualServer_storable m \<longleftrightarrow>
     bm_auditCreatedAt (vs_base m) mod 1000 = 0 \<and> bm_auditUpdatedAt (vs_base m) mod 1000 = 0"

definition VirtualServer_stored :: "nat \<Rightarrow> virtual_server \<Rightarrow> virtual_server" where
  "VirtualServer_stored x m = m\<lparr>vs_base := SetVersion (VersionUint x) (vs_base m), vs_changes := NewChanges, vs_requireEmailVerification := True\<rparr>"

abbreviation VirtualServer_insert :: "postgresVirtualServer \<Rightarrow> insert_builder" where
  "VirtualServer_insert mapped \<equiv>
      \<lparr>ib_table = ''virtual_servers'',
       ib_columns = inserted_base @ [''name'', ''display_name'', ''enable_registration'', ''require_2fa'', ''primary_signing_algorithm'',
       ''additional_signing_algorithms''],
       ib_values = base_values mapped @
       [SqlText (pgvs_name mapped), SqlText (pgvs_displayName mapped),
       SqlBool (pgvs_enableRegistration mapped), SqlBool (pgvs_require2fa mapped),
       SqlText (pgvs_primarySigningAlgorithm mapped), SqlTexts (pgvs_additionalSigningAlgorithms mapped)]\<rparr>"

lemma VirtualServer_inserted_row:
  assumes "mapVirtualServer m = Inr mapped" "VirtualServer_storable m" "inserted_row (VirtualServer_insert mapped) x r"
  shows "r = VirtualServer_row (VirtualServer_stored x m)"
proof (rule trans [OF inserted_is [OF assms(3), where extra = "[(''require_email_verification'', SqlBool True)]"]])
  have mapped: "pb_id mapped = bm_id (vs_base m)"
    "pb_auditCreatedAt mapped = bm_auditCreatedAt (vs_base m)"
    "pb_auditUpdatedAt mapped = bm_auditUpdatedAt (vs_base m)"
    "pgvs_displayName mapped = vs_displayName m"
    "pgvs_name mapped = vs_name m"
    "pgvs_enableRegistration mapped = vs_enableRegistration m"
    "pgvs_require2fa mapped = vs_require2fa m"
    "pgvs_requireEmailVerification mapped = vs_requireEmailVerification m"
    "pgvs_primarySigningAlgorithm mapped = vs_primarySigningAlgorithm m"
    "pgvs_additionalSigningAlgorithms mapped = vs_additionalSigningAlgorithms m"
    using assms(1) by (auto simp: mapVirtualServer_def mapBase_def go_bind_Inr_iff)
  show "row_of ((''xmin'', SqlInt (int x)) # zip (ib_columns (VirtualServer_insert mapped)) (ib_values (VirtualServer_insert mapped)) @ [(''require_email_verification'', SqlBool True)]) = VirtualServer_row (VirtualServer_stored x m)"
    unfolding VirtualServer_row_def
    by (intro row_of_cong) (simp_all add: VirtualServer_stored_def SetVersion_def insert_defs mapped insert_commute)
  show "list_all kept (ib_values (VirtualServer_insert mapped))"
    using assms(2) by (simp add: VirtualServer_storable_def insert_defs kept_def mapped)
qed (simp_all add: inserted_base_def base_values_def column_default_def row_of_def)

interpretation pg_virtual_servers: pg_inserts "\<lambda>_. postgresVirtualServer_pointers" postgresVirtualServer_zero postgresVirtualServer_Map
  PgVirtualServer_selectQuery VirtualServer_matches VirtualServer_row "''virtual_servers''" VirtualServer_loaded "\<lambda>_. True"
  PgVirtualServer_ExecuteInsert VirtualServer_stored VirtualServer_storable "\<lambda>i. VirtualServerFilter_Id i NewVirtualServerFilter" vs_base
proof unfold_locales
  fix S :: "'c sql_server" and m e m' :: virtual_server and c c' :: 'c and x i :: nat
  show "bm_id (vs_base (VirtualServer_stored x m)) = bm_id (vs_base m)"
    by (simp add: VirtualServer_stored_def SetVersion_def)
  show "VirtualServer_row e ''id'' = SqlUuid (bm_id (vs_base e))"
    by (simp add: VirtualServer_row_def row_of_def base_row_def)
  show "(\<lambda>_. True) (VirtualServerFilter_Id i NewVirtualServerFilter)"
    by (simp add: VirtualServerFilter_Id_def NewVirtualServerFilter_def PagingInfo_IsZero_def search_plain_def)
  show "VirtualServer_matches (VirtualServerFilter_Id i NewVirtualServerFilter) e = Inr (bm_id (vs_base e) = i)"
    by (simp add: VirtualServer_matches_def VirtualServerFilter_Id_def NewVirtualServerFilter_def)
  assume m: "VirtualServer_storable m"
  show "VirtualServer_loaded (VirtualServer_stored x m)" if "x < 2 ^ 32"
    using m that by (simp add: VirtualServer_loaded_def VirtualServer_stored_def VirtualServer_storable_def base_loaded_def SetVersion_def)
  assume "PgVirtualServer_ExecuteInsert S m c = (Inr m', c')"
  then obtain mapped x' where "mapVirtualServer m = Inr mapped" and ins: "sq_insert S (VirtualServer_insert mapped) c = (Inr x', c')"
    by (auto simp: PgVirtualServer_ExecuteInsert_def tx_lift_def execute_insert_def split: sum.splits prod.splits)
  from VirtualServer_inserted_row [OF this(1) m] ins
  show "\<exists>b x. sq_insert S b c = (Inr x, c') \<and> ib_table b = ''virtual_servers'' \<and>
      (\<forall>r. inserted_row b x r \<longrightarrow> r = VirtualServer_row (VirtualServer_stored x m))" by fastforce
qed

definition Session_storable :: "session \<Rightarrow> bool" where
  "Session_storable m \<longleftrightarrow>
     bm_auditCreatedAt (se_base m) mod 1000 = 0 \<and> bm_auditUpdatedAt (se_base m) mod 1000 = 0 \<and>
     se_expiresAt m mod 1000 = 0 \<and>
     (\<forall>t. se_lastUsedAt m = Some t \<longrightarrow> t mod 1000 = 0)"

definition Session_stored :: "nat \<Rightarrow> session \<Rightarrow> session" where
  "Session_stored x m = m\<lparr>se_base := SetVersion (VersionUint x) (se_base m), se_changes := NewChanges\<rparr>"

abbreviation Session_insert :: "postgresSession \<Rightarrow> insert_builder" where
  "Session_insert mapped \<equiv>
      \<lparr>ib_table = ''sessions'',
       ib_columns = inserted_base @ [''virtual_server_id'', ''user_id'', ''hashed_token'', ''expires_at'', ''last_used_at''],
       ib_values = base_values mapped @
       [SqlUuid (pgse_virtualServerId mapped), SqlUuid (pgse_userId mapped),
       SqlText (pgse_hashedToken mapped), SqlTime (pgse_expiresAt mapped),
       or_null SqlTime (pgse_lastUsedAt mapped)]\<rparr>"

lemma Session_inserted_row:
  assumes "mapSession m = Inr mapped" "Session_storable m" "inserted_row (Session_insert mapped) x r"
  shows "r = Session_row (Session_stored x m)"
proof (rule trans [OF inserted_is [OF assms(3), where extra = "[]"]])
  have mapped: "pb_id mapped = bm_id (se_base m)"
    "pb_auditCreatedAt mapped = bm_auditCreatedAt (se_base m)"
    "pb_auditUpdatedAt mapped = bm_auditUpdatedAt (se_base m)"
    "pgse_virtualServerId mapped = se_virtualServerId m"
    "pgse_userId mapped = se_userId m"
    "pgse_hashedToken mapped = se_hashedToken m"
    "pgse_expiresAt mapped = se_expiresAt m"
    "pgse_lastUsedAt mapped = se_lastUsedAt m"
    using assms(1) by (auto simp: mapSession_def mapBase_def go_bind_Inr_iff)
  show "row_of ((''xmin'', SqlInt (int x)) # zip (ib_columns (Session_insert mapped)) (ib_values (Session_insert mapped)) @ []) = Session_row (Session_stored x m)"
    unfolding Session_row_def
    by (intro row_of_cong) (simp_all add: Session_stored_def SetVersion_def insert_defs mapped insert_commute)
  show "list_all kept (ib_values (Session_insert mapped))"
    using assms(2) by (simp add: Session_storable_def insert_defs kept_def mapped or_null_def split: option.splits)
qed (simp_all add: inserted_base_def base_values_def column_default_def row_of_def)

interpretation pg_sessions: pg_inserts "\<lambda>_. postgresSession_pointers" postgresSession_zero postgresSession_Map
  PgSession_selectQuery Session_matches Session_row "''sessions''" Session_loaded "\<lambda>_. True"
  PgSession_ExecuteInsert Session_stored Session_storable "\<lambda>i. SessionFilter_Id i NewSessionFilter" se_base
proof unfold_locales
  fix S :: "'c sql_server" and m e m' :: session and c c' :: 'c and x i :: nat
  show "bm_id (se_base (Session_stored x m)) = bm_id (se_base m)"
    by (simp add: Session_stored_def SetVersion_def)
  show "Session_row e ''id'' = SqlUuid (bm_id (se_base e))"
    by (simp add: Session_row_def row_of_def base_row_def)
  show "(\<lambda>_. True) (SessionFilter_Id i NewSessionFilter)"
    by (simp add: SessionFilter_Id_def NewSessionFilter_def PagingInfo_IsZero_def search_plain_def)
  show "Session_matches (SessionFilter_Id i NewSessionFilter) e = Inr (bm_id (se_base e) = i)"
    by (simp add: Session_matches_def SessionFilter_Id_def NewSessionFilter_def)
  assume m: "Session_storable m"
  show "Session_loaded (Session_stored x m)" if "x < 2 ^ 32"
    using m that by (simp add: Session_loaded_def Session_stored_def Session_storable_def base_loaded_def SetVersion_def)
  assume "PgSession_ExecuteInsert S m c = (Inr m', c')"
  then obtain mapped x' where "mapSession m = Inr mapped" and ins: "sq_insert S (Session_insert mapped) c = (Inr x', c')"
    by (auto simp: PgSession_ExecuteInsert_def tx_lift_def execute_insert_def split: sum.splits prod.splits)
  from Session_inserted_row [OF this(1) m] ins
  show "\<exists>b x. sq_insert S b c = (Inr x, c') \<and> ib_table b = ''sessions'' \<and>
      (\<forall>r. inserted_row b x r \<longrightarrow> r = Session_row (Session_stored x m))" by fastforce
qed

definition Application_storable :: "application \<Rightarrow> bool" where
  "Application_storable m \<longleftrightarrow>
     bm_auditCreatedAt (app_base m) mod 1000 = 0 \<and> bm_auditUpdatedAt (app_base m) mod 1000 = 0 \<and>
     ApplicationType (application_type_String (app_type m)) = app_type m"

definition Application_stored :: "nat \<Rightarrow> application \<Rightarrow> application" where
  "Application_stored x m = m\<lparr>app_base := SetVersion (VersionUint x) (app_base m), app_changes := NewChanges\<rparr>"

abbreviation Application_insert :: "postgresApplication \<Rightarrow> insert_builder" where
  "Application_insert mapped \<equiv>
      \<lparr>ib_table = ''applications'',
       ib_columns = inserted_base @ [''virtual_server_id'', ''project_id'', ''name'', ''display_name'', ''type'', ''hashed_secret'',
       ''redirect_uris'', ''post_logout_redirect_uris'', ''system_application'', ''claims_mapping_script'',
       ''access_token_header_type'', ''device_flow_enabled'', ''signing_algorithm''],
       ib_values = base_values mapped @
       [SqlUuid (pgapp_virtualServerId mapped), SqlUuid (pgapp_projectId mapped),
       SqlText (pgapp_name mapped), SqlText (pgapp_displayName mapped), SqlText (pgapp_type mapped),
       SqlText (pgapp_hashedSecret mapped), SqlTexts (pgapp_redirectUris mapped),
       SqlTexts (pgapp_postLogoutRedirectUris mapped), SqlBool (pgapp_systemApplication mapped),
       null_text (pgapp_claimsMappingScript mapped), SqlText (pgapp_accessTokenHeaderType mapped),
       SqlBool (pgapp_deviceFlowEnabled mapped), null_text (pgapp_signingAlgorithm mapped)]\<rparr>"

lemma Application_inserted_row:
  assumes "mapApplication m = Inr mapped" "Application_storable m" "inserted_row (Application_insert mapped) x r"
  shows "r = Application_row (Application_stored x m)"
proof (rule trans [OF inserted_is [OF assms(3), where extra = "[]"]])
  have mapped: "pb_id mapped = bm_id (app_base m)"
    "pb_auditCreatedAt mapped = bm_auditCreatedAt (app_base m)"
    "pb_auditUpdatedAt mapped = bm_auditUpdatedAt (app_base m)"
    "pgapp_virtualServerId mapped = app_virtualServerId m"
    "pgapp_projectId mapped = app_projectId m"
    "pgapp_name mapped = app_name m"
    "pgapp_displayName mapped = app_displayName m"
    "pgapp_type mapped = application_type_String (app_type m)"
    "pgapp_hashedSecret mapped = app_hashedSecret m"
    "pgapp_redirectUris mapped = app_redirectUris m"
    "pgapp_postLogoutRedirectUris mapped = app_postLogoutRedirectUris m"
    "pgapp_systemApplication mapped = app_systemApplication m"
    "pgapp_claimsMappingScript mapped = WrapStringPointer [] (app_claimsMappingScript m)"
    "pgapp_accessTokenHeaderType mapped = app_accessTokenHeaderType m"
    "pgapp_deviceFlowEnabled mapped = app_deviceFlowEnabled m"
    "pgapp_signingAlgorithm mapped = WrapStringPointer [] (app_signingAlgorithm m)"
    using assms(1) by (auto simp: mapApplication_def mapBase_def go_bind_Inr_iff)
  show "row_of ((''xmin'', SqlInt (int x)) # zip (ib_columns (Application_insert mapped)) (ib_values (Application_insert mapped)) @ []) = Application_row (Application_stored x m)"
    unfolding Application_row_def
    by (intro row_of_cong) (simp_all add: Application_stored_def SetVersion_def insert_defs mapped insert_commute)
  show "list_all kept (ib_values (Application_insert mapped))"
    using assms(2) by (simp add: Application_storable_def insert_defs kept_def mapped or_null_def split: option.splits)
qed (simp_all add: inserted_base_def base_values_def column_default_def row_of_def)

interpretation pg_applications: pg_inserts "\<lambda>_. postgresApplication_pointers" postgresApplication_zero postgresApplication_Map
  PgApplication_selectQuery Application_matches Application_row "''applications''" Application_loaded Application_plain
  PgApplication_ExecuteInsert Application_stored Application_storable "\<lambda>i. ApplicationFilter_Id i NewApplicationFilter" app_base
proof unfold_locales
  fix S :: "'c sql_server" and m e m' :: application and c c' :: 'c and x i :: nat
  show "bm_id (app_base (Application_stored x m)) = bm_id (app_base m)"
    by (simp add: Application_stored_def SetVersion_def)
  show "Application_row e ''id'' = SqlUuid (bm_id (app_base e))"
    by (simp add: Application_row_def row_of_def base_row_def)
  show "Application_plain (ApplicationFilter_Id i NewApplicationFilter)"
    by (simp add: Application_plain_def ApplicationFilter_Id_def NewApplicationFilter_def PagingInfo_IsZero_def search_plain_def)
  show "Application_matches (ApplicationFilter_Id i NewApplicationFilter) e = Inr (bm_id (app_base e) = i)"
    by (simp add: Application_matches_def ApplicationFilter_Id_def NewApplicationFilter_def)
  assume m: "Application_storable m"
  show "Application_loaded (Application_stored x m)" if "x < 2 ^ 32"
    using m that by (simp add: Application_loaded_def Application_stored_def Application_storable_def base_loaded_def SetVersion_def)
  assume "PgApplication_ExecuteInsert S m c = (Inr m', c')"
  then obtain mapped x' where "mapApplication m = Inr mapped" and ins: "sq_insert S (Application_insert mapped) c = (Inr x', c')"
    by (auto simp: PgApplication_ExecuteInsert_def tx_lift_def execute_insert_def split: sum.splits prod.splits)
  from Application_inserted_row [OF this(1) m] ins
  show "\<exists>b x. sq_insert S b c = (Inr x, c') \<and> ib_table b = ''applications'' \<and>
      (\<forall>r. inserted_row b x r \<longrightarrow> r = Application_row (Application_stored x m))" by fastforce
qed

definition Project_storable :: "project \<Rightarrow> bool" where
  "Project_storable m \<longleftrightarrow>
     bm_auditCreatedAt (p_base m) mod 1000 = 0 \<and> bm_auditUpdatedAt (p_base m) mod 1000 = 0"

definition Project_stored :: "nat \<Rightarrow> project \<Rightarrow> project" where
  "Project_stored x m = m\<lparr>p_base := SetVersion (VersionUint x) (p_base m), p_changes := NewChanges\<rparr>"

abbreviation Project_insert :: "postgresProject \<Rightarrow> insert_builder" where
  "Project_insert mapped \<equiv>
      \<lparr>ib_table = ''projects'',
       ib_columns = inserted_base @ [''virtual_server_id'', ''slug'', ''name'', ''description'', ''system_project''],
       ib_values = base_values mapped @
       [SqlUuid (pgp_virtualServerId mapped), SqlText (pgp_slug mapped), SqlText (pgp_name mapped),
       SqlText (pgp_description mapped), SqlBool (pgp_systemProject mapped)]\<rparr>"

lemma Project_inserted_row:
  assumes "mapProject m = Inr mapped" "Project_storable m" "inserted_row (Project_insert mapped) x r"
  shows "r = Project_row (Project_stored x m)"
proof (rule trans [OF inserted_is [OF assms(3), where extra = "[]"]])
  have mapped: "pb_id mapped = bm_id (p_base m)"
    "pb_auditCreatedAt mapped = bm_auditCreatedAt (p_base m)"
    "pb_auditUpdatedAt mapped = bm_auditUpdatedAt (p_base m)"
    "pgp_virtualServerId mapped = p_virtualServerId m"
    "pgp_slug mapped = p_slug m"
    "pgp_name mapped = p_name m"
    "pgp_description mapped = p_description m"
    "pgp_systemProject mapped = p_systemProject m"
    using assms(1) by (auto simp: mapProject_def mapBase_def go_bind_Inr_iff)
  show "row_of ((''xmin'', SqlInt (int x)) # zip (ib_columns (Project_insert mapped)) (ib_values (Project_insert mapped)) @ []) = Project_row (Project_stored x m)"
    unfolding Project_row_def
    by (intro row_of_cong) (simp_all add: Project_stored_def SetVersion_def insert_defs mapped insert_commute)
  show "list_all kept (ib_values (Project_insert mapped))"
    using assms(2) by (simp add: Project_storable_def insert_defs kept_def mapped)
qed (simp_all add: inserted_base_def base_values_def column_default_def row_of_def)

interpretation pg_projects: pg_inserts "\<lambda>_. postgresProject_pointers" postgresProject_zero postgresProject_Map
  PgProject_selectQuery Project_matches Project_row "''projects''" Project_loaded Project_plain
  PgProject_ExecuteInsert Project_stored Project_storable "\<lambda>i. ProjectFilter_Id i NewProjectFilter" p_base
proof unfold_locales
  fix S :: "'c sql_server" and m e m' :: project and c c' :: 'c and x i :: nat
  show "bm_id (p_base (Project_stored x m)) = bm_id (p_base m)"
    by (simp add: Project_stored_def SetVersion_def)
  show "Project_row e ''id'' = SqlUuid (bm_id (p_base e))"
    by (simp add: Project_row_def row_of_def base_row_def)
  show "Project_plain (ProjectFilter_Id i NewProjectFilter)"
    by (simp add: Project_plain_def ProjectFilter_Id_def NewProjectFilter_def PagingInfo_IsZero_def search_plain_def)
  show "Project_matches (ProjectFilter_Id i NewProjectFilter) e = Inr (bm_id (p_base e) = i)"
    by (simp add: Project_matches_def ProjectFilter_Id_def NewProjectFilter_def)
  assume m: "Project_storable m"
  show "Project_loaded (Project_stored x m)" if "x < 2 ^ 32"
    using m that by (simp add: Project_loaded_def Project_stored_def Project_storable_def base_loaded_def SetVersion_def)
  assume "PgProject_ExecuteInsert S m c = (Inr m', c')"
  then obtain mapped x' where "mapProject m = Inr mapped" and ins: "sq_insert S (Project_insert mapped) c = (Inr x', c')"
    by (auto simp: PgProject_ExecuteInsert_def tx_lift_def execute_insert_def split: sum.splits prod.splits)
  from Project_inserted_row [OF this(1) m] ins
  show "\<exists>b x. sq_insert S b c = (Inr x, c') \<and> ib_table b = ''projects'' \<and>
      (\<forall>r. inserted_row b x r \<longrightarrow> r = Project_row (Project_stored x m))" by fastforce
qed

definition Role_storable :: "role \<Rightarrow> bool" where
  "Role_storable m \<longleftrightarrow>
     bm_auditCreatedAt (ro_base m) mod 1000 = 0 \<and> bm_auditUpdatedAt (ro_base m) mod 1000 = 0"

definition Role_stored :: "nat \<Rightarrow> role \<Rightarrow> role" where
  "Role_stored x m = m\<lparr>ro_base := SetVersion (VersionUint x) (ro_base m), ro_changes := NewChanges\<rparr>"

abbreviation Role_insert :: "postgresRole \<Rightarrow> insert_builder" where
  "Role_insert mapped \<equiv>
      \<lparr>ib_table = ''roles'',
       ib_columns = inserted_base @ [''virtual_server_id'', ''project_id'', ''name'', ''description''],
       ib_values = base_values mapped @
       [SqlUuid (pgro_virtualServerId mapped), SqlUuid (pgro_projectId mapped), SqlText (pgro_name mapped),
       SqlText (pgro_description mapped)]\<rparr>"

lemma Role_inserted_row:
  assumes "mapRole m = Inr mapped" "Role_storable m" "inserted_row (Role_insert mapped) x r"
  shows "r = Role_row (Role_stored x m)"
proof (rule trans [OF inserted_is [OF assms(3), where extra = "[]"]])
  have mapped: "pb_id mapped = bm_id (ro_base m)"
    "pb_auditCreatedAt mapped = bm_auditCreatedAt (ro_base m)"
    "pb_auditUpdatedAt mapped = bm_auditUpdatedAt (ro_base m)"
    "pgro_virtualServerId mapped = ro_virtualServerId m"
    "pgro_projectId mapped = ro_projectId m"
    "pgro_name mapped = ro_name m"
    "pgro_description mapped = ro_description m"
    using assms(1) by (auto simp: mapRole_def mapBase_def go_bind_Inr_iff)
  show "row_of ((''xmin'', SqlInt (int x)) # zip (ib_columns (Role_insert mapped)) (ib_values (Role_insert mapped)) @ []) = Role_row (Role_stored x m)"
    unfolding Role_row_def
    by (intro row_of_cong) (simp_all add: Role_stored_def SetVersion_def insert_defs mapped insert_commute)
  show "list_all kept (ib_values (Role_insert mapped))"
    using assms(2) by (simp add: Role_storable_def insert_defs kept_def mapped)
qed (simp_all add: inserted_base_def base_values_def column_default_def row_of_def)

interpretation pg_roles: pg_inserts "\<lambda>_. postgresRole_pointers" postgresRole_zero postgresRole_Map
  PgRole_selectQuery Role_matches Role_row "''roles''" Role_loaded Role_plain
  PgRole_ExecuteInsert Role_stored Role_storable "\<lambda>i. RoleFilter_Id i NewRoleFilter" ro_base
proof unfold_locales
  fix S :: "'c sql_server" and m e m' :: role and c c' :: 'c and x i :: nat
  show "bm_id (ro_base (Role_stored x m)) = bm_id (ro_base m)"
    by (simp add: Role_stored_def SetVersion_def)
  show "Role_row e ''id'' = SqlUuid (bm_id (ro_base e))"
    by (simp add: Role_row_def row_of_def base_row_def)
  show "Role_plain (RoleFilter_Id i NewRoleFilter)"
    by (simp add: Role_plain_def RoleFilter_Id_def NewRoleFilter_def PagingInfo_IsZero_def search_plain_def)
  show "Role_matches (RoleFilter_Id i NewRoleFilter) e = Inr (bm_id (ro_base e) = i)"
    by (simp add: Role_matches_def RoleFilter_Id_def NewRoleFilter_def)
  assume m: "Role_storable m"
  show "Role_loaded (Role_stored x m)" if "x < 2 ^ 32"
    using m that by (simp add: Role_loaded_def Role_stored_def Role_storable_def base_loaded_def SetVersion_def)
  assume "PgRole_ExecuteInsert S m c = (Inr m', c')"
  then obtain mapped x' where "mapRole m = Inr mapped" and ins: "sq_insert S (Role_insert mapped) c = (Inr x', c')"
    by (auto simp: PgRole_ExecuteInsert_def tx_lift_def execute_insert_def split: sum.splits prod.splits)
  from Role_inserted_row [OF this(1) m] ins
  show "\<exists>b x. sq_insert S b c = (Inr x, c') \<and> ib_table b = ''roles'' \<and>
      (\<forall>r. inserted_row b x r \<longrightarrow> r = Role_row (Role_stored x m))" by fastforce
qed

definition Group_storable :: "group \<Rightarrow> bool" where
  "Group_storable m \<longleftrightarrow>
     bm_auditCreatedAt (gr_base m) mod 1000 = 0 \<and> bm_auditUpdatedAt (gr_base m) mod 1000 = 0"

definition Group_stored :: "nat \<Rightarrow> group \<Rightarrow> group" where
  "Group_stored x m = m\<lparr>gr_base := SetVersion (VersionUint x) (gr_base m), gr_changes := NewChanges\<rparr>"

abbreviation Group_insert :: "postgresGroup \<Rightarrow> insert_builder" where
  "Group_insert mapped \<equiv>
      \<lparr>ib_table = ''groups'',
       ib_columns = inserted_base @ [''virtual_server_id'', ''name'', ''description''],
       ib_values = base_values mapped @
       [SqlUuid (pggr_virtualServerId mapped), SqlText (pggr_name mapped), SqlText (pggr_description mapped)]\<rparr>"

lemma Group_inserted_row:
  assumes "mapGroup m = Inr mapped" "Group_storable m" "inserted_row (Group_insert mapped) x r"
  shows "r = Group_row (Group_stored x m)"
proof (rule trans [OF inserted_is [OF assms(3), where extra = "[]"]])
  have mapped: "pb_id mapped = bm_id (gr_base m)"
    "pb_auditCreatedAt mapped = bm_auditCreatedAt (gr_base m)"
    "pb_auditUpdatedAt mapped = bm_auditUpdatedAt (gr_base m)"
    "pggr_virtualServerId mapped = gr_virtualServerId m"
    "pggr_name mapped = gr_name m"
    "pggr_description mapped = gr_description m"
    using assms(1) by (auto simp: mapGroup_def mapBase_def go_bind_Inr_iff)
  show "row_of ((''xmin'', SqlInt (int x)) # zip (ib_columns (Group_insert mapped)) (ib_values (Group_insert mapped)) @ []) = Group_row (Group_stored x m)"
    unfolding Group_row_def
    by (intro row_of_cong) (simp_all add: Group_stored_def SetVersion_def insert_defs mapped insert_commute)
  show "list_all kept (ib_values (Group_insert mapped))"
    using assms(2) by (simp add: Group_storable_def insert_defs kept_def mapped)
qed (simp_all add: inserted_base_def base_values_def column_default_def row_of_def)

interpretation pg_groups: pg_inserts "\<lambda>_. postgresGroup_pointers" postgresGroup_zero postgresGroup_Map
  PgGroup_selectQuery Group_matches Group_row "''groups''" Group_loaded Group_plain
  PgGroup_ExecuteInsert Group_stored Group_storable "\<lambda>i. GroupFilter_Id i NewGroupFilter" gr_base
proof unfold_locales
  fix S :: "'c sql_server" and m e m' :: group and c c' :: 'c and x i :: nat
  show "bm_id (gr_base (Group_stored x m)) = bm_id (gr_base m)"
    by (simp add: Group_stored_def SetVersion_def)
  show "Group_row e ''id'' = SqlUuid (bm_id (gr_base e))"
    by (simp add: Group_row_def row_of_def base_row_def)
  show "Group_plain (GroupFilter_Id i NewGroupFilter)"
    by (simp add: Group_plain_def GroupFilter_Id_def NewGroupFilter_def PagingInfo_IsZero_def search_plain_def)
  show "Group_matches (GroupFilter_Id i NewGroupFilter) e = Inr (bm_id (gr_base e) = i)"
    by (simp add: Group_matches_def GroupFilter_Id_def NewGroupFilter_def)
  assume m: "Group_storable m"
  show "Group_loaded (Group_stored x m)" if "x < 2 ^ 32"
    using m that by (simp add: Group_loaded_def Group_stored_def Group_storable_def base_loaded_def SetVersion_def)
  assume "PgGroup_ExecuteInsert S m c = (Inr m', c')"
  then obtain mapped x' where "mapGroup m = Inr mapped" and ins: "sq_insert S (Group_insert mapped) c = (Inr x', c')"
    by (auto simp: PgGroup_ExecuteInsert_def tx_lift_def execute_insert_def split: sum.splits prod.splits)
  from Group_inserted_row [OF this(1) m] ins
  show "\<exists>b x. sq_insert S b c = (Inr x, c') \<and> ib_table b = ''groups'' \<and>
      (\<forall>r. inserted_row b x r \<longrightarrow> r = Group_row (Group_stored x m))" by fastforce
qed

definition ResourceServer_storable :: "resource_server \<Rightarrow> bool" where
  "ResourceServer_storable m \<longleftrightarrow>
     bm_auditCreatedAt (rs_base m) mod 1000 = 0 \<and> bm_auditUpdatedAt (rs_base m) mod 1000 = 0"

definition ResourceServer_stored :: "nat \<Rightarrow> resource_server \<Rightarrow> resource_server" where
  "ResourceServer_stored x m = m\<lparr>rs_base := SetVersion (VersionUint x) (rs_base m), rs_changes := NewChanges\<rparr>"

abbreviation ResourceServer_insert :: "postgresResourceServer \<Rightarrow> insert_builder" where
  "ResourceServer_insert mapped \<equiv>
      \<lparr>ib_table = ''resource_servers'',
       ib_columns = inserted_base @ [''virtual_server_id'', ''project_id'', ''slug'', ''name'', ''description''],
       ib_values = base_values mapped @
       [SqlUuid (pgrs_virtualServerId mapped), SqlUuid (pgrs_projectId mapped), SqlText (pgrs_slug mapped),
       SqlText (pgrs_name mapped), SqlText (pgrs_description mapped)]\<rparr>"

lemma ResourceServer_inserted_row:
  assumes "mapResourceServer m = Inr mapped" "ResourceServer_storable m" "inserted_row (ResourceServer_insert mapped) x r"
  shows "r = ResourceServer_row (ResourceServer_stored x m)"
proof (rule trans [OF inserted_is [OF assms(3), where extra = "[]"]])
  have mapped: "pb_id mapped = bm_id (rs_base m)"
    "pb_auditCreatedAt mapped = bm_auditCreatedAt (rs_base m)"
    "pb_auditUpdatedAt mapped = bm_auditUpdatedAt (rs_base m)"
    "pgrs_virtualServerId mapped = rs_virtualServerId m"
    "pgrs_projectId mapped = rs_projectId m"
    "pgrs_slug mapped = rs_slug m"
    "pgrs_name mapped = rs_name m"
    "pgrs_description mapped = rs_description m"
    using assms(1) by (auto simp: mapResourceServer_def mapBase_def go_bind_Inr_iff)
  show "row_of ((''xmin'', SqlInt (int x)) # zip (ib_columns (ResourceServer_insert mapped)) (ib_values (ResourceServer_insert mapped)) @ []) = ResourceServer_row (ResourceServer_stored x m)"
    unfolding ResourceServer_row_def
    by (intro row_of_cong) (simp_all add: ResourceServer_stored_def SetVersion_def insert_defs mapped insert_commute)
  show "list_all kept (ib_values (ResourceServer_insert mapped))"
    using assms(2) by (simp add: ResourceServer_storable_def insert_defs kept_def mapped)
qed (simp_all add: inserted_base_def base_values_def column_default_def row_of_def)

interpretation pg_resource_servers: pg_inserts "\<lambda>_. postgresResourceServer_pointers" postgresResourceServer_zero postgresResourceServer_Map
  PgResourceServer_selectQuery ResourceServer_matches ResourceServer_row "''resource_servers''" ResourceServer_loaded ResourceServer_plain
  PgResourceServer_ExecuteInsert ResourceServer_stored ResourceServer_storable "\<lambda>i. ResourceServerFilter_Id i NewResourceServerFilter" rs_base
proof unfold_locales
  fix S :: "'c sql_server" and m e m' :: resource_server and c c' :: 'c and x i :: nat
  show "bm_id (rs_base (ResourceServer_stored x m)) = bm_id (rs_base m)"
    by (simp add: ResourceServer_stored_def SetVersion_def)
  show "ResourceServer_row e ''id'' = SqlUuid (bm_id (rs_base e))"
    by (simp add: ResourceServer_row_def row_of_def base_row_def)
  show "ResourceServer_plain (ResourceServerFilter_Id i NewResourceServerFilter)"
    by (simp add: ResourceServer_plain_def ResourceServerFilter_Id_def NewResourceServerFilter_def PagingInfo_IsZero_def search_plain_def)
  show "ResourceServer_matches (ResourceServerFilter_Id i NewResourceServerFilter) e = Inr (bm_id (rs_base e) = i)"
    by (simp add: ResourceServer_matches_def ResourceServerFilter_Id_def NewResourceServerFilter_def)
  assume m: "ResourceServer_storable m"
  show "ResourceServer_loaded (ResourceServer_stored x m)" if "x < 2 ^ 32"
    using m that by (simp add: ResourceServer_loaded_def ResourceServer_stored_def ResourceServer_storable_def base_loaded_def SetVersion_def)
  assume "PgResourceServer_ExecuteInsert S m c = (Inr m', c')"
  then obtain mapped x' where "mapResourceServer m = Inr mapped" and ins: "sq_insert S (ResourceServer_insert mapped) c = (Inr x', c')"
    by (auto simp: PgResourceServer_ExecuteInsert_def tx_lift_def execute_insert_def split: sum.splits prod.splits)
  from ResourceServer_inserted_row [OF this(1) m] ins
  show "\<exists>b x. sq_insert S b c = (Inr x, c') \<and> ib_table b = ''resource_servers'' \<and>
      (\<forall>r. inserted_row b x r \<longrightarrow> r = ResourceServer_row (ResourceServer_stored x m))" by fastforce
qed

definition File_storable :: "file_entity \<Rightarrow> bool" where
  "File_storable m \<longleftrightarrow>
     bm_auditCreatedAt (fi_base m) mod 1000 = 0 \<and> bm_auditUpdatedAt (fi_base m) mod 1000 = 0"

definition File_stored :: "nat \<Rightarrow> file_entity \<Rightarrow> file_entity" where
  "File_stored x m = m\<lparr>fi_base := SetVersion (VersionUint x) (fi_base m)\<rparr>"

abbreviation File_insert :: "postgresFile \<Rightarrow> insert_builder" where
  "File_insert mapped \<equiv>
      \<lparr>ib_table = ''files'',
       ib_columns = inserted_base @ [''name'', ''mime_type'', ''content''],
       ib_values = base_values mapped @
       [SqlText (pgfi_name mapped), SqlText (pgfi_mimeType mapped), SqlBytes (pgfi_content mapped)]\<rparr>"

lemma File_inserted_row:
  assumes "mapFile m = Inr mapped" "File_storable m" "inserted_row (File_insert mapped) x r"
  shows "r = File_row (File_stored x m)"
proof (rule trans [OF inserted_is [OF assms(3), where extra = "[]"]])
  have mapped: "pb_id mapped = bm_id (fi_base m)"
    "pb_auditCreatedAt mapped = bm_auditCreatedAt (fi_base m)"
    "pb_auditUpdatedAt mapped = bm_auditUpdatedAt (fi_base m)"
    "pgfi_name mapped = fi_name m"
    "pgfi_mimeType mapped = fi_mimeType m"
    "pgfi_content mapped = fi_content m"
    using assms(1) by (auto simp: mapFile_def mapBase_def go_bind_Inr_iff)
  show "row_of ((''xmin'', SqlInt (int x)) # zip (ib_columns (File_insert mapped)) (ib_values (File_insert mapped)) @ []) = File_row (File_stored x m)"
    unfolding File_row_def
    by (intro row_of_cong) (simp_all add: File_stored_def SetVersion_def insert_defs mapped insert_commute)
  show "list_all kept (ib_values (File_insert mapped))"
    using assms(2) by (simp add: File_storable_def insert_defs kept_def mapped)
qed (simp_all add: inserted_base_def base_values_def column_default_def row_of_def)

interpretation pg_file_entitys: pg_inserts "\<lambda>_. postgresFile_pointers" postgresFile_zero postgresFile_Map
  PgFile_selectQuery File_matches File_row "''files''" File_loaded "\<lambda>_. True"
  PgFile_ExecuteInsert File_stored File_storable "\<lambda>i. FileFilter_Id i NewFileFilter" fi_base
proof unfold_locales
  fix S :: "'c sql_server" and m e m' :: file_entity and c c' :: 'c and x i :: nat
  show "bm_id (fi_base (File_stored x m)) = bm_id (fi_base m)"
    by (simp add: File_stored_def SetVersion_def)
  show "File_row e ''id'' = SqlUuid (bm_id (fi_base e))"
    by (simp add: File_row_def row_of_def base_row_def)
  show "(\<lambda>_. True) (FileFilter_Id i NewFileFilter)"
    by (simp add: FileFilter_Id_def NewFileFilter_def PagingInfo_IsZero_def search_plain_def)
  show "File_matches (FileFilter_Id i NewFileFilter) e = Inr (bm_id (fi_base e) = i)"
    by (simp add: File_matches_def FileFilter_Id_def NewFileFilter_def)
  assume m: "File_storable m"
  show "File_loaded (File_stored x m)" if "x < 2 ^ 32"
    using m that by (simp add: File_loaded_def File_stored_def File_storable_def base_loaded_def SetVersion_def)
  assume "PgFile_ExecuteInsert S m c = (Inr m', c')"
  then obtain mapped x' where "mapFile m = Inr mapped" and ins: "sq_insert S (File_insert mapped) c = (Inr x', c')"
    by (auto simp: PgFile_ExecuteInsert_def tx_lift_def execute_insert_def split: sum.splits prod.splits)
  from File_inserted_row [OF this(1) m] ins
  show "\<exists>b x. sq_insert S b c = (Inr x, c') \<and> ib_table b = ''files'' \<and>
      (\<forall>r. inserted_row b x r \<longrightarrow> r = File_row (File_stored x m))" by fastforce
qed

end
