(* ===== verification/PgWrites.thy ===== *)
theory PgWrites
  imports Postgres
begin

text \<open>
  What the writes of the backend on PostgreSQL do to the tables: an insert adds a row, an update writes the row with
  the identifier and the version of the entity, a delete takes rows away, and none of them is visible before the commit.
\<close>

definition adds_row :: "string \<Rightarrow> uuid \<Rightarrow> tables \<Rightarrow> tables \<Rightarrow> bool" where
  "adds_row t i tb tb' \<longleftrightarrow>
     only_table t tb tb' \<and>
     (\<exists>r. r ''id'' = SqlUuid i \<and> SqlUuid i \<notin> (\<lambda>r. r ''id'') ` set (tb t) \<and> mset (tb' t) = add_mset r (mset (tb t)))"

definition is_row_of :: "base_model \<Rightarrow> row \<Rightarrow> bool" where
  "is_row_of b r \<longleftrightarrow>
     r ''id'' = SqlUuid (bm_id b) \<and>
     r ''xmin'' = SqlInt (case bm_version b of VersionUint n \<Rightarrow> int n | _ \<Rightarrow> 0)"

definition own_row_written :: "string \<Rightarrow> base_model \<Rightarrow> tables \<Rightarrow> tables \<Rightarrow> bool" where
  "own_row_written t b tb tb' \<longleftrightarrow>
     only_table t tb tb' \<and> (\<exists>r \<in> set (tb t). is_row_of b r) \<and>
     list_all2 (\<lambda>r r'. if is_row_of b r then (\<exists>x. r' ''xmin'' = SqlInt x) else r' = r) (tb t) (tb' t)"

definition updates_row :: "bool \<Rightarrow> string \<Rightarrow> base_model \<Rightarrow> tables \<Rightarrow> tables \<Rightarrow> bool" where
  "updates_row changed t b tb tb' \<longleftrightarrow> (if changed then own_row_written t b tb tb' else tb' = tb)"

definition rewrites_row :: "string \<Rightarrow> uuid \<Rightarrow> tables \<Rightarrow> tables \<Rightarrow> bool" where
  "rewrites_row t i tb tb' \<longleftrightarrow>
     only_table t tb tb' \<and> list_all2 (\<lambda>r r'. r ''id'' = SqlUuid i \<or> r' = r) (tb t) (tb' t)"

definition removes_row :: "string \<Rightarrow> uuid \<Rightarrow> tables \<Rightarrow> tables \<Rightarrow> bool" where
  "removes_row t i tb tb' \<longleftrightarrow> tb' = tb(t := filter (\<lambda>r. r ''id'' \<noteq> SqlUuid i) (tb t))"

text \<open>A statement of a transaction: nothing becomes visible, and on success it relates the pending tables.\<close>

definition tx_does ::
  "('c \<Rightarrow> tables) \<Rightarrow> ('c \<Rightarrow> tables) \<Rightarrow> ('e \<Rightarrow> bool) \<Rightarrow> (tables \<Rightarrow> tables \<Rightarrow> bool) \<Rightarrow> ('c, 'e) tx \<Rightarrow> bool" where
  "tx_does visible pending Q E m \<longleftrightarrow>
     (\<forall>c r c'. m c = (r, c') \<longrightarrow> visible c' = visible c \<and> (\<forall>e. r = Inr e \<longrightarrow> Q e \<and> E (pending c) (pending c')))"

lemma tx_doesD:
  assumes "tx_does visible pending Q E m" "m c = (r, c')"
  shows "visible c' = visible c" "r = Inr e \<Longrightarrow> Q e" "r = Inr e \<Longrightarrow> E (pending c) (pending c')"
  using assms by (auto simp: tx_does_def)

lemma tx_does_lift:
  assumes "\<And>x. r = Inr x \<Longrightarrow> tx_does visible pending Q E (f x)"
  shows "tx_does visible pending Q E (tx_lift r f)"
  using assms by (cases r) (auto simp: tx_does_def tx_lift_def)

lemma tx_does_return: "Q e \<Longrightarrow> (\<And>tb. E tb tb) \<Longrightarrow> tx_does visible pending Q E (\<lambda>c. (Inr e, c))"
  by (simp add: tx_does_def)

lemma wrap_InrD: "wrap msg r = Inr x \<Longrightarrow> r = Inr x"
  by simp

definition same_base :: "base_model \<Rightarrow> 'z postgresBaseModel_scheme \<Rightarrow> bool" where
  "same_base b r \<longleftrightarrow> pb_id r = bm_id b \<and> int (pb_xmin r) = (case bm_version b of VersionUint n \<Rightarrow> int n | _ \<Rightarrow> 0)"

lemma tx_does_insert:
  assumes ok: "postgres_ok S visible pending" and b: "same_base b mapped" and q: "\<And>x. Q (w x)"
  shows "tx_does visible pending Q (adds_row t (bm_id b))
     (execute_insert S msg \<lparr>ib_table = t, ib_columns = inserted_base @ cols, ib_values = base_values mapped @ vals\<rparr> w)"
  unfolding tx_does_def
proof (intro allI impI)
  fix c r c'
  let ?b = "\<lparr>ib_table = t, ib_columns = inserted_base @ cols, ib_values = base_values mapped @ vals\<rparr>"
  assume *: "execute_insert S msg ?b w c = (r, c')"
  obtain r1 where r1: "sq_insert S ?b c = (r1, c')"
    using * by (auto simp: execute_insert_def split: prod.splits sum.splits)
  have "adds_row t (bm_id b) (pending c) (pending c')" if "r1 = Inr x" for x
  proof -
    from postgres_inserted [OF ok] r1 that have "insert_ok ?b (pending c) x (pending c')" by blast
    then obtain row where row: "only_table t (pending c) (pending c')" "inserted_row ?b x row"
      "row ''id'' \<notin> (\<lambda>r. r ''id'') ` set (pending c t)" "mset (pending c' t) = add_mset row (mset (pending c t))"
      by (auto simp: insert_ok_def)
    have "row ''id'' = SqlUuid (bm_id b)"
      using row(2) b by (auto simp: inserted_row_def inserted_base_def base_values_def same_base_def kept_def
          dest: spec [of _ "''id''"])
    with row show ?thesis by (auto simp: adds_row_def)
  qed
  with * r1 q postgres_insert [OF ok r1]
  show "visible c' = visible c \<and> (\<forall>e. r = Inr e \<longrightarrow> Q e \<and> adds_row t (bm_id b) (pending c) (pending c'))"
    by (auto simp: execute_insert_def split: sum.splits)
qed

lemma same_row_iff: "same_base b mapped \<Longrightarrow> sat_all (same_row mapped) r \<longleftrightarrow> is_row_of b r"
  by (auto simp: sat_all_def same_row_def same_base_def is_row_of_def column_value_def)

lemma tx_does_update:
  assumes ok: "postgres_ok S visible pending" and b: "same_base b mapped" and q: "\<And>x. Q (w x)"
    and E: "\<And>tb tb'. own_row_written t b tb tb' \<Longrightarrow> E tb tb'"
  shows "tx_does visible pending Q E (execute_update S noRow sets t (same_row mapped) w)"
  unfolding execute_update_def
proof (rule tx_does_lift, unfold tx_does_def, intro allI impI)
  fix sets c r c'
  let ?u = "\<lparr>ub_table = t, ub_where = same_row mapped, ub_set = sets\<rparr>"
  assume *: "(case sq_update S ?u c of
      (Inl e, c) \<Rightarrow> (Inl (Err (Wrap ''scanning row'' e)), c)
    | (Inr None, c) \<Rightarrow> (Inl (Err noRow), c)
    | (Inr (Some xmin), c) \<Rightarrow> (Inr (w xmin), c)) = (r, c')"
  obtain r1 where r1: "sq_update S ?u c = (r1, c')"
    using * by (auto split: prod.splits sum.splits option.splits)
  have "own_row_written t b (pending c) (pending c')" if "r1 = Inr (Some x)" for x
  proof -
    from postgres_updated [OF ok] r1 that have u: "update_ok ?u (pending c) (Some x) (pending c')" by blast
    have row: "is_row_of b r \<longleftrightarrow> sat_all (same_row mapped) r" for r
      using same_row_iff [OF b] by simp
    from u have "list_all2 (\<lambda>r r'. if is_row_of b r then (\<exists>x. r' ''xmin'' = SqlInt x) else r' = r) (pending c t) (pending c' t)"
      unfolding update_ok_def by (auto simp: row updated_row_def elim!: list_all2_mono split: if_splits)
    with u show ?thesis by (auto simp: own_row_written_def update_ok_def row filter_empty_conv)
  qed
  with * r1 q E postgres_update [OF ok r1]
  show "visible c' = visible c \<and> (\<forall>e. r = Inr e \<longrightarrow> Q e \<and> E (pending c) (pending c'))"
    by (auto split: sum.splits option.splits)
qed

lemma tx_does_delete:
  assumes ok: "postgres_ok S visible pending"
  shows "tx_does visible pending (\<lambda>_. True) (removes_row t i) (execute_delete S msg t i)"
  unfolding tx_does_def
proof (intro allI impI)
  fix c r c'
  let ?d = "\<lparr>xb_table = t, xb_where = [Equal ''id'' (SqlUuid i)]\<rparr>"
  assume *: "execute_delete S msg t i c = (r, c')"
  obtain r1 where r1: "sq_delete S ?d c = (r1, c')"
    using * by (auto simp: execute_delete_def split: prod.splits sum.splits)
  have "removes_row t i (pending c) (pending c')" if "r1 = Inr x" for x
    using postgres_deleted [OF ok] r1 that by (fastforce simp: delete_ok_def removes_row_def sat_all_def column_value_def)
  with * r1 postgres_delete [OF ok r1]
  show "visible c' = visible c \<and> (\<forall>e. r = Inr e \<longrightarrow> True \<and> removes_row t i (pending c) (pending c'))"
    by (auto simp: execute_delete_def split: sum.splits)
qed

section \<open>Entities and their tables\<close>

fun table_of :: "entity_type \<Rightarrow> string" where
  "table_of ApplicationEntityType = ''applications''"
| "table_of ApplicationUserMetadataEntityType = ''application_user_metadata''"
| "table_of AuditLogEntityType = ''audit_logs''"
| "table_of CredentialEntityType = ''credentials''"
| "table_of FileEntityType = ''files''"
| "table_of GroupEntityType = ''groups''"
| "table_of OutboxMessageEntityType = ''outbox_messages''"
| "table_of PasswordRuleEntityType = ''password_rules''"
| "table_of ProjectEntityType = ''projects''"
| "table_of ResourceServerEntityType = ''resource_servers''"
| "table_of ResourceServerScopeEntityType = ''resource_server_scopes''"
| "table_of RoleEntityType = ''roles''"
| "table_of SessionEntityType = ''sessions''"
| "table_of TemplateEntityType = ''templates''"
| "table_of UserRoleAssignmentEntityType = ''user_role_assignments''"
| "table_of UserEntityType = ''users''"
| "table_of VirtualServerEntityType = ''virtual_servers''"
| "table_of GroupRoleEntityType = ''group_roles''"
| "table_of (OtherEntityType _) = []"

text \<open>The base of the entity behind a pointer, and whether it has tracked changes.\<close>

fun item_base :: "item \<Rightarrow> base_model" where
  "item_base (ItemApplication e) = app_base e"
| "item_base (ItemApplicationUserMetadata e) = aum_base e"
| "item_base (ItemAuditLog e) = al_base e"
| "item_base (ItemCredential e) = cr_base e"
| "item_base (ItemFile e) = fi_base e"
| "item_base (ItemGroup e) = gr_base e"
| "item_base (ItemOutboxMessage e) = ob_base e"
| "item_base (ItemPasswordRule e) = pr_base e"
| "item_base (ItemProject e) = p_base e"
| "item_base (ItemResourceServer e) = rs_base e"
| "item_base (ItemResourceServerScope e) = rss_base e"
| "item_base (ItemRole e) = ro_base e"
| "item_base (ItemSession e) = se_base e"
| "item_base (ItemTemplate e) = te_base e"
| "item_base (ItemUserRoleAssignment e) = ura_base e"
| "item_base (ItemUser e) = u_base e"
| "item_base (ItemVirtualServer e) = vs_base e"
| "item_base (ItemGroupRole e) = gro_base e"
| "item_base (ItemId i) = NewBaseModel i 0"

fun item_changed :: "item \<Rightarrow> bool" where
  "item_changed (ItemApplication e) = HasChanges (app_changes e)"
| "item_changed (ItemApplicationUserMetadata e) = HasChanges (aum_changes e)"
| "item_changed (ItemCredential e) = HasChanges (cr_changes e)"
| "item_changed (ItemGroup e) = HasChanges (gr_changes e)"
| "item_changed (ItemPasswordRule e) = HasChanges (pr_changes e)"
| "item_changed (ItemProject e) = HasChanges (p_changes e)"
| "item_changed (ItemResourceServer e) = HasChanges (rs_changes e)"
| "item_changed (ItemResourceServerScope e) = HasChanges (rss_changes e)"
| "item_changed (ItemRole e) = HasChanges (ro_changes e)"
| "item_changed (ItemUser e) = HasChanges (u_changes e)"
| "item_changed (ItemVirtualServer e) = HasChanges (vs_changes e)"
| "item_changed _ = False"

lemma bm_id_item_base: "bm_id (item_base it) = item_id it"
  by (cases it) (simp_all add: NewBaseModel_def)

lemma mapped_base:
  "mapApplication m0 = Inr r0 \<Longrightarrow> same_base (app_base m0) r0"
  "mapApplicationUserMetadata m1 = Inr r1 \<Longrightarrow> same_base (aum_base m1) r1"
  "mapAuditLog m2 = Inr r2 \<Longrightarrow> same_base (al_base m2) r2"
  "mapCredential m3 = Inr r3 \<Longrightarrow> same_base (cr_base m3) r3"
  "mapFile m4 = Inr r4 \<Longrightarrow> same_base (fi_base m4) r4"
  "mapGroup m5 = Inr r5 \<Longrightarrow> same_base (gr_base m5) r5"
  "mapOutboxMessage m6 = Inr r6 \<Longrightarrow> same_base (ob_base m6) r6"
  "mapPasswordRule m7 = Inr r7 \<Longrightarrow> same_base (pr_base m7) r7"
  "mapProject m8 = Inr r8 \<Longrightarrow> same_base (p_base m8) r8"
  "mapResourceServer m9 = Inr r9 \<Longrightarrow> same_base (rs_base m9) r9"
  "mapResourceServerScope m10 = Inr r10 \<Longrightarrow> same_base (rss_base m10) r10"
  "mapRole m11 = Inr r11 \<Longrightarrow> same_base (ro_base m11) r11"
  "mapSession m12 = Inr r12 \<Longrightarrow> same_base (se_base m12) r12"
  "mapTemplate m13 = Inr r13 \<Longrightarrow> same_base (te_base m13) r13"
  "mapUserRoleAssignment m14 = Inr r14 \<Longrightarrow> same_base (ura_base m14) r14"
  "mapUser m15 = Inr r15 \<Longrightarrow> same_base (u_base m15) r15"
  "mapVirtualServer m16 = Inr r16 \<Longrightarrow> same_base (vs_base m16) r16"
  by (auto simp: go_bind_Inr_iff same_base_def mapBase_def mapApplication_def mapApplicationUserMetadata_def mapAuditLog_def mapCredential_def mapFile_def mapGroup_def mapOutboxMessage_def mapPasswordRule_def mapProject_def mapResourceServer_def mapResourceServerScope_def mapRole_def mapSession_def mapTemplate_def mapUserRoleAssignment_def mapUser_def mapVirtualServer_def split: version.splits)

section \<open>What the statements of an entity do\<close>

lemma Application_inserted:
  assumes "postgres_ok S visible pending"
  shows "tx_does visible pending (\<lambda>e. bm_id (app_base e) = bm_id (app_base m)) (adds_row ''applications'' (bm_id (app_base m)))
     (PgApplication_ExecuteInsert S m)"
  unfolding PgApplication_ExecuteInsert_def 
  by (rule tx_does_lift, rule tx_does_insert [OF assms mapped_base(1)]) (simp_all add: SetVersion_def)

lemma Application_updated:
  assumes "postgres_ok S visible pending"
  shows "tx_does visible pending (\<lambda>e. bm_id (app_base e) = bm_id (app_base m))
     (updates_row (HasChanges (app_changes m)) ''applications'' (app_base m)) (PgApplication_ExecuteUpdate S m)"
proof (cases "HasChanges (app_changes m)")
  case True
  show ?thesis
    unfolding PgApplication_ExecuteUpdate_def if_not_P [OF iffD2 [OF not_not True]]
    by (rule tx_does_lift, rule tx_does_update [OF assms mapped_base(1)]) (simp_all add: SetVersion_def updates_row_def True)
qed (simp add: PgApplication_ExecuteUpdate_def tx_does_return updates_row_def)

lemma ApplicationUserMetadata_inserted:
  assumes "postgres_ok S visible pending"
  shows "tx_does visible pending (\<lambda>e. bm_id (aum_base e) = bm_id (aum_base m)) (adds_row ''application_user_metadata'' (bm_id (aum_base m)))
     (PgApplicationUserMetadata_ExecuteInsert S m)"
  unfolding PgApplicationUserMetadata_ExecuteInsert_def 
  by (rule tx_does_lift, rule tx_does_insert [OF assms mapped_base(2)]) (simp_all add: SetVersion_def)

lemma ApplicationUserMetadata_updated:
  assumes "postgres_ok S visible pending"
  shows "tx_does visible pending (\<lambda>e. bm_id (aum_base e) = bm_id (aum_base m))
     (updates_row (HasChanges (aum_changes m)) ''application_user_metadata'' (aum_base m)) (PgApplicationUserMetadata_ExecuteUpdate S m)"
proof (cases "HasChanges (aum_changes m)")
  case True
  show ?thesis
    unfolding PgApplicationUserMetadata_ExecuteUpdate_def if_not_P [OF iffD2 [OF not_not True]]
    by (rule tx_does_lift, rule tx_does_update [OF assms mapped_base(2)]) (simp_all add: SetVersion_def updates_row_def True)
qed (simp add: PgApplicationUserMetadata_ExecuteUpdate_def tx_does_return updates_row_def)

lemma AuditLog_inserted:
  assumes "postgres_ok S visible pending"
  shows "tx_does visible pending (\<lambda>e. bm_id (al_base e) = bm_id (al_base m)) (adds_row ''audit_logs'' (bm_id (al_base m)))
     (PgAuditLog_ExecuteInsert S m)"
  unfolding PgAuditLog_ExecuteInsert_def 
  by (rule tx_does_lift, rule tx_does_insert [OF assms mapped_base(3)]) (simp_all add: SetVersion_def)

lemma Credential_inserted:
  assumes "postgres_ok S visible pending"
  shows "tx_does visible pending (\<lambda>e. bm_id (cr_base e) = bm_id (cr_base m)) (adds_row ''credentials'' (bm_id (cr_base m)))
     (PgCredential_ExecuteInsert S m)"
  unfolding PgCredential_ExecuteInsert_def 
  by (rule tx_does_lift, drule wrap_InrD, rule tx_does_insert [OF assms mapped_base(4)]) (simp_all add: SetVersion_def)

lemma Credential_updated:
  assumes "postgres_ok S visible pending"
  shows "tx_does visible pending (\<lambda>e. bm_id (cr_base e) = bm_id (cr_base m))
     (updates_row (HasChanges (cr_changes m)) ''credentials'' (cr_base m)) (PgCredential_ExecuteUpdate S m)"
proof (cases "HasChanges (cr_changes m)")
  case True
  show ?thesis
    unfolding PgCredential_ExecuteUpdate_def if_not_P [OF iffD2 [OF not_not True]]
    by (rule tx_does_lift, drule wrap_InrD, rule tx_does_update [OF assms mapped_base(4)]) (simp_all add: SetVersion_def updates_row_def True)
qed (simp add: PgCredential_ExecuteUpdate_def tx_does_return updates_row_def)

lemma File_inserted:
  assumes "postgres_ok S visible pending"
  shows "tx_does visible pending (\<lambda>e. bm_id (fi_base e) = bm_id (fi_base m)) (adds_row ''files'' (bm_id (fi_base m)))
     (PgFile_ExecuteInsert S m)"
  unfolding PgFile_ExecuteInsert_def 
  by (rule tx_does_lift, rule tx_does_insert [OF assms mapped_base(5)]) (simp_all add: SetVersion_def)

lemma Group_inserted:
  assumes "postgres_ok S visible pending"
  shows "tx_does visible pending (\<lambda>e. bm_id (gr_base e) = bm_id (gr_base m)) (adds_row ''groups'' (bm_id (gr_base m)))
     (PgGroup_ExecuteInsert S m)"
  unfolding PgGroup_ExecuteInsert_def 
  by (rule tx_does_lift, rule tx_does_insert [OF assms mapped_base(6)]) (simp_all add: SetVersion_def)

lemma Group_updated:
  assumes "postgres_ok S visible pending"
  shows "tx_does visible pending (\<lambda>e. bm_id (gr_base e) = bm_id (gr_base m))
     (updates_row (HasChanges (gr_changes m)) ''groups'' (gr_base m)) (PgGroup_ExecuteUpdate S m)"
proof (cases "HasChanges (gr_changes m)")
  case True
  show ?thesis
    unfolding PgGroup_ExecuteUpdate_def if_not_P [OF iffD2 [OF not_not True]]
    by (rule tx_does_lift, rule tx_does_update [OF assms mapped_base(6)]) (simp_all add: SetVersion_def updates_row_def True)
qed (simp add: PgGroup_ExecuteUpdate_def tx_does_return updates_row_def)

lemma OutboxMessage_inserted:
  assumes "postgres_ok S visible pending"
  shows "tx_does visible pending (\<lambda>e. bm_id (ob_base e) = bm_id (ob_base m)) (adds_row ''outbox_messages'' (bm_id (ob_base m)))
     (PgOutboxMessage_ExecuteInsert S m)"
  unfolding PgOutboxMessage_ExecuteInsert_def 
  by (rule tx_does_lift, rule tx_does_insert [OF assms mapped_base(7)]) (simp_all add: SetVersion_def)

lemma PasswordRule_inserted:
  assumes "postgres_ok S visible pending"
  shows "tx_does visible pending (\<lambda>e. bm_id (pr_base e) = bm_id (pr_base m)) (adds_row ''password_rules'' (bm_id (pr_base m)))
     (PgPasswordRule_ExecuteInsert S m)"
  unfolding PgPasswordRule_ExecuteInsert_def 
  by (rule tx_does_lift, rule tx_does_insert [OF assms mapped_base(8)]) (simp_all add: SetVersion_def)

lemma PasswordRule_updated:
  assumes "postgres_ok S visible pending"
  shows "tx_does visible pending (\<lambda>e. bm_id (pr_base e) = bm_id (pr_base m))
     (updates_row (HasChanges (pr_changes m)) ''password_rules'' (pr_base m)) (PgPasswordRule_ExecuteUpdate S m)"
proof (cases "HasChanges (pr_changes m)")
  case True
  show ?thesis
    unfolding PgPasswordRule_ExecuteUpdate_def if_not_P [OF iffD2 [OF not_not True]]
    by (rule tx_does_lift, rule tx_does_update [OF assms mapped_base(8)]) (simp_all add: SetVersion_def updates_row_def True)
qed (simp add: PgPasswordRule_ExecuteUpdate_def tx_does_return updates_row_def)

lemma Project_inserted:
  assumes "postgres_ok S visible pending"
  shows "tx_does visible pending (\<lambda>e. bm_id (p_base e) = bm_id (p_base m)) (adds_row ''projects'' (bm_id (p_base m)))
     (PgProject_ExecuteInsert S m)"
  unfolding PgProject_ExecuteInsert_def 
  by (rule tx_does_lift, rule tx_does_insert [OF assms mapped_base(9)]) (simp_all add: SetVersion_def)

lemma Project_updated:
  assumes "postgres_ok S visible pending"
  shows "tx_does visible pending (\<lambda>e. bm_id (p_base e) = bm_id (p_base m))
     (updates_row (HasChanges (p_changes m)) ''projects'' (p_base m)) (PgProject_ExecuteUpdate S m)"
proof (cases "HasChanges (p_changes m)")
  case True
  show ?thesis
    unfolding PgProject_ExecuteUpdate_def if_not_P [OF iffD2 [OF not_not True]]
    by (rule tx_does_lift, rule tx_does_update [OF assms mapped_base(9)]) (simp_all add: SetVersion_def updates_row_def True)
qed (simp add: PgProject_ExecuteUpdate_def tx_does_return updates_row_def)

lemma ResourceServer_inserted:
  assumes "postgres_ok S visible pending"
  shows "tx_does visible pending (\<lambda>e. bm_id (rs_base e) = bm_id (rs_base m)) (adds_row ''resource_servers'' (bm_id (rs_base m)))
     (PgResourceServer_ExecuteInsert S m)"
  unfolding PgResourceServer_ExecuteInsert_def 
  by (rule tx_does_lift, rule tx_does_insert [OF assms mapped_base(10)]) (simp_all add: SetVersion_def)

lemma ResourceServer_updated:
  assumes "postgres_ok S visible pending"
  shows "tx_does visible pending (\<lambda>e. bm_id (rs_base e) = bm_id (rs_base m))
     (updates_row (HasChanges (rs_changes m)) ''resource_servers'' (rs_base m)) (PgResourceServer_ExecuteUpdate S m)"
proof (cases "HasChanges (rs_changes m)")
  case True
  show ?thesis
    unfolding PgResourceServer_ExecuteUpdate_def if_not_P [OF iffD2 [OF not_not True]]
    by (rule tx_does_lift, rule tx_does_update [OF assms mapped_base(10)]) (simp_all add: SetVersion_def updates_row_def True)
qed (simp add: PgResourceServer_ExecuteUpdate_def tx_does_return updates_row_def)

lemma ResourceServerScope_inserted:
  assumes "postgres_ok S visible pending"
  shows "tx_does visible pending (\<lambda>e. bm_id (rss_base e) = bm_id (rss_base m)) (adds_row ''resource_server_scopes'' (bm_id (rss_base m)))
     (PgResourceServerScope_ExecuteInsert S m)"
  unfolding PgResourceServerScope_ExecuteInsert_def 
  by (rule tx_does_lift, rule tx_does_insert [OF assms mapped_base(11)]) (simp_all add: SetVersion_def)

lemma ResourceServerScope_updated:
  assumes "postgres_ok S visible pending"
  shows "tx_does visible pending (\<lambda>e. bm_id (rss_base e) = bm_id (rss_base m))
     (updates_row (HasChanges (rss_changes m)) ''resource_server_scopes'' (rss_base m)) (PgResourceServerScope_ExecuteUpdate S m)"
proof (cases "HasChanges (rss_changes m)")
  case True
  show ?thesis
    unfolding PgResourceServerScope_ExecuteUpdate_def if_not_P [OF iffD2 [OF not_not True]]
    by (rule tx_does_lift, rule tx_does_update [OF assms mapped_base(11)]) (simp_all add: SetVersion_def updates_row_def True)
qed (simp add: PgResourceServerScope_ExecuteUpdate_def tx_does_return updates_row_def)

lemma Role_inserted:
  assumes "postgres_ok S visible pending"
  shows "tx_does visible pending (\<lambda>e. bm_id (ro_base e) = bm_id (ro_base m)) (adds_row ''roles'' (bm_id (ro_base m)))
     (PgRole_ExecuteInsert S m)"
  unfolding PgRole_ExecuteInsert_def 
  by (rule tx_does_lift, rule tx_does_insert [OF assms mapped_base(12)]) (simp_all add: SetVersion_def)

lemma Role_updated:
  assumes "postgres_ok S visible pending"
  shows "tx_does visible pending (\<lambda>e. bm_id (ro_base e) = bm_id (ro_base m))
     (updates_row (HasChanges (ro_changes m)) ''roles'' (ro_base m)) (PgRole_ExecuteUpdate S m)"
proof (cases "HasChanges (ro_changes m)")
  case True
  show ?thesis
    unfolding PgRole_ExecuteUpdate_def if_not_P [OF iffD2 [OF not_not True]]
    by (rule tx_does_lift, rule tx_does_update [OF assms mapped_base(12)]) (simp_all add: SetVersion_def updates_row_def True)
qed (simp add: PgRole_ExecuteUpdate_def tx_does_return updates_row_def)

lemma Session_inserted:
  assumes "postgres_ok S visible pending"
  shows "tx_does visible pending (\<lambda>e. bm_id (se_base e) = bm_id (se_base m)) (adds_row ''sessions'' (bm_id (se_base m)))
     (PgSession_ExecuteInsert S m)"
  unfolding PgSession_ExecuteInsert_def 
  by (rule tx_does_lift, rule tx_does_insert [OF assms mapped_base(13)]) (simp_all add: SetVersion_def)

lemma Template_inserted:
  assumes "postgres_ok S visible pending"
  shows "tx_does visible pending (\<lambda>e. bm_id (te_base e) = bm_id (te_base m)) (adds_row ''templates'' (bm_id (te_base m)))
     (PgTemplate_ExecuteInsert S m)"
  unfolding PgTemplate_ExecuteInsert_def 
  by (rule tx_does_lift, rule tx_does_insert [OF assms mapped_base(14)]) (simp_all add: SetVersion_def)

lemma UserRoleAssignment_inserted:
  assumes "postgres_ok S visible pending"
  shows "tx_does visible pending (\<lambda>e. bm_id (ura_base e) = bm_id (ura_base m)) (adds_row ''user_role_assignments'' (bm_id (ura_base m)))
     (PgUserRoleAssignment_ExecuteInsert S m)"
  unfolding PgUserRoleAssignment_ExecuteInsert_def 
  by (rule tx_does_lift, rule tx_does_insert [OF assms mapped_base(15)]) (simp_all add: SetVersion_def)

lemma User_inserted:
  assumes "postgres_ok S visible pending"
  shows "tx_does visible pending (\<lambda>e. bm_id (u_base e) = bm_id (u_base m)) (adds_row ''users'' (bm_id (u_base m)))
     (PgUser_ExecuteInsert S m)"
  unfolding PgUser_ExecuteInsert_def Let_def 
  by (cases "u_virtualServerId m = uuid_Nil"; rule tx_does_lift; simp only: append_assoc simp_thms if_True if_False; rule tx_does_insert [OF assms mapped_base(16)])
    (simp_all add: SetVersion_def)

lemma User_updated:
  assumes "postgres_ok S visible pending"
  shows "tx_does visible pending (\<lambda>e. bm_id (u_base e) = bm_id (u_base m))
     (updates_row (HasChanges (u_changes m)) ''users'' (u_base m)) (PgUser_ExecuteUpdate S m)"
proof (cases "HasChanges (u_changes m)")
  case True
  show ?thesis
    unfolding PgUser_ExecuteUpdate_def if_not_P [OF iffD2 [OF not_not True]]
    by (rule tx_does_lift, rule tx_does_update [OF assms mapped_base(16)]) (simp_all add: SetVersion_def updates_row_def True)
qed (simp add: PgUser_ExecuteUpdate_def tx_does_return updates_row_def)

lemma VirtualServer_inserted:
  assumes "postgres_ok S visible pending"
  shows "tx_does visible pending (\<lambda>e. bm_id (vs_base e) = bm_id (vs_base m)) (adds_row ''virtual_servers'' (bm_id (vs_base m)))
     (PgVirtualServer_ExecuteInsert S m)"
  unfolding PgVirtualServer_ExecuteInsert_def 
  by (rule tx_does_lift, rule tx_does_insert [OF assms mapped_base(17)]) (simp_all add: SetVersion_def)

lemma VirtualServer_updated:
  assumes "postgres_ok S visible pending"
  shows "tx_does visible pending (\<lambda>e. bm_id (vs_base e) = bm_id (vs_base m))
     (updates_row (HasChanges (vs_changes m)) ''virtual_servers'' (vs_base m)) (PgVirtualServer_ExecuteUpdate S m)"
proof (cases "HasChanges (vs_changes m)")
  case True
  show ?thesis
    unfolding PgVirtualServer_ExecuteUpdate_def if_not_P [OF iffD2 [OF not_not True]]
    by (rule tx_does_lift, rule tx_does_update [OF assms mapped_base(17)]) (simp_all add: SetVersion_def updates_row_def True)
qed (simp add: PgVirtualServer_ExecuteUpdate_def tx_does_return updates_row_def)

end
