(* ===== verification/PgChanges.thy ===== *)
theory PgChanges
  imports PgWrites
begin

text \<open>
  What each entry of a tracker does to the tables when \<^verbatim>\<open>SaveChanges\<close> applies it, whatever its entity type, and that
  pointers keep referring to the same entity.
\<close>

section \<open>The changes of a tracker\<close>

definition ids :: "heap \<Rightarrow> nat \<Rightarrow> uuid option" where
  "ids h p = map_option item_id (h p)"

text \<open>What an entry does to the tables: the entity is the one its pointer refers to when it is written.\<close>

definition entry_does :: "pg_entry \<Rightarrow> heap \<Rightarrow> tables \<Rightarrow> tables \<Rightarrow> bool" where
  "entry_does ch h tb tb' =
     (let t = table_of (pe_itemType ch) in
      case pe_changeType ch of
        Added \<Rightarrow> (\<exists>p it. pe_item ch = Pointer p \<and> h p = Some it \<and> adds_row t (item_id it) tb tb')
      | Updated \<Rightarrow>
          (\<exists>p it. pe_item ch = Pointer p \<and> h p = Some it \<and> updates_row (item_changed it) t (item_base it) tb tb')
      | Deleted \<Rightarrow> (\<exists>i. pe_item ch = Identifier i \<and> removes_row t i tb tb')
      | OtherChangeType _ \<Rightarrow> False)"

definition change_does :: "('c \<Rightarrow> tables) \<Rightarrow> ('c \<Rightarrow> tables) \<Rightarrow> pg_entry \<Rightarrow> 'c apply_change \<Rightarrow> bool" where
  "change_does visible pending ch m \<longleftrightarrow>
     (\<forall>h c r h' c'. m h c = (r, h', c') \<longrightarrow>
        visible c' = visible c \<and> ids h' = ids h \<and> ((\<exists>e. r = Inl e) \<longrightarrow> h' = h) \<and>
        (\<forall>u. r = Inr u \<longrightarrow> entry_does ch h (pending c) (pending c')))"

lemma change_pointer:
  assumes "\<And>e. tx_does visible pending (\<lambda>e'. bm_id (item_base (mk e')) = bm_id (item_base (mk e))) (E e) (exec e)"
    and "\<And>it e. asT it = Some e \<Longrightarrow> it = mk e"
    and "\<And>p e h tb tb'. pe_item ch = Pointer p \<Longrightarrow> h p = Some (mk e) \<Longrightarrow> E e tb tb' \<Longrightarrow> entry_does ch h tb tb'"
  shows "change_does visible pending ch (at_pointer asT mk exec (pe_item ch))"
  unfolding change_does_def
proof (intro allI impI)
  fix h c r h' c'
  assume m: "at_pointer asT mk exec (pe_item ch) h c = (r, h', c')"
  show "visible c' = visible c \<and> ids h' = ids h \<and> ((\<exists>e. r = Inl e) \<longrightarrow> h' = h) \<and>
    (\<forall>u. r = Inr u \<longrightarrow> entry_does ch h (pending c) (pending c'))"
  proof (cases "\<exists>p it e. pe_item ch = Pointer p \<and> h p = Some it \<and> asT it = Some e")
    case True
    then obtain p e where p: "pe_item ch = Pointer p" "h p = Some (mk e)" "asT (mk e) = Some e"
      using assms(2) by blast
    obtain r1 c1 where x: "exec e c = (r1, c1)" by (cases "exec e c")
    note does = tx_doesD [OF assms(1) x]
    show ?thesis
    proof (cases r1)
      case Inl
      thus ?thesis using m p x does(1) by (auto simp: at_pointer_def)
    next
      case (Inr e')
      hence "bm_id (item_base (mk e')) = bm_id (item_base (mk e))" "E e (pending c) (pending c1)"
        using does by blast+
      thus ?thesis using m p x does(1) Inr assms(3) [where h = h]
        by (auto simp: at_pointer_def ids_def bm_id_item_base)
    qed
  next
    case False
    hence "at_pointer asT mk exec (pe_item ch) h c = (Inl (Panic ''interface conversion''), h, c)"
      by (auto simp: at_pointer_def Option.bind_eq_Some_conv split: pg_item.splits option.splits)
    thus ?thesis using m by auto
  qed
qed

lemma change_added:
  assumes "pe_changeType ch = Added"
    and "\<And>e. tx_does visible pending (\<lambda>e'. bm_id (item_base (mk e')) = bm_id (item_base (mk e)))
      (adds_row (table_of (pe_itemType ch)) (bm_id (item_base (mk e)))) (exec e)"
    and "\<And>it e. asT it = Some e \<Longrightarrow> it = mk e"
  shows "change_does visible pending ch (at_pointer asT mk exec (pe_item ch))"
  by (rule change_pointer [OF assms(2,3)]) (auto simp: entry_does_def assms(1) bm_id_item_base)

lemma change_updated:
  assumes "pe_changeType ch = Updated"
    and "\<And>e. tx_does visible pending (\<lambda>e'. bm_id (item_base (mk e')) = bm_id (item_base (mk e)))
      (updates_row (item_changed (mk e)) (table_of (pe_itemType ch)) (item_base (mk e))) (exec e)"
    and "\<And>it e. asT it = Some e \<Longrightarrow> it = mk e"
  shows "change_does visible pending ch (at_pointer asT mk exec (pe_item ch))"
  by (rule change_pointer [OF assms(2,3)]) (auto simp: entry_does_def assms(1))

lemma change_deleted:
  assumes "pe_changeType ch = Deleted"
    and "\<And>i. tx_does visible pending (\<lambda>_. True) (removes_row (table_of (pe_itemType ch)) i) (exec i)"
  shows "change_does visible pending ch (at_identifier exec (pe_item ch))"
  unfolding change_does_def
  using tx_doesD [OF assms(2)] by (fastforce simp: at_identifier_def entry_does_def assms(1) split: pg_item.splits prod.splits)

lemma change_unsupported: "change_does visible pending ch not_supported"
  by (auto simp: change_does_def not_supported_def)

lemma Application_change:
  "postgres_ok S visible pending \<Longrightarrow> pe_itemType ch = ApplicationEntityType \<Longrightarrow>
   change_does visible pending ch (Pg_applyApplicationChange S ch)"
  unfolding Pg_applyApplicationChange_def
  by (cases "pe_changeType ch"; simp only: change_type.case;
      (rule change_unsupported | rule change_added, assumption | rule change_updated, assumption | rule change_deleted, assumption))
    (auto simp: as_item_defs Application_inserted Application_updated PgApplication_ExecuteDelete_def tx_does_delete split: item.splits)

lemma ApplicationUserMetadata_change:
  "postgres_ok S visible pending \<Longrightarrow> pe_itemType ch = ApplicationUserMetadataEntityType \<Longrightarrow>
   change_does visible pending ch (Pg_applyApplicationUserMetadataChange S ch)"
  unfolding Pg_applyApplicationUserMetadataChange_def
  by (cases "pe_changeType ch"; simp only: change_type.case;
      (rule change_unsupported | rule change_added, assumption | rule change_updated, assumption | rule change_deleted, assumption))
    (auto simp: as_item_defs ApplicationUserMetadata_inserted ApplicationUserMetadata_updated split: item.splits)

lemma AuditLog_change:
  "postgres_ok S visible pending \<Longrightarrow> pe_itemType ch = AuditLogEntityType \<Longrightarrow>
   change_does visible pending ch (Pg_applyAuditLogChange S ch)"
  unfolding Pg_applyAuditLogChange_def
  by (cases "pe_changeType ch"; simp only: change_type.case;
      (rule change_unsupported | rule change_added, assumption | rule change_updated, assumption | rule change_deleted, assumption))
    (auto simp: as_item_defs AuditLog_inserted split: item.splits)

lemma Credential_change:
  "postgres_ok S visible pending \<Longrightarrow> pe_itemType ch = CredentialEntityType \<Longrightarrow>
   change_does visible pending ch (Pg_applyCredentialChange S ch)"
  unfolding Pg_applyCredentialChange_def
  by (cases "pe_changeType ch"; simp only: change_type.case;
      (rule change_unsupported | rule change_added, assumption | rule change_updated, assumption | rule change_deleted, assumption))
    (auto simp: as_item_defs Credential_inserted Credential_updated PgCredential_ExecuteDelete_def tx_does_delete split: item.splits)

lemma File_change:
  "postgres_ok S visible pending \<Longrightarrow> pe_itemType ch = FileEntityType \<Longrightarrow>
   change_does visible pending ch (Pg_applyFileChange S ch)"
  unfolding Pg_applyFileChange_def
  by (cases "pe_changeType ch"; simp only: change_type.case;
      (rule change_unsupported | rule change_added, assumption | rule change_updated, assumption | rule change_deleted, assumption))
    (auto simp: as_item_defs File_inserted split: item.splits)

lemma Group_change:
  "postgres_ok S visible pending \<Longrightarrow> pe_itemType ch = GroupEntityType \<Longrightarrow>
   change_does visible pending ch (Pg_applyGroupChange S ch)"
  unfolding Pg_applyGroupChange_def
  by (cases "pe_changeType ch"; simp only: change_type.case;
      (rule change_unsupported | rule change_added, assumption | rule change_updated, assumption | rule change_deleted, assumption))
    (auto simp: as_item_defs Group_inserted Group_updated PgGroup_ExecuteDelete_def tx_does_delete split: item.splits)

lemma OutboxMessage_change:
  "postgres_ok S visible pending \<Longrightarrow> pe_itemType ch = OutboxMessageEntityType \<Longrightarrow>
   change_does visible pending ch (Pg_applyOutboxMessageChange S ch)"
  unfolding Pg_applyOutboxMessageChange_def
  by (cases "pe_changeType ch"; simp only: change_type.case;
      (rule change_unsupported | rule change_added, assumption | rule change_updated, assumption | rule change_deleted, assumption))
    (auto simp: as_item_defs OutboxMessage_inserted PgOutboxMessage_ExecuteDelete_def tx_does_delete split: item.splits)

lemma PasswordRule_change:
  "postgres_ok S visible pending \<Longrightarrow> pe_itemType ch = PasswordRuleEntityType \<Longrightarrow>
   change_does visible pending ch (Pg_applyPasswordRuleChange S ch)"
  unfolding Pg_applyPasswordRuleChange_def
  by (cases "pe_changeType ch"; simp only: change_type.case;
      (rule change_unsupported | rule change_added, assumption | rule change_updated, assumption | rule change_deleted, assumption))
    (auto simp: as_item_defs PasswordRule_inserted PasswordRule_updated PgPasswordRule_ExecuteDelete_def tx_does_delete split: item.splits)

lemma Project_change:
  "postgres_ok S visible pending \<Longrightarrow> pe_itemType ch = ProjectEntityType \<Longrightarrow>
   change_does visible pending ch (Pg_applyProjectChange S ch)"
  unfolding Pg_applyProjectChange_def
  by (cases "pe_changeType ch"; simp only: change_type.case;
      (rule change_unsupported | rule change_added, assumption | rule change_updated, assumption | rule change_deleted, assumption))
    (auto simp: as_item_defs Project_inserted Project_updated PgProject_ExecuteDelete_def tx_does_delete split: item.splits)

lemma ResourceServer_change:
  "postgres_ok S visible pending \<Longrightarrow> pe_itemType ch = ResourceServerEntityType \<Longrightarrow>
   change_does visible pending ch (Pg_applyResourceServerChange S ch)"
  unfolding Pg_applyResourceServerChange_def
  by (cases "pe_changeType ch"; simp only: change_type.case;
      (rule change_unsupported | rule change_added, assumption | rule change_updated, assumption | rule change_deleted, assumption))
    (auto simp: as_item_defs ResourceServer_inserted ResourceServer_updated PgResourceServer_ExecuteDelete_def tx_does_delete split: item.splits)

lemma ResourceServerScope_change:
  "postgres_ok S visible pending \<Longrightarrow> pe_itemType ch = ResourceServerScopeEntityType \<Longrightarrow>
   change_does visible pending ch (Pg_applyResourceServerScopeChange S ch)"
  unfolding Pg_applyResourceServerScopeChange_def
  by (cases "pe_changeType ch"; simp only: change_type.case;
      (rule change_unsupported | rule change_added, assumption | rule change_updated, assumption | rule change_deleted, assumption))
    (auto simp: as_item_defs ResourceServerScope_inserted ResourceServerScope_updated PgResourceServerScope_ExecuteDelete_def tx_does_delete split: item.splits)

lemma Role_change:
  "postgres_ok S visible pending \<Longrightarrow> pe_itemType ch = RoleEntityType \<Longrightarrow>
   change_does visible pending ch (Pg_applyRoleChange S ch)"
  unfolding Pg_applyRoleChange_def
  by (cases "pe_changeType ch"; simp only: change_type.case;
      (rule change_unsupported | rule change_added, assumption | rule change_updated, assumption | rule change_deleted, assumption))
    (auto simp: as_item_defs Role_inserted Role_updated PgRole_ExecuteDelete_def tx_does_delete split: item.splits)

lemma Session_change:
  "postgres_ok S visible pending \<Longrightarrow> pe_itemType ch = SessionEntityType \<Longrightarrow>
   change_does visible pending ch (Pg_applySessionChange S ch)"
  unfolding Pg_applySessionChange_def
  by (cases "pe_changeType ch"; simp only: change_type.case;
      (rule change_unsupported | rule change_added, assumption | rule change_updated, assumption | rule change_deleted, assumption))
    (auto simp: as_item_defs Session_inserted PgSession_ExecuteDelete_def tx_does_delete split: item.splits)

lemma Template_change:
  "postgres_ok S visible pending \<Longrightarrow> pe_itemType ch = TemplateEntityType \<Longrightarrow>
   change_does visible pending ch (Pg_applyTemplateChange S ch)"
  unfolding Pg_applyTemplateChange_def
  by (cases "pe_changeType ch"; simp only: change_type.case;
      (rule change_unsupported | rule change_added, assumption | rule change_updated, assumption | rule change_deleted, assumption))
    (auto simp: as_item_defs Template_inserted split: item.splits)

lemma UserRoleAssignment_change:
  "postgres_ok S visible pending \<Longrightarrow> pe_itemType ch = UserRoleAssignmentEntityType \<Longrightarrow>
   change_does visible pending ch (Pg_applyUserRoleAssignmentChange S ch)"
  unfolding Pg_applyUserRoleAssignmentChange_def
  by (cases "pe_changeType ch"; simp only: change_type.case;
      (rule change_unsupported | rule change_added, assumption | rule change_updated, assumption | rule change_deleted, assumption))
    (auto simp: as_item_defs UserRoleAssignment_inserted split: item.splits)

lemma User_change:
  "postgres_ok S visible pending \<Longrightarrow> pe_itemType ch = UserEntityType \<Longrightarrow>
   change_does visible pending ch (Pg_applyUserChange S ch)"
  unfolding Pg_applyUserChange_def
  by (cases "pe_changeType ch"; simp only: change_type.case;
      (rule change_unsupported | rule change_added, assumption | rule change_updated, assumption | rule change_deleted, assumption))
    (auto simp: as_item_defs User_inserted User_updated split: item.splits)

lemma VirtualServer_change:
  "postgres_ok S visible pending \<Longrightarrow> pe_itemType ch = VirtualServerEntityType \<Longrightarrow>
   change_does visible pending ch (Pg_applyVirtualServerChange S ch)"
  unfolding Pg_applyVirtualServerChange_def
  by (cases "pe_changeType ch"; simp only: change_type.case;
      (rule change_unsupported | rule change_added, assumption | rule change_updated, assumption | rule change_deleted, assumption))
    (auto simp: as_item_defs VirtualServer_inserted VirtualServer_updated split: item.splits)

lemma Pg_applyChange_does:
  assumes "postgres_ok S visible pending"
  shows "change_does visible pending ch (Pg_applyChange S ch)"
proof (cases "pe_itemType ch")
  case GroupRoleEntityType
  thus ?thesis by (simp add: Pg_applyChange_def Pg_applyGroupRoleChange_def change_unsupported)
next
  case OtherEntityType
  thus ?thesis by (auto simp: Pg_applyChange_def change_does_def)
qed (simp_all add: Pg_applyChange_def Application_change [OF assms] ApplicationUserMetadata_change [OF assms] AuditLog_change [OF assms] Credential_change [OF assms] File_change [OF assms] Group_change [OF assms] OutboxMessage_change [OF assms] PasswordRule_change [OF assms] Project_change [OF assms] ResourceServer_change [OF assms] ResourceServerScope_change [OF assms] Role_change [OF assms] Session_change [OF assms] Template_change [OF assms] UserRoleAssignment_change [OF assms] User_change [OF assms] VirtualServer_change [OF assms])

end
