(* ===== verification/PgSpec.thy ===== *)
theory PgSpec
  imports PgStored PgChanges
begin

text \<open>
  What the backend on PostgreSQL guarantees, for every server that does what PostgreSQL documents (\<open>postgres_ok\<close>):
  both backends read alike, an entity that was saved is read back, saving is all or nothing, an outdated entity
  overwrites nothing, and of the values of a request only the column to order by becomes part of a statement.
\<close>

section \<open>Both backends read alike\<close>

text \<open>The tables hold the entities of the stores.\<close>

definition stores_in_tables :: "stores \<Rightarrow> tables \<Rightarrow> bool" where
  "stores_in_tables st tb \<longleftrightarrow>
     table_holds Application_row Application_loaded (map snd (st_Applications st)) (tb ''applications'') \<and>
     table_holds User_row User_loaded (map snd (st_Users st)) (tb ''users'') \<and>
     table_holds Credential_row Credential_loaded (map snd (st_Credentials st)) (tb ''credentials'') \<and>
     table_holds Session_row Session_loaded (map snd (st_Sessions st)) (tb ''sessions'') \<and>
     table_holds Project_row Project_loaded (map snd (st_Projects st)) (tb ''projects'') \<and>
     table_holds Role_row Role_loaded (map snd (st_Roles st)) (tb ''roles'') \<and>
     table_holds Group_row Group_loaded (map snd (st_Groups st)) (tb ''groups'') \<and>
     table_holds ResourceServer_row ResourceServer_loaded (map snd (st_ResourceServers st)) (tb ''resource_servers'') \<and>
     table_holds Template_row Template_loaded (map snd (st_Templates st)) (tb ''templates'') \<and>
     table_holds File_row File_loaded (map snd (st_Files st)) (tb ''files'') \<and>
     table_holds ApplicationUserMetadata_row ApplicationUserMetadata_loaded (map snd (st_ApplicationUserMetadata st)) (tb ''application_user_metadata'') \<and>
     table_holds VirtualServer_row VirtualServer_loaded (map snd (st_VirtualServers st)) (tb ''virtual_servers'') \<and>
     table_holds OutboxMessage_row OutboxMessage_loaded (map snd (st_OutboxMessages st)) (tb ''outbox_messages'') \<and>
     table_holds AuditLog_row AuditLog_loaded (map snd (st_AuditLogs st)) (tb ''audit_logs'')"

lemma uncached_find:
  "fst (PgVirtualServer_FirstOrNil S f c []) =
   query_first S postgresVirtualServer_pointers postgresVirtualServer_zero postgresVirtualServer_Map (PgVirtualServer_selectQuery f) c"
  by (simp add: PgVirtualServer_FirstOrNil_def TryGet_def split: sum.splits option.splits)

text \<open>A table with one user.\<close>

definition pg_user :: user where
  "pg_user = NewUserFromDB (NewBaseModelFromDB 7 0 0 (VersionUint 3)) 5 ''ann'' ''Ann'' ''a@x'' True False (Doc (JObj []))"

definition pg_stores :: stores where
  "pg_stores = newStores\<lparr>st_Users := [(7, pg_user)]\<rparr>"

definition pg_state :: reference_state where
  "pg_state = \<lparr>rf_visible = (\<lambda>t. if t = ''users'' then [User_row pg_user] else []), rf_pending = (\<lambda>t. []), rf_xid = 3\<rparr>"

lemma pg_sample:
  "stores_in_tables pg_stores (rf_visible pg_state)" "st_Users pg_stores = [(7, pg_user)]"
  by (simp_all add: stores_in_tables_def pg_stores_def newStores_def pg_state_def table_holds_def User_loaded_def base_loaded_def
      pg_user_def NewUserFromDB_def NewBaseModelFromDB_def)

lemmas pg_first =
    pg_applications.first_filtered pg_users.first_filtered pg_credentials.first_filtered pg_sessions.first_found
    pg_projects.first_filtered pg_roles.first_filtered pg_groups.first_filtered pg_templates.first_filtered
    pg_file_entitys.first_found pg_application_user_metadatas.first_filtered pg_virtual_servers.first_filtered



lemmas pg_pages =
    pg_users.counted_page pg_applications.counted_page pg_projects.counted_page pg_roles.counted_page
    pg_groups.counted_page pg_resource_servers.counted_page pg_templates.counted_page pg_audit_logs.counted_page
    pg_listed_credentials.all_filtered pg_outbox_messages.all_filtered



section \<open>What was saved is read back\<close>

text \<open>
  An entity is inserted in a transaction whose tables hold the entities \<open>es\<close>, the transaction is committed, and the
  repository looks the entity up by its identifier.
\<close>

definition reads_back ::
  "'c sql_server \<Rightarrow> ('c \<Rightarrow> tables) \<Rightarrow> string \<Rightarrow> ('e \<Rightarrow> row) \<Rightarrow> ('e \<Rightarrow> bool) \<Rightarrow> ('e \<Rightarrow> bool) \<Rightarrow>
   ('e \<Rightarrow> ('c, 'e) tx) \<Rightarrow> ('e \<Rightarrow> 'c \<Rightarrow> 'e option go) \<Rightarrow> (nat \<Rightarrow> 'e \<Rightarrow> 'e) \<Rightarrow> bool" where
  "reads_back S pending table toRow loaded storable execute look kept_as \<longleftrightarrow>
     (\<forall>m m' c c1 c2 es found.
        storable m \<longrightarrow> table_holds toRow loaded es (pending c table) \<longrightarrow> execute m c = (Inr m', c1) \<longrightarrow>
        sq_commit S c1 = (Inr (), c2) \<longrightarrow> look m c2 = Inr found \<longrightarrow> (\<exists>x < 2 ^ 32. found = Some (kept_as x m)))"

lemmas pg_read_back =
    pg_sessions.read_back pg_applications.read_back pg_projects.read_back pg_roles.read_back pg_groups.read_back
    pg_file_entitys.read_back pg_virtual_servers.read_back


definition pg_role :: role where
  "pg_role = NewRoleFromDB (NewBaseModel 9 5000) 5 6 ''editor'' ''Edits''"

definition no_rows :: reference_state where
  "no_rows = \<lparr>rf_visible = (\<lambda>t. []), rf_pending = (\<lambda>t. []), rf_xid = 3\<rparr>"


section \<open>Saving\<close>

text \<open>
  What saving promises: the entries take effect in order, each on the one row of its table; \<open>is p\<close> is the identifier of the
  entity behind the pointer \<open>p\<close>.
\<close>

definition entry_written :: "(nat \<Rightarrow> uuid option) \<Rightarrow> pg_entry \<Rightarrow> tables \<Rightarrow> tables \<Rightarrow> bool" where
  "entry_written is ch tb tb' =
     (let t = table_of (pe_itemType ch) in
      case (pe_changeType ch, pe_item ch) of
        (Added, Pointer p) \<Rightarrow> (\<exists>i. is p = Some i \<and> adds_row t i tb tb')
      | (Updated, Pointer p) \<Rightarrow> (\<exists>i. is p = Some i \<and> rewrites_row t i tb tb')
      | (Deleted, Identifier i) \<Rightarrow> removes_row t i tb tb'
      | _ \<Rightarrow> False)"

fun saved_by :: "(nat \<Rightarrow> uuid option) \<Rightarrow> pg_entry list \<Rightarrow> tables \<Rightarrow> tables \<Rightarrow> bool" where
  "saved_by is [] tb tb' = (tb' = tb)"
| "saved_by is (ch # chs) tb tb' = (\<exists>tb1. entry_written is ch tb tb1 \<and> saved_by is chs tb1 tb')"

lemma rewrites_row_updated: "updates_row changed t b tb tb' \<Longrightarrow> rewrites_row t (bm_id b) tb tb'"
  by (auto simp: updates_row_def own_row_written_def rewrites_row_def only_table_def is_row_of_def list.rel_refl
      elim!: list_all2_mono split: if_splits)

lemma entry_written_does: "entry_does ch h tb tb' \<Longrightarrow> entry_written (ids h) ch tb tb'"
  by (cases "pe_changeType ch")
    (auto simp: entry_does_def entry_written_def ids_def bm_id_item_base dest: rewrites_row_updated)

lemma change_doesD:
  assumes "change_does visible pending ch m" "m h c = (r, h', c')"
  shows "visible c' = visible c" "ids h' = ids h" "r = Inl e \<Longrightarrow> h' = h"
    "r = Inr u \<Longrightarrow> entry_does ch h (pending c) (pending c')"
  using assms by (auto simp: change_does_def)

lemma applied_changes:
  assumes ok: "postgres_ok S visible pending"
  shows "Pg_applyChanges S chs h c = (r, h', c') \<Longrightarrow>
    visible c' = visible c \<and> (\<forall>u. r = Inr u \<longrightarrow> saved_by (ids h) chs (pending c) (pending c'))"
proof (induction chs arbitrary: h c)
  case (Cons ch chs)
  obtain r1 h1 c1 where one: "Pg_applyChange S ch h c = (r1, h1, c1)" by (cases "Pg_applyChange S ch h c")
  note does = change_doesD(1,2) [OF Pg_applyChange_does [OF ok] one]
    entry_written_does [OF change_doesD(4) [OF Pg_applyChange_does [OF ok] one]]
  show ?case
  proof (cases r1)
    case (Inr u)
    hence "Pg_applyChanges S chs h1 c1 = (r, h', c')" using Cons.prems one by simp
    from Cons.IH [OF this] does Inr show ?thesis by auto
  qed (use Cons.prems one does in auto)
qed auto


definition pg_file :: file_entity where
  "pg_file = NewFileFromDB (NewBaseModel 4 5000) ''logo'' ''image/png'' []"

definition pg_saving :: pg_context where
  "pg_saving = Pg_newContext\<lparr>pgc_tracker := PgSession_Delete 5 (PgFile_Insert 0 [])\<rparr>"


text \<open>
  C31: An update never overwrites what another request saved: it succeeds only when its table still has the row of the
  entity with the version it was loaded with, and writes no other row. Otherwise the entity stays as it is and
  nothing becomes visible.
\<close>

theorem no_lost_updates:
  assumes "postgres_ok S visible pending" "Pg_applyChange S ch h c = (r, h', c')"
    and "pe_changeType ch = Updated" "pe_item ch = Pointer p" "h p = Some it" "item_changed it"
  shows "case r of
      Inr _ \<Rightarrow> own_row_written (table_of (pe_itemType ch)) (item_base it) (pending c) (pending c')
    | Inl _ \<Rightarrow> h' = h \<and> visible c' = visible c"
  using change_doesD [OF Pg_applyChange_does [OF assms(1)] assms(2)] assms(3-)
  by (auto simp: entry_does_def updates_row_def split: sum.splits)

definition renamed :: user where
  "renamed = User_SetDisplayName ''Anna'' pg_user"

theorem no_lost_updates_witness:
  "\<exists>h' c'. Pg_applyChange reference (PgEntry Updated UserEntityType (Pointer 0)) [0 \<mapsto> ItemUser renamed]
       (pg_state\<lparr>rf_pending := rf_visible pg_state\<rparr>) = (Inr (), h', c') \<and>
     own_row_written ''users'' (u_base renamed) (rf_visible pg_state) (rf_pending c')"
proof -
  have "\<exists>h' c'. Pg_applyChange reference (PgEntry Updated UserEntityType (Pointer 0)) [0 \<mapsto> ItemUser renamed]
       (pg_state\<lparr>rf_pending := rf_visible pg_state\<rparr>) = (Inr (), h', c')"
    by (simp add: Pg_applyChange_def Pg_applyUserChange_def at_pointer_def as_User_def PgUser_ExecuteUpdate_def renamed_def
        User_SetDisplayName_def pg_user_def NewUserFromDB_def NewBaseModelFromDB_def tx_lift_def mapUser_def mapBase_def
        execute_update_def User_assignment_def reference_def pg_state_def Let_def TrackChange_def HasChanges_def GetChanges_def
        NewChanges_def sat_all_def same_row_def User_row_def table_defs)
  then obtain h' c' where run: "Pg_applyChange reference (PgEntry Updated UserEntityType (Pointer 0)) [0 \<mapsto> ItemUser renamed]
       (pg_state\<lparr>rf_pending := rf_visible pg_state\<rparr>) = (Inr (), h', c')" by blast
  have "item_changed (ItemUser renamed)"
    by (simp add: renamed_def User_SetDisplayName_def TrackChange_def HasChanges_def pg_user_def NewUserFromDB_def NewChanges_def)
  with no_lost_updates [OF reference_ok run, of 0 "ItemUser renamed"] run show ?thesis by auto
qed

section \<open>Password rules and scopes\<close>

lemma search_in_columns: "search_in columns f s = Inr s' \<Longrightarrow> sb_columns s' = sb_columns s"
  by (auto simp: search_in_def Where_def go_bind_Inr_iff split: option.splits)

lemma paginate_columns [simp]: "sb_columns (paginate i s) = sb_columns s"
  by (simp add: paginate_def PagingInfo_Apply_def Limit_def Offset_def)

lemma never_scanned:
  assumes "postgres_ok S visible pending" "\<And>s. q = Inr s \<Longrightarrow> length (sb_columns s) \<noteq> length dests"
  shows "query_first S dests zero toEntity q c \<noteq> Inr (Some m)"
proof
  assume *: "query_first S dests zero toEntity q c = Inr (Some m)"
  then obtain s where s: "q = Inr s" by (auto simp: query_first_def go_bind_Inr_iff)
  show False
  proof (cases "sq_query S (Limit 1 s) c")
    case (Inr rows)
    with * s obtain row rest where "rows = row # rest" "length row = length dests"
      by (cases rows) (auto simp: query_first_def go_bind_Inr_iff Row_Scan_def split: if_splits)
    with postgres_query [OF assms(1) Inr] assms(2) [OF s] show False by (auto simp: query_ok_def)
  qed (use * s in \<open>simp add: query_first_def\<close>)
qed



section \<open>The texts of the statements\<close>

fun cond_texts :: "sql_cond \<Rightarrow> string list" where
  "cond_texts (Equal e v) = [e]"
| "cond_texts (AnyEqual e vs) = [e]"
| "cond_texts (InValues e vs) = [e]"
| "cond_texts (ILike e p) = [e]"
| "cond_texts (OrElse cs) = concat (map cond_texts cs)"

text \<open>Everything of a query that is text and no argument, except the column to order by.\<close>

definition statement_texts :: "select_builder \<Rightarrow> string list" where
  "statement_texts s =
     sb_from s # sb_columns s @ concat (map (\<lambda>(table, on). [table, on]) (sb_joins s)) @ concat (map cond_texts (sb_where s))"

definition known_texts :: "string list" where
  "known_texts =
     [''id'', ''audit_created_at'', ''audit_updated_at'', ''xmin'', ''name'', ''display_name'',
      ''enable_registration'', ''require_2fa'', ''require_email_verification'', ''primary_signing_algorithm'',
      ''additional_signing_algorithms'', ''virtual_servers'', ''username'', ''service_user'',
      ''virtual_server_id'', ''metadata'', ''primary_email'', ''email_verified'', ''users'', ''type'',
      ''user_id'', ''credentials'', ''hashed_token'', ''expires_at'', ''last_used_at'', ''sessions'',
      ''project_id'', ''hashed_secret'', ''redirect_uris'', ''post_logout_redirect_uris'',
      ''system_application'', ''claims_mapping_script'', ''access_token_header_type'', ''device_flow_enabled'',
      ''signing_algorithm'', ''applications'', ''slug'', ''description'', ''system_project'', ''projects'',
      ''roles'', ''groups'', ''resource_servers'', ''resource_server_id'', ''scope'',
      ''resource_server_scopes'', ''password_rules'', ''file_id'', ''templates'', ''mime_type'', ''content'',
      ''files'', ''application_id'', ''application_user_metadata'', ''outbox_messages'', ''request_type'',
      ''request'', ''response'', ''allowed'', ''allow_reason_type'', ''allow_reason'', ''audit_logs'',
      ''r.name'', ''(select slug from projects where id = r.project_id) as project_slug'', ''roles as r'',
      ''r.id = ura.role_id'', ''u.username'', ''u.display_name'', ''users as u'', ''u.id = ura.user_id'',
      ''ura.group_id'', ''ura.role_id'', ''ura.user_id'', ''ura.id'', ''ura.audit_created_at'',
      ''ura.audit_updated_at'', ''ura.xmin'', ''user_role_assignments as ura'', ''details'',
      member_column ''details'' ''kid'', member_column ''details'' ''publicKey'',
      member_column ''details'' ''credentialId'']"

lemma known_members: "ts = known_texts \<Longrightarrow> list_all (\<lambda>t. t \<in> set known_texts) ts"
  by (simp add: list_all_iff)

lemmas known = known_members [OF known_texts_def [symmetric], unfolded list.pred_inject]

definition order_text :: "order_info \<Rightarrow> (string \<times> bool) option" where
  "order_text i = (if oi_orderBy i = [] \<or> oi_orderDir i = [] then None else Some (oi_orderBy i, oi_orderDir i = ''asc''))"

definition known_parts :: "select_builder \<Rightarrow> bool" where
  "known_parts s \<longleftrightarrow> set (statement_texts s) \<subseteq> set known_texts"

definition well_built :: "select_builder go \<Rightarrow> (string \<times> bool) option \<Rightarrow> bool" where
  "well_built q ord \<longleftrightarrow> (\<forall>s. q = Inr s \<longrightarrow> known_parts s \<and> sb_order s = ord)"

definition assigns_known :: "('ch \<Rightarrow> (string \<times> sql_value) option) \<Rightarrow> bool" where
  "assigns_known assign \<longleftrightarrow> (\<forall>field column v. assign field = Some (column, v) \<longrightarrow> column \<in> set known_texts)"

lemma known_parts_simps [simp]:
  "known_parts (when_set v f s) \<longleftrightarrow> known_parts s \<and> (\<forall>x. v = Some x \<longrightarrow> set (cond_texts (f x)) \<subseteq> set known_texts)"
  "known_parts (Select_From columns t) \<longleftrightarrow> set columns \<subseteq> set known_texts \<and> t \<in> set known_texts"
  "known_parts (SelectMore columns s) \<longleftrightarrow> known_parts s \<and> set columns \<subseteq> set known_texts"
  "known_parts (Join_table t on s) \<longleftrightarrow> known_parts s \<and> t \<in> set known_texts \<and> on \<in> set known_texts"
  "known_parts (Where x s) \<longleftrightarrow> known_parts s \<and> set (cond_texts x) \<subseteq> set known_texts"
  "known_parts (order_by i s) \<longleftrightarrow> known_parts s" "known_parts (paginate pg s) \<longleftrightarrow> known_parts s"
  by (auto simp: known_parts_def statement_texts_def builder_defs split: option.splits)

lemma order_simps [simp]:
  "sb_order (when_set v f s) = sb_order s" "sb_order (Select_From columns t) = None" "sb_order (SelectMore columns s) = sb_order s"
  "sb_order (Join_table t on s) = sb_order s" "sb_order (paginate pg s) = sb_order s"
  "sb_order s = None \<Longrightarrow> sb_order (order_by i s) = order_text i"
  by (auto simp: builder_defs OrderInfo_IsZero_def order_text_def split: option.splits)

lemma search_in_known:
  assumes "search_in columns f s = Inr s'"
  shows "sb_order s' = sb_order s" "known_parts s' \<longleftrightarrow> known_parts s \<and> (f \<noteq> None \<longrightarrow> set columns \<subseteq> set known_texts)"
proof -
  have texts: "set (cond_texts (OrElse (map (\<lambda>c. ILike c t) columns))) = set columns" for t
    by (induction columns) auto
  show "sb_order s' = sb_order s" using assms by (auto simp: search_in_def Where_def go_bind_Inr_iff split: option.splits)
  show "known_parts s' \<longleftrightarrow> known_parts s \<and> (f \<noteq> None \<longrightarrow> set columns \<subseteq> set known_texts)"
    using assms texts by (auto simp: search_in_def go_bind_Inr_iff simp del: cond_texts.simps split: option.splits)
qed

lemma well_built_searched:
  assumes "\<And>s'. search_in columns f s = Inr s' \<Longrightarrow> known_parts (g s') \<and> sb_order (g s') = ord"
  shows "well_built (go_bind (search_in columns f s) (\<lambda>s. Inr (g s))) ord"
  using assms by (auto simp: well_built_def go_bind_Inr_iff)

lemmas select_queries =
    PgVirtualServer_selectQuery_def PgApplication_selectQuery_def PgUser_selectQuery_def
    PgCredential_selectQuery_def PgSession_selectQuery_def PgProject_selectQuery_def PgRole_selectQuery_def
    PgGroup_selectQuery_def PgResourceServer_selectQuery_def PgResourceServerScope_selectQuery_def
    PgPasswordRule_selectQuery_def PgTemplate_selectQuery_def PgFile_selectQuery_def
    PgApplicationUserMetadata_selectQuery_def PgOutboxMessage_selectQuery_def PgAuditLog_selectQuery_def
    PgUserRoleAssignment_selectQuery_def

lemmas assignments =
    VirtualServer_assignment_def User_assignment_def Credential_assignment_def Application_assignment_def
    Project_assignment_def Role_assignment_def Group_assignment_def ResourceServer_assignment_def
    ResourceServerScope_assignment_def PasswordRule_assignment_def ApplicationUserMetadata_assignment_def


end
