(* ===== verification/Spec2Isabelle.thy ===== *)
theory Spec2Isabelle
  imports DbSpec KeyVault SessionSpec AuthzSpec LoginTrace OidcSamples SystemRoles QuerySpec MailProps JobRunner Boot ApiSpec PgSpec
begin

text \<open>
  Keyline is an identity provider: it serves OpenID Connect to applications, a login to users, and a
  resource API to administrators, for several tenants, called virtual servers. This development models the
  program in definitions that follow the Go code and keep its names, and proves what the parts guarantee.

  How the program works. A request enters \<^verbatim>\<open>internal/server\<close>, passes the middlewares of its route
  (\<^verbatim>\<open>internal/middlewares\<close>, \<^verbatim>\<open>internal/authentication\<close>: the virtual server of the path, the bearer
  token or the session cookie) and reaches a handler (\<^verbatim>\<open>internal/handlers\<close>). A handler of the login and of
  OpenID Connect works on the database, the key-value store and the keys itself; a handler of the resource API sends a
  command or a query to the mediator (\<^verbatim>\<open>internal/setup/mediator.go\<close>), which runs the policy, the audit
  trail and the saving around the handler in \<^verbatim>\<open>internal/commands\<close> or \<^verbatim>\<open>internal/queries\<close>. Repositories collect
  changes in a tracker, and \<^verbatim>\<open>SaveChanges\<close> writes them. Jobs (\<^verbatim>\<open>internal/jobs\<close>) rotate keys and send
  the mails that events queued in the outbox.

  The model. A handler is a function from the state \<^verbatim>\<open>world\<close> to a result and a new state (theory World):
  the stores of the database with the tracker of the request, the key-value store, the key store with its cache, the
  clock, the counter of random draws, and the events of the response in the order they are written. An error that the
  code returns and a panic are different results, and neither undoes what was done before. What the program calls but
  does not contain (argon2, signatures, JSON web tokens, URL parsing, the router, the mail server, the script engine, the
  file system, the vault) is a field of the record \<^verbatim>\<open>env\<close> or an argument; every theorem holds for every choice, and names what it needs.

  The theories, in the order of the layers:
  \<^item> Prelude, Go_Strings, Go_Encoding, Go_Url, Sha256: errors and results, the standard library as far as it is used,
    with round trips of the encodings. Utils: \<^verbatim>\<open>utils\<close>. Environment: the parameters.
  \<^item> Entities, Repositories, MemoryDb: \<^verbatim>\<open>internal/repositories\<close>, its \<^verbatim>\<open>memory\<close> backend,
    \<^verbatim>\<open>internal/change\<close>, \<^verbatim>\<open>internal/database/memory\<close>. DbSpec: the eighteen stores refine one map from
    entity types and identifiers to entities.
  \<^item> Sql, PgUsers, PgProjects, PgRecords, PgContext: the backend on PostgreSQL, \<^verbatim>\<open>internal/repositories/postgres\<close> and
    \<^verbatim>\<open>internal/database/postgres/context.go\<close>, with statements as data and the server as a parameter.
  \<^item> Postgres, PgTable, PgReads, PgStored, PgWrites, PgChanges, PgSpec: what PostgreSQL documents of these statements
    (\<^verbatim>\<open>postgres_ok\<close>, which a reference connection meets); the locales \<^verbatim>\<open>pg_table\<close> and \<^verbatim>\<open>pg_inserts\<close> with an
    interpretation for each table; both backends read alike, saving is atomic, and no update is lost.
  \<^item> KeyValue, Tokens, Json_Types: \<^verbatim>\<open>internal/services/keyValue\<close>, \<^verbatim>\<open>tokens.go\<close>,
    \<^verbatim>\<open>internal/jsonTypes\<close>; the locale \<^verbatim>\<open>kv_store\<close> is what their clients rely on.
  \<^item> Keys, KeySpec: signing keys, the store in memory, the cache and the rotation; the locale \<^verbatim>\<open>key_store_laws\<close> is
    the contract of a key store, under which rotation is proved once.
  \<^item> Go_Paths, KeyFiles, KeyDirectory, KeyVault: paths; keys as text; the store in a directory, which meets the contract on
    every file system of the locale \<^verbatim>\<open>files_laws\<close>, and the store in a vault, which does not.
  \<^item> World, Sessions, SessionSpec, Authz, AuthzSpec, Frames: the state of a request; sessions; bearer tokens, policies and
    behaviours; rules for computations that keep a part of the state.
  \<^item> Login, LoginSpec, LoginTrace: the login, one transition per request, and its properties over all histories.
  \<^item> OidcTokens, OidcGrants, Oidc; OidcSpec, OidcProps, DeviceProps, AuthorizeProps, ExchangeProps, OidcSamples: every
    endpoint of \<^verbatim>\<open>internal/handlers/oidc.go\<close> and \<^verbatim>\<open>internal/services/claimsMapping\<close>, their properties and
    concrete runs.
  \<^item> Password, PasswordSpec: \<^verbatim>\<open>internal/password\<close> and what its validator accepts.
  \<^item> Commands, CommandsApps, CommandsUsers, CommandsServers, Mediator, MediatorSpec, SystemRoles: all commands, their
    dispatch, who may run them, and the invariant of the system projects.
  \<^item> Queries, MediatorQueries, QuerySpec: all queries and their confinement to a virtual server.
  \<^item> JobRunner, Outbox, MailProps: the job manager as a transition system of goroutines, the outbox, and a mail from
    its event to the verified address.
  \<^item> Config, Boot: the checks of \<^verbatim>\<open>config/config.go\<close> and the start in \<^verbatim>\<open>cmd/api/main.go\<close>.
  \<^item> Api, ApiUsers, ApiProjects, ApiServers, ApiSpec: the handlers of the resource API, the DTOs of \<^verbatim>\<open>api\<close>, the
    routes, and what the API guarantees as a whole.

  What the properties show. Nobody gets a session without proving an identity, nor tokens without a code, a
  refresh token, a device code or a key that was issued to them; every bearer token was verified; a command needs its
  permission, and the routes are closed to callers without a token; queries do not cross tenants; the database refines a map and its
  saving fails in one definite way; keys are rotated in time; jobs do not overlap; configuration and first start
  lead to a working server. Several properties state a weakness of the code as it is, such as sessions that come back
  to life, codes that can be redeemed twice at a time, or a challenge that is never compared.

  Bounds. Loops of the code are structural recursions over lists. The one loop that retries, \<^verbatim>\<open>FiveTimes\<close>, counts
  down from five. The computation of SHA-256 and of the encodings recurses on the input. No definition needs fuel.
  The 64-bit \<^verbatim>\<open>int\<close> is written out where it can overflow (pagination, numbers in queries); times are integers.

  Assumptions of the model. Go's random order of a map is the order of an association list, and every theorem holds
  for all of them. The repositories in memory hand out pointers to stored entities; a command that changes an entity
  therefore changes the store at once, which is modelled, while the tracker keeps the entity as it is when it is
  handed over. The mediator returns a nil response with an error, as its source documents. A nil slice and an empty
  one are told apart only where the code does so. Requests are atomic but for the ones that properties interleave
  (codes, session lookups, job runs, outbox runs).

  Not modelled: the connection to PostgreSQL and its migrations (\<^verbatim>\<open>internal/database/postgres/database.go\<close>);
  the Redis store and the Raft library, which call a client library; logging, metrics, cross-origin headers and the debug
  routes; reading flags, files and environment variables; the client library, generated documentation and mocks.
\<close>

end
